(* ===== verification/Prelude.thy ===== *)
theory Prelude
  imports Main "HOL-Library.Word"
begin

text \<open>
  Shared vocabulary of the LIBXSMM development: the machine integer types of the C sources
  (\<open>unsigned char\<close>, \<open>unsigned short\<close>, \<open>unsigned int\<close>, \<open>unsigned long long\<close>), the
  little-endian loads that C pointer casts perform on a byte buffer, and the generic lemmas on
  words, lists and iterated functions that the component theories use. The collections
  \<open>wbits\<close> (bitwise rewriting of words) and \<open>le_load\<close> (loads from bytes) are extended by
  the components.
\<close>

unbundle bit_operations_syntax

named_theorems wbits \<open>rewriting a word to its bits\<close>
named_theorems le_load \<open>little-endian loads from a byte buffer\<close>

section \<open>Machine integers\<close>

type_synonym u8 = "8 word"
type_synonym u16 = "16 word"
type_synonym u32 = "32 word"
type_synonym u64 = "64 word"

lemma word_eq_bitI:
  fixes a b :: "'a::len word"
  assumes "\<And>i. i < LENGTH('a) \<Longrightarrow> bit a i = bit b i"
  shows "a = b"
  by (rule bit_word_eqI) (use assms in simp)

lemmas [wbits] = bit_simps bit_and_iff bit_or_iff bit_xor_iff

lemma bit_0xFF [simp]: "bit (0xFF :: 'a::len word) i \<longleftrightarrow> i < 8 \<and> i < LENGTH('a)"
proof -
  have ff: "(0xFF :: 'a word) = mask 8"
    by (simp add: mask_eq_exp_minus_1)
  show ?thesis
    unfolding ff by (auto simp: bit_mask_iff)
qed

lemma bit_0xFF_int [simp]: "bit (0xFF :: int) i \<longleftrightarrow> i < 8"
proof -
  have ff: "(0xFF :: int) = mask 8"
    by (simp add: mask_eq_exp_minus_1)
  show ?thesis
    unfolding ff by (simp add: bit_mask_iff)
qed

lemma and_0xFF: "w AND 0xFF = take_bit 8 (w :: 'a::len word)"
  by (rule word_eq_bitI) (auto simp: bit_simps)

lemma ucast_u64_u32 [simp]: "ucast (ucast (x :: u32) :: u64) = x"
  by (rule word_eq_bitI) (simp add: bit_simps)

lemma word_xor_zero [simp]: "a XOR b = 0 \<longleftrightarrow> a = (b :: 'a::len word)"
proof
  assume "a XOR b = 0"
  then have "a XOR (b XOR b) = b"
    by (simp only: xor.assoc [symmetric]) simp
  then show "a = b"
    by simp
qed simp

lemma take_xor_push: "w = take_bit n w XOR push_bit n (drop_bit n (w :: 'a::len word))"
proof (rule word_eq_bitI)
  fix i
  assume "i < LENGTH('a)"
  then show "bit w i = bit (take_bit n w XOR push_bit n (drop_bit n w)) i"
    by (cases "i < n") (auto simp: bit_simps)
qed

lemma bit_u8D: "bit (b :: u8) k \<Longrightarrow> k < 8"
  using bit_imp_le_length [of b k] by simp

lemma bit_u16D: "bit (b :: u16) k \<Longrightarrow> k < 16"
  using bit_imp_le_length [of b k] by simp

lemma bit_u32D: "bit (b :: u32) k \<Longrightarrow> k < 32"
  using bit_imp_le_length [of b k] by simp

lemma bit_u8_high: "8 \<le> k \<Longrightarrow> \<not> bit (b :: u8) k"
  using bit_imp_le_length [of b k] by auto

lemma less16_cases: "i < 16 \<Longrightarrow> i \<in> {0, 1, 2, 3, 4, 5, 6, 7, 8, 9, 10, 11, 12, 13, 14, 15 :: nat}"
  by (simp; arith)

lemma and_mask8_lt: "unat (w AND 0xFF :: u32) < 256"
proof -
  have "unat (w AND 0xFF) \<le> unat (0xFF :: u32)"
    by (rule word_and_le1 [THEN word_le_nat_alt [THEN iffD1]])
  then show ?thesis by simp
qed

text \<open>
  A mask of \<open>k\<close> ones at position \<open>n\<close> selects a bit field. A field is compared with a constant and
  read as a number through these lemmas.
\<close>

lemma and_field:
  "x AND push_bit n (mask k) = push_bit n (take_bit k (drop_bit n (x :: 'a::len word)))"
  by (rule word_eq_bitI) (auto simp: bit_simps)

lemma unat_drop_bit: "unat (drop_bit n (x :: 'a::len word)) = unat x div 2 ^ n"
  unfolding unat_drop_bit_eq by (rule drop_bit_eq_div)

lemma unat_take_bit: "unat (take_bit n (x :: 'a::len word)) = unat x mod 2 ^ n"
  unfolding unsigned_take_bit_eq by (rule take_bit_eq_mod)

lemma unat_ucast_mod: "unat (ucast (x :: 'a::len word) :: 'b::len word) = unat x mod 2 ^ LENGTH('b)"
  unfolding unsigned_ucast_eq by (rule take_bit_eq_mod)

lemma unat_less_width: "unat (x :: 'a::len word) < 2 ^ LENGTH('a)"
  by (rule unsigned_less)

lemma unat_field: "unat (take_bit k (drop_bit n (x :: 'a::len word))) = unat x div 2 ^ n mod 2 ^ k"
  by (simp add: unat_take_bit unat_drop_bit)

lemma unat_add_small:
  "unat a + unat b < 2 ^ LENGTH('a) \<Longrightarrow> unat (a + b :: 'a::len word) = unat a + unat b"
  by (simp add: unat_word_ariths)

lemma unat_mult_small:
  "unat a * unat b < 2 ^ LENGTH('a) \<Longrightarrow> unat (a * b :: 'a::len word) = unat a * unat b"
  by (simp add: unat_word_ariths)

lemma unat_push_bit_small:
  "unat x * 2 ^ n < 2 ^ LENGTH('a) \<Longrightarrow> unat (push_bit n (x :: 'a::len word)) = unat x * 2 ^ n"
  unfolding unsigned_push_bit_eq by (simp add: push_bit_eq_mult take_bit_eq_mod)

lemma unat_and_field:
  assumes "n + k \<le> LENGTH('a)"
  shows "unat (x AND push_bit n (mask k) :: 'a::len word) = unat x div 2 ^ n mod 2 ^ k * 2 ^ n"
proof -
  have "unat x div 2 ^ n mod 2 ^ k * 2 ^ n < 2 ^ k * 2 ^ n"
    by simp
  also have "\<dots> \<le> 2 ^ LENGTH('a)"
    using assms by (simp add: add.commute flip: power_add)
  finally show ?thesis
    by (simp add: and_field unat_push_bit_small unat_field)
qed

lemma less32_cases:
  assumes "r < 32"
  shows "r \<in> {0,1,2,3,4,5,6,7,8,9,10,11,12,13,14,15,16,17,18,19,20,21,22,23,24,25,26,27,28,29,30,31 :: nat}"
  using assms by (simp; arith)

lemma take_bit_small: "unat x < 2 ^ n \<Longrightarrow> take_bit n x = (x :: 'a::len word)"
  by (simp add: word_unat_eq_iff unat_take_bit)

lemma bit_smallD: "unat (x :: 'a::len word) < 2 ^ k \<Longrightarrow> bit x i \<Longrightarrow> i < k"
  by (metis bit_take_bit_iff take_bit_small)

lemma bit_smallN: "unat (x :: 'a::len word) < 2 ^ k \<Longrightarrow> k \<le> i \<Longrightarrow> bit x i \<longleftrightarrow> False"
  by (metis bit_smallD not_less)

lemma unat_of_nat_u32: "n < 2 ^ k \<Longrightarrow> k \<le> 32 \<Longrightarrow> unat (of_nat n :: u32) = n"
proof -
  assume "n < 2 ^ k" "k \<le> 32"
  then have "n < 2 ^ 32"
    by (meson less_le_trans one_le_numeral power_increasing)
  then show "unat (of_nat n :: u32) = n"
    by (simp add: unat_of_nat take_bit_eq_mod)
qed

lemma bit_0xFFFF: "bit (0xffff :: 'a::len word) i \<longleftrightarrow> i < 16 \<and> i < LENGTH('a)"
proof -
  have ff: "(0xffff :: 'a word) = mask 16"
    by (simp add: mask_eq_exp_minus_1)
  show ?thesis
    unfolding ff by (auto simp: bit_mask_iff)
qed

lemma or_numerals:
  "numeral a OR (r OR (numeral s OR x)) = (numeral a OR numeral s) OR (r OR (x :: u32))"
  "numeral a OR (r OR numeral s) = (numeral a OR numeral s) OR (r :: u32)"
  "numeral a OR (r OR (q OR (numeral s OR x))) = (numeral a OR numeral s) OR (r OR (q OR (x :: u32)))"
  "numeral a OR (r OR (q OR numeral s)) = (numeral a OR numeral s) OR (r OR (q :: u32))"
  "numeral a OR (r OR (q OR (p OR (numeral s OR x)))) = (numeral a OR numeral s) OR (r OR (q OR (p OR (x :: u32))))"
  "numeral a OR (r OR (q OR (p OR numeral s))) = (numeral a OR numeral s) OR (r OR (q OR (p :: u32)))"
  by (rule word_eq_bitI, auto simp: bit_simps)+

lemma and_0xfff: "0xfff AND x = take_bit 12 (x :: 'a::len word)"
proof -
  have "(0xfff :: 'a word) = mask 12"
    by (simp add: mask_eq_exp_minus_1)
  then show ?thesis
    by (simp add: take_bit_eq_mask and.commute)
qed

section \<open>Loads from a byte buffer\<close>

text \<open>
  A C expression \<open>*(const uint32_t*)p\<close> reads the four bytes at \<open>p\<close> with the least
  significant one first (x86 and AArch64 in its little-endian mode). A buffer is the list of the
  bytes from \<open>p\<close> on.
\<close>

definition ld8 :: "u8 list \<Rightarrow> u8" where
  "ld8 p = p ! 0"

definition ld16 :: "u8 list \<Rightarrow> u16" where
  "ld16 p = ucast (p ! 0) OR push_bit 8 (ucast (p ! 1))"

definition ld32 :: "u8 list \<Rightarrow> u32" where
  "ld32 p = ucast (p ! 0) OR push_bit 8 (ucast (p ! 1)) OR push_bit 16 (ucast (p ! 2))
     OR push_bit 24 (ucast (p ! 3))"

definition ld64 :: "u8 list \<Rightarrow> u64" where
  "ld64 p = ucast (ld32 p) OR push_bit 32 (ucast (ld32 (drop 4 p)))"

text \<open>Byte \<open>k\<close> of a loaded word is byte \<open>k\<close> of the buffer.\<close>

lemma ld16_byte [le_load]:
  "ucast (ld16 p) = p ! 0" "ucast (drop_bit 8 (ld16 p)) = p ! 1"
  by (rule word_eq_bitI, auto simp: ld16_def bit_simps dest: bit_u8D)+

lemma ld32_byte [le_load]:
  "ucast (ld32 p) = p ! 0" "ucast (drop_bit 8 (ld32 p)) = p ! 1"
  "ucast (drop_bit 16 (ld32 p)) = p ! 2" "ucast (drop_bit 24 (ld32 p)) = p ! 3"
  by (rule word_eq_bitI, auto simp: ld32_def bit_simps dest: bit_u8D)+

lemma ld64_low: "ucast (ld64 p) = ld32 p"
  by (rule word_eq_bitI) (auto simp: ld64_def bit_simps)

lemma ld64_high: "ucast (drop_bit 32 (ld64 p)) = ld32 (drop 4 p)"
  by (rule word_eq_bitI) (auto simp: ld64_def bit_simps dest: bit_u32D)

lemma ucast_u64_u8_low: "k + 8 \<le> 32 \<Longrightarrow> (ucast (drop_bit k (w :: u64)) :: u8) = ucast (drop_bit k (ucast w :: u32))"
  by (rule word_eq_bitI) (auto simp: bit_simps)

lemma ucast_u64_u8_high:
  "32 \<le> k \<Longrightarrow> k + 8 \<le> 64 \<Longrightarrow>
   (ucast (drop_bit k (w :: u64)) :: u8) = ucast (drop_bit (k - 32) (ucast (drop_bit 32 w) :: u32))"
  by (rule word_eq_bitI) (auto simp: bit_simps)

lemma ld64_byte [le_load]:
  assumes "8 \<le> length p"
  shows "ucast (ld64 p) = p ! 0" "ucast (drop_bit 8 (ld64 p)) = p ! 1"
    "ucast (drop_bit 16 (ld64 p)) = p ! 2" "ucast (drop_bit 24 (ld64 p)) = p ! 3"
    "ucast (drop_bit 32 (ld64 p)) = p ! 4" "ucast (drop_bit 40 (ld64 p)) = p ! 5"
    "ucast (drop_bit 48 (ld64 p)) = p ! 6" "ucast (drop_bit 56 (ld64 p)) = p ! 7"
  using assms ucast_u64_u8_low [of 0 "ld64 p"]
  by (simp_all add: ucast_u64_u8_low ucast_u64_u8_high ld64_low ld64_high ld32_byte
      ld32_byte(1) [of "drop 4 p"])

section \<open>The arithmetic macros of \<open>libxsmm_macros.h\<close>\<close>

definition LIBXSMM_MIN :: "'a::ord \<Rightarrow> 'a \<Rightarrow> 'a" where
  "LIBXSMM_MIN a b = (if a < b then a else b)"

definition LIBXSMM_MAX :: "'a::ord \<Rightarrow> 'a \<Rightarrow> 'a" where
  "LIBXSMM_MAX a b = (if a < b then b else a)"

definition LIBXSMM_DELTA :: "'a::{ord, minus} \<Rightarrow> 'a \<Rightarrow> 'a" where
  "LIBXSMM_DELTA t0 t1 = (if t0 < t1 then t1 - t0 else t0 - t1)"

definition LIBXSMM_UP :: "u32 \<Rightarrow> u32 \<Rightarrow> u32" where
  "LIBXSMM_UP n m = (n + (m - 1)) div m * m"

lemma unat_up:
  assumes "unat n + unat m < 2 ^ 32" and "0 < unat m"
  shows "unat (LIBXSMM_UP n m) = (unat n + (unat m - 1)) div unat m * unat m"
proof -
  have "1 \<le> m"
    using assms(2) by (simp add: word_le_nat_alt)
  then have m1: "unat (m - 1) = unat m - 1"
    by (simp add: unat_sub)
  then have a: "unat (n + (m - 1)) = unat n + (unat m - 1)"
    using assms by (subst unat_add_small) simp_all
  have "unat ((n + (m - 1)) div m) = (unat n + (unat m - 1)) div unat m"
    by (simp add: unat_div a)
  moreover have "(unat n + (unat m - 1)) div unat m * unat m < 2 ^ 32"
    using assms by (intro le_less_trans [OF div_times_less_eq_dividend]) simp
  ultimately show ?thesis
    unfolding LIBXSMM_UP_def by (simp add: unat_word_ariths)
qed


text \<open>\<open>memcpy\<close> of \<open>n\<close> bytes into a memory at \<open>d\<close>; the source is a function from the offset.\<close>

definition memcpy :: "(nat \<Rightarrow> u8) \<Rightarrow> nat \<Rightarrow> (nat \<Rightarrow> u8) \<Rightarrow> nat \<Rightarrow> nat \<Rightarrow> u8" where
  "memcpy dst d src n = (\<lambda>a. if d \<le> a \<and> a < d + n then src (a - d) else dst a)"

section \<open>Lists\<close>

lemma take_Suc_nth: "n < length xs \<Longrightarrow> take (Suc n) xs = take n xs @ [xs ! n]"
  by (rule take_Suc_conv_app_nth)

lemma foldl_funpow_append: "foldl f (foldl f s xs) ys = foldl f s (xs @ ys)"
  by simp

end
