(* ===== verification/Targets.thy ===== *)
theory Targets
  imports Prelude
begin

text \<open>
  The numbers of the target architectures of \<open>include/libxsmm_cpuid.h\<close>, which order the instruction set
  extensions of one architecture. The code compares them as \<open>int\<close> and as \<open>unsigned int\<close>, hence they
  are numerals of any type.
\<close>

abbreviation (input) LIBXSMM_TARGET_ARCH_UNKNOWN :: "'a::zero" where
  "LIBXSMM_TARGET_ARCH_UNKNOWN \<equiv> 0"

abbreviation (input) LIBXSMM_TARGET_ARCH_GENERIC :: "'a::numeral" where
  "LIBXSMM_TARGET_ARCH_GENERIC \<equiv> 1"

abbreviation (input) LIBXSMM_X86_GENERIC :: "'a::numeral" where
  "LIBXSMM_X86_GENERIC \<equiv> 1002"

abbreviation (input) LIBXSMM_X86_SSE3 :: "'a::numeral" where
  "LIBXSMM_X86_SSE3 \<equiv> 1003"

abbreviation (input) LIBXSMM_X86_SSE42 :: "'a::numeral" where
  "LIBXSMM_X86_SSE42 \<equiv> 1004"

abbreviation (input) LIBXSMM_X86_AVX :: "'a::numeral" where
  "LIBXSMM_X86_AVX \<equiv> 1005"

abbreviation (input) LIBXSMM_X86_AVX2 :: "'a::numeral" where
  "LIBXSMM_X86_AVX2 \<equiv> 1006"

abbreviation (input) LIBXSMM_X86_AVX2_ADL :: "'a::numeral" where
  "LIBXSMM_X86_AVX2_ADL \<equiv> 1007"

abbreviation (input) LIBXSMM_X86_AVX2_SRF :: "'a::numeral" where
  "LIBXSMM_X86_AVX2_SRF \<equiv> 1008"

abbreviation (input) LIBXSMM_X86_AVX512_VL128_SKX :: "'a::numeral" where
  "LIBXSMM_X86_AVX512_VL128_SKX \<equiv> 1041"

abbreviation (input) LIBXSMM_X86_AVX512_VL256_SKX :: "'a::numeral" where
  "LIBXSMM_X86_AVX512_VL256_SKX \<equiv> 1051"

abbreviation (input) LIBXSMM_X86_AVX512_VL256_CLX :: "'a::numeral" where
  "LIBXSMM_X86_AVX512_VL256_CLX \<equiv> 1052"

abbreviation (input) LIBXSMM_X86_AVX512_VL256_CPX :: "'a::numeral" where
  "LIBXSMM_X86_AVX512_VL256_CPX \<equiv> 1053"

abbreviation (input) LIBXSMM_X86_AVX512_SKX :: "'a::numeral" where
  "LIBXSMM_X86_AVX512_SKX \<equiv> 1101"

abbreviation (input) LIBXSMM_X86_AVX512_CLX :: "'a::numeral" where
  "LIBXSMM_X86_AVX512_CLX \<equiv> 1102"

abbreviation (input) LIBXSMM_X86_AVX512_CPX :: "'a::numeral" where
  "LIBXSMM_X86_AVX512_CPX \<equiv> 1103"

abbreviation (input) LIBXSMM_X86_AVX512_SPR :: "'a::numeral" where
  "LIBXSMM_X86_AVX512_SPR \<equiv> 1104"

abbreviation (input) LIBXSMM_X86_AVX512_GNR :: "'a::numeral" where
  "LIBXSMM_X86_AVX512_GNR \<equiv> 1105"

abbreviation (input) LIBXSMM_X86_ALLFEAT :: "'a::numeral" where
  "LIBXSMM_X86_ALLFEAT \<equiv> 1999"

abbreviation (input) LIBXSMM_AARCH64_V81 :: "'a::numeral" where
  "LIBXSMM_AARCH64_V81 \<equiv> 2001"

abbreviation (input) LIBXSMM_AARCH64_V82 :: "'a::numeral" where
  "LIBXSMM_AARCH64_V82 \<equiv> 2002"

abbreviation (input) LIBXSMM_AARCH64_APPL_M1 :: "'a::numeral" where
  "LIBXSMM_AARCH64_APPL_M1 \<equiv> 2101"

abbreviation (input) LIBXSMM_AARCH64_SVE128 :: "'a::numeral" where
  "LIBXSMM_AARCH64_SVE128 \<equiv> 2201"

abbreviation (input) LIBXSMM_AARCH64_SVE256 :: "'a::numeral" where
  "LIBXSMM_AARCH64_SVE256 \<equiv> 2301"

abbreviation (input) LIBXSMM_AARCH64_NEOV1 :: "'a::numeral" where
  "LIBXSMM_AARCH64_NEOV1 \<equiv> 2302"

abbreviation (input) LIBXSMM_AARCH64_SVE512 :: "'a::numeral" where
  "LIBXSMM_AARCH64_SVE512 \<equiv> 2401"

abbreviation (input) LIBXSMM_AARCH64_A64FX :: "'a::numeral" where
  "LIBXSMM_AARCH64_A64FX \<equiv> 2402"

abbreviation (input) LIBXSMM_AARCH64_ALLFEAT :: "'a::numeral" where
  "LIBXSMM_AARCH64_ALLFEAT \<equiv> 2999"

end
