(* ===== verification/Crc32.thy ===== *)
theory Crc32
  imports Targets Crc32_Tables
begin

text \<open>
  The CRC32C hash of \<open>src/libxsmm_hash.c\<close>, which keys the kernel registry. The software functions
  work on blocks of 1 to 64 bytes and on buffers of any length and address; the SSE4.2 functions do
  the same with CRC32 instructions. The lemmas show that both compute the CRC32C of the bytes, one
  bit at a time (\<open>crc_ref\<close>), whatever block sizes, alignment, build options and target are in
  effect.
\<close>

section \<open>Reference: the hash of a list of bytes\<close>

definition crc_byte :: "u32 \<Rightarrow> u8 \<Rightarrow> u32" where
  "crc_byte s b = crc8 (s XOR ucast b)"

definition crc_ref :: "u32 \<Rightarrow> u8 list \<Rightarrow> u32" where
  "crc_ref s bs = foldl crc_byte s bs"

section \<open>The software implementation: table lookups\<close>

definition internal_crc32_table :: "u32 list list" where
  "internal_crc32_table = [crc32_table0, crc32_table1, crc32_table2, crc32_table3]"

definition internal_crc32_u8 :: "u32 \<Rightarrow> u8 list \<Rightarrow> u32" where
  "internal_crc32_u8 seed pu8 =
     (internal_crc32_table ! 0) ! unat ((seed XOR ucast (ld8 pu8)) AND 0xFF) XOR drop_bit 8 seed"

definition internal_crc32_u16 :: "u32 \<Rightarrow> u8 list \<Rightarrow> u32" where
  "internal_crc32_u16 seed pu8 =
     (let seed = internal_crc32_u8 seed (drop 0 pu8)
      in internal_crc32_u8 seed (drop 1 pu8))"

definition internal_crc32_u32 :: "u32 \<Rightarrow> u8 list \<Rightarrow> u32" where
  "internal_crc32_u32 seed p =
     (let s = seed XOR ld32 p;
          c0 = (internal_crc32_table ! 0) ! unat (drop_bit 24 s AND 0xFF);
          c1 = (internal_crc32_table ! 1) ! unat (drop_bit 16 s AND 0xFF);
          c2 = (internal_crc32_table ! 2) ! unat (drop_bit 8 s AND 0xFF);
          c3 = (internal_crc32_table ! 3) ! unat (s AND 0xFF)
      in (c0 XOR c1) XOR (c2 XOR c3))"

definition internal_crc32_u64 :: "u32 \<Rightarrow> u8 list \<Rightarrow> u32" where
  "internal_crc32_u64 seed p =
     (let seed = internal_crc32_u32 seed (drop 0 p)
      in internal_crc32_u32 seed (drop 4 p))"

definition internal_crc32_u128 :: "u32 \<Rightarrow> u8 list \<Rightarrow> u32" where
  "internal_crc32_u128 seed p =
     (let seed = internal_crc32_u64 seed (drop 0 p)
      in internal_crc32_u64 seed (drop 8 p))"

definition internal_crc32_u256 :: "u32 \<Rightarrow> u8 list \<Rightarrow> u32" where
  "internal_crc32_u256 seed p =
     (let seed = internal_crc32_u128 seed (drop 0 p)
      in internal_crc32_u128 seed (drop 0x10 p))"

definition internal_crc32_u384 :: "u32 \<Rightarrow> u8 list \<Rightarrow> u32" where
  "internal_crc32_u384 seed p =
     (let seed = internal_crc32_u256 seed (drop 0 p)
      in internal_crc32_u128 seed (drop 0x20 p))"

definition internal_crc32_u512 :: "u32 \<Rightarrow> u8 list \<Rightarrow> u32" where
  "internal_crc32_u512 seed p =
     (let seed = internal_crc32_u256 seed (drop 0 p)
      in internal_crc32_u256 seed (drop 0x20 p))"

section \<open>Hashing a buffer of any length\<close>

text \<open>
  The four macros advance \<open>begin\<close>, here an index into the buffer, as long as a block of their
  width ends at or before \<open>END\<close>. The state is the pair of \<open>SEED\<close> and \<open>beg\<close>.
\<close>

type_synonym hash_fn = "u32 \<Rightarrow> u8 list \<Rightarrow> u32"

function LIBXSMM_HASH_U64 :: "hash_fn \<Rightarrow> u8 list \<Rightarrow> nat \<Rightarrow> u32 \<Rightarrow> nat \<Rightarrow> u32 \<times> nat" where
  "LIBXSMM_HASH_U64 fn data endp seed beg =
     (if beg + 7 < endp
      then LIBXSMM_HASH_U64 fn data endp (fn seed (drop beg data)) (beg + 8)
      else (seed, beg))"
  by pat_completeness auto
termination
  by (relation "measure (\<lambda>(fn, data, endp, seed, beg). endp - beg)") auto

declare LIBXSMM_HASH_U64.simps [simp del]

definition LIBXSMM_HASH_U32 :: "hash_fn \<Rightarrow> u8 list \<Rightarrow> nat \<Rightarrow> u32 \<times> nat \<Rightarrow> u32 \<times> nat" where
  "LIBXSMM_HASH_U32 fn data endp = (\<lambda>(seed, beg).
     let nextp = beg + 4
     in if nextp \<le> endp then (fn seed (drop beg data), nextp) else (seed, beg))"

definition LIBXSMM_HASH_U16 :: "hash_fn \<Rightarrow> u8 list \<Rightarrow> nat \<Rightarrow> u32 \<times> nat \<Rightarrow> u32 \<times> nat" where
  "LIBXSMM_HASH_U16 fn data endp = (\<lambda>(seed, beg).
     let nextp = beg + 2
     in if nextp \<le> endp then (fn seed (drop beg data), nextp) else (seed, beg))"

definition LIBXSMM_HASH_U8 :: "hash_fn \<Rightarrow> u8 list \<Rightarrow> nat \<Rightarrow> u32 \<times> nat \<Rightarrow> u32 \<times> nat" where
  "LIBXSMM_HASH_U8 fn data endp = (\<lambda>(seed, beg).
     if beg < endp then (fn seed (drop beg data), beg + 1) else (seed, beg))"

text \<open>
  The address of the buffer only matters for the peel loop. \<open>enda\<close> is the distance from
  \<open>begin\<close> to the next multiple of eight, as \<open>LIBXSMM_ALIGN\<close> computes it.
\<close>

definition LIBXSMM_HASH :: "hash_fn \<Rightarrow> hash_fn \<Rightarrow> hash_fn \<Rightarrow> hash_fn \<Rightarrow> u32 \<Rightarrow> u64 \<Rightarrow> u8 list \<Rightarrow> u32" where
  "LIBXSMM_HASH fn64 fn32 fn16 fn8 seed addr data =
     (let size = length data;
          endb = size;
          st0 = (if addr AND (8 - 1) = 0
                 then let enda = unat (((addr + (8 - 1)) AND NOT (8 - 1)) - addr)
                      in if int size > (int endb - int enda) mod 2 ^ 64
                         then LIBXSMM_HASH_U8 fn8 data enda
                                (LIBXSMM_HASH_U16 fn16 data enda
                                   (LIBXSMM_HASH_U32 fn32 data enda (seed, 0)))
                         else (seed, 0)
                 else (seed, 0));
          st1 = LIBXSMM_HASH_U64 fn64 data endb (fst st0) (snd st0);
          st2 = LIBXSMM_HASH_U32 fn32 data endb st1;
          st3 = LIBXSMM_HASH_U16 fn16 data endb st2
      in if snd st3 = endb then fst st3 else fn8 (fst st3) (drop (snd st3) data))"

definition internal_crc32 :: "u32 \<Rightarrow> u64 \<Rightarrow> u8 list \<Rightarrow> u32" where
  "internal_crc32 seed addr data =
     LIBXSMM_HASH internal_crc32_u64 internal_crc32_u32 internal_crc32_u16 internal_crc32_u8
       seed addr data"

section \<open>The reference register is linear\<close>

lemma crc_bit_xor: "crc_bit (a XOR b) = crc_bit a XOR crc_bit b"
  by (rule word_eq_bitI) (auto simp: crc_bit_def bit_xor_iff bit_drop_bit_eq)

lemma crc8_xor: "crc8 (a XOR b) = crc8 a XOR crc8 b"
  by (simp add: crc8_def crc_bit_xor)

lemma crc_bit_even: "\<not> bit w 0 \<Longrightarrow> crc_bit w = drop_bit 1 w"
  by (simp add: crc_bit_def)

text \<open>Eight zero bits at the bottom are shifted out without touching the polynomial.\<close>

lemma crc8_low_clear:
  assumes "\<And>i. i < 8 \<Longrightarrow> \<not> bit w i"
  shows "crc8 w = drop_bit 8 w"
proof -
  have "\<not> bit (drop_bit i w) 0" if "i < 8" for i
    using assms [OF that] by (simp add: bit_drop_bit_eq)
  then have step: "crc_bit (drop_bit i w) = drop_bit (Suc i) w" if "i < 8" for i
    using that by (simp add: crc_bit_even drop_bit_drop_bit)
  have "crc_bit w = drop_bit 1 w"
    using step [of 0] by simp
  then show ?thesis
    using step [of 1] step [of 2] step [of 3] step [of 4] step [of 5] step [of 6] step [of 7]
    by (simp add: crc8_def numeral_eq_Suc)
qed

lemma crc8_push8:
  "n \<le> 16 \<Longrightarrow> crc8 (push_bit (n + 8) (ucast (b :: u8))) = push_bit n (ucast b)"
proof -
  assume n: "n \<le> 16"
  have "crc8 (push_bit (n + 8) (ucast b)) = drop_bit 8 (push_bit (n + 8) (ucast b))"
    by (rule crc8_low_clear) (simp add: bit_push_bit_iff)
  also have "\<dots> = push_bit n (ucast b)"
  proof (rule word_eq_bitI)
    fix i
    assume i: "i < LENGTH(32)"
    show "bit (drop_bit 8 (push_bit (n + 8) (ucast b)) :: u32) i = bit (push_bit n (ucast b) :: u32) i"
      using n i by (auto simp: bit_drop_bit_eq bit_push_bit_iff bit_ucast_iff dest: bit_u8D)
  qed
  finally show ?thesis .
qed

lemmas crc8_bytes = crc8_push8 [of 0, simplified] crc8_push8 [of 8, simplified]
  crc8_push8 [of 16, simplified]

section \<open>Table lookups\<close>

lemma crc32_lookup:
  "(internal_crc32_table ! 0) ! unat (w AND 0xFF) = crc8 (w AND 0xFF)"
  "(internal_crc32_table ! 1) ! unat (w AND 0xFF) = crc8 (crc8 (w AND 0xFF))"
  "(internal_crc32_table ! 2) ! unat (w AND 0xFF) = crc8 (crc8 (crc8 (w AND 0xFF)))"
  "(internal_crc32_table ! 3) ! unat (w AND 0xFF) = crc8 (crc8 (crc8 (crc8 (w AND 0xFF))))"
  using and_mask8_lt [of w]
  by (simp_all add: internal_crc32_table_def crc32_table1_eq crc32_table2_eq crc32_table3_eq
      crc32_table0_eq)

section \<open>Each software block function computes the CRC32C of its bytes\<close>

lemma crc_ref_Nil [simp]: "crc_ref s [] = s"
  by (simp add: crc_ref_def)

lemma crc_ref_Cons [simp]: "crc_ref s (b # bs) = crc_ref (crc_byte s b) bs"
  by (simp add: crc_ref_def)

lemma crc_ref_append: "crc_ref s (xs @ ys) = crc_ref (crc_ref s xs) ys"
  by (simp add: crc_ref_def)

lemma internal_crc32_u8_byte: "internal_crc32_u8 seed p = crc_byte seed (ld8 p)"
proof -
  let ?w = "seed XOR ucast (ld8 p) :: u32"
  have "crc8 (push_bit 8 (drop_bit 8 ?w)) = drop_bit 8 (push_bit 8 (drop_bit 8 ?w))"
    by (rule crc8_low_clear) (simp add: bit_simps)
  also have "\<dots> = drop_bit 8 seed"
    by (rule word_eq_bitI) (auto simp: bit_simps dest: bit_u8D bit_u32D)
  finally have hi: "crc8 (push_bit 8 (drop_bit 8 ?w)) = drop_bit 8 seed" .
  have "?w = (?w AND 0xFF) XOR push_bit 8 (drop_bit 8 ?w)"
    unfolding and_0xFF by (rule take_xor_push)
  then have "crc8 ?w = crc8 (?w AND 0xFF) XOR drop_bit 8 seed"
    by (metis crc8_xor hi)
  then show ?thesis
    by (simp add: internal_crc32_u8_def crc_byte_def crc32_lookup)
qed

lemma ld32_xor:
  "ld32 p = ucast (p ! 0) XOR push_bit 8 (ucast (p ! 1)) XOR push_bit 16 (ucast (p ! 2))
     XOR push_bit 24 (ucast (p ! 3))"
proof (rule word_eq_bitI)
  fix i
  assume "i < LENGTH(32)"
  show "bit (ld32 p) i = bit (ucast (p ! 0) XOR push_bit 8 (ucast (p ! 1)) XOR
      push_bit 16 (ucast (p ! 2)) XOR push_bit 24 (ucast (p ! 3)) :: u32) i"
    by (auto simp: ld32_def bit_simps dest: bit_u8D)
qed

lemma crc32_four_bytes:
  "crc_ref s [b0, b1, b2, b3] = crc8 (crc8 (crc8 (crc8 (s XOR ld32 [b0, b1, b2, b3]))))"
  by (simp add: ld32_xor crc_byte_def crc8_xor crc8_bytes ac_simps)

lemma crc32_slices:
  "crc8 (crc8 (crc8 (crc8 s))) =
     (crc8 (drop_bit 24 s AND 0xFF) XOR crc8 (crc8 (drop_bit 16 s AND 0xFF))) XOR
     (crc8 (crc8 (crc8 (drop_bit 8 s AND 0xFF))) XOR crc8 (crc8 (crc8 (crc8 (s AND 0xFF)))))"
proof -
  let ?b = "\<lambda>k. ucast (drop_bit k s) :: u8"
  have b: "drop_bit k s AND 0xFF = ucast (?b k)" for k
    unfolding and_0xFF by (rule word_eq_bitI) (auto simp: bit_simps)
  have s: "s = ld32 [?b 0, ?b 8, ?b 16, ?b 24]"
  proof (rule word_eq_bitI)
    fix i
    assume "i < LENGTH(32)"
    then consider "i < 8" | "8 \<le> i" "i < 16" | "16 \<le> i" "i < 24" | "24 \<le> i" "i < 32"
      by force
    then show "bit s i = bit (ld32 [?b 0, ?b 8, ?b 16, ?b 24]) i"
      by cases (auto simp: ld32_def bit_simps)
  qed
  have "crc8 (crc8 (crc8 (crc8 s))) = crc_ref 0 [?b 0, ?b 8, ?b 16, ?b 24]"
    unfolding crc32_four_bytes using s by simp
  also have "\<dots> = (crc8 (ucast (?b 24)) XOR crc8 (crc8 (ucast (?b 16)))) XOR
     (crc8 (crc8 (crc8 (ucast (?b 8)))) XOR crc8 (crc8 (crc8 (crc8 (ucast (?b 0))))))"
    by (simp add: crc_byte_def crc8_xor ac_simps)
  finally show ?thesis
    using b [of 0] b [of 8] b [of 16] b [of 24] by simp
qed

lemma take4: "4 \<le> length p \<Longrightarrow> take 4 p = [p ! 0, p ! 1, p ! 2, p ! 3]"
  by (rule nth_equalityI) (auto simp: less_Suc_eq numeral_eq_Suc)

lemma take2: "2 \<le> length p \<Longrightarrow> take 2 p = [p ! 0, p ! 1]"
  by (rule nth_equalityI) (auto simp: less_Suc_eq numeral_eq_Suc)

lemma internal_crc32_u32_bytes:
  assumes "4 \<le> length p"
  shows "internal_crc32_u32 seed p = crc_ref seed (take 4 p)"
proof -
  have "ld32 p = ld32 [p ! 0, p ! 1, p ! 2, p ! 3]"
    by (simp add: ld32_def)
  then have "crc_ref seed (take 4 p) = crc8 (crc8 (crc8 (crc8 (seed XOR ld32 p))))"
    using assms by (simp add: take4 crc32_four_bytes del: crc_ref_Cons)
  then show ?thesis
    by (simp add: internal_crc32_u32_def Let_def crc32_lookup
        crc32_lookup(2) [unfolded One_nat_def] crc32_slices [of "seed XOR ld32 p"])
qed

section \<open>Blocks of any width\<close>

text \<open>
  The contract of a block function of \<open>n\<close> bytes, which every caller relies on: it reads the first
  \<open>n\<close> bytes and advances the register by them. Two such functions, one after the other on
  consecutive blocks, satisfy the contract for the sum of their widths.
\<close>

locale crc_block =
  fixes fn :: hash_fn and n :: nat
  assumes block: "n \<le> length p \<Longrightarrow> fn s p = crc_ref s (take n p)"

locale crc_block_pair = fst: crc_block f m + snd: crc_block g n for f m g n
begin

lemma pair: "m + n \<le> length p \<Longrightarrow> g (f s p) (drop m p) = crc_ref s (take (m + n) p)"
  by (simp add: fst.block snd.block crc_ref_append take_add)

end

lemma crc_block_pairI:
  assumes "crc_block f m" and "crc_block g n"
    and "\<And>s p. h s p = g (f s p) (drop m p)" and "k = m + n"
  shows "crc_block h k"
proof (rule crc_block.intro)
  fix p :: "u8 list" and s
  assume "k \<le> length p"
  then show "h s p = crc_ref s (take k p)"
    using crc_block_pair.pair [OF crc_block_pair.intro [OF assms(1,2)], of p s] assms(3,4) by simp
qed

interpretation sw8: crc_block internal_crc32_u8 1
proof
  fix p :: "u8 list" and s
  assume "1 \<le> length p"
  then show "internal_crc32_u8 s p = crc_ref s (take 1 p)"
    by (cases p) (simp_all add: internal_crc32_u8_byte ld8_def)
qed

interpretation sw16: crc_block internal_crc32_u16 2
  by (rule crc_block_pairI [OF sw8.crc_block_axioms sw8.crc_block_axioms])
    (simp_all add: internal_crc32_u16_def)

interpretation sw32: crc_block internal_crc32_u32 4
  by unfold_locales (rule internal_crc32_u32_bytes)

interpretation sw64: crc_block internal_crc32_u64 8
  by (rule crc_block_pairI [OF sw32.crc_block_axioms sw32.crc_block_axioms])
    (simp_all add: internal_crc32_u64_def)

interpretation sw128: crc_block internal_crc32_u128 16
  by (rule crc_block_pairI [OF sw64.crc_block_axioms sw64.crc_block_axioms])
    (simp_all add: internal_crc32_u128_def)

interpretation sw256: crc_block internal_crc32_u256 32
  by (rule crc_block_pairI [OF sw128.crc_block_axioms sw128.crc_block_axioms])
    (simp_all add: internal_crc32_u256_def)

interpretation sw384: crc_block internal_crc32_u384 48
  by (rule crc_block_pairI [OF sw256.crc_block_axioms sw128.crc_block_axioms])
    (simp_all add: internal_crc32_u384_def)

interpretation sw512: crc_block internal_crc32_u512 64
  by (rule crc_block_pairI [OF sw256.crc_block_axioms sw256.crc_block_axioms])
    (simp_all add: internal_crc32_u512_def)

section \<open>Buffers of any length and alignment\<close>

text \<open>
  Every macro keeps \<open>crc_ref seed (drop beg data)\<close>, the value still to be reached: what the
  register will be once the bytes from \<open>beg\<close> on have been mixed in.
\<close>

text \<open>The state of a hash in progress: what is still to come, and how much has been read.\<close>

abbreviation reaches :: "u8 list \<Rightarrow> u32 \<times> nat \<Rightarrow> u32 \<Rightarrow> bool" where
  "reaches data st r \<equiv> snd st \<le> length data \<and> crc_ref (fst st) (drop (snd st) data) = r"

lemma drop_block:
  "n \<le> length p \<Longrightarrow> crc_ref (crc_ref s (take n p)) (drop n p) = crc_ref s p"
  by (metis append_take_drop_id crc_ref_append)

lemma block_step:
  assumes "crc_block fn n" "beg + n \<le> length data" "reaches data (seed, beg) r"
  shows "reaches data (fn seed (drop beg data), beg + n) r"
proof -
  have "n \<le> length (drop beg data)"
    using assms(2) by simp
  then show ?thesis
    using assms(2,3) crc_block.block [OF assms(1), of "drop beg data" seed]
      drop_block [of n "drop beg data" seed]
    by (simp add: add.commute)
qed

locale hash_widths =
  w64: crc_block fn64 8 + w32: crc_block fn32 4 + w16: crc_block fn16 2 + w8: crc_block fn8 1
  for fn64 fn32 fn16 fn8
begin

lemma hash_u64_loop:
  "reaches data (seed, beg) r \<Longrightarrow>
   reaches data (LIBXSMM_HASH_U64 fn64 data (length data) seed beg) r \<and>
   length data < snd (LIBXSMM_HASH_U64 fn64 data (length data) seed beg) + 8"
proof (induction "length data - beg" arbitrary: seed beg rule: less_induct)
  case less
  show ?case
  proof (cases "beg + 7 < length data")
    case True
    then have "reaches data (fn64 seed (drop beg data), beg + 8) r"
      using less.prems by (intro block_step [OF w64.crc_block_axioms]) auto
    then show ?thesis
      using less.hyps [of "beg + 8" "fn64 seed (drop beg data)"] True
      by (simp add: LIBXSMM_HASH_U64.simps [of fn64 data "length data" seed beg])
  next
    case False
    then show ?thesis
      using less.prems
      by (simp add: LIBXSMM_HASH_U64.simps [of fn64 data "length data" seed beg])
  qed
qed

lemma hash_u32_step:
  "reaches data st r \<Longrightarrow> endp \<le> length data \<Longrightarrow> reaches data (LIBXSMM_HASH_U32 fn32 data endp st) r"
  by (cases st) (use block_step [OF w32.crc_block_axioms] in \<open>auto simp: LIBXSMM_HASH_U32_def Let_def\<close>)

lemma hash_u16_step:
  "reaches data st r \<Longrightarrow> endp \<le> length data \<Longrightarrow> reaches data (LIBXSMM_HASH_U16 fn16 data endp st) r"
  by (cases st) (use block_step [OF w16.crc_block_axioms] in \<open>auto simp: LIBXSMM_HASH_U16_def Let_def\<close>)

lemma hash_u32_rest:
  "endp < snd st + 8 \<Longrightarrow> endp < snd (LIBXSMM_HASH_U32 fn32 data endp st) + 4"
  by (cases st) (auto simp: LIBXSMM_HASH_U32_def Let_def)

lemma hash_u16_rest:
  "endp < snd st + 4 \<Longrightarrow> endp < snd (LIBXSMM_HASH_U16 fn16 data endp st) + 2"
  by (cases st) (auto simp: LIBXSMM_HASH_U16_def Let_def)

end

text \<open>
  The peel loop at the start of the macro only runs for a buffer that is already aligned, and then
  there is nothing to peel.
\<close>

lemma align_aligned:
  fixes addr :: u64
  assumes "addr AND 7 = 0"
  shows "(addr + 7) AND - 8 = addr"
proof -
  have m: "7 = (mask 3 :: u64)" "- 8 = NOT (mask 3 :: u64)"
    by (simp_all add: mask_eq_exp_minus_1)
  have low: "\<not> bit addr i" if "i < 3" for i
  proof -
    have "bit (addr AND mask 3) i = bit (0 :: u64) i"
      using assms m(1) by simp
    then show ?thesis
      using that by (simp add: bit_simps)
  qed
  have "addr + 7 = addr OR 7"
    using assms by (simp add: disjunctive_add_eq_or)
  then have "(addr + 7) AND - 8 = (addr OR mask 3) AND NOT (mask 3)"
    by (simp only: m)
  also have "\<dots> = addr"
    using low by (intro word_eq_bitI) (auto simp: bit_simps)
  finally show ?thesis .
qed

lemma hash_no_peel:
  "(if addr AND (8 - 1) = 0
    then let enda = unat (((addr + (8 - 1)) AND NOT (8 - 1)) - addr)
         in if int sz > (int endb - int enda) mod 2 ^ 64 then f enda else (seed, 0)
    else (seed, 0)) = (if addr AND 7 = (0 :: u64) \<and> int sz > int endb mod 2 ^ 64 then f 0 else (seed, 0))"
  by (simp add: Let_def align_aligned)

context hash_widths
begin

lemma hash_eq:
  assumes "length data < 2 ^ 64"
  shows "LIBXSMM_HASH fn64 fn32 fn16 fn8 seed addr data = crc_ref seed data"
proof -
  let ?st1 = "LIBXSMM_HASH_U64 fn64 data (length data) seed 0"
  let ?st2 = "LIBXSMM_HASH_U32 fn32 data (length data) ?st1"
  let ?st3 = "LIBXSMM_HASH_U16 fn16 data (length data) ?st2"
  let ?r = "crc_ref seed data"
  have "int (length data) mod 2 ^ 64 = int (length data)"
    using assms by simp
  then have eq: "LIBXSMM_HASH fn64 fn32 fn16 fn8 seed addr data =
      (if snd ?st3 = length data then fst ?st3 else fn8 (fst ?st3) (drop (snd ?st3) data))"
    unfolding LIBXSMM_HASH_def Let_def [of "length data"] hash_no_peel by (simp add: Let_def)
  have 1: "reaches data ?st1 ?r \<and> length data < snd ?st1 + 8"
    by (rule hash_u64_loop) simp
  have 2: "reaches data ?st2 ?r" "length data < snd ?st2 + 4"
    using 1 hash_u32_step [of ?st1 data ?r "length data"] hash_u32_rest [of "length data" ?st1]
    by auto
  have 3: "reaches data ?st3 ?r" "length data < snd ?st3 + 2"
    using 2 hash_u16_step [of ?st2 data ?r "length data"] hash_u16_rest [of "length data" ?st2]
    by auto
  show ?thesis
  proof (cases "snd ?st3 = length data")
    case True
    then show ?thesis using 3 by (simp add: eq)
  next
    case False
    then have "Suc (snd ?st3) = length data"
      using 3 by simp
    moreover from this have "reaches data (fn8 (fst ?st3) (drop (snd ?st3) data), snd ?st3 + 1) ?r"
      using 3 by (intro block_step [OF w8.crc_block_axioms]) auto
    ultimately show ?thesis
      using False by (simp add: eq)
  qed
qed

end

interpretation sw: hash_widths internal_crc32_u64 internal_crc32_u32 internal_crc32_u16 internal_crc32_u8
  by unfold_locales


section \<open>The SSE4.2 implementation: CRC32 instructions\<close>

text \<open>
  The compiler intrinsics \<open>_mm_crc32_u8\<close>, \<open>_u16\<close>, \<open>_u32\<close> and \<open>_u64\<close> are not part of the
  repository: they are the fields of a record that the definitions take as an argument. Their
  documented behaviour (Intel SDM, instruction CRC32: CRC32C over the operand's bytes, least
  significant byte first) is the predicate \<open>crc32_documented\<close>.
\<close>

record crc_intrinsics =
  mm_crc32_u8 :: "u32 \<Rightarrow> u8 \<Rightarrow> u32"
  mm_crc32_u16 :: "u32 \<Rightarrow> u16 \<Rightarrow> u32"
  mm_crc32_u32 :: "u32 \<Rightarrow> u32 \<Rightarrow> u32"
  mm_crc32_u64 :: "u64 \<Rightarrow> u64 \<Rightarrow> u64"

definition crc32_documented :: "crc_intrinsics \<Rightarrow> bool" where
  "crc32_documented h \<longleftrightarrow>
     (\<forall>s b. mm_crc32_u8 h s b = crc_byte s b) \<and>
     (\<forall>s b0 b1. mm_crc32_u16 h s (ld16 [b0, b1]) = crc_ref s [b0, b1]) \<and>
     (\<forall>s b0 b1 b2 b3. mm_crc32_u32 h s (ld32 [b0, b1, b2, b3]) = crc_ref s [b0, b1, b2, b3]) \<and>
     (\<forall>s b0 b1 b2 b3 b4 b5 b6 b7.
        mm_crc32_u64 h (ucast s) (ld64 [b0, b1, b2, b3, b4, b5, b6, b7])
        = ucast (crc_ref s [b0, b1, b2, b3, b4, b5, b6, b7]))"

text \<open>
  How the library was compiled: whether the SSE4.2 intrinsics are available
  (\<open>LIBXSMM_INTRINSICS_SSE42\<close>), whether the 64-bit instruction is replaced by two 32-bit ones
  (\<open>64 > LIBXSMM_BITS\<close> or PGI), and the range of targets fixed at compile time.
\<close>

record crc_build =
  intrinsics_sse42 :: bool
  crc_u64_split :: bool
  static_target_arch :: int
  max_static_target_arch :: int

definition LIBXSMM_HASH_CRC32_U8 :: "crc_intrinsics \<Rightarrow> u32 \<Rightarrow> u8 list \<Rightarrow> u32" where
  "LIBXSMM_HASH_CRC32_U8 h seed p = mm_crc32_u8 h seed (ld8 p)"

definition LIBXSMM_HASH_CRC32_U16 :: "crc_intrinsics \<Rightarrow> u32 \<Rightarrow> u8 list \<Rightarrow> u32" where
  "LIBXSMM_HASH_CRC32_U16 h seed p = mm_crc32_u16 h seed (ld16 p)"

definition LIBXSMM_HASH_CRC32_U32 :: "crc_intrinsics \<Rightarrow> u32 \<Rightarrow> u8 list \<Rightarrow> u32" where
  "LIBXSMM_HASH_CRC32_U32 h seed p = mm_crc32_u32 h seed (ld32 p)"

definition LIBXSMM_HASH_CRC32_U64 :: "crc_build \<Rightarrow> crc_intrinsics \<Rightarrow> u32 \<Rightarrow> u8 list \<Rightarrow> u32" where
  "LIBXSMM_HASH_CRC32_U64 c h seed p =
     (if crc_u64_split c
      then LIBXSMM_HASH_CRC32_U32 h (LIBXSMM_HASH_CRC32_U32 h seed p) (drop 4 p)
      else ucast (mm_crc32_u64 h (ucast seed) (ld64 p)))"

definition internal_crc32_u8_sse4 :: "crc_build \<Rightarrow> crc_intrinsics \<Rightarrow> hash_fn" where
  "internal_crc32_u8_sse4 c h seed p =
     (if intrinsics_sse42 c then LIBXSMM_HASH_CRC32_U8 h seed p else internal_crc32_u8 seed p)"

definition internal_crc32_u16_sse4 :: "crc_build \<Rightarrow> crc_intrinsics \<Rightarrow> hash_fn" where
  "internal_crc32_u16_sse4 c h seed p =
     (if intrinsics_sse42 c then LIBXSMM_HASH_CRC32_U16 h seed p else internal_crc32_u16 seed p)"

definition internal_crc32_u32_sse4 :: "crc_build \<Rightarrow> crc_intrinsics \<Rightarrow> hash_fn" where
  "internal_crc32_u32_sse4 c h seed p =
     (if intrinsics_sse42 c then LIBXSMM_HASH_CRC32_U32 h seed p else internal_crc32_u32 seed p)"

definition internal_crc32_u64_sse4 :: "crc_build \<Rightarrow> crc_intrinsics \<Rightarrow> hash_fn" where
  "internal_crc32_u64_sse4 c h seed p =
     (if intrinsics_sse42 c then LIBXSMM_HASH_CRC32_U64 c h seed p else internal_crc32_u64 seed p)"

definition internal_crc32_u128_sse4 :: "crc_build \<Rightarrow> crc_intrinsics \<Rightarrow> hash_fn" where
  "internal_crc32_u128_sse4 c h seed p =
     (if intrinsics_sse42 c
      then (let seed = LIBXSMM_HASH_CRC32_U64 c h seed (drop 0 p)
            in LIBXSMM_HASH_CRC32_U64 c h seed (drop 8 p))
      else internal_crc32_u128 seed p)"

definition internal_crc32_u256_sse4 :: "crc_build \<Rightarrow> crc_intrinsics \<Rightarrow> hash_fn" where
  "internal_crc32_u256_sse4 c h seed p =
     (if intrinsics_sse42 c
      then (let seed = internal_crc32_u128_sse4 c h seed (drop 0 p)
            in internal_crc32_u128_sse4 c h seed (drop 0x10 p))
      else internal_crc32_u256 seed p)"

definition internal_crc32_u384_sse4 :: "crc_build \<Rightarrow> crc_intrinsics \<Rightarrow> hash_fn" where
  "internal_crc32_u384_sse4 c h seed p =
     (if intrinsics_sse42 c
      then (let seed = internal_crc32_u256_sse4 c h seed (drop 0 p)
            in internal_crc32_u128_sse4 c h seed (drop 0x20 p))
      else internal_crc32_u384 seed p)"

definition internal_crc32_u512_sse4 :: "crc_build \<Rightarrow> crc_intrinsics \<Rightarrow> hash_fn" where
  "internal_crc32_u512_sse4 c h seed p =
     (if intrinsics_sse42 c
      then (let seed = internal_crc32_u256_sse4 c h seed (drop 0 p)
            in internal_crc32_u256_sse4 c h seed (drop 0x20 p))
      else internal_crc32_u512 seed p)"

definition internal_crc32_sse4 :: "crc_build \<Rightarrow> crc_intrinsics \<Rightarrow> u32 \<Rightarrow> u64 \<Rightarrow> u8 list \<Rightarrow> u32" where
  "internal_crc32_sse4 c h seed addr data =
     (if intrinsics_sse42 c
      then LIBXSMM_HASH (LIBXSMM_HASH_CRC32_U64 c h) (LIBXSMM_HASH_CRC32_U32 h)
             (LIBXSMM_HASH_CRC32_U16 h) (LIBXSMM_HASH_CRC32_U8 h) seed addr data
      else internal_crc32 seed addr data)"

section \<open>Selecting the implementation at run time\<close>

text \<open>The function pointers that \<open>libxsmm_hash_init\<close> sets, one field per global.\<close>

record hash_pointers =
  internal_hash_u512_function :: hash_fn
  internal_hash_u384_function :: hash_fn
  internal_hash_u256_function :: hash_fn
  internal_hash_u128_function :: hash_fn
  internal_hash_u64_function :: hash_fn
  internal_hash_u32_function :: hash_fn
  internal_hash_u16_function :: hash_fn
  internal_hash_u8_function :: hash_fn
  internal_hash_function :: "u32 \<Rightarrow> u64 \<Rightarrow> u8 list \<Rightarrow> u32"

definition libxsmm_hash_init :: "crc_build \<Rightarrow> crc_intrinsics \<Rightarrow> int \<Rightarrow> hash_pointers" where
  "libxsmm_hash_init c h target_arch =
     (if LIBXSMM_X86_SSE42 \<le> static_target_arch c \<or> LIBXSMM_X86_SSE42 \<le> target_arch
      then \<lparr>internal_hash_u512_function = internal_crc32_u512_sse4 c h,
            internal_hash_u384_function = internal_crc32_u384_sse4 c h,
            internal_hash_u256_function = internal_crc32_u256_sse4 c h,
            internal_hash_u128_function = internal_crc32_u128_sse4 c h,
            internal_hash_u64_function = internal_crc32_u64_sse4 c h,
            internal_hash_u32_function = internal_crc32_u32_sse4 c h,
            internal_hash_u16_function = internal_crc32_u16_sse4 c h,
            internal_hash_u8_function = internal_crc32_u8_sse4 c h,
            internal_hash_function = internal_crc32_sse4 c h\<rparr>
      else \<lparr>internal_hash_u512_function = internal_crc32_u512,
            internal_hash_u384_function = internal_crc32_u384,
            internal_hash_u256_function = internal_crc32_u256,
            internal_hash_u128_function = internal_crc32_u128,
            internal_hash_u64_function = internal_crc32_u64,
            internal_hash_u32_function = internal_crc32_u32,
            internal_hash_u16_function = internal_crc32_u16,
            internal_hash_u8_function = internal_crc32_u8,
            internal_hash_function = internal_crc32\<rparr>)"

text \<open>
  The entry points: an instruction when the static target has it, the table code when no target of
  the build has it, and the pointer set by \<open>libxsmm_hash_init\<close> otherwise.
\<close>

definition libxsmm_crc32_u8 :: "crc_build \<Rightarrow> crc_intrinsics \<Rightarrow> hash_pointers \<Rightarrow> hash_fn" where
  "libxsmm_crc32_u8 c h g seed p =
     (if LIBXSMM_X86_SSE42 \<le> static_target_arch c then LIBXSMM_HASH_CRC32_U8 h seed p
      else if LIBXSMM_X86_SSE42 > max_static_target_arch c then internal_crc32_u8 seed p
      else internal_hash_u8_function g seed p)"

definition libxsmm_crc32_u16 :: "crc_build \<Rightarrow> crc_intrinsics \<Rightarrow> hash_pointers \<Rightarrow> hash_fn" where
  "libxsmm_crc32_u16 c h g seed p =
     (if LIBXSMM_X86_SSE42 \<le> static_target_arch c then LIBXSMM_HASH_CRC32_U16 h seed p
      else if LIBXSMM_X86_SSE42 > max_static_target_arch c then internal_crc32_u16 seed p
      else internal_hash_u16_function g seed p)"

definition libxsmm_crc32_u32 :: "crc_build \<Rightarrow> crc_intrinsics \<Rightarrow> hash_pointers \<Rightarrow> hash_fn" where
  "libxsmm_crc32_u32 c h g seed p =
     (if LIBXSMM_X86_SSE42 \<le> static_target_arch c then LIBXSMM_HASH_CRC32_U32 h seed p
      else if LIBXSMM_X86_SSE42 > max_static_target_arch c then internal_crc32_u32 seed p
      else internal_hash_u32_function g seed p)"

definition libxsmm_crc32_u64 :: "crc_build \<Rightarrow> crc_intrinsics \<Rightarrow> hash_pointers \<Rightarrow> hash_fn" where
  "libxsmm_crc32_u64 c h g seed p =
     (if LIBXSMM_X86_SSE42 \<le> static_target_arch c then LIBXSMM_HASH_CRC32_U64 c h seed p
      else if LIBXSMM_X86_SSE42 > max_static_target_arch c then internal_crc32_u64 seed p
      else internal_hash_u64_function g seed p)"

definition libxsmm_crc32_u128 :: "crc_build \<Rightarrow> crc_intrinsics \<Rightarrow> hash_pointers \<Rightarrow> hash_fn" where
  "libxsmm_crc32_u128 c h g seed p =
     (if LIBXSMM_X86_SSE42 \<le> static_target_arch c then internal_crc32_u128_sse4 c h seed p
      else if LIBXSMM_X86_SSE42 > max_static_target_arch c then internal_crc32_u128 seed p
      else internal_hash_u128_function g seed p)"

definition libxsmm_crc32_u256 :: "crc_build \<Rightarrow> crc_intrinsics \<Rightarrow> hash_pointers \<Rightarrow> hash_fn" where
  "libxsmm_crc32_u256 c h g seed p =
     (if LIBXSMM_X86_SSE42 \<le> static_target_arch c then internal_crc32_u256_sse4 c h seed p
      else if LIBXSMM_X86_SSE42 > max_static_target_arch c then internal_crc32_u256 seed p
      else internal_hash_u256_function g seed p)"

definition libxsmm_crc32_u384 :: "crc_build \<Rightarrow> crc_intrinsics \<Rightarrow> hash_pointers \<Rightarrow> hash_fn" where
  "libxsmm_crc32_u384 c h g seed p =
     (if LIBXSMM_X86_SSE42 \<le> static_target_arch c then internal_crc32_u384_sse4 c h seed p
      else if LIBXSMM_X86_SSE42 > max_static_target_arch c then internal_crc32_u384 seed p
      else internal_hash_u384_function g seed p)"

definition libxsmm_crc32_u512 :: "crc_build \<Rightarrow> crc_intrinsics \<Rightarrow> hash_pointers \<Rightarrow> hash_fn" where
  "libxsmm_crc32_u512 c h g seed p =
     (if LIBXSMM_X86_SSE42 \<le> static_target_arch c then internal_crc32_u512_sse4 c h seed p
      else if LIBXSMM_X86_SSE42 > max_static_target_arch c then internal_crc32_u512 seed p
      else internal_hash_u512_function g seed p)"

definition libxsmm_crc32 :: "crc_build \<Rightarrow> crc_intrinsics \<Rightarrow> hash_pointers \<Rightarrow> u32 \<Rightarrow> u64 \<Rightarrow> u8 list \<Rightarrow> u32" where
  "libxsmm_crc32 c h g seed addr data =
     (if LIBXSMM_X86_SSE42 \<le> static_target_arch c then internal_crc32_sse4 c h seed addr data
      else if LIBXSMM_X86_SSE42 > max_static_target_arch c then internal_crc32 seed addr data
      else internal_hash_function g seed addr data)"

section \<open>The SSE4.2 functions compute the same hash\<close>

text \<open>
  Under the documented behaviour of the intrinsics, each SSE4.2 function satisfies the block
  contract of its software counterpart, with or without the intrinsics compiled in.
\<close>

lemma ld_bytes:
  "ld16 p = ld16 [p ! 0, p ! 1]"
  "ld32 p = ld32 [p ! 0, p ! 1, p ! 2, p ! 3]"
  by (simp_all add: ld16_def ld32_def)

lemma ld64_bytes:
  "8 \<le> length p \<Longrightarrow> ld64 p = ld64 [p ! 0, p ! 1, p ! 2, p ! 3, p ! 4, p ! 5, p ! 6, p ! 7]"
  by (simp add: ld64_def ld32_def)

lemma take8:
  "8 \<le> length p \<Longrightarrow> take 8 p = [p ! 0, p ! 1, p ! 2, p ! 3, p ! 4, p ! 5, p ! 6, p ! 7]"
  by (rule nth_equalityI) (auto simp: less_Suc_eq numeral_eq_Suc)

lemma hw8_block:
  assumes "crc32_documented h"
  shows "crc_block (LIBXSMM_HASH_CRC32_U8 h) 1"
proof
  fix p :: "u8 list" and s
  assume "1 \<le> length p"
  then show "LIBXSMM_HASH_CRC32_U8 h s p = crc_ref s (take 1 p)"
    using assms by (cases p) (simp_all add: LIBXSMM_HASH_CRC32_U8_def crc32_documented_def ld8_def)
qed

lemma hw16_block:
  assumes "crc32_documented h"
  shows "crc_block (LIBXSMM_HASH_CRC32_U16 h) 2"
proof
  fix p :: "u8 list" and s
  assume "2 \<le> length p"
  then show "LIBXSMM_HASH_CRC32_U16 h s p = crc_ref s (take 2 p)"
    using assms by (simp add: LIBXSMM_HASH_CRC32_U16_def crc32_documented_def take2 ld_bytes(1) [of p]
        del: crc_ref_Cons)
qed

lemma hw32_block:
  assumes "crc32_documented h"
  shows "crc_block (LIBXSMM_HASH_CRC32_U32 h) 4"
proof
  fix p :: "u8 list" and s
  assume "4 \<le> length p"
  then show "LIBXSMM_HASH_CRC32_U32 h s p = crc_ref s (take 4 p)"
    using assms by (simp add: LIBXSMM_HASH_CRC32_U32_def crc32_documented_def take4 ld_bytes(2) [of p]
        del: crc_ref_Cons)
qed

lemma hw64_block:
  assumes doc: "crc32_documented h"
  shows "crc_block (LIBXSMM_HASH_CRC32_U64 c h) 8"
proof (cases "crc_u64_split c")
  case True
  then show ?thesis
    by (intro crc_block_pairI [OF hw32_block [OF doc] hw32_block [OF doc]])
      (simp_all add: LIBXSMM_HASH_CRC32_U64_def)
next
  case False
  show ?thesis
  proof
    fix p :: "u8 list" and s
    assume "8 \<le> length p"
    then show "LIBXSMM_HASH_CRC32_U64 c h s p = crc_ref s (take 8 p)"
      using assms False
      by (simp add: LIBXSMM_HASH_CRC32_U64_def crc32_documented_def take8 ld64_bytes [of p]
          del: crc_ref_Cons)
  qed
qed

lemma sse4_u8_block:
  "crc32_documented h \<Longrightarrow> crc_block (internal_crc32_u8_sse4 c h) 1"
  using hw8_block [of h] sw8.crc_block_axioms
  by (cases "intrinsics_sse42 c") (auto simp: crc_block_def internal_crc32_u8_sse4_def)

lemma sse4_u16_block:
  "crc32_documented h \<Longrightarrow> crc_block (internal_crc32_u16_sse4 c h) 2"
  using hw16_block [of h] sw16.crc_block_axioms
  by (cases "intrinsics_sse42 c") (auto simp: crc_block_def internal_crc32_u16_sse4_def)

lemma sse4_u32_block:
  "crc32_documented h \<Longrightarrow> crc_block (internal_crc32_u32_sse4 c h) 4"
  using hw32_block [of h] sw32.crc_block_axioms
  by (cases "intrinsics_sse42 c") (auto simp: crc_block_def internal_crc32_u32_sse4_def)

lemma sse4_u64_block:
  "crc32_documented h \<Longrightarrow> crc_block (internal_crc32_u64_sse4 c h) 8"
  using hw64_block [of h c] sw64.crc_block_axioms
  by (cases "intrinsics_sse42 c") (auto simp: crc_block_def internal_crc32_u64_sse4_def)

lemma sse4_u128_block:
  assumes doc: "crc32_documented h"
  shows "crc_block (internal_crc32_u128_sse4 c h) 16"
proof (cases "intrinsics_sse42 c")
  case True
  then show ?thesis
    by (intro crc_block_pairI [OF hw64_block [OF doc, of c] hw64_block [OF doc, of c]])
      (simp_all add: internal_crc32_u128_sse4_def)
next
  case False
  then show ?thesis
    using sw128.crc_block_axioms by (simp add: crc_block_def internal_crc32_u128_sse4_def)
qed

lemma sse4_wide_block:
  assumes "crc_block f m" and "crc_block g n" and "crc_block sw k" and "k = m + n"
    and "\<And>s p. hw s p = (if b then g (f s p) (drop m p) else sw s p)"
  shows "crc_block hw k"
proof (cases b)
  case True
  then show ?thesis
    using assms(4,5) by (intro crc_block_pairI [OF assms(1,2)]) simp_all
next
  case False
  then show ?thesis
    using assms(3,5) by (simp add: crc_block_def)
qed

lemma sse4_u256_block:
  assumes doc: "crc32_documented h"
  shows "crc_block (internal_crc32_u256_sse4 c h) 32"
  by (rule sse4_wide_block [OF sse4_u128_block [OF doc, of c] sse4_u128_block [OF doc, of c]
        sw256.crc_block_axioms, where b = "intrinsics_sse42 c"])
    (simp_all add: internal_crc32_u256_sse4_def)

lemma sse4_u384_block:
  assumes doc: "crc32_documented h"
  shows "crc_block (internal_crc32_u384_sse4 c h) 48"
  by (rule sse4_wide_block [OF sse4_u256_block [OF doc, of c] sse4_u128_block [OF doc, of c]
        sw384.crc_block_axioms, where b = "intrinsics_sse42 c"])
    (simp_all add: internal_crc32_u384_sse4_def)

lemma sse4_u512_block:
  assumes doc: "crc32_documented h"
  shows "crc_block (internal_crc32_u512_sse4 c h) 64"
  by (rule sse4_wide_block [OF sse4_u256_block [OF doc, of c] sse4_u256_block [OF doc, of c]
        sw512.crc_block_axioms, where b = "intrinsics_sse42 c"])
    (simp_all add: internal_crc32_u512_sse4_def)

lemma sse4_widths:
  assumes doc: "crc32_documented h"
  shows "hash_widths (LIBXSMM_HASH_CRC32_U64 c h) (LIBXSMM_HASH_CRC32_U32 h)
     (LIBXSMM_HASH_CRC32_U16 h) (LIBXSMM_HASH_CRC32_U8 h)"
  by (intro hash_widths.intro hw64_block hw32_block hw16_block hw8_block doc)

lemma internal_crc32_sse4_eq:
  "crc32_documented h \<Longrightarrow> length data < 2 ^ 64 \<Longrightarrow> internal_crc32_sse4 c h seed addr data = crc_ref seed data"
  by (simp add: internal_crc32_sse4_def internal_crc32_def sw.hash_eq
      hash_widths.hash_eq [OF sse4_widths])

text \<open>A record of intrinsics with the documented behaviour, to show that it is satisfiable.\<close>

definition crc_intrinsics_ref :: crc_intrinsics where
  "crc_intrinsics_ref = \<lparr>mm_crc32_u8 = crc_byte,
     mm_crc32_u16 = (\<lambda>s w. crc_ref s [ucast w, ucast (drop_bit 8 w)]),
     mm_crc32_u32 = (\<lambda>s w. crc_ref s [ucast w, ucast (drop_bit 8 w), ucast (drop_bit 16 w), ucast (drop_bit 24 w)]),
     mm_crc32_u64 = (\<lambda>s w. ucast (crc_ref (ucast s) [ucast w, ucast (drop_bit 8 w), ucast (drop_bit 16 w),
        ucast (drop_bit 24 w), ucast (drop_bit 32 w), ucast (drop_bit 40 w), ucast (drop_bit 48 w),
        ucast (drop_bit 56 w)]))\<rparr>"

lemma crc_intrinsics_ref_documented: "crc32_documented crc_intrinsics_ref"
  by (simp add: crc32_documented_def crc_intrinsics_ref_def le_load del: crc_ref_Cons)

section \<open>Properties\<close>

text \<open>
  C1: The hash of a buffer does not depend on how it is computed: for every build, every run-time
  target, every address and length of the buffer, \<open>libxsmm_crc32\<close> is the CRC32C of its bytes,
  provided the CRC32 intrinsics do what Intel documents.
\<close>

theorem libxsmm_crc32_correct:
  assumes "crc32_documented h" and "length data < 2 ^ 64"
  shows "libxsmm_crc32 c h (libxsmm_hash_init c h arch) seed addr data = crc_ref seed data"
  using assms
  by (simp add: libxsmm_crc32_def libxsmm_hash_init_def internal_crc32_sse4_eq internal_crc32_def
      sw.hash_eq)

theorem libxsmm_crc32_correct_witness:
  "libxsmm_crc32 \<lparr>intrinsics_sse42 = True, crc_u64_split = False, static_target_arch = 1002,
       max_static_target_arch = 1999\<rparr> crc_intrinsics_ref
     (libxsmm_hash_init \<lparr>intrinsics_sse42 = True, crc_u64_split = False, static_target_arch = 1002,
       max_static_target_arch = 1999\<rparr> crc_intrinsics_ref 1006) 0 8 [1, 2, 3]
   = crc_ref 0 [1, 2, 3]"
  by (rule libxsmm_crc32_correct [OF crc_intrinsics_ref_documented]) simp

text \<open>
  The fixed-width entry points (1, 2, 4, 8, 16, 32, 48 and 64 bytes) agree with the hash of the
  same bytes, so a registry key may be hashed by the function for its size or as a plain buffer.
\<close>

theorem libxsmm_crc32_widths:
  assumes doc: "crc32_documented h" and len: "64 \<le> length p"
  shows "let g = libxsmm_hash_init c h arch in
     libxsmm_crc32_u8 c h g seed p = crc_ref seed (take 1 p) \<and>
     libxsmm_crc32_u16 c h g seed p = crc_ref seed (take 2 p) \<and>
     libxsmm_crc32_u32 c h g seed p = crc_ref seed (take 4 p) \<and>
     libxsmm_crc32_u64 c h g seed p = crc_ref seed (take 8 p) \<and>
     libxsmm_crc32_u128 c h g seed p = crc_ref seed (take 16 p) \<and>
     libxsmm_crc32_u256 c h g seed p = crc_ref seed (take 32 p) \<and>
     libxsmm_crc32_u384 c h g seed p = crc_ref seed (take 48 p) \<and>
     libxsmm_crc32_u512 c h g seed p = crc_ref seed (take 64 p)"
proof -
  note hw = hw8_block [OF doc] hw16_block [OF doc] hw32_block [OF doc] hw64_block [OF doc, of c]
    sse4_u8_block [OF doc, of c] sse4_u16_block [OF doc, of c] sse4_u32_block [OF doc, of c]
    sse4_u64_block [OF doc, of c] sse4_u128_block [OF doc, of c] sse4_u256_block [OF doc, of c]
    sse4_u384_block [OF doc, of c] sse4_u512_block [OF doc, of c]
  note sw = sw8.block sw16.block sw32.block sw64.block sw128.block sw256.block sw384.block sw512.block
  show ?thesis
    using len
    by (simp add: libxsmm_hash_init_def Let_def hw [THEN crc_block.block] sw
        libxsmm_crc32_u8_def libxsmm_crc32_u16_def libxsmm_crc32_u32_def libxsmm_crc32_u64_def
        libxsmm_crc32_u128_def libxsmm_crc32_u256_def libxsmm_crc32_u384_def libxsmm_crc32_u512_def)
qed

text \<open>
  The four-byte step of the software path (one lookup in each of the four tables) equals four
  one-byte steps with the first table, for every seed.
\<close>

theorem crc32_u32_slicing:
  assumes "4 \<le> length p"
  shows "internal_crc32_u32 seed p =
     internal_crc32_u8 (internal_crc32_u8 (internal_crc32_u8 (internal_crc32_u8 seed p)
       (drop 1 p)) (drop 2 p)) (drop 3 p)"
proof -
  have "take 4 p = [ld8 p, ld8 (drop 1 p), ld8 (drop 2 p), ld8 (drop 3 p)]"
    using assms by (simp add: take4 ld8_def)
  then show ?thesis
    using assms by (simp add: internal_crc32_u32_bytes internal_crc32_u8_byte)
qed

text \<open>
  C2: A buffer may be hashed in pieces: the hash of the first piece seeds the second, wherever the
  buffer is split and wherever the pieces are stored.
\<close>

theorem internal_crc32_append:
  assumes "length (xs @ ys) < 2 ^ 64"
  shows "internal_crc32 (internal_crc32 seed a1 xs) a2 ys = internal_crc32 seed a3 (xs @ ys)"
  using assms by (simp add: internal_crc32_def sw.hash_eq crc_ref_append)

theorem internal_crc32_append_witness:
  "internal_crc32 (internal_crc32 1 8 [1, 2]) 3 [4] = internal_crc32 1 16 ([1, 2] @ [4])"
  by (rule internal_crc32_append) simp

end
