(* ===== verification/Lowp.thy ===== *)
theory Lowp
  imports Prelude
begin

text \<open>
  The conversions between \<open>float\<close> and the 16-bit and 8-bit formats of \<open>src/libxsmm_math.c\<close>:
  bfloat16, IEEE half, bf8 (5 exponent bits) and hf8 (4 exponent bits, no infinity). The sources
  reinterpret a \<open>float\<close> as an \<open>unsigned int\<close> through a union, so a \<open>float\<close> is its 32-bit
  pattern here. Also the array versions and the random numbers of \<open>src/libxsmm_lpflt_quant.c\<close>.
\<close>

type_synonym f32 = u32
type_synonym bf16 = u16
type_synonym f16 = u16
type_synonym bf8 = u8
type_synonym hf8 = u8

section \<open>Conversions to float\<close>

definition libxsmm_convert_f16_to_f32 :: "f16 \<Rightarrow> f32" where
  "libxsmm_convert_f16_to_f32 x =
     (let f32_bias = 127 :: u32;
          f16_bias = 15 :: u32;
          s = push_bit 16 (ucast x AND 0x8000) :: u32;
          e = drop_bit 10 (ucast x AND 0x7c00) :: u32;
          m = ucast x AND 0x03ff :: u32;
          e_norm = e + (f32_bias - f16_bias);
          (e_norm, m) =
            (if e = 0 \<and> m \<noteq> 0
             then (let lz_cnt = 9 :: nat;
                       lz_cnt = (if m > 0x1 then 8 else lz_cnt);
                       lz_cnt = (if m > 0x3 then 7 else lz_cnt);
                       lz_cnt = (if m > 0x7 then 6 else lz_cnt);
                       lz_cnt = (if m > 0xf then 5 else lz_cnt);
                       lz_cnt = (if m > 0x1f then 4 else lz_cnt);
                       lz_cnt = (if m > 0x3f then 3 else lz_cnt);
                       lz_cnt = (if m > 0x7f then 2 else lz_cnt);
                       lz_cnt = (if m > 0xff then 1 else lz_cnt);
                       lz_cnt = (if m > 0x1ff then 0 else lz_cnt)
                   in (e_norm - of_nat lz_cnt, push_bit (lz_cnt + 1) m AND 0x03ff))
             else if e = 0 \<and> m = 0 then (0, m)
             else if e = 0x1f then (0xff, m OR (if m = 0 then 0 else 0x0200))
             else (e_norm, m))
      in 0 OR push_bit 23 e_norm OR push_bit 13 m OR s)"

definition libxsmm_convert_bf8_to_f32 :: "bf8 \<Rightarrow> f32" where
  "libxsmm_convert_bf8_to_f32 x =
     (let inus = ucast x :: u16;
          tmp = push_bit 8 inus
      in libxsmm_convert_f16_to_f32 tmp)"

definition libxsmm_convert_hf8_to_f32 :: "hf8 \<Rightarrow> f32" where
  "libxsmm_convert_hf8_to_f32 x =
     (let f32_bias = 127 :: u32;
          f8_bias = 7 :: u32;
          s = push_bit 24 (ucast x AND 0x80) :: u32;
          e = drop_bit 3 (ucast x AND 0x78) :: u32;
          m = ucast x AND 0x07 :: u32;
          e_norm = e + (f32_bias - f8_bias);
          (e_norm, m) =
            (if e = 0 \<and> m \<noteq> 0
             then (let lz_cnt = 2 :: nat;
                       lz_cnt = (if m > 0x1 then 1 else lz_cnt);
                       lz_cnt = (if m > 0x3 then 0 else lz_cnt)
                   in (e_norm - of_nat lz_cnt, push_bit (lz_cnt + 1) m AND 0x07))
             else if e = 0 \<and> m = 0 then (0, m)
             else if e = 0xf \<and> m = 0x7 then (0xff, 0x4)
             else (e_norm, m))
      in 0 OR push_bit 23 e_norm OR push_bit 20 m OR s)"

definition libxsmm_convert_bf16_to_f32 :: "bf16 \<Rightarrow> f32" where
  "libxsmm_convert_bf16_to_f32 x =
     (let u = ucast x :: u32;
          u = (if u AND 0x7f80 = 0 then ucast (ucast (u AND 0x8000) :: u16) else u)
      in push_bit 16 u)"

section \<open>Conversions from float\<close>

definition libxsmm_convert_f32_to_bf16_truncate :: "f32 \<Rightarrow> bf16" where
  "libxsmm_convert_f32_to_bf16_truncate x =
     (let u = (if x AND 0x7f800000 = 0 then x AND 0x80000000 else x);
          u = (if u AND 0x7f800000 = 0x7f800000
               then (if u AND 0x007fffff = 0 then u else u OR 0x00400000)
               else u)
      in ucast (drop_bit 16 u))"

definition libxsmm_convert_f32_to_bf16_rnaz :: "f32 \<Rightarrow> bf16" where
  "libxsmm_convert_f32_to_bf16_rnaz x =
     (let u = (if x AND 0x7f800000 = 0 then x AND 0x80000000 else x);
          u = (if u AND 0x7f800000 = 0x7f800000
               then (if u AND 0x007fffff = 0 then u else u OR 0x00400000)
               else u + 0x00008000)
      in ucast (drop_bit 16 u))"

definition libxsmm_convert_f32_to_bf16_rne :: "f32 \<Rightarrow> bf16" where
  "libxsmm_convert_f32_to_bf16_rne x =
     (let u = (if x AND 0x7f800000 = 0 then x AND 0x80000000 else x);
          fixup = drop_bit 16 u AND 1;
          u = (if u AND 0x7f800000 = 0x7f800000
               then (if u AND 0x007fffff = 0 then u else u OR 0x00400000)
               else u + 0x00007fff + fixup)
      in ucast (drop_bit 16 u))"

definition libxsmm_convert_f32_to_f16 :: "f32 \<Rightarrow> f16" where
  "libxsmm_convert_f32_to_f16 x =
     (let f32_bias = 127 :: u32;
          f16_bias = 15 :: u32;
          u = (if x AND 0x7f800000 = 0 then x AND 0x80000000 else x AND 0xffffffff);
          s = drop_bit 16 (u AND 0x80000000);
          e_f32 = drop_bit 23 (u AND 0x7f800000);
          m_f32 = u AND 0x007fffff;
          (e, m) =
            (if e_f32 = 0xff
             then (0x1f, if m_f32 = 0 then 0 else drop_bit 13 m_f32 OR 0x200)
             else if e_f32 > f32_bias + f16_bias then (0x1f, 0)
             else if e_f32 < f32_bias - f16_bias - 10 then (0, 0)
             else if e_f32 \<le> f32_bias - f16_bias
             then (let m = m_f32 OR 0x00800000;
                       m = drop_bit (unat ((f32_bias - f16_bias) + 1 - e_f32)) m;
                       m = m OR drop_bit 13 ((m_f32 AND 0x1fff) + 0x1fff);
                       fixup = drop_bit 13 m AND 0x1;
                       m = m + 0x000000fff + fixup;
                       m = drop_bit 13 m
                   in (0, m))
             else (let fixup = drop_bit 13 m_f32 AND 0x1;
                       u = u + 0x000000fff + fixup;
                       e = drop_bit 23 (u AND 0x7f800000);
                       m = u AND 0x007fffff;
                       e = e - (f32_bias - f16_bias);
                       m = drop_bit 13 m
                   in (e, m)))
      in ucast (push_bit 10 e) OR ucast m OR ucast s)"

definition libxsmm_convert_f32_to_bf8_rne :: "f32 \<Rightarrow> bf8" where
  "libxsmm_convert_f32_to_bf8_rne x =
     (let u = libxsmm_convert_f32_to_f16 x;
          fixup = drop_bit 8 u AND 1;
          u = (if u AND 0x7c00 = 0x7c00
               then (if u AND 0x03ff = 0 then u else u OR 0x0200)
               else u + 0x007f + fixup)
      in ucast (drop_bit 8 u))"

definition libxsmm_convert_f32_to_bf8_stochastic :: "f32 \<Rightarrow> u32 \<Rightarrow> bf8" where
  "libxsmm_convert_f32_to_bf8_stochastic x seed =
     (let f16 = libxsmm_convert_f32_to_f16 x;
          f16 = (if f16 AND 0x7c00 = 0x7c00
                 then (if f16 AND 0x03ff = 0 then f16 else f16 OR 0x0200)
                 else if f16 AND 0x7c00 \<noteq> 0
                 then (let stochastic = ucast (seed AND ((0xff + 1) - 1)) :: u16
                       in f16 + stochastic)
                 else (let fixup = drop_bit 8 f16 AND 1 in f16 + 0x007f + fixup))
      in ucast (drop_bit 8 f16))"

definition libxsmm_convert_f16_to_hf8_rne :: "f16 \<Rightarrow> hf8" where
  "libxsmm_convert_f16_to_hf8_rne x =
     (let f16_bias = 15 :: u16;
          f8_bias = 7 :: u16;
          s = drop_bit 8 (x AND 0x8000);
          e_f16 = drop_bit 10 (x AND 0x7c00);
          m_f16 = x AND 0x03ff;
          (e, m) =
            (if e_f16 = 0x1f then (0xf, 0x7)
             else if e_f16 > f16_bias - f8_bias + 15
                  \<or> (e_f16 = f16_bias - f8_bias + 15 \<and> m_f16 > 0x0340) then (0xf, 0x7)
             else if e_f16 < f16_bias - f8_bias - 3 then (0, 0)
             else if e_f16 \<le> f16_bias - f8_bias
             then (let m = m_f16 OR 0x0400;
                       m = drop_bit (unat ((f16_bias - f8_bias) + 1 - e_f16)) m;
                       m = m OR drop_bit 7 ((m_f16 AND 0x007f) + 0x007f);
                       fixup = drop_bit 7 m AND 0x1;
                       m = m + (0x003f + fixup);
                       m = drop_bit 7 m
                   in (0, m))
             else (let fixup = drop_bit 7 m_f16 AND 0x1;
                       x = x + (0x003f + fixup);
                       e = drop_bit 10 (x AND 0x7c00);
                       m = x AND 0x03ff;
                       e = e - (f16_bias - f8_bias);
                       m = drop_bit 7 m
                   in (e, m)))
      in 0 OR ucast (push_bit 3 e) OR ucast m OR ucast s)"

definition libxsmm_convert_f32_to_hf8_rne :: "f32 \<Rightarrow> hf8" where
  "libxsmm_convert_f32_to_hf8_rne x =
     (let itm = libxsmm_convert_f32_to_f16 x in libxsmm_convert_f16_to_hf8_rne itm)"


section \<open>Fields of a pattern as numbers\<close>

definition f32_exp :: "f32 \<Rightarrow> nat" where
  "f32_exp x = unat x div 2 ^ 23 mod 2 ^ 8"

definition f32_mant :: "f32 \<Rightarrow> nat" where
  "f32_mant x = unat x mod 2 ^ 23"

definition f32_sign :: "f32 \<Rightarrow> nat" where
  "f32_sign x = unat x div 2 ^ 31"

lemma f32_masks:
  "(0x7f800000 :: u32) = push_bit 23 (mask 8)" "(0x007fffff :: u32) = push_bit 0 (mask 23)"
  "(0x80000000 :: u32) = push_bit 31 (mask 1)"
  by (simp_all add: mask_eq_exp_minus_1)

lemma f32_fields:
  "unat (x AND 0x7f800000 :: f32) = f32_exp x * 2 ^ 23"
  "unat (x AND 0x007fffff :: f32) = f32_mant x"
  "unat (x AND 0x80000000 :: f32) = f32_sign x * 2 ^ 31"
proof -
  have "unat x div 2 ^ 31 < 2"
    using unat_less_width [of x] by (simp add: less_mult_imp_div_less)
  then have s: "unat x div 2 ^ 31 mod 2 ^ 1 = unat x div 2 ^ 31"
    by simp
  show "unat (x AND 0x7f800000 :: f32) = f32_exp x * 2 ^ 23"
    unfolding f32_masks f32_exp_def by (rule unat_and_field) simp
  show "unat (x AND 0x007fffff :: f32) = f32_mant x"
    unfolding f32_masks f32_mant_def by (subst unat_and_field) simp_all
  show "unat (x AND 0x80000000 :: f32) = f32_sign x * 2 ^ 31"
    unfolding f32_masks f32_sign_def by (subst unat_and_field) (use s in simp_all)
qed

lemma f32_split: "unat x = f32_sign x * 2 ^ 31 + f32_exp x * 2 ^ 23 + f32_mant x"
proof -
  let ?a = "unat x div 8388608"
  have s: "unat x div 2147483648 = ?a div 256"
    by (simp flip: div_mult2_eq)
  have "unat x = ?a * 8388608 + unat x mod 8388608" and "?a = ?a div 256 * 256 + ?a mod 256"
    by (simp_all only: div_mult_mod_eq)
  then have "unat x = ?a div 256 * 2147483648 + ?a mod 256 * 8388608 + unat x mod 8388608"
    by linarith
  then show ?thesis
    by (simp add: f32_sign_def f32_exp_def f32_mant_def s)
qed

lemma f32_bounds: "f32_sign x < 2" "f32_exp x < 256" "f32_mant x < 2 ^ 23"
  using unat_less_width [of x] by (simp_all add: f32_sign_def f32_exp_def f32_mant_def less_mult_imp_div_less)

lemma f32_tests:
  "x AND 0x7f800000 = (0 :: f32) \<longleftrightarrow> f32_exp x = 0"
  "x AND 0x7f800000 = (0x7f800000 :: f32) \<longleftrightarrow> f32_exp x = 255"
  "x AND 0x007fffff = (0 :: f32) \<longleftrightarrow> f32_mant x = 0"
  by (simp_all add: word_unat_eq_iff f32_fields)

section \<open>Rounding to bfloat16\<close>

text \<open>
  For a normal number the four low bytes are unsigned magnitudes below the sign, so adding to them
  is adding to the magnitude; a carry out of the mantissa moves to the next exponent, and out of the
  largest exponent to infinity.
\<close>

lemma bf16_round_unat:
  assumes "f32_exp x \<noteq> 255" and "unat k \<le> 0x8000"
  shows "unat (ucast (drop_bit 16 (x + k)) :: bf16) = (unat x + unat k) div 2 ^ 16"
proof -
  have "f32_exp x \<le> 254"
    using assms(1) f32_bounds(2) [of x] by simp
  then have "unat x + unat k < 2 ^ 32"
    using f32_bounds [of x] assms(2) by (subst f32_split) simp
  then show ?thesis
    by (simp add: unat_drop_bit unat_add_small unat_ucast_mod less_mult_imp_div_less)
qed

lemma nearest_even_div:
  fixes X :: nat
  assumes "r = (X + (0x7fff + X div 2 ^ 16 mod 2)) div 2 ^ 16"
  shows "r * 2 ^ 16 \<le> X + 2 ^ 15 \<and> X \<le> r * 2 ^ 16 + 2 ^ 15 \<and>
     (X + 2 ^ 15 = r * 2 ^ 16 \<or> X = r * 2 ^ 16 + 2 ^ 15 \<longrightarrow> even r)"
proof -
  obtain q s where X: "X = 65536 * q + s" "s < 65536"
    by (metis mod_less_divisor mult_div_mod_eq zero_less_numeral)
  have q: "X div 2 ^ 16 = q"
    using X by simp
  show ?thesis
  proof (cases "s + 0x7fff + q mod 2 < 65536")
    case True
    then have "r = q"
      using X by (simp add: assms q)
    then show ?thesis
      using True X by (auto; presburger)
  next
    case False
    then have "r = Suc q"
      using X by (simp add: assms q)
    then show ?thesis
      using False X by (auto; presburger)
  qed
qed

lemma div_bounds:
  fixes a :: nat
  assumes "r = a div 2 ^ 16"
  shows "r * 2 ^ 16 \<le> a \<and> a < r * 2 ^ 16 + 2 ^ 16"
proof -
  have eq: "r * 2 ^ 16 + a mod 2 ^ 16 = a"
    unfolding assms by (rule div_mult_mod_eq)
  have lt: "a mod 2 ^ 16 < 2 ^ 16"
    by (rule mod_less_divisor) simp
  show ?thesis
    using eq lt by linarith
qed

lemma bf16_fixup: "unat (0x7fff + (drop_bit 16 x AND 1) :: f32) = 0x7fff + unat x div 2 ^ 16 mod 2"
proof -
  have one: "(1 :: u32) = mask 1"
    by simp
  have "unat (drop_bit 16 x AND 1 :: f32) = unat x div 2 ^ 16 mod 2 ^ 1"
    unfolding one take_bit_eq_mask [symmetric] by (rule unat_field)
  then show ?thesis
    by (subst unat_add_small) simp_all
qed

lemma bf16_rne_normal:
  assumes "f32_exp x \<noteq> 0" and "f32_exp x \<noteq> 255"
  shows "unat (libxsmm_convert_f32_to_bf16_rne x) = (unat x + (0x7fff + unat x div 2 ^ 16 mod 2)) div 2 ^ 16"
proof -
  have "libxsmm_convert_f32_to_bf16_rne x = ucast (drop_bit 16 (x + (0x7fff + (drop_bit 16 x AND 1))))"
    using assms by (simp add: libxsmm_convert_f32_to_bf16_rne_def f32_tests add.assoc)
  then show ?thesis
    using assms(2) bf16_round_unat [of x "0x7fff + (drop_bit 16 x AND 1)"] by (simp add: bf16_fixup)
qed

lemma bf16_rnaz_normal:
  assumes "f32_exp x \<noteq> 0" and "f32_exp x \<noteq> 255"
  shows "unat (libxsmm_convert_f32_to_bf16_rnaz x) = (unat x + 0x8000) div 2 ^ 16"
  using assms bf16_round_unat [of x "0x8000"]
  by (simp add: libxsmm_convert_f32_to_bf16_rnaz_def f32_tests)

lemma bf16_truncate_normal:
  assumes "f32_exp x \<noteq> 0" and "f32_exp x \<noteq> 255"
  shows "unat (libxsmm_convert_f32_to_bf16_truncate x) = unat x div 2 ^ 16"
  using assms bf16_round_unat [of x 0]
  by (simp add: libxsmm_convert_f32_to_bf16_truncate_def f32_tests)

text \<open>The patterns every conversion to bfloat16 treats alike: zeros and subnormals, infinities, NaNs.\<close>

definition bf16_of_special :: "f32 \<Rightarrow> bf16" where
  "bf16_of_special x =
     (if f32_exp x = 0 then ucast (drop_bit 16 (x AND 0x80000000))
      else if f32_mant x = 0 then ucast (drop_bit 16 x)
      else ucast (drop_bit 16 (x OR 0x00400000)))"

lemma f32_sign_only:
  "f32_exp (x AND 0x80000000) = 0" "f32_mant (x AND 0x80000000) = 0"
  by (simp_all add: f32_exp_def f32_mant_def f32_fields)

lemma drop16_sign_even: "drop_bit 16 (x AND 0x80000000) AND 1 = (0 :: f32)"
proof -
  have "x AND 0x80000000 = push_bit 31 (take_bit 1 (drop_bit 31 x))"
    by (simp only: f32_masks(3) and_field)
  then show ?thesis
    by (intro word_eq_bitI) (auto simp: bit_simps)
qed

lemma drop16_sign_add:
  assumes "unat k \<le> 0x8000"
  shows "ucast (drop_bit 16 ((x AND 0x80000000) + k)) = (ucast (drop_bit 16 (x AND 0x80000000 :: f32)) :: bf16)"
proof -
  have "unat (ucast (drop_bit 16 ((x AND 0x80000000) + k)) :: bf16) = (f32_sign x * 2 ^ 31 + unat k) div 2 ^ 16"
    using assms by (subst bf16_round_unat) (simp_all add: f32_sign_only f32_fields)
  also have "\<dots> = f32_sign x * 2 ^ 15"
    using assms by simp
  also have "\<dots> = unat (ucast (drop_bit 16 ((x AND 0x80000000) + 0)) :: bf16)"
    by (subst bf16_round_unat) (simp_all add: f32_sign_only f32_fields)
  finally show ?thesis
    by (simp add: word_unat_eq_iff)
qed

lemma bf16_special:
  assumes "f32_exp x = 0 \<or> f32_exp x = 255"
  shows "libxsmm_convert_f32_to_bf16_rne x = bf16_of_special x"
    and "libxsmm_convert_f32_to_bf16_rnaz x = bf16_of_special x"
    and "libxsmm_convert_f32_to_bf16_truncate x = bf16_of_special x"
proof -
  note defs = bf16_of_special_def libxsmm_convert_f32_to_bf16_rne_def f32_tests Let_def
    libxsmm_convert_f32_to_bf16_rnaz_def libxsmm_convert_f32_to_bf16_truncate_def f32_sign_only
  show "libxsmm_convert_f32_to_bf16_rne x = bf16_of_special x"
    using assms drop16_sign_add [of "0x7fff" x] drop16_sign_even [of x]
    by (auto simp: defs simp del: drop_bit_and)
  show "libxsmm_convert_f32_to_bf16_rnaz x = bf16_of_special x"
    using assms drop16_sign_add [of "0x8000" x] by (auto simp: defs simp del: drop_bit_and)
  show "libxsmm_convert_f32_to_bf16_truncate x = bf16_of_special x"
    using assms by (auto simp: defs)
qed

text \<open>
  C3: Rounding a normal \<open>float\<close> to bfloat16 with \<open>libxsmm_convert_f32_to_bf16_rne\<close> gives the
  nearest bfloat16, and the one with an even last bit when two are equally near; the \<open>rnaz\<close> version
  rounds ties away from zero, and \<open>truncate\<close> cuts the low half off. (Patterns are compared as
  numbers, a bfloat16 standing for the \<open>float\<close> it is the upper half of; the pattern after the
  largest finite number is infinity.)
\<close>

theorem bf16_rounding:
  assumes "f32_exp x \<noteq> 0" and "f32_exp x \<noteq> 255"
  shows "(let r = unat (libxsmm_convert_f32_to_bf16_rne x) in
       r * 2 ^ 16 \<le> unat x + 2 ^ 15 \<and> unat x \<le> r * 2 ^ 16 + 2 ^ 15 \<and>
       (unat x + 2 ^ 15 = r * 2 ^ 16 \<or> unat x = r * 2 ^ 16 + 2 ^ 15 \<longrightarrow> even r)) \<and>
     (let r = unat (libxsmm_convert_f32_to_bf16_rnaz x) in
       r * 2 ^ 16 \<le> unat x + 2 ^ 15 \<and> unat x < r * 2 ^ 16 + 2 ^ 15) \<and>
     (let r = unat (libxsmm_convert_f32_to_bf16_truncate x) in
       r * 2 ^ 16 \<le> unat x \<and> unat x < r * 2 ^ 16 + 2 ^ 16)"
proof -
  have "unat (libxsmm_convert_f32_to_bf16_rnaz x) * 2 ^ 16 \<le> unat x + 2 ^ 15 \<and>
      unat x < unat (libxsmm_convert_f32_to_bf16_rnaz x) * 2 ^ 16 + 2 ^ 15"
    using div_bounds [OF bf16_rnaz_normal [OF assms]] by simp
  then show ?thesis
    unfolding Let_def
    using nearest_even_div [OF bf16_rne_normal [OF assms]] div_bounds [OF bf16_truncate_normal [OF assms]]
    by blast
qed

theorem bf16_rounding_witness:
  "unat (libxsmm_convert_f32_to_bf16_rne 0x3f808000) * 2 ^ 16 \<le> 0x3f808000 + 2 ^ 15"
proof -
  have "f32_exp 0x3f808000 \<noteq> 0" "f32_exp 0x3f808000 \<noteq> 255"
    by (simp_all add: f32_exp_def)
  from bf16_rounding [OF this] show ?thesis
    by (simp add: Let_def)
qed

lemma bf16_of_special_zero:
  assumes "f32_exp x = 0"
  shows "unat (bf16_of_special x) = f32_sign x * 2 ^ 15"
proof -
  have "unat (bf16_of_special x) = unat (x AND 0x80000000) div 2 ^ 16 mod 2 ^ 16"
    using assms by (simp add: bf16_of_special_def unat_ucast_mod unat_drop_bit del: drop_bit_and)
  then show ?thesis
    using f32_bounds(1) [of x] by (simp add: f32_fields)
qed

lemma bf16_of_special_inf:
  assumes "f32_exp x = 255" and "f32_mant x = 0"
  shows "unat (bf16_of_special x) = f32_sign x * 2 ^ 15 + 0x7f80"
proof -
  have "unat (bf16_of_special x) = unat x div 2 ^ 16 mod 2 ^ 16"
    using assms by (simp add: bf16_of_special_def unat_ucast_mod unat_drop_bit)
  then show ?thesis
    using assms f32_bounds(1) [of x] by (simp add: f32_split [of x])
qed

lemma bf16_of_special_nan:
  assumes "f32_exp x = 255" and "f32_mant x \<noteq> 0"
  shows "bf16_of_special x AND 0x7fc0 = 0x7fc0"
proof (rule word_eq_bitI)
  have "f32_exp x \<noteq> 0"
    using assms by simp
  then have r: "bf16_of_special x = ucast (drop_bit 16 (x OR 0x00400000))"
    using assms by (simp add: bf16_of_special_def)
  have e: "x AND 0x7f800000 = 0x7f800000"
    using assms f32_tests(2) by blast
  fix i
  assume i: "i < LENGTH(16)"
  have "bit (x AND 0x7f800000) (i + 16) = bit (0x7f800000 :: f32) (i + 16)"
    using e by simp
  moreover have "i \<in> {0,1,2,3,4,5,6,7,8,9,10,11,12,13,14,15}"
    using i by (simp; arith)
  ultimately show "bit (bf16_of_special x AND 0x7fc0) i = bit (0x7fc0 :: bf16) i"
    unfolding r by (auto simp: bit_simps bit_numeral_simps)
qed


text \<open>
  All three bfloat16 conversions treat the special patterns alike: subnormals become a zero of
  the same sign, infinities are kept, and a NaN stays a NaN (its quiet bit is set, so cutting the low
  half off can never turn it into an infinity).
\<close>

theorem bf16_conversions_special:
  assumes "f32_exp x = 0 \<or> f32_exp x = 255"
  shows "libxsmm_convert_f32_to_bf16_rne x = bf16_of_special x \<and>
    libxsmm_convert_f32_to_bf16_rnaz x = bf16_of_special x \<and>
    libxsmm_convert_f32_to_bf16_truncate x = bf16_of_special x \<and>
    (f32_exp x = 0 \<longrightarrow> unat (bf16_of_special x) = f32_sign x * 2 ^ 15) \<and>
    (f32_exp x = 255 \<and> f32_mant x = 0 \<longrightarrow> unat (bf16_of_special x) = f32_sign x * 2 ^ 15 + 0x7f80) \<and>
    (f32_exp x = 255 \<and> f32_mant x \<noteq> 0 \<longrightarrow> bf16_of_special x AND 0x7fc0 = 0x7fc0)"
  using bf16_special [OF assms] bf16_of_special_zero bf16_of_special_inf bf16_of_special_nan by blast

text \<open>What a bfloat16 becomes when it passes through \<open>float\<close>.\<close>

definition bf16_canonical :: "bf16 \<Rightarrow> bf16" where
  "bf16_canonical b =
     (if b AND 0x7f80 = 0 then b AND 0x8000
      else if b AND 0x7f80 = 0x7f80 \<and> b AND 0x7f \<noteq> 0 then b OR 0x40
      else b)"

lemma bf16_exp_mask: "(0x7f80 :: u16) = push_bit 7 (mask 8)"
  by (simp add: mask_eq_exp_minus_1)

lemma bf16_mant_mask: "(0x7f :: u16) = push_bit 0 (mask 7)"
  by (simp add: mask_eq_exp_minus_1)

lemma bf16_tests:
  "b AND 0x7f80 = 0 \<longleftrightarrow> unat b div 2 ^ 7 mod 2 ^ 8 = 0"
  "b AND 0x7f80 = 0x7f80 \<longleftrightarrow> unat b div 2 ^ 7 mod 2 ^ 8 = 255"
  "b AND 0x7f = 0 \<longleftrightarrow> unat b mod 2 ^ 7 = 0"
  for b :: bf16
proof -
  have e: "unat (b AND 0x7f80) = unat b div 2 ^ 7 mod 2 ^ 8 * 2 ^ 7"
    unfolding bf16_exp_mask by (rule unat_and_field) simp
  have m: "unat (b AND 0x7f) = unat b mod 2 ^ 7"
    unfolding bf16_mant_mask by (subst unat_and_field) simp_all
  show "b AND 0x7f80 = 0 \<longleftrightarrow> unat b div 2 ^ 7 mod 2 ^ 8 = 0"
    "b AND 0x7f80 = 0x7f80 \<longleftrightarrow> unat b div 2 ^ 7 mod 2 ^ 8 = 255"
    "b AND 0x7f = 0 \<longleftrightarrow> unat b mod 2 ^ 7 = 0"
    using e m by (simp_all add: word_unat_eq_iff)
qed

lemma unat_bf16_widened: "unat (push_bit 16 (ucast (b :: bf16)) :: f32) = unat b * 2 ^ 16"
  using unat_less_width [of b] by (subst unat_push_bit_small) (simp_all add: unat_ucast_mod)

lemma bf16_widened_fields:
  fixes b :: bf16
  defines "x \<equiv> push_bit 16 (ucast b) :: f32"
  shows "f32_exp x = unat b div 2 ^ 7 mod 2 ^ 8" and "f32_mant x = unat b mod 2 ^ 7 * 2 ^ 16"
proof -
  have "(unat b * 65536) div 8388608 = unat b div 128"
    using div_mult2_eq [of "unat b * 65536" 65536 128] by simp
  then show "f32_exp x = unat b div 2 ^ 7 mod 2 ^ 8"
    unfolding f32_exp_def x_def unat_bf16_widened by simp
  have "unat b * 2 ^ 16 mod (2 ^ 7 * 2 ^ 16) = unat b mod 2 ^ 7 * 2 ^ 16"
    by (rule mult_mod_left [symmetric])
  then show "f32_mant x = unat b mod 2 ^ 7 * 2 ^ 16"
    unfolding f32_mant_def x_def unat_bf16_widened by (simp flip: power_add)
qed

lemma bf16_to_f32_cases:
  "libxsmm_convert_bf16_to_f32 b =
     (if b AND 0x7f80 = 0 then push_bit 16 (ucast (b AND 0x8000)) else push_bit 16 (ucast b))"
proof -
  have "(ucast b AND 0x7f80 = (0 :: u32)) \<longleftrightarrow> (b AND 0x7f80 = 0)"
  proof -
    have "ucast b AND 0x7f80 = (ucast (b AND 0x7f80) :: u32)"
      by (rule word_eq_bitI) (auto simp: bit_simps dest: bit_u16D)
    moreover have "unat (ucast c :: u32) = unat c" for c :: u16
      using unat_less_width [of c] by (simp add: unat_ucast_mod)
    ultimately show ?thesis
      by (metis unat_0 word_unat_eq_iff)
  qed
  moreover have "ucast (ucast (ucast b AND 0x8000 :: u32) :: u16) = (ucast (b AND 0x8000) :: u32)"
    by (rule word_eq_bitI) (auto simp: bit_simps dest: bit_u16D)
  ultimately show ?thesis
    by (simp add: libxsmm_convert_bf16_to_f32_def Let_def)
qed

lemma drop_bf16_widened: "ucast (drop_bit 16 (push_bit 16 (ucast b) :: f32)) = (b :: bf16)"
  by (rule word_eq_bitI) (auto simp: bit_simps)

lemma drop_bf16_quiet: "ucast (drop_bit 16 (push_bit 16 (ucast b) OR 0x00400000 :: f32)) = (b OR 0x40 :: bf16)"
proof (rule word_eq_bitI)
  fix i
  assume "i < LENGTH(16)"
  then have "i \<in> {0,1,2,3,4,5,6,7,8,9,10,11,12,13,14,15}"
    by (simp; arith)
  then show "bit (ucast (drop_bit 16 (push_bit 16 (ucast b) OR 0x00400000 :: f32)) :: bf16) i = bit (b OR 0x40) i"
    by (auto simp: bit_simps bit_numeral_simps)
qed

lemma bf16_of_special_widened:
  assumes "b AND 0x7f80 = 0 \<or> b AND 0x7f80 = 0x7f80"
  shows "bf16_of_special (libxsmm_convert_bf16_to_f32 b) = bf16_canonical b"
proof (cases "b AND 0x7f80 = 0")
  case True
  have "push_bit 16 (ucast (b AND 0x8000)) AND 0x80000000 = (push_bit 16 (ucast (b AND 0x8000)) :: f32)"
  proof -
    have m: "(0x80000000 :: f32) = push_bit 16 (ucast (0x8000 :: u16))"
      by simp
    have "push_bit 16 (ucast c) AND 0x80000000 = (push_bit 16 (ucast (c AND 0x8000)) :: f32)" for c :: u16
      unfolding m by (simp only: push_bit_and unsigned_and_eq)
    from this [of "b AND 0x8000"] show ?thesis
      by (simp only: and.assoc and.idem)
  qed
  moreover have "(b AND 0x8000) AND 0x7f80 = 0"
    by (simp add: and.assoc)
  ultimately show ?thesis
    using True bf16_widened_fields(1) [of "b AND 0x8000"] bf16_tests(1) [of "b AND 0x8000"]
    by (simp add: bf16_to_f32_cases bf16_of_special_def bf16_canonical_def drop_bf16_widened del: drop_bit_and)
next
  case False
  then have e: "b AND 0x7f80 = 0x7f80"
    using assms by blast
  show ?thesis
    using False e bf16_widened_fields [of b] bf16_tests(2,3) [of b]
    by (simp add: bf16_to_f32_cases bf16_of_special_def bf16_canonical_def drop_bf16_widened drop_bf16_quiet
        del: push_bit_or drop_bit_or)
qed

lemma bf16_normal_widened:
  assumes "b AND 0x7f80 \<noteq> 0" and "b AND 0x7f80 \<noteq> 0x7f80"
  defines "x \<equiv> libxsmm_convert_bf16_to_f32 b"
  shows "unat x = unat b * 2 ^ 16" and "f32_exp x \<noteq> 0" and "f32_exp x \<noteq> 255"
  using assms bf16_widened_fields(1) [of b] bf16_tests [of b]
  by (simp_all add: bf16_to_f32_cases unat_bf16_widened)

lemma bf16_exact_quotients:
  "(n * 2 ^ 16 + (0x7fff + n * 2 ^ 16 div 2 ^ 16 mod 2)) div 2 ^ 16 = (n :: nat)"
  "(n * 2 ^ 16 + 0x8000) div 2 ^ 16 = (n :: nat)"
proof -
  have q: "(n * 2 ^ 16 + k) div 2 ^ 16 = n" if "k < 2 ^ 16" for k :: nat
    using that by (subst div_mult_self3) simp_all
  have "0x7fff + m mod 2 < 2 ^ 16" for m :: nat
    using mod_less_divisor [of 2 m] by simp
  then show "(n * 2 ^ 16 + (0x7fff + n * 2 ^ 16 div 2 ^ 16 mod 2)) div 2 ^ 16 = n"
    by (rule q)
  show "(n * 2 ^ 16 + 0x8000) div 2 ^ 16 = n"
    by (rule q) simp
qed

text \<open>
  C4: A bfloat16 widened to \<open>float\<close> and narrowed again by any of the three conversions comes
  back unchanged, except that subnormals are flushed to zero and NaNs become quiet.
\<close>

theorem bf16_roundtrip:
  "libxsmm_convert_f32_to_bf16_rne (libxsmm_convert_bf16_to_f32 b) = bf16_canonical b \<and>
   libxsmm_convert_f32_to_bf16_rnaz (libxsmm_convert_bf16_to_f32 b) = bf16_canonical b \<and>
   libxsmm_convert_f32_to_bf16_truncate (libxsmm_convert_bf16_to_f32 b) = bf16_canonical b"
proof (cases "b AND 0x7f80 = 0 \<or> b AND 0x7f80 = 0x7f80")
  case True
  have "f32_exp (libxsmm_convert_bf16_to_f32 b) = 0 \<or> f32_exp (libxsmm_convert_bf16_to_f32 b) = 255"
    using True bf16_widened_fields(1) [of b] bf16_widened_fields(1) [of "b AND 0x8000"] bf16_tests(1,2) [of b]
      bf16_tests(1) [of "b AND 0x8000"] by (auto simp: bf16_to_f32_cases and.assoc)
  from bf16_special [OF this] show ?thesis
    by (simp add: bf16_of_special_widened True)
next
  case False
  then have n: "b AND 0x7f80 \<noteq> 0" "b AND 0x7f80 \<noteq> 0x7f80"
    by simp_all
  note x = bf16_normal_widened [OF n]
  have c: "bf16_canonical b = b"
    using n by (simp add: bf16_canonical_def)
  have "(n * 2 ^ 16) div 2 ^ 16 = n" for n :: nat
    by simp
  then show ?thesis
    unfolding c word_unat_eq_iff bf16_rne_normal [OF x(2,3)] bf16_rnaz_normal [OF x(2,3)]
      bf16_truncate_normal [OF x(2,3)] x(1) bf16_exact_quotients
    by simp
qed

end
