(* ===== verification/IntMath.thy ===== *)
theory IntMath
  imports Prelude
begin

text \<open>
  The integer arithmetic of \<open>src/libxsmm_generator.c\<close> (greatest common divisor, least common multiple,
  remainder search, prime factors, the knapsack of \<open>libxsmm_product_limit\<close>) and of \<open>src/libxsmm_math.c\<close>
  (co-primes and integer square roots), at the width of the C types: \<open>size_t\<close> is a 64-bit word. A loop
  that C may run for ever on some arguments is a \<open>partial_function\<close> of type \<open>option\<close>, and the
  theorems show that it returns. An access beyond the table of the knapsack is \<open>None\<close> as well.
\<close>

section \<open>The functions\<close>

subsection \<open>Greatest common divisor and least common multiple\<close>

function gcd_loop :: "u64 \<Rightarrow> u64 \<Rightarrow> u64" where
  "gcd_loop a b = (if 0 \<noteq> b then (let r = a mod b in gcd_loop b r) else a)"
  by pat_completeness auto
termination
  by (relation "measure (\<lambda>(a, b). unat b)")
     (auto simp: unat_mod unat_gt_0 intro!: mod_less_divisor)

declare gcd_loop.simps [simp del]

definition libxsmm_gcd :: "u64 \<Rightarrow> u64 \<Rightarrow> u64" where
  "libxsmm_gcd a b = (let a = gcd_loop a b in if 0 \<noteq> a then a else 1)"

definition libxsmm_lcm :: "u64 \<Rightarrow> u64 \<Rightarrow> u64" where
  "libxsmm_lcm a b =
    (let gcd = libxsmm_gcd a b
     in if 0 \<noteq> gcd then (a div gcd) * b else 0)"

subsection \<open>The remainder search\<close>

text \<open>A \<open>NULL\<close> argument is \<open>None\<close>.\<close>

partial_function (option) remainder_loop ::
  "u32 \<Rightarrow> u32 \<Rightarrow> u32 option \<Rightarrow> u32 option \<Rightarrow> u32 \<Rightarrow> u32 \<Rightarrow> u32 \<Rightarrow> u32 option" where
  "remainder_loop a b limit remainder ci c r =
    (if (case remainder of Some rem \<Rightarrow> rem | None \<Rightarrow> 0) < r
        \<and> (case limit of None \<Rightarrow> True | Some l \<Rightarrow> ci \<le> l) then
       let ri = ci mod a
       in if ri < r then remainder_loop a b limit remainder (ci + b) ci ri
          else remainder_loop a b limit remainder (ci + b) c r
     else Some c)"

definition libxsmm_remainder :: "u32 \<Rightarrow> u32 \<Rightarrow> u32 option \<Rightarrow> u32 option \<Rightarrow> u32 option" where
  "libxsmm_remainder a b limit remainder =
    (let ci = (if b < a \<and> 0 \<noteq> b then LIBXSMM_UP a b else b);
         c = a * ci;
         limit = (case limit of None \<Rightarrow> None
                  | Some l \<Rightarrow> if 0 = b \<or> (l div b) * b < a then None else Some l)
     in if 1 \<le> a then remainder_loop a b limit remainder ci c (a - 1) else Some c)"

subsection \<open>Prime factors\<close>

text \<open>
  \<open>strip_factor f c j fs\<close> is the inner \<open>while\<close> loop: it divides \<open>c\<close> by \<open>f\<close> as often as possible, where
  \<open>j\<close> is the quotient, and appends a factor to the array for each division.
\<close>

partial_function (option) strip_factor :: "u32 \<Rightarrow> u32 \<Rightarrow> u32 \<Rightarrow> u32 list \<Rightarrow> (u32 \<times> u32 list) option" where
  "strip_factor f c j fs =
    (if c = f * j then strip_factor f j (j div f) (fs @ [f]) else Some (c, fs))"

partial_function (option) primes_loop :: "u32 \<Rightarrow> u32 \<Rightarrow> u32 \<Rightarrow> u32 list \<Rightarrow> (u32 \<times> u32 list) option" where
  "primes_loop num i c fs =
    (if i \<le> c then
       (case strip_factor i c (c div i) fs of
          None \<Rightarrow> None
        | Some (c, fs) \<Rightarrow>
            if num < i * i then Some (c, fs) else primes_loop num (i + 2) c fs)
     else Some (c, fs))"

definition libxsmm_primes_u32 :: "u32 \<Rightarrow> u32 list option" where
  "libxsmm_primes_u32 num =
    (case (if 0 < num \<and> 0 = num AND 1 then strip_factor 2 num (num div 2) [] else Some (num, [])) of
       None \<Rightarrow> None
     | Some (c, fs) \<Rightarrow>
         (case primes_loop num 3 c fs of
            None \<Rightarrow> None
          | Some (c, fs) \<Rightarrow> Some (if 1 < c \<and> fs \<noteq> [] then fs @ [c] else fs)))"

subsection \<open>Products within a limit\<close>

abbreviation (input) LIBXSMM_PRODUCT_LIMIT :: nat where
  "LIBXSMM_PRODUCT_LIMIT \<equiv> 1024"

text \<open>
  The table \<open>k[2][LIBXSMM_PRODUCT_LIMIT]\<close> has two rows of \<open>LIBXSMM_PRODUCT_LIMIT\<close> entries, each a function from the
  index; the pointers \<open>k0\<close> and \<open>k1\<close> are the rows they point to. An access beyond the row has no defined result
  in C: it is \<open>None\<close>, and so is everything that needs it.
\<close>

type_synonym table_row = "nat \<Rightarrow> u32"

definition row_get :: "table_row \<Rightarrow> nat \<Rightarrow> u32 option" where
  "row_get k p = (if p < LIBXSMM_PRODUCT_LIMIT then Some (k p) else None)"

definition row_set :: "nat \<Rightarrow> u32 \<Rightarrow> table_row \<Rightarrow> table_row option" where
  "row_set p v k = (if p < LIBXSMM_PRODUCT_LIMIT then Some (k(p := v)) else None)"

definition knapsack_entry :: "u32 \<Rightarrow> table_row \<Rightarrow> nat \<Rightarrow> table_row \<Rightarrow> table_row option" where
  "knapsack_entry f k0 p k1 =
    (case row_get k0 p of
       None \<Rightarrow> None
     | Some h \<Rightarrow>
         if p < unat f then row_set p h k1
         else if f = 0 then None
         else (case row_get k0 (p div unat f) of
                 None \<Rightarrow> None
               | Some k0_pf \<Rightarrow> let g = f * k0_pf in row_set p (LIBXSMM_MAX g h) k1))"

definition knapsack_row :: "u32 \<Rightarrow> u32 \<Rightarrow> table_row \<Rightarrow> table_row \<Rightarrow> table_row option" where
  "knapsack_row maxp f k0 k1 =
    fold (\<lambda>p r. Option.bind r (knapsack_entry f k0 p)) [1..<Suc (unat maxp)] (Some k1)"

definition knapsack_init :: "u32 \<Rightarrow> (table_row \<times> table_row) option" where
  "knapsack_init maxp =
    (case fold (\<lambda>p r. Option.bind r (row_set p 1)) [0..<Suc (unat maxp)] (Some (\<lambda>_. 0)) of
       None \<Rightarrow> None
     | Some k0 \<Rightarrow> Some (k0(0 := 1), (\<lambda>_. 0)(0 := 1)))"

definition knapsack :: "u32 \<Rightarrow> u32 list \<Rightarrow> (table_row \<times> table_row) option" where
  "knapsack maxp fct =
    fold (\<lambda>f r. Option.bind r (\<lambda>(k0, k1). map_option (\<lambda>k1. (k1, k0)) (knapsack_row maxp f k0 k1)))
      fct (knapsack_init maxp)"

fun approx_loop :: "u32 \<Rightarrow> u32 \<Rightarrow> u32 list \<Rightarrow> u32" where
  "approx_loop limit result [] = result"
| "approx_loop limit result (x # fct) =
    (let f = result * x in if f \<le> limit then approx_loop limit f fct else result)"

definition internal_product_limit :: "u32 \<Rightarrow> u32 \<Rightarrow> u32 option" where
  "internal_product_limit prd limit =
    (case (if of_nat LIBXSMM_PRODUCT_LIMIT < limit then
             (let minfct = (limit + limit - 1) div of_nat LIBXSMM_PRODUCT_LIMIT;
                  maxfct = ucast (libxsmm_gcd (ucast prd) (ucast limit)) :: u32;
                  result = maxfct
              in if minfct < maxfct then
                   (case libxsmm_primes_u32 result of
                      None \<Rightarrow> None
                    | Some fct \<Rightarrow>
                        Some (case find (\<lambda>f. minfct < f) fct of Some f \<Rightarrow> f | None \<Rightarrow> result))
                 else Some result)
           else Some 1) of
       None \<Rightarrow> None
     | Some result \<Rightarrow>
         let maxp = (if of_nat LIBXSMM_PRODUCT_LIMIT < limit then limit div result else limit)
         in if maxp \<le> of_nat LIBXSMM_PRODUCT_LIMIT then
              (case libxsmm_primes_u32 (prd div result) of
                 None \<Rightarrow> None
               | Some fct \<Rightarrow>
                   (case knapsack maxp fct of
                      None \<Rightarrow> None
                    | Some (k0, k1) \<Rightarrow> map_option (\<lambda>k. result * k) (row_get k0 (unat maxp))))
            else
              (case libxsmm_primes_u32 prd of
                 None \<Rightarrow> None
               | Some fct \<Rightarrow> Some (approx_loop limit result fct)))"

definition libxsmm_product_limit :: "u32 \<Rightarrow> u32 \<Rightarrow> int \<Rightarrow> u32 option" where
  "libxsmm_product_limit prd limit is_lower =
    (case (if 1 < limit then internal_product_limit prd limit else Some limit) of
       None \<Rightarrow> None
     | Some result \<Rightarrow>
         if is_lower \<noteq> 0 then
           (if limit < prd then
              (case (if result < limit then internal_product_limit prd (2 * limit - 1) else Some result) of
                 None \<Rightarrow> None
               | Some result \<Rightarrow> Some (if result < limit then prd else result))
            else if 0 \<noteq> prd then Some (LIBXSMM_UP limit prd)
            else Some 0)
         else if prd < result then Some prd
         else Some result)"

subsection \<open>Co-primes\<close>

function coprime_gcd :: "u64 \<Rightarrow> u64 \<Rightarrow> u64" where
  "coprime_gcd a b = (let r = a mod b; a = b; b = r in if 0 \<noteq> b then coprime_gcd a b else a)"
  by pat_completeness auto
termination
  by (relation "measure (\<lambda>(a, b). if b = 0 then Suc (unat a) else unat b)")
     (auto simp: unat_mod unat_gt_0 intro!: mod_less_divisor)

declare coprime_gcd.simps [simp del]

definition coprime_d :: "u64 \<Rightarrow> u64" where
  "coprime_d n = (if 0 \<noteq> n AND 1 then 1 else 2)"

definition coprime_s :: "u64 \<Rightarrow> u64 \<Rightarrow> u64" where
  "coprime_s n minco =
    (if 0 \<noteq> n AND 1 then (LIBXSMM_MAX minco 1 - 1) OR 1 else minco AND NOT 1)"

text \<open>A division by zero is \<open>None\<close>.\<close>

function coprime_loop :: "u64 \<Rightarrow> u64 \<Rightarrow> u64 \<Rightarrow> u64 \<Rightarrow> u64 option" where
  "coprime_loop n minco i result =
    (if coprime_d n < i then
       let c = LIBXSMM_DELTA (coprime_s n minco) i
       in if c = 0 then None
          else let a = coprime_gcd n c
          in if 1 = a then coprime_loop n minco ((if c \<le> minco then coprime_d n else i) - coprime_d n) c
             else coprime_loop n minco (i - coprime_d n) result
     else Some result)"
  by pat_completeness auto
termination
  by (relation "measure (\<lambda>(n, minco, i, result). unat i)")
     (auto simp: coprime_d_def word_less_nat_alt unat_sub word_le_nat_alt split: if_splits)

declare coprime_loop.simps [simp del]

definition libxsmm_coprime :: "u64 \<Rightarrow> u64 \<Rightarrow> u64 option" where
  "libxsmm_coprime n minco =
    (let result = (if 1 < n then 1 else 0)
     in case coprime_loop n minco (if coprime_d n < n then n - 1 else 0) result of
          None \<Rightarrow> None
        | Some result \<Rightarrow> Some (if minco < result then 1 else result))"

definition libxsmm_coprime2 :: "u64 \<Rightarrow> u64 option" where
  "libxsmm_coprime2 n = libxsmm_coprime n (n div 2)"

subsection \<open>Integer square roots\<close>

function isqrt_u64_loop :: "u64 \<Rightarrow> u32 \<Rightarrow> u32 \<Rightarrow> u32" where
  "isqrt_u64_loop x s y =
    (if 0 < s then
       let b = ucast (y OR s) :: u64;
           y = y OR (if b * b \<le> x then s else 0)
       in isqrt_u64_loop x (drop_bit 1 s) y
     else y)"
  by pat_completeness auto
termination
  by (relation "measure (\<lambda>(x, s, y). unat s)") (auto simp: drop_bit_eq_div word_less_nat_alt unat_div)

declare isqrt_u64_loop.simps [simp del]

definition libxsmm_isqrt_u64 :: "u64 \<Rightarrow> u32" where
  "libxsmm_isqrt_u64 x = isqrt_u64_loop x 0x80000000 0"

function isqrt_u32_loop :: "u32 \<Rightarrow> int \<Rightarrow> u32 \<Rightarrow> u32" where
  "isqrt_u32_loop x s y =
    (if 0 < s then
       let b = y OR word_of_int s;
           y = drop_bit 1 y
       in if b \<le> x then isqrt_u32_loop (x - b) (drop_bit 2 s) (y OR word_of_int s)
          else isqrt_u32_loop x (drop_bit 2 s) y
     else y)"
  by pat_completeness auto
termination
  by (relation "measure (\<lambda>(x, s, y). nat s)") (auto simp: drop_bit_eq_div)

declare isqrt_u32_loop.simps [simp del]

definition libxsmm_isqrt_u32 :: "u32 \<Rightarrow> u32" where
  "libxsmm_isqrt_u32 x = isqrt_u32_loop x 0x40000000 0"

definition libxsmm_isqrt2_u32 :: "u32 \<Rightarrow> u32 option" where
  "libxsmm_isqrt2_u32 x = libxsmm_product_limit x (libxsmm_isqrt_u32 x) 0"


section \<open>Greatest common divisor and least common multiple\<close>

lemma unat_gcd_loop: "unat (gcd_loop a b) = gcd (unat a) (unat b)"
proof (induction a b rule: gcd_loop.induct)
  case (1 a b)
  show ?case
  proof (cases "b = 0")
    case True
    then show ?thesis by (simp add: gcd_loop.simps [of a 0])
  next
    case False
    then have "unat (gcd_loop a b) = gcd (unat b) (unat (a mod b))"
      using "1.IH" by (simp add: gcd_loop.simps [of a b])
    also have "\<dots> = gcd (unat a) (unat b)"
      by (simp add: unat_mod gcd_red_nat [symmetric] gcd.commute)
    finally show ?thesis .
  qed
qed

lemma unat_libxsmm_gcd:
  "unat (libxsmm_gcd a b) = (if a = 0 \<and> b = 0 then 1 else gcd (unat a) (unat b))"
proof -
  have "gcd_loop a b = 0 \<longleftrightarrow> a = 0 \<and> b = 0"
    using unat_gcd_loop [of a b] by (metis gcd_eq_0_iff unat_eq_zero)
  then show ?thesis
    by (simp add: libxsmm_gcd_def Let_def unat_gcd_loop)
qed

lemma unat_libxsmm_lcm: "unat (libxsmm_lcm a b) = lcm (unat a) (unat b) mod 2 ^ 64"
proof (cases "a = 0 \<and> b = 0")
  case True
  then show ?thesis
    using unat_libxsmm_gcd [of a b] by (simp add: libxsmm_lcm_def Let_def)
next
  case False
  then have g: "unat (libxsmm_gcd a b) = gcd (unat a) (unat b)" and g0: "libxsmm_gcd a b \<noteq> 0"
    using unat_libxsmm_gcd [of a b] by (auto simp: unat_eq_zero [symmetric] simp del: unat_eq_zero)
  have "unat (libxsmm_lcm a b) = (unat a div gcd (unat a) (unat b) * unat b) mod 2 ^ 64"
    using g0 by (simp add: libxsmm_lcm_def Let_def unat_word_ariths unat_div g mod_mult_left_eq)
  also have "unat a div gcd (unat a) (unat b) * unat b = lcm (unat a) (unat b)"
    by (simp add: lcm_nat_def dvd_div_mult)
  finally show ?thesis .
qed

text \<open>
  C26: \<open>libxsmm_gcd\<close> returns the greatest common divisor of any two \<open>size_t\<close> values, except that it returns
  one for two zeros; \<open>libxsmm_lcm\<close> returns their least common multiple modulo two to the 64, hence exactly when
  it is representable, without an intermediate overflow.
\<close>

theorem gcd_lcm_correct:
  "unat (libxsmm_gcd a b) = (if a = 0 \<and> b = 0 then 1 else gcd (unat a) (unat b)) \<and>
   unat (libxsmm_lcm a b) = lcm (unat a) (unat b) mod 2 ^ 64"
  using unat_libxsmm_gcd unat_libxsmm_lcm by blast

section \<open>Integer square roots\<close>

lemma unat_or_power:
  fixes y :: "'a::len word"
  assumes "2 ^ Suc n dvd unat y" and "n < LENGTH('a)"
  shows "unat (y OR 2 ^ n) = unat y + 2 ^ n" and "unat y + 2 ^ Suc n \<le> 2 ^ LENGTH('a)"
proof -
  have tb: "take_bit (Suc n) y = 0"
    using assms(1) unat_take_bit [of "Suc n" y] by (simp add: unsigned_eq_0_iff)
  have low: "\<not> bit y n"
    using tb by (metis bit_0_eq bit_take_bit_iff bot_apply bot_bool_def lessI)
  have dis: "y AND 2 ^ n = 0"
    by (rule word_eq_bitI) (use low in \<open>auto simp: bit_simps\<close>)
  have up: "unat (2 ^ n :: 'a word) = 2 ^ n"
    using assms(2) unat_push_bit_small [of "1 :: 'a word" n] by simp
  obtain k where k: "unat y = 2 ^ Suc n * k"
    using assms(1) by (auto elim: dvdE)
  obtain m where m: "LENGTH('a) = Suc n + m"
    using assms(2) by (metis Suc_leI le_iff_add)
  have "2 ^ Suc n * k < 2 ^ Suc n * (2 ^ m :: nat)"
    using unat_less_width [of y] by (simp add: k m power_add)
  then have "k + 1 \<le> 2 ^ m"
    by simp
  then have "2 ^ Suc n * (k + 1) \<le> 2 ^ Suc n * (2 ^ m :: nat)"
    by (rule mult_le_mono2)
  then show le: "unat y + 2 ^ Suc n \<le> 2 ^ LENGTH('a)"
    by (simp add: k m power_add algebra_simps)
  have "(0::nat) < 2 ^ n" by simp
  then have "unat y + 2 ^ n < 2 ^ LENGTH('a)"
    using le unfolding power_Suc by linarith
  then have "unat (y + 2 ^ n) = unat y + 2 ^ n"
    using up by (subst unat_add_small) simp_all
  then show "unat (y OR 2 ^ n) = unat y + 2 ^ n"
    using dis by (simp add: disjunctive_add_eq_or)
qed

lemma word_power_pos: "n < LENGTH('a) \<Longrightarrow> 0 < (2 ^ n :: 'a::len word)"
  by (simp add: word_gt_0)

text \<open>The loop of the 64-bit root fixes the bits of the result from the top.\<close>

lemma isqrt_u64_loop_invariant:
  assumes "n \<le> 32" and "2 ^ n dvd unat y" and "unat y ^ 2 \<le> unat x"
    and "unat x < (unat y + 2 ^ n) ^ 2"
  shows "let r = unat (isqrt_u64_loop x (if n = 0 then 0 else 2 ^ (n - 1)) y)
         in r ^ 2 \<le> unat x \<and> unat x < (r + 1) ^ 2"
  using assms
proof (induction n arbitrary: y)
  case 0
  then show ?case by (simp add: isqrt_u64_loop.simps [of _ 0])
next
  case (Suc n)
  let ?s = "2 ^ n :: u32" and ?b = "ucast (y OR 2 ^ n) :: u64"
  have n: "n < 32" using Suc.prems(1) by simp
  note ys = unat_or_power [OF Suc.prems(2)]
  have s0: "0 < ?s"
    using n by (intro word_power_pos) simp
  have half: "drop_bit 1 ?s = (if n = 0 then 0 else 2 ^ (n - 1))"
    by (rule word_eq_bitI) (use n in \<open>auto simp: bit_simps\<close>)
  have ub: "unat ?b = unat y + 2 ^ n"
    using ys n unat_less_width [of "y OR ?s"] by (simp add: unat_ucast_mod)
  have "unat ?b < 2 ^ 32"
    using unat_less_width [of "y OR ?s"] by (simp add: unat_ucast_mod)
  then have "unat ?b * unat ?b < 2 ^ 32 * 2 ^ 32"
    by (intro mult_strict_mono) simp_all
  then have bb: "unat (?b * ?b) = (unat y + 2 ^ n) ^ 2"
    by (simp add: unat_word_ariths ub power2_eq_square)
  let ?y = "y OR (if ?b * ?b \<le> x then ?s else 0)"
  have step: "isqrt_u64_loop x ?s y = isqrt_u64_loop x (if n = 0 then 0 else 2 ^ (n - 1)) ?y"
    using s0 half by (subst isqrt_u64_loop.simps) (simp add: Let_def)
  have d: "2 ^ n dvd unat y"
    using Suc.prems(2) by (meson dvd_trans le_imp_power_dvd lessI less_imp_le)
  have "2 ^ n dvd unat ?y \<and> unat ?y ^ 2 \<le> unat x \<and> unat x < (unat ?y + 2 ^ n) ^ 2"
  proof (cases "?b * ?b \<le> x")
    case True
    then have "unat ?y = unat y + 2 ^ n" and "(unat y + 2 ^ n) ^ 2 \<le> unat x"
      using ys n bb by (simp_all add: word_le_nat_alt)
    then show ?thesis
      using d Suc.prems(4) by (simp add: mult_2 add.assoc)
  next
    case False
    then have "unat x < (unat y + 2 ^ n) ^ 2"
      using bb by (simp add: word_le_nat_alt)
    with False show ?thesis
      using d Suc.prems(3) by simp
  qed
  then show ?case
    using Suc.IH [of ?y] n by (simp add: step)
qed

lemma isqrt_u32_loop_invariant:
  assumes "n \<le> 16" and "unat y = r * 2 ^ n" and "2 ^ n dvd r" and "unat x + r ^ 2 = X"
    and "X < (r + 2 ^ n) ^ 2" and "r + 2 ^ n \<le> 2 ^ 16"
  shows "let q = unat (isqrt_u32_loop x (if n = 0 then 0 else 4 ^ (n - 1)) y)
         in q ^ 2 \<le> X \<and> X < (q + 1) ^ 2"
  using assms
proof (induction n arbitrary: x y r)
  case 0
  then show ?case by (auto simp: isqrt_u32_loop.simps [of _ 0] Let_def)
next
  case (Suc n)
  have n: "n < 16" using Suc.prems(1) by simp
  have w: "word_of_int (4 ^ n) = (2 ^ (2 * n) :: u32)"
    by (simp add: power_mult)
  obtain q where q: "r = 2 ^ Suc n * q"
    using Suc.prems(3) by (auto elim: dvdE)
  have p2: "(2::nat) ^ (2 * n) = 4 ^ n"
    by (simp add: power_mult)
  have dy2: "unat y = 2 ^ Suc (2 * n) * (2 * q)"
    unfolding Suc.prems(2) q by (simp add: power_add mult_2 mult_2_right algebra_simps)
  then have dy: "2 ^ Suc (2 * n) dvd unat y"
    by (rule dvdI)
  have uy2: "unat (drop_bit 1 y) = 2 ^ Suc (2 * n) * q"
    by (simp add: unat_drop_bit dy2)
  have b: "unat (y OR word_of_int (4 ^ n)) = unat y + 4 ^ n"
    using n dy unat_or_power(1) [of "2 * n" y] unfolding w by (simp add: p2)
  have y2: "unat (drop_bit 1 y OR word_of_int (4 ^ n)) = 2 ^ Suc (2 * n) * q + 4 ^ n"
    using n uy2 unat_or_power(1) [of "2 * n" "drop_bit 1 y"] unfolding w by (simp add: p2)
  have sq: "(r + 2 ^ n) ^ 2 = r ^ 2 + unat y + 4 ^ n"
    unfolding Suc.prems(2) q by (simp add: power2_eq_square algebra_simps power_mult_distrib [symmetric])
  have half: "drop_bit 2 (4 ^ n :: int) = (if n = 0 then 0 else 4 ^ (n - 1))"
    by (cases n) (simp_all add: drop_bit_eq_div)
  have fr: "2 ^ n dvd r" "2 ^ n dvd r + 2 ^ n"
    unfolding q by simp_all
  let ?s = "word_of_int (4 ^ n) :: u32"
  show ?case
  proof (cases "y OR ?s \<le> x")
    case True
    then have le: "unat y + 4 ^ n \<le> unat x" and ux: "unat (x - (y OR ?s)) = unat x - (unat y + 4 ^ n)"
      using b by (simp_all add: word_le_nat_alt unat_sub)
    have "unat (drop_bit 1 y OR ?s) = (r + 2 ^ n) * 2 ^ n"
      unfolding y2 q by (simp add: p2 [symmetric] power_add mult_2 mult_2_right algebra_simps)
    moreover have "unat (x - (y OR ?s)) + (r + 2 ^ n) ^ 2 = X"
      using le ux sq Suc.prems(4) by simp
    moreover have "X < (r + 2 ^ n + 2 ^ n) ^ 2" and "r + 2 ^ n + 2 ^ n \<le> 2 ^ 16"
      using Suc.prems(5,6) by (simp_all add: mult_2 add.assoc)
    moreover have "isqrt_u32_loop x (4 ^ n) y
        = isqrt_u32_loop (x - (y OR ?s)) (if n = 0 then 0 else 4 ^ (n - 1)) (drop_bit 1 y OR ?s)"
      using True half by (subst isqrt_u32_loop.simps) (simp add: Let_def)
    ultimately show ?thesis
      using Suc.IH n fr(2) by simp
  next
    case False
    then have lt: "unat x < unat y + 4 ^ n"
      using b by (simp add: word_le_nat_alt)
    have "unat (drop_bit 1 y) = r * 2 ^ n"
      unfolding uy2 q by (simp add: power_add mult_2 mult_2_right algebra_simps)
    moreover have "X < (r + 2 ^ n) ^ 2" and "r + 2 ^ n \<le> 2 ^ 16"
      using lt sq Suc.prems(4,6) by simp_all
    moreover have "isqrt_u32_loop x (4 ^ n) y
        = isqrt_u32_loop x (if n = 0 then 0 else 4 ^ (n - 1)) (drop_bit 1 y)"
      using False half by (subst isqrt_u32_loop.simps) (simp add: Let_def)
    ultimately show ?thesis
      using Suc.IH [of "drop_bit 1 y" r x] n fr(1) Suc.prems(4) by simp
  qed
qed

text \<open>
  C24: Both integer square roots return the floor of the square root, for every 64-bit and every 32-bit argument.
\<close>

theorem isqrt_correct:
  "unat (libxsmm_isqrt_u64 x) ^ 2 \<le> unat x \<and> unat x < (unat (libxsmm_isqrt_u64 x) + 1) ^ 2 \<and>
   unat (libxsmm_isqrt_u32 z) ^ 2 \<le> unat z \<and> unat z < (unat (libxsmm_isqrt_u32 z) + 1) ^ 2"
proof -
  have x: "unat x < (2 ^ 32) ^ 2" and z: "unat z < (2 ^ 16) ^ 2"
    using unat_less_width [of x] unat_less_width [of z] by simp_all
  show ?thesis
    using isqrt_u64_loop_invariant [of 32 0 x] isqrt_u32_loop_invariant [of 16 0 0 z "unat z"] x z
    by (simp add: libxsmm_isqrt_u64_def libxsmm_isqrt_u32_def Let_def)
qed


section \<open>Prime factors\<close>

definition prime :: "nat \<Rightarrow> bool" where
  "prime p \<longleftrightarrow> 1 < p \<and> (\<forall>m. m dvd p \<longrightarrow> m = 1 \<or> m = p)"

abbreviation product_of :: "u32 list \<Rightarrow> nat" where
  "product_of fs \<equiv> prod_list (map unat fs)"

text \<open>All divisors of \<open>c\<close> but one are at least \<open>i\<close>.\<close>

definition rough :: "nat \<Rightarrow> nat \<Rightarrow> bool" where
  "rough i c \<longleftrightarrow> (\<forall>m. m dvd c \<longrightarrow> 1 < m \<longrightarrow> i \<le> m)"

lemma rough_dvd: "rough i c \<Longrightarrow> d dvd c \<Longrightarrow> rough i d"
  by (auto simp: rough_def intro: dvd_trans)

lemma rough_prime: "rough i c \<Longrightarrow> i dvd c \<Longrightarrow> 1 < i \<Longrightarrow> 0 < c \<Longrightarrow> prime i"
  unfolding prime_def
proof (intro conjI allI impI)
  fix m
  assume r: "rough i c" and i: "i dvd c" "1 < i" and m: "m dvd i"
  have "m \<le> i" and "0 < m"
    using m i(2) by (auto intro: dvd_imp_le dvd_pos_nat [of i m])
  moreover have "1 < m \<Longrightarrow> i \<le> m"
    using r dvd_trans [OF m i(1)] by (simp add: rough_def)
  ultimately show "m = 1 \<or> m = i"
    by linarith
qed

lemma rough_square: "rough i c \<Longrightarrow> 0 < c \<Longrightarrow> c < i * i \<Longrightarrow> c = 1 \<or> prime c"
proof (rule disjCI)
  assume r: "rough i c" and c: "0 < c" "c < i * i" and np: "\<not> prime c"
  show "c = 1"
  proof (rule ccontr)
    assume "c \<noteq> 1"
    with np c obtain m where m: "m dvd c" "m \<noteq> 1" "m \<noteq> c"
      by (auto simp: prime_def)
    then obtain k where k: "c = m * k" by (auto elim: dvdE)
    have "i \<le> m" "i \<le> k"
      using r m c k by (auto simp: rough_def intro!: Suc_lessI)
    then have "i * i \<le> c"
      unfolding k by (rule mult_le_mono)
    with c show False by simp
  qed
qed

lemma rough_odd_step: "rough i c \<Longrightarrow> odd c \<Longrightarrow> odd i \<Longrightarrow> \<not> i dvd c \<Longrightarrow> rough (i + 2) c"
  unfolding rough_def
proof (intro allI impI)
  fix m
  assume "\<forall>m. m dvd c \<longrightarrow> 1 < m \<longrightarrow> i \<le> m" and odd: "odd c" "odd i" and n: "\<not> i dvd c"
    and m: "m dvd c" "1 < m"
  then have "i \<le> m" and "m \<noteq> i" and "odd m"
    by (auto dest: dvd_trans)
  then have "m \<noteq> i + 1"
    using odd(2) by auto
  with \<open>i \<le> m\<close> \<open>m \<noteq> i\<close> show "i + 2 \<le> m"
    by simp
qed

lemma rough_less: "rough i c \<Longrightarrow> 0 < c \<Longrightarrow> c < i \<Longrightarrow> c = 1"
  using dvd_refl [of c] by (auto simp: rough_def dest!: spec [of _ c])

subsection \<open>The loops return\<close>

lemma strip_factor_returns:
  assumes "1 < unat f" and "0 < unat c"
  obtains k c' where "strip_factor f c (c div f) fs = Some (c', fs @ replicate k f)"
    and "unat c = unat f ^ k * unat c'" and "\<not> unat f dvd unat c'" and "0 < unat c'"
  using assms(2)
proof (induction "unat c" arbitrary: c fs thesis rule: less_induct)
  case less
  have eq: "c = f * (c div f) \<longleftrightarrow> unat f dvd unat c"
  proof -
    have "unat (f * (c div f)) = unat f * (unat c div unat f)"
      using le_less_trans [OF times_div_less_eq_dividend unat_less_width [of c]]
      by (subst unat_mult_small) (simp_all add: unat_div)
    then show ?thesis
      by (metis dvd_mult_div_cancel dvd_triv_left word_unat_eq_iff)
  qed
  show ?case
  proof (cases "unat f dvd unat c")
    case False
    then have "strip_factor f c (c div f) fs = Some (c, fs @ replicate 0 f)"
      by (subst strip_factor.simps) (simp add: eq)
    then show thesis
      by (rule less.prems(1)) (use False less.prems(2) in simp_all)
  next
    case True
    let ?j = "c div f"
    have j: "unat c = unat f * unat ?j"
      using True by (simp add: unat_div)
    moreover from j less.prems(2) have "0 < unat ?j"
      by (metis mult_0_right gr0I)
    ultimately have "0 < unat ?j" and "unat ?j < unat c"
      using assms(1) by simp_all
    then obtain k c' where "strip_factor f ?j (?j div f) (fs @ [f]) = Some (c', (fs @ [f]) @ replicate k f)"
      and "unat ?j = unat f ^ k * unat c'" and r: "\<not> unat f dvd unat c'" "0 < unat c'"
      using less.hyps by blast
    moreover have "strip_factor f c ?j fs = strip_factor f ?j (?j div f) (fs @ [f])"
      using True by (subst strip_factor.simps) (simp add: eq)
    ultimately have "strip_factor f c ?j fs = Some (c', fs @ replicate (Suc k) f)"
      and "unat c = unat f ^ Suc k * unat c'"
      using j by simp_all
    then show thesis
      using r by (rule less.prems(1))
  qed
qed

definition primes_inv :: "u32 \<Rightarrow> u32 \<Rightarrow> u32 \<Rightarrow> u32 list \<Rightarrow> bool" where
  "primes_inv num i c fs \<longleftrightarrow> product_of fs * unat c = unat num \<and> sorted fs \<and>
    (\<forall>f\<in>set fs. prime (unat f) \<and> f < i) \<and> 0 < unat c \<and> odd (unat c) \<and> rough (unat i) (unat c) \<and>
    odd (unat i) \<and> 3 \<le> unat i"

definition primes_post :: "u32 \<Rightarrow> u32 \<Rightarrow> u32 list \<Rightarrow> bool" where
  "primes_post num c fs \<longleftrightarrow> product_of fs * unat c = unat num \<and> sorted fs \<and>
    (\<forall>f\<in>set fs. prime (unat f) \<and> (1 < unat c \<longrightarrow> f \<le> c)) \<and> (unat c = 1 \<or> prime (unat c))"

text \<open>
  One round of the loop: the candidate is never the greatest 32-bit number, which three divides, so the next
  candidate does not wrap around.
\<close>

lemma primes_step:
  assumes inv: "primes_inv num i c fs" and "i \<le> c"
  obtains c' fs' where "strip_factor i c (c div i) fs = Some (c', fs')" and "primes_inv num (i + 2) c' fs'"
    and "unat (i + 2) = unat i + 2"
proof -
  obtain k c' where s: "strip_factor i c (c div i) fs = Some (c', fs @ replicate k i)"
    and c: "unat c = unat i ^ k * unat c'" and nd: "\<not> unat i dvd unat c'" and c0: "0 < unat c'"
    by (rule strip_factor_returns [of i c fs]) (use inv in \<open>simp_all add: primes_inv_def\<close>)
  have "unat i \<noteq> 2 ^ 32 - 1"
  proof
    assume m: "unat i = 2 ^ 32 - 1"
    then have "unat c = 2 ^ 32 - 1"
      using \<open>i \<le> c\<close> unat_less_width [of c] by (simp add: word_le_nat_alt)
    then have "3 dvd unat c"
      by simp
    then have "unat i \<le> 3"
      using inv by (simp add: primes_inv_def rough_def)
    with m show False
      by simp
  qed
  moreover have "odd (unat i)" "unat i < 2 ^ 32"
    using inv unat_less_width [of i] by (simp_all add: primes_inv_def)
  moreover from this have "unat i \<noteq> 2 ^ 32 - 2"
    by auto
  ultimately have i2: "unat (i + 2) = unat i + 2"
    by (subst unat_add_small) simp_all
  have r: "rough (unat i) (unat c)" and "rough (unat i) (unat c')"
    using inv rough_dvd c by (auto simp: primes_inv_def)
  moreover have "odd (unat c')"
    using inv c by (auto simp: primes_inv_def)
  ultimately have "rough (unat (i + 2)) (unat c')"
    unfolding i2 using nd inv by (intro rough_odd_step) (simp_all add: primes_inv_def)
  moreover have "prime (unat i)" if "0 < k"
    using that rough_prime [OF r] inv c by (simp add: primes_inv_def dvd_power)
  moreover have "f < i + 2" if "f < i \<or> f = i" for f
    using that i2 by (auto simp: word_less_nat_alt)
  moreover have "product_of (fs @ replicate k i) * unat c' = unat num"
    using inv c by (simp add: primes_inv_def prod_list_replicate ac_simps)
  ultimately have "primes_inv num (i + 2) c' (fs @ replicate k i)"
    using inv \<open>odd (unat c')\<close> c0 i2
    by (auto simp: primes_inv_def sorted_append less_imp_le)
  from that [OF s this i2] show thesis .
qed

lemma prod_list_ge_power: "\<forall>x\<in>set xs. 2 \<le> (x::nat) \<Longrightarrow> 2 ^ length xs \<le> prod_list xs"
  by (induction xs) (auto intro: mult_le_mono)

lemma product_of_primes: "\<forall>f\<in>set fs. prime (unat f) \<Longrightarrow> 2 ^ length fs \<le> product_of fs"
  using prod_list_ge_power [of "map unat fs"] by (fastforce simp: prime_def)

lemma product_of_primes_pos: "\<forall>f\<in>set fs. prime (unat f) \<Longrightarrow> 0 < product_of fs"
  by (rule order.strict_trans2 [OF _ product_of_primes]) simp_all

lemma prime_2: "prime 2"
proof -
  have "m = 1 \<or> m = 2" if "m dvd 2" for m :: nat
    using dvd_imp_le [OF that] that by (cases "m = 0") auto
  then show ?thesis
    by (simp add: prime_def)
qed

lemma primes_loop_returns:
  assumes "primes_inv num i c fs"
  obtains c' fs' where "primes_loop num i c fs = Some (c', fs')" and "primes_post num c' fs'"
  using assms
proof (induction "2 ^ 32 - unat i" arbitrary: i c fs thesis rule: less_induct)
  case less
  show ?case
  proof (cases "i \<le> c")
    case False
    then have "unat c = 1"
      using less.prems(2) by (intro rough_less [of "unat i"]) (simp_all add: primes_inv_def word_le_nat_alt)
    moreover have "primes_loop num i c fs = Some (c, fs)"
      using False by (subst primes_loop.simps) simp
    ultimately show thesis
      using less.prems by (auto simp: primes_inv_def primes_post_def)
  next
    case True
    with less.prems(2) obtain c' fs' where s: "strip_factor i c (c div i) fs = Some (c', fs')"
      and inv: "primes_inv num (i + 2) c' fs'" and i2: "unat (i + 2) = unat i + 2"
      by (rule primes_step)
    show thesis
    proof (cases "num < i * i")
      case True
      have "unat (i * i) \<le> unat i * unat i"
        by (simp add: unat_word_ariths)
      moreover have "0 < product_of fs'"
        using inv by (intro product_of_primes_pos) (simp add: primes_inv_def)
      then have "unat c' \<le> unat num"
        using inv mult_le_mono1 [of 1 "product_of fs'" "unat c'"] by (simp add: primes_inv_def)
      ultimately have "unat c' < unat i * unat i"
        using True by (simp add: word_less_nat_alt)
      then have "unat c' < unat (i + 2) * unat (i + 2)"
        unfolding i2 by simp
      then have "unat c' = 1 \<or> prime (unat c')"
        using inv by (intro rough_square) (simp_all add: primes_inv_def)
      moreover have "f \<le> c'" if "f \<in> set fs'" "1 < unat c'" for f
        using inv that by (auto simp: primes_inv_def rough_def word_le_nat_alt word_less_nat_alt dest!: bspec spec [of _ "unat c'"])
      moreover have "primes_loop num i c fs = Some (c', fs')"
        using True \<open>i \<le> c\<close> s by (subst primes_loop.simps) simp
      ultimately show thesis
        using inv by (intro less.prems(1)) (auto simp: primes_inv_def primes_post_def)
    next
      case False
      then have "primes_loop num i c fs = primes_loop num (i + 2) c' fs'"
        using \<open>i \<le> c\<close> s by (subst primes_loop.simps) simp
      moreover have "2 ^ 32 - unat (i + 2) < 2 ^ 32 - unat i"
        using i2 unat_less_width [of i] by simp
      ultimately show thesis
        using less.hyps [of "i + 2"] less.prems(1) inv by metis
    qed
  qed
qed

lemma rough_3: "odd c \<Longrightarrow> rough 3 c"
  unfolding rough_def by (metis One_nat_def Suc_leI Suc_1 dvd_trans le_neq_implies_less numeral_3_eq_3)

lemma primes_u32_returns:
  "\<exists>fs. libxsmm_primes_u32 num = Some fs \<and> length fs \<le> 31 \<and> sorted fs \<and>
     (if fs = [] then unat num \<le> 1 \<or> prime (unat num)
      else product_of fs = unat num \<and> (\<forall>f\<in>set fs. prime (unat f)))"
proof -
  have start: "\<exists>c fs. (if 0 < num \<and> 0 = num AND 1 then strip_factor 2 num (num div 2) [] else Some (num, []))
      = Some (c, fs) \<and> primes_inv num 3 c fs" if pos: "0 < num"
  proof (cases "num AND 1 = 0")
    case True
    obtain k c' where s: "strip_factor 2 num (num div 2) [] = Some (c', [] @ replicate k 2)"
      and c: "unat num = unat (2 :: u32) ^ k * unat c'" and "\<not> unat (2 :: u32) dvd unat c'" and "0 < unat c'"
      by (rule strip_factor_returns [of 2 num "[]"]) (use pos in \<open>simp_all add: word_less_nat_alt\<close>)
    then have "primes_inv num 3 c' (replicate k 2)"
      using rough_3 prime_2 by (simp add: primes_inv_def prod_list_replicate)
    then show ?thesis
      using True pos s by auto
  next
    case False
    then have "odd (unat num)"
      by (simp add: and_one_eq unat_eq_zero [symmetric] unat_mod odd_iff_mod_2_eq_one del: unat_eq_zero unsigned_eq_0_iff)
    then show ?thesis
      using False pos rough_3 by (auto simp: primes_inv_def word_less_nat_alt)
  qed
  show ?thesis
  proof (cases "num = 0")
    case True
    then show ?thesis
      by (simp add: libxsmm_primes_u32_def primes_loop.simps [of 0])
  next
    case False
    then obtain c fs where s: "(if 0 < num \<and> 0 = num AND 1 then strip_factor 2 num (num div 2) []
        else Some (num, [])) = Some (c, fs)" and "primes_inv num 3 c fs"
      using start by (auto simp: word_gt_0)
    then obtain c' fs' where l: "primes_loop num 3 c fs = Some (c', fs')" and post: "primes_post num c' fs'"
      using primes_loop_returns by blast
    let ?fs = "if 1 < c' \<and> fs' \<noteq> [] then fs' @ [c'] else fs'"
    have res: "libxsmm_primes_u32 num = Some ?fs"
      unfolding libxsmm_primes_u32_def s option.case prod.case l by simp
    have c1: "1 < c' \<longleftrightarrow> 1 < unat c'" and c0: "0 < unat c'"
      using post False by (auto simp: primes_post_def word_less_nat_alt prime_def)
    have fs: "sorted ?fs" "\<forall>f\<in>set ?fs. prime (unat f)"
      using post c1 by (auto simp: primes_post_def sorted_append)
    have p: "product_of ?fs = unat num" if "?fs \<noteq> []"
    proof (cases "1 < unat c'")
      case False
      then have "unat c' = 1" using c0 by simp
      then show ?thesis using post c1 by (simp add: primes_post_def)
    qed (use post that c1 in \<open>auto simp: primes_post_def\<close>)
    have "length ?fs < 32" if "?fs \<noteq> []"
    proof (rule power_less_imp_less_exp)
      show "(2::nat) ^ length ?fs < 2 ^ 32"
        using product_of_primes [OF fs(2)] p [OF that] unat_less_width [of num] by simp
    qed simp
    then have "length ?fs \<le> 31"
      by (cases "?fs = []") auto
    moreover have "?fs = [] \<Longrightarrow> unat num \<le> 1 \<or> prime (unat num)"
      using post by (auto simp: primes_post_def split: if_splits)
    ultimately show ?thesis
      using res fs p by auto
  qed
qed

text \<open>
  C21: \<open>libxsmm_primes_u32\<close> returns for every argument, with at most 31 factors in ascending order, which the array of
  32 holds. If there is no factor, the argument is zero, one or a prime; otherwise the factors are primes whose
  product is the argument. The candidate whose square wraps around does not harm.
\<close>

theorem primes_u32_factors:
  "\<exists>fs. libxsmm_primes_u32 num = Some fs \<and> length fs \<le> 31 \<and> sorted fs \<and>
     (if fs = [] then unat num \<le> 1 \<or> prime (unat num)
      else product_of fs = unat num \<and> (\<forall>f\<in>set fs. prime (unat f)))"
  by (rule primes_u32_returns)

theorem primes_u32_factors_witness:
  "\<exists>fs. libxsmm_primes_u32 360 = Some fs \<and> product_of fs = 360 \<and> length fs \<le> 31 \<and> (\<forall>f\<in>set fs. prime (unat f))"
proof -
  have "\<not> prime 360"
    by (auto simp: prime_def intro!: exI [of _ 2])
  then show ?thesis
    using primes_u32_factors [of 360] by (auto split: if_splits)
qed


section \<open>Products within a limit\<close>

text \<open>The products of the selections from a list of factors; for prime factors these are the divisors.\<close>

fun selections :: "nat list \<Rightarrow> nat set" where
  "selections [] = {1}"
| "selections (f # fs) = selections fs \<union> (*) f ` selections fs"

lemma selections_append: "selections (fs @ [f]) = selections fs \<union> (*) f ` selections fs"
  by (induction fs) (auto simp: image_image image_Un mult.left_commute)

lemma prime_dvd_mult_cases:
  assumes "prime f" and "d dvd f * x"
  shows "d dvd x \<or> (\<exists>e. d = f * e \<and> e dvd x)"
proof (cases "f dvd d")
  case True
  then show ?thesis
    using assms by (auto elim!: dvdE simp: prime_def)
next
  case False
  have "gcd f d = 1"
    using assms(1) False unfolding prime_def by (metis gcd_dvd1 gcd_dvd2)
  then have "coprime d f"
    by (simp add: coprime_iff_gcd_eq_1 gcd.commute)
  then show ?thesis
    using assms(2) by (simp add: coprime_dvd_mult_right_iff)
qed

lemma selections_divisors: "\<forall>f\<in>set fs. prime f \<Longrightarrow> d \<in> selections fs \<longleftrightarrow> d dvd prod_list fs"
proof (induction fs arbitrary: d)
  case (Cons f fs)
  then have IH: "d \<in> selections fs \<longleftrightarrow> d dvd prod_list fs" for d
    by simp
  have "d \<in> (*) f ` selections fs \<longleftrightarrow> (\<exists>e. d = f * e \<and> e dvd prod_list fs)"
    by (auto simp: IH image_iff)
  then show ?case
    using Cons.prems prime_dvd_mult_cases [of f d "prod_list fs"] by (auto simp: IH)
qed simp

lemma selections_pos: "\<forall>f\<in>set fs. 0 < f \<Longrightarrow> d \<in> selections fs \<Longrightarrow> 0 < d"
  by (induction fs arbitrary: d) auto

text \<open>\<open>m\<close> is the greatest element of \<open>S\<close> up to \<open>p\<close>.\<close>

definition best :: "nat set \<Rightarrow> nat \<Rightarrow> nat \<Rightarrow> bool" where
  "best S p m \<longleftrightarrow> m \<in> S \<and> m \<le> p \<and> (\<forall>s\<in>S. s \<le> p \<longrightarrow> s \<le> m)"

lemma best_step:
  assumes "best S p h" and "f \<le> p \<Longrightarrow> best S (p div f) g" and "0 < f" and "\<forall>s\<in>S. 0 < s"
  shows "best (S \<union> (*) f ` S) p (if p < f then h else max (f * g) h)"
proof -
  have m: "f * s \<le> p \<longleftrightarrow> s \<le> p div f" for s
    using assms(3) by (simp add: less_eq_div_iff_mult_less_eq mult.commute)
  have "p < f \<Longrightarrow> s \<in> S \<Longrightarrow> f * s \<le> p \<Longrightarrow> False" for s
    using assms(4) by (fastforce simp: m)
  note small = this
  show ?thesis
  proof (cases "p < f")
    case True
    then show ?thesis
      using assms(1) small by (auto simp: best_def)
  next
    case False
    then have h: "h \<in> S" "h \<le> p" "\<And>s. s \<in> S \<Longrightarrow> s \<le> p \<Longrightarrow> s \<le> h"
      and g: "g \<in> S" "f * g \<le> p" "\<And>s. s \<in> S \<Longrightarrow> f * s \<le> p \<Longrightarrow> f * s \<le> f * g"
      using assms(1,2) by (simp_all add: best_def m)
    show ?thesis
      unfolding best_def if_not_P [OF False]
    proof (intro conjI ballI impI)
      show "max (f * g) h \<in> S \<union> (*) f ` S"
        using h(1) g(1) by (auto simp: max_def)
      show "max (f * g) h \<le> p"
        using h(2) g(2) by simp
      show "s \<le> max (f * g) h" if "s \<in> S \<union> (*) f ` S" and "s \<le> p" for s
        using that h(3) g(3) by (auto simp: le_max_iff_disj)
    qed
  qed
qed

text \<open>One row of the table, from the entries of the row before.\<close>

definition row_entry :: "u32 \<Rightarrow> table_row \<Rightarrow> nat \<Rightarrow> u32" where
  "row_entry f k0 p = (if p < unat f then k0 p else LIBXSMM_MAX (f * k0 (p div unat f)) (k0 p))"

lemma fold_one_upt: "fold s [1..<Suc (Suc n)] k = s (Suc n) (fold s [1..<Suc n] k)"
  by simp

lemma knapsack_entry_eq:
  assumes "p < 1024" and "0 < unat f"
  shows "knapsack_entry f k0 p k1 = Some (k1(p := row_entry f k0 p))"
proof -
  have "p div unat f < 1024"
    using assms(1) div_le_dividend le_less_trans by blast
  moreover have "f \<noteq> 0"
    using assms(2) by auto
  ultimately show ?thesis
    using assms(1) by (simp add: knapsack_entry_def row_get_def row_set_def row_entry_def Let_def)
qed

lemma knapsack_row_entries:
  assumes "unat maxp < 1024" and "0 < unat f"
  shows "knapsack_row maxp f k0 k1 = Some (\<lambda>p. if 1 \<le> p \<and> p \<le> unat maxp then row_entry f k0 p else k1 p)"
proof -
  let ?step = "\<lambda>p r. Option.bind r (knapsack_entry f k0 p)"
  have "fold ?step [1..<Suc n] (Some k1) = Some (\<lambda>p. if 1 \<le> p \<and> p \<le> n then row_entry f k0 p else k1 p)"
    if "n < 1024" for n
    using that
  proof (induction n)
    case 0
    then show ?case by (auto simp: fun_eq_iff)
  next
    case (Suc n)
    have "fold ?step [1..<Suc (Suc n)] (Some k1) = ?step (Suc n) (fold ?step [1..<Suc n] (Some k1))"
      by (rule fold_one_upt)
    also have "fold ?step [1..<Suc n] (Some k1) = Some (\<lambda>p. if 1 \<le> p \<and> p \<le> n then row_entry f k0 p else k1 p)"
      using Suc.prems by (intro Suc.IH) simp
    also have "?step (Suc n) \<dots> = Some (\<lambda>p. if 1 \<le> p \<and> p \<le> Suc n then row_entry f k0 p else k1 p)"
      using Suc.prems assms(2) by (auto simp: knapsack_entry_eq fun_eq_iff le_Suc_eq)
    finally show ?case .
  qed
  from this [OF assms(1)] show ?thesis
    unfolding knapsack_row_def .
qed

lemma row_entry_best:
  assumes "unat maxp < 1024" and "0 < unat f" and "1 \<le> p" and "p \<le> unat maxp" and "\<forall>s\<in>S. 0 < s"
    and IH: "\<And>p. 1 \<le> p \<Longrightarrow> p \<le> unat maxp \<Longrightarrow> best S p (unat (k p))"
  shows "best (S \<union> (*) (unat f) ` S) p (unat (row_entry f k p))"
proof -
  let ?h = "k p" and ?g = "k (p div unat f)"
  have g: "best S (p div unat f) (unat ?g)" if "unat f \<le> p"
  proof (rule IH)
    show "1 \<le> p div unat f"
      using that assms(2) by (simp add: Suc_le_eq div_greater_zero_iff)
    show "p div unat f \<le> unat maxp"
      using assms(4) div_le_dividend le_trans by blast
  qed
  have fg: "unat (f * ?g) = unat f * unat ?g" if "unat f \<le> p"
  proof (rule unat_mult_small)
    have "unat f * unat ?g \<le> p"
      using g [OF that] by (simp add: best_def less_eq_div_iff_mult_less_eq assms(2) mult.commute)
    then show "unat f * unat ?g < 2 ^ LENGTH(32)"
      using assms(1,4) by simp
  qed
  have "unat (row_entry f k p) = (if p < unat f then unat ?h else max (unat f * unat ?g) (unat ?h))"
    using fg by (auto simp: row_entry_def LIBXSMM_MAX_def max_def word_less_nat_alt not_less)
  then show ?thesis
    using best_step [OF IH [OF assms(3,4)] g] assms(2,5) by simp
qed

lemma fold_row_set:
  "fold (\<lambda>p r. Option.bind r (row_set p 1)) [0..<n] (Some k) =
    (if n \<le> 1024 then Some (\<lambda>p. if p < n then 1 else k p) else None)"
proof (induction n)
  case (Suc n)
  then show ?case
    by (auto simp: row_set_def fun_eq_iff less_Suc_eq)
qed simp

lemma knapsack_init_eq:
  "knapsack_init maxp = (if unat maxp < 1024 then Some (\<lambda>p. if p \<le> unat maxp then 1 else 0, (\<lambda>_. 0)(0 := 1)) else None)"
  by (auto simp: knapsack_init_def fold_row_set fun_eq_iff less_Suc_eq_le Suc_le_eq simp del: upt_Suc)

lemma knapsack_append:
  "knapsack maxp (fct @ [f]) =
    Option.bind (knapsack maxp fct) (\<lambda>(k0, k1). map_option (\<lambda>k1. (k1, k0)) (knapsack_row maxp f k0 k1))"
  by (simp add: knapsack_def)

text \<open>Within the bounds of a row the table exists, and its entries are the best products.\<close>

lemma knapsack_best:
  assumes "unat maxp < 1024" and "\<forall>f\<in>set fct. 0 < unat f"
  shows "\<exists>k0 k1. knapsack maxp fct = Some (k0, k1) \<and>
    (\<forall>p. 1 \<le> p \<longrightarrow> p \<le> unat maxp \<longrightarrow> best (selections (map unat fct)) p (unat (k0 p)))"
  using assms(2)
proof (induction fct rule: rev_induct)
  case Nil
  then show ?case
    using assms(1) by (simp add: knapsack_def knapsack_init_eq best_def)
next
  case (snoc f fct)
  obtain k0 k1 where k: "knapsack maxp fct = Some (k0, k1)"
    and IH: "\<And>p. 1 \<le> p \<Longrightarrow> p \<le> unat maxp \<Longrightarrow> best (selections (map unat fct)) p (unat (k0 p))"
    using snoc by auto
  have "\<forall>s\<in>selections (map unat fct). 0 < s"
    using selections_pos [of "map unat fct"] snoc.prems by simp
  then have "best (selections (map unat (fct @ [f]))) p (unat (row_entry f k0 p))" if "1 \<le> p" "p \<le> unat maxp" for p
    using row_entry_best [of maxp f p "selections (map unat fct)" k0] assms(1) snoc.prems that IH
    by (simp add: selections_append)
  then show ?case
    using snoc.prems by (simp add: knapsack_append k knapsack_row_entries [OF assms(1)])
qed

text \<open>
  With a limit of 1024 the loops run to the index 1024 of rows with 1024 entries: there is no defined result,
  whatever the product. (In the memory of the array, entry 1024 of the first row is the first one of the second row, and
  entry 1024 of the second row is behind the array.)
\<close>

lemma knapsack_overruns: "knapsack 1024 fct = None"
  by (induction fct rule: rev_induct) (simp_all add: knapsack_append, simp add: knapsack_def knapsack_init_eq)

lemma product_limit_overruns: "libxsmm_product_limit prd 1024 0 = None"
  using primes_u32_returns [of prd]
  by (auto simp: libxsmm_product_limit_def internal_product_limit_def knapsack_overruns)

lemma internal_product_limit_best:
  assumes "0 < limit" and "limit < 1024" and "0 < prd"
  obtains r where "internal_product_limit prd limit = Some r" and "unat r dvd unat prd" and "0 < r" and "r \<le> limit"
    and "\<not> prime (unat prd) \<Longrightarrow> \<forall>d. d dvd unat prd \<longrightarrow> d \<le> unat limit \<longrightarrow> d \<le> unat r"
proof -
  obtain fs where fs: "libxsmm_primes_u32 prd = Some fs"
    and f: "if fs = [] then unat prd \<le> 1 \<or> prime (unat prd) else product_of fs = unat prd \<and> (\<forall>f\<in>set fs. prime (unat f))"
    using primes_u32_returns [of prd] by blast
  have l: "unat limit < 1024" "1 \<le> unat limit"
    using assms(1,2) by (simp_all add: word_less_nat_alt)
  have fp: "\<forall>f\<in>set fs. prime (unat f)"
    using f by (auto split: if_splits)
  then have "\<forall>f\<in>set fs. 0 < unat f"
    by (auto simp: prime_def)
  then obtain k0 k1 where k: "knapsack limit fs = Some (k0, k1)"
    and "best (selections (map unat fs)) (unat limit) (unat (k0 (unat limit)))"
    using knapsack_best [OF l(1)] l(2) by blast
  let ?r = "k0 (unat limit)"
  from \<open>best (selections (map unat fs)) (unat limit) (unat ?r)\<close> have b: "best {d. d dvd product_of fs} (unat limit) (unat ?r)"
    using selections_divisors [of "map unat fs"] fp by (simp add: best_def)
  have "unat prd \<noteq> 0"
    using assms(3) by (simp add: word_less_nat_alt)
  have d: "unat ?r dvd unat prd"
    using b f by (auto simp: best_def split: if_splits)
  show thesis
  proof (rule that)
    show "internal_product_limit prd limit = Some ?r"
    proof -
      have "\<not> 1024 < limit" "limit \<le> 1024"
        using assms(2) by simp_all
      then show ?thesis
        using l(1) by (simp add: internal_product_limit_def fs k row_get_def)
    qed
    show "unat ?r dvd unat prd" by (rule d)
    show "0 < ?r"
      using d \<open>unat prd \<noteq> 0\<close> by (auto simp: word_gt_0)
    show "?r \<le> limit"
      using b by (simp add: best_def word_le_nat_alt)
    show "\<forall>d. d dvd unat prd \<longrightarrow> d \<le> unat limit \<longrightarrow> d \<le> unat ?r" if "\<not> prime (unat prd)"
    proof -
      have "product_of fs = unat prd"
        using f that \<open>unat prd \<noteq> 0\<close> by (auto split: if_splits)
      then show ?thesis
        using b by (simp add: best_def)
    qed
  qed
qed

text \<open>
  C22: For a limit below 1024, where every access stays within the table, \<open>libxsmm_product_limit\<close> with an upper limit returns a divisor of the product
  within the limit, and unless the product is a prime there is no greater one; with a lower limit (up to
  512, below the product) it returns a divisor of the product that reaches the limit and is either the
  product or less than twice the limit.
\<close>

theorem product_limit_divisor:
  assumes "0 < limit" and "limit < 1024" and "0 < prd"
  shows "(\<exists>r. libxsmm_product_limit prd limit 0 = Some r \<and> unat r dvd unat prd \<and> r \<le> limit \<and>
      (prime (unat prd) \<or> (\<forall>d. d dvd unat prd \<longrightarrow> d \<le> unat limit \<longrightarrow> d \<le> unat r))) \<and>
    (limit \<le> 512 \<longrightarrow> limit < prd \<longrightarrow>
      (\<exists>r. libxsmm_product_limit prd limit 1 = Some r \<and> unat r dvd unat prd \<and> limit \<le> r \<and>
        (r = prd \<or> unat r < 2 * unat limit)))"
proof -
  obtain r where r: "internal_product_limit prd limit = Some r" "unat r dvd unat prd" "0 < r" "r \<le> limit"
    and best: "\<not> prime (unat prd) \<Longrightarrow> \<forall>d. d dvd unat prd \<longrightarrow> d \<le> unat limit \<longrightarrow> d \<le> unat r"
    using internal_product_limit_best [OF assms] by blast
  have l1: "limit = 1" if "\<not> 1 < limit"
    using that assms(1) by (metis word_less_1 not_less_iff_gr_or_eq word_gt_0)
  have p0: "0 < unat prd"
    using assms(3) by (simp add: word_less_nat_alt)
  have r1: "r = 1" if "limit = 1"
    using that r(3,4) by (metis antisym word_less_1 not_less word_gt_0)
  then have first: "(if 1 < limit then internal_product_limit prd limit else Some limit) = Some r"
    using l1 r(1) by auto
  have "\<not> prd < r"
    using dvd_imp_le [OF r(2) p0] by (simp add: word_less_nat_alt)
  then have "libxsmm_product_limit prd limit 0 = Some r"
    by (simp add: libxsmm_product_limit_def first)
  moreover have "\<exists>q. libxsmm_product_limit prd limit 1 = Some q \<and> unat q dvd unat prd \<and> limit \<le> q \<and>
      (q = prd \<or> unat q < 2 * unat limit)" if small: "limit \<le> 512" and lt: "limit < prd"
  proof (cases "r < limit")
    case False
    then have "r = limit"
      using r(4) by simp
    moreover have "0 < unat limit"
      using assms(1) by (simp add: word_less_nat_alt)
    ultimately show ?thesis
      using lt r(2) first by (simp add: libxsmm_product_limit_def)
  next
    case True
    have "unat limit \<le> 512" and "0 < unat limit"
      using small assms(1) by (simp_all add: word_le_nat_alt word_less_nat_alt)
    then have u: "unat (2 * limit - 1) = 2 * unat limit - 1"
      by (subst unat_sub) (simp_all add: word_le_nat_alt unat_mult_small)
    then have "0 < 2 * limit - 1" and "2 * limit - 1 < 1024"
      using \<open>unat limit \<le> 512\<close> \<open>0 < unat limit\<close> by (simp_all add: word_le_nat_alt word_less_nat_alt)
    then obtain q where q: "internal_product_limit prd (2 * limit - 1) = Some q" "unat q dvd unat prd"
      "q \<le> 2 * limit - 1"
      using internal_product_limit_best [of "2 * limit - 1" prd] assms(3) by blast
    then have "unat q < 2 * unat limit"
      using u \<open>0 < unat limit\<close> by (simp add: word_le_nat_alt)
    then show ?thesis
      using True lt first q(1,2) by (auto simp: libxsmm_product_limit_def)
  qed
  ultimately show ?thesis
    using r best by blast
qed

theorem product_limit_divisor_witness:
  "\<exists>r. libxsmm_product_limit 12 7 0 = Some r \<and> unat r dvd 12 \<and> r \<le> 7"
  using product_limit_divisor [of 7 12] by auto

text \<open>
  Where the result is not what the header of the function promises: a prime product within the limit is
  lost, the product that reaches a lower limit need not be the least, and beyond 1024 the result need not
  divide the product.
\<close>

lemma primes_5: "libxsmm_primes_u32 5 = Some []"
  by (simp add: libxsmm_primes_u32_def primes_loop.simps [of 5] strip_factor.simps [of 3] strip_factor.simps [of 5])

lemma product_limit_prime: "libxsmm_product_limit 5 6 0 = Some 1"
proof -
  have "internal_product_limit 5 6 = Some 1"
    by (simp add: internal_product_limit_def primes_5 knapsack_def knapsack_init_eq row_get_def)
  then show ?thesis
    by (simp add: libxsmm_product_limit_def)
qed

lemma product_limit_not_least: "libxsmm_product_limit 320 33 1 = Some 64 \<and> (33 :: nat) \<le> 40 \<and> (40 :: nat) dvd 320"
proof -
  have np: "\<not> prime 320"
    by (auto simp: prime_def intro!: exI [of _ 2])
  obtain r where r: "internal_product_limit 320 33 = Some r" "unat r dvd 320" "r \<le> 33"
    "\<forall>d. d dvd 320 \<longrightarrow> d \<le> 33 \<longrightarrow> d \<le> unat r"
    using internal_product_limit_best [of 33 320] np by auto
  then have "unat r = 32 \<or> unat r = 33"
    by (auto simp: word_le_nat_alt dest!: spec [of _ 32])
  then have "unat r = unat (32 :: u32)"
    using r(2) by auto
  then have r32: "r = 32"
    by (simp only: word_unat_eq_iff)
  obtain q where q: "internal_product_limit 320 65 = Some q" "unat q dvd 320" "q \<le> 65"
    "\<forall>d. d dvd 320 \<longrightarrow> d \<le> 65 \<longrightarrow> d \<le> unat q"
    using internal_product_limit_best [of 65 320] np by auto
  then have "unat q = 64 \<or> unat q = 65"
    by (auto simp: word_le_nat_alt dest!: spec [of _ 64])
  then have "unat q = unat (64 :: u32)"
    using q(2) by auto
  then have "q = 64"
    by (simp only: word_unat_eq_iff)
  then show ?thesis
    using r(1) q(1) r32 by (simp add: libxsmm_product_limit_def)
qed

lemma product_limit_not_a_divisor: "libxsmm_product_limit 1042 2050 0 = Some 4 \<and> \<not> (4 :: nat) dvd 1042"
proof -
  have p: "libxsmm_primes_u32 1042 = Some [2, 521]"
    by (simp add: libxsmm_primes_u32_def primes_loop.simps [of 1042] strip_factor.simps [of "numeral f" for f])
  have "libxsmm_gcd 1042 2050 = 2"
    by (simp add: libxsmm_gcd_def gcd_loop.simps)
  then have "internal_product_limit 1042 2050 = Some 4"
    by (simp add: internal_product_limit_def p)
  then show ?thesis
    by (simp add: libxsmm_product_limit_def)
qed

section \<open>Co-primes\<close>

lemma unat_coprime_gcd: "b \<noteq> 0 \<Longrightarrow> unat (coprime_gcd a b) = gcd (unat a) (unat b)"
proof (induction a b rule: coprime_gcd.induct)
  case (1 a b)
  have "gcd (unat a) (unat b) = gcd (unat b) (unat (a mod b))"
    by (simp add: unat_mod gcd_red_nat [symmetric] gcd.commute)
  moreover have "a mod b = 0 \<Longrightarrow> gcd (unat b) (unat (a mod b)) = unat b"
    by simp
  ultimately show ?case
    using 1 by (subst coprime_gcd.simps) (auto simp: Let_def)
qed

lemma unat_delta: "unat (LIBXSMM_DELTA a b :: 'a::len word) = (if unat a < unat b then unat b - unat a else unat a - unat b)"
  by (simp add: LIBXSMM_DELTA_def word_less_nat_alt unat_sub word_le_nat_alt)

lemma odd_and_one: "0 \<noteq> (n :: u64) AND 1 \<longleftrightarrow> odd (unat n)"
proof -
  have "0 \<noteq> n AND 1 \<longleftrightarrow> unat (n AND 1) \<noteq> 0"
    by (auto simp: unat_gt_0)
  also have "\<dots> \<longleftrightarrow> odd (unat n)"
    by (simp add: and_one_eq unat_mod odd_iff_mod_2_eq_one del: unsigned_eq_0_iff)
  finally show ?thesis .
qed

lemma odd_unat_bit: "odd (unat (w :: 'a::len word)) \<longleftrightarrow> bit w 0"
  using bit_unsigned_iff [where 'a = nat, of w 0] by (simp add: bit_0)

lemma coprime_s_parity: "odd (unat (coprime_s n minco)) \<longleftrightarrow> odd (unat n)"
proof -
  have "odd (unat (coprime_s n minco)) \<longleftrightarrow> bit (coprime_s n minco) 0"
    by (rule odd_unat_bit)
  also have "\<dots> \<longleftrightarrow> odd (unat n)"
    using odd_and_one [of n] by (auto simp: coprime_s_def bit_simps)
  finally show ?thesis .
qed

lemma coprime_s_zero: "odd (unat n) \<Longrightarrow> minco = 0 \<Longrightarrow> coprime_s n minco = 1"
  using odd_and_one [of n] by (simp add: coprime_s_def LIBXSMM_MAX_def)

text \<open>
  While the loop goes on, the candidate never is the start value \<open>s\<close>: for an even number they differ in
  parity, for an odd one the neighbour of \<open>s\<close> is at distance one, which ends the search.
\<close>

definition coprime_inv :: "u64 \<Rightarrow> u64 \<Rightarrow> u64 \<Rightarrow> u64 \<Rightarrow> bool" where
  "coprime_inv n minco i r \<longleftrightarrow> coprime (unat r) (unat n) \<and>
    (coprime_d n < i \<longrightarrow> i \<noteq> coprime_s n minco \<and> (even (unat n) \<longrightarrow> odd (unat i)))"

lemma coprime_inv_next:
  assumes inv: "coprime_inv n minco i r" and d: "coprime_d n < i" and "coprime (unat r') (unat n)"
    and one: "odd (unat n) \<Longrightarrow> minco \<noteq> 0 \<Longrightarrow> unat (LIBXSMM_DELTA (coprime_s n minco) i) \<noteq> 1"
  shows "coprime_inv n minco (i - coprime_d n) r'"
proof -
  have i: "unat (i - coprime_d n) = unat i - unat (coprime_d n)"
    using d by (simp add: unat_sub)
  have du: "unat (coprime_d n) = (if odd (unat n) then 1 else 2)"
    using odd_and_one [of n] by (simp add: coprime_d_def)
  have lt: "unat (coprime_d n) < unat i"
    using d by (simp add: word_less_nat_alt)
  show ?thesis
    unfolding coprime_inv_def
  proof (intro conjI impI)
    show "coprime (unat r') (unat n)" by fact
    assume d': "coprime_d n < i - coprime_d n"
    show "odd (unat (i - coprime_d n))" if "even (unat n)"
      using inv d that lt by (simp add: coprime_inv_def i du)
    show "i - coprime_d n \<noteq> coprime_s n minco"
    proof
      assume s: "i - coprime_d n = coprime_s n minco"
      show False
      proof (cases "odd (unat n)")
        case False
        then have "odd (unat (i - coprime_d n))"
          using inv d lt by (simp add: coprime_inv_def i du)
        then show False
          using False coprime_s_parity [of n minco] s by simp
      next
        case True
        have "unat (coprime_s n minco) = unat i - 1"
          using i s True du by simp
        then have "unat (LIBXSMM_DELTA (coprime_s n minco) i) = 1"
          using lt True du by (simp add: unat_delta)
        then have "minco = 0"
          using one True by blast
        then have "unat (coprime_s n minco) = 1"
          using coprime_s_zero [OF True] by simp
        then show False
          using d' s du True by (simp add: word_less_nat_alt)
      qed
    qed
  qed
qed

lemma coprime_loop_returns:
  "coprime_inv n minco i r \<Longrightarrow> \<exists>q. coprime_loop n minco i r = Some q \<and> coprime (unat q) (unat n)"
proof (induction n minco i r rule: coprime_loop.induct)
  case (1 n minco i r)
  let ?c = "LIBXSMM_DELTA (coprime_s n minco) i"
  show ?case
  proof (cases "coprime_d n < i")
    case False
    then show ?thesis
      using "1.prems" by (subst coprime_loop.simps) (simp add: coprime_inv_def)
  next
    case d: True
    then have c0: "?c \<noteq> 0"
      using "1.prems" unat_delta [of "coprime_s n minco" i] by (auto simp: coprime_inv_def LIBXSMM_DELTA_def)
    have a: "unat (coprime_gcd n ?c) = gcd (unat n) (unat ?c)"
      using c0 by (rule unat_coprime_gcd)
    show ?thesis
    proof (cases "1 = coprime_gcd n ?c")
      case True
      then have cop: "coprime (unat ?c) (unat n)"
        using a by (metis coprime_iff_gcd_eq_1 gcd.commute unat_1)
      have "coprime_inv n minco ((if ?c \<le> minco then coprime_d n else i) - coprime_d n) ?c"
      proof (cases "?c \<le> minco")
        case True
        then show ?thesis
          using cop by (simp add: coprime_inv_def)
      next
        case False
        have "unat ?c \<noteq> 1" if "minco \<noteq> 0"
          using that False by (auto simp: word_le_nat_alt unat_gt_0 Suc_le_eq)
        then show ?thesis
          using coprime_inv_next [OF "1.prems" d cop] False by simp
      qed
      then show ?thesis
        using "1.IH"(1) [OF d refl c0 refl True] d c0 True by (subst coprime_loop.simps) (simp add: Let_def)
    next
      case False
      then have "unat ?c \<noteq> 1"
        using a by (auto simp: word_unat_eq_iff)
      moreover have "coprime (unat r) (unat n)"
        using "1.prems" by (simp add: coprime_inv_def)
      ultimately have "coprime_inv n minco (i - coprime_d n) r"
        using coprime_inv_next [OF "1.prems" d] by blast
      then show ?thesis
        using "1.IH"(2) [OF d refl c0 refl False] d c0 False by (subst coprime_loop.simps) (simp add: Let_def)
    qed
  qed
qed

lemma coprime_returns:
  "\<exists>r. libxsmm_coprime n minco = Some r \<and> (n \<le> 1 \<longrightarrow> r = 0) \<and>
     (1 < n \<longrightarrow> r \<noteq> 0 \<and> coprime (unat r) (unat n) \<and> (minco \<noteq> 0 \<longrightarrow> r \<le> minco))"
proof (cases "1 < n")
  case False
  then have "\<not> coprime_d n < n"
    by (auto simp: coprime_d_def word_less_nat_alt)
  then show ?thesis
    using False by (simp add: libxsmm_coprime_def coprime_loop.simps [of n minco 0] coprime_d_def word_less_nat_alt)
next
  case True
  have "coprime_inv n minco (if coprime_d n < n then n - 1 else 0) 1"
  proof -
    have n1: "unat (n - 1) = unat n - 1"
      using True by (simp add: unat_sub word_le_nat_alt word_less_nat_alt)
    have "odd (unat (n - 1)) \<longleftrightarrow> even (unat n)"
      using True by (simp add: n1 word_less_nat_alt)
    then show ?thesis
      using coprime_s_parity [of n minco] by (auto simp: coprime_inv_def)
  qed
  then obtain q where "coprime_loop n minco (if coprime_d n < n then n - 1 else 0) 1 = Some q"
    and q: "coprime (unat q) (unat n)"
    using coprime_loop_returns by blast
  then have r: "libxsmm_coprime n minco = Some (if minco < q then 1 else q)"
    using True by (simp add: libxsmm_coprime_def)
  have "q \<noteq> 0"
    using q True by (auto simp: word_less_nat_alt)
  moreover have "1 \<le> minco" if "minco \<noteq> 0"
    using that by (simp add: word_le_nat_alt unat_gt_0 Suc_le_eq)
  ultimately show ?thesis
    using True r q by auto
qed

text \<open>
  C23: \<open>libxsmm_coprime\<close> never divides by zero and returns for all arguments: zero for zero and one, and otherwise
  a co-prime of the number that is at least one and at most \<open>minco\<close> (unless \<open>minco\<close> is zero);
  \<open>libxsmm_coprime2\<close> returns a co-prime of at most half of the number.
\<close>

theorem coprime_correct:
  "(\<exists>r. libxsmm_coprime n minco = Some r \<and> (n \<le> 1 \<longrightarrow> r = 0) \<and>
     (1 < n \<longrightarrow> r \<noteq> 0 \<and> coprime (unat r) (unat n) \<and> (minco \<noteq> 0 \<longrightarrow> r \<le> minco))) \<and>
   (\<exists>r. libxsmm_coprime2 n = Some r \<and> unat r \<le> unat n div 2 \<and>
     (1 < n \<longrightarrow> 0 < unat r \<and> coprime (unat r) (unat n)))"
proof -
  obtain r where r: "libxsmm_coprime n (n div 2) = Some r" "n \<le> 1 \<Longrightarrow> r = 0"
    "1 < n \<Longrightarrow> r \<noteq> 0 \<and> coprime (unat r) (unat n) \<and> (n div 2 \<noteq> 0 \<longrightarrow> r \<le> n div 2)"
    using coprime_returns by blast
  have "n div 2 \<noteq> 0" if "1 < n"
    using that unat_gt_0 [of "n div 2"] by (simp add: word_less_nat_alt unat_div)
  then have "unat r \<le> unat n div 2"
    using r by (cases "1 < n") (auto simp: word_le_nat_alt word_less_nat_alt unat_div)
  then show ?thesis
    using r coprime_returns [of n minco] by (auto simp: libxsmm_coprime2_def unat_gt_0)
qed

theorem coprime_correct_witness:
  "\<exists>r. libxsmm_coprime2 36 = Some r \<and> unat r \<le> 18 \<and> 0 < unat r \<and> coprime (unat r) 36"
  using coprime_correct [of 36 0] by auto

text \<open>The assertion in the code that the result is less than the number fails for a large \<open>minco\<close>.\<close>

lemma coprime_not_less: "libxsmm_coprime 5 100 = Some 96"
  by (simp add: libxsmm_coprime_def coprime_loop.simps coprime_d_def coprime_s_def LIBXSMM_MAX_def
      LIBXSMM_DELTA_def coprime_gcd.simps)

section \<open>The remainder search\<close>

lemma remainder_loop_hit:
  "ci mod a = 0 \<Longrightarrow> \<exists>q. remainder_loop a b limit rem ci c r = Some q \<and>
     (limit = None \<longrightarrow> rem = None \<longrightarrow> r \<noteq> 0 \<longrightarrow> q = ci)"
  by (subst remainder_loop.simps, subst (1 2) remainder_loop.simps)
     (auto simp: Let_def word_gt_0 split: option.splits)

text \<open>The multiples of \<open>b\<close> reach zero modulo the word size, hence the loop ends.\<close>

lemma remainder_loop_returns:
  "ci + of_nat j * b = 0 \<Longrightarrow> \<exists>q. remainder_loop a b limit rem ci c r = Some q"
proof (induction j arbitrary: ci c r)
  case 0
  then show ?case
    using remainder_loop_hit [of 0 a b limit rem c r] by auto
next
  case (Suc j)
  then have "(ci + b) + of_nat j * b = 0"
    by (simp add: algebra_simps)
  then show ?case
    using Suc.IH by (subst remainder_loop.simps) (simp add: Let_def)
qed

lemma up_le_multiple:
  assumes "0 < b" and "a \<le> b * m"
  shows "(a + (b - 1)) div b * b \<le> b * (m :: nat)"
proof -
  have "(a + (b - 1)) div b \<le> (b * m + (b - 1)) div b"
    using assms(2) by (intro div_le_mono) simp
  also have "\<dots> = m"
    using assms(1) by (intro div_nat_eqI) (simp_all add: algebra_simps)
  finally show ?thesis
    unfolding mult.commute [of b] by (rule mult_le_mono1)
qed

lemma remainder_loop_lcm:
  assumes "0 < unat b" and "unat ci \<le> lcm (unat a) (unat b)" and "unat b dvd unat ci" and "0 < unat ci"
    and "lcm (unat a) (unat b) < 2 ^ 32" and "r \<noteq> 0"
  shows "\<exists>q. remainder_loop a b None None ci c r = Some q \<and> unat q = lcm (unat a) (unat b)"
  using assms
proof (induction "lcm (unat a) (unat b) - unat ci" arbitrary: ci c r rule: less_induct)
  case less
  let ?l = "lcm (unat a) (unat b)"
  show ?case
  proof (cases "unat a dvd unat ci")
    case True
    then have "?l dvd unat ci"
      using less.prems(3) by (rule lcm_least)
    then have "unat ci = ?l"
      using less.prems(2,4) by (meson dvd_imp_le le_antisym)
    moreover have "ci mod a = 0"
      using True by (simp add: word_unat_eq_iff unat_mod)
    ultimately show ?thesis
      using remainder_loop_hit [of ci a b None None c r] less.prems(6) by auto
  next
    case False
    then have lt: "unat ci < ?l"
      using less.prems(2) by (metis dvd_lcm1 le_neq_implies_less)
    obtain k where k: "unat ci = unat b * k"
      using less.prems(3) by (rule dvdE)
    obtain m where m: "?l = unat b * m"
      using dvd_lcm2 by (rule dvdE)
    have "k < m"
      using lt unfolding k m by simp
    then have "unat b * (k + 1) \<le> unat b * m"
      by (intro mult_le_mono2) simp
    then have le: "unat ci + unat b \<le> ?l"
      unfolding k m by simp
    then have u: "unat (ci + b) = unat ci + unat b"
      using less.prems(5) by (intro unat_add_small) simp
    have "ci mod a \<noteq> 0"
      using False by (simp add: word_unat_eq_iff unat_mod dvd_eq_mod_eq_0)
    then have "\<exists>c' r'. r' \<noteq> 0 \<and> remainder_loop a b None None ci c r = remainder_loop a b None None (ci + b) c' r'"
      using less.prems(6) remainder_loop.simps [of a b None None ci c r] by (auto simp: Let_def word_gt_0)
    then obtain c' r' where "r' \<noteq> 0"
      and s: "remainder_loop a b None None ci c r = remainder_loop a b None None (ci + b) c' r'"
      by blast
    have "\<exists>q. remainder_loop a b None None (ci + b) c' r' = Some q \<and> unat q = ?l"
      by (rule less.hyps) (use le u lt less.prems \<open>r' \<noteq> 0\<close> in auto)
    then show ?thesis
      unfolding s .
  qed
qed

text \<open>
  C25: \<open>libxsmm_remainder\<close> returns for all arguments, also where the multiples wrap around; without a limit and
  without a tolerated remainder it returns the least common multiple, provided the product of the two
  numbers fits into 32 bits.
\<close>

theorem remainder_correct:
  "(\<exists>c. libxsmm_remainder a b limit rem = Some c) \<and>
   (limit = None \<longrightarrow> rem = None \<longrightarrow> unat a * unat b < 2 ^ 32 \<longrightarrow> unat a + unat b < 2 ^ 32 \<longrightarrow>
      (\<exists>c. libxsmm_remainder a b limit rem = Some c \<and> unat c = lcm (unat a) (unat b)))"
proof (cases "1 \<le> a")
  case False
  then have "a = 0"
    by (simp add: word_le_nat_alt unat_gt_0 Suc_le_eq)
  then show ?thesis
    by (auto simp: libxsmm_remainder_def)
next
  case True
  let ?ci = "if b < a \<and> 0 \<noteq> b then LIBXSMM_UP a b else b"
  obtain x where x: "?ci = x * b"
  proof -
    have "?ci = (if b < a \<and> 0 \<noteq> b then (a + (b - 1)) div b else 1) * b"
      by (simp add: LIBXSMM_UP_def)
    then show thesis ..
  qed
  have "?ci + of_nat (2 ^ 32 - unat x) * b = (x + of_nat (2 ^ 32 - unat x)) * b"
    unfolding x by (simp add: algebra_simps)
  also have "x + of_nat (2 ^ 32 - unat x) = of_nat (unat x + (2 ^ 32 - unat x))"
    by simp
  also have "\<dots> = 0"
    using unat_less_width [of x] by (simp add: of_nat_eq_0_iff)
  finally have "?ci + of_nat (2 ^ 32 - unat x) * b = 0"
    by simp
  then have ret: "\<exists>c. libxsmm_remainder a b limit rem = Some c"
    using remainder_loop_returns True by (simp add: libxsmm_remainder_def Let_def del: of_nat_diff)
  have "\<exists>c. libxsmm_remainder a b None None = Some c \<and> unat c = lcm (unat a) (unat b)"
    if prod: "unat a * unat b < 2 ^ 32" and sum: "unat a + unat b < 2 ^ 32"
  proof -
    consider "a = 1" | "1 < a" "b = 0" | "1 < a" "0 < unat b"
      using True by (cases "a = 1"; cases "b = 0") (auto simp: unat_gt_0)
    then show ?thesis
    proof cases
      case 1
      then have "\<not> (b < a \<and> 0 \<noteq> b)"
        by auto
      with 1 show ?thesis
        by (simp add: libxsmm_remainder_def remainder_loop.simps [of 1])
    next
      case 2
      then show ?thesis
        using remainder_loop_hit [of 0 a 0 None None 0 "a - 1"] by (auto simp: libxsmm_remainder_def)
    next
      case 3
      have a0: "0 < unat a"
        using 3 by (simp add: word_less_nat_alt)
      obtain m where m: "lcm (unat a) (unat b) = unat b * m"
        using dvd_lcm2 by (rule dvdE)
      have l0: "0 < lcm (unat a) (unat b)"
        using a0 3(2) by (rule lcm_pos_nat)
      have le: "lcm (unat a) (unat b) \<le> unat a * unat b"
        using a0 3(2) by (intro dvd_imp_le lcm_least) simp_all
      have "unat a \<le> unat b * m"
        using dvd_imp_le [OF dvd_lcm1 l0] unfolding m by simp
      then have "unat (LIBXSMM_UP a b) \<le> lcm (unat a) (unat b)"
        unfolding m unat_up [OF sum 3(2)] by (rule up_le_multiple [OF 3(2)])
      moreover have "unat b \<le> lcm (unat a) (unat b)"
        using dvd_imp_le [OF dvd_lcm2 l0] .
      moreover have "0 < unat ?ci" and "unat b dvd unat ?ci"
        using 3(2) a0 by (auto simp: unat_up [OF sum 3(2)] div_greater_zero_iff)
      moreover have "a - 1 \<noteq> 0"
        using 3(1) by auto
      ultimately show ?thesis
        using remainder_loop_lcm [of b ?ci a "a - 1" "a * ?ci"] 3 True prod le
        by (auto simp: libxsmm_remainder_def Let_def)
    qed
  qed
  with ret show ?thesis
    by auto
qed

theorem remainder_correct_witness:
  "\<exists>c. libxsmm_remainder 23 8 None None = Some c \<and> unat c = 184"
  using remainder_correct [of 23 8 None None] by (simp add: lcm_nat_def gcd_non_0_nat)

end
