(* ===== verification/C_Strings.thy ===== *)
theory C_Strings
  imports Prelude
begin

text \<open>
  The string functions of \<open>src/libxsmm_memory.c\<close>: the case-insensitive search \<open>libxsmm_stristrn\<close> and the
  word matching \<open>libxsmm_strimatch\<close>. A C string is the list of its characters before the terminating
  zero, a pointer into it is a suffix of the list, \<open>NULL\<close> is \<open>None\<close>. The functions of the C library
  are those of the C locale.
\<close>

section \<open>Characters\<close>

definition tolower :: "char \<Rightarrow> char" where
  "tolower c = (if 65 \<le> (of_char c :: nat) \<and> (of_char c :: nat) \<le> 90 then char_of ((of_char c :: nat) + 32) else c)"

text \<open>The character at an index, zero at the end of the string.\<close>

definition char_at :: "string \<Rightarrow> nat \<Rightarrow> char option" where
  "char_at s i = (if i < length s then Some (s ! i) else None)"

section \<open>Case-insensitive search\<close>

text \<open>
  The inner loop \<open>while ('\0' != *++a && '\0' != c[++i] && i != maxlen)\<close>: where it ends, the index reached, and
  whether no mismatch was found.
\<close>

fun stristrn_match :: "string \<Rightarrow> nat \<Rightarrow> string \<Rightarrow> nat \<Rightarrow> string \<times> nat \<times> bool" where
  "stristrn_match c maxlen (x # y # a) i =
    (let i = i + 1
     in if char_at c i = None then (y # a, i, True)
        else if i = maxlen then (y # a, i, True)
        else if tolower y \<noteq> tolower (c ! i) then (y # a, i, False)
        else stristrn_match c maxlen (y # a) i)"
| "stristrn_match c maxlen a i = ([], i, True)"

lemma length_stristrn_match:
  "a \<noteq> [] \<Longrightarrow> length (fst (stristrn_match c maxlen a i)) < length a"
  by (induction c maxlen a i rule: stristrn_match.induct) (auto simp: Let_def dest: less_SucI)

function stristrn_loop :: "string \<Rightarrow> string \<Rightarrow> nat \<Rightarrow> string option" where
  "stristrn_loop [] b maxlen = None"
| "stristrn_loop (x # a) b maxlen =
    (if tolower x \<noteq> tolower (hd b) then stristrn_loop a b maxlen
     else
       let (a', i, ok) = stristrn_match b maxlen (x # a) 0
       in if char_at b i \<noteq> None \<and> char_at b (i + 1) \<noteq> None \<and> char_at b i \<noteq> char_at b (i + 1) \<and> i \<noteq> maxlen
          then stristrn_loop a' b maxlen
          else if ok then Some (x # a) else None)"
  by pat_completeness auto
termination
proof (relation "measure (\<lambda>(a, b, maxlen). length a)")
  fix x a b maxlen p a' q i ok
  assume "p = stristrn_match b maxlen (x # a) 0" and "(a', q) = p"
  then show "((a', b, maxlen), x # a, b, maxlen) \<in> measure (\<lambda>(a, b, maxlen). length a)"
    using length_stristrn_match [of "x # a" b maxlen 0] by (metis fst_conv in_measure list.distinct(1) case_prod_conv)
qed auto

definition libxsmm_stristrn :: "string option \<Rightarrow> string option \<Rightarrow> nat \<Rightarrow> string option" where
  "libxsmm_stristrn a b maxlen =
    (case (a, b) of
       (Some a, Some b) \<Rightarrow> if a \<noteq> [] \<and> b \<noteq> [] \<and> 0 \<noteq> maxlen then stristrn_loop a b maxlen else None
     | _ \<Rightarrow> None)"

definition libxsmm_stristr :: "string option \<Rightarrow> string option \<Rightarrow> string option" where
  "libxsmm_stristr a b = libxsmm_stristrn a b (2 ^ 64 - 1)"

section \<open>Word matching\<close>

definition internal_isbreak :: "char \<Rightarrow> string \<Rightarrow> bool" where
  "internal_isbreak c delims \<longleftrightarrow> c \<in> set delims"

text \<open>A word is not empty, hence the text behind it is shorter.\<close>

lemma length_after_word:
  fixes b :: string
  assumes "dropWhile (\<lambda>c. \<not> P c) (dropWhile P b) \<noteq> []"
  shows "length (dropWhile (\<lambda>c. \<not> P c) (dropWhile P b)) < length b"
proof (cases "dropWhile P b")
  case Nil
  with assms show ?thesis by (metis dropWhile.simps(1))
next
  case (Cons x xs)
  then have "\<not> P x"
    by (metis hd_dropWhile list.distinct(1) list.sel(1))
  then have "length (dropWhile (\<lambda>c. \<not> P c) (dropWhile P b)) < length (dropWhile P b)"
    using Cons length_dropWhile_le [of "\<lambda>c. \<not> P c" xs] by simp
  also have "\<dots> \<le> length b"
    by (rule length_dropWhile_le)
  finally show ?thesis .
qed

text \<open>The loop over the words of \<open>b\<close>.\<close>

function strimatch_loop :: "string \<Rightarrow> string \<Rightarrow> string \<Rightarrow> int \<Rightarrow> int" where
  "strimatch_loop a sep b result =
    (let b = dropWhile (\<lambda>c. internal_isbreak c sep) b;
         tmp = dropWhile (\<lambda>c. \<not> internal_isbreak c sep) b;
         m = length b - length tmp;
         result =
           (case libxsmm_stristrn (Some a) (Some b) (LIBXSMM_MIN 1 m) of
              None \<Rightarrow> result
            | Some c \<Rightarrow>
                let d = dropWhile (\<lambda>c. \<not> internal_isbreak c sep) c;
                    n = length c - length d
                in if n \<le> 1 \<or> libxsmm_stristrn (Some c) (Some b) (LIBXSMM_MIN m n) \<noteq> None
                   then result + 1 else result)
     in if tmp \<noteq> [] then strimatch_loop a sep tmp result else result)"
  by pat_completeness auto
termination
proof (relation "measure (\<lambda>(a, sep, b, result). length b)", goal_cases)
  case 2
  then show ?case
    using length_after_word by (simp only: in_measure case_prod_conv)
qed (rule wf_measure)

text \<open>The loop that counts the words of \<open>a\<close>.\<close>

function count_words :: "string \<Rightarrow> string \<Rightarrow> int \<Rightarrow> int" where
  "count_words sep a nwords =
    (let a = dropWhile (\<lambda>c. internal_isbreak c sep) a;
         nwords = (if a \<noteq> [] then nwords + 1 else nwords);
         a = dropWhile (\<lambda>c. \<not> internal_isbreak c sep) a
     in if a \<noteq> [] then count_words sep a nwords else nwords)"
  by pat_completeness auto
termination
proof (relation "measure (\<lambda>(sep, a, nwords). length a)", goal_cases)
  case 2
  then show ?case
    using length_after_word by (simp only: in_measure case_prod_conv)
qed (rule wf_measure)

declare strimatch_loop.simps [simp del] count_words.simps [simp del]

definition default_delims :: string where
  "default_delims = CHR '' '' # CHR 0x09 # '';,:-''"

definition libxsmm_strimatch :: "string option \<Rightarrow> string option \<Rightarrow> string option \<Rightarrow> int" where
  "libxsmm_strimatch a b delims =
    (case (a, b) of
       (Some a, Some b) \<Rightarrow>
         if a \<noteq> [] \<and> b \<noteq> [] then
           (let sep = (case delims of Some d \<Rightarrow> (if d = [] then default_delims else d) | None \<Rightarrow> default_delims);
                result = strimatch_loop a sep b 0;
                nwords = count_words sep a 0
            in if nwords < result then nwords else result)
         else -1
     | _ \<Rightarrow> -1)"

section \<open>What the search finds\<close>

text \<open>The first \<open>n\<close> characters of \<open>b\<close> (or all of it) are those \<open>a\<close> starts with, up to the case.\<close>

definition starts_with :: "nat \<Rightarrow> string \<Rightarrow> string \<Rightarrow> bool" where
  "starts_with n b a \<longleftrightarrow> min n (length b) \<le> length a \<and> (\<forall>k < min n (length b). tolower (a ! k) = tolower (b ! k))"

definition no_double :: "string \<Rightarrow> bool" where
  "no_double b \<longleftrightarrow> (\<forall>k < length b - 1. b ! k \<noteq> b ! Suc k)"

lemma stristrn_match_sound:
  assumes "stristrn_match c maxlen a i = (a', j, True)" and "a \<noteq> []" and "i < length c" and "i < maxlen"
  shows "i \<le> j \<and> (\<forall>k. i < k \<and> k < j \<longrightarrow> k - i < length a \<and> tolower (a ! (k - i)) = tolower (c ! k)) \<and>
    (j = length c \<or> j = maxlen \<or>
     j < length c \<and> length a = Suc (j - i) \<and> (i < j \<longrightarrow> tolower (a ! (j - i)) = tolower (c ! j)))"
  using assms
proof (induction c maxlen a i rule: stristrn_match.induct)
  case (1 c maxlen x y a i)
  show ?case
  proof (cases "Suc i = length c \<or> Suc i = maxlen")
    case True
    then have "j = Suc i"
      using 1(2,4) by (auto simp: char_at_def Let_def split: if_splits)
    with True show ?thesis
      by auto
  next
    case False
    then have in_c: "Suc i < length c" "Suc i < maxlen"
      using 1(4,5) by simp_all
    then have same: "tolower y = tolower (c ! Suc i)"
      and rec: "stristrn_match c maxlen (y # a) (Suc i) = (a', j, True)"
      using 1(2) by (auto simp: char_at_def Let_def split: if_splits)
    have IH: "Suc i \<le> j \<and>
      (\<forall>k. Suc i < k \<and> k < j \<longrightarrow> k - Suc i < length (y # a) \<and> tolower ((y # a) ! (k - Suc i)) = tolower (c ! k)) \<and>
      (j = length c \<or> j = maxlen \<or>
       j < length c \<and> length (y # a) = Suc (j - Suc i) \<and> (Suc i < j \<longrightarrow> tolower ((y # a) ! (j - Suc i)) = tolower (c ! j)))"
      using 1(1) [OF refl] rec in_c same by (simp add: char_at_def)
    have eq: "(x # y # a) ! (k - i) = (y # a) ! (k - Suc i)" and sz: "k - i = Suc (k - Suc i)" if "i < k" for k
      using that by (simp_all add: nth_Cons' Suc_diff_Suc)
    have "k - i < length (x # y # a) \<and> tolower ((x # y # a) ! (k - i)) = tolower (c ! k)" if "i < k" "k < j" for k
    proof (cases "k = Suc i")
      case True
      then show ?thesis using same by simp
    next
      case False
      then have "Suc i < k" using that by simp
      then show ?thesis using IH that eq [of k] sz [of k] by simp
    qed
    moreover have "tolower ((x # y # a) ! (j - i)) = tolower (c ! j)"
      if "j < length c" "j \<noteq> maxlen" "j \<noteq> length c"
    proof (cases "j = Suc i")
      case True
      then show ?thesis using same by simp
    next
      case False
      then have "Suc i < j" using IH by simp
      then show ?thesis using IH that eq [of j] by simp
    qed
    ultimately show ?thesis
      using IH sz [of j] by auto
  qed
qed (auto simp: Let_def)

lemma stristrn_match_complete:
  assumes "\<forall>k. i < k \<and> k < length c \<longrightarrow> k - i < length a \<and> tolower (a ! (k - i)) = tolower (c ! k)"
    and "i < length c" and "length c \<le> maxlen" and "a \<noteq> []"
  obtains a' j where "stristrn_match c maxlen a i = (a', j, True)" and "j = length c \<or> j = maxlen \<or> Suc j = length c"
  using assms
proof (induction c maxlen a i arbitrary: thesis rule: stristrn_match.induct [case_names 1 nil single])
  case (1 c maxlen x y a i)
  show ?case
  proof (cases "Suc i = length c \<or> Suc i = maxlen")
    case True
    then have "stristrn_match c maxlen (x # y # a) i = (y # a, Suc i, True)"
      by (auto simp: char_at_def)
    then show thesis
      by (rule 1(2)) (use True in auto)
  next
    case False
    then have in_c: "Suc i < length c" "Suc i < maxlen"
      using 1(4,5) by simp_all
    have same: "tolower y = tolower (c ! Suc i)"
      using 1(3) in_c by (metis diff_Suc_Suc diff_self_eq_0 lessI nth_Cons_0 nth_Cons_Suc Suc_diff_le order_refl)
    have rest: "\<forall>k. Suc i < k \<and> k < length c \<longrightarrow> k - Suc i < length (y # a) \<and> tolower ((y # a) ! (k - Suc i)) = tolower (c ! k)"
    proof (intro allI impI)
      fix k assume k: "Suc i < k \<and> k < length c"
      then have "k - i = Suc (k - Suc i)" by arith
      then show "k - Suc i < length (y # a) \<and> tolower ((y # a) ! (k - Suc i)) = tolower (c ! k)"
        using 1(3) k by (metis Suc_lessD Suc_less_eq length_Cons nth_Cons_Suc)
    qed
    obtain a' j where "stristrn_match c maxlen (y # a) (Suc i) = (a', j, True)"
      and "j = length c \<or> j = maxlen \<or> Suc j = length c"
      using 1(1) [OF refl] rest in_c same 1(5) by (auto simp: char_at_def)
    moreover have "stristrn_match c maxlen (x # y # a) i = stristrn_match c maxlen (y # a) (Suc i)"
      using in_c same by (simp add: char_at_def)
    ultimately show thesis
      using 1(2) by simp
  qed
next
  case (single c maxlen v i)
  then have "Suc i = length c"
    by (metis Suc_lessI diff_Suc_eq_diff_pred diff_Suc_1 lessI length_Cons less_one list.size(3) not_less_eq zero_less_diff)
  then show thesis
    by (intro single(1)) auto
qed simp

lemma stristrn_match_suffix: "\<exists>p. z = p @ fst (stristrn_match c n z k)"
proof (induction c n z k rule: stristrn_match.induct)
  case (1 c n x y a i)
  have here: "\<exists>p. x # y # a = p @ y # a"
    by (rule exI [of _ "[x]"]) simp
  show ?case
  proof (cases "char_at c (i + 1) = None \<or> i + 1 = n \<or> tolower y \<noteq> tolower (c ! (i + 1))")
    case True
    then show ?thesis
      using here by auto
  next
    case False
    then obtain p where "y # a = p @ fst (stristrn_match c n (y # a) (i + 1))"
      using 1 by blast
    then have "x # y # a = (x # p) @ fst (stristrn_match c n (x # y # a) i)"
      using False by auto
    then show ?thesis ..
  qed
qed simp_all

lemma stristrn_loop_suffix: "stristrn_loop a b maxlen = Some s \<Longrightarrow> \<exists>p. a = p @ s"
proof (induction a b maxlen rule: stristrn_loop.induct)
  case (2 x a b maxlen)
  obtain a' i ok where m: "stristrn_match b maxlen (x # a) 0 = (a', i, ok)"
    by (metis prod_cases3)
  obtain p where p: "x # a = p @ a'"
    using stristrn_match_suffix [of "x # a" b maxlen 0] m by auto
  let ?c = "char_at b i \<noteq> None \<and> char_at b (i + 1) \<noteq> None \<and> char_at b i \<noteq> char_at b (i + 1) \<and> i \<noteq> maxlen"
  consider "tolower x \<noteq> tolower (hd b)" | "tolower x = tolower (hd b)" "?c" | "tolower x = tolower (hd b)" "\<not> ?c"
    by blast
  then show ?case
  proof cases
    case 1
    then obtain q where "a = q @ s"
      using 2 by auto
    then have "x # a = (x # q) @ s" by simp
    then show ?thesis ..
  next
    case two: 2
    then have "stristrn_loop a' b maxlen = Some s"
      using "2.prems" m by auto
    moreover have "\<not> tolower x \<noteq> tolower (hd b)"
      using two(1) by simp
    ultimately obtain q where "a' = q @ s"
      using "2.IH"(2) [OF _ m [symmetric] refl refl two(2)] by blast
    then have "x # a = (p @ q) @ s" using p by simp
    then show ?thesis ..
  next
    case 3
    then have "s = x # a"
      using "2.prems" m by (auto split: if_splits)
    then show ?thesis by simp
  qed
qed simp

lemma stristrn_loop_sound:
  assumes "stristrn_loop a b maxlen = Some s" and "b \<noteq> []" and "0 < maxlen" and "no_double b"
  shows "starts_with maxlen b s"
  using assms
proof (induction a b maxlen rule: stristrn_loop.induct)
  case (2 x a b maxlen)
  obtain a' i ok where m: "stristrn_match b maxlen (x # a) 0 = (a', i, ok)"
    by (metis prod_cases3)
  show ?case
  proof (cases "tolower x = tolower (hd b) \<and>
      \<not> (char_at b i \<noteq> None \<and> char_at b (i + 1) \<noteq> None \<and> char_at b i \<noteq> char_at b (i + 1) \<and> i \<noteq> maxlen)")
    case False
    then show ?thesis
      using 2 m by (auto split: if_splits)
  next
    case True
    then have ok: "ok" and s: "s = x # a"
      using "2.prems"(1) m by (auto split: if_splits)
    have "stristrn_match b maxlen (x # a) 0 = (a', i, True)"
      using m ok by simp
    from stristrn_match_sound [OF this] "2.prems"(2,3)
    have upto: "\<And>k. 0 < k \<Longrightarrow> k < i \<Longrightarrow> k < length (x # a) \<and> tolower ((x # a) ! k) = tolower (b ! k)"
      and ended: "i = length b \<or> i = maxlen \<or>
       i < length b \<and> length (x # a) = Suc i \<and> (0 < i \<longrightarrow> tolower ((x # a) ! i) = tolower (b ! i))"
      by auto
    have hd: "tolower ((x # a) ! 0) = tolower (b ! 0)"
      using True "2.prems"(2) by (simp add: hd_conv_nth)
    have all: "k < length (x # a) \<and> tolower ((x # a) ! k) = tolower (b ! k)" if "k < i" for k
      using upto [of k] hd that by (cases "k = 0") simp_all
    consider "i = length b \<or> i = maxlen" | "i < length b" "length (x # a) = Suc i" "i \<noteq> maxlen"
        "0 < i \<longrightarrow> tolower ((x # a) ! i) = tolower (b ! i)"
      using ended by blast
    then show ?thesis
    proof cases
      case 1
      then have "min maxlen (length b) \<le> i" by auto
      moreover have "i \<le> length (x # a)"
        using all [of "i - 1"] by (cases i) auto
      ultimately show ?thesis
        unfolding s starts_with_def using all by (auto intro: order.trans)
    next
      case two: 2
      then have "Suc i = length b"
        using True "2.prems"(4) by (auto simp: char_at_def no_double_def split: if_splits)
      moreover have "tolower ((x # a) ! i) = tolower (b ! i)"
        using two(4) hd by (cases "i = 0") simp_all
      ultimately show ?thesis
        unfolding s starts_with_def using all two(2) by (auto simp: less_Suc_eq min_less_iff_disj simp flip: \<open>Suc i = length b\<close>)
    qed
  qed
qed simp

lemma stristrn_loop_complete:
  assumes "starts_with maxlen b a" and "b \<noteq> []" and "length b \<le> maxlen"
  shows "stristrn_loop a b maxlen = Some a"
proof -
  have len: "length b \<le> length a" and same: "\<And>k. k < length b \<Longrightarrow> tolower (a ! k) = tolower (b ! k)"
    using assms(1,3) by (auto simp: starts_with_def min_def split: if_splits)
  then have "a \<noteq> []"
    using assms(2) by auto
  obtain a' j where m: "stristrn_match b maxlen a 0 = (a', j, True)" and "j = length b \<or> j = maxlen \<or> Suc j = length b"
    by (rule stristrn_match_complete [of 0 b a maxlen]) (use len same assms \<open>a \<noteq> []\<close> in auto)
  then have "\<not> (char_at b j \<noteq> None \<and> char_at b (j + 1) \<noteq> None \<and> char_at b j \<noteq> char_at b (j + 1) \<and> j \<noteq> maxlen)"
    by (auto simp: char_at_def)
  moreover have "tolower (hd a) = tolower (hd b)"
    using same [of 0] assms(2) \<open>a \<noteq> []\<close> by (simp add: hd_conv_nth)
  ultimately show ?thesis
    using m \<open>a \<noteq> []\<close> by (cases a) auto
qed

text \<open>
  For a pattern without a doubled character, \<open>libxsmm_stristr\<close> returns the start of the string exactly if the
  string starts with the pattern up to the case, and whatever it returns is a part of the string that starts
  with the pattern.
\<close>

theorem stristr_matches:
  assumes "b \<noteq> []" and "no_double b" and "length b < 2 ^ 64"
  shows "(libxsmm_stristr (Some a) (Some b) = Some a \<longleftrightarrow> starts_with (length b) b a) \<and>
    (\<forall>s. libxsmm_stristr (Some a) (Some b) = Some s \<longrightarrow> (\<exists>p. a = p @ s) \<and> starts_with (length b) b s)"
proof -
  have eq: "libxsmm_stristr (Some a) (Some b) = (if a \<noteq> [] then stristrn_loop a b (2 ^ 64 - 1) else None)"
    using assms(1) by (simp add: libxsmm_stristr_def libxsmm_stristrn_def)
  have le: "length b \<le> 2 ^ 64 - 1"
    using assms(3) by simp
  then have sw: "starts_with (2 ^ 64 - 1) b s \<longleftrightarrow> starts_with (length b) b s" for s
    by (simp add: starts_with_def min_absorb2)
  have ne: "starts_with (length b) b a \<Longrightarrow> a \<noteq> []"
    using assms(1) by (auto simp: starts_with_def)
  have sound: "libxsmm_stristr (Some a) (Some b) = Some s \<Longrightarrow> (\<exists>p. a = p @ s) \<and> starts_with (length b) b s" for s
    using stristrn_loop_sound [of a b "2 ^ 64 - 1" s] stristrn_loop_suffix [of a b "2 ^ 64 - 1" s] assms
    unfolding eq sw by (auto split: if_splits)
  moreover have "starts_with (length b) b a \<Longrightarrow> libxsmm_stristr (Some a) (Some b) = Some a"
    using stristrn_loop_complete [of "2 ^ 64 - 1" b a] assms(1) le ne unfolding eq sw by simp
  ultimately show ?thesis
    by blast
qed

text \<open>
  Where the search fails: it does not go back behind a partial match, it takes a doubled character at
  the end of the string for a match, and with a length it misses a match at the end of the string.
\<close>

lemma stristr_misses: "libxsmm_stristr (Some ''aab'') (Some ''ab'') = None"
  by (simp add: libxsmm_stristr_def libxsmm_stristrn_def char_at_def tolower_def)

lemma stristr_false_match: "libxsmm_stristr (Some ''a'') (Some ''aa'') = Some ''a''"
  by (simp add: libxsmm_stristr_def libxsmm_stristrn_def char_at_def tolower_def)

lemma stristrn_misses_at_end:
  "libxsmm_stristrn (Some ''ab'') (Some ''abc'') 2 = None \<and>
   libxsmm_stristrn (Some ''abx'') (Some ''abc'') 2 = Some ''abx''"
  by code_simp

end
