(* ===== verification/Typedefs.thy ===== *)
theory Typedefs
  imports Prelude
begin

text \<open>
  The element types of \<open>include/libxsmm_typedefs.h\<close>: the enumeration \<open>libxsmm_datatype\<close>, the macros that pack an
  input and an output type into one byte of a descriptor, and the functions on them: \<open>libxsmm_typesize\<close>
  (\<open>src/libxsmm_memory.c\<close>) and \<open>libxsmm_get_typename\<close> (\<open>src/libxsmm_main.c\<close>). An enumerator is the integer C gives it.
\<close>

section \<open>Element types\<close>

datatype libxsmm_datatype =
  LIBXSMM_DATATYPE_F64
| LIBXSMM_DATATYPE_F32
| LIBXSMM_DATATYPE_BF16
| LIBXSMM_DATATYPE_F16
| LIBXSMM_DATATYPE_BF8
| LIBXSMM_DATATYPE_HF8
| LIBXSMM_DATATYPE_I64
| LIBXSMM_DATATYPE_U64
| LIBXSMM_DATATYPE_I32
| LIBXSMM_DATATYPE_U32
| LIBXSMM_DATATYPE_I16
| LIBXSMM_DATATYPE_U16
| LIBXSMM_DATATYPE_I8
| LIBXSMM_DATATYPE_U8
| LIBXSMM_DATATYPE_IMPLICIT
| LIBXSMM_DATATYPE_UNSUPPORTED

fun libxsmm_datatype_val :: "libxsmm_datatype \<Rightarrow> int" where
  "libxsmm_datatype_val LIBXSMM_DATATYPE_F64 = 0"
| "libxsmm_datatype_val LIBXSMM_DATATYPE_F32 = 1"
| "libxsmm_datatype_val LIBXSMM_DATATYPE_BF16 = 2"
| "libxsmm_datatype_val LIBXSMM_DATATYPE_F16 = 3"
| "libxsmm_datatype_val LIBXSMM_DATATYPE_BF8 = 4"
| "libxsmm_datatype_val LIBXSMM_DATATYPE_HF8 = 5"
| "libxsmm_datatype_val LIBXSMM_DATATYPE_I64 = 6"
| "libxsmm_datatype_val LIBXSMM_DATATYPE_U64 = 7"
| "libxsmm_datatype_val LIBXSMM_DATATYPE_I32 = 8"
| "libxsmm_datatype_val LIBXSMM_DATATYPE_U32 = 9"
| "libxsmm_datatype_val LIBXSMM_DATATYPE_I16 = 10"
| "libxsmm_datatype_val LIBXSMM_DATATYPE_U16 = 11"
| "libxsmm_datatype_val LIBXSMM_DATATYPE_I8 = 12"
| "libxsmm_datatype_val LIBXSMM_DATATYPE_U8 = 13"
| "libxsmm_datatype_val LIBXSMM_DATATYPE_IMPLICIT = 14"
| "libxsmm_datatype_val LIBXSMM_DATATYPE_UNSUPPORTED = 15"

definition LIBXSMM_TYPESIZE :: "int \<Rightarrow> u8" where
  "LIBXSMM_TYPESIZE ENUM =
   (if libxsmm_datatype_val LIBXSMM_DATATYPE_F64 = ENUM then 8
    else if libxsmm_datatype_val LIBXSMM_DATATYPE_F32 = ENUM then 4
    else if libxsmm_datatype_val LIBXSMM_DATATYPE_BF16 = ENUM then 2
    else if libxsmm_datatype_val LIBXSMM_DATATYPE_F16 = ENUM then 2
    else if libxsmm_datatype_val LIBXSMM_DATATYPE_BF8 = ENUM then 1
    else if libxsmm_datatype_val LIBXSMM_DATATYPE_HF8 = ENUM then 1
    else if libxsmm_datatype_val LIBXSMM_DATATYPE_I64 = ENUM then 8
    else if libxsmm_datatype_val LIBXSMM_DATATYPE_U64 = ENUM then 8
    else if libxsmm_datatype_val LIBXSMM_DATATYPE_I32 = ENUM then 4
    else if libxsmm_datatype_val LIBXSMM_DATATYPE_U32 = ENUM then 4
    else if libxsmm_datatype_val LIBXSMM_DATATYPE_I16 = ENUM then 2
    else if libxsmm_datatype_val LIBXSMM_DATATYPE_U16 = ENUM then 2
    else if libxsmm_datatype_val LIBXSMM_DATATYPE_I8 = ENUM then 1
    else if libxsmm_datatype_val LIBXSMM_DATATYPE_U8 = ENUM then 1
    else 0)"

definition libxsmm_typesize :: "int \<Rightarrow> u8" where
  "libxsmm_typesize datatype = (let result = LIBXSMM_TYPESIZE datatype in if 0 \<noteq> result then result else 1)"

section \<open>Input and output type in one byte\<close>

definition LIBXSMM_GETENUM_UNP :: "int \<Rightarrow> int" where
  "LIBXSMM_GETENUM_UNP SRC = SRC AND 0x0F"

definition LIBXSMM_GETENUM_INP :: "int \<Rightarrow> int" where
  "LIBXSMM_GETENUM_INP SRC =
   (if libxsmm_datatype_val LIBXSMM_DATATYPE_F64 = LIBXSMM_GETENUM_UNP SRC then libxsmm_datatype_val LIBXSMM_DATATYPE_F64
    else if libxsmm_datatype_val LIBXSMM_DATATYPE_F32 = LIBXSMM_GETENUM_UNP SRC then libxsmm_datatype_val LIBXSMM_DATATYPE_F32
    else if libxsmm_datatype_val LIBXSMM_DATATYPE_BF16 = LIBXSMM_GETENUM_UNP SRC then libxsmm_datatype_val LIBXSMM_DATATYPE_BF16
    else if libxsmm_datatype_val LIBXSMM_DATATYPE_F16 = LIBXSMM_GETENUM_UNP SRC then libxsmm_datatype_val LIBXSMM_DATATYPE_F16
    else if libxsmm_datatype_val LIBXSMM_DATATYPE_BF8 = LIBXSMM_GETENUM_UNP SRC then libxsmm_datatype_val LIBXSMM_DATATYPE_BF8
    else if libxsmm_datatype_val LIBXSMM_DATATYPE_HF8 = LIBXSMM_GETENUM_UNP SRC then libxsmm_datatype_val LIBXSMM_DATATYPE_HF8
    else if libxsmm_datatype_val LIBXSMM_DATATYPE_I64 = LIBXSMM_GETENUM_UNP SRC then libxsmm_datatype_val LIBXSMM_DATATYPE_I64
    else if libxsmm_datatype_val LIBXSMM_DATATYPE_U64 = LIBXSMM_GETENUM_UNP SRC then libxsmm_datatype_val LIBXSMM_DATATYPE_I64
    else if libxsmm_datatype_val LIBXSMM_DATATYPE_I32 = LIBXSMM_GETENUM_UNP SRC then libxsmm_datatype_val LIBXSMM_DATATYPE_I32
    else if libxsmm_datatype_val LIBXSMM_DATATYPE_U32 = LIBXSMM_GETENUM_UNP SRC then libxsmm_datatype_val LIBXSMM_DATATYPE_I32
    else if libxsmm_datatype_val LIBXSMM_DATATYPE_I16 = LIBXSMM_GETENUM_UNP SRC then libxsmm_datatype_val LIBXSMM_DATATYPE_I16
    else if libxsmm_datatype_val LIBXSMM_DATATYPE_U16 = LIBXSMM_GETENUM_UNP SRC then libxsmm_datatype_val LIBXSMM_DATATYPE_I16
    else if libxsmm_datatype_val LIBXSMM_DATATYPE_I8 = LIBXSMM_GETENUM_UNP SRC then libxsmm_datatype_val LIBXSMM_DATATYPE_I8
    else if libxsmm_datatype_val LIBXSMM_DATATYPE_U8 = LIBXSMM_GETENUM_UNP SRC then libxsmm_datatype_val LIBXSMM_DATATYPE_I8
    else if libxsmm_datatype_val LIBXSMM_DATATYPE_IMPLICIT = LIBXSMM_GETENUM_UNP SRC then libxsmm_datatype_val LIBXSMM_DATATYPE_IMPLICIT
    else if libxsmm_datatype_val LIBXSMM_DATATYPE_UNSUPPORTED = LIBXSMM_GETENUM_UNP SRC then libxsmm_datatype_val LIBXSMM_DATATYPE_UNSUPPORTED
    else 0)"

definition LIBXSMM_GETENUM_UOT :: "int \<Rightarrow> int" where
  "LIBXSMM_GETENUM_UOT SRC = (if 0 = drop_bit 4 SRC then LIBXSMM_GETENUM_UNP SRC else drop_bit 4 SRC)"

definition LIBXSMM_GETENUM_OUT :: "int \<Rightarrow> int" where
  "LIBXSMM_GETENUM_OUT SRC = (if 0 = drop_bit 4 SRC then LIBXSMM_GETENUM_INP SRC else drop_bit 4 SRC)"

definition LIBXSMM_GETENUM :: "int \<Rightarrow> int \<Rightarrow> u8" where
  "LIBXSMM_GETENUM INP OUT =
    (if INP = OUT then word_of_int INP
     else word_of_int (INP OR uint (word_of_int (push_bit 4 OUT) :: u8)))"

section \<open>Names\<close>

definition libxsmm_get_typename :: "int \<Rightarrow> string" where
  "libxsmm_get_typename datatype =
   (if libxsmm_datatype_val LIBXSMM_DATATYPE_F64 = datatype then ''f64''
    else if libxsmm_datatype_val LIBXSMM_DATATYPE_F32 = datatype then ''f32''
    else if libxsmm_datatype_val LIBXSMM_DATATYPE_BF16 = datatype then ''bf16''
    else if libxsmm_datatype_val LIBXSMM_DATATYPE_F16 = datatype then ''f16''
    else if libxsmm_datatype_val LIBXSMM_DATATYPE_BF8 = datatype then ''bf8''
    else if libxsmm_datatype_val LIBXSMM_DATATYPE_HF8 = datatype then ''hf8''
    else if libxsmm_datatype_val LIBXSMM_DATATYPE_I64 = datatype then ''i64''
    else if libxsmm_datatype_val LIBXSMM_DATATYPE_I32 = datatype then ''i32''
    else if libxsmm_datatype_val LIBXSMM_DATATYPE_U32 = datatype then ''u32''
    else if libxsmm_datatype_val LIBXSMM_DATATYPE_I16 = datatype then ''i16''
    else if libxsmm_datatype_val LIBXSMM_DATATYPE_U16 = datatype then ''u16''
    else if libxsmm_datatype_val LIBXSMM_DATATYPE_I8 = datatype then ''i8''
    else if libxsmm_datatype_val LIBXSMM_DATATYPE_IMPLICIT = datatype then ''implicit''
    else if libxsmm_datatype_val LIBXSMM_DATATYPE_I16 = LIBXSMM_GETENUM_INP datatype
        \<and> libxsmm_datatype_val LIBXSMM_DATATYPE_I32 = LIBXSMM_GETENUM_OUT datatype then ''i16i32''
    else if libxsmm_datatype_val LIBXSMM_DATATYPE_I16 = LIBXSMM_GETENUM_INP datatype
        \<and> libxsmm_datatype_val LIBXSMM_DATATYPE_F32 = LIBXSMM_GETENUM_OUT datatype then ''i16f32''
    else if libxsmm_datatype_val LIBXSMM_DATATYPE_I8 = LIBXSMM_GETENUM_INP datatype
        \<and> libxsmm_datatype_val LIBXSMM_DATATYPE_I32 = LIBXSMM_GETENUM_OUT datatype then ''i8i32''
    else if libxsmm_datatype_val LIBXSMM_DATATYPE_BF16 = LIBXSMM_GETENUM_INP datatype
        \<and> libxsmm_datatype_val LIBXSMM_DATATYPE_F32 = LIBXSMM_GETENUM_OUT datatype then ''bf16f32''
    else if libxsmm_datatype_val LIBXSMM_DATATYPE_BF8 = LIBXSMM_GETENUM_INP datatype
        \<and> libxsmm_datatype_val LIBXSMM_DATATYPE_F32 = LIBXSMM_GETENUM_OUT datatype then ''bf8f32''
    else if libxsmm_datatype_val LIBXSMM_DATATYPE_HF8 = LIBXSMM_GETENUM_INP datatype
        \<and> libxsmm_datatype_val LIBXSMM_DATATYPE_F32 = LIBXSMM_GETENUM_OUT datatype then ''hf8f32''
    else ''void'')"

section \<open>Packing and unpacking\<close>

lemma getenum_input: "LIBXSMM_GETENUM_UNP (uint (LIBXSMM_GETENUM (libxsmm_datatype_val i) (libxsmm_datatype_val t))) = libxsmm_datatype_val i"
  by (cases i; cases t) (simp_all add: LIBXSMM_GETENUM_def LIBXSMM_GETENUM_UNP_def)

text \<open>
  C30: The byte that \<open>LIBXSMM_GETENUM\<close> packs gives both types back: the input type always, the output type unless it
  is \<open>F64\<close> and the input is not, because the number of \<open>F64\<close> is zero, which stands for
  \<^emph>\<open>the same as the input\<close>.
\<close>

theorem getenum_roundtrip:
  "let b = uint (LIBXSMM_GETENUM (libxsmm_datatype_val i) (libxsmm_datatype_val t))
   in LIBXSMM_GETENUM_UNP b = libxsmm_datatype_val i \<and>
      (t \<noteq> LIBXSMM_DATATYPE_F64 \<or> i = LIBXSMM_DATATYPE_F64 \<longrightarrow>
        LIBXSMM_GETENUM_UOT b = libxsmm_datatype_val t)"
  by (cases i; cases t)
     (simp_all add: LIBXSMM_GETENUM_def LIBXSMM_GETENUM_UNP_def LIBXSMM_GETENUM_UOT_def)

theorem getenum_roundtrip_witness:
  "LIBXSMM_GETENUM_UOT (uint (LIBXSMM_GETENUM (libxsmm_datatype_val LIBXSMM_DATATYPE_BF16)
     (libxsmm_datatype_val LIBXSMM_DATATYPE_F32))) = 1"
  using getenum_roundtrip [of LIBXSMM_DATATYPE_BF16 LIBXSMM_DATATYPE_F32] by (simp add: Let_def)

text \<open>An output of \<open>F64\<close> with another input is read back as the input type.\<close>

lemma getenum_f64_output_lost:
  "LIBXSMM_GETENUM_UOT (uint (LIBXSMM_GETENUM (libxsmm_datatype_val LIBXSMM_DATATYPE_F32)
     (libxsmm_datatype_val LIBXSMM_DATATYPE_F64))) = libxsmm_datatype_val LIBXSMM_DATATYPE_F32"
  by (simp add: LIBXSMM_GETENUM_def LIBXSMM_GETENUM_UNP_def LIBXSMM_GETENUM_UOT_def)

text \<open>What a type stands for: a floating-point format, an integer of a width, or none.\<close>

datatype element_kind = Floating nat | Signed nat | Unsigned nat | No_element

fun kind_of :: "libxsmm_datatype \<Rightarrow> element_kind" where
  "kind_of LIBXSMM_DATATYPE_F64 = Floating 64"
| "kind_of LIBXSMM_DATATYPE_F32 = Floating 32"
| "kind_of LIBXSMM_DATATYPE_BF16 = Floating 16"
| "kind_of LIBXSMM_DATATYPE_F16 = Floating 16"
| "kind_of LIBXSMM_DATATYPE_BF8 = Floating 8"
| "kind_of LIBXSMM_DATATYPE_HF8 = Floating 8"
| "kind_of LIBXSMM_DATATYPE_I64 = Signed 64"
| "kind_of LIBXSMM_DATATYPE_U64 = Unsigned 64"
| "kind_of LIBXSMM_DATATYPE_I32 = Signed 32"
| "kind_of LIBXSMM_DATATYPE_U32 = Unsigned 32"
| "kind_of LIBXSMM_DATATYPE_I16 = Signed 16"
| "kind_of LIBXSMM_DATATYPE_U16 = Unsigned 16"
| "kind_of LIBXSMM_DATATYPE_I8 = Signed 8"
| "kind_of LIBXSMM_DATATYPE_U8 = Unsigned 8"
| "kind_of LIBXSMM_DATATYPE_IMPLICIT = No_element"
| "kind_of LIBXSMM_DATATYPE_UNSUPPORTED = No_element"

fun kind_bits :: "element_kind \<Rightarrow> nat" where
  "kind_bits (Floating n) = n"
| "kind_bits (Signed n) = n"
| "kind_bits (Unsigned n) = n"
| "kind_bits No_element = 0"

fun signed_type :: "libxsmm_datatype \<Rightarrow> libxsmm_datatype" where
  "signed_type LIBXSMM_DATATYPE_U64 = LIBXSMM_DATATYPE_I64"
| "signed_type LIBXSMM_DATATYPE_U32 = LIBXSMM_DATATYPE_I32"
| "signed_type LIBXSMM_DATATYPE_U16 = LIBXSMM_DATATYPE_I16"
| "signed_type LIBXSMM_DATATYPE_U8 = LIBXSMM_DATATYPE_I8"
| "signed_type t = t"

lemma signed_type_kind: "case kind_of t of Unsigned w \<Rightarrow> kind_of (signed_type t) = Signed w | _ \<Rightarrow> signed_type t = t"
  by (cases t) simp_all

lemma signed_input_type:
  assumes "LIBXSMM_GETENUM_UNP b = libxsmm_datatype_val t"
  shows "LIBXSMM_GETENUM_INP b = libxsmm_datatype_val (signed_type t)"
  unfolding LIBXSMM_GETENUM_INP_def assms by (cases t) simp_all

lemma element_numbers: "n \<in> libxsmm_datatype_val ` {u. kind_of u \<noteq> No_element} \<longleftrightarrow> n \<in> {0, 1, 2, 3, 4, 5, 6, 7, 8, 9, 10, 11, 12, 13}"
proof -
  have val: "kind_of u \<noteq> No_element \<longleftrightarrow> libxsmm_datatype_val u \<in> {0, 1, 2, 3, 4, 5, 6, 7, 8, 9, 10, 11, 12, 13}" for u
    by (cases u) simp_all
  have dom: "m \<in> range libxsmm_datatype_val" if "m \<in> {0, 1, 2, 3, 4, 5, 6, 7, 8, 9, 10, 11, 12, 13}" for m
    using that by (elim insertE emptyE) (metis rangeI libxsmm_datatype_val.simps)+
  have "n \<in> f ` {u. f u \<in> S} \<longleftrightarrow> n \<in> S" if "\<And>m. m \<in> S \<Longrightarrow> m \<in> range f" for f :: "libxsmm_datatype \<Rightarrow> int" and S
    using that by blast
  from this [of "{0, 1, 2, 3, 4, 5, 6, 7, 8, 9, 10, 11, 12, 13}" libxsmm_datatype_val, OF dom] show ?thesis
    unfolding val .
qed

lemma typesize_bits: "8 * unat (LIBXSMM_TYPESIZE (libxsmm_datatype_val t)) = kind_bits (kind_of t)"
  by (cases t) (simp_all add: LIBXSMM_TYPESIZE_def)

text \<open>
  C29: In a descriptor that packs the input type \<open>t\<close> with any output type, \<open>LIBXSMM_GETENUM_INP\<close> reads an unsigned
  integer type as the signed type of the same width and every other type as itself; eight times the
  size that \<open>LIBXSMM_TYPESIZE\<close> gives is the width of the type, before and after. \<open>libxsmm_typesize\<close> is that size, or
  one for a number that has no size, so that a division by it is defined for any number.
\<close>

theorem typesize_of_signed:
  "\<exists>r. LIBXSMM_GETENUM_INP (uint (LIBXSMM_GETENUM (libxsmm_datatype_val t) (libxsmm_datatype_val out))) = libxsmm_datatype_val r \<and>
     (case kind_of t of Unsigned w \<Rightarrow> kind_of r = Signed w | _ \<Rightarrow> r = t) \<and>
     8 * unat (LIBXSMM_TYPESIZE (libxsmm_datatype_val t)) = kind_bits (kind_of t) \<and>
     LIBXSMM_TYPESIZE (libxsmm_datatype_val r) = LIBXSMM_TYPESIZE (libxsmm_datatype_val t) \<and>
     libxsmm_typesize n = (if n \<in> libxsmm_datatype_val ` {u. kind_of u \<noteq> No_element} then LIBXSMM_TYPESIZE n else 1)"
proof -
  obtain r where r: "LIBXSMM_GETENUM_INP (uint (LIBXSMM_GETENUM (libxsmm_datatype_val t) (libxsmm_datatype_val out))) = libxsmm_datatype_val r"
    "case kind_of t of Unsigned w \<Rightarrow> kind_of r = Signed w | _ \<Rightarrow> r = t"
    using signed_input_type [OF getenum_input] signed_type_kind by blast
  then have "kind_bits (kind_of r) = kind_bits (kind_of t)"
    by (cases "kind_of t") auto
  then have "LIBXSMM_TYPESIZE (libxsmm_datatype_val r) = LIBXSMM_TYPESIZE (libxsmm_datatype_val t)"
    using typesize_bits [of r] typesize_bits [of t] by (auto simp: word_unat_eq_iff)
  moreover have "libxsmm_typesize n = (if n \<in> libxsmm_datatype_val ` {u. kind_of u \<noteq> No_element} then LIBXSMM_TYPESIZE n else 1)"
    unfolding element_numbers by (simp add: libxsmm_typesize_def LIBXSMM_TYPESIZE_def)
  ultimately show ?thesis
    using r typesize_bits [of t] by blast
qed

text \<open>The names of two types are missing: \<open>libxsmm_get_typename\<close> calls \<open>U64\<close> and \<open>U8\<close> \<open>void\<close>.\<close>

lemma typename_unsigned_missing:
  "libxsmm_get_typename (libxsmm_datatype_val LIBXSMM_DATATYPE_U64) = ''void'' \<and>
   libxsmm_get_typename (libxsmm_datatype_val LIBXSMM_DATATYPE_U8) = ''void''"
  by (simp add: libxsmm_get_typename_def LIBXSMM_GETENUM_INP_def LIBXSMM_GETENUM_OUT_def LIBXSMM_GETENUM_UNP_def)

end
