(* ===== verification/Target_Arch.thy ===== *)
theory Target_Arch
  imports Targets Typedefs C_Strings
begin

text \<open>
  The target architecture: its name and vector length (\<open>src/libxsmm_cpuid_x86.c\<close>), and the global
  \<open>libxsmm_target_archid\<close> that \<open>libxsmm_set_target_archid\<close> and \<open>libxsmm_set_target_arch\<close> of
  \<open>src/libxsmm_main.c\<close> store. What the processor reports (\<open>libxsmm_cpuid\<close>), the platform the code is
  built for and the settings of the environment are arguments. The warnings the functions print are not
  modelled.
\<close>

section \<open>Names and vector lengths\<close>

definition libxsmm_cpuid_name :: "int \<Rightarrow> string" where
  "libxsmm_cpuid_name i =
   (if i = LIBXSMM_X86_AVX512_GNR then ''gnr''
    else if i = LIBXSMM_X86_AVX512_SPR then ''spr''
    else if i = LIBXSMM_X86_AVX512_CPX then ''cpx''
    else if i = LIBXSMM_X86_AVX512_CLX then ''clx''
    else if i = LIBXSMM_X86_AVX512_SKX then ''skx''
    else if i = LIBXSMM_X86_AVX512_VL256_SKX then ''avx512_vl256''
    else if i = LIBXSMM_X86_AVX512_VL256_CLX then ''avx512_vl256_clx''
    else if i = LIBXSMM_X86_AVX512_VL256_CPX then ''avx512_vl256_cpx''
    else if i = LIBXSMM_X86_AVX2_SRF then ''srf''
    else if i = LIBXSMM_X86_AVX2_ADL then ''adl''
    else if i = LIBXSMM_X86_AVX2 then ''hsw''
    else if i = LIBXSMM_X86_AVX then ''snb''
    else if i = LIBXSMM_X86_SSE42 then ''wsm''
    else if i = LIBXSMM_X86_SSE3 then ''sse3''
    else if i = LIBXSMM_AARCH64_V81 \<or> i = LIBXSMM_AARCH64_V82 then ''aarch64''
    else if i = LIBXSMM_AARCH64_APPL_M1 then ''appl_m1''
    else if i = LIBXSMM_AARCH64_SVE128 then ''sve128''
    else if i = LIBXSMM_AARCH64_SVE256 then ''sve256''
    else if i = LIBXSMM_AARCH64_NEOV1 then ''neov1''
    else if i = LIBXSMM_AARCH64_SVE512 then ''sve512''
    else if i = LIBXSMM_AARCH64_A64FX then ''a64fx''
    else if i = LIBXSMM_TARGET_ARCH_GENERIC then ''generic''
    else if LIBXSMM_X86_GENERIC \<le> i \<and> i \<le> LIBXSMM_X86_ALLFEAT then ''x86_64''
    else ''unknown'')"

definition libxsmm_cpuid_vlen32 :: "int \<Rightarrow> int" where
  "libxsmm_cpuid_vlen32 i =
    (if LIBXSMM_AARCH64_V81 = i \<or> LIBXSMM_AARCH64_V82 = i \<or> LIBXSMM_AARCH64_APPL_M1 = i
        \<or> LIBXSMM_AARCH64_SVE128 = i then 4
     else if LIBXSMM_AARCH64_SVE256 = i \<or> LIBXSMM_AARCH64_NEOV1 = i then 8
     else if LIBXSMM_AARCH64_SVE512 = i \<or> LIBXSMM_AARCH64_A64FX = i then 16
     else if LIBXSMM_X86_AVX512_SKX \<le> i then 16
     else if LIBXSMM_X86_AVX \<le> i then 8
     else if LIBXSMM_X86_GENERIC \<le> i then 4
     else 1)"

definition libxsmm_cpuid_vlen :: "int \<Rightarrow> int" where
  "libxsmm_cpuid_vlen i = 4 * libxsmm_cpuid_vlen32 i"

text \<open>
  How many elements of a type the dot product instructions combine; \<open>use_bfdot\<close> and \<open>use_i8dot\<close> are the
  results of \<open>libxsmm_cpuid_arm_use_bfdot\<close> and \<open>libxsmm_cpuid_arm_use_i8dot\<close>, which read the environment.
\<close>

definition libxsmm_cpuid_dot_pack_factor :: "bool \<Rightarrow> bool \<Rightarrow> bool \<Rightarrow> int \<Rightarrow> int" where
  "libxsmm_cpuid_dot_pack_factor platform_x86 use_bfdot use_i8dot datatype =
    (let type = LIBXSMM_GETENUM_INP datatype;
         is16 = (type = libxsmm_datatype_val LIBXSMM_DATATYPE_BF16 \<or> type = libxsmm_datatype_val LIBXSMM_DATATYPE_F16
                 \<or> type = libxsmm_datatype_val LIBXSMM_DATATYPE_I16);
         is8 = (type = libxsmm_datatype_val LIBXSMM_DATATYPE_BF8 \<or> type = libxsmm_datatype_val LIBXSMM_DATATYPE_HF8
                \<or> type = libxsmm_datatype_val LIBXSMM_DATATYPE_I8)
     in if platform_x86 then (if is16 then 2 else if is8 then 4 else 1)
        else
          (let result = (if is16 then 4 else if is8 then 8 else 1)
           in if use_bfdot then (if is16 then 2 else if is8 then 4 else result)
              else if use_i8dot then
                (if type = libxsmm_datatype_val LIBXSMM_DATATYPE_I16 then 2
                 else if type = libxsmm_datatype_val LIBXSMM_DATATYPE_BF8
                      \<or> type = libxsmm_datatype_val LIBXSMM_DATATYPE_I8 then 4
                 else result)
              else (if is16 then 4 else if is8 then 8 else 1)))"

section \<open>Setting the target\<close>

record arch_build =
  platform_x86 :: bool
  platform_aarch64 :: bool
  platform_force :: bool

definition libxsmm_set_target_archid :: "arch_build \<Rightarrow> int \<Rightarrow> int \<Rightarrow> int" where
  "libxsmm_set_target_archid c cpuid i =
    (if i \<in> {LIBXSMM_X86_AVX512_GNR,
         LIBXSMM_X86_AVX512_SPR,
         LIBXSMM_X86_AVX512_CPX,
         LIBXSMM_X86_AVX512_CLX,
         LIBXSMM_X86_AVX512_SKX,
         LIBXSMM_X86_AVX512_VL256_SKX,
         LIBXSMM_X86_AVX512_VL256_CLX,
         LIBXSMM_X86_AVX512_VL256_CPX,
         LIBXSMM_X86_AVX2_ADL,
         LIBXSMM_X86_AVX2_SRF,
         LIBXSMM_X86_AVX2,
         LIBXSMM_X86_AVX,
         LIBXSMM_X86_SSE42,
         LIBXSMM_X86_SSE3,
         LIBXSMM_AARCH64_V81,
         LIBXSMM_AARCH64_V82,
         LIBXSMM_AARCH64_APPL_M1,
         LIBXSMM_AARCH64_SVE128,
         LIBXSMM_AARCH64_SVE256,
         LIBXSMM_AARCH64_NEOV1,
         LIBXSMM_AARCH64_SVE512,
         LIBXSMM_AARCH64_A64FX} then i
     else if i = LIBXSMM_TARGET_ARCH_GENERIC \<and> platform_x86 c then LIBXSMM_X86_GENERIC
     else if i = LIBXSMM_TARGET_ARCH_GENERIC \<and> platform_aarch64 c then LIBXSMM_AARCH64_V81
     else cpuid)"

text \<open>\<open>atoi\<close> of the C library: blanks, a sign, and the decimal digits that follow.\<close>

definition is_digit :: "char \<Rightarrow> bool" where
  "is_digit c \<longleftrightarrow> 48 \<le> (of_char c :: nat) \<and> (of_char c :: nat) \<le> 57"

definition is_space :: "char \<Rightarrow> bool" where
  "is_space c \<longleftrightarrow> (of_char c :: nat) = 32 \<or> 9 \<le> (of_char c :: nat) \<and> (of_char c :: nat) \<le> 13"

definition digits :: "string \<Rightarrow> int" where
  "digits s = foldl (\<lambda>n c. 10 * n + (of_char c - 48)) 0 (takeWhile is_digit s)"

definition atoi :: "string \<Rightarrow> int" where
  "atoi s =
    (case dropWhile is_space s of
       [] \<Rightarrow> 0
     | c # t \<Rightarrow> if c = CHR ''-'' then - digits t else if c = CHR ''+'' then digits t else digits (c # t))"

text \<open>The test \<open>arch == libxsmm_stristr(arch, name)\<close>.\<close>

definition arch_is :: "string \<Rightarrow> string \<Rightarrow> bool" where
  "arch_is arch name \<longleftrightarrow> libxsmm_stristr (Some arch) (Some name) = Some arch"

definition set_target_x86 :: "string \<Rightarrow> int \<Rightarrow> int" where
  "set_target_x86 arch jit =
    (if 0 < jit then LIBXSMM_X86_GENERIC + jit
     else if arch_is arch ''avx512_vl256_cpx'' then LIBXSMM_X86_AVX512_VL256_CPX
     else if arch_is arch ''avx512_vl256_clx'' then LIBXSMM_X86_AVX512_VL256_CLX
     else if arch_is arch ''avx512_vl256'' then LIBXSMM_X86_AVX512_VL256_SKX
     else if arch_is arch ''gnr'' then LIBXSMM_X86_AVX512_GNR
     else if arch_is arch ''spr'' then LIBXSMM_X86_AVX512_SPR
     else if arch_is arch ''cpx'' then LIBXSMM_X86_AVX512_CPX
     else if arch_is arch ''clx'' then LIBXSMM_X86_AVX512_CLX
     else if arch_is arch ''skx'' \<or> arch_is arch ''skl'' \<or> arch_is arch ''avx3'' \<or> arch_is arch ''avx512'' then LIBXSMM_X86_AVX512_SKX
     else if arch_is arch ''srf'' then LIBXSMM_X86_AVX2_SRF
     else if arch_is arch ''adl'' then LIBXSMM_X86_AVX2_ADL
     else if arch_is arch ''hsw'' \<or> arch_is arch ''avx2'' then LIBXSMM_X86_AVX2
     else if arch_is arch ''snb'' \<or> arch_is arch ''avx'' then LIBXSMM_X86_AVX
     else if arch_is arch ''wsm'' \<or> arch_is arch ''nhm'' \<or> arch_is arch ''sse4_2'' \<or> arch_is arch ''sse4.2'' \<or> arch_is arch ''sse42'' \<or> arch_is arch ''sse4'' then LIBXSMM_X86_SSE42
     else if arch_is arch ''sse3'' then LIBXSMM_X86_SSE3
     else if arch_is arch ''x86'' \<or> arch_is arch ''x86_64'' \<or> arch_is arch ''x64'' \<or> arch_is arch ''sse2'' \<or> arch_is arch ''sse'' then LIBXSMM_X86_GENERIC
     else LIBXSMM_TARGET_ARCH_UNKNOWN)"

definition set_target_aarch64 :: "arch_build \<Rightarrow> string \<Rightarrow> int \<Rightarrow> int" where
  "set_target_aarch64 c arch jit =
    (if \<not> platform_force c \<and> 0 < jit then LIBXSMM_AARCH64_V81 + jit
     else if arch_is arch ''arm'' \<or> arch_is arch ''arm64'' \<or> arch_is arch ''arm_v81'' \<or> arch_is arch ''aarch64'' then LIBXSMM_AARCH64_V81
     else if arch_is arch ''arm_v82'' then LIBXSMM_AARCH64_V82
     else if arch_is arch ''appl_m1'' then LIBXSMM_AARCH64_APPL_M1
     else if arch_is arch ''sve128'' then LIBXSMM_AARCH64_SVE128
     else if arch_is arch ''sve256'' then LIBXSMM_AARCH64_SVE256
     else if arch_is arch ''neov1'' then LIBXSMM_AARCH64_NEOV1
     else if arch_is arch ''sve512'' then LIBXSMM_AARCH64_SVE512
     else if arch_is arch ''a64fx'' then LIBXSMM_AARCH64_A64FX
     else LIBXSMM_TARGET_ARCH_UNKNOWN)"

definition libxsmm_set_target_arch :: "arch_build \<Rightarrow> int \<Rightarrow> string option \<Rightarrow> int" where
  "libxsmm_set_target_arch c cpuid arch =
    (case arch of
       None \<Rightarrow> cpuid
     | Some arch \<Rightarrow>
         if arch \<noteq> [] \<and> \<not> arch_is arch ''default'' \<and> \<not> arch_is arch ''cpuid'' \<and> \<not> arch_is arch ''auto'' then
           (let jit = atoi arch;
                target_archid = (if platform_x86 c \<or> platform_force c then set_target_x86 arch jit
                                 else LIBXSMM_TARGET_ARCH_UNKNOWN);
                target_archid =
                  (if (platform_aarch64 c \<or> platform_force c) \<and> LIBXSMM_TARGET_ARCH_UNKNOWN = target_archid
                   then set_target_aarch64 c arch jit else target_archid)
            in if LIBXSMM_TARGET_ARCH_UNKNOWN = target_archid then
                 (if arch = ''0'' \<or> arch_is arch ''generic'' then
                    (if platform_x86 c then LIBXSMM_X86_GENERIC
                     else if platform_aarch64 c then LIBXSMM_AARCH64_V81
                     else LIBXSMM_TARGET_ARCH_GENERIC)
                  else if arch_is arch ''none'' then LIBXSMM_TARGET_ARCH_GENERIC
                  else cpuid)
               else target_archid)
         else cpuid)"

section \<open>A name selects its target\<close>

text \<open>
  All targets of \<open>include/libxsmm_cpuid.h\<close> from \<open>LIBXSMM_X86_GENERIC\<close> to \<open>LIBXSMM_X86_AVX512_GNR\<close>, and from
  \<open>LIBXSMM_AARCH64_V81\<close> to \<open>LIBXSMM_AARCH64_A64FX\<close>, in its order. The remaining values are \<open>UNKNOWN\<close>, \<open>GENERIC\<close>
  and the two \<open>ALLFEAT\<close>, which are upper bounds for comparisons.
\<close>

definition x86_targets :: "int list" where
  "x86_targets = [LIBXSMM_X86_GENERIC, LIBXSMM_X86_SSE3, LIBXSMM_X86_SSE42, LIBXSMM_X86_AVX, LIBXSMM_X86_AVX2,
     LIBXSMM_X86_AVX2_ADL, LIBXSMM_X86_AVX2_SRF, LIBXSMM_X86_AVX512_VL128_SKX, LIBXSMM_X86_AVX512_VL256_SKX,
     LIBXSMM_X86_AVX512_VL256_CLX, LIBXSMM_X86_AVX512_VL256_CPX, LIBXSMM_X86_AVX512_SKX, LIBXSMM_X86_AVX512_CLX,
     LIBXSMM_X86_AVX512_CPX, LIBXSMM_X86_AVX512_SPR, LIBXSMM_X86_AVX512_GNR]"

definition aarch64_targets :: "int list" where
  "aarch64_targets = [LIBXSMM_AARCH64_V81, LIBXSMM_AARCH64_V82, LIBXSMM_AARCH64_APPL_M1, LIBXSMM_AARCH64_SVE128,
     LIBXSMM_AARCH64_SVE256, LIBXSMM_AARCH64_NEOV1, LIBXSMM_AARCH64_SVE512, LIBXSMM_AARCH64_A64FX]"

lemmas search_simps = arch_is_def libxsmm_stristr_def libxsmm_stristrn_def char_at_def tolower_def
lemmas atoi_simps = atoi_def is_space_def is_digit_def digits_def

text \<open>The target that the name of a target selects: two of them share the name of another one.\<close>

definition named_target :: "int \<Rightarrow> int" where
  "named_target i =
    (if i = LIBXSMM_X86_AVX512_VL128_SKX then LIBXSMM_X86_GENERIC
     else if i = LIBXSMM_AARCH64_V82 then LIBXSMM_AARCH64_V81
     else i)"

lemma x86_name_roundtrip:
  assumes "platform_x86 c" and "i \<in> set x86_targets"
  shows "libxsmm_set_target_arch c cpuid (Some (libxsmm_cpuid_name i)) = named_target i"
proof -
  have "i \<in> {LIBXSMM_X86_GENERIC, LIBXSMM_X86_SSE3, LIBXSMM_X86_SSE42, LIBXSMM_X86_AVX, LIBXSMM_X86_AVX2,
     LIBXSMM_X86_AVX2_ADL, LIBXSMM_X86_AVX2_SRF, LIBXSMM_X86_AVX512_VL128_SKX, LIBXSMM_X86_AVX512_VL256_SKX,
     LIBXSMM_X86_AVX512_VL256_CLX, LIBXSMM_X86_AVX512_VL256_CPX, LIBXSMM_X86_AVX512_SKX, LIBXSMM_X86_AVX512_CLX,
     LIBXSMM_X86_AVX512_CPX, LIBXSMM_X86_AVX512_SPR, LIBXSMM_X86_AVX512_GNR}"
    using assms(2) by (simp add: x86_targets_def)
  then show ?thesis
    using assms(1)
    by (elim insertE emptyE; simp add: libxsmm_cpuid_name_def named_target_def;
        simp add: libxsmm_set_target_arch_def set_target_x86_def search_simps atoi_simps)
qed

lemma aarch64_name_roundtrip:
  assumes "platform_aarch64 c" and "\<not> platform_x86 c" and "\<not> platform_force c" and "i \<in> set aarch64_targets"
  shows "libxsmm_set_target_arch c cpuid (Some (libxsmm_cpuid_name i)) = named_target i"
proof -
  have "i \<in> {LIBXSMM_AARCH64_V81, LIBXSMM_AARCH64_V82, LIBXSMM_AARCH64_APPL_M1, LIBXSMM_AARCH64_SVE128,
     LIBXSMM_AARCH64_SVE256, LIBXSMM_AARCH64_NEOV1, LIBXSMM_AARCH64_SVE512, LIBXSMM_AARCH64_A64FX}"
    using assms(4) by (simp add: aarch64_targets_def)
  then show ?thesis
    using assms(1-3)
    by (elim insertE emptyE; simp add: libxsmm_cpuid_name_def named_target_def;
        simp add: libxsmm_set_target_arch_def set_target_aarch64_def search_simps atoi_simps)
qed

lemma named_target_exceptions:
  "named_target i = i \<longleftrightarrow> i \<noteq> LIBXSMM_X86_AVX512_VL128_SKX \<and> i \<noteq> LIBXSMM_AARCH64_V82"
  by (simp add: named_target_def)

text \<open>
  C28: On an x86 build, \<open>libxsmm_set_target_arch\<close> with the name that \<open>libxsmm_cpuid_name\<close> gives to a target selects
  that target, for the x86 targets of the header and whatever the processor reports, with one exception:
  the name of \<open>X86_AVX512_VL128_SKX\<close> is the one of \<open>X86_GENERIC\<close> and selects that. On an AArch64 build the same holds
  for the AArch64 targets except for \<open>AARCH64_V82\<close>, whose name is that of \<open>AARCH64_V81\<close>. By its number
  every one of them selects itself, except \<open>X86_GENERIC\<close> and \<open>X86_AVX512_VL128_SKX\<close>, for which
  \<open>libxsmm_set_target_archid\<close> takes what the processor reports. Without a name the target is what the
  processor reports.
\<close>

theorem target_name_roundtrip:
  "(platform_x86 c \<longrightarrow> i \<in> set x86_targets \<longrightarrow>
      libxsmm_set_target_arch c cpuid (Some (libxsmm_cpuid_name i)) =
        (if i = LIBXSMM_X86_AVX512_VL128_SKX then LIBXSMM_X86_GENERIC else i) \<and>
      libxsmm_set_target_archid c cpuid i =
        (if i \<in> {LIBXSMM_X86_GENERIC, LIBXSMM_X86_AVX512_VL128_SKX} then cpuid else i)) \<and>
   (platform_aarch64 c \<longrightarrow> \<not> platform_x86 c \<longrightarrow> \<not> platform_force c \<longrightarrow> i \<in> set aarch64_targets \<longrightarrow>
      libxsmm_set_target_arch c cpuid (Some (libxsmm_cpuid_name i)) =
        (if i = LIBXSMM_AARCH64_V82 then LIBXSMM_AARCH64_V81 else i) \<and>
      libxsmm_set_target_archid c cpuid i = i) \<and>
   libxsmm_set_target_arch c cpuid None = cpuid"
  using x86_name_roundtrip [of c i cpuid] aarch64_name_roundtrip [of c i cpuid]
  by (auto simp: libxsmm_set_target_archid_def x86_targets_def aarch64_targets_def libxsmm_set_target_arch_def
      named_target_def)

theorem target_name_roundtrip_witness:
  "libxsmm_set_target_arch \<lparr>platform_x86 = True, platform_aarch64 = False, platform_force = False\<rparr> 1101
     (Some (libxsmm_cpuid_name LIBXSMM_X86_AVX2)) = LIBXSMM_X86_AVX2"
  using target_name_roundtrip [of "\<lparr>platform_x86 = True, platform_aarch64 = False, platform_force = False\<rparr>"
      LIBXSMM_X86_AVX2 1101] by (simp add: x86_targets_def)

text \<open>The target \<open>X86_AVX512_VL128_SKX\<close> cannot be selected on an x86 build, neither by its name nor by its number.\<close>

lemma vl128_skx_not_selected:
  assumes "platform_x86 c"
  shows "libxsmm_cpuid_name LIBXSMM_X86_AVX512_VL128_SKX = libxsmm_cpuid_name LIBXSMM_X86_GENERIC"
    and "libxsmm_set_target_arch c cpuid (Some (libxsmm_cpuid_name LIBXSMM_X86_AVX512_VL128_SKX)) = LIBXSMM_X86_GENERIC"
    and "libxsmm_set_target_archid c cpuid LIBXSMM_X86_AVX512_VL128_SKX = cpuid"
  using x86_name_roundtrip [OF assms, of LIBXSMM_X86_AVX512_VL128_SKX cpuid]
  by (simp_all add: libxsmm_cpuid_name_def libxsmm_set_target_archid_def x86_targets_def named_target_def)

text \<open>
  The branch for \<open>arm_v82\<close> is never taken, because the name starts with \<open>arm\<close>; and the number of
  \<open>X86_GENERIC\<close>, which \<open>libxsmm_set_target_archid\<close> itself stores, is not accepted by it.
\<close>

lemma arm_v82_is_v81:
  "libxsmm_set_target_arch \<lparr>platform_x86 = False, platform_aarch64 = True, platform_force = False\<rparr> cpuid
     (Some ''arm_v82'') = LIBXSMM_AARCH64_V81"
  by (simp add: libxsmm_set_target_arch_def set_target_aarch64_def search_simps atoi_simps)

lemma x86_generic_not_accepted:
  "libxsmm_set_target_archid c cpuid LIBXSMM_X86_GENERIC = cpuid \<and>
   (platform_x86 c \<longrightarrow> libxsmm_set_target_archid c cpuid LIBXSMM_TARGET_ARCH_GENERIC = LIBXSMM_X86_GENERIC)"
  by (simp add: libxsmm_set_target_archid_def)

text \<open>The vector length in bytes is a power of two; \<open>libxsmm_aligned\<close> relies on it.\<close>

lemma vlen_cases: "libxsmm_cpuid_vlen i \<in> {4, 16, 32, 64}"
  by (simp add: libxsmm_cpuid_vlen_def libxsmm_cpuid_vlen32_def)

end
