(* ===== verification/Memory_Diff.thy ===== *)
theory Memory_Diff
  imports Targets
begin

text \<open>
  Comparing blocks and arrays of blocks: \<open>src/libxsmm_diff.h\<close> and the functions \<open>libxsmm_diff\<close>,
  \<open>libxsmm_memcmp\<close> and \<open>libxsmm_diff_n\<close> of \<open>src/libxsmm_memory.c\<close> with their variants for the
  instruction sets, selected when the library is built or by \<open>libxsmm_memory_init\<close>. Memory that a
  pointer leads to is the list of the bytes from the pointer on. The compiler intrinsics that compare 16,
  32 or 64 bytes at once are the fields of a record that the definitions take as an argument, with their
  documented behaviour as the predicate \<open>simd_documented\<close>. The build with the \<open>memcmp\<close> of the C
  library (\<open>LIBXSMM_MEMORY_STDLIB\<close>) is not modelled. The indices of the loops over blocks stop at a
  multiple of the block size, hence they do not wrap around and are natural numbers.
\<close>

section \<open>Comparing blocks\<close>

subsection \<open>The intrinsics and the build\<close>

record simd_intrinsics =
  mm_movemask_cmpeq_epi8 :: "u8 list \<Rightarrow> u8 list \<Rightarrow> u32"
  mm256_movemask_cmpeq_epi8 :: "u8 list \<Rightarrow> u8 list \<Rightarrow> u32"
  mm512_cmpeq_epi32_mask :: "u8 list \<Rightarrow> u8 list \<Rightarrow> u32"

text \<open>
  Intel's documentation: bit \<open>i\<close> of the mask tells whether byte \<open>i\<close> (for the 512-bit comparison: 32-bit
  element \<open>i\<close>) of the two vectors is the same, the other bits are zero.
\<close>

definition simd_documented :: "simd_intrinsics \<Rightarrow> bool" where
  "simd_documented v \<longleftrightarrow>
    (\<forall>a b. \<forall>i<32. bit (mm_movemask_cmpeq_epi8 v a b) i \<longleftrightarrow> i < 16 \<and> a ! i = b ! i) \<and>
    (\<forall>a b. \<forall>i<32. bit (mm256_movemask_cmpeq_epi8 v a b) i \<longleftrightarrow> a ! i = b ! i) \<and>
    (\<forall>a b. \<forall>i<32. bit (mm512_cmpeq_epi32_mask v a b) i \<longleftrightarrow> i < 16 \<and> (\<forall>k<4. a ! (4 * i + k) = b ! (4 * i + k)))"

record mem_build =
  mem_static_arch :: int
  mem_max_static_arch :: int
  intrinsics_x86 :: bool
  intrinsics_avx2 :: bool
  intrinsics_avx512_skx :: bool
  diff_avx512_enabled :: bool
  memory_sw :: bool

subsection \<open>Blocks of fixed size\<close>

text \<open>The result type is \<open>unsigned char\<close>: one if the blocks differ.\<close>

definition LIBXSMM_DIFF_4 :: "u8 list \<Rightarrow> u8 list \<Rightarrow> u8" where
  "LIBXSMM_DIFF_4 a b = (if 0 \<noteq> ld32 a XOR ld32 b then 1 else 0)"

definition LIBXSMM_DIFF_8 :: "u8 list \<Rightarrow> u8 list \<Rightarrow> u8" where
  "LIBXSMM_DIFF_8 a b = (if 0 \<noteq> ld64 a XOR ld64 b then 1 else 0)"

definition LIBXSMM_DIFF_SSE :: "simd_intrinsics \<Rightarrow> u8 list \<Rightarrow> u8 list \<Rightarrow> u8" where
  "LIBXSMM_DIFF_SSE v a b = (if 0xFFFF \<noteq> mm_movemask_cmpeq_epi8 v a b then 1 else 0)"

definition LIBXSMM_DIFF_16 :: "mem_build \<Rightarrow> simd_intrinsics \<Rightarrow> u8 list \<Rightarrow> u8 list \<Rightarrow> u8" where
  "LIBXSMM_DIFF_16 c v a b =
    (if LIBXSMM_X86_GENERIC \<le> mem_static_arch c then LIBXSMM_DIFF_SSE v a b
     else if 0 \<noteq> (ld64 a XOR ld64 b) OR (ld64 (drop 8 a) XOR ld64 (drop 8 b)) then 1 else 0)"

definition LIBXSMM_DIFF_AVX2 :: "simd_intrinsics \<Rightarrow> u8 list \<Rightarrow> u8 list \<Rightarrow> u8" where
  "LIBXSMM_DIFF_AVX2 v a b = (if -1 \<noteq> mm256_movemask_cmpeq_epi8 v a b then 1 else 0)"

definition LIBXSMM_DIFF_32 :: "mem_build \<Rightarrow> simd_intrinsics \<Rightarrow> u8 list \<Rightarrow> u8 list \<Rightarrow> u8" where
  "LIBXSMM_DIFF_32 c v a b =
    (if LIBXSMM_X86_AVX2 \<le> mem_static_arch c then LIBXSMM_DIFF_AVX2 v a b
     else if 0 \<noteq> LIBXSMM_DIFF_16 c v a b then 1 else LIBXSMM_DIFF_16 c v (drop 16 a) (drop 16 b))"

definition LIBXSMM_DIFF_48 :: "mem_build \<Rightarrow> simd_intrinsics \<Rightarrow> u8 list \<Rightarrow> u8 list \<Rightarrow> u8" where
  "LIBXSMM_DIFF_48 c v a b =
    (if 0 \<noteq> LIBXSMM_DIFF_16 c v a b then 1 else LIBXSMM_DIFF_32 c v (drop 16 a) (drop 16 b))"

definition LIBXSMM_DIFF_64SW :: "mem_build \<Rightarrow> simd_intrinsics \<Rightarrow> u8 list \<Rightarrow> u8 list \<Rightarrow> u8" where
  "LIBXSMM_DIFF_64SW c v a b =
    (if 0 \<noteq> LIBXSMM_DIFF_32 c v a b then 1 else LIBXSMM_DIFF_32 c v (drop 32 a) (drop 32 b))"

definition LIBXSMM_DIFF_AVX512 :: "mem_build \<Rightarrow> simd_intrinsics \<Rightarrow> u8 list \<Rightarrow> u8 list \<Rightarrow> u8" where
  "LIBXSMM_DIFF_AVX512 c v a b =
    (if diff_avx512_enabled c then (if 0xFFFF \<noteq> mm512_cmpeq_epi32_mask v a b then 1 else 0)
     else LIBXSMM_DIFF_64SW c v a b)"

definition LIBXSMM_DIFF_64 :: "mem_build \<Rightarrow> simd_intrinsics \<Rightarrow> u8 list \<Rightarrow> u8 list \<Rightarrow> u8" where
  "LIBXSMM_DIFF_64 c v a b =
    (if LIBXSMM_X86_AVX512_SKX \<le> mem_static_arch c then LIBXSMM_DIFF_AVX512 c v a b
     else LIBXSMM_DIFF_64SW c v a b)"

subsection \<open>Blocks of variable size\<close>

text \<open>
  The two loops of the comparison functions: over blocks of \<open>w\<close> bytes up to \<open>n\<close> (\<open>None\<close> is the early return
  of one, else the index reached), and over the bytes from index \<open>i\<close> on.
\<close>

function block_loop :: "(u8 list \<Rightarrow> u8 list \<Rightarrow> u8) \<Rightarrow> nat \<Rightarrow> u8 list \<Rightarrow> u8 list \<Rightarrow> nat \<Rightarrow> nat \<Rightarrow> nat option" where
  "block_loop d w a b n i =
    (if i < n \<and> 0 < w then
       (if d (drop i a) (drop i b) \<noteq> 0 then None else block_loop d w a b n (i + w))
     else Some i)"
  by pat_completeness auto
termination
  by (relation "measure (\<lambda>(d, w, a, b, n, i). n - i)") auto

declare block_loop.simps [simp del]

function byte_loop :: "u8 list \<Rightarrow> u8 list \<Rightarrow> nat \<Rightarrow> nat \<Rightarrow> u8" where
  "byte_loop a b sz i =
    (if i < sz then (if a ! i XOR b ! i \<noteq> 0 then 1 else byte_loop a b sz (i + 1)) else 0)"
  by pat_completeness auto
termination
  by (relation "measure (\<lambda>(a, b, sz, i). sz - i)") auto

declare byte_loop.simps [simp del]

definition compare_loops :: "(u8 list \<Rightarrow> u8 list \<Rightarrow> u8) \<Rightarrow> nat \<Rightarrow> u8 list \<Rightarrow> u8 list \<Rightarrow> nat \<Rightarrow> nat \<Rightarrow> u8" where
  "compare_loops d w a b n sz =
    (case block_loop d w a b n 0 of None \<Rightarrow> 1 | Some i \<Rightarrow> byte_loop a b sz i)"

definition internal_diff_sw :: "mem_build \<Rightarrow> simd_intrinsics \<Rightarrow> u8 list \<Rightarrow> u8 list \<Rightarrow> u8 \<Rightarrow> u8" where
  "internal_diff_sw c v a b sz =
    compare_loops (LIBXSMM_DIFF_16 c v) 16 a b (unat (sz AND 0xF0)) (unat sz)"

definition internal_diff_sse :: "mem_build \<Rightarrow> simd_intrinsics \<Rightarrow> u8 list \<Rightarrow> u8 list \<Rightarrow> u8 \<Rightarrow> u8" where
  "internal_diff_sse c v a b sz =
    (if intrinsics_x86 c \<and> \<not> memory_sw c then
       compare_loops (LIBXSMM_DIFF_SSE v) 16 a b (unat (sz AND 0xF0)) (unat sz)
     else internal_diff_sw c v a b sz)"

definition internal_diff_avx2 :: "mem_build \<Rightarrow> simd_intrinsics \<Rightarrow> u8 list \<Rightarrow> u8 list \<Rightarrow> u8 \<Rightarrow> u8" where
  "internal_diff_avx2 c v a b sz =
    (if intrinsics_avx2 c \<and> \<not> memory_sw c then
       compare_loops (LIBXSMM_DIFF_AVX2 v) 32 a b (unat (sz AND 0xE0)) (unat sz)
     else internal_diff_sw c v a b sz)"

definition internal_diff_avx512 :: "mem_build \<Rightarrow> simd_intrinsics \<Rightarrow> u8 list \<Rightarrow> u8 list \<Rightarrow> u8 \<Rightarrow> u8" where
  "internal_diff_avx512 c v a b sz =
    (if intrinsics_avx512_skx c \<and> \<not> memory_sw c then
       compare_loops (LIBXSMM_DIFF_AVX512 c v) 64 a b (unat (sz AND 0xC0)) (unat sz)
     else internal_diff_sw c v a b sz)"

definition internal_memcmp_sw :: "mem_build \<Rightarrow> simd_intrinsics \<Rightarrow> u8 list \<Rightarrow> u8 list \<Rightarrow> u64 \<Rightarrow> u8" where
  "internal_memcmp_sw c v a b sz =
    compare_loops (LIBXSMM_DIFF_16 c v) 16 a b (unat (sz AND 0xFFFFFFFFFFFFFFF0)) (unat sz)"

definition internal_memcmp_sse :: "mem_build \<Rightarrow> simd_intrinsics \<Rightarrow> u8 list \<Rightarrow> u8 list \<Rightarrow> u64 \<Rightarrow> u8" where
  "internal_memcmp_sse c v a b sz =
    (if intrinsics_x86 c \<and> \<not> memory_sw c then
       compare_loops (LIBXSMM_DIFF_SSE v) 16 a b (unat (sz AND 0xFFFFFFFFFFFFFFF0)) (unat sz)
     else internal_memcmp_sw c v a b sz)"

definition internal_memcmp_avx2 :: "mem_build \<Rightarrow> simd_intrinsics \<Rightarrow> u8 list \<Rightarrow> u8 list \<Rightarrow> u64 \<Rightarrow> u8" where
  "internal_memcmp_avx2 c v a b sz =
    (if intrinsics_avx2 c \<and> \<not> memory_sw c then
       compare_loops (LIBXSMM_DIFF_AVX2 v) 32 a b (unat (sz AND 0xFFFFFFFFFFFFFFE0)) (unat sz)
     else internal_memcmp_sw c v a b sz)"

definition internal_memcmp_avx512 :: "mem_build \<Rightarrow> simd_intrinsics \<Rightarrow> u8 list \<Rightarrow> u8 list \<Rightarrow> u64 \<Rightarrow> u8" where
  "internal_memcmp_avx512 c v a b sz =
    (if intrinsics_avx512_skx c \<and> \<not> memory_sw c then
       compare_loops (LIBXSMM_DIFF_AVX512 c v) 64 a b (unat (sz AND 0xFFFFFFFFFFFFFFC0)) (unat sz)
     else internal_memcmp_sw c v a b sz)"

subsection \<open>The function pointers and the entry points\<close>

record mem_pointers =
  internal_diff_function :: "(u8 list \<Rightarrow> u8 list \<Rightarrow> u8 \<Rightarrow> u8) option"
  internal_memcmp_function :: "(u8 list \<Rightarrow> u8 list \<Rightarrow> u64 \<Rightarrow> u8) option"

definition libxsmm_memory_init :: "mem_build \<Rightarrow> simd_intrinsics \<Rightarrow> int \<Rightarrow> mem_pointers \<Rightarrow> mem_pointers" where
  "libxsmm_memory_init c v target_arch g =
    (if memory_sw c then g
     else if LIBXSMM_X86_AVX512_SKX \<le> target_arch then
       (if diff_avx512_enabled c then
          g\<lparr>internal_diff_function := Some (internal_diff_avx512 c v),
            internal_memcmp_function := Some (internal_memcmp_avx512 c v)\<rparr>
        else
          g\<lparr>internal_diff_function := Some (internal_diff_avx2 c v),
            internal_memcmp_function := Some (internal_memcmp_avx2 c v)\<rparr>)
     else if LIBXSMM_X86_AVX2 \<le> target_arch then
       g\<lparr>internal_diff_function := Some (internal_diff_avx2 c v),
         internal_memcmp_function := Some (internal_memcmp_avx2 c v)\<rparr>
     else if LIBXSMM_X86_GENERIC \<le> target_arch then
       g\<lparr>internal_diff_function := Some (internal_diff_sse c v),
         internal_memcmp_function := Some (internal_memcmp_sse c v)\<rparr>
     else
       g\<lparr>internal_diff_function := Some (internal_diff_sw c v),
         internal_memcmp_function := Some (internal_memcmp_sw c v)\<rparr>)"

definition libxsmm_diff :: "mem_build \<Rightarrow> simd_intrinsics \<Rightarrow> mem_pointers \<Rightarrow> u8 list \<Rightarrow> u8 list \<Rightarrow> u8 \<Rightarrow> u8" where
  "libxsmm_diff c v g a b sz =
    (if memory_sw c then internal_diff_sw c v a b sz
     else if LIBXSMM_X86_AVX512_SKX \<le> mem_static_arch c \<and> diff_avx512_enabled c then internal_diff_avx512 c v a b sz
     else if LIBXSMM_X86_AVX2 \<le> mem_static_arch c then internal_diff_avx2 c v a b sz
     else if LIBXSMM_X86_SSE3 \<le> mem_static_arch c then
       (if LIBXSMM_X86_AVX2 > mem_max_static_arch c then internal_diff_sse c v a b sz
        else case internal_diff_function g of
               Some f \<Rightarrow> f a b sz
             | None \<Rightarrow> internal_diff_sse c v a b sz)
     else internal_diff_sw c v a b sz)"

definition libxsmm_memcmp :: "mem_build \<Rightarrow> simd_intrinsics \<Rightarrow> mem_pointers \<Rightarrow> u8 list \<Rightarrow> u8 list \<Rightarrow> u64 \<Rightarrow> u8" where
  "libxsmm_memcmp c v g a b sz =
    (if memory_sw c then internal_memcmp_sw c v a b sz
     else if LIBXSMM_X86_AVX512_SKX \<le> mem_static_arch c \<and> diff_avx512_enabled c then internal_memcmp_avx512 c v a b sz
     else if LIBXSMM_X86_AVX2 \<le> mem_static_arch c then internal_memcmp_avx2 c v a b sz
     else if LIBXSMM_X86_SSE3 \<le> mem_static_arch c then
       (if LIBXSMM_X86_AVX2 > mem_max_static_arch c then internal_memcmp_sse c v a b sz
        else case internal_memcmp_function g of
               Some f \<Rightarrow> f a b sz
             | None \<Rightarrow> internal_memcmp_sse c v a b sz)
     else internal_memcmp_sw c v a b sz)"

definition libxsmm_diff_4 :: "mem_build \<Rightarrow> simd_intrinsics \<Rightarrow> u8 list \<Rightarrow> u8 list \<Rightarrow> u8" where
  "libxsmm_diff_4 c v a b = (if memory_sw c then internal_diff_sw c v a b 4 else LIBXSMM_DIFF_4 a b)"

definition libxsmm_diff_8 :: "mem_build \<Rightarrow> simd_intrinsics \<Rightarrow> u8 list \<Rightarrow> u8 list \<Rightarrow> u8" where
  "libxsmm_diff_8 c v a b = (if memory_sw c then internal_diff_sw c v a b 8 else LIBXSMM_DIFF_8 a b)"

definition libxsmm_diff_16 :: "mem_build \<Rightarrow> simd_intrinsics \<Rightarrow> u8 list \<Rightarrow> u8 list \<Rightarrow> u8" where
  "libxsmm_diff_16 c v a b = (if memory_sw c then internal_diff_sw c v a b 16 else LIBXSMM_DIFF_16 c v a b)"

definition libxsmm_diff_32 :: "mem_build \<Rightarrow> simd_intrinsics \<Rightarrow> u8 list \<Rightarrow> u8 list \<Rightarrow> u8" where
  "libxsmm_diff_32 c v a b = (if memory_sw c then internal_diff_sw c v a b 32 else LIBXSMM_DIFF_32 c v a b)"

definition libxsmm_diff_48 :: "mem_build \<Rightarrow> simd_intrinsics \<Rightarrow> u8 list \<Rightarrow> u8 list \<Rightarrow> u8" where
  "libxsmm_diff_48 c v a b = (if memory_sw c then internal_diff_sw c v a b 48 else LIBXSMM_DIFF_48 c v a b)"

definition libxsmm_diff_64 :: "mem_build \<Rightarrow> simd_intrinsics \<Rightarrow> u8 list \<Rightarrow> u8 list \<Rightarrow> u8" where
  "libxsmm_diff_64 c v a b = (if memory_sw c then internal_diff_sw c v a b 64 else LIBXSMM_DIFF_64 c v a b)"

subsection \<open>Searching an array of blocks\<close>

text \<open>
  The macro \<open>LIBXSMM_DIFF_N\<close>: the loop from the hint to the end, and the loop from the start to the hint. The
  pointer is advanced by the stride in each round, hence it is the offset \<open>off\<close> from the start of the array.
\<close>

function diff_n_up :: "(u8 list \<Rightarrow> u8) \<Rightarrow> u8 list \<Rightarrow> nat \<Rightarrow> u32 \<Rightarrow> nat \<Rightarrow> u32 \<Rightarrow> u32" where
  "diff_n_up d bn stride n off result =
    (if result < n then
       (if 0 = d (drop off bn) then result else diff_n_up d bn stride n (off + stride) (result + 1))
     else result)"
  by pat_completeness auto
termination
proof (relation "measure (\<lambda>(d, bn, stride, n, off, result). unat n - unat result)", goal_cases)
  case (2 d bn stride n off result)
  then have "unat result < unat n" and "unat (result + 1) = unat result + 1"
    using unat_less_width [of n] by (simp_all add: word_less_nat_alt unat_add_small)
  then show ?case
    by simp
qed simp

declare diff_n_up.simps [simp del]

definition LIBXSMM_DIFF_N :: "(u8 list \<Rightarrow> u8) \<Rightarrow> u8 list \<Rightarrow> u8 \<Rightarrow> u32 \<Rightarrow> u32 \<Rightarrow> u32" where
  "LIBXSMM_DIFF_N d bn stride hint n =
    (let result = diff_n_up d bn (unat stride) n (unat hint * unat stride) hint
     in if n = result then
          (let r = diff_n_up d bn (unat stride) hint 0 0 in if r < hint then r else result)
        else result)"

definition libxsmm_diff_n :: "mem_build \<Rightarrow> simd_intrinsics \<Rightarrow> mem_pointers \<Rightarrow> u8 list \<Rightarrow> u8 list \<Rightarrow> u8 \<Rightarrow> u8 \<Rightarrow> u32 \<Rightarrow> u32 \<Rightarrow> u32" where
  "libxsmm_diff_n c v g a bn elemsize stride hint count =
    (if \<not> memory_sw c \<and> elemsize = 64 then LIBXSMM_DIFF_N (LIBXSMM_DIFF_64 c v a) bn stride hint count
     else if \<not> memory_sw c \<and> elemsize = 48 then LIBXSMM_DIFF_N (LIBXSMM_DIFF_48 c v a) bn stride hint count
     else if \<not> memory_sw c \<and> elemsize = 32 then LIBXSMM_DIFF_N (LIBXSMM_DIFF_32 c v a) bn stride hint count
     else if \<not> memory_sw c \<and> elemsize = 16 then LIBXSMM_DIFF_N (LIBXSMM_DIFF_16 c v a) bn stride hint count
     else if \<not> memory_sw c \<and> elemsize = 8 then LIBXSMM_DIFF_N (LIBXSMM_DIFF_8 a) bn stride hint count
     else if \<not> memory_sw c \<and> elemsize = 4 then LIBXSMM_DIFF_N (LIBXSMM_DIFF_4 a) bn stride hint count
     else LIBXSMM_DIFF_N (\<lambda>b. libxsmm_diff c v g a b elemsize) bn stride hint count)"


section \<open>The block comparison as an interface\<close>

text \<open>A comparison of \<open>w\<close> bytes: what the loops over the blocks rely on.\<close>

locale block_compare =
  fixes d :: "u8 list \<Rightarrow> u8 list \<Rightarrow> u8" and w :: nat
  assumes differs: "w \<le> length a \<Longrightarrow> w \<le> length b \<Longrightarrow> d a b = (if take w a = take w b then 0 else 1)"
    and width: "0 < w"
begin

lemma block_loop_take:
  assumes "n \<le> length a" and "n \<le> length b" and "w dvd n - i" and "i \<le> n"
  shows "block_loop d w a b n i = (if take (n - i) (drop i a) = take (n - i) (drop i b) then Some n else None)"
  using assms
proof (induction "n - i" arbitrary: i rule: less_induct)
  case less
  show ?case
  proof (cases "i = n")
    case True
    then show ?thesis by (simp add: block_loop.simps)
  next
    case False
    then have i: "i < n" and w: "w \<le> n - i"
      using less.prems by (auto intro: dvd_imp_le)
    let ?m = "n - (i + w)"
    have m: "n - i = w + ?m" and "w dvd ?m"
      using w dvd_diff_nat [OF less.prems(3) dvd_refl] by simp_all
    have split: "take (n - i) (drop i z) = take w (drop i z) @ take ?m (drop (i + w) z)" for z :: "u8 list"
      unfolding m take_add by (simp add: add.commute)
    have "block_loop d w a b n (i + w)
        = (if take ?m (drop (i + w) a) = take ?m (drop (i + w) b) then Some n else None)"
      by (rule less.hyps) (use less.prems i w width \<open>w dvd ?m\<close> in auto)
    moreover have "d (drop i a) (drop i b) = (if take w (drop i a) = take w (drop i b) then 0 else 1)"
      using w less.prems(1,2) by (intro differs) simp_all
    moreover have "length (take w (drop i a)) = length (take w (drop i b))"
      using w less.prems(1,2) by simp
    then have "take (n - i) (drop i a) = take (n - i) (drop i b) \<longleftrightarrow>
        take w (drop i a) = take w (drop i b) \<and> take ?m (drop (i + w) a) = take ?m (drop (i + w) b)"
      unfolding split by (intro append_eq_append_conv disjI1)
    ultimately show ?thesis
      using i width by (subst block_loop.simps) simp
  qed
qed

lemma byte_loop_take:
  "sz \<le> length a \<Longrightarrow> sz \<le> length b \<Longrightarrow> i \<le> sz \<Longrightarrow>
   byte_loop a b sz i = (if take (sz - i) (drop i a) = take (sz - i) (drop i b) then 0 else 1)"
proof (induction a b sz i rule: byte_loop.induct)
  case (1 a b sz i)
  show ?case
  proof (cases "i < sz")
    case True
    then have "take (sz - i) (drop i z) = z ! i # take (sz - (i + 1)) (drop (i + 1) z)" if "sz \<le> length z" for z :: "u8 list"
      using that by (cases "sz - i") (simp_all add: Cons_nth_drop_Suc [symmetric] diff_Suc split: nat.split)
    then show ?thesis
      using 1 True by (subst byte_loop.simps) auto
  next
    case False
    then show ?thesis
      using 1 by (simp add: byte_loop.simps)
  qed
qed

lemma compare_loops_take:
  assumes "sz \<le> length a" and "sz \<le> length b" and "n \<le> sz" and "w dvd n"
  shows "compare_loops d w a b n sz = (if take sz a = take sz b then 0 else 1)"
proof -
  have sz: "sz = n + (sz - n)"
    using assms(3) by simp
  have "take sz z = take n z @ take (sz - n) (drop n z)" for z :: "u8 list"
    by (subst sz, subst take_add) simp
  then show ?thesis
    using assms block_loop_take [of n a b 0] byte_loop_take [of sz a b n]
    by (auto simp: compare_loops_def)
qed

end

section \<open>The block comparisons compare\<close>

lemma ld32_eq_iff:
  assumes "4 \<le> length a" and "4 \<le> length b"
  shows "ld32 a = ld32 b \<longleftrightarrow> take 4 a = take 4 b"
proof
  assume eq: "ld32 a = ld32 b"
  have "a ! i = b ! i" if "i < 4" for i
  proof -
    have "i \<in> {0, 1, 2, 3}" using that by auto
    then show ?thesis
      using ld32_byte [of a] ld32_byte [of b] eq by auto
  qed
  then show "take 4 a = take 4 b"
    using assms by (simp add: list_eq_iff_nth_eq)
next
  assume eq: "take 4 a = take 4 b"
  have "a ! i = b ! i" if "i < 4" for i
    using arg_cong [OF eq, of "\<lambda>z. z ! i"] that assms by simp
  then show "ld32 a = ld32 b"
    by (simp add: ld32_def)
qed

lemma take_add_eq_iff:
  "m \<le> length a \<Longrightarrow> m \<le> length b \<Longrightarrow>
   take (m + n) a = take (m + n) b \<longleftrightarrow> take m a = take m b \<and> take n (drop m a) = take n (drop m b)"
  by (simp add: take_add append_eq_append_conv min_def)

lemma ld64_eq_iff:
  assumes "8 \<le> length a" and "8 \<le> length b"
  shows "ld64 a = ld64 b \<longleftrightarrow> take 8 a = take 8 b"
proof -
  have "ld64 a = ld64 b \<longleftrightarrow> ld32 a = ld32 b \<and> ld32 (drop 4 a) = ld32 (drop 4 b)"
    using ld64_low [of a] ld64_high [of a] ld64_low [of b] ld64_high [of b] by (metis ld64_def)
  then show ?thesis
    using assms take_add_eq_iff [of 4 a b 4] by (simp add: ld32_eq_iff)
qed

interpretation diff4: block_compare LIBXSMM_DIFF_4 4
  by unfold_locales (simp_all add: LIBXSMM_DIFF_4_def ld32_eq_iff)

interpretation diff8: block_compare LIBXSMM_DIFF_8 8
  by unfold_locales (simp_all add: LIBXSMM_DIFF_8_def ld64_eq_iff)

text \<open>The comparisons by an intrinsic, given its documented behaviour.\<close>

lemma all_less_take_iff:
  "w \<le> length a \<Longrightarrow> w \<le> length b \<Longrightarrow> (\<forall>i<w. a ! i = b ! i) \<longleftrightarrow> take w a = take w b"
  by (auto simp: list_eq_iff_nth_eq)

lemma bit_u32_mask16: "bit (0xFFFF :: u32) i \<longleftrightarrow> i < 16"
  using bit_0xFFFF [where 'a = 32, of i] by auto

lemma u32_eq_iff: "(a :: u32) = b \<longleftrightarrow> (\<forall>i<32. bit a i = bit b i)"
  by (auto intro: word_eq_bitI)

lemma low16_iff: "(\<forall>i<32. (i < 16) = (i < 16 \<and> P i)) \<longleftrightarrow> (\<forall>i<16 :: nat. P i)"
proof
  assume all: "\<forall>i<32. (i < 16) = (i < 16 \<and> P i)"
  show "\<forall>i<16. P i"
  proof (intro allI impI)
    fix i :: nat assume "i < 16"
    then have "i < 32" by simp
    with all \<open>i < 16\<close> show "P i" by blast
  qed
qed blast

lemma sse_compares: "simd_documented v \<Longrightarrow> block_compare (LIBXSMM_DIFF_SSE v) 16"
proof (unfold_locales, goal_cases)
  case (1 a b)
  have "0xFFFF = mm_movemask_cmpeq_epi8 v a b \<longleftrightarrow> (\<forall>i<32. bit (0xFFFF :: u32) i = bit (mm_movemask_cmpeq_epi8 v a b) i)"
    by (rule u32_eq_iff)
  also have "\<dots> \<longleftrightarrow> (\<forall>i<32. (i < 16) = (i < 16 \<and> a ! i = b ! i))"
    using 1(1) unfolding simd_documented_def bit_u32_mask16 by simp
  also have "\<dots> \<longleftrightarrow> (\<forall>i<16. a ! i = b ! i)"
    by (rule low16_iff)
  finally show ?case
    using 1 by (simp add: LIBXSMM_DIFF_SSE_def all_less_take_iff)
qed simp

lemma avx2_compares: "simd_documented v \<Longrightarrow> block_compare (LIBXSMM_DIFF_AVX2 v) 32"
proof (unfold_locales, goal_cases)
  case (1 a b)
  have "-1 = mm256_movemask_cmpeq_epi8 v a b \<longleftrightarrow> (\<forall>i<32. bit (-1 :: u32) i = bit (mm256_movemask_cmpeq_epi8 v a b) i)"
    by (rule u32_eq_iff)
  also have "\<dots> \<longleftrightarrow> (\<forall>i<32. a ! i = b ! i)"
    using 1(1) unfolding simd_documented_def by simp
  finally show ?case
    using 1 by (simp add: LIBXSMM_DIFF_AVX2_def all_less_take_iff)
qed simp

lemma groups_of_four: "(\<forall>i<16. \<forall>k<4. P (4 * i + k)) \<longleftrightarrow> (\<forall>j<64 :: nat. P j)"
proof
  assume P: "\<forall>i<16. \<forall>k<4. P (4 * i + k)"
  show "\<forall>j<64. P j"
  proof (intro allI impI)
    fix j :: nat assume "j < 64"
    then have "j div 4 < 16" "j mod 4 < 4" by simp_all
    then have "P (4 * (j div 4) + j mod 4)" using P by blast
    then show "P j" by simp
  qed
qed simp

lemma avx512_mask_compares:
  assumes "simd_documented v" and "64 \<le> length a" and "64 \<le> length b"
  shows "0xFFFF = mm512_cmpeq_epi32_mask v a b \<longleftrightarrow> take 64 a = take 64 b"
proof -
  have "0xFFFF = mm512_cmpeq_epi32_mask v a b \<longleftrightarrow> (\<forall>i<32. bit (0xFFFF :: u32) i = bit (mm512_cmpeq_epi32_mask v a b) i)"
    by (rule u32_eq_iff)
  also have "\<dots> \<longleftrightarrow> (\<forall>i<32. (i < 16) = (i < 16 \<and> (\<forall>k<4. a ! (4 * i + k) = b ! (4 * i + k))))"
    using assms(1) unfolding simd_documented_def bit_u32_mask16 by simp
  also have "\<dots> \<longleftrightarrow> (\<forall>i<16. \<forall>k<4. a ! (4 * i + k) = b ! (4 * i + k))"
    by (rule low16_iff)
  also have "\<dots> \<longleftrightarrow> take 64 a = take 64 b"
    using assms(2,3) groups_of_four [of "\<lambda>j. a ! j = b ! j"] by (simp add: all_less_take_iff)
  finally show ?thesis .
qed

text \<open>Two comparisons in a row compare the concatenation.\<close>

lemma seq_compares:
  assumes "block_compare d1 m" and "block_compare d2 n"
    and "\<And>a b. d a b = (if 0 \<noteq> d1 a b then 1 else d2 (drop m a) (drop m b))"
  shows "block_compare d (m + n)"
proof (unfold_locales, goal_cases)
  case (1 a b)
  then show ?case
    using block_compare.differs [OF assms(1), of a b] block_compare.differs [OF assms(2), of "drop m a" "drop m b"]
    by (simp add: assms(3) take_add_eq_iff)
next
  case 2
  then show ?case
    using block_compare.width [OF assms(1)] by simp
qed

lemma diff16_compares: "simd_documented v \<Longrightarrow> block_compare (LIBXSMM_DIFF_16 c v) 16"
proof (cases "LIBXSMM_X86_GENERIC \<le> mem_static_arch c")
  case True
  assume "simd_documented v"
  then show ?thesis
    using sse_compares True by (simp add: LIBXSMM_DIFF_16_def [abs_def])
next
  case False
  have "block_compare (LIBXSMM_DIFF_16 c v) (8 + 8)"
    by (rule seq_compares [OF diff8.block_compare_axioms diff8.block_compare_axioms])
       (use False in \<open>auto simp: LIBXSMM_DIFF_16_def LIBXSMM_DIFF_8_def or_eq_0_iff\<close>)
  then show ?thesis by simp
qed

lemma diff32_compares:
  assumes "simd_documented v"
  shows "block_compare (LIBXSMM_DIFF_32 c v) 32"
proof (cases "LIBXSMM_X86_AVX2 \<le> mem_static_arch c")
  case True
  then show ?thesis
    using avx2_compares [OF assms] by (simp add: LIBXSMM_DIFF_32_def [abs_def])
next
  case False
  have "block_compare (LIBXSMM_DIFF_32 c v) (16 + 16)"
    by (rule seq_compares [OF diff16_compares [OF assms] diff16_compares [OF assms]])
       (use False in \<open>simp add: LIBXSMM_DIFF_32_def\<close>)
  then show ?thesis by simp
qed

lemma diff48_compares: "simd_documented v \<Longrightarrow> block_compare (LIBXSMM_DIFF_48 c v) 48"
  using seq_compares [OF diff16_compares diff32_compares, of v v "LIBXSMM_DIFF_48 c v" c c]
  by (simp add: LIBXSMM_DIFF_48_def)

lemma diff64sw_compares: "simd_documented v \<Longrightarrow> block_compare (LIBXSMM_DIFF_64SW c v) 64"
  using seq_compares [OF diff32_compares diff32_compares, of v v "LIBXSMM_DIFF_64SW c v" c c]
  by (simp add: LIBXSMM_DIFF_64SW_def)

lemma avx512_compares:
  assumes "simd_documented v"
  shows "block_compare (LIBXSMM_DIFF_AVX512 c v) 64"
proof (cases "diff_avx512_enabled c")
  case True
  then show ?thesis
    using assms by unfold_locales (simp_all add: LIBXSMM_DIFF_AVX512_def avx512_mask_compares)
next
  case False
  then show ?thesis
    using diff64sw_compares [OF assms] by (simp add: LIBXSMM_DIFF_AVX512_def [abs_def])
qed

lemma diff64_compares: "simd_documented v \<Longrightarrow> block_compare (LIBXSMM_DIFF_64 c v) 64"
  using avx512_compares [of v c] diff64sw_compares [of v c]
  by (cases "LIBXSMM_X86_AVX512_SKX \<le> mem_static_arch c") (simp_all add: LIBXSMM_DIFF_64_def [abs_def])

section \<open>The entry points compare\<close>

text \<open>A comparison of a variable number of bytes.\<close>

definition compares_bytes :: "(u8 list \<Rightarrow> u8 list \<Rightarrow> 'n::len word \<Rightarrow> u8) \<Rightarrow> bool" where
  "compares_bytes f \<longleftrightarrow> (\<forall>a b sz. unat sz \<le> length a \<longrightarrow> unat sz \<le> length b \<longrightarrow>
     f a b sz = (if take (unat sz) a = take (unat sz) b then 0 else 1))"

lemma block_mask:
  assumes "k \<le> LENGTH('a)"
  shows "unat (sz AND NOT (mask k) :: 'a::len word) \<le> unat sz" and "2 ^ k dvd unat (sz AND NOT (mask k) :: 'a word)"
proof -
  have eq: "sz AND NOT (mask k) = push_bit k (drop_bit k sz)"
    by (rule word_eq_bitI) (auto simp: bit_simps)
  have "unat (drop_bit k sz) * 2 ^ k \<le> unat sz"
    unfolding unat_drop_bit by (rule div_times_less_eq_dividend)
  then have "unat (push_bit k (drop_bit k sz)) = unat (drop_bit k sz) * 2 ^ k" and "unat (drop_bit k sz) * 2 ^ k \<le> unat sz"
    using unat_push_bit_small [of "drop_bit k sz" k] le_less_trans [OF _ unat_less_width [of sz]] by blast+
  then show "unat (sz AND NOT (mask k)) \<le> unat sz" and "2 ^ k dvd unat (sz AND NOT (mask k))"
    unfolding eq by simp_all
qed

lemma not_masks:
  "(0xF0 :: u8) = NOT (mask 4)" "(0xE0 :: u8) = NOT (mask 5)" "(0xC0 :: u8) = NOT (mask 6)"
  "(0xFFFFFFFFFFFFFFF0 :: u64) = NOT (mask 4)" "(0xFFFFFFFFFFFFFFE0 :: u64) = NOT (mask 5)"
  "(0xFFFFFFFFFFFFFFC0 :: u64) = NOT (mask 6)"
  by (simp_all add: mask_eq_exp_minus_1)

lemma compare_loops_bytes:
  assumes "block_compare d (2 ^ k)" and "k \<le> LENGTH('n)"
  shows "compares_bytes (\<lambda>a b sz :: 'n::len word. compare_loops d (2 ^ k) a b (unat (sz AND NOT (mask k))) (unat sz))"
  unfolding compares_bytes_def
  using block_compare.compare_loops_take [OF assms(1)] block_mask [OF assms(2)] by blast

lemma loops_u8:
  "block_compare d 16 \<Longrightarrow> compares_bytes (\<lambda>a b (sz :: u8). compare_loops d 16 a b (unat (sz AND 0xF0)) (unat sz))"
  "block_compare d 32 \<Longrightarrow> compares_bytes (\<lambda>a b (sz :: u8). compare_loops d 32 a b (unat (sz AND 0xE0)) (unat sz))"
  "block_compare d 64 \<Longrightarrow> compares_bytes (\<lambda>a b (sz :: u8). compare_loops d 64 a b (unat (sz AND 0xC0)) (unat sz))"
  using compare_loops_bytes [where 'n = 8, of d 4] compare_loops_bytes [where 'n = 8, of d 5]
    compare_loops_bytes [where 'n = 8, of d 6]
  unfolding not_masks by simp_all

lemma loops_u64:
  "block_compare d 16 \<Longrightarrow>
     compares_bytes (\<lambda>a b (sz :: u64). compare_loops d 16 a b (unat (sz AND 0xFFFFFFFFFFFFFFF0)) (unat sz))"
  "block_compare d 32 \<Longrightarrow>
     compares_bytes (\<lambda>a b (sz :: u64). compare_loops d 32 a b (unat (sz AND 0xFFFFFFFFFFFFFFE0)) (unat sz))"
  "block_compare d 64 \<Longrightarrow>
     compares_bytes (\<lambda>a b (sz :: u64). compare_loops d 64 a b (unat (sz AND 0xFFFFFFFFFFFFFFC0)) (unat sz))"
  using compare_loops_bytes [where 'n = 64, of d 4] compare_loops_bytes [where 'n = 64, of d 5]
    compare_loops_bytes [where 'n = 64, of d 6]
  unfolding not_masks by simp_all

text \<open>Which variant is selected does not matter, if every one compares.\<close>

lemma compares_if:
  "compares_bytes f \<Longrightarrow> compares_bytes h \<Longrightarrow> compares_bytes (\<lambda>a b sz. if c then f a b sz else h a b sz)"
  by (simp add: compares_bytes_def)

lemma compares_pointer:
  "\<forall>f. p = Some f \<longrightarrow> compares_bytes f \<Longrightarrow> compares_bytes h \<Longrightarrow>
   compares_bytes (\<lambda>a b sz. case p of Some f \<Rightarrow> f a b sz | None \<Rightarrow> h a b sz)"
  by (cases p) (simp_all add: compares_bytes_def)

lemma internal_sw_compares:
  assumes "simd_documented v"
  shows "compares_bytes (internal_diff_sw c v)" "compares_bytes (internal_memcmp_sw c v)"
  unfolding internal_diff_sw_def [abs_def] internal_memcmp_sw_def [abs_def]
  by (intro loops_u8 loops_u64 diff16_compares assms)+

lemma internal_simd_compares:
  assumes "simd_documented v"
  shows "compares_bytes (internal_diff_sse c v)" "compares_bytes (internal_memcmp_sse c v)"
    "compares_bytes (internal_diff_avx2 c v)" "compares_bytes (internal_memcmp_avx2 c v)"
    "compares_bytes (internal_diff_avx512 c v)" "compares_bytes (internal_memcmp_avx512 c v)"
  unfolding internal_diff_sse_def [abs_def] internal_memcmp_sse_def [abs_def] internal_diff_avx2_def [abs_def]
    internal_memcmp_avx2_def [abs_def] internal_diff_avx512_def [abs_def] internal_memcmp_avx512_def [abs_def]
  by (intro compares_if loops_u8 loops_u64 sse_compares avx2_compares avx512_compares internal_sw_compares assms)+

lemmas internal_compares = internal_sw_compares internal_simd_compares

text \<open>The function pointers before and after the initialisation.\<close>

definition pointers_valid :: "mem_pointers \<Rightarrow> bool" where
  "pointers_valid g \<longleftrightarrow> (\<forall>f. internal_diff_function g = Some f \<longrightarrow> compares_bytes f) \<and>
    (\<forall>f. internal_memcmp_function g = Some f \<longrightarrow> compares_bytes f)"

lemma memory_init_valid:
  "simd_documented v \<Longrightarrow> pointers_valid g \<Longrightarrow> pointers_valid (libxsmm_memory_init c v target g)"
  using internal_compares by (simp add: libxsmm_memory_init_def pointers_valid_def)

lemma diff_compares: "simd_documented v \<Longrightarrow> pointers_valid g \<Longrightarrow> compares_bytes (libxsmm_diff c v g)"
  unfolding libxsmm_diff_def [abs_def] pointers_valid_def
  by (intro compares_if compares_pointer internal_compares) simp_all

lemma memcmp_compares: "simd_documented v \<Longrightarrow> pointers_valid g \<Longrightarrow> compares_bytes (libxsmm_memcmp c v g)"
  unfolding libxsmm_memcmp_def [abs_def] pointers_valid_def
  by (intro compares_if compares_pointer internal_compares) simp_all

definition no_pointers :: mem_pointers where
  "no_pointers = \<lparr>internal_diff_function = None, internal_memcmp_function = None\<rparr>"

lemma no_pointers_valid: "pointers_valid no_pointers"
  by (simp add: pointers_valid_def no_pointers_def)

text \<open>
  C27: For every build, target and number of bytes, \<open>libxsmm_diff\<close> and \<open>libxsmm_memcmp\<close> return zero exactly if
  the bytes are the same, before and after \<open>libxsmm_memory_init\<close> sets the function pointers, and so do
  the functions for 4, 8, 16, 32, 48 and 64 bytes; the SIMD intrinsics are given by their documentation.
\<close>

theorem diff_iff_bytes_differ:
  assumes "simd_documented v" and "64 \<le> length a" and "64 \<le> length b"
    and "unat n \<le> length a" and "unat n \<le> length b" and "unat m \<le> length a" and "unat m \<le> length b"
    and "g = no_pointers \<or> g = libxsmm_memory_init c v target no_pointers"
  shows "(libxsmm_diff c v g a b n = 0 \<longleftrightarrow> take (unat n) a = take (unat n) b) \<and>
    (libxsmm_memcmp c v g a b m = 0 \<longleftrightarrow> take (unat m) a = take (unat m) b) \<and>
    (libxsmm_diff_4 c v a b = 0 \<longleftrightarrow> take 4 a = take 4 b) \<and> (libxsmm_diff_8 c v a b = 0 \<longleftrightarrow> take 8 a = take 8 b) \<and>
    (libxsmm_diff_16 c v a b = 0 \<longleftrightarrow> take 16 a = take 16 b) \<and>
    (libxsmm_diff_32 c v a b = 0 \<longleftrightarrow> take 32 a = take 32 b) \<and>
    (libxsmm_diff_48 c v a b = 0 \<longleftrightarrow> take 48 a = take 48 b) \<and>
    (libxsmm_diff_64 c v a b = 0 \<longleftrightarrow> take 64 a = take 64 b)"
proof -
  have g: "pointers_valid g"
    using assms(1,8) memory_init_valid no_pointers_valid by blast
  have "libxsmm_diff c v g a b n = 0 \<longleftrightarrow> take (unat n) a = take (unat n) b"
    using diff_compares [OF assms(1) g] assms(4,5) by (simp add: compares_bytes_def)
  moreover have "libxsmm_memcmp c v g a b m = 0 \<longleftrightarrow> take (unat m) a = take (unat m) b"
    using memcmp_compares [OF assms(1) g] assms(6,7) by (simp add: compares_bytes_def)
  moreover have sw: "internal_diff_sw c v a b sz = 0 \<longleftrightarrow> take (unat sz) a = take (unat sz) b" if "unat sz \<le> 64" for sz
    using internal_sw_compares(1) [OF assms(1), of c] assms(2,3) that by (simp add: compares_bytes_def)
  moreover note diff4.differs [of a b] diff8.differs [of a b] block_compare.differs [OF diff16_compares [OF assms(1)], of a b c]
    block_compare.differs [OF diff32_compares [OF assms(1)], of a b c]
    block_compare.differs [OF diff48_compares [OF assms(1)], of a b c]
    block_compare.differs [OF diff64_compares [OF assms(1)], of a b c]
  ultimately show ?thesis
    using assms(2,3)
    by (simp add: libxsmm_diff_4_def libxsmm_diff_8_def libxsmm_diff_16_def libxsmm_diff_32_def
        libxsmm_diff_48_def libxsmm_diff_64_def)
qed

text \<open>A record of intrinsics with the documented behaviour, to show that it is satisfiable.\<close>

definition simd_ref :: simd_intrinsics where
  "simd_ref = \<lparr>
     mm_movemask_cmpeq_epi8 = (\<lambda>a b. horner_sum of_bool 2 (map (\<lambda>i. a ! i = b ! i) [0..<16])),
     mm256_movemask_cmpeq_epi8 = (\<lambda>a b. horner_sum of_bool 2 (map (\<lambda>i. a ! i = b ! i) [0..<32])),
     mm512_cmpeq_epi32_mask =
       (\<lambda>a b. horner_sum of_bool 2 (map (\<lambda>i. \<forall>k<4. a ! (4 * i + k) = b ! (4 * i + k)) [0..<16]))\<rparr>"

lemma simd_ref_documented: "simd_documented simd_ref"
  by (auto simp: simd_documented_def simd_ref_def bit_horner_sum_bit_iff)

definition portable_build :: mem_build where
  "portable_build = \<lparr>mem_static_arch = 0, mem_max_static_arch = 0, intrinsics_x86 = False, intrinsics_avx2 = False,
     intrinsics_avx512_skx = False, diff_avx512_enabled = False, memory_sw = False\<rparr>"

theorem diff_iff_bytes_differ_witness:
  "libxsmm_diff_48 portable_build simd_ref (replicate 64 1) (replicate 47 1 @ replicate 17 2) \<noteq> 0 \<and>
   libxsmm_memcmp portable_build simd_ref (libxsmm_memory_init portable_build simd_ref LIBXSMM_X86_AVX2 no_pointers)
     (replicate 64 1) (replicate 47 1 @ replicate 17 2) 47 = 0"
proof -
  have eq: "take 47 (replicate 64 1) = take 47 (replicate 47 1 @ replicate 17 (2 :: u8))"
    and ne: "take 48 (replicate 64 1) \<noteq> take 48 (replicate 47 1 @ replicate 17 (2 :: u8))"
    by (simp_all add: take_Cons' replicate_app_Cons_same list_eq_iff_nth_eq exI [of _ 47] nth_append)
  show ?thesis
    using diff_iff_bytes_differ [OF simd_ref_documented, of "replicate 64 1" "replicate 47 1 @ replicate 17 2" 48 47
        "libxsmm_memory_init portable_build simd_ref LIBXSMM_X86_AVX2 no_pointers" portable_build LIBXSMM_X86_AVX2] eq ne
    by simp
qed

section \<open>Searching an array of blocks\<close>

lemma diff_n_up_spec:
  assumes "off = unat result * stride" and "result \<le> n"
  shows "let r = diff_n_up d bn stride n off result
    in result \<le> r \<and> r \<le> n \<and> (r < n \<longrightarrow> d (drop (unat r * stride) bn) = 0) \<and>
       (\<forall>i. unat result \<le> i \<and> i < unat r \<longrightarrow> d (drop (i * stride) bn) \<noteq> 0)"
  using assms
proof (induction d bn stride n off result rule: diff_n_up.induct)
  case (1 d bn stride n off result)
  show ?case
  proof (cases "result < n \<and> d (drop off bn) \<noteq> 0")
    case False
    then have "diff_n_up d bn stride n off result = result"
      by (subst diff_n_up.simps) auto
    then show ?thesis
      using False "1.prems" by (auto simp: Let_def)
  next
    case True
    then have u: "unat (result + 1) = unat result + 1"
      using unat_less_width [of n] by (simp add: word_less_nat_alt unat_add_small)
    let ?r = "diff_n_up d bn stride n (off + stride) (result + 1)"
    have "off + stride = unat (result + 1) * stride" and "result + 1 \<le> n"
      using True "1.prems"(1) u by (simp_all add: word_le_nat_alt word_less_nat_alt)
    then have IH: "result + 1 \<le> ?r \<and> ?r \<le> n \<and> (?r < n \<longrightarrow> d (drop (unat ?r * stride) bn) = 0) \<and>
       (\<forall>i. unat (result + 1) \<le> i \<and> i < unat ?r \<longrightarrow> d (drop (i * stride) bn) \<noteq> 0)"
      using "1.IH" True by (auto simp: Let_def)
    have "d (drop (i * stride) bn) \<noteq> 0" if "unat result \<le> i" "i < unat ?r" for i
    proof (cases "i = unat result")
      case True
      then show ?thesis using \<open>result < n \<and> d (drop off bn) \<noteq> 0\<close> "1.prems"(1) by simp
    next
      case False
      then show ?thesis using that IH u by simp
    qed
    moreover have "diff_n_up d bn stride n off result = ?r"
      using True by (subst diff_n_up.simps) simp
    ultimately show ?thesis
      using IH u by (auto simp: Let_def word_le_nat_alt)
  qed
qed

lemma DIFF_N_spec:
  assumes "hint \<le> n"
  shows "let r = LIBXSMM_DIFF_N d bn stride hint n; m = (\<lambda>i. d (drop (i * unat stride) bn) = 0)
    in r \<le> n \<and> (r < n \<longrightarrow> m (unat r)) \<and> (r = n \<longleftrightarrow> (\<forall>i<unat n. \<not> m i)) \<and>
       (\<forall>i. unat hint \<le> i \<and> i < unat r \<longrightarrow> \<not> m i) \<and> (r < hint \<longrightarrow> (\<forall>i<unat r. \<not> m i))"
proof -
  let ?m = "\<lambda>i. d (drop (i * unat stride) bn) = 0"
  define R where "R = diff_n_up d bn (unat stride) n (unat hint * unat stride) hint"
  define Q where "Q = diff_n_up d bn (unat stride) hint 0 0"
  have up: "hint \<le> R" "R \<le> n" "R < n \<Longrightarrow> ?m (unat R)" "\<And>i. unat hint \<le> i \<Longrightarrow> i < unat R \<Longrightarrow> \<not> ?m i"
    using diff_n_up_spec [of _ hint "unat stride" n d bn] assms by (auto simp: Let_def R_def)
  have low: "Q \<le> hint" "Q < hint \<Longrightarrow> ?m (unat Q)" "\<And>i. i < unat Q \<Longrightarrow> \<not> ?m i"
    using diff_n_up_spec [of 0 0 "unat stride" hint d bn] by (auto simp: Let_def Q_def)
  have r: "LIBXSMM_DIFF_N d bn stride hint n = (if n = R \<and> Q < hint then Q else R)"
    by (simp add: LIBXSMM_DIFF_N_def Let_def R_def Q_def)
  consider "n \<noteq> R" | "n = R" "Q < hint" | "n = R" "\<not> Q < hint"
    by blast
  then show ?thesis
  proof cases
    case 1
    then have "R < n" using up by simp
    moreover have "\<not> R < hint" using up by simp
    ultimately show ?thesis
      using 1 up unfolding r by (auto simp: Let_def word_less_nat_alt)
  next
    case 2
    then have "Q < n" using assms by simp
    moreover have "?m (unat Q)" using low(2) 2(2) .
    moreover have "unat Q < unat n" using \<open>Q < n\<close> by (simp add: word_less_nat_alt)
    moreover have "\<not> (unat hint \<le> i \<and> i < unat Q)" for i
      using 2(2) by (simp add: word_less_nat_alt)
    ultimately show ?thesis
      using 2 low(3) unfolding r by (auto simp: Let_def word_less_nat_alt word_le_nat_alt)
  next
    case 3
    then have "Q = hint" using low by simp
    then have "\<not> ?m i" if "i < unat n" for i
      using that up low 3(1) by (cases "i < unat hint") auto
    then show ?thesis
      using 3 assms unfolding r by (auto simp: Let_def word_less_nat_alt)
  qed
qed

text \<open>The comparison that \<open>libxsmm_diff_n\<close> selects, for a needle and one element of the array.\<close>

lemma diff_n_selects:
  assumes "simd_documented v" and "pointers_valid g"
  obtains d where "libxsmm_diff_n c v g a bn elemsize stride hint count = LIBXSMM_DIFF_N d bn stride hint count"
    and "\<And>b. unat elemsize \<le> length a \<Longrightarrow> unat elemsize \<le> length b \<Longrightarrow>
           d b = 0 \<longleftrightarrow> take (unat elemsize) a = take (unat elemsize) b"
proof -
  note block = block_compare.differs [OF diff16_compares [OF assms(1)], of a _ c]
    block_compare.differs [OF diff32_compares [OF assms(1)], of a _ c]
    block_compare.differs [OF diff48_compares [OF assms(1)], of a _ c]
    block_compare.differs [OF diff64_compares [OF assms(1)], of a _ c]
    diff4.differs [of a] diff8.differs [of a]
  consider "\<not> memory_sw c \<and> elemsize = 64" | "\<not> memory_sw c \<and> elemsize = 48" | "\<not> memory_sw c \<and> elemsize = 32"
    | "\<not> memory_sw c \<and> elemsize = 16" | "\<not> memory_sw c \<and> elemsize = 8" | "\<not> memory_sw c \<and> elemsize = 4"
    | "memory_sw c \<or> elemsize \<notin> {64, 48, 32, 16, 8, 4}"
    by auto
  then show thesis
  proof cases
    case 7
    then have "libxsmm_diff_n c v g a bn elemsize stride hint count
        = LIBXSMM_DIFF_N (\<lambda>b. libxsmm_diff c v g a b elemsize) bn stride hint count"
      by (auto simp: libxsmm_diff_n_def)
    then show thesis
      by (rule that) (use diff_compares [OF assms, of c] in \<open>simp add: compares_bytes_def\<close>)
  qed (rule that, simp add: libxsmm_diff_n_def, simp add: block)+
qed

text \<open>
  \<open>libxsmm_diff_n\<close> finds an element of the array that equals the needle if there is one, the first one from
  the hint on or else the first one before the hint, and returns the number of elements otherwise; the hint
  must not exceed the number of elements.
\<close>

theorem diff_n_finds:
  assumes "simd_documented v" and "g = no_pointers \<or> g = libxsmm_memory_init c v target no_pointers"
    and "unat elemsize \<le> unat stride" and "unat elemsize \<le> length a" and "unat count * unat stride \<le> length bn"
    and "hint \<le> count"
  shows "let m = (\<lambda>i. take (unat elemsize) (drop (i * unat stride) bn) = take (unat elemsize) a);
      r = unat (libxsmm_diff_n c v g a bn elemsize stride hint count)
    in r \<le> unat count \<and> (r < unat count \<longrightarrow> m r) \<and> (r = unat count \<longleftrightarrow> (\<forall>i<unat count. \<not> m i)) \<and>
    (\<forall>i. unat hint \<le> i \<and> i < r \<longrightarrow> \<not> m i) \<and> (r < unat hint \<longrightarrow> (\<forall>i<r. \<not> m i))"
proof -
  let ?m = "\<lambda>i. take (unat elemsize) (drop (i * unat stride) bn) = take (unat elemsize) a"
  have g: "pointers_valid g"
    using assms(1,2) memory_init_valid no_pointers_valid by blast
  obtain d where d: "libxsmm_diff_n c v g a bn elemsize stride hint count = LIBXSMM_DIFF_N d bn stride hint count"
    and eq: "\<And>b. unat elemsize \<le> length a \<Longrightarrow> unat elemsize \<le> length b \<Longrightarrow>
           d b = 0 \<longleftrightarrow> take (unat elemsize) a = take (unat elemsize) b"
    using diff_n_selects [OF assms(1) g] by blast
  have m: "d (drop (i * unat stride) bn) = 0 \<longleftrightarrow> ?m i" if "i < unat count" for i
  proof -
    have "(i + 1) * unat stride \<le> unat count * unat stride"
      using that by (intro mult_le_mono1) simp
    then have "unat elemsize \<le> length (drop (i * unat stride) bn)"
      using assms(3,5) by simp
    then show ?thesis
      using eq assms(4) by auto
  qed
  define R where "R = LIBXSMM_DIFF_N d bn stride hint count"
  let ?M = "\<lambda>i. d (drop (i * unat stride) bn) = 0"
  have S: "R \<le> count \<and> (R < count \<longrightarrow> ?M (unat R)) \<and> (R = count \<longleftrightarrow> (\<forall>i<unat count. \<not> ?M i)) \<and>
      (\<forall>i. unat hint \<le> i \<and> i < unat R \<longrightarrow> \<not> ?M i) \<and> (R < hint \<longrightarrow> (\<forall>i<unat R. \<not> ?M i))"
    using DIFF_N_spec [OF assms(6), of d bn stride] unfolding R_def Let_def .
  have lt: "R < count \<longleftrightarrow> unat R < unat count" "R < hint \<longleftrightarrow> unat R < unat hint"
    "R = count \<longleftrightarrow> unat R = unat count"
    by (simp_all add: word_less_nat_alt word_unat_eq_iff)
  have le: "unat R \<le> unat count"
    using S by (simp add: word_le_nat_alt)
  have "?m (unat R)" if "unat R < unat count"
    using S m [OF that] that unfolding lt by simp
  moreover have "(\<forall>i<unat count. \<not> ?M i) \<longleftrightarrow> (\<forall>i<unat count. \<not> ?m i)"
    using m by simp
  then have "unat R = unat count \<longleftrightarrow> (\<forall>i<unat count. \<not> ?m i)"
    using S unfolding lt by argo
  moreover have "\<not> ?m i" if "unat hint \<le> i" "i < unat R" for i
    using S m [of i] that le by simp
  moreover have "\<not> ?m i" if "unat R < unat hint" "i < unat R" for i
    using S m [of i] that le unfolding lt by simp
  ultimately show ?thesis
    using le unfolding d R_def [symmetric] Let_def by blast
qed

text \<open>A hint beyond the number of elements is returned as it is, and no element is compared.\<close>

lemma diff_n_hint_out_of_bounds: "n < hint \<Longrightarrow> LIBXSMM_DIFF_N d bn stride hint n = hint"
proof -
  assume "n < hint"
  then have "diff_n_up d bn (unat stride) n (unat hint * unat stride) hint = hint"
    by (subst diff_n_up.simps) auto
  then show ?thesis
    using \<open>n < hint\<close> by (auto simp: LIBXSMM_DIFF_N_def)
qed

end
