(* ===== verification/Shuffle.thy ===== *)
theory Shuffle
  imports IntMath
begin

text \<open>
  Shuffling the elements of an array (\<open>libxsmm_shuffle\<close>, \<open>libxsmm_shuffle2\<close> and \<open>libxsmm_unshuffle\<close> of
  \<open>src/libxsmm_memory.c\<close>, and the swapping and copying macros of \<open>include/libxsmm_memory.h\<close>). Memory is a
  function from addresses to bytes, a pointer is an address, \<open>NULL\<close> is zero. An array in memory does not
  wrap around, hence offsets and counts are natural numbers; products with the shuffle argument, which
  the caller may choose freely, are taken modulo two to the 64 as in C.
\<close>

section \<open>The functions\<close>

type_synonym memory = "nat \<Rightarrow> u8"

abbreviation (input) EXIT_SUCCESS :: int where
  "EXIT_SUCCESS \<equiv> 0"

abbreviation (input) EXIT_FAILURE :: int where
  "EXIT_FAILURE \<equiv> 1"

definition LIBXSMM_ISWAP :: "memory \<Rightarrow> nat \<Rightarrow> nat \<Rightarrow> memory" where
  "LIBXSMM_ISWAP m a b =
    (let m = m(a := m a XOR m b);
         m = m(b := m b XOR m a)
     in m(a := m a XOR m b))"

text \<open>The number of bytes is converted to a signed character.\<close>

definition memory127_size :: "nat \<Rightarrow> nat" where
  "memory127_size n = nat (sint (of_nat n :: u8))"

definition LIBXSMM_MEMSWP127 :: "memory \<Rightarrow> nat \<Rightarrow> nat \<Rightarrow> nat \<Rightarrow> memory" where
  "LIBXSMM_MEMSWP127 m dst src n = fold (\<lambda>i m. LIBXSMM_ISWAP m (dst + i) (src + i)) [0..<memory127_size n] m"

definition LIBXSMM_MEMCPY127 :: "memory \<Rightarrow> nat \<Rightarrow> nat \<Rightarrow> nat \<Rightarrow> memory" where
  "LIBXSMM_MEMCPY127 m dst src n = fold (\<lambda>i m. m(dst + i := m (src + i))) [0..<memory127_size n] m"

text \<open>A missing shuffle argument is the co-prime of the count; \<open>None\<close> is a division by zero.\<close>

definition LIBXSMM_MEMORY_SHUFFLE_COPRIME :: "nat \<Rightarrow> nat option" where
  "LIBXSMM_MEMORY_SHUFFLE_COPRIME n = map_option unat (libxsmm_coprime (of_nat n) (of_nat (n div 2)))"

definition shuffle_arg :: "nat \<Rightarrow> nat option \<Rightarrow> nat option" where
  "shuffle_arg cnt shuffle = (case shuffle of None \<Rightarrow> LIBXSMM_MEMORY_SHUFFLE_COPRIME cnt | Some s \<Rightarrow> Some s)"

subsection \<open>In place\<close>

partial_function (option) shuffle_find :: "nat \<Rightarrow> nat \<Rightarrow> nat \<Rightarrow> nat \<Rightarrow> nat \<Rightarrow> nat \<Rightarrow> nat option" where
  "shuffle_find s cnt nrepeat i j k =
    (if k < nrepeat \<or> j < i then shuffle_find s cnt nrepeat i (s * j mod 2 ^ 64 mod cnt) (k + 1) else Some j)"

function shuffle_loop :: "memory \<Rightarrow> nat \<Rightarrow> nat \<Rightarrow> nat \<Rightarrow> nat \<Rightarrow> nat \<Rightarrow> nat \<Rightarrow> memory option" where
  "shuffle_loop m dat e cnt s nrepeat i =
    (let c = cnt - 1; c2 = (cnt + 1) div 2
     in if i < cnt then
          (case shuffle_find s cnt nrepeat i i 0 of
             None \<Rightarrow> None
           | Some j \<Rightarrow>
               let m = (if i < j then LIBXSMM_MEMSWP127 m (dat + e * (c - j)) (dat + e * (c - i)) e else m);
                   m = (if c2 \<le> i then LIBXSMM_MEMSWP127 m (dat + e * (c - i)) (dat + e * i) e else m)
               in shuffle_loop m dat e cnt s nrepeat (i + 1))
        else Some m)"
  by pat_completeness auto
termination
  by (relation "measure (\<lambda>(m, dat, e, cnt, s, nrepeat, i). cnt - i)") auto

declare shuffle_loop.simps [simp del]

definition LIBXSMM_MEMORY_SHUFFLE :: "memory \<Rightarrow> nat \<Rightarrow> nat \<Rightarrow> nat \<Rightarrow> nat \<Rightarrow> nat \<Rightarrow> memory option" where
  "LIBXSMM_MEMORY_SHUFFLE m inout e cnt s nrepeat =
    shuffle_loop m inout e cnt s nrepeat (if 0 \<noteq> nrepeat then 0 else cnt)"

definition libxsmm_shuffle :: "memory \<Rightarrow> nat \<Rightarrow> nat \<Rightarrow> nat \<Rightarrow> nat option \<Rightarrow> nat option \<Rightarrow> (int \<times> memory) option" where
  "libxsmm_shuffle m inout elemsize cnt shuffle nrepeat =
    (if inout \<noteq> 0 \<or> elemsize = 0 \<or> cnt = 0 then
       (case shuffle_arg cnt shuffle of
          None \<Rightarrow> None
        | Some s \<Rightarrow>
            let n = (case nrepeat of None \<Rightarrow> 1 | Some n \<Rightarrow> n)
            in map_option (Pair EXIT_SUCCESS) (LIBXSMM_MEMORY_SHUFFLE m inout elemsize cnt s n))
     else Some (EXIT_FAILURE, m))"

subsection \<open>Out of place\<close>

text \<open>
  The loop for one pass; \<open>copy\<close> copies an element: an assignment of 8, 4, 2 or 1 bytes, \<open>LIBXSMM_MEMCPY127\<close>
  or \<open>memcpy\<close>.
\<close>

definition copy_elem :: "memory \<Rightarrow> nat \<Rightarrow> nat \<Rightarrow> nat \<Rightarrow> memory" where
  "copy_elem m dst src elemsize =
    (if elemsize < 128 then
       (if elemsize \<in> {8, 4, 2, 1} then memcpy m dst (\<lambda>k. m (src + k)) elemsize
        else LIBXSMM_MEMCPY127 m dst src elemsize)
     else memcpy m dst (\<lambda>k. m (src + k)) elemsize)"

text \<open>
  The element \<open>j\<close> from the end is read. A \<open>j\<close> that is no element of the source, which a shuffle argument above the
  count leads to, is a read outside of the array: \<open>None\<close>.
\<close>

function shuffle2_loop :: "memory \<Rightarrow> nat \<Rightarrow> nat \<Rightarrow> nat \<Rightarrow> nat \<Rightarrow> nat \<Rightarrow> nat \<Rightarrow> nat \<Rightarrow> nat \<Rightarrow> memory option" where
  "shuffle2_loop m out inp elemsize cnt s sz i j =
    (if i < sz \<and> 0 < elemsize then
       let j = (if cnt < j then j - cnt else j)
       in if 1 \<le> j \<and> j \<le> cnt then
            let m = copy_elem m (out + i) (inp + (sz - elemsize * j)) elemsize
            in shuffle2_loop m out inp elemsize cnt s sz (i + elemsize) ((j + s) mod 2 ^ 64)
          else None
     else Some m)"
  by pat_completeness auto
termination
  by (relation "measure (\<lambda>(m, out, inp, elemsize, cnt, s, sz, i, j). sz - i)") auto

declare shuffle2_loop.simps [simp del]

text \<open>The loop for several passes, element by element.\<close>

definition shuffle2_index :: "nat \<Rightarrow> nat \<Rightarrow> nat \<Rightarrow> nat" where
  "shuffle2_index cnt s j = (let c = cnt - 1 in c - (s * j mod 2 ^ 64 mod cnt))"

definition shuffle2_repeat :: "memory \<Rightarrow> nat \<Rightarrow> nat \<Rightarrow> nat \<Rightarrow> nat \<Rightarrow> nat \<Rightarrow> nat \<Rightarrow> memory" where
  "shuffle2_repeat m out inp elemsize cnt s nrepeat =
    fold (\<lambda>i m. let j = (shuffle2_index cnt s ^^ nrepeat) i
                in memcpy m (out + elemsize * i) (\<lambda>k. m (inp + elemsize * j + k)) elemsize)
      [0..<cnt] m"

definition libxsmm_shuffle2 ::
  "memory \<Rightarrow> nat \<Rightarrow> nat \<Rightarrow> nat \<Rightarrow> nat \<Rightarrow> nat option \<Rightarrow> nat option \<Rightarrow> (int \<times> memory) option" where
  "libxsmm_shuffle2 m dst src elemsize cnt shuffle nrepeat =
    (let inp = src; out = dst; sz = elemsize * cnt
     in if (inp \<noteq> 0 \<and> out \<noteq> 0 \<and> (out + sz \<le> inp \<or> inp + sz \<le> out)) \<or> 0 = sz then
          (case shuffle_arg cnt shuffle of
             None \<Rightarrow> None
           | Some s \<Rightarrow>
               map_option (Pair EXIT_SUCCESS)
                 (if nrepeat = None \<or> nrepeat = Some 1 then shuffle2_loop m out inp elemsize cnt s sz 0 1
                  else if the nrepeat \<noteq> 0 then Some (shuffle2_repeat m out inp elemsize cnt s (the nrepeat))
                  else Some (memcpy m out (\<lambda>k. m (inp + k)) sz)))
        else Some (EXIT_FAILURE, m))"

subsection \<open>The number of repetitions that restores the array\<close>

function unshuffle_loop :: "nat \<Rightarrow> nat \<Rightarrow> nat \<Rightarrow> nat \<Rightarrow> nat \<Rightarrow> nat" where
  "unshuffle_loop cnt n c result j =
    (if result < cnt then
       let d = j * n mod 2 ^ 64 mod cnt
       in if 0 = d then result else unshuffle_loop cnt n c (result + 1) (c - d)
     else result)"
  by pat_completeness auto
termination
  by (relation "measure (\<lambda>(cnt, n, c, result, j). cnt - result)") auto

declare unshuffle_loop.simps [simp del]

definition libxsmm_unshuffle :: "nat \<Rightarrow> nat option \<Rightarrow> nat option" where
  "libxsmm_unshuffle cnt shuffle =
    (if 0 < cnt then
       (case shuffle_arg cnt shuffle of
          None \<Rightarrow> None
        | Some n \<Rightarrow> let c = cnt - 1 in Some (unshuffle_loop cnt n c 0 c))
     else Some 0)"

section \<open>Arrays in memory\<close>

text \<open>Byte \<open>k\<close> of element \<open>i\<close> of the array at \<open>p\<close>.\<close>

definition elem :: "memory \<Rightarrow> nat \<Rightarrow> nat \<Rightarrow> nat \<Rightarrow> nat \<Rightarrow> u8" where
  "elem m p e i k = m (p + e * i + k)"

lemma elem_index_eq_iff:
  fixes e :: nat
  assumes "k < e" and "l < e"
  shows "e * i + k = e * j + l \<longleftrightarrow> i = j \<and> k = l"
proof
  assume eq: "e * i + k = e * j + l"
  have "(e * i + k) div e = i" and "(e * j + l) div e = j"
    using assms by simp_all
  with eq show "i = j \<and> k = l"
    by auto
qed simp

lemma elem_index_less:
  fixes e :: nat
  assumes "k < e" and "i < n"
  shows "e * i + k < e * n"
proof -
  have "e * i + k < e * Suc i"
    using assms(1) by simp
  also have "\<dots> \<le> e * n"
    using assms(2) by (intro mult_le_mono2) simp
  finally show ?thesis .
qed

lemma elem_index_cases:
  fixes a :: nat
  assumes "a < e * n"
  obtains i k where "a = e * i + k" and "i < n" and "k < e"
proof
  show "a = e * (a div e) + a mod e"
    by simp
  show "a div e < n"
    using assms by (simp add: less_mult_imp_div_less mult.commute)
  show "a mod e < e"
    using assms by (cases e) auto
qed

subsection \<open>Copying\<close>

lemma MEMCPY127_fold:
  assumes "d + n \<le> s \<or> s + n \<le> d"
  shows "fold (\<lambda>i m. m(d + i := m (s + i))) [0..<n] m = memcpy m d (\<lambda>k. m (s + k)) n"
  using assms
proof (induction n)
  case (Suc n)
  then have eq: "fold (\<lambda>i m. m(d + i := m (s + i))) [0..<n] m = memcpy m d (\<lambda>k. m (s + k)) n"
    by (intro Suc.IH) linarith
  have "fold (\<lambda>i m. m(d + i := m (s + i))) [0..<Suc n] m =
      (memcpy m d (\<lambda>k. m (s + k)) n)(d + n := memcpy m d (\<lambda>k. m (s + k)) n (s + n))"
    by (simp only: upt_Suc_append zero_le fold_append fold_simps comp_def eq)
  also have "\<dots> = memcpy m d (\<lambda>k. m (s + k)) (Suc n)"
    using Suc.prems by (auto simp: memcpy_def fun_eq_iff less_Suc_eq)
  finally show ?case .
qed (auto simp: memcpy_def fun_eq_iff)

lemma memory127_size_small: "n < 128 \<Longrightarrow> memory127_size n = n"
proof -
  assume n: "n < 128"
  then have "sint (of_nat n :: u8) = int n"
    by (simp add: signed_of_nat signed_take_bit_int_eq_self)
  then show ?thesis
    by (simp add: memory127_size_def)
qed

lemma copy_elem_eq:
  assumes "d + e \<le> s \<or> s + e \<le> d"
  shows "copy_elem m d s e = memcpy m d (\<lambda>k. m (s + k)) e"
  using MEMCPY127_fold [OF assms, of m]
  by (auto simp: copy_elem_def LIBXSMM_MEMCPY127_def memory127_size_small memcpy_def fun_eq_iff)

subsection \<open>Swapping\<close>

lemma ISWAP_eq: "a \<noteq> b \<Longrightarrow> LIBXSMM_ISWAP m a b = m(a := m b, b := m a)"
  by (auto simp: LIBXSMM_ISWAP_def Let_def fun_eq_iff xor.assoc xor.commute xor.left_commute)

lemma MEMSWP127_fold:
  "fold (\<lambda>i m. LIBXSMM_ISWAP m (d + i) (s + i)) [0..<n] m a =
    (if d \<le> a \<and> a < d + n then m (s + (a - d))
     else if s \<le> a \<and> a < s + n then m (d + (a - s)) else m a)"
  if "d + n \<le> s \<or> s + n \<le> d"
  using that
proof (induction n arbitrary: a)
  case (Suc n)
  then have "d + n \<le> s \<or> s + n \<le> d"
    by auto
  then have eq: "fold (\<lambda>i m. LIBXSMM_ISWAP m (d + i) (s + i)) [0..<n] m b =
     (if d \<le> b \<and> b < d + n then m (s + (b - d))
      else if s \<le> b \<and> b < s + n then m (d + (b - s)) else m b)" for b
    by (rule Suc.IH)
  have ne: "d + n \<noteq> s + n"
    using Suc.prems by auto
  show ?case
    using Suc.prems by (simp add: ISWAP_eq [OF ne] eq less_Suc_eq) auto
qed auto

lemma elem_swap:
  fixes e p :: nat and m :: memory
  assumes "e < 128" and "i \<noteq> j" and "i < n" and "j < n"
  defines "m' \<equiv> LIBXSMM_MEMSWP127 m (p + e * i) (p + e * j) e"
  shows "k < e \<Longrightarrow> elem m' p e x k = elem m p e (if x = i then j else if x = j then i else x) k"
    and "\<not> (p \<le> a \<and> a < p + e * n) \<Longrightarrow> m' a = m a"
proof -
  have disj: "p + e * i + e \<le> p + e * j \<or> p + e * j + e \<le> p + e * i"
  proof (cases "i < j")
    case True
    then have "e * Suc i \<le> e * j" by (intro mult_le_mono2) simp
    then show ?thesis by simp
  next
    case False
    with assms(2) have "e * Suc j \<le> e * i" by (intro mult_le_mono2) simp
    then show ?thesis by simp
  qed
  have eq: "m' b = (if p + e * i \<le> b \<and> b < p + e * i + e then m (p + e * j + (b - (p + e * i)))
      else if p + e * j \<le> b \<and> b < p + e * j + e then m (p + e * i + (b - (p + e * j))) else m b)" for b
    using MEMSWP127_fold [OF disj, of m b]
    by (simp add: m'_def LIBXSMM_MEMSWP127_def memory127_size_small assms(1))
  have block: "p + e * y \<le> p + e * x + k \<and> p + e * x + k < p + e * y + e \<longleftrightarrow> x = y" if "k < e" for x y k
  proof
    assume *: "p + e * y \<le> p + e * x + k \<and> p + e * x + k < p + e * y + e"
    define l where "l = e * x + k - e * y"
    have "l < e" and "e * x + k = e * y + l"
      using * by (auto simp: l_def)
    then show "x = y"
      using elem_index_eq_iff [OF that \<open>l < e\<close>, of x y] by simp
  qed (use that in auto)
  show "elem m' p e x k = elem m p e (if x = i then j else if x = j then i else x) k" if "k < e"
    unfolding elem_def eq block [OF that] using assms(2) by auto
  show "m' a = m a" if "\<not> (p \<le> a \<and> a < p + e * n)"
  proof -
    have "e * Suc i \<le> e * n" and "e * Suc j \<le> e * n"
      using assms(3,4) by (intro mult_le_mono2; simp)+
    then show ?thesis
      unfolding eq using that by auto
  qed
qed

section \<open>The permutation\<close>

definition stride :: "nat \<Rightarrow> nat \<Rightarrow> nat \<Rightarrow> nat" where
  "stride cnt s i = s * i mod cnt"

definition shuffled :: "nat \<Rightarrow> nat \<Rightarrow> nat \<Rightarrow> nat" where
  "shuffled cnt s i = cnt - 1 - s * i mod cnt"

lemma stride_less: "0 < cnt \<Longrightarrow> stride cnt s i < cnt"
  by (simp add: stride_def)

lemma shuffled_less: "0 < cnt \<Longrightarrow> shuffled cnt s i < cnt"
  by (simp add: shuffled_def less_imp_diff_less)

lemma stride_inj:
  assumes "coprime s cnt"
  shows "inj_on (stride cnt s) {..<cnt}"
proof (rule linorder_inj_onI')
  fix x y
  assume xy: "x \<in> {..<cnt}" "y \<in> {..<cnt}" "x < y"
  show "stride cnt s x \<noteq> stride cnt s y"
  proof
    assume "stride cnt s x = stride cnt s y"
    then have "cnt dvd s * y - s * x"
      using xy(3) by (simp add: stride_def mod_eq_dvd_iff_nat [symmetric])
    then have "cnt dvd s * (y - x)"
      by (simp add: diff_mult_distrib2)
    then have "cnt dvd y - x"
      using assms by (simp add: coprime_dvd_mult_right_iff coprime_commute)
    then show False
      using xy by (auto dest: dvd_imp_le)
  qed
qed

lemma shuffled_inj:
  assumes "coprime s cnt"
  shows "inj_on (shuffled cnt s) {..<cnt}"
proof (rule inj_onI)
  fix x y
  assume xy: "x \<in> {..<cnt}" "y \<in> {..<cnt}" "shuffled cnt s x = shuffled cnt s y"
  then have "s * x mod cnt < cnt" "s * y mod cnt < cnt"
    by simp_all
  then have "stride cnt s x = stride cnt s y"
    using xy(3) unfolding shuffled_def stride_def by linarith
  then show "x = y"
    using stride_inj [OF assms] xy by (auto dest: inj_onD)
qed

section \<open>Shuffling out of place\<close>

text \<open>Element \<open>x\<close> of the target is element \<open>f x\<close> of the source, and nothing else has changed.\<close>

definition array_permuted :: "memory \<Rightarrow> memory \<Rightarrow> nat \<Rightarrow> nat \<Rightarrow> nat \<Rightarrow> nat \<Rightarrow> (nat \<Rightarrow> nat) \<Rightarrow> bool" where
  "array_permuted m m' dst src e cnt f \<longleftrightarrow>
    (\<forall>x<cnt. \<forall>k<e. elem m' dst e x k = elem m src e (f x) k) \<and>
    (\<forall>a. \<not> (dst \<le> a \<and> a < dst + e * cnt) \<longrightarrow> m' a = m a)"

lemma elem_memcpy:
  assumes "k < e"
  shows "elem (memcpy m (p + e * i) f e) p e x k = (if x = i then f k else elem m p e x k)"
proof -
  have "p + e * i \<le> p + e * x + k \<and> p + e * x + k < p + e * i + e \<longleftrightarrow> x = i"
  proof
    assume *: "p + e * i \<le> p + e * x + k \<and> p + e * x + k < p + e * i + e"
    define l where "l = e * x + k - e * i"
    have "l < e" and "e * x + k = e * i + l"
      using * by (auto simp: l_def)
    then show "x = i"
      using elem_index_eq_iff [OF assms \<open>l < e\<close>, of x i] by simp
  qed (use assms in auto)
  then show ?thesis
    by (simp add: elem_def memcpy_def)
qed

lemma memcpy_outside: "\<not> (p \<le> a \<and> a < p + n) \<Longrightarrow> memcpy m p f n a = m a"
  by (auto simp: memcpy_def)

lemma elem_range:
  fixes k e x p :: nat
  shows "k < e \<Longrightarrow> x < cnt \<Longrightarrow> p \<le> p + e * x + k \<and> p + e * x + k < p + e * cnt"
  using elem_index_less [of k e x cnt] by simp

lemma block_range:
  fixes i cnt a p e :: nat
  shows "i < cnt \<Longrightarrow> \<not> (p \<le> a \<and> a < p + e * cnt) \<Longrightarrow> \<not> (p + e * i \<le> a \<and> a < p + e * i + e)"
  using mult_le_mono2 [of "Suc i" cnt e] by auto

text \<open>Copying the elements in order, each from the same source, permutes.\<close>

lemma array_permuted_Suc:
  assumes "array_permuted m m' dst src e i f" and "i < cnt"
    and "dst + e * cnt \<le> src \<or> src + e * cnt \<le> dst" and "f i < cnt"
  shows "array_permuted m (memcpy m' (dst + e * i) (\<lambda>k. m' (src + e * f i + k)) e) dst src e (Suc i) f"
proof -
  have out: "m' a = m a" if "\<not> (dst \<le> a \<and> a < dst + e * i)" for a
    using assms(1) that by (simp add: array_permuted_def)
  have le: "e * Suc i \<le> e * cnt"
    using assms(2) by (intro mult_le_mono2) simp
  have src: "m' (src + e * f i + k) = m (src + e * f i + k)" if "k < e" for k
    using elem_range [OF that assms(4), of src] assms(3) le by (intro out) auto
  have "elem (memcpy m' (dst + e * i) (\<lambda>k. m' (src + e * f i + k)) e) dst e x k = elem m src e (f x) k"
    if "x < Suc i" "k < e" for x k
    using assms(1) that src [OF that(2)] elem_memcpy [OF that(2), of m' dst i _ x]
    by (auto simp: array_permuted_def elem_def [of m src] less_Suc_eq)
  moreover have "memcpy m' (dst + e * i) (\<lambda>k. m' (src + e * f i + k)) e a = m a"
    if "\<not> (dst \<le> a \<and> a < dst + e * Suc i)" for a
    using block_range [of i "Suc i" dst a e] that out [of a] by (auto simp: memcpy_def)
  ultimately show ?thesis
    by (simp add: array_permuted_def)
qed

lemma array_permuted_0: "array_permuted m m dst src e 0 f"
  by (simp add: array_permuted_def)

subsection \<open>One pass\<close>

lemma stride_step:
  fixes s cnt i :: nat
  assumes "s \<le> cnt" and "0 < cnt"
  shows "(let j = 1 + s * i mod cnt + s in if cnt < j then j - cnt else j) = 1 + s * (i + 1) mod cnt"
proof -
  have r: "s * i mod cnt < cnt"
    using assms(2) by simp
  have "s * (i + 1) mod cnt = (s * i mod cnt + s) mod cnt"
    by (simp add: mod_simps add.commute)
  also have "\<dots> = (if cnt \<le> s * i mod cnt + s then s * i mod cnt + s - cnt else s * i mod cnt + s)"
  proof (cases "cnt \<le> s * i mod cnt + s")
    case True
    then have "(s * i mod cnt + s) mod cnt = (s * i mod cnt + s - cnt) mod cnt"
      by (simp add: le_mod_geq)
    then show ?thesis
      using True r assms(1) by simp
  qed (use r in simp)
  finally show ?thesis
    by (auto simp: Let_def)
qed

lemma shuffle2_loop_permutes:
  assumes "0 < e" and "s \<le> cnt" and "cnt < 2 ^ 63" and "i \<le> cnt"
    and "dst + e * cnt \<le> src \<or> src + e * cnt \<le> dst"
    and "(if cnt < j then j - cnt else j) = 1 + s * i mod cnt"
    and "array_permuted m m' dst src e i (shuffled cnt s)"
  shows "\<exists>m''. shuffle2_loop m' dst src e cnt s (e * cnt) (e * i) j = Some m'' \<and>
    array_permuted m m'' dst src e cnt (shuffled cnt s)"
  using assms(4,6,7)
proof (induction "cnt - i" arbitrary: i j m')
  case 0
  then show ?case
    using assms(1) by (subst shuffle2_loop.simps) simp
next
  case (Suc n)
  then have i: "i < cnt" and cnt: "0 < cnt"
    by auto
  define r where "r = s * i mod cnt"
  have r: "r < cnt"
    using cnt by (simp add: r_def)
  have f: "shuffled cnt s i < cnt"
    using cnt by (rule shuffled_less)
  have src: "src + (e * cnt - e * (1 + r)) = src + e * shuffled cnt s i"
    using diff_mult_distrib2 [of e cnt "1 + r"] by (simp add: shuffled_def r_def [symmetric])
  have disj: "dst + e * i + e \<le> src + e * shuffled cnt s i \<or> src + e * shuffled cnt s i + e \<le> dst + e * i"
    using assms(5) mult_le_mono2 [of "Suc i" cnt e] mult_le_mono2 [of "Suc (shuffled cnt s i)" cnt e] i f by auto
  have next_j: "(1 + r + s) mod 2 ^ 64 = 1 + r + s"
    using r assms(2,3) by simp
  have "shuffle2_loop m' dst src e cnt s (e * cnt) (e * i) j =
      shuffle2_loop (memcpy m' (dst + e * i) (\<lambda>k. m' (src + e * shuffled cnt s i + k)) e) dst src e cnt s (e * cnt)
        (e * Suc i) (1 + r + s)"
    using i assms(1) Suc.prems(2) r
    by (subst shuffle2_loop.simps)
       (simp add: Let_def r_def [symmetric] next_j [simplified] src [simplified] copy_elem_eq [OF disj] add.commute)
  moreover have "\<exists>m''. shuffle2_loop (memcpy m' (dst + e * i) (\<lambda>k. m' (src + e * shuffled cnt s i + k)) e)
        dst src e cnt s (e * cnt) (e * Suc i) (1 + r + s) = Some m'' \<and> array_permuted m m'' dst src e cnt (shuffled cnt s)"
  proof (rule Suc.hyps(1))
    show "n = cnt - Suc i" and "Suc i \<le> cnt"
      using Suc.hyps(2) i by simp_all
    show "(if cnt < 1 + r + s then 1 + r + s - cnt else 1 + r + s) = 1 + s * Suc i mod cnt"
      using stride_step [OF assms(2) cnt, of i] by (simp only: r_def Let_def Suc_eq_plus1)
    show "array_permuted m (memcpy m' (dst + e * i) (\<lambda>k. m' (src + e * shuffled cnt s i + k)) e) dst src e
        (Suc i) (shuffled cnt s)"
      using Suc.prems(3) i assms(5) f by (rule array_permuted_Suc)
  qed
  ultimately show ?case
    by simp
qed

subsection \<open>Several passes\<close>

lemma no_wrap:
  fixes s cnt x :: nat
  assumes "s * cnt \<le> 2 ^ 64" and "x < cnt"
  shows "s * x mod 2 ^ 64 = s * x"
proof (cases "s = 0")
  case False
  then have "s * x < s * cnt"
    using assms(2) by simp
  then have "s * x < 2 ^ 64"
    using assms(1) by (rule less_le_trans)
  then show ?thesis
    by (rule mod_less)
qed simp

lemma shuffle2_index_eq:
  assumes "s * cnt \<le> 2 ^ 64" and "x < cnt"
  shows "shuffle2_index cnt s x = shuffled cnt s x"
  by (simp add: shuffle2_index_def shuffled_def Let_def no_wrap [OF assms, simplified])

lemma shuffled_pow_less: "x < cnt \<Longrightarrow> (shuffled cnt s ^^ n) x < cnt"
  by (induction n) (auto intro: shuffled_less)

lemma shuffle2_index_pow:
  assumes "s * cnt \<le> 2 ^ 64" and "x < cnt"
  shows "(shuffle2_index cnt s ^^ n) x = (shuffled cnt s ^^ n) x"
  using assms by (induction n) (simp_all add: shuffle2_index_eq shuffled_pow_less)

lemma shuffle2_repeat_permutes:
  assumes "s * cnt \<le> 2 ^ 64" and "dst + e * cnt \<le> src \<or> src + e * cnt \<le> dst"
  shows "array_permuted m (shuffle2_repeat m dst src e cnt s n) dst src e cnt (shuffled cnt s ^^ n)"
proof -
  define body where "body = (\<lambda>i m. let j = (shuffle2_index cnt s ^^ n) i
    in memcpy m (dst + e * i) (\<lambda>k. m (src + e * j + k)) e)"
  have "array_permuted m (fold body [0..<i] m) dst src e i (shuffled cnt s ^^ n)" if "i \<le> cnt" for i
    using that
  proof (induction i)
    case (Suc i)
    then show ?case
      using array_permuted_Suc [OF Suc.IH, of cnt] assms(2) shuffled_pow_less [of i cnt n s]
      by (simp add: body_def shuffle2_index_pow [OF assms(1)] Suc_le_eq)
  qed (simp add: array_permuted_0)
  then show ?thesis
    by (simp add: shuffle2_repeat_def body_def)
qed

lemma array_copied:
  assumes "dst + e * cnt \<le> src \<or> src + e * cnt \<le> dst"
  shows "array_permuted m (memcpy m dst (\<lambda>k. m (src + k)) (e * cnt)) dst src e cnt (\<lambda>x. x)"
  using elem_range [of _ e _ cnt dst] by (auto simp: array_permuted_def elem_def memcpy_def add.assoc)

text \<open>All the cases of \<open>libxsmm_shuffle2\<close>.\<close>

lemma shuffle2_permutes:
  assumes "dst \<noteq> 0" and "src \<noteq> 0" and "dst + e * cnt \<le> src \<or> src + e * cnt \<le> dst"
    and "0 < e" and "cnt < 2 ^ 63" and "s \<le> cnt" and "s * cnt \<le> 2 ^ 64"
  shows "\<exists>m'. libxsmm_shuffle2 m dst src e cnt (Some s) (Some n) = Some (EXIT_SUCCESS, m') \<and>
    array_permuted m m' dst src e cnt (shuffled cnt s ^^ n)"
proof (cases "cnt = 0")
  case True
  have "libxsmm_shuffle2 m dst src e 0 (Some s) (Some n) = Some (EXIT_SUCCESS, m)"
    by (auto simp: libxsmm_shuffle2_def shuffle_arg_def shuffle2_loop.simps [of m dst src e 0]
        shuffle2_repeat_def memcpy_def fun_eq_iff)
  then show ?thesis
    using True array_permuted_0 by auto
next
  case False
  have start: "(if cnt < 1 then 1 - cnt else 1) = 1 + s * 0 mod cnt"
    using False by simp
  show ?thesis
    using assms array_copied [OF assms(3), of m] shuffle2_repeat_permutes [OF assms(7,3), of m n]
      shuffle2_loop_permutes [OF assms(4,6,5) _ assms(3) start array_permuted_0, of m] False
    by (auto simp: libxsmm_shuffle2_def shuffle_arg_def id_def [symmetric] Let_def)
qed

section \<open>Iterating the permutation\<close>

lemma funpow_closed: "(\<And>x. x < n \<Longrightarrow> f x < n) \<Longrightarrow> x < n \<Longrightarrow> (f ^^ k) x < (n :: nat)"
  by (induction k) auto

lemma funpow_cancel:
  fixes n :: nat
  assumes "inj_on f {..<n}" and "\<And>x. x < n \<Longrightarrow> f x < n"
  shows "x < n \<Longrightarrow> y < n \<Longrightarrow> (f ^^ k) x = (f ^^ k) y \<Longrightarrow> x = y"
proof (induction k)
  case (Suc k)
  then have "f ((f ^^ k) x) = f ((f ^^ k) y)"
    by simp
  then have "(f ^^ k) x = (f ^^ k) y"
    using inj_onD [OF assms(1)] funpow_closed [OF assms(2)] Suc.prems by simp
  then show ?case
    using Suc by simp
qed simp

lemma funpow_return:
  fixes n :: nat
  assumes "inj_on f {..<n}" and "\<And>x. x < n \<Longrightarrow> f x < n" and "x < n"
  obtains k where "0 < k" and "k \<le> n" and "(f ^^ k) x = x"
proof -
  have "(\<lambda>k. (f ^^ k) x) ` {..n} \<subseteq> {..<n}"
    using funpow_closed [OF assms(2,3)] by auto
  then have "card ((\<lambda>k. (f ^^ k) x) ` {..n}) \<le> n"
    using card_mono [of "{..<n}"] by simp
  then have "\<not> inj_on (\<lambda>k. (f ^^ k) x) {..n}"
    by (auto dest: card_image)
  then obtain i j where ij: "i \<le> n" "j \<le> n" "(f ^^ i) x = (f ^^ j) x" "i \<noteq> j"
    by (auto simp: inj_on_def)
  obtain a b where ab: "a < b" "b \<le> n" "(f ^^ a) x = (f ^^ b) x"
  proof (cases "i < j")
    case True
    with ij show ?thesis by (intro that [of i j]) auto
  next
    case False
    with ij show ?thesis by (intro that [of j i]) auto
  qed
  have "(f ^^ b) x = (f ^^ a) ((f ^^ (b - a)) x)"
    using ab(1) funpow_add [of a "b - a" f] by (simp add: comp_def)
  then have "(f ^^ a) ((f ^^ (b - a)) x) = (f ^^ a) x"
    using ab(3) by simp
  then have "(f ^^ (b - a)) x = x"
    using funpow_cancel [of f n "(f ^^ (b - a)) x" x a] funpow_closed [of n f x "b - a"] assms by simp
  then show ?thesis
    using ab by (intro that [of "b - a"]) auto
qed

subsection \<open>The permutation is affine\<close>

lemma shuffled_int:
  assumes "0 < cnt"
  shows "int (shuffled cnt s y) mod int cnt = (- 1 - int s * int y) mod int cnt"
proof -
  have "s * y mod cnt < cnt"
    using assms by simp
  then have "int (shuffled cnt s y) = int cnt - 1 - int (s * y mod cnt)"
    by (simp add: shuffled_def of_nat_diff)
  moreover have "int s * int y = int cnt * int (s * y div cnt) + int (s * y mod cnt)"
    by (simp only: of_nat_mult [symmetric] of_nat_add [symmetric] mult_div_mod_eq)
  ultimately have "int (shuffled cnt s y) - (- 1 - int s * int y) = int cnt * (1 + int (s * y div cnt))"
    by (simp add: distrib_left)
  then show ?thesis
    by (simp only: mod_eq_dvd_iff dvd_triv_left)
qed

lemma mod_affine:
  fixes x y s n :: int
  assumes "x mod n = y mod n"
  shows "(- 1 - s * x) mod n = (- 1 - s * y) mod n"
proof -
  have "n dvd - s * (x - y)"
    using assms by (intro dvd_mult) (simp only: mod_eq_dvd_iff)
  also have "- s * (x - y) = (- 1 - s * x) - (- 1 - s * y)"
    by (simp add: algebra_simps)
  finally show ?thesis
    by (simp only: mod_eq_dvd_iff)
qed

lemma shuffled_affine:
  assumes "0 < cnt"
  shows "\<exists>c b. \<forall>x. int ((shuffled cnt s ^^ k) x) mod int cnt = (c * int x + b) mod int cnt"
proof (induction k)
  case 0
  show ?case
    by (intro exI [of _ 1] exI [of _ 0]) simp
next
  case (Suc k)
  then obtain c b where IH: "int ((shuffled cnt s ^^ k) x) mod int cnt = (c * int x + b) mod int cnt" for x
    by blast
  have "int ((shuffled cnt s ^^ Suc k) x) mod int cnt = ((- int s * c) * int x + (- 1 - int s * b)) mod int cnt" for x
  proof -
    have "int ((shuffled cnt s ^^ Suc k) x) mod int cnt = (- 1 - int s * int ((shuffled cnt s ^^ k) x)) mod int cnt"
      by (simp add: shuffled_int [OF assms])
    also have "\<dots> = (- 1 - int s * (c * int x + b)) mod int cnt"
      by (rule mod_affine [OF IH])
    finally show ?thesis
      by (simp add: algebra_simps)
  qed
  then show ?case
    by blast
qed

text \<open>When the first element is back in its place, every element is.\<close>

lemma shuffled_period:
  assumes "0 < cnt" and "(shuffled cnt s ^^ k) 0 = 0" and "x < cnt"
  shows "(shuffled cnt s ^^ k) x = x"
proof -
  let ?n = "int cnt"
  obtain c b where eq: "int ((shuffled cnt s ^^ k) x) mod ?n = (c * int x + b) mod ?n" for x
    using shuffled_affine [OF assms(1)] by blast
  have b: "b mod ?n = 0"
    using eq [of 0] assms(2) by simp
  have last: "shuffled cnt s 0 = cnt - 1"
    by (simp add: shuffled_def)
  have "(shuffled cnt s ^^ k) (cnt - 1) = cnt - 1"
    using assms(2) last funpow_swap1 [of "shuffled cnt s" k 0] by simp
  then have "(c * (?n - 1) + b) mod ?n = (?n - 1) mod ?n"
    using eq [of "cnt - 1"] assms(1) by (simp add: of_nat_diff)
  then have "?n dvd (c * (?n - 1) + b) - (?n - 1)"
    by (simp only: mod_eq_dvd_iff)
  moreover have "?n dvd b"
    using b by auto
  ultimately have "?n dvd ((c * (?n - 1) + b) - (?n - 1)) - b"
    by (rule dvd_diff)
  then have "?n dvd (((c * (?n - 1) + b) - (?n - 1)) - b) - (c - 1) * ?n"
    by (rule dvd_diff) (rule dvd_triv_right)
  then have "?n dvd 1 - c"
    by (simp add: algebra_simps)
  then have "?n dvd (1 - c) * int x"
    by (rule dvd_mult2)
  with \<open>?n dvd b\<close> have "?n dvd b - (1 - c) * int x"
    by (rule dvd_diff)
  then have "?n dvd (c * int x + b) - int x"
    by (simp add: algebra_simps)
  then have "int ((shuffled cnt s ^^ k) x) mod ?n = int x mod ?n"
    unfolding eq [of x] by (simp only: mod_eq_dvd_iff)
  moreover have "(shuffled cnt s ^^ k) x < cnt"
    using assms(3) by (rule shuffled_pow_less)
  ultimately show ?thesis
    using assms(3) by simp
qed

subsection \<open>The search for the number of repetitions\<close>

lemma unshuffle_loop_finds:
  assumes "coprime s cnt" and "s * cnt \<le> 2 ^ 64" and "0 < cnt"
    and "j = (shuffled cnt s ^^ Suc r) 0" and "r \<le> t" and "t < cnt" and "(shuffled cnt s ^^ Suc t) 0 = 0"
  shows "unshuffle_loop cnt s (cnt - 1) r j < cnt \<and> (shuffled cnt s ^^ Suc (unshuffle_loop cnt s (cnt - 1) r j)) 0 = 0"
  using assms(4,5)
proof (induction "t - r" arbitrary: r j)
  case 0
  then have "r = t" and "j = 0"
    using assms(7) by simp_all
  then show ?case
    using assms(6,7) by (subst (1 2) unshuffle_loop.simps) simp
next
  case (Suc n)
  have j: "j < cnt"
    using Suc.prems(1) shuffled_pow_less [OF assms(3), of "Suc r" s] by simp
  have eq: "cnt - 1 - (j * s mod 2 ^ 64 mod cnt) = shuffled cnt s j"
    using shuffle2_index_eq [OF assms(2) j] by (simp add: shuffle2_index_def mult.commute)
  show ?case
  proof (cases "j * s mod 2 ^ 64 mod cnt = 0")
    case True
    then have "shuffled cnt s j = shuffled cnt s 0"
      using eq by (simp add: shuffled_def)
    then have "j = 0"
      using shuffled_inj [OF assms(1)] j assms(3) by (auto dest: inj_onD)
    then show ?thesis
      using True Suc assms(6) by (subst (1 2) unshuffle_loop.simps) (simp add: Let_def)
  next
    case False
    have "r < cnt"
      using Suc assms(6) by simp
    then have "unshuffle_loop cnt s (cnt - 1) r j = unshuffle_loop cnt s (cnt - 1) (r + 1) (shuffled cnt s j)"
      using False eq by (subst unshuffle_loop.simps) (simp add: Let_def)
    moreover have "unshuffle_loop cnt s (cnt - 1) (r + 1) (shuffled cnt s j) < cnt \<and>
        (shuffled cnt s ^^ Suc (unshuffle_loop cnt s (cnt - 1) (r + 1) (shuffled cnt s j))) 0 = 0"
      using Suc by (intro Suc.hyps(1)) simp_all
    ultimately show ?thesis
      by simp
  qed
qed

lemma unshuffle_finds:
  assumes "coprime s cnt" and "s * cnt \<le> 2 ^ 64" and "0 < cnt"
  obtains t where "libxsmm_unshuffle cnt (Some s) = Some t" and "t < cnt"
    and "\<And>x. x < cnt \<Longrightarrow> (shuffled cnt s ^^ Suc t) x = x"
proof -
  obtain k where k: "0 < k" "k \<le> cnt" "(shuffled cnt s ^^ k) 0 = 0"
    using funpow_return [OF shuffled_inj [OF assms(1)] shuffled_less [OF assms(3)] assms(3)] by blast
  then have "unshuffle_loop cnt s (cnt - 1) 0 (cnt - 1) < cnt \<and>
      (shuffled cnt s ^^ Suc (unshuffle_loop cnt s (cnt - 1) 0 (cnt - 1))) 0 = 0"
    by (intro unshuffle_loop_finds [OF assms, where t = "k - 1"]) (auto simp: shuffled_def)
  moreover define t where "t = unshuffle_loop cnt s (cnt - 1) 0 (cnt - 1)"
  ultimately have t: "t < cnt" "(shuffled cnt s ^^ Suc t) 0 = 0"
    by simp_all
  show ?thesis
  proof (rule that)
    show "libxsmm_unshuffle cnt (Some s) = Some t"
      using assms(3) by (simp add: libxsmm_unshuffle_def shuffle_arg_def Let_def t_def)
    show "(shuffled cnt s ^^ Suc t) x = x" if "x < cnt" for x
      using assms(3) t(2) that by (rule shuffled_period)
  qed (rule t(1))
qed

subsection \<open>Shuffling and back\<close>

lemma array_permuted_compose:
  assumes "array_permuted m m1 dst src e cnt f" and "array_permuted m1 m2 src dst e cnt g"
    and "\<And>x. x < cnt \<Longrightarrow> g x < cnt \<and> f (g x) = x"
    and "\<not> (dst \<le> a \<and> a < dst + e * cnt)"
  shows "m2 a = m a"
proof (cases "src \<le> a \<and> a < src + e * cnt")
  case True
  then have "a - src < e * cnt"
    by auto
  then obtain x k where xk: "a - src = e * x + k" "x < cnt" "k < e"
    by (rule elem_index_cases)
  then have a: "a = src + e * x + k"
    using True by linarith
  have "elem m2 src e x k = elem m src e x k"
    using assms(1-3) xk(2,3) by (simp add: array_permuted_def)
  then show ?thesis
    by (simp add: a elem_def)
next
  case False
  then show ?thesis
    using assms(1,2,4) by (simp add: array_permuted_def)
qed

text \<open>A valid argument: the co-prime of the count that the library computes, or one that the caller gives.\<close>

definition valid_shuffle :: "nat \<Rightarrow> nat option \<Rightarrow> bool" where
  "valid_shuffle cnt shuffle \<longleftrightarrow> (case shuffle of None \<Rightarrow> True | Some s \<Rightarrow> s \<le> cnt \<and> coprime s cnt)"

lemma shuffle_arg_valid:
  assumes "valid_shuffle cnt shuffle" and "0 < cnt" and "cnt \<le> 2 ^ 32"
  obtains s where "shuffle_arg cnt shuffle = Some s" and "s \<le> cnt" and "coprime s cnt" and "s * cnt \<le> 2 ^ 64"
proof -
  have bound: "s * cnt \<le> 2 ^ 64" if "s \<le> cnt" for s
    using mult_le_mono [OF order_trans [OF that assms(3)] assms(3)] by simp
  show ?thesis
  proof (cases shuffle)
    case None
    define w :: u64 where "w = of_nat cnt"
    have cnt: "unat w = cnt" and half: "of_nat (cnt div 2) = w div 2"
      using assms(3) by (simp_all add: w_def word_unat_eq_iff unat_div unat_of_nat take_bit_nat_eq_self)
    obtain r where r: "libxsmm_coprime w (w div 2) = Some r" "w \<le> 1 \<Longrightarrow> r = 0"
      "1 < w \<Longrightarrow> r \<noteq> 0 \<and> coprime (unat r) (unat w) \<and> (w div 2 \<noteq> 0 \<longrightarrow> r \<le> w div 2)"
      using coprime_returns by blast
    have arg: "shuffle_arg cnt shuffle = Some (unat r)"
      using r(1) None half by (simp add: shuffle_arg_def LIBXSMM_MEMORY_SHUFFLE_COPRIME_def w_def [symmetric])
    show ?thesis
    proof (cases "1 < w")
      case True
      then have "w div 2 \<noteq> 0"
        using unat_gt_0 [of "w div 2"] by (simp add: word_less_nat_alt unat_div)
      then have "unat r \<le> cnt div 2"
        using r(3) [OF True] cnt by (simp add: word_le_nat_alt unat_div)
      then have "unat r \<le> cnt"
        by simp
      then show ?thesis
        using arg r(3) [OF True] cnt bound by (intro that) auto
    next
      case False
      then have "cnt = 1" and "r = 0"
        using r(2) cnt assms(2) by (auto simp: word_less_nat_alt word_le_nat_alt)
      then show ?thesis
        using arg by (intro that) auto
    qed
  next
    case (Some s)
    then show ?thesis
      using assms(1) bound by (intro that [of s]) (auto simp: valid_shuffle_def shuffle_arg_def)
  qed
qed

lemma shuffle2_arg:
  assumes "shuffle_arg cnt shuffle = Some s"
  shows "libxsmm_shuffle2 m dst src e cnt shuffle nrepeat =
    libxsmm_shuffle2 m dst src e cnt (Some s) (Some (case nrepeat of None \<Rightarrow> 1 | Some n \<Rightarrow> n))"
proof -
  have "shuffle_arg cnt (Some s) = Some s"
    by (simp add: shuffle_arg_def)
  then show ?thesis
    using assms by (cases nrepeat) (auto simp: libxsmm_shuffle2_def Let_def)
qed

lemma unshuffle_arg:
  assumes "shuffle_arg cnt shuffle = Some s"
  shows "libxsmm_unshuffle cnt shuffle = libxsmm_unshuffle cnt (Some s)"
  using assms by (simp add: libxsmm_unshuffle_def shuffle_arg_def)

section \<open>Shuffling in place\<close>

text \<open>
  The loop of \<open>LIBXSMM_MEMORY_SHUFFLE\<close> sees the array from its end. Element \<open>stride p\<close>, which belongs to
  place \<open>p\<close>, has been moved by the swaps so far to the first place that is not before the current one
  along \<open>p\<close>, \<open>stride p\<close>, \<open>stride (stride p)\<close> and so on.
\<close>

definition lands :: "nat \<Rightarrow> nat \<Rightarrow> nat \<Rightarrow> nat \<Rightarrow> nat \<Rightarrow> bool" where
  "lands cnt s i p j \<longleftrightarrow>
    (\<exists>k>0. j = (stride cnt s ^^ k) p \<and> i \<le> j \<and> (\<forall>l. 0 < l \<and> l < k \<longrightarrow> (stride cnt s ^^ l) p < i))"

lemma landsI:
  assumes "0 < k" and "i \<le> (stride cnt s ^^ k) p" and "\<And>l. 0 < l \<Longrightarrow> l < k \<Longrightarrow> (stride cnt s ^^ l) p < i"
  shows "lands cnt s i p ((stride cnt s ^^ k) p)"
  using assms by (auto simp: lands_def)

lemma landsE:
  assumes "lands cnt s i p j"
  obtains k where "0 < k" and "j = (stride cnt s ^^ k) p" and "i \<le> j"
    and "\<forall>l. 0 < l \<longrightarrow> l < k \<longrightarrow> (stride cnt s ^^ l) p < i"
  using assms by (auto simp: lands_def)

lemma stride_pow_less: "p < cnt \<Longrightarrow> (stride cnt s ^^ k) p < cnt"
  by (rule funpow_closed) (auto intro: stride_less)

lemma lands_exists:
  assumes "coprime s cnt" and "i \<le> p" and "p < cnt"
  obtains j where "lands cnt s i p j"
proof -
  have "0 < cnt"
    using assms(3) by simp
  then obtain k where k: "0 < k" "(stride cnt s ^^ k) p = p"
    using funpow_return [OF stride_inj [OF assms(1)] stride_less assms(3)] by blast
  define P where "P k \<longleftrightarrow> 0 < k \<and> i \<le> (stride cnt s ^^ k) p" for k
  have "P k"
    using k assms(2) by (simp add: P_def)
  then have "P (LEAST k. P k)"
    by (rule LeastI)
  moreover have "\<not> P l" if "l < (LEAST k. P k)" for l
    using that by (rule not_less_Least)
  ultimately have "lands cnt s i p ((stride cnt s ^^ (LEAST k. P k)) p)"
    by (intro landsI) (auto simp: P_def not_le)
  then show ?thesis
    by (rule that)
qed

lemma lands_less: "lands cnt s i p j \<Longrightarrow> p < cnt \<Longrightarrow> j < cnt"
  by (auto elim!: landsE intro: stride_pow_less)

lemma lands_unique:
  assumes "lands cnt s i p j" and "lands cnt s i p j'"
  shows "j = j'"
proof -
  obtain k where k: "0 < k" "j = (stride cnt s ^^ k) p" "i \<le> j" "\<forall>l. 0 < l \<longrightarrow> l < k \<longrightarrow> (stride cnt s ^^ l) p < i"
    using assms(1) by (rule landsE)
  obtain k' where k': "0 < k'" "j' = (stride cnt s ^^ k') p" "i \<le> j'" "\<forall>l. 0 < l \<longrightarrow> l < k' \<longrightarrow> (stride cnt s ^^ l) p < i"
    using assms(2) by (rule landsE)
  have "\<not> k < k'" and "\<not> k' < k"
    using k k' by (auto simp: not_less [symmetric])
  then show ?thesis
    using k(2) k'(2) by simp
qed

lemma lands_inj_aux:
  assumes "coprime s cnt" and "p < cnt" and "q < cnt" and "i \<le> p" and "a \<le> b"
    and "(stride cnt s ^^ a) p = (stride cnt s ^^ b) q"
    and "\<And>l. 0 < l \<Longrightarrow> l < b \<Longrightarrow> (stride cnt s ^^ l) q < i" and "0 < a"
  shows "p = q"
proof -
  have lt: "0 < cnt"
    using assms(2) by simp
  have "(stride cnt s ^^ a) ((stride cnt s ^^ (b - a)) q) = (stride cnt s ^^ a) p"
    using assms(5,6) funpow_add [of a "b - a" "stride cnt s"] by simp
  then have eq: "(stride cnt s ^^ (b - a)) q = p"
    using funpow_cancel [of "stride cnt s" cnt "(stride cnt s ^^ (b - a)) q" p a] stride_inj [OF assms(1)]
      stride_less [OF lt] stride_pow_less [OF assms(3)] assms(2) by simp
  show ?thesis
  proof (cases "a = b")
    case False
    then have "(stride cnt s ^^ (b - a)) q < i"
      using assms(5,8) by (intro assms(7)) auto
    then show ?thesis
      using eq assms(4) by simp
  qed (use eq in simp)
qed

lemma lands_inj:
  assumes "coprime s cnt" and "p < cnt" and "q < cnt" and "i \<le> p" and "i \<le> q"
    and "lands cnt s i p j" and "lands cnt s i q j"
  shows "p = q"
proof -
  obtain a where a: "0 < a" "j = (stride cnt s ^^ a) p" "\<forall>l. 0 < l \<longrightarrow> l < a \<longrightarrow> (stride cnt s ^^ l) p < i"
    using assms(6) by (rule landsE)
  obtain b where b: "0 < b" "j = (stride cnt s ^^ b) q" "\<forall>l. 0 < l \<longrightarrow> l < b \<longrightarrow> (stride cnt s ^^ l) q < i"
    using assms(7) by (rule landsE)
  show ?thesis
  proof (cases "a \<le> b")
    case True
    show ?thesis
      by (rule lands_inj_aux [OF assms(1-4) True _ b(3) [rule_format] a(1)]) (use a(2) b(2) in simp)
  next
    case False
    have "q = p"
      by (rule lands_inj_aux [OF assms(1,3,2,5) _ _ a(3) [rule_format] b(1)]) (use False a(2) b(2) in simp_all)
    then show ?thesis by simp
  qed
qed

text \<open>Moving on to the next place.\<close>

lemma lands_Suc:
  assumes "lands cnt s i p j" and "j \<noteq> i"
  shows "lands cnt s (Suc i) p j"
proof -
  obtain k where k: "0 < k" "j = (stride cnt s ^^ k) p" "i \<le> j" "\<forall>l. 0 < l \<longrightarrow> l < k \<longrightarrow> (stride cnt s ^^ l) p < i"
    using assms(1) by (rule landsE)
  then show ?thesis
    using assms(2) unfolding k(2) by (intro landsI) (auto simp: less_Suc_eq Suc_le_eq)
qed

lemma lands_through:
  assumes "lands cnt s i p i" and "lands cnt s (Suc i) i j"
  shows "lands cnt s (Suc i) p j"
proof -
  obtain k where k: "0 < k" "i = (stride cnt s ^^ k) p" "\<forall>l. 0 < l \<longrightarrow> l < k \<longrightarrow> (stride cnt s ^^ l) p < i"
    using assms(1) by (rule landsE)
  obtain k' where k': "0 < k'" "j = (stride cnt s ^^ k') i" "Suc i \<le> j"
    "\<forall>l. 0 < l \<longrightarrow> l < k' \<longrightarrow> (stride cnt s ^^ l) i < Suc i"
    using assms(2) by (rule landsE)
  have add: "(stride cnt s ^^ (l + k)) p = (stride cnt s ^^ l) i" for l
    using k(2) by (simp add: funpow_add)
  have "lands cnt s (Suc i) p ((stride cnt s ^^ (k' + k)) p)"
  proof (rule landsI)
    fix l
    assume l: "0 < l" "l < k' + k"
    show "(stride cnt s ^^ l) p < Suc i"
    proof (cases "l < k")
      case True
      then show ?thesis using k(3) l(1) by (simp add: less_Suc_eq)
    next
      case False
      then have "l = (l - k) + k" by simp
      then have "(stride cnt s ^^ l) p = (stride cnt s ^^ (l - k)) i"
        using add [of "l - k"] by simp
      then show ?thesis
        using k'(4) [rule_format, of "l - k"] l False by (cases "l = k") auto
    qed
  qed (use k k' add in auto)
  then show ?thesis
    by (simp add: add k'(2))
qed

subsection \<open>The search for the element\<close>

lemma shuffle_find_lands:
  assumes "s * cnt \<le> 2 ^ 64" and "i < cnt" and "lands cnt s i i j"
  shows "shuffle_find s cnt 1 i i 0 = Some j"
proof -
  obtain k where k: "0 < k" "j = (stride cnt s ^^ k) i" "i \<le> j" "\<forall>l. 0 < l \<longrightarrow> l < k \<longrightarrow> (stride cnt s ^^ l) i < i"
    using assms(3) by (rule landsE)
  have step: "s * x mod 2 ^ 64 mod cnt = stride cnt s x" if "x < cnt" for x
    by (simp add: stride_def no_wrap [OF assms(1) that, simplified])
  have "shuffle_find s cnt 1 i ((stride cnt s ^^ l) i) l = Some j" if "l \<le> k" for l
    using that
  proof (induction "k - l" arbitrary: l)
    case 0
    then show ?case
      using k by (subst shuffle_find.simps) auto
  next
    case (Suc n)
    have "shuffle_find s cnt 1 i ((stride cnt s ^^ Suc l) i) (Suc l) = Some j"
      using Suc by (intro Suc.hyps(1)) simp_all
    moreover have "l < 1 \<or> (stride cnt s ^^ l) i < i"
      using k(4) [rule_format, of l] Suc.hyps(2) by (cases "l = 0") simp_all
    ultimately show ?case
      using step [OF stride_pow_less [OF assms(2), of l s]] by (subst shuffle_find.simps) simp
  qed
  from this [of 0] show ?thesis
    by simp
qed

subsection \<open>Swapping elements\<close>

lemma array_permuted_swap:
  assumes "array_permuted m0 m p p e n g" and "e < 128" and "i < n" and "j < n" and "i \<noteq> j"
  shows "array_permuted m0 (LIBXSMM_MEMSWP127 m (p + e * i) (p + e * j) e) p p e n
    (\<lambda>x. g (if x = i then j else if x = j then i else x))"
  unfolding array_permuted_def
proof (intro conjI allI impI)
  fix x k
  assume "x < n" "k < e"
  then show "elem (LIBXSMM_MEMSWP127 m (p + e * i) (p + e * j) e) p e x k =
      elem m0 p e (g (if x = i then j else if x = j then i else x)) k"
    using assms(1,3,4) by (simp add: elem_swap(1) [OF assms(2,5,3,4)] array_permuted_def)
next
  fix a
  assume a: "\<not> (p \<le> a \<and> a < p + e * n)"
  then show "LIBXSMM_MEMSWP127 m (p + e * i) (p + e * j) e a = m0 a"
    using assms(1) elem_swap(2) [OF assms(2,5,3,4) a, of m] unfolding array_permuted_def by simp
qed

subsection \<open>The invariant of the loop\<close>

text \<open>
  After the places before \<open>i\<close>, seen from the end of the array: those from the middle on, and those they are
  mirrored to, have changed sides.
\<close>

definition mirrored :: "nat \<Rightarrow> nat \<Rightarrow> nat \<Rightarrow> nat" where
  "mirrored cnt i p =
    (let c = cnt - 1; c2 = (cnt + 1) div 2 in if c2 \<le> p \<and> p < i \<or> c2 \<le> c - p \<and> c - p < i then c - p else p)"

definition shuffle_inv :: "nat \<Rightarrow> nat \<Rightarrow> nat \<Rightarrow> (nat \<Rightarrow> nat) \<Rightarrow> bool" where
  "shuffle_inv cnt s i g \<longleftrightarrow>
    (\<forall>p<i. g (cnt - 1 - mirrored cnt i p) = shuffled cnt s p) \<and>
    (\<forall>p j. i \<le> p \<longrightarrow> p < cnt \<longrightarrow> lands cnt s i p j \<longrightarrow> g (cnt - 1 - j) = shuffled cnt s p)"

abbreviation (input) swapped :: "(nat \<Rightarrow> nat) \<Rightarrow> nat \<Rightarrow> nat \<Rightarrow> nat \<Rightarrow> nat" where
  "swapped g a b \<equiv> \<lambda>x. g (if x = a then b else if x = b then a else x)"

lemma mirrored_less: "p < i \<Longrightarrow> i \<le> cnt \<Longrightarrow> mirrored cnt i p < i"
  by (auto simp: mirrored_def Let_def)

lemma shuffle_inv_start: "shuffle_inv cnt s 0 (\<lambda>x. x)"
proof -
  have "cnt - 1 - j = shuffled cnt s p" if j: "lands cnt s 0 p j" for p j
  proof -
    obtain k where k: "0 < k" "j = (stride cnt s ^^ k) p" "\<forall>l. 0 < l \<longrightarrow> l < k \<longrightarrow> (stride cnt s ^^ l) p < 0"
      using j by (rule landsE)
    then have "k = 1"
      by (metis less_one linorder_neqE_nat not_less_zero zero_less_one)
    then show ?thesis
      using k(2) by (simp add: shuffled_def stride_def)
  qed
  then show ?thesis
    by (simp add: shuffle_inv_def)
qed

text \<open>The first swap brings the right element to place \<open>i\<close>.\<close>

lemma shuffle_inv_swap:
  assumes "coprime s cnt" and "shuffle_inv cnt s i g" and "i < cnt" and "lands cnt s i i j"
  defines "h \<equiv> (if i < j then swapped g (cnt - 1 - j) (cnt - 1 - i) else g)"
  shows "\<And>p. p < i \<Longrightarrow> h (cnt - 1 - mirrored cnt i p) = shuffled cnt s p"
    and "h (cnt - 1 - i) = shuffled cnt s i"
    and "\<And>p j'. Suc i \<le> p \<Longrightarrow> p < cnt \<Longrightarrow> lands cnt s (Suc i) p j' \<Longrightarrow> h (cnt - 1 - j') = shuffled cnt s p"
proof -
  have ij: "i \<le> j" and j: "j < cnt"
    using assms(3,4) lands_less by (auto elim: landsE)
  have h: "h (cnt - 1 - x) = (if x = i then g (cnt - 1 - j) else if x = j then g (cnt - 1 - i) else g (cnt - 1 - x))"
    if "x < cnt" for x
    using that ij j assms(3) by (auto simp: h_def)
  have early: "g (cnt - 1 - mirrored cnt i p) = shuffled cnt s p" if "p < i" for p
    using assms(2) that by (simp add: shuffle_inv_def)
  have late: "g (cnt - 1 - y) = shuffled cnt s p" if "i \<le> p" "p < cnt" "lands cnt s i p y" for p y
    using assms(2) that by (simp add: shuffle_inv_def)
  show "h (cnt - 1 - mirrored cnt i p) = shuffled cnt s p" if "p < i" for p
    using mirrored_less [of p i cnt] that assms(3) ij early by (subst h) auto
  show "h (cnt - 1 - i) = shuffled cnt s i"
    using late [OF _ assms(3,4)] by (subst h [OF assms(3)]) simp
  show "h (cnt - 1 - j') = shuffled cnt s p" if p: "Suc i \<le> p" "p < cnt" and j': "lands cnt s (Suc i) p j'" for p j'
  proof -
    have i_j': "Suc i \<le> j'" and j'_cnt: "j' < cnt"
      using j' lands_less [OF j' p(2)] by (auto elim: landsE)
    obtain y where y: "lands cnt s i p y"
      using lands_exists [OF assms(1) _ p(2), of i] p(1) by auto
    show ?thesis
    proof (cases "y = i")
      case False
      then have "y = j'"
        using lands_unique [OF lands_Suc [OF y] j'] by simp
      moreover have "y \<noteq> j"
        using lands_inj [OF assms(1,3) p(2) order_refl _ assms(4)] y p(1) by auto
      ultimately show ?thesis
        using late [OF _ p(2) y] p(1) False by (subst h [OF j'_cnt]) auto
    next
      case True
      have "j \<noteq> i"
        using lands_inj [OF assms(1,3) p(2) order_refl _ assms(4)] y p(1) True by auto
      then have "lands cnt s (Suc i) i j"
        by (rule lands_Suc [OF assms(4)])
      then have "lands cnt s (Suc i) p j"
        using lands_through y True by blast
      then have "j = j'"
        using j' by (rule lands_unique)
      then show ?thesis
        using late [OF _ p(2) y] p(1) True i_j' by (subst h [OF j'_cnt]) auto
    qed
  qed
qed

lemma shuffle_inv_step:
  assumes "coprime s cnt" and "shuffle_inv cnt s i g" and "i < cnt" and "lands cnt s i i j"
  defines "h \<equiv> (if i < j then swapped g (cnt - 1 - j) (cnt - 1 - i) else g)"
  defines "h' \<equiv> (if (cnt + 1) div 2 \<le> i then swapped h (cnt - 1 - i) i else h)"
  shows "shuffle_inv cnt s (Suc i) h'"
proof -
  note swap = shuffle_inv_swap [OF assms(1-4), folded h_def]
  have h': "h' (cnt - 1 - x) = (if (cnt + 1) div 2 \<le> i \<and> (x = i \<or> x = cnt - 1 - i)
      then h (cnt - 1 - (cnt - 1 - x)) else h (cnt - 1 - x))" if "x < cnt" for x
    using that assms(3) by (auto simp: h'_def)
  have h'_i: "h' i = h (cnt - 1 - i)" "h' (cnt - 1 - i) = h i" if "(cnt + 1) div 2 \<le> i"
    using that by (auto simp: h'_def)
  have m: "mirrored cnt (Suc i) p = (if (cnt + 1) div 2 \<le> i \<and> (p = i \<or> p = cnt - 1 - i) then cnt - 1 - p else mirrored cnt i p)"
    if "p < Suc i" for p
    using that assms(3) by (auto simp: mirrored_def Let_def)
  have own: "mirrored cnt i i = i"
    using assms(3) by (auto simp: mirrored_def Let_def)
  have partner: "mirrored cnt i (cnt - 1 - i) = cnt - 1 - i" if "(cnt + 1) div 2 \<le> i"
    using assms(3) that by (auto simp: mirrored_def Let_def)
  have neither: "mirrored cnt i p \<noteq> i \<and> mirrored cnt i p \<noteq> cnt - 1 - i"
    if "p < i" "p \<noteq> cnt - 1 - i" "(cnt + 1) div 2 \<le> i" for p
    using assms(3) that by (auto simp: mirrored_def Let_def)
  have "h' (cnt - 1 - mirrored cnt (Suc i) p) = shuffled cnt s p" if p: "p < Suc i" for p
  proof (cases "(cnt + 1) div 2 \<le> i")
    case True
    consider "p = i" | "p = cnt - 1 - i" "p \<noteq> i" | "p < i" "p \<noteq> cnt - 1 - i"
      using p by linarith
    then show ?thesis
    proof cases
      case 1
      then show ?thesis
        using swap(2) assms(3) True h'_i by (simp add: m)
    next
      case 2
      then have "p < i"
        using p by simp
      then show ?thesis
        using swap(1) [of p] partner [OF True] 2 assms(3) True h'_i by (simp add: m)
    next
      case 3
      then show ?thesis
        using swap(1) [of p] neither [OF 3 True] mirrored_less [of p i cnt] assms(3) h' [of "mirrored cnt i p"]
        by (simp add: m)
    qed
  next
    case False
    then show ?thesis
      using p swap(1) [of p] swap(2) own mirrored_less [of p i cnt] assms(3) h' [of "mirrored cnt i p"] h' [of i]
      by (auto simp: m less_Suc_eq)
  qed
  moreover have "h' (cnt - 1 - j') = shuffled cnt s p" if "Suc i \<le> p" "p < cnt" "lands cnt s (Suc i) p j'" for p j'
  proof -
    have "Suc i \<le> j'" and "j' < cnt"
      using that(3) lands_less [OF that(3,2)] by (auto elim: landsE)
    then show ?thesis
      using swap(3) [OF that] h' [of j'] by auto
  qed
  ultimately show ?thesis
    by (simp add: shuffle_inv_def)
qed

lemma shuffle_inv_end:
  assumes "shuffle_inv cnt s cnt g" and "p < cnt"
  shows "g p = shuffled cnt s p"
proof -
  have "cnt - 1 - mirrored cnt cnt p = p"
    using assms(2) by (auto simp: mirrored_def Let_def)
  then show ?thesis
    using assms by (simp add: shuffle_inv_def) metis
qed

subsection \<open>The loop\<close>

lemma shuffle_loop_permutes:
  assumes "coprime s cnt" and "s * cnt \<le> 2 ^ 64" and "e < 128" and "i \<le> cnt"
    and "array_permuted m0 m p p e cnt g" and "shuffle_inv cnt s i g"
  shows "\<exists>m'. shuffle_loop m p e cnt s 1 i = Some m' \<and> array_permuted m0 m' p p e cnt (shuffled cnt s)"
  using assms(4-6)
proof (induction "cnt - i" arbitrary: i m g)
  case 0
  then have i: "i = cnt"
    by simp
  have "g x = shuffled cnt s x" if "x < cnt" for x
    using shuffle_inv_end [of cnt s g x] "0.prems"(3) i that by simp
  then show ?case
    using "0.prems"(2) i by (subst shuffle_loop.simps) (simp add: array_permuted_def)
next
  case (Suc n)
  then have i: "i < cnt"
    by simp
  obtain j where j: "lands cnt s i i j"
    using lands_exists [OF assms(1) order_refl i] by blast
  have find: "shuffle_find s cnt 1 i i 0 = Some j"
    using assms(2) i j by (rule shuffle_find_lands)
  have ij: "j < cnt"
    using lands_less [OF j i] .
  define h where "h = (if i < j then swapped g (cnt - 1 - j) (cnt - 1 - i) else g)"
  define m1 where "m1 = (if i < j then LIBXSMM_MEMSWP127 m (p + e * (cnt - 1 - j)) (p + e * (cnt - 1 - i)) e else m)"
  define h' where "h' = (if (cnt + 1) div 2 \<le> i then swapped h (cnt - 1 - i) i else h)"
  define m2 where "m2 = (if (cnt + 1) div 2 \<le> i then LIBXSMM_MEMSWP127 m1 (p + e * (cnt - 1 - i)) (p + e * i) e else m1)"
  have "array_permuted m0 m1 p p e cnt h"
    using Suc.prems(2) array_permuted_swap [OF Suc.prems(2) assms(3), of "cnt - 1 - j" "cnt - 1 - i"] i ij
    by (auto simp: h_def m1_def)
  then have "array_permuted m0 m2 p p e cnt h'"
    using array_permuted_swap [of m0 m1 p e cnt h, OF _ assms(3), of "cnt - 1 - i" i] i
    by (auto simp: h'_def m2_def)
  moreover have "shuffle_inv cnt s (Suc i) h'"
    using shuffle_inv_step [OF assms(1) Suc.prems(3) i j] by (simp only: h_def h'_def)
  ultimately have "\<exists>m'. shuffle_loop m2 p e cnt s 1 (Suc i) = Some m' \<and> array_permuted m0 m' p p e cnt (shuffled cnt s)"
    using Suc.hyps(2) i by (intro Suc.hyps(1)) simp_all
  moreover have "shuffle_loop m p e cnt s 1 i = shuffle_loop m2 p e cnt s 1 (Suc i)"
    using i find by (subst shuffle_loop.simps) (simp add: Let_def m1_def m2_def)
  ultimately show ?case
    by simp
qed

section \<open>The functions are correct\<close>

text \<open>
  C31: \<open>libxsmm_shuffle2\<close> succeeds for separate arrays and any number of repetitions \<open>n\<close>, element \<open>x\<close> of the
  target is the source element at the \<open>n\<close>-fold image of \<open>x\<close> under the permutation that multiplies by the
  shuffle argument and counts from the end, the permutation is one-to-one, and no byte outside of
  the target has changed.
\<close>

theorem shuffle2_correct:
  assumes "dst \<noteq> 0" and "src \<noteq> 0" and "dst + e * cnt \<le> src \<or> src + e * cnt \<le> dst"
    and "0 < e" and "0 < cnt" and "cnt \<le> 2 ^ 32" and "valid_shuffle cnt shuffle"
  shows "\<exists>s m'. shuffle_arg cnt shuffle = Some s \<and>
    libxsmm_shuffle2 m dst src e cnt shuffle nrepeat = Some (EXIT_SUCCESS, m') \<and>
    array_permuted m m' dst src e cnt (shuffled cnt s ^^ (case nrepeat of None \<Rightarrow> 1 | Some n \<Rightarrow> n)) \<and>
    inj_on (shuffled cnt s) {..<cnt} \<and> shuffled cnt s ` {..<cnt} \<subseteq> {..<cnt}"
proof -
  obtain s where s: "shuffle_arg cnt shuffle = Some s" "s \<le> cnt" "coprime s cnt" "s * cnt \<le> 2 ^ 64"
    using assms(7,5,6) by (rule shuffle_arg_valid)
  have "cnt < 2 ^ 63"
    using assms(6) by simp
  then obtain m' where "libxsmm_shuffle2 m dst src e cnt shuffle nrepeat = Some (EXIT_SUCCESS, m')"
    "array_permuted m m' dst src e cnt (shuffled cnt s ^^ (case nrepeat of None \<Rightarrow> 1 | Some n \<Rightarrow> n))"
    using shuffle2_permutes [OF assms(1-4) _ s(2,4), of m "case nrepeat of None \<Rightarrow> 1 | Some n \<Rightarrow> n"]
    by (auto simp: shuffle2_arg [OF s(1)])
  moreover have "shuffled cnt s ` {..<cnt} \<subseteq> {..<cnt}"
    using shuffled_less [OF assms(5)] by blast
  ultimately show ?thesis
    using s(1) shuffled_inj [OF s(3)] by blast
qed

theorem shuffle2_correct_witness:
  "\<exists>s m'. libxsmm_shuffle2 (\<lambda>a. of_nat a) 64 32 4 5 None (Some 2) = Some (EXIT_SUCCESS, m') \<and>
    array_permuted (\<lambda>a. of_nat a) m' 64 32 4 5 (shuffled 5 s ^^ 2)"
  using shuffle2_correct [of 64 32 4 5 None "\<lambda>a. of_nat a" "Some 2"] by (auto simp: valid_shuffle_def)

text \<open>
  C32: \<open>libxsmm_shuffle\<close> returns for elements of up to 127 bytes, and permutes the array in place by swapping
  elements exactly as \<open>libxsmm_shuffle2\<close> permutes it into another array: both implement the same
  permutation.
\<close>

theorem shuffle_in_place_correct:
  assumes "p \<noteq> 0" and "e < 128" and "0 < cnt" and "cnt \<le> 2 ^ 32" and "valid_shuffle cnt shuffle"
  shows "\<exists>s m'. shuffle_arg cnt shuffle = Some s \<and>
    libxsmm_shuffle m p e cnt shuffle None = Some (EXIT_SUCCESS, m') \<and>
    array_permuted m m' p p e cnt (shuffled cnt s)"
proof -
  obtain s where s: "shuffle_arg cnt shuffle = Some s" "s \<le> cnt" "coprime s cnt" "s * cnt \<le> 2 ^ 64"
    using assms(5,3,4) by (rule shuffle_arg_valid)
  have "array_permuted m m p p e cnt (\<lambda>x. x)"
    by (simp add: array_permuted_def)
  then obtain m' where "shuffle_loop m p e cnt s 1 0 = Some m'" "array_permuted m m' p p e cnt (shuffled cnt s)"
    using shuffle_loop_permutes [OF s(3,4) assms(2) _ _ shuffle_inv_start] by blast
  then show ?thesis
    using s(1) assms(1) by (simp add: libxsmm_shuffle_def LIBXSMM_MEMORY_SHUFFLE_def)
qed

theorem shuffle_in_place_correct_witness:
  "\<exists>s m'. libxsmm_shuffle (\<lambda>a. of_nat a) 64 4 5 (Some 2) None = Some (EXIT_SUCCESS, m') \<and>
    array_permuted (\<lambda>a. of_nat a) m' 64 64 4 5 (shuffled 5 s)"
proof -
  have "coprime (2 :: nat) 5"
    by simp
  then show ?thesis
    using shuffle_in_place_correct [of 64 4 5 "Some 2" "\<lambda>a. of_nat a"] by (auto simp: valid_shuffle_def)
qed

text \<open>
  C33: Shuffling an array into another one and shuffling that back with the number of repetitions that
  \<open>libxsmm_unshuffle\<close> computes restores it: the memory outside of the second array is as before.
\<close>

theorem unshuffle_restores:
  assumes "dst \<noteq> 0" and "src \<noteq> 0" and "dst + e * cnt \<le> src \<or> src + e * cnt \<le> dst"
    and "0 < e" and "0 < cnt" and "cnt \<le> 2 ^ 32" and "valid_shuffle cnt shuffle"
  shows "\<exists>t m1 m2. libxsmm_unshuffle cnt shuffle = Some t \<and> t < cnt \<and>
    libxsmm_shuffle2 m dst src e cnt shuffle None = Some (EXIT_SUCCESS, m1) \<and>
    libxsmm_shuffle2 m1 src dst e cnt shuffle (Some t) = Some (EXIT_SUCCESS, m2) \<and>
    (\<forall>a. \<not> (dst \<le> a \<and> a < dst + e * cnt) \<longrightarrow> m2 a = m a)"
proof -
  obtain s where s: "shuffle_arg cnt shuffle = Some s" "s \<le> cnt" "coprime s cnt" "s * cnt \<le> 2 ^ 64"
    using assms(7,5,6) by (rule shuffle_arg_valid)
  obtain t where t: "libxsmm_unshuffle cnt (Some s) = Some t" "t < cnt" "\<forall>x<cnt. (shuffled cnt s ^^ Suc t) x = x"
    using unshuffle_finds [OF s(3,4) assms(5)] by blast
  have small: "cnt < 2 ^ 63"
    using assms(6) by simp
  obtain m1 where m1: "libxsmm_shuffle2 m dst src e cnt (Some s) (Some 1) = Some (EXIT_SUCCESS, m1)"
    "array_permuted m m1 dst src e cnt (shuffled cnt s ^^ 1)"
    using shuffle2_permutes [OF assms(1-4) small s(2,4)] by blast
  have disj: "src + e * cnt \<le> dst \<or> dst + e * cnt \<le> src"
    using assms(3) by blast
  obtain m2 where m2: "libxsmm_shuffle2 m1 src dst e cnt (Some s) (Some t) = Some (EXIT_SUCCESS, m2)"
    "array_permuted m1 m2 src dst e cnt (shuffled cnt s ^^ t)"
    using shuffle2_permutes [OF assms(2,1) disj assms(4) small s(2,4)] by blast
  have "m2 a = m a" if "\<not> (dst \<le> a \<and> a < dst + e * cnt)" for a
    using m1(2) m2(2) _ that
  proof (rule array_permuted_compose)
    fix x
    assume "x < cnt"
    then show "(shuffled cnt s ^^ t) x < cnt \<and> (shuffled cnt s ^^ 1) ((shuffled cnt s ^^ t) x) = x"
      using t(3) shuffled_pow_less by simp
  qed
  then show ?thesis
    using t(1,2) m1(1) m2(1) unshuffle_arg [OF s(1)] by (auto simp: shuffle2_arg [OF s(1)])
qed

theorem unshuffle_restores_witness:
  "\<exists>t m1 m2. libxsmm_unshuffle 5 (Some 2) = Some t \<and>
    libxsmm_shuffle2 (\<lambda>a. of_nat a) 64 32 4 5 (Some 2) None = Some (EXIT_SUCCESS, m1) \<and>
    libxsmm_shuffle2 m1 32 64 4 5 (Some 2) (Some t) = Some (EXIT_SUCCESS, m2) \<and> m2 33 = 33"
proof -
  have "coprime (2 :: nat) 5"
    by simp
  then show ?thesis
    using unshuffle_restores [of 64 32 4 5 "Some 2" "\<lambda>a. of_nat a"] by (auto simp: valid_shuffle_def)
qed

subsection \<open>Where the functions do not do what they are documented to\<close>

text \<open>
  The number of bytes that are swapped is a signed character: an element of 200 bytes is not moved at all, of
  one of 300 bytes the first 44 are swapped, and \<open>libxsmm_shuffle\<close> reports success.
\<close>

lemma shuffle_large_elements: "memory127_size 200 = 0 \<and> memory127_size 300 = 44"
  by (simp add: memory127_size_def)

lemma shuffle_loop_keeps:
  assumes "memory127_size e = 0" and "shuffle_loop m p e cnt s nrepeat i = Some m'"
  shows "m' = m"
  using assms(2)
proof (induction "cnt - i" arbitrary: i m)
  case 0
  then show ?case
    by (subst (asm) shuffle_loop.simps) simp
next
  case (Suc n)
  have keep: "LIBXSMM_MEMSWP127 m a b e = m" for m a b
    by (simp add: LIBXSMM_MEMSWP127_def assms(1))
  have i: "i < cnt"
    using Suc.hyps(2) by simp
  then have "shuffle_loop m p e cnt s nrepeat (Suc i) = Some m'"
    using Suc.prems by (subst (asm) shuffle_loop.simps) (simp add: Let_def keep cong: if_cong split: option.splits)
  moreover have "n = cnt - Suc i"
    using Suc.hyps(2) by simp
  ultimately show ?case
    using Suc.hyps(1) by blast
qed

lemma shuffle_200_bytes_unchanged:
  "libxsmm_shuffle m p 200 cnt (Some s) None = Some (r, m') \<Longrightarrow> m' = m"
  using shuffle_loop_keeps [of 200] shuffle_large_elements
  by (auto simp: libxsmm_shuffle_def LIBXSMM_MEMORY_SHUFFLE_def shuffle_arg_def split: if_splits)

text \<open>
  A shuffle argument above the count is not reduced by it: for three elements
  and the argument seven, \<open>libxsmm_shuffle2\<close> reads outside of the source, with several repetitions it does not.
\<close>

lemma shuffle2_reads_outside:
  "libxsmm_shuffle2 m 64 32 1 3 (Some 7) None = None"
  "libxsmm_shuffle2 m 64 32 1 3 (Some 7) (Some 2) \<noteq> None"
  by (simp_all add: libxsmm_shuffle2_def shuffle_arg_def shuffle2_loop.simps Let_def)

text \<open>
  Two repetitions in place are not two passes: for two elements and the argument one they reverse the
  array, while two passes out of place restore it.
\<close>

lemma shuffle_repeat_differs:
  "map_option (\<lambda>(r, m). (m 4, m 5)) (libxsmm_shuffle (\<lambda>a. of_nat a) 4 1 2 (Some 1) (Some 2)) = Some (5, 4)"
  "map_option (\<lambda>(r, m). (m 8, m 9)) (libxsmm_shuffle2 (\<lambda>a. of_nat a) 8 4 1 2 (Some 1) (Some 2)) = Some (4, 5)"
proof -
  have funpow_2: "(f ^^ 2) x = f (f x)" for f :: "nat \<Rightarrow> nat" and x
    by (simp add: numeral_2_eq_2)
  have upt_2: "[0..<2] = [0, 1 :: nat]"
    by (simp add: numeral_2_eq_2)
  show "map_option (\<lambda>(r, m). (m 4, m 5)) (libxsmm_shuffle (\<lambda>a. of_nat a) 4 1 2 (Some 1) (Some 2)) = Some (5, 4)"
    by (simp add: libxsmm_shuffle_def LIBXSMM_MEMORY_SHUFFLE_def shuffle_arg_def shuffle_loop.simps
      shuffle_find.simps LIBXSMM_MEMSWP127_def memory127_size_def LIBXSMM_ISWAP_def Let_def)
  show "map_option (\<lambda>(r, m). (m 8, m 9)) (libxsmm_shuffle2 (\<lambda>a. of_nat a) 8 4 1 2 (Some 1) (Some 2)) = Some (4, 5)"
    by (simp add: libxsmm_shuffle2_def shuffle_arg_def shuffle2_repeat_def shuffle2_index_def memcpy_def upt_2
        funpow_2 Let_def)
qed

end
