(* ===== verification/Descriptor.thy ===== *)
theory Descriptor
  imports Typedefs
begin

text \<open>
  The descriptors of kernels: the packed structures of \<open>src/libxsmm_main.h\<close>, their initialisation in
  \<open>src/libxsmm_generator.c\<close>, and the three bytes with the element types of a GEMM in
  \<open>src/generator_common.c\<close>. A descriptor is a record with the fields of the C structure, and the list of
  its bytes in memory (little endian, without padding) is what the registry hashes and compares.
  A \<open>libxsmm_blasint\<close> has 32 bits (LP64), hence any argument fits into the descriptor. Element types are
  the numbers of the enumerators.
\<close>

section \<open>Bytes of a structure\<close>

definition le16 :: "u16 \<Rightarrow> u8 list" where
  "le16 w = [ucast w, ucast (drop_bit 8 w)]"

definition le32 :: "u32 \<Rightarrow> u8 list" where
  "le32 w = [ucast w, ucast (drop_bit 8 w), ucast (drop_bit 16 w), ucast (drop_bit 24 w)]"

definition le64 :: "u64 \<Rightarrow> u8 list" where
  "le64 w = le32 (ucast w) @ le32 (ucast (drop_bit 32 w))"

section \<open>Element types of a GEMM\<close>

definition LIBXSMM_GEMM_SET_DESC_DATATYPE :: "int \<Rightarrow> int \<Rightarrow> int \<Rightarrow> int \<Rightarrow> u8 list" where
  "LIBXSMM_GEMM_SET_DESC_DATATYPE a_dt b_dt c_dt comp_dt =
    (let uc_a = word_of_int a_dt :: u8;
         uc_b = word_of_int b_dt :: u8;
         uc_c = word_of_int c_dt :: u8;
         uc_comp = word_of_int comp_dt :: u8;
         first = uc_a AND 0xcf;
         second = push_bit 6 uc_b;
         third = drop_bit 2 uc_b;
         fourth = push_bit 4 uc_c;
         fifth = drop_bit 4 uc_c;
         sixth = push_bit 2 uc_comp
     in [first OR second, third OR fourth, fifth OR sixth])"

definition LIBXSMM_GEMM_GETENUM_A_PREC :: "u8 list \<Rightarrow> int" where
  "LIBXSMM_GEMM_GETENUM_A_PREC datatype = LIBXSMM_GETENUM_INP (uint (datatype ! 0 AND 0x3f))"

definition LIBXSMM_GEMM_GETENUM_B_PREC :: "u8 list \<Rightarrow> int" where
  "LIBXSMM_GEMM_GETENUM_B_PREC datatype =
    (let uc_first_part = drop_bit 6 (datatype ! 0 AND 0xc0);
         uc_second_part = push_bit 2 (datatype ! 1 AND 0x0f)
     in LIBXSMM_GETENUM_INP (uint (uc_first_part OR uc_second_part)))"

definition LIBXSMM_GEMM_GETENUM_C_PREC :: "u8 list \<Rightarrow> int" where
  "LIBXSMM_GEMM_GETENUM_C_PREC datatype =
    (let uc_first_part = drop_bit 4 (datatype ! 1 AND 0xf0);
         uc_second_part = push_bit 4 (datatype ! 2 AND 0x03)
     in LIBXSMM_GETENUM_INP (uint (uc_first_part OR uc_second_part)))"

definition LIBXSMM_GEMM_GETENUM_COMP_PREC :: "u8 list \<Rightarrow> int" where
  "LIBXSMM_GEMM_GETENUM_COMP_PREC datatype = LIBXSMM_GETENUM_INP (uint (drop_bit 2 (datatype ! 2 AND 0xfc)))"

definition LIBXSMM_GEMM_GETENUM_AB_COMMON_PREC :: "u8 list \<Rightarrow> int" where
  "LIBXSMM_GEMM_GETENUM_AB_COMMON_PREC datatype =
    (if LIBXSMM_GEMM_GETENUM_A_PREC datatype = LIBXSMM_GEMM_GETENUM_B_PREC datatype
     then LIBXSMM_GEMM_GETENUM_A_PREC datatype
     else libxsmm_datatype_val LIBXSMM_DATATYPE_UNSUPPORTED)"

definition LIBXSMM_GEMM_GETENUM_ABC_COMMON_PREC :: "u8 list \<Rightarrow> int" where
  "LIBXSMM_GEMM_GETENUM_ABC_COMMON_PREC datatype =
    (if LIBXSMM_GEMM_GETENUM_A_PREC datatype = LIBXSMM_GEMM_GETENUM_B_PREC datatype \<and>
        LIBXSMM_GEMM_GETENUM_A_PREC datatype = LIBXSMM_GEMM_GETENUM_C_PREC datatype
     then LIBXSMM_GEMM_GETENUM_A_PREC datatype
     else libxsmm_datatype_val LIBXSMM_DATATYPE_UNSUPPORTED)"

section \<open>The structures\<close>

record libxsmm_gemm_descriptor =
  gemm_m :: u32
  gemm_n :: u32
  gemm_k :: u32
  gemm_lda :: u32
  gemm_ldb :: u32
  gemm_ldc :: u32
  gemm_flags :: u32
  gemm_prefetch :: u8
  gemm_datatype :: "u8 list"
  meltw_datatype_aux :: u8
  gemm_c1 :: u64
  gemm_c2 :: u64
  gemm_c3 :: u8
  gemm_meltw_ldx :: u32
  gemm_meltw_ldy :: u32
  gemm_meltw_ldz :: u32
  gemm_meltw_param :: u16
  gemm_meltw_flags :: u16
  gemm_meltw_operation :: u8
  eltw_ap_op :: u8
  eltw_bp_op :: u8
  eltw_cp_op :: u8
  eltw_ap_flags :: u16
  eltw_bp_flags :: u16
  eltw_cp_flags :: u16
  eltw_ap_param :: u16
  eltw_bp_param :: u16
  eltw_cp_param :: u16
  gemm_ldap :: u32
  gemm_ldbp :: u32
  gemm_ldcp :: u32
  internal_flags_2 :: u8

definition gemm_bytes :: "libxsmm_gemm_descriptor \<Rightarrow> u8 list" where
  "gemm_bytes d =
    le32 (gemm_m d) @ le32 (gemm_n d) @ le32 (gemm_k d) @
    le32 (gemm_lda d) @ le32 (gemm_ldb d) @ le32 (gemm_ldc d) @
    le32 (gemm_flags d) @ [gemm_prefetch d] @ gemm_datatype d @ [meltw_datatype_aux d] @
    le64 (gemm_c1 d) @ le64 (gemm_c2 d) @ [gemm_c3 d] @
    le32 (gemm_meltw_ldx d) @ le32 (gemm_meltw_ldy d) @ le32 (gemm_meltw_ldz d) @
    le16 (gemm_meltw_param d) @ le16 (gemm_meltw_flags d) @ [gemm_meltw_operation d] @
    [eltw_ap_op d] @ [eltw_bp_op d] @ [eltw_cp_op d] @
    le16 (eltw_ap_flags d) @ le16 (eltw_bp_flags d) @ le16 (eltw_cp_flags d) @
    le16 (eltw_ap_param d) @ le16 (eltw_bp_param d) @ le16 (eltw_cp_param d) @
    le32 (gemm_ldap d) @ le32 (gemm_ldbp d) @ le32 (gemm_ldcp d) @ [internal_flags_2 d]"

record libxsmm_meltw_descriptor =
  meltw_m :: u32
  meltw_n :: u32
  meltw_ldi :: u32
  meltw_ldo :: u32
  meltw_ldi2 :: u32
  meltw_ldi3 :: u32
  meltw_datatype :: u8
  meltw_datatype1 :: u8
  meltw_datatype2 :: u8
  meltw_flags :: u16
  meltw_param :: u16
  meltw_operation :: u8

definition meltw_bytes :: "libxsmm_meltw_descriptor \<Rightarrow> u8 list" where
  "meltw_bytes d =
    le32 (meltw_m d) @ le32 (meltw_n d) @ le32 (meltw_ldi d) @ le32 (meltw_ldo d) @
    le32 (meltw_ldi2 d) @ le32 (meltw_ldi3 d) @
    [meltw_datatype d] @ [meltw_datatype1 d] @ [meltw_datatype2 d] @
    le16 (meltw_flags d) @ le16 (meltw_param d) @ [meltw_operation d]"

record libxsmm_meqn_descriptor =
  meqn_m :: u32
  meqn_n :: u32
  meqn_ldo :: u32
  meqn_datatype :: u8
  meqn_eqn_idx :: u32

definition meqn_bytes :: "libxsmm_meqn_descriptor \<Rightarrow> u8 list" where
  "meqn_bytes d = le32 (meqn_m d) @ le32 (meqn_n d) @ le32 (meqn_ldo d) @ [meqn_datatype d] @ le32 (meqn_eqn_idx d)"

section \<open>Initialisation\<close>

text \<open>All fields that the macro \<open>LIBXSMM_GEMM_DESCRIPTOR\<close> does not set are cleared.\<close>

definition LIBXSMM_GEMM_DESCRIPTOR ::
  "u8 list \<Rightarrow> u32 \<Rightarrow> u32 \<Rightarrow> u32 \<Rightarrow> u32 \<Rightarrow> u32 \<Rightarrow> u32 \<Rightarrow> u32 \<Rightarrow> u32 \<Rightarrow> libxsmm_gemm_descriptor" where
  "LIBXSMM_GEMM_DESCRIPTOR datatype flags m n k lda ldb ldc prefetch =
    \<lparr>gemm_m = m, gemm_n = n, gemm_k = k, gemm_lda = lda, gemm_ldb = ldb, gemm_ldc = ldc, gemm_flags = flags,
     gemm_prefetch = ucast prefetch, gemm_datatype = datatype, meltw_datatype_aux = 0,
     gemm_c1 = 0, gemm_c2 = 0, gemm_c3 = 0, gemm_meltw_ldx = 0, gemm_meltw_ldy = 0, gemm_meltw_ldz = 0,
     gemm_meltw_param = 0, gemm_meltw_flags = 0, gemm_meltw_operation = 0,
     eltw_ap_op = 0, eltw_bp_op = 0, eltw_cp_op = 0,
     eltw_ap_flags = 0, eltw_bp_flags = 0, eltw_cp_flags = 0,
     eltw_ap_param = 0, eltw_bp_param = 0, eltw_cp_param = 0,
     gemm_ldap = 0, gemm_ldbp = 0, gemm_ldcp = 0, internal_flags_2 = 0\<rparr>"

definition libxsmm_gemm_descriptor_init ::
  "int \<Rightarrow> int \<Rightarrow> int \<Rightarrow> int \<Rightarrow> u32 \<Rightarrow> u32 \<Rightarrow> u32 \<Rightarrow> u32 \<Rightarrow> u32 \<Rightarrow> u32 \<Rightarrow> u32 \<Rightarrow> u32 \<Rightarrow> libxsmm_gemm_descriptor" where
  "libxsmm_gemm_descriptor_init a_type b_type comp_type c_type m n k lda ldb ldc flags prefetch =
    LIBXSMM_GEMM_DESCRIPTOR (LIBXSMM_GEMM_SET_DESC_DATATYPE a_type b_type c_type comp_type)
      flags m n k lda ldb ldc prefetch"

definition libxsmm_meltw_descriptor_init ::
  "int \<Rightarrow> int \<Rightarrow> u32 \<Rightarrow> u32 \<Rightarrow> u32 \<Rightarrow> u32 \<Rightarrow> u16 \<Rightarrow> u16 \<Rightarrow> u8 \<Rightarrow> libxsmm_meltw_descriptor" where
  "libxsmm_meltw_descriptor_init in_type out_type m n ldi ldo flags param operation =
    \<lparr>meltw_m = m, meltw_n = n, meltw_ldi = ldi, meltw_ldo = ldo, meltw_ldi2 = 0, meltw_ldi3 = 0,
     meltw_datatype = LIBXSMM_GETENUM in_type out_type, meltw_datatype1 = 0, meltw_datatype2 = 0,
     meltw_flags = flags, meltw_param = param, meltw_operation = operation\<rparr>"

definition libxsmm_meltw_descriptor_init2 ::
  "int \<Rightarrow> int \<Rightarrow> int \<Rightarrow> int \<Rightarrow> int \<Rightarrow> u32 \<Rightarrow> u32 \<Rightarrow> u32 \<Rightarrow> u32 \<Rightarrow> u32 \<Rightarrow> u32 \<Rightarrow> u16 \<Rightarrow> u16 \<Rightarrow> u8 \<Rightarrow>
    libxsmm_meltw_descriptor" where
  "libxsmm_meltw_descriptor_init2 in0_type in1_type in2_type comp_type out_type m n ldi ldo ldi2 ldi3 flags param operation =
    \<lparr>meltw_m = m, meltw_n = n, meltw_ldi = ldi, meltw_ldo = ldo, meltw_ldi2 = ldi2, meltw_ldi3 = ldi3,
     meltw_datatype = LIBXSMM_GETENUM in0_type out_type,
     meltw_datatype1 = LIBXSMM_GETENUM in1_type in2_type,
     meltw_datatype2 = LIBXSMM_GETENUM comp_type out_type,
     meltw_flags = flags, meltw_param = param, meltw_operation = operation\<rparr>"

definition libxsmm_meqn_descriptor_init :: "int \<Rightarrow> u32 \<Rightarrow> u32 \<Rightarrow> u32 \<Rightarrow> u32 \<Rightarrow> libxsmm_meqn_descriptor" where
  "libxsmm_meqn_descriptor_init out_type m n ldo eqn_idx =
    \<lparr>meqn_m = m, meqn_n = n, meqn_ldo = ldo, meqn_datatype = LIBXSMM_GETENUM out_type out_type, meqn_eqn_idx = eqn_idx\<rparr>"

section \<open>Shapes and requests\<close>

record libxsmm_gemm_shape =
  shape_m :: u32
  shape_n :: u32
  shape_k :: u32
  shape_lda :: u32
  shape_ldb :: u32
  shape_ldc :: u32
  a_in_type :: int
  b_in_type :: int
  shape_out_type :: int
  shape_comp_type :: int

definition libxsmm_create_gemm_shape ::
  "u32 \<Rightarrow> u32 \<Rightarrow> u32 \<Rightarrow> u32 \<Rightarrow> u32 \<Rightarrow> u32 \<Rightarrow> int \<Rightarrow> int \<Rightarrow> int \<Rightarrow> int \<Rightarrow> libxsmm_gemm_shape" where
  "libxsmm_create_gemm_shape m n k lda ldb ldc a b out_t comp_t =
    \<lparr>shape_m = m, shape_n = n, shape_k = k, shape_lda = lda, shape_ldb = ldb, shape_ldc = ldc,
     a_in_type = a, b_in_type = b, shape_out_type = out_t, shape_comp_type = comp_t\<rparr>"

record libxsmm_gemm_batch_reduce_config =
  br_type :: int
  br_stride_a_hint :: u32
  br_stride_b_hint :: u32
  br_unroll_hint :: u8

definition libxsmm_create_gemm_batch_reduce_config :: "int \<Rightarrow> u32 \<Rightarrow> u32 \<Rightarrow> u8 \<Rightarrow> libxsmm_gemm_batch_reduce_config" where
  "libxsmm_create_gemm_batch_reduce_config t stride_a stride_b unroll =
    \<lparr>br_type = t, br_stride_a_hint = stride_a, br_stride_b_hint = stride_b, br_unroll_hint = unroll\<rparr>"

record libxsmm_gemm_ext_unary_argops =
  arg_ldap :: u32
  ap_unary_type :: u32
  ap_unary_flags :: u32
  store_ap :: u32
  arg_ldbp :: u32
  bp_unary_type :: u32
  bp_unary_flags :: u32
  store_bp :: u32
  arg_ldcp :: u32
  cp_unary_type :: u32
  cp_unary_flags :: u32
  store_cp :: u32

definition libxsmm_create_gemm_ext_unary_argops ::
  "u32 \<Rightarrow> u32 \<Rightarrow> u32 \<Rightarrow> u32 \<Rightarrow> u32 \<Rightarrow> u32 \<Rightarrow> u32 \<Rightarrow> u32 \<Rightarrow> u32 \<Rightarrow> u32 \<Rightarrow> u32 \<Rightarrow> u32 \<Rightarrow>
    libxsmm_gemm_ext_unary_argops" where
  "libxsmm_create_gemm_ext_unary_argops ldap apt apf sap ldbp bpt bpf sbp ldcp cpt cpf scp =
    \<lparr>arg_ldap = ldap, ap_unary_type = apt, ap_unary_flags = apf, store_ap = sap,
     arg_ldbp = ldbp, bp_unary_type = bpt, bp_unary_flags = bpf, store_bp = sbp,
     arg_ldcp = ldcp, cp_unary_type = cpt, cp_unary_flags = cpf, store_cp = scp\<rparr>"

record libxsmm_gemm_ext_binary_postops =
  arg_ldd :: u32
  d_in_type :: int
  d_binary_type :: u32
  d_binary_flags :: u32

definition libxsmm_create_gemm_ext_binary_postops :: "u32 \<Rightarrow> int \<Rightarrow> u32 \<Rightarrow> u32 \<Rightarrow> libxsmm_gemm_ext_binary_postops" where
  "libxsmm_create_gemm_ext_binary_postops ldd d_type op_type op_flags =
    \<lparr>arg_ldd = ldd, d_in_type = d_type, d_binary_type = op_type, d_binary_flags = op_flags\<rparr>"

definition libxsmm_get_gemm_prefetch :: "int \<Rightarrow> int" where
  "libxsmm_get_gemm_prefetch prefetch = (if 0 > prefetch then 2 OR 1 else prefetch)"

text \<open>The flags of the tile configuration must both be set or both be clear.\<close>

definition tileconfig_hoisted :: "u32 \<Rightarrow> bool" where
  "tileconfig_hoisted flags \<longleftrightarrow> (64 AND flags \<noteq> 0) \<noteq> (128 AND flags \<noteq> 0)"

definition shape_descriptor :: "libxsmm_gemm_shape \<Rightarrow> u32 \<Rightarrow> int \<Rightarrow> libxsmm_gemm_descriptor" where
  "shape_descriptor sh flags prefetch =
    libxsmm_gemm_descriptor_init (a_in_type sh) (b_in_type sh) (shape_comp_type sh) (shape_out_type sh)
      (shape_m sh) (shape_n sh) (shape_k sh) (shape_lda sh) (shape_ldb sh) (shape_ldc sh)
      flags (word_of_int (libxsmm_get_gemm_prefetch prefetch))"

text \<open>The descriptors that the functions \<open>libxsmm_dispatch_*\<close> pass on; \<open>None\<close> is their early return of \<open>NULL\<close>.\<close>

definition tilecfg_gemm_request :: "libxsmm_gemm_shape \<Rightarrow> u32 \<Rightarrow> libxsmm_gemm_descriptor option" where
  "tilecfg_gemm_request sh flags =
    (if \<not> tileconfig_hoisted flags then None else Some (shape_descriptor sh (flags OR 16384) 0))"

definition gemm_request :: "libxsmm_gemm_shape \<Rightarrow> u32 \<Rightarrow> u32 \<Rightarrow> libxsmm_gemm_descriptor option" where
  "gemm_request sh flags prefetch =
    (if tileconfig_hoisted flags then None else Some (shape_descriptor sh (flags OR 16384) (sint prefetch)))"

definition br_flags :: "libxsmm_gemm_batch_reduce_config \<Rightarrow> u32 \<Rightarrow> u32" where
  "br_flags c flags =
    (if br_type c = 1 then flags OR 65536
     else if br_type c = 2 then flags OR 131072
     else if br_type c = 4 then flags OR 262144
     else flags)"

definition br_fields :: "libxsmm_gemm_batch_reduce_config \<Rightarrow> libxsmm_gemm_descriptor \<Rightarrow> libxsmm_gemm_descriptor" where
  "br_fields c d =
    (if br_type c \<noteq> 0 then
       (let d = (if br_type c = 4 then d\<lparr>gemm_c1 := scast (br_stride_a_hint c), gemm_c2 := scast (br_stride_b_hint c)\<rparr>
                 else d\<lparr>gemm_c1 := 0, gemm_c2 := 0\<rparr>)
        in if br_unroll_hint c \<noteq> 0 then
             d\<lparr>gemm_c3 := (if br_unroll_hint c < 255 \<and> 0 < br_unroll_hint c then br_unroll_hint c else 0)\<rparr>
           else d\<lparr>gemm_c3 := 0\<rparr>)
     else d)"

definition brgemm_request ::
  "libxsmm_gemm_shape \<Rightarrow> u32 \<Rightarrow> u32 \<Rightarrow> libxsmm_gemm_batch_reduce_config \<Rightarrow> libxsmm_gemm_descriptor option" where
  "brgemm_request sh flags prefetch c =
    (if tileconfig_hoisted flags then None
     else Some (br_fields c (shape_descriptor sh (br_flags c (flags OR 16384)) (sint prefetch))))"

definition ext_fields ::
  "libxsmm_gemm_ext_unary_argops \<Rightarrow> libxsmm_gemm_ext_binary_postops \<Rightarrow> libxsmm_gemm_descriptor \<Rightarrow> libxsmm_gemm_descriptor" where
  "ext_fields u b d =
    d\<lparr>meltw_datatype_aux := word_of_int (d_in_type b),
      gemm_meltw_flags := ucast (d_binary_flags b),
      gemm_meltw_param := ucast (d_binary_type b),
      gemm_meltw_operation := (if d_binary_type b = 0 then 0 else 2),
      gemm_meltw_ldx := arg_ldd b, gemm_meltw_ldy := 0, gemm_meltw_ldz := 0,
      eltw_ap_op := (if ap_unary_type u = 0 then 0 else 1),
      eltw_ap_flags := ucast (ap_unary_flags u), eltw_ap_param := ucast (ap_unary_type u), gemm_ldap := arg_ldap u,
      eltw_bp_op := (if bp_unary_type u = 0 then 0 else 1),
      eltw_bp_flags := ucast (bp_unary_flags u), eltw_bp_param := ucast (bp_unary_type u), gemm_ldbp := arg_ldbp u,
      eltw_cp_op := (if cp_unary_type u = 0 then 0 else 1),
      eltw_cp_flags := ucast (cp_unary_flags u), eltw_cp_param := ucast (cp_unary_type u), gemm_ldcp := arg_ldcp u,
      internal_flags_2 := (if store_ap u \<noteq> 0 then 1 else 0) OR (if store_bp u \<noteq> 0 then 2 else 0)
        OR (if store_cp u \<noteq> 0 then 4 else 0)\<rparr>"

definition brgemm_ext_request ::
  "libxsmm_gemm_shape \<Rightarrow> u32 \<Rightarrow> u32 \<Rightarrow> libxsmm_gemm_batch_reduce_config \<Rightarrow> libxsmm_gemm_ext_unary_argops \<Rightarrow>
    libxsmm_gemm_ext_binary_postops \<Rightarrow> libxsmm_gemm_descriptor option" where
  "brgemm_ext_request sh flags prefetch c u b =
    (if tileconfig_hoisted flags then None
     else Some (ext_fields u b (br_fields c (shape_descriptor sh (br_flags c (flags OR 32768)) (sint prefetch)))))"

record libxsmm_meltw_unary_shape =
  sh_m :: u32
  sh_n :: u32
  sh_ldi :: u32
  sh_ldo :: u32
  sh_in0_type :: int
  sh_out_type :: int
  sh_comp_type :: int

record libxsmm_meltw_binary_shape = libxsmm_meltw_unary_shape +
  sh_ldi2 :: u32
  sh_in1_type :: int

record libxsmm_meltw_ternary_shape = libxsmm_meltw_binary_shape +
  sh_ldi3 :: u32
  sh_in2_type :: int

definition libxsmm_create_meltw_unary_shape ::
  "u32 \<Rightarrow> u32 \<Rightarrow> u32 \<Rightarrow> u32 \<Rightarrow> int \<Rightarrow> int \<Rightarrow> int \<Rightarrow> libxsmm_meltw_unary_shape" where
  "libxsmm_create_meltw_unary_shape m n ldi ldo in0 out_t comp_t =
    \<lparr>sh_m = m, sh_n = n, sh_ldi = ldi, sh_ldo = ldo, sh_in0_type = in0, sh_out_type = out_t, sh_comp_type = comp_t\<rparr>"

definition libxsmm_create_meltw_binary_shape ::
  "u32 \<Rightarrow> u32 \<Rightarrow> u32 \<Rightarrow> u32 \<Rightarrow> u32 \<Rightarrow> int \<Rightarrow> int \<Rightarrow> int \<Rightarrow> int \<Rightarrow> libxsmm_meltw_binary_shape" where
  "libxsmm_create_meltw_binary_shape m n ldi ldi2 ldo in0 in1 out_t comp_t =
    \<lparr>sh_m = m, sh_n = n, sh_ldi = ldi, sh_ldo = ldo, sh_in0_type = in0, sh_out_type = out_t, sh_comp_type = comp_t,
     sh_ldi2 = ldi2, sh_in1_type = in1\<rparr>"

definition libxsmm_create_meltw_ternary_shape ::
  "u32 \<Rightarrow> u32 \<Rightarrow> u32 \<Rightarrow> u32 \<Rightarrow> u32 \<Rightarrow> u32 \<Rightarrow> int \<Rightarrow> int \<Rightarrow> int \<Rightarrow> int \<Rightarrow> int \<Rightarrow> libxsmm_meltw_ternary_shape" where
  "libxsmm_create_meltw_ternary_shape m n ldi ldi2 ldi3 ldo in0 in1 in2 out_t comp_t =
    \<lparr>sh_m = m, sh_n = n, sh_ldi = ldi, sh_ldo = ldo, sh_in0_type = in0, sh_out_type = out_t, sh_comp_type = comp_t,
     sh_ldi2 = ldi2, sh_in1_type = in1, sh_ldi3 = ldi3, sh_in2_type = in2\<rparr>"

definition meltw_unary_request :: "u32 \<Rightarrow> libxsmm_meltw_unary_shape \<Rightarrow> u32 \<Rightarrow> libxsmm_meltw_descriptor" where
  "meltw_unary_request unary_type sh flags =
    libxsmm_meltw_descriptor_init2 (sh_in0_type sh) (libxsmm_datatype_val LIBXSMM_DATATYPE_UNSUPPORTED)
      (libxsmm_datatype_val LIBXSMM_DATATYPE_UNSUPPORTED) (sh_comp_type sh) (sh_out_type sh) (sh_m sh) (sh_n sh)
      (sh_ldi sh) (sh_ldo sh) 0 0 (ucast flags) (ucast unary_type) 1"

definition meltw_binary_request :: "u32 \<Rightarrow> libxsmm_meltw_binary_shape \<Rightarrow> u32 \<Rightarrow> libxsmm_meltw_descriptor" where
  "meltw_binary_request binary_type sh flags =
    libxsmm_meltw_descriptor_init2 (sh_in0_type sh) (sh_in1_type sh)
      (libxsmm_datatype_val LIBXSMM_DATATYPE_UNSUPPORTED) (sh_comp_type sh) (sh_out_type sh) (sh_m sh) (sh_n sh)
      (sh_ldi sh) (sh_ldo sh) (sh_ldi2 sh) 0 (ucast flags) (ucast binary_type) 2"

definition meltw_ternary_request :: "u32 \<Rightarrow> libxsmm_meltw_ternary_shape \<Rightarrow> u32 \<Rightarrow> libxsmm_meltw_descriptor" where
  "meltw_ternary_request ternary_type sh flags =
    libxsmm_meltw_descriptor_init2 (sh_in0_type sh) (sh_in1_type sh) (sh_in2_type sh) (sh_comp_type sh) (sh_out_type sh)
      (sh_m sh) (sh_n sh) (sh_ldi sh) (sh_ldo sh) (sh_ldi2 sh) (sh_ldi3 sh) (ucast flags) (ucast ternary_type) 3"

section \<open>The element types can be read back\<close>

lemma u8_bits_eqI: "(\<And>i. i < 8 \<Longrightarrow> bit a i = bit b i) \<Longrightarrow> a = (b :: u8)"
  by (rule word_eq_bitI) simp

lemma less8_cases: "i < 8 \<Longrightarrow> i \<in> {0, 1, 2, 3, 4, 5, 6, 7 :: nat}"
  by (simp; arith)

lemma datatype_val_word:
  "uint (word_of_int (libxsmm_datatype_val t) :: u8) = libxsmm_datatype_val t"
  "\<not> bit (word_of_int (libxsmm_datatype_val t) :: u8) 4" "\<not> bit (word_of_int (libxsmm_datatype_val t) :: u8) 5"
  "\<not> bit (word_of_int (libxsmm_datatype_val t) :: u8) 6" "\<not> bit (word_of_int (libxsmm_datatype_val t) :: u8) 7"
  by (cases t; simp)+

lemma masks_u8:
  "(0xc0 :: u8) = push_bit 6 (mask 2)" "(0x3f :: u8) = mask 6" "(0x0f :: u8) = mask 4" "(0xf0 :: u8) = push_bit 4 (mask 4)"
  "(0x03 :: u8) = mask 2" "(0xfc :: u8) = push_bit 2 (mask 6)"
  by (simp_all add: mask_eq_exp_minus_1)

lemma high_bits_u8: "\<not> bit a 6 \<Longrightarrow> \<not> bit a 7 \<Longrightarrow> 6 \<le> i \<Longrightarrow> \<not> bit (a :: u8) i"
  using bit_u8D [of a i] by (cases "i = 6 \<or> i = 7") auto

lemma and_0xcf: "\<not> bit a 4 \<Longrightarrow> \<not> bit a 5 \<Longrightarrow> \<not> bit a 6 \<Longrightarrow> \<not> bit a 7 \<Longrightarrow> a AND 0xcf = (a :: u8)"
  by (rule u8_bits_eqI, drule less8_cases) (auto simp: bit_simps)

lemma packed_a: "\<not> bit a 6 \<Longrightarrow> \<not> bit a 7 \<Longrightarrow> (a OR push_bit 6 b) AND 0x3f = (a :: u8)"
  unfolding masks_u8 using high_bits_u8 [of a] by (intro word_eq_bitI) (auto simp: bit_simps not_le [symmetric])

lemma packed_b:
  assumes "\<not> bit a 6" "\<not> bit a 7" "\<not> bit b 6" "\<not> bit b 7"
  shows "drop_bit 6 ((a OR push_bit 6 b) AND 0xc0) OR push_bit 2 ((drop_bit 2 b OR push_bit 4 c) AND 0x0f) = (b :: u8)"
  unfolding masks_u8
proof (rule u8_bits_eqI)
  fix i :: nat
  assume i: "i < 8"
  show "bit (drop_bit 6 ((a OR push_bit 6 b) AND push_bit 6 (mask 2)) OR
      push_bit 2 ((drop_bit 2 b OR push_bit 4 c) AND mask 4)) i = bit b i"
  proof (cases "i < 2")
    case True
    then show ?thesis
      using high_bits_u8 [OF assms(1,2), of "6 + i"] by (auto simp: bit_simps)
  next
    case False
    then obtain j where "i = j + 2"
      using le_Suc_ex [of 2 i] by auto
    then show ?thesis
      using i high_bits_u8 [OF assms(3,4), of i] by (cases "j < 4") (auto simp: bit_simps)
  qed
qed

lemma packed_c:
  assumes "\<not> bit b 6" "\<not> bit b 7" "\<not> bit c 6" "\<not> bit c 7"
  shows "drop_bit 4 ((drop_bit 2 b OR push_bit 4 c) AND 0xf0) OR push_bit 4 ((drop_bit 4 c OR push_bit 2 d) AND 0x03) = (c :: u8)"
  unfolding masks_u8
proof (rule u8_bits_eqI)
  fix i :: nat
  assume i: "i < 8"
  show "bit (drop_bit 4 ((drop_bit 2 b OR push_bit 4 c) AND push_bit 4 (mask 4)) OR
      push_bit 4 ((drop_bit 4 c OR push_bit 2 d) AND mask 2)) i = bit c i"
  proof (cases "i < 4")
    case True
    then show ?thesis
      using high_bits_u8 [OF assms(1,2), of "2 + (4 + i)"] by (auto simp: bit_simps)
  next
    case False
    then obtain j where "i = j + 4"
      using le_Suc_ex [of 4 i] by auto
    then show ?thesis
      using i high_bits_u8 [OF assms(3,4), of i] by (cases "j < 2") (auto simp: bit_simps add.commute)
  qed
qed

lemma packed_d:
  assumes "\<not> bit c 6" "\<not> bit c 7" "\<not> bit d 6" "\<not> bit d 7"
  shows "drop_bit 2 ((drop_bit 4 c OR push_bit 2 d) AND 0xfc) = (d :: u8)"
  unfolding masks_u8
proof (rule u8_bits_eqI)
  fix i :: nat
  assume "i < 8"
  then show "bit (drop_bit 2 ((drop_bit 4 c OR push_bit 2 d) AND push_bit 2 (mask 6))) i = bit d i"
    using high_bits_u8 [OF assms(1,2), of "4 + (2 + i)"] high_bits_u8 [OF assms(3,4), of i]
    by (cases "i < 6") (auto simp: bit_simps)
qed

lemma nth_of_three: "[x, y, z] ! 0 = x" "[x, y, z] ! 1 = y" "[x, y, z] ! 2 = z"
  by simp_all

lemma prec_read_back:
  fixes a b c t :: libxsmm_datatype
  defines "d \<equiv> LIBXSMM_GEMM_SET_DESC_DATATYPE (libxsmm_datatype_val a) (libxsmm_datatype_val b) (libxsmm_datatype_val c)
    (libxsmm_datatype_val t)"
  shows "LIBXSMM_GEMM_GETENUM_A_PREC d = LIBXSMM_GETENUM_INP (libxsmm_datatype_val a)"
    and "LIBXSMM_GEMM_GETENUM_B_PREC d = LIBXSMM_GETENUM_INP (libxsmm_datatype_val b)"
    and "LIBXSMM_GEMM_GETENUM_C_PREC d = LIBXSMM_GETENUM_INP (libxsmm_datatype_val c)"
    and "LIBXSMM_GEMM_GETENUM_COMP_PREC d = LIBXSMM_GETENUM_INP (libxsmm_datatype_val t)"
  unfolding d_def LIBXSMM_GEMM_SET_DESC_DATATYPE_def LIBXSMM_GEMM_GETENUM_A_PREC_def LIBXSMM_GEMM_GETENUM_B_PREC_def
    LIBXSMM_GEMM_GETENUM_C_PREC_def LIBXSMM_GEMM_GETENUM_COMP_PREC_def
  by (simp_all only: Let_def nth_of_three and_0xcf packed_a packed_b packed_c packed_d datatype_val_word not_False_eq_True)

text \<open>
  The three bytes that hold the four element types of a GEMM give all of them back (an unsigned type
  as the signed type of the same width), and the common type of the inputs, or of all three matrices,
  exists exactly if the signed types agree.
\<close>

theorem gemm_datatype_roundtrip:
  "let d = LIBXSMM_GEMM_SET_DESC_DATATYPE (libxsmm_datatype_val a) (libxsmm_datatype_val b) (libxsmm_datatype_val c)
         (libxsmm_datatype_val t);
       signed = (\<lambda>t. LIBXSMM_GETENUM_INP (libxsmm_datatype_val t))
   in LIBXSMM_GEMM_GETENUM_A_PREC d = signed a \<and> LIBXSMM_GEMM_GETENUM_B_PREC d = signed b \<and>
      LIBXSMM_GEMM_GETENUM_C_PREC d = signed c \<and> LIBXSMM_GEMM_GETENUM_COMP_PREC d = signed t \<and>
      LIBXSMM_GEMM_GETENUM_AB_COMMON_PREC d = (if signed a = signed b then signed a else 15) \<and>
      LIBXSMM_GEMM_GETENUM_ABC_COMMON_PREC d = (if signed a = signed b \<and> signed a = signed c then signed a else 15)"
  by (simp add: Let_def LIBXSMM_GEMM_GETENUM_AB_COMMON_PREC_def LIBXSMM_GEMM_GETENUM_ABC_COMMON_PREC_def prec_read_back)

section \<open>What the bytes of a descriptor tell\<close>

lemma length_le [simp]: "length (le16 w) = 2" "length (le32 v) = 4" "length (le64 u) = 8"
  by (simp_all add: le16_def le32_def le64_def)

lemma le16_inject [simp]: "le16 a = le16 b \<longleftrightarrow> a = b"
proof
  assume "le16 a = le16 b"
  then have *: "ucast a = (ucast b :: u8)" "ucast (drop_bit 8 a) = (ucast (drop_bit 8 b) :: u8)"
    by (simp_all add: le16_def)
  show "a = b"
  proof (rule word_eq_bitI)
    fix i
    assume "i < LENGTH(16)"
    then show "bit a i = bit b i"
      using arg_cong [OF *(1), of "\<lambda>w. bit w i"] arg_cong [OF *(2), of "\<lambda>w. bit w (i - 8)"]
      by (cases "i < 8") (auto simp: bit_simps)
  qed
qed simp

lemma le32_inject [simp]: "le32 a = le32 b \<longleftrightarrow> a = b"
proof
  assume "le32 a = le32 b"
  then have *: "ucast a = (ucast b :: u8)" "ucast (drop_bit 8 a) = (ucast (drop_bit 8 b) :: u8)"
    "ucast (drop_bit 16 a) = (ucast (drop_bit 16 b) :: u8)" "ucast (drop_bit 24 a) = (ucast (drop_bit 24 b) :: u8)"
    by (simp_all add: le32_def)
  show "a = b"
  proof (rule word_eq_bitI)
    fix i
    assume "i < LENGTH(32)"
    then consider "i < 8" | "8 \<le> i" "i < 16" | "16 \<le> i" "i < 24" | "24 \<le> i" "i < 32"
      by (simp; linarith)
    then show "bit a i = bit b i"
      using arg_cong [OF *(1), of "\<lambda>w. bit w i"] arg_cong [OF *(2), of "\<lambda>w. bit w (i - 8)"]
        arg_cong [OF *(3), of "\<lambda>w. bit w (i - 16)"] arg_cong [OF *(4), of "\<lambda>w. bit w (i - 24)"]
      by cases (auto simp: bit_simps)
  qed
qed simp

lemma le_append_eq [simp]:
  "le16 a @ xs = le16 b @ ys \<longleftrightarrow> a = b \<and> xs = ys"
  "le32 c @ xs = le32 d @ ys \<longleftrightarrow> c = d \<and> xs = ys"
  by (simp_all add: append_eq_append_conv)

lemma length_SET_DESC_DATATYPE [simp]: "length (LIBXSMM_GEMM_SET_DESC_DATATYPE a b c t) = 3"
  by (simp add: LIBXSMM_GEMM_SET_DESC_DATATYPE_def Let_def)

lemma length_gemm_bytes: "length (gemm_datatype d) = 3 \<Longrightarrow> length (gemm_bytes d) = 95"
  by (simp add: gemm_bytes_def)

lemma length_meltw_bytes [simp]: "length (meltw_bytes d) = 32"
  by (simp add: meltw_bytes_def)

lemma length_meqn_bytes [simp]: "length (meqn_bytes d) = 17"
  by (simp add: meqn_bytes_def)

lemma meltw_bytes_inject: "meltw_bytes d = meltw_bytes d' \<longleftrightarrow> d = d'"
  by (cases d; cases d') (auto simp: meltw_bytes_def)

lemma meqn_bytes_inject: "meqn_bytes d = meqn_bytes d' \<longleftrightarrow> d = d'"
  by (cases d; cases d') (auto simp: meqn_bytes_def)

text \<open>The first 31 bytes of a GEMM descriptor end before the third byte with the types.\<close>

lemma take_gemm_bytes:
  assumes "length (gemm_datatype d) = 3"
  shows "take 31 (gemm_bytes d) =
    le32 (gemm_m d) @ le32 (gemm_n d) @ le32 (gemm_k d) @ le32 (gemm_lda d) @ le32 (gemm_ldb d) @ le32 (gemm_ldc d) @
    le32 (gemm_flags d) @ [gemm_prefetch d, gemm_datatype d ! 0, gemm_datatype d ! 1]"
proof -
  obtain x y z where "gemm_datatype d = [x, y, z]"
    using assms by (auto simp: numeral_3_eq_3 length_Suc_conv)
  then show ?thesis
    by (simp add: gemm_bytes_def)
qed

end
