(* ===== verification/Registry.thy ===== *)
theory Registry
  imports Crc32 Memory_Diff Descriptor
begin

text \<open>
  The code registry of \<open>src/libxsmm_main.c\<close>: the hash table of kernels and user data with its collision
  flags, the cache of each thread, \<open>internal_find_code\<close> and the functions on top of it. The model is the
  default build with JIT support, synchronisation by one lock, and \<open>NDEBUG\<close>; one call of
  \<open>internal_find_code\<close> runs at a time, hence the attempt to take the lock succeeds. Generating code and
  allocating memory are parameters (\<open>code_gen\<close>); statistics and messages are left out.
\<close>

section \<open>Constants and state\<close>

abbreviation (input) LIBXSMM_CAPACITY_REGISTRY :: nat where
  "LIBXSMM_CAPACITY_REGISTRY \<equiv> 131072"

abbreviation (input) LIBXSMM_CACHE_MAXSIZE :: nat where
  "LIBXSMM_CACHE_MAXSIZE \<equiv> 16"

abbreviation (input) LIBXSMM_DESCRIPTOR_MAXSIZE :: nat where
  "LIBXSMM_DESCRIPTOR_MAXSIZE \<equiv> 96"

abbreviation (input) LIBXSMM_DIFF_SIZE :: nat where
  "LIBXSMM_DIFF_SIZE \<equiv> 32"

abbreviation (input) LIBXSMM_HASH_SEED :: u32 where
  "LIBXSMM_HASH_SEED \<equiv> 25071975"

definition LIBXSMM_CODE_STATIC :: u64 where
  "LIBXSMM_CODE_STATIC = push_bit 63 1"

definition LIBXSMM_HASH_COLLISION :: u64 where
  "LIBXSMM_HASH_COLLISION = push_bit 62 1"

abbreviation (input) LIBXSMM_KERNEL_KIND_MATMUL :: u8 where "LIBXSMM_KERNEL_KIND_MATMUL \<equiv> 0"
abbreviation (input) LIBXSMM_KERNEL_KIND_MELTW :: u8 where "LIBXSMM_KERNEL_KIND_MELTW \<equiv> 1"
abbreviation (input) LIBXSMM_KERNEL_KIND_MEQN :: u8 where "LIBXSMM_KERNEL_KIND_MEQN \<equiv> 2"
abbreviation (input) LIBXSMM_KERNEL_KIND_USER :: u8 where "LIBXSMM_KERNEL_KIND_USER \<equiv> 3"
abbreviation (input) LIBXSMM_KERNEL_UNREGISTERED :: u8 where "LIBXSMM_KERNEL_UNREGISTERED \<equiv> 4"

definition LIBXSMM_DESCRIPTOR_BIG :: "u8 \<Rightarrow> u8" where
  "LIBXSMM_DESCRIPTOR_BIG KIND = KIND OR 0x80"

definition LIBXSMM_DESCRIPTOR_ISBIG :: "u8 \<Rightarrow> u8" where
  "LIBXSMM_DESCRIPTOR_ISBIG KIND = drop_bit 7 KIND"

definition LIBXSMM_DESCRIPTOR_KIND :: "u8 \<Rightarrow> u8" where
  "LIBXSMM_DESCRIPTOR_KIND KIND = KIND AND 0x7F"

text \<open>
  A descriptor is the list of the 96 bytes of the union \<open>libxsmm_descriptor\<close>, the kind first. A code pointer
  is the address with the two flags. The bookkeeping of an allocated buffer tells its size and the index
  in the registry (\<open>libxsmm_kernel_xinfo\<close>).
\<close>

record buffer_info =
  buffer_bytes :: nat
  registered_index :: nat

record internal_cache_entry =
  cache_keys :: "u8 list list"
  cache_code :: "u64 list"
  cache_id :: u32
  cache_size :: u8
  cache_hit :: u8

record registry_state =
  internal_registry :: "nat \<Rightarrow> u64"
  internal_registry_keys :: "nat \<Rightarrow> u8 list"
  internal_cache_buffer :: "nat \<Rightarrow> internal_cache_entry"
  internal_cache_size :: nat
  libxsmm_ninit :: u32
  malloc_info :: "u64 \<Rightarrow> buffer_info option"

text \<open>
  What the code depends on: the build and the function pointers of the hash and the comparison, the
  intrinsics and the target; the generator of code (error, size of the code and of its data for a
  descriptor), the allocator, and the function that makes a buffer executable.
\<close>

record kernel_env =
  env_crc :: crc_build
  env_crc_intrinsics :: crc_intrinsics
  env_hash :: hash_pointers
  env_mem :: mem_build
  env_simd :: simd_intrinsics
  env_diff :: mem_pointers
  env_archid :: int

record code_gen =
  gen_code :: "u8 list \<Rightarrow> u32 \<times> nat \<times> nat"
  xmalloc_buffer :: "(u64 \<Rightarrow> buffer_info option) \<Rightarrow> nat \<Rightarrow> u64 option"
  malloc_attrib_ok :: "u64 \<Rightarrow> bool"

definition clear_flags :: "u64 \<Rightarrow> u64" where
  "clear_flags p = p AND NOT (LIBXSMM_CODE_STATIC OR LIBXSMM_HASH_COLLISION)"

section \<open>Building\<close>

text \<open>
  The part of \<open>libxsmm_build\<close> after the code has been generated: the result code, the code pointer, and the
  bookkeeping of the buffers.
\<close>

definition alloc_buffer ::
  "code_gen \<Rightarrow> (u64 \<Rightarrow> buffer_info option) \<Rightarrow> nat \<Rightarrow> nat \<Rightarrow> (u64 \<Rightarrow> bool) \<Rightarrow> int \<times> u64 \<times> (u64 \<Rightarrow> buffer_info option)" where
  "alloc_buffer b h bytes regindex ok =
    (case xmalloc_buffer b h bytes of
       None \<Rightarrow> (1, 0, h)
     | Some p \<Rightarrow>
         if ok p then (0, p, h(p \<mapsto> \<lparr>buffer_bytes = bytes, registered_index = regindex\<rparr>)) else (1, 0, h))"

definition libxsmm_build ::
  "code_gen \<Rightarrow> u8 list \<Rightarrow> nat \<Rightarrow> nat \<Rightarrow> (u64 \<Rightarrow> buffer_info option) \<Rightarrow> int \<times> u64 \<times> (u64 \<Rightarrow> buffer_info option)" where
  "libxsmm_build b desc user_size regindex h =
    (let kind = LIBXSMM_DESCRIPTOR_KIND (desc ! 0);
         (last_error, code_size, data_size) =
           (if kind = LIBXSMM_KERNEL_KIND_USER then (0, 0, 0) else gen_code b desc)
     in if 0 = last_error \<and> 0 \<noteq> code_size then
          alloc_buffer b h (code_size + data_size) regindex (malloc_attrib_ok b)
        else if kind = LIBXSMM_KERNEL_KIND_USER then
          (if 0 \<noteq> user_size then alloc_buffer b h user_size regindex (\<lambda>_. True) else (0, 0, h))
        else (if 0 \<noteq> last_error then uint last_error else 1, 0, h))"

section \<open>Finding code\<close>

definition internal_pad_descriptor :: "u8 list \<Rightarrow> nat \<Rightarrow> u8 list" where
  "internal_pad_descriptor desc sz =
    (if sz < LIBXSMM_DIFF_SIZE then take sz desc @ replicate (LIBXSMM_DIFF_SIZE - sz) 0 @ drop LIBXSMM_DIFF_SIZE desc
     else desc)"

definition desc_is_big :: "u8 list \<Rightarrow> bool" where
  "desc_is_big desc \<longleftrightarrow> LIBXSMM_DESCRIPTOR_ISBIG (desc ! 0) \<noteq> 0"

text \<open>
  The search in the cache of a thread. Its result is an \<open>unsigned char\<close>, which holds the index of any of the 16
  entries.
\<close>

definition cache_search :: "kernel_env \<Rightarrow> internal_cache_entry \<Rightarrow> u8 list \<Rightarrow> nat \<Rightarrow> u8" where
  "cache_search e c desc sz =
    ucast (if \<not> desc_is_big desc then
             LIBXSMM_DIFF_N (LIBXSMM_DIFF_32 (env_mem e) (env_simd e) desc) (concat (cache_keys c)) 96
               (ucast (cache_hit c)) (ucast (cache_size c))
           else
             libxsmm_diff_n (env_mem e) (env_simd e) (env_diff e) desc (concat (cache_keys c)) (of_nat sz) 96
               (ucast (cache_hit c)) (ucast (cache_size c)))"

text \<open>The comparison with a registered key.\<close>

definition confirm_entry :: "kernel_env \<Rightarrow> u8 list \<Rightarrow> nat \<Rightarrow> u8 list \<Rightarrow> u8" where
  "confirm_entry e desc sz key =
    (if \<not> desc_is_big desc then LIBXSMM_DIFF_32 (env_mem e) (env_simd e) desc key
     else libxsmm_diff (env_mem e) (env_simd e) (env_diff e) desc key (of_nat sz))"

definition home_index :: "kernel_env \<Rightarrow> u8 list \<Rightarrow> nat" where
  "home_index e desc =
    unat (libxsmm_crc32_u256 (env_crc e) (env_crc_intrinsics e) (env_hash e) LIBXSMM_HASH_SEED desc)
      mod LIBXSMM_CAPACITY_REGISTRY"

text \<open>The loop \<open>do ... while (i != i0)\<close> to the next slot that is free.\<close>

partial_function (option) next_slot :: "(nat \<Rightarrow> u64) \<Rightarrow> nat \<Rightarrow> nat \<Rightarrow> nat option" where
  "next_slot r i0 i =
    (let i = (i + 1) mod LIBXSMM_CAPACITY_REGISTRY
     in if r i = 0 \<or> i = i0 then Some i else next_slot r i0 i)"

text \<open>
  Building the code for slot \<open>i\<close>, and the flag at the slot that the search started from if the search has
  entered mode 3.
\<close>

definition build_slot ::
  "code_gen \<Rightarrow> u8 list \<Rightarrow> nat \<Rightarrow> registry_state \<Rightarrow> nat \<Rightarrow> nat \<Rightarrow> nat \<Rightarrow> u64 \<times> registry_state" where
  "build_slot b desc user_size g i i0 mode =
    (let (build, flux, h) = libxsmm_build b desc user_size i (malloc_info g);
         g = g\<lparr>malloc_info := h\<rparr>
     in if build = 0 \<and> flux \<noteq> 0 then
          (let g = g\<lparr>internal_registry_keys := (internal_registry_keys g)(i := desc),
                     internal_registry := (internal_registry g)(i := flux)\<rparr>;
               fix_entry = internal_registry g i0
           in (flux,
               if 2 < mode \<and> LIBXSMM_HASH_COLLISION AND fix_entry = 0 then
                 g\<lparr>internal_registry := (internal_registry g)(i0 := fix_entry OR LIBXSMM_HASH_COLLISION)\<rparr>
               else g))
        else (flux, g))"

text \<open>
  The dispatch loop. Mode 0 looks at the first slot, mode 1 at all the others because the first one is flagged,
  mode 3 looks for a free slot.
\<close>

partial_function (option) find_loop ::
  "kernel_env \<Rightarrow> code_gen \<Rightarrow> u8 list \<Rightarrow> nat \<Rightarrow> nat \<Rightarrow> registry_state \<Rightarrow> nat \<Rightarrow> nat \<Rightarrow> nat \<Rightarrow> u8 \<Rightarrow>
    (u64 \<times> registry_state) option" where
  "find_loop e b desc sz user_size g i i0 mode diff =
    (let flux = internal_registry g i
     in if (flux \<noteq> 0 \<or> mode = 1) \<and> mode < 2 then
          (let diff = (if flux \<noteq> 0 then confirm_entry e desc sz (internal_registry_keys g i) else diff)
           in if diff \<noteq> 0 then
                (let (i0, mode) =
                       (if mode = 0 then (i, if LIBXSMM_HASH_COLLISION AND flux = 0 then 3 else 1) else (i0, mode));
                     i = (i + 1) mod LIBXSMM_CAPACITY_REGISTRY;
                     mode = (if i = i0 then 3 else mode)
                 in find_loop e b desc sz user_size g i i0 mode diff)
              else Some (flux, g))
        else if LIBXSMM_X86_GENERIC \<le> env_archid e \<or> LIBXSMM_DESCRIPTOR_KIND (desc ! 0) = LIBXSMM_KERNEL_KIND_USER then
          (if internal_registry g i = 0 then Some (build_slot b desc user_size g i i0 mode)
           else
             (let (i0, mode) = (if mode = 0 then (i, 2) else (i0, mode))
              in case next_slot (internal_registry g) i0 i of
                   None \<Rightarrow> None
                 | Some i \<Rightarrow> if i = i0 then Some (0, g) else find_loop e b desc sz user_size g i i0 mode diff))
        else Some (0, g))"

text \<open>Keeping the code in the cache of the thread: \<open>INTERNAL_FIND_CODE_CACHE_GROW\<close>, \<open>_EVICT\<close>, and the reset.\<close>

definition cache_slot :: "internal_cache_entry \<Rightarrow> nat \<Rightarrow> u32 \<Rightarrow> u8 \<Rightarrow> u8 \<times> internal_cache_entry" where
  "cache_slot c max_size ninit cache_index =
    (if ninit = cache_id c then
       (if unat (cache_size c) < max_size then
          (cache_size c, c\<lparr>cache_size := (if 0 \<noteq> cache_size c then push_bit 1 (cache_size c) else 1)\<rparr>)
        else
          (of_nat (unat (cache_hit c + (cache_size c - 1)) mod unat (cache_size c)), c))
     else if 0 \<noteq> max_size then
       (0, c\<lparr>cache_keys := replicate LIBXSMM_CACHE_MAXSIZE (replicate LIBXSMM_DESCRIPTOR_MAXSIZE 0),
             cache_id := ninit, cache_size := 1\<rparr>)
     else (cache_index, c))"

definition cache_store :: "internal_cache_entry \<Rightarrow> nat \<Rightarrow> u32 \<Rightarrow> u8 \<Rightarrow> u8 list \<Rightarrow> nat \<Rightarrow> u64 \<Rightarrow> internal_cache_entry" where
  "cache_store c max_size ninit cache_index desc sz flux =
    (let (cache_index, c) = cache_slot c max_size ninit cache_index;
         i = unat cache_index;
         n = (if \<not> desc_is_big desc then LIBXSMM_DIFF_SIZE else sz)
     in c\<lparr>cache_keys := (cache_keys c)[i := take n desc @ drop n (cache_keys c ! i)],
          cache_code := (cache_code c)[i := flux], cache_hit := cache_index\<rparr>)"

definition internal_find_code ::
  "kernel_env \<Rightarrow> code_gen \<Rightarrow> nat \<Rightarrow> u8 list \<Rightarrow> nat \<Rightarrow> nat \<Rightarrow> registry_state \<Rightarrow> (u64 \<times> registry_state) option" where
  "internal_find_code e b tid desc desc_size user_size g =
    (let sz = 1 + desc_size;
         cache = internal_cache_buffer g tid;
         ninit = libxsmm_ninit g;
         desc = internal_pad_descriptor desc sz;
         cache_index = cache_search e cache desc sz
     in if ninit = cache_id cache \<and> cache_index < cache_size cache then
          Some (clear_flags (cache_code cache ! unat cache_index),
            g\<lparr>internal_cache_buffer := (internal_cache_buffer g)(tid := cache\<lparr>cache_hit := cache_index\<rparr>)\<rparr>)
        else
          (let i = home_index e desc
           in case find_loop e b desc sz user_size g i i 0 1 of
                None \<Rightarrow> None
              | Some (flux, g) \<Rightarrow>
                  Some (clear_flags flux,
                    if flux \<noteq> 0 then
                      g\<lparr>internal_cache_buffer := (internal_cache_buffer g)(tid :=
                          cache_store cache (internal_cache_size g) ninit cache_index desc sz flux)\<rparr>
                    else g)))"

section \<open>Requests\<close>

text \<open>
  The descriptor of a call is a local variable that is not initialised: \<open>stack\<close> is what it holds before. The last
  argument of \<open>libxsmm_xregister\<close> initialises the value; the content of buffers is not modelled.
\<close>

definition wrap_descriptor :: "u8 \<Rightarrow> u8 list \<Rightarrow> u8 list \<Rightarrow> u8 list" where
  "wrap_descriptor kind bytes stack = kind # bytes @ drop (1 + length bytes) stack"

definition libxsmm_xmmdispatch ::
  "kernel_env \<Rightarrow> code_gen \<Rightarrow> nat \<Rightarrow> u8 list \<Rightarrow> libxsmm_gemm_descriptor \<Rightarrow> registry_state \<Rightarrow> (u64 \<times> registry_state) option" where
  "libxsmm_xmmdispatch e b tid stack d g =
    (let kind = (if gemm_flags d < 65536 then LIBXSMM_KERNEL_KIND_MATMUL else LIBXSMM_DESCRIPTOR_BIG LIBXSMM_KERNEL_KIND_MATMUL);
         d = (if 0x80 AND gemm_prefetch d \<noteq> 0 then d\<lparr>gemm_prefetch := word_of_int (libxsmm_get_gemm_prefetch (- 1))\<rparr> else d)
     in internal_find_code e b tid (wrap_descriptor kind (gemm_bytes d) stack) 95 0 g)"

definition libxsmm_dispatch_meltw ::
  "kernel_env \<Rightarrow> code_gen \<Rightarrow> nat \<Rightarrow> u8 list \<Rightarrow> libxsmm_meltw_descriptor option \<Rightarrow> registry_state \<Rightarrow> (u64 \<times> registry_state) option" where
  "libxsmm_dispatch_meltw e b tid stack descriptor g =
    (case descriptor of
       None \<Rightarrow> Some (0, g)
     | Some d \<Rightarrow>
         internal_find_code e b tid
           (wrap_descriptor (LIBXSMM_DESCRIPTOR_BIG LIBXSMM_KERNEL_KIND_MELTW) (meltw_bytes d) stack) 32 0 g)"

text \<open>
  A key of user data. A key of 95 bytes passes the test of its size although it does not fit into the
  descriptor behind the kind and the size: the copy writes behind the variable, which is \<open>None\<close>.
\<close>

definition user_descriptor :: "u8 list \<Rightarrow> u8 list \<Rightarrow> u8 list option" where
  "user_descriptor key stack =
    (let key_size_reg = 1 + length key;
         kind = (if key_size_reg \<le> 32 then LIBXSMM_KERNEL_KIND_USER else LIBXSMM_DESCRIPTOR_BIG LIBXSMM_KERNEL_KIND_USER)
     in if 2 + length key \<le> LIBXSMM_DESCRIPTOR_MAXSIZE
        then Some (wrap_descriptor kind (of_nat (length key) # key) stack) else None)"

definition libxsmm_xregister ::
  "kernel_env \<Rightarrow> code_gen \<Rightarrow> nat \<Rightarrow> u8 list \<Rightarrow> u8 list option \<Rightarrow> nat \<Rightarrow> registry_state \<Rightarrow> (u64 \<times> registry_state) option" where
  "libxsmm_xregister e b tid stack key value_size g =
    (case key of
       None \<Rightarrow> Some (0, g)
     | Some key \<Rightarrow>
         if 0 < length key \<and> 1 + length key \<le> LIBXSMM_DESCRIPTOR_MAXSIZE then
           (case user_descriptor key stack of
              None \<Rightarrow> None
            | Some wrap \<Rightarrow>
                (case internal_find_code e b tid wrap (1 + length key) value_size g of
                   None \<Rightarrow> None
                 | Some (dst, g) \<Rightarrow>
                     if dst \<noteq> 0 then
                       (case malloc_info g dst of
                          Some info \<Rightarrow> Some (if value_size \<le> buffer_bytes info then dst else 0, g)
                        | None \<Rightarrow> Some (0, g))
                     else Some (0, g)))
         else Some (0, g))"

definition libxsmm_xdispatch ::
  "kernel_env \<Rightarrow> code_gen \<Rightarrow> nat \<Rightarrow> u8 list \<Rightarrow> u8 list \<Rightarrow> registry_state \<Rightarrow> (u64 \<times> registry_state) option" where
  "libxsmm_xdispatch e b tid stack key g =
    (case user_descriptor key stack of
       None \<Rightarrow> None
     | Some wrap \<Rightarrow> internal_find_code e b tid wrap (1 + length key) 0 g)"

section \<open>Releasing\<close>

text \<open>The kind of a kernel (\<open>libxsmm_get_kernel_xinfo\<close>, \<open>libxsmm_get_kernel_info\<close>).\<close>

definition kernel_kind :: "registry_state \<Rightarrow> u64 \<Rightarrow> buffer_info \<Rightarrow> u8" where
  "kernel_kind g code info =
    (let i = registered_index info
     in if i < LIBXSMM_CAPACITY_REGISTRY \<and> code = (NOT LIBXSMM_HASH_COLLISION AND internal_registry g i) \<and>
           LIBXSMM_DESCRIPTOR_KIND (internal_registry_keys g i ! 0) < LIBXSMM_KERNEL_UNREGISTERED
        then LIBXSMM_DESCRIPTOR_KIND (internal_registry_keys g i ! 0)
        else LIBXSMM_KERNEL_UNREGISTERED)"

definition libxsmm_release_kernel :: "u64 \<Rightarrow> registry_state \<Rightarrow> registry_state" where
  "libxsmm_release_kernel code g =
    (if code \<noteq> 0 then
       (case malloc_info g code of
          None \<Rightarrow> g
        | Some info \<Rightarrow>
            let regindex = registered_index info
            in if LIBXSMM_CAPACITY_REGISTRY \<le> regindex then g\<lparr>malloc_info := (malloc_info g)(code := None)\<rparr>
               else if kernel_kind g code info = LIBXSMM_KERNEL_KIND_USER then
                 g\<lparr>libxsmm_ninit := libxsmm_ninit g + 1, internal_registry := (internal_registry g)(regindex := 0),
                   malloc_info := (malloc_info g)(code := None)\<rparr>
               else g)
     else g)"

definition libxsmm_xrelease ::
  "kernel_env \<Rightarrow> code_gen \<Rightarrow> nat \<Rightarrow> u8 list \<Rightarrow> u8 list \<Rightarrow> registry_state \<Rightarrow> registry_state option" where
  "libxsmm_xrelease e b tid stack key g =
    map_option (\<lambda>(p, g). libxsmm_release_kernel p g) (libxsmm_xdispatch e b tid stack key g)"

section \<open>The initialised library\<close>

text \<open>
  \<open>internal_init\<close> sets the function pointers of the hash and of the comparison for the target, and starts with
  an empty registry; the caches are zero.
\<close>

definition library_env :: "crc_build \<Rightarrow> crc_intrinsics \<Rightarrow> mem_build \<Rightarrow> simd_intrinsics \<Rightarrow> int \<Rightarrow> kernel_env" where
  "library_env c h m v archid =
    \<lparr>env_crc = c, env_crc_intrinsics = h, env_hash = libxsmm_hash_init c h archid, env_mem = m, env_simd = v,
     env_diff = libxsmm_memory_init m v archid no_pointers, env_archid = archid\<rparr>"

definition empty_registry :: "nat \<Rightarrow> u32 \<Rightarrow> registry_state" where
  "empty_registry csize ninit =
    \<lparr>internal_registry = (\<lambda>_. 0), internal_registry_keys = (\<lambda>_. replicate 96 0),
     internal_cache_buffer = (\<lambda>_. \<lparr>cache_keys = replicate 16 (replicate 96 0), cache_code = replicate 16 0, cache_id = 0,
       cache_size = 0, cache_hit = 0\<rparr>),
     internal_cache_size = csize, libxsmm_ninit = ninit, malloc_info = (\<lambda>_. None)\<rparr>"

end
