(* ===== verification/Registry_Correct.thy ===== *)
theory Registry_Correct
  imports Registry
begin

text \<open>
  The code registry is correct: the key of a request, the abstraction of the table to a partial map (\<open>contents\<close>), the
  invariants of the table, of the buffers and of the caches, the search with its modes, and the refinement of the
  map by \<open>internal_find_code\<close>. The comparison and the hash enter as the locale \<open>dispatcher\<close>, which the initialised
  library satisfies (\<open>library_dispatcher\<close>).
\<close>

section \<open>Keys\<close>

text \<open>
  The bytes that identify a request: the first 32, or all bytes of a big descriptor. The kind, and for user data
  the byte with the size, determine how many.
\<close>

definition key_len :: "u8 list \<Rightarrow> nat" where
  "key_len d =
    (if \<not> desc_is_big d then 32
     else if LIBXSMM_DESCRIPTOR_KIND (d ! 0) = LIBXSMM_KERNEL_KIND_MATMUL then 96
     else if LIBXSMM_DESCRIPTOR_KIND (d ! 0) = LIBXSMM_KERNEL_KIND_MELTW then 33
     else if LIBXSMM_DESCRIPTOR_KIND (d ! 0) = LIBXSMM_KERNEL_KIND_MEQN then 18
     else unat (d ! 1) + 2)"

definition key_of :: "u8 list \<Rightarrow> u8 list" where
  "key_of d = take (key_len d) d"

text \<open>A descriptor in the registry, and a request for a descriptor with \<open>sz\<close> bytes.\<close>

definition wf_desc :: "u8 list \<Rightarrow> bool" where
  "wf_desc d \<longleftrightarrow> length d = 96 \<and> key_len d \<le> 96 \<and> (\<forall>i<32. key_len d \<le> i \<longrightarrow> d ! i = 0)"

definition request_ok :: "u8 list \<Rightarrow> nat \<Rightarrow> bool" where
  "request_ok d sz \<longleftrightarrow> length d = 96 \<and> 2 \<le> sz \<and> sz \<le> 96 \<and> (desc_is_big d \<longrightarrow> sz = key_len d)"

lemma key_len_ge2: "2 \<le> key_len d"
  by (simp add: key_len_def)

lemma key_len_cong: "d ! 0 = k ! 0 \<Longrightarrow> d ! 1 = k ! 1 \<Longrightarrow> key_len d = key_len k"
  by (simp add: key_len_def desc_is_big_def)

lemma take_nth_eq: "take n xs = take n ys \<Longrightarrow> i < n \<Longrightarrow> xs ! i = ys ! i"
  by (metis nth_take)

lemma key_eq_iff:
  assumes "wf_desc d" and "wf_desc k"
  shows "take (key_len d) d = take (key_len d) k \<longleftrightarrow> key_of d = key_of k"
proof
  assume eq: "take (key_len d) d = take (key_len d) k"
  have "key_len d = key_len k"
    using take_nth_eq [OF eq, of 0] take_nth_eq [OF eq, of 1] key_len_ge2 [of d] by (intro key_len_cong) simp_all
  then show "key_of d = key_of k"
    using eq by (simp add: key_of_def)
next
  assume eq: "key_of d = key_of k"
  have "length (key_of d) = key_len d" and "length (key_of k) = key_len k"
    using assms by (simp_all add: key_of_def wf_desc_def)
  then have "key_len d = key_len k"
    using eq by simp
  then show "take (key_len d) d = take (key_len d) k"
    using eq by (simp add: key_of_def)
qed

lemma key_prefix:
  assumes "wf_desc d" and "wf_desc k" and "key_of d = key_of k"
  shows "take 32 d = take 32 k"
proof (rule nth_equalityI)
  show "length (take 32 d) = length (take 32 k)"
    using assms by (simp add: wf_desc_def)
  fix i
  assume "i < length (take 32 d)"
  then have i: "i < 32"
    by simp
  have eq: "take (key_len d) d = take (key_len d) k"
    using assms key_eq_iff by blast
  have "key_len d = key_len k"
    using take_nth_eq [OF eq, of 0] take_nth_eq [OF eq, of 1] key_len_ge2 [of d] by (intro key_len_cong) simp_all
  then show "take 32 d ! i = take 32 k ! i"
    using i assms(1,2) take_nth_eq [OF eq, of i] by (cases "i < key_len d") (auto simp: wf_desc_def)
qed

subsection \<open>Padding\<close>

lemma length_pad: "length d = 96 \<Longrightarrow> length (internal_pad_descriptor d sz) = 96"
  by (auto simp: internal_pad_descriptor_def)

lemma nth_pad: "length d = 96 \<Longrightarrow> i < 96 \<Longrightarrow>
    internal_pad_descriptor d sz ! i = (if sz \<le> i \<and> i < 32 then 0 else d ! i)"
  by (auto simp: internal_pad_descriptor_def nth_append)

lemma pad_key_len: "length d = 96 \<Longrightarrow> 2 \<le> sz \<Longrightarrow> key_len (internal_pad_descriptor d sz) = key_len d"
  by (rule key_len_cong) (simp_all add: nth_pad)

lemma pad_is_big: "length d = 96 \<Longrightarrow> 2 \<le> sz \<Longrightarrow> desc_is_big (internal_pad_descriptor d sz) = desc_is_big d"
  by (simp add: desc_is_big_def nth_pad)

lemma pad_wf: "request_ok d sz \<Longrightarrow> wf_desc (internal_pad_descriptor d sz)"
  by (cases "desc_is_big d")
     (auto simp: request_ok_def wf_desc_def length_pad pad_key_len nth_pad key_len_def [of d])

section \<open>The environment\<close>

text \<open>What the dispatch relies on: the comparison functions compare, and the hash is a function of 32 bytes.\<close>

locale dispatcher =
  fixes e :: kernel_env
  assumes simd: "simd_documented (env_simd e)"
    and pointers: "pointers_valid (env_diff e)"
    and hash_take: "32 \<le> length p \<Longrightarrow> 32 \<le> length q \<Longrightarrow> take 32 p = take 32 q \<Longrightarrow>
      libxsmm_crc32_u256 (env_crc e) (env_crc_intrinsics e) (env_hash e) s p =
      libxsmm_crc32_u256 (env_crc e) (env_crc_intrinsics e) (env_hash e) s q"
begin

lemma diff32_zero:
  "32 \<le> length d \<Longrightarrow> 32 \<le> length k \<Longrightarrow> LIBXSMM_DIFF_32 c (env_simd e) d k = 0 \<longleftrightarrow> take 32 d = take 32 k"
  using block_compare.differs [OF diff32_compares [OF simd]] by simp

lemma confirm_zero:
  assumes "wf_desc d" and "wf_desc k" and "desc_is_big d \<Longrightarrow> sz = key_len d"
  shows "confirm_entry e d sz k = 0 \<longleftrightarrow> key_of d = key_of k"
proof (cases "desc_is_big d")
  case False
  then have "key_len d = 32"
    by (simp add: key_len_def)
  then show ?thesis
    using False diff32_zero [of d k "env_mem e"] assms key_eq_iff [OF assms(1,2)] by (simp add: confirm_entry_def wf_desc_def)
next
  case True
  have sz: "sz \<le> 96"
    using True assms by (simp add: wf_desc_def)
  then have "unat (of_nat sz :: u8) = sz"
    by (simp add: unat_of_nat take_bit_nat_eq_self)
  then show ?thesis
    using True diff_compares [OF simd pointers, of "env_mem e"] assms sz key_eq_iff [OF assms(1,2)]
    by (simp add: confirm_entry_def compares_bytes_def wf_desc_def)
qed

lemma home_key:
  assumes "wf_desc d" and "wf_desc k" and "key_of d = key_of k"
  shows "home_index e d = home_index e k"
  using hash_take [of d k] key_prefix [OF assms] assms(1,2) by (simp add: home_index_def wf_desc_def)

lemma home_less: "home_index e d < LIBXSMM_CAPACITY_REGISTRY"
  by (simp add: home_index_def)

end


section \<open>The registry as a partial map\<close>

abbreviation (input) holds :: "registry_state \<Rightarrow> u8 list \<Rightarrow> nat \<Rightarrow> bool" where
  "holds g key j \<equiv> internal_registry g j \<noteq> 0 \<and> key_of (internal_registry_keys g j) = key"

text \<open>The abstract registry: the pointer for a key.\<close>

definition contents :: "registry_state \<Rightarrow> u8 list \<Rightarrow> u64 option" where
  "contents g key =
    map_option (\<lambda>j. clear_flags (internal_registry g j)) (find (holds g key) [0..<LIBXSMM_CAPACITY_REGISTRY])"

definition reg_inv :: "kernel_env \<Rightarrow> registry_state \<Rightarrow> bool" where
  "reg_inv e g \<longleftrightarrow>
    (\<forall>j<LIBXSMM_CAPACITY_REGISTRY. internal_registry g j \<noteq> 0 \<longrightarrow>
       wf_desc (internal_registry_keys g j) \<and> clear_flags (internal_registry g j) \<noteq> 0 \<and>
       (j = home_index e (internal_registry_keys g j) \<or>
        LIBXSMM_HASH_COLLISION AND internal_registry g (home_index e (internal_registry_keys g j)) \<noteq> 0)) \<and>
    (\<forall>i<LIBXSMM_CAPACITY_REGISTRY. \<forall>j<LIBXSMM_CAPACITY_REGISTRY.
       internal_registry g i \<noteq> 0 \<longrightarrow> holds g (key_of (internal_registry_keys g i)) j \<longrightarrow> i = j)"

lemma contents_None: "contents g key = None \<longleftrightarrow> (\<forall>j<LIBXSMM_CAPACITY_REGISTRY. \<not> holds g key j)"
  by (auto simp: contents_def find_None_iff)

lemma contents_Some:
  assumes "reg_inv e g" and "j < LIBXSMM_CAPACITY_REGISTRY" and "holds g key j"
  shows "contents g key = Some (clear_flags (internal_registry g j))"
proof (cases "find (holds g key) [0..<LIBXSMM_CAPACITY_REGISTRY]")
  case None
  then show ?thesis
    using assms(2,3) by (auto simp: find_None_iff)
next
  case (Some i)
  then have i: "i < LIBXSMM_CAPACITY_REGISTRY" "holds g key i"
    unfolding find_Some_iff by auto
  then have "i = j"
    using assms unfolding reg_inv_def by blast
  then show ?thesis
    using Some by (simp add: contents_def)
qed

lemma contents_cases:
  obtains (Some) j where "j < LIBXSMM_CAPACITY_REGISTRY" "holds g key j" | (None) "contents g key = None"
  using contents_None by metis

text \<open>Walking around the table.\<close>

lemma ring_step: "((i0 + n) mod LIBXSMM_CAPACITY_REGISTRY + 1) mod LIBXSMM_CAPACITY_REGISTRY
    = (i0 + Suc n) mod LIBXSMM_CAPACITY_REGISTRY"
  by (simp add: mod_Suc_eq)

lemma ring_eq_start:
  "i0 < LIBXSMM_CAPACITY_REGISTRY \<Longrightarrow> 0 < n \<Longrightarrow> n \<le> LIBXSMM_CAPACITY_REGISTRY \<Longrightarrow>
   (i0 + n) mod LIBXSMM_CAPACITY_REGISTRY = i0 \<longleftrightarrow> n = LIBXSMM_CAPACITY_REGISTRY"
  by (cases "i0 + n < LIBXSMM_CAPACITY_REGISTRY") (auto simp: mod_if [of "i0 + n"])

lemma ring_onto:
  assumes "i0 < LIBXSMM_CAPACITY_REGISTRY" and "j < LIBXSMM_CAPACITY_REGISTRY"
  obtains n where "n < LIBXSMM_CAPACITY_REGISTRY" and "j = (i0 + n) mod LIBXSMM_CAPACITY_REGISTRY"
proof (cases "i0 \<le> j")
  case True
  show thesis
    by (rule that [of "j - i0"]) (use True assms in auto)
next
  case False
  show thesis
    by (rule that [of "LIBXSMM_CAPACITY_REGISTRY + j - i0"]) (use False assms in auto)
qed

lemma next_slot_ends:
  assumes "i0 < LIBXSMM_CAPACITY_REGISTRY" and "n < LIBXSMM_CAPACITY_REGISTRY"
  shows "\<exists>m. n < m \<and> m \<le> LIBXSMM_CAPACITY_REGISTRY \<and>
    next_slot r i0 ((i0 + n) mod LIBXSMM_CAPACITY_REGISTRY) = Some ((i0 + m) mod LIBXSMM_CAPACITY_REGISTRY) \<and>
    (\<forall>k. n < k \<and> k < m \<longrightarrow> r ((i0 + k) mod LIBXSMM_CAPACITY_REGISTRY) \<noteq> 0) \<and>
    (m < LIBXSMM_CAPACITY_REGISTRY \<longrightarrow> r ((i0 + m) mod LIBXSMM_CAPACITY_REGISTRY) = 0)"
  using assms(2)
proof (induction "LIBXSMM_CAPACITY_REGISTRY - n" arbitrary: n rule: less_induct)
  case less
  let ?i = "(i0 + Suc n) mod LIBXSMM_CAPACITY_REGISTRY"
  show ?case
  proof (cases "r ?i = 0 \<or> ?i = i0")
    case True
    then have "next_slot r i0 ((i0 + n) mod LIBXSMM_CAPACITY_REGISTRY) = Some ?i"
      by (subst next_slot.simps) (simp only: ring_step Let_def if_True)
    moreover have "r ?i = 0" if "Suc n < LIBXSMM_CAPACITY_REGISTRY"
      using True that ring_eq_start [OF assms(1), of "Suc n"] less.prems by simp
    ultimately show ?thesis
      using less.prems by (intro exI [of _ "Suc n"]) (auto simp del: add_Suc_right)
  next
    case False
    then have n: "Suc n < LIBXSMM_CAPACITY_REGISTRY"
      using ring_eq_start [OF assms(1), of "Suc n"] less.prems by linarith
    have "next_slot r i0 ((i0 + n) mod LIBXSMM_CAPACITY_REGISTRY) = next_slot r i0 ?i"
      by (subst next_slot.simps) (use False in \<open>simp only: ring_step Let_def if_False\<close>)
    moreover have "\<exists>m. Suc n < m \<and> m \<le> LIBXSMM_CAPACITY_REGISTRY \<and>
        next_slot r i0 ?i = Some ((i0 + m) mod LIBXSMM_CAPACITY_REGISTRY) \<and>
        (\<forall>k. Suc n < k \<and> k < m \<longrightarrow> r ((i0 + k) mod LIBXSMM_CAPACITY_REGISTRY) \<noteq> 0) \<and>
        (m < LIBXSMM_CAPACITY_REGISTRY \<longrightarrow> r ((i0 + m) mod LIBXSMM_CAPACITY_REGISTRY) = 0)"
      by (rule less.hyps) (use n in linarith)+
    then obtain m where "Suc n < m" "m \<le> LIBXSMM_CAPACITY_REGISTRY"
      "next_slot r i0 ?i = Some ((i0 + m) mod LIBXSMM_CAPACITY_REGISTRY)"
      "\<forall>k. Suc n < k \<and> k < m \<longrightarrow> r ((i0 + k) mod LIBXSMM_CAPACITY_REGISTRY) \<noteq> 0"
      "m < LIBXSMM_CAPACITY_REGISTRY \<longrightarrow> r ((i0 + m) mod LIBXSMM_CAPACITY_REGISTRY) = 0"
      by blast
    moreover have "r ((i0 + k) mod LIBXSMM_CAPACITY_REGISTRY) \<noteq> 0" if "n < k" "k < m" for k
      using that False calculation(5) by (cases "k = Suc n") auto
    ultimately show ?thesis
      by (intro exI [of _ m]) auto
  qed
qed

section \<open>The dispatch loop\<close>

definition jit_available :: "kernel_env \<Rightarrow> u8 list \<Rightarrow> bool" where
  "jit_available e d \<longleftrightarrow>
    LIBXSMM_X86_GENERIC \<le> env_archid e \<or> LIBXSMM_DESCRIPTOR_KIND (d ! 0) = LIBXSMM_KERNEL_KIND_USER"

text \<open>Looking for a free slot from \<open>n\<close> slots behind \<open>i0\<close> on (mode 2 and 3).\<close>

lemma place_free:
  assumes "1 < mode" and "internal_registry g i = 0"
  shows "find_loop e b d sz us g i i0 mode diff =
    (if jit_available e d then Some (build_slot b d us g i i0 mode) else Some (0, g))"
  using assms by (subst find_loop.simps) (simp add: jit_available_def)

lemma place_occupied:
  assumes "1 < mode" and "internal_registry g i \<noteq> 0" and "jit_available e d"
    and "next_slot (internal_registry g) i0 i = Some i'"
  shows "find_loop e b d sz us g i i0 mode diff =
    (if i' = i0 then Some (0, g) else find_loop e b d sz us g i' i0 mode diff)"
  using assms by (subst find_loop.simps) (simp add: jit_available_def)

lemma place_without_jit:
  assumes "1 < mode" and "\<not> jit_available e d"
  shows "find_loop e b d sz us g i i0 mode diff = Some (0, g)"
  using assms by (subst find_loop.simps) (simp add: jit_available_def)

lemma place_loop:
  fixes r
  defines "r \<equiv> internal_registry"
  assumes i0: "i0 < LIBXSMM_CAPACITY_REGISTRY" and n: "n < LIBXSMM_CAPACITY_REGISTRY" and mode: "1 < mode"
    and jit: "jit_available e d"
  obtains (full) "\<forall>k. n \<le> k \<and> k < LIBXSMM_CAPACITY_REGISTRY \<longrightarrow> r g ((i0 + k) mod LIBXSMM_CAPACITY_REGISTRY) \<noteq> 0"
      "find_loop e b d sz us g ((i0 + n) mod LIBXSMM_CAPACITY_REGISTRY) i0 mode diff = Some (0, g)"
  | (free) i where "i < LIBXSMM_CAPACITY_REGISTRY" "r g i = 0"
      "find_loop e b d sz us g ((i0 + n) mod LIBXSMM_CAPACITY_REGISTRY) i0 mode diff = Some (build_slot b d us g i i0 mode)"
proof (cases "r g ((i0 + n) mod LIBXSMM_CAPACITY_REGISTRY) = 0")
  case True
  then show thesis
    using jit by (intro free) (simp_all add: r_def place_free [OF mode])
next
  case False
  obtain m where m: "n < m" "m \<le> LIBXSMM_CAPACITY_REGISTRY"
    "next_slot (r g) i0 ((i0 + n) mod LIBXSMM_CAPACITY_REGISTRY) = Some ((i0 + m) mod LIBXSMM_CAPACITY_REGISTRY)"
    "\<forall>k. n < k \<and> k < m \<longrightarrow> r g ((i0 + k) mod LIBXSMM_CAPACITY_REGISTRY) \<noteq> 0"
    "m < LIBXSMM_CAPACITY_REGISTRY \<longrightarrow> r g ((i0 + m) mod LIBXSMM_CAPACITY_REGISTRY) = 0"
    using next_slot_ends [OF i0 n, of "r g"] by blast
  have step: "find_loop e b d sz us g ((i0 + n) mod LIBXSMM_CAPACITY_REGISTRY) i0 mode diff =
    (if (i0 + m) mod LIBXSMM_CAPACITY_REGISTRY = i0 then Some (0, g)
     else find_loop e b d sz us g ((i0 + m) mod LIBXSMM_CAPACITY_REGISTRY) i0 mode diff)"
    by (rule place_occupied [OF mode False [unfolded r_def] jit m(3) [unfolded r_def]])
  show thesis
  proof (cases "m = LIBXSMM_CAPACITY_REGISTRY")
    case True
    show thesis
    proof (rule full)
      show "\<forall>k. n \<le> k \<and> k < LIBXSMM_CAPACITY_REGISTRY \<longrightarrow> r g ((i0 + k) mod LIBXSMM_CAPACITY_REGISTRY) \<noteq> 0"
        using m(4) False True by (metis le_neq_implies_less)
    qed (use step True i0 in simp)
  next
    case neq: False
    then have "r g ((i0 + m) mod LIBXSMM_CAPACITY_REGISTRY) = 0" "(i0 + m) mod LIBXSMM_CAPACITY_REGISTRY \<noteq> i0"
      using m ring_eq_start [OF i0, of m] by simp_all
    then show thesis
      using step jit by (intro free [of "(i0 + m) mod LIBXSMM_CAPACITY_REGISTRY"]) (simp_all add: r_def place_free [OF mode])
  qed
qed

text \<open>Looking for the key from \<open>n\<close> slots behind \<open>i0\<close> on (mode 1).\<close>

lemma search_loop:
  assumes matches: "\<forall>i<LIBXSMM_CAPACITY_REGISTRY.
      (internal_registry g i \<noteq> 0 \<and> confirm_entry e d sz (internal_registry_keys g i) = 0) = match i"
    and i0: "i0 < LIBXSMM_CAPACITY_REGISTRY" and n: "0 < n" "n \<le> LIBXSMM_CAPACITY_REGISTRY" and diff: "diff \<noteq> 0"
  shows "(\<exists>i<LIBXSMM_CAPACITY_REGISTRY. match i \<and>
      find_loop e b d sz us g ((i0 + n) mod LIBXSMM_CAPACITY_REGISTRY) i0
        (if n = LIBXSMM_CAPACITY_REGISTRY then 3 else 1) diff = Some (internal_registry g i, g)) \<or>
    ((\<forall>k. n \<le> k \<and> k < LIBXSMM_CAPACITY_REGISTRY \<longrightarrow> \<not> match ((i0 + k) mod LIBXSMM_CAPACITY_REGISTRY)) \<and>
     (\<exists>diff'. diff' \<noteq> 0 \<and> find_loop e b d sz us g ((i0 + n) mod LIBXSMM_CAPACITY_REGISTRY) i0
        (if n = LIBXSMM_CAPACITY_REGISTRY then 3 else 1) diff = find_loop e b d sz us g i0 i0 3 diff'))"
  using n diff
proof (induction "LIBXSMM_CAPACITY_REGISTRY - n" arbitrary: n diff rule: less_induct)
  case less
  let ?i = "(i0 + n) mod LIBXSMM_CAPACITY_REGISTRY"
  show ?case
  proof (cases "n = LIBXSMM_CAPACITY_REGISTRY")
    case True
    then show ?thesis
      using i0 less.prems by auto
  next
    case n: False
    define diff' where "diff' = (if internal_registry g ?i \<noteq> 0 then confirm_entry e d sz (internal_registry_keys g ?i) else diff)"
    have match: "match ?i \<longleftrightarrow> diff' = 0"
      using less.prems(3) matches [rule_format, of ?i] by (auto simp: diff'_def)
    have step: "find_loop e b d sz us g ?i i0 1 diff =
      (if diff' \<noteq> 0 then find_loop e b d sz us g ((i0 + Suc n) mod LIBXSMM_CAPACITY_REGISTRY) i0
         (if Suc n = LIBXSMM_CAPACITY_REGISTRY then 3 else 1) diff'
       else Some (internal_registry g ?i, g))"
    proof -
      have "(i0 + Suc n) mod LIBXSMM_CAPACITY_REGISTRY = i0 \<longleftrightarrow> Suc n = LIBXSMM_CAPACITY_REGISTRY"
        using n less.prems ring_eq_start [OF i0, of "Suc n"] by simp
      then show ?thesis
        by (subst find_loop.simps) (simp add: diff'_def Let_def mod_Suc_eq)
    qed
    show ?thesis
    proof (cases "diff' = 0")
      case True
      then show ?thesis
        using step match n by (intro disjI1 exI [of _ ?i]) simp
    next
      case False
      let ?r = "find_loop e b d sz us g ((i0 + Suc n) mod LIBXSMM_CAPACITY_REGISTRY) i0
         (if Suc n = LIBXSMM_CAPACITY_REGISTRY then 3 else 1) diff'"
      have eq: "find_loop e b d sz us g ?i i0 (if n = LIBXSMM_CAPACITY_REGISTRY then 3 else 1) diff = ?r"
        using step False n by simp
      have "(\<exists>i<LIBXSMM_CAPACITY_REGISTRY. match i \<and> ?r = Some (internal_registry g i, g)) \<or>
        ((\<forall>k. Suc n \<le> k \<and> k < LIBXSMM_CAPACITY_REGISTRY \<longrightarrow> \<not> match ((i0 + k) mod LIBXSMM_CAPACITY_REGISTRY)) \<and>
         (\<exists>diff''. diff'' \<noteq> 0 \<and> ?r = find_loop e b d sz us g i0 i0 3 diff''))"
        by (rule less.hyps) (use n less.prems False in linarith)+
      moreover have "\<not> match ((i0 + k) mod LIBXSMM_CAPACITY_REGISTRY)"
        if "\<forall>k. Suc n \<le> k \<and> k < LIBXSMM_CAPACITY_REGISTRY \<longrightarrow> \<not> match ((i0 + k) mod LIBXSMM_CAPACITY_REGISTRY)"
          "n \<le> k" "k < LIBXSMM_CAPACITY_REGISTRY" for k
        using that False match by (cases "k = n") auto
      ultimately show ?thesis
        unfolding eq by blast
    qed
  qed
qed

lemma occupied_around:
  assumes "i0 < LIBXSMM_CAPACITY_REGISTRY"
    and "\<forall>k. n \<le> k \<and> k < LIBXSMM_CAPACITY_REGISTRY \<longrightarrow> r ((i0 + k) mod LIBXSMM_CAPACITY_REGISTRY) \<noteq> 0"
    and "\<forall>k<n. r ((i0 + k) mod LIBXSMM_CAPACITY_REGISTRY) \<noteq> 0"
  shows "\<forall>j<LIBXSMM_CAPACITY_REGISTRY. r j \<noteq> (0 :: u64)"
proof (intro allI impI)
  fix j :: nat
  assume "j < LIBXSMM_CAPACITY_REGISTRY"
  then obtain k where "k < LIBXSMM_CAPACITY_REGISTRY" "j = (i0 + k) mod LIBXSMM_CAPACITY_REGISTRY"
    using ring_onto [OF assms(1)] by blast
  then show "r j \<noteq> 0"
    using assms(2,3) by (cases "k < n") auto
qed

text \<open>The first round of the loop (mode 0).\<close>

lemma find_loop_first:
  assumes "h < LIBXSMM_CAPACITY_REGISTRY"
  shows "find_loop e b d sz us g h h 0 1 =
    (let r = internal_registry g h in
     if r = 0 then (if jit_available e d then Some (build_slot b d us g h h 0) else Some (0, g))
     else if confirm_entry e d sz (internal_registry_keys g h) = 0 then Some (r, g)
     else find_loop e b d sz us g ((h + 1) mod LIBXSMM_CAPACITY_REGISTRY) h
            (if LIBXSMM_HASH_COLLISION AND r = 0 then 3 else 1) (confirm_entry e d sz (internal_registry_keys g h)))"
proof -
  have "(h + 1) mod LIBXSMM_CAPACITY_REGISTRY \<noteq> h"
    using ring_eq_start [OF assms, of 1] by simp
  then show ?thesis
    by (subst find_loop.simps) (simp add: jit_available_def Let_def)
qed

context dispatcher
begin

lemma find_loop_spec:
  assumes inv: "reg_inv e g" and wf: "wf_desc d" and big: "desc_is_big d \<longrightarrow> sz = key_len d"
  obtains
    (hit) j where "j < LIBXSMM_CAPACITY_REGISTRY" "holds g (key_of d) j"
      "find_loop e b d sz us g (home_index e d) (home_index e d) 0 1 = Some (internal_registry g j, g)"
  | (nojit) "contents g (key_of d) = None" "\<not> jit_available e d"
      "find_loop e b d sz us g (home_index e d) (home_index e d) 0 1 = Some (0, g)"
  | (full) "contents g (key_of d) = None" "jit_available e d" "\<forall>j<LIBXSMM_CAPACITY_REGISTRY. internal_registry g j \<noteq> 0"
      "find_loop e b d sz us g (home_index e d) (home_index e d) 0 1 = Some (0, g)"
  | (build) i mode where "contents g (key_of d) = None" "jit_available e d"
      "i < LIBXSMM_CAPACITY_REGISTRY" "internal_registry g i = 0"
      "i = home_index e d \<and> mode = 0 \<or> 2 < mode \<and> internal_registry g (home_index e d) \<noteq> 0"
      "find_loop e b d sz us g (home_index e d) (home_index e d) 0 1 = Some (build_slot b d us g i (home_index e d) mode)"
proof -
  define h where "h = home_index e d"
  define L where "L = find_loop e b d sz us g h h 0 1"
  have h: "h < LIBXSMM_CAPACITY_REGISTRY"
    by (simp add: h_def home_less)
  have match: "internal_registry g i \<noteq> 0 \<and> confirm_entry e d sz (internal_registry_keys g i) = 0 \<longleftrightarrow> holds g (key_of d) i"
    if "i < LIBXSMM_CAPACITY_REGISTRY" for i
    using that inv confirm_zero [OF wf _ big [rule_format]] unfolding reg_inv_def by (metis (lifting))
  have placed: "j = h \<or> LIBXSMM_HASH_COLLISION AND internal_registry g h \<noteq> 0"
    if "j < LIBXSMM_CAPACITY_REGISTRY" "holds g (key_of d) j" for j
    using that inv home_key [OF wf, of "internal_registry_keys g j"] unfolding reg_inv_def h_def by auto
  have unflagged: "contents g (key_of d) = None"
    if "\<not> holds g (key_of d) h" "LIBXSMM_HASH_COLLISION AND internal_registry g h = 0"
    using that placed unfolding contents_None by metis
  have L: "L = (let r = internal_registry g h in
     if r = 0 then (if jit_available e d then Some (build_slot b d us g h h 0) else Some (0, g))
     else if confirm_entry e d sz (internal_registry_keys g h) = 0 then Some (r, g)
     else find_loop e b d sz us g ((h + 1) mod LIBXSMM_CAPACITY_REGISTRY) h
            (if LIBXSMM_HASH_COLLISION AND r = 0 then 3 else 1) (confirm_entry e d sz (internal_registry_keys g h)))"
    unfolding L_def by (rule find_loop_first [OF h])
  consider (empty) "internal_registry g h = 0" | (home) "holds g (key_of d) h"
    | (other) "internal_registry g h \<noteq> 0" "\<not> holds g (key_of d) h"
    by blast
  then show thesis
  proof cases
    case empty
    then have none: "contents g (key_of d) = None"
      by (intro unflagged) simp_all
    show thesis
    proof (cases "jit_available e d")
      case True
      then show thesis
        using build [of h 0] none empty h L by (simp add: h_def [symmetric] L_def [symmetric])
    next
      case False
      then show thesis
        using nojit none empty L by (simp add: h_def [symmetric] L_def [symmetric])
    qed
  next
    case home
    then show thesis
      using hit [of h] match [OF h] h L by (simp add: h_def [symmetric] L_def [symmetric] Let_def)
  next
    case other
    then have c: "confirm_entry e d sz (internal_registry_keys g h) \<noteq> 0"
      using match [OF h] by blast
    have continue: "find_loop e b d sz us g ((h + n) mod LIBXSMM_CAPACITY_REGISTRY) h 3 diff = L \<Longrightarrow>
        n \<le> 1 \<Longrightarrow> contents g (key_of d) = None \<Longrightarrow> thesis" for n diff
    proof (cases "jit_available e d")
      case False
      assume "find_loop e b d sz us g ((h + n) mod LIBXSMM_CAPACITY_REGISTRY) h 3 diff = L" "contents g (key_of d) = None"
      then show thesis
        using nojit False place_without_jit [of 3 e d b sz us g "(h + n) mod LIBXSMM_CAPACITY_REGISTRY" h diff]
        by (simp add: h_def [symmetric] L_def [symmetric])
    next
      case True
      assume eq: "find_loop e b d sz us g ((h + n) mod LIBXSMM_CAPACITY_REGISTRY) h 3 diff = L" "contents g (key_of d) = None"
        and n: "n \<le> 1"
      have n': "n < LIBXSMM_CAPACITY_REGISTRY" and three: "1 < (3 :: nat)"
        using n by simp_all
      from h n' three True show thesis
      proof (cases rule: place_loop [where g = g and b = b and sz = sz and us = us and diff = diff, case_names full free])
        case full
        have "internal_registry g ((h + k) mod LIBXSMM_CAPACITY_REGISTRY) \<noteq> 0" if "k < n" for k
          using that n other(1) h by (cases "k = 0") auto
        then have "\<forall>j<LIBXSMM_CAPACITY_REGISTRY. internal_registry g j \<noteq> 0"
          using occupied_around [OF h full(1)] by blast
        then show thesis
          using that(3) full(2) eq True by (simp add: h_def [symmetric] L_def [symmetric])
      next
        case (free i)
        then show thesis
          using build [of i 3] eq True other(1) by (simp add: h_def [symmetric] L_def [symmetric])
      qed
    qed
    show thesis
    proof (cases "LIBXSMM_HASH_COLLISION AND internal_registry g h = 0")
      case True
      show thesis
        by (rule continue [of 1]) (use True other c L unflagged in \<open>simp_all add: Let_def\<close>)
    next
      case False
      then have L1: "L = find_loop e b d sz us g ((h + 1) mod LIBXSMM_CAPACITY_REGISTRY) h 1
          (confirm_entry e d sz (internal_registry_keys g h))"
        using other c L by (simp add: Let_def)
      have "(\<exists>i<LIBXSMM_CAPACITY_REGISTRY. holds g (key_of d) i \<and> L = Some (internal_registry g i, g)) \<or>
        ((\<forall>k. 1 \<le> k \<and> k < LIBXSMM_CAPACITY_REGISTRY \<longrightarrow> \<not> holds g (key_of d) ((h + k) mod LIBXSMM_CAPACITY_REGISTRY)) \<and>
         (\<exists>diff'. diff' \<noteq> 0 \<and> L = find_loop e b d sz us g h h 3 diff'))"
        using search_loop [of g e d sz "holds g (key_of d)" h 1 "confirm_entry e d sz (internal_registry_keys g h)" b us]
          c match h unfolding L1 by (simp del: One_nat_def)
      then show thesis
      proof (elim disjE exE conjE)
        fix i
        assume "i < LIBXSMM_CAPACITY_REGISTRY" "internal_registry g i \<noteq> 0"
          "key_of (internal_registry_keys g i) = key_of d" "L = Some (internal_registry g i, g)"
        then show thesis
          using hit [of i] by (simp add: h_def [symmetric] L_def [symmetric])
      next
        fix diff'
        assume none: "\<forall>k. 1 \<le> k \<and> k < LIBXSMM_CAPACITY_REGISTRY \<longrightarrow>
            \<not> holds g (key_of d) ((h + k) mod LIBXSMM_CAPACITY_REGISTRY)"
          and L3: "L = find_loop e b d sz us g h h 3 diff'"
        have "\<not> holds g (key_of d) j" if "j < LIBXSMM_CAPACITY_REGISTRY" for j
        proof -
          obtain k where "k < LIBXSMM_CAPACITY_REGISTRY" "j = (h + k) mod LIBXSMM_CAPACITY_REGISTRY"
            using ring_onto [OF h \<open>j < LIBXSMM_CAPACITY_REGISTRY\<close>] by blast
          then show ?thesis
            using none other(2) h by (cases "k = 0") auto
        qed
        then have "contents g (key_of d) = None"
          unfolding contents_None by blast
        then show thesis
          using continue [of 0 diff'] L3 h by simp
      qed
    qed
  qed
qed

end

section \<open>Building into a slot\<close>

text \<open>
  The allocator returns a buffer that is not in use; user-space addresses do not reach the two flags.
\<close>

definition allocator_ok :: "code_gen \<Rightarrow> bool" where
  "allocator_ok b \<longleftrightarrow> (\<forall>h n p. xmalloc_buffer b h n = Some p \<longrightarrow> p \<noteq> 0 \<and> unat p < 2 ^ 62 \<and> h p = None)"

lemma bit_flags: "bit LIBXSMM_HASH_COLLISION k \<longleftrightarrow> k = 62" "bit LIBXSMM_CODE_STATIC k \<longleftrightarrow> k = 63"
  unfolding LIBXSMM_HASH_COLLISION_def LIBXSMM_CODE_STATIC_def bit_push_bit_iff bit_1_iff by auto

lemma small_flags:
  assumes "unat (p :: u64) < 2 ^ 62"
  shows "clear_flags p = p" "LIBXSMM_HASH_COLLISION AND p = 0" "LIBXSMM_CODE_STATIC AND p = 0"
proof -
  have high: "\<not> bit p 62" "\<not> bit p 63"
    using bit_smallD [OF assms] by fastforce+
  show "clear_flags p = p"
    unfolding clear_flags_def by (rule word_eq_bitI) (use high in \<open>auto simp: bit_and_iff bit_not_iff bit_or_iff bit_flags\<close>)
  show "LIBXSMM_HASH_COLLISION AND p = 0"
    by (rule word_eq_bitI) (use high in \<open>auto simp: bit_and_iff bit_flags\<close>)
  show "LIBXSMM_CODE_STATIC AND p = 0"
    by (rule word_eq_bitI) (use high in \<open>auto simp: bit_and_iff bit_flags\<close>)
qed

lemma clear_flags_or: "clear_flags (p OR LIBXSMM_HASH_COLLISION) = clear_flags p"
  unfolding clear_flags_def
  by (rule word_eq_bitI) (auto simp only: bit_and_iff bit_not_iff bit_or_iff bit_flags)

lemma or_flag: "p OR LIBXSMM_HASH_COLLISION \<noteq> 0" "LIBXSMM_HASH_COLLISION AND (p OR LIBXSMM_HASH_COLLISION) \<noteq> 0"
proof -
  have "bit (LIBXSMM_HASH_COLLISION AND (p OR LIBXSMM_HASH_COLLISION)) 62" "bit (p OR LIBXSMM_HASH_COLLISION) 62"
    by (simp_all only: bit_and_iff bit_or_iff bit_flags simp_thms)
  then show "p OR LIBXSMM_HASH_COLLISION \<noteq> 0" "LIBXSMM_HASH_COLLISION AND (p OR LIBXSMM_HASH_COLLISION) \<noteq> 0"
    by auto
qed

text \<open>The result of a build: no code and nothing allocated, or a new buffer.\<close>

lemma alloc_result:
  assumes "alloc_buffer b h n i ok = (err, p, h')"
  shows "p = 0 \<and> h' = h \<or> err = 0 \<and> xmalloc_buffer b h n = Some p \<and>
    h' = h(p \<mapsto> \<lparr>buffer_bytes = n, registered_index = i\<rparr>)"
  using assms by (cases "xmalloc_buffer b h n") (auto simp: alloc_buffer_def split: if_splits)

lemma build_result:
  assumes "libxsmm_build b d us i h = (err, p, h')"
  shows "p = 0 \<and> h' = h \<or> err = 0 \<and> (\<exists>n. xmalloc_buffer b h n = Some p \<and>
    h' = h(p \<mapsto> \<lparr>buffer_bytes = n, registered_index = i\<rparr>))"
proof -
  obtain err' cs ds where gen: "(if LIBXSMM_DESCRIPTOR_KIND (d ! 0) = LIBXSMM_KERNEL_KIND_USER then (0, 0, 0)
      else gen_code b d) = (err', cs, ds)"
    by (metis prod_cases3)
  show ?thesis
    using assms alloc_result unfolding libxsmm_build_def gen Let_def prod.case by (metis (no_types, lifting) Pair_inject)
qed

text \<open>Every registered pointer is a buffer whose bookkeeping refers to the slot.\<close>

definition buffers_ok :: "registry_state \<Rightarrow> bool" where
  "buffers_ok g \<longleftrightarrow> (\<forall>j<LIBXSMM_CAPACITY_REGISTRY. internal_registry g j \<noteq> 0 \<longrightarrow>
     map_option registered_index (malloc_info g (clear_flags (internal_registry g j))) = Some j)"

context dispatcher
begin

lemma build_slot_spec:
  assumes inv: "reg_inv e g" "buffers_ok g" and wf: "wf_desc d" and none: "contents g (key_of d) = None"
    and i: "i < LIBXSMM_CAPACITY_REGISTRY" "internal_registry g i = 0"
    and mode: "i = home_index e d \<and> mode = 0 \<or> 2 < mode \<and> internal_registry g (home_index e d) \<noteq> 0"
    and alloc: "allocator_ok b"
    and slot: "build_slot b d us g i (home_index e d) mode = (p, g')"
  obtains (failed) err where "p = 0" "g' = g" "libxsmm_build b d us i (malloc_info g) = (err, 0, malloc_info g)"
  | (stored) err n where "p \<noteq> 0" "clear_flags p = p" "reg_inv e g'" "contents g' = (contents g)(key_of d \<mapsto> p)"
      "xmalloc_buffer b (malloc_info g) n = Some p"
      "malloc_info g' = (malloc_info g)(p \<mapsto> \<lparr>buffer_bytes = n, registered_index = i\<rparr>)"
      "internal_cache_buffer g' = internal_cache_buffer g" "internal_cache_size g' = internal_cache_size g"
      "libxsmm_ninit g' = libxsmm_ninit g" "buffers_ok g'"
      "libxsmm_build b d us i (malloc_info g) = (err, p, malloc_info g')"
proof -
  obtain err q h where build: "libxsmm_build b d us i (malloc_info g) = (err, q, h)"
    by (metis prod_cases3)
  show thesis
  proof (cases "q = 0")
    case True
    then have "h = malloc_info g"
      using build_result [OF build] alloc unfolding allocator_ok_def by blast
    then have "(p, g') = (0, g)"
      using slot build True by (simp add: build_slot_def)
    then show thesis
      using failed build True \<open>h = malloc_info g\<close> by simp
  next
    case False
    then obtain n where built: "err = 0" "xmalloc_buffer b (malloc_info g) n = Some q"
        "h = (malloc_info g)(q \<mapsto> \<lparr>buffer_bytes = n, registered_index = i\<rparr>)"
      using build_result [OF build] by blast
    then have q: "q \<noteq> 0" "unat q < 2 ^ 62" and unused: "malloc_info g q = None"
      using alloc unfolding allocator_ok_def by blast+
    note flags = small_flags [OF q(2)]
    have p: "p = q"
      using slot build built q by (auto simp: build_slot_def Let_def)
    let ?h = "home_index e d"
    have keys: "internal_registry_keys g' = (internal_registry_keys g)(i := d)"
      using slot build built q by (auto simp: build_slot_def Let_def split: if_splits)
    have reg: "internal_registry g' = (if mode = 0 \<or> LIBXSMM_HASH_COLLISION AND internal_registry g ?h \<noteq> 0
        then (internal_registry g)(i := q)
        else (internal_registry g)(i := q, ?h := internal_registry g ?h OR LIBXSMM_HASH_COLLISION))"
      using slot build built q mode i by (auto simp: build_slot_def Let_def split: if_splits)
    have nz: "internal_registry g' j \<noteq> 0 \<longleftrightarrow> j = i \<or> internal_registry g j \<noteq> 0" for j
      unfolding reg using q i mode or_flag(1) by auto
    have clr: "clear_flags (internal_registry g' j) = (if j = i then q else clear_flags (internal_registry g j))" for j
      unfolding reg using flags i mode clear_flags_or by auto
    have flagged: "LIBXSMM_HASH_COLLISION AND internal_registry g' j \<noteq> 0"
      if "LIBXSMM_HASH_COLLISION AND internal_registry g j \<noteq> 0" for j
      unfolding reg using that i or_flag(2) by auto
    have home: "i = ?h \<or> LIBXSMM_HASH_COLLISION AND internal_registry g' ?h \<noteq> 0"
      unfolding reg using mode or_flag(2) i by auto
    have fresh: "\<not> holds g (key_of d) j" if "j < LIBXSMM_CAPACITY_REGISTRY" for j
      using none that unfolding contents_None by blast
    have inv': "reg_inv e g'"
      unfolding reg_inv_def
    proof (intro conjI allI impI)
      fix j assume "j < LIBXSMM_CAPACITY_REGISTRY" "internal_registry g' j \<noteq> 0"
      then have j: "j = i \<or> j \<noteq> i \<and> wf_desc (internal_registry_keys g j) \<and> clear_flags (internal_registry g j) \<noteq> 0 \<and>
         (j = home_index e (internal_registry_keys g j) \<or>
          LIBXSMM_HASH_COLLISION AND internal_registry g (home_index e (internal_registry_keys g j)) \<noteq> 0)"
        using inv(1) nz unfolding reg_inv_def by blast
      show "wf_desc (internal_registry_keys g' j)" "clear_flags (internal_registry g' j) \<noteq> 0"
        using j wf q unfolding keys clr by auto
      show "j = home_index e (internal_registry_keys g' j) \<or>
          LIBXSMM_HASH_COLLISION AND internal_registry g' (home_index e (internal_registry_keys g' j)) \<noteq> 0"
        using j home flagged unfolding keys by auto
    next
      fix j k assume "j < LIBXSMM_CAPACITY_REGISTRY" "k < LIBXSMM_CAPACITY_REGISTRY" "internal_registry g' j \<noteq> 0"
        "holds g' (key_of (internal_registry_keys g' j)) k"
      then show "j = k"
        using inv(1) fresh [of j] fresh [of k] nz unfolding keys reg_inv_def
        by (cases "j = i"; cases "k = i") auto
    qed
    have "contents g' key = ((contents g)(key_of d \<mapsto> p)) key" for key
    proof (cases "\<exists>j<LIBXSMM_CAPACITY_REGISTRY. holds g' key j")
      case True
      then obtain j where j: "j < LIBXSMM_CAPACITY_REGISTRY" "holds g' key j"
        by blast
      then have "contents g' key = Some (clear_flags (internal_registry g' j))"
        by (rule contents_Some [OF inv'])
      moreover have "key \<noteq> key_of d \<Longrightarrow> holds g key j" "key = key_of d \<Longrightarrow> j = i"
        using j(2) fresh [OF j(1)] nz unfolding keys by (auto split: if_splits)
      moreover have "j \<noteq> i" if "key \<noteq> key_of d"
        using that j(2) unfolding keys by auto
      ultimately show ?thesis
        using contents_Some [OF inv(1) j(1), of key] by (auto simp: clr p)
    next
      case False
      then have "contents g' key = None"
        unfolding contents_None by blast
      moreover have "key \<noteq> key_of d"
        using False i nz unfolding keys by auto
      moreover have "contents g key = None"
      proof -
        have "\<not> holds g key j" if "j < LIBXSMM_CAPACITY_REGISTRY" for j
          using that False nz i unfolding keys by (cases "j = i") auto
        then show ?thesis
          unfolding contents_None by blast
      qed
      ultimately show ?thesis
        by simp
    qed
    then have con: "contents g' = (contents g)(key_of d \<mapsto> p)"
      by blast
    have others: "malloc_info g' = h" "internal_cache_buffer g' = internal_cache_buffer g"
      "internal_cache_size g' = internal_cache_size g" "libxsmm_ninit g' = libxsmm_ninit g"
      using slot build built q by (auto simp: build_slot_def Let_def split: if_splits)
    have "buffers_ok g'"
      unfolding buffers_ok_def
    proof (intro allI impI)
      fix j assume j: "j < LIBXSMM_CAPACITY_REGISTRY" "internal_registry g' j \<noteq> 0"
      show "map_option registered_index (malloc_info g' (clear_flags (internal_registry g' j))) = Some j"
      proof (cases "j = i")
        case True
        then show ?thesis
          using others(1) built(3) by (simp add: clr)
      next
        case False
        then have "map_option registered_index (malloc_info g (clear_flags (internal_registry g j))) = Some j"
          using inv(2) j nz unfolding buffers_ok_def by blast
        then show ?thesis
          using False others(1) built(3) unused by (auto simp: clr)
      qed
    qed
    then show thesis
      using stored [of n err] q flags(1) inv' con others build built unfolding p by simp
  qed
qed

end

section \<open>The cache of a thread\<close>

text \<open>
  An entry is unused (zero), or it starts with the key of a request that the registry answers with the code of
  the entry; what follows the key is left from an earlier entry.
\<close>

definition slot_ok :: "registry_state \<Rightarrow> u8 list \<Rightarrow> u64 \<Rightarrow> bool" where
  "slot_ok g k code \<longleftrightarrow> k = replicate 96 0 \<or>
    (\<exists>s. wf_desc s \<and> take (key_len s) k = key_of s \<and> contents g (key_of s) = Some (clear_flags code))"

definition cache_shape :: "internal_cache_entry \<Rightarrow> bool" where
  "cache_shape c \<longleftrightarrow> length (cache_keys c) = 16 \<and> length (cache_code c) = 16 \<and> (\<forall>k \<in> set (cache_keys c). length k = 96)"

definition cache_valid :: "registry_state \<Rightarrow> internal_cache_entry \<Rightarrow> bool" where
  "cache_valid g c \<longleftrightarrow> cache_hit c < cache_size c \<and> cache_size c \<in> {1, 2, 4, 8, 16} \<and>
    (\<forall>i<16. slot_ok g (cache_keys c ! i) (cache_code c ! i))"

definition cache_inv :: "registry_state \<Rightarrow> bool" where
  "cache_inv g \<longleftrightarrow> 0 < internal_cache_size g \<and> internal_cache_size g \<le> 16 \<and>
    (\<forall>tid. cache_shape (internal_cache_buffer g tid) \<and> cache_id (internal_cache_buffer g tid) \<le> libxsmm_ninit g \<and>
       (cache_id (internal_cache_buffer g tid) = libxsmm_ninit g \<longrightarrow> cache_valid g (internal_cache_buffer g tid)))"

lemma slot_ok_mono:
  "slot_ok g k code \<Longrightarrow> (\<And>key p. contents g key = Some p \<Longrightarrow> contents g' key = Some p) \<Longrightarrow> slot_ok g' k code"
  unfolding slot_ok_def by blast

lemma drop_concat:
  "\<forall>k \<in> set ks. length k = n \<Longrightarrow> i < length ks \<Longrightarrow> drop (i * n) (concat ks) = ks ! i @ concat (drop (Suc i) ks)"
proof (induction i arbitrary: ks)
  case 0
  then show ?case
    by (cases ks) simp_all
next
  case (Suc i)
  then obtain k ks' where ks: "ks = k # ks'" and "length k = n"
    by (cases ks) auto
  then show ?case
    using Suc.IH [of ks'] Suc.prems by (simp flip: drop_drop)
qed

lemma unat_ucast_u8_u32: "unat (ucast (x :: u8) :: u32) = unat x"
  by transfer simp

lemma key_determined:
  assumes "take (key_len d) k = key_of d" and "take (key_len s) k = key_of s" and "wf_desc d" and "wf_desc s"
    and "length k = 96"
  shows "key_of d = key_of s"
proof -
  have "d ! i = k ! i" "s ! i = k ! i" if "i < 2" for i
    using take_nth_eq [OF assms(1) [unfolded key_of_def], of i] take_nth_eq [OF assms(2) [unfolded key_of_def], of i]
      that key_len_ge2 [of d] key_len_ge2 [of s] by simp_all
  then have "key_len d = key_len s"
    by (intro key_len_cong) simp_all
  then show ?thesis
    using assms by simp
qed

context dispatcher
begin

lemma cache_search_match:
  assumes shape: "cache_shape c" and size: "cache_hit c < cache_size c" "cache_size c \<le> 16" and wf: "wf_desc d"
    and big: "desc_is_big d \<Longrightarrow> sz = key_len d" and hit: "cache_search e c d sz < cache_size c"
  shows "take (key_len d) (cache_keys c ! unat (cache_search e c d sz)) = key_of d"
proof -
  let ?ks = "cache_keys c" and ?hint = "ucast (cache_hit c) :: u32" and ?n = "ucast (cache_size c) :: u32"
  have n16: "unat (cache_size c) \<le> 16"
    using size(2) by (simp add: word_le_nat_alt)
  have len: "key_len d \<le> 96" "length d = 96"
    using wf by (simp_all add: wf_desc_def)
  obtain D where D: "cache_search e c d sz = ucast (LIBXSMM_DIFF_N D (concat ?ks) 96 ?hint ?n)"
    and cmp: "\<And>b. 96 \<le> length b \<Longrightarrow> D b = 0 \<longleftrightarrow> take (key_len d) d = take (key_len d) b"
  proof (cases "desc_is_big d")
    case False
    then have "key_len d = 32"
      by (simp add: key_len_def)
    then show thesis
      using False that [of "LIBXSMM_DIFF_32 (env_mem e) (env_simd e) d"] diff32_zero [of d] len
      by (simp add: cache_search_def)
  next
    case True
    then have sz: "unat (of_nat sz :: u8) = key_len d"
      using big len by (simp add: unat_of_nat take_bit_nat_eq_self)
    obtain D where "libxsmm_diff_n (env_mem e) (env_simd e) (env_diff e) d (concat ?ks) (of_nat sz) 96 ?hint ?n =
        LIBXSMM_DIFF_N D (concat ?ks) 96 ?hint ?n"
      and "\<And>b. unat (of_nat sz :: u8) \<le> length d \<Longrightarrow> unat (of_nat sz :: u8) \<le> length b \<Longrightarrow>
           D b = 0 \<longleftrightarrow> take (unat (of_nat sz :: u8)) d = take (unat (of_nat sz :: u8)) b"
      using diff_n_selects [OF simd pointers] by metis
    then show thesis
      using True that [of D] len unfolding sz by (simp add: cache_search_def)
  qed
  define R where "R = LIBXSMM_DIFF_N D (concat ?ks) 96 ?hint ?n"
  have "?hint \<le> ?n"
    using size(1) by (simp add: word_le_nat_alt word_less_nat_alt unat_ucast_u8_u32)
  from DIFF_N_spec [OF this, of D "concat ?ks" 96] have R: "R \<le> ?n" "R < ?n \<Longrightarrow> D (drop (unat R * 96) (concat ?ks)) = 0"
    unfolding R_def Let_def by simp_all
  have un: "unat ?n = unat (cache_size c)"
    by (simp add: unat_ucast_u8_u32)
  have "unat R \<le> 16"
    using R(1) n16 un by (simp add: word_le_nat_alt)
  then have uR: "unat (cache_search e c d sz) = unat R"
    unfolding D R_def [symmetric] by (simp add: unsigned_ucast_eq take_bit_nat_eq_self)
  have lt: "unat R < unat (cache_size c)"
    using hit uR by (simp add: word_less_nat_alt)
  have split: "drop (unat R * 96) (concat ?ks) = ?ks ! unat R @ concat (drop (Suc (unat R)) ?ks)"
    using shape lt n16 by (intro drop_concat) (simp_all add: cache_shape_def)
  have k: "length (?ks ! unat R) = 96"
    using shape lt n16 by (simp add: cache_shape_def)
  have "take (key_len d) d = take (key_len d) (?ks ! unat R)"
    using R(2) cmp lt un k len unfolding split by (simp add: word_less_nat_alt)
  then show ?thesis
    unfolding uR by (simp add: key_of_def)
qed

lemma cache_hit_contents:
  assumes shape: "cache_shape c" and valid: "cache_valid g c" and wf: "wf_desc d"
    and big: "desc_is_big d \<Longrightarrow> sz = key_len d" and hit: "cache_search e c d sz < cache_size c"
    and nonzero: "take 32 d \<noteq> replicate 32 0"
  shows "contents g (key_of d) = Some (clear_flags (cache_code c ! unat (cache_search e c d sz)))"
proof -
  let ?r = "unat (cache_search e c d sz)"
  have size: "cache_hit c < cache_size c" "cache_size c \<le> 16"
    using valid by (auto simp: cache_valid_def)
  have match: "take (key_len d) (cache_keys c ! ?r) = key_of d"
    by (rule cache_search_match [OF shape size wf big hit])
  have r: "?r < 16"
    using hit size(2) by (simp add: word_le_nat_alt word_less_nat_alt)
  have k: "length (cache_keys c ! ?r) = 96"
    using shape r by (simp add: cache_shape_def)
  have "slot_ok g (cache_keys c ! ?r) (cache_code c ! ?r)"
    using valid r by (simp add: cache_valid_def)
  then show ?thesis
    unfolding slot_ok_def
  proof (elim disjE exE conjE)
    assume "cache_keys c ! ?r = replicate 96 0"
    then have zero: "key_of d = replicate (key_len d) 0"
      using match wf by (simp add: wf_desc_def)
    have "d ! i = 0" if "i < 32" for i
    proof (cases "i < key_len d")
      case True
      then have "key_of d ! i = 0"
        using zero by simp
      then show ?thesis
        using True by (simp add: key_of_def)
    next
      case False
      then show ?thesis
        using wf that by (simp add: wf_desc_def)
    qed
    then have "take 32 d = replicate 32 0"
      using wf by (intro nth_equalityI) (simp_all add: wf_desc_def)
    then show ?thesis
      using nonzero by simp
  next
    fix s
    assume "wf_desc s" "take (key_len s) (cache_keys c ! ?r) = key_of s"
      "contents g (key_of s) = Some (clear_flags (cache_code c ! ?r))"
    then show ?thesis
      using key_determined [OF match _ wf _ k, of s] by simp
  qed
qed

end

lemma evict_index:
  assumes "hit < n" and "n \<in> {1, 2, 4, 8, 16 :: u8}"
  shows "(of_nat (unat (hit + (n - 1)) mod unat n) :: u8) < n"
proof -
  have "unat n \<le> 16" "0 < unat n"
    using assms(2) by auto
  moreover have "unat (hit + (n - 1)) mod unat n < unat n"
    using \<open>0 < unat n\<close> by simp
  ultimately show ?thesis
    by (simp add: word_less_nat_alt unat_of_nat take_bit_nat_eq_self)
qed

lemma cache_slot_ok:
  assumes shape: "cache_shape c" and valid: "cache_id c = ninit \<longrightarrow> cache_valid g c" and mx: "0 < mx" "mx \<le> 16"
    and slot: "cache_slot c mx ninit ci = (i, c')"
  shows "cache_shape c' \<and> cache_id c' = ninit \<and> i < cache_size c' \<and> cache_size c' \<in> {1, 2, 4, 8, 16} \<and>
    (\<forall>j<16. slot_ok g (cache_keys c' ! j) (cache_code c' ! j))"
proof (cases "ninit = cache_id c")
  case True
  then have v: "cache_hit c < cache_size c" "cache_size c \<in> {1, 2, 4, 8, 16}"
    "\<forall>j<16. slot_ok g (cache_keys c ! j) (cache_code c ! j)"
    using valid by (simp_all add: cache_valid_def)
  show ?thesis
  proof (cases "unat (cache_size c) < mx")
    case grow: True
    then have "cache_size c \<in> {1, 2, 4, 8}"
      using v(2) mx by auto
    then have "i = cache_size c" "c' = c\<lparr>cache_size := push_bit 1 (cache_size c)\<rparr>"
      using slot True grow by (auto simp: cache_slot_def)
    then show ?thesis
      using \<open>cache_size c \<in> {1, 2, 4, 8}\<close> True shape v(3) by (auto simp: cache_shape_def)
  next
    case False
    then have "i = of_nat (unat (cache_hit c + (cache_size c - 1)) mod unat (cache_size c))" "c' = c"
      using slot True False by (auto simp: cache_slot_def)
    then show ?thesis
      using True shape v evict_index [OF v(1,2)] by simp
  qed
next
  case False
  then have c': "i = 0" "c' = c\<lparr>cache_keys := replicate LIBXSMM_CACHE_MAXSIZE (replicate LIBXSMM_DESCRIPTOR_MAXSIZE 0),
      cache_id := ninit, cache_size := 1\<rparr>"
    using slot mx by (simp_all add: cache_slot_def)
  moreover have "slot_ok g (replicate 96 0) code" for code
    by (simp add: slot_ok_def)
  ultimately show ?thesis
    using shape by (simp add: cache_shape_def)
qed

lemma cache_store_ok:
  assumes shape: "cache_shape c" and valid: "cache_id c = ninit \<longrightarrow> cache_valid g c" and mx: "0 < mx" "mx \<le> 16"
    and wf: "wf_desc d" and big: "desc_is_big d \<Longrightarrow> sz = key_len d"
    and code: "contents g (key_of d) = Some (clear_flags flux)"
    and ninit: "libxsmm_ninit g = ninit"
  shows "cache_shape (cache_store c mx ninit ci d sz flux) \<and> cache_valid g (cache_store c mx ninit ci d sz flux) \<and>
    cache_id (cache_store c mx ninit ci d sz flux) = ninit"
proof -
  obtain i c' where slot: "cache_slot c mx ninit ci = (i, c')"
    by (metis surj_pair)
  note S = cache_slot_ok [OF shape valid mx slot]
  define n where "n = (if \<not> desc_is_big d then LIBXSMM_DIFF_SIZE else sz)"
  have n: "n = key_len d"
    using big by (cases "desc_is_big d") (simp_all add: n_def key_len_def)
  then have len: "n \<le> 96" "length d = 96"
    using wf by (simp_all add: wf_desc_def)
  define k where "k = take n d @ drop n (cache_keys c' ! unat i)"
  have eq: "cache_store c mx ninit ci d sz flux =
      c'\<lparr>cache_keys := (cache_keys c')[unat i := k], cache_code := (cache_code c')[unat i := flux], cache_hit := i\<rparr>"
    by (simp add: cache_store_def slot Let_def n_def k_def)
  have i: "unat i < 16"
    using S by (auto simp: word_less_nat_alt)
  have "length k = 96"
    using len S i by (simp add: k_def cache_shape_def)
  moreover have "take (key_len d) k = key_of d"
    using n len by (simp add: k_def key_of_def)
  then have "slot_ok g k flux"
    using wf code unfolding slot_ok_def by blast
  moreover have "\<forall>x \<in> set ((cache_keys c')[unat i := k]). length x = 96"
    using calculation(1) S set_update_subset_insert [of "cache_keys c'" "unat i" k] by (auto simp: cache_shape_def)
  ultimately show ?thesis
    using S i unfolding eq by (simp add: cache_shape_def cache_valid_def nth_list_update)
qed

section \<open>Finding code refines looking up a map\<close>

definition request_key :: "u8 list \<Rightarrow> nat \<Rightarrow> u8 list" where
  "request_key d sz = key_of (internal_pad_descriptor d sz)"

definition request_valid :: "u8 list \<Rightarrow> nat \<Rightarrow> bool" where
  "request_valid d sz \<longleftrightarrow> request_ok d sz \<and> take 32 (internal_pad_descriptor d sz) \<noteq> replicate 32 0"

definition registry_ok :: "kernel_env \<Rightarrow> registry_state \<Rightarrow> bool" where
  "registry_ok e g \<longleftrightarrow> reg_inv e g \<and> buffers_ok g \<and> cache_inv g"

lemma cache_inv_mono:
  assumes "cache_inv g" and "\<And>key p. contents g key = Some p \<Longrightarrow> contents g' key = Some p"
    and "internal_cache_buffer g' = internal_cache_buffer g" and "internal_cache_size g' = internal_cache_size g"
    and "libxsmm_ninit g' = libxsmm_ninit g"
  shows "cache_inv g'"
  using assms(1) slot_ok_mono [OF _ assms(2)] unfolding cache_inv_def cache_valid_def assms(3-5) by blast

lemma contents_cache [simp]: "contents (g\<lparr>internal_cache_buffer := c\<rparr>) = contents g"
  by (rule ext) (simp add: contents_def)

lemma reg_inv_cache [simp]: "reg_inv e (g\<lparr>internal_cache_buffer := c\<rparr>) = reg_inv e g"
  by (simp add: reg_inv_def)

lemma buffers_ok_cache [simp]: "buffers_ok (g\<lparr>internal_cache_buffer := c\<rparr>) = buffers_ok g"
  by (simp add: buffers_ok_def)

lemma slot_ok_cache [simp]: "slot_ok (g\<lparr>internal_cache_buffer := c\<rparr>) = slot_ok g"
  by (simp add: slot_ok_def fun_eq_iff)

lemma cache_inv_update:
  assumes "cache_inv g" and "cache_shape c" and "cache_id c \<le> libxsmm_ninit g" and "cache_id c = libxsmm_ninit g \<Longrightarrow> cache_valid g c"
  shows "cache_inv (g\<lparr>internal_cache_buffer := (internal_cache_buffer g)(tid := c)\<rparr>)"
  using assms by (simp add: cache_inv_def cache_valid_def)

text \<open>The build of a request succeeds, whatever the slot.\<close>

definition builds :: "code_gen \<Rightarrow> u8 list \<Rightarrow> nat \<Rightarrow> (u64 \<Rightarrow> buffer_info option) \<Rightarrow> bool" where
  "builds b d us h \<longleftrightarrow> (\<forall>i err h'. libxsmm_build b d us i h \<noteq> (err, 0, h'))"

context dispatcher
begin

lemma find_code_spec:
  fixes d sz
  defines "key \<equiv> request_key d sz"
  assumes ok: "registry_ok e g" and req: "request_valid d sz" and alloc: "allocator_ok b"
  obtains (result) p g' where "internal_find_code e b tid d (sz - 1) us g = Some (p, g')" and "registry_ok e g'"
    and "libxsmm_ninit g' = libxsmm_ninit g" and "internal_cache_size g' = internal_cache_size g"
    and "\<And>q. contents g key = Some q \<Longrightarrow> p = q \<and> contents g' = contents g \<and> malloc_info g' = malloc_info g \<and>
      internal_registry g' = internal_registry g \<and> internal_registry_keys g' = internal_registry_keys g"
    and "contents g key = None \<Longrightarrow> p = 0 \<Longrightarrow> contents g' = contents g \<and> malloc_info g' = malloc_info g"
    and "contents g key = None \<Longrightarrow> p \<noteq> 0 \<Longrightarrow> contents g' = (contents g)(key \<mapsto> p) \<and>
      (\<exists>i err. libxsmm_build b (internal_pad_descriptor d sz) us i (malloc_info g) = (err, p, malloc_info g'))"
    and "contents g key = None \<Longrightarrow> jit_available e d \<Longrightarrow> \<exists>j<LIBXSMM_CAPACITY_REGISTRY. internal_registry g j = 0 \<Longrightarrow>
      builds b (internal_pad_descriptor d sz) us (malloc_info g) \<Longrightarrow> p \<noteq> 0"
proof -
  define D where "D = internal_pad_descriptor d sz"
  define c where "c = internal_cache_buffer g tid"
  define ci where "ci = cache_search e c D sz"
  define L where "L = find_loop e b D sz us g (home_index e D) (home_index e D) 0 1"
  have sz: "1 + (sz - 1) = sz" and wf: "wf_desc D" and key: "key = key_of D"
    using req pad_wf by (simp_all add: request_valid_def request_ok_def D_def key_def request_key_def)
  have big: "desc_is_big D \<Longrightarrow> sz = key_len D"
    using req pad_is_big pad_key_len by (simp add: request_valid_def request_ok_def D_def)
  have jit: "jit_available e D = jit_available e d"
    using req by (simp add: request_valid_def request_ok_def D_def jit_available_def nth_pad)
  have inv: "reg_inv e g" "cache_inv g" "buffers_ok g"
    using ok by (simp_all add: registry_ok_def)
  have c: "cache_shape c" "cache_id c = libxsmm_ninit g \<longrightarrow> cache_valid g c"
    and mx: "0 < internal_cache_size g" "internal_cache_size g \<le> 16"
    using inv(2) by (simp_all add: cache_inv_def c_def)
  have F: "internal_find_code e b tid d (sz - 1) us g =
    (if libxsmm_ninit g = cache_id c \<and> ci < cache_size c then
       Some (clear_flags (cache_code c ! unat ci),
         g\<lparr>internal_cache_buffer := (internal_cache_buffer g)(tid := c\<lparr>cache_hit := ci\<rparr>)\<rparr>)
     else (case L of None \<Rightarrow> None | Some (flux, h) \<Rightarrow> Some (clear_flags flux,
         if flux \<noteq> 0 then h\<lparr>internal_cache_buffer := (internal_cache_buffer h)(tid :=
             cache_store c (internal_cache_size h) (libxsmm_ninit g) ci D sz flux)\<rparr> else h)))"
    unfolding internal_find_code_def Let_def sz D_def [symmetric] c_def [symmetric] ci_def [symmetric] L_def [symmetric] ..
  show thesis
  proof (cases "libxsmm_ninit g = cache_id c \<and> ci < cache_size c")
    case True
    then have valid: "cache_valid g c"
      using c by simp
    have "contents g key = Some (clear_flags (cache_code c ! unat ci))"
      using cache_hit_contents [OF c(1) valid wf big] True req
      by (simp add: ci_def key D_def request_valid_def)
    moreover have "cache_inv (g\<lparr>internal_cache_buffer := (internal_cache_buffer g)(tid := c\<lparr>cache_hit := ci\<rparr>)\<rparr>)"
      by (rule cache_inv_update [OF inv(2)]) (use c(1) valid True in \<open>simp_all add: cache_shape_def cache_valid_def\<close>)
    ultimately show thesis
      using result [OF F [unfolded if_P [OF True]]] inv by (simp add: registry_ok_def)
  next
    case miss: False
    have finish: thesis
      if L: "L = Some (flux, h)" and h: "reg_inv e h" "cache_inv h" "buffers_ok h" "libxsmm_ninit h = libxsmm_ninit g"
          "internal_cache_size h = internal_cache_size g"
        and code: "flux \<noteq> 0 \<Longrightarrow> contents h key = Some (clear_flags flux)"
        and mono: "\<And>k p. contents g k = Some p \<Longrightarrow> contents h k = Some p"
        and outcome: "\<And>q. contents g key = Some q \<Longrightarrow> clear_flags flux = q \<and> contents h = contents g \<and> malloc_info h = malloc_info g \<and>
            internal_registry h = internal_registry g \<and> internal_registry_keys h = internal_registry_keys g"
          "contents g key = None \<Longrightarrow> clear_flags flux = 0 \<Longrightarrow> contents h = contents g \<and> malloc_info h = malloc_info g"
          "contents g key = None \<Longrightarrow> clear_flags flux \<noteq> 0 \<Longrightarrow> contents h = (contents g)(key \<mapsto> clear_flags flux) \<and>
            (\<exists>i err. libxsmm_build b D us i (malloc_info g) = (err, clear_flags flux, malloc_info h))"
          "contents g key = None \<Longrightarrow> jit_available e d \<Longrightarrow> \<exists>j<LIBXSMM_CAPACITY_REGISTRY. internal_registry g j = 0 \<Longrightarrow>
            builds b D us (malloc_info g) \<Longrightarrow> clear_flags flux \<noteq> 0"
      for flux h
    proof -
      define cs where "cs = cache_store c (internal_cache_size h) (libxsmm_ninit g) ci D sz flux"
      define g' where "g' = (if flux \<noteq> 0 then h\<lparr>internal_cache_buffer := (internal_cache_buffer h)(tid := cs)\<rparr> else h)"
      have valid: "cache_id c = libxsmm_ninit g \<longrightarrow> cache_valid h c"
        using c(2) slot_ok_mono [OF _ mono] unfolding cache_valid_def by blast
      have mx': "0 < internal_cache_size h" "internal_cache_size h \<le> 16"
        using mx h(5) by simp_all
      have "cache_shape cs \<and> cache_valid h cs \<and> cache_id cs = libxsmm_ninit h" if "flux \<noteq> 0"
        unfolding cs_def h(4) by (rule cache_store_ok [OF c(1) valid mx' wf big code [OF that, unfolded key] h(4)])
      then have "cache_inv g'"
        using h(2) cache_inv_update [OF h(2), of cs tid] by (simp add: g'_def)
      moreover have "reg_inv e g'" "buffers_ok g'" "contents g' = contents h" "malloc_info g' = malloc_info h"
        "internal_registry g' = internal_registry h" "internal_registry_keys g' = internal_registry_keys h"
        "libxsmm_ninit g' = libxsmm_ninit g" "internal_cache_size g' = internal_cache_size g"
        using h by (simp_all add: g'_def)
      moreover have "internal_find_code e b tid d (sz - 1) us g = Some (clear_flags flux, g')"
        unfolding F if_not_P [OF miss] L g'_def cs_def by simp
      ultimately show thesis
        using result [of "clear_flags flux" g'] outcome unfolding registry_ok_def D_def by simp
    qed
    have "desc_is_big D \<longrightarrow> sz = key_len D"
      using big by blast
    from inv(1) wf this show thesis
    proof (cases rule: find_loop_spec [where b = b and us = us, consumes 3, case_names hit nojit full build])
      case (hit j)
      have "contents g key = Some (clear_flags (internal_registry g j))"
        unfolding key by (rule contents_Some [OF inv(1) hit(1,2)])
      then show thesis
        using hit inv by (intro finish [of "internal_registry g j" g]) (simp_all add: L_def)
    next
      case nojit
      then show thesis
        using inv by (intro finish [of 0 g]) (simp_all add: L_def key clear_flags_def jit [symmetric])
    next
      case full
      then show thesis
        using inv by (intro finish [of 0 g]) (auto simp: L_def key clear_flags_def)
    next
      case (build i mode)
      obtain p g' where slot: "build_slot b D us g i (home_index e D) mode = (p, g')"
        by (metis surj_pair)
      have L: "L = Some (p, g')"
        unfolding L_def build(6) slot ..
      from inv(1,3) wf build(1,3,4,5) alloc slot show thesis
      proof (cases rule: build_slot_spec [consumes 9, case_names failed stored])
        case (failed err)
        then have "\<not> builds b D us (malloc_info g)"
          unfolding builds_def by blast
        then show thesis
          using failed inv L build(1) by (intro finish [of 0 g]) (simp_all add: key clear_flags_def)
      next
        case (stored err n)
        note con = stored(4) [folded key] and none = build(1) [folded key]
        have mono: "contents g' k = Some q" if "contents g k = Some q" for k q
          using that none unfolding con by (cases "k = key") simp_all
        show thesis
        proof (rule finish [OF L stored(3) _ stored(10,9,8)])
          show "cache_inv g'"
            by (rule cache_inv_mono [OF inv(2) mono stored(7,8,9)])
          show "contents g' key = Some (clear_flags p)"
            unfolding con stored(2) by simp
        qed (use none mono con stored in auto)
      qed
    qed
  qed
qed

end

section \<open>The initialised library\<close>

lemma library_dispatcher:
  assumes "crc32_documented h" and "simd_documented v"
  shows "dispatcher (library_env c h m v archid)"
proof (unfold_locales, goal_cases)
  case 1
  then show ?case
    using assms(2) by (simp add: library_env_def)
next
  case 2
  then show ?case
    using memory_init_valid [OF assms(2) no_pointers_valid] by (simp add: library_env_def)
next
  case (3 p q s)
  have "libxsmm_crc32_u256 c h (libxsmm_hash_init c h archid) s x = crc_ref s (take 32 x)" if "32 \<le> length x" for x
    using sse4_u256_block [OF assms(1), of c, THEN crc_block.block, of x s] sw256.block [of x s] that
    by (simp add: libxsmm_crc32_u256_def libxsmm_hash_init_def)
  then show ?case
    using 3 by (simp add: library_env_def)
qed

interpretation reference: dispatcher "library_env c crc_intrinsics_ref m simd_ref archid"
  by (rule library_dispatcher [OF crc_intrinsics_ref_documented simd_ref_documented])

lemma empty_contents: "contents (empty_registry n ninit) key = None"
  unfolding contents_None by (simp add: empty_registry_def)

lemma empty_ok: "0 < n \<Longrightarrow> n \<le> 16 \<Longrightarrow> ninit \<noteq> 0 \<Longrightarrow> registry_ok e (empty_registry n ninit)"
  by (simp add: registry_ok_def reg_inv_def buffers_ok_def cache_inv_def cache_shape_def empty_registry_def)

section \<open>Pointers of keys\<close>

lemma contents_slot:
  assumes "contents g key = Some p"
  obtains j where "j < LIBXSMM_CAPACITY_REGISTRY" "holds g key j" "p = clear_flags (internal_registry g j)"
proof -
  obtain j where j: "find (holds g key) [0..<LIBXSMM_CAPACITY_REGISTRY] = Some j" "p = clear_flags (internal_registry g j)"
    using assms by (auto simp: contents_def)
  from j(1) have "j < LIBXSMM_CAPACITY_REGISTRY" "holds g key j"
    unfolding find_Some_iff by auto
  then show thesis
    using that j(2) by blast
qed

lemma contents_nonzero: "reg_inv e g \<Longrightarrow> contents g key = Some p \<Longrightarrow> p \<noteq> 0"
  by (erule contents_slot) (auto simp: reg_inv_def)

lemma contents_inject:
  assumes "buffers_ok g" and "contents g key = Some p" and "contents g key' = Some p"
  shows "key = key'"
proof -
  obtain i where i: "i < LIBXSMM_CAPACITY_REGISTRY" "holds g key i" "p = clear_flags (internal_registry g i)"
    using assms(2) by (rule contents_slot)
  obtain j where j: "j < LIBXSMM_CAPACITY_REGISTRY" "holds g key' j" "p = clear_flags (internal_registry g j)"
    using assms(3) by (rule contents_slot)
  have "Some i = Some j"
    using assms(1) i j unfolding buffers_ok_def by metis
  then show ?thesis
    using i j by simp
qed

text \<open>A sequence of requests of any threads.\<close>

record request =
  req_tid :: nat
  req_desc :: "u8 list"
  req_size :: nat
  req_user_size :: nat

fun dispatch_all :: "kernel_env \<Rightarrow> code_gen \<Rightarrow> request list \<Rightarrow> registry_state \<Rightarrow> (u64 list \<times> registry_state) option" where
  "dispatch_all e b [] g = Some ([], g)"
| "dispatch_all e b (r # rs) g =
    (case internal_find_code e b (req_tid r) (req_desc r) (req_size r - 1) (req_user_size r) g of
       None \<Rightarrow> None
     | Some (p, g) \<Rightarrow> map_option (\<lambda>(ps, g). (p # ps, g)) (dispatch_all e b rs g))"

abbreviation (input) req_key :: "request \<Rightarrow> u8 list" where
  "req_key r \<equiv> request_key (req_desc r) (req_size r)"

context dispatcher
begin

lemma find_code_ok:
  assumes "registry_ok e g" and "request_valid d sz" and "allocator_ok b"
  shows "\<exists>p g'. internal_find_code e b tid d (sz - 1) us g = Some (p, g') \<and> registry_ok e g' \<and>
    (case contents g (request_key d sz) of
       Some q \<Rightarrow> p = q \<and> contents g' = contents g
     | None \<Rightarrow> contents g' = (if p = 0 then contents g else (contents g)(request_key d sz \<mapsto> p)))"
  using assms by (rule find_code_spec [where us = us and tid = tid]) (auto split: option.split)

lemma dispatch_all_ok:
  assumes "registry_ok e g" and "allocator_ok b" and "\<forall>r \<in> set rs. request_valid (req_desc r) (req_size r)"
  shows "\<exists>ps g'. dispatch_all e b rs g = Some (ps, g') \<and> length ps = length rs \<and> registry_ok e g' \<and>
    contents g \<subseteq>\<^sub>m contents g' \<and>
    (\<forall>i<length rs. ps ! i \<noteq> 0 \<longrightarrow> contents g' (req_key (rs ! i)) = Some (ps ! i)) \<and>
    (\<forall>i<length rs. \<forall>p. contents g (req_key (rs ! i)) = Some p \<longrightarrow> ps ! i = p) \<and>
    (\<forall>i<length rs. \<forall>j<i. req_key (rs ! i) = req_key (rs ! j) \<and> ps ! j \<noteq> 0 \<longrightarrow> ps ! i = ps ! j)"
  using assms
proof (induction rs arbitrary: g)
  case Nil
  then show ?case
    by simp
next
  case (Cons r rs)
  define k where "k = req_key r"
  have valid: "request_valid (req_desc r) (req_size r)"
    using Cons.prems(3) by simp
  obtain p g1 where step: "internal_find_code e b (req_tid r) (req_desc r) (req_size r - 1) (req_user_size r) g = Some (p, g1)"
    and ok1: "registry_ok e g1" and con: "case contents g k of
       Some q \<Rightarrow> p = q \<and> contents g1 = contents g
     | None \<Rightarrow> contents g1 = (if p = 0 then contents g else (contents g)(k \<mapsto> p))"
    using find_code_ok [OF Cons.prems(1) valid Cons.prems(2), of "req_tid r" "req_user_size r"] unfolding k_def by blast
  obtain ps g' where run: "dispatch_all e b rs g1 = Some (ps, g')" "length ps = length rs" "registry_ok e g'"
    "contents g1 \<subseteq>\<^sub>m contents g'"
    and kept: "\<forall>i<length rs. ps ! i \<noteq> 0 \<longrightarrow> contents g' (req_key (rs ! i)) = Some (ps ! i)"
    and old: "\<forall>i<length rs. \<forall>p. contents g1 (req_key (rs ! i)) = Some p \<longrightarrow> ps ! i = p"
    and same: "\<forall>i<length rs. \<forall>j<i. req_key (rs ! i) = req_key (rs ! j) \<and> ps ! j \<noteq> 0 \<longrightarrow> ps ! i = ps ! j"
    using Cons.IH [OF ok1 Cons.prems(2)] Cons.prems(3) by auto
  have mono: "contents g \<subseteq>\<^sub>m contents g1"
    using con by (auto simp: map_le_def split: option.splits if_splits)
  have new: "contents g1 k = Some p" if "p \<noteq> 0"
    using con that by (auto split: option.splits)
  have first: "p = q" if "contents g k = Some q" for q
    using con that by simp
  have total: "dispatch_all e b (r # rs) g = Some (p # ps, g')"
    using step by (simp add: run(1))
  have "(p # ps) ! i \<noteq> 0 \<longrightarrow> contents g' (req_key ((r # rs) ! i)) = Some ((p # ps) ! i)" if "i < length (r # rs)" for i
  proof (cases i)
    case 0
    show ?thesis
    proof
      assume "(p # ps) ! i \<noteq> 0"
      then have "contents g1 k = Some p"
        using new 0 by simp
      then have "contents g' k = Some p"
        using run(4) by (metis domI map_le_def)
      then show "contents g' (req_key ((r # rs) ! i)) = Some ((p # ps) ! i)"
        using 0 by (simp add: k_def)
    qed
  next
    case (Suc i')
    then show ?thesis
      using kept that by simp
  qed
  moreover have "(p # ps) ! i = q" if "i < length (r # rs)" "contents g (req_key ((r # rs) ! i)) = Some q" for i q
  proof (cases i)
    case 0
    then show ?thesis
      using that first by (simp add: k_def)
  next
    case (Suc i')
    then have "contents g (req_key (rs ! i')) = Some q"
      using that by simp
    then have "contents g1 (req_key (rs ! i')) = Some q"
      using mono by (metis domI map_le_def)
    then show ?thesis
      using Suc old that by simp
  qed
  moreover have "(p # ps) ! i = (p # ps) ! j"
    if ij: "i < length (r # rs)" "j < i" "req_key ((r # rs) ! i) = req_key ((r # rs) ! j)" "(p # ps) ! j \<noteq> 0" for i j
  proof -
    obtain i' where i: "i = Suc i'" "i' < length rs"
      using ij(1,2) by (cases i) auto
    show ?thesis
    proof (cases j)
      case 0
      then have "contents g1 (req_key (rs ! i')) = Some p"
        using new ij(3,4) i by (simp add: k_def)
      then show ?thesis
        using old i 0 by simp
    next
      case (Suc j')
      then have "j' < i'" "req_key (rs ! i') = req_key (rs ! j')" "ps ! j' \<noteq> 0"
        using ij i by simp_all
      then have "ps ! i' = ps ! j'"
        using same i(2) by blast
      then show ?thesis
        using Suc i by simp
    qed
  qed
  ultimately show ?case
    using total run(2,3) map_le_trans [OF mono run(4)] by auto
qed

end

section \<open>User data\<close>

definition user_key :: "u8 list \<Rightarrow> u8 list" where
  "user_key key = take (if length key \<le> 31 then 32 else length key + 2)
     ((if length key \<le> 31 then LIBXSMM_KERNEL_KIND_USER else LIBXSMM_DESCRIPTOR_BIG LIBXSMM_KERNEL_KIND_USER)
        # of_nat (length key) # key @ replicate 32 0)"

lemma user_kind [simp]:
  "LIBXSMM_DESCRIPTOR_KIND (LIBXSMM_DESCRIPTOR_BIG LIBXSMM_KERNEL_KIND_USER) = LIBXSMM_KERNEL_KIND_USER"
  "LIBXSMM_DESCRIPTOR_KIND LIBXSMM_KERNEL_KIND_USER = LIBXSMM_KERNEL_KIND_USER"
  "LIBXSMM_DESCRIPTOR_ISBIG (LIBXSMM_DESCRIPTOR_BIG LIBXSMM_KERNEL_KIND_USER) = 1"
  "LIBXSMM_DESCRIPTOR_ISBIG LIBXSMM_KERNEL_KIND_USER = 0"
  by (simp_all add: LIBXSMM_DESCRIPTOR_KIND_def LIBXSMM_DESCRIPTOR_BIG_def LIBXSMM_DESCRIPTOR_ISBIG_def)

lemma user_descriptor_facts:
  assumes "length key \<le> 94" and "length stack = 96"
  obtains w where "user_descriptor key stack = Some w" and "length w = 96"
    and "w ! 0 = (if length key \<le> 31 then LIBXSMM_KERNEL_KIND_USER else LIBXSMM_DESCRIPTOR_BIG LIBXSMM_KERNEL_KIND_USER)"
    and "w ! 1 = of_nat (length key)" and "\<forall>i<length key. w ! (i + 2) = key ! i"
proof -
  let ?kind = "if length key \<le> 31 then LIBXSMM_KERNEL_KIND_USER else LIBXSMM_DESCRIPTOR_BIG LIBXSMM_KERNEL_KIND_USER"
  let ?w = "wrap_descriptor ?kind (of_nat (length key) # key) stack"
  have "user_descriptor key stack = Some ?w"
    using assms by (simp add: user_descriptor_def Let_def)
  moreover have "length ?w = 96"
    using assms by (simp add: wrap_descriptor_def)
  ultimately show thesis
    by (intro that [of ?w]) (simp_all add: wrap_descriptor_def nth_append)
qed

lemma user_request:
  assumes key: "key \<noteq> []" "length key \<le> 94" and stack: "length stack = 96" and w: "user_descriptor key stack = Some w"
  shows "request_valid w (length key + 2)" and "request_key w (length key + 2) = user_key key"
    and "LIBXSMM_DESCRIPTOR_KIND (internal_pad_descriptor w (length key + 2) ! 0) = LIBXSMM_KERNEL_KIND_USER"
    and "jit_available e w"
proof -
  define n where "n = length key + 2"
  define m where "m = (if length key \<le> 31 then 32 else n)"
  define kind where "kind = (if length key \<le> 31 then LIBXSMM_KERNEL_KIND_USER else LIBXSMM_DESCRIPTOR_BIG LIBXSMM_KERNEL_KIND_USER)"
  have f: "length w = 96" "w ! 0 = kind" "w ! 1 = of_nat (length key)" "\<forall>i<length key. w ! (i + 2) = key ! i"
  proof -
    obtain w' where w': "user_descriptor key stack = Some w'" "length w' = 96" "w' ! 0 = kind"
      "w' ! 1 = of_nat (length key)" "\<forall>i<length key. w' ! (i + 2) = key ! i"
      unfolding kind_def by (rule user_descriptor_facts [OF key(2) stack])
    have "w = w'"
      using w w'(1) by simp
    then show "length w = 96" "w ! 0 = kind" "w ! 1 = of_nat (length key)" "\<forall>i<length key. w ! (i + 2) = key ! i"
      using w' by blast+
  qed
  have big: "desc_is_big w \<longleftrightarrow> 31 < length key"
    by (simp add: desc_is_big_def f(2) kind_def)
  have len: "key_len w = m"
  proof (cases "31 < length key")
    case True
    have "unat (of_nat (length key) :: u8) = length key"
      using key(2) by (simp add: unat_of_nat take_bit_nat_eq_self)
    then show ?thesis
      using True big f(2,3) by (simp add: key_len_def kind_def n_def m_def)
  next
    case False
    then show ?thesis
      using big by (simp add: key_len_def m_def)
  qed
  have nz: "kind \<noteq> 0"
    by (simp add: kind_def LIBXSMM_DESCRIPTOR_BIG_def)
  have ok: "request_ok w n"
    using key f(1) big len by (auto simp: request_ok_def n_def m_def)
  have p0: "internal_pad_descriptor w n ! 0 = kind"
    using f(1,2) by (simp add: nth_pad n_def)
  moreover have "take 32 (internal_pad_descriptor w n) ! 0 = kind"
    using p0 by simp
  moreover have "replicate 32 (0 :: u8) ! 0 = 0"
    by simp
  ultimately show "request_valid w (length key + 2)"
    using nz ok unfolding request_valid_def n_def by metis
  show "request_key w (length key + 2) = user_key key"
  proof (rule nth_equalityI)
    have kl: "key_len (internal_pad_descriptor w n) = m"
      using pad_key_len [OF f(1), of n] len by (simp add: n_def)
    have rk: "request_key w (length key + 2) = take (m) (internal_pad_descriptor w n)"
      unfolding request_key_def key_of_def n_def [symmetric] kl ..
    have n96: "n \<le> 96" "m \<le> 96"
      using key(2) by (simp_all add: n_def m_def)
    then have lr: "length (request_key w (length key + 2)) = m"
      unfolding rk using length_pad [OF f(1), of n] by simp
    have "length (user_key key) = m"
      by (simp add: user_key_def n_def m_def)
    then show "length (request_key w (length key + 2)) = length (user_key key)"
      using lr by simp
    fix i assume "i < length (request_key w (length key + 2))"
    then have i: "i < m" "i < 96" "i < 32 \<or> 31 < length key \<and> i < n"
      using lr n96(2) by (auto simp: m_def split: if_splits)
    have "request_key w (length key + 2) ! i = (if n \<le> i \<and> i < 32 then 0 else w ! i)"
      unfolding rk using i nth_pad [OF f(1) i(2), of n] by simp
    also have "\<dots> = user_key key ! i"
    proof -
      consider "i = 0" | "i = 1" | j where "i = j + 2"
        by (metis One_nat_def add_2_eq_Suc' not0_implies_Suc)
      then show ?thesis
      proof cases
        case 3
        then show ?thesis
          using i f(4) by (auto simp: user_key_def n_def nth_append)
      qed (use f(2,3) in \<open>simp_all add: user_key_def n_def kind_def\<close>)
    qed
    finally show "request_key w (length key + 2) ! i = user_key key ! i" .
  qed
  show "LIBXSMM_DESCRIPTOR_KIND (internal_pad_descriptor w (length key + 2) ! 0) = LIBXSMM_KERNEL_KIND_USER"
    using p0 by (simp add: n_def kind_def)
  show "jit_available e w"
    by (simp add: jit_available_def f(2) kind_def)
qed

lemma user_build:
  assumes "LIBXSMM_DESCRIPTOR_KIND (d ! 0) = LIBXSMM_KERNEL_KIND_USER"
  shows "libxsmm_build b d us i h = (if 0 \<noteq> us then alloc_buffer b h us i (\<lambda>_. True) else (0, 0, h))"
  using assms by (simp add: libxsmm_build_def)

context dispatcher
begin

lemma xdispatch_registered:
  assumes ok: "registry_ok e g" and alloc: "allocator_ok b" and key: "key \<noteq> []" "length key \<le> 94"
    and stack: "length stack = 96" and con: "contents g (user_key key) = Some p"
  shows "\<exists>g'. libxsmm_xdispatch e b tid stack key g = Some (p, g') \<and> registry_ok e g' \<and> contents g' = contents g \<and>
    malloc_info g' = malloc_info g \<and> libxsmm_ninit g' = libxsmm_ninit g \<and>
    internal_registry g' = internal_registry g \<and> internal_registry_keys g' = internal_registry_keys g"
proof -
  obtain w where w: "user_descriptor key stack = Some w"
    using user_descriptor_facts [OF key(2) stack] by blast
  note req = user_request [OF key stack w]
  obtain q g' where "internal_find_code e b tid w (length key + 2 - 1) 0 g = Some (q, g')" "registry_ok e g'"
    "libxsmm_ninit g' = libxsmm_ninit g"
    "q = p \<and> contents g' = contents g \<and> malloc_info g' = malloc_info g \<and>
      internal_registry g' = internal_registry g \<and> internal_registry_keys g' = internal_registry_keys g"
    by (rule find_code_spec [OF ok req(1) alloc, of tid 0]) (use con req(2) in auto)
  then show ?thesis
    using w by (simp add: libxsmm_xdispatch_def)
qed

lemma xregister_new:
  assumes ok: "registry_ok e g" and alloc: "allocator_ok b" and key: "key \<noteq> []" "length key \<le> 94"
    and stack: "length stack = 96" and none: "contents g (user_key key) = None"
    and free: "\<exists>j<LIBXSMM_CAPACITY_REGISTRY. internal_registry g j = 0"
    and memory: "xmalloc_buffer b (malloc_info g) vs \<noteq> None" and vs: "vs \<noteq> 0"
  shows "\<exists>p g'. libxsmm_xregister e b tid stack (Some key) vs g = Some (p, g') \<and> p \<noteq> 0 \<and> registry_ok e g' \<and>
    contents g' = (contents g)(user_key key \<mapsto> p) \<and> map_option buffer_bytes (malloc_info g' p) = Some vs"
proof -
  obtain w where w: "user_descriptor key stack = Some w"
    using user_descriptor_facts [OF key(2) stack] by blast
  note req = user_request [OF key stack w]
  have builds: "builds b (internal_pad_descriptor w (length key + 2)) vs (malloc_info g)"
    unfolding builds_def user_build [OF req(3)] using memory vs alloc
    by (auto simp: alloc_buffer_def allocator_ok_def)
  obtain p g' where find: "internal_find_code e b tid w (length key + 2 - 1) vs g = Some (p, g')" "registry_ok e g'"
    "contents g (user_key key) = None \<Longrightarrow> p \<noteq> 0 \<Longrightarrow> contents g' = (contents g)(user_key key \<mapsto> p) \<and>
      (\<exists>i err. libxsmm_build b (internal_pad_descriptor w (length key + 2)) vs i (malloc_info g) = (err, p, malloc_info g'))"
    "contents g (user_key key) = None \<Longrightarrow> p \<noteq> 0"
    by (rule find_code_spec [OF ok req(1) alloc, of tid vs]) (use free builds req(2,4) in auto)
  then obtain i err where "libxsmm_build b (internal_pad_descriptor w (length key + 2)) vs i (malloc_info g) = (err, p, malloc_info g')"
    using none by blast
  then have info: "\<exists>info. malloc_info g' p = Some info \<and> buffer_bytes info = vs"
    unfolding user_build [OF req(3)] using memory vs by (auto simp: alloc_buffer_def) (metis buffer_info.select_convs(1) fun_upd_same)
  have "libxsmm_xregister e b tid stack (Some key) vs g = Some (p, g')"
    using key find(1,4) none w info by (auto simp: libxsmm_xregister_def)
  then show ?thesis
    using find none info by auto
qed

lemma xregister_registered:
  assumes ok: "registry_ok e g" and alloc: "allocator_ok b" and key: "key \<noteq> []" "length key \<le> 94"
    and stack: "length stack = 96" and con: "contents g (user_key key) = Some p" and info: "malloc_info g p = Some info"
  shows "\<exists>g'. libxsmm_xregister e b tid stack (Some key) vs g = Some (if vs \<le> buffer_bytes info then p else 0, g') \<and>
    registry_ok e g' \<and> contents g' = contents g \<and> malloc_info g' = malloc_info g"
proof -
  obtain w where w: "user_descriptor key stack = Some w"
    using user_descriptor_facts [OF key(2) stack] by blast
  note req = user_request [OF key stack w]
  obtain q g' where find: "internal_find_code e b tid w (length key + 2 - 1) vs g = Some (q, g')" "registry_ok e g'"
    "q = p" "contents g' = contents g" "malloc_info g' = malloc_info g"
    by (rule find_code_spec [OF ok req(1) alloc, of tid vs]) (use con req(2) in auto)
  have "p \<noteq> 0"
    using con ok contents_nonzero unfolding registry_ok_def by blast
  then have "libxsmm_xregister e b tid stack (Some key) vs g = Some (if vs \<le> buffer_bytes info then p else 0, g')"
    using key find w info by (auto simp: libxsmm_xregister_def)
  then show ?thesis
    using find by auto
qed

end

section \<open>Releasing\<close>

lemma user_key_kind: "LIBXSMM_DESCRIPTOR_KIND (user_key key ! 0) = LIBXSMM_KERNEL_KIND_USER"
  by (simp add: user_key_def)

lemma key_of_first: "wf_desc d \<Longrightarrow> key_of d ! 0 = d ! 0"
  using key_len_ge2 [of d] by (simp add: key_of_def)

text \<open>Removing an entry whose flag is not set.\<close>

lemma remove_entry:
  assumes ok: "registry_ok e g" and j: "j < LIBXSMM_CAPACITY_REGISTRY" "internal_registry g j = p" "p \<noteq> 0" "clear_flags p = p"
    and ninit: "libxsmm_ninit g \<noteq> - 1"
  defines "g' \<equiv> g\<lparr>libxsmm_ninit := libxsmm_ninit g + 1, internal_registry := (internal_registry g)(j := 0),
    malloc_info := (malloc_info g)(p := None)\<rparr>"
  shows "registry_ok e g' \<and> contents g' = (contents g)(key_of (internal_registry_keys g j) := None)"
proof -
  have inv: "reg_inv e g" "buffers_ok g" "cache_inv g"
    using ok by (simp_all add: registry_ok_def)
  have unflagged: "LIBXSMM_HASH_COLLISION AND p = 0"
  proof -
    have "bit (clear_flags p) 62 = False"
      by (simp add: clear_flags_def bit_and_iff bit_not_iff bit_or_iff bit_flags)
    then have "\<not> bit p 62"
      unfolding j(4) by simp
    then show ?thesis
      by (intro word_eq_bitI) (auto simp: bit_and_iff bit_flags)
  qed
  have regs: "internal_registry g' i = (if i = j then 0 else internal_registry g i)"
    "internal_registry_keys g' = internal_registry_keys g" for i
    by (simp_all add: g'_def)
  have "reg_inv e g'"
    unfolding reg_inv_def
  proof (intro conjI allI impI)
    fix i assume i: "i < LIBXSMM_CAPACITY_REGISTRY" "internal_registry g' i \<noteq> 0"
    then have I: "i \<noteq> j" "internal_registry g i \<noteq> 0"
      by (auto simp: regs split: if_splits)
    let ?h = "home_index e (internal_registry_keys g i)"
    have "wf_desc (internal_registry_keys g i) \<and> clear_flags (internal_registry g i) \<noteq> 0 \<and>
        (i = ?h \<or> LIBXSMM_HASH_COLLISION AND internal_registry g ?h \<noteq> 0)"
      using inv(1) i(1) I(2) unfolding reg_inv_def by blast
    then show "wf_desc (internal_registry_keys g' i)" "clear_flags (internal_registry g' i) \<noteq> 0"
      "i = home_index e (internal_registry_keys g' i) \<or>
       LIBXSMM_HASH_COLLISION AND internal_registry g' (home_index e (internal_registry_keys g' i)) \<noteq> 0"
      using I unflagged j(2) by (auto simp: regs)
  next
    fix i k assume "i < LIBXSMM_CAPACITY_REGISTRY" "k < LIBXSMM_CAPACITY_REGISTRY" "internal_registry g' i \<noteq> 0"
      "holds g' (key_of (internal_registry_keys g' i)) k"
    then show "i = k"
      using inv(1) unfolding reg_inv_def regs by (auto split: if_splits)
  qed
  moreover have "buffers_ok g'"
    unfolding buffers_ok_def
  proof (intro allI impI)
    fix i assume i: "i < LIBXSMM_CAPACITY_REGISTRY" "internal_registry g' i \<noteq> 0"
    then have I: "i \<noteq> j" "map_option registered_index (malloc_info g (clear_flags (internal_registry g i))) = Some i"
      using inv(2) unfolding buffers_ok_def by (auto simp: regs split: if_splits)
    have "map_option registered_index (malloc_info g p) = Some j"
      using inv(2) j unfolding buffers_ok_def by metis
    then have "clear_flags (internal_registry g i) \<noteq> p"
      using I by auto
    then show "map_option registered_index (malloc_info g' (clear_flags (internal_registry g' i))) = Some i"
      using I by (simp add: regs) (simp add: g'_def)
  qed
  moreover have "cache_inv g'"
  proof -
    have n: "unat (libxsmm_ninit g + 1) = unat (libxsmm_ninit g) + 1"
      using ninit by (metis add.commute unatSuc add_eq_0_iff Suc_eq_plus1)
    have "cache_id (internal_cache_buffer g tid) \<le> libxsmm_ninit g" for tid
      using inv(3) by (simp add: cache_inv_def)
    then have "cache_id (internal_cache_buffer g tid) < libxsmm_ninit g + 1" for tid
      using n by (simp add: word_less_nat_alt word_le_nat_alt le_imp_less_Suc)
    then have "cache_id (internal_cache_buffer g' tid) \<le> libxsmm_ninit g'"
      "cache_id (internal_cache_buffer g' tid) \<noteq> libxsmm_ninit g'" for tid
      by (simp_all add: g'_def less_imp_le less_imp_neq)
    then show ?thesis
      using inv(3) by (simp add: cache_inv_def) (simp add: g'_def)
  qed
  moreover have "contents g' key = ((contents g)(key_of (internal_registry_keys g j) := None)) key" for key
  proof (cases "\<exists>i<LIBXSMM_CAPACITY_REGISTRY. holds g' key i")
    case True
    then obtain i where i: "i < LIBXSMM_CAPACITY_REGISTRY" "holds g' key i"
      by blast
    then have I: "i \<noteq> j" "holds g key i"
      by (auto simp: regs split: if_splits)
    moreover have "key \<noteq> key_of (internal_registry_keys g j)"
      using inv(1) i(1) I j unfolding reg_inv_def by metis
    ultimately show ?thesis
      using contents_Some [OF \<open>reg_inv e g'\<close> i] contents_Some [OF inv(1) i(1) I(2)] by (simp add: regs)
  next
    case False
    then have none: "contents g' key = None"
      unfolding contents_None by blast
    have "contents g key = None" if "key \<noteq> key_of (internal_registry_keys g j)"
      unfolding contents_None
    proof (intro allI impI)
      fix i assume "i < LIBXSMM_CAPACITY_REGISTRY"
      then show "\<not> holds g key i"
        using False that by (cases "i = j") (auto simp: regs)
    qed
    then show ?thesis
      using none by simp
  qed
  ultimately show ?thesis
    by (auto simp: registry_ok_def)
qed

context dispatcher
begin

lemma xrelease_unflagged:
  assumes ok: "registry_ok e g" and alloc: "allocator_ok b" and key: "key \<noteq> []" "length key \<le> 94"
    and stack: "length stack = 96" and con: "contents g (user_key key) = Some p"
    and info: "malloc_info g p = Some info" and unflagged: "internal_registry g (registered_index info) = p"
    and ninit: "libxsmm_ninit g \<noteq> - 1"
  shows "\<exists>g'. libxsmm_xrelease e b tid stack key g = Some g' \<and> registry_ok e g' \<and>
    contents g' = (contents g)(user_key key := None) \<and> malloc_info g' = (malloc_info g)(p := None)"
proof -
  obtain j where j: "j < LIBXSMM_CAPACITY_REGISTRY" "holds g (user_key key) j" "p = clear_flags (internal_registry g j)"
    using con by (rule contents_slot)
  have "map_option registered_index (malloc_info g p) = Some j"
    using ok j unfolding registry_ok_def buffers_ok_def by blast
  then have regindex: "registered_index info = j"
    using info by simp
  then have p: "internal_registry g j = p" "clear_flags p = p" "p \<noteq> 0"
    using unflagged j by auto
  obtain g1 where g1: "libxsmm_xdispatch e b tid stack key g = Some (p, g1)" "registry_ok e g1" "contents g1 = contents g"
    "malloc_info g1 = malloc_info g" "libxsmm_ninit g1 = libxsmm_ninit g" "internal_registry g1 = internal_registry g"
    "internal_registry_keys g1 = internal_registry_keys g"
    using xdispatch_registered [OF ok alloc key stack con, of tid] by blast
  have kind: "kernel_kind g1 p info = LIBXSMM_KERNEL_KIND_USER"
  proof -
    have "wf_desc (internal_registry_keys g j)"
      using ok j unfolding registry_ok_def reg_inv_def by blast
    then have "internal_registry_keys g j ! 0 = user_key key ! 0"
      using j(2) key_of_first by metis
    then have k: "LIBXSMM_DESCRIPTOR_KIND (internal_registry_keys g j ! 0) = LIBXSMM_KERNEL_KIND_USER"
      using user_key_kind by simp
    have "NOT LIBXSMM_HASH_COLLISION AND p = p"
    proof -
      have "\<not> bit (clear_flags p) 62"
        by (simp add: clear_flags_def bit_and_iff bit_not_iff bit_or_iff bit_flags)
      then have "\<not> bit p 62"
        unfolding p(2) .
      then show ?thesis
        by (intro word_eq_bitI) (auto simp: bit_and_iff bit_not_iff bit_flags)
    qed
    then show ?thesis
      using k p(1) j(1) regindex g1(6,7) by (simp add: kernel_kind_def Let_def)
  qed
  have "libxsmm_release_kernel p g1 = g1\<lparr>libxsmm_ninit := libxsmm_ninit g1 + 1,
      internal_registry := (internal_registry g1)(j := 0), malloc_info := (malloc_info g1)(p := None)\<rparr>"
    using p(3) info j(1) regindex kind g1(4) by (simp add: libxsmm_release_kernel_def Let_def)
  moreover have "registry_ok e (g1\<lparr>libxsmm_ninit := libxsmm_ninit g1 + 1,
      internal_registry := (internal_registry g1)(j := 0), malloc_info := (malloc_info g1)(p := None)\<rparr>) \<and>
    contents (g1\<lparr>libxsmm_ninit := libxsmm_ninit g1 + 1,
      internal_registry := (internal_registry g1)(j := 0), malloc_info := (malloc_info g1)(p := None)\<rparr>) =
    (contents g1)(key_of (internal_registry_keys g1 j) := None)"
    by (rule remove_entry) (use g1 j(1) p ninit in simp_all)
  ultimately show ?thesis
    using g1 j(2) by (simp add: libxsmm_xrelease_def)
qed

end

section \<open>Properties\<close>

text \<open>
  C34: \<open>internal_find_code\<close> refines looking up and extending a partial map from keys to pointers, whatever the
  build, the target and the collisions of the hash: a registered key gives its pointer and changes nothing, a new key
  gives the pointer that is then registered or none, every other key keeps its pointer, and the invariants of the
  registry and of the caches are kept. Allocated addresses are fresh, not null and below the two flag bits.
\<close>

theorem find_code_refines_map:
  assumes "crc32_documented h" and "simd_documented v" and "e = library_env c h m v archid"
    and "registry_ok e g" and "request_valid d sz" and "allocator_ok b"
  shows "\<exists>p g'. internal_find_code e b tid d (sz - 1) us g = Some (p, g') \<and> registry_ok e g' \<and>
    (case contents g (request_key d sz) of
       Some q \<Rightarrow> p = q \<and> contents g' = contents g
     | None \<Rightarrow> contents g' = (if p = 0 then contents g else (contents g)(request_key d sz \<mapsto> p)))"
  using dispatcher.find_code_ok [OF library_dispatcher [OF assms(1,2)]] assms(4-6) unfolding assms(3) by blast

text \<open>Instances of the parameters: a build, an allocator with two buffers, and a registry with one entry.\<close>

definition portable_env :: kernel_env where
  "portable_env = library_env \<lparr>intrinsics_sse42 = False, crc_u64_split = False, static_target_arch = 1002,
     max_static_target_arch = 1999\<rparr> crc_intrinsics_ref portable_build simd_ref LIBXSMM_X86_GENERIC"

definition two_buffers :: code_gen where
  "two_buffers = \<lparr>gen_code = (\<lambda>_. (0, 64, 0)),
     xmalloc_buffer = (\<lambda>h n. if h 4096 = None then Some 4096 else if h 8192 = None then Some 8192 else None),
     malloc_attrib_ok = (\<lambda>_. True)\<rparr>"

lemma two_buffers_ok: "allocator_ok two_buffers"
  by (simp add: allocator_ok_def two_buffers_def)

lemma seven_request:
  "user_descriptor [7] (replicate 96 0) = Some (wrap_descriptor 3 [1, 7] (replicate 96 0))"
  "request_valid (wrap_descriptor 3 [1, 7] (replicate 96 0)) 3"
  "request_key (wrap_descriptor 3 [1, 7] (replicate 96 0)) 3 = user_key [7]"
proof -
  show w: "user_descriptor [7] (replicate 96 0) = Some (wrap_descriptor 3 [1, 7] (replicate 96 0))"
    by (simp add: user_descriptor_def)
  show "request_valid (wrap_descriptor 3 [1, 7] (replicate 96 0)) 3"
    "request_key (wrap_descriptor 3 [1, 7] (replicate 96 0)) 3 = user_key [7]"
    using user_request(1,2) [OF _ _ _ w] by (simp_all add: numeral_3_eq_3)
qed

definition one_entry :: registry_state where
  "one_entry = (let d = internal_pad_descriptor (wrap_descriptor 3 [1, 7] (replicate 96 0)) 3; i = home_index portable_env d
     in (empty_registry 16 1)\<lparr>internal_registry := (\<lambda>_. 0)(i := 4096), internal_registry_keys := (\<lambda>_. d),
          malloc_info := [4096 \<mapsto> \<lparr>buffer_bytes = 8, registered_index = i\<rparr>]\<rparr>)"

lemma clear_4096: "clear_flags 4096 = 4096"
  by (rule small_flags(1)) simp

lemma one_entry_ok: "registry_ok portable_env one_entry"
proof -
  have wf: "wf_desc (internal_pad_descriptor (wrap_descriptor 3 [1, 7] (replicate 96 0)) 3)"
    using seven_request(2) pad_wf unfolding request_valid_def by blast
  have "reg_inv portable_env one_entry" "buffers_ok one_entry"
    using wf clear_4096 by (auto simp: reg_inv_def buffers_ok_def one_entry_def Let_def)
  moreover have "cache_inv one_entry"
    by (simp add: cache_inv_def cache_shape_def one_entry_def empty_registry_def Let_def)
  ultimately show ?thesis
    by (simp add: registry_ok_def)
qed

lemma portable_home: "home_index portable_env d < LIBXSMM_CAPACITY_REGISTRY"
  by (simp add: home_index_def)

lemma one_entry_contents:
  "contents one_entry (user_key [7]) = Some 4096"
  "malloc_info one_entry 4096 = Some \<lparr>buffer_bytes = 8, registered_index = home_index portable_env
     (internal_pad_descriptor (wrap_descriptor 3 [1, 7] (replicate 96 0)) 3)\<rparr>"
  "internal_registry one_entry (home_index portable_env
     (internal_pad_descriptor (wrap_descriptor 3 [1, 7] (replicate 96 0)) 3)) = 4096"
  "libxsmm_ninit one_entry = 1"
proof -
  let ?i = "home_index portable_env (internal_pad_descriptor (wrap_descriptor 3 [1, 7] (replicate 96 0)) 3)"
  show "malloc_info one_entry 4096 = Some \<lparr>buffer_bytes = 8, registered_index = ?i\<rparr>"
    and r: "internal_registry one_entry ?i = 4096" and "libxsmm_ninit one_entry = 1"
    by (simp_all add: one_entry_def Let_def empty_registry_def)
  have "holds one_entry (user_key [7]) ?i"
    using seven_request(3) by (simp add: r request_key_def) (simp add: one_entry_def Let_def)
  then show "contents one_entry (user_key [7]) = Some 4096"
    using contents_Some [OF _ portable_home] one_entry_ok r clear_4096 unfolding registry_ok_def by metis
qed

theorem find_code_refines_map_witness:
  "\<exists>g'. internal_find_code portable_env two_buffers 5 (wrap_descriptor 3 [1, 7] (replicate 96 0)) 2 8 one_entry = Some (4096, g')"
  using find_code_refines_map [OF crc_intrinsics_ref_documented simd_ref_documented portable_env_def one_entry_ok
      seven_request(2) two_buffers_ok, of 5 8] by (auto simp: seven_request(3) one_entry_contents)

text \<open>
  C37: For any sequence of requests by any threads to the initialised library, requests with the same key get the same
  pointer from the first one on that gets one, and requests with different keys never share a pointer.
\<close>

theorem dispatch_pointers_stable:
  assumes "crc32_documented h" and "simd_documented v" and "e = library_env c h m v archid" and "allocator_ok b"
    and "0 < csize" and "csize \<le> 16" and "ninit \<noteq> 0" and "\<forall>r \<in> set rs. request_valid (req_desc r) (req_size r)"
  shows "\<exists>ps g. dispatch_all e b rs (empty_registry csize ninit) = Some (ps, g) \<and> length ps = length rs \<and>
    (\<forall>i<length rs. \<forall>j<i. ps ! j \<noteq> 0 \<longrightarrow> (ps ! i = ps ! j \<longleftrightarrow> req_key (rs ! i) = req_key (rs ! j)))"
proof -
  obtain ps g where run: "dispatch_all e b rs (empty_registry csize ninit) = Some (ps, g)" "length ps = length rs"
    "registry_ok e g" and kept: "\<forall>i<length rs. ps ! i \<noteq> 0 \<longrightarrow> contents g (req_key (rs ! i)) = Some (ps ! i)"
    and same: "\<forall>i<length rs. \<forall>j<i. req_key (rs ! i) = req_key (rs ! j) \<and> ps ! j \<noteq> 0 \<longrightarrow> ps ! i = ps ! j"
    using dispatcher.dispatch_all_ok [OF library_dispatcher [OF assms(1,2)] empty_ok [OF assms(5-7)] assms(4,8)]
    unfolding assms(3) by blast
  have "req_key (rs ! i) = req_key (rs ! j)" if "i < length rs" "j < i" "ps ! j \<noteq> 0" "ps ! i = ps ! j" for i j
    using kept that contents_inject [of g "req_key (rs ! i)" "ps ! i"] run(3) unfolding registry_ok_def by simp
  then have "\<forall>i<length rs. \<forall>j<i. ps ! j \<noteq> 0 \<longrightarrow> (ps ! i = ps ! j \<longleftrightarrow> req_key (rs ! i) = req_key (rs ! j))"
    using same by blast
  then show ?thesis
    using run by blast
qed

theorem dispatch_pointers_stable_witness:
  "\<exists>p q g. dispatch_all portable_env two_buffers
     [\<lparr>req_tid = 0, req_desc = wrap_descriptor 3 [1, 7] (replicate 96 0), req_size = 3, req_user_size = 8\<rparr>,
      \<lparr>req_tid = 1, req_desc = wrap_descriptor 3 [1, 7] (replicate 96 0), req_size = 3, req_user_size = 8\<rparr>]
     (empty_registry 16 1) = Some ([p, q], g) \<and> (p \<noteq> 0 \<longrightarrow> q = p)"
proof -
  let ?rs = "[\<lparr>req_tid = 0, req_desc = wrap_descriptor 3 [1, 7] (replicate 96 0), req_size = 3, req_user_size = 8\<rparr>,
      \<lparr>req_tid = 1, req_desc = wrap_descriptor 3 [1, 7] (replicate 96 0), req_size = 3, req_user_size = 8\<rparr>]"
  have "\<forall>r \<in> set ?rs. request_valid (req_desc r) (req_size r)"
    using seven_request(2) by simp
  then obtain ps g where "dispatch_all portable_env two_buffers ?rs (empty_registry 16 1) = Some (ps, g)" "length ps = 2"
    "\<forall>i<2. \<forall>j<i. ps ! j \<noteq> 0 \<longrightarrow> (ps ! i = ps ! j \<longleftrightarrow> req_key (?rs ! i) = req_key (?rs ! j))"
    using dispatch_pointers_stable [OF crc_intrinsics_ref_documented simd_ref_documented portable_env_def two_buffers_ok,
        of 16 1 ?rs] by auto
  moreover from this obtain p q where "ps = [p, q]"
    by (auto simp: length_Suc_conv numeral_2_eq_2)
  ultimately show ?thesis
    by (intro exI [of _ p] exI [of _ q] exI [of _ g]) (auto dest: spec [of _ 1])
qed

text \<open>
  C35: A new key of up to 94 bytes can be registered while a slot of the registry is free and memory is available: the
  result is a buffer of the requested size, in the state right afterwards every thread finds it by its key, and other
  keys are not affected.
\<close>

theorem register_then_dispatch:
  assumes "crc32_documented h" and "simd_documented v" and "e = library_env c h m v archid"
    and "registry_ok e g" and "allocator_ok b" and "key \<noteq> []" and "length key \<le> 94" and "length stack = 96"
    and "contents g (user_key key) = None" and "\<exists>j<LIBXSMM_CAPACITY_REGISTRY. internal_registry g j = 0"
    and "xmalloc_buffer b (malloc_info g) value_size \<noteq> None" and "value_size \<noteq> 0"
  shows "\<exists>p g'. libxsmm_xregister e b tid stack (Some key) value_size g = Some (p, g') \<and> p \<noteq> 0 \<and>
    map_option buffer_bytes (malloc_info g' p) = Some value_size \<and> contents g' = (contents g)(user_key key \<mapsto> p) \<and>
    (\<forall>tid' stack'. length stack' = 96 \<longrightarrow> (\<exists>g''. libxsmm_xdispatch e b tid' stack' key g' = Some (p, g'')))"
proof -
  note D = library_dispatcher [OF assms(1,2), of c m archid, folded assms(3)]
  obtain p g' where new: "libxsmm_xregister e b tid stack (Some key) value_size g = Some (p, g')" "p \<noteq> 0" "registry_ok e g'"
    "contents g' = (contents g)(user_key key \<mapsto> p)" "map_option buffer_bytes (malloc_info g' p) = Some value_size"
    using dispatcher.xregister_new [OF D assms(4-12)] by blast
  have "contents g' (user_key key) = Some p"
    using new(4) by simp
  then show ?thesis
    using dispatcher.xdispatch_registered [OF D new(3) assms(5-7)] new by blast
qed

theorem register_then_dispatch_witness:
  "\<exists>p g' g''. libxsmm_xregister portable_env two_buffers 0 (replicate 96 9) (Some [7]) 8 (empty_registry 16 1) = Some (p, g') \<and>
     p \<noteq> 0 \<and> libxsmm_xdispatch portable_env two_buffers 1 (replicate 96 0) [7] g' = Some (p, g'')"
proof -
  have "\<exists>j<LIBXSMM_CAPACITY_REGISTRY. internal_registry (empty_registry 16 1) j = 0"
    by (rule exI [of _ 0]) (simp add: empty_registry_def)
  moreover have "xmalloc_buffer two_buffers (malloc_info (empty_registry 16 1)) 8 \<noteq> None"
    by (simp add: two_buffers_def empty_registry_def)
  moreover have "length (replicate 96 0) = 96"
    by simp
  ultimately show ?thesis
    using register_then_dispatch [OF crc_intrinsics_ref_documented simd_ref_documented portable_env_def empty_ok two_buffers_ok
        _ _ _ empty_contents, of 16 1 "[7]" "replicate 96 9" 8 0] by fastforce
qed

text \<open>
  C36: The errors of \<open>libxsmm_xregister\<close>: a key that is registered gives its buffer if the buffer is large enough, and
  null otherwise, without changing the registry; no key, an empty key, and a key of 96 or more bytes give null and
  change nothing. The documentation and the error message give 96 bytes as the limit of a key, but exactly 96 are
  refused already, since the code adds the byte for the size. A key of 95 bytes passes the test although it does not fit,
  and is written past the descriptor.
\<close>

theorem xregister_errors:
  assumes "crc32_documented h" and "simd_documented v" and "e = library_env c h m v archid"
    and "registry_ok e g" and "allocator_ok b" and "key \<noteq> []" and "length key \<le> 94" and "length stack = 96"
    and "contents g (user_key key) = Some p" and "malloc_info g p = Some info"
  shows "(\<exists>g'. libxsmm_xregister e b tid stack (Some key) value_size g =
      Some (if value_size \<le> buffer_bytes info then p else 0, g') \<and> contents g' = contents g \<and> malloc_info g' = malloc_info g) \<and>
    libxsmm_xregister e b tid stack None value_size g = Some (0, g) \<and>
    libxsmm_xregister e b tid stack (Some []) value_size g = Some (0, g) \<and>
    (\<forall>k. 96 \<le> length k \<longrightarrow> libxsmm_xregister e b tid stack (Some k) value_size g = Some (0, g)) \<and>
    (\<forall>k. length k = 95 \<longrightarrow> libxsmm_xregister e b tid stack (Some k) value_size g = None)"
proof -
  note D = library_dispatcher [OF assms(1,2), of c m archid, folded assms(3)]
  have "\<exists>g'. libxsmm_xregister e b tid stack (Some key) value_size g =
      Some (if value_size \<le> buffer_bytes info then p else 0, g') \<and> contents g' = contents g \<and> malloc_info g' = malloc_info g"
    using dispatcher.xregister_registered [OF D assms(4-10)] by blast
  then show ?thesis
    by (auto simp: libxsmm_xregister_def user_descriptor_def)
qed

theorem xregister_errors_witness:
  "\<exists>g'. libxsmm_xregister portable_env two_buffers 0 (replicate 96 0) (Some [7]) 9 one_entry = Some (0, g')"
  using xregister_errors [OF crc_intrinsics_ref_documented simd_ref_documented portable_env_def one_entry_ok two_buffers_ok
      _ _ _ one_entry_contents(1,2), of "replicate 96 0" 0 9] by auto

text \<open>
  C38: \<open>libxsmm_xrelease\<close> of user data in a slot without the collision flag removes exactly this key and frees its
  buffer; the new count of initialisations makes the caches of all threads invalid.
\<close>

theorem xrelease_forgets:
  assumes "crc32_documented h" and "simd_documented v" and "e = library_env c h m v archid"
    and "registry_ok e g" and "allocator_ok b" and "key \<noteq> []" and "length key \<le> 94" and "length stack = 96"
    and "contents g (user_key key) = Some p" and "malloc_info g p = Some info"
    and "internal_registry g (registered_index info) = p" and "libxsmm_ninit g \<noteq> - 1"
  shows "\<exists>g'. libxsmm_xrelease e b tid stack key g = Some g' \<and> registry_ok e g' \<and>
    contents g' = (contents g)(user_key key := None) \<and> malloc_info g' = (malloc_info g)(p := None)"
  using dispatcher.xrelease_unflagged [OF library_dispatcher [OF assms(1,2), of c m archid, folded assms(3)] assms(4-12)] .

theorem xrelease_forgets_witness:
  "\<exists>g'. libxsmm_xrelease portable_env two_buffers 0 (replicate 96 0) [7] one_entry = Some g' \<and> contents g' (user_key [7]) = None"
  using xrelease_forgets [OF crc_intrinsics_ref_documented simd_ref_documented portable_env_def one_entry_ok two_buffers_ok
      _ _ _ one_entry_contents(1,2), of "replicate 96 0" 0] by (auto simp: one_entry_contents(3,4))

text \<open>Keys of 31 bytes that differ in the last one only are the same key: 32 bytes are compared, the kind and the size included.\<close>

lemma user_key_31_bytes: "length k = 30 \<Longrightarrow> user_key (k @ [a]) = user_key (k @ [b])"
  by (simp add: user_key_def)

end
