(* ===== verification/AArch64_Defs.thy ===== *)
theory AArch64_Defs
  imports Targets
begin

text \<open>
  The constants of \<open>src/generator_aarch64_instructions.h\<close>: general purpose and ASIMD register
  numbers, the instruction numbers (three bytes of the A64 encoding and a descriptor byte), and the
  enumerations that the encoder functions take, each with the number its constructors stand for; and
  the error numbers of \<open>generator_common.h\<close>.
\<close>

section \<open>Errors\<close>

abbreviation (input) LIBXSMM_ERR_GENERAL :: u32 where
  "LIBXSMM_ERR_GENERAL \<equiv> 90000"

abbreviation (input) LIBXSMM_ERR_BUFFER_TOO_SMALL :: u32 where
  "LIBXSMM_ERR_BUFFER_TOO_SMALL \<equiv> 90002"

abbreviation (input) LIBXSMM_ERR_EXCEED_JMPLBL :: u32 where
  "LIBXSMM_ERR_EXCEED_JMPLBL \<equiv> 90025"

abbreviation (input) LIBXSMM_ERR_JMPLBL_USED :: u32 where
  "LIBXSMM_ERR_JMPLBL_USED \<equiv> 90038"

section \<open>Registers and instructions\<close>

abbreviation (input) LIBXSMM_AARCH64_GP_REG_X0 :: u32 where
  "LIBXSMM_AARCH64_GP_REG_X0 \<equiv> 32"

abbreviation (input) LIBXSMM_AARCH64_GP_REG_X16 :: u32 where
  "LIBXSMM_AARCH64_GP_REG_X16 \<equiv> 48"

abbreviation (input) LIBXSMM_AARCH64_GP_REG_X17 :: u32 where
  "LIBXSMM_AARCH64_GP_REG_X17 \<equiv> 49"

abbreviation (input) LIBXSMM_AARCH64_GP_REG_X18 :: u32 where
  "LIBXSMM_AARCH64_GP_REG_X18 \<equiv> 50"

abbreviation (input) LIBXSMM_AARCH64_GP_REG_X19 :: u32 where
  "LIBXSMM_AARCH64_GP_REG_X19 \<equiv> 51"

abbreviation (input) LIBXSMM_AARCH64_GP_REG_X20 :: u32 where
  "LIBXSMM_AARCH64_GP_REG_X20 \<equiv> 52"

abbreviation (input) LIBXSMM_AARCH64_GP_REG_X21 :: u32 where
  "LIBXSMM_AARCH64_GP_REG_X21 \<equiv> 53"

abbreviation (input) LIBXSMM_AARCH64_GP_REG_X22 :: u32 where
  "LIBXSMM_AARCH64_GP_REG_X22 \<equiv> 54"

abbreviation (input) LIBXSMM_AARCH64_GP_REG_X23 :: u32 where
  "LIBXSMM_AARCH64_GP_REG_X23 \<equiv> 55"

abbreviation (input) LIBXSMM_AARCH64_GP_REG_X24 :: u32 where
  "LIBXSMM_AARCH64_GP_REG_X24 \<equiv> 56"

abbreviation (input) LIBXSMM_AARCH64_GP_REG_X25 :: u32 where
  "LIBXSMM_AARCH64_GP_REG_X25 \<equiv> 57"

abbreviation (input) LIBXSMM_AARCH64_GP_REG_X26 :: u32 where
  "LIBXSMM_AARCH64_GP_REG_X26 \<equiv> 58"

abbreviation (input) LIBXSMM_AARCH64_GP_REG_X27 :: u32 where
  "LIBXSMM_AARCH64_GP_REG_X27 \<equiv> 59"

abbreviation (input) LIBXSMM_AARCH64_GP_REG_X28 :: u32 where
  "LIBXSMM_AARCH64_GP_REG_X28 \<equiv> 60"

abbreviation (input) LIBXSMM_AARCH64_GP_REG_X29 :: u32 where
  "LIBXSMM_AARCH64_GP_REG_X29 \<equiv> 61"

abbreviation (input) LIBXSMM_AARCH64_GP_REG_X30 :: u32 where
  "LIBXSMM_AARCH64_GP_REG_X30 \<equiv> 62"

abbreviation (input) LIBXSMM_AARCH64_GP_REG_XSP :: u32 where
  "LIBXSMM_AARCH64_GP_REG_XSP \<equiv> 63"

abbreviation (input) LIBXSMM_AARCH64_GP_REG_XZR :: u32 where
  "LIBXSMM_AARCH64_GP_REG_XZR \<equiv> 63"

abbreviation (input) LIBXSMM_AARCH64_ASIMD_REG_V8 :: u32 where
  "LIBXSMM_AARCH64_ASIMD_REG_V8 \<equiv> 8"

abbreviation (input) LIBXSMM_AARCH64_ASIMD_REG_V9 :: u32 where
  "LIBXSMM_AARCH64_ASIMD_REG_V9 \<equiv> 9"

abbreviation (input) LIBXSMM_AARCH64_ASIMD_REG_V10 :: u32 where
  "LIBXSMM_AARCH64_ASIMD_REG_V10 \<equiv> 10"

abbreviation (input) LIBXSMM_AARCH64_ASIMD_REG_V11 :: u32 where
  "LIBXSMM_AARCH64_ASIMD_REG_V11 \<equiv> 11"

abbreviation (input) LIBXSMM_AARCH64_ASIMD_REG_V12 :: u32 where
  "LIBXSMM_AARCH64_ASIMD_REG_V12 \<equiv> 12"

abbreviation (input) LIBXSMM_AARCH64_ASIMD_REG_V13 :: u32 where
  "LIBXSMM_AARCH64_ASIMD_REG_V13 \<equiv> 13"

abbreviation (input) LIBXSMM_AARCH64_ASIMD_REG_V14 :: u32 where
  "LIBXSMM_AARCH64_ASIMD_REG_V14 \<equiv> 14"

abbreviation (input) LIBXSMM_AARCH64_ASIMD_REG_V15 :: u32 where
  "LIBXSMM_AARCH64_ASIMD_REG_V15 \<equiv> 15"

abbreviation (input) LIBXSMM_AARCH64_ASIMD_REG_UNDEF :: u32 where
  "LIBXSMM_AARCH64_ASIMD_REG_UNDEF \<equiv> 127"

abbreviation (input) LIBXSMM_AARCH64_INSTR_UNDEF :: u32 where
  "LIBXSMM_AARCH64_INSTR_UNDEF \<equiv> 9999"

abbreviation (input) LIBXSMM_AARCH64_INSTR_GP_LDR_R :: u32 where
  "LIBXSMM_AARCH64_INSTR_GP_LDR_R \<equiv> 0xb8604803"

abbreviation (input) LIBXSMM_AARCH64_INSTR_GP_LDR_I_OFF :: u32 where
  "LIBXSMM_AARCH64_INSTR_GP_LDR_I_OFF \<equiv> 0xb9400006"

abbreviation (input) LIBXSMM_AARCH64_INSTR_GP_LDR_I_POST :: u32 where
  "LIBXSMM_AARCH64_INSTR_GP_LDR_I_POST \<equiv> 0xb8400406"

abbreviation (input) LIBXSMM_AARCH64_INSTR_GP_LDR_I_PRE :: u32 where
  "LIBXSMM_AARCH64_INSTR_GP_LDR_I_PRE \<equiv> 0xb8400c06"

abbreviation (input) LIBXSMM_AARCH64_INSTR_GP_LDRH_I_OFF :: u32 where
  "LIBXSMM_AARCH64_INSTR_GP_LDRH_I_OFF \<equiv> 0x79400006"

abbreviation (input) LIBXSMM_AARCH64_INSTR_GP_LDRH_I_POST :: u32 where
  "LIBXSMM_AARCH64_INSTR_GP_LDRH_I_POST \<equiv> 0x78400406"

abbreviation (input) LIBXSMM_AARCH64_INSTR_GP_LDRH_I_PRE :: u32 where
  "LIBXSMM_AARCH64_INSTR_GP_LDRH_I_PRE \<equiv> 0x78400c06"

abbreviation (input) LIBXSMM_AARCH64_INSTR_GP_STR_R :: u32 where
  "LIBXSMM_AARCH64_INSTR_GP_STR_R \<equiv> 0xb8204803"

abbreviation (input) LIBXSMM_AARCH64_INSTR_GP_STR_I_OFF :: u32 where
  "LIBXSMM_AARCH64_INSTR_GP_STR_I_OFF \<equiv> 0xb9000006"

abbreviation (input) LIBXSMM_AARCH64_INSTR_GP_STR_I_POST :: u32 where
  "LIBXSMM_AARCH64_INSTR_GP_STR_I_POST \<equiv> 0xb8000406"

abbreviation (input) LIBXSMM_AARCH64_INSTR_GP_STR_I_PRE :: u32 where
  "LIBXSMM_AARCH64_INSTR_GP_STR_I_PRE \<equiv> 0xb8000c06"

abbreviation (input) LIBXSMM_AARCH64_INSTR_GP_STRH_I_OFF :: u32 where
  "LIBXSMM_AARCH64_INSTR_GP_STRH_I_OFF \<equiv> 0x79000006"

abbreviation (input) LIBXSMM_AARCH64_INSTR_GP_STRH_I_POST :: u32 where
  "LIBXSMM_AARCH64_INSTR_GP_STRH_I_POST \<equiv> 0x78000406"

abbreviation (input) LIBXSMM_AARCH64_INSTR_GP_STRH_I_PRE :: u32 where
  "LIBXSMM_AARCH64_INSTR_GP_STRH_I_PRE \<equiv> 0x78000c06"

abbreviation (input) LIBXSMM_AARCH64_INSTR_GP_LDP_I_OFF :: u32 where
  "LIBXSMM_AARCH64_INSTR_GP_LDP_I_OFF \<equiv> 0x29400007"

abbreviation (input) LIBXSMM_AARCH64_INSTR_GP_LDP_I_POST :: u32 where
  "LIBXSMM_AARCH64_INSTR_GP_LDP_I_POST \<equiv> 0x28c00007"

abbreviation (input) LIBXSMM_AARCH64_INSTR_GP_LDP_I_PRE :: u32 where
  "LIBXSMM_AARCH64_INSTR_GP_LDP_I_PRE \<equiv> 0x29c00007"

abbreviation (input) LIBXSMM_AARCH64_INSTR_GP_LDNP_I_OFF :: u32 where
  "LIBXSMM_AARCH64_INSTR_GP_LDNP_I_OFF \<equiv> 0x28400007"

abbreviation (input) LIBXSMM_AARCH64_INSTR_GP_STP_I_OFF :: u32 where
  "LIBXSMM_AARCH64_INSTR_GP_STP_I_OFF \<equiv> 0x29000007"

abbreviation (input) LIBXSMM_AARCH64_INSTR_GP_STP_I_POST :: u32 where
  "LIBXSMM_AARCH64_INSTR_GP_STP_I_POST \<equiv> 0x28800007"

abbreviation (input) LIBXSMM_AARCH64_INSTR_GP_STP_I_PRE :: u32 where
  "LIBXSMM_AARCH64_INSTR_GP_STP_I_PRE \<equiv> 0x29800007"

abbreviation (input) LIBXSMM_AARCH64_INSTR_GP_STNP_I_OFF :: u32 where
  "LIBXSMM_AARCH64_INSTR_GP_STNP_I_OFF \<equiv> 0x28000007"

abbreviation (input) LIBXSMM_AARCH64_INSTR_GP_ORR_SR :: u32 where
  "LIBXSMM_AARCH64_INSTR_GP_ORR_SR \<equiv> 0x2a000007"

abbreviation (input) LIBXSMM_AARCH64_INSTR_GP_AND_SR :: u32 where
  "LIBXSMM_AARCH64_INSTR_GP_AND_SR \<equiv> 0x0a000007"

abbreviation (input) LIBXSMM_AARCH64_INSTR_GP_EOR_SR :: u32 where
  "LIBXSMM_AARCH64_INSTR_GP_EOR_SR \<equiv> 0x4a000007"

abbreviation (input) LIBXSMM_AARCH64_INSTR_GP_LSL_SR :: u32 where
  "LIBXSMM_AARCH64_INSTR_GP_LSL_SR \<equiv> 0x1ac02013"

abbreviation (input) LIBXSMM_AARCH64_INSTR_GP_LSR_SR :: u32 where
  "LIBXSMM_AARCH64_INSTR_GP_LSR_SR \<equiv> 0x1ac02413"

abbreviation (input) LIBXSMM_AARCH64_INSTR_GP_ASR_SR :: u32 where
  "LIBXSMM_AARCH64_INSTR_GP_ASR_SR \<equiv> 0x1ac02813"

abbreviation (input) LIBXSMM_AARCH64_INSTR_GP_ADD_I :: u32 where
  "LIBXSMM_AARCH64_INSTR_GP_ADD_I \<equiv> 0x11000006"

abbreviation (input) LIBXSMM_AARCH64_INSTR_GP_ADD_SR :: u32 where
  "LIBXSMM_AARCH64_INSTR_GP_ADD_SR \<equiv> 0x0b000007"

abbreviation (input) LIBXSMM_AARCH64_INSTR_GP_SUB_I :: u32 where
  "LIBXSMM_AARCH64_INSTR_GP_SUB_I \<equiv> 0x51000006"

abbreviation (input) LIBXSMM_AARCH64_INSTR_GP_SUB_SR :: u32 where
  "LIBXSMM_AARCH64_INSTR_GP_SUB_SR \<equiv> 0x4b000007"

abbreviation (input) LIBXSMM_AARCH64_INSTR_GP_MUL :: u32 where
  "LIBXSMM_AARCH64_INSTR_GP_MUL \<equiv> 0x1b007c13"

abbreviation (input) LIBXSMM_AARCH64_INSTR_GP_UDIV :: u32 where
  "LIBXSMM_AARCH64_INSTR_GP_UDIV \<equiv> 0x1ac00813"

abbreviation (input) LIBXSMM_AARCH64_INSTR_GP_MOVZ :: u32 where
  "LIBXSMM_AARCH64_INSTR_GP_MOVZ \<equiv> 0x52800000"

abbreviation (input) LIBXSMM_AARCH64_INSTR_GP_MOVK :: u32 where
  "LIBXSMM_AARCH64_INSTR_GP_MOVK \<equiv> 0x72800000"

abbreviation (input) LIBXSMM_AARCH64_INSTR_GP_MOVN :: u32 where
  "LIBXSMM_AARCH64_INSTR_GP_MOVN \<equiv> 0x12800000"

abbreviation (input) LIBXSMM_AARCH64_INSTR_GP_CBNZ :: u32 where
  "LIBXSMM_AARCH64_INSTR_GP_CBNZ \<equiv> 0x35000000"

abbreviation (input) LIBXSMM_AARCH64_INSTR_GP_CBZ :: u32 where
  "LIBXSMM_AARCH64_INSTR_GP_CBZ \<equiv> 0x34000000"

abbreviation (input) LIBXSMM_AARCH64_INSTR_GP_META_ADD :: u32 where
  "LIBXSMM_AARCH64_INSTR_GP_META_ADD \<equiv> 0x00001000"

abbreviation (input) LIBXSMM_AARCH64_INSTR_GP_META_SUB :: u32 where
  "LIBXSMM_AARCH64_INSTR_GP_META_SUB \<equiv> 0x00001001"

abbreviation (input) LIBXSMM_AARCH64_INSTR_ASIMD_LDR_R :: u32 where
  "LIBXSMM_AARCH64_INSTR_ASIMD_LDR_R \<equiv> 0x3c604803"

abbreviation (input) LIBXSMM_AARCH64_INSTR_ASIMD_LDR_I_OFF :: u32 where
  "LIBXSMM_AARCH64_INSTR_ASIMD_LDR_I_OFF \<equiv> 0x3d400006"

abbreviation (input) LIBXSMM_AARCH64_INSTR_ASIMD_LDR_I_POST :: u32 where
  "LIBXSMM_AARCH64_INSTR_ASIMD_LDR_I_POST \<equiv> 0x3c400406"

abbreviation (input) LIBXSMM_AARCH64_INSTR_ASIMD_LDR_I_PRE :: u32 where
  "LIBXSMM_AARCH64_INSTR_ASIMD_LDR_I_PRE \<equiv> 0x3c400c06"

abbreviation (input) LIBXSMM_AARCH64_INSTR_ASIMD_STR_R :: u32 where
  "LIBXSMM_AARCH64_INSTR_ASIMD_STR_R \<equiv> 0x3c204803"

abbreviation (input) LIBXSMM_AARCH64_INSTR_ASIMD_STR_I_OFF :: u32 where
  "LIBXSMM_AARCH64_INSTR_ASIMD_STR_I_OFF \<equiv> 0x3d000006"

abbreviation (input) LIBXSMM_AARCH64_INSTR_ASIMD_STR_I_POST :: u32 where
  "LIBXSMM_AARCH64_INSTR_ASIMD_STR_I_POST \<equiv> 0x3c000406"

abbreviation (input) LIBXSMM_AARCH64_INSTR_ASIMD_STR_I_PRE :: u32 where
  "LIBXSMM_AARCH64_INSTR_ASIMD_STR_I_PRE \<equiv> 0x3c000c06"

abbreviation (input) LIBXSMM_AARCH64_INSTR_ASIMD_LDP_I_OFF :: u32 where
  "LIBXSMM_AARCH64_INSTR_ASIMD_LDP_I_OFF \<equiv> 0x2d400007"

abbreviation (input) LIBXSMM_AARCH64_INSTR_ASIMD_LDP_I_POST :: u32 where
  "LIBXSMM_AARCH64_INSTR_ASIMD_LDP_I_POST \<equiv> 0x2cc00007"

abbreviation (input) LIBXSMM_AARCH64_INSTR_ASIMD_LDP_I_PRE :: u32 where
  "LIBXSMM_AARCH64_INSTR_ASIMD_LDP_I_PRE \<equiv> 0x2dc00007"

abbreviation (input) LIBXSMM_AARCH64_INSTR_ASIMD_LDNP_I_OFF :: u32 where
  "LIBXSMM_AARCH64_INSTR_ASIMD_LDNP_I_OFF \<equiv> 0x2c400007"

abbreviation (input) LIBXSMM_AARCH64_INSTR_ASIMD_STP_I_OFF :: u32 where
  "LIBXSMM_AARCH64_INSTR_ASIMD_STP_I_OFF \<equiv> 0x2d000007"

abbreviation (input) LIBXSMM_AARCH64_INSTR_ASIMD_STP_I_POST :: u32 where
  "LIBXSMM_AARCH64_INSTR_ASIMD_STP_I_POST \<equiv> 0x2c800007"

abbreviation (input) LIBXSMM_AARCH64_INSTR_ASIMD_STP_I_PRE :: u32 where
  "LIBXSMM_AARCH64_INSTR_ASIMD_STP_I_PRE \<equiv> 0x2d800007"

abbreviation (input) LIBXSMM_AARCH64_INSTR_ASIMD_STNP_I_OFF :: u32 where
  "LIBXSMM_AARCH64_INSTR_ASIMD_STNP_I_OFF \<equiv> 0x2c000007"

abbreviation (input) LIBXSMM_AARCH64_INSTR_ASIMD_LD1R :: u32 where
  "LIBXSMM_AARCH64_INSTR_ASIMD_LD1R \<equiv> 0x0d40c002"

abbreviation (input) LIBXSMM_AARCH64_INSTR_ASIMD_LD1R_R_POST :: u32 where
  "LIBXSMM_AARCH64_INSTR_ASIMD_LD1R_R_POST \<equiv> 0x0dc0c003"

abbreviation (input) LIBXSMM_AARCH64_INSTR_ASIMD_LD1_I_POST :: u32 where
  "LIBXSMM_AARCH64_INSTR_ASIMD_LD1_I_POST \<equiv> 0x0ddf8002"

abbreviation (input) LIBXSMM_AARCH64_INSTR_ASIMD_LD1_R_POST :: u32 where
  "LIBXSMM_AARCH64_INSTR_ASIMD_LD1_R_POST \<equiv> 0x0dc08003"

abbreviation (input) LIBXSMM_AARCH64_INSTR_ASIMD_MOV_G_V :: u32 where
  "LIBXSMM_AARCH64_INSTR_ASIMD_MOV_G_V \<equiv> 0x4e001c1e"

abbreviation (input) LIBXSMM_AARCH64_INSTR_ASIMD_UMOV_V_G :: u32 where
  "LIBXSMM_AARCH64_INSTR_ASIMD_UMOV_V_G \<equiv> 0x0e003c16"

abbreviation (input) LIBXSMM_AARCH64_INSTR_ASIMD_DUP_HALF :: u32 where
  "LIBXSMM_AARCH64_INSTR_ASIMD_DUP_HALF \<equiv> 0x0e000c1e"

abbreviation (input) LIBXSMM_AARCH64_INSTR_ASIMD_DUP_FULL :: u32 where
  "LIBXSMM_AARCH64_INSTR_ASIMD_DUP_FULL \<equiv> 0x4e000c1e"

abbreviation (input) LIBXSMM_AARCH64_INSTR_ASIMD_EOR_V :: u32 where
  "LIBXSMM_AARCH64_INSTR_ASIMD_EOR_V \<equiv> 0x2e201c13"

abbreviation (input) LIBXSMM_AARCH64_INSTR_ASIMD_ORR_V :: u32 where
  "LIBXSMM_AARCH64_INSTR_ASIMD_ORR_V \<equiv> 0x0ea01c13"

abbreviation (input) LIBXSMM_AARCH64_INSTR_ASIMD_AND_V :: u32 where
  "LIBXSMM_AARCH64_INSTR_ASIMD_AND_V \<equiv> 0x0e201c13"

abbreviation (input) LIBXSMM_AARCH64_INSTR_ASIMD_ADD_V :: u32 where
  "LIBXSMM_AARCH64_INSTR_ASIMD_ADD_V \<equiv> 0x0e208403"

abbreviation (input) LIBXSMM_AARCH64_INSTR_ASIMD_ADDV_V :: u32 where
  "LIBXSMM_AARCH64_INSTR_ASIMD_ADDV_V \<equiv> 0x0e31b802"

abbreviation (input) LIBXSMM_AARCH64_INSTR_ASIMD_BIC_V :: u32 where
  "LIBXSMM_AARCH64_INSTR_ASIMD_BIC_V \<equiv> 0x0e601c13"

abbreviation (input) LIBXSMM_AARCH64_INSTR_ASIMD_BIF_V :: u32 where
  "LIBXSMM_AARCH64_INSTR_ASIMD_BIF_V \<equiv> 0x2ee01c13"

abbreviation (input) LIBXSMM_AARCH64_INSTR_ASIMD_BIT_V :: u32 where
  "LIBXSMM_AARCH64_INSTR_ASIMD_BIT_V \<equiv> 0x2ea01c13"

abbreviation (input) LIBXSMM_AARCH64_INSTR_ASIMD_BSL_V :: u32 where
  "LIBXSMM_AARCH64_INSTR_ASIMD_BSL_V \<equiv> 0x2e601c13"

abbreviation (input) LIBXSMM_AARCH64_INSTR_ASIMD_NEG_V :: u32 where
  "LIBXSMM_AARCH64_INSTR_ASIMD_NEG_V \<equiv> 0x2e20b802"

abbreviation (input) LIBXSMM_AARCH64_INSTR_ASIMD_NOT_V :: u32 where
  "LIBXSMM_AARCH64_INSTR_ASIMD_NOT_V \<equiv> 0x2e205812"

abbreviation (input) LIBXSMM_AARCH64_INSTR_ASIMD_ORN_V :: u32 where
  "LIBXSMM_AARCH64_INSTR_ASIMD_ORN_V \<equiv> 0x0ee01c13"

abbreviation (input) LIBXSMM_AARCH64_INSTR_ASIMD_SHL_I_V :: u32 where
  "LIBXSMM_AARCH64_INSTR_ASIMD_SHL_I_V \<equiv> 0x0f00541a"

abbreviation (input) LIBXSMM_AARCH64_INSTR_ASIMD_SSHR_I_V :: u32 where
  "LIBXSMM_AARCH64_INSTR_ASIMD_SSHR_I_V \<equiv> 0x0f00041e"

abbreviation (input) LIBXSMM_AARCH64_INSTR_ASIMD_USHR_I_V :: u32 where
  "LIBXSMM_AARCH64_INSTR_ASIMD_USHR_I_V \<equiv> 0x2f00041e"

abbreviation (input) LIBXSMM_AARCH64_INSTR_ASIMD_SSHL_R_V :: u32 where
  "LIBXSMM_AARCH64_INSTR_ASIMD_SSHL_R_V \<equiv> 0x0e204403"

abbreviation (input) LIBXSMM_AARCH64_INSTR_ASIMD_USHL_R_V :: u32 where
  "LIBXSMM_AARCH64_INSTR_ASIMD_USHL_R_V \<equiv> 0x2e204403"

abbreviation (input) LIBXSMM_AARCH64_INSTR_ASIMD_CMEQ_R_V :: u32 where
  "LIBXSMM_AARCH64_INSTR_ASIMD_CMEQ_R_V \<equiv> 0x2e208c03"

abbreviation (input) LIBXSMM_AARCH64_INSTR_ASIMD_CMEQ_Z_V :: u32 where
  "LIBXSMM_AARCH64_INSTR_ASIMD_CMEQ_Z_V \<equiv> 0x0e209802"

abbreviation (input) LIBXSMM_AARCH64_INSTR_ASIMD_CMGE_R_V :: u32 where
  "LIBXSMM_AARCH64_INSTR_ASIMD_CMGE_R_V \<equiv> 0x0e203c03"

abbreviation (input) LIBXSMM_AARCH64_INSTR_ASIMD_CMGE_Z_V :: u32 where
  "LIBXSMM_AARCH64_INSTR_ASIMD_CMGE_Z_V \<equiv> 0x2e208802"

abbreviation (input) LIBXSMM_AARCH64_INSTR_ASIMD_CMGT_R_V :: u32 where
  "LIBXSMM_AARCH64_INSTR_ASIMD_CMGT_R_V \<equiv> 0x0e203403"

abbreviation (input) LIBXSMM_AARCH64_INSTR_ASIMD_CMGT_Z_V :: u32 where
  "LIBXSMM_AARCH64_INSTR_ASIMD_CMGT_Z_V \<equiv> 0x0e208802"

abbreviation (input) LIBXSMM_AARCH64_INSTR_ASIMD_CMLE_Z_V :: u32 where
  "LIBXSMM_AARCH64_INSTR_ASIMD_CMLE_Z_V \<equiv> 0x2e209802"

abbreviation (input) LIBXSMM_AARCH64_INSTR_ASIMD_CMLT_Z_V :: u32 where
  "LIBXSMM_AARCH64_INSTR_ASIMD_CMLT_Z_V \<equiv> 0x0e20a802"

abbreviation (input) LIBXSMM_AARCH64_INSTR_ASIMD_FMLA_E_S :: u32 where
  "LIBXSMM_AARCH64_INSTR_ASIMD_FMLA_E_S \<equiv> 0x5f80100f"

abbreviation (input) LIBXSMM_AARCH64_INSTR_ASIMD_FMLA_E_V :: u32 where
  "LIBXSMM_AARCH64_INSTR_ASIMD_FMLA_E_V \<equiv> 0x0f80100f"

abbreviation (input) LIBXSMM_AARCH64_INSTR_ASIMD_FMLA_V :: u32 where
  "LIBXSMM_AARCH64_INSTR_ASIMD_FMLA_V \<equiv> 0x0e20cc0b"

abbreviation (input) LIBXSMM_AARCH64_INSTR_ASIMD_FMLS_E_S :: u32 where
  "LIBXSMM_AARCH64_INSTR_ASIMD_FMLS_E_S \<equiv> 0x5f80500f"

abbreviation (input) LIBXSMM_AARCH64_INSTR_ASIMD_FMLS_E_V :: u32 where
  "LIBXSMM_AARCH64_INSTR_ASIMD_FMLS_E_V \<equiv> 0x0f80500f"

abbreviation (input) LIBXSMM_AARCH64_INSTR_ASIMD_FMLS_V :: u32 where
  "LIBXSMM_AARCH64_INSTR_ASIMD_FMLS_V \<equiv> 0x0ea0cc0b"

abbreviation (input) LIBXSMM_AARCH64_INSTR_ASIMD_FADD_V :: u32 where
  "LIBXSMM_AARCH64_INSTR_ASIMD_FADD_V \<equiv> 0x0e20d40b"

abbreviation (input) LIBXSMM_AARCH64_INSTR_ASIMD_FSUB_V :: u32 where
  "LIBXSMM_AARCH64_INSTR_ASIMD_FSUB_V \<equiv> 0x0ea0d40b"

abbreviation (input) LIBXSMM_AARCH64_INSTR_ASIMD_FMUL_V :: u32 where
  "LIBXSMM_AARCH64_INSTR_ASIMD_FMUL_V \<equiv> 0x2e20dc0b"

abbreviation (input) LIBXSMM_AARCH64_INSTR_ASIMD_FMUL_E_V :: u32 where
  "LIBXSMM_AARCH64_INSTR_ASIMD_FMUL_E_V \<equiv> 0x0f80900f"

abbreviation (input) LIBXSMM_AARCH64_INSTR_ASIMD_FDIV_V :: u32 where
  "LIBXSMM_AARCH64_INSTR_ASIMD_FDIV_V \<equiv> 0x2e20fc0b"

abbreviation (input) LIBXSMM_AARCH64_INSTR_ASIMD_FNEG_V :: u32 where
  "LIBXSMM_AARCH64_INSTR_ASIMD_FNEG_V \<equiv> 0x2ea0f80a"

abbreviation (input) LIBXSMM_AARCH64_INSTR_ASIMD_FSQRT_V :: u32 where
  "LIBXSMM_AARCH64_INSTR_ASIMD_FSQRT_V \<equiv> 0x2ea1f80a"

abbreviation (input) LIBXSMM_AARCH64_INSTR_ASIMD_FRECPE_V :: u32 where
  "LIBXSMM_AARCH64_INSTR_ASIMD_FRECPE_V \<equiv> 0x0ea1d80a"

abbreviation (input) LIBXSMM_AARCH64_INSTR_ASIMD_FRECPS_V :: u32 where
  "LIBXSMM_AARCH64_INSTR_ASIMD_FRECPS_V \<equiv> 0x0e20fc0b"

abbreviation (input) LIBXSMM_AARCH64_INSTR_ASIMD_FRSQRTE_V :: u32 where
  "LIBXSMM_AARCH64_INSTR_ASIMD_FRSQRTE_V \<equiv> 0x2ea1d80a"

abbreviation (input) LIBXSMM_AARCH64_INSTR_ASIMD_FRSQRTS_V :: u32 where
  "LIBXSMM_AARCH64_INSTR_ASIMD_FRSQRTS_V \<equiv> 0x0ea0fc0b"

abbreviation (input) LIBXSMM_AARCH64_INSTR_ASIMD_FMAX_V :: u32 where
  "LIBXSMM_AARCH64_INSTR_ASIMD_FMAX_V \<equiv> 0x0e20f40b"

abbreviation (input) LIBXSMM_AARCH64_INSTR_ASIMD_FMIN_V :: u32 where
  "LIBXSMM_AARCH64_INSTR_ASIMD_FMIN_V \<equiv> 0x0ea0f40b"

abbreviation (input) LIBXSMM_AARCH64_INSTR_ASIMD_FADDP_V :: u32 where
  "LIBXSMM_AARCH64_INSTR_ASIMD_FADDP_V \<equiv> 0x2e20d40b"

abbreviation (input) LIBXSMM_AARCH64_INSTR_ASIMD_FMAXP_V :: u32 where
  "LIBXSMM_AARCH64_INSTR_ASIMD_FMAXP_V \<equiv> 0x2e20f40b"

abbreviation (input) LIBXSMM_AARCH64_INSTR_ASIMD_FMINP_V :: u32 where
  "LIBXSMM_AARCH64_INSTR_ASIMD_FMINP_V \<equiv> 0x2ea0f40b"

abbreviation (input) LIBXSMM_AARCH64_INSTR_ASIMD_FCMEQ_R_V :: u32 where
  "LIBXSMM_AARCH64_INSTR_ASIMD_FCMEQ_R_V \<equiv> 0x0e20e40b"

abbreviation (input) LIBXSMM_AARCH64_INSTR_ASIMD_FCMEQ_Z_V :: u32 where
  "LIBXSMM_AARCH64_INSTR_ASIMD_FCMEQ_Z_V \<equiv> 0x0ea0d80a"

abbreviation (input) LIBXSMM_AARCH64_INSTR_ASIMD_FCMGE_R_V :: u32 where
  "LIBXSMM_AARCH64_INSTR_ASIMD_FCMGE_R_V \<equiv> 0x2e20e40b"

abbreviation (input) LIBXSMM_AARCH64_INSTR_ASIMD_FCMGE_Z_V :: u32 where
  "LIBXSMM_AARCH64_INSTR_ASIMD_FCMGE_Z_V \<equiv> 0x2ea0c80a"

abbreviation (input) LIBXSMM_AARCH64_INSTR_ASIMD_FCMGT_R_V :: u32 where
  "LIBXSMM_AARCH64_INSTR_ASIMD_FCMGT_R_V \<equiv> 0x2ea0e40b"

abbreviation (input) LIBXSMM_AARCH64_INSTR_ASIMD_FCMGT_Z_V :: u32 where
  "LIBXSMM_AARCH64_INSTR_ASIMD_FCMGT_Z_V \<equiv> 0x0ea0c80a"

abbreviation (input) LIBXSMM_AARCH64_INSTR_ASIMD_FCMLE_Z_V :: u32 where
  "LIBXSMM_AARCH64_INSTR_ASIMD_FCMLE_Z_V \<equiv> 0x2ea0d80a"

abbreviation (input) LIBXSMM_AARCH64_INSTR_ASIMD_FCMLT_Z_V :: u32 where
  "LIBXSMM_AARCH64_INSTR_ASIMD_FCMLT_Z_V \<equiv> 0x0ea0e80a"

abbreviation (input) LIBXSMM_AARCH64_INSTR_ASIMD_FRINTM_V :: u32 where
  "LIBXSMM_AARCH64_INSTR_ASIMD_FRINTM_V \<equiv> 0x0e21980a"

abbreviation (input) LIBXSMM_AARCH64_INSTR_ASIMD_FCVTMS_V :: u32 where
  "LIBXSMM_AARCH64_INSTR_ASIMD_FCVTMS_V \<equiv> 0x0e21b80a"

abbreviation (input) LIBXSMM_AARCH64_INSTR_ASIMD_TRN1 :: u32 where
  "LIBXSMM_AARCH64_INSTR_ASIMD_TRN1 \<equiv> 0x0e002803"

abbreviation (input) LIBXSMM_AARCH64_INSTR_ASIMD_TRN2 :: u32 where
  "LIBXSMM_AARCH64_INSTR_ASIMD_TRN2 \<equiv> 0x0e006803"

abbreviation (input) LIBXSMM_AARCH64_INSTR_ASIMD_ZIP1 :: u32 where
  "LIBXSMM_AARCH64_INSTR_ASIMD_ZIP1 \<equiv> 0x0e003803"

abbreviation (input) LIBXSMM_AARCH64_INSTR_ASIMD_ZIP2 :: u32 where
  "LIBXSMM_AARCH64_INSTR_ASIMD_ZIP2 \<equiv> 0x0e007803"

abbreviation (input) LIBXSMM_AARCH64_INSTR_ASIMD_UZP1 :: u32 where
  "LIBXSMM_AARCH64_INSTR_ASIMD_UZP1 \<equiv> 0x0e001803"

abbreviation (input) LIBXSMM_AARCH64_INSTR_ASIMD_UZP2 :: u32 where
  "LIBXSMM_AARCH64_INSTR_ASIMD_UZP2 \<equiv> 0x0e005803"

abbreviation (input) LIBXSMM_AARCH64_INSTR_ASIMD_TBL_1 :: u32 where
  "LIBXSMM_AARCH64_INSTR_ASIMD_TBL_1 \<equiv> 0x0e000013"

abbreviation (input) LIBXSMM_AARCH64_INSTR_ASIMD_TBL_2 :: u32 where
  "LIBXSMM_AARCH64_INSTR_ASIMD_TBL_2 \<equiv> 0x0e002013"

abbreviation (input) LIBXSMM_AARCH64_INSTR_ASIMD_TBL_3 :: u32 where
  "LIBXSMM_AARCH64_INSTR_ASIMD_TBL_3 \<equiv> 0x0e004013"

abbreviation (input) LIBXSMM_AARCH64_INSTR_ASIMD_TBL_4 :: u32 where
  "LIBXSMM_AARCH64_INSTR_ASIMD_TBL_4 \<equiv> 0x0e006013"

abbreviation (input) LIBXSMM_AARCH64_INSTR_ASIMD_TBX_1 :: u32 where
  "LIBXSMM_AARCH64_INSTR_ASIMD_TBX_1 \<equiv> 0x0e001013"

abbreviation (input) LIBXSMM_AARCH64_INSTR_ASIMD_TBX_2 :: u32 where
  "LIBXSMM_AARCH64_INSTR_ASIMD_TBX_2 \<equiv> 0x0e003013"

abbreviation (input) LIBXSMM_AARCH64_INSTR_ASIMD_TBX_3 :: u32 where
  "LIBXSMM_AARCH64_INSTR_ASIMD_TBX_3 \<equiv> 0x0e005013"

abbreviation (input) LIBXSMM_AARCH64_INSTR_ASIMD_TBX_4 :: u32 where
  "LIBXSMM_AARCH64_INSTR_ASIMD_TBX_4 \<equiv> 0x0e007013"

abbreviation (input) LIBXSMM_AARCH64_INSTR_ASIMD_BFMMLA_V :: u32 where
  "LIBXSMM_AARCH64_INSTR_ASIMD_BFMMLA_V \<equiv> 0x6e40ec13"

abbreviation (input) LIBXSMM_AARCH64_INSTR_ASIMD_SMMLA_V :: u32 where
  "LIBXSMM_AARCH64_INSTR_ASIMD_SMMLA_V \<equiv> 0x4e80a413"

abbreviation (input) LIBXSMM_AARCH64_INSTR_ASIMD_UMMLA_V :: u32 where
  "LIBXSMM_AARCH64_INSTR_ASIMD_UMMLA_V \<equiv> 0x6e80a413"

abbreviation (input) LIBXSMM_AARCH64_INSTR_ASIMD_USMMLA_V :: u32 where
  "LIBXSMM_AARCH64_INSTR_ASIMD_USMMLA_V \<equiv> 0x4e80ac13"

abbreviation (input) LIBXSMM_AARCH64_INSTR_ASIMD_BFDOT_E_V :: u32 where
  "LIBXSMM_AARCH64_INSTR_ASIMD_BFDOT_E_V \<equiv> 0x0f40f00f"

abbreviation (input) LIBXSMM_AARCH64_INSTR_ASIMD_BFDOT_V :: u32 where
  "LIBXSMM_AARCH64_INSTR_ASIMD_BFDOT_V \<equiv> 0x2e40fc0b"

abbreviation (input) LIBXSMM_AARCH64_INSTR_SVE_LDR_Z_I_OFF :: u32 where
  "LIBXSMM_AARCH64_INSTR_SVE_LDR_Z_I_OFF \<equiv> 0x85804006"

abbreviation (input) LIBXSMM_AARCH64_INSTR_SVE_LDR_P_I_OFF :: u32 where
  "LIBXSMM_AARCH64_INSTR_SVE_LDR_P_I_OFF \<equiv> 0x85800006"

abbreviation (input) LIBXSMM_AARCH64_INSTR_SVE_STR_Z_I_OFF :: u32 where
  "LIBXSMM_AARCH64_INSTR_SVE_STR_Z_I_OFF \<equiv> 0xe5804006"

abbreviation (input) LIBXSMM_AARCH64_INSTR_SVE_STR_P_I_OFF :: u32 where
  "LIBXSMM_AARCH64_INSTR_SVE_STR_P_I_OFF \<equiv> 0xe5800006"

abbreviation (input) LIBXSMM_AARCH64_INSTR_SVE_LD1B_I_OFF :: u32 where
  "LIBXSMM_AARCH64_INSTR_SVE_LD1B_I_OFF \<equiv> 0xa400a086"

abbreviation (input) LIBXSMM_AARCH64_INSTR_SVE_ST1B_I_OFF :: u32 where
  "LIBXSMM_AARCH64_INSTR_SVE_ST1B_I_OFF \<equiv> 0xe400e086"

abbreviation (input) LIBXSMM_AARCH64_INSTR_SVE_LD1H_I_OFF :: u32 where
  "LIBXSMM_AARCH64_INSTR_SVE_LD1H_I_OFF \<equiv> 0xa4a0a086"

abbreviation (input) LIBXSMM_AARCH64_INSTR_SVE_LD1W_SR :: u32 where
  "LIBXSMM_AARCH64_INSTR_SVE_LD1W_SR \<equiv> 0xa5404083"

abbreviation (input) LIBXSMM_AARCH64_INSTR_SVE_LD1W_I_OFF :: u32 where
  "LIBXSMM_AARCH64_INSTR_SVE_LD1W_I_OFF \<equiv> 0xa540a086"

abbreviation (input) LIBXSMM_AARCH64_INSTR_SVE_LD1W_V_OFF :: u32 where
  "LIBXSMM_AARCH64_INSTR_SVE_LD1W_V_OFF \<equiv> 0x85004083"

abbreviation (input) LIBXSMM_AARCH64_INSTR_SVE_LD1W_V_OFF_SCALE :: u32 where
  "LIBXSMM_AARCH64_INSTR_SVE_LD1W_V_OFF_SCALE \<equiv> 0x85204083"

abbreviation (input) LIBXSMM_AARCH64_INSTR_SVE_LD1W_V_OFF64_SCALE :: u32 where
  "LIBXSMM_AARCH64_INSTR_SVE_LD1W_V_OFF64_SCALE \<equiv> 0xc560c083"

abbreviation (input) LIBXSMM_AARCH64_INSTR_SVE_LD1D_V_OFF64 :: u32 where
  "LIBXSMM_AARCH64_INSTR_SVE_LD1D_V_OFF64 \<equiv> 0xc5c0c083"

abbreviation (input) LIBXSMM_AARCH64_INSTR_SVE_LD1H_V_OFF :: u32 where
  "LIBXSMM_AARCH64_INSTR_SVE_LD1H_V_OFF \<equiv> 0x84804083"

abbreviation (input) LIBXSMM_AARCH64_INSTR_SVE_LD1H_V_OFF_SCALE :: u32 where
  "LIBXSMM_AARCH64_INSTR_SVE_LD1H_V_OFF_SCALE \<equiv> 0x84a04083"

abbreviation (input) LIBXSMM_AARCH64_INSTR_SVE_LD1H_V_OFF64_SCALE :: u32 where
  "LIBXSMM_AARCH64_INSTR_SVE_LD1H_V_OFF64_SCALE \<equiv> 0xc4e0c083"

abbreviation (input) LIBXSMM_AARCH64_INSTR_SVE_LD1D_SR :: u32 where
  "LIBXSMM_AARCH64_INSTR_SVE_LD1D_SR \<equiv> 0xa5e04083"

abbreviation (input) LIBXSMM_AARCH64_INSTR_SVE_LD1D_I_OFF :: u32 where
  "LIBXSMM_AARCH64_INSTR_SVE_LD1D_I_OFF \<equiv> 0xa5e0a086"

abbreviation (input) LIBXSMM_AARCH64_INSTR_SVE_ST1D_SR :: u32 where
  "LIBXSMM_AARCH64_INSTR_SVE_ST1D_SR \<equiv> 0xe5e04083"

abbreviation (input) LIBXSMM_AARCH64_INSTR_SVE_ST1D_I_OFF :: u32 where
  "LIBXSMM_AARCH64_INSTR_SVE_ST1D_I_OFF \<equiv> 0xe5e0e086"

abbreviation (input) LIBXSMM_AARCH64_INSTR_SVE_STNT1D_I_OFF :: u32 where
  "LIBXSMM_AARCH64_INSTR_SVE_STNT1D_I_OFF \<equiv> 0xe590e086"

abbreviation (input) LIBXSMM_AARCH64_INSTR_SVE_ST1W_SR :: u32 where
  "LIBXSMM_AARCH64_INSTR_SVE_ST1W_SR \<equiv> 0xe5404083"

abbreviation (input) LIBXSMM_AARCH64_INSTR_SVE_ST1W_I_OFF :: u32 where
  "LIBXSMM_AARCH64_INSTR_SVE_ST1W_I_OFF \<equiv> 0xe540e086"

abbreviation (input) LIBXSMM_AARCH64_INSTR_SVE_ST1W_V_OFF :: u32 where
  "LIBXSMM_AARCH64_INSTR_SVE_ST1W_V_OFF \<equiv> 0xe5408083"

abbreviation (input) LIBXSMM_AARCH64_INSTR_SVE_ST1W_V_OFF_SCALE :: u32 where
  "LIBXSMM_AARCH64_INSTR_SVE_ST1W_V_OFF_SCALE \<equiv> 0xe5608083"

abbreviation (input) LIBXSMM_AARCH64_INSTR_SVE_ST1W_V_OFF64_SCALE :: u32 where
  "LIBXSMM_AARCH64_INSTR_SVE_ST1W_V_OFF64_SCALE \<equiv> 0xe520c083"

abbreviation (input) LIBXSMM_AARCH64_INSTR_SVE_ST1H_V_OFF :: u32 where
  "LIBXSMM_AARCH64_INSTR_SVE_ST1H_V_OFF \<equiv> 0xe4c08083"

abbreviation (input) LIBXSMM_AARCH64_INSTR_SVE_ST1H_V_OFF_SCALE :: u32 where
  "LIBXSMM_AARCH64_INSTR_SVE_ST1H_V_OFF_SCALE \<equiv> 0xe4e08083"

abbreviation (input) LIBXSMM_AARCH64_INSTR_SVE_ST1H_V_OFF64_SCALE :: u32 where
  "LIBXSMM_AARCH64_INSTR_SVE_ST1H_V_OFF64_SCALE \<equiv> 0xe4a0a083"

abbreviation (input) LIBXSMM_AARCH64_INSTR_SVE_ST1H_I_OFF :: u32 where
  "LIBXSMM_AARCH64_INSTR_SVE_ST1H_I_OFF \<equiv> 0xe4a0e086"

abbreviation (input) LIBXSMM_AARCH64_INSTR_SVE_STNT1W_I_OFF :: u32 where
  "LIBXSMM_AARCH64_INSTR_SVE_STNT1W_I_OFF \<equiv> 0xe510e086"

abbreviation (input) LIBXSMM_AARCH64_INSTR_SVE_LD1RB_I_OFF :: u32 where
  "LIBXSMM_AARCH64_INSTR_SVE_LD1RB_I_OFF \<equiv> 0x84408086"

abbreviation (input) LIBXSMM_AARCH64_INSTR_SVE_LD1RH_I_OFF :: u32 where
  "LIBXSMM_AARCH64_INSTR_SVE_LD1RH_I_OFF \<equiv> 0x84c0a086"

abbreviation (input) LIBXSMM_AARCH64_INSTR_SVE_LD1RW_I_OFF :: u32 where
  "LIBXSMM_AARCH64_INSTR_SVE_LD1RW_I_OFF \<equiv> 0x8540c086"

abbreviation (input) LIBXSMM_AARCH64_INSTR_SVE_LD1RD_I_OFF :: u32 where
  "LIBXSMM_AARCH64_INSTR_SVE_LD1RD_I_OFF \<equiv> 0x85c0e086"

abbreviation (input) LIBXSMM_AARCH64_INSTR_SVE_LD1RQD_I_OFF :: u32 where
  "LIBXSMM_AARCH64_INSTR_SVE_LD1RQD_I_OFF \<equiv> 0xa5802086"

abbreviation (input) LIBXSMM_AARCH64_INSTR_SVE_PRFW_I_OFF :: u32 where
  "LIBXSMM_AARCH64_INSTR_SVE_PRFW_I_OFF \<equiv> 0x85c04085"

abbreviation (input) LIBXSMM_AARCH64_INSTR_SVE_PRFD_I_OFF :: u32 where
  "LIBXSMM_AARCH64_INSTR_SVE_PRFD_I_OFF \<equiv> 0x85c06085"

abbreviation (input) LIBXSMM_AARCH64_INSTR_SVE_MOV_R_P :: u32 where
  "LIBXSMM_AARCH64_INSTR_SVE_MOV_R_P \<equiv> 0x0528a082"

abbreviation (input) LIBXSMM_AARCH64_INSTR_SVE_SEL_V_P :: u32 where
  "LIBXSMM_AARCH64_INSTR_SVE_SEL_V_P \<equiv> 0x0520c083"

abbreviation (input) LIBXSMM_AARCH64_INSTR_SVE_DUP_GP_V :: u32 where
  "LIBXSMM_AARCH64_INSTR_SVE_DUP_GP_V \<equiv> 0x05203802"

abbreviation (input) LIBXSMM_AARCH64_INSTR_SVE_IS_PREDICATED :: u32 where
  "LIBXSMM_AARCH64_INSTR_SVE_IS_PREDICATED \<equiv> 0x80"

abbreviation (input) LIBXSMM_AARCH64_INSTR_SVE_IS_INDEXED :: u32 where
  "LIBXSMM_AARCH64_INSTR_SVE_IS_INDEXED \<equiv> 0x40"

abbreviation (input) LIBXSMM_AARCH64_INSTR_SVE_SRC0_IS_DST :: u32 where
  "LIBXSMM_AARCH64_INSTR_SVE_SRC0_IS_DST \<equiv> 0x20"

abbreviation (input) LIBXSMM_AARCH64_INSTR_SVE_HAS_IMM :: u32 where
  "LIBXSMM_AARCH64_INSTR_SVE_HAS_IMM \<equiv> 0x04"

abbreviation (input) LIBXSMM_AARCH64_INSTR_SVE_HAS_SRC0 :: u32 where
  "LIBXSMM_AARCH64_INSTR_SVE_HAS_SRC0 \<equiv> 0x02"

abbreviation (input) LIBXSMM_AARCH64_INSTR_SVE_HAS_SRC1 :: u32 where
  "LIBXSMM_AARCH64_INSTR_SVE_HAS_SRC1 \<equiv> 0x01"

abbreviation (input) LIBXSMM_AARCH64_INSTR_SVE_AND_V :: u32 where
  "LIBXSMM_AARCH64_INSTR_SVE_AND_V \<equiv> 0x04203003"

abbreviation (input) LIBXSMM_AARCH64_INSTR_SVE_EOR_V :: u32 where
  "LIBXSMM_AARCH64_INSTR_SVE_EOR_V \<equiv> 0x04a03003"

abbreviation (input) LIBXSMM_AARCH64_INSTR_SVE_ORR_V :: u32 where
  "LIBXSMM_AARCH64_INSTR_SVE_ORR_V \<equiv> 0x04603003"

abbreviation (input) LIBXSMM_AARCH64_INSTR_SVE_ADD_V :: u32 where
  "LIBXSMM_AARCH64_INSTR_SVE_ADD_V \<equiv> 0x04200003"

abbreviation (input) LIBXSMM_AARCH64_INSTR_SVE_LSL_I_V :: u32 where
  "LIBXSMM_AARCH64_INSTR_SVE_LSL_I_V \<equiv> 0x04209c06"

abbreviation (input) LIBXSMM_AARCH64_INSTR_SVE_LSR_I_V :: u32 where
  "LIBXSMM_AARCH64_INSTR_SVE_LSR_I_V \<equiv> 0x04209406"

abbreviation (input) LIBXSMM_AARCH64_INSTR_SVE_FADD_V :: u32 where
  "LIBXSMM_AARCH64_INSTR_SVE_FADD_V \<equiv> 0x65000003"

abbreviation (input) LIBXSMM_AARCH64_INSTR_SVE_FSUB_V :: u32 where
  "LIBXSMM_AARCH64_INSTR_SVE_FSUB_V \<equiv> 0x65000403"

abbreviation (input) LIBXSMM_AARCH64_INSTR_SVE_FMUL_V :: u32 where
  "LIBXSMM_AARCH64_INSTR_SVE_FMUL_V \<equiv> 0x65000803"

abbreviation (input) LIBXSMM_AARCH64_INSTR_SVE_FRECPE_V :: u32 where
  "LIBXSMM_AARCH64_INSTR_SVE_FRECPE_V \<equiv> 0x650e3002"

abbreviation (input) LIBXSMM_AARCH64_INSTR_SVE_FRECPS_V :: u32 where
  "LIBXSMM_AARCH64_INSTR_SVE_FRECPS_V \<equiv> 0x65001803"

abbreviation (input) LIBXSMM_AARCH64_INSTR_SVE_FRSQRTE_V :: u32 where
  "LIBXSMM_AARCH64_INSTR_SVE_FRSQRTE_V \<equiv> 0x650f3002"

abbreviation (input) LIBXSMM_AARCH64_INSTR_SVE_FRSQRTS_V :: u32 where
  "LIBXSMM_AARCH64_INSTR_SVE_FRSQRTS_V \<equiv> 0x65001c03"

abbreviation (input) LIBXSMM_AARCH64_INSTR_SVE_BFMMLA_V :: u32 where
  "LIBXSMM_AARCH64_INSTR_SVE_BFMMLA_V \<equiv> 0x6460e403"

abbreviation (input) LIBXSMM_AARCH64_INSTR_SVE_FMMLA_V :: u32 where
  "LIBXSMM_AARCH64_INSTR_SVE_FMMLA_V \<equiv> 0x64a0e403"

abbreviation (input) LIBXSMM_AARCH64_INSTR_SVE_SMMLA_V :: u32 where
  "LIBXSMM_AARCH64_INSTR_SVE_SMMLA_V \<equiv> 0x45009803"

abbreviation (input) LIBXSMM_AARCH64_INSTR_SVE_UMMLA_V :: u32 where
  "LIBXSMM_AARCH64_INSTR_SVE_UMMLA_V \<equiv> 0x45c09803"

abbreviation (input) LIBXSMM_AARCH64_INSTR_SVE_USMMLA_V :: u32 where
  "LIBXSMM_AARCH64_INSTR_SVE_USMMLA_V \<equiv> 0x45809803"

abbreviation (input) LIBXSMM_AARCH64_INSTR_SVE_TRN1_V :: u32 where
  "LIBXSMM_AARCH64_INSTR_SVE_TRN1_V \<equiv> 0x05207003"

abbreviation (input) LIBXSMM_AARCH64_INSTR_SVE_TRN2_V :: u32 where
  "LIBXSMM_AARCH64_INSTR_SVE_TRN2_V \<equiv> 0x05207403"

abbreviation (input) LIBXSMM_AARCH64_INSTR_SVE_UUNPKLO_V :: u32 where
  "LIBXSMM_AARCH64_INSTR_SVE_UUNPKLO_V \<equiv> 0x05323802"

abbreviation (input) LIBXSMM_AARCH64_INSTR_SVE_UUNPKHI_V :: u32 where
  "LIBXSMM_AARCH64_INSTR_SVE_UUNPKHI_V \<equiv> 0x05333802"

abbreviation (input) LIBXSMM_AARCH64_INSTR_SVE_ORR_P :: u32 where
  "LIBXSMM_AARCH64_INSTR_SVE_ORR_P \<equiv> 0x25804003"

abbreviation (input) LIBXSMM_AARCH64_INSTR_SVE_UZP_P_E :: u32 where
  "LIBXSMM_AARCH64_INSTR_SVE_UZP_P_E \<equiv> 0x05204803"

abbreviation (input) LIBXSMM_AARCH64_INSTR_SVE_UZP_P_O :: u32 where
  "LIBXSMM_AARCH64_INSTR_SVE_UZP_P_O \<equiv> 0x05204c03"

abbreviation (input) LIBXSMM_AARCH64_INSTR_SVE_ZIP_P_H :: u32 where
  "LIBXSMM_AARCH64_INSTR_SVE_ZIP_P_H \<equiv> 0x05204403"

abbreviation (input) LIBXSMM_AARCH64_INSTR_SVE_ZIP_P_L :: u32 where
  "LIBXSMM_AARCH64_INSTR_SVE_ZIP_P_L \<equiv> 0x05204003"

abbreviation (input) LIBXSMM_AARCH64_INSTR_SVE_UZP1_V :: u32 where
  "LIBXSMM_AARCH64_INSTR_SVE_UZP1_V \<equiv> 0x05206803"

abbreviation (input) LIBXSMM_AARCH64_INSTR_SVE_UZP2_V :: u32 where
  "LIBXSMM_AARCH64_INSTR_SVE_UZP2_V \<equiv> 0x05206c03"

abbreviation (input) LIBXSMM_AARCH64_INSTR_SVE_ZIP1_V :: u32 where
  "LIBXSMM_AARCH64_INSTR_SVE_ZIP1_V \<equiv> 0x05206003"

abbreviation (input) LIBXSMM_AARCH64_INSTR_SVE_ZIP2_V :: u32 where
  "LIBXSMM_AARCH64_INSTR_SVE_ZIP2_V \<equiv> 0x05206403"

abbreviation (input) LIBXSMM_AARCH64_INSTR_SVE_FNEG_V_P :: u32 where
  "LIBXSMM_AARCH64_INSTR_SVE_FNEG_V_P \<equiv> 0x041da082"

abbreviation (input) LIBXSMM_AARCH64_INSTR_SVE_BFCVT_V_P :: u32 where
  "LIBXSMM_AARCH64_INSTR_SVE_BFCVT_V_P \<equiv> 0x658aa082"

abbreviation (input) LIBXSMM_AARCH64_INSTR_SVE_FSQRT_V_P :: u32 where
  "LIBXSMM_AARCH64_INSTR_SVE_FSQRT_V_P \<equiv> 0x650da082"

abbreviation (input) LIBXSMM_AARCH64_INSTR_SVE_FMUL_V_P :: u32 where
  "LIBXSMM_AARCH64_INSTR_SVE_FMUL_V_P \<equiv> 0x650280a2"

abbreviation (input) LIBXSMM_AARCH64_INSTR_SVE_FDIV_V_P :: u32 where
  "LIBXSMM_AARCH64_INSTR_SVE_FDIV_V_P \<equiv> 0x650d80a2"

abbreviation (input) LIBXSMM_AARCH64_INSTR_SVE_FDIVR_V_P :: u32 where
  "LIBXSMM_AARCH64_INSTR_SVE_FDIVR_V_P \<equiv> 0x650c80a2"

abbreviation (input) LIBXSMM_AARCH64_INSTR_SVE_FMIN_V_P :: u32 where
  "LIBXSMM_AARCH64_INSTR_SVE_FMIN_V_P \<equiv> 0x650780a2"

abbreviation (input) LIBXSMM_AARCH64_INSTR_SVE_FMAX_V_P :: u32 where
  "LIBXSMM_AARCH64_INSTR_SVE_FMAX_V_P \<equiv> 0x650680a2"

abbreviation (input) LIBXSMM_AARCH64_INSTR_SVE_FADD_I_P :: u32 where
  "LIBXSMM_AARCH64_INSTR_SVE_FADD_I_P \<equiv> 0x65188086"

abbreviation (input) LIBXSMM_AARCH64_INSTR_SVE_FMLA_V_P :: u32 where
  "LIBXSMM_AARCH64_INSTR_SVE_FMLA_V_P \<equiv> 0x65200083"

abbreviation (input) LIBXSMM_AARCH64_INSTR_SVE_FMLS_V_P :: u32 where
  "LIBXSMM_AARCH64_INSTR_SVE_FMLS_V_P \<equiv> 0x65202083"

abbreviation (input) LIBXSMM_AARCH64_INSTR_SVE_FADDV_V_P :: u32 where
  "LIBXSMM_AARCH64_INSTR_SVE_FADDV_V_P \<equiv> 0x65002082"

abbreviation (input) LIBXSMM_AARCH64_INSTR_SVE_FMAXV_V_P :: u32 where
  "LIBXSMM_AARCH64_INSTR_SVE_FMAXV_V_P \<equiv> 0x65062082"

abbreviation (input) LIBXSMM_AARCH64_INSTR_SVE_FMINV_V_P :: u32 where
  "LIBXSMM_AARCH64_INSTR_SVE_FMINV_V_P \<equiv> 0x65072082"

abbreviation (input) LIBXSMM_AARCH64_INSTR_SVE_FRINTM_V_P :: u32 where
  "LIBXSMM_AARCH64_INSTR_SVE_FRINTM_V_P \<equiv> 0x6502a082"

abbreviation (input) LIBXSMM_AARCH64_INSTR_SVE_FRINTI_V_P :: u32 where
  "LIBXSMM_AARCH64_INSTR_SVE_FRINTI_V_P \<equiv> 0x6507a082"

abbreviation (input) LIBXSMM_AARCH64_INSTR_SVE_FCVTZS_V_P_SS :: u32 where
  "LIBXSMM_AARCH64_INSTR_SVE_FCVTZS_V_P_SS \<equiv> 0x659ca082"

abbreviation (input) LIBXSMM_AARCH64_INSTR_SVE_SCVTF_V_P_SS :: u32 where
  "LIBXSMM_AARCH64_INSTR_SVE_SCVTF_V_P_SS \<equiv> 0x6594a082"

abbreviation (input) LIBXSMM_AARCH64_INSTR_SVE_FCMEQ_P_V :: u32 where
  "LIBXSMM_AARCH64_INSTR_SVE_FCMEQ_P_V \<equiv> 0x65006083"

abbreviation (input) LIBXSMM_AARCH64_INSTR_SVE_FCMNE_P_V :: u32 where
  "LIBXSMM_AARCH64_INSTR_SVE_FCMNE_P_V \<equiv> 0x65006093"

abbreviation (input) LIBXSMM_AARCH64_INSTR_SVE_FCMGT_P_V :: u32 where
  "LIBXSMM_AARCH64_INSTR_SVE_FCMGT_P_V \<equiv> 0x65004093"

abbreviation (input) LIBXSMM_AARCH64_INSTR_SVE_FCMLT_P_V :: u32 where
  "LIBXSMM_AARCH64_INSTR_SVE_FCMLT_P_V \<equiv> 0x65004183"

abbreviation (input) LIBXSMM_AARCH64_INSTR_SVE_FCMLE_P_V :: u32 where
  "LIBXSMM_AARCH64_INSTR_SVE_FCMLE_P_V \<equiv> 0x65004193"

abbreviation (input) LIBXSMM_AARCH64_INSTR_SVE_FCMGE_P_V :: u32 where
  "LIBXSMM_AARCH64_INSTR_SVE_FCMGE_P_V \<equiv> 0x65004083"

abbreviation (input) LIBXSMM_AARCH64_INSTR_SVE_FCMGT_Z_V :: u32 where
  "LIBXSMM_AARCH64_INSTR_SVE_FCMGT_Z_V \<equiv> 0x65102092"

abbreviation (input) LIBXSMM_AARCH64_INSTR_SVE_CMPGT_Z_V :: u32 where
  "LIBXSMM_AARCH64_INSTR_SVE_CMPGT_Z_V \<equiv> 0x24200092"

abbreviation (input) LIBXSMM_AARCH64_INSTR_SVE_BFDOT_V :: u32 where
  "LIBXSMM_AARCH64_INSTR_SVE_BFDOT_V \<equiv> 0x64608003"

abbreviation (input) LIBXSMM_AARCH64_INSTR_SVE_USDOT_V :: u32 where
  "LIBXSMM_AARCH64_INSTR_SVE_USDOT_V \<equiv> 0x44807803"

abbreviation (input) LIBXSMM_AARCH64_INSTR_SVE_FMLA_V_I :: u32 where
  "LIBXSMM_AARCH64_INSTR_SVE_FMLA_V_I \<equiv> 0x64200043"

abbreviation (input) LIBXSMM_AARCH64_INSTR_SVE_FMLS_V_I :: u32 where
  "LIBXSMM_AARCH64_INSTR_SVE_FMLS_V_I \<equiv> 0x64200443"

abbreviation (input) LIBXSMM_AARCH64_INSTR_SVE_FMUL_V_I :: u32 where
  "LIBXSMM_AARCH64_INSTR_SVE_FMUL_V_I \<equiv> 0x64202043"

abbreviation (input) LIBXSMM_AARCH64_INSTR_SVE_BFDOT_V_I :: u32 where
  "LIBXSMM_AARCH64_INSTR_SVE_BFDOT_V_I \<equiv> 0x64604043"

abbreviation (input) LIBXSMM_AARCH64_INSTR_SVE_SUB_V_I :: u32 where
  "LIBXSMM_AARCH64_INSTR_SVE_SUB_V_I \<equiv> 0x2521c026"

abbreviation (input) LIBXSMM_AARCH64_INSTR_SVE_TBL :: u32 where
  "LIBXSMM_AARCH64_INSTR_SVE_TBL \<equiv> 0x05203003"

abbreviation (input) LIBXSMM_AARCH64_INSTR_SVE_TBX :: u32 where
  "LIBXSMM_AARCH64_INSTR_SVE_TBX \<equiv> 0x05202c03"

abbreviation (input) LIBXSMM_AARCH64_INSTR_SVE_PTRUE :: u32 where
  "LIBXSMM_AARCH64_INSTR_SVE_PTRUE \<equiv> 0x2518e001"

abbreviation (input) LIBXSMM_AARCH64_INSTR_SVE_WHILELT :: u32 where
  "LIBXSMM_AARCH64_INSTR_SVE_WHILELT \<equiv> 0x25201403"

section \<open>Enumerations\<close>

datatype libxsmm_aarch64_shiftmode =
    LIBXSMM_AARCH64_SHIFTMODE_LSL
  | LIBXSMM_AARCH64_SHIFTMODE_LSR
  | LIBXSMM_AARCH64_SHIFTMODE_ASR

primrec shiftmode_val :: "libxsmm_aarch64_shiftmode \<Rightarrow> u32" where
  "shiftmode_val LIBXSMM_AARCH64_SHIFTMODE_LSL = 0x0"
| "shiftmode_val LIBXSMM_AARCH64_SHIFTMODE_LSR = 0x1"
| "shiftmode_val LIBXSMM_AARCH64_SHIFTMODE_ASR = 0x2"

datatype libxsmm_aarch64_gp_width =
    LIBXSMM_AARCH64_GP_WIDTH_W
  | LIBXSMM_AARCH64_GP_WIDTH_X

primrec gp_width_val :: "libxsmm_aarch64_gp_width \<Rightarrow> u32" where
  "gp_width_val LIBXSMM_AARCH64_GP_WIDTH_W = 0x0"
| "gp_width_val LIBXSMM_AARCH64_GP_WIDTH_X = 0x1"

datatype libxsmm_aarch64_asimd_width =
    LIBXSMM_AARCH64_ASIMD_WIDTH_B
  | LIBXSMM_AARCH64_ASIMD_WIDTH_H
  | LIBXSMM_AARCH64_ASIMD_WIDTH_S
  | LIBXSMM_AARCH64_ASIMD_WIDTH_D
  | LIBXSMM_AARCH64_ASIMD_WIDTH_Q

primrec asimd_width_val :: "libxsmm_aarch64_asimd_width \<Rightarrow> u32" where
  "asimd_width_val LIBXSMM_AARCH64_ASIMD_WIDTH_B = 0x0"
| "asimd_width_val LIBXSMM_AARCH64_ASIMD_WIDTH_H = 0x2"
| "asimd_width_val LIBXSMM_AARCH64_ASIMD_WIDTH_S = 0x4"
| "asimd_width_val LIBXSMM_AARCH64_ASIMD_WIDTH_D = 0x6"
| "asimd_width_val LIBXSMM_AARCH64_ASIMD_WIDTH_Q = 0x1"

datatype libxsmm_aarch64_asimd_tupletype =
    LIBXSMM_AARCH64_ASIMD_TUPLETYPE_8B
  | LIBXSMM_AARCH64_ASIMD_TUPLETYPE_16B
  | LIBXSMM_AARCH64_ASIMD_TUPLETYPE_4H
  | LIBXSMM_AARCH64_ASIMD_TUPLETYPE_8H
  | LIBXSMM_AARCH64_ASIMD_TUPLETYPE_2S
  | LIBXSMM_AARCH64_ASIMD_TUPLETYPE_4S
  | LIBXSMM_AARCH64_ASIMD_TUPLETYPE_1D
  | LIBXSMM_AARCH64_ASIMD_TUPLETYPE_2D

primrec asimd_tupletype_val :: "libxsmm_aarch64_asimd_tupletype \<Rightarrow> u32" where
  "asimd_tupletype_val LIBXSMM_AARCH64_ASIMD_TUPLETYPE_8B = 0x0"
| "asimd_tupletype_val LIBXSMM_AARCH64_ASIMD_TUPLETYPE_16B = 0x1"
| "asimd_tupletype_val LIBXSMM_AARCH64_ASIMD_TUPLETYPE_4H = 0x2"
| "asimd_tupletype_val LIBXSMM_AARCH64_ASIMD_TUPLETYPE_8H = 0x3"
| "asimd_tupletype_val LIBXSMM_AARCH64_ASIMD_TUPLETYPE_2S = 0x4"
| "asimd_tupletype_val LIBXSMM_AARCH64_ASIMD_TUPLETYPE_4S = 0x5"
| "asimd_tupletype_val LIBXSMM_AARCH64_ASIMD_TUPLETYPE_1D = 0x6"
| "asimd_tupletype_val LIBXSMM_AARCH64_ASIMD_TUPLETYPE_2D = 0x7"

datatype libxsmm_aarch64_sve_type =
    LIBXSMM_AARCH64_SVE_TYPE_B
  | LIBXSMM_AARCH64_SVE_TYPE_H
  | LIBXSMM_AARCH64_SVE_TYPE_S
  | LIBXSMM_AARCH64_SVE_TYPE_D

primrec sve_type_val :: "libxsmm_aarch64_sve_type \<Rightarrow> u32" where
  "sve_type_val LIBXSMM_AARCH64_SVE_TYPE_B = 0x0"
| "sve_type_val LIBXSMM_AARCH64_SVE_TYPE_H = 0x1"
| "sve_type_val LIBXSMM_AARCH64_SVE_TYPE_S = 0x2"
| "sve_type_val LIBXSMM_AARCH64_SVE_TYPE_D = 0x3"

datatype libxsmm_aarch64_sve_pattern =
    LIBXSMM_AARCH64_SVE_PATTERN_POW2
  | LIBXSMM_AARCH64_SVE_PATTERN_VL1
  | LIBXSMM_AARCH64_SVE_PATTERN_VL2
  | LIBXSMM_AARCH64_SVE_PATTERN_VL3
  | LIBXSMM_AARCH64_SVE_PATTERN_VL4
  | LIBXSMM_AARCH64_SVE_PATTERN_VL5
  | LIBXSMM_AARCH64_SVE_PATTERN_VL6
  | LIBXSMM_AARCH64_SVE_PATTERN_VL7
  | LIBXSMM_AARCH64_SVE_PATTERN_VL8
  | LIBXSMM_AARCH64_SVE_PATTERN_VL16
  | LIBXSMM_AARCH64_SVE_PATTERN_VL32
  | LIBXSMM_AARCH64_SVE_PATTERN_VL64
  | LIBXSMM_AARCH64_SVE_PATTERN_VL128
  | LIBXSMM_AARCH64_SVE_PATTERN_VL256
  | LIBXSMM_AARCH64_SVE_PATTERN_MUL4
  | LIBXSMM_AARCH64_SVE_PATTERN_MUL3
  | LIBXSMM_AARCH64_SVE_PATTERN_ALL

primrec sve_pattern_val :: "libxsmm_aarch64_sve_pattern \<Rightarrow> u32" where
  "sve_pattern_val LIBXSMM_AARCH64_SVE_PATTERN_POW2 = 0x00"
| "sve_pattern_val LIBXSMM_AARCH64_SVE_PATTERN_VL1 = 0x01"
| "sve_pattern_val LIBXSMM_AARCH64_SVE_PATTERN_VL2 = 0x02"
| "sve_pattern_val LIBXSMM_AARCH64_SVE_PATTERN_VL3 = 0x03"
| "sve_pattern_val LIBXSMM_AARCH64_SVE_PATTERN_VL4 = 0x04"
| "sve_pattern_val LIBXSMM_AARCH64_SVE_PATTERN_VL5 = 0x05"
| "sve_pattern_val LIBXSMM_AARCH64_SVE_PATTERN_VL6 = 0x06"
| "sve_pattern_val LIBXSMM_AARCH64_SVE_PATTERN_VL7 = 0x07"
| "sve_pattern_val LIBXSMM_AARCH64_SVE_PATTERN_VL8 = 0x08"
| "sve_pattern_val LIBXSMM_AARCH64_SVE_PATTERN_VL16 = 0x09"
| "sve_pattern_val LIBXSMM_AARCH64_SVE_PATTERN_VL32 = 0x0a"
| "sve_pattern_val LIBXSMM_AARCH64_SVE_PATTERN_VL64 = 0x0b"
| "sve_pattern_val LIBXSMM_AARCH64_SVE_PATTERN_VL128 = 0x0c"
| "sve_pattern_val LIBXSMM_AARCH64_SVE_PATTERN_VL256 = 0x0d"
| "sve_pattern_val LIBXSMM_AARCH64_SVE_PATTERN_MUL4 = 0x1d"
| "sve_pattern_val LIBXSMM_AARCH64_SVE_PATTERN_MUL3 = 0x1e"
| "sve_pattern_val LIBXSMM_AARCH64_SVE_PATTERN_ALL = 0x1f"

datatype libxsmm_aarch64_sve_prefetch =
    LIBXSMM_AARCH64_SVE_PREFETCH_LDL1KEEP
  | LIBXSMM_AARCH64_SVE_PREFETCH_LDL1STRM
  | LIBXSMM_AARCH64_SVE_PREFETCH_LDL2KEEP
  | LIBXSMM_AARCH64_SVE_PREFETCH_LDL2STRM
  | LIBXSMM_AARCH64_SVE_PREFETCH_LDL3KEEP
  | LIBXSMM_AARCH64_SVE_PREFETCH_LDL3STRM
  | LIBXSMM_AARCH64_SVE_PREFETCH_STL1KEEP
  | LIBXSMM_AARCH64_SVE_PREFETCH_STL1STRM
  | LIBXSMM_AARCH64_SVE_PREFETCH_STL2KEEP
  | LIBXSMM_AARCH64_SVE_PREFETCH_STL2STRM
  | LIBXSMM_AARCH64_SVE_PREFETCH_STL3KEEP
  | LIBXSMM_AARCH64_SVE_PREFETCH_STL3STRM

primrec sve_prefetch_val :: "libxsmm_aarch64_sve_prefetch \<Rightarrow> u32" where
  "sve_prefetch_val LIBXSMM_AARCH64_SVE_PREFETCH_LDL1KEEP = 0x0"
| "sve_prefetch_val LIBXSMM_AARCH64_SVE_PREFETCH_LDL1STRM = 0x1"
| "sve_prefetch_val LIBXSMM_AARCH64_SVE_PREFETCH_LDL2KEEP = 0x2"
| "sve_prefetch_val LIBXSMM_AARCH64_SVE_PREFETCH_LDL2STRM = 0x3"
| "sve_prefetch_val LIBXSMM_AARCH64_SVE_PREFETCH_LDL3KEEP = 0x4"
| "sve_prefetch_val LIBXSMM_AARCH64_SVE_PREFETCH_LDL3STRM = 0x5"
| "sve_prefetch_val LIBXSMM_AARCH64_SVE_PREFETCH_STL1KEEP = 0x8"
| "sve_prefetch_val LIBXSMM_AARCH64_SVE_PREFETCH_STL1STRM = 0x9"
| "sve_prefetch_val LIBXSMM_AARCH64_SVE_PREFETCH_STL2KEEP = 0xa"
| "sve_prefetch_val LIBXSMM_AARCH64_SVE_PREFETCH_STL2STRM = 0xb"
| "sve_prefetch_val LIBXSMM_AARCH64_SVE_PREFETCH_STL3KEEP = 0xc"
| "sve_prefetch_val LIBXSMM_AARCH64_SVE_PREFETCH_STL3STRM = 0xd"

end
