(* ===== verification/Gencode.thy ===== *)
theory Gencode
  imports AArch64_Defs
begin

text \<open>
  The code stream that every kernel generator writes to (\<open>libxsmm_generated_code\<close> in
  \<open>include/libxsmm_generator.h\<close>), and the contract of an instruction: on a well-formed stream it
  appends at most a given number of 32-bit words or records an error, and never touches the bytes
  already generated nor the memory behind the buffer. \<open>generated_code\<close> is the memory from the
  start of the buffer on; it does not end with the buffer, so that a store out of bounds is visible as
  a change at an address not below \<open>buffer_size\<close>.
\<close>

named_theorems emits_rules \<open>the shapes an instruction may end in\<close>

section \<open>The stream\<close>

record libxsmm_generated_code =
  generated_code :: "nat \<Rightarrow> u8"
  buffer_size :: u32
  code_size :: u32
  code_type :: u32
  data_size :: u32
  last_error :: u32
  arch :: u32

type_synonym gencode = libxsmm_generated_code

definition st32 :: "(nat \<Rightarrow> u8) \<Rightarrow> nat \<Rightarrow> u32 \<Rightarrow> nat \<Rightarrow> u8" where
  "st32 m a w = m(a := ucast w, a + 1 := ucast (drop_bit 8 w), a + 2 := ucast (drop_bit 16 w),
     a + 3 := ucast (drop_bit 24 w))"

definition rd32 :: "(nat \<Rightarrow> u8) \<Rightarrow> nat \<Rightarrow> u32" where
  "rd32 m a = ucast (m a) OR push_bit 8 (ucast (m (a + 1))) OR push_bit 16 (ucast (m (a + 2)))
     OR push_bit 24 (ucast (m (a + 3)))"

definition libxsmm_handle_error :: "gencode \<Rightarrow> u32 \<Rightarrow> gencode" where
  "libxsmm_handle_error g i_error_code = g\<lparr>last_error := i_error_code\<rparr>"

definition LIBXSMM_EXIT_ERROR :: "gencode \<Rightarrow> gencode" where
  "LIBXSMM_EXIT_ERROR g = libxsmm_handle_error g LIBXSMM_ERR_GENERAL"

text \<open>
  The three statements every encoder function shares: the test for four bytes of space (an unsigned
  subtraction), the stores to \<open>code[code_head]\<close>, and the advance of the head.
\<close>

definition no_space :: "gencode \<Rightarrow> bool" where
  "no_space g \<longleftrightarrow> buffer_size g - code_size g < 4"

definition head_addr :: "gencode \<Rightarrow> nat" where
  "head_addr g = unat (code_size g) div 4 * 4"

definition put_code :: "gencode \<Rightarrow> u32 \<Rightarrow> gencode" where
  "put_code g w = g\<lparr>generated_code := st32 (generated_code g) (head_addr g) w\<rparr>"

definition advance_code :: "gencode \<Rightarrow> gencode" where
  "advance_code g = g\<lparr>code_size := code_size g + 4\<rparr>"

section \<open>Memory\<close>

lemma rd32_st32: "rd32 (st32 m a w) a = w"
proof (rule word_eq_bitI)
  fix i
  assume "i < LENGTH(32)"
  then consider "i < 8" | "8 \<le> i" "i - 8 < 8" | "16 \<le> i" "i - 16 < 8" | "24 \<le> i" "i - 24 < 8" "i < 32"
    by (simp; linarith)
  then show "bit (rd32 (st32 m a w) a) i = bit w i"
    by cases (auto simp: rd32_def st32_def bit_simps dest: bit_u8D)
qed

lemma st32_other: "b < a \<or> a + 4 \<le> b \<Longrightarrow> st32 m a w b = m b"
  by (auto simp: st32_def)

lemma rd32_cong:
  "(\<And>b. a \<le> b \<Longrightarrow> b < a + 4 \<Longrightarrow> m b = m' b) \<Longrightarrow> rd32 m a = rd32 m' a"
  by (simp add: rd32_def)

lemma rd32_st32_other: "b + 4 \<le> a \<or> a + 4 \<le> b \<Longrightarrow> rd32 (st32 m a w) b = rd32 m b"
  by (rule rd32_cong) (auto simp: st32_def)

section \<open>Well-formed streams\<close>

definition wf_code :: "gencode \<Rightarrow> bool" where
  "wf_code g \<longleftrightarrow> unat (code_size g) \<le> unat (buffer_size g) \<and> 4 dvd unat (code_size g)"

lemma no_space_iff:
  assumes "wf_code g"
  shows "no_space g \<longleftrightarrow> unat (buffer_size g) < unat (code_size g) + 4"
proof -
  have le: "code_size g \<le> buffer_size g"
    using assms by (simp add: wf_code_def word_le_nat_alt)
  have "unat (buffer_size g - code_size g) = unat (buffer_size g) - unat (code_size g)"
    by (rule unat_sub [OF le])
  then show ?thesis
    using assms by (auto simp: no_space_def wf_code_def word_less_nat_alt)
qed

lemma head_addr_wf: "wf_code g \<Longrightarrow> head_addr g = unat (code_size g)"
  by (simp add: head_addr_def wf_code_def)

lemma unat_advance:
  assumes "wf_code g" and "\<not> no_space g"
  shows "unat (code_size g + 4) = unat (code_size g) + 4"
proof -
  have "unat (code_size g) + 4 \<le> unat (buffer_size g)"
    using assms by (simp add: no_space_iff)
  then show ?thesis
    using unat_less_width [of "buffer_size g"] by (subst unat_add_small) simp_all
qed

lemma put_code_sel [simp]:
  "buffer_size (put_code g w) = buffer_size g" "code_size (put_code g w) = code_size g"
  "code_type (put_code g w) = code_type g" "data_size (put_code g w) = data_size g"
  "last_error (put_code g w) = last_error g" "arch (put_code g w) = arch g"
  by (simp_all add: put_code_def)

lemma advance_code_sel [simp]:
  "buffer_size (advance_code g) = buffer_size g" "code_size (advance_code g) = code_size g + 4"
  "code_type (advance_code g) = code_type g" "data_size (advance_code g) = data_size g"
  "last_error (advance_code g) = last_error g" "arch (advance_code g) = arch g"
  "generated_code (advance_code g) = generated_code g"
  by (simp_all add: advance_code_def)

lemma libxsmm_handle_error_sel [simp]:
  "buffer_size (libxsmm_handle_error g e) = buffer_size g"
  "code_size (libxsmm_handle_error g e) = code_size g"
  "code_type (libxsmm_handle_error g e) = code_type g"
  "data_size (libxsmm_handle_error g e) = data_size g"
  "last_error (libxsmm_handle_error g e) = e" "arch (libxsmm_handle_error g e) = arch g"
  "generated_code (libxsmm_handle_error g e) = generated_code g"
  by (simp_all add: libxsmm_handle_error_def)

section \<open>The contract of an instruction\<close>

text \<open>
  \<open>emits n g g'\<close>: from \<open>g\<close> to \<open>g'\<close> at most \<open>n\<close> words have been appended, all inside the buffer,
  nothing else in memory has changed, and an error once recorded is not forgotten.
\<close>

definition emits :: "nat \<Rightarrow> gencode \<Rightarrow> gencode \<Rightarrow> bool" where
  "emits n g g' \<longleftrightarrow>
     arch g' = arch g \<and> code_type g' = code_type g \<and> buffer_size g' = buffer_size g \<and>
     data_size g' = data_size g \<and>
     (\<exists>k\<le>n. unat (code_size g') = unat (code_size g) + 4 * k) \<and>
     unat (code_size g') \<le> unat (buffer_size g) \<and>
     (\<forall>a. a < unat (code_size g) \<or> unat (buffer_size g) \<le> a \<longrightarrow> generated_code g' a = generated_code g a) \<and>
     (last_error g' = 0 \<longrightarrow> last_error g = 0)"

lemma emitsI:
  assumes "arch g' = arch g" "code_type g' = code_type g" "buffer_size g' = buffer_size g"
    "data_size g' = data_size g" "k \<le> n" "unat (code_size g') = unat (code_size g) + 4 * k"
    "unat (code_size g') \<le> unat (buffer_size g)"
    "\<And>a. a < unat (code_size g) \<or> unat (buffer_size g) \<le> a \<Longrightarrow> generated_code g' a = generated_code g a"
    "last_error g' = 0 \<Longrightarrow> last_error g = 0"
  shows "emits n g g'"
  using assms unfolding emits_def by blast

lemma emits_mono: "emits n g g' \<Longrightarrow> n \<le> m \<Longrightarrow> emits m g g'"
  unfolding emits_def by (meson order_trans)

lemma emits_wf: "emits n g g' \<Longrightarrow> wf_code g \<Longrightarrow> wf_code g'"
  unfolding emits_def wf_code_def by (metis dvd_add dvd_triv_left)

lemma emits_trans:
  assumes "emits n g g'" and "emits m g' g''"
  shows "emits (n + m) g g''"
proof -
  from assms(1) obtain k where k: "k \<le> n" "unat (code_size g') = unat (code_size g) + 4 * k"
    unfolding emits_def by blast
  from assms(2) obtain l where l: "l \<le> m" "unat (code_size g'') = unat (code_size g') + 4 * l"
    unfolding emits_def by blast
  show ?thesis
  proof (rule emitsI [where k = "k + l"])
    fix a
    assume "a < unat (code_size g) \<or> unat (buffer_size g) \<le> a"
    then show "generated_code g'' a = generated_code g a"
      using assms k(2) unfolding emits_def by (metis trans_less_add1)
  qed (use assms k l in \<open>simp_all add: emits_def\<close>)
qed

lemma emits_refl: "wf_code g \<Longrightarrow> emits n g g"
  by (rule emitsI [where k = 0]) (auto simp: wf_code_def)

text \<open>
  An encoder function ends in one of four ways: an error before it wrote anything, an error with a
  word half written at the head, and the word complete and the head advanced; these rules prove the
  contract by following the definition's structure.
\<close>

lemma emits_error:
  assumes "wf_code g" and "e \<noteq> 0"
  shows "emits (Suc 0) g (libxsmm_handle_error g e)"
  by (rule emitsI [where k = 0]) (use assms in \<open>simp_all add: wf_code_def\<close>)

lemma put_code_outside:
  assumes "wf_code g" and "\<not> no_space g" and "a < unat (code_size g) \<or> unat (buffer_size g) \<le> a"
  shows "generated_code (put_code g w) a = generated_code g a"
proof -
  have "unat (code_size g) + 4 \<le> unat (buffer_size g)"
    using assms(1,2) by (simp add: no_space_iff)
  then show ?thesis
    using assms by (auto simp: put_code_def head_addr_wf intro!: st32_other)
qed

lemma emits_put_error:
  assumes "wf_code g" and "\<not> no_space g" and "e \<noteq> 0"
  shows "emits (Suc 0) g (libxsmm_handle_error (put_code g w) e)"
  by (rule emitsI [where k = 0]) (use assms put_code_outside in \<open>simp_all add: wf_code_def\<close>)

lemma emits_word:
  assumes "wf_code g" and "\<not> no_space g"
  shows "emits (Suc 0) g (advance_code (put_code g w))"
  by (rule emitsI [where k = 1])
    (use assms put_code_outside in \<open>simp_all add: unat_advance no_space_iff\<close>)

lemma emits_exit: "wf_code g \<Longrightarrow> emits (Suc 0) g (LIBXSMM_EXIT_ERROR g)"
  by (simp add: LIBXSMM_EXIT_ERROR_def emits_error)

lemma emits_put_exit:
  "wf_code g \<Longrightarrow> \<not> no_space g \<Longrightarrow> emits (Suc 0) g (LIBXSMM_EXIT_ERROR (put_code g w))"
  by (simp add: LIBXSMM_EXIT_ERROR_def emits_put_error)

lemma emits_if: "(b \<Longrightarrow> emits n g x) \<Longrightarrow> (\<not> b \<Longrightarrow> emits n g y) \<Longrightarrow> emits n g (if b then x else y)"
  by simp

lemma emits_let: "(\<And>x. emits n g (f x)) \<Longrightarrow> emits n g (Let a f)"
  by (simp add: Let_def)

lemma emits_case_prod: "(\<And>x y. emits n g (f x y)) \<Longrightarrow> emits n g (case p of (x, y) \<Rightarrow> f x y)"
  by (cases p) simp

lemma emits_case_option:
  "emits n g a \<Longrightarrow> (\<And>x. emits n g (f x)) \<Longrightarrow> emits n g (case p of None \<Rightarrow> a | Some x \<Rightarrow> f x)"
  by (cases p) simp_all

lemmas [emits_rules] = emits_if emits_let emits_case_prod emits_case_option emits_exit emits_put_exit
  emits_word emits_error emits_put_error

locale instruction =
  fixes step :: "gencode \<Rightarrow> gencode" and n :: nat
  assumes emits: "wf_code g \<Longrightarrow> emits n g (step g)"
begin

lemma wf: "wf_code g \<Longrightarrow> wf_code (step g)"
  by (rule emits_wf [OF emits])

lemma code_kept: "wf_code g \<Longrightarrow> a < unat (code_size g) \<Longrightarrow> generated_code (step g) a = generated_code g a"
  using emits [of g] by (simp add: emits_def)

lemma no_overrun:
  "wf_code g \<Longrightarrow> unat (buffer_size g) \<le> a \<Longrightarrow> generated_code (step g) a = generated_code g a"
  using emits [of g] by (simp add: emits_def)

lemma error_kept: "wf_code g \<Longrightarrow> last_error g \<noteq> 0 \<Longrightarrow> last_error (step g) \<noteq> 0"
  using emits [of g] by (auto simp: emits_def)

end

locale instruction_pair = fst: instruction f n + snd: instruction s m
  for f :: "gencode \<Rightarrow> gencode" and n :: nat and s :: "gencode \<Rightarrow> gencode" and m :: nat

sublocale instruction_pair \<subseteq> both: instruction "\<lambda>g. s (f g)" "n + m"
  by unfold_locales (blast intro: emits_trans fst.emits snd.emits fst.wf)

section \<open>Appending a word\<close>

definition emit_word :: "gencode \<Rightarrow> u32 \<Rightarrow> gencode" where
  "emit_word g w = advance_code (put_code g w)"

text \<open>\<open>ready n g\<close>: the target is AArch64, the stream is binary and has room for \<open>n\<close> more words.\<close>

definition ready :: "nat \<Rightarrow> gencode \<Rightarrow> bool" where
  "ready n g \<longleftrightarrow> wf_code g \<and> LIBXSMM_AARCH64_V81 \<le> arch g \<and> 1 < code_type g \<and>
     unat (code_size g) + 4 * n \<le> unat (buffer_size g)"

lemma ready_space: "ready (Suc n) g \<Longrightarrow> \<not> no_space g"
  by (simp add: ready_def no_space_iff)

lemma ready_guards:
  assumes "ready n g"
  shows "\<not> arch g < LIBXSMM_AARCH64_V81" and "1 < code_type g" and "wf_code g"
  using assms by (simp_all add: ready_def not_less)

lemma ready_emit: "ready (Suc n) g \<Longrightarrow> ready n (emit_word g w)"
proof -
  assume r: "ready (Suc n) g"
  then have w: "wf_code g" "\<not> no_space g"
    by (simp_all add: ready_guards ready_space)
  then have u: "unat (code_size g + 4) = unat (code_size g) + 4"
    by (rule unat_advance)
  have "wf_code (emit_word g w)"
    unfolding emit_word_def by (rule emits_wf [OF emits_word [OF w]]) (rule w)
  then show ?thesis
    using r u by (simp add: ready_def emit_word_def)
qed

lemma ready_mono: "ready n g \<Longrightarrow> m \<le> n \<Longrightarrow> ready m g"
  unfolding ready_def by auto

text \<open>The words of a stream between two byte addresses.\<close>

definition words_from :: "gencode \<Rightarrow> nat \<Rightarrow> nat \<Rightarrow> u32 list" where
  "words_from g a n = map (\<lambda>i. rd32 (generated_code g) (a + 4 * i)) [0..<n]"

definition emit_words :: "gencode \<Rightarrow> u32 list \<Rightarrow> gencode" where
  "emit_words g ws = foldl emit_word g ws"

lemma emit_words_Nil [simp]: "emit_words g [] = g"
  by (simp add: emit_words_def)

lemma emit_words_Cons [simp]: "emit_words g (w # ws) = emit_words (emit_word g w) ws"
  by (simp add: emit_words_def)

lemma emit_words_append: "emit_words g (xs @ ys) = emit_words (emit_words g xs) ys"
  by (simp add: emit_words_def)

lemma ready_emit_words: "ready (length ws + n) g \<Longrightarrow> ready n (emit_words g ws)"
  by (induction ws arbitrary: g) (simp_all add: ready_emit)

lemma emit_word_code:
  assumes "ready (Suc n) g"
  shows "rd32 (generated_code (emit_word g w)) (unat (code_size g)) = w"
    and "unat (code_size (emit_word g w)) = unat (code_size g) + 4"
    and "a < unat (code_size g) \<Longrightarrow> generated_code (emit_word g w) a = generated_code g a"
proof -
  have w: "wf_code g" "\<not> no_space g"
    using assms by (simp_all add: ready_guards ready_space)
  show "rd32 (generated_code (emit_word g w)) (unat (code_size g)) = w"
    using w by (simp add: emit_word_def put_code_def head_addr_wf rd32_st32)
  show "unat (code_size (emit_word g w)) = unat (code_size g) + 4"
    using w by (simp add: emit_word_def unat_advance)
  show "a < unat (code_size g) \<Longrightarrow> generated_code (emit_word g w) a = generated_code g a"
    using w by (simp add: emit_word_def put_code_outside)
qed

lemma emit_words_size: "ready (length ws) g \<Longrightarrow> unat (code_size (emit_words g ws)) = unat (code_size g) + 4 * length ws"
  by (induction ws arbitrary: g) (simp_all add: ready_emit emit_word_code(2))

lemma emit_words_error: "last_error (emit_words g ws) = last_error g"
  by (induction ws arbitrary: g) (simp_all add: emit_word_def)

lemma emit_words_kept:
  "ready (length ws) g \<Longrightarrow> a < unat (code_size g) \<Longrightarrow>
   generated_code (emit_words g ws) a = generated_code g a"
proof (induction ws arbitrary: g)
  case (Cons w ws)
  then have "ready (length ws) (emit_word g w)" "a < unat (code_size (emit_word g w))"
    using emit_word_code(2) [of "length ws" g w] by (simp_all add: ready_emit)
  with Cons show ?case
    using emit_word_code(3) [of "length ws" g a w] by simp
qed simp

lemma words_from_emit_words:
  "ready (length ws) g \<Longrightarrow> words_from (emit_words g ws) (unat (code_size g)) (length ws) = ws"
proof (induction ws arbitrary: g)
  case Nil
  then show ?case by (simp add: words_from_def)
next
  case (Cons w ws)
  let ?g = "emit_word g w" and ?a = "unat (code_size g)"
  have r: "ready (length ws) ?g"
    using Cons.prems by (simp add: ready_emit)
  have s: "unat (code_size ?g) = ?a + 4"
    using Cons.prems by (intro emit_word_code(2)) simp
  have "rd32 (generated_code (emit_words ?g ws)) ?a = rd32 (generated_code ?g) ?a"
    by (rule rd32_cong) (simp add: emit_words_kept r s)
  also have "\<dots> = w"
    using Cons.prems by (intro emit_word_code(1)) simp
  finally have h: "rd32 (generated_code (emit_words ?g ws)) ?a = w" .
  have "words_from (emit_words ?g ws) (?a + 4) (length ws) = ws"
    using Cons.IH [OF r] s by simp
  then show ?case
    using h by (simp add: words_from_def upt_conv_Cons map_Suc_upt [symmetric] comp_def add.assoc del: upt_Suc)
qed

text \<open>An empty stream of the given size for the examples.\<close>

definition fresh_stream :: "u32 \<Rightarrow> u32 \<Rightarrow> gencode" where
  "fresh_stream a n = \<lparr>generated_code = (\<lambda>_. 0), buffer_size = n, code_size = 0, code_type = 2,
     data_size = 0, last_error = 0, arch = a\<rparr>"

text \<open>The word at the head an operation started from.\<close>

definition emitted :: "gencode \<Rightarrow> gencode \<Rightarrow> u32" where
  "emitted g g' = rd32 (generated_code g') (unat (code_size g))"

lemma emitted_word: "wf_code g \<Longrightarrow> emitted g (advance_code (put_code g w)) = w"
  by (simp add: emitted_def put_code_def head_addr_wf rd32_st32)

end
