(* ===== verification/AArch64_Alu.thy ===== *)
theory AArch64_Alu
  imports Gencode "HOL-Library.Signed_Division"
begin

text \<open>
  The general purpose instructions of \<open>src/generator_aarch64_instructions.c\<close>: loads and stores,
  pair moves, wide immediates, additions and subtractions of immediates of 12, 24 and 64 bits, and
  the register forms. A parameter of C type \<open>int\<close> is an \<open>int\<close> here (its division truncates, so
  it is \<open>sdiv\<close>); the other parameters are words of their width.
\<close>

section \<open>Instructions\<close>

definition libxsmm_aarch64_instruction_alu_move ::
  "gencode \<Rightarrow> u32 \<Rightarrow> u32 \<Rightarrow> u32 \<Rightarrow> int \<Rightarrow> u32 \<Rightarrow> gencode" where
  "libxsmm_aarch64_instruction_alu_move g i_move_instr i_gp_reg_addr i_gp_reg_offset i_offset i_gp_reg_dst =
     (if arch g < LIBXSMM_AARCH64_V81 then LIBXSMM_EXIT_ERROR g
      else if i_move_instr \<notin> {LIBXSMM_AARCH64_INSTR_GP_LDR_R, LIBXSMM_AARCH64_INSTR_GP_LDR_I_OFF,
          LIBXSMM_AARCH64_INSTR_GP_LDR_I_POST, LIBXSMM_AARCH64_INSTR_GP_LDR_I_PRE,
          LIBXSMM_AARCH64_INSTR_GP_LDRH_I_OFF, LIBXSMM_AARCH64_INSTR_GP_LDRH_I_POST,
          LIBXSMM_AARCH64_INSTR_GP_LDRH_I_PRE, LIBXSMM_AARCH64_INSTR_GP_STR_R,
          LIBXSMM_AARCH64_INSTR_GP_STR_I_OFF, LIBXSMM_AARCH64_INSTR_GP_STR_I_POST,
          LIBXSMM_AARCH64_INSTR_GP_STR_I_PRE, LIBXSMM_AARCH64_INSTR_GP_STRH_I_OFF,
          LIBXSMM_AARCH64_INSTR_GP_STRH_I_POST, LIBXSMM_AARCH64_INSTR_GP_STRH_I_PRE}
      then LIBXSMM_EXIT_ERROR g
      else if code_type g > 1 then
        if no_space g then libxsmm_handle_error g LIBXSMM_ERR_BUFFER_TOO_SMALL
        else
          let c = 0xffffff00 AND i_move_instr;
              c = c OR (0x1f AND i_gp_reg_dst);
              c = c OR push_bit 5 (0x1f AND i_gp_reg_addr);
              c = c OR push_bit 25 (0x20 AND i_gp_reg_dst);
              c = (if i_move_instr AND 0x3 = 0x3 \<and> i_move_instr AND 0x4 = 0x0
                   then c OR push_bit 16 (0x1f AND i_gp_reg_offset) OR push_bit 8 (0x20 AND i_gp_reg_offset)
                   else c)
          in case (if i_move_instr AND 0x6 = 0x6 then
                     if i_move_instr = LIBXSMM_AARCH64_INSTR_GP_LDR_I_OFF
                        \<or> i_move_instr = LIBXSMM_AARCH64_INSTR_GP_STR_I_OFF then
                       (let l_imm = (if 0x20 AND i_gp_reg_dst = 0x20 then i_offset sdiv 8 else i_offset sdiv 4)
                        in if l_imm > 0x0fff \<or> i_offset < 0 then None
                           else Some (push_bit 10 (word_of_int (0x00000fff AND l_imm))))
                     else if i_offset < -256 \<or> i_offset > 255 then None
                     else Some (push_bit 12 (word_of_int (0x000001ff AND i_offset)))
                   else Some 0) of
               None \<Rightarrow> LIBXSMM_EXIT_ERROR (put_code g c)
             | Some imm \<Rightarrow> advance_code (put_code g (c OR imm))
      else LIBXSMM_EXIT_ERROR g)"

definition libxsmm_aarch64_instruction_alu_pair_move ::
  "gencode \<Rightarrow> u32 \<Rightarrow> u32 \<Rightarrow> int \<Rightarrow> u32 \<Rightarrow> u32 \<Rightarrow> gencode" where
  "libxsmm_aarch64_instruction_alu_pair_move g i_move_instr i_gp_reg_addr i_offset i_gp_reg_0 i_gp_reg_1 =
     (if arch g < LIBXSMM_AARCH64_V81 then LIBXSMM_EXIT_ERROR g
      else if i_move_instr \<notin> {LIBXSMM_AARCH64_INSTR_GP_LDP_I_OFF, LIBXSMM_AARCH64_INSTR_GP_LDP_I_POST,
          LIBXSMM_AARCH64_INSTR_GP_LDP_I_PRE, LIBXSMM_AARCH64_INSTR_GP_LDNP_I_OFF,
          LIBXSMM_AARCH64_INSTR_GP_STP_I_OFF, LIBXSMM_AARCH64_INSTR_GP_STP_I_POST,
          LIBXSMM_AARCH64_INSTR_GP_STP_I_PRE, LIBXSMM_AARCH64_INSTR_GP_STNP_I_OFF}
      then LIBXSMM_EXIT_ERROR g
      else if code_type g > 1 then
        if no_space g then libxsmm_handle_error g LIBXSMM_ERR_BUFFER_TOO_SMALL
        else
          let (l_opc, l_imm) =
                (if 0x20 AND i_gp_reg_0 = 0x20 then (0x1 :: u32, signed_take_bit 7 (i_offset sdiv 8))
                 else (0x0, signed_take_bit 7 (i_offset sdiv 4)))
          in if l_imm < -64 \<or> l_imm > 63 then LIBXSMM_EXIT_ERROR g
             else
               let c = 0xffffff00 AND i_move_instr;
                   c = c OR (0x1f AND i_gp_reg_0);
                   c = c OR push_bit 5 (0x1f AND i_gp_reg_addr);
                   c = c OR push_bit 10 (0x1f AND i_gp_reg_1);
                   c = c OR push_bit 15 (word_of_int (0x7f AND l_imm));
                   c = c OR push_bit 31 l_opc
               in advance_code (put_code g c)
      else LIBXSMM_EXIT_ERROR g)"

definition libxsmm_aarch64_instruction_alu_move_imm16 ::
  "gencode \<Rightarrow> u32 \<Rightarrow> u32 \<Rightarrow> u8 \<Rightarrow> u32 \<Rightarrow> gencode" where
  "libxsmm_aarch64_instruction_alu_move_imm16 g i_alu_instr i_gp_reg_dst i_shift i_imm16 =
     (if arch g < LIBXSMM_AARCH64_V81 then LIBXSMM_EXIT_ERROR g
      else if i_alu_instr \<notin> {LIBXSMM_AARCH64_INSTR_GP_MOVZ, LIBXSMM_AARCH64_INSTR_GP_MOVN,
          LIBXSMM_AARCH64_INSTR_GP_MOVK}
      then LIBXSMM_EXIT_ERROR g
      else if i_gp_reg_dst < LIBXSMM_AARCH64_GP_REG_X0 \<and> i_shift > 1 \<or> i_shift > 3
      then LIBXSMM_EXIT_ERROR g
      else if code_type g > 1 then
        let l_hw = (if i_gp_reg_dst < LIBXSMM_AARCH64_GP_REG_X0 then 0x1 AND i_shift else 0x3 AND i_shift)
        in if no_space g then libxsmm_handle_error g LIBXSMM_ERR_BUFFER_TOO_SMALL
           else
             let c = 0xffe00000 AND i_alu_instr;
                 c = c OR (0x1f AND i_gp_reg_dst);
                 c = c OR push_bit 26 (0x20 AND i_gp_reg_dst);
                 c = c OR push_bit 5 i_imm16;
                 c = c OR push_bit 21 (ucast l_hw)
             in advance_code (put_code g c)
      else LIBXSMM_EXIT_ERROR g)"

definition libxsmm_aarch64_instruction_alu_set_imm64 :: "gencode \<Rightarrow> u32 \<Rightarrow> u64 \<Rightarrow> gencode" where
  "libxsmm_aarch64_instruction_alu_set_imm64 g i_gp_reg_dst i_imm64 =
     (let imm16 = (\<lambda>k. ucast (ucast (drop_bit k i_imm64) :: u16) :: u32);
          move = (\<lambda>instr shift k g.
            libxsmm_aarch64_instruction_alu_move_imm16 g instr i_gp_reg_dst shift (imm16 k))
      in if i_imm64 \<le> 0xffff
         then move LIBXSMM_AARCH64_INSTR_GP_MOVZ 0 0 g
         else if i_imm64 \<le> 0xffffffff
         then move LIBXSMM_AARCH64_INSTR_GP_MOVK 1 16
               (move LIBXSMM_AARCH64_INSTR_GP_MOVZ 0 0 g)
         else if i_imm64 \<le> 0xffffffffffff
         then move LIBXSMM_AARCH64_INSTR_GP_MOVK 2 32
               (move LIBXSMM_AARCH64_INSTR_GP_MOVK 1 16
                 (move LIBXSMM_AARCH64_INSTR_GP_MOVZ 0 0 g))
         else move LIBXSMM_AARCH64_INSTR_GP_MOVK 3 48
               (move LIBXSMM_AARCH64_INSTR_GP_MOVK 2 32
                 (move LIBXSMM_AARCH64_INSTR_GP_MOVK 1 16
                   (move LIBXSMM_AARCH64_INSTR_GP_MOVZ 0 0 g))))"

definition libxsmm_aarch64_instruction_alu_compute_imm12 ::
  "gencode \<Rightarrow> u32 \<Rightarrow> u32 \<Rightarrow> u32 \<Rightarrow> u32 \<Rightarrow> u8 \<Rightarrow> gencode" where
  "libxsmm_aarch64_instruction_alu_compute_imm12 g i_alu_instr i_gp_reg_src i_gp_reg_dst i_imm12 i_imm12_lsl12 =
     (if arch g < LIBXSMM_AARCH64_V81 then LIBXSMM_EXIT_ERROR g
      else if i_alu_instr \<notin> {LIBXSMM_AARCH64_INSTR_GP_ADD_I, LIBXSMM_AARCH64_INSTR_GP_SUB_I}
      then LIBXSMM_EXIT_ERROR g
      else if i_imm12 > 0xfff \<or> i_imm12_lsl12 > 1 then LIBXSMM_EXIT_ERROR g
      else if \<not> (i_gp_reg_src > 31 \<and> i_gp_reg_dst > 31) \<and> \<not> (i_gp_reg_src < 32 \<and> i_gp_reg_dst < 32)
      then LIBXSMM_EXIT_ERROR g
      else if code_type g > 1 then
        if no_space g then libxsmm_handle_error g LIBXSMM_ERR_BUFFER_TOO_SMALL
        else
          let c = 0xffc00000 AND i_alu_instr;
              c = c OR (0x1f AND i_gp_reg_dst);
              c = c OR push_bit 5 (0x1f AND i_gp_reg_src);
              c = c OR push_bit 26 (0x20 AND i_gp_reg_dst);
              c = c OR push_bit 10 (0xfff AND i_imm12);
              c = c OR push_bit 22 (ucast i_imm12_lsl12)
          in advance_code (put_code g c)
      else LIBXSMM_EXIT_ERROR g)"

definition libxsmm_aarch64_instruction_alu_compute_imm24 ::
  "gencode \<Rightarrow> u32 \<Rightarrow> u32 \<Rightarrow> u32 \<Rightarrow> u32 \<Rightarrow> gencode" where
  "libxsmm_aarch64_instruction_alu_compute_imm24 g i_alu_instr i_gp_reg_src i_gp_reg_dst i_imm24 =
     (if i_imm24 > 0xffffff then LIBXSMM_EXIT_ERROR g
      else if i_imm24 \<le> 0xfff
      then libxsmm_aarch64_instruction_alu_compute_imm12 g i_alu_instr i_gp_reg_src i_gp_reg_dst
             (ucast (ucast (0xfff AND i_imm24) :: u16)) 0
      else if i_imm24 AND 0xfff = 0
      then libxsmm_aarch64_instruction_alu_compute_imm12 g i_alu_instr i_gp_reg_src i_gp_reg_dst
             (ucast (ucast (0xfff AND drop_bit 12 i_imm24) :: u16)) 1
      else
        let g = libxsmm_aarch64_instruction_alu_compute_imm12 g i_alu_instr i_gp_reg_src i_gp_reg_dst
                  (ucast (ucast (0xfff AND i_imm24) :: u16)) 0
        in libxsmm_aarch64_instruction_alu_compute_imm12 g i_alu_instr i_gp_reg_dst i_gp_reg_dst
             (ucast (ucast (0xfff AND drop_bit 12 i_imm24) :: u16)) 1)"

definition libxsmm_aarch64_instruction_alu_compute_shifted_reg ::
  "gencode \<Rightarrow> u32 \<Rightarrow> u32 \<Rightarrow> u32 \<Rightarrow> u32 \<Rightarrow> u32 \<Rightarrow> libxsmm_aarch64_shiftmode \<Rightarrow> gencode" where
  "libxsmm_aarch64_instruction_alu_compute_shifted_reg g i_alu_instr i_gp_reg_src_0 i_gp_reg_src_1
      i_gp_reg_dst i_imm6 i_shift_dir =
     (if arch g < LIBXSMM_AARCH64_V81 then LIBXSMM_EXIT_ERROR g
      else if i_alu_instr \<notin> {LIBXSMM_AARCH64_INSTR_GP_ORR_SR, LIBXSMM_AARCH64_INSTR_GP_AND_SR,
          LIBXSMM_AARCH64_INSTR_GP_EOR_SR, LIBXSMM_AARCH64_INSTR_GP_LSL_SR,
          LIBXSMM_AARCH64_INSTR_GP_LSR_SR, LIBXSMM_AARCH64_INSTR_GP_ASR_SR,
          LIBXSMM_AARCH64_INSTR_GP_ADD_SR, LIBXSMM_AARCH64_INSTR_GP_SUB_SR,
          LIBXSMM_AARCH64_INSTR_GP_MUL, LIBXSMM_AARCH64_INSTR_GP_UDIV}
      then LIBXSMM_EXIT_ERROR g
      else if i_imm6 > 0x3f \<and> i_alu_instr AND 0x4 = 0x4 then LIBXSMM_EXIT_ERROR g
      else if \<not> (i_gp_reg_src_0 > 31 \<and> i_gp_reg_src_1 > 31 \<and> i_gp_reg_dst > 31)
            \<and> \<not> (i_gp_reg_src_0 < 32 \<and> i_gp_reg_src_1 < 32 \<and> i_gp_reg_dst < 32)
      then LIBXSMM_EXIT_ERROR g
      else if code_type g > 1 then
        let l_imm = (ucast (if i_gp_reg_dst < LIBXSMM_AARCH64_GP_REG_X0 then 0x1f AND i_imm6
                            else 0x3f AND i_imm6) :: u8)
        in if no_space g then libxsmm_handle_error g LIBXSMM_ERR_BUFFER_TOO_SMALL
           else
             let c = 0xffffff00 AND i_alu_instr;
                 c = c OR (0x1f AND i_gp_reg_dst);
                 c = c OR push_bit 5 (0x1f AND i_gp_reg_src_0);
                 c = c OR push_bit 16 (0x1f AND i_gp_reg_src_1);
                 c = c OR push_bit 26 (0x20 AND i_gp_reg_dst);
                 c = (if i_alu_instr AND 0x4 = 0x4 then c OR push_bit 10 (0x3f AND ucast l_imm) else c);
                 c = (if i_alu_instr AND 0x10 = 0x0 then c OR push_bit 22 (0x3 AND shiftmode_val i_shift_dir)
                      else c)
             in advance_code (put_code g c)
      else LIBXSMM_EXIT_ERROR g)"

definition libxsmm_aarch64_instruction_alu_compute_imm64 ::
  "gencode \<Rightarrow> u32 \<Rightarrow> u32 \<Rightarrow> u32 \<Rightarrow> u32 \<Rightarrow> u64 \<Rightarrow> gencode" where
  "libxsmm_aarch64_instruction_alu_compute_imm64 g i_alu_meta_instr i_gp_reg_src i_gp_reg_tmp i_gp_reg_dst i_imm64 =
     (if arch g < LIBXSMM_AARCH64_V81 then LIBXSMM_EXIT_ERROR g
      else if i_alu_meta_instr \<notin> {LIBXSMM_AARCH64_INSTR_GP_META_ADD, LIBXSMM_AARCH64_INSTR_GP_META_SUB}
      then LIBXSMM_EXIT_ERROR g
      else if i_imm64 \<le> 0xffffff then
        (if i_alu_meta_instr = LIBXSMM_AARCH64_INSTR_GP_META_ADD
         then libxsmm_aarch64_instruction_alu_compute_imm24 g LIBXSMM_AARCH64_INSTR_GP_ADD_I
                i_gp_reg_src i_gp_reg_dst (ucast (i_imm64 AND 0xffffff))
         else if i_alu_meta_instr = LIBXSMM_AARCH64_INSTR_GP_META_SUB
         then libxsmm_aarch64_instruction_alu_compute_imm24 g LIBXSMM_AARCH64_INSTR_GP_SUB_I
                i_gp_reg_src i_gp_reg_dst (ucast (i_imm64 AND 0xffffff))
         else LIBXSMM_EXIT_ERROR g)
      else
        (if i_alu_meta_instr = LIBXSMM_AARCH64_INSTR_GP_META_ADD
         then libxsmm_aarch64_instruction_alu_compute_shifted_reg
                (libxsmm_aarch64_instruction_alu_set_imm64 g i_gp_reg_tmp i_imm64)
                LIBXSMM_AARCH64_INSTR_GP_ADD_SR i_gp_reg_src i_gp_reg_tmp i_gp_reg_dst 0
                LIBXSMM_AARCH64_SHIFTMODE_LSL
         else if i_alu_meta_instr = LIBXSMM_AARCH64_INSTR_GP_META_SUB
         then libxsmm_aarch64_instruction_alu_compute_shifted_reg
                (libxsmm_aarch64_instruction_alu_set_imm64 g i_gp_reg_tmp i_imm64)
                LIBXSMM_AARCH64_INSTR_GP_SUB_SR i_gp_reg_src i_gp_reg_tmp i_gp_reg_dst 0
                LIBXSMM_AARCH64_SHIFTMODE_LSL
         else LIBXSMM_EXIT_ERROR g))"

section \<open>Every instruction keeps the contract\<close>

interpretation alu_move:
  instruction "\<lambda>g. libxsmm_aarch64_instruction_alu_move g i a o' off d" 1 for i a o' off d
  by unfold_locales
    (unfold libxsmm_aarch64_instruction_alu_move_def One_nat_def, (intro emits_rules; (assumption | simp))+)

interpretation alu_pair_move:
  instruction "\<lambda>g. libxsmm_aarch64_instruction_alu_pair_move g i a off r0 r1" 1 for i a off r0 r1
  by unfold_locales
    (unfold libxsmm_aarch64_instruction_alu_pair_move_def One_nat_def, (intro emits_rules; (assumption | simp))+)

interpretation alu_move_imm16:
  instruction "\<lambda>g. libxsmm_aarch64_instruction_alu_move_imm16 g i d s imm" 1 for i d s imm
  by unfold_locales
    (unfold libxsmm_aarch64_instruction_alu_move_imm16_def One_nat_def, (intro emits_rules; (assumption | simp))+)

interpretation alu_compute_imm12:
  instruction "\<lambda>g. libxsmm_aarch64_instruction_alu_compute_imm12 g i s d imm sh" 1 for i s d imm sh
  by unfold_locales
    (unfold libxsmm_aarch64_instruction_alu_compute_imm12_def One_nat_def, (intro emits_rules; (assumption | simp))+)

interpretation alu_compute_shifted_reg:
  instruction "\<lambda>g. libxsmm_aarch64_instruction_alu_compute_shifted_reg g i s t d imm sh" 1 for i s t d imm sh
  by unfold_locales
    (unfold libxsmm_aarch64_instruction_alu_compute_shifted_reg_def One_nat_def, (intro emits_rules; (assumption | simp))+)


lemma alu_set_imm64_emits:
  assumes "wf_code g"
  shows "emits 4 g (libxsmm_aarch64_instruction_alu_set_imm64 g d imm)"
proof -
  let ?m = "libxsmm_aarch64_instruction_alu_move_imm16"
  have one: "emits 1 g (?m g i d s v)" if "wf_code g" for g i s v
    by (rule alu_move_imm16.emits [OF that])
  have wf: "wf_code (?m g i d s v)" if "wf_code g" for g i s v
    by (rule alu_move_imm16.wf [OF that])
  have two: "emits 2 g (?m (?m g i d s v) i' d s' v')" if "wf_code g" for g i s v i' s' v'
    using emits_trans [OF one [OF that] one [OF wf [OF that]]] unfolding one_add_one .
  have wf2: "wf_code (?m (?m g i d s v) i' d s' v')" if "wf_code g" for g i s v i' s' v'
    by (intro wf that)
  have three: "emits 3 g (?m (?m (?m g i d s v) i' d s' v') i'' d s'' v'')"
    if "wf_code g" for g i s v i' s' v' i'' s'' v''
    using emits_trans [OF two [OF that] one [OF wf2 [OF that]]] by (simp add: numeral_3_eq_3)
  have four: "emits 4 g (?m (?m (?m (?m g i d s v) i' d s' v') i'' d s'' v'') j d t u)"
    if "wf_code g" for g i s v i' s' v' i'' s'' v'' j t u
    using emits_trans [OF two [OF that] two [OF wf2 [OF that]]] by simp
  note up = one [THEN emits_mono [where m = 4]] two [THEN emits_mono [where m = 4]]
    three [THEN emits_mono [where m = 4]]
  show ?thesis
    unfolding libxsmm_aarch64_instruction_alu_set_imm64_def Let_def
    by (intro emits_if up four assms) simp_all
qed

interpretation alu_set_imm64:
  instruction "\<lambda>g. libxsmm_aarch64_instruction_alu_set_imm64 g d imm" 4 for d imm
  by unfold_locales (rule alu_set_imm64_emits)

interpretation imm12_twice:
  instruction_pair "\<lambda>g. libxsmm_aarch64_instruction_alu_compute_imm12 g i s d v sh" 1
    "\<lambda>g. libxsmm_aarch64_instruction_alu_compute_imm12 g i d d v' sh'" 1 for i s d v sh v' sh'
  ..

lemma emits_exit_any: "wf_code g \<Longrightarrow> 0 < n \<Longrightarrow> emits n g (LIBXSMM_EXIT_ERROR g)"
  by (rule emits_mono [OF emits_exit]) simp_all

interpretation alu_compute_imm24:
  instruction "\<lambda>g. libxsmm_aarch64_instruction_alu_compute_imm24 g i s d imm" 2 for i s d imm
proof unfold_locales
  fix g
  assume w: "wf_code g"
  note two = imm12_twice.both.emits [OF w, unfolded one_add_one]
  note one = alu_compute_imm12.emits [OF w, THEN emits_mono [where m = 2]]
  show "emits 2 g (libxsmm_aarch64_instruction_alu_compute_imm24 g i s d imm)"
    unfolding libxsmm_aarch64_instruction_alu_compute_imm24_def Let_def
    by (intro emits_if emits_exit_any w one two) simp_all
qed

interpretation set_then_add:
  instruction_pair "\<lambda>g. libxsmm_aarch64_instruction_alu_set_imm64 g t imm" 4
    "\<lambda>g. libxsmm_aarch64_instruction_alu_compute_shifted_reg g i s t d k sh" 1 for imm i s t d k sh
  ..

interpretation alu_compute_imm64:
  instruction "\<lambda>g. libxsmm_aarch64_instruction_alu_compute_imm64 g i s t d imm" 5 for i s t d imm
proof unfold_locales
  fix g
  assume w: "wf_code g"
  note long = set_then_add.both.emits [OF w, THEN emits_mono [where m = 5]]
  note short = alu_compute_imm24.emits [OF w, THEN emits_mono [where m = 5]]
  show "emits 5 g (libxsmm_aarch64_instruction_alu_compute_imm64 g i s t d imm)"
    unfolding libxsmm_aarch64_instruction_alu_compute_imm64_def Let_def
    by (intro emits_if emits_exit_any w short long) simp_all
qed

section \<open>What the emitted words compute\<close>

text \<open>
  Register \<open>X0\<close> to \<open>X30\<close> are the numbers 32 to 62; the low five bits go into the word and bit 5
  selects the 64-bit form.
\<close>

definition gp_x :: "nat \<Rightarrow> u32" where
  "gp_x r = 32 + of_nat r"

lemma gp_x_fields:
  assumes "r < 32"
  shows "0x1f AND gp_x r = of_nat r" "0x20 AND gp_x r = 0x20" "\<not> gp_x r < 32" "gp_x r > 31" "\<not> gp_x r < 31"
  using less32_cases [OF assms] by (auto simp: gp_x_def)

text \<open>The A64 encodings of the instructions used, as the architecture manual lays the fields out.\<close>

definition a64_movz :: "nat \<Rightarrow> nat \<Rightarrow> u16 \<Rightarrow> u32" where
  "a64_movz rd hw imm = 0xd2800000 OR of_nat rd OR push_bit 5 (ucast imm) OR push_bit 21 (of_nat hw)"

definition a64_movk :: "nat \<Rightarrow> nat \<Rightarrow> u16 \<Rightarrow> u32" where
  "a64_movk rd hw imm = 0xf2800000 OR of_nat rd OR push_bit 5 (ucast imm) OR push_bit 21 (of_nat hw)"

definition a64_add_imm :: "bool \<Rightarrow> nat \<Rightarrow> nat \<Rightarrow> u32 \<Rightarrow> nat \<Rightarrow> u32" where
  "a64_add_imm sub rd rn imm12 sh = (if sub then 0xd1000000 else 0x91000000) OR of_nat rd
     OR push_bit 5 (of_nat rn) OR push_bit 10 imm12 OR push_bit 22 (of_nat sh)"

definition a64_add_reg :: "bool \<Rightarrow> nat \<Rightarrow> nat \<Rightarrow> nat \<Rightarrow> u32" where
  "a64_add_reg sub rd rn rm = (if sub then 0xcb000000 else 0x8b000000) OR of_nat rd
     OR push_bit 5 (of_nat rn) OR push_bit 16 (of_nat rm)"

text \<open>
  The processor is a parameter: \<open>exec w\<close> is what executing the word \<open>w\<close> does to the 64-bit
  registers. The hypotheses below are the manual's description of these instructions. Register 31 is
  the stack pointer in the immediate forms and the zero register in the others.
\<close>

type_synonym a64_exec = "u32 \<Rightarrow> (nat \<Rightarrow> u64) \<Rightarrow> nat \<Rightarrow> u64"

definition executes_move_wide :: "a64_exec \<Rightarrow> bool" where
  "executes_move_wide exec \<longleftrightarrow>
     (\<forall>rd hw imm regs. rd < 31 \<longrightarrow> hw < 4 \<longrightarrow>
        exec (a64_movz rd hw imm) regs = regs(rd := push_bit (16 * hw) (ucast imm)) \<and>
        exec (a64_movk rd hw imm) regs =
          regs(rd := (regs rd AND NOT (push_bit (16 * hw) 0xffff)) OR push_bit (16 * hw) (ucast imm)))"

definition add_sub :: "bool \<Rightarrow> u64 \<Rightarrow> u64 \<Rightarrow> u64" where
  "add_sub sub a b = (if sub then a - b else a + b)"

definition executes_add :: "a64_exec \<Rightarrow> bool" where
  "executes_add exec \<longleftrightarrow>
     (\<forall>sub rd rn regs. rd < 32 \<longrightarrow> rn < 32 \<longrightarrow>
        (\<forall>imm12 sh. imm12 < 0x1000 \<longrightarrow> sh < 2 \<longrightarrow>
           exec (a64_add_imm sub rd rn imm12 sh) regs =
             regs(rd := add_sub sub (regs rn) (push_bit (12 * sh) (ucast imm12)))) \<and>
        (\<forall>rm. rd < 31 \<longrightarrow> rn < 31 \<longrightarrow> rm < 31 \<longrightarrow>
           exec (a64_add_reg sub rd rn rm) regs = regs(rd := add_sub sub (regs rn) (regs rm))))"

definition run_words :: "a64_exec \<Rightarrow> u32 list \<Rightarrow> (nat \<Rightarrow> u64) \<Rightarrow> nat \<Rightarrow> u64" where
  "run_words exec ws regs = foldl (\<lambda>r w. exec w r) regs ws"

text \<open>The words an operation appended.\<close>

definition new_words :: "gencode \<Rightarrow> gencode \<Rightarrow> u32 list" where
  "new_words g g' = words_from g' (unat (code_size g)) ((unat (code_size g') - unat (code_size g)) div 4)"

lemma new_words_emit: "ready (length ws) g \<Longrightarrow> new_words g (emit_words g ws) = ws"
  by (simp add: new_words_def emit_words_size words_from_emit_words)

lemma alu_move_imm16_word:
  assumes "ready (Suc n) g" and "rd < 31" and "hw < 4"
  shows "libxsmm_aarch64_instruction_alu_move_imm16 g LIBXSMM_AARCH64_INSTR_GP_MOVZ (gp_x rd) (of_nat hw) (ucast imm)
      = emit_word g (a64_movz rd hw imm)"
    and "libxsmm_aarch64_instruction_alu_move_imm16 g LIBXSMM_AARCH64_INSTR_GP_MOVK (gp_x rd) (of_nat hw) (ucast imm)
      = emit_word g (a64_movk rd hw imm)"
proof -
  have hw: "hw \<in> {0, 1, 2, 3}"
    using assms(3) by (simp; arith)
  have "\<not> arch g < LIBXSMM_AARCH64_V81" "\<not> no_space g"
    using ready_guards(1) [OF assms(1)] ready_space [OF assms(1)] by simp_all
  then show "libxsmm_aarch64_instruction_alu_move_imm16 g LIBXSMM_AARCH64_INSTR_GP_MOVZ (gp_x rd) (of_nat hw) (ucast imm)
      = emit_word g (a64_movz rd hw imm)"
    "libxsmm_aarch64_instruction_alu_move_imm16 g LIBXSMM_AARCH64_INSTR_GP_MOVK (gp_x rd) (of_nat hw) (ucast imm)
      = emit_word g (a64_movk rd hw imm)"
    using hw ready_guards(2) [OF assms(1)] gp_x_fields [of rd] assms(2)
    by (auto simp: libxsmm_aarch64_instruction_alu_move_imm16_def a64_movz_def a64_movk_def emit_word_def Let_def
        or.assoc or_numerals)
qed

text \<open>
  A processor that executes exactly these instructions, to show that the hypotheses can hold. It reads
  the fields of a word back.
\<close>

definition a64_step :: a64_exec where
  "a64_step w regs =
     (let rd = unat (take_bit 5 w); rn = unat (take_bit 5 (drop_bit 5 w)); rm = unat (take_bit 5 (drop_bit 16 w));
          hw = unat (take_bit 2 (drop_bit 21 w)); imm16 = ucast (take_bit 16 (drop_bit 5 w)) :: u64;
          sh = (if bit w 22 then 1 else 0 :: nat); imm12 = ucast (take_bit 12 (drop_bit 10 w)) :: u64;
          fixed9 = drop_bit 23 w; fixed11 = drop_bit 21 w
      in if fixed9 = 0x1a5 then regs(rd := push_bit (16 * hw) imm16)
         else if fixed9 = 0x1e5
         then regs(rd := (regs rd AND NOT (push_bit (16 * hw) 0xffff)) OR push_bit (16 * hw) imm16)
         else if fixed9 = 0x122 then regs(rd := regs rn + push_bit (12 * sh) imm12)
         else if fixed9 = 0x1a2 then regs(rd := regs rn - push_bit (12 * sh) imm12)
         else if fixed11 = 0x458 then regs(rd := regs rn + regs rm)
         else if fixed11 = 0x658 then regs(rd := regs rn - regs rm)
         else regs)"

lemma fields_wide:
  fixes a b c k :: u32
  assumes "unat a < 2 ^ 5" and "unat b < 2 ^ 16" and "unat c < 2 ^ 2" and "unat k < 2 ^ 9"
  defines "w \<equiv> push_bit 23 k OR a OR push_bit 5 b OR push_bit 21 c"
  shows "drop_bit 23 w = k" and "take_bit 5 w = a" and "take_bit 16 (drop_bit 5 w) = b"
    and "take_bit 2 (drop_bit 21 w) = c"
proof -
  note n = bit_smallN [OF assms(1)] bit_smallN [OF assms(2)] bit_smallN [OF assms(3)] bit_smallN [OF assms(4)]
  note d = bit_smallD [OF assms(1)] bit_smallD [OF assms(2)] bit_smallD [OF assms(3)] bit_smallD [OF assms(4)]
  show "drop_bit 23 w = k"
    unfolding w_def by (rule word_eq_bitI) (auto simp: bit_simps n dest: d)
  show "take_bit 5 w = a"
    unfolding w_def by (rule word_eq_bitI) (auto simp: bit_simps n dest: d)
  show "take_bit 16 (drop_bit 5 w) = b"
    unfolding w_def by (rule word_eq_bitI) (auto simp: bit_simps n dest: d)
  show "take_bit 2 (drop_bit 21 w) = c"
    unfolding w_def by (rule word_eq_bitI) (auto simp: bit_simps n dest: d)
qed

lemma fields_add_imm:
  fixes a b c h k :: u32
  assumes "unat a < 2 ^ 5" and "unat b < 2 ^ 5" and "unat c < 2 ^ 12" and "unat h < 2 ^ 1" and "unat k < 2 ^ 9"
  defines "w \<equiv> push_bit 23 k OR a OR push_bit 5 b OR push_bit 10 c OR push_bit 22 h"
  shows "drop_bit 23 w = k" and "take_bit 5 w = a" and "take_bit 5 (drop_bit 5 w) = b"
    and "take_bit 12 (drop_bit 10 w) = c" and "bit w 22 = bit h 0"
proof -
  note n = bit_smallN [OF assms(1)] bit_smallN [OF assms(2)] bit_smallN [OF assms(3)] bit_smallN [OF assms(4)]
    bit_smallN [OF assms(5)]
  note d = bit_smallD [OF assms(1)] bit_smallD [OF assms(2)] bit_smallD [OF assms(3)] bit_smallD [OF assms(4)]
    bit_smallD [OF assms(5)]
  show "drop_bit 23 w = k"
    unfolding w_def by (rule word_eq_bitI) (auto simp: bit_simps n dest: d)
  show "take_bit 5 w = a"
    unfolding w_def by (rule word_eq_bitI) (auto simp: bit_simps n dest: d)
  show "take_bit 5 (drop_bit 5 w) = b"
    unfolding w_def by (rule word_eq_bitI) (auto simp: bit_simps n dest: d)
  show "take_bit 12 (drop_bit 10 w) = c"
    unfolding w_def by (rule word_eq_bitI) (auto simp: bit_simps n dest: d)
  show "bit w 22 = bit h 0"
    unfolding w_def by (simp add: bit_simps n)
qed

lemma fields_add_reg:
  fixes a b c k :: u32
  assumes "unat a < 2 ^ 5" and "unat b < 2 ^ 5" and "unat c < 2 ^ 5" and "unat k < 2 ^ 11"
  defines "w \<equiv> push_bit 21 k OR a OR push_bit 5 b OR push_bit 16 c"
  shows "drop_bit 21 w = k" and "drop_bit 23 w = drop_bit 2 k" and "take_bit 5 w = a" and "take_bit 5 (drop_bit 5 w) = b"
    and "take_bit 5 (drop_bit 16 w) = c"
proof -
  note n = bit_smallN [OF assms(1)] bit_smallN [OF assms(2)] bit_smallN [OF assms(3)] bit_smallN [OF assms(4)]
  note d = bit_smallD [OF assms(1)] bit_smallD [OF assms(2)] bit_smallD [OF assms(3)] bit_smallD [OF assms(4)]
  show "drop_bit 21 w = k"
    unfolding w_def by (rule word_eq_bitI) (auto simp: bit_simps n dest: d)
  then have "drop_bit 2 (drop_bit 21 w) = drop_bit 2 k"
    by simp
  then show "drop_bit 23 w = drop_bit 2 k"
    by (simp only: drop_bit_drop_bit) simp
  show "take_bit 5 w = a"
    unfolding w_def by (rule word_eq_bitI) (auto simp: bit_simps n dest: d)
  show "take_bit 5 (drop_bit 5 w) = b"
    unfolding w_def by (rule word_eq_bitI) (auto simp: bit_simps n dest: d)
  show "take_bit 5 (drop_bit 16 w) = c"
    unfolding w_def by (rule word_eq_bitI) (auto simp: bit_simps n dest: d)
qed

lemma a64_step_move_wide: "executes_move_wide a64_step"
proof -
  have imm: "unat (ucast (imm :: u16) :: u32) < 2 ^ 16" for imm
    using unat_less_width [of imm] by (simp add: unat_ucast_mod)
  have ui: "ucast (ucast (imm :: u16) :: u32) = (ucast imm :: u64)" for imm
    by (rule word_eq_bitI) (auto simp: bit_simps dest: bit_u16D)
  have z: "a64_movz rd hw imm = push_bit 23 0x1a5 OR of_nat rd OR push_bit 5 (ucast imm) OR push_bit 21 (of_nat hw)"
    and k: "a64_movk rd hw imm = push_bit 23 0x1e5 OR of_nat rd OR push_bit 5 (ucast imm) OR push_bit 21 (of_nat hw)"
    for rd hw imm
    by (simp_all add: a64_movz_def a64_movk_def)
  show ?thesis
    unfolding executes_move_wide_def
  proof (intro allI impI conjI)
    fix rd hw :: nat and imm :: u16 and regs :: "nat \<Rightarrow> u64"
    assume "rd < 31" "hw < 4"
    then have u: "unat (of_nat rd :: u32) = rd" "unat (of_nat hw :: u32) = hw" "rd < 2 ^ 5" "hw < 2 ^ 2"
      using unat_of_nat_u32 [of rd 5] unat_of_nat_u32 [of hw 2] by simp_all
    note f = fields_wide [of "of_nat rd" "ucast imm" "of_nat hw", unfolded u(1,2), OF u(3) imm u(4)]
    show "a64_step (a64_movz rd hw imm) regs = regs(rd := push_bit (16 * hw) (ucast imm))"
      unfolding z a64_step_def Let_def using f [of "0x1a5"] by (simp add: u ui)
    show "a64_step (a64_movk rd hw imm) regs =
        regs(rd := (regs rd AND NOT (push_bit (16 * hw) 0xffff)) OR push_bit (16 * hw) (ucast imm))"
      unfolding k a64_step_def Let_def using f [of "0x1e5"] by (simp add: u ui)
  qed
qed

lemma a64_step_add: "executes_add a64_step"
proof -
  have i: "a64_add_imm sub rd rn imm12 sh = push_bit 23 (if sub then 0x1a2 else 0x122) OR of_nat rd
      OR push_bit 5 (of_nat rn) OR push_bit 10 imm12 OR push_bit 22 (of_nat sh)" for sub rd rn imm12 sh
    by (simp add: a64_add_imm_def)
  have r: "a64_add_reg sub rd rn rm = push_bit 21 (if sub then 0x658 else 0x458) OR of_nat rd
      OR push_bit 5 (of_nat rn) OR push_bit 16 (of_nat rm)" for sub rd rn rm
    by (simp add: a64_add_reg_def)
  show ?thesis
    unfolding executes_add_def
  proof (intro allI impI conjI)
    fix sub :: bool and rd rn :: nat and regs :: "nat \<Rightarrow> u64"
    assume "rd < 32" "rn < 32"
    then have u: "unat (of_nat rd :: u32) = rd" "unat (of_nat rn :: u32) = rn" "rd < 2 ^ 5" "rn < 2 ^ 5"
      using unat_of_nat_u32 [of rd 5] unat_of_nat_u32 [of rn 5] by simp_all
    fix imm12 :: u32 and sh :: nat
    assume "imm12 < 0x1000" "sh < 2"
    then have s: "unat (of_nat sh :: u32) = sh" "sh < 2 ^ 1" "unat imm12 < 2 ^ 12"
      using unat_of_nat_u32 [of sh 1] by (simp_all add: word_less_nat_alt)
    have sh: "(if bit (of_nat sh :: u32) 0 then 1 else 0) = sh"
      using \<open>sh < 2\<close> by (cases sh) (auto simp: less_Suc_eq)
    note f = fields_add_imm [of "of_nat rd" "of_nat rn" imm12 "of_nat sh", unfolded u(1,2) s(1), OF u(3,4) s(3,2)]
    show "a64_step (a64_add_imm sub rd rn imm12 sh) regs =
        regs(rd := add_sub sub (regs rn) (push_bit (12 * sh) (ucast imm12)))"
      unfolding i a64_step_def Let_def using f [of "0x1a2"] f [of "0x122"]
      by (cases sub) (simp_all add: u s sh add_sub_def)
  next
    fix sub :: bool and rd rn rm :: nat and regs :: "nat \<Rightarrow> u64"
    assume "rd < 31" "rn < 31" "rm < 31"
    then have u: "unat (of_nat rd :: u32) = rd" "unat (of_nat rn :: u32) = rn" "unat (of_nat rm :: u32) = rm"
      "rd < 2 ^ 5" "rn < 2 ^ 5" "rm < 2 ^ 5"
      using unat_of_nat_u32 [of rd 5] unat_of_nat_u32 [of rn 5] unat_of_nat_u32 [of rm 5] by simp_all
    note f = fields_add_reg [of "of_nat rd" "of_nat rn" "of_nat rm", unfolded u(1,2,3), OF u(4,5,6)]
    show "a64_step (a64_add_reg sub rd rn rm) regs = regs(rd := add_sub sub (regs rn) (regs rm))"
      unfolding r a64_step_def Let_def using f [of "0x658"] f [of "0x458"]
      by (cases sub) (simp_all add: u add_sub_def)
  qed
qed

section \<open>Loading a 64-bit constant\<close>

abbreviation half16 :: "nat \<Rightarrow> u64 \<Rightarrow> u16" where
  "half16 k x \<equiv> ucast (drop_bit k x)"

definition set_imm64_words :: "nat \<Rightarrow> u64 \<Rightarrow> u32 list" where
  "set_imm64_words rd x =
     (let movz = a64_movz rd 0 (half16 0 x); movk = (\<lambda>k. a64_movk rd k (half16 (16 * k) x))
      in if x \<le> 0xffff then [movz]
         else if x \<le> 0xffffffff then [movz, movk 1]
         else if x \<le> 0xffffffffffff then [movz, movk 1, movk 2]
         else [movz, movk 1, movk 2, movk 3])"

lemma length_set_imm64_words: "length (set_imm64_words rd x) \<le> 4"
  by (simp add: set_imm64_words_def Let_def)

lemma set_imm64_emits_words:
  assumes r: "ready 4 g" and rd: "rd < 31"
  shows "libxsmm_aarch64_instruction_alu_set_imm64 g (gp_x rd) x = emit_words g (set_imm64_words rd x)"
proof -
  have r1: "ready (Suc n) h \<Longrightarrow> libxsmm_aarch64_instruction_alu_move_imm16 h LIBXSMM_AARCH64_INSTR_GP_MOVZ (gp_x rd) 0 (ucast v) = emit_word h (a64_movz rd 0 v)" for h v n
    using alu_move_imm16_word(1) [OF _ rd, of n h 0 v] by simp
  have r2: "ready (Suc n) h \<Longrightarrow> libxsmm_aarch64_instruction_alu_move_imm16 h LIBXSMM_AARCH64_INSTR_GP_MOVK (gp_x rd) 1 (ucast v) = emit_word h (a64_movk rd 1 v)" for h v n
    using alu_move_imm16_word(2) [OF _ rd, of n h 1 v] by simp
  have r3: "ready (Suc n) h \<Longrightarrow> libxsmm_aarch64_instruction_alu_move_imm16 h LIBXSMM_AARCH64_INSTR_GP_MOVK (gp_x rd) 2 (ucast v) = emit_word h (a64_movk rd 2 v)" for h v n
    using alu_move_imm16_word(2) [OF _ rd, of n h 2 v] by simp
  have r4: "ready (Suc n) h \<Longrightarrow> libxsmm_aarch64_instruction_alu_move_imm16 h LIBXSMM_AARCH64_INSTR_GP_MOVK (gp_x rd) 3 (ucast v) = emit_word h (a64_movk rd 3 v)" for h v n
    using alu_move_imm16_word(2) [OF _ rd, of n h 3 v] by simp
  have s: "ready (Suc (Suc (Suc (Suc 0)))) g"
    using r by (simp add: numeral_eq_Suc)
  note e = ready_emit [OF s] ready_emit [OF ready_emit [OF s]] ready_emit [OF ready_emit [OF ready_emit [OF s]]]
  show ?thesis
    unfolding libxsmm_aarch64_instruction_alu_set_imm64_def set_imm64_words_def Let_def
    using r1 [OF s] r2 [OF e(1)] r3 [OF e(2)] r4 [OF e(3)] by simp
qed

lemma insert_half:
  assumes "n < 4"
  shows "(take_bit (16 * n) x AND NOT (push_bit (16 * n) 0xffff)) OR push_bit (16 * n) (ucast (half16 (16 * n) x))
    = take_bit (16 * Suc n) (x :: u64)"
proof (rule word_eq_bitI)
  fix i
  assume i: "i < LENGTH(64)"
  consider "i < 16 * n" | "16 * n \<le> i" "i < 16 * n + 16" | "16 * n + 16 \<le> i"
    by linarith
  then show "bit ((take_bit (16 * n) x AND NOT (push_bit (16 * n) 0xffff))
      OR push_bit (16 * n) (ucast (half16 (16 * n) x))) i = bit (take_bit (16 * Suc n) x) i"
    using assms i by cases (auto simp: bit_simps bit_0xFFFF)
qed

lemma run_set_imm64:
  assumes exec: "executes_move_wide exec" and rd: "rd < 31"
  shows "run_words exec (set_imm64_words rd x) regs = regs(rd := x)"
proof -
  let ?set = "\<lambda>n. regs(rd := take_bit (16 * n) x)"
  have z: "exec (a64_movz rd 0 (half16 0 x)) regs = ?set 1"
  proof -
    have "push_bit 0 (ucast (half16 0 x)) = take_bit 16 x"
      by (rule word_eq_bitI) (auto simp: bit_simps)
    then show ?thesis
      using exec rd by (simp add: executes_move_wide_def)
  qed
  have k: "exec (a64_movk rd n (half16 (16 * n) x)) (?set n) = ?set (Suc n)" if "n < 4" for n
    using exec rd that insert_half [OF that, of x] by (simp add: executes_move_wide_def)
  have k1: "exec (a64_movk rd 1 (half16 16 x)) (?set 1) = ?set 2"
    and k2: "exec (a64_movk rd 2 (half16 32 x)) (?set 2) = ?set 3"
    and k3: "exec (a64_movk rd 3 (half16 48 x)) (?set 3) = ?set 4"
    using k [of 1] k [of 2] k [of 3] by (simp_all add: numeral_eq_Suc)
  have "x \<le> 0xffff \<Longrightarrow> ?set 1 = regs(rd := x)" "x \<le> 0xffffffff \<Longrightarrow> ?set 2 = regs(rd := x)"
    "x \<le> 0xffffffffffff \<Longrightarrow> ?set 3 = regs(rd := x)" "?set 4 = regs(rd := x)"
    by (simp_all add: take_bit_small word_le_nat_alt take_bit_length_eq [where 'a = 64, simplified])
  then show ?thesis
    using z k1 k2 k3 by (simp add: run_words_def set_imm64_words_def Let_def)
qed

text \<open>
  C5: \<open>alu_set_imm64\<close> appends one to four words, and executing them leaves the 64-bit constant in
  the destination register and every other register unchanged, whatever the constant is.
\<close>

theorem alu_set_imm64_loads:
  assumes "ready 4 g" and "rd < 31" and "executes_move_wide exec"
  shows "let g' = libxsmm_aarch64_instruction_alu_set_imm64 g (gp_x rd) x
    in last_error g' = last_error g \<and> run_words exec (new_words g g') regs = regs(rd := x)"
proof -
  have r: "ready (length (set_imm64_words rd x)) g"
    by (rule ready_mono [OF assms(1) length_set_imm64_words])
  show ?thesis
    by (simp add: Let_def set_imm64_emits_words assms new_words_emit r run_set_imm64 emit_words_error)
qed

theorem alu_set_imm64_loads_witness:
  "run_words a64_step (new_words (fresh_stream LIBXSMM_AARCH64_V81 64)
     (libxsmm_aarch64_instruction_alu_set_imm64 (fresh_stream LIBXSMM_AARCH64_V81 64) (gp_x 3) 0x123456789abc))
     (\<lambda>_. 0) = (\<lambda>_. 0)(3 := 0x123456789abc)"
proof -
  have "ready 4 (fresh_stream LIBXSMM_AARCH64_V81 64)"
    by (simp add: ready_def wf_code_def fresh_stream_def)
  from alu_set_imm64_loads [OF this _ a64_step_move_wide, of 3] show ?thesis
    by (simp add: Let_def)
qed

section \<open>Adding and subtracting a constant\<close>

definition add_sub_instr :: "bool \<Rightarrow> u32" where
  "add_sub_instr sub = (if sub then LIBXSMM_AARCH64_INSTR_GP_SUB_I else LIBXSMM_AARCH64_INSTR_GP_ADD_I)"

definition add_sub_meta :: "bool \<Rightarrow> u32" where
  "add_sub_meta sub = (if sub then LIBXSMM_AARCH64_INSTR_GP_META_SUB else LIBXSMM_AARCH64_INSTR_GP_META_ADD)"

lemma imm12_small: "0xfff AND x < (0x1000 :: u32)" "\<not> 0xfff < 0xfff AND (x :: u32)"
proof -
  have "unat (0xfff AND x :: u32) < 2 ^ 12"
    unfolding and_0xfff unat_take_bit by simp
  then show "0xfff AND x < (0x1000 :: u32)" "\<not> 0xfff < 0xfff AND (x :: u32)"
    by (simp_all add: word_less_nat_alt)
qed

lemma alu_compute_imm12_word:
  assumes "ready (Suc n) g" and "rd < 32" and "rn < 32" and "imm12 < 0x1000" and "sh < 2"
  shows "libxsmm_aarch64_instruction_alu_compute_imm12 g (add_sub_instr sub) (gp_x rn) (gp_x rd) imm12 (of_nat sh)
    = emit_word g (a64_add_imm sub rd rn imm12 sh)"
proof -
  have sh: "sh \<in> {0, 1}"
    using assms(5) by auto
  have i: "0xfff AND imm12 = imm12" "\<not> 0xfff < imm12"
    using assms(4) by (simp_all add: and_0xfff take_bit_small word_less_nat_alt)
  have "\<not> arch g < LIBXSMM_AARCH64_V81" "\<not> no_space g"
    using ready_guards(1) [OF assms(1)] ready_space [OF assms(1)] by simp_all
  then show ?thesis
    using sh i ready_guards(2) [OF assms(1)] gp_x_fields [OF assms(2)] gp_x_fields [OF assms(3)]
    by (cases sub) (auto simp: libxsmm_aarch64_instruction_alu_compute_imm12_def a64_add_imm_def emit_word_def
        add_sub_instr_def Let_def or.assoc or_numerals)
qed

lemma ucast_u16_imm12: "ucast (ucast (0xfff AND x) :: u16) = (0xfff AND x :: u32)"
  by (rule word_eq_bitI) (auto simp: and_0xfff bit_simps)

definition imm24_words :: "bool \<Rightarrow> nat \<Rightarrow> nat \<Rightarrow> u32 \<Rightarrow> u32 list" where
  "imm24_words sub rd rn x =
     (if x \<le> 0xfff then [a64_add_imm sub rd rn (0xfff AND x) 0]
      else if x AND 0xfff = 0 then [a64_add_imm sub rd rn (0xfff AND drop_bit 12 x) 1]
      else [a64_add_imm sub rd rn (0xfff AND x) 0, a64_add_imm sub rd rd (0xfff AND drop_bit 12 x) 1])"

lemma length_imm24_words: "length (imm24_words sub rd rn x) \<le> 2"
  by (simp add: imm24_words_def)

lemma alu_compute_imm24_words:
  assumes r: "ready 2 g" and rd: "rd < 32" and rn: "rn < 32" and x: "x \<le> 0xffffff"
  shows "libxsmm_aarch64_instruction_alu_compute_imm24 g (add_sub_instr sub) (gp_x rn) (gp_x rd) x
    = emit_words g (imm24_words sub rd rn x)"
proof -
  have s: "ready (Suc (Suc 0)) g"
    using r by (simp add: numeral_eq_Suc)
  note lo = alu_compute_imm12_word [OF s rd rn imm12_small(1), of 0]
    and hi = alu_compute_imm12_word [OF s rd rn imm12_small(1), of 1]
    and hi2 = alu_compute_imm12_word [OF ready_emit [OF s] rd rd imm12_small(1), of 1]
  show ?thesis
    unfolding libxsmm_aarch64_instruction_alu_compute_imm24_def imm24_words_def Let_def ucast_u16_imm12
    using x lo hi hi2 by (simp add: not_less)
qed

lemma ucast_split24:
  assumes "x \<le> (0xffffff :: u32)"
  shows "(ucast x :: u64) = ucast (0xfff AND x) + push_bit 12 (ucast (0xfff AND drop_bit 12 x))"
proof -
  have n: "\<And>i. 24 \<le> i \<Longrightarrow> bit x i \<longleftrightarrow> False"
    using assms by (intro bit_smallN [of x 24]) (simp_all add: word_le_nat_alt)
  have "push_bit 12 (drop_bit 12 (ucast x)) + take_bit 12 (ucast x) = (ucast x :: u64)"
    by (rule bits_ident)
  moreover have "take_bit 12 (ucast x) = (ucast (0xfff AND x) :: u64)"
    by (rule word_eq_bitI) (auto simp: and_0xfff bit_simps)
  moreover have "drop_bit 12 (ucast x) = (ucast (0xfff AND drop_bit 12 x) :: u64)"
    by (rule word_eq_bitI) (auto simp: and_0xfff bit_simps n intro: ccontr)
  ultimately show ?thesis
    by (simp add: add.commute)
qed

lemma run_imm24:
  assumes exec: "executes_add exec" and rd: "rd < 32" and rn: "rn < 32" and x: "x \<le> 0xffffff"
  shows "run_words exec (imm24_words sub rd rn x) regs = regs(rd := add_sub sub (regs rn) (ucast x))"
proof -
  have e: "exec (a64_add_imm sub a b (0xfff AND v) sh) r =
      r(a := add_sub sub (r b) (push_bit (12 * sh) (ucast (0xfff AND v))))" if "a < 32" "b < 32" "sh < 2" for a b v sh r
    using exec that imm12_small(1) by (simp add: executes_add_def)
  have lo: "x \<le> 0xfff \<Longrightarrow> 0xfff AND x = x"
    by (simp add: and_0xfff take_bit_small word_le_nat_alt)
  have two: "add_sub sub (add_sub sub a b) c = add_sub sub a (b + c)" for a b c
    by (simp add: add_sub_def)
  have hi: "x AND 0xfff = 0 \<Longrightarrow> (ucast x :: u64) = push_bit 12 (ucast (0xfff AND drop_bit 12 x))"
    using ucast_split24 [OF x] by (simp add: and.commute)
  show ?thesis
  proof (cases "x \<le> 0xfff")
    case True
    then show ?thesis
      using e [OF rd rn, of 0 x regs] lo by (simp add: imm24_words_def run_words_def)
  next
    case False
    then show ?thesis
      using rd rn hi by (simp add: imm24_words_def run_words_def e two ucast_split24 [OF x, symmetric])
  qed
qed

text \<open>
  Adding (or subtracting) an immediate of up to 24 bits appends one or two words, and executing them sets
  the destination to the source plus (minus) the immediate, modulo two to the 64, and changes nothing
  else; source and destination may be the same register, and may be the stack pointer.
\<close>

theorem alu_compute_imm24_adds:
  assumes "ready 2 g" and "rd < 32" and "rn < 32" and "x \<le> 0xffffff" and "executes_add exec"
  shows "let g' = libxsmm_aarch64_instruction_alu_compute_imm24 g (add_sub_instr sub) (gp_x rn) (gp_x rd) x
    in last_error g' = last_error g \<and>
       run_words exec (new_words g g') regs = regs(rd := add_sub sub (regs rn) (ucast x))"
proof -
  have r: "ready (length (imm24_words sub rd rn x)) g"
    by (rule ready_mono [OF assms(1) length_imm24_words])
  show ?thesis
    by (simp add: Let_def alu_compute_imm24_words assms new_words_emit r run_imm24 emit_words_error)
qed

lemma alu_compute_shifted_reg_word:
  assumes "ready (Suc n) g" and "rd < 31" and "rn < 31" and "rm < 31"
  shows "libxsmm_aarch64_instruction_alu_compute_shifted_reg g
      (if sub then LIBXSMM_AARCH64_INSTR_GP_SUB_SR else LIBXSMM_AARCH64_INSTR_GP_ADD_SR)
      (gp_x rn) (gp_x rm) (gp_x rd) 0 LIBXSMM_AARCH64_SHIFTMODE_LSL = emit_word g (a64_add_reg sub rd rn rm)"
proof -
  have "\<not> arch g < LIBXSMM_AARCH64_V81" "\<not> no_space g"
    using ready_guards(1) [OF assms(1)] ready_space [OF assms(1)] by simp_all
  then show ?thesis
    using ready_guards(2) [OF assms(1)] gp_x_fields [of rd] gp_x_fields [of rn] gp_x_fields [of rm] assms(2-4)
    by (cases sub) (auto simp: libxsmm_aarch64_instruction_alu_compute_shifted_reg_def a64_add_reg_def emit_word_def
        Let_def or.assoc or_numerals)
qed

definition imm64_words :: "bool \<Rightarrow> nat \<Rightarrow> nat \<Rightarrow> nat \<Rightarrow> u64 \<Rightarrow> u32 list" where
  "imm64_words sub rd rn rt x =
     (if x \<le> 0xffffff then imm24_words sub rd rn (ucast (x AND 0xffffff))
      else set_imm64_words rt x @ [a64_add_reg sub rd rn rt])"

lemma length_imm64_words: "length (imm64_words sub rd rn rt x) \<le> 5"
  using length_imm24_words [of sub rd rn "ucast (x AND 0xffffff)"] length_set_imm64_words [of rt x]
  by (simp add: imm64_words_def)

lemma imm24_of_imm64:
  "ucast (x AND 0xffffff :: u64) \<le> (0xffffff :: u32)"
  "x \<le> 0xffffff \<Longrightarrow> ucast (ucast (x AND 0xffffff) :: u32) = x"
proof -
  have m: "x AND 0xffffff = take_bit 24 x" for x :: u64
    by (simp add: take_bit_eq_mask mask_eq_exp_minus_1)
  have "unat (ucast (take_bit 24 x) :: u32) < 2 ^ 24"
    by (simp add: unat_ucast_mod unat_take_bit)
  then show "ucast (x AND 0xffffff :: u64) \<le> (0xffffff :: u32)"
    by (simp add: m word_le_nat_alt)
  assume "x \<le> 0xffffff"
  then have "take_bit 24 x = x"
    by (simp add: take_bit_small word_le_nat_alt)
  moreover have "ucast (ucast (take_bit 24 x) :: u32) = take_bit 24 x"
    by (rule word_eq_bitI) (auto simp: bit_simps)
  ultimately show "ucast (ucast (x AND 0xffffff) :: u32) = x"
    by (simp add: m)
qed

lemma alu_compute_imm64_words:
  assumes r: "ready 5 g" and rd: "rd < 31" and rn: "rn < 31" and rt: "rt < 31"
  shows "libxsmm_aarch64_instruction_alu_compute_imm64 g (add_sub_meta sub) (gp_x rn) (gp_x rt) (gp_x rd) x
    = emit_words g (imm64_words sub rd rn rt x)"
proof -
  have r2: "ready 2 g" and r4: "ready 4 g"
    by (rule ready_mono [OF r], simp)+
  have r1: "ready (Suc 0) (emit_words g (set_imm64_words rt x))"
    by (rule ready_emit_words, rule ready_mono [OF r]) (use length_set_imm64_words [of rt x] in simp)
  note short = alu_compute_imm24_words [OF r2, of rd rn "ucast (x AND 0xffffff)" sub]
  note long = alu_compute_shifted_reg_word [OF r1 rd rn rt, of sub]
  have a: "\<not> arch g < LIBXSMM_AARCH64_V81"
    using ready_guards(1) [OF r] by simp
  show ?thesis
    using a rd rn rt short long imm24_of_imm64(1) [of x]
    by (cases sub) (simp_all add: libxsmm_aarch64_instruction_alu_compute_imm64_def imm64_words_def add_sub_meta_def
        add_sub_instr_def set_imm64_emits_words [OF r4] emit_words_append)
qed

text \<open>
  C6: Adding (or subtracting) any 64-bit immediate with \<open>alu_compute_imm64\<close> appends at most five
  words, and executing them sets the destination to the source plus (minus) the immediate modulo two
  to the 64, for every choice of registers in which the scratch register is not the source; only the
  destination and the scratch register change.
\<close>

theorem alu_compute_imm64_adds:
  assumes "ready 5 g" and "rd < 31" and "rn < 31" and "rt < 31" and "rt \<noteq> rn"
    and "executes_move_wide exec" and "executes_add exec" and "r = rd \<or> r \<noteq> rt"
  shows "let g' = libxsmm_aarch64_instruction_alu_compute_imm64 g (add_sub_meta sub) (gp_x rn) (gp_x rt) (gp_x rd) x
    in last_error g' = last_error g \<and>
       run_words exec (new_words g g') regs r = (regs(rd := add_sub sub (regs rn) x)) r"
proof -
  have l: "ready (length (imm64_words sub rd rn rt x)) g"
    by (rule ready_mono [OF assms(1) length_imm64_words])
  have short: "run_words exec (imm24_words sub rd rn (ucast (x AND 0xffffff))) regs =
      regs(rd := add_sub sub (regs rn) x)" if "x \<le> 0xffffff"
    using run_imm24 [OF assms(7) _ _ imm24_of_imm64(1)] assms(2,3) imm24_of_imm64(2) [OF that] by simp
  have "exec (a64_add_reg sub rd rn rt) (regs(rt := x)) = (regs(rt := x))(rd := add_sub sub (regs rn) x)"
    using assms(2-5,7) by (simp add: executes_add_def)
  then have long: "run_words exec (set_imm64_words rt x @ [a64_add_reg sub rd rn rt]) regs =
      (regs(rt := x))(rd := add_sub sub (regs rn) x)"
    using run_set_imm64 [OF assms(6,4), of x regs] by (simp add: run_words_def)
  have "run_words exec (imm64_words sub rd rn rt x) regs r = (regs(rd := add_sub sub (regs rn) x)) r"
    using short long assms(8) by (auto simp: imm64_words_def)
  then show ?thesis
    by (simp add: Let_def alu_compute_imm64_words assms new_words_emit l emit_words_error)
qed

theorem alu_compute_imm64_adds_witness:
  "run_words a64_step (new_words (fresh_stream LIBXSMM_AARCH64_V81 64)
     (libxsmm_aarch64_instruction_alu_compute_imm64 (fresh_stream LIBXSMM_AARCH64_V81 64)
        (add_sub_meta False) (gp_x 1) (gp_x 2) (gp_x 1) 0x123456789)) (\<lambda>_. 1) 1 = 0x12345678a"
proof -
  have "ready 5 (fresh_stream LIBXSMM_AARCH64_V81 64)"
    by (simp add: ready_def wf_code_def fresh_stream_def)
  from alu_compute_imm64_adds [OF this _ _ _ _ a64_step_move_wide a64_step_add, of 1 1 2 1 False "0x123456789" "\<lambda>_. 1"]
  show ?thesis
    by (simp add: Let_def add_sub_def)
qed

end
