(* ===== verification/AArch64_Asimd.thy ===== *)
theory AArch64_Asimd
  imports Gencode "HOL-Library.Signed_Division"
begin

text \<open>
  The ASIMD instructions of \<open>src/generator_aarch64_instructions.c\<close>: loads and stores, moves
  between general purpose and vector registers, structure loads, pair moves and the vector
  arithmetic.
\<close>

section \<open>Instructions\<close>

definition libxsmm_aarch64_instruction_asimd_move ::
  "gencode \<Rightarrow> u32 \<Rightarrow> u32 \<Rightarrow> u32 \<Rightarrow> int \<Rightarrow> u32 \<Rightarrow> libxsmm_aarch64_asimd_width \<Rightarrow> gencode" where
  "libxsmm_aarch64_instruction_asimd_move g i_vmove_instr i_gp_reg_addr i_gp_reg_offset i_offset i_vec_reg i_asimdwidth =
     (if arch g < LIBXSMM_AARCH64_V81 then LIBXSMM_EXIT_ERROR g
      else if i_vmove_instr \<notin>
          {LIBXSMM_AARCH64_INSTR_ASIMD_LDR_R, LIBXSMM_AARCH64_INSTR_ASIMD_LDR_I_OFF,
          LIBXSMM_AARCH64_INSTR_ASIMD_LDR_I_POST, LIBXSMM_AARCH64_INSTR_ASIMD_LDR_I_PRE,
          LIBXSMM_AARCH64_INSTR_ASIMD_STR_R, LIBXSMM_AARCH64_INSTR_ASIMD_STR_I_OFF,
          LIBXSMM_AARCH64_INSTR_ASIMD_STR_I_POST, LIBXSMM_AARCH64_INSTR_ASIMD_STR_I_PRE}
      then LIBXSMM_EXIT_ERROR g
      else if code_type g > 1 then
        if no_space g then libxsmm_handle_error g LIBXSMM_ERR_BUFFER_TOO_SMALL
        else
          let c = 0xffffff00 AND i_vmove_instr;
              c = c OR (0x1f AND i_vec_reg);
              c = c OR push_bit 5 (0x1f AND i_gp_reg_addr);
              c = c OR push_bit 29 (0x6 AND asimd_width_val i_asimdwidth);
              c = c OR push_bit 23 (0x1 AND asimd_width_val i_asimdwidth);
              c = (if i_vmove_instr AND 0x3 = 0x3 \<and> i_vmove_instr AND 0x4 = 0x0
                   then c OR push_bit 16 (0x1f AND i_gp_reg_offset) OR push_bit 8 (0x20 AND i_gp_reg_offset)
                   else c)
          in case (if i_vmove_instr AND 0x6 = 0x6 then
                     if i_vmove_instr = LIBXSMM_AARCH64_INSTR_ASIMD_LDR_I_OFF
                        \<or> i_vmove_instr = LIBXSMM_AARCH64_INSTR_ASIMD_STR_I_OFF then
                       (let l_imm = (case i_asimdwidth of
                              LIBXSMM_AARCH64_ASIMD_WIDTH_H \<Rightarrow> i_offset sdiv 2
                            | LIBXSMM_AARCH64_ASIMD_WIDTH_S \<Rightarrow> i_offset sdiv 4
                            | LIBXSMM_AARCH64_ASIMD_WIDTH_D \<Rightarrow> i_offset sdiv 8
                            | LIBXSMM_AARCH64_ASIMD_WIDTH_Q \<Rightarrow> i_offset sdiv 16
                            | _ \<Rightarrow> i_offset)
                        in if l_imm > 0x0fff \<or> i_offset < 0 then None
                           else Some (push_bit 10 (word_of_int (0x00000fff AND l_imm))))
                     else if i_offset < -256 \<or> i_offset > 255 then None
                     else Some (push_bit 12 (word_of_int (0x000001ff AND i_offset)))
                   else Some 0) of
               None \<Rightarrow> LIBXSMM_EXIT_ERROR (put_code g c)
             | Some imm \<Rightarrow> advance_code (put_code g (c OR imm))
      else LIBXSMM_EXIT_ERROR g)"

definition libxsmm_aarch64_instruction_asimd_gpr_move ::
  "gencode \<Rightarrow> u32 \<Rightarrow> u32 \<Rightarrow> u32 \<Rightarrow> int \<Rightarrow> libxsmm_aarch64_asimd_width \<Rightarrow> gencode" where
  "libxsmm_aarch64_instruction_asimd_gpr_move g i_vmove_instr i_gp_reg i_vec_reg i_index i_asimdwidth =
     (if arch g < LIBXSMM_AARCH64_V81 then LIBXSMM_EXIT_ERROR g
      else if i_vmove_instr \<notin>
          {LIBXSMM_AARCH64_INSTR_ASIMD_UMOV_V_G, LIBXSMM_AARCH64_INSTR_ASIMD_MOV_G_V,
          LIBXSMM_AARCH64_INSTR_ASIMD_DUP_HALF, LIBXSMM_AARCH64_INSTR_ASIMD_DUP_FULL}
      then LIBXSMM_EXIT_ERROR g
      else if code_type g > 1 then
        if no_space g then libxsmm_handle_error g LIBXSMM_ERR_BUFFER_TOO_SMALL
        else
          let c = 0xffffff00 AND i_vmove_instr;
              c = c OR (if i_vmove_instr AND 0x8 = 0x8 then 0x1f AND i_vec_reg else 0x1f AND i_gp_reg);
              c = c OR (if i_vmove_instr AND 0x8 = 0x8 then push_bit 5 (0x1f AND i_gp_reg)
                        else push_bit 5 (0x1f AND i_vec_reg));
              c = c OR (if i_asimdwidth = LIBXSMM_AARCH64_ASIMD_WIDTH_D then 0x40000000 else 0x0);
              c = (if i_vmove_instr = LIBXSMM_AARCH64_INSTR_ASIMD_DUP_FULL then c OR 0x40000000 else c)
          in case (if i_asimdwidth = LIBXSMM_AARCH64_ASIMD_WIDTH_B
                   then Some (0x1 OR push_bit 1 (word_of_int (i_index AND 0xf)))
                   else if i_asimdwidth = LIBXSMM_AARCH64_ASIMD_WIDTH_H
                   then Some (0x2 OR push_bit 2 (word_of_int (i_index AND 0x7)))
                   else if i_asimdwidth = LIBXSMM_AARCH64_ASIMD_WIDTH_S
                   then Some (0x4 OR push_bit 3 (word_of_int (i_index AND 0x3)))
                   else if i_asimdwidth = LIBXSMM_AARCH64_ASIMD_WIDTH_D
                   then Some (0x8 OR push_bit 4 (word_of_int (i_index AND 0x1)))
                   else None) of
               None \<Rightarrow> LIBXSMM_EXIT_ERROR (put_code g c)
             | Some l_imm5 \<Rightarrow> advance_code (put_code g (c OR push_bit 16 l_imm5))
      else LIBXSMM_EXIT_ERROR g)"

definition libxsmm_aarch64_instruction_asimd_struct_r_move ::
  "gencode \<Rightarrow> u32 \<Rightarrow> u32 \<Rightarrow> u32 \<Rightarrow> u32 \<Rightarrow> libxsmm_aarch64_asimd_tupletype \<Rightarrow> gencode" where
  "libxsmm_aarch64_instruction_asimd_struct_r_move g i_vmove_instr i_gp_reg_addr i_gp_reg_offset i_vec_reg i_tupletype =
     (if arch g < LIBXSMM_AARCH64_V81 then LIBXSMM_EXIT_ERROR g
      else if i_vmove_instr \<notin>
          {LIBXSMM_AARCH64_INSTR_ASIMD_LD1R, LIBXSMM_AARCH64_INSTR_ASIMD_LD1R_R_POST}
      then LIBXSMM_EXIT_ERROR g
      else if code_type g > 1 then
        if no_space g then libxsmm_handle_error g LIBXSMM_ERR_BUFFER_TOO_SMALL
        else
          let c = 0xffffff00 AND i_vmove_instr;
              c = c OR (0x1f AND i_vec_reg);
              c = c OR push_bit 5 (0x1f AND i_gp_reg_addr);
              c = c OR push_bit 9 (0x6 AND asimd_tupletype_val i_tupletype);
              c = c OR push_bit 30 (0x1 AND asimd_tupletype_val i_tupletype);
              c = (if i_vmove_instr AND 0x3 = 0x3 then c OR push_bit 16 (0x1f AND i_gp_reg_offset) else c)
          in advance_code (put_code g c)
      else LIBXSMM_EXIT_ERROR g)"

definition libxsmm_aarch64_instruction_asimd_struct_move ::
  "gencode \<Rightarrow> u32 \<Rightarrow> u32 \<Rightarrow> u32 \<Rightarrow> int \<Rightarrow> u32 \<Rightarrow> int \<Rightarrow> libxsmm_aarch64_asimd_width \<Rightarrow> gencode" where
  "libxsmm_aarch64_instruction_asimd_struct_move g i_vmove_instr i_gp_reg_addr i_gp_reg_offset i_offset i_vec_reg
      i_index i_asimdwidth =
     (if arch g < LIBXSMM_AARCH64_V81 then LIBXSMM_EXIT_ERROR g
      else if i_vmove_instr \<notin>
          {LIBXSMM_AARCH64_INSTR_ASIMD_LD1_I_POST, LIBXSMM_AARCH64_INSTR_ASIMD_LD1_R_POST}
      then LIBXSMM_EXIT_ERROR g
      else if code_type g > 1 then
        if no_space g then libxsmm_handle_error g LIBXSMM_ERR_BUFFER_TOO_SMALL
        else
          let c = 0xffffff00 AND i_vmove_instr;
              c = c OR (0x1f AND i_vec_reg);
              c = c OR push_bit 5 (0x1f AND i_gp_reg_addr);
              c = (if 0x3 AND i_vmove_instr = 0x3 then c OR push_bit 16 (0x1f AND i_gp_reg_offset) else c)
          in case (case i_asimdwidth of
                 LIBXSMM_AARCH64_ASIMD_WIDTH_S \<Rightarrow>
                   (if 0x3 AND i_vmove_instr \<noteq> 0x3 \<and> i_offset \<noteq> 4 then None
                    else Some (word_of_int (0x1 AND drop_bit 1 i_index), word_of_int (0x1 AND i_index), 0))
               | LIBXSMM_AARCH64_ASIMD_WIDTH_D \<Rightarrow>
                   (if 0x3 AND i_vmove_instr \<noteq> 0x3 \<and> i_offset \<noteq> 8 then None
                    else Some (word_of_int (0x1 AND i_index), 0, 0x1))
               | _ \<Rightarrow> None) of
               None \<Rightarrow> LIBXSMM_EXIT_ERROR (put_code g c)
             | Some (l_q, l_s, l_sz) \<Rightarrow>
                 (let c = c OR push_bit 30 l_q;
                      c = c OR push_bit 12 l_s;
                      c = c OR push_bit 10 l_sz
                  in advance_code (put_code g c))
      else LIBXSMM_EXIT_ERROR g)"

definition libxsmm_aarch64_instruction_asimd_pair_move ::
  "gencode \<Rightarrow> u32 \<Rightarrow> u32 \<Rightarrow> int \<Rightarrow> u32 \<Rightarrow> u32 \<Rightarrow> libxsmm_aarch64_asimd_width \<Rightarrow> gencode" where
  "libxsmm_aarch64_instruction_asimd_pair_move g i_vmove_instr i_gp_reg_addr i_offset i_vec_reg_0 i_vec_reg_1 i_asimdwidth =
     (if arch g < LIBXSMM_AARCH64_V81 then LIBXSMM_EXIT_ERROR g
      else if i_vmove_instr \<notin>
          {LIBXSMM_AARCH64_INSTR_ASIMD_LDP_I_OFF, LIBXSMM_AARCH64_INSTR_ASIMD_LDP_I_POST,
          LIBXSMM_AARCH64_INSTR_ASIMD_LDP_I_PRE, LIBXSMM_AARCH64_INSTR_ASIMD_LDNP_I_OFF,
          LIBXSMM_AARCH64_INSTR_ASIMD_STP_I_OFF, LIBXSMM_AARCH64_INSTR_ASIMD_STP_I_POST,
          LIBXSMM_AARCH64_INSTR_ASIMD_STP_I_PRE, LIBXSMM_AARCH64_INSTR_ASIMD_STNP_I_OFF}
      then LIBXSMM_EXIT_ERROR g
      else if code_type g > 1 then
        if no_space g then libxsmm_handle_error g LIBXSMM_ERR_BUFFER_TOO_SMALL
        else case (case i_asimdwidth of
               LIBXSMM_AARCH64_ASIMD_WIDTH_S \<Rightarrow> Some (0x0 :: u32, signed_take_bit 7 (i_offset sdiv 4))
             | LIBXSMM_AARCH64_ASIMD_WIDTH_D \<Rightarrow> Some (0x1, signed_take_bit 7 (i_offset sdiv 8))
             | LIBXSMM_AARCH64_ASIMD_WIDTH_Q \<Rightarrow> Some (0x2, signed_take_bit 7 (i_offset sdiv 16))
             | _ \<Rightarrow> None) of
            None \<Rightarrow> LIBXSMM_EXIT_ERROR g
          | Some (l_opc, l_imm) \<Rightarrow>
              (if l_imm < -64 \<or> l_imm > 63 then LIBXSMM_EXIT_ERROR g
               else
                 let c = 0xffffff00 AND i_vmove_instr;
                     c = c OR (0x1f AND i_vec_reg_0);
                     c = c OR push_bit 5 (0x1f AND i_gp_reg_addr);
                     c = c OR push_bit 10 (0x1f AND i_vec_reg_1);
                     c = c OR push_bit 15 (word_of_int (0x7f AND l_imm));
                     c = c OR push_bit 30 l_opc
                 in advance_code (put_code g c))
      else LIBXSMM_EXIT_ERROR g)"

text \<open>The instruction numbers of the \<open>switch\<close> in \<open>asimd_compute\<close>.\<close>

definition asimd_compute_instrs :: "u32 list" where
  "asimd_compute_instrs = [LIBXSMM_AARCH64_INSTR_ASIMD_EOR_V, LIBXSMM_AARCH64_INSTR_ASIMD_ORR_V,
     LIBXSMM_AARCH64_INSTR_ASIMD_AND_V, LIBXSMM_AARCH64_INSTR_ASIMD_ADD_V,
     LIBXSMM_AARCH64_INSTR_ASIMD_ADDV_V, LIBXSMM_AARCH64_INSTR_ASIMD_BIC_V,
     LIBXSMM_AARCH64_INSTR_ASIMD_BIF_V, LIBXSMM_AARCH64_INSTR_ASIMD_BIT_V,
     LIBXSMM_AARCH64_INSTR_ASIMD_BSL_V, LIBXSMM_AARCH64_INSTR_ASIMD_NEG_V,
     LIBXSMM_AARCH64_INSTR_ASIMD_NOT_V, LIBXSMM_AARCH64_INSTR_ASIMD_ORN_V,
     LIBXSMM_AARCH64_INSTR_ASIMD_SHL_I_V, LIBXSMM_AARCH64_INSTR_ASIMD_SSHR_I_V,
     LIBXSMM_AARCH64_INSTR_ASIMD_USHR_I_V, LIBXSMM_AARCH64_INSTR_ASIMD_SSHL_R_V,
     LIBXSMM_AARCH64_INSTR_ASIMD_USHL_R_V, LIBXSMM_AARCH64_INSTR_ASIMD_CMEQ_R_V,
     LIBXSMM_AARCH64_INSTR_ASIMD_CMEQ_Z_V, LIBXSMM_AARCH64_INSTR_ASIMD_CMGE_R_V,
     LIBXSMM_AARCH64_INSTR_ASIMD_CMGE_Z_V, LIBXSMM_AARCH64_INSTR_ASIMD_CMGT_R_V,
     LIBXSMM_AARCH64_INSTR_ASIMD_CMGT_Z_V, LIBXSMM_AARCH64_INSTR_ASIMD_CMLE_Z_V,
     LIBXSMM_AARCH64_INSTR_ASIMD_CMLT_Z_V, LIBXSMM_AARCH64_INSTR_ASIMD_FMLA_E_S,
     LIBXSMM_AARCH64_INSTR_ASIMD_FMLA_E_V, LIBXSMM_AARCH64_INSTR_ASIMD_FMLA_V,
     LIBXSMM_AARCH64_INSTR_ASIMD_FMLS_E_S, LIBXSMM_AARCH64_INSTR_ASIMD_FMLS_E_V,
     LIBXSMM_AARCH64_INSTR_ASIMD_FMLS_V, LIBXSMM_AARCH64_INSTR_ASIMD_FADD_V,
     LIBXSMM_AARCH64_INSTR_ASIMD_FSUB_V, LIBXSMM_AARCH64_INSTR_ASIMD_FMUL_V,
     LIBXSMM_AARCH64_INSTR_ASIMD_FMUL_E_V, LIBXSMM_AARCH64_INSTR_ASIMD_FDIV_V,
     LIBXSMM_AARCH64_INSTR_ASIMD_FNEG_V, LIBXSMM_AARCH64_INSTR_ASIMD_FSQRT_V,
     LIBXSMM_AARCH64_INSTR_ASIMD_FRECPE_V, LIBXSMM_AARCH64_INSTR_ASIMD_FRECPS_V,
     LIBXSMM_AARCH64_INSTR_ASIMD_FRSQRTE_V, LIBXSMM_AARCH64_INSTR_ASIMD_FRSQRTS_V,
     LIBXSMM_AARCH64_INSTR_ASIMD_FMAX_V, LIBXSMM_AARCH64_INSTR_ASIMD_FMIN_V,
     LIBXSMM_AARCH64_INSTR_ASIMD_FADDP_V, LIBXSMM_AARCH64_INSTR_ASIMD_FMAXP_V,
     LIBXSMM_AARCH64_INSTR_ASIMD_FMINP_V, LIBXSMM_AARCH64_INSTR_ASIMD_FCMEQ_R_V,
     LIBXSMM_AARCH64_INSTR_ASIMD_FCMEQ_Z_V, LIBXSMM_AARCH64_INSTR_ASIMD_FCMGE_R_V,
     LIBXSMM_AARCH64_INSTR_ASIMD_FCMGE_Z_V, LIBXSMM_AARCH64_INSTR_ASIMD_FCMGT_R_V,
     LIBXSMM_AARCH64_INSTR_ASIMD_FCMGT_Z_V, LIBXSMM_AARCH64_INSTR_ASIMD_FCMLE_Z_V,
     LIBXSMM_AARCH64_INSTR_ASIMD_FCMLT_Z_V, LIBXSMM_AARCH64_INSTR_ASIMD_FRINTM_V,
     LIBXSMM_AARCH64_INSTR_ASIMD_FCVTMS_V, LIBXSMM_AARCH64_INSTR_ASIMD_TRN1,
     LIBXSMM_AARCH64_INSTR_ASIMD_TRN2, LIBXSMM_AARCH64_INSTR_ASIMD_ZIP1,
     LIBXSMM_AARCH64_INSTR_ASIMD_ZIP2, LIBXSMM_AARCH64_INSTR_ASIMD_UZP1,
     LIBXSMM_AARCH64_INSTR_ASIMD_UZP2, LIBXSMM_AARCH64_INSTR_ASIMD_TBL_1,
     LIBXSMM_AARCH64_INSTR_ASIMD_TBL_2, LIBXSMM_AARCH64_INSTR_ASIMD_TBL_3,
     LIBXSMM_AARCH64_INSTR_ASIMD_TBL_4, LIBXSMM_AARCH64_INSTR_ASIMD_TBX_1,
     LIBXSMM_AARCH64_INSTR_ASIMD_TBX_2, LIBXSMM_AARCH64_INSTR_ASIMD_TBX_3,
     LIBXSMM_AARCH64_INSTR_ASIMD_TBX_4, LIBXSMM_AARCH64_INSTR_ASIMD_BFMMLA_V,
     LIBXSMM_AARCH64_INSTR_ASIMD_SMMLA_V, LIBXSMM_AARCH64_INSTR_ASIMD_UMMLA_V,
     LIBXSMM_AARCH64_INSTR_ASIMD_USMMLA_V, LIBXSMM_AARCH64_INSTR_ASIMD_BFDOT_E_V,
     LIBXSMM_AARCH64_INSTR_ASIMD_BFDOT_V]"

definition libxsmm_aarch64_instruction_asimd_compute ::
  "gencode \<Rightarrow> u32 \<Rightarrow> u32 \<Rightarrow> u32 \<Rightarrow> u8 \<Rightarrow> u32 \<Rightarrow> libxsmm_aarch64_asimd_tupletype \<Rightarrow> gencode" where
  "libxsmm_aarch64_instruction_asimd_compute g i_vec_instr i_vec_reg_src_0 i_vec_reg_src_1 i_idx_shf i_vec_reg_dst i_tupletype =
     (if arch g < LIBXSMM_AARCH64_V81 then LIBXSMM_EXIT_ERROR g
      else if i_vec_instr \<notin> set asimd_compute_instrs
      then LIBXSMM_EXIT_ERROR g
      else if 0x3 AND i_vec_instr = 2 \<and> i_vec_reg_src_1 \<noteq> LIBXSMM_AARCH64_ASIMD_REG_UNDEF
      then LIBXSMM_EXIT_ERROR g
      else if code_type g > 1 then
        if no_space g then libxsmm_handle_error g LIBXSMM_ERR_BUFFER_TOO_SMALL
        else
          let c = 0xffffff00 AND i_vec_instr;
              c = c OR (0x1f AND i_vec_reg_dst);
              c = c OR push_bit 5 (0x1f AND i_vec_reg_src_0);
              c = (if 0x3 AND i_vec_instr = 0x3 then c OR push_bit 16 (0x1f AND i_vec_reg_src_1) else c);
              c = c OR push_bit 30 (0x1 AND asimd_tupletype_val i_tupletype);
              c = (if 0x10 AND i_vec_instr = 0x0
                   then if 0x8 AND i_vec_instr = 0x8
                        then c OR push_bit 21 (0x2 AND asimd_tupletype_val i_tupletype)
                        else c OR push_bit 21 (0x6 AND asimd_tupletype_val i_tupletype)
                   else c)
          in case (if 0x4 AND i_vec_instr = 0x4 \<and> 0x18 AND i_vec_instr \<noteq> 0x18 then
                     (let l_idx = (if i_tupletype = LIBXSMM_AARCH64_ASIMD_TUPLETYPE_2D then push_bit 1 i_idx_shf
                                   else i_idx_shf)
                      in if i_tupletype = LIBXSMM_AARCH64_ASIMD_TUPLETYPE_2D \<and> i_idx_shf > 2 \<or> i_idx_shf > 4
                         then None
                         else Some (push_bit 21 (ucast (0x1 AND l_idx)) OR push_bit 10 (ucast (0x2 AND l_idx))))
                   else Some 0) of
               None \<Rightarrow> LIBXSMM_EXIT_ERROR (put_code g c)
             | Some eltwise \<Rightarrow>
                 (let c = c OR eltwise
                  in case (if 0x18 AND i_vec_instr = 0x18 then
                        (if i_tupletype = LIBXSMM_AARCH64_ASIMD_TUPLETYPE_8B
                            \<or> i_tupletype = LIBXSMM_AARCH64_ASIMD_TUPLETYPE_16B
                         then Some (0x8 OR (if 0x4 AND i_vec_instr = 0x4 then 0x8 - (i_idx_shf AND 0x7)
                                            else i_idx_shf AND 0x7))
                         else if i_tupletype = LIBXSMM_AARCH64_ASIMD_TUPLETYPE_4H
                                 \<or> i_tupletype = LIBXSMM_AARCH64_ASIMD_TUPLETYPE_8H
                         then Some (0x10 OR (if 0x4 AND i_vec_instr = 0x4 then 0x10 - (i_idx_shf AND 0xf)
                                             else i_idx_shf AND 0xf))
                         else if i_tupletype = LIBXSMM_AARCH64_ASIMD_TUPLETYPE_2S
                                 \<or> i_tupletype = LIBXSMM_AARCH64_ASIMD_TUPLETYPE_4S
                         then Some (0x20 OR (if 0x4 AND i_vec_instr = 0x4 then 0x20 - (i_idx_shf AND 0x1f)
                                             else i_idx_shf AND 0x1f))
                         else if i_tupletype = LIBXSMM_AARCH64_ASIMD_TUPLETYPE_2D
                         then Some (0x40 OR (if 0x4 AND i_vec_instr = 0x4 then 0x40 - (i_idx_shf AND 0x3f)
                                             else i_idx_shf AND 0x3f))
                         else None)
                      else Some 0) of
                       None \<Rightarrow> LIBXSMM_EXIT_ERROR (put_code g c)
                     | Some l_shift \<Rightarrow> advance_code (put_code g (c OR push_bit 16 (ucast l_shift))))
      else LIBXSMM_EXIT_ERROR g)"

section \<open>Every instruction keeps the contract\<close>

interpretation asimd_move:
  instruction "\<lambda>g. libxsmm_aarch64_instruction_asimd_move g i a o' off v w" 1 for i a o' off v w
  by unfold_locales
    (unfold libxsmm_aarch64_instruction_asimd_move_def One_nat_def, (intro emits_rules; (assumption | simp))+)

interpretation asimd_gpr_move:
  instruction "\<lambda>g. libxsmm_aarch64_instruction_asimd_gpr_move g i r v k w" 1 for i r v k w
  by unfold_locales
    (unfold libxsmm_aarch64_instruction_asimd_gpr_move_def One_nat_def, (intro emits_rules; (assumption | simp))+)

interpretation asimd_struct_r_move:
  instruction "\<lambda>g. libxsmm_aarch64_instruction_asimd_struct_r_move g i a o' v t" 1 for i a o' v t
  by unfold_locales
    (unfold libxsmm_aarch64_instruction_asimd_struct_r_move_def One_nat_def, (intro emits_rules; (assumption | simp))+)

interpretation asimd_struct_move:
  instruction "\<lambda>g. libxsmm_aarch64_instruction_asimd_struct_move g i a o' off v k w" 1 for i a o' off v k w
  by unfold_locales
    (unfold libxsmm_aarch64_instruction_asimd_struct_move_def One_nat_def, (intro emits_rules; (assumption | simp))+)

interpretation asimd_pair_move:
  instruction "\<lambda>g. libxsmm_aarch64_instruction_asimd_pair_move g i a off r0 r1 w" 1 for i a off r0 r1 w
  by unfold_locales
    (unfold libxsmm_aarch64_instruction_asimd_pair_move_def One_nat_def, (intro emits_rules; (assumption | simp))+)

interpretation asimd_compute:
  instruction "\<lambda>g. libxsmm_aarch64_instruction_asimd_compute g i s0 s1 k d t" 1 for i s0 s1 k d t
  by unfold_locales
    (unfold libxsmm_aarch64_instruction_asimd_compute_def One_nat_def, (intro emits_rules; (assumption | simp))+)

section \<open>The register fields of vector arithmetic\<close>

text \<open>
  The three operand fields of every instruction number of \<open>asimd_compute\<close> are clear, and its bits 8 and 9
  too, so that the registers can be put into them.
\<close>

lemma asimd_compute_clear:
  "list_all (\<lambda>i. take_bit 10 (0xffffff00 AND i) = 0 \<and> (i AND 3 = 3 \<longrightarrow> take_bit 5 (drop_bit 16 i) = 0)
     \<and> (i AND 3 = 3 \<longrightarrow> i AND 0x18 \<noteq> 0x18)) asimd_compute_instrs"
  by (simp add: asimd_compute_instrs_def)

text \<open>The word in three parts: the fixed bits with registers and type, the element index, the shift amount.\<close>

definition asimd_base :: "u32 \<Rightarrow> u32 \<Rightarrow> u32 \<Rightarrow> u32 \<Rightarrow> u32 \<Rightarrow> u32" where
  "asimd_base i rn rm rd tv =
     (let c = 0xffffff00 AND i;
          c = c OR (0x1f AND rd);
          c = c OR push_bit 5 (0x1f AND rn);
          c = (if 0x3 AND i = 0x3 then c OR push_bit 16 (0x1f AND rm) else c);
          c = c OR push_bit 30 (0x1 AND tv)
      in if 0x10 AND i = 0x0
         then if 0x8 AND i = 0x8 then c OR push_bit 21 (0x2 AND tv) else c OR push_bit 21 (0x6 AND tv)
         else c)"

definition asimd_eltwise :: "u32 \<Rightarrow> u8 \<Rightarrow> libxsmm_aarch64_asimd_tupletype \<Rightarrow> u32 option" where
  "asimd_eltwise i idx t =
     (if 0x4 AND i = 0x4 \<and> 0x18 AND i \<noteq> 0x18 then
        (let l_idx = (if t = LIBXSMM_AARCH64_ASIMD_TUPLETYPE_2D then push_bit 1 idx else idx)
         in if t = LIBXSMM_AARCH64_ASIMD_TUPLETYPE_2D \<and> idx > 2 \<or> idx > 4 then None
            else Some (push_bit 21 (ucast (0x1 AND l_idx)) OR push_bit 10 (ucast (0x2 AND l_idx))))
      else Some 0)"

definition asimd_shift :: "u32 \<Rightarrow> u8 \<Rightarrow> libxsmm_aarch64_asimd_tupletype \<Rightarrow> u8 option" where
  "asimd_shift i idx t =
     (if 0x18 AND i = 0x18 then
        (if t = LIBXSMM_AARCH64_ASIMD_TUPLETYPE_8B \<or> t = LIBXSMM_AARCH64_ASIMD_TUPLETYPE_16B
         then Some (0x8 OR (if 0x4 AND i = 0x4 then 0x8 - (idx AND 0x7) else idx AND 0x7))
         else if t = LIBXSMM_AARCH64_ASIMD_TUPLETYPE_4H \<or> t = LIBXSMM_AARCH64_ASIMD_TUPLETYPE_8H
         then Some (0x10 OR (if 0x4 AND i = 0x4 then 0x10 - (idx AND 0xf) else idx AND 0xf))
         else if t = LIBXSMM_AARCH64_ASIMD_TUPLETYPE_2S \<or> t = LIBXSMM_AARCH64_ASIMD_TUPLETYPE_4S
         then Some (0x20 OR (if 0x4 AND i = 0x4 then 0x20 - (idx AND 0x1f) else idx AND 0x1f))
         else if t = LIBXSMM_AARCH64_ASIMD_TUPLETYPE_2D
         then Some (0x40 OR (if 0x4 AND i = 0x4 then 0x40 - (idx AND 0x3f) else idx AND 0x3f))
         else None)
      else Some 0)"

lemma asimd_compute_alt:
  "libxsmm_aarch64_instruction_asimd_compute g i rn rm idx rd t =
     (if arch g < LIBXSMM_AARCH64_V81 then LIBXSMM_EXIT_ERROR g
      else if i \<notin> set asimd_compute_instrs then LIBXSMM_EXIT_ERROR g
      else if 0x3 AND i = 2 \<and> rm \<noteq> LIBXSMM_AARCH64_ASIMD_REG_UNDEF then LIBXSMM_EXIT_ERROR g
      else if code_type g > 1 then
        if no_space g then libxsmm_handle_error g LIBXSMM_ERR_BUFFER_TOO_SMALL
        else case asimd_eltwise i idx t of
            None \<Rightarrow> LIBXSMM_EXIT_ERROR (put_code g (asimd_base i rn rm rd (asimd_tupletype_val t)))
          | Some e \<Rightarrow> (case asimd_shift i idx t of
              None \<Rightarrow> LIBXSMM_EXIT_ERROR (put_code g (asimd_base i rn rm rd (asimd_tupletype_val t) OR e))
            | Some s \<Rightarrow> advance_code (put_code g ((asimd_base i rn rm rd (asimd_tupletype_val t) OR e) OR push_bit 16 (ucast s))))
      else LIBXSMM_EXIT_ERROR g)"
  unfolding libxsmm_aarch64_instruction_asimd_compute_def asimd_base_def asimd_eltwise_def asimd_shift_def Let_def
  by (rule refl)

lemma asimd_compute_ok:
  assumes "last_error (libxsmm_aarch64_instruction_asimd_compute g i rn rm idx rd t) = 0"
  shows "\<exists>e s. i \<in> set asimd_compute_instrs \<and> \<not> no_space g \<and> asimd_eltwise i idx t = Some e \<and> asimd_shift i idx t = Some s \<and>
    libxsmm_aarch64_instruction_asimd_compute g i rn rm idx rd t =
      advance_code (put_code g ((asimd_base i rn rm rd (asimd_tupletype_val t) OR e) OR push_bit 16 (ucast s)))"
  using assms unfolding asimd_compute_alt LIBXSMM_EXIT_ERROR_def
  by (auto split: if_split_asm option.split_asm)

lemma asimd_masks: "(0x1f :: u32) = mask 5" "(0x6 :: u32) = push_bit 1 (mask 2)" "(0x2 :: u32) = push_bit 1 (mask 1)"
  "(0x1 :: u32) = mask 1" "(0x2 :: u8) = push_bit 1 (mask 1)" "(0x1 :: u8) = mask 1"
  by (simp_all add: mask_eq_exp_minus_1)

lemma asimd_eltwise_bits:
  assumes "asimd_eltwise i idx t = Some e"
  shows "take_bit 10 e = 0" and "take_bit 5 (drop_bit 16 e) = 0"
proof -
  have "e = 0 \<or> (\<exists>x :: u8. e = push_bit 21 (ucast (0x1 AND x)) OR push_bit 10 (ucast (0x2 AND x)))"
    using assms by (auto simp: asimd_eltwise_def Let_def split: if_split_asm)
  then show "take_bit 10 e = 0" "take_bit 5 (drop_bit 16 e) = 0"
    unfolding asimd_masks by (auto intro!: word_eq_bitI simp: bit_simps)
qed

lemma asimd_base_fields:
  assumes "i \<in> set asimd_compute_instrs"
  shows "take_bit 5 (asimd_base i rn rm rd tv) = take_bit 5 rd"
    and "take_bit 5 (drop_bit 5 (asimd_base i rn rm rd tv)) = take_bit 5 rn"
    and "i AND 3 = 3 \<Longrightarrow> take_bit 5 (drop_bit 16 (asimd_base i rn rm rd tv)) = take_bit 5 rm"
proof -
  have c: "take_bit 10 (0xffffff00 AND i) = 0" "i AND 3 = 3 \<longrightarrow> take_bit 5 (drop_bit 16 i) = 0"
    using asimd_compute_clear assms by (auto simp: list_all_iff)
  have low: "\<not> bit (0xffffff00 AND i) j" if "j < 10" for j
    using c(1) that by (metis bit_0_eq bit_take_bit_iff bot_apply bot_bool_def)
  have mid: "\<not> bit (0xffffff00 AND i) (16 + j)" if "j < 5" "i AND 3 = 3" for j
  proof -
    have "\<not> bit (take_bit 5 (drop_bit 16 i)) j"
      using c(2) that(2) by simp
    then show ?thesis
      using that(1) by (simp add: bit_simps)
  qed
  let ?b = "asimd_base i rn rm rd tv"
  have rm: "\<exists>r q. ?b = ((((0xffffff00 AND i) OR (mask 5 AND rd)) OR push_bit 5 (mask 5 AND rn)) OR push_bit 16 (mask 5 AND r)) OR (push_bit 30 (mask 1 AND tv) OR push_bit 21 q)
      \<and> (0x3 AND i = 0x3 \<longrightarrow> r = rm) \<and> (\<forall>j. bit q j \<longrightarrow> 1 \<le> j)"
  proof -
    define q :: u32 where "q = (if 0x10 AND i = 0x0 then if 0x8 AND i = 0x8 then 0x2 AND tv else 0x6 AND tv else 0)"
    define r where "r = (if 0x3 AND i = 0x3 then rm else 0)"
    have "bit q j \<longrightarrow> 1 \<le> j" for j
      by (cases j) (auto simp: q_def bit_and_iff)
    moreover have "?b = ((((0xffffff00 AND i) OR (mask 5 AND rd)) OR push_bit 5 (mask 5 AND rn)) OR push_bit 16 (mask 5 AND r)) OR (push_bit 30 (mask 1 AND tv) OR push_bit 21 q)"
      unfolding asimd_base_def Let_def asimd_masks(1,4) [symmetric] q_def r_def by (simp add: or.assoc)
    ultimately show ?thesis
      unfolding r_def by (intro exI [of _ r] exI [of _ q]) (auto simp: r_def)
  qed
  then obtain r q where b0: "?b = ((((0xffffff00 AND i) OR (mask 5 AND rd)) OR push_bit 5 (mask 5 AND rn)) OR push_bit 16 (mask 5 AND r)) OR (push_bit 30 (mask 1 AND tv) OR push_bit 21 q)"
    and r: "0x3 AND i = 0x3 \<Longrightarrow> r = rm" and q: "\<And>j. bit q j \<Longrightarrow> 1 \<le> j"
    by blast
  define k where "k = 0xffffff00 AND i"
  note b = b0 [folded k_def] and low = low [folded k_def] and mid = mid [folded k_def]
  show "take_bit 5 ?b = take_bit 5 rd"
    unfolding b by (rule word_eq_bitI) (use low in \<open>auto simp: bit_or_iff bit_take_bit_iff bit_push_bit_iff bit_and_iff bit_mask_iff dest: bit_u32D\<close>)
  show "take_bit 5 (drop_bit 5 ?b) = take_bit 5 rn"
    unfolding b by (rule word_eq_bitI) (use low in \<open>auto simp: bit_or_iff bit_take_bit_iff bit_drop_bit_eq bit_push_bit_iff bit_and_iff bit_mask_iff dest: bit_u32D\<close>)
  show "take_bit 5 (drop_bit 16 ?b) = take_bit 5 rm" if "i AND 3 = 3"
    unfolding b r [unfolded and.commute [of 3], OF that]
    by (rule word_eq_bitI) (use mid that in \<open>auto simp: bit_or_iff bit_take_bit_iff bit_drop_bit_eq bit_push_bit_iff bit_and_iff bit_mask_iff dest: bit_u32D\<close>)
qed

text \<open>
  C11: Every vector instruction that \<open>asimd_compute\<close> accepts comes out with its destination and first
  source register in the low two operand fields, the second source (of the three-register forms) in the third, and
  nothing else mixed into those fields, whatever the element type, index or shift.
\<close>

theorem asimd_compute_fields:
  assumes "wf_code g" and "libxsmm_aarch64_instruction_asimd_compute g i rn rm idx rd t = g'" and "last_error g' = 0"
  shows "take_bit 5 (emitted g g') = take_bit 5 rd \<and> take_bit 5 (drop_bit 5 (emitted g g')) = take_bit 5 rn \<and>
    (i AND 3 = 3 \<longrightarrow> take_bit 5 (drop_bit 16 (emitted g g')) = take_bit 5 rm)"
proof -
  let ?b = "asimd_base i rn rm rd (asimd_tupletype_val t)"
  obtain e s where i: "i \<in> set asimd_compute_instrs" and e: "asimd_eltwise i idx t = Some e"
    and s: "asimd_shift i idx t = Some s" and g': "g' = advance_code (put_code g ((?b OR e) OR push_bit 16 (ucast s)))"
    using asimd_compute_ok [of g i rn rm idx rd t] assms(2,3) by auto
  note f = asimd_base_fields [OF i, of rn rm rd "asimd_tupletype_val t"]
  have s0: "i AND 3 = 3 \<Longrightarrow> s = 0"
    using asimd_compute_clear i s by (auto simp: list_all_iff asimd_shift_def and.commute [of _ i])
  have e0: "take_bit 5 e = 0" "take_bit 5 (drop_bit 5 e) = 0"
  proof -
    have "take_bit 5 (take_bit 10 e) = 0" "drop_bit 5 (take_bit 10 e) = 0"
      using asimd_eltwise_bits(1) [OF e] by simp_all
    then show "take_bit 5 e = 0" "take_bit 5 (drop_bit 5 e) = 0"
      by (simp_all add: drop_bit_take_bit)
  qed
  have "take_bit 5 (push_bit 16 (ucast s)) = (0 :: u32)" "take_bit 5 (drop_bit 5 (push_bit 16 (ucast s))) = (0 :: u32)"
    by (auto intro!: word_eq_bitI simp: bit_simps)
  then show ?thesis
    unfolding g' emitted_word [OF assms(1)] using f e0 s0 asimd_eltwise_bits(2) [OF e] by simp
qed

theorem asimd_compute_fields_witness:
  "take_bit 5 (emitted (fresh_stream LIBXSMM_AARCH64_V81 64)
     (libxsmm_aarch64_instruction_asimd_compute (fresh_stream LIBXSMM_AARCH64_V81 64)
        LIBXSMM_AARCH64_INSTR_ASIMD_FMLA_E_V 3 4 2 5 LIBXSMM_AARCH64_ASIMD_TUPLETYPE_4S)) = 5"
proof -
  have "wf_code (fresh_stream LIBXSMM_AARCH64_V81 64)"
    by (simp add: wf_code_def fresh_stream_def)
  moreover have "last_error (libxsmm_aarch64_instruction_asimd_compute (fresh_stream LIBXSMM_AARCH64_V81 64)
        LIBXSMM_AARCH64_INSTR_ASIMD_FMLA_E_V 3 4 2 5 LIBXSMM_AARCH64_ASIMD_TUPLETYPE_4S) = 0"
    by (simp add: libxsmm_aarch64_instruction_asimd_compute_def asimd_compute_instrs_def fresh_stream_def no_space_def)
  ultimately show ?thesis
    using asimd_compute_fields [OF _ refl] by simp
qed

text \<open>Element indices of four single-precision lanes are 0 to 3; an index of 4 is not rejected and is encoded as 0.\<close>

lemma asimd_index_4_is_0:
  assumes "0x18 AND i \<noteq> 0x18"
  shows "libxsmm_aarch64_instruction_asimd_compute g i rn rm 4 rd LIBXSMM_AARCH64_ASIMD_TUPLETYPE_4S =
    libxsmm_aarch64_instruction_asimd_compute g i rn rm 0 rd LIBXSMM_AARCH64_ASIMD_TUPLETYPE_4S"
proof -
  have "asimd_eltwise i 4 LIBXSMM_AARCH64_ASIMD_TUPLETYPE_4S = asimd_eltwise i 0 LIBXSMM_AARCH64_ASIMD_TUPLETYPE_4S"
    "asimd_shift i 4 LIBXSMM_AARCH64_ASIMD_TUPLETYPE_4S = asimd_shift i 0 LIBXSMM_AARCH64_ASIMD_TUPLETYPE_4S"
    using assms by (simp_all add: asimd_eltwise_def asimd_shift_def)
  then show ?thesis
    by (simp only: asimd_compute_alt)
qed

end
