(* ===== verification/AArch64_Sve.thy ===== *)
theory AArch64_Sve
  imports Gencode "HOL-Library.Signed_Division"
begin

text \<open>
  The SVE instructions of \<open>src/generator_aarch64_instructions.c\<close>: loads and stores, prefetches,
  vector arithmetic and the predicate instructions.
\<close>

section \<open>Instructions\<close>

definition libxsmm_aarch64_instruction_sve_move ::
  "gencode \<Rightarrow> u32 \<Rightarrow> u32 \<Rightarrow> u32 \<Rightarrow> int \<Rightarrow> u32 \<Rightarrow> u32 \<Rightarrow> gencode" where
  "libxsmm_aarch64_instruction_sve_move g i_vmove_instr i_gp_reg_addr i_reg_offset_idx i_offset i_vec_reg i_pred_reg =
     (if arch g < LIBXSMM_AARCH64_SVE128 then LIBXSMM_EXIT_ERROR g
      else if i_vmove_instr \<notin>
          {LIBXSMM_AARCH64_INSTR_SVE_LDR_P_I_OFF, LIBXSMM_AARCH64_INSTR_SVE_STR_P_I_OFF,
          LIBXSMM_AARCH64_INSTR_SVE_LDR_Z_I_OFF, LIBXSMM_AARCH64_INSTR_SVE_STR_Z_I_OFF,
          LIBXSMM_AARCH64_INSTR_SVE_LD1B_I_OFF, LIBXSMM_AARCH64_INSTR_SVE_ST1B_I_OFF,
          LIBXSMM_AARCH64_INSTR_SVE_LD1H_I_OFF, LIBXSMM_AARCH64_INSTR_SVE_LD1W_SR,
          LIBXSMM_AARCH64_INSTR_SVE_LD1W_I_OFF, LIBXSMM_AARCH64_INSTR_SVE_LD1D_V_OFF64,
          LIBXSMM_AARCH64_INSTR_SVE_LD1W_V_OFF, LIBXSMM_AARCH64_INSTR_SVE_LD1W_V_OFF_SCALE,
          LIBXSMM_AARCH64_INSTR_SVE_LD1W_V_OFF64_SCALE, LIBXSMM_AARCH64_INSTR_SVE_LD1H_V_OFF,
          LIBXSMM_AARCH64_INSTR_SVE_LD1H_V_OFF_SCALE,
          LIBXSMM_AARCH64_INSTR_SVE_LD1H_V_OFF64_SCALE, LIBXSMM_AARCH64_INSTR_SVE_ST1H_I_OFF,
          LIBXSMM_AARCH64_INSTR_SVE_LD1D_SR, LIBXSMM_AARCH64_INSTR_SVE_LD1D_I_OFF,
          LIBXSMM_AARCH64_INSTR_SVE_ST1D_SR, LIBXSMM_AARCH64_INSTR_SVE_ST1D_I_OFF,
          LIBXSMM_AARCH64_INSTR_SVE_STNT1D_I_OFF, LIBXSMM_AARCH64_INSTR_SVE_ST1W_SR,
          LIBXSMM_AARCH64_INSTR_SVE_ST1W_I_OFF, LIBXSMM_AARCH64_INSTR_SVE_ST1W_V_OFF,
          LIBXSMM_AARCH64_INSTR_SVE_ST1W_V_OFF_SCALE,
          LIBXSMM_AARCH64_INSTR_SVE_ST1W_V_OFF64_SCALE, LIBXSMM_AARCH64_INSTR_SVE_ST1H_V_OFF,
          LIBXSMM_AARCH64_INSTR_SVE_ST1H_V_OFF_SCALE,
          LIBXSMM_AARCH64_INSTR_SVE_ST1H_V_OFF64_SCALE, LIBXSMM_AARCH64_INSTR_SVE_STNT1W_I_OFF,
          LIBXSMM_AARCH64_INSTR_SVE_LD1RB_I_OFF, LIBXSMM_AARCH64_INSTR_SVE_LD1RH_I_OFF,
          LIBXSMM_AARCH64_INSTR_SVE_LD1RW_I_OFF, LIBXSMM_AARCH64_INSTR_SVE_LD1RD_I_OFF,
          LIBXSMM_AARCH64_INSTR_SVE_LD1RQD_I_OFF}
      then LIBXSMM_EXIT_ERROR g
      else if code_type g > 1 then
        if no_space g then libxsmm_handle_error g LIBXSMM_ERR_BUFFER_TOO_SMALL
        else
          let c = 0xffffff00 AND i_vmove_instr;
              c = c OR (0x1f AND i_vec_reg);
              c = c OR push_bit 5 (0x1f AND i_gp_reg_addr);
              c = (if i_vmove_instr AND 0x80 = 0x80 then c OR push_bit 10 (0x7 AND i_pred_reg) else c);
              c = (if i_vmove_instr AND 0x3 = 0x3 then c OR push_bit 16 (0x1f AND i_reg_offset_idx) else c)
          in case (if i_vmove_instr AND 0x4 = 0x4 then
                     if i_vmove_instr = LIBXSMM_AARCH64_INSTR_SVE_LD1RW_I_OFF
                        \<or> i_vmove_instr = LIBXSMM_AARCH64_INSTR_SVE_LD1RD_I_OFF then
                       if i_offset < 0 then None
                       else (let l_offset = (if i_vmove_instr = LIBXSMM_AARCH64_INSTR_SVE_LD1RW_I_OFF
                                             then ucast (drop_bit 2 (word_of_int i_offset :: u32))
                                             else if i_vmove_instr = LIBXSMM_AARCH64_INSTR_SVE_LD1RD_I_OFF
                                             then ucast (drop_bit 3 (word_of_int i_offset :: u32))
                                             else 0) :: u8
                             in if l_offset > 63 then None
                                else Some (push_bit 16 (ucast (0x3f AND l_offset))))
                     else if i_vmove_instr = LIBXSMM_AARCH64_INSTR_SVE_LDR_P_I_OFF
                        \<or> i_vmove_instr = LIBXSMM_AARCH64_INSTR_SVE_LDR_Z_I_OFF
                        \<or> i_vmove_instr = LIBXSMM_AARCH64_INSTR_SVE_STR_P_I_OFF
                        \<or> i_vmove_instr = LIBXSMM_AARCH64_INSTR_SVE_STR_Z_I_OFF then
                       if i_offset < -256 \<or> i_offset > 256 then None
                       else Some (push_bit 10 (word_of_int (0x7 AND i_offset))
                                  OR push_bit 16 (word_of_int (0x3f AND drop_bit 3 i_offset)))
                     else
                       (let l_offset = (if LIBXSMM_AARCH64_INSTR_SVE_LD1RQD_I_OFF = i_vmove_instr
                                        then i_offset sdiv 16 else i_offset)
                        in if l_offset < -8 \<or> l_offset > 7 then None
                           else Some (push_bit 16 (word_of_int (0xf AND l_offset))))
                   else Some 0) of
               None \<Rightarrow> LIBXSMM_EXIT_ERROR (put_code g c)
             | Some imm \<Rightarrow>
                 (let c = c OR imm;
                      c = (if i_vmove_instr = LIBXSMM_AARCH64_INSTR_SVE_LDR_P_I_OFF
                              \<or> i_vmove_instr = LIBXSMM_AARCH64_INSTR_SVE_STR_P_I_OFF
                           then c AND 0xffffffef else c)
                  in advance_code (put_code g c))
      else LIBXSMM_EXIT_ERROR g)"

definition libxsmm_aarch64_instruction_sve_prefetch ::
  "gencode \<Rightarrow> u32 \<Rightarrow> u32 \<Rightarrow> u32 \<Rightarrow> int \<Rightarrow> u32 \<Rightarrow> libxsmm_aarch64_sve_prefetch \<Rightarrow> gencode" where
  "libxsmm_aarch64_instruction_sve_prefetch g i_prefetch_instr i_gp_reg_addr i_gp_reg_offset i_offset i_pred_reg i_prefetch =
     (if arch g < LIBXSMM_AARCH64_SVE128 then LIBXSMM_EXIT_ERROR g
      else if i_prefetch_instr \<notin>
          {LIBXSMM_AARCH64_INSTR_SVE_PRFW_I_OFF, LIBXSMM_AARCH64_INSTR_SVE_PRFD_I_OFF}
      then LIBXSMM_EXIT_ERROR g
      else if code_type g > 1 then
        if no_space g then libxsmm_handle_error g LIBXSMM_ERR_BUFFER_TOO_SMALL
        else
          let c = 0xffffff00 AND i_prefetch_instr;
              c = c OR (0xf AND sve_prefetch_val i_prefetch);
              c = c OR push_bit 5 (0x1f AND i_gp_reg_addr);
              c = c OR push_bit 10 (0x7 AND i_pred_reg)
          in if i_prefetch_instr AND 0x4 = 0x4 then
               if i_offset < -32 \<or> i_offset > 31 then LIBXSMM_EXIT_ERROR (put_code g c)
               else advance_code (put_code g (c OR word_of_int (push_bit 16 i_offset)))
             else advance_code (put_code g c)
      else LIBXSMM_EXIT_ERROR g)"

definition libxsmm_aarch64_instruction_sve_compute ::
  "gencode \<Rightarrow> u32 \<Rightarrow> u32 \<Rightarrow> u32 \<Rightarrow> u8 \<Rightarrow> u32 \<Rightarrow> u32 \<Rightarrow> libxsmm_aarch64_sve_type \<Rightarrow> gencode" where
  "libxsmm_aarch64_instruction_sve_compute g i_vec_instr i_vec_reg_src_0 i_vec_reg_src_1 i_index i_vec_reg_dst
      i_pred_reg i_type =
     (let l_vec_reg_src_0 = ucast i_vec_reg_src_0 :: u8;
          l_vec_reg_src_1 = ucast i_vec_reg_src_1 :: u8;
          l_has_two_sources = (i_vec_instr AND LIBXSMM_AARCH64_INSTR_SVE_HAS_SRC1 = LIBXSMM_AARCH64_INSTR_SVE_HAS_SRC1);
          l_is_predicated =
            (i_vec_instr AND LIBXSMM_AARCH64_INSTR_SVE_IS_PREDICATED = LIBXSMM_AARCH64_INSTR_SVE_IS_PREDICATED);
          l_is_type_specific =
            (i_vec_instr \<noteq> LIBXSMM_AARCH64_INSTR_SVE_EOR_V \<and> i_vec_instr \<noteq> LIBXSMM_AARCH64_INSTR_SVE_ORR_V
             \<and> i_vec_instr \<noteq> LIBXSMM_AARCH64_INSTR_SVE_AND_V \<and> i_vec_instr \<noteq> LIBXSMM_AARCH64_INSTR_SVE_BFMMLA_V
             \<and> i_vec_instr \<noteq> LIBXSMM_AARCH64_INSTR_SVE_LSL_I_V \<and> i_vec_instr \<noteq> LIBXSMM_AARCH64_INSTR_SVE_LSR_I_V);
          l_is_indexed = (i_vec_instr AND LIBXSMM_AARCH64_INSTR_SVE_IS_INDEXED = LIBXSMM_AARCH64_INSTR_SVE_IS_INDEXED);
          l_has_logical_shift_imm =
            (i_vec_instr = LIBXSMM_AARCH64_INSTR_SVE_LSL_I_V \<or> i_vec_instr = LIBXSMM_AARCH64_INSTR_SVE_LSR_I_V);
          l_has_immediate = (i_vec_instr AND LIBXSMM_AARCH64_INSTR_SVE_HAS_IMM = LIBXSMM_AARCH64_INSTR_SVE_HAS_IMM)
      in
      if arch g < LIBXSMM_AARCH64_SVE128 then LIBXSMM_EXIT_ERROR g
      else if i_vec_instr \<notin>
          {LIBXSMM_AARCH64_INSTR_SVE_MOV_R_P, LIBXSMM_AARCH64_INSTR_SVE_DUP_GP_V,
          LIBXSMM_AARCH64_INSTR_SVE_ORR_P, LIBXSMM_AARCH64_INSTR_SVE_SEL_V_P,
          LIBXSMM_AARCH64_INSTR_SVE_AND_V, LIBXSMM_AARCH64_INSTR_SVE_EOR_V,
          LIBXSMM_AARCH64_INSTR_SVE_ORR_V, LIBXSMM_AARCH64_INSTR_SVE_ADD_V,
          LIBXSMM_AARCH64_INSTR_SVE_FADD_V, LIBXSMM_AARCH64_INSTR_SVE_FSUB_V,
          LIBXSMM_AARCH64_INSTR_SVE_FMUL_V, LIBXSMM_AARCH64_INSTR_SVE_LSL_I_V,
          LIBXSMM_AARCH64_INSTR_SVE_LSR_I_V, LIBXSMM_AARCH64_INSTR_SVE_FMLA_V_I,
          LIBXSMM_AARCH64_INSTR_SVE_FMLS_V_I, LIBXSMM_AARCH64_INSTR_SVE_FMUL_V_I,
          LIBXSMM_AARCH64_INSTR_SVE_FADD_I_P, LIBXSMM_AARCH64_INSTR_SVE_FMUL_V_P,
          LIBXSMM_AARCH64_INSTR_SVE_FDIV_V_P, LIBXSMM_AARCH64_INSTR_SVE_FDIVR_V_P,
          LIBXSMM_AARCH64_INSTR_SVE_FMIN_V_P, LIBXSMM_AARCH64_INSTR_SVE_FMAX_V_P,
          LIBXSMM_AARCH64_INSTR_SVE_FMLA_V_P, LIBXSMM_AARCH64_INSTR_SVE_FMLS_V_P,
          LIBXSMM_AARCH64_INSTR_SVE_FNEG_V_P, LIBXSMM_AARCH64_INSTR_SVE_BFCVT_V_P,
          LIBXSMM_AARCH64_INSTR_SVE_FADDV_V_P, LIBXSMM_AARCH64_INSTR_SVE_FMAXV_V_P,
          LIBXSMM_AARCH64_INSTR_SVE_FMINV_V_P, LIBXSMM_AARCH64_INSTR_SVE_FRECPS_V,
          LIBXSMM_AARCH64_INSTR_SVE_FRECPE_V, LIBXSMM_AARCH64_INSTR_SVE_FSQRT_V_P,
          LIBXSMM_AARCH64_INSTR_SVE_FRSQRTE_V, LIBXSMM_AARCH64_INSTR_SVE_FRSQRTS_V,
          LIBXSMM_AARCH64_INSTR_SVE_FRINTM_V_P, LIBXSMM_AARCH64_INSTR_SVE_FRINTI_V_P,
          LIBXSMM_AARCH64_INSTR_SVE_FCVTZS_V_P_SS, LIBXSMM_AARCH64_INSTR_SVE_SCVTF_V_P_SS,
          LIBXSMM_AARCH64_INSTR_SVE_FCMEQ_P_V, LIBXSMM_AARCH64_INSTR_SVE_FCMNE_P_V,
          LIBXSMM_AARCH64_INSTR_SVE_FCMGT_P_V, LIBXSMM_AARCH64_INSTR_SVE_FCMGE_P_V,
          LIBXSMM_AARCH64_INSTR_SVE_FCMLT_P_V, LIBXSMM_AARCH64_INSTR_SVE_FCMLE_P_V,
          LIBXSMM_AARCH64_INSTR_SVE_FCMGT_Z_V, LIBXSMM_AARCH64_INSTR_SVE_CMPGT_Z_V,
          LIBXSMM_AARCH64_INSTR_SVE_UZP_P_E, LIBXSMM_AARCH64_INSTR_SVE_UZP_P_O,
          LIBXSMM_AARCH64_INSTR_SVE_ZIP_P_H, LIBXSMM_AARCH64_INSTR_SVE_ZIP_P_L,
          LIBXSMM_AARCH64_INSTR_SVE_ZIP1_V, LIBXSMM_AARCH64_INSTR_SVE_ZIP2_V,
          LIBXSMM_AARCH64_INSTR_SVE_UZP1_V, LIBXSMM_AARCH64_INSTR_SVE_UZP2_V,
          LIBXSMM_AARCH64_INSTR_SVE_TRN1_V, LIBXSMM_AARCH64_INSTR_SVE_TRN2_V,
          LIBXSMM_AARCH64_INSTR_SVE_UUNPKLO_V, LIBXSMM_AARCH64_INSTR_SVE_UUNPKHI_V,
          LIBXSMM_AARCH64_INSTR_SVE_TBL, LIBXSMM_AARCH64_INSTR_SVE_TBX,
          LIBXSMM_AARCH64_INSTR_SVE_SUB_V_I, LIBXSMM_AARCH64_INSTR_SVE_BFMMLA_V,
          LIBXSMM_AARCH64_INSTR_SVE_FMMLA_V, LIBXSMM_AARCH64_INSTR_SVE_SMMLA_V,
          LIBXSMM_AARCH64_INSTR_SVE_UMMLA_V, LIBXSMM_AARCH64_INSTR_SVE_USMMLA_V,
          LIBXSMM_AARCH64_INSTR_SVE_BFDOT_V_I, LIBXSMM_AARCH64_INSTR_SVE_BFDOT_V,
          LIBXSMM_AARCH64_INSTR_SVE_USDOT_V}
      then LIBXSMM_EXIT_ERROR g
      else
        let (l_vec_instr, l_vec_reg_src_0, l_vec_reg_src_1) =
              (if i_vec_instr = LIBXSMM_AARCH64_INSTR_SVE_FCMLT_P_V
               then (LIBXSMM_AARCH64_INSTR_SVE_FCMGE_P_V, l_vec_reg_src_1, l_vec_reg_src_0)
               else (i_vec_instr, l_vec_reg_src_0, l_vec_reg_src_1));
            (l_vec_instr, l_vec_reg_src_0, l_vec_reg_src_1) =
              (if l_vec_instr = LIBXSMM_AARCH64_INSTR_SVE_FCMLE_P_V
               then (LIBXSMM_AARCH64_INSTR_SVE_FCMGT_P_V, l_vec_reg_src_1, l_vec_reg_src_0)
               else (l_vec_instr, l_vec_reg_src_0, l_vec_reg_src_1))
        in
        if l_vec_instr = LIBXSMM_AARCH64_INSTR_SVE_FADD_I_P \<and> l_vec_reg_src_0 > 1 then LIBXSMM_EXIT_ERROR g
        else case
          (if l_vec_instr AND LIBXSMM_AARCH64_INSTR_SVE_SRC0_IS_DST = LIBXSMM_AARCH64_INSTR_SVE_SRC0_IS_DST then
             if i_vec_reg_src_0 \<noteq> i_vec_reg_dst then
               if i_vec_reg_src_1 = i_vec_reg_dst \<and>
                  (l_vec_instr = LIBXSMM_AARCH64_INSTR_SVE_FMAX_V_P \<or> l_vec_instr = LIBXSMM_AARCH64_INSTR_SVE_FMIN_V_P
                   \<or> l_vec_instr = LIBXSMM_AARCH64_INSTR_SVE_FMUL_V_P)
               then Some (l_vec_instr, l_vec_reg_src_0)
               else if i_vec_reg_src_1 = i_vec_reg_dst \<and>
                  (l_vec_instr = LIBXSMM_AARCH64_INSTR_SVE_FDIV_V_P \<or> l_vec_instr = LIBXSMM_AARCH64_INSTR_SVE_FDIVR_V_P)
               then Some (if l_vec_instr = LIBXSMM_AARCH64_INSTR_SVE_FDIV_V_P
                          then LIBXSMM_AARCH64_INSTR_SVE_FDIVR_V_P else LIBXSMM_AARCH64_INSTR_SVE_FDIV_V_P,
                          l_vec_reg_src_0)
               else None
             else if l_has_two_sources \<or> l_vec_instr = LIBXSMM_AARCH64_INSTR_SVE_FMAX_V_P
                \<or> l_vec_instr = LIBXSMM_AARCH64_INSTR_SVE_FMIN_V_P \<or> l_vec_instr = LIBXSMM_AARCH64_INSTR_SVE_FMUL_V_P
                \<or> l_vec_instr = LIBXSMM_AARCH64_INSTR_SVE_FDIV_V_P \<or> l_vec_instr = LIBXSMM_AARCH64_INSTR_SVE_FDIVR_V_P
             then Some (l_vec_instr, l_vec_reg_src_1)
             else Some (l_vec_instr, l_vec_reg_src_0)
           else Some (l_vec_instr, l_vec_reg_src_0)) of
          None \<Rightarrow> LIBXSMM_EXIT_ERROR g
        | Some (l_vec_instr, l_vec_reg_src_0) \<Rightarrow>
        (if code_type g > 1 then
          if no_space g then libxsmm_handle_error g LIBXSMM_ERR_BUFFER_TOO_SMALL
          else
            let c = 0xffffff10 AND l_vec_instr;
                c = c OR (0x1f AND i_vec_reg_dst);
                c = c OR push_bit 5 (ucast (0x1f AND l_vec_reg_src_0))
            in case
              (if l_has_logical_shift_imm then
                 (let l_elementSizeBits = push_bit (unat (sve_type_val i_type)) 8 :: u8;
                      l_index = (if i_vec_instr = LIBXSMM_AARCH64_INSTR_SVE_LSL_I_V then i_index
                                 else word_of_int (max (uint l_elementSizeBits - uint i_index) 0)) :: u8;
                      l_shifted_size = push_bit (unat (sve_type_val i_type)) 1 :: u32
                  in if i_index \<ge> l_elementSizeBits then None
                     else Some (let c = c OR push_bit 22 (drop_bit 2 l_shifted_size);
                                    c = c OR push_bit 19 (l_shifted_size AND 0x3);
                                    c = c OR push_bit 16 (ucast l_index)
                                in if l_index \<ge> 32 \<and> i_type = LIBXSMM_AARCH64_SVE_TYPE_D
                                   then c OR push_bit 22 1 else c))
               else Some
                 (if l_has_two_sources then
                    if l_is_indexed then
                      if i_type = LIBXSMM_AARCH64_SVE_TYPE_S
                      then c OR push_bit 16 (ucast (0x7 AND l_vec_reg_src_1)) OR push_bit 19 (ucast (0x3 AND i_index))
                      else if i_type = LIBXSMM_AARCH64_SVE_TYPE_D
                      then c OR push_bit 16 (ucast (0xf AND l_vec_reg_src_1)) OR push_bit 20 (ucast (0x1 AND i_index))
                      else c
                    else c OR push_bit 16 (ucast (0x1f AND l_vec_reg_src_1))
                  else if l_has_immediate then (c AND 0xffffe01f) OR push_bit 5 (ucast i_index)
                  else c)) of
              None \<Rightarrow> LIBXSMM_EXIT_ERROR (put_code g c)
            | Some c \<Rightarrow>
                (let c = (if l_is_type_specific then c OR push_bit 22 (0x3 AND sve_type_val i_type) else c);
                     c = (if l_is_predicated then c OR push_bit 10 (0x7 AND i_pred_reg) else c)
                 in advance_code (put_code g c))
         else LIBXSMM_EXIT_ERROR g))"

definition libxsmm_aarch64_instruction_sve_pcompute ::
  "gencode \<Rightarrow> u32 \<Rightarrow> u32 \<Rightarrow> u32 \<Rightarrow> libxsmm_aarch64_gp_width \<Rightarrow> u32 \<Rightarrow> libxsmm_aarch64_sve_pattern \<Rightarrow>
   libxsmm_aarch64_sve_type \<Rightarrow> gencode" where
  "libxsmm_aarch64_instruction_sve_pcompute g i_pred_instr i_pred_reg i_gp_reg_src_0 i_gp_width i_gp_reg_src_1
      i_pattern i_type =
     (if arch g < LIBXSMM_AARCH64_SVE128 then LIBXSMM_EXIT_ERROR g
      else if i_pred_instr \<notin>
          {LIBXSMM_AARCH64_INSTR_SVE_PTRUE, LIBXSMM_AARCH64_INSTR_SVE_WHILELT}
      then LIBXSMM_EXIT_ERROR g
      else if code_type g > 1 then
        if no_space g then libxsmm_handle_error g LIBXSMM_ERR_BUFFER_TOO_SMALL
        else
          let c = 0xffffff00 AND i_pred_instr;
              c = c OR (0xf AND i_pred_reg);
              c = (if i_pred_instr AND 0x3 = 0x1 then c OR push_bit 5 (0x1f AND sve_pattern_val i_pattern)
                   else if i_pred_instr AND 0x3 = 0x3
                   then c OR push_bit 5 (0x1f AND i_gp_reg_src_0) OR push_bit 12 (0x1 AND gp_width_val i_gp_width)
                        OR push_bit 16 (0x1f AND i_gp_reg_src_1)
                   else c);
              c = c OR push_bit 22 (0x3 AND sve_type_val i_type)
          in advance_code (put_code g c)
      else LIBXSMM_EXIT_ERROR g)"

section \<open>Every instruction keeps the contract\<close>

interpretation sve_move:
  instruction "\<lambda>g. libxsmm_aarch64_instruction_sve_move g i a o' off v p" 1 for i a o' off v p
  by unfold_locales
    (unfold libxsmm_aarch64_instruction_sve_move_def One_nat_def, (intro emits_rules; (assumption | simp))+)

interpretation sve_prefetch:
  instruction "\<lambda>g. libxsmm_aarch64_instruction_sve_prefetch g i a o' off p f" 1 for i a o' off p f
  by unfold_locales
    (unfold libxsmm_aarch64_instruction_sve_prefetch_def One_nat_def, (intro emits_rules; (assumption | simp))+)

interpretation sve_compute:
  instruction "\<lambda>g. libxsmm_aarch64_instruction_sve_compute g i s0 s1 k d p t" 1 for i s0 s1 k d p t
  by unfold_locales
    (unfold libxsmm_aarch64_instruction_sve_compute_def One_nat_def, (intro emits_rules; (assumption | simp))+)

interpretation sve_pcompute:
  instruction "\<lambda>g. libxsmm_aarch64_instruction_sve_pcompute g i r s0 w s1 p t" 1 for i r s0 w s1 p t
  by unfold_locales
    (unfold libxsmm_aarch64_instruction_sve_pcompute_def One_nat_def, (intro emits_rules; (assumption | simp))+)

section \<open>Shift immediates\<close>

text \<open>
  The element size and the shift amount share one seven-bit field \<open>tsz:imm3\<close> (bits 22 to 23 and 16 to 20
  of the word): a left shift by \<open>s\<close> of elements of \<open>e\<close> bits is \<open>e + s\<close>, a right shift \<open>2 * e - s\<close>
  (architecture manual, \<open>LSL\<close> and \<open>LSR\<close> immediate).
\<close>

definition sve_shift_field :: "u32 \<Rightarrow> nat" where
  "sve_shift_field w = unat (take_bit 2 (drop_bit 22 w)) * 32 + unat (take_bit 5 (drop_bit 16 w))"

definition sve_bits :: "libxsmm_aarch64_sve_type \<Rightarrow> nat" where
  "sve_bits t = 8 * 2 ^ unat (sve_type_val t)"

definition sve_shift_part :: "u32 \<Rightarrow> libxsmm_aarch64_sve_type \<Rightarrow> u8 \<Rightarrow> u32" where
  "sve_shift_part i t idx =
     (let l_elementSizeBits = push_bit (unat (sve_type_val t)) 8 :: u8;
          l_index = (if i = LIBXSMM_AARCH64_INSTR_SVE_LSL_I_V then idx
                     else word_of_int (max (uint l_elementSizeBits - uint idx) 0)) :: u8;
          l_shifted_size = push_bit (unat (sve_type_val t)) 1 :: u32;
          c = push_bit 22 (drop_bit 2 l_shifted_size) OR push_bit 19 (l_shifted_size AND 0x3) OR push_bit 16 (ucast l_index)
      in if l_index \<ge> 32 \<and> t = LIBXSMM_AARCH64_SVE_TYPE_D then c OR push_bit 22 1 else c)"

definition sve_shift_right :: "u32 \<Rightarrow> libxsmm_aarch64_sve_type \<Rightarrow> nat \<Rightarrow> bool" where
  "sve_shift_right i t n \<longleftrightarrow>
     (let f = (0xffffff10 AND i) OR sve_shift_part i t (of_nat n)
      in if i = LIBXSMM_AARCH64_INSTR_SVE_LSL_I_V then sve_shift_field f = sve_bits t + n
         else n = 0 \<or> sve_shift_field f = 2 * sve_bits t - n)"

lemmas sve_shift_eval = sve_shift_right_def sve_shift_part_def sve_shift_field_def sve_bits_def Let_def

lemma sve_shift_table:
  "list_all (sve_shift_right LIBXSMM_AARCH64_INSTR_SVE_LSL_I_V LIBXSMM_AARCH64_SVE_TYPE_B) [0..<8]"
  "list_all (sve_shift_right LIBXSMM_AARCH64_INSTR_SVE_LSL_I_V LIBXSMM_AARCH64_SVE_TYPE_H) [0..<16]"
  "list_all (sve_shift_right LIBXSMM_AARCH64_INSTR_SVE_LSL_I_V LIBXSMM_AARCH64_SVE_TYPE_S) [0..<32]"
  "list_all (sve_shift_right LIBXSMM_AARCH64_INSTR_SVE_LSL_I_V LIBXSMM_AARCH64_SVE_TYPE_D) [0..<64]"
  "list_all (sve_shift_right LIBXSMM_AARCH64_INSTR_SVE_LSR_I_V LIBXSMM_AARCH64_SVE_TYPE_B) [0..<8]"
  "list_all (sve_shift_right LIBXSMM_AARCH64_INSTR_SVE_LSR_I_V LIBXSMM_AARCH64_SVE_TYPE_H) [0..<16]"
  "list_all (sve_shift_right LIBXSMM_AARCH64_INSTR_SVE_LSR_I_V LIBXSMM_AARCH64_SVE_TYPE_S) [0..<32]"
  "list_all (sve_shift_right LIBXSMM_AARCH64_INSTR_SVE_LSR_I_V LIBXSMM_AARCH64_SVE_TYPE_D) [0..<64]"
proof -
  have "\<not> (32 :: u8) \<le> 1"
    by (simp add: word_le_nat_alt)
  then show "list_all (sve_shift_right LIBXSMM_AARCH64_INSTR_SVE_LSL_I_V LIBXSMM_AARCH64_SVE_TYPE_B) [0..<8]"
    "list_all (sve_shift_right LIBXSMM_AARCH64_INSTR_SVE_LSL_I_V LIBXSMM_AARCH64_SVE_TYPE_H) [0..<16]"
    "list_all (sve_shift_right LIBXSMM_AARCH64_INSTR_SVE_LSL_I_V LIBXSMM_AARCH64_SVE_TYPE_S) [0..<32]"
    "list_all (sve_shift_right LIBXSMM_AARCH64_INSTR_SVE_LSL_I_V LIBXSMM_AARCH64_SVE_TYPE_D) [0..<64]"
    "list_all (sve_shift_right LIBXSMM_AARCH64_INSTR_SVE_LSR_I_V LIBXSMM_AARCH64_SVE_TYPE_B) [0..<8]"
    "list_all (sve_shift_right LIBXSMM_AARCH64_INSTR_SVE_LSR_I_V LIBXSMM_AARCH64_SVE_TYPE_H) [0..<16]"
    "list_all (sve_shift_right LIBXSMM_AARCH64_INSTR_SVE_LSR_I_V LIBXSMM_AARCH64_SVE_TYPE_S) [0..<32]"
    "list_all (sve_shift_right LIBXSMM_AARCH64_INSTR_SVE_LSR_I_V LIBXSMM_AARCH64_SVE_TYPE_D) [0..<64]"
    by (simp_all add: sve_shift_eval upt_rec)
qed

lemma sve_shift_exact:
  assumes "i \<in> {LIBXSMM_AARCH64_INSTR_SVE_LSL_I_V, LIBXSMM_AARCH64_INSTR_SVE_LSR_I_V}" and "unat idx < sve_bits t"
  shows "sve_shift_right i t (unat idx)"
  using assms sve_shift_table by (cases t) (auto simp: list_all_iff sve_bits_def)

lemma or_regroup:
  "((((k OR a) OR b) OR x) OR y) OR z = (k OR (x OR y OR z)) OR (a OR (b :: u32))"
  "(((((k OR a) OR b) OR x) OR y) OR z) OR w = (k OR ((x OR y OR z) OR w)) OR (a OR b)"
  by (rule word_eq_bitI, auto simp: bit_simps)+

lemma sve_shift_compute:
  assumes "i = LIBXSMM_AARCH64_INSTR_SVE_LSL_I_V \<or> i = LIBXSMM_AARCH64_INSTR_SVE_LSR_I_V"
  shows "libxsmm_aarch64_instruction_sve_compute g i rn rm idx rd p t =
    (if arch g < LIBXSMM_AARCH64_SVE128 then LIBXSMM_EXIT_ERROR g
     else if code_type g > 1 then
       if no_space g then libxsmm_handle_error g LIBXSMM_ERR_BUFFER_TOO_SMALL
       else if idx \<ge> push_bit (unat (sve_type_val t)) 8
       then LIBXSMM_EXIT_ERROR (put_code g (((0xffffff10 AND i) OR (0x1f AND rd)) OR push_bit 5 (ucast (0x1f AND ucast rn :: u8))))
       else advance_code (put_code g (((0xffffff10 AND i) OR sve_shift_part i t idx) OR
              ((0x1f AND rd) OR push_bit 5 (ucast (0x1f AND ucast rn :: u8)))))
     else LIBXSMM_EXIT_ERROR g)"
  using assms
proof
  assume i: "i = LIBXSMM_AARCH64_INSTR_SVE_LSL_I_V"
  show ?thesis
    unfolding i by (simp add: libxsmm_aarch64_instruction_sve_compute_def sve_shift_part_def Let_def or_regroup; simp add: or.assoc or.commute or.left_commute)
next
  assume i: "i = LIBXSMM_AARCH64_INSTR_SVE_LSR_I_V"
  show ?thesis
    unfolding i by (cases "t = LIBXSMM_AARCH64_SVE_TYPE_D"; simp add: libxsmm_aarch64_instruction_sve_compute_def sve_shift_part_def Let_def or_regroup; simp add: or.assoc or.commute or.left_commute)
qed

lemma sve_shift_word:
  assumes "i \<in> {LIBXSMM_AARCH64_INSTR_SVE_LSL_I_V, LIBXSMM_AARCH64_INSTR_SVE_LSR_I_V}"
    and "last_error (libxsmm_aarch64_instruction_sve_compute g i rn rm idx rd p t) = 0"
  shows "\<not> no_space g \<and> unat idx < sve_bits t \<and>
    libxsmm_aarch64_instruction_sve_compute g i rn rm idx rd p t =
      advance_code (put_code g (((0xffffff10 AND i) OR sve_shift_part i t idx) OR
        ((0x1f AND rd) OR push_bit 5 (ucast (0x1f AND ucast rn :: u8)))))"
proof -
  have i: "i = LIBXSMM_AARCH64_INSTR_SVE_LSL_I_V \<or> i = LIBXSMM_AARCH64_INSTR_SVE_LSR_I_V"
    using assms(1) by blast
  note c = sve_shift_compute [OF i, of g rn rm idx rd p t]
  have n: "\<not> no_space g" "\<not> push_bit (unat (sve_type_val t)) 8 \<le> idx" "\<not> arch g < LIBXSMM_AARCH64_SVE128" "1 < code_type g"
    using assms(2) unfolding c LIBXSMM_EXIT_ERROR_def by (simp_all split: if_split_asm)
  then have "unat idx < sve_bits t"
    by (cases t) (simp_all add: sve_bits_def word_le_nat_alt)
  then show ?thesis
    using n unfolding c by simp
qed

lemma sve_shift_field_low:
  assumes "unat r < 2 ^ 10"
  shows "sve_shift_field (w OR r) = sve_shift_field w"
proof -
  note n = bit_smallN [OF assms]
  have "take_bit 2 (drop_bit 22 (w OR r)) = take_bit 2 (drop_bit 22 w)" "take_bit 5 (drop_bit 16 (w OR r)) = take_bit 5 (drop_bit 16 w)"
    by (rule word_eq_bitI, simp add: bit_simps n)+
  then show ?thesis
    by (simp add: sve_shift_field_def)
qed

text \<open>
  Reading the field back: the highest bit set tells the size of the elements; the rest is the amount, counted up for a left
  shift and down from twice the size for a right shift.
\<close>

definition sve_shift_elem :: "nat \<Rightarrow> nat" where
  "sve_shift_elem f = (if f < 16 then 8 else if f < 32 then 16 else if f < 64 then 32 else 64)"

definition sve_shift_amount :: "u32 \<Rightarrow> nat \<Rightarrow> nat" where
  "sve_shift_amount i f =
     (if i = LIBXSMM_AARCH64_INSTR_SVE_LSL_I_V then f - sve_shift_elem f else 2 * sve_shift_elem f - f)"

lemma sve_shift_elem_left: "m < sve_bits t \<Longrightarrow> sve_shift_elem (sve_bits t + m) = sve_bits t"
  by (cases t) (simp_all add: sve_shift_elem_def sve_bits_def)

lemma sve_shift_elem_right: "0 < m \<Longrightarrow> m < sve_bits t \<Longrightarrow> sve_shift_elem (2 * sve_bits t - m) = sve_bits t"
  by (cases t) (simp_all add: sve_shift_elem_def sve_bits_def)

text \<open>A right shift by 0 has no encoding; it is accepted and comes out as a shift by the size of the elements, or by 32 of 64 bits.\<close>

lemma sve_lsr_zero:
  "sve_shift_field ((0xffffff10 AND LIBXSMM_AARCH64_INSTR_SVE_LSR_I_V) OR sve_shift_part LIBXSMM_AARCH64_INSTR_SVE_LSR_I_V t 0) =
     (if t = LIBXSMM_AARCH64_SVE_TYPE_D then 96 else sve_bits t)"
  by (cases t) (simp_all add: sve_shift_part_def sve_shift_field_def sve_bits_def Let_def)

text \<open>
  C12: A shift by an immediate that \<open>sve_compute\<close> accepts has an amount smaller than the element, and the word that is
  appended, read back by the rules of the instruction set, shifts elements of exactly the requested size by exactly the
  requested amount, for \<open>LSL\<close> and for \<open>LSR\<close> by at least one, for all four element types and all registers. \<open>LSR\<close> by zero is
  accepted but not what is encoded: the word shifts by the size of the elements, or by 32 for elements of 64 bits.
\<close>

theorem sve_shift_immediates:
  assumes "wf_code g" and "i \<in> {LIBXSMM_AARCH64_INSTR_SVE_LSL_I_V, LIBXSMM_AARCH64_INSTR_SVE_LSR_I_V}"
    and "libxsmm_aarch64_instruction_sve_compute g i rn rm idx rd p t = g'" and "last_error g' = 0"
  shows "unat idx < sve_bits t \<and> sve_shift_elem (sve_shift_field (emitted g g')) = sve_bits t \<and>
    sve_shift_amount i (sve_shift_field (emitted g g')) =
      (if i = LIBXSMM_AARCH64_INSTR_SVE_LSR_I_V \<and> idx = 0
       then (if t = LIBXSMM_AARCH64_SVE_TYPE_D then 32 else sve_bits t) else unat idx)"
proof -
  let ?r = "(0x1f AND rd) OR push_bit 5 (ucast (0x1f AND ucast rn :: u8)) :: u32"
  let ?f = "sve_shift_field (emitted g g')"
  have w: "unat idx < sve_bits t"
    "g' = advance_code (put_code g (((0xffffff10 AND i) OR sve_shift_part i t idx) OR ?r))"
    using sve_shift_word [OF assms(2)] assms(3,4) by auto
  have "take_bit 10 ?r = ?r"
  proof -
    have m: "(0x1f :: u32) = mask 5" "(0x1f :: u8) = mask 5"
      by (simp_all add: mask_eq_exp_minus_1)
    show ?thesis
      unfolding m by (rule word_eq_bitI) (auto simp: bit_simps)
  qed
  then have "unat ?r < 2 ^ 10"
    by (metis unat_take_bit mod_less_divisor zero_less_numeral zero_less_power)
  then have f: "?f = sve_shift_field ((0xffffff10 AND i) OR sve_shift_part i t idx)"
    unfolding w(2) emitted_word [OF assms(1)] by (rule sve_shift_field_low)
  consider (left) "i = LIBXSMM_AARCH64_INSTR_SVE_LSL_I_V" | (zero) "i = LIBXSMM_AARCH64_INSTR_SVE_LSR_I_V" "idx = 0"
    | (right) "i = LIBXSMM_AARCH64_INSTR_SVE_LSR_I_V" "idx \<noteq> 0"
    using assms(2) by blast
  then show ?thesis
  proof cases
    case left
    then have "?f = sve_bits t + unat idx"
      using sve_shift_exact [OF assms(2) w(1)] f by (simp add: sve_shift_right_def Let_def)
    then show ?thesis using left w(1) by (simp add: sve_shift_amount_def sve_shift_elem_left)
  next
    case zero
    then have "?f = (if t = LIBXSMM_AARCH64_SVE_TYPE_D then 96 else sve_bits t)" using f sve_lsr_zero by simp
    then show ?thesis using zero w(1) by (cases t) (simp_all add: sve_shift_amount_def sve_shift_elem_def sve_bits_def)
  next
    case right
    then have "0 < unat idx"
      by (simp add: unat_gt_0)
    moreover from this right have "?f = 2 * sve_bits t - unat idx"
      using sve_shift_exact [OF assms(2) w(1)] f by (simp add: sve_shift_right_def Let_def)
    ultimately show ?thesis using right w(1) by (simp add: sve_shift_amount_def sve_shift_elem_right)
  qed
qed

theorem sve_shift_immediates_witness:
  "sve_shift_amount LIBXSMM_AARCH64_INSTR_SVE_LSR_I_V (sve_shift_field (emitted (fresh_stream LIBXSMM_AARCH64_SVE128 64)
     (libxsmm_aarch64_instruction_sve_compute (fresh_stream LIBXSMM_AARCH64_SVE128 64)
        LIBXSMM_AARCH64_INSTR_SVE_LSR_I_V 3 0 33 4 0 LIBXSMM_AARCH64_SVE_TYPE_D))) = 33"
proof -
  let ?g = "fresh_stream LIBXSMM_AARCH64_SVE128 64"
  have "wf_code ?g"
    by (simp add: wf_code_def fresh_stream_def)
  moreover have "last_error (libxsmm_aarch64_instruction_sve_compute ?g LIBXSMM_AARCH64_INSTR_SVE_LSR_I_V 3 0 33 4 0 LIBXSMM_AARCH64_SVE_TYPE_D) = 0"
    by (simp add: sve_shift_compute fresh_stream_def no_space_def)
  ultimately show ?thesis
    using sve_shift_immediates [OF _ _ refl, of ?g LIBXSMM_AARCH64_INSTR_SVE_LSR_I_V 3 0 33 4 0 LIBXSMM_AARCH64_SVE_TYPE_D]
    by simp
qed

section \<open>Offsets\<close>

text \<open>
  A negative prefetch offset is accepted, but it is added without a mask: its sign bits set the ten high bits
  of the word, so that it is no longer a prefetch.
\<close>

lemma drop22_high: "drop_bit 22 (w OR push_bit 16 (mask 16)) = (mask 10 :: u32)"
  by (rule word_eq_bitI) (auto simp: bit_simps dest: bit_u32D)

lemma sve_prefetch_negative_offset:
  assumes "wf_code g" and "\<not> no_space g" and "1 < code_type g" and "\<not> arch g < LIBXSMM_AARCH64_SVE128"
  shows "drop_bit 22 (emitted g (libxsmm_aarch64_instruction_sve_prefetch g LIBXSMM_AARCH64_INSTR_SVE_PRFW_I_OFF a r (-1) p f)) = 0x3ff"
proof -
  have m: "(0xffff0000 :: u32) = push_bit 16 (mask 16)" "(0x3ff :: u32) = mask 10"
    by (simp_all add: mask_eq_exp_minus_1)
  have o: "(word_of_int (push_bit 16 (-1)) :: u32) = 0xffff0000"
    by (simp add: push_bit_eq_mult)
  have "\<exists>c. libxsmm_aarch64_instruction_sve_prefetch g LIBXSMM_AARCH64_INSTR_SVE_PRFW_I_OFF a r (-1) p f =
      advance_code (put_code g (c OR word_of_int (push_bit 16 (-1))))"
    using assms(2-4) by (simp add: libxsmm_aarch64_instruction_sve_prefetch_def Let_def) blast
  then show ?thesis
    unfolding o m using emitted_word [OF assms(1)] drop22_high by auto
qed

text \<open>
  The nine-bit offset of a vector spill ends at 255; 256 is accepted and comes out as -256.
\<close>

lemma sve_ldr_offset_256:
  "libxsmm_aarch64_instruction_sve_move g LIBXSMM_AARCH64_INSTR_SVE_LDR_Z_I_OFF a r 256 v p =
   libxsmm_aarch64_instruction_sve_move g LIBXSMM_AARCH64_INSTR_SVE_LDR_Z_I_OFF a r (-256) v p"
  by (simp add: libxsmm_aarch64_instruction_sve_move_def)

text \<open>The offset of a load-and-broadcast is cut to eight bits before its range is tested: 1024 comes out as 0.\<close>

lemma sve_ld1rw_offset_1024:
  "libxsmm_aarch64_instruction_sve_move g LIBXSMM_AARCH64_INSTR_SVE_LD1RW_I_OFF a r 1024 v p =
   libxsmm_aarch64_instruction_sve_move g LIBXSMM_AARCH64_INSTR_SVE_LD1RW_I_OFF a r 0 v p"
  by (simp add: libxsmm_aarch64_instruction_sve_move_def)

end
