(* ===== verification/AArch64_Stream.thy ===== *)
theory AArch64_Stream
  imports AArch64_Alu AArch64_Asimd AArch64_Sve
begin

text \<open>
  Whole streams of \<open>src/generator_aarch64_instructions.c\<close>: prologue and epilogue with the saved
  registers, the jump labels, and the constant data behind the code. An array of a tracker structure
  (\<open>label_address[512]\<close>, \<open>const_data[81920]\<close> and so on) is a function from indices; that
  the operations stay inside the arrays is part of what is proved.
\<close>

section \<open>Trackers\<close>

record libxsmm_loop_label_tracker =
  loop_label_address :: "nat \<Rightarrow> u32"
  label_count :: u32

record libxsmm_jump_source =
  instr_type :: "nat \<Rightarrow> u32"
  instr_addr :: "nat \<Rightarrow> u32"
  ref_count :: u32

record libxsmm_jump_label_tracker =
  jump_label_address :: "nat \<Rightarrow> u32"
  label_source :: "nat \<Rightarrow> libxsmm_jump_source"

record libxsmm_const_data_tracker =
  const_data :: "nat \<Rightarrow> u8"
  const_data_size :: u32
  const_data_pc_load_insns :: "nat \<Rightarrow> u32"
  const_data_nload_insns :: u32

definition libxsmm_reset_loop_label_tracker :: "libxsmm_loop_label_tracker \<Rightarrow> libxsmm_loop_label_tracker" where
  "libxsmm_reset_loop_label_tracker t = \<lparr>loop_label_address = (\<lambda>_. 0), label_count = 0\<rparr>"

definition libxsmm_reset_jump_label_tracker :: "libxsmm_jump_label_tracker \<Rightarrow> libxsmm_jump_label_tracker" where
  "libxsmm_reset_jump_label_tracker t =
     \<lparr>jump_label_address = (\<lambda>_. 0),
      label_source = (\<lambda>_. \<lparr>instr_type = (\<lambda>_. 0), instr_addr = (\<lambda>_. 0), ref_count = 0\<rparr>)\<rparr>"

definition libxsmm_reset_const_data_tracker :: "libxsmm_const_data_tracker \<Rightarrow> libxsmm_const_data_tracker" where
  "libxsmm_reset_const_data_tracker t =
     \<lparr>const_data = (\<lambda>_. 0), const_data_size = 0, const_data_pc_load_insns = (\<lambda>_. 0), const_data_nload_insns = 0\<rparr>"

section \<open>Prologue and epilogue\<close>

definition libxsmm_aarch64_instruction_open_stream :: "gencode \<Rightarrow> u16 \<Rightarrow> gencode" where
  "libxsmm_aarch64_instruction_open_stream g i_callee_save_bitmask =
     (if arch g < LIBXSMM_AARCH64_V81 then LIBXSMM_EXIT_ERROR g
      else
      let g = libxsmm_aarch64_instruction_alu_compute_imm12 g LIBXSMM_AARCH64_INSTR_GP_SUB_I
                LIBXSMM_AARCH64_GP_REG_XSP LIBXSMM_AARCH64_GP_REG_XSP 192 0;
          g = (if i_callee_save_bitmask AND 0x1 = 0x1
               then libxsmm_aarch64_instruction_asimd_pair_move g LIBXSMM_AARCH64_INSTR_ASIMD_STP_I_OFF LIBXSMM_AARCH64_GP_REG_XSP 176
                      LIBXSMM_AARCH64_ASIMD_REG_V8 LIBXSMM_AARCH64_ASIMD_REG_V9 LIBXSMM_AARCH64_ASIMD_WIDTH_D
               else g);
          g = (if i_callee_save_bitmask AND 0x2 = 0x2
               then libxsmm_aarch64_instruction_asimd_pair_move g LIBXSMM_AARCH64_INSTR_ASIMD_STP_I_OFF LIBXSMM_AARCH64_GP_REG_XSP 160
                      LIBXSMM_AARCH64_ASIMD_REG_V10 LIBXSMM_AARCH64_ASIMD_REG_V11 LIBXSMM_AARCH64_ASIMD_WIDTH_D
               else g);
          g = (if i_callee_save_bitmask AND 0x4 = 0x4
               then libxsmm_aarch64_instruction_asimd_pair_move g LIBXSMM_AARCH64_INSTR_ASIMD_STP_I_OFF LIBXSMM_AARCH64_GP_REG_XSP 144
                      LIBXSMM_AARCH64_ASIMD_REG_V12 LIBXSMM_AARCH64_ASIMD_REG_V13 LIBXSMM_AARCH64_ASIMD_WIDTH_D
               else g);
          g = (if i_callee_save_bitmask AND 0x8 = 0x8
               then libxsmm_aarch64_instruction_asimd_pair_move g LIBXSMM_AARCH64_INSTR_ASIMD_STP_I_OFF LIBXSMM_AARCH64_GP_REG_XSP 128
                      LIBXSMM_AARCH64_ASIMD_REG_V14 LIBXSMM_AARCH64_ASIMD_REG_V15 LIBXSMM_AARCH64_ASIMD_WIDTH_D
               else g);
          g = (if i_callee_save_bitmask AND 0x10 = 0x10
               then libxsmm_aarch64_instruction_alu_pair_move g LIBXSMM_AARCH64_INSTR_GP_STP_I_OFF LIBXSMM_AARCH64_GP_REG_XSP 112
                      LIBXSMM_AARCH64_GP_REG_X16 LIBXSMM_AARCH64_GP_REG_X17
               else g);
          g = (if i_callee_save_bitmask AND 0x20 = 0x20
               then libxsmm_aarch64_instruction_alu_pair_move g LIBXSMM_AARCH64_INSTR_GP_STP_I_OFF LIBXSMM_AARCH64_GP_REG_XSP 96
                      LIBXSMM_AARCH64_GP_REG_X18 LIBXSMM_AARCH64_GP_REG_X19
               else g);
          g = (if i_callee_save_bitmask AND 0x40 = 0x40
               then libxsmm_aarch64_instruction_alu_pair_move g LIBXSMM_AARCH64_INSTR_GP_STP_I_OFF LIBXSMM_AARCH64_GP_REG_XSP 80
                      LIBXSMM_AARCH64_GP_REG_X20 LIBXSMM_AARCH64_GP_REG_X21
               else g);
          g = (if i_callee_save_bitmask AND 0x80 = 0x80
               then libxsmm_aarch64_instruction_alu_pair_move g LIBXSMM_AARCH64_INSTR_GP_STP_I_OFF LIBXSMM_AARCH64_GP_REG_XSP 64
                      LIBXSMM_AARCH64_GP_REG_X22 LIBXSMM_AARCH64_GP_REG_X23
               else g);
          g = (if i_callee_save_bitmask AND 0x100 = 0x100
               then libxsmm_aarch64_instruction_alu_pair_move g LIBXSMM_AARCH64_INSTR_GP_STP_I_OFF LIBXSMM_AARCH64_GP_REG_XSP 48
                      LIBXSMM_AARCH64_GP_REG_X24 LIBXSMM_AARCH64_GP_REG_X25
               else g);
          g = (if i_callee_save_bitmask AND 0x200 = 0x200
               then libxsmm_aarch64_instruction_alu_pair_move g LIBXSMM_AARCH64_INSTR_GP_STP_I_OFF LIBXSMM_AARCH64_GP_REG_XSP 32
                      LIBXSMM_AARCH64_GP_REG_X26 LIBXSMM_AARCH64_GP_REG_X27
               else g);
          g = (if i_callee_save_bitmask AND 0x400 = 0x400
               then libxsmm_aarch64_instruction_alu_pair_move g LIBXSMM_AARCH64_INSTR_GP_STP_I_OFF LIBXSMM_AARCH64_GP_REG_XSP 16
                      LIBXSMM_AARCH64_GP_REG_X28 LIBXSMM_AARCH64_GP_REG_X29
               else g);
          g = (if i_callee_save_bitmask AND 0x800 = 0x800
               then libxsmm_aarch64_instruction_alu_move g LIBXSMM_AARCH64_INSTR_GP_STR_I_OFF LIBXSMM_AARCH64_GP_REG_XSP
                      LIBXSMM_AARCH64_GP_REG_XZR 0 LIBXSMM_AARCH64_GP_REG_X30
               else g)
      in g)"

definition libxsmm_aarch64_instruction_restore_regs :: "gencode \<Rightarrow> u16 \<Rightarrow> gencode" where
  "libxsmm_aarch64_instruction_restore_regs g i_callee_save_bitmask =
     (if arch g < LIBXSMM_AARCH64_V81 then LIBXSMM_EXIT_ERROR g
      else
      let g = (if i_callee_save_bitmask AND 0x1 = 0x1
               then libxsmm_aarch64_instruction_asimd_pair_move g LIBXSMM_AARCH64_INSTR_ASIMD_LDP_I_OFF LIBXSMM_AARCH64_GP_REG_XSP 176
                      LIBXSMM_AARCH64_ASIMD_REG_V8 LIBXSMM_AARCH64_ASIMD_REG_V9 LIBXSMM_AARCH64_ASIMD_WIDTH_D
               else g);
          g = (if i_callee_save_bitmask AND 0x2 = 0x2
               then libxsmm_aarch64_instruction_asimd_pair_move g LIBXSMM_AARCH64_INSTR_ASIMD_LDP_I_OFF LIBXSMM_AARCH64_GP_REG_XSP 160
                      LIBXSMM_AARCH64_ASIMD_REG_V10 LIBXSMM_AARCH64_ASIMD_REG_V11 LIBXSMM_AARCH64_ASIMD_WIDTH_D
               else g);
          g = (if i_callee_save_bitmask AND 0x4 = 0x4
               then libxsmm_aarch64_instruction_asimd_pair_move g LIBXSMM_AARCH64_INSTR_ASIMD_LDP_I_OFF LIBXSMM_AARCH64_GP_REG_XSP 144
                      LIBXSMM_AARCH64_ASIMD_REG_V12 LIBXSMM_AARCH64_ASIMD_REG_V13 LIBXSMM_AARCH64_ASIMD_WIDTH_D
               else g);
          g = (if i_callee_save_bitmask AND 0x8 = 0x8
               then libxsmm_aarch64_instruction_asimd_pair_move g LIBXSMM_AARCH64_INSTR_ASIMD_LDP_I_OFF LIBXSMM_AARCH64_GP_REG_XSP 128
                      LIBXSMM_AARCH64_ASIMD_REG_V14 LIBXSMM_AARCH64_ASIMD_REG_V15 LIBXSMM_AARCH64_ASIMD_WIDTH_D
               else g);
          g = (if i_callee_save_bitmask AND 0x10 = 0x10
               then libxsmm_aarch64_instruction_alu_pair_move g LIBXSMM_AARCH64_INSTR_GP_LDP_I_OFF LIBXSMM_AARCH64_GP_REG_XSP 112
                      LIBXSMM_AARCH64_GP_REG_X16 LIBXSMM_AARCH64_GP_REG_X17
               else g);
          g = (if i_callee_save_bitmask AND 0x20 = 0x20
               then libxsmm_aarch64_instruction_alu_pair_move g LIBXSMM_AARCH64_INSTR_GP_LDP_I_OFF LIBXSMM_AARCH64_GP_REG_XSP 96
                      LIBXSMM_AARCH64_GP_REG_X18 LIBXSMM_AARCH64_GP_REG_X19
               else g);
          g = (if i_callee_save_bitmask AND 0x40 = 0x40
               then libxsmm_aarch64_instruction_alu_pair_move g LIBXSMM_AARCH64_INSTR_GP_LDP_I_OFF LIBXSMM_AARCH64_GP_REG_XSP 80
                      LIBXSMM_AARCH64_GP_REG_X20 LIBXSMM_AARCH64_GP_REG_X21
               else g);
          g = (if i_callee_save_bitmask AND 0x80 = 0x80
               then libxsmm_aarch64_instruction_alu_pair_move g LIBXSMM_AARCH64_INSTR_GP_LDP_I_OFF LIBXSMM_AARCH64_GP_REG_XSP 64
                      LIBXSMM_AARCH64_GP_REG_X22 LIBXSMM_AARCH64_GP_REG_X23
               else g);
          g = (if i_callee_save_bitmask AND 0x100 = 0x100
               then libxsmm_aarch64_instruction_alu_pair_move g LIBXSMM_AARCH64_INSTR_GP_LDP_I_OFF LIBXSMM_AARCH64_GP_REG_XSP 48
                      LIBXSMM_AARCH64_GP_REG_X24 LIBXSMM_AARCH64_GP_REG_X25
               else g);
          g = (if i_callee_save_bitmask AND 0x200 = 0x200
               then libxsmm_aarch64_instruction_alu_pair_move g LIBXSMM_AARCH64_INSTR_GP_LDP_I_OFF LIBXSMM_AARCH64_GP_REG_XSP 32
                      LIBXSMM_AARCH64_GP_REG_X26 LIBXSMM_AARCH64_GP_REG_X27
               else g);
          g = (if i_callee_save_bitmask AND 0x400 = 0x400
               then libxsmm_aarch64_instruction_alu_pair_move g LIBXSMM_AARCH64_INSTR_GP_LDP_I_OFF LIBXSMM_AARCH64_GP_REG_XSP 16
                      LIBXSMM_AARCH64_GP_REG_X28 LIBXSMM_AARCH64_GP_REG_X29
               else g);
          g = (if i_callee_save_bitmask AND 0x800 = 0x800
               then libxsmm_aarch64_instruction_alu_move g LIBXSMM_AARCH64_INSTR_GP_LDR_I_OFF LIBXSMM_AARCH64_GP_REG_XSP
                      LIBXSMM_AARCH64_GP_REG_XZR 0 LIBXSMM_AARCH64_GP_REG_X30
               else g);
          g = libxsmm_aarch64_instruction_alu_compute_imm12 g LIBXSMM_AARCH64_INSTR_GP_ADD_I
                LIBXSMM_AARCH64_GP_REG_XSP LIBXSMM_AARCH64_GP_REG_XSP 192 0
      in g)"

definition libxsmm_aarch64_instruction_close_stream :: "gencode \<Rightarrow> u16 \<Rightarrow> gencode" where
  "libxsmm_aarch64_instruction_close_stream g i_callee_save_bitmask =
     (if arch g < LIBXSMM_AARCH64_V81 then LIBXSMM_EXIT_ERROR g
      else
      let g = libxsmm_aarch64_instruction_restore_regs g i_callee_save_bitmask
      in if code_type g > 1 then
           if no_space g then libxsmm_handle_error g LIBXSMM_ERR_BUFFER_TOO_SMALL
           else advance_code (put_code g 0xd65f03c0)
         else LIBXSMM_EXIT_ERROR g)"

section \<open>Jumps\<close>

definition libxsmm_aarch64_instruction_register_jump_back_label ::
  "gencode \<Rightarrow> libxsmm_loop_label_tracker \<Rightarrow> gencode \<times> libxsmm_loop_label_tracker" where
  "libxsmm_aarch64_instruction_register_jump_back_label g t =
     (if arch g < LIBXSMM_AARCH64_V81 then (LIBXSMM_EXIT_ERROR g, t)
      else if 512 \<le> label_count t then (libxsmm_handle_error g LIBXSMM_ERR_EXCEED_JMPLBL, t)
      else if code_type g > 1 then
        let l_lab = label_count t;
            t = t\<lparr>label_count := label_count t + 1\<rparr>;
            t = t\<lparr>loop_label_address := (loop_label_address t)(unat l_lab := code_size g)\<rparr>
        in (g, t)
      else (LIBXSMM_EXIT_ERROR g, t))"

definition libxsmm_aarch64_instruction_cond_jump_back_to_label ::
  "gencode \<Rightarrow> u32 \<Rightarrow> u32 \<Rightarrow> libxsmm_loop_label_tracker \<Rightarrow> gencode \<times> libxsmm_loop_label_tracker" where
  "libxsmm_aarch64_instruction_cond_jump_back_to_label g i_jmp_instr i_gp_reg_cmp t =
     (if arch g < LIBXSMM_AARCH64_V81 then (LIBXSMM_EXIT_ERROR g, t)
      else if i_jmp_instr \<notin> {LIBXSMM_AARCH64_INSTR_GP_CBNZ, LIBXSMM_AARCH64_INSTR_GP_CBZ}
      then (LIBXSMM_EXIT_ERROR g, t)
      else if code_type g > 1 then
        let l_lab = label_count t - 1;
            t = t\<lparr>label_count := l_lab\<rparr>;
            l_jmp_dst = loop_label_address t (unat l_lab) div 4;
            code_head = code_size g div 4;
            l_jmp_imm = sint l_jmp_dst - sint code_head
        in if no_space g then (libxsmm_handle_error g LIBXSMM_ERR_BUFFER_TOO_SMALL, t)
           else
             let c = 0xff000000 AND i_jmp_instr;
                 c = c OR (0x1f AND i_gp_reg_cmp);
                 c = c OR push_bit 26 (0x20 AND i_gp_reg_cmp);
                 c = c OR push_bit 5 (word_of_int (0x7ffff AND l_jmp_imm))
             in (advance_code (put_code g c), t)
      else (LIBXSMM_EXIT_ERROR g, t))"

text \<open>The loop of \<open>register_jump_label\<close> over the recorded references.\<close>

primrec patch_refs :: "(nat \<Rightarrow> u8) \<Rightarrow> u32 \<Rightarrow> (nat \<Rightarrow> u32) \<Rightarrow> nat \<Rightarrow> nat \<Rightarrow> u8" where
  "patch_refs code label addr 0 = code"
| "patch_refs code label addr (Suc l_ref) =
     (let code = patch_refs code label addr l_ref;
          l_distance = (sint label - sint (addr l_ref)) sdiv 4;
          a = unat (addr l_ref) div 4 * 4
      in st32 code a (rd32 code a OR push_bit 5 (word_of_int (0x7ffff AND l_distance))))"

definition libxsmm_aarch64_instruction_register_jump_label ::
  "gencode \<Rightarrow> u32 \<Rightarrow> libxsmm_jump_label_tracker \<Rightarrow> gencode \<times> libxsmm_jump_label_tracker" where
  "libxsmm_aarch64_instruction_register_jump_label g i_label_no t =
     (if arch g < LIBXSMM_AARCH64_V81 then (LIBXSMM_EXIT_ERROR g, t)
      else if jump_label_address t (unat i_label_no) > 0 then (libxsmm_handle_error g LIBXSMM_ERR_JMPLBL_USED, t)
      else if code_type g > 1 then
        let l_source = label_source t (unat i_label_no);
            t = t\<lparr>jump_label_address := (jump_label_address t)(unat i_label_no := code_size g)\<rparr>
        in (g\<lparr>generated_code := patch_refs (generated_code g) (jump_label_address t (unat i_label_no))
                (instr_addr l_source) (unat (ref_count l_source))\<rparr>, t)
      else (LIBXSMM_EXIT_ERROR g, t))"

definition libxsmm_aarch64_instruction_cond_jump_to_label ::
  "gencode \<Rightarrow> u32 \<Rightarrow> u32 \<Rightarrow> u32 \<Rightarrow> libxsmm_jump_label_tracker \<Rightarrow> gencode \<times> libxsmm_jump_label_tracker" where
  "libxsmm_aarch64_instruction_cond_jump_to_label g i_jmp_instr i_gp_reg_cmp i_label_no t =
     (if arch g < LIBXSMM_AARCH64_V81 then (LIBXSMM_EXIT_ERROR g, t)
      else if 512 \<le> i_label_no then (libxsmm_handle_error g LIBXSMM_ERR_EXCEED_JMPLBL, t)
      else if ref_count (label_source t (unat i_label_no)) = 512 - 1
      then (libxsmm_handle_error g LIBXSMM_ERR_EXCEED_JMPLBL, t)
      else if i_jmp_instr \<notin> {LIBXSMM_AARCH64_INSTR_GP_CBNZ, LIBXSMM_AARCH64_INSTR_GP_CBZ}
      then (LIBXSMM_EXIT_ERROR g, t)
      else
        let s = label_source t (unat i_label_no);
            l_pos = ref_count s;
            s = s\<lparr>instr_type := (instr_type s)(unat l_pos := i_jmp_instr)\<rparr>;
            s = s\<lparr>instr_addr := (instr_addr s)(unat l_pos := code_size g)\<rparr>;
            s = s\<lparr>ref_count := ref_count s + 1\<rparr>;
            t = t\<lparr>label_source := (label_source t)(unat i_label_no := s)\<rparr>
        in if code_type g > 1 then
             let l_jmp_dst = jump_label_address t (unat i_label_no) div 4;
                 code_head = code_size g div 4;
                 l_jmp_imm = (if l_jmp_dst = 0 then 0 else sint l_jmp_dst - sint code_head)
             in if no_space g then (libxsmm_handle_error g LIBXSMM_ERR_BUFFER_TOO_SMALL, t)
                else
                  let c = 0xff000000 AND i_jmp_instr;
                      c = c OR (0x1f AND i_gp_reg_cmp);
                      c = c OR push_bit 26 (0x20 AND i_gp_reg_cmp);
                      c = c OR push_bit 5 (word_of_int (0x7ffff AND l_jmp_imm))
                  in (advance_code (put_code g c), t)
           else (LIBXSMM_EXIT_ERROR g, t))"

section \<open>Constant data\<close>

text \<open>\<open>memcmp\<close> between byte memories.\<close>

definition memcmp_eq :: "(nat \<Rightarrow> u8) \<Rightarrow> nat \<Rightarrow> (nat \<Rightarrow> u8) \<Rightarrow> nat \<Rightarrow> bool" where
  "memcmp_eq p d q n \<longleftrightarrow> list_all (\<lambda>k. p (d + k) = q k) [0..<n]"

text \<open>The search for data already present: \<open>Some (Some d)\<close> found at \<open>d\<close>, \<open>Some None\<close> not found.\<close>

partial_function (option) find_data ::
  "libxsmm_const_data_tracker \<Rightarrow> (nat \<Rightarrow> u8) \<Rightarrow> u32 \<Rightarrow> u32 \<Rightarrow> u32 \<Rightarrow> u32 option option" where
  "find_data d i_data i_ndata_bytes i_alignment l_doff =
     (if l_doff < const_data_size d then
        if i_ndata_bytes \<le> const_data_size d - l_doff
           \<and> memcmp_eq (const_data d) (unat l_doff) i_data (unat i_ndata_bytes)
        then Some (Some l_doff)
        else find_data d i_data i_ndata_bytes i_alignment (l_doff + i_alignment)
      else Some None)"

definition libxsmm_aarch64_instruction_add_data ::
  "gencode \<Rightarrow> (nat \<Rightarrow> u8) \<Rightarrow> u32 \<Rightarrow> u32 \<Rightarrow> u32 \<Rightarrow> libxsmm_const_data_tracker \<Rightarrow>
   (gencode \<times> libxsmm_const_data_tracker \<times> u32) option" where
  "libxsmm_aarch64_instruction_add_data g i_data i_ndata_bytes i_alignment i_append_only d =
     (let i_alignment = max i_alignment 1
      in if code_type g > 1 then
           let l_dsize = const_data_size d
           in case (if i_append_only = 0 then find_data d i_data i_ndata_bytes i_alignment 0 else Some None) of
                None \<Rightarrow> None
              | Some (Some l_doff) \<Rightarrow> Some (g, d, l_doff)
              | Some None \<Rightarrow>
                  (let l_npad = LIBXSMM_UP l_dsize i_alignment - l_dsize
                   in if unat l_dsize + unat l_npad + unat i_ndata_bytes > 81920
                      then Some (libxsmm_handle_error g LIBXSMM_ERR_BUFFER_TOO_SMALL, d, NOT 0)
                      else Some (g,
                             d\<lparr>const_data := memcpy (const_data d) (unat l_dsize + unat l_npad) i_data
                                               (unat i_ndata_bytes),
                               const_data_size := const_data_size d + (l_npad + i_ndata_bytes)\<rparr>,
                             l_dsize + l_npad))
         else Some (LIBXSMM_EXIT_ERROR g, d, 0))"

definition libxsmm_aarch64_instruction_adr_data ::
  "gencode \<Rightarrow> u32 \<Rightarrow> u32 \<Rightarrow> libxsmm_const_data_tracker \<Rightarrow> gencode \<times> libxsmm_const_data_tracker" where
  "libxsmm_aarch64_instruction_adr_data g i_reg i_off d =
     (if code_type g > 1 then
        if buffer_size g + 4 < code_size g then (libxsmm_handle_error g LIBXSMM_ERR_BUFFER_TOO_SMALL, d)
        else if 128 \<le> const_data_nload_insns d then (LIBXSMM_EXIT_ERROR g, d)
        else
          let c = push_bit 27 (0x1f AND i_reg) OR (0x1fffff AND i_off);
              d = d\<lparr>const_data_pc_load_insns :=
                      (const_data_pc_load_insns d)(unat (const_data_nload_insns d) := code_size g),
                    const_data_nload_insns := const_data_nload_insns d + 1\<rparr>
          in (advance_code (put_code g c), d)
      else (LIBXSMM_EXIT_ERROR g, d))"

text \<open>The loop of \<open>close_data\<close> that turns every noted load into an \<open>ADR\<close> instruction.\<close>

primrec fix_adrs :: "(nat \<Rightarrow> u8) \<Rightarrow> u32 \<Rightarrow> (nat \<Rightarrow> u32) \<Rightarrow> nat \<Rightarrow> nat \<Rightarrow> u8" where
  "fix_adrs code l_code_size insns 0 = code"
| "fix_adrs code l_code_size insns (Suc l_i) =
     (let code = fix_adrs code l_code_size insns l_i;
          l_adr_off = insns l_i;
          l_off = rd32 code (unat l_adr_off);
          l_gp = drop_bit 27 l_off;
          l_pc_off = l_code_size - l_adr_off + (0x1fffff AND l_off);
          l_insn = push_bit 28 0x1 OR (0x1f AND l_gp);
          l_insn = l_insn OR (push_bit 3 (0x1ffffc AND l_pc_off) OR push_bit 29 (0x3 AND l_pc_off))
      in st32 code (unat l_adr_off) l_insn)"

text \<open>The page size \<open>LIBXSMM_PAGE_MINSIZE\<close> depends on the platform and is a parameter.\<close>

definition libxsmm_aarch64_instruction_close_data ::
  "u32 \<Rightarrow> gencode \<Rightarrow> libxsmm_const_data_tracker \<Rightarrow> gencode" where
  "libxsmm_aarch64_instruction_close_data page g d =
     (let l_code_size = code_size g;
          l_data_size = const_data_size d;
          l_max_size = buffer_size g
      in if l_data_size > 0 then
           let l_code_size = LIBXSMM_UP l_code_size page
           in if l_max_size < l_data_size + l_code_size
              then libxsmm_handle_error g LIBXSMM_ERR_BUFFER_TOO_SMALL
              else
                let code = memcpy (generated_code g) (unat l_code_size) (const_data d) (unat l_data_size);
                    code = fix_adrs code l_code_size (const_data_pc_load_insns d) (unat (const_data_nload_insns d))
                in g\<lparr>data_size := l_code_size + l_data_size - code_size g, generated_code := code\<rparr>
         else g)"

section \<open>Prologue and epilogue keep the contract\<close>

lemma emits_let_cond:
  assumes "emits n g h" and "wf_code g" and "\<And>h. wf_code h \<Longrightarrow> emits 1 h (f h)"
    and "\<And>h'. emits (Suc n) g h' \<Longrightarrow> emits m g (F h')"
  shows "emits m g (Let (if b then f h else h) F)"
proof -
  have "emits (Suc n) g (f h)"
    using emits_trans [OF assms(1) assms(3) [OF emits_wf [OF assms(1,2)]]] by simp
  then show ?thesis
    using assms(4) emits_mono [OF assms(1), of "Suc n"] by (simp add: Let_def)
qed

lemma emits_let_instr:
  assumes "emits n g h" and "wf_code g" and "\<And>h. wf_code h \<Longrightarrow> emits 1 h (f h)"
    and "\<And>h'. emits (Suc n) g h' \<Longrightarrow> emits m g (F h')"
  shows "emits m g (Let (f h) F)"
  using emits_let_cond [OF assms, where b = True] by simp

interpretation open_stream:
  instruction "\<lambda>g. libxsmm_aarch64_instruction_open_stream g bm" 13 for bm
proof unfold_locales
  fix g
  assume w: "wf_code g"
  have z: "emits 0 g g"
    by (rule emits_refl [OF w])
  show "emits 13 g (libxsmm_aarch64_instruction_open_stream g bm)"
    unfolding libxsmm_aarch64_instruction_open_stream_def
    by (intro emits_if emits_exit_any w)
      (simp, rule emits_let_instr [OF z w alu_compute_imm12.emits], assumption,
       ((rule emits_let_cond, assumption, rule w,
         (rule asimd_pair_move.emits | rule alu_pair_move.emits | rule alu_move.emits), assumption)+),
       simp add: numeral_eq_Suc)
qed

interpretation restore_regs:
  instruction "\<lambda>g. libxsmm_aarch64_instruction_restore_regs g bm" 13 for bm
proof unfold_locales
  fix g
  assume w: "wf_code g"
  have z: "emits 0 g g"
    by (rule emits_refl [OF w])
  show "emits 13 g (libxsmm_aarch64_instruction_restore_regs g bm)"
    unfolding libxsmm_aarch64_instruction_restore_regs_def
    by (intro emits_if emits_exit_any w)
      (simp, rule emits_let_cond [OF z w asimd_pair_move.emits], assumption,
       ((rule emits_let_cond, assumption, rule w,
         (rule asimd_pair_move.emits | rule alu_pair_move.emits | rule alu_move.emits), assumption)+),
       rule emits_let_instr, assumption, rule w, rule alu_compute_imm12.emits, assumption,
       simp add: numeral_eq_Suc)
qed

definition ret_or_error :: "gencode \<Rightarrow> gencode" where
  "ret_or_error g = (if code_type g > 1 then
       if no_space g then libxsmm_handle_error g LIBXSMM_ERR_BUFFER_TOO_SMALL
       else advance_code (put_code g 0xd65f03c0)
     else LIBXSMM_EXIT_ERROR g)"

interpretation ret_or_error: instruction ret_or_error 1
  by unfold_locales (unfold ret_or_error_def One_nat_def, (intro emits_rules; (assumption | simp))+)

interpretation restore_then_ret:
  instruction_pair "\<lambda>g. libxsmm_aarch64_instruction_restore_regs g bm" 13 ret_or_error 1 for bm
  ..

lemma close_stream_split:
  "libxsmm_aarch64_instruction_close_stream g bm =
     (if arch g < LIBXSMM_AARCH64_V81 then LIBXSMM_EXIT_ERROR g
      else ret_or_error (libxsmm_aarch64_instruction_restore_regs g bm))"
  by (simp add: libxsmm_aarch64_instruction_close_stream_def ret_or_error_def Let_def)

interpretation close_stream:
  instruction "\<lambda>g. libxsmm_aarch64_instruction_close_stream g bm" 14 for bm
proof unfold_locales
  fix g
  assume w: "wf_code g"
  show "emits 14 g (libxsmm_aarch64_instruction_close_stream g bm)"
    unfolding close_stream_split using restore_then_ret.both.emits [OF w, of bm]
    by (intro emits_if emits_exit_any w) simp_all
qed

section \<open>Sequences of calls\<close>

text \<open>A generator is a sequence of calls of the encoder functions on one stream.\<close>

datatype a64_call =
    Asimd_move u32 u32 u32 int u32 libxsmm_aarch64_asimd_width
  | Asimd_gpr_move u32 u32 u32 int libxsmm_aarch64_asimd_width
  | Asimd_struct_r_move u32 u32 u32 u32 libxsmm_aarch64_asimd_tupletype
  | Asimd_struct_move u32 u32 u32 int u32 int libxsmm_aarch64_asimd_width
  | Asimd_pair_move u32 u32 int u32 u32 libxsmm_aarch64_asimd_width
  | Asimd_compute u32 u32 u32 u8 u32 libxsmm_aarch64_asimd_tupletype
  | Sve_move u32 u32 u32 int u32 u32
  | Sve_prefetch u32 u32 u32 int u32 libxsmm_aarch64_sve_prefetch
  | Sve_compute u32 u32 u32 u8 u32 u32 libxsmm_aarch64_sve_type
  | Sve_pcompute u32 u32 u32 libxsmm_aarch64_gp_width u32 libxsmm_aarch64_sve_pattern libxsmm_aarch64_sve_type
  | Alu_move u32 u32 u32 int u32
  | Alu_pair_move u32 u32 int u32 u32
  | Alu_move_imm16 u32 u32 u8 u32
  | Alu_set_imm64 u32 u64
  | Alu_compute_imm12 u32 u32 u32 u32 u8
  | Alu_compute_imm24 u32 u32 u32 u32
  | Alu_compute_shifted_reg u32 u32 u32 u32 u32 libxsmm_aarch64_shiftmode
  | Alu_compute_imm64 u32 u32 u32 u32 u64
  | Open_stream u16
  | Restore_regs u16
  | Close_stream u16

fun run_call :: "a64_call \<Rightarrow> gencode \<Rightarrow> gencode" where
  "run_call (Asimd_move i a r off v w) g = libxsmm_aarch64_instruction_asimd_move g i a r off v w"
| "run_call (Asimd_gpr_move i r v k w) g = libxsmm_aarch64_instruction_asimd_gpr_move g i r v k w"
| "run_call (Asimd_struct_r_move i a r v t) g = libxsmm_aarch64_instruction_asimd_struct_r_move g i a r v t"
| "run_call (Asimd_struct_move i a r off v k w) g = libxsmm_aarch64_instruction_asimd_struct_move g i a r off v k w"
| "run_call (Asimd_pair_move i a off r0 r1 w) g = libxsmm_aarch64_instruction_asimd_pair_move g i a off r0 r1 w"
| "run_call (Asimd_compute i s0 s1 k d t) g = libxsmm_aarch64_instruction_asimd_compute g i s0 s1 k d t"
| "run_call (Sve_move i a r off v p) g = libxsmm_aarch64_instruction_sve_move g i a r off v p"
| "run_call (Sve_prefetch i a r off p f) g = libxsmm_aarch64_instruction_sve_prefetch g i a r off p f"
| "run_call (Sve_compute i s0 s1 k d p t) g = libxsmm_aarch64_instruction_sve_compute g i s0 s1 k d p t"
| "run_call (Sve_pcompute i r s0 w s1 p t) g = libxsmm_aarch64_instruction_sve_pcompute g i r s0 w s1 p t"
| "run_call (Alu_move i a r off d) g = libxsmm_aarch64_instruction_alu_move g i a r off d"
| "run_call (Alu_pair_move i a off r0 r1) g = libxsmm_aarch64_instruction_alu_pair_move g i a off r0 r1"
| "run_call (Alu_move_imm16 i d s imm) g = libxsmm_aarch64_instruction_alu_move_imm16 g i d s imm"
| "run_call (Alu_set_imm64 d imm) g = libxsmm_aarch64_instruction_alu_set_imm64 g d imm"
| "run_call (Alu_compute_imm12 i s d imm sh) g = libxsmm_aarch64_instruction_alu_compute_imm12 g i s d imm sh"
| "run_call (Alu_compute_imm24 i s d imm) g = libxsmm_aarch64_instruction_alu_compute_imm24 g i s d imm"
| "run_call (Alu_compute_shifted_reg i s t d imm sh) g =
     libxsmm_aarch64_instruction_alu_compute_shifted_reg g i s t d imm sh"
| "run_call (Alu_compute_imm64 i s t d imm) g = libxsmm_aarch64_instruction_alu_compute_imm64 g i s t d imm"
| "run_call (Open_stream m) g = libxsmm_aarch64_instruction_open_stream g m"
| "run_call (Restore_regs m) g = libxsmm_aarch64_instruction_restore_regs g m"
| "run_call (Close_stream m) g = libxsmm_aarch64_instruction_close_stream g m"

definition run_calls :: "a64_call list \<Rightarrow> gencode \<Rightarrow> gencode" where
  "run_calls cs g = fold run_call cs g"

lemma run_call_emits: "wf_code g \<Longrightarrow> emits 14 g (run_call c g)"
proof -
  assume w: "wf_code g"
  note up = emits_mono [where m = 14]
  show ?thesis
    by (cases c; simp)
      (rule up, (rule asimd_move.emits asimd_gpr_move.emits asimd_struct_r_move.emits asimd_struct_move.emits
        asimd_pair_move.emits asimd_compute.emits sve_move.emits sve_prefetch.emits sve_compute.emits
        sve_pcompute.emits alu_move.emits alu_pair_move.emits alu_move_imm16.emits alu_set_imm64.emits
        alu_compute_imm12.emits alu_compute_imm24.emits alu_compute_shifted_reg.emits alu_compute_imm64.emits
        open_stream.emits restore_regs.emits close_stream.emits, rule w), simp)+
qed

lemma run_calls_emits: "wf_code g \<Longrightarrow> emits (14 * length cs) g (run_calls cs g)"
proof (induction cs arbitrary: g)
  case Nil
  then show ?case by (simp add: run_calls_def emits_refl)
next
  case (Cons c cs)
  have c: "emits 14 g (run_call c g)"
    by (rule run_call_emits [OF Cons.prems])
  from emits_trans [OF c Cons.IH [OF emits_wf [OF c Cons.prems]]] show ?case
    by (simp add: run_calls_def)
qed

text \<open>
  C7: Whatever sequence of encoder calls a generator makes, with whatever arguments and however often
  they fail, a well-formed stream stays well-formed, code already generated is not changed, no byte
  outside the buffer is written, and a recorded error stays recorded.
\<close>

theorem a64_calls_safe:
  assumes "wf_code g"
  shows "let g' = run_calls cs g in
     wf_code g' \<and> buffer_size g' = buffer_size g \<and> unat (code_size g) \<le> unat (code_size g') \<and>
     (\<forall>a. a < unat (code_size g) \<or> unat (buffer_size g) \<le> a \<longrightarrow> generated_code g' a = generated_code g a) \<and>
     (last_error g \<noteq> 0 \<longrightarrow> last_error g' \<noteq> 0)"
  using run_calls_emits [OF assms, of cs] emits_wf [OF run_calls_emits [OF assms, of cs] assms]
  by (auto simp: Let_def emits_def)

theorem a64_calls_safe_witness:
  "wf_code (run_calls [Open_stream 0xfff, Alu_set_imm64 40 0x123456789, Sve_prefetch 0 1 2 3 4 LIBXSMM_AARCH64_SVE_PREFETCH_LDL1KEEP,
     Close_stream 0xfff] (fresh_stream LIBXSMM_AARCH64_V81 100))"
proof -
  have "wf_code (fresh_stream LIBXSMM_AARCH64_V81 100)"
    by (simp add: wf_code_def fresh_stream_def)
  from a64_calls_safe [OF this] show ?thesis
    by (simp add: Let_def)
qed

section \<open>Branches\<close>

text \<open>
  The target of a compare-and-branch word at address \<open>pc\<close>: the signed 19-bit field at bit 5 counts
  words from the branch itself (architecture manual, \<open>CBZ\<close> and \<open>CBNZ\<close>).
\<close>

definition branch_target :: "nat \<Rightarrow> u32 \<Rightarrow> int" where
  "branch_target pc w = int pc + 4 * signed_take_bit 18 (uint (drop_bit 5 w))"

definition branch_word :: "u32 \<Rightarrow> u32 \<Rightarrow> int \<Rightarrow> u32" where
  "branch_word i_jmp_instr i_gp_reg_cmp imm =
     (((0xff000000 AND i_jmp_instr) OR (0x1f AND i_gp_reg_cmp)) OR push_bit 26 (0x20 AND i_gp_reg_cmp))
       OR push_bit 5 (word_of_int (0x7ffff AND imm))"

lemma imm19_bits:
  assumes "i < 19"
  shows "bit (push_bit 5 (word_of_int (0x7ffff AND imm) :: u32)) (i + 5) \<longleftrightarrow> bit imm i"
proof -
  have "bit (0x7ffff :: int) i"
    using assms bit_mask_iff [of 19 i, where 'a = int] by (simp add: mask_eq_exp_minus_1)
  then show ?thesis
    using assms by (simp add: bit_simps)
qed

lemma imm19_field:
  assumes "\<And>i. i < 19 \<Longrightarrow> bit w (i + 5) \<longleftrightarrow> bit imm i" and "- (2 ^ 18) \<le> imm" and "imm < 2 ^ 18"
  shows "signed_take_bit 18 (uint (drop_bit 5 (w :: u32))) = imm"
proof -
  have "signed_take_bit 18 (uint (drop_bit 5 w)) = signed_take_bit 18 imm"
  proof (rule bit_eqI)
    fix n :: nat
    have "bit (uint (drop_bit 5 w)) m \<longleftrightarrow> bit imm m" if "m < 19" for m
      using assms(1) [OF that] that by (simp add: bit_uint_iff bit_drop_bit_eq add.commute)
    from this [of "min n 18"] show "bit (signed_take_bit 18 (uint (drop_bit 5 w))) n = bit (signed_take_bit 18 imm) n"
      by (simp add: bit_signed_take_bit_iff min.commute)
  qed
  also have "\<dots> = imm"
    using assms(2,3) by (rule signed_take_bit_int_eq_self)
  finally show ?thesis .
qed

lemma high_masks: "(0xff000000 :: u32) = push_bit 24 (mask 8)" "(0x1f :: u32) = mask 5" "(0x20 :: u32) = push_bit 5 (mask 1)"
  by (simp_all add: mask_eq_exp_minus_1)

lemma branch_word_bits:
  assumes "i < 19"
  shows "bit (branch_word instr r imm) (i + 5) \<longleftrightarrow> bit imm i"
proof -
  have "\<not> bit (0xff000000 AND instr) (i + 5)" "\<not> bit (0x1f AND r) (i + 5)" "\<not> bit (push_bit 26 (0x20 AND r)) (i + 5)"
    unfolding high_masks using assms by (auto simp: bit_simps)
  then show ?thesis
    using imm19_bits [OF assms, of imm] by (simp add: branch_word_def bit_or_iff)
qed

lemma branch_target_word:
  assumes "- (2 ^ 18) \<le> imm" and "imm < 2 ^ 18"
  shows "branch_target pc (branch_word instr r imm) = int pc + 4 * imm"
  unfolding branch_target_def using imm19_field [OF branch_word_bits assms] by simp

lemma sint_div4: "sint (x div 4 :: u32) = int (unat x div 4)"
proof -
  have "unat (x div 4) = unat x div 4"
    by (simp add: unat_div)
  moreover have "unat x div 4 < 2 ^ 31"
    using unat_less_width [of x] by simp
  ultimately have "uint (x div 4) = int (unat x div 4)" "uint (x div 4) < 2 ^ 31"
    by (metis uint_nat, metis of_nat_less_numeral_power_cancel_iff uint_nat)
  then show ?thesis
    by (simp add: sint_uint signed_take_bit_int_eq_self)
qed

section \<open>Loops\<close>

text \<open>The loop tracker is a stack of addresses.\<close>

definition loop_labels :: "libxsmm_loop_label_tracker \<Rightarrow> u32 list" where
  "loop_labels t = map (loop_label_address t) [0..<unat (label_count t)]"

lemma register_jump_back_label_push:
  assumes "ready 0 g" and "label_count t < 512"
  shows "libxsmm_aarch64_instruction_register_jump_back_label g t =
      (g, \<lparr>loop_label_address = (loop_label_address t)(unat (label_count t) := code_size g),
           label_count = label_count t + 1\<rparr>)"
    and "loop_labels (snd (libxsmm_aarch64_instruction_register_jump_back_label g t)) = loop_labels t @ [code_size g]"
proof -
  show e: "libxsmm_aarch64_instruction_register_jump_back_label g t =
      (g, \<lparr>loop_label_address = (loop_label_address t)(unat (label_count t) := code_size g),
           label_count = label_count t + 1\<rparr>)"
    using assms(2) ready_guards(1,2) [OF assms(1)]
    by (simp add: libxsmm_aarch64_instruction_register_jump_back_label_def Let_def not_le)
  have "unat (label_count t + 1) = Suc (unat (label_count t))"
    using assms(2) by (subst unat_add_small) (simp_all add: word_less_nat_alt)
  then show "loop_labels (snd (libxsmm_aarch64_instruction_register_jump_back_label g t)) = loop_labels t @ [code_size g]"
    unfolding e by (simp add: loop_labels_def)
qed

text \<open>
  Loop labels behave as a stack: a conditional jump back pops the label registered last, and the word
  it appends compares the given register and branches to exactly that label's address, for every
  distance that the 19-bit field can hold.
\<close>

theorem cond_jump_back_to_label_target:
  assumes "ready 1 g" and "0 < label_count t" and "i_jmp_instr \<in> {LIBXSMM_AARCH64_INSTR_GP_CBNZ, LIBXSMM_AARCH64_INSTR_GP_CBZ}"
    and "4 dvd unat (last (loop_labels t))" and "unat (last (loop_labels t)) \<le> unat (code_size g)"
    and "unat (code_size g) - unat (last (loop_labels t)) \<le> 2 ^ 20"
  shows "let (g', t') = libxsmm_aarch64_instruction_cond_jump_back_to_label g i_jmp_instr i_gp_reg_cmp t;
       w = rd32 (generated_code g') (unat (code_size g))
     in loop_labels t' = butlast (loop_labels t) \<and> last_error g' = last_error g \<and>
        unat (code_size g') = unat (code_size g) + 4 \<and>
        branch_target (unat (code_size g)) w = int (unat (last (loop_labels t))) \<and>
        take_bit 5 w = take_bit 5 i_gp_reg_cmp"
proof -
  let ?l = "loop_label_address t (unat (label_count t - 1))"
  have n: "unat (label_count t) = Suc (unat (label_count t - 1))"
    using assms(2) by (subst unat_sub) (simp_all add: word_le_nat_alt word_less_nat_alt)
  have l: "last (loop_labels t) = ?l" and b: "butlast (loop_labels t) = map (loop_label_address t) [0..<unat (label_count t - 1)]"
    by (simp_all add: loop_labels_def n)
  let ?imm = "sint (?l div 4) - sint (code_size g div 4)"
  let ?w = "branch_word i_jmp_instr i_gp_reg_cmp ?imm"
  have r: "ready (Suc 0) g"
    using assms(1) by simp
  have e: "libxsmm_aarch64_instruction_cond_jump_back_to_label g i_jmp_instr i_gp_reg_cmp t =
      (emit_word g ?w, t\<lparr>label_count := label_count t - 1\<rparr>)"
    using assms(3) ready_guards(1,2) [OF r] ready_space [OF r]
    by (simp add: libxsmm_aarch64_instruction_cond_jump_back_to_label_def Let_def emit_word_def branch_word_def)
  have wf: "4 dvd unat (code_size g)"
    using ready_guards(3) [OF r] by (simp add: wf_code_def)
  obtain p q where pq: "unat ?l = 4 * p" "unat (code_size g) = 4 * q"
    using assms(4) wf unfolding l by (auto elim!: dvdE)
  have imm: "?imm = int p - int q"
    by (simp add: sint_div4 pq)
  have "q - p \<le> 2 ^ 18" "p \<le> q"
    using assms(5,6) unfolding l pq by simp_all
  then have "branch_target (unat (code_size g)) ?w = int (unat ?l)"
    by (subst branch_target_word) (simp_all add: imm pq)
  moreover have "take_bit 5 ?w = take_bit 5 i_gp_reg_cmp"
    unfolding branch_word_def high_masks by (rule word_eq_bitI) (auto simp: bit_simps)
  moreover have "loop_labels (t\<lparr>label_count := label_count t - 1\<rparr>) = butlast (loop_labels t)"
    unfolding b by (simp add: loop_labels_def)
  ultimately show ?thesis
    unfolding e using emit_word_code(1,2) [OF r, of ?w] by (simp add: l emit_word_def)
qed

section \<open>Forward jumps\<close>

text \<open>One use of the stream by a generator that also jumps to numbered labels.\<close>

datatype a64_op = Op_call a64_call | Op_jump u32 u32 u32 | Op_label u32

fun run_op :: "a64_op \<Rightarrow> gencode \<times> libxsmm_jump_label_tracker \<Rightarrow> gencode \<times> libxsmm_jump_label_tracker" where
  "run_op (Op_call c) (g, t) = (run_call c g, t)"
| "run_op (Op_jump i_jmp_instr i_gp_reg_cmp i_label_no) (g, t) =
     libxsmm_aarch64_instruction_cond_jump_to_label g i_jmp_instr i_gp_reg_cmp i_label_no t"
| "run_op (Op_label i_label_no) (g, t) = libxsmm_aarch64_instruction_register_jump_label g i_label_no t"

definition ref_addr :: "libxsmm_jump_label_tracker \<Rightarrow> nat \<Rightarrow> nat \<Rightarrow> nat" where
  "ref_addr t l k = unat (instr_addr (label_source t l) k)"

definition ref_num :: "libxsmm_jump_label_tracker \<Rightarrow> nat \<Rightarrow> nat" where
  "ref_num t l = unat (ref_count (label_source t l))"

definition ref_ok :: "gencode \<Rightarrow> libxsmm_jump_label_tracker \<Rightarrow> nat \<Rightarrow> nat \<Rightarrow> bool" where
  "ref_ok g t l k \<longleftrightarrow>
     4 dvd ref_addr t l k \<and> ref_addr t l k + 4 \<le> unat (code_size g) \<and>
     (if jump_label_address t l = 0
      then \<forall>i<19. \<not> bit (rd32 (generated_code g) (ref_addr t l k)) (i + 5)
      else branch_target (ref_addr t l k) (rd32 (generated_code g) (ref_addr t l k)) = int (unat (jump_label_address t l)))"

text \<open>
  The invariant: every recorded reference is a branch in the code already generated; it has a clear
  target field as long as its label is not known, and branches to the label once it is; no word is
  recorded twice.
\<close>

definition jump_inv :: "gencode \<Rightarrow> libxsmm_jump_label_tracker \<Rightarrow> bool" where
  "jump_inv g t \<longleftrightarrow> wf_code g \<and> unat (buffer_size g) < 2 ^ 20 \<and>
     (\<forall>l<512. 4 dvd unat (jump_label_address t l) \<and> unat (jump_label_address t l) \<le> unat (code_size g) \<and>
        ref_num t l \<le> 511 \<and> (\<forall>k<ref_num t l. ref_ok g t l k)) \<and>
     (\<forall>l<512. \<forall>l'<512. \<forall>k<ref_num t l. \<forall>k'<ref_num t l'. ref_addr t l k = ref_addr t l' k' \<longrightarrow> l = l' \<and> k = k')"

lemma ref_ok_mono:
  assumes "ref_ok g t l k" and "unat (code_size g) \<le> unat (code_size g')"
    and "\<And>a. a < unat (code_size g) \<Longrightarrow> generated_code g' a = generated_code g a"
  shows "ref_ok g' t l k"
proof -
  have "rd32 (generated_code g') (ref_addr t l k) = rd32 (generated_code g) (ref_addr t l k)"
    by (rule rd32_cong) (use assms in \<open>simp add: ref_ok_def\<close>)
  then show ?thesis
    using assms(1,2) by (simp add: ref_ok_def)
qed

lemma jump_inv_emits:
  assumes "jump_inv g t" and "emits n g g'"
  shows "jump_inv g' t"
proof -
  have w: "wf_code g'"
    using assms emits_wf by (simp add: jump_inv_def)
  have m: "unat (code_size g) \<le> unat (code_size g')" "buffer_size g' = buffer_size g"
    "\<And>a. a < unat (code_size g) \<Longrightarrow> generated_code g' a = generated_code g a"
    using assms(2) by (auto simp: emits_def)
  have old: "4 dvd unat (jump_label_address t l) \<and> unat (jump_label_address t l) \<le> unat (code_size g) \<and>
      ref_num t l \<le> 511 \<and> (\<forall>k<ref_num t l. ref_ok g t l k)" if "l < 512" for l
    using assms(1) that unfolding jump_inv_def by blast
  have new: "4 dvd unat (jump_label_address t l) \<and> unat (jump_label_address t l) \<le> unat (code_size g') \<and>
      ref_num t l \<le> 511 \<and> (\<forall>k<ref_num t l. ref_ok g' t l k)" if "l < 512" for l
    using old [OF that] ref_ok_mono [OF _ m(1) m(3)] m(1) by (meson order_trans)
  show ?thesis
    using assms(1) w m(2) new unfolding jump_inv_def by (simp only:) blast
qed

text \<open>A jump to a label.\<close>

definition add_ref :: "libxsmm_jump_label_tracker \<Rightarrow> nat \<Rightarrow> u32 \<Rightarrow> u32 \<Rightarrow> libxsmm_jump_label_tracker" where
  "add_ref t l instr a =
     t\<lparr>label_source := (label_source t)(l := (label_source t l)
         \<lparr>instr_type := (instr_type (label_source t l))(unat (ref_count (label_source t l)) := instr),
          instr_addr := (instr_addr (label_source t l))(unat (ref_count (label_source t l)) := a),
          ref_count := ref_count (label_source t l) + 1\<rparr>)\<rparr>"

lemma cond_jump_to_label_ok:
  assumes "last_error (fst (libxsmm_aarch64_instruction_cond_jump_to_label g i r n t)) = 0"
  shows "n < 512 \<and> ref_num t (unat n) \<noteq> 511 \<and> \<not> no_space g \<and>
    libxsmm_aarch64_instruction_cond_jump_to_label g i r n t =
      (emit_word g (branch_word i r (if jump_label_address t (unat n) div 4 = 0 then 0
         else sint (jump_label_address t (unat n) div 4) - sint (code_size g div 4))),
       add_ref t (unat n) i (code_size g))"
proof -
  have c: "ref_num t (unat n) = 511 \<longleftrightarrow> ref_count (label_source t (unat n)) = 511"
    by (simp add: ref_num_def word_unat_eq_iff)
  have conds: "\<not> arch g < LIBXSMM_AARCH64_V81" "n < 512" "ref_count (label_source t (unat n)) \<noteq> 511"
    "i = LIBXSMM_AARCH64_INSTR_GP_CBNZ \<or> i = LIBXSMM_AARCH64_INSTR_GP_CBZ" "1 < code_type g" "\<not> no_space g"
    using assms unfolding libxsmm_aarch64_instruction_cond_jump_to_label_def
    by (simp_all add: Let_def LIBXSMM_EXIT_ERROR_def not_le split: if_split_asm)
  then have "libxsmm_aarch64_instruction_cond_jump_to_label g i r n t =
      (emit_word g (branch_word i r (if jump_label_address t (unat n) div 4 = 0 then 0
         else sint (jump_label_address t (unat n) div 4) - sint (code_size g div 4))),
       add_ref t (unat n) i (code_size g))"
    by (simp add: libxsmm_aarch64_instruction_cond_jump_to_label_def Let_def not_le emit_word_def branch_word_def
        add_ref_def)
  then show ?thesis
    using conds c by blast
qed

lemma cond_jump_to_label_bad:
  assumes "wf_code g"
  shows "last_error (fst (libxsmm_aarch64_instruction_cond_jump_to_label g i r n t)) = 0 \<Longrightarrow> last_error g = 0"
  using assms unfolding libxsmm_aarch64_instruction_cond_jump_to_label_def
  by (simp add: Let_def LIBXSMM_EXIT_ERROR_def split: if_split_asm)

lemma ref_num_le: "ref_num t l \<le> 511 \<Longrightarrow> ref_num t l \<noteq> 511 \<Longrightarrow> ref_num (add_ref t l i a) l = Suc (ref_num t l)"
  by (simp add: ref_num_def add_ref_def) (subst unat_add_small, simp_all)

lemma add_ref_other: "l \<noteq> l' \<Longrightarrow> ref_num (add_ref t l i a) l' = ref_num t l'" "l \<noteq> l' \<Longrightarrow> ref_addr (add_ref t l i a) l' k = ref_addr t l' k"
  "jump_label_address (add_ref t l i a) = jump_label_address t"
  "k < ref_num t l \<Longrightarrow> ref_addr (add_ref t l i a) l k = ref_addr t l k"
  "ref_addr (add_ref t l i a) l (ref_num t l) = unat a"
  by (simp_all add: ref_num_def ref_addr_def add_ref_def)

lemma jump_inv_jump:
  assumes inv: "jump_inv g t"
    and ok: "last_error (fst (libxsmm_aarch64_instruction_cond_jump_to_label g i r n t)) = 0"
    and res: "libxsmm_aarch64_instruction_cond_jump_to_label g i r n t = (g', t')"
  shows "jump_inv g' t'"
proof -
  let ?l = "unat n"
  let ?dst = "jump_label_address t ?l"
  let ?imm = "if ?dst div 4 = 0 then 0 else sint (?dst div 4) - sint (code_size g div 4)"
  let ?w = "branch_word i r ?imm"
  have c: "n < 512" "ref_num t ?l \<noteq> 511" "\<not> no_space g" and g': "g' = emit_word g ?w"
    and t': "t' = add_ref t ?l i (code_size g)"
    using cond_jump_to_label_ok [OF ok] res by simp_all
  have l: "?l < 512"
    using c(1) by (simp add: word_less_nat_alt)
  have wf: "wf_code g" and dst: "4 dvd unat ?dst" "unat ?dst \<le> unat (code_size g)" "ref_num t ?l \<le> 511"
    and buf: "unat (buffer_size g) < 2 ^ 20"
    using inv l by (simp_all add: jump_inv_def)
  have e: "emits (Suc 0) g g'"
    unfolding g' emit_word_def by (rule emits_word [OF wf c(3)])
  have inv': "jump_inv g' t"
    by (rule jump_inv_emits [OF inv e])
  have size: "unat (code_size g') = unat (code_size g) + 4"
    unfolding g' emit_word_def using unat_advance [OF wf c(3)] by simp
  have word: "rd32 (generated_code g') (unat (code_size g)) = ?w"
    unfolding g' emit_word_def put_code_def by (simp add: head_addr_wf [OF wf] rd32_st32)
  have num: "ref_num t' ?l = Suc (ref_num t ?l)"
    unfolding t' by (rule ref_num_le [OF dst(3) c(2)])
  have new: "ref_addr t' ?l (ref_num t ?l) = unat (code_size g)"
    unfolding t' by (rule add_ref_other)
  obtain p q where pq: "unat ?dst = 4 * p" "unat (code_size g) = 4 * q"
    using dst(1) wf by (auto simp: wf_code_def elim!: dvdE)
  have zero: "?dst div 4 = 0 \<longleftrightarrow> ?dst = 0"
    using pq(1) by (simp add: word_unat_eq_iff unat_div)
  have target: "branch_target (unat (code_size g)) ?w = int (unat ?dst)" if "?dst \<noteq> 0"
  proof -
    have "?imm = int p - int q"
      using that zero by (simp add: sint_div4 pq)
    moreover have "p \<le> q" "q < 2 ^ 18"
      using dst(2) buf wf by (simp_all add: pq wf_code_def)
    ultimately show ?thesis
      by (subst branch_target_word) (simp_all add: pq)
  qed
  have nobits: "\<forall>j<19. \<not> bit ?w (j + 5)" if "?dst = 0"
    using that by (simp add: branch_word_bits)
  have newok: "ref_ok g' t' ?l (ref_num t ?l)"
    unfolding ref_ok_def new size word using target nobits pq by (simp add: t' add_ref_other)
  have oldok: "ref_ok g' t' m k" if "m < 512" "k < ref_num t m" for m k
  proof -
    have "ref_addr t' m k = ref_addr t m k"
      using that unfolding t' by (cases "m = ?l") (simp_all add: add_ref_other)
    moreover have "ref_ok g' t m k"
      using inv' that by (simp add: jump_inv_def)
    ultimately show ?thesis
      by (simp add: ref_ok_def t' add_ref_other)
  qed
  have nums: "k < ref_num t' m \<longleftrightarrow> k < ref_num t m \<or> m = ?l \<and> k = ref_num t ?l" for m k
    using num unfolding t' by (cases "m = ?l") (auto simp: add_ref_other)
  have addrs: "ref_addr t' m k = (if m = ?l \<and> k = ref_num t ?l then unat (code_size g) else ref_addr t m k)"
    if "k < ref_num t' m" for m k
    using that nums new unfolding t' by (cases "m = ?l") (auto simp: add_ref_other)
  have below: "ref_addr t m k < unat (code_size g)" if "m < 512" "k < ref_num t m" for m k
  proof -
    have "ref_ok g t m k"
      using inv that by (simp add: jump_inv_def)
    then show ?thesis
      by (simp add: ref_ok_def)
  qed
  have le: "ref_num t' m \<le> 511" if "m < 512" for m
    using inv that num c(2) dst(3) unfolding t' by (cases "m = ?l") (auto simp: add_ref_other jump_inv_def)
  have inj: "m = m' \<and> k = k'" if "m < 512" "m' < 512" "k < ref_num t' m" "k' < ref_num t' m'"
    "ref_addr t' m k = ref_addr t' m' k'" for m m' k k'
  proof -
    have old: "m = m' \<and> k = k'" if "k < ref_num t m" "k' < ref_num t m'" "ref_addr t m k = ref_addr t m' k'"
      using inv \<open>m < 512\<close> \<open>m' < 512\<close> that unfolding jump_inv_def by blast
    have new1: "ref_addr t m j \<noteq> unat (code_size g)" if "j < ref_num t m" for j
      using below [OF \<open>m < 512\<close> that] by simp
    have new2: "ref_addr t m' j \<noteq> unat (code_size g)" if "j < ref_num t m'" for j
      using below [OF \<open>m' < 512\<close> that] by simp
    have "k < ref_num t m \<or> m = ?l \<and> k = ref_num t ?l" "k' < ref_num t m' \<or> m' = ?l \<and> k' = ref_num t ?l"
      using that(3,4) unfolding nums by simp_all
    then show ?thesis
      using that(5) old new1 [of k] new2 [of k'] addrs [OF that(3)] addrs [OF that(4)]
      by (elim disjE) (simp_all split: if_split_asm)
  qed
  show ?thesis
    unfolding jump_inv_def
  proof (intro conjI allI impI)
    show "wf_code g'" "unat (buffer_size g') < 2 ^ 20"
      using inv' by (simp_all add: jump_inv_def)
  next
    fix m :: nat
    assume "m < 512"
    then show "4 dvd unat (jump_label_address t' m)" "unat (jump_label_address t' m) \<le> unat (code_size g')" "ref_num t' m \<le> 511"
      using inv' le by (simp_all add: jump_inv_def t' add_ref_other)
  next
    fix m k :: nat
    assume "m < 512" "k < ref_num t' m"
    then show "ref_ok g' t' m k"
      using newok oldok nums by blast
  qed (use inj in blast)+
qed

text \<open>Registering a label: the references are patched one after the other.\<close>

lemma patch_refs_other:
  "(\<And>k. k < n \<Longrightarrow> a < unat (addr k) div 4 * 4 \<or> unat (addr k) div 4 * 4 + 4 \<le> a) \<Longrightarrow>
   patch_refs code label addr n a = code a"
  by (induction n) (simp_all add: Let_def st32_other)

lemma patch_refs_word_other:
  assumes "4 dvd a" and "\<And>k. k < n \<Longrightarrow> 4 dvd unat (addr k) \<and> unat (addr k) \<noteq> a"
  shows "rd32 (patch_refs code label addr n) a = rd32 code a"
proof (rule rd32_cong)
  fix b
  assume b: "a \<le> b" "b < a + 4"
  show "patch_refs code label addr n b = code b"
  proof (rule patch_refs_other)
    fix k
    assume "k < n"
    then have d: "4 dvd unat (addr k)" "unat (addr k) \<noteq> a"
      using assms(2) by blast+
    then have "unat (addr k) + 4 \<le> a \<or> a + 4 \<le> unat (addr k)"
      using assms(1) by (auto elim!: dvdE)
    then show "b < unat (addr k) div 4 * 4 \<or> unat (addr k) div 4 * 4 + 4 \<le> b"
      using b d(1) by auto
  qed
qed

lemma patch_refs_word:
  assumes "\<And>k. k < n \<Longrightarrow> 4 dvd unat (addr k)" and "inj_on (\<lambda>k. unat (addr k)) {..<n}" and "k < n"
  shows "rd32 (patch_refs code label addr n) (unat (addr k)) =
    rd32 code (unat (addr k)) OR push_bit 5 (word_of_int (0x7ffff AND (sint label - sint (addr k)) sdiv 4))"
  using assms
proof (induction n)
  case (Suc n)
  have inj: "inj_on (\<lambda>k. unat (addr k)) {..<n}"
    using Suc.prems(2) by (simp add: lessThan_Suc)
  have al: "unat (addr n) div 4 * 4 = unat (addr n)"
    using Suc.prems(1) [of n] by simp
  have ne: "unat (addr j) \<noteq> unat (addr n)" if "j < n" for j
    using Suc.prems(2) that by (auto simp: inj_on_def)
  show ?case
  proof (cases "k = n")
    case True
    have "rd32 (patch_refs code label addr n) (unat (addr n)) = rd32 code (unat (addr n))"
      by (rule patch_refs_word_other) (use Suc.prems(1) ne in simp_all)
    then show ?thesis
      by (simp only: True patch_refs.simps Let_def al rd32_st32)
  next
    case False
    then have k: "k < n"
      using Suc.prems(3) by simp
    have "4 dvd unat (addr k)" "4 dvd unat (addr n)"
      using Suc.prems(1) k by simp_all
    then have "unat (addr k) + 4 \<le> unat (addr n) \<or> unat (addr n) + 4 \<le> unat (addr k)"
      using ne [OF k] by (auto elim!: dvdE)
    then have "rd32 (patch_refs code label addr (Suc n)) (unat (addr k)) = rd32 (patch_refs code label addr n) (unat (addr k))"
      by (simp only: patch_refs.simps Let_def al) (rule rd32_st32_other, linarith)
    then show ?thesis
      using Suc.IH [OF _ inj k] Suc.prems(1) by simp
  qed
qed simp

lemma register_jump_label_ok:
  assumes "last_error (fst (libxsmm_aarch64_instruction_register_jump_label g n t)) = 0"
  shows "last_error g = 0 \<and> jump_label_address t (unat n) = 0 \<and>
    libxsmm_aarch64_instruction_register_jump_label g n t =
      (g\<lparr>generated_code := patch_refs (generated_code g) (code_size g) (instr_addr (label_source t (unat n)))
           (ref_num t (unat n))\<rparr>,
       t\<lparr>jump_label_address := (jump_label_address t)(unat n := code_size g)\<rparr>)"
proof -
  have "\<not> arch g < LIBXSMM_AARCH64_V81" "\<not> jump_label_address t (unat n) > 0" "1 < code_type g" "last_error g = 0"
    using assms unfolding libxsmm_aarch64_instruction_register_jump_label_def
    by (simp_all only: Let_def LIBXSMM_EXIT_ERROR_def split: if_split_asm) simp_all
  then show ?thesis
    by (simp add: libxsmm_aarch64_instruction_register_jump_label_def Let_def ref_num_def word_gt_0)
qed

lemma sint_small: "unat x < 2 ^ 31 \<Longrightarrow> sint (x :: u32) = int (unat x)"
proof -
  assume "unat x < 2 ^ 31"
  then have "uint x < 2 ^ 31"
    by (metis of_nat_less_numeral_power_cancel_iff uint_nat)
  moreover have "- (2 ^ 31) \<le> uint x"
    by (rule order_trans [OF _ uint_ge_0]) simp
  ultimately have "signed_take_bit 31 (uint x) = uint x"
    by (rule signed_take_bit_int_eq_self [rotated])
  then show "sint x = int (unat x)"
    by (simp add: sint_uint)
qed

lemma jump_inv_label:
  assumes inv: "jump_inv g t"
    and ok: "last_error (fst (libxsmm_aarch64_instruction_register_jump_label g n t)) = 0"
    and res: "libxsmm_aarch64_instruction_register_jump_label g n t = (g', t')" and n: "n < 512"
  shows "jump_inv g' t'"
proof -
  let ?l = "unat n"
  let ?addr = "instr_addr (label_source t ?l)"
  let ?code = "patch_refs (generated_code g) (code_size g) ?addr (ref_num t ?l)"
  have l: "?l < 512"
    using n by (simp add: word_less_nat_alt)
  have zero: "jump_label_address t ?l = 0" and g': "g' = g\<lparr>generated_code := ?code\<rparr>"
    and t': "t' = t\<lparr>jump_label_address := (jump_label_address t)(?l := code_size g)\<rparr>"
    using register_jump_label_ok [OF ok] res by simp_all
  have wf: "wf_code g" and buf: "unat (buffer_size g) < 2 ^ 20"
    using inv by (simp_all add: jump_inv_def)
  have refs: "ref_addr t' m k = ref_addr t m k" "ref_num t' m = ref_num t m" for m k
    by (simp_all add: t' ref_addr_def ref_num_def)
  have ok_old: "ref_ok g t m k" if "m < 512" "k < ref_num t m" for m k
    using inv that by (simp add: jump_inv_def)
  have inj: "m = m' \<and> k = k'" if "m < 512" "m' < 512" "k < ref_num t m" "k' < ref_num t m'"
    "ref_addr t m k = ref_addr t m' k'" for m m' k k'
    using inv that unfolding jump_inv_def by blast
  have al: "4 dvd unat (?addr k)" if "k < ref_num t ?l" for k
    using ok_old [OF l that] by (simp add: ref_ok_def ref_addr_def)
  have injl: "inj_on (\<lambda>k. unat (?addr k)) {..<ref_num t ?l}"
    using inj [OF l l] by (auto simp: inj_on_def ref_addr_def)
  have other: "ref_ok g' t' m k" if "m < 512" "k < ref_num t m" "m \<noteq> ?l" for m k
  proof -
    have "rd32 ?code (ref_addr t m k) = rd32 (generated_code g) (ref_addr t m k)"
    proof (rule patch_refs_word_other)
      show "4 dvd ref_addr t m k"
        using ok_old [OF that(1,2)] by (simp add: ref_ok_def)
      fix j
      assume j: "j < ref_num t ?l"
      show "4 dvd unat (?addr j) \<and> unat (?addr j) \<noteq> ref_addr t m k"
        using inj [OF that(1) l that(2) j] al [OF j] that(3) by (auto simp: ref_addr_def)
    qed
    then show ?thesis
      using ok_old [OF that(1,2)] that(3) by (simp add: ref_ok_def refs g') (simp add: t')
  qed
  have patched: "ref_ok g' t' ?l k" if k: "k < ref_num t ?l" for k
  proof -
    let ?a = "ref_addr t ?l k"
    have old: "4 dvd ?a" "?a + 4 \<le> unat (code_size g)" "\<And>i. i < 19 \<Longrightarrow> \<not> bit (rd32 (generated_code g) ?a) (i + 5)"
      using ok_old [OF l k] zero by (simp_all add: ref_ok_def)
    let ?d = "(sint (code_size g) - sint (?addr k)) sdiv 4"
    let ?w = "rd32 (generated_code g) ?a OR push_bit 5 (word_of_int (0x7ffff AND ?d)) :: u32"
    have w: "rd32 ?code ?a = ?w"
      using patch_refs_word [OF al injl k] by (simp add: ref_addr_def)
    obtain p q where pq: "?a = 4 * p" "unat (code_size g) = 4 * q"
      using old(1) wf by (auto simp: wf_code_def elim!: dvdE)
    have le: "unat (code_size g) < 2 ^ 20"
      using wf buf by (simp add: wf_code_def)
    have "sint (code_size g) = int (unat (code_size g))" "sint (?addr k) = int ?a"
      unfolding ref_addr_def by (rule sint_small, use le old(2) in \<open>simp add: ref_addr_def\<close>)+
    then have s: "sint (code_size g) = int (4 * q)" "sint (?addr k) = int (4 * p)"
      unfolding pq .
    have pq_le: "p < q" "q < 2 ^ 18"
      using old(2) le by (simp_all add: pq)
    have quarter: "(4 * int m) sdiv 4 = int m" for m
      by (cases m) (simp_all add: signed_divide_int_def)
    have "?d = (4 * int (q - p)) sdiv 4"
      unfolding s using pq_le(1) by (simp add: of_nat_diff algebra_simps)
    then have d: "?d = int q - int p"
      unfolding quarter using pq_le(1) by (simp add: of_nat_diff)
    have "signed_take_bit 18 (uint (drop_bit 5 ?w)) = ?d"
    proof (rule imm19_field)
      fix i :: nat
      assume "i < 19"
      then show "bit ?w (i + 5) = bit ?d i"
        using old(3) imm19_bits [of i ?d] by (simp add: bit_or_iff)
    qed (use pq_le d in simp_all)
    then have "branch_target ?a ?w = int (unat (code_size g))"
      unfolding branch_target_def d by (simp add: pq)
    moreover have "code_size g \<noteq> 0"
      using old(2) by auto
    ultimately show ?thesis
      using old(1,2) w by (simp add: ref_ok_def refs g') (simp add: t')
  qed
  show ?thesis
    unfolding jump_inv_def
  proof (intro conjI allI impI)
    show "wf_code g'" "unat (buffer_size g') < 2 ^ 20"
      using wf buf by (simp_all add: g' wf_code_def)
  next
    fix m :: nat
    assume "m < 512"
    then show "4 dvd unat (jump_label_address t' m)" "unat (jump_label_address t' m) \<le> unat (code_size g')" "ref_num t' m \<le> 511"
      using inv wf by (auto simp: jump_inv_def t' g' ref_num_def wf_code_def)
  next
    fix m k :: nat
    assume "m < 512" "k < ref_num t' m"
    then show "ref_ok g' t' m k"
      using other patched refs(2) by (cases "m = ?l") simp_all
  qed (use inj refs in simp_all)
qed

definition run_ops :: "a64_op list \<Rightarrow> gencode \<times> libxsmm_jump_label_tracker \<Rightarrow> gencode \<times> libxsmm_jump_label_tracker" where
  "run_ops ops s = fold run_op ops s"

fun op_ok :: "a64_op \<Rightarrow> bool" where
  "op_ok (Op_label i_label_no) = (i_label_no < 512)"
| "op_ok _ = True"

lemma run_op_error:
  assumes "wf_code g" and "last_error (fst (run_op op (g, t))) = 0"
  shows "last_error g = 0"
proof (cases op)
  case (Op_call c)
  then show ?thesis
    using assms run_call_emits [OF assms(1), of c] by (simp add: emits_def)
next
  case (Op_jump i r n)
  then show ?thesis
    using assms cond_jump_to_label_bad by simp
next
  case (Op_label n)
  then show ?thesis
    using assms register_jump_label_ok by simp
qed

lemma run_op_wf: "wf_code g \<Longrightarrow> wf_code (fst (run_op op (g, t)))"
proof (cases op)
  case (Op_call c)
  then show "wf_code g \<Longrightarrow> ?thesis"
    using emits_wf [OF run_call_emits] by simp
next
  case (Op_jump i r n)
  assume w: "wf_code g"
  have "emits (Suc 0) g (fst (libxsmm_aarch64_instruction_cond_jump_to_label g i r n t))"
    using w unfolding libxsmm_aarch64_instruction_cond_jump_to_label_def
    by (simp add: Let_def emits_exit emits_error emits_word)
  then show ?thesis
    using emits_wf w Op_jump by auto
next
  case (Op_label n)
  then show "wf_code g \<Longrightarrow> ?thesis"
    unfolding libxsmm_aarch64_instruction_register_jump_label_def
    by (simp add: libxsmm_aarch64_instruction_register_jump_label_def Let_def wf_code_def LIBXSMM_EXIT_ERROR_def)
qed

lemma run_op_inv:
  assumes "jump_inv g t" and "op_ok op" and "run_op op (g, t) = (g', t')" and "last_error g' = 0"
  shows "jump_inv g' t'"
proof (cases op)
  case (Op_call c)
  have "wf_code g"
    using assms(1) by (simp add: jump_inv_def)
  then show ?thesis
    using jump_inv_emits [OF assms(1) run_call_emits, of c] assms(3) Op_call by simp
next
  case (Op_jump i r n)
  then show ?thesis
    using jump_inv_jump [OF assms(1)] assms(3,4) by (metis fst_conv run_op.simps(2))
next
  case (Op_label n)
  then show ?thesis
    using jump_inv_label [OF assms(1)] assms(2-4) by (metis fst_conv run_op.simps(3) op_ok.simps(1))
qed

lemma run_ops_inv:
  "jump_inv g t \<Longrightarrow> list_all op_ok ops \<Longrightarrow> last_error (fst (run_ops ops (g, t))) = 0 \<Longrightarrow>
   jump_inv (fst (run_ops ops (g, t))) (snd (run_ops ops (g, t)))"
proof (induction ops rule: rev_induct)
  case (snoc op ops)
  obtain g1 t1 where 1: "run_ops ops (g, t) = (g1, t1)"
    by fastforce
  have wf: "wf_code (fst (run_ops xs (g, t)))" for xs
  proof (induction xs rule: rev_induct)
    case Nil
    then show ?case using snoc.prems(1) by (simp add: run_ops_def jump_inv_def)
  next
    case (snoc x xs)
    then show ?case using run_op_wf by (metis fold_append fold_simps(1,2) o_apply prod.collapse run_ops_def)
  qed
  have step: "run_ops (ops @ [op]) (g, t) = run_op op (g1, t1)"
    using 1 by (simp add: run_ops_def)
  have "last_error g1 = 0"
    using run_op_error [of g1 op t1] wf [of ops] 1 snoc.prems(3) step by simp
  then have "jump_inv g1 t1"
    using snoc.IH snoc.prems 1 by simp
  then show ?case
    using run_op_inv [of g1 t1 op "fst (run_op op (g1, t1))" "snd (run_op op (g1, t1))"] snoc.prems(2,3) step by simp
qed (simp add: run_ops_def)

section \<open>Jumps that were made\<close>

text \<open>The operations of a run, each with the address at which it was made.\<close>

fun op_trace :: "a64_op list \<Rightarrow> gencode \<times> libxsmm_jump_label_tracker \<Rightarrow> (a64_op \<times> nat) list" where
  "op_trace [] s = []"
| "op_trace (op # ops) s = (op, unat (code_size (fst s))) # op_trace ops (run_op op s)"

lemma run_ops_snoc: "run_ops (ops @ [op]) s = run_op op (run_ops ops s)"
  by (simp add: run_ops_def)

lemma op_trace_snoc: "op_trace (ops @ [op]) s = op_trace ops s @ [(op, unat (code_size (fst (run_ops ops s))))]"
  by (induction ops arbitrary: s) (simp_all add: run_ops_def)

lemma op_trace_ops: "(op, a) \<in> set (op_trace ops s) \<Longrightarrow> op \<in> set ops"
  by (induction ops s rule: op_trace.induct) auto

text \<open>The bits of a branch outside of its target: the operation and the register that it tests.\<close>

definition branch_fixed :: "u32 \<Rightarrow> u32" where
  "branch_fixed w = 0xff00001f AND w"

lemma fixed_mask: "(0xff00001f :: u32) = push_bit 24 (mask 8) OR mask 5" "(0x7ffff :: int) = mask 19"
  by (simp_all add: mask_eq_exp_minus_1)

lemma branch_fixed_or: "branch_fixed (w OR push_bit 5 (word_of_int (0x7ffff AND x))) = branch_fixed w"
  unfolding branch_fixed_def fixed_mask by (rule word_eq_bitI) (auto simp: bit_simps)

lemma branch_fixed_word: "branch_fixed (branch_word i r imm) = branch_fixed (branch_word i r 0)"
  unfolding branch_word_def by (simp only: branch_fixed_or)

lemma branch_fixed_fields:
  assumes "branch_fixed w = branch_fixed (branch_word i r 0)"
  shows "take_bit 5 w = take_bit 5 r" "drop_bit 24 w = drop_bit 24 i OR (if bit r 5 then 0x80 else 0)"
proof -
  have f: "bit (branch_fixed v) j \<longleftrightarrow> bit v j" if "j < 5 \<or> 24 \<le> j \<and> j < 32" for v j
    unfolding branch_fixed_def fixed_mask using that by (auto simp: bit_simps)
  have b: "bit w j \<longleftrightarrow> bit (branch_word i r 0) j" if "j < 5 \<or> 24 \<le> j \<and> j < 32" for j
    using f [OF that, of w] f [OF that, of "branch_word i r 0"] unfolding assms by simp
  have low: "bit (branch_word i r 0) j \<longleftrightarrow> bit r j" if "j < 5" for j
    unfolding branch_word_def high_masks using that by (simp add: bit_simps)
  have high: "bit (branch_word i r 0) (24 + j) \<longleftrightarrow> bit i (24 + j) \<or> j = 7 \<and> bit r 5" if "j < 8" for j
  proof -
    have "bit (0x80000000 :: u32) (24 + j) \<longleftrightarrow> j = 7"
      using that by (auto simp: less_Suc_eq numeral_eq_Suc)
    then show ?thesis unfolding branch_word_def high_masks using that by (auto simp: bit_simps)
  qed
  show "take_bit 5 w = take_bit 5 r"
    by (rule word_eq_bitI) (use b low in \<open>auto simp: bit_take_bit_iff\<close>)
  have m: "bit (0x80 :: u32) j \<longleftrightarrow> j = 7" for j using bit_exp_iff [where 'a = "32 word", of 7 j] by auto
  show "drop_bit 24 w = drop_bit 24 i OR (if bit r 5 then 0x80 else 0)"
  proof (rule word_eq_bitI)
    fix j
    show "bit (drop_bit 24 w) j = bit (drop_bit 24 i OR (if bit r 5 then 0x80 else 0)) j"
    proof (cases "j < 8")
      case True
      then show ?thesis
        using b [of "24 + j"] high [OF True] m [of j] by (auto simp: bit_drop_bit_eq bit_or_iff)
    next
      case False
      then show ?thesis using m [of j] by (auto simp: bit_simps dest: bit_u32D)
    qed
  qed
qed

text \<open>What the words and the tracker hold of the operations of a trace.\<close>

definition traced :: "gencode \<Rightarrow> libxsmm_jump_label_tracker \<Rightarrow> (a64_op \<times> nat) list \<Rightarrow> bool" where
  "traced g t tr \<longleftrightarrow>
     (\<forall>i r n a. (Op_jump i r n, a) \<in> set tr \<longrightarrow>
        unat n < 512 \<and> (\<exists>k<ref_num t (unat n). ref_addr t (unat n) k = a) \<and>
        branch_fixed (rd32 (generated_code g) a) = branch_fixed (branch_word i r 0)) \<and>
     (\<forall>n a. (Op_label n, a) \<in> set tr \<longrightarrow> a \<noteq> 0 \<longrightarrow> unat (jump_label_address t (unat n)) = a) \<and>
     (\<forall>n<512. jump_label_address t (unat n) \<noteq> 0 \<longrightarrow> (\<exists>a. (Op_label n, a) \<in> set tr))"

lemma traced_jump_addr:
  assumes "jump_inv g t" and "traced g t tr" and "(Op_jump i r n, a) \<in> set tr"
  shows "4 dvd a \<and> a + 4 \<le> unat (code_size g)"
proof -
  obtain k where "unat n < 512" "k < ref_num t (unat n)" "ref_addr t (unat n) k = a"
    using assms(2,3) unfolding traced_def by blast
  then have "ref_ok g t (unat n) k" "ref_addr t (unat n) k = a" using assms(1) unfolding jump_inv_def by blast+
  then show ?thesis by (simp add: ref_ok_def)
qed

lemma traced_emits:
  assumes "jump_inv g t" and "traced g t tr" and "emits n g g'"
  shows "traced g' t tr"
proof -
  have "rd32 (generated_code g') a = rd32 (generated_code g) a" if "(Op_jump i r m, a) \<in> set tr" for i r m a
    by (rule rd32_cong) (use traced_jump_addr [OF assms(1,2) that] assms(3) in \<open>auto simp: emits_def\<close>)
  then show ?thesis using assms(2) unfolding traced_def by metis
qed

lemma traced_call: "traced g t (tr @ [(Op_call c, a)]) = traced g t tr"
  by (simp add: traced_def)

lemma traced_jump:
  assumes inv: "jump_inv g t" and tr: "traced g t tr"
    and ok: "last_error (fst (libxsmm_aarch64_instruction_cond_jump_to_label g i r n t)) = 0"
    and res: "libxsmm_aarch64_instruction_cond_jump_to_label g i r n t = (g', t')"
  shows "traced g' t' (tr @ [(Op_jump i r n, unat (code_size g))])"
proof -
  let ?l = "unat n"
  obtain imm where c: "n < 512" "ref_num t ?l \<noteq> 511" "\<not> no_space g" and g': "g' = emit_word g (branch_word i r imm)"
    and t': "t' = add_ref t ?l i (code_size g)"
    using cond_jump_to_label_ok [OF ok] res by auto
  have l: "?l < 512" using c(1) by (simp add: word_less_nat_alt)
  have wf: "wf_code g" and le: "ref_num t ?l \<le> 511" using inv l by (simp_all add: jump_inv_def)
  have word: "rd32 (generated_code g') (unat (code_size g)) = branch_word i r imm"
    unfolding g' emit_word_def put_code_def by (simp add: head_addr_wf [OF wf] rd32_st32)
  have num: "ref_num t' ?l = Suc (ref_num t ?l)" unfolding t' by (rule ref_num_le [OF le c(2)])
  have new: "ref_addr t' ?l (ref_num t ?l) = unat (code_size g)" unfolding t' by (rule add_ref_other)
  have tr': "traced g' t tr"
    by (rule traced_emits [OF inv tr, of "Suc 0"]) (unfold g' emit_word_def, rule emits_word [OF wf c(3)])
  have old: "\<exists>k<ref_num t' m. ref_addr t' m k = a" if e: "\<exists>k<ref_num t m. ref_addr t m k = a" for m a
  proof -
    obtain k where k: "k < ref_num t m" "ref_addr t m k = a" using e by blast
    show ?thesis
    proof (cases "m = ?l")
      case True
      then show ?thesis using k num add_ref_other(4) [of k t ?l i "code_size g"] t' by (intro exI [of _ k]) simp
    next
      case False
      then show ?thesis using k add_ref_other(1,2) [of ?l m t i "code_size g"] t' by (intro exI [of _ k]) simp
    qed
  qed
  have addr: "jump_label_address t' = jump_label_address t" unfolding t' by (rule add_ref_other)
  have newref: "\<exists>k<ref_num t' ?l. ref_addr t' ?l k = unat (code_size g)"
    using num new by (intro exI [of _ "ref_num t ?l"]) simp
  show ?thesis
    using tr' old newref l word branch_fixed_word [of i r imm] unfolding traced_def addr by (simp add: image_iff)
qed

lemma traced_label:
  assumes inv: "jump_inv g t" and tr: "traced g t tr" and n: "n < 512"
    and ok: "last_error (fst (libxsmm_aarch64_instruction_register_jump_label g n t)) = 0"
    and res: "libxsmm_aarch64_instruction_register_jump_label g n t = (g', t')"
  shows "traced g' t' (tr @ [(Op_label n, unat (code_size g))])"
proof -
  let ?l = "unat n"
  let ?addr = "instr_addr (label_source t ?l)"
  let ?code = "patch_refs (generated_code g) (code_size g) ?addr (ref_num t ?l)"
  have l: "?l < 512" using n by (simp add: word_less_nat_alt)
  have zero: "jump_label_address t ?l = 0" and g': "g' = g\<lparr>generated_code := ?code\<rparr>"
    and t': "t' = t\<lparr>jump_label_address := (jump_label_address t)(?l := code_size g)\<rparr>"
    using register_jump_label_ok [OF ok] res by simp_all
  have refs: "ref_addr t' m k = ref_addr t m k" "ref_num t' m = ref_num t m" for m k
    by (simp_all add: t' ref_addr_def ref_num_def)
  have ok_old: "ref_ok g t m k" if "m < 512" "k < ref_num t m" for m k
    using inv that by (simp add: jump_inv_def)
  have al: "4 dvd unat (?addr k)" if "k < ref_num t ?l" for k
    using ok_old [OF l that] by (simp add: ref_ok_def ref_addr_def)
  have injl: "inj_on (\<lambda>k. unat (?addr k)) {..<ref_num t ?l}"
    using inv l unfolding jump_inv_def inj_on_def ref_addr_def by blast
  have words: "branch_fixed (rd32 ?code a) = branch_fixed (rd32 (generated_code g) a)" if "4 dvd a" for a
  proof (cases "\<exists>k<ref_num t ?l. unat (?addr k) = a")
    case True
    then obtain k where k: "k < ref_num t ?l" "unat (?addr k) = a" by blast
    show ?thesis using patch_refs_word [OF al injl k(1)] branch_fixed_or unfolding k(2) by simp
  next
    case False
    then show ?thesis using patch_refs_word_other [OF that, of "ref_num t ?l" ?addr] al by metis
  qed
  have jumps: "unat m < 512 \<and> (\<exists>k<ref_num t' (unat m). ref_addr t' (unat m) k = a) \<and>
        branch_fixed (rd32 (generated_code g') a) = branch_fixed (branch_word i r 0)"
    if "(Op_jump i r m, a) \<in> set tr" for i r m a
  proof -
    have "4 dvd a" using traced_jump_addr [OF inv tr that] by simp
    moreover have "unat m < 512 \<and> (\<exists>k<ref_num t (unat m). ref_addr t (unat m) k = a) \<and>
        branch_fixed (rd32 (generated_code g) a) = branch_fixed (branch_word i r 0)"
      using tr that unfolding traced_def by blast
    ultimately show ?thesis using words refs g' by simp
  qed
  have labels: "unat (jump_label_address t' (unat m)) = a" if "(Op_label m, a) \<in> set tr" "a \<noteq> 0" for m a
  proof -
    have "unat (jump_label_address t (unat m)) = a" using tr that unfolding traced_def by blast
    then show ?thesis using zero that(2) by (auto simp: t')
  qed
  have made: "\<exists>a. (Op_label m, a) \<in> set (tr @ [(Op_label n, unat (code_size g))])"
    if "m < 512" "jump_label_address t' (unat m) \<noteq> 0" for m
  proof (cases "m = n")
    case False
    then have "jump_label_address t (unat m) \<noteq> 0" using that(2) by (simp add: t' word_unat_eq_iff)
    then show ?thesis using tr that(1) unfolding traced_def by auto
  qed auto
  show ?thesis
    unfolding traced_def using jumps labels made by (simp add: t')
qed

lemma run_ops_wf: "wf_code g \<Longrightarrow> wf_code (fst (run_ops ops (g, t)))"
proof (induction ops rule: rev_induct)
  case (snoc op ops)
  then show ?case using run_op_wf [of "fst (run_ops ops (g, t))" op "snd (run_ops ops (g, t))"] by (simp add: run_ops_snoc)
qed (simp add: run_ops_def)

lemma run_ops_traced:
  assumes "jump_inv g t" and "\<And>l. l < 512 \<Longrightarrow> jump_label_address t l = 0" and "list_all op_ok ops"
    and "last_error (fst (run_ops ops (g, t))) = 0"
  shows "traced (fst (run_ops ops (g, t))) (snd (run_ops ops (g, t))) (op_trace ops (g, t))"
  using assms(3,4)
proof (induction ops rule: rev_induct)
  case Nil
  have "unat n < 512" if "n < 512" for n :: u32 using that by (simp add: word_less_nat_alt)
  then show ?case using assms(2) by (simp add: run_ops_def traced_def)
next
  case (snoc op ops)
  obtain g1 t1 where 1: "run_ops ops (g, t) = (g1, t1)" by fastforce
  have wf: "wf_code g1" using run_ops_wf [of g ops t] assms(1) 1 by (simp add: jump_inv_def)
  have step: "run_ops (ops @ [op]) (g, t) = run_op op (g1, t1)" by (simp add: run_ops_snoc 1)
  have ok: "last_error (fst (run_op op (g1, t1))) = 0" using snoc.prems(2) step by simp
  have e: "last_error g1 = 0" using run_op_error [OF wf ok] .
  then have inv: "jump_inv g1 t1" and tr: "traced g1 t1 (op_trace ops (g, t))"
    using run_ops_inv [OF assms(1), of ops] snoc 1 by simp_all
  have s: "op_trace (ops @ [op]) (g, t) = op_trace ops (g, t) @ [(op, unat (code_size g1))]" by (simp add: op_trace_snoc 1)
  show ?case
  proof (cases op)
    case (Op_call c)
    then show ?thesis unfolding s step using traced_emits [OF inv tr run_call_emits, of c] wf by (simp add: traced_call)
  next
    case (Op_jump i r n)
    then show ?thesis unfolding s step using traced_jump [OF inv tr] ok by (metis prod.collapse run_op.simps(2))
  next
    case (Op_label n)
    then have "n < 512" using snoc.prems(1) by simp
    then show ?thesis unfolding s step using Op_label traced_label [OF inv tr] ok by (metis prod.collapse run_op.simps(3))
  qed
qed

text \<open>
  C8: Start with empty trackers and let a generator interleave instructions, conditional jumps to
  numbered labels and label registrations in any order. If no error was recorded, then at the address of every jump that
  the generator made, to a label registered before or after the jump, the final code has a branch of the requested
  operation on the requested register, and its target is exactly the address at which the label was registered; as long as
  the label was not registered, its target field is clear. (The buffer is less than a
  megabyte, so that every distance fits the branch; a label registered at address 0 counts as not registered.)
\<close>

theorem jumps_reach_their_labels:
  assumes "wf_code g" and "unat (buffer_size g) < 2 ^ 20" and "list_all op_ok ops"
    and "run_ops ops (g, libxsmm_reset_jump_label_tracker t) = (g', t')" and "last_error g' = 0"
    and "(Op_jump i r n, a) \<in> set (op_trace ops (g, libxsmm_reset_jump_label_tracker t))"
  shows "a + 4 \<le> unat (code_size g') \<and>
    drop_bit 24 (rd32 (generated_code g') a) = drop_bit 24 i OR (if bit r 5 then 0x80 else 0) \<and>
    take_bit 5 (rd32 (generated_code g') a) = take_bit 5 r \<and>
    (\<forall>b. (Op_label n, b) \<in> set (op_trace ops (g, libxsmm_reset_jump_label_tracker t)) \<and> b \<noteq> 0 \<longrightarrow>
      branch_target a (rd32 (generated_code g') a) = int b) \<and>
    (Op_label n \<notin> set ops \<longrightarrow> (\<forall>j<19. \<not> bit (rd32 (generated_code g') a) (j + 5)))"
proof -
  let ?t = "libxsmm_reset_jump_label_tracker t" and ?w = "rd32 (generated_code g') a"
  let ?tr = "op_trace ops (g, ?t)"
  have i0: "jump_inv g ?t"
    using assms(1,2) by (simp add: jump_inv_def libxsmm_reset_jump_label_tracker_def ref_num_def)
  have inv: "jump_inv g' t'" and tr: "traced g' t' ?tr"
    using run_ops_inv [OF i0 assms(3)] run_ops_traced [OF i0 _ assms(3)] assms(4,5)
    by (simp_all add: libxsmm_reset_jump_label_tracker_def)
  obtain k where k: "unat n < 512" "k < ref_num t' (unat n)" "ref_addr t' (unat n) k = a"
    and w: "branch_fixed ?w = branch_fixed (branch_word i r 0)"
    using tr assms(6) unfolding traced_def by blast
  have r: "ref_ok g' t' (unat n) k" using inv k(1,2) unfolding jump_inv_def by blast
  have ok: "a + 4 \<le> unat (code_size g')"
    "if jump_label_address t' (unat n) = 0 then \<forall>j<19. \<not> bit ?w (j + 5)
     else branch_target a ?w = int (unat (jump_label_address t' (unat n)))"
    using r unfolding ref_ok_def k(3) by simp_all
  have lab: "int (unat (jump_label_address t' (unat n))) = int b" if "(Op_label n, b) \<in> set ?tr" "b \<noteq> 0" for b
    using tr that unfolding traced_def by blast
  have n: "n < 512" using k(1) by (simp add: word_less_nat_alt)
  have none: "jump_label_address t' (unat n) = 0" if "Op_label n \<notin> set ops"
  proof (rule ccontr)
    assume "jump_label_address t' (unat n) \<noteq> 0"
    then obtain b where "(Op_label n, b) \<in> set ?tr" using tr n unfolding traced_def by blast
    then show False using that op_trace_ops by metis
  qed
  show ?thesis
    using ok branch_fixed_fields [OF w] lab none by (auto split: if_splits)
qed

definition jump_ops :: "a64_op list" where
  "jump_ops = [Op_call (Alu_set_imm64 32 5), Op_jump LIBXSMM_AARCH64_INSTR_GP_CBZ 32 7,
     Op_call (Alu_set_imm64 33 6), Op_label 7]"

definition empty_labels :: libxsmm_jump_label_tracker where
  "empty_labels = libxsmm_reset_jump_label_tracker \<lparr>jump_label_address = (\<lambda>_. 0), label_source = (\<lambda>_. undefined)\<rparr>"

definition jump_example :: "gencode \<times> libxsmm_jump_label_tracker" where
  "jump_example = run_ops jump_ops (fresh_stream LIBXSMM_AARCH64_V81 64, empty_labels)"

lemmas jump_example_defs = jump_example_def jump_ops_def empty_labels_def run_ops_def fresh_stream_def libxsmm_reset_jump_label_tracker_def
  libxsmm_aarch64_instruction_alu_set_imm64_def libxsmm_aarch64_instruction_alu_move_imm16_def
  libxsmm_aarch64_instruction_cond_jump_to_label_def libxsmm_aarch64_instruction_register_jump_label_def
  no_space_def put_code_def advance_code_def

lemma jump_example_facts:
  "last_error (fst jump_example) = 0" "ref_num (snd jump_example) 7 = 1" "ref_addr (snd jump_example) 7 0 = 4"
  "jump_label_address (snd jump_example) 7 = 12"
  by (simp_all add: jump_example_defs Let_def ref_num_def ref_addr_def)

lemma jump_example_trace:
  "(Op_jump LIBXSMM_AARCH64_INSTR_GP_CBZ 32 7, 4) \<in> set (op_trace jump_ops (fresh_stream LIBXSMM_AARCH64_V81 64, empty_labels))"
  "(Op_label 7, 12) \<in> set (op_trace jump_ops (fresh_stream LIBXSMM_AARCH64_V81 64, empty_labels))"
  by (simp_all add: jump_example_defs Let_def)

theorem jumps_reach_their_labels_witness:
  "branch_target 4 (rd32 (generated_code (fst jump_example)) 4) = 12"
proof -
  have w: "wf_code (fresh_stream LIBXSMM_AARCH64_V81 64)" "unat (buffer_size (fresh_stream LIBXSMM_AARCH64_V81 64)) < 2 ^ 20"
    by (simp_all add: wf_code_def fresh_stream_def)
  have r: "run_ops jump_ops (fresh_stream LIBXSMM_AARCH64_V81 64, libxsmm_reset_jump_label_tracker
      \<lparr>jump_label_address = (\<lambda>_. 0), label_source = (\<lambda>_. undefined)\<rparr>) = (fst jump_example, snd jump_example)"
    by (simp add: jump_example_def empty_labels_def)
  have o: "list_all op_ok jump_ops" by (simp add: jump_ops_def)
  show ?thesis
    using jumps_reach_their_labels [OF w o r jump_example_facts(1) jump_example_trace(1) [unfolded empty_labels_def]]
      jump_example_trace(2) [unfolded empty_labels_def] by auto
qed

section \<open>Constant data\<close>

lemma memcmp_eq_iff: "memcmp_eq p d q n \<longleftrightarrow> (\<forall>k<n. p (d + k) = q k)"
  by (auto simp: memcmp_eq_def list_all_iff)

definition data_at :: "libxsmm_const_data_tracker \<Rightarrow> nat \<Rightarrow> (nat \<Rightarrow> u8) \<Rightarrow> nat \<Rightarrow> bool" where
  "data_at d off i_data n \<longleftrightarrow>
     off + n \<le> unat (const_data_size d) \<and> (\<forall>k<n. const_data d (off + k) = i_data k)"

lemma find_data_returns:
  assumes "unat (const_data_size d) \<le> 81920" and "1 \<le> al" and "x = 0 \<or> al \<le> x" and "unat al dvd unat x"
  shows "find_data d i_data n al x = Some None \<and>
      (\<forall>off. unat x \<le> off \<and> off < unat (const_data_size d) \<and> unat al dvd off \<longrightarrow> \<not> data_at d off i_data (unat n)) \<or>
    (\<exists>off. find_data d i_data n al x = Some (Some off) \<and> unat off < unat (const_data_size d) \<and>
      data_at d (unat off) i_data (unat n) \<and> unat al dvd unat off)"
  using assms(3,4)
proof (induction "unat (const_data_size d) - unat x" arbitrary: x rule: less_induct)
  case less
  show ?case
  proof (cases "x < const_data_size d")
    case False
    then show ?thesis
      by (subst (1 2) find_data.simps) (auto simp: word_less_nat_alt)
  next
    case True
    then have lt: "unat x < unat (const_data_size d)"
      by (simp add: word_less_nat_alt)
    have sub: "unat (const_data_size d - x) = unat (const_data_size d) - unat x"
      using True by (intro unat_sub) simp
    show ?thesis
    proof (cases "n \<le> const_data_size d - x \<and> memcmp_eq (const_data d) (unat x) i_data (unat n)")
      case hit: True
      then have "find_data d i_data n al x = Some (Some x)"
        using True by (subst find_data.simps) simp
      moreover have "data_at d (unat x) i_data (unat n)"
        using hit lt sub by (auto simp: data_at_def memcmp_eq_iff word_le_nat_alt)
      ultimately show ?thesis
        using less.prems(2) lt by blast
    next
      case miss: False
      then have nx: "\<not> data_at d (unat x) i_data (unat n)"
        using lt sub by (auto simp: data_at_def memcmp_eq_iff word_le_nat_alt)
      have step: "find_data d i_data n al x = find_data d i_data n al (x + al)"
        using True miss by (subst find_data.simps) auto
      have small: "unat x + unat al < 2 ^ 32"
        using less.prems(1) lt assms(1) unat_less_width [of al] by (auto simp: word_le_nat_alt)
      then have add: "unat (x + al) = unat x + unat al"
        by (intro unat_add_small) simp
      have "unat (const_data_size d) - unat (x + al) < unat (const_data_size d) - unat x"
        using assms(2) add lt by (simp add: word_le_nat_alt)
      moreover have "x + al = 0 \<or> al \<le> x + al" "unat al dvd unat (x + al)"
        using less.prems(2) add by (simp_all add: word_le_nat_alt)
      ultimately have IH: "find_data d i_data n al (x + al) = Some None \<and>
          (\<forall>off. unat (x + al) \<le> off \<and> off < unat (const_data_size d) \<and> unat al dvd off \<longrightarrow> \<not> data_at d off i_data (unat n)) \<or>
        (\<exists>off. find_data d i_data n al (x + al) = Some (Some off) \<and> unat off < unat (const_data_size d) \<and>
          data_at d (unat off) i_data (unat n) \<and> unat al dvd unat off)"
        by (rule less.hyps)
      have "unat (x + al) \<le> off" if o: "unat x \<le> off" "unat al dvd off" "off \<noteq> unat x" for off
      proof -
        have "unat al dvd off - unat x" using o(2) less.prems(2) by (rule dvd_diff_nat)
        then have "unat al \<le> off - unat x" using o(1,3) by (intro dvd_imp_le) simp_all
        then show ?thesis using o(1) unfolding add by simp
      qed
      then show ?thesis
        using IH nx unfolding step by metis
    qed
  qed
qed

lemma round_up_le: "0 < a \<Longrightarrow> s \<le> (s + a - 1) div a * (a :: nat)"
  using div_mult_mod_eq [of "s + a - 1" a] mod_less_divisor [of a "s + a - 1"] by linarith

text \<open>The offsets at which the requested bytes are found by a search in steps of the alignment.\<close>

definition data_present :: "libxsmm_const_data_tracker \<Rightarrow> (nat \<Rightarrow> u8) \<Rightarrow> nat \<Rightarrow> nat \<Rightarrow> bool" where
  "data_present d i_data n al \<longleftrightarrow> (\<exists>off<unat (const_data_size d). al dvd off \<and> data_at d off i_data n)"

text \<open>
  C9: \<open>add_data\<close> always returns. Data that is in the tracker at a multiple of the alignment is not added again (unless
  the caller asks to append): the offset of an equal piece is returned and nothing changes. Otherwise, exactly if the size of
  the tracker, rounded up to the alignment, and the data fit into its 81920 bytes, the data is stored at the rounded size,
  which is returned, the tracker ends behind it, and everything it held stays at its place; if it does not fit, the error is
  recorded and the tracker is unchanged. (Alignments are up to two to the 31.)
\<close>

theorem add_data_stores:
  assumes "code_type g > 1" and "unat (const_data_size d) \<le> 81920" and "i_alignment \<le> 2 ^ 31"
  shows "\<exists>g' d' off. libxsmm_aarch64_instruction_add_data g i_data n i_alignment i_append_only d = Some (g', d', off) \<and>
    (let al = unat (max i_alignment 1); size = unat (const_data_size d); up = (size + al - 1) div al * al in
     if i_append_only = 0 \<and> data_present d i_data (unat n) al
     then g' = g \<and> d' = d \<and> data_at d (unat off) i_data (unat n) \<and> al dvd unat off
     else if up + unat n \<le> 81920
     then g' = g \<and> unat off = up \<and> data_at d' up i_data (unat n) \<and> unat (const_data_size d') = up + unat n \<and>
       data_at d' 0 (const_data d) size
     else g' = libxsmm_handle_error g LIBXSMM_ERR_BUFFER_TOO_SMALL \<and> d' = d)"
proof -
  let ?al = "max i_alignment 1"
  let ?up = "(unat (const_data_size d) + unat ?al - 1) div unat ?al * unat ?al"
  have al: "1 \<le> ?al" "unat ?al \<le> 2 ^ 31" "0 < unat ?al"
    using assms(3) by (auto simp: max_def word_le_nat_alt not_le)
  let ?pad = "LIBXSMM_UP (const_data_size d) ?al - const_data_size d"
  let ?app = "if unat (const_data_size d) + unat ?pad + unat n > 81920
    then Some (libxsmm_handle_error g LIBXSMM_ERR_BUFFER_TOO_SMALL, d, NOT 0)
    else Some (g, d\<lparr>const_data := memcpy (const_data d) (unat (const_data_size d) + unat ?pad) i_data (unat n),
                     const_data_size := const_data_size d + (?pad + n)\<rparr>, const_data_size d + ?pad)"
  have up: "unat (LIBXSMM_UP (const_data_size d) ?al) = ?up" "unat (const_data_size d) \<le> ?up"
    using assms(2) al round_up_le [OF al(3)] by (simp_all add: unat_up)
  have pad: "unat (const_data_size d) + unat ?pad = ?up"
    using up by (simp add: unat_sub word_le_nat_alt)
  have append: "\<exists>g' d' off. ?app = Some (g', d', off) \<and>
    (if ?up + unat n \<le> 81920
     then g' = g \<and> unat off = ?up \<and> data_at d' ?up i_data (unat n) \<and> unat (const_data_size d') = ?up + unat n \<and>
       data_at d' 0 (const_data d) (unat (const_data_size d))
     else g' = libxsmm_handle_error g LIBXSMM_ERR_BUFFER_TOO_SMALL \<and> d' = d)"
  proof (cases "?up + unat n \<le> 81920")
    case True
    have off: "unat (const_data_size d + ?pad) = ?up" using up(1) by simp
    obtain p u where pu: "?pad = p" "?up = u" by blast
    note f = True [unfolded pu] off [unfolded pu] up(2) [unfolded pu] pad [unfolded pu]
    have "unat (p + n) = unat p + unat n"
      using f by (intro unat_add_small) simp
    then have "unat (const_data_size d + (p + n)) = u + unat n"
      using f by (subst unat_add_small) simp_all
    then show ?thesis
      unfolding pu using f by (simp add: data_at_def memcpy_def)
  next
    case False
    then show ?thesis using pad by simp
  qed
  show ?thesis
  proof (cases "i_append_only = 0")
    case True
    have "find_data d i_data n ?al 0 = Some None \<and> \<not> data_present d i_data (unat n) (unat ?al) \<or>
      (\<exists>off. find_data d i_data n ?al 0 = Some (Some off) \<and> data_present d i_data (unat n) (unat ?al) \<and>
        data_at d (unat off) i_data (unat n) \<and> unat ?al dvd unat off)"
      using find_data_returns [OF assms(2) al(1), of 0 i_data n] unfolding data_present_def by auto
    then consider "find_data d i_data n ?al 0 = Some None" "\<not> data_present d i_data (unat n) (unat ?al)"
      | off where "find_data d i_data n ?al 0 = Some (Some off)" "data_present d i_data (unat n) (unat ?al)"
          "data_at d (unat off) i_data (unat n)" "unat ?al dvd unat off"
      by blast
    then show ?thesis
    proof cases
      case 1
      have "libxsmm_aarch64_instruction_add_data g i_data n i_alignment i_append_only d = ?app"
        using 1(1) True assms(1) by (simp add: libxsmm_aarch64_instruction_add_data_def Let_def)
      then show ?thesis
        using append 1(2) unfolding Let_def by (simp only: simp_thms if_False)
    next
      case 2
      then show ?thesis
        using assms(1) True by (simp add: libxsmm_aarch64_instruction_add_data_def Let_def)
    qed
  next
    case False
    have "libxsmm_aarch64_instruction_add_data g i_data n i_alignment i_append_only d = ?app"
      using False assms(1) by (simp add: libxsmm_aarch64_instruction_add_data_def Let_def)
    then show ?thesis
      using append False unfolding Let_def by (simp only: simp_thms if_False)
  qed
qed

theorem add_data_stores_witness:
  "\<exists>g' d'. libxsmm_aarch64_instruction_add_data (fresh_stream LIBXSMM_AARCH64_V81 64) (\<lambda>_. 9) 5 8 1
     \<lparr>const_data = (\<lambda>_. 7), const_data_size = 3, const_data_pc_load_insns = (\<lambda>_. 0), const_data_nload_insns = 0\<rparr>
       = Some (g', d', 8) \<and> last_error g' = 0 \<and> data_at d' 8 (\<lambda>_. 9) 5 \<and> data_at d' 0 (\<lambda>_. 7) 3"
proof -
  let ?d = "\<lparr>const_data = (\<lambda>_. 7), const_data_size = 3, const_data_pc_load_insns = (\<lambda>_. 0), const_data_nload_insns = 0\<rparr>"
  have "max (8 :: u32) 1 = 8" by (simp add: max_def word_le_nat_alt)
  then obtain g' d' off where r: "libxsmm_aarch64_instruction_add_data (fresh_stream LIBXSMM_AARCH64_V81 64) (\<lambda>_. 9) 5 8 1 ?d = Some (g', d', off)"
    "g' = fresh_stream LIBXSMM_AARCH64_V81 64" "unat off = 8" "data_at d' 8 (\<lambda>_. 9) 5" "data_at d' 0 (\<lambda>_. 7) 3"
    using add_data_stores [of "fresh_stream LIBXSMM_AARCH64_V81 64" ?d 8 "\<lambda>_. 9" 5 1]
    by (auto simp: fresh_stream_def Let_def)
  have "unat off = unat (8 :: u32)" using r(3) by simp
  then have "off = 8" by (simp only: word_unat_eq_iff)
  then show ?thesis using r by (simp add: fresh_stream_def)
qed

text \<open>Placing the data behind the code: the noted loads become \<open>ADR\<close> instructions.\<close>

definition adr_target :: "nat \<Rightarrow> u32 \<Rightarrow> int" where
  "adr_target pc w = int pc + signed_take_bit 20 (uint (push_bit 2 (take_bit 19 (drop_bit 5 w)) OR take_bit 2 (drop_bit 29 w)))"

definition adr_word :: "u32 \<Rightarrow> u32 \<Rightarrow> u32" where
  "adr_word l_gp l_pc_off = (push_bit 28 0x1 OR (0x1f AND l_gp))
     OR (push_bit 3 (0x1ffffc AND l_pc_off) OR push_bit 29 (0x3 AND l_pc_off))"

lemma adr_word_fields:
  assumes "unat off < 2 ^ 20"
  shows "adr_target pc (adr_word r off) = int (pc + unat off)" and "take_bit 5 (adr_word r off) = take_bit 5 r"
proof -
  have masks: "(0x1ffffc :: u32) = push_bit 2 (mask 19)" "(0x3 :: u32) = mask 2" "(0x1f :: u32) = mask 5" "(0x1 :: u32) = mask 1"
    by (simp_all add: mask_eq_exp_minus_1)
  have n: "\<And>i. 20 \<le> i \<Longrightarrow> bit off i \<longleftrightarrow> False"
    by (rule bit_smallN [OF assms])
  have "push_bit 2 (take_bit 19 (drop_bit 5 (adr_word r off))) OR take_bit 2 (drop_bit 29 (adr_word r off)) = off"
  proof (rule word_eq_bitI)
    fix i
    assume i: "i < LENGTH(32)"
    then consider "i < 2" | "2 \<le> i" "i < 20" | "20 \<le> i"
      by linarith
    then show "bit (push_bit 2 (take_bit 19 (drop_bit 5 (adr_word r off))) OR take_bit 2 (drop_bit 29 (adr_word r off))) i = bit off i"
      unfolding adr_word_def masks using i n by cases (auto simp: bit_simps)
  qed
  moreover have "signed_take_bit 20 (uint off) = uint off"
  proof (rule signed_take_bit_int_eq_self)
    show "- (2 ^ 20) \<le> uint off"
      by (rule order_trans [OF _ uint_ge_0]) simp
    show "uint off < 2 ^ 20"
      using assms by (metis of_nat_less_numeral_power_cancel_iff uint_nat)
  qed
  ultimately show "adr_target pc (adr_word r off) = int (pc + unat off)"
    by (simp add: adr_target_def)
  show "take_bit 5 (adr_word r off) = take_bit 5 r"
    unfolding adr_word_def masks by (rule word_eq_bitI) (auto simp: bit_simps)
qed

lemma fix_adrs_other:
  "(\<And>k. k < n \<Longrightarrow> a < unat (insns k) \<or> unat (insns k) + 4 \<le> a) \<Longrightarrow> fix_adrs code base insns n a = code a"
  by (induction n) (simp_all add: Let_def st32_other)

lemma fix_adrs_word:
  assumes "\<And>j. j < n \<Longrightarrow> 4 dvd unat (insns j)" and "inj_on (\<lambda>j. unat (insns j)) {..<n}" and "k < n"
  shows "rd32 (fix_adrs code base insns n) (unat (insns k)) =
    adr_word (drop_bit 27 (rd32 code (unat (insns k))))
      (base - insns k + (0x1fffff AND rd32 code (unat (insns k))))"
  using assms
proof (induction n)
  case (Suc n)
  have inj: "inj_on (\<lambda>j. unat (insns j)) {..<n}"
    using Suc.prems(2) by (simp add: lessThan_Suc)
  have apart: "unat (insns j) + 4 \<le> unat (insns n) \<or> unat (insns n) + 4 \<le> unat (insns j)" if "j < n" for j
  proof -
    have "unat (insns j) \<noteq> unat (insns n)"
      using Suc.prems(2) that by (auto simp: inj_on_def)
    moreover have "4 dvd unat (insns j)" "4 dvd unat (insns n)"
      using Suc.prems(1) that by simp_all
    ultimately show ?thesis
      by (auto elim!: dvdE)
  qed
  show ?case
  proof (cases "k = n")
    case True
    have "rd32 (fix_adrs code base insns n) (unat (insns n)) = rd32 code (unat (insns n))"
    proof (rule rd32_cong, rule fix_adrs_other)
      fix b j
      assume "unat (insns n) \<le> b" "b < unat (insns n) + 4" "j < n"
      then show "b < unat (insns j) \<or> unat (insns j) + 4 \<le> b"
        using apart [of j] by linarith
    qed
    then show ?thesis
      by (simp only: True fix_adrs.simps Let_def rd32_st32 adr_word_def)
  next
    case False
    then have k: "k < n"
      using Suc.prems(3) by simp
    have "rd32 (fix_adrs code base insns (Suc n)) (unat (insns k)) = rd32 (fix_adrs code base insns n) (unat (insns k))"
      by (simp only: fix_adrs.simps Let_def) (rule rd32_st32_other, use apart [OF k] in linarith)
    then show ?thesis
      using Suc.IH [OF _ inj k] Suc.prems(1) by simp
  qed
qed simp

text \<open>The loads noted in the tracker are distinct words of the code.\<close>

definition loads_ok :: "gencode \<Rightarrow> libxsmm_const_data_tracker \<Rightarrow> bool" where
  "loads_ok g d \<longleftrightarrow>
     (\<forall>k<unat (const_data_nload_insns d). 4 dvd unat (const_data_pc_load_insns d k) \<and>
        unat (const_data_pc_load_insns d k) + 4 \<le> unat (code_size g)) \<and>
     inj_on (\<lambda>k. unat (const_data_pc_load_insns d k)) {..<unat (const_data_nload_insns d)}"

text \<open>
  C10: \<open>close_data\<close> copies the constant data behind the code, at the next page boundary and inside the buffer,
  and turns every placeholder that \<open>adr_data\<close> left into an \<open>ADR\<close> instruction for the same register whose
  target is the address of the requested byte of the data (for buffers below a megabyte); it changes no other byte of
  the code.
\<close>

theorem close_data_links:
  assumes "wf_code g" and "loads_ok g d" and "0 < const_data_size d" and "unat (buffer_size g) < 2 ^ 20"
    and "0 < page" and "unat page \<le> 2 ^ 16" and "libxsmm_aarch64_instruction_close_data page g d = g'"
    and "last_error g = 0" and "last_error g' = 0" and "unat (const_data_size d) \<le> 81920"
  shows "let base = unat (LIBXSMM_UP (code_size g) page)
    in unat (code_size g) \<le> base \<and> base + unat (const_data_size d) \<le> unat (buffer_size g) \<and>
       (\<forall>j<unat (const_data_size d). generated_code g' (base + j) = const_data d j) \<and>
       (\<forall>a<unat (code_size g). (\<forall>k<unat (const_data_nload_insns d). a < unat (const_data_pc_load_insns d k)
            \<or> unat (const_data_pc_load_insns d k) + 4 \<le> a) \<longrightarrow> generated_code g' a = generated_code g a) \<and>
       (\<forall>k<unat (const_data_nload_insns d).
          let pc = unat (const_data_pc_load_insns d k); w = rd32 (generated_code g) pc;
              w' = rd32 (generated_code g') pc; off = unat (0x1fffff AND w)
          in take_bit 5 w' = drop_bit 27 w \<and>
             (off < unat (const_data_size d) \<longrightarrow> adr_target pc w' = int (base + off)))"
proof -
  let ?c = "unat (code_size g)" and ?n = "unat (const_data_nload_insns d)" and ?s = "unat (const_data_size d)"
  let ?up = "LIBXSMM_UP (code_size g) page" and ?ins = "const_data_pc_load_insns d"
  let ?base = "unat ?up"
  let ?mem = "memcpy (generated_code g) ?base (const_data d) ?s"
  have pg: "0 < unat page"
    using assms(5) by (simp add: word_less_nat_alt)
  have c: "?c < 2 ^ 20"
    using assms(1,4) by (simp add: wf_code_def)
  have up: "?base = (?c + (unat page - 1)) div unat page * unat page"
    by (rule unat_up) (use c assms(6) pg in simp_all)
  have "(?c + (unat page - 1)) div unat page * unat page + (?c + (unat page - 1)) mod unat page = ?c + (unat page - 1)"
    by (rule div_mult_mod_eq)
  moreover have "(?c + (unat page - 1)) mod unat page < unat page"
    using pg by simp
  ultimately have base: "?c \<le> ?base" "?base \<le> ?c + unat page"
    using pg unfolding up by linarith+
  have sum: "unat (const_data_size d + ?up) = ?s + ?base"
    by (rule unat_add_small) (use base c assms(6,10) in simp)
  have fits: "\<not> buffer_size g < const_data_size d + ?up"
  proof
    assume "buffer_size g < const_data_size d + ?up"
    then have "last_error g' \<noteq> 0"
      using assms(3,7) by (auto simp: libxsmm_aarch64_instruction_close_data_def Let_def)
    then show False
      using assms(9) by simp
  qed
  then have room: "?base + ?s \<le> unat (buffer_size g)"
    using sum by (simp add: word_less_nat_alt)
  have code: "generated_code g' = fix_adrs ?mem ?up ?ins ?n"
    using assms(3,7) fits by (auto simp: libxsmm_aarch64_instruction_close_data_def Let_def)
  have ins: "4 dvd unat (?ins k)" "unat (?ins k) + 4 \<le> ?c" if "k < ?n" for k
    using assms(2) that by (simp_all add: loads_ok_def)
  have inj: "inj_on (\<lambda>k. unat (?ins k)) {..<?n}"
    using assms(2) by (simp add: loads_ok_def)
  have low: "?mem a = generated_code g a" if "a < ?c" for a
    using that base(1) by (simp add: memcpy_def)
  have data: "generated_code g' (?base + j) = const_data d j" if "j < ?s" for j
  proof -
    have "fix_adrs ?mem ?up ?ins ?n (?base + j) = ?mem (?base + j)"
      by (rule fix_adrs_other) (use ins(2) base(1) in fastforce)
    then show ?thesis
      using that by (simp add: code memcpy_def)
  qed
  have kept: "generated_code g' a = generated_code g a"
    if "a < ?c" "\<forall>k<?n. a < unat (?ins k) \<or> unat (?ins k) + 4 \<le> a" for a
    unfolding code using that low by (subst fix_adrs_other) auto
  have link: "take_bit 5 (rd32 (generated_code g') (unat (?ins k))) = drop_bit 27 (rd32 (generated_code g) (unat (?ins k)))
      \<and> (unat (0x1fffff AND rd32 (generated_code g) (unat (?ins k))) < ?s \<longrightarrow>
         adr_target (unat (?ins k)) (rd32 (generated_code g') (unat (?ins k))) =
         int (?base + unat (0x1fffff AND rd32 (generated_code g) (unat (?ins k)))))" if k: "k < ?n" for k
  proof -
    let ?w = "rd32 (generated_code g) (unat (?ins k))"
    let ?off = "0x1fffff AND ?w"
    have old: "rd32 ?mem (unat (?ins k)) = ?w"
      by (rule rd32_cong) (use ins(2) [OF k] low in simp)
    have new: "rd32 (generated_code g') (unat (?ins k)) = adr_word (drop_bit 27 ?w) (?up - ?ins k + ?off)"
      unfolding code using fix_adrs_word [OF ins(1) inj k] old by simp
    have le: "?ins k \<le> ?up"
      using ins(2) [OF k] base(1) by (simp add: word_le_nat_alt)
    have gp: "take_bit 5 (drop_bit 27 ?w) = drop_bit 27 ?w"
      by (rule word_eq_bitI) (auto simp: bit_simps dest: bit_u32D)
    have "take_bit 5 (adr_word r x) = take_bit 5 r" for r x
    proof -
      have masks: "(0x1ffffc :: u32) = push_bit 2 (mask 19)" "(0x3 :: u32) = mask 2" "(0x1f :: u32) = mask 5" "(0x1 :: u32) = mask 1"
        by (simp_all add: mask_eq_exp_minus_1)
      show ?thesis
        unfolding adr_word_def masks by (rule word_eq_bitI) (auto simp: bit_simps)
    qed
    moreover have "adr_target (unat (?ins k)) (adr_word (drop_bit 27 ?w) (?up - ?ins k + ?off)) = int (?base + unat ?off)"
      if o: "unat ?off < ?s"
    proof -
      have "unat (?up - ?ins k) = ?base - unat (?ins k)"
        by (rule unat_sub [OF le])
      then have u: "unat (?up - ?ins k + ?off) = ?base - unat (?ins k) + unat ?off"
        using o room assms(4) by (subst unat_add_small) simp_all
      then have "unat (?up - ?ins k + ?off) < 2 ^ 20"
        using o room assms(4) by simp
      from adr_word_fields(1) [OF this] show ?thesis
        using u le by (simp add: word_le_nat_alt)
    qed
    ultimately show ?thesis
      unfolding new by (simp add: gp)
  qed
  show ?thesis
    unfolding Let_def using base(1) room data kept link by blast
qed


theorem close_data_links_witness:
  "let d = \<lparr>const_data = (\<lambda>_. 9), const_data_size = 5, const_data_pc_load_insns = (\<lambda>_. 0), const_data_nload_insns = 0\<rparr>;
       (g1, d1) = libxsmm_aarch64_instruction_adr_data (fresh_stream LIBXSMM_AARCH64_V81 8192) 3 2 d
   in adr_target 0 (rd32 (generated_code (libxsmm_aarch64_instruction_close_data 4096 g1 d1)) 0) = 4098"
proof -
  let ?g = "\<lparr>generated_code = st32 (\<lambda>_. 0) 0 0x18000002, buffer_size = 8192, code_size = 4, code_type = 2,
    data_size = 0, last_error = 0, arch = LIBXSMM_AARCH64_V81\<rparr>"
  let ?d = "\<lparr>const_data = (\<lambda>_. 9), const_data_size = 5, const_data_pc_load_insns = (\<lambda>_. 0)(0 := 0), const_data_nload_insns = 1\<rparr>"
  have "wf_code ?g" "loads_ok ?g ?d" "last_error (libxsmm_aarch64_instruction_close_data 4096 ?g ?d) = 0"
    by (simp_all add: wf_code_def loads_ok_def libxsmm_aarch64_instruction_close_data_def LIBXSMM_UP_def Let_def inj_on_def)
  from close_data_links [OF this(1,2) _ _ _ _ refl _ this(3)]
  have "adr_target 0 (rd32 (generated_code (libxsmm_aarch64_instruction_close_data 4096 ?g ?d)) 0) = 4098"
    by (simp add: Let_def LIBXSMM_UP_def rd32_st32)
  then show ?thesis
    by (simp add: libxsmm_aarch64_instruction_adr_data_def fresh_stream_def put_code_def head_addr_def advance_code_def)
qed

text \<open>
  The space test of \<open>adr_data\<close> is not the one of the other instructions: with a full buffer it still stores
  four bytes, behind the end of the buffer.
\<close>

lemma adr_data_overruns:
  "\<exists>g d. wf_code g \<and> libxsmm_aarch64_instruction_adr_data g 3 2 d \<noteq> (g, d) \<and>
     (\<exists>a. unat (buffer_size g) \<le> a \<and>
          generated_code (fst (libxsmm_aarch64_instruction_adr_data g 3 2 d)) a \<noteq> generated_code g a)"
proof (intro exI conjI)
  let ?g = "\<lparr>generated_code = (\<lambda>_. 0), buffer_size = 8, code_size = 8, code_type = 2,
    data_size = 0, last_error = 0, arch = LIBXSMM_AARCH64_V81\<rparr>"
  let ?d = "\<lparr>const_data = (\<lambda>_. 9), const_data_size = 5, const_data_pc_load_insns = (\<lambda>_. 0), const_data_nload_insns = 0\<rparr>"
  show "wf_code ?g"
    by (simp add: wf_code_def)
  show "unat (buffer_size ?g) \<le> 8"
    by simp
  show "generated_code (fst (libxsmm_aarch64_instruction_adr_data ?g 3 2 ?d)) 8 \<noteq> generated_code ?g 8"
    by (simp add: libxsmm_aarch64_instruction_adr_data_def put_code_def head_addr_def advance_code_def st32_def)
  show "libxsmm_aarch64_instruction_adr_data ?g 3 2 ?d \<noteq> (?g, ?d)"
    by (simp add: libxsmm_aarch64_instruction_adr_data_def)
qed

end
