(* ===== verification/X86_Defs.thy ===== *)
theory X86_Defs
  imports Gencode
begin

text \<open>
  The constants of \<open>src/generator_common.h\<close> that the x86 encoder uses: registers, errors, and the instruction
  numbers. An instruction number packs, from the highest bits down: the encoding (11 EVEX, 10 REX, 01 VEX, 00 VEX or
  EVEX), the number of operands, the flags 27 to 24 (operands swapped; an op-code extension in the ModRM byte; vector
  index or forced REX; register in the op-code), W, the op-code extension, the flag of an immediate, a set bit, the
  prefix, the operand-size flag, the map, the shape of the compressed displacement, and the op-code.
\<close>

section \<open>Errors and registers\<close>

abbreviation (input) LIBXSMM_ERR_UNSUPPORTED_JUMP :: u32 where "LIBXSMM_ERR_UNSUPPORTED_JUMP \<equiv> 90023"
abbreviation (input) LIBXSMM_ERR_NO_JMPLBL_AVAIL :: u32 where "LIBXSMM_ERR_NO_JMPLBL_AVAIL \<equiv> 90024"
abbreviation (input) LIBXSMM_ERR_ILLEGAL_REGNUM :: u32 where "LIBXSMM_ERR_ILLEGAL_REGNUM \<equiv> 90052"
abbreviation (input) LIBXSMM_X86_GP_REG_RAX :: u32 where "LIBXSMM_X86_GP_REG_RAX \<equiv> 0"
abbreviation (input) LIBXSMM_X86_GP_REG_RCX :: u32 where "LIBXSMM_X86_GP_REG_RCX \<equiv> 1"
abbreviation (input) LIBXSMM_X86_GP_REG_RDX :: u32 where "LIBXSMM_X86_GP_REG_RDX \<equiv> 2"
abbreviation (input) LIBXSMM_X86_GP_REG_RBX :: u32 where "LIBXSMM_X86_GP_REG_RBX \<equiv> 3"
abbreviation (input) LIBXSMM_X86_GP_REG_RSP :: u32 where "LIBXSMM_X86_GP_REG_RSP \<equiv> 4"
abbreviation (input) LIBXSMM_X86_GP_REG_RBP :: u32 where "LIBXSMM_X86_GP_REG_RBP \<equiv> 5"
abbreviation (input) LIBXSMM_X86_GP_REG_RSI :: u32 where "LIBXSMM_X86_GP_REG_RSI \<equiv> 6"
abbreviation (input) LIBXSMM_X86_GP_REG_RDI :: u32 where "LIBXSMM_X86_GP_REG_RDI \<equiv> 7"
abbreviation (input) LIBXSMM_X86_GP_REG_R8 :: u32 where "LIBXSMM_X86_GP_REG_R8 \<equiv> 8"
abbreviation (input) LIBXSMM_X86_GP_REG_R9 :: u32 where "LIBXSMM_X86_GP_REG_R9 \<equiv> 9"
abbreviation (input) LIBXSMM_X86_GP_REG_R10 :: u32 where "LIBXSMM_X86_GP_REG_R10 \<equiv> 10"
abbreviation (input) LIBXSMM_X86_GP_REG_R11 :: u32 where "LIBXSMM_X86_GP_REG_R11 \<equiv> 11"
abbreviation (input) LIBXSMM_X86_GP_REG_R12 :: u32 where "LIBXSMM_X86_GP_REG_R12 \<equiv> 12"
abbreviation (input) LIBXSMM_X86_GP_REG_R13 :: u32 where "LIBXSMM_X86_GP_REG_R13 \<equiv> 13"
abbreviation (input) LIBXSMM_X86_GP_REG_R14 :: u32 where "LIBXSMM_X86_GP_REG_R14 \<equiv> 14"
abbreviation (input) LIBXSMM_X86_GP_REG_R15 :: u32 where "LIBXSMM_X86_GP_REG_R15 \<equiv> 15"
abbreviation (input) LIBXSMM_X86_GP_REG_UNDEF :: u32 where "LIBXSMM_X86_GP_REG_UNDEF \<equiv> 127"
abbreviation (input) LIBXSMM_X86_VEC_REG_UNDEF :: u32 where "LIBXSMM_X86_VEC_REG_UNDEF \<equiv> 255"
abbreviation (input) LIBXSMM_X86_IMM_UNDEF :: u32 where "LIBXSMM_X86_IMM_UNDEF \<equiv> 1024"

text \<open>The names of the vector registers; the enumerator is the length of the vector, 0 for 128 bits.\<close>

datatype libxsmm_x86_simd_name = LIBXSMM_X86_SIMD_NAME_XMM | LIBXSMM_X86_SIMD_NAME_YMM | LIBXSMM_X86_SIMD_NAME_ZMM

fun libxsmm_x86_simd_name_val :: "libxsmm_x86_simd_name \<Rightarrow> u32" where
  "libxsmm_x86_simd_name_val LIBXSMM_X86_SIMD_NAME_XMM = 0"
| "libxsmm_x86_simd_name_val LIBXSMM_X86_SIMD_NAME_YMM = 1"
| "libxsmm_x86_simd_name_val LIBXSMM_X86_SIMD_NAME_ZMM = 2"

section \<open>Instruction numbers\<close>

abbreviation (input) LIBXSMM_X86_INSTR_VSHUFPS :: u32 where "LIBXSMM_X86_INSTR_VSHUFPS \<equiv> 0x300c16c6"
abbreviation (input) LIBXSMM_X86_INSTR_VSHUFPD :: u32 where "LIBXSMM_X86_INSTR_VSHUFPD \<equiv> 0x308d16c6"
abbreviation (input) LIBXSMM_X86_INSTR_VPSHUFB :: u32 where "LIBXSMM_X86_INSTR_VPSHUFB \<equiv> 0x30052600"
abbreviation (input) LIBXSMM_X86_INSTR_VPSHUFD :: u32 where "LIBXSMM_X86_INSTR_VPSHUFD \<equiv> 0x200d1670"
abbreviation (input) LIBXSMM_X86_INSTR_VPSHUFHW :: u32 where "LIBXSMM_X86_INSTR_VPSHUFHW \<equiv> 0x200e1670"
abbreviation (input) LIBXSMM_X86_INSTR_VPSHUFLW :: u32 where "LIBXSMM_X86_INSTR_VPSHUFLW \<equiv> 0x200f1670"
abbreviation (input) LIBXSMM_X86_INSTR_VUNPCKLPD :: u32 where "LIBXSMM_X86_INSTR_VUNPCKLPD \<equiv> 0x30851614"
abbreviation (input) LIBXSMM_X86_INSTR_VUNPCKLPS :: u32 where "LIBXSMM_X86_INSTR_VUNPCKLPS \<equiv> 0x30041614"
abbreviation (input) LIBXSMM_X86_INSTR_VUNPCKHPD :: u32 where "LIBXSMM_X86_INSTR_VUNPCKHPD \<equiv> 0x30851615"
abbreviation (input) LIBXSMM_X86_INSTR_VUNPCKHPS :: u32 where "LIBXSMM_X86_INSTR_VUNPCKHPS \<equiv> 0x30041615"
abbreviation (input) LIBXSMM_X86_INSTR_VPUNPCKLBW :: u32 where "LIBXSMM_X86_INSTR_VPUNPCKLBW \<equiv> 0x30051660"
abbreviation (input) LIBXSMM_X86_INSTR_VPUNPCKHBW :: u32 where "LIBXSMM_X86_INSTR_VPUNPCKHBW \<equiv> 0x30051668"
abbreviation (input) LIBXSMM_X86_INSTR_VPUNPCKLWD :: u32 where "LIBXSMM_X86_INSTR_VPUNPCKLWD \<equiv> 0x30051661"
abbreviation (input) LIBXSMM_X86_INSTR_VPUNPCKHWD :: u32 where "LIBXSMM_X86_INSTR_VPUNPCKHWD \<equiv> 0x30051669"
abbreviation (input) LIBXSMM_X86_INSTR_VPUNPCKLDQ :: u32 where "LIBXSMM_X86_INSTR_VPUNPCKLDQ \<equiv> 0x30051662"
abbreviation (input) LIBXSMM_X86_INSTR_VPUNPCKHDQ :: u32 where "LIBXSMM_X86_INSTR_VPUNPCKHDQ \<equiv> 0x3005166a"
abbreviation (input) LIBXSMM_X86_INSTR_VPUNPCKLQDQ :: u32 where "LIBXSMM_X86_INSTR_VPUNPCKLQDQ \<equiv> 0x3085166c"
abbreviation (input) LIBXSMM_X86_INSTR_VPUNPCKHQDQ :: u32 where "LIBXSMM_X86_INSTR_VPUNPCKHQDQ \<equiv> 0x3085166d"
abbreviation (input) LIBXSMM_X86_INSTR_VEXTRACTF128 :: u32 where "LIBXSMM_X86_INSTR_VEXTRACTF128 \<equiv> 0x680d3019"
abbreviation (input) LIBXSMM_X86_INSTR_VEXTRACTI128 :: u32 where "LIBXSMM_X86_INSTR_VEXTRACTI128 \<equiv> 0x680d3039"
abbreviation (input) LIBXSMM_X86_INSTR_VPERMB :: u32 where "LIBXSMM_X86_INSTR_VPERMB \<equiv> 0xf005268d"
abbreviation (input) LIBXSMM_X86_INSTR_VPERMW :: u32 where "LIBXSMM_X86_INSTR_VPERMW \<equiv> 0xf085268d"
abbreviation (input) LIBXSMM_X86_INSTR_VPERMD :: u32 where "LIBXSMM_X86_INSTR_VPERMD \<equiv> 0x30052636"
abbreviation (input) LIBXSMM_X86_INSTR_VPERMQ_I :: u32 where "LIBXSMM_X86_INSTR_VPERMQ_I \<equiv> 0x208d3e00"
abbreviation (input) LIBXSMM_X86_INSTR_VPERMPD :: u32 where "LIBXSMM_X86_INSTR_VPERMPD \<equiv> 0xf0852616"
abbreviation (input) LIBXSMM_X86_INSTR_VPERMPS :: u32 where "LIBXSMM_X86_INSTR_VPERMPS \<equiv> 0x30052516"
abbreviation (input) LIBXSMM_X86_INSTR_VPERMPD_I :: u32 where "LIBXSMM_X86_INSTR_VPERMPD_I \<equiv> 0x208d3601"
abbreviation (input) LIBXSMM_X86_INSTR_VPERMILPS :: u32 where "LIBXSMM_X86_INSTR_VPERMILPS \<equiv> 0x3005250c"
abbreviation (input) LIBXSMM_X86_INSTR_VPERMILPS_I :: u32 where "LIBXSMM_X86_INSTR_VPERMILPS_I \<equiv> 0x200d3504"
abbreviation (input) LIBXSMM_X86_INSTR_VPERM2F128 :: u32 where "LIBXSMM_X86_INSTR_VPERM2F128 \<equiv> 0x700d3006"
abbreviation (input) LIBXSMM_X86_INSTR_VPERM2I128 :: u32 where "LIBXSMM_X86_INSTR_VPERM2I128 \<equiv> 0x700d3046"
abbreviation (input) LIBXSMM_X86_INSTR_VPERMILPD_VEX :: u32 where "LIBXSMM_X86_INSTR_VPERMILPD_VEX \<equiv> 0x7005200d"
abbreviation (input) LIBXSMM_X86_INSTR_VPERMILPD_VEX_I :: u32 where "LIBXSMM_X86_INSTR_VPERMILPD_VEX_I \<equiv> 0x600d3005"
abbreviation (input) LIBXSMM_X86_INSTR_VPERMILPD :: u32 where "LIBXSMM_X86_INSTR_VPERMILPD \<equiv> 0xf085260d"
abbreviation (input) LIBXSMM_X86_INSTR_VPERMILPD_I :: u32 where "LIBXSMM_X86_INSTR_VPERMILPD_I \<equiv> 0xe08d3605"
abbreviation (input) LIBXSMM_X86_INSTR_VPERMT2B :: u32 where "LIBXSMM_X86_INSTR_VPERMT2B \<equiv> 0xf005267d"
abbreviation (input) LIBXSMM_X86_INSTR_VPERMT2W :: u32 where "LIBXSMM_X86_INSTR_VPERMT2W \<equiv> 0xf085267d"
abbreviation (input) LIBXSMM_X86_INSTR_VPERMT2D :: u32 where "LIBXSMM_X86_INSTR_VPERMT2D \<equiv> 0xf005267e"
abbreviation (input) LIBXSMM_X86_INSTR_VPERMT2Q :: u32 where "LIBXSMM_X86_INSTR_VPERMT2Q \<equiv> 0xf085267e"
abbreviation (input) LIBXSMM_X86_INSTR_VPERMT2PS :: u32 where "LIBXSMM_X86_INSTR_VPERMT2PS \<equiv> 0xf005267f"
abbreviation (input) LIBXSMM_X86_INSTR_VPERMT2PD :: u32 where "LIBXSMM_X86_INSTR_VPERMT2PD \<equiv> 0xf085267f"
abbreviation (input) LIBXSMM_X86_INSTR_VPERMI2B :: u32 where "LIBXSMM_X86_INSTR_VPERMI2B \<equiv> 0xf0052675"
abbreviation (input) LIBXSMM_X86_INSTR_VPERMI2W :: u32 where "LIBXSMM_X86_INSTR_VPERMI2W \<equiv> 0xf0852675"
abbreviation (input) LIBXSMM_X86_INSTR_VPERMI2D :: u32 where "LIBXSMM_X86_INSTR_VPERMI2D \<equiv> 0xf0052676"
abbreviation (input) LIBXSMM_X86_INSTR_VPERMI2Q :: u32 where "LIBXSMM_X86_INSTR_VPERMI2Q \<equiv> 0xf0852676"
abbreviation (input) LIBXSMM_X86_INSTR_VPERMI2PS :: u32 where "LIBXSMM_X86_INSTR_VPERMI2PS \<equiv> 0xf0052677"
abbreviation (input) LIBXSMM_X86_INSTR_VPERMI2PD :: u32 where "LIBXSMM_X86_INSTR_VPERMI2PD \<equiv> 0xf0852677"
abbreviation (input) LIBXSMM_X86_INSTR_VBLENDPD :: u32 where "LIBXSMM_X86_INSTR_VBLENDPD \<equiv> 0x700d300d"
abbreviation (input) LIBXSMM_X86_INSTR_VBLENDPS :: u32 where "LIBXSMM_X86_INSTR_VBLENDPS \<equiv> 0x700d300c"
abbreviation (input) LIBXSMM_X86_INSTR_VBLENDVPD :: u32 where "LIBXSMM_X86_INSTR_VBLENDVPD \<equiv> 0x700d304b"
abbreviation (input) LIBXSMM_X86_INSTR_VBLENDVPS :: u32 where "LIBXSMM_X86_INSTR_VBLENDVPS \<equiv> 0x700d304a"
abbreviation (input) LIBXSMM_X86_INSTR_VPBLENDD :: u32 where "LIBXSMM_X86_INSTR_VPBLENDD \<equiv> 0x700d3002"
abbreviation (input) LIBXSMM_X86_INSTR_VPBLENDW :: u32 where "LIBXSMM_X86_INSTR_VPBLENDW \<equiv> 0x700d300e"
abbreviation (input) LIBXSMM_X86_INSTR_VPBLENDVB :: u32 where "LIBXSMM_X86_INSTR_VPBLENDVB \<equiv> 0x700d304c"
abbreviation (input) LIBXSMM_X86_INSTR_VSHUFF32X4 :: u32 where "LIBXSMM_X86_INSTR_VSHUFF32X4 \<equiv> 0xf00d3623"
abbreviation (input) LIBXSMM_X86_INSTR_VSHUFF64X2 :: u32 where "LIBXSMM_X86_INSTR_VSHUFF64X2 \<equiv> 0xf08d3623"
abbreviation (input) LIBXSMM_X86_INSTR_VSHUFI32X4 :: u32 where "LIBXSMM_X86_INSTR_VSHUFI32X4 \<equiv> 0xf00d3643"
abbreviation (input) LIBXSMM_X86_INSTR_VSHUFI64X2 :: u32 where "LIBXSMM_X86_INSTR_VSHUFI64X2 \<equiv> 0xf08d3643"
abbreviation (input) LIBXSMM_X86_INSTR_VEXTRACTF32X4 :: u32 where "LIBXSMM_X86_INSTR_VEXTRACTF32X4 \<equiv> 0xe80d3c19"
abbreviation (input) LIBXSMM_X86_INSTR_VEXTRACTF64X2 :: u32 where "LIBXSMM_X86_INSTR_VEXTRACTF64X2 \<equiv> 0xe88d3c19"
abbreviation (input) LIBXSMM_X86_INSTR_VEXTRACTF32X8 :: u32 where "LIBXSMM_X86_INSTR_VEXTRACTF32X8 \<equiv> 0xe80d3d1b"
abbreviation (input) LIBXSMM_X86_INSTR_VEXTRACTF64X4 :: u32 where "LIBXSMM_X86_INSTR_VEXTRACTF64X4 \<equiv> 0xe88d3d1b"
abbreviation (input) LIBXSMM_X86_INSTR_VEXTRACTI32X4 :: u32 where "LIBXSMM_X86_INSTR_VEXTRACTI32X4 \<equiv> 0xe80d3c39"
abbreviation (input) LIBXSMM_X86_INSTR_VEXTRACTI64X2 :: u32 where "LIBXSMM_X86_INSTR_VEXTRACTI64X2 \<equiv> 0xe88d3c39"
abbreviation (input) LIBXSMM_X86_INSTR_VEXTRACTI32X8 :: u32 where "LIBXSMM_X86_INSTR_VEXTRACTI32X8 \<equiv> 0xe80d3d3b"
abbreviation (input) LIBXSMM_X86_INSTR_VEXTRACTI64X4 :: u32 where "LIBXSMM_X86_INSTR_VEXTRACTI64X4 \<equiv> 0xe88d3d3b"
abbreviation (input) LIBXSMM_X86_INSTR_VINSERTF32X4 :: u32 where "LIBXSMM_X86_INSTR_VINSERTF32X4 \<equiv> 0xf00d3c18"
abbreviation (input) LIBXSMM_X86_INSTR_VINSERTF64X2 :: u32 where "LIBXSMM_X86_INSTR_VINSERTF64X2 \<equiv> 0xf08d3c18"
abbreviation (input) LIBXSMM_X86_INSTR_VINSERTF32X8 :: u32 where "LIBXSMM_X86_INSTR_VINSERTF32X8 \<equiv> 0xf00d3d1a"
abbreviation (input) LIBXSMM_X86_INSTR_VINSERTF64X4 :: u32 where "LIBXSMM_X86_INSTR_VINSERTF64X4 \<equiv> 0xf08d3d1a"
abbreviation (input) LIBXSMM_X86_INSTR_VINSERTI32X4 :: u32 where "LIBXSMM_X86_INSTR_VINSERTI32X4 \<equiv> 0xf00d3c38"
abbreviation (input) LIBXSMM_X86_INSTR_VINSERTI64X2 :: u32 where "LIBXSMM_X86_INSTR_VINSERTI64X2 \<equiv> 0xf08d3c38"
abbreviation (input) LIBXSMM_X86_INSTR_VINSERTI32X8 :: u32 where "LIBXSMM_X86_INSTR_VINSERTI32X8 \<equiv> 0xf00d3d3a"
abbreviation (input) LIBXSMM_X86_INSTR_VINSERTI64X4 :: u32 where "LIBXSMM_X86_INSTR_VINSERTI64X4 \<equiv> 0xf08d3d3a"
abbreviation (input) LIBXSMM_X86_INSTR_VBLENDMPS :: u32 where "LIBXSMM_X86_INSTR_VBLENDMPS \<equiv> 0xf0052665"
abbreviation (input) LIBXSMM_X86_INSTR_VBLENDMPD :: u32 where "LIBXSMM_X86_INSTR_VBLENDMPD \<equiv> 0xf0852665"
abbreviation (input) LIBXSMM_X86_INSTR_VPBLENDMB :: u32 where "LIBXSMM_X86_INSTR_VPBLENDMB \<equiv> 0xf0052666"
abbreviation (input) LIBXSMM_X86_INSTR_VPBLENDMW :: u32 where "LIBXSMM_X86_INSTR_VPBLENDMW \<equiv> 0xf0852666"
abbreviation (input) LIBXSMM_X86_INSTR_VPBLENDMD :: u32 where "LIBXSMM_X86_INSTR_VPBLENDMD \<equiv> 0xf0052664"
abbreviation (input) LIBXSMM_X86_INSTR_VPBLENDMQ :: u32 where "LIBXSMM_X86_INSTR_VPBLENDMQ \<equiv> 0xf0852664"
abbreviation (input) LIBXSMM_X86_INSTR_VEXPANDPD :: u32 where "LIBXSMM_X86_INSTR_VEXPANDPD \<equiv> 0xe0852b88"
abbreviation (input) LIBXSMM_X86_INSTR_VEXPANDPS :: u32 where "LIBXSMM_X86_INSTR_VEXPANDPS \<equiv> 0xe0052a88"
abbreviation (input) LIBXSMM_X86_INSTR_VPEXPANDQ :: u32 where "LIBXSMM_X86_INSTR_VPEXPANDQ \<equiv> 0xe0852b89"
abbreviation (input) LIBXSMM_X86_INSTR_VPEXPANDD :: u32 where "LIBXSMM_X86_INSTR_VPEXPANDD \<equiv> 0xe0052a89"
abbreviation (input) LIBXSMM_X86_INSTR_VPEXPANDW :: u32 where "LIBXSMM_X86_INSTR_VPEXPANDW \<equiv> 0xe0852962"
abbreviation (input) LIBXSMM_X86_INSTR_VPEXPANDB :: u32 where "LIBXSMM_X86_INSTR_VPEXPANDB \<equiv> 0xe0052862"
abbreviation (input) LIBXSMM_X86_INSTR_VFMADD132PS :: u32 where "LIBXSMM_X86_INSTR_VFMADD132PS \<equiv> 0x30052698"
abbreviation (input) LIBXSMM_X86_INSTR_VFMADD132PD :: u32 where "LIBXSMM_X86_INSTR_VFMADD132PD \<equiv> 0x30852698"
abbreviation (input) LIBXSMM_X86_INSTR_VFMADD213PS :: u32 where "LIBXSMM_X86_INSTR_VFMADD213PS \<equiv> 0x300526a8"
abbreviation (input) LIBXSMM_X86_INSTR_VFMADD213PD :: u32 where "LIBXSMM_X86_INSTR_VFMADD213PD \<equiv> 0x308526a8"
abbreviation (input) LIBXSMM_X86_INSTR_VFMADD231PS :: u32 where "LIBXSMM_X86_INSTR_VFMADD231PS \<equiv> 0x300526b8"
abbreviation (input) LIBXSMM_X86_INSTR_VFMADD231PD :: u32 where "LIBXSMM_X86_INSTR_VFMADD231PD \<equiv> 0x308526b8"
abbreviation (input) LIBXSMM_X86_INSTR_VFMSUB132PS :: u32 where "LIBXSMM_X86_INSTR_VFMSUB132PS \<equiv> 0x3005269a"
abbreviation (input) LIBXSMM_X86_INSTR_VFMSUB132PD :: u32 where "LIBXSMM_X86_INSTR_VFMSUB132PD \<equiv> 0x3085269a"
abbreviation (input) LIBXSMM_X86_INSTR_VFMSUB213PS :: u32 where "LIBXSMM_X86_INSTR_VFMSUB213PS \<equiv> 0x300526aa"
abbreviation (input) LIBXSMM_X86_INSTR_VFMSUB213PD :: u32 where "LIBXSMM_X86_INSTR_VFMSUB213PD \<equiv> 0x308526aa"
abbreviation (input) LIBXSMM_X86_INSTR_VFMSUB231PS :: u32 where "LIBXSMM_X86_INSTR_VFMSUB231PS \<equiv> 0x300526ba"
abbreviation (input) LIBXSMM_X86_INSTR_VFMSUB231PD :: u32 where "LIBXSMM_X86_INSTR_VFMSUB231PD \<equiv> 0x308526ba"
abbreviation (input) LIBXSMM_X86_INSTR_VFNMADD132PS :: u32 where "LIBXSMM_X86_INSTR_VFNMADD132PS \<equiv> 0x3005269c"
abbreviation (input) LIBXSMM_X86_INSTR_VFNMADD132PD :: u32 where "LIBXSMM_X86_INSTR_VFNMADD132PD \<equiv> 0x3085269c"
abbreviation (input) LIBXSMM_X86_INSTR_VFNMADD213PS :: u32 where "LIBXSMM_X86_INSTR_VFNMADD213PS \<equiv> 0x300526ac"
abbreviation (input) LIBXSMM_X86_INSTR_VFNMADD213PD :: u32 where "LIBXSMM_X86_INSTR_VFNMADD213PD \<equiv> 0x308526ac"
abbreviation (input) LIBXSMM_X86_INSTR_VFNMADD231PS :: u32 where "LIBXSMM_X86_INSTR_VFNMADD231PS \<equiv> 0x300526bc"
abbreviation (input) LIBXSMM_X86_INSTR_VFNMADD231PD :: u32 where "LIBXSMM_X86_INSTR_VFNMADD231PD \<equiv> 0x308526bc"
abbreviation (input) LIBXSMM_X86_INSTR_VFNMSUB132PS :: u32 where "LIBXSMM_X86_INSTR_VFNMSUB132PS \<equiv> 0x3005269e"
abbreviation (input) LIBXSMM_X86_INSTR_VFNMSUB132PD :: u32 where "LIBXSMM_X86_INSTR_VFNMSUB132PD \<equiv> 0x3085269e"
abbreviation (input) LIBXSMM_X86_INSTR_VFNMSUB213PS :: u32 where "LIBXSMM_X86_INSTR_VFNMSUB213PS \<equiv> 0x300526ae"
abbreviation (input) LIBXSMM_X86_INSTR_VFNMSUB213PD :: u32 where "LIBXSMM_X86_INSTR_VFNMSUB213PD \<equiv> 0x308526ae"
abbreviation (input) LIBXSMM_X86_INSTR_VFNMSUB231PS :: u32 where "LIBXSMM_X86_INSTR_VFNMSUB231PS \<equiv> 0x300526be"
abbreviation (input) LIBXSMM_X86_INSTR_VFNMSUB231PD :: u32 where "LIBXSMM_X86_INSTR_VFNMSUB231PD \<equiv> 0x308526be"
abbreviation (input) LIBXSMM_X86_INSTR_VFMADD132SD :: u32 where "LIBXSMM_X86_INSTR_VFMADD132SD \<equiv> 0x30852b99"
abbreviation (input) LIBXSMM_X86_INSTR_VFMADD213SD :: u32 where "LIBXSMM_X86_INSTR_VFMADD213SD \<equiv> 0x30852ba9"
abbreviation (input) LIBXSMM_X86_INSTR_VFMADD231SD :: u32 where "LIBXSMM_X86_INSTR_VFMADD231SD \<equiv> 0x30852bb9"
abbreviation (input) LIBXSMM_X86_INSTR_VFMADD132SS :: u32 where "LIBXSMM_X86_INSTR_VFMADD132SS \<equiv> 0x30052a99"
abbreviation (input) LIBXSMM_X86_INSTR_VFMADD213SS :: u32 where "LIBXSMM_X86_INSTR_VFMADD213SS \<equiv> 0x30052aa9"
abbreviation (input) LIBXSMM_X86_INSTR_VFMADD231SS :: u32 where "LIBXSMM_X86_INSTR_VFMADD231SS \<equiv> 0x30052ab9"
abbreviation (input) LIBXSMM_X86_INSTR_VFMSUB132SD :: u32 where "LIBXSMM_X86_INSTR_VFMSUB132SD \<equiv> 0x30852b9b"
abbreviation (input) LIBXSMM_X86_INSTR_VFMSUB213SD :: u32 where "LIBXSMM_X86_INSTR_VFMSUB213SD \<equiv> 0x30852bab"
abbreviation (input) LIBXSMM_X86_INSTR_VFMSUB231SD :: u32 where "LIBXSMM_X86_INSTR_VFMSUB231SD \<equiv> 0x30852bbb"
abbreviation (input) LIBXSMM_X86_INSTR_VFMSUB132SS :: u32 where "LIBXSMM_X86_INSTR_VFMSUB132SS \<equiv> 0x30052a9b"
abbreviation (input) LIBXSMM_X86_INSTR_VFMSUB213SS :: u32 where "LIBXSMM_X86_INSTR_VFMSUB213SS \<equiv> 0x30052aab"
abbreviation (input) LIBXSMM_X86_INSTR_VFMSUB231SS :: u32 where "LIBXSMM_X86_INSTR_VFMSUB231SS \<equiv> 0x30052abb"
abbreviation (input) LIBXSMM_X86_INSTR_VFNMADD132SD :: u32 where "LIBXSMM_X86_INSTR_VFNMADD132SD \<equiv> 0x30852b9d"
abbreviation (input) LIBXSMM_X86_INSTR_VFNMADD213SD :: u32 where "LIBXSMM_X86_INSTR_VFNMADD213SD \<equiv> 0x30852bad"
abbreviation (input) LIBXSMM_X86_INSTR_VFNMADD231SD :: u32 where "LIBXSMM_X86_INSTR_VFNMADD231SD \<equiv> 0x30852bbd"
abbreviation (input) LIBXSMM_X86_INSTR_VFNMADD132SS :: u32 where "LIBXSMM_X86_INSTR_VFNMADD132SS \<equiv> 0x30052a9d"
abbreviation (input) LIBXSMM_X86_INSTR_VFNMADD213SS :: u32 where "LIBXSMM_X86_INSTR_VFNMADD213SS \<equiv> 0x30052aad"
abbreviation (input) LIBXSMM_X86_INSTR_VFNMADD231SS :: u32 where "LIBXSMM_X86_INSTR_VFNMADD231SS \<equiv> 0x30052abd"
abbreviation (input) LIBXSMM_X86_INSTR_VFNMSUB132SD :: u32 where "LIBXSMM_X86_INSTR_VFNMSUB132SD \<equiv> 0x30852b9f"
abbreviation (input) LIBXSMM_X86_INSTR_VFNMSUB213SD :: u32 where "LIBXSMM_X86_INSTR_VFNMSUB213SD \<equiv> 0x30852baf"
abbreviation (input) LIBXSMM_X86_INSTR_VFNMSUB231SD :: u32 where "LIBXSMM_X86_INSTR_VFNMSUB231SD \<equiv> 0x30852bbf"
abbreviation (input) LIBXSMM_X86_INSTR_VFNMSUB132SS :: u32 where "LIBXSMM_X86_INSTR_VFNMSUB132SS \<equiv> 0x30052a9f"
abbreviation (input) LIBXSMM_X86_INSTR_VFNMSUB213SS :: u32 where "LIBXSMM_X86_INSTR_VFNMSUB213SS \<equiv> 0x30052aaf"
abbreviation (input) LIBXSMM_X86_INSTR_VFNMSUB231SS :: u32 where "LIBXSMM_X86_INSTR_VFNMSUB231SS \<equiv> 0x30052abf"
abbreviation (input) LIBXSMM_X86_INSTR_VROUNDPD :: u32 where "LIBXSMM_X86_INSTR_VROUNDPD \<equiv> 0x600d3009"
abbreviation (input) LIBXSMM_X86_INSTR_VROUNDSD :: u32 where "LIBXSMM_X86_INSTR_VROUNDSD \<equiv> 0x700d300b"
abbreviation (input) LIBXSMM_X86_INSTR_VROUNDPS :: u32 where "LIBXSMM_X86_INSTR_VROUNDPS \<equiv> 0x600d3008"
abbreviation (input) LIBXSMM_X86_INSTR_VROUNDSS :: u32 where "LIBXSMM_X86_INSTR_VROUNDSS \<equiv> 0x700d300a"
abbreviation (input) LIBXSMM_X86_INSTR_VRCPPS :: u32 where "LIBXSMM_X86_INSTR_VRCPPS \<equiv> 0x60041053"
abbreviation (input) LIBXSMM_X86_INSTR_VRCPSS :: u32 where "LIBXSMM_X86_INSTR_VRCPSS \<equiv> 0x70061053"
abbreviation (input) LIBXSMM_X86_INSTR_VRSQRTPS :: u32 where "LIBXSMM_X86_INSTR_VRSQRTPS \<equiv> 0x60041052"
abbreviation (input) LIBXSMM_X86_INSTR_VRSQRTSS :: u32 where "LIBXSMM_X86_INSTR_VRSQRTSS \<equiv> 0x70061052"
abbreviation (input) LIBXSMM_X86_INSTR_VRANGEPS :: u32 where "LIBXSMM_X86_INSTR_VRANGEPS \<equiv> 0xf00d3650"
abbreviation (input) LIBXSMM_X86_INSTR_VRANGEPD :: u32 where "LIBXSMM_X86_INSTR_VRANGEPD \<equiv> 0xf08d3650"
abbreviation (input) LIBXSMM_X86_INSTR_VRANGESS :: u32 where "LIBXSMM_X86_INSTR_VRANGESS \<equiv> 0xf00d3a51"
abbreviation (input) LIBXSMM_X86_INSTR_VRANGESD :: u32 where "LIBXSMM_X86_INSTR_VRANGESD \<equiv> 0xf08d3b51"
abbreviation (input) LIBXSMM_X86_INSTR_VREDUCEPS :: u32 where "LIBXSMM_X86_INSTR_VREDUCEPS \<equiv> 0xe00d3656"
abbreviation (input) LIBXSMM_X86_INSTR_VREDUCEPD :: u32 where "LIBXSMM_X86_INSTR_VREDUCEPD \<equiv> 0xe08d3656"
abbreviation (input) LIBXSMM_X86_INSTR_VREDUCESS :: u32 where "LIBXSMM_X86_INSTR_VREDUCESS \<equiv> 0xf00d3a57"
abbreviation (input) LIBXSMM_X86_INSTR_VREDUCESD :: u32 where "LIBXSMM_X86_INSTR_VREDUCESD \<equiv> 0xf08d3b57"
abbreviation (input) LIBXSMM_X86_INSTR_VRCP14PS :: u32 where "LIBXSMM_X86_INSTR_VRCP14PS \<equiv> 0xe005264c"
abbreviation (input) LIBXSMM_X86_INSTR_VRCP14PD :: u32 where "LIBXSMM_X86_INSTR_VRCP14PD \<equiv> 0xe085264c"
abbreviation (input) LIBXSMM_X86_INSTR_VRCP14SS :: u32 where "LIBXSMM_X86_INSTR_VRCP14SS \<equiv> 0xf0052a4d"
abbreviation (input) LIBXSMM_X86_INSTR_VRCP14SD :: u32 where "LIBXSMM_X86_INSTR_VRCP14SD \<equiv> 0xf0852b4d"
abbreviation (input) LIBXSMM_X86_INSTR_VRNDSCALEPS :: u32 where "LIBXSMM_X86_INSTR_VRNDSCALEPS \<equiv> 0xe00d3608"
abbreviation (input) LIBXSMM_X86_INSTR_VRNDSCALEPD :: u32 where "LIBXSMM_X86_INSTR_VRNDSCALEPD \<equiv> 0xe08d3609"
abbreviation (input) LIBXSMM_X86_INSTR_VRNDSCALESS :: u32 where "LIBXSMM_X86_INSTR_VRNDSCALESS \<equiv> 0xf00d3a0a"
abbreviation (input) LIBXSMM_X86_INSTR_VRNDSCALESD :: u32 where "LIBXSMM_X86_INSTR_VRNDSCALESD \<equiv> 0xf08d3b0b"
abbreviation (input) LIBXSMM_X86_INSTR_VRSQRT14PS :: u32 where "LIBXSMM_X86_INSTR_VRSQRT14PS \<equiv> 0xe005264e"
abbreviation (input) LIBXSMM_X86_INSTR_VRSQRT14PD :: u32 where "LIBXSMM_X86_INSTR_VRSQRT14PD \<equiv> 0xe085264e"
abbreviation (input) LIBXSMM_X86_INSTR_VRSQRT14SS :: u32 where "LIBXSMM_X86_INSTR_VRSQRT14SS \<equiv> 0xf0052a4f"
abbreviation (input) LIBXSMM_X86_INSTR_VRSQRT14SD :: u32 where "LIBXSMM_X86_INSTR_VRSQRT14SD \<equiv> 0xf0852b4f"
abbreviation (input) LIBXSMM_X86_INSTR_VSCALEFPS :: u32 where "LIBXSMM_X86_INSTR_VSCALEFPS \<equiv> 0xf005262c"
abbreviation (input) LIBXSMM_X86_INSTR_VSCALEFPD :: u32 where "LIBXSMM_X86_INSTR_VSCALEFPD \<equiv> 0xf085262c"
abbreviation (input) LIBXSMM_X86_INSTR_VSCALEFSS :: u32 where "LIBXSMM_X86_INSTR_VSCALEFSS \<equiv> 0xf0052a2d"
abbreviation (input) LIBXSMM_X86_INSTR_VSCALEFSD :: u32 where "LIBXSMM_X86_INSTR_VSCALEFSD \<equiv> 0xf0852b2d"
abbreviation (input) LIBXSMM_X86_INSTR_VCMPPS :: u32 where "LIBXSMM_X86_INSTR_VCMPPS \<equiv> 0x300c16c2"
abbreviation (input) LIBXSMM_X86_INSTR_VCMPSS :: u32 where "LIBXSMM_X86_INSTR_VCMPSS \<equiv> 0x300e1ac2"
abbreviation (input) LIBXSMM_X86_INSTR_VCMPPD :: u32 where "LIBXSMM_X86_INSTR_VCMPPD \<equiv> 0x308d16c2"
abbreviation (input) LIBXSMM_X86_INSTR_VCMPSD :: u32 where "LIBXSMM_X86_INSTR_VCMPSD \<equiv> 0x308f1bc2"
abbreviation (input) LIBXSMM_X86_INSTR_VPCMPB :: u32 where "LIBXSMM_X86_INSTR_VPCMPB \<equiv> 0xf00d363f"
abbreviation (input) LIBXSMM_X86_INSTR_VPCMPUB :: u32 where "LIBXSMM_X86_INSTR_VPCMPUB \<equiv> 0xf00d363e"
abbreviation (input) LIBXSMM_X86_INSTR_VPCMPW :: u32 where "LIBXSMM_X86_INSTR_VPCMPW \<equiv> 0xf08d363f"
abbreviation (input) LIBXSMM_X86_INSTR_VPCMPUW :: u32 where "LIBXSMM_X86_INSTR_VPCMPUW \<equiv> 0xf08d363e"
abbreviation (input) LIBXSMM_X86_INSTR_VPCMPD :: u32 where "LIBXSMM_X86_INSTR_VPCMPD \<equiv> 0xf00d361f"
abbreviation (input) LIBXSMM_X86_INSTR_VPCMPUD :: u32 where "LIBXSMM_X86_INSTR_VPCMPUD \<equiv> 0xf00d361e"
abbreviation (input) LIBXSMM_X86_INSTR_VPCMPQ :: u32 where "LIBXSMM_X86_INSTR_VPCMPQ \<equiv> 0xf08d361f"
abbreviation (input) LIBXSMM_X86_INSTR_VPCMPUQ :: u32 where "LIBXSMM_X86_INSTR_VPCMPUQ \<equiv> 0xf08d361e"
abbreviation (input) LIBXSMM_X86_INSTR_VPCMPEQB :: u32 where "LIBXSMM_X86_INSTR_VPCMPEQB \<equiv> 0x30051674"
abbreviation (input) LIBXSMM_X86_INSTR_VPCMPEQW :: u32 where "LIBXSMM_X86_INSTR_VPCMPEQW \<equiv> 0x30051675"
abbreviation (input) LIBXSMM_X86_INSTR_VPCMPEQD :: u32 where "LIBXSMM_X86_INSTR_VPCMPEQD \<equiv> 0x30051676"
abbreviation (input) LIBXSMM_X86_INSTR_VPCMPEQQ :: u32 where "LIBXSMM_X86_INSTR_VPCMPEQQ \<equiv> 0x30852629"
abbreviation (input) LIBXSMM_X86_INSTR_VPCMPGTB :: u32 where "LIBXSMM_X86_INSTR_VPCMPGTB \<equiv> 0x30051664"
abbreviation (input) LIBXSMM_X86_INSTR_VPCMPGTW :: u32 where "LIBXSMM_X86_INSTR_VPCMPGTW \<equiv> 0x30051665"
abbreviation (input) LIBXSMM_X86_INSTR_VPCMPGTD :: u32 where "LIBXSMM_X86_INSTR_VPCMPGTD \<equiv> 0x30051666"
abbreviation (input) LIBXSMM_X86_INSTR_VPCMPGTQ :: u32 where "LIBXSMM_X86_INSTR_VPCMPGTQ \<equiv> 0x30852637"
abbreviation (input) LIBXSMM_X86_INSTR_VPCMPESTRI :: u32 where "LIBXSMM_X86_INSTR_VPCMPESTRI \<equiv> 0x600d3061"
abbreviation (input) LIBXSMM_X86_INSTR_VPCMPESTRM :: u32 where "LIBXSMM_X86_INSTR_VPCMPESTRM \<equiv> 0x600d3060"
abbreviation (input) LIBXSMM_X86_INSTR_VPCMPISTRI :: u32 where "LIBXSMM_X86_INSTR_VPCMPISTRI \<equiv> 0x600d3063"
abbreviation (input) LIBXSMM_X86_INSTR_VPCMPISTRM :: u32 where "LIBXSMM_X86_INSTR_VPCMPISTRM \<equiv> 0x600d3062"
abbreviation (input) LIBXSMM_X86_INSTR_VCVTPS2PD :: u32 where "LIBXSMM_X86_INSTR_VCVTPS2PD \<equiv> 0x2004155a"
abbreviation (input) LIBXSMM_X86_INSTR_VCVTPH2PS :: u32 where "LIBXSMM_X86_INSTR_VCVTPH2PS \<equiv> 0x20052513"
abbreviation (input) LIBXSMM_X86_INSTR_VCVTPS2PH :: u32 where "LIBXSMM_X86_INSTR_VCVTPS2PH \<equiv> 0x280d351d"
abbreviation (input) LIBXSMM_X86_INSTR_VCVTDQ2PS :: u32 where "LIBXSMM_X86_INSTR_VCVTDQ2PS \<equiv> 0x2004165b"
abbreviation (input) LIBXSMM_X86_INSTR_VCVTPS2DQ :: u32 where "LIBXSMM_X86_INSTR_VCVTPS2DQ \<equiv> 0x2005165b"
abbreviation (input) LIBXSMM_X86_INSTR_VCVTPS2UDQ :: u32 where "LIBXSMM_X86_INSTR_VCVTPS2UDQ \<equiv> 0x20041679"
abbreviation (input) LIBXSMM_X86_INSTR_VPSLLD_I :: u32 where "LIBXSMM_X86_INSTR_VPSLLD_I \<equiv> 0x246d1672"
abbreviation (input) LIBXSMM_X86_INSTR_VPSLLW_I :: u32 where "LIBXSMM_X86_INSTR_VPSLLW_I \<equiv> 0x246d1671"
abbreviation (input) LIBXSMM_X86_INSTR_VPSRAD_I :: u32 where "LIBXSMM_X86_INSTR_VPSRAD_I \<equiv> 0x244d1672"
abbreviation (input) LIBXSMM_X86_INSTR_VPSRAW_I :: u32 where "LIBXSMM_X86_INSTR_VPSRAW_I \<equiv> 0x244d1671"
abbreviation (input) LIBXSMM_X86_INSTR_VPSRLD_I :: u32 where "LIBXSMM_X86_INSTR_VPSRLD_I \<equiv> 0x242d1672"
abbreviation (input) LIBXSMM_X86_INSTR_VPSLLVW :: u32 where "LIBXSMM_X86_INSTR_VPSLLVW \<equiv> 0x30852612"
abbreviation (input) LIBXSMM_X86_INSTR_VPSLLVD :: u32 where "LIBXSMM_X86_INSTR_VPSLLVD \<equiv> 0x30052647"
abbreviation (input) LIBXSMM_X86_INSTR_VPSLLVQ :: u32 where "LIBXSMM_X86_INSTR_VPSLLVQ \<equiv> 0x30852647"
abbreviation (input) LIBXSMM_X86_INSTR_VPSRAVW :: u32 where "LIBXSMM_X86_INSTR_VPSRAVW \<equiv> 0x30852611"
abbreviation (input) LIBXSMM_X86_INSTR_VPSRAVD :: u32 where "LIBXSMM_X86_INSTR_VPSRAVD \<equiv> 0x30052646"
abbreviation (input) LIBXSMM_X86_INSTR_VPSRAVQ :: u32 where "LIBXSMM_X86_INSTR_VPSRAVQ \<equiv> 0x30852646"
abbreviation (input) LIBXSMM_X86_INSTR_VPSRLVW :: u32 where "LIBXSMM_X86_INSTR_VPSRLVW \<equiv> 0x30852610"
abbreviation (input) LIBXSMM_X86_INSTR_VPSRLVD :: u32 where "LIBXSMM_X86_INSTR_VPSRLVD \<equiv> 0x30052645"
abbreviation (input) LIBXSMM_X86_INSTR_VPSRLVQ :: u32 where "LIBXSMM_X86_INSTR_VPSRLVQ \<equiv> 0x30852645"
abbreviation (input) LIBXSMM_X86_INSTR_VXORPD :: u32 where "LIBXSMM_X86_INSTR_VXORPD \<equiv> 0x30851657"
abbreviation (input) LIBXSMM_X86_INSTR_VADDPD :: u32 where "LIBXSMM_X86_INSTR_VADDPD \<equiv> 0x30851658"
abbreviation (input) LIBXSMM_X86_INSTR_VMULPD :: u32 where "LIBXSMM_X86_INSTR_VMULPD \<equiv> 0x30851659"
abbreviation (input) LIBXSMM_X86_INSTR_VSUBPD :: u32 where "LIBXSMM_X86_INSTR_VSUBPD \<equiv> 0x3085165c"
abbreviation (input) LIBXSMM_X86_INSTR_VDIVPD :: u32 where "LIBXSMM_X86_INSTR_VDIVPD \<equiv> 0x3085165e"
abbreviation (input) LIBXSMM_X86_INSTR_VMINPD :: u32 where "LIBXSMM_X86_INSTR_VMINPD \<equiv> 0x3085165d"
abbreviation (input) LIBXSMM_X86_INSTR_VMAXPD :: u32 where "LIBXSMM_X86_INSTR_VMAXPD \<equiv> 0x3085165f"
abbreviation (input) LIBXSMM_X86_INSTR_VSQRTPD :: u32 where "LIBXSMM_X86_INSTR_VSQRTPD \<equiv> 0x20851651"
abbreviation (input) LIBXSMM_X86_INSTR_VADDSD :: u32 where "LIBXSMM_X86_INSTR_VADDSD \<equiv> 0x30871b58"
abbreviation (input) LIBXSMM_X86_INSTR_VMULSD :: u32 where "LIBXSMM_X86_INSTR_VMULSD \<equiv> 0x30871b59"
abbreviation (input) LIBXSMM_X86_INSTR_VSUBSD :: u32 where "LIBXSMM_X86_INSTR_VSUBSD \<equiv> 0x30871b5c"
abbreviation (input) LIBXSMM_X86_INSTR_VDIVSD :: u32 where "LIBXSMM_X86_INSTR_VDIVSD \<equiv> 0x30871b5e"
abbreviation (input) LIBXSMM_X86_INSTR_VMINSD :: u32 where "LIBXSMM_X86_INSTR_VMINSD \<equiv> 0x30871b5d"
abbreviation (input) LIBXSMM_X86_INSTR_VMAXSD :: u32 where "LIBXSMM_X86_INSTR_VMAXSD \<equiv> 0x30871b5f"
abbreviation (input) LIBXSMM_X86_INSTR_VSQRTSD :: u32 where "LIBXSMM_X86_INSTR_VSQRTSD \<equiv> 0x30871b51"
abbreviation (input) LIBXSMM_X86_INSTR_VXORPS :: u32 where "LIBXSMM_X86_INSTR_VXORPS \<equiv> 0x30041657"
abbreviation (input) LIBXSMM_X86_INSTR_VADDPS :: u32 where "LIBXSMM_X86_INSTR_VADDPS \<equiv> 0x30041658"
abbreviation (input) LIBXSMM_X86_INSTR_VMULPS :: u32 where "LIBXSMM_X86_INSTR_VMULPS \<equiv> 0x30041659"
abbreviation (input) LIBXSMM_X86_INSTR_VSUBPS :: u32 where "LIBXSMM_X86_INSTR_VSUBPS \<equiv> 0x3004165c"
abbreviation (input) LIBXSMM_X86_INSTR_VDIVPS :: u32 where "LIBXSMM_X86_INSTR_VDIVPS \<equiv> 0x3004165e"
abbreviation (input) LIBXSMM_X86_INSTR_VMINPS :: u32 where "LIBXSMM_X86_INSTR_VMINPS \<equiv> 0x3004155d"
abbreviation (input) LIBXSMM_X86_INSTR_VMAXPS :: u32 where "LIBXSMM_X86_INSTR_VMAXPS \<equiv> 0x3004165f"
abbreviation (input) LIBXSMM_X86_INSTR_VSQRTPS :: u32 where "LIBXSMM_X86_INSTR_VSQRTPS \<equiv> 0x20041551"
abbreviation (input) LIBXSMM_X86_INSTR_VMULSS :: u32 where "LIBXSMM_X86_INSTR_VMULSS \<equiv> 0x30061a59"
abbreviation (input) LIBXSMM_X86_INSTR_VADDSS :: u32 where "LIBXSMM_X86_INSTR_VADDSS \<equiv> 0x30061a58"
abbreviation (input) LIBXSMM_X86_INSTR_VSUBSS :: u32 where "LIBXSMM_X86_INSTR_VSUBSS \<equiv> 0x30061a5c"
abbreviation (input) LIBXSMM_X86_INSTR_VDIVSS :: u32 where "LIBXSMM_X86_INSTR_VDIVSS \<equiv> 0x30061a5e"
abbreviation (input) LIBXSMM_X86_INSTR_VMINSS :: u32 where "LIBXSMM_X86_INSTR_VMINSS \<equiv> 0x30061a5d"
abbreviation (input) LIBXSMM_X86_INSTR_VMAXSS :: u32 where "LIBXSMM_X86_INSTR_VMAXSS \<equiv> 0x30061a5f"
abbreviation (input) LIBXSMM_X86_INSTR_VSQRTSS :: u32 where "LIBXSMM_X86_INSTR_VSQRTSS \<equiv> 0x30061a51"
abbreviation (input) LIBXSMM_X86_INSTR_VPXORD :: u32 where "LIBXSMM_X86_INSTR_VPXORD \<equiv> 0x300516ef"
abbreviation (input) LIBXSMM_X86_INSTR_VPORD :: u32 where "LIBXSMM_X86_INSTR_VPORD \<equiv> 0x300516eb"
abbreviation (input) LIBXSMM_X86_INSTR_VPXORQ :: u32 where "LIBXSMM_X86_INSTR_VPXORQ \<equiv> 0x308516ef"
abbreviation (input) LIBXSMM_X86_INSTR_VPORQ :: u32 where "LIBXSMM_X86_INSTR_VPORQ \<equiv> 0x308516eb"
abbreviation (input) LIBXSMM_X86_INSTR_VPANDD :: u32 where "LIBXSMM_X86_INSTR_VPANDD \<equiv> 0x300516db"
abbreviation (input) LIBXSMM_X86_INSTR_VPANDQ :: u32 where "LIBXSMM_X86_INSTR_VPANDQ \<equiv> 0x308516db"
abbreviation (input) LIBXSMM_X86_INSTR_VPADDQ :: u32 where "LIBXSMM_X86_INSTR_VPADDQ \<equiv> 0x308516d4"
abbreviation (input) LIBXSMM_X86_INSTR_VPADDB :: u32 where "LIBXSMM_X86_INSTR_VPADDB \<equiv> 0x300516fc"
abbreviation (input) LIBXSMM_X86_INSTR_VPADDW :: u32 where "LIBXSMM_X86_INSTR_VPADDW \<equiv> 0x300516fd"
abbreviation (input) LIBXSMM_X86_INSTR_VPADDD :: u32 where "LIBXSMM_X86_INSTR_VPADDD \<equiv> 0x300516fe"
abbreviation (input) LIBXSMM_X86_INSTR_VPMADDWD :: u32 where "LIBXSMM_X86_INSTR_VPMADDWD \<equiv> 0x300516f5"
abbreviation (input) LIBXSMM_X86_INSTR_VPMADDUBSW :: u32 where "LIBXSMM_X86_INSTR_VPMADDUBSW \<equiv> 0x30052604"
abbreviation (input) LIBXSMM_X86_INSTR_VPADDSW :: u32 where "LIBXSMM_X86_INSTR_VPADDSW \<equiv> 0x300516ed"
abbreviation (input) LIBXSMM_X86_INSTR_VPADDSB :: u32 where "LIBXSMM_X86_INSTR_VPADDSB \<equiv> 0x300516ec"
abbreviation (input) LIBXSMM_X86_INSTR_VPSUBD :: u32 where "LIBXSMM_X86_INSTR_VPSUBD \<equiv> 0x300516fa"
abbreviation (input) LIBXSMM_X86_INSTR_VPSUBW :: u32 where "LIBXSMM_X86_INSTR_VPSUBW \<equiv> 0x300516f9"
abbreviation (input) LIBXSMM_X86_INSTR_VPSUBB :: u32 where "LIBXSMM_X86_INSTR_VPSUBB \<equiv> 0x300516f8"
abbreviation (input) LIBXSMM_X86_INSTR_VPMAXSD :: u32 where "LIBXSMM_X86_INSTR_VPMAXSD \<equiv> 0x3005263d"
abbreviation (input) LIBXSMM_X86_INSTR_VPMAXSW :: u32 where "LIBXSMM_X86_INSTR_VPMAXSW \<equiv> 0x300516ee"
abbreviation (input) LIBXSMM_X86_INSTR_VPMINSD :: u32 where "LIBXSMM_X86_INSTR_VPMINSD \<equiv> 0x30052639"
abbreviation (input) LIBXSMM_X86_INSTR_VPDPBUSD :: u32 where "LIBXSMM_X86_INSTR_VPDPBUSD \<equiv> 0x30052650"
abbreviation (input) LIBXSMM_X86_INSTR_VPDPBUSDS :: u32 where "LIBXSMM_X86_INSTR_VPDPBUSDS \<equiv> 0x30052651"
abbreviation (input) LIBXSMM_X86_INSTR_VPDPWSSD :: u32 where "LIBXSMM_X86_INSTR_VPDPWSSD \<equiv> 0x30052652"
abbreviation (input) LIBXSMM_X86_INSTR_VPDPWSSDS :: u32 where "LIBXSMM_X86_INSTR_VPDPWSSDS \<equiv> 0x30052653"
abbreviation (input) LIBXSMM_X86_INSTR_VDPBF16PS :: u32 where "LIBXSMM_X86_INSTR_VDPBF16PS \<equiv> 0xf0062652"
abbreviation (input) LIBXSMM_X86_INSTR_VCVTNEPS2BF16 :: u32 where "LIBXSMM_X86_INSTR_VCVTNEPS2BF16 \<equiv> 0x20062672"
abbreviation (input) LIBXSMM_X86_INSTR_VCVTNE2PS2BF16 :: u32 where "LIBXSMM_X86_INSTR_VCVTNE2PS2BF16 \<equiv> 0xf0072672"
abbreviation (input) LIBXSMM_X86_INSTR_VMOVAPD_LD :: u32 where "LIBXSMM_X86_INSTR_VMOVAPD_LD \<equiv> 0x20851628"
abbreviation (input) LIBXSMM_X86_INSTR_VMOVAPS_LD :: u32 where "LIBXSMM_X86_INSTR_VMOVAPS_LD \<equiv> 0x20041628"
abbreviation (input) LIBXSMM_X86_INSTR_VMOVUPD_LD :: u32 where "LIBXSMM_X86_INSTR_VMOVUPD_LD \<equiv> 0x20851610"
abbreviation (input) LIBXSMM_X86_INSTR_VMOVUPS_LD :: u32 where "LIBXSMM_X86_INSTR_VMOVUPS_LD \<equiv> 0x20041610"
abbreviation (input) LIBXSMM_X86_INSTR_VMOVSS_LD :: u32 where "LIBXSMM_X86_INSTR_VMOVSS_LD \<equiv> 0x20061a10"
abbreviation (input) LIBXSMM_X86_INSTR_VMOVSD_LD :: u32 where "LIBXSMM_X86_INSTR_VMOVSD_LD \<equiv> 0x20871b10"
abbreviation (input) LIBXSMM_X86_INSTR_VMOVDQA32_LD :: u32 where "LIBXSMM_X86_INSTR_VMOVDQA32_LD \<equiv> 0xe005166f"
abbreviation (input) LIBXSMM_X86_INSTR_VMOVDQA64_LD :: u32 where "LIBXSMM_X86_INSTR_VMOVDQA64_LD \<equiv> 0xe085166f"
abbreviation (input) LIBXSMM_X86_INSTR_VMOVDQU8_LD :: u32 where "LIBXSMM_X86_INSTR_VMOVDQU8_LD \<equiv> 0xe007166f"
abbreviation (input) LIBXSMM_X86_INSTR_VMOVDQU16_LD :: u32 where "LIBXSMM_X86_INSTR_VMOVDQU16_LD \<equiv> 0xe087166f"
abbreviation (input) LIBXSMM_X86_INSTR_VMOVDQU32_LD :: u32 where "LIBXSMM_X86_INSTR_VMOVDQU32_LD \<equiv> 0xe006166f"
abbreviation (input) LIBXSMM_X86_INSTR_VMOVDQU64_LD :: u32 where "LIBXSMM_X86_INSTR_VMOVDQU64_LD \<equiv> 0xe086166f"
abbreviation (input) LIBXSMM_X86_INSTR_VMOVAPD_ST :: u32 where "LIBXSMM_X86_INSTR_VMOVAPD_ST \<equiv> 0x20851629"
abbreviation (input) LIBXSMM_X86_INSTR_VMOVAPS_ST :: u32 where "LIBXSMM_X86_INSTR_VMOVAPS_ST \<equiv> 0x20041629"
abbreviation (input) LIBXSMM_X86_INSTR_VMOVUPD_ST :: u32 where "LIBXSMM_X86_INSTR_VMOVUPD_ST \<equiv> 0x20851611"
abbreviation (input) LIBXSMM_X86_INSTR_VMOVUPS_ST :: u32 where "LIBXSMM_X86_INSTR_VMOVUPS_ST \<equiv> 0x20041611"
abbreviation (input) LIBXSMM_X86_INSTR_VMOVSS_ST :: u32 where "LIBXSMM_X86_INSTR_VMOVSS_ST \<equiv> 0x20061a11"
abbreviation (input) LIBXSMM_X86_INSTR_VMOVSD_ST :: u32 where "LIBXSMM_X86_INSTR_VMOVSD_ST \<equiv> 0x20871b11"
abbreviation (input) LIBXSMM_X86_INSTR_VMOVDQA32_ST :: u32 where "LIBXSMM_X86_INSTR_VMOVDQA32_ST \<equiv> 0xe005167f"
abbreviation (input) LIBXSMM_X86_INSTR_VMOVDQA64_ST :: u32 where "LIBXSMM_X86_INSTR_VMOVDQA64_ST \<equiv> 0xe085167f"
abbreviation (input) LIBXSMM_X86_INSTR_VMOVDQU8_ST :: u32 where "LIBXSMM_X86_INSTR_VMOVDQU8_ST \<equiv> 0xe007167f"
abbreviation (input) LIBXSMM_X86_INSTR_VMOVDQU16_ST :: u32 where "LIBXSMM_X86_INSTR_VMOVDQU16_ST \<equiv> 0xe087167f"
abbreviation (input) LIBXSMM_X86_INSTR_VMOVDQU32_ST :: u32 where "LIBXSMM_X86_INSTR_VMOVDQU32_ST \<equiv> 0xe006167f"
abbreviation (input) LIBXSMM_X86_INSTR_VMOVDQU64_ST :: u32 where "LIBXSMM_X86_INSTR_VMOVDQU64_ST \<equiv> 0xe086167f"
abbreviation (input) LIBXSMM_X86_INSTR_VMOVDDUP :: u32 where "LIBXSMM_X86_INSTR_VMOVDDUP \<equiv> 0x20871612"
abbreviation (input) LIBXSMM_X86_INSTR_VPMOVDB :: u32 where "LIBXSMM_X86_INSTR_VPMOVDB \<equiv> 0x28062431"
abbreviation (input) LIBXSMM_X86_INSTR_VPMOVWB :: u32 where "LIBXSMM_X86_INSTR_VPMOVWB \<equiv> 0xe0062530"
abbreviation (input) LIBXSMM_X86_INSTR_VPMOVDW :: u32 where "LIBXSMM_X86_INSTR_VPMOVDW \<equiv> 0x28062533"
abbreviation (input) LIBXSMM_X86_INSTR_VPMOVSDB :: u32 where "LIBXSMM_X86_INSTR_VPMOVSDB \<equiv> 0x28062421"
abbreviation (input) LIBXSMM_X86_INSTR_VPMOVSWB :: u32 where "LIBXSMM_X86_INSTR_VPMOVSWB \<equiv> 0xe0062520"
abbreviation (input) LIBXSMM_X86_INSTR_VPMOVUSDB :: u32 where "LIBXSMM_X86_INSTR_VPMOVUSDB \<equiv> 0x28062411"
abbreviation (input) LIBXSMM_X86_INSTR_VPMOVUSWB :: u32 where "LIBXSMM_X86_INSTR_VPMOVUSWB \<equiv> 0xe0062510"
abbreviation (input) LIBXSMM_X86_INSTR_VPMOVSXBW :: u32 where "LIBXSMM_X86_INSTR_VPMOVSXBW \<equiv> 0x20052520"
abbreviation (input) LIBXSMM_X86_INSTR_VPMOVSXBD :: u32 where "LIBXSMM_X86_INSTR_VPMOVSXBD \<equiv> 0x20052421"
abbreviation (input) LIBXSMM_X86_INSTR_VPMOVSXWD :: u32 where "LIBXSMM_X86_INSTR_VPMOVSXWD \<equiv> 0x20052523"
abbreviation (input) LIBXSMM_X86_INSTR_VPMOVZXWD :: u32 where "LIBXSMM_X86_INSTR_VPMOVZXWD \<equiv> 0x20052533"
abbreviation (input) LIBXSMM_X86_INSTR_VPMOVZXBW :: u32 where "LIBXSMM_X86_INSTR_VPMOVZXBW \<equiv> 0x20052530"
abbreviation (input) LIBXSMM_X86_INSTR_VPMOVZXBD :: u32 where "LIBXSMM_X86_INSTR_VPMOVZXBD \<equiv> 0x20052431"
abbreviation (input) LIBXSMM_X86_INSTR_VMOVD_LD :: u32 where "LIBXSMM_X86_INSTR_VMOVD_LD \<equiv> 0x20051a6e"
abbreviation (input) LIBXSMM_X86_INSTR_VMOVQ_LD :: u32 where "LIBXSMM_X86_INSTR_VMOVQ_LD \<equiv> 0x20851b6e"
abbreviation (input) LIBXSMM_X86_INSTR_VMOVD_ST :: u32 where "LIBXSMM_X86_INSTR_VMOVD_ST \<equiv> 0x20051a7e"
abbreviation (input) LIBXSMM_X86_INSTR_VMOVQ_ST :: u32 where "LIBXSMM_X86_INSTR_VMOVQ_ST \<equiv> 0x20851b7e"
abbreviation (input) LIBXSMM_X86_INSTR_MOVAPS_LD :: u32 where "LIBXSMM_X86_INSTR_MOVAPS_LD \<equiv> 0xa0041028"
abbreviation (input) LIBXSMM_X86_INSTR_MOVUPS_LD :: u32 where "LIBXSMM_X86_INSTR_MOVUPS_LD \<equiv> 0xa0041010"
abbreviation (input) LIBXSMM_X86_INSTR_MOVSS_LD :: u32 where "LIBXSMM_X86_INSTR_MOVSS_LD \<equiv> 0xa0061010"
abbreviation (input) LIBXSMM_X86_INSTR_MOVAPS_ST :: u32 where "LIBXSMM_X86_INSTR_MOVAPS_ST \<equiv> 0xa8041029"
abbreviation (input) LIBXSMM_X86_INSTR_MOVUPS_ST :: u32 where "LIBXSMM_X86_INSTR_MOVUPS_ST \<equiv> 0xa8041011"
abbreviation (input) LIBXSMM_X86_INSTR_MOVSS_ST :: u32 where "LIBXSMM_X86_INSTR_MOVSS_ST \<equiv> 0xa8061011"
abbreviation (input) LIBXSMM_X86_INSTR_ANDPS :: u32 where "LIBXSMM_X86_INSTR_ANDPS \<equiv> 0xa0041054"
abbreviation (input) LIBXSMM_X86_INSTR_ANDNPS :: u32 where "LIBXSMM_X86_INSTR_ANDNPS \<equiv> 0xa0041055"
abbreviation (input) LIBXSMM_X86_INSTR_ORPS :: u32 where "LIBXSMM_X86_INSTR_ORPS \<equiv> 0xa0041056"
abbreviation (input) LIBXSMM_X86_INSTR_XORPS :: u32 where "LIBXSMM_X86_INSTR_XORPS \<equiv> 0xa0041057"
abbreviation (input) LIBXSMM_X86_INSTR_MULPS :: u32 where "LIBXSMM_X86_INSTR_MULPS \<equiv> 0xa0041059"
abbreviation (input) LIBXSMM_X86_INSTR_ADDPS :: u32 where "LIBXSMM_X86_INSTR_ADDPS \<equiv> 0xa0041058"
abbreviation (input) LIBXSMM_X86_INSTR_SUBPS :: u32 where "LIBXSMM_X86_INSTR_SUBPS \<equiv> 0xa004105c"
abbreviation (input) LIBXSMM_X86_INSTR_DIVPS :: u32 where "LIBXSMM_X86_INSTR_DIVPS \<equiv> 0xa004105e"
abbreviation (input) LIBXSMM_X86_INSTR_RCPPS :: u32 where "LIBXSMM_X86_INSTR_RCPPS \<equiv> 0xa0041053"
abbreviation (input) LIBXSMM_X86_INSTR_SQRTPS :: u32 where "LIBXSMM_X86_INSTR_SQRTPS \<equiv> 0xa0041051"
abbreviation (input) LIBXSMM_X86_INSTR_MAXPS :: u32 where "LIBXSMM_X86_INSTR_MAXPS \<equiv> 0xa004105f"
abbreviation (input) LIBXSMM_X86_INSTR_MINPS :: u32 where "LIBXSMM_X86_INSTR_MINPS \<equiv> 0xa004105d"
abbreviation (input) LIBXSMM_X86_INSTR_RSQRTPS :: u32 where "LIBXSMM_X86_INSTR_RSQRTPS \<equiv> 0xa0041052"
abbreviation (input) LIBXSMM_X86_INSTR_CMPPS :: u32 where "LIBXSMM_X86_INSTR_CMPPS \<equiv> 0xa00c10c2"
abbreviation (input) LIBXSMM_X86_INSTR_SHUFPS :: u32 where "LIBXSMM_X86_INSTR_SHUFPS \<equiv> 0xa00c10c6"
abbreviation (input) LIBXSMM_X86_INSTR_UNPCKHPS :: u32 where "LIBXSMM_X86_INSTR_UNPCKHPS \<equiv> 0xa0041015"
abbreviation (input) LIBXSMM_X86_INSTR_UNPCKLPS :: u32 where "LIBXSMM_X86_INSTR_UNPCKLPS \<equiv> 0xa0041014"
abbreviation (input) LIBXSMM_X86_INSTR_MULSS :: u32 where "LIBXSMM_X86_INSTR_MULSS \<equiv> 0xa0061059"
abbreviation (input) LIBXSMM_X86_INSTR_ADDSS :: u32 where "LIBXSMM_X86_INSTR_ADDSS \<equiv> 0xa0061058"
abbreviation (input) LIBXSMM_X86_INSTR_SUBSS :: u32 where "LIBXSMM_X86_INSTR_SUBSS \<equiv> 0xa006105c"
abbreviation (input) LIBXSMM_X86_INSTR_DIVSS :: u32 where "LIBXSMM_X86_INSTR_DIVSS \<equiv> 0xa006105e"
abbreviation (input) LIBXSMM_X86_INSTR_RCPSS :: u32 where "LIBXSMM_X86_INSTR_RCPSS \<equiv> 0xa0061053"
abbreviation (input) LIBXSMM_X86_INSTR_SQRTSS :: u32 where "LIBXSMM_X86_INSTR_SQRTSS \<equiv> 0xa0061051"
abbreviation (input) LIBXSMM_X86_INSTR_MAXSS :: u32 where "LIBXSMM_X86_INSTR_MAXSS \<equiv> 0xa006105f"
abbreviation (input) LIBXSMM_X86_INSTR_MINSS :: u32 where "LIBXSMM_X86_INSTR_MINSS \<equiv> 0xa006105d"
abbreviation (input) LIBXSMM_X86_INSTR_RSQRTSS :: u32 where "LIBXSMM_X86_INSTR_RSQRTSS \<equiv> 0xa0061052"
abbreviation (input) LIBXSMM_X86_INSTR_CMPSS :: u32 where "LIBXSMM_X86_INSTR_CMPSS \<equiv> 0xa00e10c2"
abbreviation (input) LIBXSMM_X86_INSTR_COMISS :: u32 where "LIBXSMM_X86_INSTR_COMISS \<equiv> 0xa004102f"
abbreviation (input) LIBXSMM_X86_INSTR_UCOMISS :: u32 where "LIBXSMM_X86_INSTR_UCOMISS \<equiv> 0xa004102e"
abbreviation (input) LIBXSMM_X86_INSTR_MOVAPD_LD :: u32 where "LIBXSMM_X86_INSTR_MOVAPD_LD \<equiv> 0xa0051028"
abbreviation (input) LIBXSMM_X86_INSTR_MOVUPD_LD :: u32 where "LIBXSMM_X86_INSTR_MOVUPD_LD \<equiv> 0xa0051010"
abbreviation (input) LIBXSMM_X86_INSTR_MOVSD_LD :: u32 where "LIBXSMM_X86_INSTR_MOVSD_LD \<equiv> 0xa0071010"
abbreviation (input) LIBXSMM_X86_INSTR_MOVAPD_ST :: u32 where "LIBXSMM_X86_INSTR_MOVAPD_ST \<equiv> 0xa8051029"
abbreviation (input) LIBXSMM_X86_INSTR_MOVUPD_ST :: u32 where "LIBXSMM_X86_INSTR_MOVUPD_ST \<equiv> 0xa8051011"
abbreviation (input) LIBXSMM_X86_INSTR_MOVSD_ST :: u32 where "LIBXSMM_X86_INSTR_MOVSD_ST \<equiv> 0xa8071011"
abbreviation (input) LIBXSMM_X86_INSTR_ANDPD :: u32 where "LIBXSMM_X86_INSTR_ANDPD \<equiv> 0xa0051054"
abbreviation (input) LIBXSMM_X86_INSTR_ANDNPD :: u32 where "LIBXSMM_X86_INSTR_ANDNPD \<equiv> 0xa0051055"
abbreviation (input) LIBXSMM_X86_INSTR_ORPD :: u32 where "LIBXSMM_X86_INSTR_ORPD \<equiv> 0xa0051056"
abbreviation (input) LIBXSMM_X86_INSTR_XORPD :: u32 where "LIBXSMM_X86_INSTR_XORPD \<equiv> 0xa0051057"
abbreviation (input) LIBXSMM_X86_INSTR_MULPD :: u32 where "LIBXSMM_X86_INSTR_MULPD \<equiv> 0xa0051059"
abbreviation (input) LIBXSMM_X86_INSTR_ADDPD :: u32 where "LIBXSMM_X86_INSTR_ADDPD \<equiv> 0xa0051058"
abbreviation (input) LIBXSMM_X86_INSTR_SUBPD :: u32 where "LIBXSMM_X86_INSTR_SUBPD \<equiv> 0xa005105c"
abbreviation (input) LIBXSMM_X86_INSTR_DIVPD :: u32 where "LIBXSMM_X86_INSTR_DIVPD \<equiv> 0xa005105e"
abbreviation (input) LIBXSMM_X86_INSTR_RCPPD :: u32 where "LIBXSMM_X86_INSTR_RCPPD \<equiv> 0xa0051053"
abbreviation (input) LIBXSMM_X86_INSTR_SQRTPD :: u32 where "LIBXSMM_X86_INSTR_SQRTPD \<equiv> 0xa0051051"
abbreviation (input) LIBXSMM_X86_INSTR_MAXPD :: u32 where "LIBXSMM_X86_INSTR_MAXPD \<equiv> 0xa005105f"
abbreviation (input) LIBXSMM_X86_INSTR_MINPD :: u32 where "LIBXSMM_X86_INSTR_MINPD \<equiv> 0xa005105d"
abbreviation (input) LIBXSMM_X86_INSTR_RSQRTPD :: u32 where "LIBXSMM_X86_INSTR_RSQRTPD \<equiv> 0xa0051052"
abbreviation (input) LIBXSMM_X86_INSTR_CMPPD :: u32 where "LIBXSMM_X86_INSTR_CMPPD \<equiv> 0xa00d10c2"
abbreviation (input) LIBXSMM_X86_INSTR_SHUFPD :: u32 where "LIBXSMM_X86_INSTR_SHUFPD \<equiv> 0xa00d10c6"
abbreviation (input) LIBXSMM_X86_INSTR_UNPCKHPD :: u32 where "LIBXSMM_X86_INSTR_UNPCKHPD \<equiv> 0xa0051015"
abbreviation (input) LIBXSMM_X86_INSTR_UNPCKLPD :: u32 where "LIBXSMM_X86_INSTR_UNPCKLPD \<equiv> 0xa0051014"
abbreviation (input) LIBXSMM_X86_INSTR_MULSD :: u32 where "LIBXSMM_X86_INSTR_MULSD \<equiv> 0xa0071059"
abbreviation (input) LIBXSMM_X86_INSTR_ADDSD :: u32 where "LIBXSMM_X86_INSTR_ADDSD \<equiv> 0xa0071058"
abbreviation (input) LIBXSMM_X86_INSTR_SUBSD :: u32 where "LIBXSMM_X86_INSTR_SUBSD \<equiv> 0xa007105c"
abbreviation (input) LIBXSMM_X86_INSTR_DIVSD :: u32 where "LIBXSMM_X86_INSTR_DIVSD \<equiv> 0xa007105e"
abbreviation (input) LIBXSMM_X86_INSTR_RCPSD :: u32 where "LIBXSMM_X86_INSTR_RCPSD \<equiv> 0xa0071053"
abbreviation (input) LIBXSMM_X86_INSTR_SQRTSD :: u32 where "LIBXSMM_X86_INSTR_SQRTSD \<equiv> 0xa0071051"
abbreviation (input) LIBXSMM_X86_INSTR_MAXSD :: u32 where "LIBXSMM_X86_INSTR_MAXSD \<equiv> 0xa007105f"
abbreviation (input) LIBXSMM_X86_INSTR_MINSD :: u32 where "LIBXSMM_X86_INSTR_MINSD \<equiv> 0xa007105d"
abbreviation (input) LIBXSMM_X86_INSTR_RSQRTSD :: u32 where "LIBXSMM_X86_INSTR_RSQRTSD \<equiv> 0xa0071052"
abbreviation (input) LIBXSMM_X86_INSTR_CMPSD :: u32 where "LIBXSMM_X86_INSTR_CMPSD \<equiv> 0xa00f10c2"
abbreviation (input) LIBXSMM_X86_INSTR_COMISD :: u32 where "LIBXSMM_X86_INSTR_COMISD \<equiv> 0xa005102f"
abbreviation (input) LIBXSMM_X86_INSTR_UCOMISD :: u32 where "LIBXSMM_X86_INSTR_UCOMISD \<equiv> 0xa005102e"
abbreviation (input) LIBXSMM_X86_INSTR_MOVD_SSE_LD :: u32 where "LIBXSMM_X86_INSTR_MOVD_SSE_LD \<equiv> 0xa005106e"
abbreviation (input) LIBXSMM_X86_INSTR_MOVD_SSE_ST :: u32 where "LIBXSMM_X86_INSTR_MOVD_SSE_ST \<equiv> 0xa005107e"
abbreviation (input) LIBXSMM_X86_INSTR_MOVQ_SSE_LD :: u32 where "LIBXSMM_X86_INSTR_MOVQ_SSE_LD \<equiv> 0xa285106e"
abbreviation (input) LIBXSMM_X86_INSTR_MOVQ_SSE_ST :: u32 where "LIBXSMM_X86_INSTR_MOVQ_SSE_ST \<equiv> 0xa285107e"
abbreviation (input) LIBXSMM_X86_INSTR_MOVDQA_LD :: u32 where "LIBXSMM_X86_INSTR_MOVDQA_LD \<equiv> 0xa005106f"
abbreviation (input) LIBXSMM_X86_INSTR_MOVDQA_ST :: u32 where "LIBXSMM_X86_INSTR_MOVDQA_ST \<equiv> 0xa805107f"
abbreviation (input) LIBXSMM_X86_INSTR_MOVDQU_LD :: u32 where "LIBXSMM_X86_INSTR_MOVDQU_LD \<equiv> 0xa006106f"
abbreviation (input) LIBXSMM_X86_INSTR_MOVDQU_ST :: u32 where "LIBXSMM_X86_INSTR_MOVDQU_ST \<equiv> 0xa806107f"
abbreviation (input) LIBXSMM_X86_INSTR_MOVDDUP :: u32 where "LIBXSMM_X86_INSTR_MOVDDUP \<equiv> 0xa0071012"
abbreviation (input) LIBXSMM_X86_INSTR_MOVSHDUP :: u32 where "LIBXSMM_X86_INSTR_MOVSHDUP \<equiv> 0xa0061016"
abbreviation (input) LIBXSMM_X86_INSTR_MOVSLDUP :: u32 where "LIBXSMM_X86_INSTR_MOVSLDUP \<equiv> 0xa0061012"
abbreviation (input) LIBXSMM_X86_INSTR_PAND :: u32 where "LIBXSMM_X86_INSTR_PAND \<equiv> 0xa00510db"
abbreviation (input) LIBXSMM_X86_INSTR_PANDN :: u32 where "LIBXSMM_X86_INSTR_PANDN \<equiv> 0xa00510df"
abbreviation (input) LIBXSMM_X86_INSTR_POR :: u32 where "LIBXSMM_X86_INSTR_POR \<equiv> 0xa00510eb"
abbreviation (input) LIBXSMM_X86_INSTR_PXOR :: u32 where "LIBXSMM_X86_INSTR_PXOR \<equiv> 0xa00510ef"
abbreviation (input) LIBXSMM_X86_INSTR_PACKSSWB :: u32 where "LIBXSMM_X86_INSTR_PACKSSWB \<equiv> 0xa0051063"
abbreviation (input) LIBXSMM_X86_INSTR_PACKSSDW :: u32 where "LIBXSMM_X86_INSTR_PACKSSDW \<equiv> 0xa005106b"
abbreviation (input) LIBXSMM_X86_INSTR_PACKUSWB :: u32 where "LIBXSMM_X86_INSTR_PACKUSWB \<equiv> 0xa0051067"
abbreviation (input) LIBXSMM_X86_INSTR_PADDB :: u32 where "LIBXSMM_X86_INSTR_PADDB \<equiv> 0xa00510fc"
abbreviation (input) LIBXSMM_X86_INSTR_PADDW :: u32 where "LIBXSMM_X86_INSTR_PADDW \<equiv> 0xa00510fd"
abbreviation (input) LIBXSMM_X86_INSTR_PADDD :: u32 where "LIBXSMM_X86_INSTR_PADDD \<equiv> 0xa00510fe"
abbreviation (input) LIBXSMM_X86_INSTR_PADDQ :: u32 where "LIBXSMM_X86_INSTR_PADDQ \<equiv> 0xa00510d4"
abbreviation (input) LIBXSMM_X86_INSTR_PADDSB :: u32 where "LIBXSMM_X86_INSTR_PADDSB \<equiv> 0xa00510ec"
abbreviation (input) LIBXSMM_X86_INSTR_PADDSW :: u32 where "LIBXSMM_X86_INSTR_PADDSW \<equiv> 0xa00510ed"
abbreviation (input) LIBXSMM_X86_INSTR_PADDUSB :: u32 where "LIBXSMM_X86_INSTR_PADDUSB \<equiv> 0xa00510dc"
abbreviation (input) LIBXSMM_X86_INSTR_PADDUSW :: u32 where "LIBXSMM_X86_INSTR_PADDUSW \<equiv> 0xa00510dd"
abbreviation (input) LIBXSMM_X86_INSTR_PAVGB :: u32 where "LIBXSMM_X86_INSTR_PAVGB \<equiv> 0xa00510e0"
abbreviation (input) LIBXSMM_X86_INSTR_PAVGW :: u32 where "LIBXSMM_X86_INSTR_PAVGW \<equiv> 0xa00510e3"
abbreviation (input) LIBXSMM_X86_INSTR_PCMPEQB :: u32 where "LIBXSMM_X86_INSTR_PCMPEQB \<equiv> 0xa0051074"
abbreviation (input) LIBXSMM_X86_INSTR_PCMPEQW :: u32 where "LIBXSMM_X86_INSTR_PCMPEQW \<equiv> 0xa0051075"
abbreviation (input) LIBXSMM_X86_INSTR_PCMPEQD :: u32 where "LIBXSMM_X86_INSTR_PCMPEQD \<equiv> 0xa0051076"
abbreviation (input) LIBXSMM_X86_INSTR_PCMPGTB :: u32 where "LIBXSMM_X86_INSTR_PCMPGTB \<equiv> 0xa0051064"
abbreviation (input) LIBXSMM_X86_INSTR_PCMPGTW :: u32 where "LIBXSMM_X86_INSTR_PCMPGTW \<equiv> 0xa0051065"
abbreviation (input) LIBXSMM_X86_INSTR_PCMPGTD :: u32 where "LIBXSMM_X86_INSTR_PCMPGTD \<equiv> 0xa0051066"
abbreviation (input) LIBXSMM_X86_INSTR_PEXTRW :: u32 where "LIBXSMM_X86_INSTR_PEXTRW \<equiv> 0xa00d10c5"
abbreviation (input) LIBXSMM_X86_INSTR_PINSRW :: u32 where "LIBXSMM_X86_INSTR_PINSRW \<equiv> 0xa00d10c4"
abbreviation (input) LIBXSMM_X86_INSTR_PMADDWD :: u32 where "LIBXSMM_X86_INSTR_PMADDWD \<equiv> 0xa00510f5"
abbreviation (input) LIBXSMM_X86_INSTR_PMAXSW :: u32 where "LIBXSMM_X86_INSTR_PMAXSW \<equiv> 0xa00510ee"
abbreviation (input) LIBXSMM_X86_INSTR_PMAXUB :: u32 where "LIBXSMM_X86_INSTR_PMAXUB \<equiv> 0xa00510de"
abbreviation (input) LIBXSMM_X86_INSTR_PMINSW :: u32 where "LIBXSMM_X86_INSTR_PMINSW \<equiv> 0xa00510ea"
abbreviation (input) LIBXSMM_X86_INSTR_PMINUB :: u32 where "LIBXSMM_X86_INSTR_PMINUB \<equiv> 0xa00510da"
abbreviation (input) LIBXSMM_X86_INSTR_PMULHUW :: u32 where "LIBXSMM_X86_INSTR_PMULHUW \<equiv> 0xa00510e4"
abbreviation (input) LIBXSMM_X86_INSTR_PMULHW :: u32 where "LIBXSMM_X86_INSTR_PMULHW \<equiv> 0xa00510e5"
abbreviation (input) LIBXSMM_X86_INSTR_PMULLW :: u32 where "LIBXSMM_X86_INSTR_PMULLW \<equiv> 0xa00510d5"
abbreviation (input) LIBXSMM_X86_INSTR_PMULUDQ :: u32 where "LIBXSMM_X86_INSTR_PMULUDQ \<equiv> 0xa00510f4"
abbreviation (input) LIBXSMM_X86_INSTR_PSADBW :: u32 where "LIBXSMM_X86_INSTR_PSADBW \<equiv> 0xa00510f6"
abbreviation (input) LIBXSMM_X86_INSTR_PSHUFD :: u32 where "LIBXSMM_X86_INSTR_PSHUFD \<equiv> 0xa00d1070"
abbreviation (input) LIBXSMM_X86_INSTR_PSHUFHW :: u32 where "LIBXSMM_X86_INSTR_PSHUFHW \<equiv> 0xa00e1070"
abbreviation (input) LIBXSMM_X86_INSTR_PSHUFLW :: u32 where "LIBXSMM_X86_INSTR_PSHUFLW \<equiv> 0xa00f1070"
abbreviation (input) LIBXSMM_X86_INSTR_PSLLW :: u32 where "LIBXSMM_X86_INSTR_PSLLW \<equiv> 0xa00510f1"
abbreviation (input) LIBXSMM_X86_INSTR_PSLLD :: u32 where "LIBXSMM_X86_INSTR_PSLLD \<equiv> 0xa00510f2"
abbreviation (input) LIBXSMM_X86_INSTR_PSLLQ :: u32 where "LIBXSMM_X86_INSTR_PSLLQ \<equiv> 0xa00510f3"
abbreviation (input) LIBXSMM_X86_INSTR_PSRAW :: u32 where "LIBXSMM_X86_INSTR_PSRAW \<equiv> 0xa00510e1"
abbreviation (input) LIBXSMM_X86_INSTR_PSRAD :: u32 where "LIBXSMM_X86_INSTR_PSRAD \<equiv> 0xa00510e2"
abbreviation (input) LIBXSMM_X86_INSTR_PSRLW :: u32 where "LIBXSMM_X86_INSTR_PSRLW \<equiv> 0xa00510d1"
abbreviation (input) LIBXSMM_X86_INSTR_PSRLD :: u32 where "LIBXSMM_X86_INSTR_PSRLD \<equiv> 0xa00510d2"
abbreviation (input) LIBXSMM_X86_INSTR_PSRLQ :: u32 where "LIBXSMM_X86_INSTR_PSRLQ \<equiv> 0xa00510d3"
abbreviation (input) LIBXSMM_X86_INSTR_PSUBB :: u32 where "LIBXSMM_X86_INSTR_PSUBB \<equiv> 0xa00510f8"
abbreviation (input) LIBXSMM_X86_INSTR_PSUBW :: u32 where "LIBXSMM_X86_INSTR_PSUBW \<equiv> 0xa00510f9"
abbreviation (input) LIBXSMM_X86_INSTR_PSUBD :: u32 where "LIBXSMM_X86_INSTR_PSUBD \<equiv> 0xa00510fa"
abbreviation (input) LIBXSMM_X86_INSTR_PSUBQ :: u32 where "LIBXSMM_X86_INSTR_PSUBQ \<equiv> 0xa00510fb"
abbreviation (input) LIBXSMM_X86_INSTR_PSUBSB :: u32 where "LIBXSMM_X86_INSTR_PSUBSB \<equiv> 0xa00510e8"
abbreviation (input) LIBXSMM_X86_INSTR_PSUBSW :: u32 where "LIBXSMM_X86_INSTR_PSUBSW \<equiv> 0xa00510e9"
abbreviation (input) LIBXSMM_X86_INSTR_PSUBUSB :: u32 where "LIBXSMM_X86_INSTR_PSUBUSB \<equiv> 0xa00510d8"
abbreviation (input) LIBXSMM_X86_INSTR_PSUBUSW :: u32 where "LIBXSMM_X86_INSTR_PSUBUSW \<equiv> 0xa00510d9"
abbreviation (input) LIBXSMM_X86_INSTR_PUNPCKHBW :: u32 where "LIBXSMM_X86_INSTR_PUNPCKHBW \<equiv> 0xa0051068"
abbreviation (input) LIBXSMM_X86_INSTR_PUNPCKHWD :: u32 where "LIBXSMM_X86_INSTR_PUNPCKHWD \<equiv> 0xa0051069"
abbreviation (input) LIBXSMM_X86_INSTR_PUNPCKHDQ :: u32 where "LIBXSMM_X86_INSTR_PUNPCKHDQ \<equiv> 0xa005106a"
abbreviation (input) LIBXSMM_X86_INSTR_PUNPCKHQDQ :: u32 where "LIBXSMM_X86_INSTR_PUNPCKHQDQ \<equiv> 0xa005106d"
abbreviation (input) LIBXSMM_X86_INSTR_PUNPCKLBW :: u32 where "LIBXSMM_X86_INSTR_PUNPCKLBW \<equiv> 0xa0051060"
abbreviation (input) LIBXSMM_X86_INSTR_PUNPCKLWD :: u32 where "LIBXSMM_X86_INSTR_PUNPCKLWD \<equiv> 0xa0051061"
abbreviation (input) LIBXSMM_X86_INSTR_PUNPCKLDQ :: u32 where "LIBXSMM_X86_INSTR_PUNPCKLDQ \<equiv> 0xa0051062"
abbreviation (input) LIBXSMM_X86_INSTR_PUNPCKLQDQ :: u32 where "LIBXSMM_X86_INSTR_PUNPCKLQDQ \<equiv> 0xa005106c"
abbreviation (input) LIBXSMM_X86_INSTR_CVTDQ2PD :: u32 where "LIBXSMM_X86_INSTR_CVTDQ2PD \<equiv> 0xa00610e6"
abbreviation (input) LIBXSMM_X86_INSTR_CVTDQ2PS :: u32 where "LIBXSMM_X86_INSTR_CVTDQ2PS \<equiv> 0xa004105b"
abbreviation (input) LIBXSMM_X86_INSTR_CVTPD2DQ :: u32 where "LIBXSMM_X86_INSTR_CVTPD2DQ \<equiv> 0xa00710e6"
abbreviation (input) LIBXSMM_X86_INSTR_CVTPD2PS :: u32 where "LIBXSMM_X86_INSTR_CVTPD2PS \<equiv> 0xa005105a"
abbreviation (input) LIBXSMM_X86_INSTR_CVTPS2DQ :: u32 where "LIBXSMM_X86_INSTR_CVTPS2DQ \<equiv> 0xa005105b"
abbreviation (input) LIBXSMM_X86_INSTR_CVTPS2PD :: u32 where "LIBXSMM_X86_INSTR_CVTPS2PD \<equiv> 0xa004105a"
abbreviation (input) LIBXSMM_X86_INSTR_CVTSD2SS :: u32 where "LIBXSMM_X86_INSTR_CVTSD2SS \<equiv> 0xa007105a"
abbreviation (input) LIBXSMM_X86_INSTR_CVTSS2SD :: u32 where "LIBXSMM_X86_INSTR_CVTSS2SD \<equiv> 0xa006105a"
abbreviation (input) LIBXSMM_X86_INSTR_CVTTPD2DQ :: u32 where "LIBXSMM_X86_INSTR_CVTTPD2DQ \<equiv> 0xa00510e6"
abbreviation (input) LIBXSMM_X86_INSTR_CVTTPS2DQ :: u32 where "LIBXSMM_X86_INSTR_CVTTPS2DQ \<equiv> 0xa006105b"
abbreviation (input) LIBXSMM_X86_INSTR_ADDSUBPD :: u32 where "LIBXSMM_X86_INSTR_ADDSUBPD \<equiv> 0xa00510d0"
abbreviation (input) LIBXSMM_X86_INSTR_ADDSUBPS :: u32 where "LIBXSMM_X86_INSTR_ADDSUBPS \<equiv> 0xa00710d0"
abbreviation (input) LIBXSMM_X86_INSTR_HADDPD :: u32 where "LIBXSMM_X86_INSTR_HADDPD \<equiv> 0xa005107c"
abbreviation (input) LIBXSMM_X86_INSTR_HADDPS :: u32 where "LIBXSMM_X86_INSTR_HADDPS \<equiv> 0xa007107c"
abbreviation (input) LIBXSMM_X86_INSTR_HSUBPD :: u32 where "LIBXSMM_X86_INSTR_HSUBPD \<equiv> 0xa005107d"
abbreviation (input) LIBXSMM_X86_INSTR_HSUBPS :: u32 where "LIBXSMM_X86_INSTR_HSUBPS \<equiv> 0xa007107d"
abbreviation (input) LIBXSMM_X86_INSTR_PABSB :: u32 where "LIBXSMM_X86_INSTR_PABSB \<equiv> 0xa005201c"
abbreviation (input) LIBXSMM_X86_INSTR_PABSW :: u32 where "LIBXSMM_X86_INSTR_PABSW \<equiv> 0xa005201d"
abbreviation (input) LIBXSMM_X86_INSTR_PABSD :: u32 where "LIBXSMM_X86_INSTR_PABSD \<equiv> 0xa005201e"
abbreviation (input) LIBXSMM_X86_INSTR_PALIGNR :: u32 where "LIBXSMM_X86_INSTR_PALIGNR \<equiv> 0xa00d300f"
abbreviation (input) LIBXSMM_X86_INSTR_PHADDW :: u32 where "LIBXSMM_X86_INSTR_PHADDW \<equiv> 0xa0052001"
abbreviation (input) LIBXSMM_X86_INSTR_PHADDD :: u32 where "LIBXSMM_X86_INSTR_PHADDD \<equiv> 0xa0052002"
abbreviation (input) LIBXSMM_X86_INSTR_PHADDSW :: u32 where "LIBXSMM_X86_INSTR_PHADDSW \<equiv> 0xa0052003"
abbreviation (input) LIBXSMM_X86_INSTR_PHSUBW :: u32 where "LIBXSMM_X86_INSTR_PHSUBW \<equiv> 0xa0052005"
abbreviation (input) LIBXSMM_X86_INSTR_PHSUBD :: u32 where "LIBXSMM_X86_INSTR_PHSUBD \<equiv> 0xa0052006"
abbreviation (input) LIBXSMM_X86_INSTR_PHSUBSW :: u32 where "LIBXSMM_X86_INSTR_PHSUBSW \<equiv> 0xa0052007"
abbreviation (input) LIBXSMM_X86_INSTR_PMADDUBSW :: u32 where "LIBXSMM_X86_INSTR_PMADDUBSW \<equiv> 0xa0052004"
abbreviation (input) LIBXSMM_X86_INSTR_PMULHRSW :: u32 where "LIBXSMM_X86_INSTR_PMULHRSW \<equiv> 0xa005200b"
abbreviation (input) LIBXSMM_X86_INSTR_PSHUFB :: u32 where "LIBXSMM_X86_INSTR_PSHUFB \<equiv> 0xa0052000"
abbreviation (input) LIBXSMM_X86_INSTR_PSIGNB :: u32 where "LIBXSMM_X86_INSTR_PSIGNB \<equiv> 0xa0052008"
abbreviation (input) LIBXSMM_X86_INSTR_PSIGNW :: u32 where "LIBXSMM_X86_INSTR_PSIGNW \<equiv> 0xa0052009"
abbreviation (input) LIBXSMM_X86_INSTR_PSIGND :: u32 where "LIBXSMM_X86_INSTR_PSIGND \<equiv> 0xa005200a"
abbreviation (input) LIBXSMM_X86_INSTR_BLENDPD :: u32 where "LIBXSMM_X86_INSTR_BLENDPD \<equiv> 0xa00d300d"
abbreviation (input) LIBXSMM_X86_INSTR_BLENDPS :: u32 where "LIBXSMM_X86_INSTR_BLENDPS \<equiv> 0xa00d300c"
abbreviation (input) LIBXSMM_X86_INSTR_BLENDVPD :: u32 where "LIBXSMM_X86_INSTR_BLENDVPD \<equiv> 0xa0052015"
abbreviation (input) LIBXSMM_X86_INSTR_BLENDVPS :: u32 where "LIBXSMM_X86_INSTR_BLENDVPS \<equiv> 0xa0052014"
abbreviation (input) LIBXSMM_X86_INSTR_DPPD :: u32 where "LIBXSMM_X86_INSTR_DPPD \<equiv> 0xa00d3041"
abbreviation (input) LIBXSMM_X86_INSTR_DPPS :: u32 where "LIBXSMM_X86_INSTR_DPPS \<equiv> 0xa00d3040"
abbreviation (input) LIBXSMM_X86_INSTR_EXTRACTPS :: u32 where "LIBXSMM_X86_INSTR_EXTRACTPS \<equiv> 0xa00d3017"
abbreviation (input) LIBXSMM_X86_INSTR_INSERTPS :: u32 where "LIBXSMM_X86_INSTR_INSERTPS \<equiv> 0xa00d3021"
abbreviation (input) LIBXSMM_X86_INSTR_ROUNDPD :: u32 where "LIBXSMM_X86_INSTR_ROUNDPD \<equiv> 0xa00d3009"
abbreviation (input) LIBXSMM_X86_INSTR_ROUNDPS :: u32 where "LIBXSMM_X86_INSTR_ROUNDPS \<equiv> 0xa00d3008"
abbreviation (input) LIBXSMM_X86_INSTR_ROUNDSD :: u32 where "LIBXSMM_X86_INSTR_ROUNDSD \<equiv> 0xa00d300b"
abbreviation (input) LIBXSMM_X86_INSTR_ROUNDSS :: u32 where "LIBXSMM_X86_INSTR_ROUNDSS \<equiv> 0xa00d300a"
abbreviation (input) LIBXSMM_X86_INSTR_PBLENDW :: u32 where "LIBXSMM_X86_INSTR_PBLENDW \<equiv> 0xa00d300e"
abbreviation (input) LIBXSMM_X86_INSTR_PBLENDVB :: u32 where "LIBXSMM_X86_INSTR_PBLENDVB \<equiv> 0xa0052010"
abbreviation (input) LIBXSMM_X86_INSTR_PCMPEQQ :: u32 where "LIBXSMM_X86_INSTR_PCMPEQQ \<equiv> 0xa0052029"
abbreviation (input) LIBXSMM_X86_INSTR_PMOVSXBW :: u32 where "LIBXSMM_X86_INSTR_PMOVSXBW \<equiv> 0xa0052020"
abbreviation (input) LIBXSMM_X86_INSTR_PMOVSXBD :: u32 where "LIBXSMM_X86_INSTR_PMOVSXBD \<equiv> 0xa0052021"
abbreviation (input) LIBXSMM_X86_INSTR_PMOVSXBQ :: u32 where "LIBXSMM_X86_INSTR_PMOVSXBQ \<equiv> 0xa0052022"
abbreviation (input) LIBXSMM_X86_INSTR_PMOVSXWD :: u32 where "LIBXSMM_X86_INSTR_PMOVSXWD \<equiv> 0xa0052023"
abbreviation (input) LIBXSMM_X86_INSTR_PMOVSXWQ :: u32 where "LIBXSMM_X86_INSTR_PMOVSXWQ \<equiv> 0xa0052024"
abbreviation (input) LIBXSMM_X86_INSTR_PMOVSXDQ :: u32 where "LIBXSMM_X86_INSTR_PMOVSXDQ \<equiv> 0xa0052025"
abbreviation (input) LIBXSMM_X86_INSTR_PMOVZXBW :: u32 where "LIBXSMM_X86_INSTR_PMOVZXBW \<equiv> 0xa0052030"
abbreviation (input) LIBXSMM_X86_INSTR_PMOVZXBD :: u32 where "LIBXSMM_X86_INSTR_PMOVZXBD \<equiv> 0xa0052031"
abbreviation (input) LIBXSMM_X86_INSTR_PMOVZXBQ :: u32 where "LIBXSMM_X86_INSTR_PMOVZXBQ \<equiv> 0xa0052032"
abbreviation (input) LIBXSMM_X86_INSTR_PMOVZXWD :: u32 where "LIBXSMM_X86_INSTR_PMOVZXWD \<equiv> 0xa0052033"
abbreviation (input) LIBXSMM_X86_INSTR_PMOVZXWQ :: u32 where "LIBXSMM_X86_INSTR_PMOVZXWQ \<equiv> 0xa0052034"
abbreviation (input) LIBXSMM_X86_INSTR_PMOVZXDQ :: u32 where "LIBXSMM_X86_INSTR_PMOVZXDQ \<equiv> 0xa0052035"
abbreviation (input) LIBXSMM_X86_INSTR_PEXTRB :: u32 where "LIBXSMM_X86_INSTR_PEXTRB \<equiv> 0xa80d3014"
abbreviation (input) LIBXSMM_X86_INSTR_PEXTRD :: u32 where "LIBXSMM_X86_INSTR_PEXTRD \<equiv> 0xa80d3016"
abbreviation (input) LIBXSMM_X86_INSTR_PEXTRQ :: u32 where "LIBXSMM_X86_INSTR_PEXTRQ \<equiv> 0xaa8d3016"
abbreviation (input) LIBXSMM_X86_INSTR_PHMINPOSUW :: u32 where "LIBXSMM_X86_INSTR_PHMINPOSUW \<equiv> 0xa0052041"
abbreviation (input) LIBXSMM_X86_INSTR_PINSRB :: u32 where "LIBXSMM_X86_INSTR_PINSRB \<equiv> 0xa00d3020"
abbreviation (input) LIBXSMM_X86_INSTR_PINSRD :: u32 where "LIBXSMM_X86_INSTR_PINSRD \<equiv> 0xa00d3022"
abbreviation (input) LIBXSMM_X86_INSTR_PINSRQ :: u32 where "LIBXSMM_X86_INSTR_PINSRQ \<equiv> 0xa28d3022"
abbreviation (input) LIBXSMM_X86_INSTR_PMAXSB :: u32 where "LIBXSMM_X86_INSTR_PMAXSB \<equiv> 0xa005203c"
abbreviation (input) LIBXSMM_X86_INSTR_PMAXSD :: u32 where "LIBXSMM_X86_INSTR_PMAXSD \<equiv> 0xa005203d"
abbreviation (input) LIBXSMM_X86_INSTR_PMAXUW :: u32 where "LIBXSMM_X86_INSTR_PMAXUW \<equiv> 0xa005203e"
abbreviation (input) LIBXSMM_X86_INSTR_PMAXUD :: u32 where "LIBXSMM_X86_INSTR_PMAXUD \<equiv> 0xa005203f"
abbreviation (input) LIBXSMM_X86_INSTR_PMINSB :: u32 where "LIBXSMM_X86_INSTR_PMINSB \<equiv> 0xa0052038"
abbreviation (input) LIBXSMM_X86_INSTR_PMINSD :: u32 where "LIBXSMM_X86_INSTR_PMINSD \<equiv> 0xa0052039"
abbreviation (input) LIBXSMM_X86_INSTR_PMINUW :: u32 where "LIBXSMM_X86_INSTR_PMINUW \<equiv> 0xa005203a"
abbreviation (input) LIBXSMM_X86_INSTR_PMINUD :: u32 where "LIBXSMM_X86_INSTR_PMINUD \<equiv> 0xa005203b"
abbreviation (input) LIBXSMM_X86_INSTR_MPSADBW :: u32 where "LIBXSMM_X86_INSTR_MPSADBW \<equiv> 0xa00d3042"
abbreviation (input) LIBXSMM_X86_INSTR_PMULDQ :: u32 where "LIBXSMM_X86_INSTR_PMULDQ \<equiv> 0xa0052028"
abbreviation (input) LIBXSMM_X86_INSTR_PMULLD :: u32 where "LIBXSMM_X86_INSTR_PMULLD \<equiv> 0xa0052040"
abbreviation (input) LIBXSMM_X86_INSTR_PACKUSDW :: u32 where "LIBXSMM_X86_INSTR_PACKUSDW \<equiv> 0xa005202b"
abbreviation (input) LIBXSMM_X86_INSTR_PTEST :: u32 where "LIBXSMM_X86_INSTR_PTEST \<equiv> 0xa0052017"
abbreviation (input) LIBXSMM_X86_INSTR_PCMPGTQ :: u32 where "LIBXSMM_X86_INSTR_PCMPGTQ \<equiv> 0xa0052037"
abbreviation (input) LIBXSMM_X86_INSTR_VBROADCASTSD :: u32 where "LIBXSMM_X86_INSTR_VBROADCASTSD \<equiv> 0x20852b19"
abbreviation (input) LIBXSMM_X86_INSTR_VBROADCASTSS :: u32 where "LIBXSMM_X86_INSTR_VBROADCASTSS \<equiv> 0x20052a18"
abbreviation (input) LIBXSMM_X86_INSTR_VBROADCASTSD_VEX :: u32 where "LIBXSMM_X86_INSTR_VBROADCASTSD_VEX \<equiv> 0x60052019"
abbreviation (input) LIBXSMM_X86_INSTR_VBROADCASTI32X2 :: u32 where "LIBXSMM_X86_INSTR_VBROADCASTI32X2 \<equiv> 0xe0052b59"
abbreviation (input) LIBXSMM_X86_INSTR_VPBROADCASTD :: u32 where "LIBXSMM_X86_INSTR_VPBROADCASTD \<equiv> 0x20052a58"
abbreviation (input) LIBXSMM_X86_INSTR_VPBROADCASTQ :: u32 where "LIBXSMM_X86_INSTR_VPBROADCASTQ \<equiv> 0xe0852b59"
abbreviation (input) LIBXSMM_X86_INSTR_VPBROADCASTQ_VEX :: u32 where "LIBXSMM_X86_INSTR_VPBROADCASTQ_VEX \<equiv> 0x60052059"
abbreviation (input) LIBXSMM_X86_INSTR_VPBROADCASTB :: u32 where "LIBXSMM_X86_INSTR_VPBROADCASTB \<equiv> 0x20052878"
abbreviation (input) LIBXSMM_X86_INSTR_VPBROADCASTW :: u32 where "LIBXSMM_X86_INSTR_VPBROADCASTW \<equiv> 0x20052979"
abbreviation (input) LIBXSMM_X86_INSTR_VADDPH :: u32 where "LIBXSMM_X86_INSTR_VADDPH \<equiv> 0xf1045658"
abbreviation (input) LIBXSMM_X86_INSTR_VADDSH :: u32 where "LIBXSMM_X86_INSTR_VADDSH \<equiv> 0xf0065958"
abbreviation (input) LIBXSMM_X86_INSTR_VCMPPH :: u32 where "LIBXSMM_X86_INSTR_VCMPPH \<equiv> 0xf10c36c2"
abbreviation (input) LIBXSMM_X86_INSTR_VCMPSH :: u32 where "LIBXSMM_X86_INSTR_VCMPSH \<equiv> 0xf00e39c2"
abbreviation (input) LIBXSMM_X86_INSTR_VDIVPH :: u32 where "LIBXSMM_X86_INSTR_VDIVPH \<equiv> 0xf104565e"
abbreviation (input) LIBXSMM_X86_INSTR_VDIVSH :: u32 where "LIBXSMM_X86_INSTR_VDIVSH \<equiv> 0xf006595e"
abbreviation (input) LIBXSMM_X86_INSTR_VFCMADDCPH :: u32 where "LIBXSMM_X86_INSTR_VFCMADDCPH \<equiv> 0xf0076656"
abbreviation (input) LIBXSMM_X86_INSTR_VFMADDCPH :: u32 where "LIBXSMM_X86_INSTR_VFMADDCPH \<equiv> 0xf0066656"
abbreviation (input) LIBXSMM_X86_INSTR_VFCMADDCSH :: u32 where "LIBXSMM_X86_INSTR_VFCMADDCSH \<equiv> 0xf0076a57"
abbreviation (input) LIBXSMM_X86_INSTR_VFMADDCSH :: u32 where "LIBXSMM_X86_INSTR_VFMADDCSH \<equiv> 0xf0066a57"
abbreviation (input) LIBXSMM_X86_INSTR_VFCMULCPH :: u32 where "LIBXSMM_X86_INSTR_VFCMULCPH \<equiv> 0xf00766d6"
abbreviation (input) LIBXSMM_X86_INSTR_VFMULCPH :: u32 where "LIBXSMM_X86_INSTR_VFMULCPH \<equiv> 0xf00666d6"
abbreviation (input) LIBXSMM_X86_INSTR_VFCMULCSH :: u32 where "LIBXSMM_X86_INSTR_VFCMULCSH \<equiv> 0xf0076ad7"
abbreviation (input) LIBXSMM_X86_INSTR_VFMULCSH :: u32 where "LIBXSMM_X86_INSTR_VFMULCSH \<equiv> 0xf0066ad7"
abbreviation (input) LIBXSMM_X86_INSTR_VFMADDSUB132PH :: u32 where "LIBXSMM_X86_INSTR_VFMADDSUB132PH \<equiv> 0xf1056696"
abbreviation (input) LIBXSMM_X86_INSTR_VFMADDSUB213PH :: u32 where "LIBXSMM_X86_INSTR_VFMADDSUB213PH \<equiv> 0xf10566a6"
abbreviation (input) LIBXSMM_X86_INSTR_VFMADDSUB231PH :: u32 where "LIBXSMM_X86_INSTR_VFMADDSUB231PH \<equiv> 0xf10566b6"
abbreviation (input) LIBXSMM_X86_INSTR_VFMSUBADD132PH :: u32 where "LIBXSMM_X86_INSTR_VFMSUBADD132PH \<equiv> 0xf1056697"
abbreviation (input) LIBXSMM_X86_INSTR_VFMSUBADD213PH :: u32 where "LIBXSMM_X86_INSTR_VFMSUBADD213PH \<equiv> 0xf10566a7"
abbreviation (input) LIBXSMM_X86_INSTR_VFMSUBADD231PH :: u32 where "LIBXSMM_X86_INSTR_VFMSUBADD231PH \<equiv> 0xf10566b7"
abbreviation (input) LIBXSMM_X86_INSTR_VFMADD132PH :: u32 where "LIBXSMM_X86_INSTR_VFMADD132PH \<equiv> 0xf1056698"
abbreviation (input) LIBXSMM_X86_INSTR_VFMADD213PH :: u32 where "LIBXSMM_X86_INSTR_VFMADD213PH \<equiv> 0xf10566a8"
abbreviation (input) LIBXSMM_X86_INSTR_VFMADD231PH :: u32 where "LIBXSMM_X86_INSTR_VFMADD231PH \<equiv> 0xf10566b8"
abbreviation (input) LIBXSMM_X86_INSTR_VFNMADD132PH :: u32 where "LIBXSMM_X86_INSTR_VFNMADD132PH \<equiv> 0xf105669c"
abbreviation (input) LIBXSMM_X86_INSTR_VFNMADD213PH :: u32 where "LIBXSMM_X86_INSTR_VFNMADD213PH \<equiv> 0xf10566ac"
abbreviation (input) LIBXSMM_X86_INSTR_VFNMADD231PH :: u32 where "LIBXSMM_X86_INSTR_VFNMADD231PH \<equiv> 0xf10566bc"
abbreviation (input) LIBXSMM_X86_INSTR_VFMADD132SH :: u32 where "LIBXSMM_X86_INSTR_VFMADD132SH \<equiv> 0xf0056999"
abbreviation (input) LIBXSMM_X86_INSTR_VFMADD213SH :: u32 where "LIBXSMM_X86_INSTR_VFMADD213SH \<equiv> 0xf00569a9"
abbreviation (input) LIBXSMM_X86_INSTR_VFMADD231SH :: u32 where "LIBXSMM_X86_INSTR_VFMADD231SH \<equiv> 0xf00569b9"
abbreviation (input) LIBXSMM_X86_INSTR_VFNMADD132SH :: u32 where "LIBXSMM_X86_INSTR_VFNMADD132SH \<equiv> 0xf005699d"
abbreviation (input) LIBXSMM_X86_INSTR_VFNMADD213SH :: u32 where "LIBXSMM_X86_INSTR_VFNMADD213SH \<equiv> 0xf00569ad"
abbreviation (input) LIBXSMM_X86_INSTR_VFNMADD231SH :: u32 where "LIBXSMM_X86_INSTR_VFNMADD231SH \<equiv> 0xf00569bd"
abbreviation (input) LIBXSMM_X86_INSTR_VFMSUB132PH :: u32 where "LIBXSMM_X86_INSTR_VFMSUB132PH \<equiv> 0xf105669a"
abbreviation (input) LIBXSMM_X86_INSTR_VFMSUB213PH :: u32 where "LIBXSMM_X86_INSTR_VFMSUB213PH \<equiv> 0xf10566aa"
abbreviation (input) LIBXSMM_X86_INSTR_VFMSUB231PH :: u32 where "LIBXSMM_X86_INSTR_VFMSUB231PH \<equiv> 0xf10566ba"
abbreviation (input) LIBXSMM_X86_INSTR_VFNMSUB132PH :: u32 where "LIBXSMM_X86_INSTR_VFNMSUB132PH \<equiv> 0xf105669e"
abbreviation (input) LIBXSMM_X86_INSTR_VFNMSUB213PH :: u32 where "LIBXSMM_X86_INSTR_VFNMSUB213PH \<equiv> 0xf10566ae"
abbreviation (input) LIBXSMM_X86_INSTR_VFNMSUB231PH :: u32 where "LIBXSMM_X86_INSTR_VFNMSUB231PH \<equiv> 0xf10566be"
abbreviation (input) LIBXSMM_X86_INSTR_VFMSUB132SH :: u32 where "LIBXSMM_X86_INSTR_VFMSUB132SH \<equiv> 0xf005699b"
abbreviation (input) LIBXSMM_X86_INSTR_VFMSUB213SH :: u32 where "LIBXSMM_X86_INSTR_VFMSUB213SH \<equiv> 0xf00569ab"
abbreviation (input) LIBXSMM_X86_INSTR_VFMSUB231SH :: u32 where "LIBXSMM_X86_INSTR_VFMSUB231SH \<equiv> 0xf00569bb"
abbreviation (input) LIBXSMM_X86_INSTR_VFNMSUB132SH :: u32 where "LIBXSMM_X86_INSTR_VFNMSUB132SH \<equiv> 0xf005699f"
abbreviation (input) LIBXSMM_X86_INSTR_VFNMSUB213SH :: u32 where "LIBXSMM_X86_INSTR_VFNMSUB213SH \<equiv> 0xf00569af"
abbreviation (input) LIBXSMM_X86_INSTR_VFNMSUB231SH :: u32 where "LIBXSMM_X86_INSTR_VFNMSUB231SH \<equiv> 0xf00569bf"
abbreviation (input) LIBXSMM_X86_INSTR_VPCLASSPH :: u32 where "LIBXSMM_X86_INSTR_VPCLASSPH \<equiv> 0xe10c3666"
abbreviation (input) LIBXSMM_X86_INSTR_VPCLASSSH :: u32 where "LIBXSMM_X86_INSTR_VPCLASSSH \<equiv> 0xe00c3967"
abbreviation (input) LIBXSMM_X86_INSTR_VGETEXPPH :: u32 where "LIBXSMM_X86_INSTR_VGETEXPPH \<equiv> 0xe1056642"
abbreviation (input) LIBXSMM_X86_INSTR_VGETEXPSH :: u32 where "LIBXSMM_X86_INSTR_VGETEXPSH \<equiv> 0xf0056943"
abbreviation (input) LIBXSMM_X86_INSTR_VGETMANTPH :: u32 where "LIBXSMM_X86_INSTR_VGETMANTPH \<equiv> 0xe10c3626"
abbreviation (input) LIBXSMM_X86_INSTR_VGETMANTSH :: u32 where "LIBXSMM_X86_INSTR_VGETMANTSH \<equiv> 0xf00c3927"
abbreviation (input) LIBXSMM_X86_INSTR_VMAXPH :: u32 where "LIBXSMM_X86_INSTR_VMAXPH \<equiv> 0xf104565f"
abbreviation (input) LIBXSMM_X86_INSTR_VMAXSH :: u32 where "LIBXSMM_X86_INSTR_VMAXSH \<equiv> 0xf006595f"
abbreviation (input) LIBXSMM_X86_INSTR_VMINPH :: u32 where "LIBXSMM_X86_INSTR_VMINPH \<equiv> 0xf104565d"
abbreviation (input) LIBXSMM_X86_INSTR_VMINSH :: u32 where "LIBXSMM_X86_INSTR_VMINSH \<equiv> 0xf006595d"
abbreviation (input) LIBXSMM_X86_INSTR_VMOVW_LD :: u32 where "LIBXSMM_X86_INSTR_VMOVW_LD \<equiv> 0xe005596e"
abbreviation (input) LIBXSMM_X86_INSTR_VMOVW_ST :: u32 where "LIBXSMM_X86_INSTR_VMOVW_ST \<equiv> 0xe005597e"
abbreviation (input) LIBXSMM_X86_INSTR_VMULPH :: u32 where "LIBXSMM_X86_INSTR_VMULPH \<equiv> 0xf1045659"
abbreviation (input) LIBXSMM_X86_INSTR_VMULSH :: u32 where "LIBXSMM_X86_INSTR_VMULSH \<equiv> 0xf0065959"
abbreviation (input) LIBXSMM_X86_INSTR_VRCPPH :: u32 where "LIBXSMM_X86_INSTR_VRCPPH \<equiv> 0xe105664c"
abbreviation (input) LIBXSMM_X86_INSTR_VRCPSH :: u32 where "LIBXSMM_X86_INSTR_VRCPSH \<equiv> 0xf005694d"
abbreviation (input) LIBXSMM_X86_INSTR_VREDUCEPH :: u32 where "LIBXSMM_X86_INSTR_VREDUCEPH \<equiv> 0xe10c3656"
abbreviation (input) LIBXSMM_X86_INSTR_VREDUCESH :: u32 where "LIBXSMM_X86_INSTR_VREDUCESH \<equiv> 0xf00c3957"
abbreviation (input) LIBXSMM_X86_INSTR_VRNDSCALEPH :: u32 where "LIBXSMM_X86_INSTR_VRNDSCALEPH \<equiv> 0xe10c3608"
abbreviation (input) LIBXSMM_X86_INSTR_VRNDSCALESH :: u32 where "LIBXSMM_X86_INSTR_VRNDSCALESH \<equiv> 0xf00c390a"
abbreviation (input) LIBXSMM_X86_INSTR_VRSQRTPH :: u32 where "LIBXSMM_X86_INSTR_VRSQRTPH \<equiv> 0xe105664e"
abbreviation (input) LIBXSMM_X86_INSTR_VRSQRTSH :: u32 where "LIBXSMM_X86_INSTR_VRSQRTSH \<equiv> 0xf005694f"
abbreviation (input) LIBXSMM_X86_INSTR_VSCALEFPH :: u32 where "LIBXSMM_X86_INSTR_VSCALEFPH \<equiv> 0xf105662c"
abbreviation (input) LIBXSMM_X86_INSTR_VSCALEFSH :: u32 where "LIBXSMM_X86_INSTR_VSCALEFSH \<equiv> 0xf005692d"
abbreviation (input) LIBXSMM_X86_INSTR_VSQRTPH :: u32 where "LIBXSMM_X86_INSTR_VSQRTPH \<equiv> 0xe1045651"
abbreviation (input) LIBXSMM_X86_INSTR_VSQRTSH :: u32 where "LIBXSMM_X86_INSTR_VSQRTSH \<equiv> 0xf0065951"
abbreviation (input) LIBXSMM_X86_INSTR_VSUBPH :: u32 where "LIBXSMM_X86_INSTR_VSUBPH \<equiv> 0xf104565c"
abbreviation (input) LIBXSMM_X86_INSTR_VSUBSH :: u32 where "LIBXSMM_X86_INSTR_VSUBSH \<equiv> 0xf006595c"
abbreviation (input) LIBXSMM_X86_INSTR_VCVTW2PH :: u32 where "LIBXSMM_X86_INSTR_VCVTW2PH \<equiv> 0xe106567d"
abbreviation (input) LIBXSMM_X86_INSTR_VPDPBSUD :: u32 where "LIBXSMM_X86_INSTR_VPDPBSUD \<equiv> 0x70062050"
abbreviation (input) LIBXSMM_X86_INSTR_VPDPBSUDS :: u32 where "LIBXSMM_X86_INSTR_VPDPBSUDS \<equiv> 0x70062051"
abbreviation (input) LIBXSMM_X86_INSTR_VPDPBSSD :: u32 where "LIBXSMM_X86_INSTR_VPDPBSSD \<equiv> 0x70072050"
abbreviation (input) LIBXSMM_X86_INSTR_VPDPBSSDS :: u32 where "LIBXSMM_X86_INSTR_VPDPBSSDS \<equiv> 0x70072051"
abbreviation (input) LIBXSMM_X86_INSTR_VPDPBUUD :: u32 where "LIBXSMM_X86_INSTR_VPDPBUUD \<equiv> 0x70042050"
abbreviation (input) LIBXSMM_X86_INSTR_VPDPBUUDS :: u32 where "LIBXSMM_X86_INSTR_VPDPBUUDS \<equiv> 0x70042051"
abbreviation (input) LIBXSMM_X86_INSTR_VBROADCASTI128 :: u32 where "LIBXSMM_X86_INSTR_VBROADCASTI128 \<equiv> 0x6005205a"
abbreviation (input) LIBXSMM_X86_INSTR_VBROADCASTI32X4 :: u32 where "LIBXSMM_X86_INSTR_VBROADCASTI32X4 \<equiv> 0xe0052c5a"
abbreviation (input) LIBXSMM_X86_INSTR_VBROADCASTI64X2 :: u32 where "LIBXSMM_X86_INSTR_VBROADCASTI64X2 \<equiv> 0xe0852c5a"
abbreviation (input) LIBXSMM_X86_INSTR_VBROADCASTI32X8 :: u32 where "LIBXSMM_X86_INSTR_VBROADCASTI32X8 \<equiv> 0xe0052d5b"
abbreviation (input) LIBXSMM_X86_INSTR_VBROADCASTI64X4 :: u32 where "LIBXSMM_X86_INSTR_VBROADCASTI64X4 \<equiv> 0xe0852d5b"
abbreviation (input) LIBXSMM_X86_INSTR_VMOVNTPD :: u32 where "LIBXSMM_X86_INSTR_VMOVNTPD \<equiv> 0x2085162b"
abbreviation (input) LIBXSMM_X86_INSTR_VMOVNTPS :: u32 where "LIBXSMM_X86_INSTR_VMOVNTPS \<equiv> 0x2004162b"
abbreviation (input) LIBXSMM_X86_INSTR_VMOVNTDQ :: u32 where "LIBXSMM_X86_INSTR_VMOVNTDQ \<equiv> 0x200516e7"
abbreviation (input) LIBXSMM_X86_INSTR_VGATHERDPS :: u32 where "LIBXSMM_X86_INSTR_VGATHERDPS \<equiv> 0xe2052a92"
abbreviation (input) LIBXSMM_X86_INSTR_VGATHERDPD :: u32 where "LIBXSMM_X86_INSTR_VGATHERDPD \<equiv> 0xe2852b92"
abbreviation (input) LIBXSMM_X86_INSTR_VGATHERQPS :: u32 where "LIBXSMM_X86_INSTR_VGATHERQPS \<equiv> 0xe2052a93"
abbreviation (input) LIBXSMM_X86_INSTR_VGATHERQPD :: u32 where "LIBXSMM_X86_INSTR_VGATHERQPD \<equiv> 0xe2852b93"
abbreviation (input) LIBXSMM_X86_INSTR_VPGATHERDD :: u32 where "LIBXSMM_X86_INSTR_VPGATHERDD \<equiv> 0xe2052a90"
abbreviation (input) LIBXSMM_X86_INSTR_VPGATHERDQ :: u32 where "LIBXSMM_X86_INSTR_VPGATHERDQ \<equiv> 0xe2852b90"
abbreviation (input) LIBXSMM_X86_INSTR_VPGATHERQD :: u32 where "LIBXSMM_X86_INSTR_VPGATHERQD \<equiv> 0xe2052a91"
abbreviation (input) LIBXSMM_X86_INSTR_VPGATHERQQ :: u32 where "LIBXSMM_X86_INSTR_VPGATHERQQ \<equiv> 0xe2852b91"
abbreviation (input) LIBXSMM_X86_INSTR_VSCATTERDPS :: u32 where "LIBXSMM_X86_INSTR_VSCATTERDPS \<equiv> 0xe2052aa2"
abbreviation (input) LIBXSMM_X86_INSTR_VSCATTERDPD :: u32 where "LIBXSMM_X86_INSTR_VSCATTERDPD \<equiv> 0xe2852ba2"
abbreviation (input) LIBXSMM_X86_INSTR_VSCATTERQPS :: u32 where "LIBXSMM_X86_INSTR_VSCATTERQPS \<equiv> 0xe2052aa3"
abbreviation (input) LIBXSMM_X86_INSTR_VSCATTERQPD :: u32 where "LIBXSMM_X86_INSTR_VSCATTERQPD \<equiv> 0xe2852ba3"
abbreviation (input) LIBXSMM_X86_INSTR_VPSCATTERDD :: u32 where "LIBXSMM_X86_INSTR_VPSCATTERDD \<equiv> 0xe2952aa0"
abbreviation (input) LIBXSMM_X86_INSTR_VPSCATTERDQ :: u32 where "LIBXSMM_X86_INSTR_VPSCATTERDQ \<equiv> 0xe2852ba0"
abbreviation (input) LIBXSMM_X86_INSTR_VPSCATTERQD :: u32 where "LIBXSMM_X86_INSTR_VPSCATTERQD \<equiv> 0xe2052aa1"
abbreviation (input) LIBXSMM_X86_INSTR_VPSCATTERQQ :: u32 where "LIBXSMM_X86_INSTR_VPSCATTERQQ \<equiv> 0xe2852ba1"
abbreviation (input) LIBXSMM_X86_INSTR_MOVLPS :: u32 where "LIBXSMM_X86_INSTR_MOVLPS \<equiv> 0xa0041012"
abbreviation (input) LIBXSMM_X86_INSTR_MOVHPS :: u32 where "LIBXSMM_X86_INSTR_MOVHPS \<equiv> 0xa0041016"
abbreviation (input) LIBXSMM_X86_INSTR_MOVNTPS :: u32 where "LIBXSMM_X86_INSTR_MOVNTPS \<equiv> 0xa004102b"
abbreviation (input) LIBXSMM_X86_INSTR_MOVLPD :: u32 where "LIBXSMM_X86_INSTR_MOVLPD \<equiv> 0xa0051012"
abbreviation (input) LIBXSMM_X86_INSTR_MOVHPD :: u32 where "LIBXSMM_X86_INSTR_MOVHPD \<equiv> 0xa0051016"
abbreviation (input) LIBXSMM_X86_INSTR_MOVNTPD :: u32 where "LIBXSMM_X86_INSTR_MOVNTPD \<equiv> 0xa005102b"
abbreviation (input) LIBXSMM_X86_INSTR_MOVNTDQ :: u32 where "LIBXSMM_X86_INSTR_MOVNTDQ \<equiv> 0xa00510e7"
abbreviation (input) LIBXSMM_X86_INSTR_MOVNTDQA :: u32 where "LIBXSMM_X86_INSTR_MOVNTDQA \<equiv> 0xa005202a"
abbreviation (input) LIBXSMM_X86_INSTR_LDDQU :: u32 where "LIBXSMM_X86_INSTR_LDDQU \<equiv> 0xa00710f0"
abbreviation (input) LIBXSMM_X86_INSTR_VMOVSH_LD_MEM :: u32 where "LIBXSMM_X86_INSTR_VMOVSH_LD_MEM \<equiv> 0xe0065910"
abbreviation (input) LIBXSMM_X86_INSTR_VMOVSH_ST_MEM :: u32 where "LIBXSMM_X86_INSTR_VMOVSH_ST_MEM \<equiv> 0xe0065911"
abbreviation (input) LIBXSMM_X86_INSTR_VBCSTNEBF162PS :: u32 where "LIBXSMM_X86_INSTR_VBCSTNEBF162PS \<equiv> 0x600620b1"
abbreviation (input) LIBXSMM_X86_INSTR_VBCSTNESH2PS :: u32 where "LIBXSMM_X86_INSTR_VBCSTNESH2PS \<equiv> 0x600520b1"
abbreviation (input) LIBXSMM_X86_INSTR_VCVTNEEBF162PS :: u32 where "LIBXSMM_X86_INSTR_VCVTNEEBF162PS \<equiv> 0x600620b0"
abbreviation (input) LIBXSMM_X86_INSTR_VCVTNEEPH2PS :: u32 where "LIBXSMM_X86_INSTR_VCVTNEEPH2PS \<equiv> 0x600520b0"
abbreviation (input) LIBXSMM_X86_INSTR_VCVTNEOBF162PS :: u32 where "LIBXSMM_X86_INSTR_VCVTNEOBF162PS \<equiv> 0x600720b0"
abbreviation (input) LIBXSMM_X86_INSTR_VCVTNEOPH2PS :: u32 where "LIBXSMM_X86_INSTR_VCVTNEOPH2PS \<equiv> 0x600420b0"
abbreviation (input) LIBXSMM_X86_INSTR_VPEXTRB :: u32 where "LIBXSMM_X86_INSTR_VPEXTRB \<equiv> 0x280d3814"
abbreviation (input) LIBXSMM_X86_INSTR_VPEXTRD :: u32 where "LIBXSMM_X86_INSTR_VPEXTRD \<equiv> 0x280d3a16"
abbreviation (input) LIBXSMM_X86_INSTR_VPEXTRQ :: u32 where "LIBXSMM_X86_INSTR_VPEXTRQ \<equiv> 0x288d3b16"
abbreviation (input) LIBXSMM_X86_INSTR_VPINSRB :: u32 where "LIBXSMM_X86_INSTR_VPINSRB \<equiv> 0x300d3820"
abbreviation (input) LIBXSMM_X86_INSTR_VPINSRD :: u32 where "LIBXSMM_X86_INSTR_VPINSRD \<equiv> 0x300d3a22"
abbreviation (input) LIBXSMM_X86_INSTR_VPINSRQ :: u32 where "LIBXSMM_X86_INSTR_VPINSRQ \<equiv> 0x308d3b22"
abbreviation (input) LIBXSMM_X86_INSTR_VPERMQ :: u32 where "LIBXSMM_X86_INSTR_VPERMQ \<equiv> 0xf0852e36"
abbreviation (input) LIBXSMM_X86_INSTR_VMOVMSKPD :: u32 where "LIBXSMM_X86_INSTR_VMOVMSKPD \<equiv> 0x60051050"
abbreviation (input) LIBXSMM_X86_INSTR_VMOVMSKPS :: u32 where "LIBXSMM_X86_INSTR_VMOVMSKPS \<equiv> 0x60041050"
abbreviation (input) LIBXSMM_X86_INSTR_VPMOVMSKB :: u32 where "LIBXSMM_X86_INSTR_VPMOVMSKB \<equiv> 0x600510d7"
abbreviation (input) LIBXSMM_X86_INSTR_VPBROADCASTB_GPR :: u32 where "LIBXSMM_X86_INSTR_VPBROADCASTB_GPR \<equiv> 0xe005287a"
abbreviation (input) LIBXSMM_X86_INSTR_VPBROADCASTW_GPR :: u32 where "LIBXSMM_X86_INSTR_VPBROADCASTW_GPR \<equiv> 0xe005297b"
abbreviation (input) LIBXSMM_X86_INSTR_VPBROADCASTD_GPR :: u32 where "LIBXSMM_X86_INSTR_VPBROADCASTD_GPR \<equiv> 0xe0052a7c"
abbreviation (input) LIBXSMM_X86_INSTR_VPBROADCASTQ_GPR :: u32 where "LIBXSMM_X86_INSTR_VPBROADCASTQ_GPR \<equiv> 0xe0852b7c"
abbreviation (input) LIBXSMM_X86_INSTR_MOVMSKPS :: u32 where "LIBXSMM_X86_INSTR_MOVMSKPS \<equiv> 0xa0041050"
abbreviation (input) LIBXSMM_X86_INSTR_MOVMSKPD :: u32 where "LIBXSMM_X86_INSTR_MOVMSKPD \<equiv> 0xa0051050"
abbreviation (input) LIBXSMM_X86_INSTR_PMOVMSKB :: u32 where "LIBXSMM_X86_INSTR_PMOVMSKB \<equiv> 0xa00510d7"
abbreviation (input) LIBXSMM_X86_INSTR_PSLLW_I :: u32 where "LIBXSMM_X86_INSTR_PSLLW_I \<equiv> 0x946d1071"
abbreviation (input) LIBXSMM_X86_INSTR_PSLLD_I :: u32 where "LIBXSMM_X86_INSTR_PSLLD_I \<equiv> 0x946d1072"
abbreviation (input) LIBXSMM_X86_INSTR_PSLLQ_I :: u32 where "LIBXSMM_X86_INSTR_PSLLQ_I \<equiv> 0x946d1073"
abbreviation (input) LIBXSMM_X86_INSTR_PSLLDQ_I :: u32 where "LIBXSMM_X86_INSTR_PSLLDQ_I \<equiv> 0x947d1073"
abbreviation (input) LIBXSMM_X86_INSTR_PSRAW_I :: u32 where "LIBXSMM_X86_INSTR_PSRAW_I \<equiv> 0x944d1071"
abbreviation (input) LIBXSMM_X86_INSTR_PSRAD_I :: u32 where "LIBXSMM_X86_INSTR_PSRAD_I \<equiv> 0x944d1072"
abbreviation (input) LIBXSMM_X86_INSTR_PSRLDQ_I :: u32 where "LIBXSMM_X86_INSTR_PSRLDQ_I \<equiv> 0x943d1073"
abbreviation (input) LIBXSMM_X86_INSTR_PSRLW_I :: u32 where "LIBXSMM_X86_INSTR_PSRLW_I \<equiv> 0x942d1071"
abbreviation (input) LIBXSMM_X86_INSTR_PSRLD_I :: u32 where "LIBXSMM_X86_INSTR_PSRLD_I \<equiv> 0x942d1072"
abbreviation (input) LIBXSMM_X86_INSTR_PSRLQ_I :: u32 where "LIBXSMM_X86_INSTR_PSRLQ_I \<equiv> 0x942d1073"
abbreviation (input) LIBXSMM_X86_INSTR_VMOVSH_LD_3REG :: u32 where "LIBXSMM_X86_INSTR_VMOVSH_LD_3REG \<equiv> 0xf0065910"
abbreviation (input) LIBXSMM_X86_INSTR_VMOVSH_ST_3REG :: u32 where "LIBXSMM_X86_INSTR_VMOVSH_ST_3REG \<equiv> 0xf0065911"
abbreviation (input) LIBXSMM_X86_INSTR_VMASKMOVPD :: u32 where "LIBXSMM_X86_INSTR_VMASKMOVPD \<equiv> 0x7005202d"
abbreviation (input) LIBXSMM_X86_INSTR_VMASKMOVPS :: u32 where "LIBXSMM_X86_INSTR_VMASKMOVPS \<equiv> 0x7005202c"
abbreviation (input) LIBXSMM_X86_INSTR_VMASKMOVPD_ST :: u32 where "LIBXSMM_X86_INSTR_VMASKMOVPD_ST \<equiv> 0x7005202f"
abbreviation (input) LIBXSMM_X86_INSTR_VMASKMOVPS_ST :: u32 where "LIBXSMM_X86_INSTR_VMASKMOVPS_ST \<equiv> 0x7005202e"
abbreviation (input) LIBXSMM_X86_INSTR_VGATHERDPS_VEX :: u32 where "LIBXSMM_X86_INSTR_VGATHERDPS_VEX \<equiv> 0x72052092"
abbreviation (input) LIBXSMM_X86_INSTR_VGATHERDPD_VEX :: u32 where "LIBXSMM_X86_INSTR_VGATHERDPD_VEX \<equiv> 0x72852092"
abbreviation (input) LIBXSMM_X86_INSTR_VGATHERQPS_VEX :: u32 where "LIBXSMM_X86_INSTR_VGATHERQPS_VEX \<equiv> 0x72052093"
abbreviation (input) LIBXSMM_X86_INSTR_VGATHERQPD_VEX :: u32 where "LIBXSMM_X86_INSTR_VGATHERQPD_VEX \<equiv> 0x72852093"
abbreviation (input) LIBXSMM_X86_INSTR_VPGATHERDD_VEX :: u32 where "LIBXSMM_X86_INSTR_VPGATHERDD_VEX \<equiv> 0x72052090"
abbreviation (input) LIBXSMM_X86_INSTR_VPGATHERDQ_VEX :: u32 where "LIBXSMM_X86_INSTR_VPGATHERDQ_VEX \<equiv> 0x72852090"
abbreviation (input) LIBXSMM_X86_INSTR_VPGATHERQD_VEX :: u32 where "LIBXSMM_X86_INSTR_VPGATHERQD_VEX \<equiv> 0x72052091"
abbreviation (input) LIBXSMM_X86_INSTR_VPGATHERQQ_VEX :: u32 where "LIBXSMM_X86_INSTR_VPGATHERQQ_VEX \<equiv> 0x72852091"
abbreviation (input) LIBXSMM_X86_INSTR_PREFETCHT0 :: u32 where "LIBXSMM_X86_INSTR_PREFETCHT0 \<equiv> 0x94141018"
abbreviation (input) LIBXSMM_X86_INSTR_PREFETCHT1 :: u32 where "LIBXSMM_X86_INSTR_PREFETCHT1 \<equiv> 0x94241018"
abbreviation (input) LIBXSMM_X86_INSTR_PREFETCHT2 :: u32 where "LIBXSMM_X86_INSTR_PREFETCHT2 \<equiv> 0x94341018"
abbreviation (input) LIBXSMM_X86_INSTR_PREFETCHNTA :: u32 where "LIBXSMM_X86_INSTR_PREFETCHNTA \<equiv> 0x94041018"
abbreviation (input) LIBXSMM_X86_INSTR_PREFETCHW :: u32 where "LIBXSMM_X86_INSTR_PREFETCHW \<equiv> 0x9414100d"
abbreviation (input) LIBXSMM_X86_INSTR_CLDEMOTE :: u32 where "LIBXSMM_X86_INSTR_CLDEMOTE \<equiv> 0x9404101c"
abbreviation (input) LIBXSMM_X86_INSTR_CLFLUSH :: u32 where "LIBXSMM_X86_INSTR_CLFLUSH \<equiv> 0x947410ae"
abbreviation (input) LIBXSMM_X86_INSTR_CLFLUSHOPT :: u32 where "LIBXSMM_X86_INSTR_CLFLUSHOPT \<equiv> 0x947510ae"
abbreviation (input) LIBXSMM_X86_INSTR_MOVQ :: u32 where "LIBXSMM_X86_INSTR_MOVQ \<equiv> 0xa284008b"
abbreviation (input) LIBXSMM_X86_INSTR_MOVD :: u32 where "LIBXSMM_X86_INSTR_MOVD \<equiv> 0xa004008b"
abbreviation (input) LIBXSMM_X86_INSTR_MOVW :: u32 where "LIBXSMM_X86_INSTR_MOVW \<equiv> 0xa004408b"
abbreviation (input) LIBXSMM_X86_INSTR_MOVB :: u32 where "LIBXSMM_X86_INSTR_MOVB \<equiv> 0xa004008a"
abbreviation (input) LIBXSMM_X86_INSTR_MOVQ_ST :: u32 where "LIBXSMM_X86_INSTR_MOVQ_ST \<equiv> 0xaa840089"
abbreviation (input) LIBXSMM_X86_INSTR_MOVD_ST :: u32 where "LIBXSMM_X86_INSTR_MOVD_ST \<equiv> 0xa8040089"
abbreviation (input) LIBXSMM_X86_INSTR_MOVW_ST :: u32 where "LIBXSMM_X86_INSTR_MOVW_ST \<equiv> 0xa8044089"
abbreviation (input) LIBXSMM_X86_INSTR_MOVB_ST :: u32 where "LIBXSMM_X86_INSTR_MOVB_ST \<equiv> 0xa8040088"
abbreviation (input) LIBXSMM_X86_INSTR_LEAW :: u32 where "LIBXSMM_X86_INSTR_LEAW \<equiv> 0xa004408d"
abbreviation (input) LIBXSMM_X86_INSTR_LEAD :: u32 where "LIBXSMM_X86_INSTR_LEAD \<equiv> 0xa004008d"
abbreviation (input) LIBXSMM_X86_INSTR_LEAQ :: u32 where "LIBXSMM_X86_INSTR_LEAQ \<equiv> 0xa284008d"
abbreviation (input) LIBXSMM_X86_INSTR_ADDQ :: u32 where "LIBXSMM_X86_INSTR_ADDQ \<equiv> 0x00007530"
abbreviation (input) LIBXSMM_X86_INSTR_ADDB_RM_IMM8 :: u32 where "LIBXSMM_X86_INSTR_ADDB_RM_IMM8 \<equiv> 0x940c0080"
abbreviation (input) LIBXSMM_X86_INSTR_ADDW_RM_IMM16 :: u32 where "LIBXSMM_X86_INSTR_ADDW_RM_IMM16 \<equiv> 0x940c4181"
abbreviation (input) LIBXSMM_X86_INSTR_ADDD_RM_IMM32 :: u32 where "LIBXSMM_X86_INSTR_ADDD_RM_IMM32 \<equiv> 0x940c0281"
abbreviation (input) LIBXSMM_X86_INSTR_ADDQ_RM_IMM32 :: u32 where "LIBXSMM_X86_INSTR_ADDQ_RM_IMM32 \<equiv> 0x968c0281"
abbreviation (input) LIBXSMM_X86_INSTR_ANDQ :: u32 where "LIBXSMM_X86_INSTR_ANDQ \<equiv> 0x00007531"
abbreviation (input) LIBXSMM_X86_INSTR_ANDB_RM_IMM8 :: u32 where "LIBXSMM_X86_INSTR_ANDB_RM_IMM8 \<equiv> 0x944c0080"
abbreviation (input) LIBXSMM_X86_INSTR_ANDW_RM_IMM16 :: u32 where "LIBXSMM_X86_INSTR_ANDW_RM_IMM16 \<equiv> 0x944c4181"
abbreviation (input) LIBXSMM_X86_INSTR_ANDD_RM_IMM32 :: u32 where "LIBXSMM_X86_INSTR_ANDD_RM_IMM32 \<equiv> 0x944c0281"
abbreviation (input) LIBXSMM_X86_INSTR_ANDQ_RM_IMM32 :: u32 where "LIBXSMM_X86_INSTR_ANDQ_RM_IMM32 \<equiv> 0x96cc0281"
abbreviation (input) LIBXSMM_X86_INSTR_CMPQ :: u32 where "LIBXSMM_X86_INSTR_CMPQ \<equiv> 0x00007532"
abbreviation (input) LIBXSMM_X86_INSTR_CMPB_RM_IMM8 :: u32 where "LIBXSMM_X86_INSTR_CMPB_RM_IMM8 \<equiv> 0x947c0080"
abbreviation (input) LIBXSMM_X86_INSTR_CMPW_RM_IMM16 :: u32 where "LIBXSMM_X86_INSTR_CMPW_RM_IMM16 \<equiv> 0x947c4181"
abbreviation (input) LIBXSMM_X86_INSTR_CMPD_RM_IMM32 :: u32 where "LIBXSMM_X86_INSTR_CMPD_RM_IMM32 \<equiv> 0x947c0281"
abbreviation (input) LIBXSMM_X86_INSTR_CMPQ_RM_IMM32 :: u32 where "LIBXSMM_X86_INSTR_CMPQ_RM_IMM32 \<equiv> 0x96fc0281"
abbreviation (input) LIBXSMM_X86_INSTR_IMUL :: u32 where "LIBXSMM_X86_INSTR_IMUL \<equiv> 0x00007533"
abbreviation (input) LIBXSMM_X86_INSTR_IMULW_IMM16 :: u32 where "LIBXSMM_X86_INSTR_IMULW_IMM16 \<equiv> 0xa00c4169"
abbreviation (input) LIBXSMM_X86_INSTR_IMULD_IMM32 :: u32 where "LIBXSMM_X86_INSTR_IMULD_IMM32 \<equiv> 0xa00c0269"
abbreviation (input) LIBXSMM_X86_INSTR_IMULQ_IMM32 :: u32 where "LIBXSMM_X86_INSTR_IMULQ_IMM32 \<equiv> 0xa28c0269"
abbreviation (input) LIBXSMM_X86_INSTR_MOVB_RM_IMM8 :: u32 where "LIBXSMM_X86_INSTR_MOVB_RM_IMM8 \<equiv> 0x940c00c6"
abbreviation (input) LIBXSMM_X86_INSTR_MOVW_RM_IMM16 :: u32 where "LIBXSMM_X86_INSTR_MOVW_RM_IMM16 \<equiv> 0x940c41c7"
abbreviation (input) LIBXSMM_X86_INSTR_MOVD_RM_IMM32 :: u32 where "LIBXSMM_X86_INSTR_MOVD_RM_IMM32 \<equiv> 0x940c02c7"
abbreviation (input) LIBXSMM_X86_INSTR_MOVQ_RM_IMM32 :: u32 where "LIBXSMM_X86_INSTR_MOVQ_RM_IMM32 \<equiv> 0x968c02c7"
abbreviation (input) LIBXSMM_X86_INSTR_ORB_RM_IMM8 :: u32 where "LIBXSMM_X86_INSTR_ORB_RM_IMM8 \<equiv> 0x941c0080"
abbreviation (input) LIBXSMM_X86_INSTR_ORW_RM_IMM16 :: u32 where "LIBXSMM_X86_INSTR_ORW_RM_IMM16 \<equiv> 0x941c4181"
abbreviation (input) LIBXSMM_X86_INSTR_ORD_RM_IMM32 :: u32 where "LIBXSMM_X86_INSTR_ORD_RM_IMM32 \<equiv> 0x941c0281"
abbreviation (input) LIBXSMM_X86_INSTR_ORQ_RM_IMM32 :: u32 where "LIBXSMM_X86_INSTR_ORQ_RM_IMM32 \<equiv> 0x969c0281"
abbreviation (input) LIBXSMM_X86_INSTR_SHLQ :: u32 where "LIBXSMM_X86_INSTR_SHLQ \<equiv> 0x00007535"
abbreviation (input) LIBXSMM_X86_INSTR_SHLB_RM_IMM8 :: u32 where "LIBXSMM_X86_INSTR_SHLB_RM_IMM8 \<equiv> 0x944c00c0"
abbreviation (input) LIBXSMM_X86_INSTR_SHLW_RM_IMM8 :: u32 where "LIBXSMM_X86_INSTR_SHLW_RM_IMM8 \<equiv> 0x944c40c1"
abbreviation (input) LIBXSMM_X86_INSTR_SHLD_RM_IMM8 :: u32 where "LIBXSMM_X86_INSTR_SHLD_RM_IMM8 \<equiv> 0x944c00c1"
abbreviation (input) LIBXSMM_X86_INSTR_SHLQ_RM_IMM8 :: u32 where "LIBXSMM_X86_INSTR_SHLQ_RM_IMM8 \<equiv> 0x96cc00c1"
abbreviation (input) LIBXSMM_X86_INSTR_SARQ :: u32 where "LIBXSMM_X86_INSTR_SARQ \<equiv> 0x00007536"
abbreviation (input) LIBXSMM_X86_INSTR_SARB_RM_IMM8 :: u32 where "LIBXSMM_X86_INSTR_SARB_RM_IMM8 \<equiv> 0x947c00c0"
abbreviation (input) LIBXSMM_X86_INSTR_SARW_RM_IMM8 :: u32 where "LIBXSMM_X86_INSTR_SARW_RM_IMM8 \<equiv> 0x947c40c1"
abbreviation (input) LIBXSMM_X86_INSTR_SARD_RM_IMM8 :: u32 where "LIBXSMM_X86_INSTR_SARD_RM_IMM8 \<equiv> 0x947c00c1"
abbreviation (input) LIBXSMM_X86_INSTR_SARQ_RM_IMM8 :: u32 where "LIBXSMM_X86_INSTR_SARQ_RM_IMM8 \<equiv> 0x96fc00c1"
abbreviation (input) LIBXSMM_X86_INSTR_SHRQ :: u32 where "LIBXSMM_X86_INSTR_SHRQ \<equiv> 0x00007537"
abbreviation (input) LIBXSMM_X86_INSTR_SHRB_RM_IMM8 :: u32 where "LIBXSMM_X86_INSTR_SHRB_RM_IMM8 \<equiv> 0x945c00c0"
abbreviation (input) LIBXSMM_X86_INSTR_SHRW_RM_IMM8 :: u32 where "LIBXSMM_X86_INSTR_SHRW_RM_IMM8 \<equiv> 0x945c40c1"
abbreviation (input) LIBXSMM_X86_INSTR_SHRD_RM_IMM8 :: u32 where "LIBXSMM_X86_INSTR_SHRD_RM_IMM8 \<equiv> 0x945c00c1"
abbreviation (input) LIBXSMM_X86_INSTR_SHRQ_RM_IMM8 :: u32 where "LIBXSMM_X86_INSTR_SHRQ_RM_IMM8 \<equiv> 0x96dc00c1"
abbreviation (input) LIBXSMM_X86_INSTR_SUBQ :: u32 where "LIBXSMM_X86_INSTR_SUBQ \<equiv> 0x00007538"
abbreviation (input) LIBXSMM_X86_INSTR_SUBB_RM_IMM8 :: u32 where "LIBXSMM_X86_INSTR_SUBB_RM_IMM8 \<equiv> 0x945c0080"
abbreviation (input) LIBXSMM_X86_INSTR_SUBW_RM_IMM16 :: u32 where "LIBXSMM_X86_INSTR_SUBW_RM_IMM16 \<equiv> 0x945c4181"
abbreviation (input) LIBXSMM_X86_INSTR_SUBD_RM_IMM32 :: u32 where "LIBXSMM_X86_INSTR_SUBD_RM_IMM32 \<equiv> 0x945c0281"
abbreviation (input) LIBXSMM_X86_INSTR_SUBQ_RM_IMM32 :: u32 where "LIBXSMM_X86_INSTR_SUBQ_RM_IMM32 \<equiv> 0x96dc0281"
abbreviation (input) LIBXSMM_X86_INSTR_XORB_RM_IMM8 :: u32 where "LIBXSMM_X86_INSTR_XORB_RM_IMM8 \<equiv> 0x946c0080"
abbreviation (input) LIBXSMM_X86_INSTR_XORW_RM_IMM16 :: u32 where "LIBXSMM_X86_INSTR_XORW_RM_IMM16 \<equiv> 0x946c4181"
abbreviation (input) LIBXSMM_X86_INSTR_XORD_RM_IMM32 :: u32 where "LIBXSMM_X86_INSTR_XORD_RM_IMM32 \<equiv> 0x946c0281"
abbreviation (input) LIBXSMM_X86_INSTR_XORQ_RM_IMM32 :: u32 where "LIBXSMM_X86_INSTR_XORQ_RM_IMM32 \<equiv> 0x96ec0281"
abbreviation (input) LIBXSMM_X86_INSTR_MOVB_R_IMM8 :: u32 where "LIBXSMM_X86_INSTR_MOVB_R_IMM8 \<equiv> 0x950c00b0"
abbreviation (input) LIBXSMM_X86_INSTR_MOVW_R_IMM16 :: u32 where "LIBXSMM_X86_INSTR_MOVW_R_IMM16 \<equiv> 0x950c41b8"
abbreviation (input) LIBXSMM_X86_INSTR_MOVD_R_IMM32 :: u32 where "LIBXSMM_X86_INSTR_MOVD_R_IMM32 \<equiv> 0x950c02b8"
abbreviation (input) LIBXSMM_X86_INSTR_MOVQ_R_IMM64 :: u32 where "LIBXSMM_X86_INSTR_MOVQ_R_IMM64 \<equiv> 0x978c03b8"
abbreviation (input) LIBXSMM_X86_INSTR_ADDB_RM_R :: u32 where "LIBXSMM_X86_INSTR_ADDB_RM_R \<equiv> 0xa8040000"
abbreviation (input) LIBXSMM_X86_INSTR_ADDW_RM_R :: u32 where "LIBXSMM_X86_INSTR_ADDW_RM_R \<equiv> 0xa8044001"
abbreviation (input) LIBXSMM_X86_INSTR_ADDD_RM_R :: u32 where "LIBXSMM_X86_INSTR_ADDD_RM_R \<equiv> 0xa8040001"
abbreviation (input) LIBXSMM_X86_INSTR_ADDQ_RM_R :: u32 where "LIBXSMM_X86_INSTR_ADDQ_RM_R \<equiv> 0xaa840001"
abbreviation (input) LIBXSMM_X86_INSTR_ADDB_R_RM :: u32 where "LIBXSMM_X86_INSTR_ADDB_R_RM \<equiv> 0xa0040002"
abbreviation (input) LIBXSMM_X86_INSTR_ADDW_R_RM :: u32 where "LIBXSMM_X86_INSTR_ADDW_R_RM \<equiv> 0xa0044003"
abbreviation (input) LIBXSMM_X86_INSTR_ADDD_R_RM :: u32 where "LIBXSMM_X86_INSTR_ADDD_R_RM \<equiv> 0xa0040003"
abbreviation (input) LIBXSMM_X86_INSTR_ADDQ_R_RM :: u32 where "LIBXSMM_X86_INSTR_ADDQ_R_RM \<equiv> 0xa2840003"
abbreviation (input) LIBXSMM_X86_INSTR_ANDB_RM_R :: u32 where "LIBXSMM_X86_INSTR_ANDB_RM_R \<equiv> 0xa8040020"
abbreviation (input) LIBXSMM_X86_INSTR_ANDW_RM_R :: u32 where "LIBXSMM_X86_INSTR_ANDW_RM_R \<equiv> 0xa8044021"
abbreviation (input) LIBXSMM_X86_INSTR_ANDD_RM_R :: u32 where "LIBXSMM_X86_INSTR_ANDD_RM_R \<equiv> 0xa8040021"
abbreviation (input) LIBXSMM_X86_INSTR_ANDQ_RM_R :: u32 where "LIBXSMM_X86_INSTR_ANDQ_RM_R \<equiv> 0xaa840021"
abbreviation (input) LIBXSMM_X86_INSTR_ANDB_R_RM :: u32 where "LIBXSMM_X86_INSTR_ANDB_R_RM \<equiv> 0xa0040022"
abbreviation (input) LIBXSMM_X86_INSTR_ANDW_R_RM :: u32 where "LIBXSMM_X86_INSTR_ANDW_R_RM \<equiv> 0xa0044023"
abbreviation (input) LIBXSMM_X86_INSTR_ANDD_R_RM :: u32 where "LIBXSMM_X86_INSTR_ANDD_R_RM \<equiv> 0xa0040023"
abbreviation (input) LIBXSMM_X86_INSTR_ANDQ_R_RM :: u32 where "LIBXSMM_X86_INSTR_ANDQ_R_RM \<equiv> 0xa2840023"
abbreviation (input) LIBXSMM_X86_INSTR_CMOVAW :: u32 where "LIBXSMM_X86_INSTR_CMOVAW \<equiv> 0xa0045047"
abbreviation (input) LIBXSMM_X86_INSTR_CMOVAD :: u32 where "LIBXSMM_X86_INSTR_CMOVAD \<equiv> 0xa0041047"
abbreviation (input) LIBXSMM_X86_INSTR_CMOVAQ :: u32 where "LIBXSMM_X86_INSTR_CMOVAQ \<equiv> 0xa2841047"
abbreviation (input) LIBXSMM_X86_INSTR_CMOVAEW :: u32 where "LIBXSMM_X86_INSTR_CMOVAEW \<equiv> 0xa0045043"
abbreviation (input) LIBXSMM_X86_INSTR_CMOVAED :: u32 where "LIBXSMM_X86_INSTR_CMOVAED \<equiv> 0xa0041043"
abbreviation (input) LIBXSMM_X86_INSTR_CMOVAEQ :: u32 where "LIBXSMM_X86_INSTR_CMOVAEQ \<equiv> 0xa2841043"
abbreviation (input) LIBXSMM_X86_INSTR_CMOVBW :: u32 where "LIBXSMM_X86_INSTR_CMOVBW \<equiv> 0xa0045042"
abbreviation (input) LIBXSMM_X86_INSTR_CMOVBD :: u32 where "LIBXSMM_X86_INSTR_CMOVBD \<equiv> 0xa0041042"
abbreviation (input) LIBXSMM_X86_INSTR_CMOVBQ :: u32 where "LIBXSMM_X86_INSTR_CMOVBQ \<equiv> 0xa2841042"
abbreviation (input) LIBXSMM_X86_INSTR_CMOVBEW :: u32 where "LIBXSMM_X86_INSTR_CMOVBEW \<equiv> 0xa0045046"
abbreviation (input) LIBXSMM_X86_INSTR_CMOVBED :: u32 where "LIBXSMM_X86_INSTR_CMOVBED \<equiv> 0xa0041046"
abbreviation (input) LIBXSMM_X86_INSTR_CMOVBEQ :: u32 where "LIBXSMM_X86_INSTR_CMOVBEQ \<equiv> 0xa2841046"
abbreviation (input) LIBXSMM_X86_INSTR_CMOVEW :: u32 where "LIBXSMM_X86_INSTR_CMOVEW \<equiv> 0xa0045044"
abbreviation (input) LIBXSMM_X86_INSTR_CMOVED :: u32 where "LIBXSMM_X86_INSTR_CMOVED \<equiv> 0xa0041044"
abbreviation (input) LIBXSMM_X86_INSTR_CMOVEQ :: u32 where "LIBXSMM_X86_INSTR_CMOVEQ \<equiv> 0xa2841044"
abbreviation (input) LIBXSMM_X86_INSTR_CMOVGW :: u32 where "LIBXSMM_X86_INSTR_CMOVGW \<equiv> 0xa004504f"
abbreviation (input) LIBXSMM_X86_INSTR_CMOVGD :: u32 where "LIBXSMM_X86_INSTR_CMOVGD \<equiv> 0xa004104f"
abbreviation (input) LIBXSMM_X86_INSTR_CMOVGQ :: u32 where "LIBXSMM_X86_INSTR_CMOVGQ \<equiv> 0xa284104f"
abbreviation (input) LIBXSMM_X86_INSTR_CMOVGEW :: u32 where "LIBXSMM_X86_INSTR_CMOVGEW \<equiv> 0xa004504d"
abbreviation (input) LIBXSMM_X86_INSTR_CMOVGED :: u32 where "LIBXSMM_X86_INSTR_CMOVGED \<equiv> 0xa004104d"
abbreviation (input) LIBXSMM_X86_INSTR_CMOVGEQ :: u32 where "LIBXSMM_X86_INSTR_CMOVGEQ \<equiv> 0xa284104d"
abbreviation (input) LIBXSMM_X86_INSTR_CMOVLW :: u32 where "LIBXSMM_X86_INSTR_CMOVLW \<equiv> 0xa004504c"
abbreviation (input) LIBXSMM_X86_INSTR_CMOVLD :: u32 where "LIBXSMM_X86_INSTR_CMOVLD \<equiv> 0xa004104c"
abbreviation (input) LIBXSMM_X86_INSTR_CMOVLQ :: u32 where "LIBXSMM_X86_INSTR_CMOVLQ \<equiv> 0xa284104c"
abbreviation (input) LIBXSMM_X86_INSTR_CMOVLEW :: u32 where "LIBXSMM_X86_INSTR_CMOVLEW \<equiv> 0xa004504e"
abbreviation (input) LIBXSMM_X86_INSTR_CMOVLED :: u32 where "LIBXSMM_X86_INSTR_CMOVLED \<equiv> 0xa004104e"
abbreviation (input) LIBXSMM_X86_INSTR_CMOVLEQ :: u32 where "LIBXSMM_X86_INSTR_CMOVLEQ \<equiv> 0xa284104e"
abbreviation (input) LIBXSMM_X86_INSTR_CMOVNEW :: u32 where "LIBXSMM_X86_INSTR_CMOVNEW \<equiv> 0xa0045045"
abbreviation (input) LIBXSMM_X86_INSTR_CMOVNED :: u32 where "LIBXSMM_X86_INSTR_CMOVNED \<equiv> 0xa0041045"
abbreviation (input) LIBXSMM_X86_INSTR_CMOVNEQ :: u32 where "LIBXSMM_X86_INSTR_CMOVNEQ \<equiv> 0xa2841045"
abbreviation (input) LIBXSMM_X86_INSTR_CMOVNOW :: u32 where "LIBXSMM_X86_INSTR_CMOVNOW \<equiv> 0xa0045041"
abbreviation (input) LIBXSMM_X86_INSTR_CMOVNOD :: u32 where "LIBXSMM_X86_INSTR_CMOVNOD \<equiv> 0xa0041041"
abbreviation (input) LIBXSMM_X86_INSTR_CMOVNOQ :: u32 where "LIBXSMM_X86_INSTR_CMOVNOQ \<equiv> 0xa2841041"
abbreviation (input) LIBXSMM_X86_INSTR_CMOVNPW :: u32 where "LIBXSMM_X86_INSTR_CMOVNPW \<equiv> 0xa004504b"
abbreviation (input) LIBXSMM_X86_INSTR_CMOVNPD :: u32 where "LIBXSMM_X86_INSTR_CMOVNPD \<equiv> 0xa004104b"
abbreviation (input) LIBXSMM_X86_INSTR_CMOVNPQ :: u32 where "LIBXSMM_X86_INSTR_CMOVNPQ \<equiv> 0xa284104b"
abbreviation (input) LIBXSMM_X86_INSTR_CMOVNSW :: u32 where "LIBXSMM_X86_INSTR_CMOVNSW \<equiv> 0xa0045049"
abbreviation (input) LIBXSMM_X86_INSTR_CMOVNSD :: u32 where "LIBXSMM_X86_INSTR_CMOVNSD \<equiv> 0xa0041049"
abbreviation (input) LIBXSMM_X86_INSTR_CMOVNSQ :: u32 where "LIBXSMM_X86_INSTR_CMOVNSQ \<equiv> 0xa2841049"
abbreviation (input) LIBXSMM_X86_INSTR_CMOVOW :: u32 where "LIBXSMM_X86_INSTR_CMOVOW \<equiv> 0xa0045040"
abbreviation (input) LIBXSMM_X86_INSTR_CMOVOD :: u32 where "LIBXSMM_X86_INSTR_CMOVOD \<equiv> 0xa0041040"
abbreviation (input) LIBXSMM_X86_INSTR_CMOVOQ :: u32 where "LIBXSMM_X86_INSTR_CMOVOQ \<equiv> 0xa2841040"
abbreviation (input) LIBXSMM_X86_INSTR_CMOVPW :: u32 where "LIBXSMM_X86_INSTR_CMOVPW \<equiv> 0xa004504a"
abbreviation (input) LIBXSMM_X86_INSTR_CMOVPD :: u32 where "LIBXSMM_X86_INSTR_CMOVPD \<equiv> 0xa004104a"
abbreviation (input) LIBXSMM_X86_INSTR_CMOVPQ :: u32 where "LIBXSMM_X86_INSTR_CMOVPQ \<equiv> 0xa284104a"
abbreviation (input) LIBXSMM_X86_INSTR_CMOVSW :: u32 where "LIBXSMM_X86_INSTR_CMOVSW \<equiv> 0xa0045048"
abbreviation (input) LIBXSMM_X86_INSTR_CMOVSD :: u32 where "LIBXSMM_X86_INSTR_CMOVSD \<equiv> 0xa0041048"
abbreviation (input) LIBXSMM_X86_INSTR_CMOVSQ :: u32 where "LIBXSMM_X86_INSTR_CMOVSQ \<equiv> 0xa2841048"
abbreviation (input) LIBXSMM_X86_INSTR_CMPB_RM_R :: u32 where "LIBXSMM_X86_INSTR_CMPB_RM_R \<equiv> 0xa8040038"
abbreviation (input) LIBXSMM_X86_INSTR_CMPW_RM_R :: u32 where "LIBXSMM_X86_INSTR_CMPW_RM_R \<equiv> 0xa8044039"
abbreviation (input) LIBXSMM_X86_INSTR_CMPD_RM_R :: u32 where "LIBXSMM_X86_INSTR_CMPD_RM_R \<equiv> 0xa8040039"
abbreviation (input) LIBXSMM_X86_INSTR_CMPQ_RM_R :: u32 where "LIBXSMM_X86_INSTR_CMPQ_RM_R \<equiv> 0xaa840039"
abbreviation (input) LIBXSMM_X86_INSTR_CMPB_R_RM :: u32 where "LIBXSMM_X86_INSTR_CMPB_R_RM \<equiv> 0xa004003a"
abbreviation (input) LIBXSMM_X86_INSTR_CMPW_R_RM :: u32 where "LIBXSMM_X86_INSTR_CMPW_R_RM \<equiv> 0xa004403b"
abbreviation (input) LIBXSMM_X86_INSTR_CMPD_R_RM :: u32 where "LIBXSMM_X86_INSTR_CMPD_R_RM \<equiv> 0xa004003b"
abbreviation (input) LIBXSMM_X86_INSTR_CMPQ_R_RM :: u32 where "LIBXSMM_X86_INSTR_CMPQ_R_RM \<equiv> 0xa284003b"
abbreviation (input) LIBXSMM_X86_INSTR_IDIVW :: u32 where "LIBXSMM_X86_INSTR_IDIVW \<equiv> 0x9c7440f7"
abbreviation (input) LIBXSMM_X86_INSTR_IDIVD :: u32 where "LIBXSMM_X86_INSTR_IDIVD \<equiv> 0x9c7400f7"
abbreviation (input) LIBXSMM_X86_INSTR_IDIVQ :: u32 where "LIBXSMM_X86_INSTR_IDIVQ \<equiv> 0x9e7400f7"
abbreviation (input) LIBXSMM_X86_INSTR_IMULW :: u32 where "LIBXSMM_X86_INSTR_IMULW \<equiv> 0xa00450af"
abbreviation (input) LIBXSMM_X86_INSTR_IMULD :: u32 where "LIBXSMM_X86_INSTR_IMULD \<equiv> 0xa00410af"
abbreviation (input) LIBXSMM_X86_INSTR_IMULQ :: u32 where "LIBXSMM_X86_INSTR_IMULQ \<equiv> 0xa28410af"
abbreviation (input) LIBXSMM_X86_INSTR_LZCNTW :: u32 where "LIBXSMM_X86_INSTR_LZCNTW \<equiv> 0xa00650bd"
abbreviation (input) LIBXSMM_X86_INSTR_LZCNTD :: u32 where "LIBXSMM_X86_INSTR_LZCNTD \<equiv> 0xa00610bd"
abbreviation (input) LIBXSMM_X86_INSTR_LZCNTQ :: u32 where "LIBXSMM_X86_INSTR_LZCNTQ \<equiv> 0xa28610bd"
abbreviation (input) LIBXSMM_X86_INSTR_MOVB_LD :: u32 where "LIBXSMM_X86_INSTR_MOVB_LD \<equiv> 0xa004008a"
abbreviation (input) LIBXSMM_X86_INSTR_MOVW_LD :: u32 where "LIBXSMM_X86_INSTR_MOVW_LD \<equiv> 0xa004408b"
abbreviation (input) LIBXSMM_X86_INSTR_MOVD_LD :: u32 where "LIBXSMM_X86_INSTR_MOVD_LD \<equiv> 0xa004008b"
abbreviation (input) LIBXSMM_X86_INSTR_MOVQ_LD :: u32 where "LIBXSMM_X86_INSTR_MOVQ_LD \<equiv> 0xa284008b"
abbreviation (input) LIBXSMM_X86_INSTR_NEGB :: u32 where "LIBXSMM_X86_INSTR_NEGB \<equiv> 0x9c3400f6"
abbreviation (input) LIBXSMM_X86_INSTR_NEGW :: u32 where "LIBXSMM_X86_INSTR_NEGW \<equiv> 0x9c3440f7"
abbreviation (input) LIBXSMM_X86_INSTR_NEGD :: u32 where "LIBXSMM_X86_INSTR_NEGD \<equiv> 0x9c3400f7"
abbreviation (input) LIBXSMM_X86_INSTR_NEGQ :: u32 where "LIBXSMM_X86_INSTR_NEGQ \<equiv> 0x9eb400f7"
abbreviation (input) LIBXSMM_X86_INSTR_NOTB :: u32 where "LIBXSMM_X86_INSTR_NOTB \<equiv> 0x9c2400f6"
abbreviation (input) LIBXSMM_X86_INSTR_NOTW :: u32 where "LIBXSMM_X86_INSTR_NOTW \<equiv> 0x9c2440f7"
abbreviation (input) LIBXSMM_X86_INSTR_NOTD :: u32 where "LIBXSMM_X86_INSTR_NOTD \<equiv> 0x9c2400f7"
abbreviation (input) LIBXSMM_X86_INSTR_NOTQ :: u32 where "LIBXSMM_X86_INSTR_NOTQ \<equiv> 0x9ea400f7"
abbreviation (input) LIBXSMM_X86_INSTR_ORB_RM_R :: u32 where "LIBXSMM_X86_INSTR_ORB_RM_R \<equiv> 0xa8040008"
abbreviation (input) LIBXSMM_X86_INSTR_ORW_RM_R :: u32 where "LIBXSMM_X86_INSTR_ORW_RM_R \<equiv> 0xa8044009"
abbreviation (input) LIBXSMM_X86_INSTR_ORD_RM_R :: u32 where "LIBXSMM_X86_INSTR_ORD_RM_R \<equiv> 0xa8040009"
abbreviation (input) LIBXSMM_X86_INSTR_ORQ_RM_R :: u32 where "LIBXSMM_X86_INSTR_ORQ_RM_R \<equiv> 0xaa840009"
abbreviation (input) LIBXSMM_X86_INSTR_ORB_R_RM :: u32 where "LIBXSMM_X86_INSTR_ORB_R_RM \<equiv> 0xa004000a"
abbreviation (input) LIBXSMM_X86_INSTR_ORW_R_RM :: u32 where "LIBXSMM_X86_INSTR_ORW_R_RM \<equiv> 0xa004400b"
abbreviation (input) LIBXSMM_X86_INSTR_ORD_R_RM :: u32 where "LIBXSMM_X86_INSTR_ORD_R_RM \<equiv> 0xa004000b"
abbreviation (input) LIBXSMM_X86_INSTR_ORQ_R_RM :: u32 where "LIBXSMM_X86_INSTR_ORQ_R_RM \<equiv> 0xa284000b"
abbreviation (input) LIBXSMM_X86_INSTR_POPW :: u32 where "LIBXSMM_X86_INSTR_POPW \<equiv> 0x91044058"
abbreviation (input) LIBXSMM_X86_INSTR_POPQ :: u32 where "LIBXSMM_X86_INSTR_POPQ \<equiv> 0x91040058"
abbreviation (input) LIBXSMM_X86_INSTR_POPW_RM :: u32 where "LIBXSMM_X86_INSTR_POPW_RM \<equiv> 0x9c04408f"
abbreviation (input) LIBXSMM_X86_INSTR_POPQ_RM :: u32 where "LIBXSMM_X86_INSTR_POPQ_RM \<equiv> 0x9c04008f"
abbreviation (input) LIBXSMM_X86_INSTR_POPCNT :: u32 where "LIBXSMM_X86_INSTR_POPCNT \<equiv> 0x00007534"
abbreviation (input) LIBXSMM_X86_INSTR_POPCNTW :: u32 where "LIBXSMM_X86_INSTR_POPCNTW \<equiv> 0xa00650b8"
abbreviation (input) LIBXSMM_X86_INSTR_POPCNTD :: u32 where "LIBXSMM_X86_INSTR_POPCNTD \<equiv> 0xa00610b8"
abbreviation (input) LIBXSMM_X86_INSTR_POPCNTQ :: u32 where "LIBXSMM_X86_INSTR_POPCNTQ \<equiv> 0xa28610b8"
abbreviation (input) LIBXSMM_X86_INSTR_PUSHW :: u32 where "LIBXSMM_X86_INSTR_PUSHW \<equiv> 0x91044050"
abbreviation (input) LIBXSMM_X86_INSTR_PUSHQ :: u32 where "LIBXSMM_X86_INSTR_PUSHQ \<equiv> 0x91040050"
abbreviation (input) LIBXSMM_X86_INSTR_PUSHW_RM :: u32 where "LIBXSMM_X86_INSTR_PUSHW_RM \<equiv> 0x9c6440ff"
abbreviation (input) LIBXSMM_X86_INSTR_PUSHQ_RM :: u32 where "LIBXSMM_X86_INSTR_PUSHQ_RM \<equiv> 0x9c6400ff"
abbreviation (input) LIBXSMM_X86_INSTR_SUBB_RM_R :: u32 where "LIBXSMM_X86_INSTR_SUBB_RM_R \<equiv> 0xa0040028"
abbreviation (input) LIBXSMM_X86_INSTR_SUBW_RM_R :: u32 where "LIBXSMM_X86_INSTR_SUBW_RM_R \<equiv> 0xa0044029"
abbreviation (input) LIBXSMM_X86_INSTR_SUBD_RM_R :: u32 where "LIBXSMM_X86_INSTR_SUBD_RM_R \<equiv> 0xa0040029"
abbreviation (input) LIBXSMM_X86_INSTR_SUBQ_RM_R :: u32 where "LIBXSMM_X86_INSTR_SUBQ_RM_R \<equiv> 0xa2840029"
abbreviation (input) LIBXSMM_X86_INSTR_SUBB_R_RM :: u32 where "LIBXSMM_X86_INSTR_SUBB_R_RM \<equiv> 0xa004002a"
abbreviation (input) LIBXSMM_X86_INSTR_SUBW_R_RM :: u32 where "LIBXSMM_X86_INSTR_SUBW_R_RM \<equiv> 0xa004402b"
abbreviation (input) LIBXSMM_X86_INSTR_SUBD_R_RM :: u32 where "LIBXSMM_X86_INSTR_SUBD_R_RM \<equiv> 0xa004002b"
abbreviation (input) LIBXSMM_X86_INSTR_SUBQ_R_RM :: u32 where "LIBXSMM_X86_INSTR_SUBQ_R_RM \<equiv> 0xa284002b"
abbreviation (input) LIBXSMM_X86_INSTR_TZCNT :: u32 where "LIBXSMM_X86_INSTR_TZCNT \<equiv> 0x00007539"
abbreviation (input) LIBXSMM_X86_INSTR_TZCNTW :: u32 where "LIBXSMM_X86_INSTR_TZCNTW \<equiv> 0xa00650bc"
abbreviation (input) LIBXSMM_X86_INSTR_TZCNTD :: u32 where "LIBXSMM_X86_INSTR_TZCNTD \<equiv> 0xa00610bc"
abbreviation (input) LIBXSMM_X86_INSTR_TZCNTQ :: u32 where "LIBXSMM_X86_INSTR_TZCNTQ \<equiv> 0xa28610bc"
abbreviation (input) LIBXSMM_X86_INSTR_XORB_RM_R :: u32 where "LIBXSMM_X86_INSTR_XORB_RM_R \<equiv> 0xa8040030"
abbreviation (input) LIBXSMM_X86_INSTR_XORW_RM_R :: u32 where "LIBXSMM_X86_INSTR_XORW_RM_R \<equiv> 0xa8044031"
abbreviation (input) LIBXSMM_X86_INSTR_XORD_RM_R :: u32 where "LIBXSMM_X86_INSTR_XORD_RM_R \<equiv> 0xa8040031"
abbreviation (input) LIBXSMM_X86_INSTR_XORQ_RM_R :: u32 where "LIBXSMM_X86_INSTR_XORQ_RM_R \<equiv> 0xaa840031"
abbreviation (input) LIBXSMM_X86_INSTR_XORB_R_RM :: u32 where "LIBXSMM_X86_INSTR_XORB_R_RM \<equiv> 0xa0040032"
abbreviation (input) LIBXSMM_X86_INSTR_XORW_R_RM :: u32 where "LIBXSMM_X86_INSTR_XORW_R_RM \<equiv> 0xa0044033"
abbreviation (input) LIBXSMM_X86_INSTR_XORD_R_RM :: u32 where "LIBXSMM_X86_INSTR_XORD_R_RM \<equiv> 0xa0040033"
abbreviation (input) LIBXSMM_X86_INSTR_XORQ_R_RM :: u32 where "LIBXSMM_X86_INSTR_XORQ_R_RM \<equiv> 0xa2840033"
abbreviation (input) LIBXSMM_X86_INSTR_RDPID :: u32 where "LIBXSMM_X86_INSTR_RDPID \<equiv> 0x9c7610c7"
abbreviation (input) LIBXSMM_X86_INSTR_KMOVB_GPR_LD :: u32 where "LIBXSMM_X86_INSTR_KMOVB_GPR_LD \<equiv> 0xa0051192"
abbreviation (input) LIBXSMM_X86_INSTR_KMOVW_GPR_LD :: u32 where "LIBXSMM_X86_INSTR_KMOVW_GPR_LD \<equiv> 0xa0041192"
abbreviation (input) LIBXSMM_X86_INSTR_KMOVD_GPR_LD :: u32 where "LIBXSMM_X86_INSTR_KMOVD_GPR_LD \<equiv> 0xa0071192"
abbreviation (input) LIBXSMM_X86_INSTR_KMOVQ_GPR_LD :: u32 where "LIBXSMM_X86_INSTR_KMOVQ_GPR_LD \<equiv> 0xa0871192"
abbreviation (input) LIBXSMM_X86_INSTR_KMOVB_GPR_ST :: u32 where "LIBXSMM_X86_INSTR_KMOVB_GPR_ST \<equiv> 0xa8051193"
abbreviation (input) LIBXSMM_X86_INSTR_KMOVW_GPR_ST :: u32 where "LIBXSMM_X86_INSTR_KMOVW_GPR_ST \<equiv> 0xa8041193"
abbreviation (input) LIBXSMM_X86_INSTR_KMOVD_GPR_ST :: u32 where "LIBXSMM_X86_INSTR_KMOVD_GPR_ST \<equiv> 0xa8071193"
abbreviation (input) LIBXSMM_X86_INSTR_KMOVQ_GPR_ST :: u32 where "LIBXSMM_X86_INSTR_KMOVQ_GPR_ST \<equiv> 0xa8871193"
abbreviation (input) LIBXSMM_X86_INSTR_KMOVB_LD :: u32 where "LIBXSMM_X86_INSTR_KMOVB_LD \<equiv> 0xa0051190"
abbreviation (input) LIBXSMM_X86_INSTR_KMOVW_LD :: u32 where "LIBXSMM_X86_INSTR_KMOVW_LD \<equiv> 0xa0041190"
abbreviation (input) LIBXSMM_X86_INSTR_KMOVD_LD :: u32 where "LIBXSMM_X86_INSTR_KMOVD_LD \<equiv> 0xa0851190"
abbreviation (input) LIBXSMM_X86_INSTR_KMOVQ_LD :: u32 where "LIBXSMM_X86_INSTR_KMOVQ_LD \<equiv> 0xa0841190"
abbreviation (input) LIBXSMM_X86_INSTR_KMOVB_ST :: u32 where "LIBXSMM_X86_INSTR_KMOVB_ST \<equiv> 0xa0051191"
abbreviation (input) LIBXSMM_X86_INSTR_KMOVW_ST :: u32 where "LIBXSMM_X86_INSTR_KMOVW_ST \<equiv> 0xa0041191"
abbreviation (input) LIBXSMM_X86_INSTR_KMOVD_ST :: u32 where "LIBXSMM_X86_INSTR_KMOVD_ST \<equiv> 0xa0851191"
abbreviation (input) LIBXSMM_X86_INSTR_KMOVQ_ST :: u32 where "LIBXSMM_X86_INSTR_KMOVQ_ST \<equiv> 0xa0841191"
abbreviation (input) LIBXSMM_X86_INSTR_KADDB :: u32 where "LIBXSMM_X86_INSTR_KADDB \<equiv> 0xb005134a"
abbreviation (input) LIBXSMM_X86_INSTR_KADDW :: u32 where "LIBXSMM_X86_INSTR_KADDW \<equiv> 0xb004134a"
abbreviation (input) LIBXSMM_X86_INSTR_KADDD :: u32 where "LIBXSMM_X86_INSTR_KADDD \<equiv> 0xb085134a"
abbreviation (input) LIBXSMM_X86_INSTR_KADDQ :: u32 where "LIBXSMM_X86_INSTR_KADDQ \<equiv> 0xb084134a"
abbreviation (input) LIBXSMM_X86_INSTR_KANDB :: u32 where "LIBXSMM_X86_INSTR_KANDB \<equiv> 0xb0051341"
abbreviation (input) LIBXSMM_X86_INSTR_KANDW :: u32 where "LIBXSMM_X86_INSTR_KANDW \<equiv> 0xb0041341"
abbreviation (input) LIBXSMM_X86_INSTR_KANDD :: u32 where "LIBXSMM_X86_INSTR_KANDD \<equiv> 0xb0851341"
abbreviation (input) LIBXSMM_X86_INSTR_KANDQ :: u32 where "LIBXSMM_X86_INSTR_KANDQ \<equiv> 0xb0841341"
abbreviation (input) LIBXSMM_X86_INSTR_KANDNB :: u32 where "LIBXSMM_X86_INSTR_KANDNB \<equiv> 0xb0051342"
abbreviation (input) LIBXSMM_X86_INSTR_KANDNW :: u32 where "LIBXSMM_X86_INSTR_KANDNW \<equiv> 0xb0041342"
abbreviation (input) LIBXSMM_X86_INSTR_KANDND :: u32 where "LIBXSMM_X86_INSTR_KANDND \<equiv> 0xb0851342"
abbreviation (input) LIBXSMM_X86_INSTR_KANDNQ :: u32 where "LIBXSMM_X86_INSTR_KANDNQ \<equiv> 0xb0841342"
abbreviation (input) LIBXSMM_X86_INSTR_KNOTB :: u32 where "LIBXSMM_X86_INSTR_KNOTB \<equiv> 0xa0051144"
abbreviation (input) LIBXSMM_X86_INSTR_KNOTW :: u32 where "LIBXSMM_X86_INSTR_KNOTW \<equiv> 0xa0041144"
abbreviation (input) LIBXSMM_X86_INSTR_KNOTD :: u32 where "LIBXSMM_X86_INSTR_KNOTD \<equiv> 0xa0851144"
abbreviation (input) LIBXSMM_X86_INSTR_KNOTQ :: u32 where "LIBXSMM_X86_INSTR_KNOTQ \<equiv> 0xa0841144"
abbreviation (input) LIBXSMM_X86_INSTR_KORB :: u32 where "LIBXSMM_X86_INSTR_KORB \<equiv> 0xb0051345"
abbreviation (input) LIBXSMM_X86_INSTR_KORW :: u32 where "LIBXSMM_X86_INSTR_KORW \<equiv> 0xb0041345"
abbreviation (input) LIBXSMM_X86_INSTR_KORD :: u32 where "LIBXSMM_X86_INSTR_KORD \<equiv> 0xb0851345"
abbreviation (input) LIBXSMM_X86_INSTR_KORQ :: u32 where "LIBXSMM_X86_INSTR_KORQ \<equiv> 0xb0841345"
abbreviation (input) LIBXSMM_X86_INSTR_KORTESTB :: u32 where "LIBXSMM_X86_INSTR_KORTESTB \<equiv> 0xa0051198"
abbreviation (input) LIBXSMM_X86_INSTR_KORTESTW :: u32 where "LIBXSMM_X86_INSTR_KORTESTW \<equiv> 0xa0041198"
abbreviation (input) LIBXSMM_X86_INSTR_KORTESTD :: u32 where "LIBXSMM_X86_INSTR_KORTESTD \<equiv> 0xa0851198"
abbreviation (input) LIBXSMM_X86_INSTR_KORTESTQ :: u32 where "LIBXSMM_X86_INSTR_KORTESTQ \<equiv> 0xa0841198"
abbreviation (input) LIBXSMM_X86_INSTR_KSHIFTLB :: u32 where "LIBXSMM_X86_INSTR_KSHIFTLB \<equiv> 0xa00d3132"
abbreviation (input) LIBXSMM_X86_INSTR_KSHIFTLW :: u32 where "LIBXSMM_X86_INSTR_KSHIFTLW \<equiv> 0xa08d3132"
abbreviation (input) LIBXSMM_X86_INSTR_KSHIFTLD :: u32 where "LIBXSMM_X86_INSTR_KSHIFTLD \<equiv> 0xa00d3133"
abbreviation (input) LIBXSMM_X86_INSTR_KSHIFTLQ :: u32 where "LIBXSMM_X86_INSTR_KSHIFTLQ \<equiv> 0xa08d3133"
abbreviation (input) LIBXSMM_X86_INSTR_KSHIFTRB :: u32 where "LIBXSMM_X86_INSTR_KSHIFTRB \<equiv> 0xa00d3130"
abbreviation (input) LIBXSMM_X86_INSTR_KSHIFTRW :: u32 where "LIBXSMM_X86_INSTR_KSHIFTRW \<equiv> 0xa08d3130"
abbreviation (input) LIBXSMM_X86_INSTR_KSHIFTRD :: u32 where "LIBXSMM_X86_INSTR_KSHIFTRD \<equiv> 0xa00d3131"
abbreviation (input) LIBXSMM_X86_INSTR_KSHIFTRQ :: u32 where "LIBXSMM_X86_INSTR_KSHIFTRQ \<equiv> 0xa08d3131"
abbreviation (input) LIBXSMM_X86_INSTR_KTESTB :: u32 where "LIBXSMM_X86_INSTR_KTESTB \<equiv> 0xa0051199"
abbreviation (input) LIBXSMM_X86_INSTR_KTESTW :: u32 where "LIBXSMM_X86_INSTR_KTESTW \<equiv> 0xa0041199"
abbreviation (input) LIBXSMM_X86_INSTR_KTESTD :: u32 where "LIBXSMM_X86_INSTR_KTESTD \<equiv> 0xa0851199"
abbreviation (input) LIBXSMM_X86_INSTR_KTESTQ :: u32 where "LIBXSMM_X86_INSTR_KTESTQ \<equiv> 0xa0841199"
abbreviation (input) LIBXSMM_X86_INSTR_KUNPCKBW :: u32 where "LIBXSMM_X86_INSTR_KUNPCKBW \<equiv> 0xb005134b"
abbreviation (input) LIBXSMM_X86_INSTR_KUNPCKWD :: u32 where "LIBXSMM_X86_INSTR_KUNPCKWD \<equiv> 0xb004134b"
abbreviation (input) LIBXSMM_X86_INSTR_KUNPCKDQ :: u32 where "LIBXSMM_X86_INSTR_KUNPCKDQ \<equiv> 0xb084134b"
abbreviation (input) LIBXSMM_X86_INSTR_KXNORB :: u32 where "LIBXSMM_X86_INSTR_KXNORB \<equiv> 0xb0051346"
abbreviation (input) LIBXSMM_X86_INSTR_KXNORW :: u32 where "LIBXSMM_X86_INSTR_KXNORW \<equiv> 0xb0041346"
abbreviation (input) LIBXSMM_X86_INSTR_KXNORD :: u32 where "LIBXSMM_X86_INSTR_KXNORD \<equiv> 0xb0851346"
abbreviation (input) LIBXSMM_X86_INSTR_KXNORQ :: u32 where "LIBXSMM_X86_INSTR_KXNORQ \<equiv> 0xb0841346"
abbreviation (input) LIBXSMM_X86_INSTR_KXORB :: u32 where "LIBXSMM_X86_INSTR_KXORB \<equiv> 0xb0051347"
abbreviation (input) LIBXSMM_X86_INSTR_KXORW :: u32 where "LIBXSMM_X86_INSTR_KXORW \<equiv> 0xb0041347"
abbreviation (input) LIBXSMM_X86_INSTR_KXORD :: u32 where "LIBXSMM_X86_INSTR_KXORD \<equiv> 0xb0851347"
abbreviation (input) LIBXSMM_X86_INSTR_KXORQ :: u32 where "LIBXSMM_X86_INSTR_KXORQ \<equiv> 0xb0841347"
abbreviation (input) LIBXSMM_X86_INSTR_JL :: u32 where "LIBXSMM_X86_INSTR_JL \<equiv> 0x00007594"
abbreviation (input) LIBXSMM_X86_INSTR_JE :: u32 where "LIBXSMM_X86_INSTR_JE \<equiv> 0x00007595"
abbreviation (input) LIBXSMM_X86_INSTR_JZ :: u32 where "LIBXSMM_X86_INSTR_JZ \<equiv> 0x00007596"
abbreviation (input) LIBXSMM_X86_INSTR_JG :: u32 where "LIBXSMM_X86_INSTR_JG \<equiv> 0x00007597"
abbreviation (input) LIBXSMM_X86_INSTR_JNE :: u32 where "LIBXSMM_X86_INSTR_JNE \<equiv> 0x00007598"
abbreviation (input) LIBXSMM_X86_INSTR_JNZ :: u32 where "LIBXSMM_X86_INSTR_JNZ \<equiv> 0x00007599"
abbreviation (input) LIBXSMM_X86_INSTR_JGE :: u32 where "LIBXSMM_X86_INSTR_JGE \<equiv> 0x0000759a"
abbreviation (input) LIBXSMM_X86_INSTR_JLE :: u32 where "LIBXSMM_X86_INSTR_JLE \<equiv> 0x0000759b"
abbreviation (input) LIBXSMM_X86_INSTR_JMP :: u32 where "LIBXSMM_X86_INSTR_JMP \<equiv> 0x0000759c"
abbreviation (input) LIBXSMM_X86_INSTR_TILELOADD :: u32 where "LIBXSMM_X86_INSTR_TILELOADD \<equiv> 0x6007204b"
abbreviation (input) LIBXSMM_X86_INSTR_TILELOADDT1 :: u32 where "LIBXSMM_X86_INSTR_TILELOADDT1 \<equiv> 0x6005204b"
abbreviation (input) LIBXSMM_X86_INSTR_TILESTORED :: u32 where "LIBXSMM_X86_INSTR_TILESTORED \<equiv> 0x6006204b"
abbreviation (input) LIBXSMM_X86_INSTR_TILEZERO :: u32 where "LIBXSMM_X86_INSTR_TILEZERO \<equiv> 0x50072049"
abbreviation (input) LIBXSMM_X86_INSTR_LDTILECFG :: u32 where "LIBXSMM_X86_INSTR_LDTILECFG \<equiv> 0x0000c351"
abbreviation (input) LIBXSMM_X86_INSTR_STTILECFG :: u32 where "LIBXSMM_X86_INSTR_STTILECFG \<equiv> 0x0000c352"
abbreviation (input) LIBXSMM_X86_INSTR_TILERELEASE :: u32 where "LIBXSMM_X86_INSTR_TILERELEASE \<equiv> 0x0000c353"
abbreviation (input) LIBXSMM_X86_INSTR_TDPBSSD :: u32 where "LIBXSMM_X86_INSTR_TDPBSSD \<equiv> 0x7007205e"
abbreviation (input) LIBXSMM_X86_INSTR_TDPBSUD :: u32 where "LIBXSMM_X86_INSTR_TDPBSUD \<equiv> 0x7006205e"
abbreviation (input) LIBXSMM_X86_INSTR_TDPBUSD :: u32 where "LIBXSMM_X86_INSTR_TDPBUSD \<equiv> 0x7005205e"
abbreviation (input) LIBXSMM_X86_INSTR_TDPBUUD :: u32 where "LIBXSMM_X86_INSTR_TDPBUUD \<equiv> 0x7004205e"
abbreviation (input) LIBXSMM_X86_INSTR_TDPBF16PS :: u32 where "LIBXSMM_X86_INSTR_TDPBF16PS \<equiv> 0x7006205c"
abbreviation (input) LIBXSMM_X86_INSTR_TDPFP16PS :: u32 where "LIBXSMM_X86_INSTR_TDPFP16PS \<equiv> 0x7007205c"
abbreviation (input) LIBXSMM_X86_INSTR_VMASKMOVPD_LD :: u32 where "LIBXSMM_X86_INSTR_VMASKMOVPD_LD \<equiv> 0x7005202d"
abbreviation (input) LIBXSMM_X86_INSTR_VMASKMOVPS_LD :: u32 where "LIBXSMM_X86_INSTR_VMASKMOVPS_LD \<equiv> 0x7005202c"
abbreviation (input) LIBXSMM_X86_INSTR_VMOVAPD :: u32 where "LIBXSMM_X86_INSTR_VMOVAPD \<equiv> 0x20851628"
abbreviation (input) LIBXSMM_X86_INSTR_VMOVUPD :: u32 where "LIBXSMM_X86_INSTR_VMOVUPD \<equiv> 0x20851610"
abbreviation (input) LIBXSMM_X86_INSTR_VMOVAPS :: u32 where "LIBXSMM_X86_INSTR_VMOVAPS \<equiv> 0x20041628"
abbreviation (input) LIBXSMM_X86_INSTR_VMOVUPS :: u32 where "LIBXSMM_X86_INSTR_VMOVUPS \<equiv> 0x20041610"
abbreviation (input) LIBXSMM_X86_INSTR_VMOVSD :: u32 where "LIBXSMM_X86_INSTR_VMOVSD \<equiv> 0x20871b10"
abbreviation (input) LIBXSMM_X86_INSTR_VMOVSS :: u32 where "LIBXSMM_X86_INSTR_VMOVSS \<equiv> 0x20061a10"
abbreviation (input) LIBXSMM_X86_INSTR_VMOVDQA32 :: u32 where "LIBXSMM_X86_INSTR_VMOVDQA32 \<equiv> 0xe005166f"
abbreviation (input) LIBXSMM_X86_INSTR_VMOVDQA64 :: u32 where "LIBXSMM_X86_INSTR_VMOVDQA64 \<equiv> 0xe085166f"
abbreviation (input) LIBXSMM_X86_INSTR_VMOVDQU8 :: u32 where "LIBXSMM_X86_INSTR_VMOVDQU8 \<equiv> 0xe007166f"
abbreviation (input) LIBXSMM_X86_INSTR_VMOVDQU16 :: u32 where "LIBXSMM_X86_INSTR_VMOVDQU16 \<equiv> 0xe087166f"
abbreviation (input) LIBXSMM_X86_INSTR_VMOVDQU32 :: u32 where "LIBXSMM_X86_INSTR_VMOVDQU32 \<equiv> 0xe006166f"
abbreviation (input) LIBXSMM_X86_INSTR_VMOVDQU64 :: u32 where "LIBXSMM_X86_INSTR_VMOVDQU64 \<equiv> 0xe086166f"
abbreviation (input) LIBXSMM_X86_INSTR_MOVAPD :: u32 where "LIBXSMM_X86_INSTR_MOVAPD \<equiv> 0xa0051028"
abbreviation (input) LIBXSMM_X86_INSTR_MOVUPD :: u32 where "LIBXSMM_X86_INSTR_MOVUPD \<equiv> 0xa0051010"
abbreviation (input) LIBXSMM_X86_INSTR_MOVAPS :: u32 where "LIBXSMM_X86_INSTR_MOVAPS \<equiv> 0xa0041028"
abbreviation (input) LIBXSMM_X86_INSTR_MOVUPS :: u32 where "LIBXSMM_X86_INSTR_MOVUPS \<equiv> 0xa0041010"
abbreviation (input) LIBXSMM_X86_INSTR_MOVSD :: u32 where "LIBXSMM_X86_INSTR_MOVSD \<equiv> 0xa0071010"
abbreviation (input) LIBXSMM_X86_INSTR_MOVSS :: u32 where "LIBXSMM_X86_INSTR_MOVSS \<equiv> 0xa0061010"

section \<open>Classes of instructions\<close>

text \<open>The instructions that the functions accept, from the \<open>switch\<close> statements.\<close>

definition hybrid_instrs :: "u32 list" where
  "hybrid_instrs = [
    LIBXSMM_X86_INSTR_VSHUFPS, LIBXSMM_X86_INSTR_VSHUFPD, LIBXSMM_X86_INSTR_VPSHUFB, LIBXSMM_X86_INSTR_VPSHUFD,
    LIBXSMM_X86_INSTR_VPSHUFHW, LIBXSMM_X86_INSTR_VPSHUFLW, LIBXSMM_X86_INSTR_VUNPCKLPD, LIBXSMM_X86_INSTR_VUNPCKLPS,
    LIBXSMM_X86_INSTR_VUNPCKHPD, LIBXSMM_X86_INSTR_VUNPCKHPS, LIBXSMM_X86_INSTR_VPUNPCKLBW,
    LIBXSMM_X86_INSTR_VPUNPCKHBW, LIBXSMM_X86_INSTR_VPUNPCKLWD, LIBXSMM_X86_INSTR_VPUNPCKHWD,
    LIBXSMM_X86_INSTR_VPUNPCKLDQ, LIBXSMM_X86_INSTR_VPUNPCKHDQ, LIBXSMM_X86_INSTR_VPUNPCKLQDQ,
    LIBXSMM_X86_INSTR_VPUNPCKHQDQ, LIBXSMM_X86_INSTR_VEXTRACTF128, LIBXSMM_X86_INSTR_VEXTRACTI128,
    LIBXSMM_X86_INSTR_VPERMB, LIBXSMM_X86_INSTR_VPERMW, LIBXSMM_X86_INSTR_VPERMD, LIBXSMM_X86_INSTR_VPERMQ_I,
    LIBXSMM_X86_INSTR_VPERMPD, LIBXSMM_X86_INSTR_VPERMPS, LIBXSMM_X86_INSTR_VPERMPD_I, LIBXSMM_X86_INSTR_VPERMILPS,
    LIBXSMM_X86_INSTR_VPERMILPS_I, LIBXSMM_X86_INSTR_VPERM2F128, LIBXSMM_X86_INSTR_VPERM2I128,
    LIBXSMM_X86_INSTR_VPERMILPD_VEX, LIBXSMM_X86_INSTR_VPERMILPD_VEX_I, LIBXSMM_X86_INSTR_VPERMILPD,
    LIBXSMM_X86_INSTR_VPERMILPD_I, LIBXSMM_X86_INSTR_VPERMT2B, LIBXSMM_X86_INSTR_VPERMT2W,
    LIBXSMM_X86_INSTR_VPERMT2D, LIBXSMM_X86_INSTR_VPERMT2Q, LIBXSMM_X86_INSTR_VPERMT2PS, LIBXSMM_X86_INSTR_VPERMT2PD,
    LIBXSMM_X86_INSTR_VPERMI2B, LIBXSMM_X86_INSTR_VPERMI2W, LIBXSMM_X86_INSTR_VPERMI2D, LIBXSMM_X86_INSTR_VPERMI2Q,
    LIBXSMM_X86_INSTR_VPERMI2PS, LIBXSMM_X86_INSTR_VPERMI2PD, LIBXSMM_X86_INSTR_VBLENDPD, LIBXSMM_X86_INSTR_VBLENDPS,
    LIBXSMM_X86_INSTR_VBLENDVPD, LIBXSMM_X86_INSTR_VBLENDVPS, LIBXSMM_X86_INSTR_VPBLENDD, LIBXSMM_X86_INSTR_VPBLENDW,
    LIBXSMM_X86_INSTR_VPBLENDVB, LIBXSMM_X86_INSTR_VSHUFF32X4, LIBXSMM_X86_INSTR_VSHUFF64X2,
    LIBXSMM_X86_INSTR_VSHUFI32X4, LIBXSMM_X86_INSTR_VSHUFI64X2, LIBXSMM_X86_INSTR_VEXTRACTF32X4,
    LIBXSMM_X86_INSTR_VEXTRACTF64X2, LIBXSMM_X86_INSTR_VEXTRACTF32X8, LIBXSMM_X86_INSTR_VEXTRACTF64X4,
    LIBXSMM_X86_INSTR_VEXTRACTI32X4, LIBXSMM_X86_INSTR_VEXTRACTI64X2, LIBXSMM_X86_INSTR_VEXTRACTI32X8,
    LIBXSMM_X86_INSTR_VEXTRACTI64X4, LIBXSMM_X86_INSTR_VINSERTF32X4, LIBXSMM_X86_INSTR_VINSERTF64X2,
    LIBXSMM_X86_INSTR_VINSERTF32X8, LIBXSMM_X86_INSTR_VINSERTF64X4, LIBXSMM_X86_INSTR_VINSERTI32X4,
    LIBXSMM_X86_INSTR_VINSERTI64X2, LIBXSMM_X86_INSTR_VINSERTI32X8, LIBXSMM_X86_INSTR_VINSERTI64X4,
    LIBXSMM_X86_INSTR_VBLENDMPS, LIBXSMM_X86_INSTR_VBLENDMPD, LIBXSMM_X86_INSTR_VPBLENDMB,
    LIBXSMM_X86_INSTR_VPBLENDMW, LIBXSMM_X86_INSTR_VPBLENDMD, LIBXSMM_X86_INSTR_VPBLENDMQ,
    LIBXSMM_X86_INSTR_VEXPANDPD, LIBXSMM_X86_INSTR_VEXPANDPS, LIBXSMM_X86_INSTR_VPEXPANDQ,
    LIBXSMM_X86_INSTR_VPEXPANDD, LIBXSMM_X86_INSTR_VPEXPANDW, LIBXSMM_X86_INSTR_VPEXPANDB,
    LIBXSMM_X86_INSTR_VFMADD132PS, LIBXSMM_X86_INSTR_VFMADD132PD, LIBXSMM_X86_INSTR_VFMADD213PS,
    LIBXSMM_X86_INSTR_VFMADD213PD, LIBXSMM_X86_INSTR_VFMADD231PS, LIBXSMM_X86_INSTR_VFMADD231PD,
    LIBXSMM_X86_INSTR_VFMSUB132PS, LIBXSMM_X86_INSTR_VFMSUB132PD, LIBXSMM_X86_INSTR_VFMSUB213PS,
    LIBXSMM_X86_INSTR_VFMSUB213PD, LIBXSMM_X86_INSTR_VFMSUB231PS, LIBXSMM_X86_INSTR_VFMSUB231PD,
    LIBXSMM_X86_INSTR_VFNMADD132PS, LIBXSMM_X86_INSTR_VFNMADD132PD, LIBXSMM_X86_INSTR_VFNMADD213PS,
    LIBXSMM_X86_INSTR_VFNMADD213PD, LIBXSMM_X86_INSTR_VFNMADD231PS, LIBXSMM_X86_INSTR_VFNMADD231PD,
    LIBXSMM_X86_INSTR_VFNMSUB132PS, LIBXSMM_X86_INSTR_VFNMSUB132PD, LIBXSMM_X86_INSTR_VFNMSUB213PS,
    LIBXSMM_X86_INSTR_VFNMSUB213PD, LIBXSMM_X86_INSTR_VFNMSUB231PS, LIBXSMM_X86_INSTR_VFNMSUB231PD,
    LIBXSMM_X86_INSTR_VFMADD132SD, LIBXSMM_X86_INSTR_VFMADD213SD, LIBXSMM_X86_INSTR_VFMADD231SD,
    LIBXSMM_X86_INSTR_VFMADD132SS, LIBXSMM_X86_INSTR_VFMADD213SS, LIBXSMM_X86_INSTR_VFMADD231SS,
    LIBXSMM_X86_INSTR_VFMSUB132SD, LIBXSMM_X86_INSTR_VFMSUB213SD, LIBXSMM_X86_INSTR_VFMSUB231SD,
    LIBXSMM_X86_INSTR_VFMSUB132SS, LIBXSMM_X86_INSTR_VFMSUB213SS, LIBXSMM_X86_INSTR_VFMSUB231SS,
    LIBXSMM_X86_INSTR_VFNMADD132SD, LIBXSMM_X86_INSTR_VFNMADD213SD, LIBXSMM_X86_INSTR_VFNMADD231SD,
    LIBXSMM_X86_INSTR_VFNMADD132SS, LIBXSMM_X86_INSTR_VFNMADD213SS, LIBXSMM_X86_INSTR_VFNMADD231SS,
    LIBXSMM_X86_INSTR_VFNMSUB132SD, LIBXSMM_X86_INSTR_VFNMSUB213SD, LIBXSMM_X86_INSTR_VFNMSUB231SD,
    LIBXSMM_X86_INSTR_VFNMSUB132SS, LIBXSMM_X86_INSTR_VFNMSUB213SS, LIBXSMM_X86_INSTR_VFNMSUB231SS,
    LIBXSMM_X86_INSTR_VROUNDPD, LIBXSMM_X86_INSTR_VROUNDSD, LIBXSMM_X86_INSTR_VROUNDPS, LIBXSMM_X86_INSTR_VROUNDSS,
    LIBXSMM_X86_INSTR_VRCPPS, LIBXSMM_X86_INSTR_VRCPSS, LIBXSMM_X86_INSTR_VRSQRTPS, LIBXSMM_X86_INSTR_VRSQRTSS,
    LIBXSMM_X86_INSTR_VRANGEPS, LIBXSMM_X86_INSTR_VRANGEPD, LIBXSMM_X86_INSTR_VRANGESS, LIBXSMM_X86_INSTR_VRANGESD,
    LIBXSMM_X86_INSTR_VREDUCEPS, LIBXSMM_X86_INSTR_VREDUCEPD, LIBXSMM_X86_INSTR_VREDUCESS,
    LIBXSMM_X86_INSTR_VREDUCESD, LIBXSMM_X86_INSTR_VRCP14PS, LIBXSMM_X86_INSTR_VRCP14PD, LIBXSMM_X86_INSTR_VRCP14SS,
    LIBXSMM_X86_INSTR_VRCP14SD, LIBXSMM_X86_INSTR_VRNDSCALEPS, LIBXSMM_X86_INSTR_VRNDSCALEPD,
    LIBXSMM_X86_INSTR_VRNDSCALESS, LIBXSMM_X86_INSTR_VRNDSCALESD, LIBXSMM_X86_INSTR_VRSQRT14PS,
    LIBXSMM_X86_INSTR_VRSQRT14PD, LIBXSMM_X86_INSTR_VRSQRT14SS, LIBXSMM_X86_INSTR_VRSQRT14SD,
    LIBXSMM_X86_INSTR_VSCALEFPS, LIBXSMM_X86_INSTR_VSCALEFPD, LIBXSMM_X86_INSTR_VSCALEFSS,
    LIBXSMM_X86_INSTR_VSCALEFSD, LIBXSMM_X86_INSTR_VCMPPS, LIBXSMM_X86_INSTR_VCMPSS, LIBXSMM_X86_INSTR_VCMPPD,
    LIBXSMM_X86_INSTR_VCMPSD, LIBXSMM_X86_INSTR_VPCMPB, LIBXSMM_X86_INSTR_VPCMPUB, LIBXSMM_X86_INSTR_VPCMPW,
    LIBXSMM_X86_INSTR_VPCMPUW, LIBXSMM_X86_INSTR_VPCMPD, LIBXSMM_X86_INSTR_VPCMPUD, LIBXSMM_X86_INSTR_VPCMPQ,
    LIBXSMM_X86_INSTR_VPCMPUQ, LIBXSMM_X86_INSTR_VPCMPEQB, LIBXSMM_X86_INSTR_VPCMPEQW, LIBXSMM_X86_INSTR_VPCMPEQD,
    LIBXSMM_X86_INSTR_VPCMPEQQ, LIBXSMM_X86_INSTR_VPCMPGTB, LIBXSMM_X86_INSTR_VPCMPGTW, LIBXSMM_X86_INSTR_VPCMPGTD,
    LIBXSMM_X86_INSTR_VPCMPGTQ, LIBXSMM_X86_INSTR_VPCMPESTRI, LIBXSMM_X86_INSTR_VPCMPESTRM,
    LIBXSMM_X86_INSTR_VPCMPISTRI, LIBXSMM_X86_INSTR_VPCMPISTRM, LIBXSMM_X86_INSTR_VCVTPS2PD,
    LIBXSMM_X86_INSTR_VCVTPH2PS, LIBXSMM_X86_INSTR_VCVTPS2PH, LIBXSMM_X86_INSTR_VCVTDQ2PS,
    LIBXSMM_X86_INSTR_VCVTPS2DQ, LIBXSMM_X86_INSTR_VCVTPS2UDQ, LIBXSMM_X86_INSTR_VPSLLD_I,
    LIBXSMM_X86_INSTR_VPSLLW_I, LIBXSMM_X86_INSTR_VPSRAD_I, LIBXSMM_X86_INSTR_VPSRAW_I, LIBXSMM_X86_INSTR_VPSRLD_I,
    LIBXSMM_X86_INSTR_VPSLLVW, LIBXSMM_X86_INSTR_VPSLLVD, LIBXSMM_X86_INSTR_VPSLLVQ, LIBXSMM_X86_INSTR_VPSRAVW,
    LIBXSMM_X86_INSTR_VPSRAVD, LIBXSMM_X86_INSTR_VPSRAVQ, LIBXSMM_X86_INSTR_VPSRLVW, LIBXSMM_X86_INSTR_VPSRLVD,
    LIBXSMM_X86_INSTR_VPSRLVQ, LIBXSMM_X86_INSTR_VXORPD, LIBXSMM_X86_INSTR_VADDPD, LIBXSMM_X86_INSTR_VMULPD,
    LIBXSMM_X86_INSTR_VSUBPD, LIBXSMM_X86_INSTR_VDIVPD, LIBXSMM_X86_INSTR_VMINPD, LIBXSMM_X86_INSTR_VMAXPD,
    LIBXSMM_X86_INSTR_VSQRTPD, LIBXSMM_X86_INSTR_VADDSD, LIBXSMM_X86_INSTR_VMULSD, LIBXSMM_X86_INSTR_VSUBSD,
    LIBXSMM_X86_INSTR_VDIVSD, LIBXSMM_X86_INSTR_VMINSD, LIBXSMM_X86_INSTR_VMAXSD, LIBXSMM_X86_INSTR_VSQRTSD,
    LIBXSMM_X86_INSTR_VXORPS, LIBXSMM_X86_INSTR_VADDPS, LIBXSMM_X86_INSTR_VMULPS, LIBXSMM_X86_INSTR_VSUBPS,
    LIBXSMM_X86_INSTR_VDIVPS, LIBXSMM_X86_INSTR_VMINPS, LIBXSMM_X86_INSTR_VMAXPS, LIBXSMM_X86_INSTR_VSQRTPS,
    LIBXSMM_X86_INSTR_VMULSS, LIBXSMM_X86_INSTR_VADDSS, LIBXSMM_X86_INSTR_VSUBSS, LIBXSMM_X86_INSTR_VDIVSS,
    LIBXSMM_X86_INSTR_VMINSS, LIBXSMM_X86_INSTR_VMAXSS, LIBXSMM_X86_INSTR_VSQRTSS, LIBXSMM_X86_INSTR_VPXORD,
    LIBXSMM_X86_INSTR_VPORD, LIBXSMM_X86_INSTR_VPXORQ, LIBXSMM_X86_INSTR_VPORQ, LIBXSMM_X86_INSTR_VPANDD,
    LIBXSMM_X86_INSTR_VPANDQ, LIBXSMM_X86_INSTR_VPADDQ, LIBXSMM_X86_INSTR_VPADDB, LIBXSMM_X86_INSTR_VPADDW,
    LIBXSMM_X86_INSTR_VPADDD, LIBXSMM_X86_INSTR_VPMADDWD, LIBXSMM_X86_INSTR_VPMADDUBSW, LIBXSMM_X86_INSTR_VPADDSW,
    LIBXSMM_X86_INSTR_VPADDSB, LIBXSMM_X86_INSTR_VPSUBD, LIBXSMM_X86_INSTR_VPSUBW, LIBXSMM_X86_INSTR_VPSUBB,
    LIBXSMM_X86_INSTR_VPMAXSD, LIBXSMM_X86_INSTR_VPMAXSW, LIBXSMM_X86_INSTR_VPMINSD, LIBXSMM_X86_INSTR_VPDPBUSD,
    LIBXSMM_X86_INSTR_VPDPBUSDS, LIBXSMM_X86_INSTR_VPDPWSSD, LIBXSMM_X86_INSTR_VPDPWSSDS,
    LIBXSMM_X86_INSTR_VDPBF16PS, LIBXSMM_X86_INSTR_VCVTNEPS2BF16, LIBXSMM_X86_INSTR_VCVTNE2PS2BF16,
    LIBXSMM_X86_INSTR_VMOVAPD_LD, LIBXSMM_X86_INSTR_VMOVAPS_LD, LIBXSMM_X86_INSTR_VMOVUPD_LD,
    LIBXSMM_X86_INSTR_VMOVUPS_LD, LIBXSMM_X86_INSTR_VMOVSS_LD, LIBXSMM_X86_INSTR_VMOVSD_LD,
    LIBXSMM_X86_INSTR_VMOVDQA32_LD, LIBXSMM_X86_INSTR_VMOVDQA64_LD, LIBXSMM_X86_INSTR_VMOVDQU8_LD,
    LIBXSMM_X86_INSTR_VMOVDQU16_LD, LIBXSMM_X86_INSTR_VMOVDQU32_LD, LIBXSMM_X86_INSTR_VMOVDQU64_LD,
    LIBXSMM_X86_INSTR_VMOVAPD_ST, LIBXSMM_X86_INSTR_VMOVAPS_ST, LIBXSMM_X86_INSTR_VMOVUPD_ST,
    LIBXSMM_X86_INSTR_VMOVUPS_ST, LIBXSMM_X86_INSTR_VMOVSS_ST, LIBXSMM_X86_INSTR_VMOVSD_ST,
    LIBXSMM_X86_INSTR_VMOVDQA32_ST, LIBXSMM_X86_INSTR_VMOVDQA64_ST, LIBXSMM_X86_INSTR_VMOVDQU8_ST,
    LIBXSMM_X86_INSTR_VMOVDQU16_ST, LIBXSMM_X86_INSTR_VMOVDQU32_ST, LIBXSMM_X86_INSTR_VMOVDQU64_ST,
    LIBXSMM_X86_INSTR_VMOVDDUP, LIBXSMM_X86_INSTR_VPMOVDB, LIBXSMM_X86_INSTR_VPMOVWB, LIBXSMM_X86_INSTR_VPMOVDW,
    LIBXSMM_X86_INSTR_VPMOVSDB, LIBXSMM_X86_INSTR_VPMOVSWB, LIBXSMM_X86_INSTR_VPMOVUSDB, LIBXSMM_X86_INSTR_VPMOVUSWB,
    LIBXSMM_X86_INSTR_VPMOVSXBW, LIBXSMM_X86_INSTR_VPMOVSXBD, LIBXSMM_X86_INSTR_VPMOVSXWD,
    LIBXSMM_X86_INSTR_VPMOVZXWD, LIBXSMM_X86_INSTR_VPMOVZXBW, LIBXSMM_X86_INSTR_VPMOVZXBD,
    LIBXSMM_X86_INSTR_VMOVD_LD, LIBXSMM_X86_INSTR_VMOVQ_LD, LIBXSMM_X86_INSTR_VMOVD_ST, LIBXSMM_X86_INSTR_VMOVQ_ST,
    LIBXSMM_X86_INSTR_MOVAPS_LD, LIBXSMM_X86_INSTR_MOVUPS_LD, LIBXSMM_X86_INSTR_MOVSS_LD,
    LIBXSMM_X86_INSTR_MOVAPS_ST, LIBXSMM_X86_INSTR_MOVUPS_ST, LIBXSMM_X86_INSTR_MOVSS_ST, LIBXSMM_X86_INSTR_ANDPS,
    LIBXSMM_X86_INSTR_ANDNPS, LIBXSMM_X86_INSTR_ORPS, LIBXSMM_X86_INSTR_XORPS, LIBXSMM_X86_INSTR_MULPS,
    LIBXSMM_X86_INSTR_ADDPS, LIBXSMM_X86_INSTR_SUBPS, LIBXSMM_X86_INSTR_DIVPS, LIBXSMM_X86_INSTR_RCPPS,
    LIBXSMM_X86_INSTR_SQRTPS, LIBXSMM_X86_INSTR_MAXPS, LIBXSMM_X86_INSTR_MINPS, LIBXSMM_X86_INSTR_RSQRTPS,
    LIBXSMM_X86_INSTR_CMPPS, LIBXSMM_X86_INSTR_SHUFPS, LIBXSMM_X86_INSTR_UNPCKHPS, LIBXSMM_X86_INSTR_UNPCKLPS,
    LIBXSMM_X86_INSTR_MULSS, LIBXSMM_X86_INSTR_ADDSS, LIBXSMM_X86_INSTR_SUBSS, LIBXSMM_X86_INSTR_DIVSS,
    LIBXSMM_X86_INSTR_RCPSS, LIBXSMM_X86_INSTR_SQRTSS, LIBXSMM_X86_INSTR_MAXSS, LIBXSMM_X86_INSTR_MINSS,
    LIBXSMM_X86_INSTR_RSQRTSS, LIBXSMM_X86_INSTR_CMPSS, LIBXSMM_X86_INSTR_COMISS, LIBXSMM_X86_INSTR_UCOMISS,
    LIBXSMM_X86_INSTR_MOVAPD_LD, LIBXSMM_X86_INSTR_MOVUPD_LD, LIBXSMM_X86_INSTR_MOVSD_LD,
    LIBXSMM_X86_INSTR_MOVAPD_ST, LIBXSMM_X86_INSTR_MOVUPD_ST, LIBXSMM_X86_INSTR_MOVSD_ST, LIBXSMM_X86_INSTR_ANDPD,
    LIBXSMM_X86_INSTR_ANDNPD, LIBXSMM_X86_INSTR_ORPD, LIBXSMM_X86_INSTR_XORPD, LIBXSMM_X86_INSTR_MULPD,
    LIBXSMM_X86_INSTR_ADDPD, LIBXSMM_X86_INSTR_SUBPD, LIBXSMM_X86_INSTR_DIVPD, LIBXSMM_X86_INSTR_RCPPD,
    LIBXSMM_X86_INSTR_SQRTPD, LIBXSMM_X86_INSTR_MAXPD, LIBXSMM_X86_INSTR_MINPD, LIBXSMM_X86_INSTR_RSQRTPD,
    LIBXSMM_X86_INSTR_CMPPD, LIBXSMM_X86_INSTR_SHUFPD, LIBXSMM_X86_INSTR_UNPCKHPD, LIBXSMM_X86_INSTR_UNPCKLPD,
    LIBXSMM_X86_INSTR_MULSD, LIBXSMM_X86_INSTR_ADDSD, LIBXSMM_X86_INSTR_SUBSD, LIBXSMM_X86_INSTR_DIVSD,
    LIBXSMM_X86_INSTR_RCPSD, LIBXSMM_X86_INSTR_SQRTSD, LIBXSMM_X86_INSTR_MAXSD, LIBXSMM_X86_INSTR_MINSD,
    LIBXSMM_X86_INSTR_RSQRTSD, LIBXSMM_X86_INSTR_CMPSD, LIBXSMM_X86_INSTR_COMISD, LIBXSMM_X86_INSTR_UCOMISD,
    LIBXSMM_X86_INSTR_MOVD_SSE_LD, LIBXSMM_X86_INSTR_MOVD_SSE_ST, LIBXSMM_X86_INSTR_MOVQ_SSE_LD,
    LIBXSMM_X86_INSTR_MOVQ_SSE_ST, LIBXSMM_X86_INSTR_MOVDQA_LD, LIBXSMM_X86_INSTR_MOVDQA_ST,
    LIBXSMM_X86_INSTR_MOVDQU_LD, LIBXSMM_X86_INSTR_MOVDQU_ST, LIBXSMM_X86_INSTR_MOVDDUP, LIBXSMM_X86_INSTR_MOVSHDUP,
    LIBXSMM_X86_INSTR_MOVSLDUP, LIBXSMM_X86_INSTR_PAND, LIBXSMM_X86_INSTR_PANDN, LIBXSMM_X86_INSTR_POR,
    LIBXSMM_X86_INSTR_PXOR, LIBXSMM_X86_INSTR_PACKSSWB, LIBXSMM_X86_INSTR_PACKSSDW, LIBXSMM_X86_INSTR_PACKUSWB,
    LIBXSMM_X86_INSTR_PADDB, LIBXSMM_X86_INSTR_PADDW, LIBXSMM_X86_INSTR_PADDD, LIBXSMM_X86_INSTR_PADDQ,
    LIBXSMM_X86_INSTR_PADDSB, LIBXSMM_X86_INSTR_PADDSW, LIBXSMM_X86_INSTR_PADDUSB, LIBXSMM_X86_INSTR_PADDUSW,
    LIBXSMM_X86_INSTR_PAVGB, LIBXSMM_X86_INSTR_PAVGW, LIBXSMM_X86_INSTR_PCMPEQB, LIBXSMM_X86_INSTR_PCMPEQW,
    LIBXSMM_X86_INSTR_PCMPEQD, LIBXSMM_X86_INSTR_PCMPGTB, LIBXSMM_X86_INSTR_PCMPGTW, LIBXSMM_X86_INSTR_PCMPGTD,
    LIBXSMM_X86_INSTR_PEXTRW, LIBXSMM_X86_INSTR_PINSRW, LIBXSMM_X86_INSTR_PMADDWD, LIBXSMM_X86_INSTR_PMAXSW,
    LIBXSMM_X86_INSTR_PMAXUB, LIBXSMM_X86_INSTR_PMINSW, LIBXSMM_X86_INSTR_PMINUB, LIBXSMM_X86_INSTR_PMULHUW,
    LIBXSMM_X86_INSTR_PMULHW, LIBXSMM_X86_INSTR_PMULLW, LIBXSMM_X86_INSTR_PMULUDQ, LIBXSMM_X86_INSTR_PSADBW,
    LIBXSMM_X86_INSTR_PSHUFD, LIBXSMM_X86_INSTR_PSHUFHW, LIBXSMM_X86_INSTR_PSHUFLW, LIBXSMM_X86_INSTR_PSLLW,
    LIBXSMM_X86_INSTR_PSLLD, LIBXSMM_X86_INSTR_PSLLQ, LIBXSMM_X86_INSTR_PSRAW, LIBXSMM_X86_INSTR_PSRAD,
    LIBXSMM_X86_INSTR_PSRLW, LIBXSMM_X86_INSTR_PSRLD, LIBXSMM_X86_INSTR_PSRLQ, LIBXSMM_X86_INSTR_PSUBB,
    LIBXSMM_X86_INSTR_PSUBW, LIBXSMM_X86_INSTR_PSUBD, LIBXSMM_X86_INSTR_PSUBQ, LIBXSMM_X86_INSTR_PSUBSB,
    LIBXSMM_X86_INSTR_PSUBSW, LIBXSMM_X86_INSTR_PSUBUSB, LIBXSMM_X86_INSTR_PSUBUSW, LIBXSMM_X86_INSTR_PUNPCKHBW,
    LIBXSMM_X86_INSTR_PUNPCKHWD, LIBXSMM_X86_INSTR_PUNPCKHDQ, LIBXSMM_X86_INSTR_PUNPCKHQDQ,
    LIBXSMM_X86_INSTR_PUNPCKLBW, LIBXSMM_X86_INSTR_PUNPCKLWD, LIBXSMM_X86_INSTR_PUNPCKLDQ,
    LIBXSMM_X86_INSTR_PUNPCKLQDQ, LIBXSMM_X86_INSTR_CVTDQ2PD, LIBXSMM_X86_INSTR_CVTDQ2PS, LIBXSMM_X86_INSTR_CVTPD2DQ,
    LIBXSMM_X86_INSTR_CVTPD2PS, LIBXSMM_X86_INSTR_CVTPS2DQ, LIBXSMM_X86_INSTR_CVTPS2PD, LIBXSMM_X86_INSTR_CVTSD2SS,
    LIBXSMM_X86_INSTR_CVTSS2SD, LIBXSMM_X86_INSTR_CVTTPD2DQ, LIBXSMM_X86_INSTR_CVTTPS2DQ, LIBXSMM_X86_INSTR_ADDSUBPD,
    LIBXSMM_X86_INSTR_ADDSUBPS, LIBXSMM_X86_INSTR_HADDPD, LIBXSMM_X86_INSTR_HADDPS, LIBXSMM_X86_INSTR_HSUBPD,
    LIBXSMM_X86_INSTR_HSUBPS, LIBXSMM_X86_INSTR_PABSB, LIBXSMM_X86_INSTR_PABSW, LIBXSMM_X86_INSTR_PABSD,
    LIBXSMM_X86_INSTR_PALIGNR, LIBXSMM_X86_INSTR_PHADDW, LIBXSMM_X86_INSTR_PHADDD, LIBXSMM_X86_INSTR_PHADDSW,
    LIBXSMM_X86_INSTR_PHSUBW, LIBXSMM_X86_INSTR_PHSUBD, LIBXSMM_X86_INSTR_PHSUBSW, LIBXSMM_X86_INSTR_PMADDUBSW,
    LIBXSMM_X86_INSTR_PMULHRSW, LIBXSMM_X86_INSTR_PSHUFB, LIBXSMM_X86_INSTR_PSIGNB, LIBXSMM_X86_INSTR_PSIGNW,
    LIBXSMM_X86_INSTR_PSIGND, LIBXSMM_X86_INSTR_BLENDPD, LIBXSMM_X86_INSTR_BLENDPS, LIBXSMM_X86_INSTR_BLENDVPD,
    LIBXSMM_X86_INSTR_BLENDVPS, LIBXSMM_X86_INSTR_DPPD, LIBXSMM_X86_INSTR_DPPS, LIBXSMM_X86_INSTR_EXTRACTPS,
    LIBXSMM_X86_INSTR_INSERTPS, LIBXSMM_X86_INSTR_ROUNDPD, LIBXSMM_X86_INSTR_ROUNDPS, LIBXSMM_X86_INSTR_ROUNDSD,
    LIBXSMM_X86_INSTR_ROUNDSS, LIBXSMM_X86_INSTR_PBLENDW, LIBXSMM_X86_INSTR_PBLENDVB, LIBXSMM_X86_INSTR_PCMPEQQ,
    LIBXSMM_X86_INSTR_PMOVSXBW, LIBXSMM_X86_INSTR_PMOVSXBD, LIBXSMM_X86_INSTR_PMOVSXBQ, LIBXSMM_X86_INSTR_PMOVSXWD,
    LIBXSMM_X86_INSTR_PMOVSXWQ, LIBXSMM_X86_INSTR_PMOVSXDQ, LIBXSMM_X86_INSTR_PMOVZXBW, LIBXSMM_X86_INSTR_PMOVZXBD,
    LIBXSMM_X86_INSTR_PMOVZXBQ, LIBXSMM_X86_INSTR_PMOVZXWD, LIBXSMM_X86_INSTR_PMOVZXWQ, LIBXSMM_X86_INSTR_PMOVZXDQ,
    LIBXSMM_X86_INSTR_PEXTRB, LIBXSMM_X86_INSTR_PEXTRD, LIBXSMM_X86_INSTR_PEXTRQ, LIBXSMM_X86_INSTR_PHMINPOSUW,
    LIBXSMM_X86_INSTR_PINSRB, LIBXSMM_X86_INSTR_PINSRD, LIBXSMM_X86_INSTR_PINSRQ, LIBXSMM_X86_INSTR_PMAXSB,
    LIBXSMM_X86_INSTR_PMAXSD, LIBXSMM_X86_INSTR_PMAXUW, LIBXSMM_X86_INSTR_PMAXUD, LIBXSMM_X86_INSTR_PMINSB,
    LIBXSMM_X86_INSTR_PMINSD, LIBXSMM_X86_INSTR_PMINUW, LIBXSMM_X86_INSTR_PMINUD, LIBXSMM_X86_INSTR_MPSADBW,
    LIBXSMM_X86_INSTR_PMULDQ, LIBXSMM_X86_INSTR_PMULLD, LIBXSMM_X86_INSTR_PACKUSDW, LIBXSMM_X86_INSTR_PTEST,
    LIBXSMM_X86_INSTR_PCMPGTQ, LIBXSMM_X86_INSTR_VBROADCASTSD, LIBXSMM_X86_INSTR_VBROADCASTSS,
    LIBXSMM_X86_INSTR_VBROADCASTSD_VEX, LIBXSMM_X86_INSTR_VBROADCASTI32X2, LIBXSMM_X86_INSTR_VPBROADCASTD,
    LIBXSMM_X86_INSTR_VPBROADCASTQ, LIBXSMM_X86_INSTR_VPBROADCASTQ_VEX, LIBXSMM_X86_INSTR_VPBROADCASTB,
    LIBXSMM_X86_INSTR_VPBROADCASTW, LIBXSMM_X86_INSTR_VADDPH, LIBXSMM_X86_INSTR_VADDSH, LIBXSMM_X86_INSTR_VCMPPH,
    LIBXSMM_X86_INSTR_VCMPSH, LIBXSMM_X86_INSTR_VDIVPH, LIBXSMM_X86_INSTR_VDIVSH, LIBXSMM_X86_INSTR_VFCMADDCPH,
    LIBXSMM_X86_INSTR_VFMADDCPH, LIBXSMM_X86_INSTR_VFCMADDCSH, LIBXSMM_X86_INSTR_VFMADDCSH,
    LIBXSMM_X86_INSTR_VFCMULCPH, LIBXSMM_X86_INSTR_VFMULCPH, LIBXSMM_X86_INSTR_VFCMULCSH, LIBXSMM_X86_INSTR_VFMULCSH,
    LIBXSMM_X86_INSTR_VFMADDSUB132PH, LIBXSMM_X86_INSTR_VFMADDSUB213PH, LIBXSMM_X86_INSTR_VFMADDSUB231PH,
    LIBXSMM_X86_INSTR_VFMSUBADD132PH, LIBXSMM_X86_INSTR_VFMSUBADD213PH, LIBXSMM_X86_INSTR_VFMSUBADD231PH,
    LIBXSMM_X86_INSTR_VFMADD132PH, LIBXSMM_X86_INSTR_VFMADD213PH, LIBXSMM_X86_INSTR_VFMADD231PH,
    LIBXSMM_X86_INSTR_VFNMADD132PH, LIBXSMM_X86_INSTR_VFNMADD213PH, LIBXSMM_X86_INSTR_VFNMADD231PH,
    LIBXSMM_X86_INSTR_VFMADD132SH, LIBXSMM_X86_INSTR_VFMADD213SH, LIBXSMM_X86_INSTR_VFMADD231SH,
    LIBXSMM_X86_INSTR_VFNMADD132SH, LIBXSMM_X86_INSTR_VFNMADD213SH, LIBXSMM_X86_INSTR_VFNMADD231SH,
    LIBXSMM_X86_INSTR_VFMSUB132PH, LIBXSMM_X86_INSTR_VFMSUB213PH, LIBXSMM_X86_INSTR_VFMSUB231PH,
    LIBXSMM_X86_INSTR_VFNMSUB132PH, LIBXSMM_X86_INSTR_VFNMSUB213PH, LIBXSMM_X86_INSTR_VFNMSUB231PH,
    LIBXSMM_X86_INSTR_VFMSUB132SH, LIBXSMM_X86_INSTR_VFMSUB213SH, LIBXSMM_X86_INSTR_VFMSUB231SH,
    LIBXSMM_X86_INSTR_VFNMSUB132SH, LIBXSMM_X86_INSTR_VFNMSUB213SH, LIBXSMM_X86_INSTR_VFNMSUB231SH,
    LIBXSMM_X86_INSTR_VPCLASSPH, LIBXSMM_X86_INSTR_VPCLASSSH, LIBXSMM_X86_INSTR_VGETEXPPH,
    LIBXSMM_X86_INSTR_VGETEXPSH, LIBXSMM_X86_INSTR_VGETMANTPH, LIBXSMM_X86_INSTR_VGETMANTSH,
    LIBXSMM_X86_INSTR_VMAXPH, LIBXSMM_X86_INSTR_VMAXSH, LIBXSMM_X86_INSTR_VMINPH, LIBXSMM_X86_INSTR_VMINSH,
    LIBXSMM_X86_INSTR_VMOVW_LD, LIBXSMM_X86_INSTR_VMOVW_ST, LIBXSMM_X86_INSTR_VMULPH, LIBXSMM_X86_INSTR_VMULSH,
    LIBXSMM_X86_INSTR_VRCPPH, LIBXSMM_X86_INSTR_VRCPSH, LIBXSMM_X86_INSTR_VREDUCEPH, LIBXSMM_X86_INSTR_VREDUCESH,
    LIBXSMM_X86_INSTR_VRNDSCALEPH, LIBXSMM_X86_INSTR_VRNDSCALESH, LIBXSMM_X86_INSTR_VRSQRTPH,
    LIBXSMM_X86_INSTR_VRSQRTSH, LIBXSMM_X86_INSTR_VSCALEFPH, LIBXSMM_X86_INSTR_VSCALEFSH, LIBXSMM_X86_INSTR_VSQRTPH,
    LIBXSMM_X86_INSTR_VSQRTSH, LIBXSMM_X86_INSTR_VSUBPH, LIBXSMM_X86_INSTR_VSUBSH, LIBXSMM_X86_INSTR_VCVTW2PH,
    LIBXSMM_X86_INSTR_VPDPBSUD, LIBXSMM_X86_INSTR_VPDPBSUDS, LIBXSMM_X86_INSTR_VPDPBSSD, LIBXSMM_X86_INSTR_VPDPBSSDS,
    LIBXSMM_X86_INSTR_VPDPBUUD, LIBXSMM_X86_INSTR_VPDPBUUDS]"

definition regmemonly_instrs :: "u32 list" where
  "regmemonly_instrs = [
    LIBXSMM_X86_INSTR_VBROADCASTI128, LIBXSMM_X86_INSTR_VBROADCASTI32X4, LIBXSMM_X86_INSTR_VBROADCASTI64X2,
    LIBXSMM_X86_INSTR_VBROADCASTI32X8, LIBXSMM_X86_INSTR_VBROADCASTI64X4, LIBXSMM_X86_INSTR_VMOVNTPD,
    LIBXSMM_X86_INSTR_VMOVNTPS, LIBXSMM_X86_INSTR_VMOVNTDQ, LIBXSMM_X86_INSTR_VGATHERDPS,
    LIBXSMM_X86_INSTR_VGATHERDPD, LIBXSMM_X86_INSTR_VGATHERQPS, LIBXSMM_X86_INSTR_VGATHERQPD,
    LIBXSMM_X86_INSTR_VPGATHERDD, LIBXSMM_X86_INSTR_VPGATHERDQ, LIBXSMM_X86_INSTR_VPGATHERQD,
    LIBXSMM_X86_INSTR_VPGATHERQQ, LIBXSMM_X86_INSTR_VSCATTERDPS, LIBXSMM_X86_INSTR_VSCATTERDPD,
    LIBXSMM_X86_INSTR_VSCATTERQPS, LIBXSMM_X86_INSTR_VSCATTERQPD, LIBXSMM_X86_INSTR_VPSCATTERDD,
    LIBXSMM_X86_INSTR_VPSCATTERDQ, LIBXSMM_X86_INSTR_VPSCATTERQD, LIBXSMM_X86_INSTR_VPSCATTERQQ,
    LIBXSMM_X86_INSTR_MOVLPS, LIBXSMM_X86_INSTR_MOVHPS, LIBXSMM_X86_INSTR_MOVNTPS, LIBXSMM_X86_INSTR_MOVLPD,
    LIBXSMM_X86_INSTR_MOVHPD, LIBXSMM_X86_INSTR_MOVNTPD, LIBXSMM_X86_INSTR_MOVNTDQ, LIBXSMM_X86_INSTR_MOVNTDQA,
    LIBXSMM_X86_INSTR_LDDQU, LIBXSMM_X86_INSTR_VMOVSH_LD_MEM, LIBXSMM_X86_INSTR_VMOVSH_ST_MEM,
    LIBXSMM_X86_INSTR_VBCSTNEBF162PS, LIBXSMM_X86_INSTR_VBCSTNESH2PS, LIBXSMM_X86_INSTR_VCVTNEEBF162PS,
    LIBXSMM_X86_INSTR_VCVTNEEPH2PS, LIBXSMM_X86_INSTR_VCVTNEOBF162PS, LIBXSMM_X86_INSTR_VCVTNEOPH2PS,
    LIBXSMM_X86_INSTR_VPEXTRB, LIBXSMM_X86_INSTR_VPEXTRD, LIBXSMM_X86_INSTR_VPEXTRQ, LIBXSMM_X86_INSTR_VPINSRB,
    LIBXSMM_X86_INSTR_VPINSRD, LIBXSMM_X86_INSTR_VPINSRQ, LIBXSMM_X86_INSTR_VPERMQ]"

definition regonly_instrs :: "u32 list" where
  "regonly_instrs = [
    LIBXSMM_X86_INSTR_VMOVMSKPD, LIBXSMM_X86_INSTR_VMOVMSKPS, LIBXSMM_X86_INSTR_VPMOVMSKB,
    LIBXSMM_X86_INSTR_VPBROADCASTB_GPR, LIBXSMM_X86_INSTR_VPBROADCASTW_GPR, LIBXSMM_X86_INSTR_VPBROADCASTD_GPR,
    LIBXSMM_X86_INSTR_VPBROADCASTQ_GPR, LIBXSMM_X86_INSTR_MOVMSKPS, LIBXSMM_X86_INSTR_MOVMSKPD,
    LIBXSMM_X86_INSTR_PMOVMSKB, LIBXSMM_X86_INSTR_PSLLW_I, LIBXSMM_X86_INSTR_PSLLD_I, LIBXSMM_X86_INSTR_PSLLQ_I,
    LIBXSMM_X86_INSTR_PSLLDQ_I, LIBXSMM_X86_INSTR_PSRAW_I, LIBXSMM_X86_INSTR_PSRAD_I, LIBXSMM_X86_INSTR_PSRLDQ_I,
    LIBXSMM_X86_INSTR_PSRLW_I, LIBXSMM_X86_INSTR_PSRLD_I, LIBXSMM_X86_INSTR_PSRLQ_I,
    LIBXSMM_X86_INSTR_VMOVSH_LD_3REG, LIBXSMM_X86_INSTR_VMOVSH_ST_3REG]"

definition mask_move_vec_instrs :: "u32 list" where
  "mask_move_vec_instrs = [
    LIBXSMM_X86_INSTR_VMASKMOVPD, LIBXSMM_X86_INSTR_VMASKMOVPS, LIBXSMM_X86_INSTR_VMASKMOVPD_ST,
    LIBXSMM_X86_INSTR_VMASKMOVPS_ST, LIBXSMM_X86_INSTR_VGATHERDPS_VEX, LIBXSMM_X86_INSTR_VGATHERDPD_VEX,
    LIBXSMM_X86_INSTR_VGATHERQPS_VEX, LIBXSMM_X86_INSTR_VGATHERQPD_VEX, LIBXSMM_X86_INSTR_VPGATHERDD_VEX,
    LIBXSMM_X86_INSTR_VPGATHERDQ_VEX, LIBXSMM_X86_INSTR_VPGATHERQD_VEX, LIBXSMM_X86_INSTR_VPGATHERQQ_VEX]"

definition prefetch_instrs :: "u32 list" where
  "prefetch_instrs = [
    LIBXSMM_X86_INSTR_PREFETCHT0, LIBXSMM_X86_INSTR_PREFETCHT1, LIBXSMM_X86_INSTR_PREFETCHT2,
    LIBXSMM_X86_INSTR_PREFETCHNTA, LIBXSMM_X86_INSTR_PREFETCHW, LIBXSMM_X86_INSTR_CLDEMOTE,
    LIBXSMM_X86_INSTR_CLFLUSH, LIBXSMM_X86_INSTR_CLFLUSHOPT]"

definition alu_mem_instrs :: "u32 list" where
  "alu_mem_instrs = [
    LIBXSMM_X86_INSTR_MOVQ, LIBXSMM_X86_INSTR_MOVD, LIBXSMM_X86_INSTR_MOVW, LIBXSMM_X86_INSTR_MOVB,
    LIBXSMM_X86_INSTR_MOVQ_ST, LIBXSMM_X86_INSTR_MOVD_ST, LIBXSMM_X86_INSTR_MOVW_ST, LIBXSMM_X86_INSTR_MOVB_ST,
    LIBXSMM_X86_INSTR_LEAW, LIBXSMM_X86_INSTR_LEAD, LIBXSMM_X86_INSTR_LEAQ]"

definition alu_imm_instrs :: "u32 list" where
  "alu_imm_instrs = [
    LIBXSMM_X86_INSTR_ADDQ, LIBXSMM_X86_INSTR_ADDB_RM_IMM8, LIBXSMM_X86_INSTR_ADDW_RM_IMM16,
    LIBXSMM_X86_INSTR_ADDD_RM_IMM32, LIBXSMM_X86_INSTR_ADDQ_RM_IMM32, LIBXSMM_X86_INSTR_ANDQ,
    LIBXSMM_X86_INSTR_ANDB_RM_IMM8, LIBXSMM_X86_INSTR_ANDW_RM_IMM16, LIBXSMM_X86_INSTR_ANDD_RM_IMM32,
    LIBXSMM_X86_INSTR_ANDQ_RM_IMM32, LIBXSMM_X86_INSTR_CMPQ, LIBXSMM_X86_INSTR_CMPB_RM_IMM8,
    LIBXSMM_X86_INSTR_CMPW_RM_IMM16, LIBXSMM_X86_INSTR_CMPD_RM_IMM32, LIBXSMM_X86_INSTR_CMPQ_RM_IMM32,
    LIBXSMM_X86_INSTR_IMUL, LIBXSMM_X86_INSTR_IMULW_IMM16, LIBXSMM_X86_INSTR_IMULD_IMM32,
    LIBXSMM_X86_INSTR_IMULQ_IMM32, LIBXSMM_X86_INSTR_MOVQ, LIBXSMM_X86_INSTR_MOVB_RM_IMM8,
    LIBXSMM_X86_INSTR_MOVW_RM_IMM16, LIBXSMM_X86_INSTR_MOVD_RM_IMM32, LIBXSMM_X86_INSTR_MOVQ_RM_IMM32,
    LIBXSMM_X86_INSTR_ORB_RM_IMM8, LIBXSMM_X86_INSTR_ORW_RM_IMM16, LIBXSMM_X86_INSTR_ORD_RM_IMM32,
    LIBXSMM_X86_INSTR_ORQ_RM_IMM32, LIBXSMM_X86_INSTR_SHLQ, LIBXSMM_X86_INSTR_SHLB_RM_IMM8,
    LIBXSMM_X86_INSTR_SHLW_RM_IMM8, LIBXSMM_X86_INSTR_SHLD_RM_IMM8, LIBXSMM_X86_INSTR_SHLQ_RM_IMM8,
    LIBXSMM_X86_INSTR_SARQ, LIBXSMM_X86_INSTR_SARB_RM_IMM8, LIBXSMM_X86_INSTR_SARW_RM_IMM8,
    LIBXSMM_X86_INSTR_SARD_RM_IMM8, LIBXSMM_X86_INSTR_SARQ_RM_IMM8, LIBXSMM_X86_INSTR_SHRQ,
    LIBXSMM_X86_INSTR_SHRB_RM_IMM8, LIBXSMM_X86_INSTR_SHRW_RM_IMM8, LIBXSMM_X86_INSTR_SHRD_RM_IMM8,
    LIBXSMM_X86_INSTR_SHRQ_RM_IMM8, LIBXSMM_X86_INSTR_SUBQ, LIBXSMM_X86_INSTR_SUBB_RM_IMM8,
    LIBXSMM_X86_INSTR_SUBW_RM_IMM16, LIBXSMM_X86_INSTR_SUBD_RM_IMM32, LIBXSMM_X86_INSTR_SUBQ_RM_IMM32,
    LIBXSMM_X86_INSTR_XORB_RM_IMM8, LIBXSMM_X86_INSTR_XORW_RM_IMM16, LIBXSMM_X86_INSTR_XORD_RM_IMM32,
    LIBXSMM_X86_INSTR_XORQ_RM_IMM32]"

definition alu_imm_i64_instrs :: "u32 list" where
  "alu_imm_i64_instrs = [
    LIBXSMM_X86_INSTR_MOVQ, LIBXSMM_X86_INSTR_MOVB_R_IMM8, LIBXSMM_X86_INSTR_MOVW_R_IMM16,
    LIBXSMM_X86_INSTR_MOVD_R_IMM32, LIBXSMM_X86_INSTR_MOVQ_R_IMM64]"

definition alu_reg_instrs :: "u32 list" where
  "alu_reg_instrs = [
    LIBXSMM_X86_INSTR_ADDQ, LIBXSMM_X86_INSTR_ADDB_RM_R, LIBXSMM_X86_INSTR_ADDW_RM_R, LIBXSMM_X86_INSTR_ADDD_RM_R,
    LIBXSMM_X86_INSTR_ADDQ_RM_R, LIBXSMM_X86_INSTR_ADDB_R_RM, LIBXSMM_X86_INSTR_ADDW_R_RM,
    LIBXSMM_X86_INSTR_ADDD_R_RM, LIBXSMM_X86_INSTR_ADDQ_R_RM, LIBXSMM_X86_INSTR_ANDQ, LIBXSMM_X86_INSTR_ANDB_RM_R,
    LIBXSMM_X86_INSTR_ANDW_RM_R, LIBXSMM_X86_INSTR_ANDD_RM_R, LIBXSMM_X86_INSTR_ANDQ_RM_R,
    LIBXSMM_X86_INSTR_ANDB_R_RM, LIBXSMM_X86_INSTR_ANDW_R_RM, LIBXSMM_X86_INSTR_ANDD_R_RM,
    LIBXSMM_X86_INSTR_ANDQ_R_RM, LIBXSMM_X86_INSTR_CMOVAW, LIBXSMM_X86_INSTR_CMOVAD, LIBXSMM_X86_INSTR_CMOVAQ,
    LIBXSMM_X86_INSTR_CMOVAEW, LIBXSMM_X86_INSTR_CMOVAED, LIBXSMM_X86_INSTR_CMOVAEQ, LIBXSMM_X86_INSTR_CMOVBW,
    LIBXSMM_X86_INSTR_CMOVBD, LIBXSMM_X86_INSTR_CMOVBQ, LIBXSMM_X86_INSTR_CMOVBEW, LIBXSMM_X86_INSTR_CMOVBED,
    LIBXSMM_X86_INSTR_CMOVBEQ, LIBXSMM_X86_INSTR_CMOVEW, LIBXSMM_X86_INSTR_CMOVED, LIBXSMM_X86_INSTR_CMOVEQ,
    LIBXSMM_X86_INSTR_CMOVGW, LIBXSMM_X86_INSTR_CMOVGD, LIBXSMM_X86_INSTR_CMOVGQ, LIBXSMM_X86_INSTR_CMOVGEW,
    LIBXSMM_X86_INSTR_CMOVGED, LIBXSMM_X86_INSTR_CMOVGEQ, LIBXSMM_X86_INSTR_CMOVLW, LIBXSMM_X86_INSTR_CMOVLD,
    LIBXSMM_X86_INSTR_CMOVLQ, LIBXSMM_X86_INSTR_CMOVLEW, LIBXSMM_X86_INSTR_CMOVLED, LIBXSMM_X86_INSTR_CMOVLEQ,
    LIBXSMM_X86_INSTR_CMOVNEW, LIBXSMM_X86_INSTR_CMOVNED, LIBXSMM_X86_INSTR_CMOVNEQ, LIBXSMM_X86_INSTR_CMOVNOW,
    LIBXSMM_X86_INSTR_CMOVNOD, LIBXSMM_X86_INSTR_CMOVNOQ, LIBXSMM_X86_INSTR_CMOVNPW, LIBXSMM_X86_INSTR_CMOVNPD,
    LIBXSMM_X86_INSTR_CMOVNPQ, LIBXSMM_X86_INSTR_CMOVNSW, LIBXSMM_X86_INSTR_CMOVNSD, LIBXSMM_X86_INSTR_CMOVNSQ,
    LIBXSMM_X86_INSTR_CMOVOW, LIBXSMM_X86_INSTR_CMOVOD, LIBXSMM_X86_INSTR_CMOVOQ, LIBXSMM_X86_INSTR_CMOVPW,
    LIBXSMM_X86_INSTR_CMOVPD, LIBXSMM_X86_INSTR_CMOVPQ, LIBXSMM_X86_INSTR_CMOVSW, LIBXSMM_X86_INSTR_CMOVSD,
    LIBXSMM_X86_INSTR_CMOVSQ, LIBXSMM_X86_INSTR_CMPQ, LIBXSMM_X86_INSTR_CMPB_RM_R, LIBXSMM_X86_INSTR_CMPW_RM_R,
    LIBXSMM_X86_INSTR_CMPD_RM_R, LIBXSMM_X86_INSTR_CMPQ_RM_R, LIBXSMM_X86_INSTR_CMPB_R_RM,
    LIBXSMM_X86_INSTR_CMPW_R_RM, LIBXSMM_X86_INSTR_CMPD_R_RM, LIBXSMM_X86_INSTR_CMPQ_R_RM, LIBXSMM_X86_INSTR_IDIVW,
    LIBXSMM_X86_INSTR_IDIVD, LIBXSMM_X86_INSTR_IDIVQ, LIBXSMM_X86_INSTR_IMUL, LIBXSMM_X86_INSTR_IMULW,
    LIBXSMM_X86_INSTR_IMULD, LIBXSMM_X86_INSTR_IMULQ, LIBXSMM_X86_INSTR_LZCNTW, LIBXSMM_X86_INSTR_LZCNTD,
    LIBXSMM_X86_INSTR_LZCNTQ, LIBXSMM_X86_INSTR_MOVB_LD, LIBXSMM_X86_INSTR_MOVW_LD, LIBXSMM_X86_INSTR_MOVD_LD,
    LIBXSMM_X86_INSTR_MOVQ_LD, LIBXSMM_X86_INSTR_MOVB_ST, LIBXSMM_X86_INSTR_MOVW_ST, LIBXSMM_X86_INSTR_MOVD_ST,
    LIBXSMM_X86_INSTR_MOVQ_ST, LIBXSMM_X86_INSTR_NEGB, LIBXSMM_X86_INSTR_NEGW, LIBXSMM_X86_INSTR_NEGD,
    LIBXSMM_X86_INSTR_NEGQ, LIBXSMM_X86_INSTR_NOTB, LIBXSMM_X86_INSTR_NOTW, LIBXSMM_X86_INSTR_NOTD,
    LIBXSMM_X86_INSTR_NOTQ, LIBXSMM_X86_INSTR_ORB_RM_R, LIBXSMM_X86_INSTR_ORW_RM_R, LIBXSMM_X86_INSTR_ORD_RM_R,
    LIBXSMM_X86_INSTR_ORQ_RM_R, LIBXSMM_X86_INSTR_ORB_R_RM, LIBXSMM_X86_INSTR_ORW_R_RM, LIBXSMM_X86_INSTR_ORD_R_RM,
    LIBXSMM_X86_INSTR_ORQ_R_RM, LIBXSMM_X86_INSTR_POPW, LIBXSMM_X86_INSTR_POPQ, LIBXSMM_X86_INSTR_POPW_RM,
    LIBXSMM_X86_INSTR_POPQ_RM, LIBXSMM_X86_INSTR_POPCNT, LIBXSMM_X86_INSTR_POPCNTW, LIBXSMM_X86_INSTR_POPCNTD,
    LIBXSMM_X86_INSTR_POPCNTQ, LIBXSMM_X86_INSTR_PUSHW, LIBXSMM_X86_INSTR_PUSHQ, LIBXSMM_X86_INSTR_PUSHW_RM,
    LIBXSMM_X86_INSTR_PUSHQ_RM, LIBXSMM_X86_INSTR_SUBQ, LIBXSMM_X86_INSTR_SUBB_RM_R, LIBXSMM_X86_INSTR_SUBW_RM_R,
    LIBXSMM_X86_INSTR_SUBD_RM_R, LIBXSMM_X86_INSTR_SUBQ_RM_R, LIBXSMM_X86_INSTR_SUBB_R_RM,
    LIBXSMM_X86_INSTR_SUBW_R_RM, LIBXSMM_X86_INSTR_SUBD_R_RM, LIBXSMM_X86_INSTR_SUBQ_R_RM, LIBXSMM_X86_INSTR_TZCNT,
    LIBXSMM_X86_INSTR_TZCNTW, LIBXSMM_X86_INSTR_TZCNTD, LIBXSMM_X86_INSTR_TZCNTQ, LIBXSMM_X86_INSTR_XORB_RM_R,
    LIBXSMM_X86_INSTR_XORW_RM_R, LIBXSMM_X86_INSTR_XORD_RM_R, LIBXSMM_X86_INSTR_XORQ_RM_R,
    LIBXSMM_X86_INSTR_XORB_R_RM, LIBXSMM_X86_INSTR_XORW_R_RM, LIBXSMM_X86_INSTR_XORD_R_RM,
    LIBXSMM_X86_INSTR_XORQ_R_RM, LIBXSMM_X86_INSTR_RDPID]"

definition mask_move_instrs :: "u32 list" where
  "mask_move_instrs = [
    LIBXSMM_X86_INSTR_KMOVB_GPR_LD, LIBXSMM_X86_INSTR_KMOVW_GPR_LD, LIBXSMM_X86_INSTR_KMOVD_GPR_LD,
    LIBXSMM_X86_INSTR_KMOVQ_GPR_LD, LIBXSMM_X86_INSTR_KMOVB_GPR_ST, LIBXSMM_X86_INSTR_KMOVW_GPR_ST,
    LIBXSMM_X86_INSTR_KMOVD_GPR_ST, LIBXSMM_X86_INSTR_KMOVQ_GPR_ST]"

definition mask_move_mem_instrs :: "u32 list" where
  "mask_move_mem_instrs = [
    LIBXSMM_X86_INSTR_KMOVB_LD, LIBXSMM_X86_INSTR_KMOVW_LD, LIBXSMM_X86_INSTR_KMOVD_LD, LIBXSMM_X86_INSTR_KMOVQ_LD,
    LIBXSMM_X86_INSTR_KMOVB_ST, LIBXSMM_X86_INSTR_KMOVW_ST, LIBXSMM_X86_INSTR_KMOVD_ST, LIBXSMM_X86_INSTR_KMOVQ_ST]"

definition mask_compute_instrs :: "u32 list" where
  "mask_compute_instrs = [
    LIBXSMM_X86_INSTR_KADDB, LIBXSMM_X86_INSTR_KADDW, LIBXSMM_X86_INSTR_KADDD, LIBXSMM_X86_INSTR_KADDQ,
    LIBXSMM_X86_INSTR_KANDB, LIBXSMM_X86_INSTR_KANDW, LIBXSMM_X86_INSTR_KANDD, LIBXSMM_X86_INSTR_KANDQ,
    LIBXSMM_X86_INSTR_KANDNB, LIBXSMM_X86_INSTR_KANDNW, LIBXSMM_X86_INSTR_KANDND, LIBXSMM_X86_INSTR_KANDNQ,
    LIBXSMM_X86_INSTR_KNOTB, LIBXSMM_X86_INSTR_KNOTW, LIBXSMM_X86_INSTR_KNOTD, LIBXSMM_X86_INSTR_KNOTQ,
    LIBXSMM_X86_INSTR_KORB, LIBXSMM_X86_INSTR_KORW, LIBXSMM_X86_INSTR_KORD, LIBXSMM_X86_INSTR_KORQ,
    LIBXSMM_X86_INSTR_KORTESTB, LIBXSMM_X86_INSTR_KORTESTW, LIBXSMM_X86_INSTR_KORTESTD, LIBXSMM_X86_INSTR_KORTESTQ,
    LIBXSMM_X86_INSTR_KSHIFTLB, LIBXSMM_X86_INSTR_KSHIFTLW, LIBXSMM_X86_INSTR_KSHIFTLD, LIBXSMM_X86_INSTR_KSHIFTLQ,
    LIBXSMM_X86_INSTR_KSHIFTRB, LIBXSMM_X86_INSTR_KSHIFTRW, LIBXSMM_X86_INSTR_KSHIFTRD, LIBXSMM_X86_INSTR_KSHIFTRQ,
    LIBXSMM_X86_INSTR_KTESTB, LIBXSMM_X86_INSTR_KTESTW, LIBXSMM_X86_INSTR_KTESTD, LIBXSMM_X86_INSTR_KTESTQ,
    LIBXSMM_X86_INSTR_KUNPCKBW, LIBXSMM_X86_INSTR_KUNPCKWD, LIBXSMM_X86_INSTR_KUNPCKDQ, LIBXSMM_X86_INSTR_KXNORB,
    LIBXSMM_X86_INSTR_KXNORW, LIBXSMM_X86_INSTR_KXNORD, LIBXSMM_X86_INSTR_KXNORQ, LIBXSMM_X86_INSTR_KXORB,
    LIBXSMM_X86_INSTR_KXORW, LIBXSMM_X86_INSTR_KXORD, LIBXSMM_X86_INSTR_KXORQ]"

definition jump_instrs :: "u32 list" where
  "jump_instrs = [
    LIBXSMM_X86_INSTR_JL, LIBXSMM_X86_INSTR_JE, LIBXSMM_X86_INSTR_JZ, LIBXSMM_X86_INSTR_JG, LIBXSMM_X86_INSTR_JNE,
    LIBXSMM_X86_INSTR_JNZ, LIBXSMM_X86_INSTR_JGE, LIBXSMM_X86_INSTR_JLE, LIBXSMM_X86_INSTR_JMP]"

definition tile_move_instrs :: "u32 list" where
  "tile_move_instrs = [
    LIBXSMM_X86_INSTR_TILELOADD, LIBXSMM_X86_INSTR_TILELOADDT1, LIBXSMM_X86_INSTR_TILESTORED,
    LIBXSMM_X86_INSTR_TILEZERO]"

definition tile_compute_instrs :: "u32 list" where
  "tile_compute_instrs = [
    LIBXSMM_X86_INSTR_TDPBSSD, LIBXSMM_X86_INSTR_TDPBSUD, LIBXSMM_X86_INSTR_TDPBUSD, LIBXSMM_X86_INSTR_TDPBUUD,
    LIBXSMM_X86_INSTR_TDPBF16PS, LIBXSMM_X86_INSTR_TDPFP16PS]"

definition libxsmm_x86_instruction_vec_is_hybrid :: "u32 \<Rightarrow> bool" where
  "libxsmm_x86_instruction_vec_is_hybrid i_instr \<longleftrightarrow> i_instr \<in> set hybrid_instrs"

definition libxsmm_x86_instruction_vec_is_regmemonly :: "u32 \<Rightarrow> bool" where
  "libxsmm_x86_instruction_vec_is_regmemonly i_instr \<longleftrightarrow> i_instr \<in> set regmemonly_instrs"

definition libxsmm_x86_instruction_vec_is_regonly :: "u32 \<Rightarrow> bool" where
  "libxsmm_x86_instruction_vec_is_regonly i_instr \<longleftrightarrow> i_instr \<in> set regonly_instrs"

end
