(* ===== verification/X86_Encode.thy ===== *)
theory X86_Encode
  imports X86_Defs "HOL-Library.Signed_Division"
begin

text \<open>
  The six functions of \<open>src/generator_x86_instructions.c\<close> that write the bytes of an instruction: with a REX, VEX or EVEX
  prefix, and with a memory operand or registers only. A displacement is the value of an \<open>int\<close>. The tables of the
  functions are lists; \<open>xs ! i\<close> behind the end of a table is an unspecified byte, as the read is in C.
\<close>

section \<open>Writing bytes\<close>

text \<open>The statement \<open>code[code_head++] = b\<close>.\<close>

definition put_byte :: "gencode \<Rightarrow> u8 \<Rightarrow> gencode" where
  "put_byte g b = g\<lparr>generated_code := (generated_code g)(unat (code_size g) := b), code_size := code_size g + 1\<rparr>"

definition put_bytes :: "gencode \<Rightarrow> u8 list \<Rightarrow> gencode" where
  "put_bytes g bs = foldl put_byte g bs"

definition no_space20 :: "gencode \<Rightarrow> bool" where
  "no_space20 g \<longleftrightarrow> buffer_size g - code_size g < 20"

section \<open>Parts that the encoders share\<close>

definition tbl_prefix :: "u8 list" where "tbl_prefix = [0x00, 0x66, 0xf3, 0xf2]"

definition tbl_opext :: "u8 list" where "tbl_opext = [0x38, 0x3a]"

definition tbl_scale :: "u8 list" where
  "tbl_scale = [0x00, 0x00, 0x40, 0x40, 0x80, 0x80, 0x80, 0x80, 0xc0]"

definition tbl_vex_vvvv :: "u8 list" where
  "tbl_vex_vvvv = [0x78, 0x70, 0x68, 0x60, 0x58, 0x50, 0x48, 0x40, 0x38, 0x30, 0x28, 0x20, 0x18, 0x10, 0x08, 0x00]"

definition prefix_idx :: "u32 \<Rightarrow> u32" where
  "prefix_idx i_instr = drop_bit 16 (i_instr AND 0x00070000) - 4"

text \<open>Whether a SIB byte is needed, and the index register and scale that it holds.\<close>

definition sib_operands :: "u32 \<Rightarrow> u32 \<Rightarrow> u32 \<Rightarrow> bool \<times> u32 \<times> u32" where
  "sib_operands i_gp_reg_base i_gp_reg_idx i_scale =
   (if (i_gp_reg_base = LIBXSMM_X86_GP_REG_RSP \<or> i_gp_reg_base = LIBXSMM_X86_GP_REG_R12) \<and> i_gp_reg_idx = LIBXSMM_X86_GP_REG_UNDEF
    then (True, LIBXSMM_X86_GP_REG_RSP, 0)
    else if i_gp_reg_idx < 16 then (True, i_gp_reg_idx, i_scale)
    else (False, 0, 0))"

definition forced_zdisp8 :: "u32 \<Rightarrow> int \<Rightarrow> bool" where
  "forced_zdisp8 i_gp_reg_base i_displacement \<longleftrightarrow>
    (i_gp_reg_base = LIBXSMM_X86_GP_REG_RBP \<or> i_gp_reg_base = LIBXSMM_X86_GP_REG_R13) \<and> i_displacement = 0"

definition disp32 :: "int \<Rightarrow> u8 list" where
  "disp32 i_displacement = [word_of_int i_displacement, word_of_int (drop_bit 8 i_displacement),
     word_of_int (drop_bit 16 i_displacement), word_of_int (drop_bit 24 i_displacement)]"

text \<open>The bits that a displacement sets in the ModRM byte, and its bytes.\<close>

definition displacement :: "u32 \<Rightarrow> int \<Rightarrow> u8 \<times> u8 list" where
  "displacement i_gp_reg_base i_displacement =
   (if i_displacement \<noteq> 0 \<or> forced_zdisp8 i_gp_reg_base i_displacement then
      (if i_displacement \<le> 127 \<and> i_displacement \<ge> -128 then (0x40, [word_of_int i_displacement])
       else (0x80, disp32 i_displacement))
    else (0x00, []))"

text \<open>The ModRM and SIB bytes of a memory operand, with \<open>md\<close> the bits of the displacement.\<close>

definition modrm_reg :: "u32 \<Rightarrow> u8" where
  "modrm_reg r = ucast (push_bit 3 r) AND 0x38"

definition mem_bytes :: "bool \<Rightarrow> u32 \<Rightarrow> u32 \<Rightarrow> u32 \<Rightarrow> u32 \<Rightarrow> u8 \<Rightarrow> u8 list" where
  "mem_bytes l_have_sib l_gp_reg_idx l_scale i_gp_reg_base i_reg md =
   (if l_have_sib
    then [modrm_reg i_reg OR 0x04 OR md,
          tbl_scale ! unat l_scale OR modrm_reg l_gp_reg_idx OR (ucast i_gp_reg_base AND 0x07)]
    else [modrm_reg i_reg OR (ucast i_gp_reg_base AND 0x07) OR md])"

text \<open>The ModRM byte of two registers.\<close>

definition modrm_regs :: "u32 \<Rightarrow> u32 \<Rightarrow> u8" where
  "modrm_regs i_reg i_rm = 0xc0 OR modrm_reg i_reg OR (ucast i_rm AND 0x07)"

definition opext_bytes :: "u32 \<Rightarrow> u8 list" where
  "opext_bytes i_instr =
   (let opext = drop_bit 12 (i_instr AND 0x00003000); opext_idx = drop_bit 12 (i_instr AND 0x00001000)
    in if opext > 0 then 0x0f # (if opext > 1 then [tbl_opext ! unat opext_idx] else []) else [])"

definition legacy_prefixes :: "u32 \<Rightarrow> u8 list" where
  "legacy_prefixes i_instr =
    (if i_instr AND 0x0000c000 = 0x00004000 then [0x66] else []) @
    (if prefix_idx i_instr \<noteq> 0 then [tbl_prefix ! unat (prefix_idx i_instr)] else [])"

section \<open>REX\<close>

definition libxsmm_x86_instruction_rex_compute_1reg_mem ::
    "gencode \<Rightarrow> u32 \<Rightarrow> u32 \<Rightarrow> u32 \<Rightarrow> u32 \<Rightarrow> int \<Rightarrow> u32 \<Rightarrow> gencode" where
  "libxsmm_x86_instruction_rex_compute_1reg_mem io_generated_code i_instr i_gp_reg_base i_gp_reg_idx i_scale
      i_displacement i_reg_number_reg =
   (if no_space20 io_generated_code then libxsmm_handle_error io_generated_code LIBXSMM_ERR_BUFFER_TOO_SMALL
    else
      (let (l_have_sib, l_gp_reg_idx, l_scale) = sib_operands i_gp_reg_base i_gp_reg_idx i_scale;
           (md, disp) = displacement i_gp_reg_base i_displacement;
           rex = (if i_reg_number_reg > 7 \<or> i_gp_reg_base > 7 \<or> (l_gp_reg_idx > 7 \<and> l_have_sib) \<or>
                     i_instr AND 0x02000000 = 0x02000000
                  then [(if i_reg_number_reg > 7 then 0x04 else 0x00) OR (if i_gp_reg_base > 7 then 0x01 else 0x00) OR
                        (if i_instr AND 0x00800000 = 0x00800000 then 0x08 else 0x00) OR
                        (if l_have_sib then (if l_gp_reg_idx > 7 then 0x02 else 0x00) else 0x00) OR 0x40]
                  else [])
       in put_bytes io_generated_code
            (legacy_prefixes i_instr @ rex @ opext_bytes i_instr @ ucast (i_instr AND 0x000000ff) #
             mem_bytes l_have_sib l_gp_reg_idx l_scale i_gp_reg_base i_reg_number_reg md @ disp)))"

definition libxsmm_x86_instruction_rex_compute_2reg :: "gencode \<Rightarrow> u32 \<Rightarrow> u32 \<Rightarrow> u32 \<Rightarrow> gencode" where
  "libxsmm_x86_instruction_rex_compute_2reg io_generated_code i_instr i_reg_number_rm i_reg_number_reg =
   (if no_space20 io_generated_code then libxsmm_handle_error io_generated_code LIBXSMM_ERR_BUFFER_TOO_SMALL
    else
      (let opreg = (i_instr AND 0x01000000 = 0x01000000);
           rex = (if i_reg_number_rm > 7 \<or> i_reg_number_reg > 7 \<or> i_instr AND 0x02000000 = 0x02000000
                  then [(if opreg then (if i_reg_number_reg > 7 then 0x01 else 0x00)
                         else (if i_reg_number_reg > 7 then 0x04 else 0x00) OR (if i_reg_number_rm > 7 then 0x01 else 0x00)) OR
                        (if i_instr AND 0x00800000 = 0x00800000 then 0x08 else 0x00) OR 0x40]
                  else []);
           op = ucast (i_instr AND 0x000000ff)
       in put_bytes io_generated_code
            (legacy_prefixes i_instr @ rex @ opext_bytes i_instr @
             (if opreg then [op OR ucast (i_reg_number_reg AND 0x07)]
              else [op, modrm_regs i_reg_number_reg i_reg_number_rm]))))"

section \<open>VEX\<close>

text \<open>The bits of the second VEX byte for a vector register and the length; \<open>zmm\<close> is read as \<open>ymm\<close>.\<close>

definition vex_vvvv :: "u32 \<Rightarrow> u8" where
  "vex_vvvv r = (if r < 16 then tbl_vex_vvvv ! unat r else tbl_vex_vvvv ! 0)"

definition vex_vl :: "libxsmm_x86_simd_name \<Rightarrow> u8" where
  "vex_vl i_vector_name = [0x00, 0x04] ! unat (LIBXSMM_MIN (libxsmm_x86_simd_name_val i_vector_name) 0x1)"

definition libxsmm_x86_instruction_vex_compute_2reg_mem ::
    "gencode \<Rightarrow> u32 \<Rightarrow> u32 \<Rightarrow> u32 \<Rightarrow> u32 \<Rightarrow> int \<Rightarrow> libxsmm_x86_simd_name \<Rightarrow> u32 \<Rightarrow> u32 \<Rightarrow> gencode" where
  "libxsmm_x86_instruction_vex_compute_2reg_mem io_generated_code i_vec_instr i_gp_reg_base i_gp_reg_idx i_scale
      i_displacement i_vector_name i_vec_reg_number_src i_vec_reg_number_dst =
   (if no_space20 io_generated_code then libxsmm_handle_error io_generated_code LIBXSMM_ERR_BUFFER_TOO_SMALL
    else
      (let (l_have_sib, l_gp_reg_idx, l_scale) = sib_operands i_gp_reg_base i_gp_reg_idx i_scale;
           (md, disp) = displacement i_gp_reg_base i_displacement;
           p0 = ucast (drop_bit 12 i_vec_instr AND 0x0f) OR (if i_vec_reg_number_dst < 8 then 0x80 else 0x00) OR
                (if i_gp_reg_base < 8 then 0x20 else 0x00) OR
                (if l_have_sib then (if l_gp_reg_idx < 8 then 0x40 else 0x00) else 0x00);
           p1 = ucast (drop_bit 16 i_vec_instr AND 0x83) OR vex_vvvv i_vec_reg_number_src OR vex_vl i_vector_name
       in put_bytes io_generated_code
            ([0xc4, p0, p1, ucast i_vec_instr] @
             mem_bytes l_have_sib l_gp_reg_idx l_scale i_gp_reg_base i_vec_reg_number_dst md @ disp)))"

definition libxsmm_x86_instruction_vex_compute_3reg ::
    "gencode \<Rightarrow> u32 \<Rightarrow> libxsmm_x86_simd_name \<Rightarrow> u32 \<Rightarrow> u32 \<Rightarrow> u32 \<Rightarrow> gencode" where
  "libxsmm_x86_instruction_vex_compute_3reg io_generated_code i_vec_instr i_vector_name
      i_vec_reg_number_0 i_vec_reg_number_1 i_vec_reg_number_2 =
   (if no_space20 io_generated_code then libxsmm_handle_error io_generated_code LIBXSMM_ERR_BUFFER_TOO_SMALL
    else
      (let p0 = ucast (drop_bit 12 i_vec_instr AND 0x0f) OR (if i_vec_reg_number_2 < 8 then 0x80 else 0x00) OR
                (if i_vec_reg_number_0 < 8 then 0x20 else 0x00);
           p1 = ucast (drop_bit 16 i_vec_instr AND 0x83) OR vex_vvvv i_vec_reg_number_1 OR vex_vl i_vector_name
       in put_bytes io_generated_code
            [0xc4, p0, p1, ucast i_vec_instr, modrm_regs i_vec_reg_number_2 i_vec_reg_number_0]))"

section \<open>EVEX\<close>

definition tbl_evex_RRp :: "u8 list" where
  "tbl_evex_RRp = [0x90, 0x90, 0x90, 0x90, 0x90, 0x90, 0x90, 0x90, 0x10, 0x10, 0x10, 0x10, 0x10, 0x10, 0x10, 0x10,
     0x80, 0x80, 0x80, 0x80, 0x80, 0x80, 0x80, 0x80, 0x00, 0x00, 0x00, 0x00, 0x00, 0x00, 0x00, 0x00]"

definition tbl_evex_BX :: "u8 list" where
  "tbl_evex_BX = [0x60, 0x60, 0x60, 0x60, 0x60, 0x60, 0x60, 0x60, 0x40, 0x40, 0x40, 0x40, 0x40, 0x40, 0x40, 0x40,
     0x20, 0x20, 0x20, 0x20, 0x20, 0x20, 0x20, 0x20, 0x00, 0x00, 0x00, 0x00, 0x00, 0x00, 0x00, 0x00]"

definition tbl_evex_vvvv :: "u8 list" where
  "tbl_evex_vvvv = [0x78, 0x70, 0x68, 0x60, 0x58, 0x50, 0x48, 0x40, 0x38, 0x30, 0x28, 0x20, 0x18, 0x10, 0x08, 0x00,
     0x78, 0x70, 0x68, 0x60, 0x58, 0x50, 0x48, 0x40, 0x38, 0x30, 0x28, 0x20, 0x18, 0x10, 0x08, 0x00]"

definition tbl_evex_vp :: "u8 list" where
  "tbl_evex_vp = [0x08, 0x08, 0x08, 0x08, 0x08, 0x08, 0x08, 0x08, 0x08, 0x08, 0x08, 0x08, 0x08, 0x08, 0x08, 0x08,
     0x00, 0x00, 0x00, 0x00, 0x00, 0x00, 0x00, 0x00, 0x00, 0x00, 0x00, 0x00, 0x00, 0x00, 0x00, 0x00]"

definition evex_vl :: "libxsmm_x86_simd_name \<Rightarrow> u8" where
  "evex_vl i_vector_name = [0x00, 0x20, 0x40] ! unat (libxsmm_x86_simd_name_val i_vector_name)"

definition tbl_disp8div :: "u8 list" where
  "tbl_disp8div = [0x01, 0x02, 0x04, 0x08, 0x10, 0x20, 0x40, 0x80]"

definition tbl_disp8divbcst :: "u8 list" where
  "tbl_disp8divbcst = [0x04, 0x08, 0x02, 0x00]"

text \<open>The factor of the compressed displacement; the index is an \<open>unsigned char\<close>.\<close>

definition disp8div :: "u32 \<Rightarrow> u32 \<Rightarrow> libxsmm_x86_simd_name \<Rightarrow> u8" where
  "disp8div i_vec_instr i_use_broadcast i_vector_name =
   (if i_use_broadcast \<noteq> 0 then
      (let l_wbit = ucast (drop_bit 23 i_vec_instr AND 0x3) :: u8 in tbl_disp8divbcst ! unat l_wbit)
    else
      (let l_disp8div_idx = ucast (drop_bit 8 i_vec_instr AND 0x07) :: u8; l_vl_idx = libxsmm_x86_simd_name_val i_vector_name
       in if (ucast (drop_bit 8 i_vec_instr AND 0x08) :: u8) = 8 then tbl_disp8div ! unat l_disp8div_idx
          else
            (let l_disp8div_idx =
               (if i_vector_name \<noteq> LIBXSMM_X86_SIMD_NAME_ZMM then
                  (if i_vector_name = LIBXSMM_X86_SIMD_NAME_XMM \<and> i_vec_instr = 0x20871612 then l_disp8div_idx - 3
                   else if ucast l_disp8div_idx < 2 - l_vl_idx then 0
                   else ucast (ucast l_disp8div_idx + l_vl_idx - 2))
                else l_disp8div_idx)
             in tbl_disp8div ! unat l_disp8div_idx)))"

definition is_vsib :: "u32 \<Rightarrow> bool" where
  "is_vsib i_vec_instr \<longleftrightarrow> drop_bit 24 i_vec_instr AND 0x2 = 0x2"

definition evex_sib_operands :: "u32 \<Rightarrow> u32 \<Rightarrow> u32 \<Rightarrow> u32 \<Rightarrow> bool \<times> u32 \<times> u32" where
  "evex_sib_operands i_vec_instr i_gp_reg_base i_reg_idx i_scale =
   (if (i_gp_reg_base = LIBXSMM_X86_GP_REG_RSP \<or> i_gp_reg_base = LIBXSMM_X86_GP_REG_R12) \<and> i_reg_idx = LIBXSMM_X86_GP_REG_UNDEF
    then (True, LIBXSMM_X86_GP_REG_RSP, 0)
    else if i_reg_idx < 16 \<or> (is_vsib i_vec_instr \<and> i_reg_idx < 32) then (True, i_reg_idx, i_scale)
    else (False, 0, 0))"

definition evex_displacement :: "u32 \<Rightarrow> int \<Rightarrow> int \<Rightarrow> u8 \<times> u8 list" where
  "evex_displacement i_gp_reg_base i_displacement l_disp8div =
   (if i_displacement \<noteq> 0 \<or> forced_zdisp8 i_gp_reg_base i_displacement then
      (let l_comp_disp = i_displacement sdiv l_disp8div
       in if i_displacement smod l_disp8div = 0 \<and> l_comp_disp \<le> 127 \<and> l_comp_disp \<ge> -128
          then (0x40, [word_of_int l_comp_disp])
          else (0x80, disp32 i_displacement))
    else (0x00, []))"

definition evex_masking :: "u32 \<Rightarrow> u32 \<Rightarrow> u8" where
  "evex_masking i_mask_reg_number i_use_zero_masking =
    (if i_use_zero_masking \<noteq> 0 \<and> i_mask_reg_number \<noteq> 0 then 0x80 else 0x00) OR ucast (i_mask_reg_number AND 0x07)"

definition libxsmm_x86_instruction_evex_compute_2reg_mem ::
    "gencode \<Rightarrow> u32 \<Rightarrow> u32 \<Rightarrow> u32 \<Rightarrow> u32 \<Rightarrow> u32 \<Rightarrow> int \<Rightarrow> libxsmm_x86_simd_name \<Rightarrow> u32 \<Rightarrow> u32 \<Rightarrow> u32 \<Rightarrow> u32 \<Rightarrow> gencode" where
  "libxsmm_x86_instruction_evex_compute_2reg_mem io_generated_code i_vec_instr i_use_broadcast i_gp_reg_base i_reg_idx
      i_scale i_displacement i_vector_name i_vec_reg_number_src i_vec_reg_number_dst i_mask_reg_number i_use_zero_masking =
   (if i_vec_reg_number_dst > 31 \<or> i_vec_reg_number_src > 31
    then libxsmm_handle_error io_generated_code LIBXSMM_ERR_ILLEGAL_REGNUM
    else if no_space20 io_generated_code then libxsmm_handle_error io_generated_code LIBXSMM_ERR_BUFFER_TOO_SMALL
    else
      (let l_disp8div = disp8div i_vec_instr i_use_broadcast i_vector_name;
           (l_have_sib, l_reg_idx, l_scale) = evex_sib_operands i_vec_instr i_gp_reg_base i_reg_idx i_scale;
           (md, disp) = evex_displacement i_gp_reg_base i_displacement (uint l_disp8div);
           p0 = ucast (drop_bit 12 i_vec_instr AND 0x0f) OR tbl_evex_RRp ! unat i_vec_reg_number_dst OR
                (if l_have_sib then (if i_gp_reg_base < 8 then 0x20 else 0x00) OR (if l_reg_idx AND 0x08 = 0x00 then 0x40 else 0x00)
                 else tbl_evex_BX ! unat i_gp_reg_base);
           p1 = ucast (drop_bit 16 i_vec_instr AND 0x87) OR tbl_evex_vvvv ! unat i_vec_reg_number_src;
           p2 = (if is_vsib i_vec_instr then (if l_reg_idx < 16 then tbl_evex_vp ! unat l_reg_idx else tbl_evex_vp ! 0)
                 else tbl_evex_vp ! unat i_vec_reg_number_src) OR
                evex_vl i_vector_name OR (if i_use_broadcast = 0 then 0x00 else 0x10) OR
                evex_masking i_mask_reg_number i_use_zero_masking
       in put_bytes io_generated_code
            ([0x62, p0, p1, p2, ucast i_vec_instr] @
             mem_bytes l_have_sib l_reg_idx l_scale i_gp_reg_base i_vec_reg_number_dst md @ disp)))"

definition libxsmm_x86_instruction_evex_compute_3reg ::
    "gencode \<Rightarrow> u32 \<Rightarrow> libxsmm_x86_simd_name \<Rightarrow> u32 \<Rightarrow> u32 \<Rightarrow> u32 \<Rightarrow> u32 \<Rightarrow> u32 \<Rightarrow> u8 \<Rightarrow> gencode" where
  "libxsmm_x86_instruction_evex_compute_3reg io_generated_code i_vec_instr i_vector_name
      i_vec_reg_number_0 i_vec_reg_number_1 i_vec_reg_number_2 i_mask_reg_number i_use_zero_masking i_sae_cntl =
   (if i_vec_reg_number_0 > 31 \<or> i_vec_reg_number_1 > 31 \<or> i_vec_reg_number_2 > 31
    then libxsmm_handle_error io_generated_code LIBXSMM_ERR_ILLEGAL_REGNUM
    else if no_space20 io_generated_code then libxsmm_handle_error io_generated_code LIBXSMM_ERR_BUFFER_TOO_SMALL
    else
      (let p0 = ucast (drop_bit 12 i_vec_instr AND 0x0f) OR tbl_evex_RRp ! unat i_vec_reg_number_2 OR
                tbl_evex_BX ! unat i_vec_reg_number_0;
           p1 = ucast (drop_bit 16 i_vec_instr AND 0x87) OR tbl_evex_vvvv ! unat i_vec_reg_number_1;
           p2 = tbl_evex_vp ! unat i_vec_reg_number_1 OR
                (if i_sae_cntl = 0 then evex_vl i_vector_name else 0x60 AND push_bit 4 i_sae_cntl) OR
                evex_masking i_mask_reg_number i_use_zero_masking OR (if i_sae_cntl = 0 then 0x00 else 0x10)
       in put_bytes io_generated_code
            [0x62, p0, p1, p2, ucast i_vec_instr, modrm_regs i_vec_reg_number_2 i_vec_reg_number_0]))"

section \<open>The bytes that a call appends\<close>

definition emitted_bytes :: "gencode \<Rightarrow> gencode \<Rightarrow> u8 list" where
  "emitted_bytes g g' = map (generated_code g') [unat (code_size g) ..< unat (code_size g')]"

definition room :: "nat \<Rightarrow> gencode \<Rightarrow> bool" where
  "room n g \<longleftrightarrow> unat (code_size g) + n \<le> unat (buffer_size g)"

lemma put_bytes_simps [simp]:
  "put_bytes g [] = g" "put_bytes g (b # bs) = put_bytes (put_byte g b) bs"
  "put_bytes g (bs @ cs) = put_bytes (put_bytes g bs) cs"
  by (simp_all add: put_bytes_def)

lemma put_bytes_code_size: "code_size (put_bytes g bs) = code_size g + of_nat (length bs)"
  by (induction bs arbitrary: g) (simp_all add: put_byte_def)

lemma put_bytes_keeps:
  "buffer_size (put_bytes g bs) = buffer_size g" "code_type (put_bytes g bs) = code_type g" "arch (put_bytes g bs) = arch g"
  "last_error (put_bytes g bs) = last_error g"
  by (induction bs arbitrary: g) (simp_all add: put_byte_def)

lemma unat_put_bytes: "unat (code_size g) + length bs < 2 ^ 32 \<Longrightarrow> unat (code_size (put_bytes g bs)) = unat (code_size g) + length bs"
  by (simp add: put_bytes_code_size unat_word_ariths unat_of_nat)

lemma put_bytes_at:
  "unat (code_size g) + length bs < 2 ^ 32 \<Longrightarrow>
   generated_code (put_bytes g bs) k =
    (if unat (code_size g) \<le> k \<and> k < unat (code_size g) + length bs then bs ! (k - unat (code_size g)) else generated_code g k)"
proof (induction bs arbitrary: g)
  case Nil
  then show ?case by auto
next
  case (Cons b bs)
  have "unat (code_size (put_byte g b)) = unat (code_size g) + 1"
    using unat_put_bytes [of g "[b]"] Cons.prems by simp
  with Cons show ?case
    by (auto simp: put_byte_def nth_Cons')
qed

lemma emitted_put_bytes: "unat (code_size g) + length bs < 2 ^ 32 \<Longrightarrow> emitted_bytes g (put_bytes g bs) = bs"
  by (rule nth_equalityI) (simp_all add: emitted_bytes_def unat_put_bytes put_bytes_at)

lemma room_no_wrap: "room n g \<Longrightarrow> unat (code_size g) + n < 2 ^ 32"
  using unsigned_less [where 'a = nat, of "buffer_size g"] by (simp add: room_def)

lemma room_space20: "room 20 g \<Longrightarrow> \<not> no_space20 g"
  by (simp add: room_def no_space20_def word_less_nat_alt unat_sub word_le_nat_alt)

section \<open>Lengths of the parts\<close>

lemma length_legacy_prefixes: "length (legacy_prefixes i) \<le> 2"
  by (simp add: legacy_prefixes_def)

lemma length_opext: "length (opext_bytes i) \<le> 2"
  by (simp add: opext_bytes_def Let_def)

lemma length_mem_bytes: "length (mem_bytes hs gi sc base reg md) \<le> 2"
  by (simp add: mem_bytes_def)

lemma length_displacement: "displacement base d = (md, disp) \<Longrightarrow> length disp \<le> 4"
  by (auto simp: displacement_def disp32_def split: if_splits)

lemma length_evex_displacement: "evex_displacement base d n = (md, disp) \<Longrightarrow> length disp \<le> 4"
  by (auto simp: evex_displacement_def disp32_def Let_def split: if_splits)

end
