(* ===== verification/X86_Instr.thy ===== *)
theory X86_Instr
  imports X86_Encode
begin

text \<open>
  The instructions of \<open>src/generator_x86_instructions.c\<close>: each checks the instruction number and its operands, selects
  an encoder and appends a constant. \<open>asm\<close> is what the branch for assembly text (\<open>code_type\<close> 0 or 1) makes of the
  stream; the messages on \<open>stderr\<close> have no effect on it. A character other than the lengths that a function knows is
  read as \<open>x\<close> after a message.
\<close>

section \<open>Selection of the encoder\<close>

text \<open>The value of \<open>l_encoder\<close>: 2 for EVEX, 1 for VEX, 0 for REX.\<close>

definition select_encoder :: "gencode \<Rightarrow> u32 \<Rightarrow> nat" where
  "select_encoder g i_vec_instr =
   (let l_encoder_arch = (if arch g < LIBXSMM_X86_AVX then 0 else if arch g < LIBXSMM_X86_AVX512_VL128_SKX then 1 else 2 :: nat);
        l_encoder_instr = drop_bit 30 i_vec_instr AND 0x03
    in if l_encoder_arch = 2 \<and> (l_encoder_instr = 3 \<or> l_encoder_instr = 0) then 2
       else if l_encoder_arch \<ge> 1 \<and> (l_encoder_instr = 1 \<or> l_encoder_instr = 0) then 1
       else 0)"

definition simd_name_xyz :: "char \<Rightarrow> libxsmm_x86_simd_name" where
  "simd_name_xyz i_vector_name =
   (if i_vector_name = CHR ''z'' then LIBXSMM_X86_SIMD_NAME_ZMM
    else if i_vector_name = CHR ''y'' then LIBXSMM_X86_SIMD_NAME_YMM
    else LIBXSMM_X86_SIMD_NAME_XMM)"

definition simd_name_xy :: "char \<Rightarrow> libxsmm_x86_simd_name" where
  "simd_name_xy i_vector_name =
   (if i_vector_name = CHR ''y'' then LIBXSMM_X86_SIMD_NAME_YMM else LIBXSMM_X86_SIMD_NAME_XMM)"

definition add_imm8 :: "u32 \<Rightarrow> u32 \<Rightarrow> gencode \<Rightarrow> gencode" where
  "add_imm8 i_instr i_imm8 g =
   (if drop_bit 16 i_instr AND 0x08 = 0x08
    then (if i_imm8 \<noteq> LIBXSMM_X86_IMM_UNDEF then put_byte g (ucast i_imm8) else LIBXSMM_EXIT_ERROR g)
    else g)"

text \<open>The fields of an instruction number that the functions test.\<close>

definition operand_count :: "u32 \<Rightarrow> u32" where
  "operand_count i_instr = drop_bit 28 i_instr AND 3"

definition flips_operands :: "u32 \<Rightarrow> bool" where
  "flips_operands i_instr \<longleftrightarrow> drop_bit 24 i_instr AND 0x08 = 0x08"

definition has_op_ext :: "u32 \<Rightarrow> bool" where
  "has_op_ext i_instr \<longleftrightarrow> drop_bit 24 i_instr AND 0x04 = 0x04"

definition op_ext :: "u32 \<Rightarrow> u32" where
  "op_ext i_instr = drop_bit 20 i_instr AND 0x07"

section \<open>Vector instructions with registers\<close>

definition libxsmm_x86_instruction_vec_compute_3reg_mask_sae_imm8 ::
    "(gencode \<Rightarrow> gencode) \<Rightarrow> gencode \<Rightarrow> u32 \<Rightarrow> char \<Rightarrow> u32 \<Rightarrow> u32 \<Rightarrow> u32 \<Rightarrow> u32 \<Rightarrow> u32 \<Rightarrow> u8 \<Rightarrow> u32 \<Rightarrow> gencode" where
  "libxsmm_x86_instruction_vec_compute_3reg_mask_sae_imm8 asm io_generated_code i_vec_instr i_vector_name
      i_reg_number_src0 i_reg_number_src1 i_reg_number_dst i_mask_reg_number i_mask_cntl i_sae_cntl i_imm8 =
   (if \<not> libxsmm_x86_instruction_vec_is_hybrid i_vec_instr \<and> \<not> libxsmm_x86_instruction_vec_is_regonly i_vec_instr
    then LIBXSMM_EXIT_ERROR io_generated_code
    else if arch io_generated_code < LIBXSMM_X86_AVX512_VL128_SKX \<and> i_mask_reg_number \<noteq> 0
    then LIBXSMM_EXIT_ERROR io_generated_code
    else if code_type io_generated_code \<le> 1 then asm io_generated_code
    else if operand_count i_vec_instr = 2 \<and> i_reg_number_src1 \<noteq> LIBXSMM_X86_VEC_REG_UNDEF
    then LIBXSMM_EXIT_ERROR io_generated_code
    else if operand_count i_vec_instr = 1 \<and> i_reg_number_src0 \<noteq> LIBXSMM_X86_VEC_REG_UNDEF
    then LIBXSMM_EXIT_ERROR io_generated_code
    else
      (let l_reg_number_src1 = (if operand_count i_vec_instr = 2 \<or> operand_count i_vec_instr = 1 then 0 else i_reg_number_src1);
           l_reg_number_dst = (if flips_operands i_vec_instr then i_reg_number_src0 else i_reg_number_dst);
           l_reg_number_src0 = (if flips_operands i_vec_instr then i_reg_number_dst else i_reg_number_src0)
       in if has_op_ext i_vec_instr \<and> operand_count i_vec_instr \<noteq> 2 \<and> operand_count i_vec_instr \<noteq> 1
          then LIBXSMM_EXIT_ERROR io_generated_code
          else
            (let (l_reg_number_src0, l_reg_number_src1, l_reg_number_dst) =
               (if has_op_ext i_vec_instr then
                  (if operand_count i_vec_instr = 2 then (l_reg_number_src0, i_reg_number_dst, op_ext i_vec_instr)
                   else (i_reg_number_dst, l_reg_number_src1, op_ext i_vec_instr))
                else (l_reg_number_src0, l_reg_number_src1, l_reg_number_dst))
             in add_imm8 i_vec_instr i_imm8
                 (if select_encoder io_generated_code i_vec_instr = 2
                  then libxsmm_x86_instruction_evex_compute_3reg io_generated_code i_vec_instr (simd_name_xyz i_vector_name)
                         l_reg_number_src0 l_reg_number_src1 l_reg_number_dst i_mask_reg_number i_mask_cntl i_sae_cntl
                  else if select_encoder io_generated_code i_vec_instr = 1
                  then libxsmm_x86_instruction_vex_compute_3reg io_generated_code i_vec_instr (simd_name_xy i_vector_name)
                         l_reg_number_src0 l_reg_number_src1 l_reg_number_dst
                  else libxsmm_x86_instruction_rex_compute_2reg io_generated_code i_vec_instr
                         l_reg_number_src0 l_reg_number_dst))))"

definition libxsmm_x86_instruction_vec_compute_3reg ::
    "(gencode \<Rightarrow> gencode) \<Rightarrow> gencode \<Rightarrow> u32 \<Rightarrow> char \<Rightarrow> u32 \<Rightarrow> u32 \<Rightarrow> u32 \<Rightarrow> gencode" where
  "libxsmm_x86_instruction_vec_compute_3reg asm io_generated_code i_vec_instr i_vector_name
      i_reg_number_src0 i_reg_number_src1 i_reg_number_dst =
   libxsmm_x86_instruction_vec_compute_3reg_mask_sae_imm8 asm io_generated_code i_vec_instr i_vector_name
     i_reg_number_src0 i_reg_number_src1 i_reg_number_dst 0 0 0 LIBXSMM_X86_IMM_UNDEF"

definition libxsmm_x86_instruction_vec_compute_3reg_mask ::
    "(gencode \<Rightarrow> gencode) \<Rightarrow> gencode \<Rightarrow> u32 \<Rightarrow> char \<Rightarrow> u32 \<Rightarrow> u32 \<Rightarrow> u32 \<Rightarrow> u32 \<Rightarrow> u32 \<Rightarrow> gencode" where
  "libxsmm_x86_instruction_vec_compute_3reg_mask asm io_generated_code i_vec_instr i_vector_name
      i_reg_number_src0 i_reg_number_src1 i_reg_number_dst i_mask_reg_number i_mask_cntl =
   libxsmm_x86_instruction_vec_compute_3reg_mask_sae_imm8 asm io_generated_code i_vec_instr i_vector_name
     i_reg_number_src0 i_reg_number_src1 i_reg_number_dst i_mask_reg_number i_mask_cntl 0 LIBXSMM_X86_IMM_UNDEF"

definition libxsmm_x86_instruction_vec_compute_3reg_imm8 ::
    "(gencode \<Rightarrow> gencode) \<Rightarrow> gencode \<Rightarrow> u32 \<Rightarrow> char \<Rightarrow> u32 \<Rightarrow> u32 \<Rightarrow> u32 \<Rightarrow> u32 \<Rightarrow> gencode" where
  "libxsmm_x86_instruction_vec_compute_3reg_imm8 asm io_generated_code i_vec_instr i_vector_name
      i_reg_number_src0 i_reg_number_src1 i_reg_number_dst i_imm8 =
   libxsmm_x86_instruction_vec_compute_3reg_mask_sae_imm8 asm io_generated_code i_vec_instr i_vector_name
     i_reg_number_src0 i_reg_number_src1 i_reg_number_dst 0 0 0 i_imm8"

definition libxsmm_x86_instruction_vec_compute_2reg_mask_sae_imm8 ::
    "(gencode \<Rightarrow> gencode) \<Rightarrow> gencode \<Rightarrow> u32 \<Rightarrow> char \<Rightarrow> u32 \<Rightarrow> u32 \<Rightarrow> u32 \<Rightarrow> u32 \<Rightarrow> u8 \<Rightarrow> u32 \<Rightarrow> gencode" where
  "libxsmm_x86_instruction_vec_compute_2reg_mask_sae_imm8 asm io_generated_code i_vec_instr i_vector_name
      i_reg_number_src0 i_reg_number_dst i_mask_reg_number i_mask_cntl i_sae_cntl i_imm8 =
   libxsmm_x86_instruction_vec_compute_3reg_mask_sae_imm8 asm io_generated_code i_vec_instr i_vector_name
     i_reg_number_src0 LIBXSMM_X86_VEC_REG_UNDEF i_reg_number_dst i_mask_reg_number i_mask_cntl i_sae_cntl i_imm8"

definition libxsmm_x86_instruction_vec_compute_2reg ::
    "(gencode \<Rightarrow> gencode) \<Rightarrow> gencode \<Rightarrow> u32 \<Rightarrow> char \<Rightarrow> u32 \<Rightarrow> u32 \<Rightarrow> gencode" where
  "libxsmm_x86_instruction_vec_compute_2reg asm io_generated_code i_vec_instr i_vector_name i_reg_number_src0 i_reg_number_dst =
   libxsmm_x86_instruction_vec_compute_3reg_mask_sae_imm8 asm io_generated_code i_vec_instr i_vector_name
     i_reg_number_src0 LIBXSMM_X86_VEC_REG_UNDEF i_reg_number_dst 0 0 0 LIBXSMM_X86_IMM_UNDEF"

definition libxsmm_x86_instruction_vec_compute_2reg_mask ::
    "(gencode \<Rightarrow> gencode) \<Rightarrow> gencode \<Rightarrow> u32 \<Rightarrow> char \<Rightarrow> u32 \<Rightarrow> u32 \<Rightarrow> u32 \<Rightarrow> u32 \<Rightarrow> gencode" where
  "libxsmm_x86_instruction_vec_compute_2reg_mask asm io_generated_code i_vec_instr i_vector_name
      i_reg_number_src0 i_reg_number_dst i_mask_reg_number i_mask_cntl =
   libxsmm_x86_instruction_vec_compute_3reg_mask_sae_imm8 asm io_generated_code i_vec_instr i_vector_name
     i_reg_number_src0 LIBXSMM_X86_VEC_REG_UNDEF i_reg_number_dst i_mask_reg_number i_mask_cntl 0 LIBXSMM_X86_IMM_UNDEF"

definition libxsmm_x86_instruction_vec_compute_2reg_imm8 ::
    "(gencode \<Rightarrow> gencode) \<Rightarrow> gencode \<Rightarrow> u32 \<Rightarrow> char \<Rightarrow> u32 \<Rightarrow> u32 \<Rightarrow> u32 \<Rightarrow> gencode" where
  "libxsmm_x86_instruction_vec_compute_2reg_imm8 asm io_generated_code i_vec_instr i_vector_name
      i_reg_number_src0 i_reg_number_dst i_imm8 =
   libxsmm_x86_instruction_vec_compute_3reg_mask_sae_imm8 asm io_generated_code i_vec_instr i_vector_name
     i_reg_number_src0 LIBXSMM_X86_VEC_REG_UNDEF i_reg_number_dst 0 0 0 i_imm8"

definition libxsmm_x86_instruction_vec_compute_1reg_imm8 ::
    "(gencode \<Rightarrow> gencode) \<Rightarrow> gencode \<Rightarrow> u32 \<Rightarrow> char \<Rightarrow> u32 \<Rightarrow> u32 \<Rightarrow> gencode" where
  "libxsmm_x86_instruction_vec_compute_1reg_imm8 asm io_generated_code i_vec_instr i_vector_name i_reg_number_dst i_imm8 =
   libxsmm_x86_instruction_vec_compute_3reg_mask_sae_imm8 asm io_generated_code i_vec_instr i_vector_name
     LIBXSMM_X86_VEC_REG_UNDEF LIBXSMM_X86_VEC_REG_UNDEF i_reg_number_dst 0 0 0 i_imm8"

section \<open>Vector instructions with memory\<close>

definition libxsmm_x86_instruction_vec_compute_mem_2reg_mask_imm8 ::
    "(gencode \<Rightarrow> gencode) \<Rightarrow> gencode \<Rightarrow> u32 \<Rightarrow> char \<Rightarrow> u32 \<Rightarrow> u32 \<Rightarrow> u32 \<Rightarrow> int \<Rightarrow> u32 \<Rightarrow> u32 \<Rightarrow> u32 \<Rightarrow> u32 \<Rightarrow> u32 \<Rightarrow> u32 \<Rightarrow> gencode" where
  "libxsmm_x86_instruction_vec_compute_mem_2reg_mask_imm8 asm io_generated_code i_vec_instr i_vector_name i_gp_reg_base
      i_gp_reg_idx i_scale i_displacement i_use_broadcast i_reg_number_src1 i_reg_number_dst i_mask_reg_number
      i_mask_rnd_exp_cntl i_imm8 =
   (if \<not> libxsmm_x86_instruction_vec_is_hybrid i_vec_instr \<and> \<not> libxsmm_x86_instruction_vec_is_regmemonly i_vec_instr
    then LIBXSMM_EXIT_ERROR io_generated_code
    else if arch io_generated_code < LIBXSMM_X86_AVX512_VL128_SKX \<and> i_mask_reg_number \<noteq> 0
    then LIBXSMM_EXIT_ERROR io_generated_code
    else if code_type io_generated_code \<le> 1 then asm io_generated_code
    else if operand_count i_vec_instr = 2 \<and> i_reg_number_src1 \<noteq> LIBXSMM_X86_VEC_REG_UNDEF
    then LIBXSMM_EXIT_ERROR io_generated_code
    else if operand_count i_vec_instr = 1 \<and>
       (i_reg_number_src1 \<noteq> LIBXSMM_X86_VEC_REG_UNDEF \<or> i_reg_number_dst \<noteq> LIBXSMM_X86_VEC_REG_UNDEF)
    then LIBXSMM_EXIT_ERROR io_generated_code
    else if has_op_ext i_vec_instr \<and> operand_count i_vec_instr \<noteq> 2 then LIBXSMM_EXIT_ERROR io_generated_code
    else
      (let l_reg_number_src1 = (if operand_count i_vec_instr = 2 \<or> operand_count i_vec_instr = 1 then 0 else i_reg_number_src1);
           l_reg_number_dst = (if operand_count i_vec_instr = 1 then 0 else i_reg_number_dst);
           (l_reg_number_src1, l_reg_number_dst) =
             (if has_op_ext i_vec_instr then (l_reg_number_dst, op_ext i_vec_instr) else (l_reg_number_src1, l_reg_number_dst))
       in if select_encoder io_generated_code i_vec_instr = 2 then
            (if is_vsib i_vec_instr \<and> i_gp_reg_idx > 32 then LIBXSMM_EXIT_ERROR io_generated_code
             else if is_vsib i_vec_instr \<and> (i_mask_rnd_exp_cntl \<noteq> 0 \<or> i_mask_reg_number = 0)
             then LIBXSMM_EXIT_ERROR io_generated_code
             else add_imm8 i_vec_instr i_imm8
               (libxsmm_x86_instruction_evex_compute_2reg_mem io_generated_code i_vec_instr i_use_broadcast i_gp_reg_base
                  i_gp_reg_idx i_scale i_displacement (simd_name_xyz i_vector_name) l_reg_number_src1 l_reg_number_dst
                  i_mask_reg_number i_mask_rnd_exp_cntl))
          else add_imm8 i_vec_instr i_imm8
            (if select_encoder io_generated_code i_vec_instr = 1
             then libxsmm_x86_instruction_vex_compute_2reg_mem io_generated_code i_vec_instr i_gp_reg_base i_gp_reg_idx i_scale
                    i_displacement (simd_name_xy i_vector_name) l_reg_number_src1 l_reg_number_dst
             else libxsmm_x86_instruction_rex_compute_1reg_mem io_generated_code i_vec_instr i_gp_reg_base i_gp_reg_idx i_scale
                    i_displacement l_reg_number_dst)))"

definition libxsmm_x86_instruction_vec_compute_mem_2reg ::
    "(gencode \<Rightarrow> gencode) \<Rightarrow> gencode \<Rightarrow> u32 \<Rightarrow> char \<Rightarrow> u32 \<Rightarrow> u32 \<Rightarrow> u32 \<Rightarrow> int \<Rightarrow> u32 \<Rightarrow> u32 \<Rightarrow> u32 \<Rightarrow> gencode" where
  "libxsmm_x86_instruction_vec_compute_mem_2reg asm io_generated_code i_vec_instr i_vector_name i_gp_reg_base i_gp_reg_idx
      i_scale i_displacement i_use_broadcast i_reg_number_src1 i_reg_number_dst =
   libxsmm_x86_instruction_vec_compute_mem_2reg_mask_imm8 asm io_generated_code i_vec_instr i_vector_name i_gp_reg_base
     i_gp_reg_idx i_scale i_displacement i_use_broadcast i_reg_number_src1 i_reg_number_dst 0 0 LIBXSMM_X86_IMM_UNDEF"

definition libxsmm_x86_instruction_vec_compute_mem_2reg_mask ::
    "(gencode \<Rightarrow> gencode) \<Rightarrow> gencode \<Rightarrow> u32 \<Rightarrow> char \<Rightarrow> u32 \<Rightarrow> u32 \<Rightarrow> u32 \<Rightarrow> int \<Rightarrow> u32 \<Rightarrow> u32 \<Rightarrow> u32 \<Rightarrow> u32 \<Rightarrow> u32 \<Rightarrow> gencode" where
  "libxsmm_x86_instruction_vec_compute_mem_2reg_mask asm io_generated_code i_vec_instr i_vector_name i_gp_reg_base i_gp_reg_idx
      i_scale i_displacement i_use_broadcast i_reg_number_src1 i_reg_number_dst i_mask_reg_number i_mask_rnd_exp_cntl =
   libxsmm_x86_instruction_vec_compute_mem_2reg_mask_imm8 asm io_generated_code i_vec_instr i_vector_name i_gp_reg_base
     i_gp_reg_idx i_scale i_displacement i_use_broadcast i_reg_number_src1 i_reg_number_dst i_mask_reg_number
     i_mask_rnd_exp_cntl LIBXSMM_X86_IMM_UNDEF"

definition libxsmm_x86_instruction_vec_compute_mem_2reg_imm8 ::
    "(gencode \<Rightarrow> gencode) \<Rightarrow> gencode \<Rightarrow> u32 \<Rightarrow> char \<Rightarrow> u32 \<Rightarrow> u32 \<Rightarrow> u32 \<Rightarrow> int \<Rightarrow> u32 \<Rightarrow> u32 \<Rightarrow> u32 \<Rightarrow> u32 \<Rightarrow> gencode" where
  "libxsmm_x86_instruction_vec_compute_mem_2reg_imm8 asm io_generated_code i_vec_instr i_vector_name i_gp_reg_base i_gp_reg_idx
      i_scale i_displacement i_use_broadcast i_reg_number_src1 i_reg_number_dst i_imm8 =
   libxsmm_x86_instruction_vec_compute_mem_2reg_mask_imm8 asm io_generated_code i_vec_instr i_vector_name i_gp_reg_base
     i_gp_reg_idx i_scale i_displacement i_use_broadcast i_reg_number_src1 i_reg_number_dst 0 0 i_imm8"

definition libxsmm_x86_instruction_vec_compute_mem_1reg_mask_imm8 ::
    "(gencode \<Rightarrow> gencode) \<Rightarrow> gencode \<Rightarrow> u32 \<Rightarrow> char \<Rightarrow> u32 \<Rightarrow> u32 \<Rightarrow> u32 \<Rightarrow> int \<Rightarrow> u32 \<Rightarrow> u32 \<Rightarrow> u32 \<Rightarrow> u32 \<Rightarrow> u32 \<Rightarrow> gencode" where
  "libxsmm_x86_instruction_vec_compute_mem_1reg_mask_imm8 asm io_generated_code i_vec_instr i_vector_name i_gp_reg_base
      i_gp_reg_idx i_scale i_displacement i_use_broadcast i_reg_number_dst i_mask_reg_number i_mask_rnd_exp_cntl i_imm8 =
   libxsmm_x86_instruction_vec_compute_mem_2reg_mask_imm8 asm io_generated_code i_vec_instr i_vector_name i_gp_reg_base
     i_gp_reg_idx i_scale i_displacement i_use_broadcast LIBXSMM_X86_VEC_REG_UNDEF i_reg_number_dst i_mask_reg_number
     i_mask_rnd_exp_cntl i_imm8"

definition libxsmm_x86_instruction_vec_compute_mem_1reg ::
    "(gencode \<Rightarrow> gencode) \<Rightarrow> gencode \<Rightarrow> u32 \<Rightarrow> char \<Rightarrow> u32 \<Rightarrow> u32 \<Rightarrow> u32 \<Rightarrow> int \<Rightarrow> u32 \<Rightarrow> u32 \<Rightarrow> gencode" where
  "libxsmm_x86_instruction_vec_compute_mem_1reg asm io_generated_code i_vec_instr i_vector_name i_gp_reg_base i_gp_reg_idx
      i_scale i_displacement i_use_broadcast i_reg_number_dst =
   libxsmm_x86_instruction_vec_compute_mem_2reg_mask_imm8 asm io_generated_code i_vec_instr i_vector_name i_gp_reg_base
     i_gp_reg_idx i_scale i_displacement i_use_broadcast LIBXSMM_X86_VEC_REG_UNDEF i_reg_number_dst 0 0 LIBXSMM_X86_IMM_UNDEF"

definition libxsmm_x86_instruction_vec_compute_mem_1reg_mask ::
    "(gencode \<Rightarrow> gencode) \<Rightarrow> gencode \<Rightarrow> u32 \<Rightarrow> char \<Rightarrow> u32 \<Rightarrow> u32 \<Rightarrow> u32 \<Rightarrow> int \<Rightarrow> u32 \<Rightarrow> u32 \<Rightarrow> u32 \<Rightarrow> u32 \<Rightarrow> gencode" where
  "libxsmm_x86_instruction_vec_compute_mem_1reg_mask asm io_generated_code i_vec_instr i_vector_name i_gp_reg_base i_gp_reg_idx
      i_scale i_displacement i_use_broadcast i_reg_number_dst i_mask_reg_number i_mask_rnd_exp_cntl =
   libxsmm_x86_instruction_vec_compute_mem_2reg_mask_imm8 asm io_generated_code i_vec_instr i_vector_name i_gp_reg_base
     i_gp_reg_idx i_scale i_displacement i_use_broadcast LIBXSMM_X86_VEC_REG_UNDEF i_reg_number_dst i_mask_reg_number
     i_mask_rnd_exp_cntl LIBXSMM_X86_IMM_UNDEF"

definition libxsmm_x86_instruction_vec_compute_mem_1reg_imm8 ::
    "(gencode \<Rightarrow> gencode) \<Rightarrow> gencode \<Rightarrow> u32 \<Rightarrow> char \<Rightarrow> u32 \<Rightarrow> u32 \<Rightarrow> u32 \<Rightarrow> int \<Rightarrow> u32 \<Rightarrow> u32 \<Rightarrow> u32 \<Rightarrow> gencode" where
  "libxsmm_x86_instruction_vec_compute_mem_1reg_imm8 asm io_generated_code i_vec_instr i_vector_name i_gp_reg_base i_gp_reg_idx
      i_scale i_displacement i_use_broadcast i_reg_number_dst i_imm8 =
   libxsmm_x86_instruction_vec_compute_mem_2reg_mask_imm8 asm io_generated_code i_vec_instr i_vector_name i_gp_reg_base
     i_gp_reg_idx i_scale i_displacement i_use_broadcast LIBXSMM_X86_VEC_REG_UNDEF i_reg_number_dst 0 0 i_imm8"

end
