(* ===== verification/X86_Scalar.thy ===== *)
theory X86_Scalar
  imports X86_Instr
begin

text \<open>
  The instructions of \<open>src/generator_x86_instructions.c\<close> that move vectors, the instructions on general-purpose registers,
  on mask registers and on tiles. A \<open>long long\<close> is its pattern of 64 bits.
\<close>

section \<open>Moves of vectors\<close>

definition libxsmm_x86_instruction_vec_mask_move ::
    "gencode \<Rightarrow> u32 \<Rightarrow> u32 \<Rightarrow> u32 \<Rightarrow> u32 \<Rightarrow> int \<Rightarrow> char \<Rightarrow> u32 \<Rightarrow> u32 \<Rightarrow> u32 \<Rightarrow> gencode" where
  "libxsmm_x86_instruction_vec_mask_move io_generated_code i_vmove_instr i_gp_reg_base i_reg_idx i_scale i_displacement
      i_vector_name i_vec_reg_number_0 i_vec_reg_mask_0 i_is_store =
   (if i_vmove_instr \<notin> set mask_move_vec_instrs then LIBXSMM_EXIT_ERROR io_generated_code
    else if arch io_generated_code \<ge> LIBXSMM_X86_AVX \<and> code_type io_generated_code > 1 then
      (let l_vmove_instr =
         (if i_vmove_instr = LIBXSMM_X86_INSTR_VMASKMOVPD
          then (if i_is_store = 0 then LIBXSMM_X86_INSTR_VMASKMOVPD_LD else LIBXSMM_X86_INSTR_VMASKMOVPD_ST)
          else if i_vmove_instr = LIBXSMM_X86_INSTR_VMASKMOVPS
          then (if i_is_store = 0 then LIBXSMM_X86_INSTR_VMASKMOVPS_LD else LIBXSMM_X86_INSTR_VMASKMOVPS_ST)
          else i_vmove_instr)
       in if is_vsib i_vmove_instr \<and> i_reg_idx > 15 then LIBXSMM_EXIT_ERROR io_generated_code
          else if is_vsib i_vmove_instr \<and>
             (i_vec_reg_mask_0 = i_vec_reg_number_0 \<or> i_reg_idx = i_vec_reg_number_0 \<or> i_reg_idx = i_vec_reg_mask_0)
          then LIBXSMM_EXIT_ERROR io_generated_code
          else libxsmm_x86_instruction_vex_compute_2reg_mem io_generated_code l_vmove_instr i_gp_reg_base i_reg_idx i_scale
                 i_displacement (simd_name_xy i_vector_name) i_vec_reg_mask_0 i_vec_reg_number_0)
    else LIBXSMM_EXIT_ERROR io_generated_code)"

text \<open>The op-codes of a load and a store of a move: the \<open>switch\<close> of \<open>vec_move\<close>.\<close>

definition vec_move_instrs :: "(u32 \<times> u32 \<times> u32) list" where
  "vec_move_instrs =
   [(LIBXSMM_X86_INSTR_VMOVAPD, LIBXSMM_X86_INSTR_VMOVAPD_LD, LIBXSMM_X86_INSTR_VMOVAPD_ST),
    (LIBXSMM_X86_INSTR_VMOVUPD, LIBXSMM_X86_INSTR_VMOVUPD_LD, LIBXSMM_X86_INSTR_VMOVUPD_ST),
    (LIBXSMM_X86_INSTR_VMOVAPS, LIBXSMM_X86_INSTR_VMOVAPS_LD, LIBXSMM_X86_INSTR_VMOVAPS_ST),
    (LIBXSMM_X86_INSTR_VMOVUPS, LIBXSMM_X86_INSTR_VMOVUPS_LD, LIBXSMM_X86_INSTR_VMOVUPS_ST),
    (LIBXSMM_X86_INSTR_VMOVSD, LIBXSMM_X86_INSTR_VMOVSD_LD, LIBXSMM_X86_INSTR_VMOVSD_ST),
    (LIBXSMM_X86_INSTR_VMOVSS, LIBXSMM_X86_INSTR_VMOVSS_LD, LIBXSMM_X86_INSTR_VMOVSS_ST),
    (LIBXSMM_X86_INSTR_VMOVDQA32, LIBXSMM_X86_INSTR_VMOVDQA32_LD, LIBXSMM_X86_INSTR_VMOVDQA32_ST),
    (LIBXSMM_X86_INSTR_VMOVDQA64, LIBXSMM_X86_INSTR_VMOVDQA64_LD, LIBXSMM_X86_INSTR_VMOVDQA64_ST),
    (LIBXSMM_X86_INSTR_VMOVDQU8, LIBXSMM_X86_INSTR_VMOVDQU8_LD, LIBXSMM_X86_INSTR_VMOVDQU8_ST),
    (LIBXSMM_X86_INSTR_VMOVDQU16, LIBXSMM_X86_INSTR_VMOVDQU16_LD, LIBXSMM_X86_INSTR_VMOVDQU16_ST),
    (LIBXSMM_X86_INSTR_VMOVDQU32, LIBXSMM_X86_INSTR_VMOVDQU32_LD, LIBXSMM_X86_INSTR_VMOVDQU32_ST),
    (LIBXSMM_X86_INSTR_VMOVDQU64, LIBXSMM_X86_INSTR_VMOVDQU64_LD, LIBXSMM_X86_INSTR_VMOVDQU64_ST),
    (LIBXSMM_X86_INSTR_MOVAPD, LIBXSMM_X86_INSTR_MOVAPD_LD, LIBXSMM_X86_INSTR_MOVAPD_ST),
    (LIBXSMM_X86_INSTR_MOVUPD, LIBXSMM_X86_INSTR_MOVUPD_LD, LIBXSMM_X86_INSTR_MOVUPD_ST),
    (LIBXSMM_X86_INSTR_MOVAPS, LIBXSMM_X86_INSTR_MOVAPS_LD, LIBXSMM_X86_INSTR_MOVAPS_ST),
    (LIBXSMM_X86_INSTR_MOVUPS, LIBXSMM_X86_INSTR_MOVUPS_LD, LIBXSMM_X86_INSTR_MOVUPS_ST),
    (LIBXSMM_X86_INSTR_MOVSD, LIBXSMM_X86_INSTR_MOVSD_LD, LIBXSMM_X86_INSTR_MOVSD_ST),
    (LIBXSMM_X86_INSTR_MOVSS, LIBXSMM_X86_INSTR_MOVSS_LD, LIBXSMM_X86_INSTR_MOVSS_ST)]"

definition libxsmm_x86_instruction_vec_move ::
    "(gencode \<Rightarrow> gencode) \<Rightarrow> gencode \<Rightarrow> u32 \<Rightarrow> u32 \<Rightarrow> u32 \<Rightarrow> u32 \<Rightarrow> u32 \<Rightarrow> int \<Rightarrow> char \<Rightarrow> u32 \<Rightarrow> u32 \<Rightarrow> u32 \<Rightarrow> u32 \<Rightarrow> gencode" where
  "libxsmm_x86_instruction_vec_move asm io_generated_code i_instruction_set i_vmove_instr i_gp_reg_base i_reg_idx i_scale
      i_displacement i_vector_name i_vec_reg_number_0 i_mask_reg_number i_use_zero_masking i_is_store =
   (if i_is_store = 0 \<and>
      (i_vmove_instr = LIBXSMM_X86_INSTR_VMOVNTPD \<or> i_vmove_instr = LIBXSMM_X86_INSTR_VMOVNTPS \<or>
       i_vmove_instr = LIBXSMM_X86_INSTR_VMOVNTDQ)
    then LIBXSMM_EXIT_ERROR io_generated_code
    else if arch io_generated_code < LIBXSMM_X86_AVX512_VL128_SKX \<and> i_mask_reg_number \<noteq> 0
    then LIBXSMM_EXIT_ERROR io_generated_code
    else if i_use_zero_masking \<noteq> 0 \<and> i_mask_reg_number \<noteq> 0 \<and> i_is_store \<noteq> 0
    then LIBXSMM_EXIT_ERROR io_generated_code
    else if code_type io_generated_code > 1 then
      (let l_vmove_instr =
         (case map_of vec_move_instrs i_vmove_instr of
            Some (ld, st) \<Rightarrow> (if i_is_store = 0 then ld else st)
          | None \<Rightarrow> i_vmove_instr);
           l_vmove_instr =
         (if arch io_generated_code < LIBXSMM_X86_AVX512_VL128_SKX \<and> l_vmove_instr = LIBXSMM_X86_INSTR_VBROADCASTSD
          then LIBXSMM_X86_INSTR_VBROADCASTSD_VEX else l_vmove_instr)
       in libxsmm_x86_instruction_vec_compute_mem_1reg_mask asm io_generated_code l_vmove_instr i_vector_name i_gp_reg_base
            i_reg_idx i_scale i_displacement 0 i_vec_reg_number_0 i_mask_reg_number i_use_zero_masking)
    else asm io_generated_code)"

definition libxsmm_x86_instruction_vex_evex_mask_mov ::
    "(gencode \<Rightarrow> gencode) \<Rightarrow> gencode \<Rightarrow> u32 \<Rightarrow> u32 \<Rightarrow> u32 \<Rightarrow> u32 \<Rightarrow> int \<Rightarrow> char \<Rightarrow> u32 \<Rightarrow> u32 \<Rightarrow> u32 \<Rightarrow> u32 \<Rightarrow> gencode" where
  "libxsmm_x86_instruction_vex_evex_mask_mov asm io_generated_code i_vmove_instr i_gp_reg_base i_reg_idx i_scale
      i_displacement i_vector_name i_vec_reg_number_0 i_use_masking i_mask_reg_number i_is_store =
   (if arch io_generated_code \<ge> LIBXSMM_X86_AVX512_VL128_SKX then
      (if i_use_masking \<noteq> 0
       then libxsmm_x86_instruction_vec_move asm io_generated_code (arch io_generated_code) i_vmove_instr i_gp_reg_base i_reg_idx
              i_scale i_displacement i_vector_name i_vec_reg_number_0 i_mask_reg_number (if i_is_store \<noteq> 0 then 0 else 1) i_is_store
       else libxsmm_x86_instruction_vec_move asm io_generated_code (arch io_generated_code) i_vmove_instr i_gp_reg_base i_reg_idx
              i_scale i_displacement i_vector_name i_vec_reg_number_0 0 (if i_is_store \<noteq> 0 then 0 else 1) i_is_store)
    else if arch io_generated_code \<ge> LIBXSMM_X86_AVX then
      (if i_use_masking \<noteq> 0
       then libxsmm_x86_instruction_vec_mask_move io_generated_code i_vmove_instr i_gp_reg_base i_reg_idx i_scale i_displacement
              i_vector_name i_vec_reg_number_0 i_mask_reg_number i_is_store
       else libxsmm_x86_instruction_vec_move asm io_generated_code (arch io_generated_code) i_vmove_instr i_gp_reg_base i_reg_idx
              i_scale i_displacement i_vector_name i_vec_reg_number_0 0 1 i_is_store)
    else libxsmm_handle_error io_generated_code LIBXSMM_ERR_GENERAL)"

section \<open>General-purpose registers\<close>

definition libxsmm_x86_instruction_prefetch ::
    "(gencode \<Rightarrow> gencode) \<Rightarrow> gencode \<Rightarrow> u32 \<Rightarrow> u32 \<Rightarrow> u32 \<Rightarrow> u32 \<Rightarrow> int \<Rightarrow> gencode" where
  "libxsmm_x86_instruction_prefetch asm io_generated_code i_prefetch_instr i_gp_reg_base i_gp_reg_idx i_scale i_displacement =
   (if i_prefetch_instr \<notin> set prefetch_instrs then LIBXSMM_EXIT_ERROR io_generated_code
    else if code_type io_generated_code > 1
    then libxsmm_x86_instruction_rex_compute_1reg_mem io_generated_code i_prefetch_instr i_gp_reg_base i_gp_reg_idx i_scale
           i_displacement (op_ext i_prefetch_instr)
    else asm io_generated_code)"

definition libxsmm_x86_instruction_alu_mem ::
    "gencode \<Rightarrow> u32 \<Rightarrow> u32 \<Rightarrow> u32 \<Rightarrow> u32 \<Rightarrow> int \<Rightarrow> u32 \<Rightarrow> u32 \<Rightarrow> gencode" where
  "libxsmm_x86_instruction_alu_mem io_generated_code i_alu_instr i_gp_reg_base i_gp_reg_idx i_scale i_displacement
      i_gp_reg_number i_is_store =
   (if i_alu_instr \<notin> set alu_mem_instrs then LIBXSMM_EXIT_ERROR io_generated_code
    else if code_type io_generated_code > 1 then
      (let l_alu_instr =
         (if i_alu_instr = LIBXSMM_X86_INSTR_MOVQ then (if i_is_store = 0 then LIBXSMM_X86_INSTR_MOVQ_LD else LIBXSMM_X86_INSTR_MOVQ_ST)
          else if i_alu_instr = LIBXSMM_X86_INSTR_MOVD then (if i_is_store = 0 then LIBXSMM_X86_INSTR_MOVD_LD else LIBXSMM_X86_INSTR_MOVD_ST)
          else if i_alu_instr = LIBXSMM_X86_INSTR_MOVW then (if i_is_store = 0 then LIBXSMM_X86_INSTR_MOVW_LD else LIBXSMM_X86_INSTR_MOVW_ST)
          else if i_alu_instr = LIBXSMM_X86_INSTR_MOVB then (if i_is_store = 0 then LIBXSMM_X86_INSTR_MOVB_LD else LIBXSMM_X86_INSTR_MOVB_ST)
          else i_alu_instr)
       in libxsmm_x86_instruction_rex_compute_1reg_mem io_generated_code l_alu_instr i_gp_reg_base i_gp_reg_idx i_scale
            i_displacement i_gp_reg_number)
    else io_generated_code)"

text \<open>The bytes of a constant that are written behind an instruction, the lowest one first.\<close>

fun imm_bytes :: "nat \<Rightarrow> 'a::len word \<Rightarrow> u8 list" where
  "imm_bytes 0 l_immediate = []"
| "imm_bytes (Suc n) l_immediate = ucast l_immediate # imm_bytes n (drop_bit 8 l_immediate)"

definition imm_size :: "u32 \<Rightarrow> nat" where
  "imm_size l_alu_instr = 2 ^ unat (drop_bit 8 l_alu_instr AND 0x3)"

text \<open>The \<open>switch\<close> of \<open>alu_imm\<close> on the names without a width.\<close>

definition alu_imm_instr :: "u32 \<Rightarrow> u32" where
  "alu_imm_instr i_alu_instr =
   (if i_alu_instr = LIBXSMM_X86_INSTR_ADDQ then LIBXSMM_X86_INSTR_ADDQ_RM_IMM32
    else if i_alu_instr = LIBXSMM_X86_INSTR_ANDQ then LIBXSMM_X86_INSTR_ANDQ_RM_IMM32
    else if i_alu_instr = LIBXSMM_X86_INSTR_CMPQ then LIBXSMM_X86_INSTR_CMPQ_RM_IMM32
    else if i_alu_instr = LIBXSMM_X86_INSTR_IMUL then LIBXSMM_X86_INSTR_IMULQ_IMM32
    else if i_alu_instr = LIBXSMM_X86_INSTR_MOVQ then LIBXSMM_X86_INSTR_MOVQ_RM_IMM32
    else if i_alu_instr = LIBXSMM_X86_INSTR_SARQ then LIBXSMM_X86_INSTR_SARQ_RM_IMM8
    else if i_alu_instr = LIBXSMM_X86_INSTR_SHLQ then LIBXSMM_X86_INSTR_SHLQ_RM_IMM8
    else if i_alu_instr = LIBXSMM_X86_INSTR_SHRQ then LIBXSMM_X86_INSTR_SHRQ_RM_IMM8
    else if i_alu_instr = LIBXSMM_X86_INSTR_SUBQ then LIBXSMM_X86_INSTR_SUBQ_RM_IMM32
    else i_alu_instr)"

definition libxsmm_x86_instruction_alu_imm :: "(gencode \<Rightarrow> gencode) \<Rightarrow> gencode \<Rightarrow> u32 \<Rightarrow> u32 \<Rightarrow> u64 \<Rightarrow> gencode" where
  "libxsmm_x86_instruction_alu_imm asm io_generated_code i_alu_instr i_gp_reg_number i_immediate =
   (if i_alu_instr \<notin> set alu_imm_instrs then LIBXSMM_EXIT_ERROR io_generated_code
    else if code_type io_generated_code > 1 then
      (let l_alu_instr = alu_imm_instr i_alu_instr;
           l_reg_number_dst = (if has_op_ext l_alu_instr then op_ext l_alu_instr else 0);
           l_reg_number_dst =
         (if l_alu_instr = LIBXSMM_X86_INSTR_IMULW_IMM16 \<or> l_alu_instr = LIBXSMM_X86_INSTR_IMULD_IMM32 \<or>
             l_alu_instr = LIBXSMM_X86_INSTR_IMULQ_IMM32
          then i_gp_reg_number else l_reg_number_dst);
           g = libxsmm_x86_instruction_rex_compute_2reg io_generated_code l_alu_instr i_gp_reg_number l_reg_number_dst
       in if l_alu_instr AND 0x00080000 = 0x00080000
          then put_bytes g (imm_bytes (imm_size l_alu_instr) (ucast i_immediate :: u32))
          else LIBXSMM_EXIT_ERROR g)
    else asm io_generated_code)"

definition libxsmm_x86_instruction_alu_imm_i64 :: "(gencode \<Rightarrow> gencode) \<Rightarrow> gencode \<Rightarrow> u32 \<Rightarrow> u32 \<Rightarrow> u64 \<Rightarrow> gencode" where
  "libxsmm_x86_instruction_alu_imm_i64 asm io_generated_code i_alu_instr i_gp_reg_number i_immediate =
   (if i_alu_instr \<notin> set alu_imm_i64_instrs then LIBXSMM_EXIT_ERROR io_generated_code
    else if code_type io_generated_code > 1 then
      (let l_alu_instr = (if i_alu_instr = LIBXSMM_X86_INSTR_MOVQ then LIBXSMM_X86_INSTR_MOVQ_R_IMM64 else i_alu_instr);
           g = libxsmm_x86_instruction_rex_compute_2reg io_generated_code l_alu_instr 0 i_gp_reg_number
       in if l_alu_instr AND 0x00080000 = 0x00080000
          then put_bytes g (imm_bytes (imm_size l_alu_instr) i_immediate)
          else LIBXSMM_EXIT_ERROR g)
    else asm io_generated_code)"

text \<open>The \<open>switch\<close> of \<open>alu_reg\<close> on the names without a width.\<close>

definition alu_reg_instr :: "u32 \<Rightarrow> u32" where
  "alu_reg_instr i_alu_instr =
   (if i_alu_instr = LIBXSMM_X86_INSTR_ADDQ then LIBXSMM_X86_INSTR_ADDQ_R_RM
    else if i_alu_instr = LIBXSMM_X86_INSTR_SUBQ then LIBXSMM_X86_INSTR_SUBQ_R_RM
    else if i_alu_instr = LIBXSMM_X86_INSTR_MOVQ then LIBXSMM_X86_INSTR_MOVQ_LD
    else if i_alu_instr = LIBXSMM_X86_INSTR_CMPQ then LIBXSMM_X86_INSTR_CMPQ_R_RM
    else if i_alu_instr = LIBXSMM_X86_INSTR_ANDQ then LIBXSMM_X86_INSTR_ANDQ_R_RM
    else if i_alu_instr = LIBXSMM_X86_INSTR_POPCNT then LIBXSMM_X86_INSTR_POPCNTQ
    else if i_alu_instr = LIBXSMM_X86_INSTR_TZCNT then LIBXSMM_X86_INSTR_TZCNTQ
    else i_alu_instr)"

definition libxsmm_x86_instruction_alu_reg :: "(gencode \<Rightarrow> gencode) \<Rightarrow> gencode \<Rightarrow> u32 \<Rightarrow> u32 \<Rightarrow> u32 \<Rightarrow> gencode" where
  "libxsmm_x86_instruction_alu_reg asm io_generated_code i_alu_instr i_gp_reg_number_src i_gp_reg_number_dest =
   (if i_alu_instr \<notin> set alu_reg_instrs then LIBXSMM_EXIT_ERROR io_generated_code
    else if code_type io_generated_code > 1 then
      (if operand_count i_alu_instr = 1 \<and> i_gp_reg_number_src \<noteq> LIBXSMM_X86_GP_REG_UNDEF
       then LIBXSMM_EXIT_ERROR io_generated_code
       else
         (let l_src = (if operand_count i_alu_instr = 1 then 0 else i_gp_reg_number_src);
              (l_src, l_dest) = (if flips_operands i_alu_instr then (i_gp_reg_number_dest, l_src) else (l_src, i_gp_reg_number_dest));
              l_dest = (if has_op_ext i_alu_instr then op_ext i_alu_instr else l_dest)
          in libxsmm_x86_instruction_rex_compute_2reg io_generated_code (alu_reg_instr i_alu_instr) l_src l_dest))
    else asm io_generated_code)"

definition libxsmm_x86_instruction_push_reg :: "(gencode \<Rightarrow> gencode) \<Rightarrow> gencode \<Rightarrow> u32 \<Rightarrow> gencode" where
  "libxsmm_x86_instruction_push_reg asm io_generated_code i_gp_reg_number =
   (if code_type io_generated_code > 1
    then libxsmm_x86_instruction_alu_reg asm io_generated_code LIBXSMM_X86_INSTR_PUSHQ LIBXSMM_X86_GP_REG_UNDEF i_gp_reg_number
    else asm io_generated_code)"

definition libxsmm_x86_instruction_pop_reg :: "(gencode \<Rightarrow> gencode) \<Rightarrow> gencode \<Rightarrow> u32 \<Rightarrow> gencode" where
  "libxsmm_x86_instruction_pop_reg asm io_generated_code i_gp_reg_number =
   (if code_type io_generated_code > 1
    then libxsmm_x86_instruction_alu_reg asm io_generated_code LIBXSMM_X86_INSTR_POPQ LIBXSMM_X86_GP_REG_UNDEF i_gp_reg_number
    else asm io_generated_code)"

section \<open>Mask registers\<close>

definition libxsmm_x86_instruction_mask_move :: "(gencode \<Rightarrow> gencode) \<Rightarrow> gencode \<Rightarrow> u32 \<Rightarrow> u32 \<Rightarrow> u32 \<Rightarrow> gencode" where
  "libxsmm_x86_instruction_mask_move asm io_generated_code i_mask_instr i_gp_reg_number i_mask_reg_number =
   (if i_mask_instr \<notin> set mask_move_instrs then LIBXSMM_EXIT_ERROR io_generated_code
    else if code_type io_generated_code > 1 then
      (let (l_src, l_dst) = (if flips_operands i_mask_instr then (i_mask_reg_number, i_gp_reg_number)
                             else (i_gp_reg_number, i_mask_reg_number))
       in libxsmm_x86_instruction_vex_compute_3reg io_generated_code i_mask_instr LIBXSMM_X86_SIMD_NAME_XMM l_src 0 l_dst)
    else asm io_generated_code)"

definition libxsmm_x86_instruction_mask_move_mem ::
    "(gencode \<Rightarrow> gencode) \<Rightarrow> gencode \<Rightarrow> u32 \<Rightarrow> u32 \<Rightarrow> u32 \<Rightarrow> u32 \<Rightarrow> int \<Rightarrow> u32 \<Rightarrow> gencode" where
  "libxsmm_x86_instruction_mask_move_mem asm io_generated_code i_mask_instr i_gp_reg_base i_gp_reg_idx i_scale i_displacement
      i_mask_reg_number =
   (if i_mask_instr \<notin> set mask_move_mem_instrs then LIBXSMM_EXIT_ERROR io_generated_code
    else if code_type io_generated_code > 1
    then libxsmm_x86_instruction_vex_compute_2reg_mem io_generated_code i_mask_instr i_gp_reg_base i_gp_reg_idx i_scale
           i_displacement LIBXSMM_X86_SIMD_NAME_XMM 0 i_mask_reg_number
    else asm io_generated_code)"

definition libxsmm_x86_instruction_mask_compute_reg ::
    "(gencode \<Rightarrow> gencode) \<Rightarrow> gencode \<Rightarrow> u32 \<Rightarrow> u32 \<Rightarrow> u32 \<Rightarrow> u32 \<Rightarrow> u32 \<Rightarrow> gencode" where
  "libxsmm_x86_instruction_mask_compute_reg asm io_generated_code i_mask_instr i_mask_reg_number_src_0 i_mask_reg_number_src_1
      i_mask_reg_number_dest i_imm8 =
   (if i_mask_instr \<notin> set mask_compute_instrs then LIBXSMM_EXIT_ERROR io_generated_code
    else if code_type io_generated_code > 1 then
      (if operand_count i_mask_instr = 2 \<and> i_mask_reg_number_src_1 \<noteq> LIBXSMM_X86_VEC_REG_UNDEF
       then LIBXSMM_EXIT_ERROR io_generated_code
       else if operand_count i_mask_instr \<noteq> 2 \<and> i_mask_reg_number_src_1 = LIBXSMM_X86_VEC_REG_UNDEF
       then LIBXSMM_EXIT_ERROR io_generated_code
       else
         (let l_vname = (if i_mask_instr AND 0x300 = 0x300 then LIBXSMM_X86_SIMD_NAME_YMM else LIBXSMM_X86_SIMD_NAME_XMM);
              l_src1 = (if operand_count i_mask_instr = 2 then 0 else i_mask_reg_number_src_1)
          in add_imm8 i_mask_instr i_imm8
               (libxsmm_x86_instruction_vex_compute_3reg io_generated_code i_mask_instr l_vname i_mask_reg_number_src_0 l_src1
                  i_mask_reg_number_dest)))
    else asm io_generated_code)"

section \<open>Tiles\<close>

definition amx_target :: "gencode \<Rightarrow> bool" where
  "amx_target g \<longleftrightarrow> code_type g > 1 \<and> arch g \<ge> LIBXSMM_X86_AVX512_SPR \<and> arch g < LIBXSMM_X86_ALLFEAT"

definition libxsmm_x86_instruction_tile_move ::
    "(gencode \<Rightarrow> gencode) \<Rightarrow> gencode \<Rightarrow> u32 \<Rightarrow> u32 \<Rightarrow> u32 \<Rightarrow> u32 \<Rightarrow> u32 \<Rightarrow> int \<Rightarrow> u32 \<Rightarrow> gencode" where
  "libxsmm_x86_instruction_tile_move asm io_generated_code i_instruction_set i_tmove_instr i_gp_reg_base i_gp_reg_idx i_scale
      i_displacement i_tile_reg_number =
   (if i_tmove_instr \<notin> set tile_move_instrs then LIBXSMM_EXIT_ERROR io_generated_code
    else if amx_target io_generated_code then
      (if no_space20 io_generated_code then libxsmm_handle_error io_generated_code LIBXSMM_ERR_BUFFER_TOO_SMALL
       else if i_tmove_instr = LIBXSMM_X86_INSTR_TILEZERO
       then libxsmm_x86_instruction_vex_compute_3reg io_generated_code i_tmove_instr LIBXSMM_X86_SIMD_NAME_XMM 0 0 i_tile_reg_number
       else if i_gp_reg_idx \<noteq> LIBXSMM_X86_GP_REG_UNDEF
       then libxsmm_x86_instruction_vex_compute_2reg_mem io_generated_code i_tmove_instr i_gp_reg_base i_gp_reg_idx i_scale
              i_displacement LIBXSMM_X86_SIMD_NAME_XMM 0 i_tile_reg_number
       else LIBXSMM_EXIT_ERROR io_generated_code)
    else if code_type io_generated_code < 2 then asm io_generated_code
    else LIBXSMM_EXIT_ERROR io_generated_code)"

definition libxsmm_x86_instruction_tile_compute ::
    "(gencode \<Rightarrow> gencode) \<Rightarrow> gencode \<Rightarrow> u32 \<Rightarrow> u32 \<Rightarrow> u32 \<Rightarrow> u32 \<Rightarrow> u32 \<Rightarrow> gencode" where
  "libxsmm_x86_instruction_tile_compute asm io_generated_code i_instruction_set i_tcompute_instr i_tile_src_reg_number_0
      i_tile_src_reg_number_1 i_tile_dst_reg_number =
   (if i_tcompute_instr \<notin> set tile_compute_instrs then LIBXSMM_EXIT_ERROR io_generated_code
    else if amx_target io_generated_code then
      (if no_space20 io_generated_code then libxsmm_handle_error io_generated_code LIBXSMM_ERR_BUFFER_TOO_SMALL
       else libxsmm_x86_instruction_vex_compute_3reg io_generated_code i_tcompute_instr LIBXSMM_X86_SIMD_NAME_XMM
              i_tile_src_reg_number_1 i_tile_src_reg_number_0 i_tile_dst_reg_number)
    else if code_type io_generated_code < 2 then asm io_generated_code
    else LIBXSMM_EXIT_ERROR io_generated_code)"

end
