(* ===== verification/X86_Safe.thy ===== *)
theory X86_Safe
  imports X86_Scalar
begin

text \<open>
  The contract of the instructions: a call that leaves no error appended bytes inside of the buffer and changed nothing
  else, and an error once recorded stays. The encoder functions test for 20 bytes and write at most 12 of them; a constant
  of at most 8 bytes behind an instruction therefore still fits, but only if the encoder did not fail.
\<close>

named_theorems appends_rules \<open>the shapes an instruction may end in\<close>

definition appends :: "gencode \<Rightarrow> gencode \<Rightarrow> bool" where
  "appends g g' \<longleftrightarrow> code_type g' = code_type g \<and>
    (last_error g' = 0 \<longrightarrow> last_error g = 0 \<and> (room 0 g \<longrightarrow> (\<exists>bs. g' = put_bytes g bs \<and> room (length bs) g)))"

definition encodes :: "gencode \<Rightarrow> gencode \<Rightarrow> bool" where
  "encodes g g' \<longleftrightarrow> (\<exists>e. e \<noteq> 0 \<and> g' = g\<lparr>last_error := e\<rparr>) \<or> (\<not> no_space20 g \<and> (\<exists>bs. length bs \<le> 12 \<and> g' = put_bytes g bs))"

lemma room_put_bytes: "room (length bs + n) g \<longleftrightarrow> room n (put_bytes g bs)" if "room (length bs) g"
  using that room_no_wrap [OF that] by (auto simp: room_def unat_put_bytes put_bytes_keeps)

lemma appends_refl [intro]: "appends g g"
  by (auto simp: appends_def intro!: exI [of _ "[]"])

lemma appends_trans:
  assumes "appends g h" and "appends h k"
  shows "appends g k"
  unfolding appends_def
proof (intro conjI impI)
  show "code_type k = code_type g" using assms by (simp add: appends_def)
  assume e: "last_error k = 0"
  then have eh: "last_error h = 0" using assms(2) by (simp add: appends_def)
  then show "last_error g = 0" using assms(1) by (simp add: appends_def)
  assume r: "room 0 g"
  obtain bs where b: "h = put_bytes g bs" "room (length bs) g" using assms(1) eh r by (auto simp: appends_def)
  have "room 0 h" using room_put_bytes [OF b(2), of 0] b by simp
  then obtain cs where c: "k = put_bytes h cs" "room (length cs) h" using assms(2) e by (auto simp: appends_def)
  then have "k = put_bytes g (bs @ cs)" "room (length (bs @ cs)) g"
    using b room_put_bytes [OF b(2), of "length cs"] by auto
  then show "\<exists>bs. k = put_bytes g bs \<and> room (length bs) g" by blast
qed

lemma room_20: "room 0 g \<Longrightarrow> \<not> no_space20 g \<Longrightarrow> n \<le> 20 \<Longrightarrow> room n g"
  by (simp add: room_def no_space20_def word_less_nat_alt unat_sub word_le_nat_alt not_less)

lemma encodes_imm:
  assumes "encodes g h" and "length bs \<le> 8"
  shows "appends g (put_bytes h bs)"
  using assms(1) unfolding encodes_def
proof (elim disjE exE conjE)
  fix e
  assume "e \<noteq> 0" "h = g\<lparr>last_error := e\<rparr>"
  then show ?thesis by (simp add: appends_def put_bytes_keeps)
next
  fix cs
  assume n: "\<not> no_space20 g" and c: "length cs \<le> 12" and h: "h = put_bytes g cs"
  have "put_bytes h bs = put_bytes g (cs @ bs)" by (simp add: h)
  moreover have "room 0 g \<Longrightarrow> room (length (cs @ bs)) g" using room_20 [OF _ n] c assms(2) by simp
  ultimately show ?thesis unfolding appends_def by (metis put_bytes_keeps(2,4))
qed

lemma appends_error: "appends g (LIBXSMM_EXIT_ERROR g)" "e \<noteq> 0 \<Longrightarrow> appends g (libxsmm_handle_error g e)"
  by (simp_all add: appends_def LIBXSMM_EXIT_ERROR_def libxsmm_handle_error_def)

lemma encodes_error: "e \<noteq> 0 \<Longrightarrow> encodes g (libxsmm_handle_error g e)"
  by (auto simp: encodes_def libxsmm_handle_error_def)

lemma appends_encodes: "encodes g h \<Longrightarrow> appends g h"
  using encodes_imm [of g h "[]"] by simp

lemma appends_imm8: "encodes g h \<Longrightarrow> appends g (add_imm8 i imm h)"
  using encodes_imm [of g h "[ucast imm]"] appends_trans [OF appends_encodes appends_error(1), of g h]
  by (simp add: add_imm8_def appends_encodes)

lemma appends_if: "(P \<Longrightarrow> appends g a) \<Longrightarrow> (\<not> P \<Longrightarrow> appends g b) \<Longrightarrow> appends g (if P then a else b)"
  by simp

lemma appends_let: "(\<And>x. appends g (f x)) \<Longrightarrow> appends g (Let t f)"
  by simp

lemma appends_pair: "(\<And>x y. appends g (f x y)) \<Longrightarrow> appends g (case p of (x, y) \<Rightarrow> f x y)"
  by (cases p) simp

lemma encodes_if: "(P \<Longrightarrow> encodes g a) \<Longrightarrow> (\<not> P \<Longrightarrow> encodes g b) \<Longrightarrow> encodes g (if P then a else b)"
  by simp

section \<open>The encoders\<close>

lemma encodes_put: "\<not> no_space20 g \<Longrightarrow> length bs \<le> 12 \<Longrightarrow> encodes g (put_bytes g bs)"
  by (auto simp: encodes_def)

lemma encodes_rex_mem: "encodes g (libxsmm_x86_instruction_rex_compute_1reg_mem g i base idx scale d reg)"
proof -
  obtain hs gi sc where s: "sib_operands base idx scale = (hs, gi, sc)" by (metis prod_cases3)
  obtain md disp where dd: "displacement base d = (md, disp)" by (metis surj_pair)
  show ?thesis
    unfolding libxsmm_x86_instruction_rex_compute_1reg_mem_def Let_def s dd prod.case
    using length_legacy_prefixes [of i] length_opext [of i] length_mem_bytes [of hs gi sc base reg md] length_displacement [OF dd]
    by (intro encodes_if encodes_error encodes_put) simp_all
qed

lemma encodes_rex_regs: "encodes g (libxsmm_x86_instruction_rex_compute_2reg g i rm reg)"
  unfolding libxsmm_x86_instruction_rex_compute_2reg_def Let_def
  using length_legacy_prefixes [of i] length_opext [of i]
  by (intro encodes_if encodes_error encodes_put) simp_all

lemma encodes_vex_mem: "encodes g (libxsmm_x86_instruction_vex_compute_2reg_mem g i base idx scale d v src dst)"
proof -
  obtain hs gi sc where s: "sib_operands base idx scale = (hs, gi, sc)" by (metis prod_cases3)
  obtain md disp where dd: "displacement base d = (md, disp)" by (metis surj_pair)
  show ?thesis
    unfolding libxsmm_x86_instruction_vex_compute_2reg_mem_def Let_def s dd prod.case
    using length_mem_bytes [of hs gi sc base dst md] length_displacement [OF dd]
    by (intro encodes_if encodes_error encodes_put) simp_all
qed

lemma encodes_vex_regs: "encodes g (libxsmm_x86_instruction_vex_compute_3reg g i v r0 r1 dst)"
  unfolding libxsmm_x86_instruction_vex_compute_3reg_def
  by (auto simp: Let_def encodes_error intro!: encodes_put simp del: put_bytes_simps)

lemma encodes_evex_mem:
  "encodes g (libxsmm_x86_instruction_evex_compute_2reg_mem g i bcast base idx scale d v src dst k z)"
proof -
  let ?n = "uint (disp8div i bcast v)"
  obtain hs gi sc where s: "evex_sib_operands i base idx scale = (hs, gi, sc)" by (metis prod_cases3)
  obtain md disp where dd: "evex_displacement base d ?n = (md, disp)" by (metis surj_pair)
  show ?thesis
    unfolding libxsmm_x86_instruction_evex_compute_2reg_mem_def Let_def s dd prod.case
    using length_mem_bytes [of hs gi sc base dst md] length_evex_displacement [OF dd]
    by (intro encodes_if encodes_error encodes_put) simp_all
qed

lemma encodes_evex_regs: "encodes g (libxsmm_x86_instruction_evex_compute_3reg g i v r0 r1 dst k z sae)"
  unfolding libxsmm_x86_instruction_evex_compute_3reg_def
  by (auto simp: Let_def encodes_error intro!: encodes_put simp del: put_bytes_simps)

lemmas [appends_rules] = encodes_rex_mem encodes_rex_regs encodes_vex_mem encodes_vex_regs encodes_evex_mem encodes_evex_regs
  encodes_if appends_imm8 appends_if appends_let appends_pair appends_error

lemma imm_bytes_length: "length (imm_bytes n w) = n"
  by (induction n arbitrary: w) simp_all

lemma imm_size_le: "imm_size i \<le> 8"
proof -
  have "unat (drop_bit 8 i AND 0x3) \<le> 3"
    using word_and_le1 [of "drop_bit 8 i" 3] by (simp add: word_le_nat_alt)
  then have "(2 :: nat) ^ unat (drop_bit 8 i AND 0x3) \<le> 2 ^ 3" by (rule power_increasing) simp
  then show ?thesis by (simp add: imm_size_def)
qed

lemma appends_imm [appends_rules]: "encodes g h \<Longrightarrow> appends g (put_bytes h (imm_bytes (imm_size i) w))"
  by (rule encodes_imm) (simp_all add: imm_bytes_length imm_size_le)

lemma appends_encode_error [appends_rules]: "encodes g h \<Longrightarrow> appends g (LIBXSMM_EXIT_ERROR h)"
  using appends_trans [OF appends_encodes appends_error(1)] .

lemmas [appends_rules] = appends_encodes

section \<open>The instructions\<close>

lemma code_type_2: "1 < t \<Longrightarrow> \<not> t \<le> 1 \<and> \<not> t < (2 :: u32)"
  by (simp add: word_less_nat_alt word_le_nat_alt)

lemma vec_3reg_appends:
  "1 < code_type g \<Longrightarrow> appends g (libxsmm_x86_instruction_vec_compute_3reg_mask_sae_imm8 asm g i v s0 s1 d k z sae imm)"
  unfolding libxsmm_x86_instruction_vec_compute_3reg_mask_sae_imm8_def
  by (intro appends_rules) (simp_all add: code_type_2)

lemma vec_mem_2reg_appends:
  "1 < code_type g \<Longrightarrow>
   appends g (libxsmm_x86_instruction_vec_compute_mem_2reg_mask_imm8 asm g i v base idx sc d bc s1 dst k z imm)"
  unfolding libxsmm_x86_instruction_vec_compute_mem_2reg_mask_imm8_def
  by (intro appends_rules) (simp_all add: code_type_2)

lemma vec_mask_move_appends:
  "appends g (libxsmm_x86_instruction_vec_mask_move g i base idx sc d v r m st)"
  unfolding libxsmm_x86_instruction_vec_mask_move_def by (intro appends_rules)

lemma vec_move_appends:
  "1 < code_type g \<Longrightarrow> appends g (libxsmm_x86_instruction_vec_move asm g is i base idx sc d v r m z st)"
  unfolding libxsmm_x86_instruction_vec_move_def libxsmm_x86_instruction_vec_compute_mem_1reg_mask_def
  by (intro appends_rules vec_mem_2reg_appends) simp_all

lemma vex_evex_mask_mov_appends:
  "1 < code_type g \<Longrightarrow> appends g (libxsmm_x86_instruction_vex_evex_mask_mov asm g i base idx sc d v r um m st)"
  unfolding libxsmm_x86_instruction_vex_evex_mask_mov_def
  by (intro appends_rules vec_move_appends vec_mask_move_appends) simp_all

lemma prefetch_appends:
  "1 < code_type g \<Longrightarrow> appends g (libxsmm_x86_instruction_prefetch asm g i base idx sc d)"
  unfolding libxsmm_x86_instruction_prefetch_def by (intro appends_rules) simp_all

lemma alu_mem_appends: "appends g (libxsmm_x86_instruction_alu_mem g i base idx sc d r st)"
  unfolding libxsmm_x86_instruction_alu_mem_def by (intro appends_rules appends_refl)

lemma alu_imm_appends: "1 < code_type g \<Longrightarrow> appends g (libxsmm_x86_instruction_alu_imm asm g i r c)"
  unfolding libxsmm_x86_instruction_alu_imm_def Let_def by (intro appends_rules) simp_all

lemma alu_imm_i64_appends: "1 < code_type g \<Longrightarrow> appends g (libxsmm_x86_instruction_alu_imm_i64 asm g i r c)"
  unfolding libxsmm_x86_instruction_alu_imm_i64_def Let_def by (intro appends_rules) simp_all

lemma alu_reg_appends: "1 < code_type g \<Longrightarrow> appends g (libxsmm_x86_instruction_alu_reg asm g i s d)"
  unfolding libxsmm_x86_instruction_alu_reg_def by (intro appends_rules) simp_all

lemma push_pop_appends:
  "1 < code_type g \<Longrightarrow> appends g (libxsmm_x86_instruction_push_reg asm g r)"
  "1 < code_type g \<Longrightarrow> appends g (libxsmm_x86_instruction_pop_reg asm g r)"
  by (simp_all add: libxsmm_x86_instruction_push_reg_def libxsmm_x86_instruction_pop_reg_def alu_reg_appends)

lemma mask_move_appends: "1 < code_type g \<Longrightarrow> appends g (libxsmm_x86_instruction_mask_move asm g i r m)"
  unfolding libxsmm_x86_instruction_mask_move_def by (intro appends_rules) simp_all

lemma mask_move_mem_appends:
  "1 < code_type g \<Longrightarrow> appends g (libxsmm_x86_instruction_mask_move_mem asm g i base idx sc d m)"
  unfolding libxsmm_x86_instruction_mask_move_mem_def by (intro appends_rules) simp_all

lemma mask_compute_appends:
  "1 < code_type g \<Longrightarrow> appends g (libxsmm_x86_instruction_mask_compute_reg asm g i s0 s1 d imm)"
  unfolding libxsmm_x86_instruction_mask_compute_reg_def by (intro appends_rules) simp_all

lemma tile_appends:
  "1 < code_type g \<Longrightarrow> appends g (libxsmm_x86_instruction_tile_move asm g is i base idx sc d r)"
  "1 < code_type g \<Longrightarrow> appends g (libxsmm_x86_instruction_tile_compute asm g is i s0 s1 r)"
  unfolding libxsmm_x86_instruction_tile_move_def libxsmm_x86_instruction_tile_compute_def
  by (intro appends_rules; simp add: code_type_2)+

section \<open>Sequences of calls\<close>

datatype x86_call =
  X_vec_regs u32 char u32 u32 u32 u32 u32 u8 u32
| X_vec_mem u32 char u32 u32 u32 int u32 u32 u32 u32 u32 u32
| X_vec_mask_move u32 u32 u32 u32 int char u32 u32 u32
| X_vec_move u32 u32 u32 u32 u32 int char u32 u32 u32 u32
| X_vex_evex_mask_mov u32 u32 u32 u32 int char u32 u32 u32 u32
| X_prefetch u32 u32 u32 u32 int
| X_alu_mem u32 u32 u32 u32 int u32 u32
| X_alu_imm u32 u32 u64
| X_alu_imm_i64 u32 u32 u64
| X_alu_reg u32 u32 u32
| X_push_reg u32
| X_pop_reg u32
| X_mask_move u32 u32 u32
| X_mask_move_mem u32 u32 u32 u32 int u32
| X_mask_compute u32 u32 u32 u32 u32
| X_tile_move u32 u32 u32 u32 u32 int u32
| X_tile_compute u32 u32 u32 u32 u32

fun run_x86_call :: "(gencode \<Rightarrow> gencode) \<Rightarrow> x86_call \<Rightarrow> gencode \<Rightarrow> gencode" where
  "run_x86_call asm (X_vec_regs i a b c d e f h k) g = libxsmm_x86_instruction_vec_compute_3reg_mask_sae_imm8 asm g i a b c d e f h k"
| "run_x86_call asm (X_vec_mem i a b c d e f h k l m n) g = libxsmm_x86_instruction_vec_compute_mem_2reg_mask_imm8 asm g i a b c d e f h k l m n"
| "run_x86_call asm (X_vec_mask_move i a b c d e f h k) g = libxsmm_x86_instruction_vec_mask_move g i a b c d e f h k"
| "run_x86_call asm (X_vec_move i a b c d e f h k l m) g = libxsmm_x86_instruction_vec_move asm g i a b c d e f h k l m"
| "run_x86_call asm (X_vex_evex_mask_mov i a b c d e f h k l) g = libxsmm_x86_instruction_vex_evex_mask_mov asm g i a b c d e f h k l"
| "run_x86_call asm (X_prefetch i a b c d) g = libxsmm_x86_instruction_prefetch asm g i a b c d"
| "run_x86_call asm (X_alu_mem i a b c d e f) g = libxsmm_x86_instruction_alu_mem g i a b c d e f"
| "run_x86_call asm (X_alu_imm i a b) g = libxsmm_x86_instruction_alu_imm asm g i a b"
| "run_x86_call asm (X_alu_imm_i64 i a b) g = libxsmm_x86_instruction_alu_imm_i64 asm g i a b"
| "run_x86_call asm (X_alu_reg i a b) g = libxsmm_x86_instruction_alu_reg asm g i a b"
| "run_x86_call asm (X_push_reg i) g = libxsmm_x86_instruction_push_reg asm g i"
| "run_x86_call asm (X_pop_reg i) g = libxsmm_x86_instruction_pop_reg asm g i"
| "run_x86_call asm (X_mask_move i a b) g = libxsmm_x86_instruction_mask_move asm g i a b"
| "run_x86_call asm (X_mask_move_mem i a b c d e) g = libxsmm_x86_instruction_mask_move_mem asm g i a b c d e"
| "run_x86_call asm (X_mask_compute i a b c d) g = libxsmm_x86_instruction_mask_compute_reg asm g i a b c d"
| "run_x86_call asm (X_tile_move i a b c d e f) g = libxsmm_x86_instruction_tile_move asm g i a b c d e f"
| "run_x86_call asm (X_tile_compute i a b c d) g = libxsmm_x86_instruction_tile_compute asm g i a b c d"

definition run_x86_calls :: "(gencode \<Rightarrow> gencode) \<Rightarrow> x86_call list \<Rightarrow> gencode \<Rightarrow> gencode" where
  "run_x86_calls asm cs g = fold (run_x86_call asm) cs g"

lemmas instr_appends = vec_3reg_appends vec_mem_2reg_appends vec_mask_move_appends vec_move_appends vex_evex_mask_mov_appends
  prefetch_appends alu_mem_appends alu_imm_appends alu_imm_i64_appends alu_reg_appends push_pop_appends mask_move_appends
  mask_move_mem_appends mask_compute_appends tile_appends

lemma run_x86_call_appends: "1 < code_type g \<Longrightarrow> appends g (run_x86_call asm c g)"
  by (cases c) (simp_all add: instr_appends)

lemma run_x86_calls_appends: "1 < code_type g \<Longrightarrow> appends g (run_x86_calls asm cs g)"
proof (induction cs rule: rev_induct)
  case Nil
  then show ?case by (simp add: run_x86_calls_def appends_refl)
next
  case (snoc c cs)
  then have a: "appends g (run_x86_calls asm cs g)" by simp
  then have "1 < code_type (run_x86_calls asm cs g)" using snoc.prems by (simp add: appends_def)
  then show ?case
    using appends_trans [OF a run_x86_call_appends] by (simp add: run_x86_calls_def)
qed

text \<open>
  C19: Let a generator make any sequence of calls of the modelled instruction functions, with any instruction numbers and
  operands, on a stream whose code lies inside of the buffer. An error, once recorded, is still recorded at the end. If no
  error is recorded at the end, then the code has only grown, still lies inside of the buffer, and no byte outside of the
  code that was added has changed: neither the code generated before nor memory behind the buffer.
\<close>

theorem x86_calls_safe:
  assumes "1 < code_type g" and "code_size g \<le> buffer_size g" and "run_x86_calls asm cs g = g'"
  shows "(last_error g \<noteq> 0 \<longrightarrow> last_error g' \<noteq> 0) \<and>
    (last_error g' = 0 \<longrightarrow> code_size g \<le> code_size g' \<and> code_size g' \<le> buffer_size g \<and> buffer_size g' = buffer_size g \<and>
      (\<forall>k. k < unat (code_size g) \<or> unat (code_size g') \<le> k \<longrightarrow> generated_code g' k = generated_code g k))"
proof -
  have a: "appends g g'" using run_x86_calls_appends [OF assms(1)] assms(3) by blast
  have r: "room 0 g" using assms(2) by (simp add: room_def word_le_nat_alt)
  have "code_size g \<le> code_size g' \<and> code_size g' \<le> buffer_size g \<and> buffer_size g' = buffer_size g \<and>
      (\<forall>k. k < unat (code_size g) \<or> unat (code_size g') \<le> k \<longrightarrow> generated_code g' k = generated_code g k)"
    if e: "last_error g' = 0"
  proof -
    obtain bs where g': "g' = put_bytes g bs" and bs: "room (length bs) g" using a e r by (auto simp: appends_def)
    then show ?thesis
      using unat_put_bytes [OF room_no_wrap [OF bs]] put_bytes_at [OF room_no_wrap [OF bs]] bs
      by (simp add: word_le_nat_alt room_def put_bytes_keeps)
  qed
  then show ?thesis using a by (auto simp: appends_def)
qed

definition x86_example :: "x86_call list" where
  "x86_example = [X_push_reg LIBXSMM_X86_GP_REG_RBX, X_alu_imm LIBXSMM_X86_INSTR_ADDQ LIBXSMM_X86_GP_REG_RSP 16,
     X_mask_move LIBXSMM_X86_INSTR_KMOVQ_GPR_LD LIBXSMM_X86_GP_REG_RAX 1]"

lemma x86_example_ok: "last_error (run_x86_calls id x86_example (fresh_stream LIBXSMM_X86_AVX512_SKX 64)) = 0"
  "code_size (run_x86_calls id x86_example (fresh_stream LIBXSMM_X86_AVX512_SKX 64)) = 13"
  by code_simp+

theorem x86_calls_safe_witness:
  "generated_code (run_x86_calls id x86_example (fresh_stream LIBXSMM_X86_AVX512_SKX 64)) 20 = 0"
  using x86_calls_safe [of "fresh_stream LIBXSMM_X86_AVX512_SKX 64" id x86_example, OF _ _ refl] x86_example_ok
  by (simp add: fresh_stream_def)

end
