(* ===== verification/X86_Decode.thy ===== *)
theory X86_Decode
  imports X86_Encode
begin

text \<open>
  A decoder of x86 instructions, written from the format of the instruction set and not from the encoder: legacy
  instructions with their prefixes and REX, VEX with three bytes and EVEX, each with the map of op-codes, the op-code, and
  operands in registers or in memory. It reads one instruction from the front of a list of bytes.
\<close>

section \<open>The format of instructions\<close>

datatype x86_operand = Register nat | Memory (mem_base: nat) (mem_index: "(nat \<times> nat) option") (mem_disp: int)

datatype x86_insn =
  Legacy (x_prefixes: "u8 list") (x_w: bool) (x_map: nat) (x_opcode: u8) (x_reg: nat) (x_rm: x86_operand)
| Opreg (x_prefixes: "u8 list") (x_w: bool) (x_map: nat) (x_opcode: u8) (x_reg: nat)
| Vex (x_map: nat) (x_pp: nat) (x_w: bool) (x_len: nat) (x_opcode: u8) (x_reg: nat) (x_vvvv: nat) (x_rm: x86_operand)
| Evex (x_map: nat) (x_pp: nat) (x_w: bool) (x_len: nat) (x_opcode: u8) (x_reg: nat) (x_vvvv: nat) (x_rm: x86_operand)
    (x_mask: nat) (x_zero: bool) (x_bcast: bool)

fun decode_disp :: "nat \<Rightarrow> nat \<Rightarrow> u8 list \<Rightarrow> (int \<times> u8 list) option" where
  "decode_disp md n bs =
   (if md = 0 then Some (0, bs)
    else if md = 1 then (case bs of b # bs \<Rightarrow> Some (sint b * int n, bs) | [] \<Rightarrow> None)
    else (case bs of b0 # b1 # b2 # b3 # bs \<Rightarrow> Some (sint (ld32 [b0, b1, b2, b3]), bs) | _ \<Rightarrow> None))"

fun decode_modrm :: "nat \<Rightarrow> nat \<Rightarrow> nat \<Rightarrow> bool \<Rightarrow> nat \<Rightarrow> u8 list \<Rightarrow> (nat \<times> x86_operand \<times> u8 list) option" where
  "decode_modrm er ex eb vsib n [] = None"
| "decode_modrm er ex eb vsib n (m # bs) =
   (let md = unat (drop_bit 6 m); reg = unat (take_bit 3 (drop_bit 3 m)); rm = unat (take_bit 3 m)
    in if md = 3 then Some (reg, Register (er + rm), bs)
       else if rm = 4 then
         (case bs of
            [] \<Rightarrow> None
          | s # bs \<Rightarrow>
              (let scale = 2 ^ unat (drop_bit 6 s); idx = ex + unat (take_bit 3 (drop_bit 3 s)); base = unat (take_bit 3 s)
               in if base = 5 \<and> md = 0 then None
                  else map_option (\<lambda>(d, bs).
                         (reg, Memory (eb + base) (if idx = 4 \<and> \<not> vsib then None else Some (idx, scale)) d, bs))
                       (decode_disp md n bs)))
       else if rm = 5 \<and> md = 0 then None
       else map_option (\<lambda>(d, bs). (reg, Memory (eb + rm) None d, bs)) (decode_disp md n bs))"

declare decode_disp.simps [simp del]

section \<open>Bytes\<close>

lemma u8_eqI:
  fixes a b :: u8
  assumes "bit a 0 = bit b 0" "bit a 1 = bit b 1" "bit a 2 = bit b 2" "bit a 3 = bit b 3"
    "bit a 4 = bit b 4" "bit a 5 = bit b 5" "bit a 6 = bit b 6" "bit a 7 = bit b 7"
  shows "a = b"
proof (rule word_eq_bitI)
  fix i
  assume "i < LENGTH(8)"
  then have "i \<in> {0, 1, 2, 3, 4, 5, 6, 7 :: nat}" by (simp; arith)
  then show "bit a i = bit b i" using assms by auto
qed

lemma modrm_fields:
  assumes "md = 0 \<or> md = 0x40 \<or> md = (0x80 :: u8)"
  shows "drop_bit 6 (modrm_reg r OR x AND 0x07 OR md) = drop_bit 6 md"
    "take_bit 3 (drop_bit 3 (modrm_reg r OR x AND 0x07 OR md)) = (ucast (take_bit 3 r) :: u8)"
    "take_bit 3 (modrm_reg r OR x AND 0x07 OR md) = take_bit 3 x"
  by (rule u8_eqI; use assms in \<open>auto simp: modrm_reg_def bit_simps\<close>)+

lemma sib_fields:
  assumes "sc = 0 \<or> sc = 0x40 \<or> sc = 0x80 \<or> sc = (0xc0 :: u8)"
  shows "drop_bit 6 (sc OR modrm_reg r OR x AND 0x07) = drop_bit 6 sc"
    "take_bit 3 (drop_bit 3 (sc OR modrm_reg r OR x AND 0x07)) = (ucast (take_bit 3 r) :: u8)"
    "take_bit 3 (sc OR modrm_reg r OR x AND 0x07) = take_bit 3 x"
  by (rule u8_eqI; use assms in \<open>auto simp: modrm_reg_def bit_simps\<close>)+

section \<open>Register numbers\<close>

lemma less_16: "r < 16 \<Longrightarrow> r \<in> {0, 1, 2, 3, 4, 5, 6, 7, 8, 9, 10, 11, 12, 13, 14, 15 :: u32}"
  using less16_cases [of "unat r"] by (auto simp: word_less_nat_alt word_unat_eq_iff)

lemma less_32: "r < 32 \<Longrightarrow> r \<in> {0, 1, 2, 3, 4, 5, 6, 7, 8, 9, 10, 11, 12, 13, 14, 15, 16, 17, 18, 19, 20, 21, 22, 23, 24, 25, 26, 27, 28, 29, 30, 31 :: u32}"
  using less32_cases [of "unat r"] by (auto simp: word_less_nat_alt word_unat_eq_iff)

definition ext3 :: "bool \<Rightarrow> nat" where "ext3 b = (if b then 8 else 0)"
definition ext4 :: "bool \<Rightarrow> nat" where "ext4 b = (if b then 16 else 0)"

lemma low3_ext: "r < 16 \<Longrightarrow> ext3 (7 < r) + unat (take_bit 3 r) = unat (r :: u32)"
  by (drule less_16) (auto simp: ext3_def)

lemma low3_ext_not: "r < 16 \<Longrightarrow> ext3 (\<not> r < 8) + unat (take_bit 3 r) = unat (r :: u32)"
  by (drule less_16) (auto simp: ext3_def)

lemma low3_ext4: "r < 32 \<Longrightarrow> ext4 (bit r 4) + (ext3 (bit r 3) + unat (take_bit 3 r)) = unat (r :: u32)"
  by (drule less_32) (auto simp: ext3_def ext4_def)

lemma ucast_low3: "unat (take_bit 3 (ucast r :: u8)) = unat (take_bit 3 (r :: u32))"
  by (simp add: unat_take_bit unat_ucast_mod mod_mod_cancel)

lemma ucast_low3': "unat (ucast (take_bit 3 r) :: u8) = unat (take_bit 3 (r :: u32))"
  by (simp add: unat_take_bit unat_ucast_mod mod_mod_cancel)

section \<open>Displacements\<close>

lemma sint_word_of_int: "- (2 ^ (LENGTH('a) - 1)) \<le> d \<Longrightarrow> d < 2 ^ (LENGTH('a) - 1) \<Longrightarrow> sint (word_of_int d :: 'a::len word) = d"
  by (simp add: signed_of_int signed_take_bit_int_eq_self)

lemma ld32_disp32: "ld32 (disp32 d) = word_of_int d"
proof (rule word_eq_bitI)
  fix i
  assume "i < LENGTH(32)"
  then consider "i < 8" | "8 \<le> i" "i - 8 < 8" | "16 \<le> i" "i - 16 < 8" | "24 \<le> i" "i - 24 < 8" "i < 32"
    by (simp; linarith)
  then show "bit (ld32 (disp32 d)) i = bit (word_of_int d :: u32) i"
    by cases (auto simp: ld32_def disp32_def bit_simps)
qed

definition int32 :: "int \<Rightarrow> bool" where
  "int32 d \<longleftrightarrow> - (2 ^ 31) \<le> d \<and> d < 2 ^ 31"

lemma decode_disp32:
  assumes "int32 d"
  shows "decode_disp 2 n (disp32 d @ rest) = Some (d, rest)"
  using assms ld32_disp32 [of d] sint_word_of_int [where 'a = 32, of d]
  by (simp add: decode_disp.simps disp32_def int32_def)

lemma decode_disp8:
  assumes "-128 \<le> d" and "d \<le> 127"
  shows "decode_disp 1 n (word_of_int d # rest) = Some (d * int n, rest)"
  using assms sint_word_of_int [where 'a = 8, of d] by (simp add: decode_disp.simps)

definition disp_ok :: "u32 \<Rightarrow> nat \<Rightarrow> int \<Rightarrow> u8 \<times> u8 list \<Rightarrow> bool" where
  "disp_ok base n d p \<longleftrightarrow>
    (fst p = 0 \<or> fst p = 0x40 \<or> fst p = 0x80) \<and> (fst p = 0 \<longrightarrow> base \<noteq> 5 \<and> base \<noteq> 13) \<and>
    (\<forall>rest. decode_disp (unat (drop_bit 6 (fst p))) n (snd p @ rest) = Some (d, rest))"

lemma displacement_ok: "int32 d \<Longrightarrow> disp_ok base 1 d (displacement base d)"
  using decode_disp32 [of d] decode_disp8 [of d]
  by (auto simp: disp_ok_def displacement_def forced_zdisp8_def decode_disp.simps [of 0])

lemma smod_0_iff: "d smod n = 0 \<longleftrightarrow> n dvd (d::int)"
  by (auto simp: signed_modulo_int_def sgn_0_0 simp flip: dvd_eq_mod_eq_0)

lemma sdiv_exact: "n dvd d \<Longrightarrow> 0 < n \<Longrightarrow> (d::int) sdiv n * n = d"
  by (auto simp: signed_divide_int_def sgn_mult abs_mult sgn_if elim!: dvdE) 

lemma evex_displacement_ok:
  assumes "int32 d" and "0 < n"
  shows "disp_ok base n d (evex_displacement base d (int n))"
proof (cases "(d \<noteq> 0 \<or> forced_zdisp8 base d) \<and> int n dvd d \<and> d sdiv int n \<le> 127 \<and> -128 \<le> d sdiv int n")
  case True
  then show ?thesis
    using decode_disp8 [of "d sdiv int n" n] sdiv_exact [of "int n" d] assms(2)
    by (simp add: disp_ok_def evex_displacement_def smod_0_iff)
next
  case False
  then show ?thesis
    using decode_disp32 [OF assms(1)]
    by (auto simp: disp_ok_def evex_displacement_def smod_0_iff forced_zdisp8_def decode_disp.simps [of 0] Let_def)
qed

section \<open>Memory operands\<close>

lemma tbl_scale_cases: "unat sc \<le> 8 \<Longrightarrow> tbl_scale ! unat sc \<in> {0, 0x40, 0x80, 0xc0}"
proof -
  assume "unat sc \<le> 8"
  then have "unat sc \<in> {0, 1, 2, 3, 4, 5, 6, 7, 8 :: nat}" by (simp; arith)
  then show ?thesis by (auto simp: tbl_scale_def)
qed

lemma decode_mem_bytes:
  assumes D: "disp_ok base n d (md, disp)" and base: "base < 16"
    and hs: "if hs then unat sc \<le> 8 else base \<noteq> 4 \<and> base \<noteq> 12"
  shows "decode_modrm er ex eb vsib n (mem_bytes hs gi sc base reg md @ disp @ rest) =
    Some (unat (take_bit 3 reg), Memory (eb + unat (take_bit 3 base))
      (if hs then (let i = ex + unat (take_bit 3 gi)
                   in if i = 4 \<and> \<not> vsib then None else Some (i, 2 ^ unat (drop_bit 6 (tbl_scale ! unat sc))))
       else None) d, rest)"
proof -
  have md: "md = 0 \<or> md = 0x40 \<or> md = 0x80" and m0: "md = 0 \<Longrightarrow> base \<noteq> 5 \<and> base \<noteq> 13"
    and dd: "decode_disp (unat (drop_bit 6 md)) n (disp @ rest) = Some (d, rest)"
    using D by (simp_all add: disp_ok_def)
  have md3: "unat (drop_bit 6 md) \<noteq> 3" using md by auto
  have z: "unat (drop_bit 6 md) = 0 \<longleftrightarrow> md = 0" using md by auto
  have b5: "\<not> (unat (take_bit 3 base) = 5 \<and> md = 0)" using m0 less_16 [OF base] by auto
  show ?thesis
  proof (cases hs)
    case True
    have sc: "tbl_scale ! unat sc = 0 \<or> tbl_scale ! unat sc = 0x40 \<or> tbl_scale ! unat sc = 0x80 \<or> tbl_scale ! unat sc = 0xc0"
      using tbl_scale_cases [of sc] hs True by auto
    obtain m s where b: "mem_bytes hs gi sc base reg md = [m, s]"
      and m: "unat (drop_bit 6 m) = unat (drop_bit 6 md)" "unat (take_bit 3 (drop_bit 3 m)) = unat (take_bit 3 reg)"
        "unat (take_bit 3 m) = 4"
      and s: "unat (drop_bit 6 s) = unat (drop_bit 6 (tbl_scale ! unat sc))"
        "unat (take_bit 3 (drop_bit 3 s)) = unat (take_bit 3 gi)" "unat (take_bit 3 s) = unat (take_bit 3 base)"
    proof
      show "mem_bytes hs gi sc base reg md = [modrm_reg reg OR 4 AND 7 OR md, tbl_scale ! unat sc OR modrm_reg gi OR ucast base AND 7]"
        using True by (simp add: mem_bytes_def)
    qed (simp_all only: modrm_fields [OF md] sib_fields [OF sc] ucast_low3 ucast_low3', simp)
    show ?thesis
      unfolding b by (simp add: m s Let_def dd md3 z b5 True)
  next
    case False
    obtain m where b: "mem_bytes hs gi sc base reg md = [m]"
      and m: "unat (drop_bit 6 m) = unat (drop_bit 6 md)" "unat (take_bit 3 (drop_bit 3 m)) = unat (take_bit 3 reg)"
        "unat (take_bit 3 m) = unat (take_bit 3 base)"
    proof
      show "mem_bytes hs gi sc base reg md = [modrm_reg reg OR ucast base AND 7 OR md]"
        using False by (simp add: mem_bytes_def)
    qed (simp_all only: modrm_fields [OF md] ucast_low3 ucast_low3')
    have b4: "unat (take_bit 3 base) \<noteq> 4" using hs False less_16 [OF base] by auto
    show ?thesis
      unfolding b by (simp add: m Let_def dd md3 z b5 b4 False)
  qed
qed

text \<open>The operands that the encoders take: an index register or none, a scale, and a 32-bit displacement.\<close>

definition mem_operand_ok :: "bool \<Rightarrow> u32 \<Rightarrow> u32 \<Rightarrow> u32 \<Rightarrow> int \<Rightarrow> bool" where
  "mem_operand_ok vsib base idx scale d \<longleftrightarrow>
    base < 16 \<and> int32 d \<and>
    (idx = LIBXSMM_X86_GP_REG_UNDEF \<and> \<not> vsib \<or>
     idx < 16 \<and> (idx \<noteq> LIBXSMM_X86_GP_REG_RSP \<or> vsib) \<and> (scale = 1 \<or> scale = 2 \<or> scale = 4 \<or> scale = 8))"

definition mem_operand :: "u32 \<Rightarrow> u32 \<Rightarrow> u32 \<Rightarrow> int \<Rightarrow> x86_operand" where
  "mem_operand base idx scale d =
    Memory (unat base) (if idx = LIBXSMM_X86_GP_REG_UNDEF then None else Some (unat idx, unat scale)) d"

lemma scale_bits: "scale = 1 \<or> scale = 2 \<or> scale = 4 \<or> scale = (8 :: u32) \<Longrightarrow>
    unat scale \<le> 8 \<and> 2 ^ unat (drop_bit 6 (tbl_scale ! unat scale)) = unat scale"
  by (auto simp: tbl_scale_def)

lemma ext3_index: "idx < 16 \<Longrightarrow> ext3 (bit idx 3) + unat (take_bit 3 idx) = unat (idx :: u32)"
  by (drule less_16) (auto simp: ext3_def)

lemma bit_3_iff: "r < 16 \<Longrightarrow> bit r 3 \<longleftrightarrow> 7 < (r :: u32)"
  by (drule less_16) auto

lemma decode_mem_operand:
  assumes ok: "mem_operand_ok vsib base idx scale d" and s: "sib_operands base idx scale = (hs, gi, sc)"
    and D: "disp_ok base n d (md, disp)" and ex: "hs \<Longrightarrow> ex = ext3 (bit gi 3)" and eb: "eb = ext3 (\<not> base < 8)"
  shows "decode_modrm er ex eb vsib n (mem_bytes hs gi sc base reg md @ disp @ rest) =
    Some (unat (take_bit 3 reg), mem_operand base idx scale d, rest)"
proof -
  have base: "base < 16" using ok by (simp add: mem_operand_ok_def)
  have hs: "if hs then unat sc \<le> 8 else base \<noteq> 4 \<and> base \<noteq> 12"
    using ok s scale_bits [of scale] by (auto simp: mem_operand_ok_def sib_operands_def split: if_splits)
  have i: "(if hs then (let i = ex + unat (take_bit 3 gi)
                   in if i = 4 \<and> \<not> vsib then None else Some (i, 2 ^ unat (drop_bit 6 (tbl_scale ! unat sc))))
       else None) = (if idx = LIBXSMM_X86_GP_REG_UNDEF then None else Some (unat idx, unat scale))"
  proof (cases "idx = LIBXSMM_X86_GP_REG_UNDEF")
    case True
    then have "\<not> vsib" and "hs \<Longrightarrow> gi = 4" using ok s
      by (auto simp: mem_operand_ok_def sib_operands_def split: if_splits)
    then show ?thesis using True ex by (simp add: ext3_def)
  next
    case False
    then have idx: "idx < 16" "idx \<noteq> 4 \<or> vsib" and sc: "scale = 1 \<or> scale = 2 \<or> scale = 4 \<or> scale = 8"
      using ok by (auto simp: mem_operand_ok_def)
    have h: "hs" "gi = idx" "sc = scale" using s False idx by (auto simp: sib_operands_def)
    have "ex + unat (take_bit 3 gi) = unat idx" using ext3_index [OF idx(1)] ex h by simp
    moreover have "\<not> (unat idx = 4 \<and> \<not> vsib)" using idx(2) by (auto simp: word_unat_eq_iff)
    ultimately show ?thesis using h False scale_bits [OF sc] by (auto simp: Let_def)
  qed
  show ?thesis
    unfolding decode_mem_bytes [OF D base hs] i mem_operand_def eb low3_ext_not [OF base] ..
qed

lemma decode_regs:
  "decode_modrm er ex eb vsib n (modrm_regs reg rm # rest) =
    Some (unat (take_bit 3 reg), Register (er + unat (take_bit 3 rm)), rest)"
proof -
  have "drop_bit 6 (modrm_regs reg rm) = 3" "take_bit 3 (drop_bit 3 (modrm_regs reg rm)) = ucast (take_bit 3 reg)"
    "take_bit 3 (modrm_regs reg rm) = ucast (take_bit 3 rm)"
    by (rule u8_eqI; auto simp: modrm_regs_def modrm_reg_def bit_simps)+
  then show ?thesis by (simp add: ucast_low3')
qed

section \<open>Legacy instructions\<close>

fun strip_prefixes :: "u8 list \<Rightarrow> u8 list \<times> u8 list" where
  "strip_prefixes [] = ([], [])"
| "strip_prefixes (b # bs) =
    (if b = 0x66 \<or> b = 0xf2 \<or> b = 0xf3 then (let (ps, cs) = strip_prefixes bs in (b # ps, cs)) else ([], b # bs))"

fun strip_rex :: "u8 list \<Rightarrow> u8 \<times> u8 list" where
  "strip_rex [] = (0, [])"
| "strip_rex (b # bs) = (if drop_bit 4 b = 4 then (take_bit 4 b, bs) else (0, b # bs))"

fun decode_opcode :: "u8 list \<Rightarrow> (nat \<times> u8 \<times> u8 list) option" where
  "decode_opcode [] = None"
| "decode_opcode (b # bs) =
    (if b = 0x0f then
       (case bs of
          [] \<Rightarrow> None
        | c # cs \<Rightarrow>
            (if c = 0x38 \<or> c = 0x3a
             then (case cs of [] \<Rightarrow> None | op # ops \<Rightarrow> Some (if c = 0x38 then 2 else 3, op, ops))
             else Some (1, c, cs)))
     else Some (0, b, bs))"

text \<open>The one-byte op-codes that hold a register in their low bits: \<open>push\<close>, \<open>pop\<close> and \<open>mov\<close> of a constant.\<close>

definition holds_register :: "nat \<Rightarrow> u8 \<Rightarrow> bool" where
  "holds_register m op \<longleftrightarrow> m = 0 \<and> drop_bit 3 op \<in> {0x0a, 0x0b, 0x16, 0x17}"

definition decode_legacy :: "u8 list \<Rightarrow> (x86_insn \<times> u8 list) option" where
  "decode_legacy bs =
   (let (ps, bs1) = strip_prefixes bs; (rex, bs2) = strip_rex bs1 in
    case decode_opcode bs2 of
      None \<Rightarrow> None
    | Some (m, op, bs3) \<Rightarrow>
        if holds_register m op
        then Some (Opreg ps (bit rex 3) m (push_bit 3 (drop_bit 3 op)) (ext3 (bit rex 0) + unat (take_bit 3 op)), bs3)
        else map_option (\<lambda>(reg, rm, bs4). (Legacy ps (bit rex 3) m op (ext3 (bit rex 2) + reg) rm, bs4))
               (decode_modrm (ext3 (bit rex 0)) (ext3 (bit rex 1)) (ext3 (bit rex 0)) False 1 bs3))"

text \<open>The instruction numbers that the REX encoders can write: their fields name a prefix and a map of op-codes.\<close>

definition legacy_map :: "u32 \<Rightarrow> nat" where
  "legacy_map i = unat (take_bit 2 (drop_bit 12 i))"

definition legacy_ok :: "u32 \<Rightarrow> bool" where
  "legacy_ok i \<longleftrightarrow> bit i 18 \<and> (bit i 23 \<longrightarrow> bit i 25) \<and>
    (let op = ucast i :: u8; m = legacy_map i
     in (m = 0 \<longrightarrow> op \<notin> {0x66, 0xf2, 0xf3, 0x0f} \<and> drop_bit 4 op \<noteq> 4) \<and> (m = 1 \<longrightarrow> op \<noteq> 0x38 \<and> op \<noteq> 0x3a))"

lemma take2_cases: "take_bit 2 (w :: u32) \<in> {0, 1, 2, 3}"
proof -
  have "unat (take_bit 2 w) < 4" by (simp add: unat_take_bit)
  then have "unat (take_bit 2 w) \<in> {0, 1, 2, 3}" by (simp; arith)
  then show ?thesis by (auto simp: word_unat_eq_iff)
qed

lemma prefix_idx_cases:
  assumes "bit i 18"
  shows "prefix_idx i \<in> {0, 1, 2, 3}"
proof -
  have "drop_bit 16 (i AND 0x00070000) = 4 OR take_bit 2 (drop_bit 16 i)"
    using assms by (intro word_eq_bitI) (auto simp: bit_simps numeral_eq_Suc less_Suc_eq)
  then show ?thesis
    using take2_cases [of "drop_bit 16 i"] by (auto simp: prefix_idx_def)
qed

lemma strip_legacy_prefixes:
  assumes "bit i 18" and "strip_prefixes bs = ([], bs)"
  shows "strip_prefixes (legacy_prefixes i @ bs) = (legacy_prefixes i, bs)"
  using prefix_idx_cases [OF assms(1)] assms(2) by (auto simp: legacy_prefixes_def tbl_prefix_def)

lemma opext_cases:
  "legacy_map i = 0 \<and> opext_bytes i = [] \<or> legacy_map i = 1 \<and> opext_bytes i = [0x0f] \<or>
   legacy_map i = 2 \<and> opext_bytes i = [0x0f, 0x38] \<or> legacy_map i = 3 \<and> opext_bytes i = [0x0f, 0x3a]"
proof -
  have a: "drop_bit 12 (i AND 0x00003000) = take_bit 2 (drop_bit 12 i)"
    and b: "drop_bit 12 (i AND 0x00001000) = take_bit 1 (take_bit 2 (drop_bit 12 i))"
    by (simp_all add: take_bit_eq_mask mask_eq_exp_minus_1 and.assoc)
  obtain w where w: "take_bit 2 (drop_bit 12 i) = w" and "w \<in> {0, 1, 2, 3}"
    using take2_cases by blast
  then show ?thesis
    unfolding opext_bytes_def a b legacy_map_def w by (auto simp: tbl_opext_def)
qed

lemma strip_opcode:
  assumes "legacy_ok i"
  shows "strip_prefixes (opext_bytes i @ ucast i # rest) = ([], opext_bytes i @ ucast i # rest)"
    and "strip_rex (opext_bytes i @ ucast i # rest) = (0, opext_bytes i @ ucast i # rest)"
    and "decode_opcode (opext_bytes i @ ucast i # rest) = Some (legacy_map i, ucast i, rest)"
  using opext_cases [of i] assms by (auto simp: legacy_ok_def Let_def)

lemma rex_not_prefix: "drop_bit 4 b = (4 :: u8) \<Longrightarrow> strip_prefixes (b # bs) = ([], b # bs)"
  by auto

text \<open>The REX prefix that is written when \<open>c\<close> holds.\<close>

definition rex_ok :: "u8 list \<Rightarrow> bool \<Rightarrow> bool \<Rightarrow> bool \<Rightarrow> bool \<Rightarrow> bool" where
  "rex_ok rex w r x b \<longleftrightarrow>
    rex = [] \<and> \<not> w \<and> \<not> r \<and> \<not> x \<and> \<not> b \<or>
    (\<exists>p. rex = [p] \<and> drop_bit 4 p = 4 \<and> bit p 3 = w \<and> bit p 2 = r \<and> bit p 1 = x \<and> bit p 0 = b)"

lemma strip_rex_opcode:
  assumes ok: "legacy_ok i" and r: "rex_ok rex w r x b"
  shows "\<exists>p. strip_prefixes (legacy_prefixes i @ rex @ opext_bytes i @ ucast i # rest) =
      (legacy_prefixes i, rex @ opext_bytes i @ ucast i # rest) \<and>
    strip_rex (rex @ opext_bytes i @ ucast i # rest) = (p, opext_bytes i @ ucast i # rest) \<and>
    bit p 3 = w \<and> bit p 2 = r \<and> bit p 1 = x \<and> bit p 0 = b"
proof -
  have 18: "bit i 18" using ok by (simp add: legacy_ok_def)
  show ?thesis
  proof (cases rex)
    case Nil
    then show ?thesis
      using r strip_legacy_prefixes [OF 18] strip_opcode [OF ok] by (auto simp: rex_ok_def intro!: exI [of _ 0])
  next
    case (Cons p ps)
    then have "rex = [p]" "drop_bit 4 p = 4" "bit p 3 = w" "bit p 2 = r" "bit p 1 = x" "bit p 0 = b"
      using r by (auto simp: rex_ok_def)
    then show ?thesis
      using strip_legacy_prefixes [OF 18 rex_not_prefix] by (auto simp: bit_simps intro!: exI [of _ "take_bit 4 p"])
  qed
qed

lemma decode_legacy_modrm:
  assumes ok: "legacy_ok i" and h: "\<not> holds_register (legacy_map i) (ucast i)" and r: "rex_ok rex w r x b"
    and m: "decode_modrm (ext3 b) (ext3 x) (ext3 b) False 1 rest = Some (reg, rm, rest')"
  shows "decode_legacy (legacy_prefixes i @ rex @ opext_bytes i @ ucast i # rest) =
    Some (Legacy (legacy_prefixes i) w (legacy_map i) (ucast i) (ext3 r + reg) rm, rest')"
  using strip_rex_opcode [OF ok r, of rest] strip_opcode(3) [OF ok, of rest] h m
  by (auto simp: decode_legacy_def)

lemma and_or_low3: "c AND 7 = 0 \<Longrightarrow> (i OR n AND 7) AND c = i AND (c :: u32)"
  by (simp add: bit.conj_disj_distrib2 and.assoc and.commute [of 7 c])

lemma low3_op:
  fixes i n :: u32
  assumes "take_bit 3 i = 0"
  shows "drop_bit 3 (ucast i OR ucast (n AND 7)) = (drop_bit 3 (ucast i) :: u8)"
    "take_bit 3 (ucast i OR ucast (n AND 7)) = (ucast (take_bit 3 n) :: u8)"
    "push_bit 3 (drop_bit 3 (ucast i)) = (ucast i :: u8)"
proof -
  have "\<not> bit i 0" "\<not> bit i 1" "\<not> bit i 2"
    using arg_cong [OF assms, of "\<lambda>w. bit w 0"] arg_cong [OF assms, of "\<lambda>w. bit w 1"]
      arg_cong [OF assms, of "\<lambda>w. bit w 2"] by (simp_all add: bit_take_bit_iff)
  then show "drop_bit 3 (ucast i OR ucast (n AND 7)) = (drop_bit 3 (ucast i) :: u8)"
    "take_bit 3 (ucast i OR ucast (n AND 7)) = (ucast (take_bit 3 n) :: u8)"
    "push_bit 3 (drop_bit 3 (ucast i)) = (ucast i :: u8)"
    by (intro u8_eqI; auto simp: bit_simps)+
qed

lemma decode_legacy_opreg:
  assumes ok: "legacy_ok i" and h: "holds_register (legacy_map i) (ucast i)" and l: "take_bit 3 i = 0" and r: "rex_ok rex w r x b"
  shows "decode_legacy (legacy_prefixes i @ rex @ opext_bytes i @ (ucast i OR ucast (n AND 7 :: u32)) # rest) =
    Some (Opreg (legacy_prefixes i) w (legacy_map i) (ucast i) (ext3 b + unat (take_bit 3 n)), rest)"
proof -
  define j where "j = i OR (n AND 7)"
  have u: "ucast j = (ucast i OR ucast (n AND 7) :: u8)" by (simp add: j_def unsigned_or_eq)
  note d = low3_op(1,2) [OF l, of n, folded u] low3_op(3) [OF l]
  have p: "legacy_prefixes j = legacy_prefixes i" "opext_bytes j = opext_bytes i" "legacy_map j = legacy_map i"
    by (simp_all add: legacy_prefixes_def prefix_idx_def opext_bytes_def legacy_map_def j_def and_or_low3)
  have m: "legacy_map i = 0" and o: "drop_bit 3 (ucast j) \<in> {0x0a, 0x0b, 0x16, 0x17 :: u8}"
    using h by (simp_all add: holds_register_def d(1))
  have "ucast j \<notin> {0x66, 0xf2, 0xf3, 0x0f :: u8}" using o by auto
  moreover have "drop_bit 4 (ucast j) \<noteq> (4 :: u8)"
  proof -
    have "drop_bit 3 (ucast j :: u8) = k \<Longrightarrow> drop_bit 4 (ucast j :: u8) = drop_bit 1 k" for k by auto
    then show ?thesis using o by fastforce
  qed
  ultimately have "legacy_ok j"
    using ok
    by (simp add: legacy_ok_def p m) (auto simp: j_def bit_simps)
  have hj: "holds_register (legacy_map i) (ucast j)" using h by (simp add: holds_register_def d(1))
  have pd: "push_bit 3 (drop_bit 3 (ucast j :: u8)) = ucast i" by (simp only: d)
  obtain q where "strip_prefixes (legacy_prefixes i @ rex @ opext_bytes i @ ucast j # rest) =
      (legacy_prefixes i, rex @ opext_bytes i @ ucast j # rest)"
    "strip_rex (rex @ opext_bytes i @ ucast j # rest) = (q, opext_bytes i @ ucast j # rest)" "bit q 3 = w" "bit q 0 = b"
    using strip_rex_opcode [OF \<open>legacy_ok j\<close> r, of rest, unfolded p] by blast
  then show ?thesis
    using strip_opcode(3) [OF \<open>legacy_ok j\<close>, of rest, unfolded p] hj
    by (simp add: decode_legacy_def pd d(2) ucast_low3' flip: u)
qed

section \<open>VEX and EVEX\<close>

definition decode_vex :: "bool \<Rightarrow> u8 list \<Rightarrow> (x86_insn \<times> u8 list) option" where
  "decode_vex vsib bs =
   (case bs of
      c # p0 # p1 # op # bs \<Rightarrow>
        if c = 0xc4 then
          map_option (\<lambda>(reg, rm, bs).
              (Vex (unat (take_bit 5 p0)) (unat (take_bit 2 p1)) (bit p1 7) (if bit p1 2 then 1 else 0) op
                 (ext3 (\<not> bit p0 7) + reg) (15 - unat (take_bit 4 (drop_bit 3 p1))) rm, bs))
            (decode_modrm (ext3 (\<not> bit p0 5)) (ext3 (\<not> bit p0 6)) (ext3 (\<not> bit p0 5)) vsib 1 bs)
        else None
    | _ \<Rightarrow> None)"

text \<open>
  \<open>n\<close> is the factor of a one-byte displacement. The fifth bit of the second source register extends the index register
  when that is a vector register.
\<close>

definition decode_evex :: "bool \<Rightarrow> nat \<Rightarrow> u8 list \<Rightarrow> (x86_insn \<times> u8 list) option" where
  "decode_evex vsib n bs =
   (case bs of
      c # p0 # p1 # p2 # op # bs \<Rightarrow>
        if c = 0x62 \<and> \<not> bit p0 3 \<and> bit p1 2 then
          map_option (\<lambda>(reg, rm, bs).
              (Evex (unat (take_bit 3 p0)) (unat (take_bit 2 p1)) (bit p1 7) (unat (take_bit 2 (drop_bit 5 p2))) op
                 (ext4 (\<not> bit p0 4) + (ext3 (\<not> bit p0 7) + reg))
                 ((if vsib then 0 else ext4 (\<not> bit p2 3)) + (15 - unat (take_bit 4 (drop_bit 3 p1)))) rm
                 (unat (take_bit 3 p2)) (bit p2 7) (bit p2 4), bs))
            (decode_modrm (ext4 (\<not> bit p0 6) + ext3 (\<not> bit p0 5))
               (ext3 (\<not> bit p0 6) + (if vsib then ext4 (\<not> bit p2 3) else 0)) (ext3 (\<not> bit p0 5)) vsib n bs)
        else None
    | _ \<Rightarrow> None)"

end
