(* ===== verification/X86_Round.thy ===== *)
theory X86_Round
  imports X86_Decode
begin

text \<open>
  The bytes that the six encoder functions append decode to the instruction and the operands they were called with.
\<close>

section \<open>REX\<close>

lemma emitted_room: "room 20 g \<Longrightarrow> length bs \<le> 20 \<Longrightarrow> emitted_bytes g (put_bytes g bs) = bs"
  using room_no_wrap [of 20 g] by (simp add: emitted_put_bytes)

lemma and_bit_iff: "i AND 0x02000000 = 0x02000000 \<longleftrightarrow> bit i 25" "i AND 0x00800000 = 0x00800000 \<longleftrightarrow> bit i 23"
  "i AND 0x01000000 = 0x01000000 \<longleftrightarrow> bit i 24" for i :: u32
proof -
  have "i AND push_bit n 1 = push_bit n 1 \<longleftrightarrow> bit i n" if "n < 32" for n
    using that by (auto simp: bit_simps intro!: bit_word_eqI dest: arg_cong [of _ _ "\<lambda>w. bit w n"])
  from this [of 25] this [of 23] this [of 24] show "i AND 0x02000000 = 0x02000000 \<longleftrightarrow> bit i 25"
    "i AND 0x00800000 = 0x00800000 \<longleftrightarrow> bit i 23" "i AND 0x01000000 = 0x01000000 \<longleftrightarrow> bit i 24"
    by (simp_all add: push_bit_eq_mult)
qed

lemma ucast_and_ff: "ucast (i AND 0xff) = (ucast i :: u8)" for i :: u32
  by (rule u8_eqI) (simp_all add: bit_simps)

lemma rex_byte:
  "rex_ok (if c then [(if r then 0x04 else 0x00) OR (if b then 0x01 else 0x00) OR (if w then 0x08 else 0x00) OR
        (if hs then (if x then 0x02 else 0x00) else 0x00) OR 0x40] else []) w r (hs \<and> x) b"
  if "w \<or> r \<or> b \<or> hs \<and> x \<longrightarrow> c"
  using that by (cases c; cases r; cases b; cases w; cases hs; cases x; simp add: rex_ok_def)

lemma fresh_room: "room 20 (fresh_stream a 64)"
  by (simp add: room_def fresh_stream_def)

text \<open>
  C16: On a stream with 20 bytes of space, \<open>libxsmm_x86_instruction_rex_compute_1reg_mem\<close> appends exactly one instruction of the
  legacy encoding: the bytes decode, by the rules of the instruction set, to the prefixes, width, op-code map and op-code in
  the fields of the instruction number, the given register, and an operand in memory with exactly the given base, index,
  scale and displacement, for every base register (also those that need a SIB byte or a zero displacement), every index but
  the stack pointer, and every displacement of 32 bits.
\<close>

theorem rex_mem_decodes:
  assumes room: "room 20 g" and ok: "legacy_ok i" and h: "\<not> holds_register (legacy_map i) (ucast i)"
    and m: "mem_operand_ok False base idx scale d" and reg: "reg < 16"
  shows "decode_legacy (emitted_bytes g (libxsmm_x86_instruction_rex_compute_1reg_mem g i base idx scale d reg) @ rest) =
    Some (Legacy (legacy_prefixes i) (bit i 23) (legacy_map i) (ucast i) (unat reg) (mem_operand base idx scale d), rest)"
proof -
  obtain hs gi sc where s: "sib_operands base idx scale = (hs, gi, sc)" by (metis prod_cases3)
  obtain md disp where dd: "displacement base d = (md, disp)" by (metis surj_pair)
  have base: "base < 16" and d: "int32 d" using m by (simp_all add: mem_operand_ok_def)
  have gi: "hs \<Longrightarrow> gi < 16" using m s by (auto simp: mem_operand_ok_def sib_operands_def split: if_splits)
  define rex where "rex = (if reg > 7 \<or> base > 7 \<or> (gi > 7 \<and> hs) \<or> i AND 0x02000000 = 0x02000000
     then [(if reg > 7 then 0x04 else 0x00) OR (if base > 7 then 0x01 else 0x00) OR
       (if i AND 0x00800000 = 0x00800000 then 0x08 else 0x00) OR
       (if hs then (if gi > 7 then 0x02 else 0x00) else 0x00) OR 0x40] else [] :: u8 list)"
  have r: "rex_ok rex (bit i 23) (7 < reg) (hs \<and> 7 < gi) (7 < base)"
    unfolding rex_def and_bit_iff by (rule rex_byte) (use ok in \<open>auto simp: legacy_ok_def\<close>)
  let ?bs = "legacy_prefixes i @ rex @ opext_bytes i @ ucast i # mem_bytes hs gi sc base reg md @ disp"
  have "libxsmm_x86_instruction_rex_compute_1reg_mem g i base idx scale d reg = put_bytes g ?bs"
    using room_space20 [OF room]
    by (simp add: libxsmm_x86_instruction_rex_compute_1reg_mem_def s dd rex_def ucast_and_ff)
  moreover have "length ?bs \<le> 20"
    using length_legacy_prefixes [of i] length_opext [of i] length_mem_bytes [of hs gi sc base reg md] length_displacement [OF dd]
    by (simp add: rex_def)
  ultimately have e: "emitted_bytes g (libxsmm_x86_instruction_rex_compute_1reg_mem g i base idx scale d reg) = ?bs"
    using emitted_room [OF room] by metis
  have D: "disp_ok base 1 d (md, disp)" using displacement_ok [OF d, of base] dd by simp
  have x: "hs \<Longrightarrow> ext3 (hs \<and> 7 < gi) = ext3 (bit gi 3)" using bit_3_iff [OF gi] by simp
  have b: "ext3 (7 < base) = ext3 (\<not> base < 8)" using base by (drule_tac less_16) auto
  have dm: "decode_modrm (ext3 (7 < base)) (ext3 (hs \<and> 7 < gi)) (ext3 (7 < base)) False 1
      (mem_bytes hs gi sc base reg md @ disp @ rest) = Some (unat (take_bit 3 reg), mem_operand base idx scale d, rest)"
    unfolding b by (rule decode_mem_operand [OF m s D x refl])
  show ?thesis
    unfolding e using decode_legacy_modrm [OF ok h r dm] low3_ext [OF reg] by simp
qed

theorem rex_mem_decodes_witness:
  "decode_legacy (emitted_bytes (fresh_stream LIBXSMM_X86_AVX2 64)
     (libxsmm_x86_instruction_rex_compute_1reg_mem (fresh_stream LIBXSMM_X86_AVX2 64) LIBXSMM_X86_INSTR_MOVQ
        LIBXSMM_X86_GP_REG_RSP LIBXSMM_X86_GP_REG_R12 8 (- 136) LIBXSMM_X86_GP_REG_R9) @ []) =
   Some (Legacy [] True 0 0x8b 9 (Memory 4 (Some (12, 8)) (- 136)), [])"
proof -
  have "legacy_ok LIBXSMM_X86_INSTR_MOVQ" "\<not> holds_register (legacy_map LIBXSMM_X86_INSTR_MOVQ) (ucast LIBXSMM_X86_INSTR_MOVQ)"
    "legacy_prefixes LIBXSMM_X86_INSTR_MOVQ = []" "bit LIBXSMM_X86_INSTR_MOVQ 23" "legacy_map LIBXSMM_X86_INSTR_MOVQ = 0"
    by code_simp+
  then show ?thesis
    using rex_mem_decodes [OF fresh_room, where i = LIBXSMM_X86_INSTR_MOVQ and base = LIBXSMM_X86_GP_REG_RSP and
        idx = LIBXSMM_X86_GP_REG_R12 and scale = 8 and d = "- 136" and reg = LIBXSMM_X86_GP_REG_R9 and rest = "[]"]
    by (simp add: mem_operand_ok_def int32_def mem_operand_def)
qed

lemma rex2_byte:
  "rex_ok (if c then [(if r then 0x04 else 0x00) OR (if b then 0x01 else 0x00) OR (if w then 0x08 else 0x00) OR 0x40]
     else []) w r False b"
  if "w \<or> r \<or> b \<longrightarrow> c"
  using that by (cases c; cases r; cases b; cases w; simp add: rex_ok_def)

lemma rex_opreg_byte:
  "rex_ok (if c then [(if b then 0x01 else 0x00) OR (if w then 0x08 else 0x00) OR 0x40] else []) w False False b"
  if "w \<or> b \<longrightarrow> c"
  using that by (cases c; cases b; cases w; simp add: rex_ok_def)

lemma rex_regs_decodes:
  assumes room: "room 20 g" and ok: "legacy_ok i" and h: "\<not> holds_register (legacy_map i) (ucast i)" and o: "\<not> bit i 24"
    and rm: "rm < 16" and reg: "reg < 16"
  shows "decode_legacy (emitted_bytes g (libxsmm_x86_instruction_rex_compute_2reg g i rm reg) @ rest) =
    Some (Legacy (legacy_prefixes i) (bit i 23) (legacy_map i) (ucast i) (unat reg) (Register (unat rm)), rest)"
proof -
  define rex where "rex = (if rm > 7 \<or> reg > 7 \<or> i AND 0x02000000 = 0x02000000
     then [(if reg > 7 then 0x04 else 0x00) OR (if rm > 7 then 0x01 else 0x00) OR
       (if i AND 0x00800000 = 0x00800000 then 0x08 else 0x00) OR 0x40] else [] :: u8 list)"
  have r: "rex_ok rex (bit i 23) (7 < reg) False (7 < rm)"
    unfolding rex_def and_bit_iff by (rule rex2_byte) (use ok in \<open>auto simp: legacy_ok_def\<close>)
  let ?bs = "legacy_prefixes i @ rex @ opext_bytes i @ ucast i # [modrm_regs reg rm]"
  have "libxsmm_x86_instruction_rex_compute_2reg g i rm reg = put_bytes g ?bs"
    using room_space20 [OF room] o
    by (simp add: libxsmm_x86_instruction_rex_compute_2reg_def and_bit_iff(3) rex_def ucast_and_ff)
  moreover have "length ?bs \<le> 20"
    using length_legacy_prefixes [of i] length_opext [of i] by (simp add: rex_def)
  ultimately have e: "emitted_bytes g (libxsmm_x86_instruction_rex_compute_2reg g i rm reg) = ?bs"
    using emitted_room [OF room] by metis
  show ?thesis
    unfolding e using decode_legacy_modrm [OF ok h r decode_regs] low3_ext [OF reg] low3_ext [OF rm] by simp
qed

lemma rex_opreg_decodes:
  assumes room: "room 20 g" and ok: "legacy_ok i" and h: "holds_register (legacy_map i) (ucast i)" and o: "bit i 24"
    and l: "take_bit 3 i = 0" and reg: "reg < 16"
  shows "decode_legacy (emitted_bytes g (libxsmm_x86_instruction_rex_compute_2reg g i rm reg) @ rest) =
    Some (Opreg (legacy_prefixes i) (bit i 23) (legacy_map i) (ucast i) (unat reg), rest)"
proof -
  define rex where "rex = (if rm > 7 \<or> reg > 7 \<or> i AND 0x02000000 = 0x02000000
     then [(if reg > 7 then 0x01 else 0x00) OR
       (if i AND 0x00800000 = 0x00800000 then 0x08 else 0x00) OR 0x40] else [] :: u8 list)"
  have r: "rex_ok rex (bit i 23) False False (7 < reg)"
    unfolding rex_def and_bit_iff by (rule rex_opreg_byte) (use ok in \<open>auto simp: legacy_ok_def\<close>)
  let ?bs = "legacy_prefixes i @ rex @ opext_bytes i @ [ucast i OR ucast (reg AND 7)]"
  have "libxsmm_x86_instruction_rex_compute_2reg g i rm reg = put_bytes g ?bs"
    using room_space20 [OF room] o
    by (simp add: libxsmm_x86_instruction_rex_compute_2reg_def and_bit_iff(3) rex_def ucast_and_ff)
  moreover have "length ?bs \<le> 20"
    using length_legacy_prefixes [of i] length_opext [of i] by (simp add: rex_def)
  ultimately have e: "emitted_bytes g (libxsmm_x86_instruction_rex_compute_2reg g i rm reg) = ?bs"
    using emitted_room [OF room] by metis
  show ?thesis
    unfolding e using decode_legacy_opreg [OF ok h l r] low3_ext [OF reg] by simp
qed

section \<open>VEX\<close>

definition vex_map :: "u32 \<Rightarrow> nat" where "vex_map i = unat (take_bit 4 (drop_bit 12 i))"
definition vex_pp :: "u32 \<Rightarrow> nat" where "vex_pp i = unat (take_bit 2 (drop_bit 16 i))"

lemma ucast_take: "k \<le> 8 \<Longrightarrow> unat (ucast (take_bit k w) :: u8) = unat (take_bit k (w :: u32))"
  using mod_less_divisor [of "2 ^ k" "unat w"] power_increasing [of k 8 "2 :: nat"]
  by (simp add: unat_take_bit unat_ucast_mod del: mod_less_divisor)

lemma vvvv_bits:
  assumes "r < 16" and "v = vex_vvvv r \<or> v = tbl_evex_vvvv ! unat r"
  shows "\<not> bit v 0" "\<not> bit v 1" "\<not> bit v 2" "\<not> bit v 7" "15 - unat (take_bit 4 (drop_bit 3 v)) = unat r"
  using assms(2) less_16 [OF assms(1)] by (auto simp: vex_vvvv_def tbl_vex_vvvv_def tbl_evex_vvvv_def)

lemma vl_bits: "vex_vl v = (if v = LIBXSMM_X86_SIMD_NAME_XMM then 0 else 4)"
  by (cases v) (simp_all add: vex_vl_def LIBXSMM_MIN_def)

lemma vex_p1:
  assumes "r < 16" and p1: "p1 = ucast (drop_bit 16 i AND 0x83) OR vex_vvvv r OR vex_vl v"
  shows "take_bit 2 p1 = (ucast (take_bit 2 (drop_bit 16 i)) :: u8)" "bit p1 7 = bit (i :: u32) 23"
    "bit p1 2 \<longleftrightarrow> v \<noteq> LIBXSMM_X86_SIMD_NAME_XMM" "15 - unat (take_bit 4 (drop_bit 3 p1)) = unat r"
proof -
  note v = vvvv_bits [OF assms(1) disjI1, OF refl]
  show "take_bit 2 p1 = (ucast (take_bit 2 (drop_bit 16 i)) :: u8)"
    by (rule u8_eqI) (use v in \<open>auto simp: p1 vl_bits bit_simps\<close>)
  show "bit p1 7 = bit i 23" "bit p1 2 \<longleftrightarrow> v \<noteq> LIBXSMM_X86_SIMD_NAME_XMM"
    using v by (auto simp: p1 vl_bits bit_simps)
  have "take_bit 4 (drop_bit 3 p1) = take_bit 4 (drop_bit 3 (vex_vvvv r))"
    by (rule u8_eqI) (use v in \<open>auto simp: p1 vl_bits bit_simps\<close>)
  then show "15 - unat (take_bit 4 (drop_bit 3 p1)) = unat r" using v(5) by simp
qed

lemma vex_p0:
  fixes i :: u32
  assumes p0: "p0 = ucast (drop_bit 12 i AND 0x0f) OR (if r then 0x80 else 0x00) OR (if b then 0x20 else 0x00) OR
                (if x then 0x40 else 0x00)"
  shows "take_bit 5 p0 = (ucast (take_bit 4 (drop_bit 12 i)) :: u8)" "bit p0 7 = r" "bit p0 5 = b" "bit p0 6 = x"
proof -
  show "take_bit 5 p0 = (ucast (take_bit 4 (drop_bit 12 i)) :: u8)"
    by (rule u8_eqI) (auto simp: p0 bit_simps)
qed (auto simp: p0 bit_simps)

lemma decode_vex_bytes:
  assumes p0: "p0 = ucast (drop_bit 12 i AND 0x0f) OR (if r then 0x80 else 0x00) OR (if b then 0x20 else 0x00) OR
                (if x then 0x40 else 0x00)"
    and p1: "p1 = ucast (drop_bit 16 i AND 0x83) OR vex_vvvv src OR vex_vl v" and src: "src < 16"
    and m: "decode_modrm (ext3 (\<not> b)) (ext3 (\<not> x)) (ext3 (\<not> b)) vsib 1 bs = Some (reg, rm, rest)"
  shows "decode_vex vsib (0xc4 # p0 # p1 # op # bs) =
    Some (Vex (vex_map i) (vex_pp i) (bit i 23) (if v = LIBXSMM_X86_SIMD_NAME_XMM then 0 else 1) op
      (ext3 (\<not> r) + reg) (unat src) rm, rest)"
  using m by (simp add: decode_vex_def vex_p0 [OF p0] vex_p1 [OF src p1] vex_map_def vex_pp_def ucast_take)

text \<open>
  C15: On a stream with 20 bytes of space, \<open>libxsmm_x86_instruction_vex_compute_2reg_mem\<close> appends exactly one instruction of the
  three-byte VEX encoding that decodes to the op-code of the instruction number, the two vector registers, the length of the
  vector (512 bits are encoded as 256) and the given operand in memory; the index is a vector register if the decoder reads a
  vector of addresses.
\<close>

theorem vex_mem_decodes:
  assumes room: "room 20 g" and m: "mem_operand_ok vsib base idx scale d" and src: "src < 16" and dst: "dst < 16"
  shows "decode_vex vsib (emitted_bytes g (libxsmm_x86_instruction_vex_compute_2reg_mem g i base idx scale d v src dst) @ rest) =
    Some (Vex (vex_map i) (vex_pp i) (bit i 23) (if v = LIBXSMM_X86_SIMD_NAME_XMM then 0 else 1) (ucast i)
      (unat dst) (unat src) (mem_operand base idx scale d), rest)"
proof -
  obtain hs gi sc where s: "sib_operands base idx scale = (hs, gi, sc)" by (metis prod_cases3)
  obtain md disp where dd: "displacement base d = (md, disp)" by (metis surj_pair)
  have base: "base < 16" and d: "int32 d" using m by (simp_all add: mem_operand_ok_def)
  have gi: "hs \<Longrightarrow> gi < 16" using m s by (auto simp: mem_operand_ok_def sib_operands_def split: if_splits)
  define p0 where "p0 = ucast (drop_bit 12 i AND 0x0f) OR (if dst < 8 then 0x80 else 0x00) OR
    (if base < 8 then 0x20 else 0x00) OR (if hs \<and> gi < 8 then 0x40 else (0x00 :: u8))"
  define p1 where "p1 = ucast (drop_bit 16 i AND 0x83) OR vex_vvvv src OR vex_vl v"
  let ?bs = "[0xc4, p0, p1, ucast i] @ mem_bytes hs gi sc base dst md @ disp"
  have "libxsmm_x86_instruction_vex_compute_2reg_mem g i base idx scale d v src dst = put_bytes g ?bs"
    using room_space20 [OF room]
    by (simp add: libxsmm_x86_instruction_vex_compute_2reg_mem_def s dd p0_def p1_def)
  moreover have "length ?bs \<le> 20"
    using length_mem_bytes [of hs gi sc base dst md] length_displacement [OF dd] by simp
  ultimately have e: "emitted_bytes g (libxsmm_x86_instruction_vex_compute_2reg_mem g i base idx scale d v src dst) = ?bs"
    using emitted_room [OF room] by metis
  have D: "disp_ok base 1 d (md, disp)" using displacement_ok [OF d, of base] dd by simp
  have x: "hs \<Longrightarrow> ext3 (\<not> (hs \<and> gi < 8)) = ext3 (bit gi 3)" using bit_3_iff [OF gi] by (auto simp: not_less ext3_def word_less_nat_alt word_le_nat_alt)
  show ?thesis
    unfolding e
    using decode_vex_bytes [OF p0_def p1_def src decode_mem_operand [OF m s D x refl]] low3_ext_not [OF dst] by simp
qed

theorem vex_mem_decodes_witness:
  "decode_vex False (emitted_bytes (fresh_stream LIBXSMM_X86_AVX2 64)
     (libxsmm_x86_instruction_vex_compute_2reg_mem (fresh_stream LIBXSMM_X86_AVX2 64) LIBXSMM_X86_INSTR_VADDPS
        LIBXSMM_X86_GP_REG_R13 LIBXSMM_X86_GP_REG_UNDEF 1 0 LIBXSMM_X86_SIMD_NAME_YMM 9 14) @ []) =
   Some (Vex 1 0 False 1 0x58 14 9 (Memory 13 None 0), [])"
proof -
  have "vex_map LIBXSMM_X86_INSTR_VADDPS = 1" "vex_pp LIBXSMM_X86_INSTR_VADDPS = 0" "\<not> bit LIBXSMM_X86_INSTR_VADDPS 23"
    by code_simp+
  then show ?thesis
    using vex_mem_decodes [OF fresh_room, where vsib = False and i = LIBXSMM_X86_INSTR_VADDPS and base = LIBXSMM_X86_GP_REG_R13 and
        idx = LIBXSMM_X86_GP_REG_UNDEF and scale = 1 and d = 0 and v = LIBXSMM_X86_SIMD_NAME_YMM and src = 9 and dst = 14 and rest = "[]"]
    by (simp add: mem_operand_ok_def int32_def mem_operand_def)
qed

lemma vex_regs_decodes:
  assumes room: "room 20 g" and r: "r0 < 16" "r1 < 16" "dst < 16"
  shows "decode_vex vsib (emitted_bytes g (libxsmm_x86_instruction_vex_compute_3reg g i v r0 r1 dst) @ rest) =
    Some (Vex (vex_map i) (vex_pp i) (bit i 23) (if v = LIBXSMM_X86_SIMD_NAME_XMM then 0 else 1) (ucast i)
      (unat dst) (unat r1) (Register (unat r0)), rest)"
proof -
  define p0 where "p0 = ucast (drop_bit 12 i AND 0x0f) OR (if dst < 8 then 0x80 else 0x00) OR
    (if r0 < 8 then 0x20 else 0x00) OR (if False then 0x40 else (0x00 :: u8))"
  define p1 where "p1 = ucast (drop_bit 16 i AND 0x83) OR vex_vvvv r1 OR vex_vl v"
  let ?bs = "[0xc4, p0, p1, ucast i, modrm_regs dst r0]"
  have "libxsmm_x86_instruction_vex_compute_3reg g i v r0 r1 dst = put_bytes g ?bs"
    using room_space20 [OF room]
    by (simp add: libxsmm_x86_instruction_vex_compute_3reg_def p0_def p1_def)
  then have e: "emitted_bytes g (libxsmm_x86_instruction_vex_compute_3reg g i v r0 r1 dst) = ?bs"
    using emitted_room [OF room, of ?bs] by simp
  show ?thesis
    unfolding e using decode_vex_bytes [OF p0_def p1_def r(2) decode_regs] low3_ext_not [OF r(3)] low3_ext_not [OF r(1)]
    by simp
qed

section \<open>EVEX\<close>

definition evex_map :: "u32 \<Rightarrow> nat" where "evex_map i = unat (take_bit 3 (drop_bit 12 i))"

definition evex_ok :: "u32 \<Rightarrow> bool" where "evex_ok i \<longleftrightarrow> bit i 18 \<and> \<not> bit i 15"

fun vlen :: "libxsmm_x86_simd_name \<Rightarrow> nat" where
  "vlen LIBXSMM_X86_SIMD_NAME_XMM = 0"
| "vlen LIBXSMM_X86_SIMD_NAME_YMM = 1"
| "vlen LIBXSMM_X86_SIMD_NAME_ZMM = 2"

text \<open>
  The unit of a one-byte displacement. An element that is broadcast counts, else a fixed number of bytes (bit 11 of the
  instruction number) or as much of the given number for 512 bits as the length of the vector leaves; \<open>VMOVDDUP\<close> reads 8
  bytes for 128 bits.
\<close>

definition disp8_unit :: "u32 \<Rightarrow> bool \<Rightarrow> libxsmm_x86_simd_name \<Rightarrow> nat" where
  "disp8_unit i bcast v =
   (let e = unat (take_bit 3 (drop_bit 8 i))
    in if bcast then (if bit i 24 then 2 else if bit i 23 then 8 else 4)
       else if bit i 11 then 2 ^ e
       else if i = LIBXSMM_X86_INSTR_VMOVDDUP \<and> v = LIBXSMM_X86_SIMD_NAME_XMM then 8
       else 2 ^ (e - (2 - vlen v)))"

definition bcast_ok :: "u32 \<Rightarrow> u32 \<Rightarrow> bool" where
  "bcast_ok i bcast \<longleftrightarrow> (bcast \<noteq> 0 \<longrightarrow> \<not> (bit i 23 \<and> bit i 24))"

lemma take3_cases: "take_bit 3 (w :: u32) \<in> {0, 1, 2, 3, 4, 5, 6, 7}"
proof -
  have "unat (take_bit 3 w) < 8" by (simp add: unat_take_bit)
  then have "unat (take_bit 3 w) \<in> {0, 1, 2, 3, 4, 5, 6, 7}" by (simp; arith)
  then show ?thesis by (auto simp: word_unat_eq_iff)
qed

lemma disp8div_unit:
  assumes "bcast_ok i bcast"
  shows "uint (disp8div i bcast v) = int (disp8_unit i (bcast \<noteq> 0) v)"
proof -
  have e: "ucast (drop_bit 8 i AND 0x07) = (ucast (take_bit 3 (drop_bit 8 i)) :: u8)"
    by (rule u8_eqI) (auto simp: bit_simps)
  have w: "ucast (drop_bit 23 i AND 0x3) = (ucast (take_bit 2 (drop_bit 23 i)) :: u8)"
    by (rule u8_eqI) (auto simp: bit_simps)
  have c: "ucast (drop_bit 8 i AND 0x08) = (8 :: u8) \<longleftrightarrow> bit i 11"
    by (auto simp: bit_simps intro!: u8_eqI dest: arg_cong [of _ _ "\<lambda>w. bit w 3"])
  have w': "take_bit 2 (drop_bit 23 i) = (if bit i 23 then 1 else 0) + (if bit i 24 then 2 else 0)"
  proof -
    obtain k where k: "take_bit 2 (drop_bit 23 i) = k" "k \<in> {0, 1, 2, 3}" using take2_cases by blast
    have "bit k 0 = bit i 23" "bit k 1 = bit i 24" by (simp_all add: k(1) [symmetric] bit_simps)
    then show ?thesis unfolding k(1) using k(2) by auto
  qed
  obtain k where k: "take_bit 3 (drop_bit 8 i) = k" and k7: "k \<in> {0, 1, 2, 3, 4, 5, 6, 7}" using take3_cases by blast
  show ?thesis
  proof (cases "bcast = 0")
    case False
    then show ?thesis
      using assms unfolding disp8div_def disp8_unit_def w w' by (auto simp: tbl_disp8divbcst_def bcast_ok_def)
  next
    case True
    show ?thesis
    proof (cases "i = LIBXSMM_X86_INSTR_VMOVDDUP")
      case True
      then show ?thesis using \<open>bcast = 0\<close> by (cases v) (simp_all add: disp8div_def disp8_unit_def tbl_disp8div_def)
    next
      case False
      then show ?thesis
        using \<open>bcast = 0\<close> k7 unfolding disp8div_def disp8_unit_def e c k
        by (cases v) (auto simp: tbl_disp8div_def)
    qed
  qed
qed

lemma RRp_bits:
  fixes r :: u32
  assumes "r < 32" and "b = tbl_evex_RRp ! unat r"
  shows "bit b 7 = (\<not> bit r 3)" "bit b 4 = (\<not> bit r 4)" "\<not> bit b 0" "\<not> bit b 1" "\<not> bit b 2" "\<not> bit b 3" "\<not> bit b 5" "\<not> bit b 6"
  using assms(2) less_32 [OF assms(1)] by (auto simp: tbl_evex_RRp_def)

lemma BX_bits:
  fixes r :: u32
  assumes "r < 32" and "b = tbl_evex_BX ! unat r"
  shows "bit b 5 = (\<not> bit r 3)" "bit b 6 = (\<not> bit r 4)" "\<not> bit b 0" "\<not> bit b 1" "\<not> bit b 2" "\<not> bit b 3" "\<not> bit b 4" "\<not> bit b 7"
  using assms(2) less_32 [OF assms(1)] by (auto simp: tbl_evex_BX_def)

lemma evex_vvvv_bits:
  fixes r :: u32
  assumes "r < 32" and "b = tbl_evex_vvvv ! unat r"
  shows "\<not> bit b 0" "\<not> bit b 1" "\<not> bit b 2" "\<not> bit b 7"
    "ext4 (bit r 4) + (15 - unat (take_bit 4 (drop_bit 3 b))) = unat r"
  using assms(2) less_32 [OF assms(1)] by (auto simp: tbl_evex_vvvv_def ext4_def)

lemma vp_val: "(r :: u32) < 32 \<Longrightarrow> tbl_evex_vp ! unat r = (if bit r 4 then 0 else 8)"
  by (drule less_32) (auto simp: tbl_evex_vp_def)

lemma evex_vl_val: "evex_vl v = (case v of LIBXSMM_X86_SIMD_NAME_XMM \<Rightarrow> 0 | LIBXSMM_X86_SIMD_NAME_YMM \<Rightarrow> 0x20 | LIBXSMM_X86_SIMD_NAME_ZMM \<Rightarrow> 0x40)"
  by (cases v) (simp_all add: evex_vl_def)

lemma evex_p0:
  fixes i dst :: u32
  assumes "\<not> bit i 15" and "dst < 32"
    and p0: "p0 = ucast (drop_bit 12 i AND 0x0f) OR tbl_evex_RRp ! unat dst OR q"
    and q: "\<not> bit q 0" "\<not> bit q 1" "\<not> bit q 2" "\<not> bit q 3" "\<not> bit q 4" "\<not> bit q 7"
  shows "take_bit 3 p0 = (ucast (take_bit 3 (drop_bit 12 i)) :: u8)" "\<not> bit p0 3" "bit p0 4 = (\<not> bit dst 4)"
    "bit p0 7 = (\<not> bit dst 3)" "bit p0 5 = bit q 5" "bit p0 6 = bit q 6"
proof -
  note r = RRp_bits [OF assms(2) refl]
  show "take_bit 3 p0 = (ucast (take_bit 3 (drop_bit 12 i)) :: u8)"
    by (rule u8_eqI) (use assms r in \<open>auto simp: bit_simps\<close>)
qed (use assms RRp_bits [OF assms(2) refl] in \<open>auto simp: bit_simps\<close>)

lemma evex_p1:
  fixes i r :: u32
  assumes "bit i 18" and "r < 32" and p1: "p1 = ucast (drop_bit 16 i AND 0x87) OR tbl_evex_vvvv ! unat r"
  shows "take_bit 2 p1 = (ucast (take_bit 2 (drop_bit 16 i)) :: u8)" "bit p1 7 = bit i 23" "bit p1 2"
    "ext4 (bit r 4) + (15 - unat (take_bit 4 (drop_bit 3 p1))) = unat r"
proof -
  note v = evex_vvvv_bits [OF assms(2) refl]
  show "take_bit 2 p1 = (ucast (take_bit 2 (drop_bit 16 i)) :: u8)"
    by (rule u8_eqI) (use v in \<open>auto simp: p1 bit_simps\<close>)
  show "bit p1 7 = bit i 23" "bit p1 2"
    using v assms by (auto simp: p1 bit_simps)
  have "take_bit 4 (drop_bit 3 p1) = take_bit 4 (drop_bit 3 (tbl_evex_vvvv ! unat r))"
    by (rule u8_eqI) (use v in \<open>auto simp: p1 bit_simps\<close>)
  then show "ext4 (bit r 4) + (15 - unat (take_bit 4 (drop_bit 3 p1))) = unat r" using v(5) by simp
qed

lemma evex_p2:
  fixes p2 :: u8
  assumes p2: "p2 = (if v' then 0 else 8) OR l OR (if b then 0x10 else 0) OR evex_masking k z" and k: "k < 8"
    and l: "l \<in> {0, 0x20, 0x40, 0x60}"
  shows "bit p2 3 = (\<not> v')" "take_bit 2 (drop_bit 5 p2) = drop_bit 5 l" "bit p2 4 = b" "bit p2 7 = (z \<noteq> 0 \<and> k \<noteq> 0)"
    "take_bit 3 p2 = (ucast (take_bit 3 k) :: u8)"
proof -
  show "take_bit 2 (drop_bit 5 p2) = drop_bit 5 l"  "take_bit 3 p2 = (ucast (take_bit 3 k) :: u8)"
    by (rule u8_eqI; use l in \<open>auto simp: p2 evex_masking_def bit_simps\<close>)+
qed (use l in \<open>auto simp: p2 evex_masking_def bit_simps\<close>)

lemma decode_evex_bytes:
  fixes i dst src k :: u32 and p2 :: u8
  assumes ok: "evex_ok i" and dst: "dst < 32" and src: "src < 32" and k: "k < 8" and l: "l \<in> {0, 0x20, 0x40, 0x60}"
    and q: "\<not> bit q 0" "\<not> bit q 1" "\<not> bit q 2" "\<not> bit q 3" "\<not> bit q 4" "\<not> bit q 7"
    and p0: "p0 = ucast (drop_bit 12 i AND 0x0f) OR tbl_evex_RRp ! unat dst OR q"
    and p1: "p1 = ucast (drop_bit 16 i AND 0x87) OR tbl_evex_vvvv ! unat src"
    and p2: "p2 = (if v' then 0 else 8) OR l OR (if b then 0x10 else 0) OR evex_masking k z"
    and v: "if vsib then src < 16 else v' = bit src 4"
    and m: "decode_modrm (ext4 (\<not> bit q 6) + ext3 (\<not> bit q 5))
               (ext3 (\<not> bit q 6) + (if vsib then ext4 v' else 0)) (ext3 (\<not> bit q 5)) vsib n bs = Some (unat (take_bit 3 dst), rm, rest)"
  shows "decode_evex vsib n (0x62 # p0 # p1 # p2 # op # bs) =
    Some (Evex (evex_map i) (vex_pp i) (bit i 23) (unat (drop_bit 5 l)) op (unat dst) (unat src) rm
      (unat k) (z \<noteq> 0 \<and> k \<noteq> 0) b, rest)"
proof -
  have i: "\<not> bit i 15" "bit i 18" using ok by (simp_all add: evex_ok_def)
  have s: "vsib \<Longrightarrow> \<not> bit src 4" using v less_16 [of src] by auto
  have k3: "unat (take_bit 3 k) = unat k"
    using k by (simp add: unat_take_bit word_less_nat_alt)
  have sv: "(if vsib then 0 else ext4 v') + (15 - unat (take_bit 4 (drop_bit 3 p1))) = unat src"
    using evex_p1(4) [OF i(2) src p1] v s by (auto simp: ext4_def)
  have q': "decode_modrm (ext4 (\<not> bit p0 6) + ext3 (\<not> bit p0 5)) (ext3 (\<not> bit p0 6) + (if vsib then ext4 (\<not> bit p2 3) else 0))
      (ext3 (\<not> bit p0 5)) vsib n bs = Some (unat (take_bit 3 dst), rm, rest)"
    unfolding evex_p0(5,6) [OF i(1) dst p0 q] evex_p2(1) [OF p2 k l] not_not using m .
  show ?thesis
    unfolding decode_evex_def list.case q'
    using sv low3_ext4 [OF dst]
    by (cases vsib)
      (simp_all add: evex_p0(1-4) [OF i(1) dst p0 q] evex_p1(1-3) [OF i(2) src p1] evex_p2 [OF p2 k l]
        evex_map_def vex_pp_def ucast_take k3)
qed

lemma evex_sib: "idx < 16 \<or> idx = LIBXSMM_X86_GP_REG_UNDEF \<Longrightarrow> evex_sib_operands i base idx scale = sib_operands base idx scale"
  by (auto simp: evex_sib_operands_def sib_operands_def)

lemma bit3_and: "r AND 0x08 = 0 \<longleftrightarrow> \<not> bit r 3" for r :: u32
  using and_exp_eq_0_iff_not_bit [of r 3] by simp

lemma evex_vl_cases: "evex_vl v \<in> {0, 0x20, 0x40, 0x60}"
  by (cases v) (simp_all add: evex_vl_def)

lemma disp8_unit_pos: "0 < disp8_unit i b v"
  by (simp add: disp8_unit_def Let_def)

lemma drop_vl: "unat (drop_bit 5 (evex_vl v)) = vlen v"
  by (cases v) (simp_all add: evex_vl_def)

text \<open>
  C13: On a stream with 20 bytes of space, \<open>libxsmm_x86_instruction_evex_compute_2reg_mem\<close> appends exactly one EVEX instruction
  that decodes to the op-code of the instruction number, all 32 destination and source registers, the length of the vector,
  the mask register, zeroing (only with a mask), broadcasting, and an operand in memory with exactly the given base,
  index, scale and displacement: a displacement that is a multiple of the unit of the instruction is stored in one byte divided
  by this unit, every other one in four bytes. For gathers and scatters the index is a vector register below 16.
\<close>

theorem evex_mem_decodes:
  assumes room: "room 20 g" and ok: "evex_ok i" and bc: "bcast_ok i bcast" and m: "mem_operand_ok (is_vsib i) base idx scale d"
    and src: "src < (if is_vsib i then 16 else 32)" and dst: "dst < 32" and k: "k < 8"
  shows "decode_evex (is_vsib i) (disp8_unit i (bcast \<noteq> 0) v)
      (emitted_bytes g (libxsmm_x86_instruction_evex_compute_2reg_mem g i bcast base idx scale d v src dst k z) @ rest) =
    Some (Evex (evex_map i) (vex_pp i) (bit i 23) (vlen v) (ucast i) (unat dst) (unat src) (mem_operand base idx scale d)
      (unat k) (z \<noteq> 0 \<and> k \<noteq> 0) (bcast \<noteq> 0), rest)"
proof -
  have idx: "idx < 16 \<or> idx = LIBXSMM_X86_GP_REG_UNDEF" and base: "base < 16" and d: "int32 d"
    using m by (auto simp: mem_operand_ok_def)
  obtain hs gi sc where s: "sib_operands base idx scale = (hs, gi, sc)" by (metis prod_cases3)
  have s': "evex_sib_operands i base idx scale = (hs, gi, sc)" using evex_sib [OF idx] s by simp
  let ?n = "disp8_unit i (bcast \<noteq> 0) v"
  obtain md disp where dd: "evex_displacement base d (int ?n) = (md, disp)" by (metis surj_pair)
  have gi: "hs \<Longrightarrow> gi < 16" using m s by (auto simp: mem_operand_ok_def sib_operands_def split: if_splits)
  have gi': "is_vsib i \<Longrightarrow> gi < 16" using m s by (auto simp: mem_operand_ok_def sib_operands_def split: if_splits)
  have s32: "src < 32" and b32: "base < 32"
    using src base by (auto simp: word_less_nat_alt split: if_splits)
  define q where "q = (if hs then (if base < 8 then 0x20 else 0x00) OR (if gi AND 0x08 = 0x00 then 0x40 else 0x00)
     else tbl_evex_BX ! unat base)"
  define p0 where "p0 = ucast (drop_bit 12 i AND 0x0f) OR tbl_evex_RRp ! unat dst OR q"
  define p1 where "p1 = ucast (drop_bit 16 i AND 0x87) OR tbl_evex_vvvv ! unat src"
  define v' where "v' = (if is_vsib i then False else bit src 4)"
  define p2 where "p2 = (if v' then 0 else 8) OR evex_vl v OR (if bcast \<noteq> 0 then 0x10 else 0) OR evex_masking k z"
  have vp: "(if is_vsib i then (if gi < 16 then tbl_evex_vp ! unat gi else tbl_evex_vp ! 0) else tbl_evex_vp ! unat src) =
      (if v' then 0 else 8)"
    using gi' less_16 [of gi] vp_val [OF s32] by (auto simp: v'_def tbl_evex_vp_def)
  have n31: "\<not> 31 < dst" "\<not> 31 < src" using dst s32 by (auto simp: word_less_nat_alt)
  have bx: "(if bcast = 0 then 0x00 else 0x10) = (if bcast \<noteq> 0 then 0x10 else (0 :: u8))" by simp
  let ?bs = "[0x62, p0, p1, p2, ucast i] @ mem_bytes hs gi sc base dst md @ disp"
  have "libxsmm_x86_instruction_evex_compute_2reg_mem g i bcast base idx scale d v src dst k z = put_bytes g ?bs"
    using room_space20 [OF room] n31
    unfolding libxsmm_x86_instruction_evex_compute_2reg_mem_def Let_def disp8div_unit [OF bc] s' dd prod.case vp bx
      p0_def p1_def p2_def q_def by (simp only: if_False simp_thms)
  moreover have "length ?bs \<le> 20"
    using length_mem_bytes [of hs gi sc base dst md] length_evex_displacement [OF dd] by simp
  ultimately have e: "emitted_bytes g (libxsmm_x86_instruction_evex_compute_2reg_mem g i bcast base idx scale d v src dst k z) = ?bs"
    using emitted_room [OF room] by metis
  have D: "disp_ok base ?n d (md, disp)" using evex_displacement_ok [OF d disp8_unit_pos, of base i "bcast \<noteq> 0" v] dd by simp
  have q: "\<not> bit q 0" "\<not> bit q 1" "\<not> bit q 2" "\<not> bit q 3" "\<not> bit q 4" "\<not> bit q 7" "bit q 5 = (base < 8)"
     "bit q 6 = (hs \<longrightarrow> \<not> bit gi 3)"
    using BX_bits [OF b32 refl] less_16 [OF base] by (auto simp: q_def bit3_and bit_simps)
  have x: "hs \<Longrightarrow> ext3 (\<not> bit q 6) + (if is_vsib i then ext4 v' else 0) = ext3 (bit gi 3)"
    by (simp add: q v'_def ext4_def)
  have sv: "if is_vsib i then src < 16 else v' = bit src 4" using src by (auto simp: v'_def)
  show ?thesis
    unfolding e
    using decode_evex_bytes [OF ok dst s32 k evex_vl_cases q(1-6) p0_def p1_def p2_def sv decode_mem_operand [OF m s D x]]
    by (simp add: q drop_vl)
qed

theorem evex_mem_decodes_witness:
  "decode_evex False 64 (emitted_bytes (fresh_stream LIBXSMM_X86_AVX512_SKX 64)
     (libxsmm_x86_instruction_evex_compute_2reg_mem (fresh_stream LIBXSMM_X86_AVX512_SKX 64) LIBXSMM_X86_INSTR_VADDPS 0
        LIBXSMM_X86_GP_REG_R13 LIBXSMM_X86_GP_REG_R9 4 (- 256) LIBXSMM_X86_SIMD_NAME_ZMM 25 17 3 1) @ []) =
   Some (Evex 1 0 False 2 0x58 17 25 (Memory 13 (Some (9, 4)) (- 256)) 3 True False, [])"
proof -
  have "evex_ok LIBXSMM_X86_INSTR_VADDPS" "\<not> is_vsib LIBXSMM_X86_INSTR_VADDPS"
    "disp8_unit LIBXSMM_X86_INSTR_VADDPS False LIBXSMM_X86_SIMD_NAME_ZMM = 64"
    "evex_map LIBXSMM_X86_INSTR_VADDPS = 1" "vex_pp LIBXSMM_X86_INSTR_VADDPS = 0" "\<not> bit LIBXSMM_X86_INSTR_VADDPS 23"
    by code_simp+
  then show ?thesis
    using evex_mem_decodes [OF fresh_room, where i = LIBXSMM_X86_INSTR_VADDPS and bcast = 0 and base = LIBXSMM_X86_GP_REG_R13 and
        idx = LIBXSMM_X86_GP_REG_R9 and scale = 4 and d = "- 256" and v = LIBXSMM_X86_SIMD_NAME_ZMM and src = 25 and dst = 17 and
        k = 3 and z = 1 and rest = "[]"]
    by (simp add: bcast_ok_def mem_operand_ok_def int32_def mem_operand_def)
qed

text \<open>Bits 1 and 2 of the control byte of the embedded rounding are the rounding mode.\<close>

definition rounding :: "u8 \<Rightarrow> nat" where
  "rounding sae = unat (take_bit 2 (drop_bit 1 sae))"

lemma sae_l:
  fixes sae :: u8
  shows "0x60 AND push_bit 4 sae \<in> {0, 0x20, 0x40, 0x60}" "unat (drop_bit 5 (0x60 AND push_bit 4 sae)) = rounding sae"
proof -
  have "0x60 AND push_bit 4 sae = (if bit sae 1 then 0x20 else 0) + (if bit sae 2 then 0x40 else 0)"
    by (rule u8_eqI) (simp_all add: bit_simps)
  then show "0x60 AND push_bit 4 sae \<in> {0, 0x20, 0x40, 0x60}" by auto
  have "drop_bit 5 (0x60 AND push_bit 4 sae) = take_bit 2 (drop_bit 1 sae)"
    by (rule u8_eqI) (simp_all add: bit_simps numeral_2_eq_2)
  then show "unat (drop_bit 5 (0x60 AND push_bit 4 sae)) = rounding sae" by (simp only: rounding_def)
qed

text \<open>
  C14: On a stream with 20 bytes of space, \<open>libxsmm_x86_instruction_evex_compute_3reg\<close> appends exactly one EVEX instruction on
  registers that decodes to the op-code of the instruction number, the three vector registers (all 32), the mask register and
  zeroing, and the length of the vector, or with embedded rounding its mode in the place of the length.
\<close>

theorem evex_regs_decodes:
  assumes room: "room 20 g" and ok: "evex_ok i" and r: "r0 < 32" "r1 < 32" "dst < 32" and k: "k < 8"
  shows "decode_evex False 1 (emitted_bytes g (libxsmm_x86_instruction_evex_compute_3reg g i v r0 r1 dst k z sae) @ rest) =
    Some (Evex (evex_map i) (vex_pp i) (bit i 23) (if sae = 0 then vlen v else rounding sae) (ucast i)
      (unat dst) (unat r1) (Register (unat r0)) (unat k) (z \<noteq> 0 \<and> k \<noteq> 0) (sae \<noteq> 0), rest)"
proof -
  define q where "q = tbl_evex_BX ! unat r0"
  define l where "l = (if sae = 0 then evex_vl v else 0x60 AND push_bit 4 sae)"
  define p0 where "p0 = ucast (drop_bit 12 i AND 0x0f) OR tbl_evex_RRp ! unat dst OR q"
  define p1 where "p1 = ucast (drop_bit 16 i AND 0x87) OR tbl_evex_vvvv ! unat r1"
  define p2 where "p2 = (if bit r1 4 then 0 else 8) OR l OR (if sae \<noteq> 0 then 0x10 else 0) OR evex_masking k z"
  have p2': "tbl_evex_vp ! unat r1 OR (if sae = 0 then evex_vl v else 0x60 AND push_bit 4 sae) OR evex_masking k z OR
      (if sae = 0 then 0x00 else 0x10) = p2"
    by (simp add: p2_def l_def vp_val [OF r(2)] or.assoc or.commute or.left_commute)
  let ?bs = "[0x62, p0, p1, p2, ucast i, modrm_regs dst r0]"
  have n31: "\<not> 31 < dst" "\<not> 31 < r0" "\<not> 31 < r1" using r by (auto simp: word_less_nat_alt)
  have "libxsmm_x86_instruction_evex_compute_3reg g i v r0 r1 dst k z sae = put_bytes g ?bs"
    using room_space20 [OF room] n31
    unfolding libxsmm_x86_instruction_evex_compute_3reg_def Let_def p2' p0_def p1_def q_def by (simp only: if_False simp_thms)
  then have e: "emitted_bytes g (libxsmm_x86_instruction_evex_compute_3reg g i v r0 r1 dst k z sae) = ?bs"
    using emitted_room [OF room, of ?bs] by simp
  note q = BX_bits [OF r(1) q_def]
  have l: "l \<in> {0, 0x20, 0x40, 0x60}" "unat (drop_bit 5 l) = (if sae = 0 then vlen v else rounding sae)"
    using sae_l [of sae] evex_vl_cases [of v] drop_vl [of v] by (auto simp: l_def)
  have v: "if False then r1 < 16 else bit r1 4 = bit r1 4" by simp
  show ?thesis
    unfolding e
    using decode_evex_bytes [OF ok r(3) r(2) k l(1) q(3-7) q(8) p0_def p1_def p2_def v decode_regs] low3_ext4 [OF r(1)]
    by (simp add: q l(2))
qed

theorem evex_regs_decodes_witness:
  "decode_evex False 1 (emitted_bytes (fresh_stream LIBXSMM_X86_AVX512_SKX 64)
     (libxsmm_x86_instruction_evex_compute_3reg (fresh_stream LIBXSMM_X86_AVX512_SKX 64) LIBXSMM_X86_INSTR_VADDPS
        LIBXSMM_X86_SIMD_NAME_ZMM 31 8 16 2 0 0) @ []) =
   Some (Evex 1 0 False 2 0x58 16 8 (Register 31) 2 False False, [])"
proof -
  have "evex_ok LIBXSMM_X86_INSTR_VADDPS" "evex_map LIBXSMM_X86_INSTR_VADDPS = 1" "vex_pp LIBXSMM_X86_INSTR_VADDPS = 0"
    "\<not> bit LIBXSMM_X86_INSTR_VADDPS 23"
    by code_simp+
  then show ?thesis
    using evex_regs_decodes [OF fresh_room, where i = LIBXSMM_X86_INSTR_VADDPS and v = LIBXSMM_X86_SIMD_NAME_ZMM and ?r0.0 = 31 and
        ?r1.0 = 8 and dst = 16 and k = 2 and z = 0 and sae = 0 and rest = "[]"]
    by simp
qed

end
