(* ===== verification/X86_Jumps.thy ===== *)
theory X86_Jumps
  imports X86_Safe X86_Round AArch64_Stream
begin

text \<open>
  The jumps of \<open>src/generator_x86_instructions.c\<close>: the bytes of a jump, loops with labels behind the jump, and labels
  that are registered before or after the jumps to them. Proved is that in any interleaving of instructions, jumps and
  labels that leaves no error, every jump to a registered label reaches it.
\<close>

section \<open>The bytes of a jump\<close>

primrec store_bytes :: "(nat \<Rightarrow> u8) \<Rightarrow> nat \<Rightarrow> u8 list \<Rightarrow> nat \<Rightarrow> u8" where
  "store_bytes buf a [] = buf"
| "store_bytes buf a (b # bs) = store_bytes (buf(a := b)) (a + 1) bs"

text \<open>The value of \<open>l_jmptype\<close>.\<close>

definition jump_type :: "u32 \<Rightarrow> u8 option" where
  "jump_type i_jmp_instr =
   (if i_jmp_instr = LIBXSMM_X86_INSTR_JL then Some 0x7c
    else if i_jmp_instr = LIBXSMM_X86_INSTR_JE \<or> i_jmp_instr = LIBXSMM_X86_INSTR_JZ then Some 0x74
    else if i_jmp_instr = LIBXSMM_X86_INSTR_JG then Some 0x7f
    else if i_jmp_instr = LIBXSMM_X86_INSTR_JNE \<or> i_jmp_instr = LIBXSMM_X86_INSTR_JNZ then Some 0x75
    else if i_jmp_instr = LIBXSMM_X86_INSTR_JGE then Some 0x7d
    else if i_jmp_instr = LIBXSMM_X86_INSTR_JLE then Some 0x7e
    else if i_jmp_instr = LIBXSMM_X86_INSTR_JMP then Some 0xeb
    else None)"

text \<open>The bytes that are stored at the source; a negative destination is one that is not known yet.\<close>

definition jump_bytes :: "u8 \<Rightarrow> int \<Rightarrow> int \<Rightarrow> u32 \<Rightarrow> u8 list" where
  "jump_bytes l_jmptype i_src_location i_dest_location i_jmp_instr =
   (if i_dest_location < 0 then
      (if i_jmp_instr = LIBXSMM_X86_INSTR_JMP then [0xe9, 0x00, 0x00, 0x00, 0x00]
       else [0x0f, l_jmptype + 0x10, 0x00, 0x00, 0x00, 0x00])
    else if i_src_location > i_dest_location then
      (let l_dist = -1 * (i_src_location + 2 - i_dest_location)
       in if l_dist \<ge> -128 then [l_jmptype, word_of_int l_dist]
          else if i_jmp_instr \<noteq> LIBXSMM_X86_INSTR_JMP
          then [0x0f, l_jmptype + 0x10] @ disp32 (-1 * (i_src_location + 6 - i_dest_location))
          else [0xe9] @ disp32 (-1 * (i_src_location + 5 - i_dest_location)))
    else if i_jmp_instr = LIBXSMM_X86_INSTR_JMP then [0xe9] @ disp32 (i_dest_location - i_src_location - 5)
    else [0x0f, l_jmptype + 0x10] @ disp32 (i_dest_location - i_src_location - 6))"

definition internal_x86_jumping :: "gencode \<Rightarrow> int \<Rightarrow> int \<Rightarrow> u32 \<Rightarrow> gencode \<times> int" where
  "internal_x86_jumping io_generated_code i_src_location i_dest_location i_jmp_instr =
   (case jump_type i_jmp_instr of
      None \<Rightarrow> (libxsmm_handle_error io_generated_code LIBXSMM_ERR_UNSUPPORTED_JUMP, 0)
    | Some l_jmptype \<Rightarrow>
        if i_src_location < 0 then (LIBXSMM_EXIT_ERROR io_generated_code, 0)
        else if word_of_int i_src_location > code_size io_generated_code then (LIBXSMM_EXIT_ERROR io_generated_code, 0)
        else if i_dest_location \<ge> 0 \<and> (i_src_location = i_dest_location \<or> i_src_location = i_dest_location + 1)
        then (LIBXSMM_EXIT_ERROR io_generated_code, 0)
        else
          (let bs = jump_bytes l_jmptype i_src_location i_dest_location i_jmp_instr
           in (io_generated_code\<lparr>generated_code := store_bytes (generated_code io_generated_code) (nat i_src_location) bs\<rparr>,
               int (length bs))))"

section \<open>Labels\<close>

definition libxsmm_x86_instruction_register_jump_back_label ::
    "(gencode \<times> libxsmm_loop_label_tracker \<Rightarrow> gencode \<times> libxsmm_loop_label_tracker) \<Rightarrow>
     gencode \<Rightarrow> libxsmm_loop_label_tracker \<Rightarrow> gencode \<times> libxsmm_loop_label_tracker" where
  "libxsmm_x86_instruction_register_jump_back_label asm io_generated_code t =
   (if label_count t = 512 then (libxsmm_handle_error io_generated_code LIBXSMM_ERR_EXCEED_JMPLBL, t)
    else if code_type io_generated_code > 1 then
      (let l_lab = label_count t;
           t = t\<lparr>label_count := label_count t + 1\<rparr>
       in (io_generated_code, t\<lparr>loop_label_address := (loop_label_address t)(unat l_lab := code_size io_generated_code)\<rparr>))
    else asm (io_generated_code, t))"

definition libxsmm_x86_instruction_jump_back_to_label ::
    "(gencode \<times> libxsmm_loop_label_tracker \<Rightarrow> gencode \<times> libxsmm_loop_label_tracker) \<Rightarrow>
     gencode \<Rightarrow> u32 \<Rightarrow> libxsmm_loop_label_tracker \<Rightarrow> gencode \<times> libxsmm_loop_label_tracker" where
  "libxsmm_x86_instruction_jump_back_to_label asm io_generated_code i_jmp_instr t =
   (if i_jmp_instr \<notin> set jump_instrs then (libxsmm_handle_error io_generated_code LIBXSMM_ERR_UNSUPPORTED_JUMP, t)
    else if label_count t = 0 then (libxsmm_handle_error io_generated_code LIBXSMM_ERR_NO_JMPLBL_AVAIL, t)
    else if code_type io_generated_code > 1 then
      (let l_lab = label_count t - 1;
           t = t\<lparr>label_count := l_lab\<rparr>;
           l_val = sint (loop_label_address t (unat l_lab))
       in if buffer_size io_generated_code - code_size io_generated_code < 6
          then (libxsmm_handle_error io_generated_code LIBXSMM_ERR_BUFFER_TOO_SMALL, t)
          else
            (let (g, l_tmp) = internal_x86_jumping io_generated_code (sint (code_size io_generated_code)) l_val i_jmp_instr
             in (g\<lparr>code_size := code_size io_generated_code + word_of_int l_tmp\<rparr>, t)))
    else asm (io_generated_code, t))"

text \<open>The loop of \<open>register_jump_label\<close> over the recorded references.\<close>

primrec patch_jumps :: "gencode \<Rightarrow> libxsmm_jump_source \<Rightarrow> nat \<Rightarrow> gencode" where
  "patch_jumps g l_source 0 = g"
| "patch_jumps g l_source (Suc l_ref) =
   (let g = patch_jumps g l_source l_ref
    in fst (internal_x86_jumping g (sint (instr_addr l_source l_ref)) (sint (code_size g)) (instr_type l_source l_ref)))"

definition libxsmm_x86_instruction_register_jump_label ::
    "(gencode \<times> libxsmm_jump_label_tracker \<Rightarrow> gencode \<times> libxsmm_jump_label_tracker) \<Rightarrow>
     gencode \<Rightarrow> u32 \<Rightarrow> libxsmm_jump_label_tracker \<Rightarrow> gencode \<times> libxsmm_jump_label_tracker" where
  "libxsmm_x86_instruction_register_jump_label asm io_generated_code i_label_no t =
   (if i_label_no \<ge> 512 then (libxsmm_handle_error io_generated_code LIBXSMM_ERR_EXCEED_JMPLBL, t)
    else if jump_label_address t (unat i_label_no) > 0
    then (libxsmm_handle_error io_generated_code LIBXSMM_ERR_JMPLBL_USED, t)
    else if code_type io_generated_code > 1 then
      (let l_source = label_source t (unat i_label_no)
       in (patch_jumps io_generated_code l_source (unat (ref_count l_source)),
           t\<lparr>jump_label_address := (jump_label_address t)(unat i_label_no := code_size io_generated_code)\<rparr>))
    else asm (io_generated_code, t))"

definition libxsmm_x86_instruction_jump_to_label ::
    "(gencode \<times> libxsmm_jump_label_tracker \<Rightarrow> gencode \<times> libxsmm_jump_label_tracker) \<Rightarrow>
     gencode \<Rightarrow> u32 \<Rightarrow> u32 \<Rightarrow> libxsmm_jump_label_tracker \<Rightarrow> gencode \<times> libxsmm_jump_label_tracker" where
  "libxsmm_x86_instruction_jump_to_label asm io_generated_code i_jmp_instr i_label_no t =
   (if \<not> i_label_no < 512 then (libxsmm_handle_error io_generated_code LIBXSMM_ERR_EXCEED_JMPLBL, t)
    else if ref_count (label_source t (unat i_label_no)) = 512 - 1
    then (libxsmm_handle_error io_generated_code LIBXSMM_ERR_EXCEED_JMPLBL, t)
    else
      (let s = label_source t (unat i_label_no);
           l_pos = ref_count s;
           s = s\<lparr>instr_type := (instr_type s)(unat l_pos := i_jmp_instr)\<rparr>;
           s = s\<lparr>instr_addr := (instr_addr s)(unat l_pos := code_size io_generated_code)\<rparr>;
           s = s\<lparr>ref_count := ref_count s + 1\<rparr>;
           t = t\<lparr>label_source := (label_source t)(unat i_label_no := s)\<rparr>
       in if code_type io_generated_code > 1 then
            (let l_dest_addr = (if jump_label_address t (unat i_label_no) = 0 then -1
                                else sint (jump_label_address t (unat i_label_no)));
                 (g, l_tmp) = internal_x86_jumping io_generated_code (sint (code_size io_generated_code)) l_dest_addr i_jmp_instr
             in (g\<lparr>code_size := code_size g + word_of_int l_tmp\<rparr>, t))
          else asm (io_generated_code, t)))"

section \<open>Jumps that are read back\<close>

lemma store_bytes_at: "store_bytes buf a bs k = (if a \<le> k \<and> k < a + length bs then bs ! (k - a) else buf k)"
  by (induction bs arbitrary: buf a) (auto simp: nth_Cons')

text \<open>The condition, the length and the target of the jump at an address.\<close>

definition rel32 :: "(nat \<Rightarrow> u8) \<Rightarrow> nat \<Rightarrow> int" where
  "rel32 buf a = sint (ld32 [buf a, buf (a + 1), buf (a + 2), buf (a + 3)])"

definition jump_at :: "(nat \<Rightarrow> u8) \<Rightarrow> nat \<Rightarrow> (u8 \<times> nat \<times> int) option" where
  "jump_at buf a =
   (if buf a = 0xeb \<or> drop_bit 4 (buf a) = 7 then Some (buf a, 2, int a + 2 + sint (buf (a + 1)))
    else if buf a = 0xe9 then Some (0xeb, 5, int a + 5 + rel32 buf (a + 1))
    else if buf a = 0x0f \<and> drop_bit 4 (buf (a + 1)) = 8 then Some (buf (a + 1) - 0x10, 6, int a + 6 + rel32 buf (a + 2))
    else None)"

lemma jump_type_cases:
  "jump_type i = Some jt \<Longrightarrow> (i = LIBXSMM_X86_INSTR_JMP \<and> jt = 0xeb) \<or> (i \<noteq> LIBXSMM_X86_INSTR_JMP \<and> jt \<in> {0x74, 0x75, 0x7c, 0x7d, 0x7e, 0x7f})"
  by (auto simp: jump_type_def split: if_splits)

lemma rel32_store:
  assumes "\<And>j. j < 4 \<Longrightarrow> buf (a + j) = disp32 d ! j" and "int32 d"
  shows "rel32 buf a = d"
proof -
  have "[buf a, buf (a + 1), buf (a + 2), buf (a + 3)] = disp32 d"
    using assms(1) [of 0] assms(1) [of 1] assms(1) [of 2] assms(1) [of 3] by (simp add: disp32_def)
  then show ?thesis
    using assms(2) ld32_disp32 [of d] sint_word_of_int [where 'a = 32, of d] by (simp add: rel32_def int32_def)
qed

lemma jump_at_short:
  "jt = 0xeb \<or> jt \<in> {0x74, 0x75, 0x7c, 0x7d, 0x7e, 0x7f} \<Longrightarrow> buf a = jt \<Longrightarrow> buf (a + 1) = word_of_int (dest - (int a + 2)) \<Longrightarrow>
   -128 \<le> dest - (int a + 2) \<Longrightarrow> dest - (int a + 2) \<le> 127 \<Longrightarrow> jump_at buf a = Some (jt, 2, dest)"
  using sint_word_of_int [where 'a = 8, of "dest - (int a + 2)"] by (auto simp: jump_at_def)

lemma jump_at_jmp:
  assumes "buf a = 0xe9" and "\<And>j. j < 4 \<Longrightarrow> buf (a + 1 + j) = disp32 (dest - (int a + 5)) ! j" and "int32 (dest - (int a + 5))"
  shows "jump_at buf a = Some (0xeb, 5, dest)"
  using rel32_store [of buf "a + 1"] assms by (simp add: jump_at_def)

lemma jump_at_cond:
  assumes "jt \<in> {0x74, 0x75, 0x7c, 0x7d, 0x7e, 0x7f}" and "buf a = 0x0f" and "buf (a + 1) = jt + 0x10"
    and "\<And>j. j < 4 \<Longrightarrow> buf (a + 2 + j) = disp32 (dest - (int a + 6)) ! j" and "int32 (dest - (int a + 6))"
  shows "jump_at buf a = Some (jt, 6, dest)"
  using rel32_store [of buf "a + 2" "dest - (int a + 6)"] assms by (auto simp: jump_at_def)

lemma jump_bytes_reach:
  assumes t: "jump_type i = Some jt" and d: "0 \<le> dest" and b: "int a + 6 < 2 ^ 31" "dest < 2 ^ 31"
    and l: "\<And>k. k < length (jump_bytes jt (int a) dest i) \<Longrightarrow> buf (a + k) = jump_bytes jt (int a) dest i ! k"
  shows "jump_at buf a = Some (jt, length (jump_bytes jt (int a) dest i), dest)"
proof -
  have i32: "int32 (dest - (int a + 5))" "int32 (dest - (int a + 6))" using d b by (simp_all add: int32_def)
  have s5: "- (int a + 5 - dest) = dest - (int a + 5)" "- (int a + 6 - dest) = dest - (int a + 6)"
    "dest - int a - 5 = dest - (int a + 5)" "dest - int a - 6 = dest - (int a + 6)" "- (int a + 2 - dest) = dest - (int a + 2)"
    by simp_all
  consider (short) "dest < int a" "-128 \<le> dest - (int a + 2)"
    | (long) "\<not> (dest < int a \<and> -128 \<le> dest - (int a + 2))" by blast
  then show ?thesis
  proof cases
    case short
    then have j: "jump_bytes jt (int a) dest i = [jt, word_of_int (dest - (int a + 2))]"
      using d by (simp add: jump_bytes_def)
    have "jump_at buf a = Some (jt, 2, dest)"
      using short l [of 0] l [of 1] jump_type_cases [OF t] unfolding j by (intro jump_at_short) auto
    then show ?thesis by (simp add: j)
  next
    case long
    show ?thesis
    proof (cases "i = LIBXSMM_X86_INSTR_JMP")
      case True
      then have j: "jump_bytes jt (int a) dest i = 0xe9 # disp32 (dest - (int a + 5))"
        using d long by (auto simp: jump_bytes_def s5)
      have "jump_at buf a = Some (0xeb, 5, dest)"
      proof (rule jump_at_jmp [OF _ _ i32(1)])
        show "buf a = 0xe9" using l [of 0] unfolding j by simp
        show "buf (a + 1 + k) = disp32 (dest - (int a + 5)) ! k" if "k < 4" for k
          using l [of "Suc k"] that unfolding j by (simp add: disp32_def)
      qed
      moreover have "length (jump_bytes jt (int a) dest i) = 5" unfolding j by (simp add: disp32_def)
      ultimately show ?thesis using True jump_type_cases [OF t] by simp
    next
      case False
      then have j: "jump_bytes jt (int a) dest i = 0x0f # (jt + 0x10) # disp32 (dest - (int a + 6))"
        using d long by (auto simp: jump_bytes_def s5)
      have "jump_at buf a = Some (jt, 6, dest)"
      proof (rule jump_at_cond [OF _ _ _ _ i32(2)])
        show "jt \<in> {0x74, 0x75, 0x7c, 0x7d, 0x7e, 0x7f}" using False jump_type_cases [OF t] by blast
        show "buf a = 0x0f" "buf (a + 1) = jt + 0x10" using l [of 0] l [of 1] unfolding j by simp_all
        show "buf (a + 2 + k) = disp32 (dest - (int a + 6)) ! k" if "k < 4" for k
          using l [of "Suc (Suc k)"] that unfolding j by (simp add: disp32_def)
      qed
      then show ?thesis by (simp add: j disp32_def)
    qed
  qed
qed

text \<open>The length of the jump that starts with a byte.\<close>

definition jump_len :: "u8 \<Rightarrow> nat" where
  "jump_len b = (if b = 0x0f then 6 else if b = 0xe9 then 5 else 2)"

definition long_op :: "u32 \<Rightarrow> u8" where
  "long_op i = (if i = LIBXSMM_X86_INSTR_JMP then 0xe9 else 0x0f)"

lemma jump_bytes_len:
  assumes "jump_type i = Some jt"
  shows "length (jump_bytes jt s d i) = jump_len (hd (jump_bytes jt s d i))" "0 < length (jump_bytes jt s d i)"
    "length (jump_bytes jt s d i) \<le> 6"
  using jump_type_cases [OF assms] by (auto simp: jump_bytes_def jump_len_def disp32_def Let_def)

lemma jump_bytes_long:
  assumes "d < 0 \<or> s \<le> d"
  shows "hd (jump_bytes jt s d i) = long_op i" "length (jump_bytes jt s d i) = jump_len (long_op i)"
  using assms by (auto simp: jump_bytes_def jump_len_def long_op_def disp32_def)

section \<open>References\<close>

definition ref_type :: "libxsmm_jump_label_tracker \<Rightarrow> nat \<Rightarrow> nat \<Rightarrow> u32" where
  "ref_type t l k = instr_type (label_source t l) k"

definition ref_len :: "gencode \<Rightarrow> libxsmm_jump_label_tracker \<Rightarrow> nat \<Rightarrow> nat \<Rightarrow> nat" where
  "ref_len g t l k = jump_len (generated_code g (ref_addr t l k))"

definition jref_ok :: "gencode \<Rightarrow> libxsmm_jump_label_tracker \<Rightarrow> nat \<Rightarrow> nat \<Rightarrow> bool" where
  "jref_ok g t l k \<longleftrightarrow>
    (\<exists>jt. jump_type (ref_type t l k) = Some jt \<and> ref_addr t l k + ref_len g t l k \<le> unat (code_size g) \<and>
      (if jump_label_address t l = 0 then generated_code g (ref_addr t l k) = long_op (ref_type t l k)
       else jump_at (generated_code g) (ref_addr t l k) = Some (jt, ref_len g t l k, int (unat (jump_label_address t l)))))"

definition apart :: "gencode \<Rightarrow> libxsmm_jump_label_tracker \<Rightarrow> nat \<times> nat \<Rightarrow> nat \<times> nat \<Rightarrow> bool" where
  "apart g t p q \<longleftrightarrow> (case p of (l, k) \<Rightarrow> case q of (l', k') \<Rightarrow>
     ref_addr t l k + ref_len g t l k \<le> ref_addr t l' k' \<or> ref_addr t l' k' + ref_len g t l' k' \<le> ref_addr t l k)"

definition refs :: "libxsmm_jump_label_tracker \<Rightarrow> (nat \<times> nat) set" where
  "refs t = {(l, k). l < 512 \<and> k < ref_num t l}"

text \<open>
  The invariant: every recorded reference is a jump in the code already generated, in its long form as long as its label
  is not known and to the label once it is; the jumps do not overlap.
\<close>

definition x86_jump_inv :: "gencode \<Rightarrow> libxsmm_jump_label_tracker \<Rightarrow> bool" where
  "x86_jump_inv g t \<longleftrightarrow> 1 < code_type g \<and> room 0 g \<and> unat (buffer_size g) < 2 ^ 31 - 16 \<and>
    (\<forall>l<512. unat (jump_label_address t l) \<le> unat (code_size g) \<and> ref_num t l \<le> 511) \<and>
    (\<forall>(l, k)\<in>refs t. jref_ok g t l k) \<and> (\<forall>p\<in>refs t. \<forall>q\<in>refs t. p \<noteq> q \<longrightarrow> apart g t p q)"

lemma jump_len_pos: "2 \<le> jump_len b"
  by (simp add: jump_len_def)

lemma jump_at_cong:
  assumes "jump_at buf a = Some (jt, n, d)" and "\<And>x. a \<le> x \<Longrightarrow> x < a + n \<Longrightarrow> buf' x = buf x"
  shows "jump_at buf' a = Some (jt, n, d)"
proof -
  have "2 \<le> n" using assms(1) by (auto simp: jump_at_def split: if_splits)
  then have "buf' a = buf a" "buf' (a + 1) = buf (a + 1)" using assms(2) by simp_all
  moreover have "n = 5 \<Longrightarrow> rel32 buf' (a + 1) = rel32 buf (a + 1)" "n = 6 \<Longrightarrow> rel32 buf' (a + 2) = rel32 buf (a + 2)"
    using assms(2) by (simp_all add: rel32_def)
  ultimately show ?thesis using assms(1) by (auto simp: jump_at_def split: if_splits)
qed

lemma jref_ok_cong:
  assumes "jref_ok g t l k" and "\<And>x. ref_addr t l k \<le> x \<Longrightarrow> x < ref_addr t l k + ref_len g t l k \<Longrightarrow> generated_code g' x = generated_code g x"
    and "unat (code_size g) \<le> unat (code_size g')"
    and "ref_addr t' l k = ref_addr t l k" "ref_type t' l k = ref_type t l k" "jump_label_address t' l = jump_label_address t l"
  shows "jref_ok g' t' l k \<and> ref_len g' t' l k = ref_len g t l k"
proof -
  have "generated_code g' (ref_addr t l k) = generated_code g (ref_addr t l k)"
    using assms(2) jump_len_pos [of "generated_code g (ref_addr t l k)"] by (simp add: ref_len_def)
  then have n: "ref_len g' t' l k = ref_len g t l k" by (simp add: ref_len_def assms(4))
  obtain jt where "jump_type (ref_type t l k) = Some jt" "ref_addr t l k + ref_len g t l k \<le> unat (code_size g)"
    and j: "if jump_label_address t l = 0 then generated_code g (ref_addr t l k) = long_op (ref_type t l k)
       else jump_at (generated_code g) (ref_addr t l k) = Some (jt, ref_len g t l k, int (unat (jump_label_address t l)))"
    using assms(1) by (auto simp: jref_ok_def)
  then show ?thesis
    using n assms(2-6) jump_at_cong [of "generated_code g" "ref_addr t l k" jt "ref_len g t l k"
        "int (unat (jump_label_address t l))" "generated_code g'"]
      \<open>generated_code g' (ref_addr t l k) = generated_code g (ref_addr t l k)\<close>
    by (auto simp: jref_ok_def split: if_splits)
qed

lemma x86_inv_keep:
  assumes inv: "x86_jump_inv g t" and s: "code_type g' = code_type g" "buffer_size g' = buffer_size g" "room 0 g'"
      "unat (code_size g) \<le> unat (code_size g')"
    and r: "\<And>l k. (l, k) \<in> refs t \<Longrightarrow> jref_ok g' t l k \<and> ref_len g' t l k = ref_len g t l k"
  shows "x86_jump_inv g' t"
proof -
  have "apart g' t p q = apart g t p q" if "p \<in> refs t" "q \<in> refs t" for p q
    using r [of "fst p" "snd p"] r [of "fst q" "snd q"] that by (simp add: apart_def case_prod_beta)
  moreover have "\<forall>l<512. unat (jump_label_address t l) \<le> unat (code_size g') \<and> ref_num t l \<le> 511"
    using inv s(4) by (auto simp: x86_jump_inv_def intro: le_trans)
  moreover have "\<forall>(l, k)\<in>refs t. jref_ok g' t l k" using r by blast
  ultimately show ?thesis
    using inv s(1-3) by (simp add: x86_jump_inv_def)
qed

lemma x86_inv_appends:
  assumes inv: "x86_jump_inv g t" and a: "appends g g'" and e: "last_error g' = 0"
  shows "x86_jump_inv g' t"
proof -
  have r: "room 0 g" using inv by (simp add: x86_jump_inv_def)
  obtain bs where g': "g' = put_bytes g bs" and bs: "room (length bs) g"
    using a e r by (auto simp: appends_def)
  have cs: "unat (code_size g') = unat (code_size g) + length bs"
    using unat_put_bytes [OF room_no_wrap [OF bs]] g' by simp
  have code: "generated_code g' x = generated_code g x" if "x < unat (code_size g)" for x
    using put_bytes_at [OF room_no_wrap [OF bs], of x] that g' by simp
  show ?thesis
  proof (rule x86_inv_keep [OF inv])
    fix l k
    assume "(l, k) \<in> refs t"
    then have ok: "jref_ok g t l k" using inv by (auto simp: x86_jump_inv_def)
    show "jref_ok g' t l k \<and> ref_len g' t l k = ref_len g t l k"
    proof (rule jref_ok_cong [OF ok])
      show "generated_code g' x = generated_code g x" if "x < ref_addr t l k + ref_len g t l k" for x
        using code [of x] ok that by (auto simp: jref_ok_def)
    qed (use cs in auto)
  qed (use bs cs in \<open>simp_all add: g' put_bytes_keeps room_def\<close>)
qed

section \<open>A jump to a label\<close>

lemma jumping_ok:
  assumes "jump_type i = Some jt" and "a < 2 ^ 31" and "a \<le> unat (code_size g)" and "dest < 0 \<or> int a \<noteq> dest \<and> int a \<noteq> dest + 1"
  shows "internal_x86_jumping g (int a) dest i =
    (g\<lparr>generated_code := store_bytes (generated_code g) a (jump_bytes jt (int a) dest i)\<rparr>, int (length (jump_bytes jt (int a) dest i)))"
proof -
  have "\<not> code_size g < word_of_nat a" using assms(2,3) by (simp add: word_less_nat_alt unat_of_nat)
  then show ?thesis using assms by (auto simp: internal_x86_jumping_def Let_def)
qed

lemma jumping_error: "last_error (fst (internal_x86_jumping g s d i)) = 0 \<Longrightarrow>
    last_error g = 0 \<and> (\<exists>jt. jump_type i = Some jt) \<and> (d < 0 \<or> s \<noteq> d \<and> s \<noteq> d + 1)"
  by (auto simp: internal_x86_jumping_def LIBXSMM_EXIT_ERROR_def libxsmm_handle_error_def Let_def split: option.splits if_splits)

lemma jump_to_label_eq:
  assumes "n < 512" and "ref_count (label_source t (unat n)) \<noteq> 511" and "1 < code_type g"
  shows "libxsmm_x86_instruction_jump_to_label asm g i n t =
     (case internal_x86_jumping g (sint (code_size g))
         (if jump_label_address t (unat n) = 0 then -1 else sint (jump_label_address t (unat n))) i of
        (h, k) \<Rightarrow> (h\<lparr>code_size := code_size h + word_of_int k\<rparr>, add_ref t (unat n) i (code_size g)))"
  using assms by (simp add: libxsmm_x86_instruction_jump_to_label_def Let_def add_ref_def)

lemma jump_to_label_fails:
  assumes "\<not> (n < 512 \<and> ref_count (label_source t (unat n)) \<noteq> 511)"
  shows "libxsmm_x86_instruction_jump_to_label asm g i n t = (libxsmm_handle_error g LIBXSMM_ERR_EXCEED_JMPLBL, t)"
  using assms by (auto simp: libxsmm_x86_instruction_jump_to_label_def)

lemma jump_to_label_ok:
  assumes e: "last_error (fst (libxsmm_x86_instruction_jump_to_label asm g i n t)) = 0"
    and c: "1 < code_type g" "unat (code_size g) < 2 ^ 31"
  shows "\<exists>jt d. last_error g = 0 \<and> n < 512 \<and> ref_num t (unat n) \<noteq> 511 \<and> jump_type i = Some jt \<and>
    d = (if jump_label_address t (unat n) = 0 then -1 else sint (jump_label_address t (unat n))) \<and>
    (d < 0 \<or> int (unat (code_size g)) \<noteq> d \<and> int (unat (code_size g)) \<noteq> d + 1) \<and>
    libxsmm_x86_instruction_jump_to_label asm g i n t =
      (g\<lparr>generated_code := store_bytes (generated_code g) (unat (code_size g)) (jump_bytes jt (int (unat (code_size g))) d i),
         code_size := code_size g + word_of_nat (length (jump_bytes jt (int (unat (code_size g))) d i))\<rparr>,
       add_ref t (unat n) i (code_size g))"
proof -
  define d where "d = (if jump_label_address t (unat n) = 0 then -1 else sint (jump_label_address t (unat n)))"
  have "n < 512 \<and> ref_count (label_source t (unat n)) \<noteq> 511"
  proof (rule ccontr)
    assume c: "\<not> (n < 512 \<and> ref_count (label_source t (unat n)) \<noteq> 511)"
    show False using e unfolding jump_to_label_fails [OF c] by (simp add: libxsmm_handle_error_def)
  qed
  then have n: "n < 512" "ref_count (label_source t (unat n)) \<noteq> 511" by simp_all
  have s: "sint (code_size g) = int (unat (code_size g))" using c(2) by (rule sint_small)
  have j: "libxsmm_x86_instruction_jump_to_label asm g i n t =
     (case internal_x86_jumping g (int (unat (code_size g))) d i of
        (h, k) \<Rightarrow> (h\<lparr>code_size := code_size h + word_of_int k\<rparr>, add_ref t (unat n) i (code_size g)))"
    unfolding jump_to_label_eq [OF n c(1)] d_def s ..
  have e': "last_error (fst (internal_x86_jumping g (int (unat (code_size g))) d i)) = 0"
    using e unfolding j by (simp split: prod.splits)
  obtain jt where jt: "jump_type i = Some jt" "last_error g = 0"
      "d < 0 \<or> int (unat (code_size g)) \<noteq> d \<and> int (unat (code_size g)) \<noteq> d + 1"
    using jumping_error [OF e'] by blast
  have "ref_num t (unat n) \<noteq> 511" using n(2) by (simp add: ref_num_def word_unat_eq_iff)
  then show ?thesis
    using n(1) jt jumping_ok [OF jt(1) c(2) le_refl jt(3)] d_def unfolding j by auto
qed

lemma x86_inv_jump:
  assumes inv: "x86_jump_inv g t" and room: "room 6 g"
    and res: "libxsmm_x86_instruction_jump_to_label asm g i n t = (g', t')" and e: "last_error g' = 0"
  shows "x86_jump_inv g' t'"
proof -
  have b: "1 < code_type g" "unat (code_size g) < 2 ^ 31 - 16"
    using inv room by (auto simp: x86_jump_inv_def room_def)
  let ?l = "unat n" and ?a = "unat (code_size g)"
  let ?lab = "jump_label_address t ?l"
  obtain jt d where ge: "last_error g = 0" and n: "n < 512" and r: "ref_num t ?l \<noteq> 511" and jt: "jump_type i = Some jt"
    and d: "d = (if ?lab = 0 then -1 else sint ?lab)" "d < 0 \<or> int ?a \<noteq> d \<and> int ?a \<noteq> d + 1"
    and eq: "g' = g\<lparr>generated_code := store_bytes (generated_code g) ?a (jump_bytes jt (int ?a) d i),
         code_size := code_size g + word_of_nat (length (jump_bytes jt (int ?a) d i))\<rparr>" "t' = add_ref t ?l i (code_size g)"
    using jump_to_label_ok [of asm g i n t] e res b by auto
  define bs where "bs = jump_bytes jt (int ?a) d i"
  have l512: "?l < 512" using n by (simp add: word_less_nat_alt)
  have len: "length bs = jump_len (hd bs)" "0 < length bs" "length bs \<le> 6"
    using jump_bytes_len [OF jt] by (simp_all add: bs_def)
  have cs: "unat (code_size g') = ?a + length bs"
    using b(2) len(3) unfolding eq(1) bs_def [symmetric] by (simp add: unat_word_ariths unat_of_nat)
  have code: "generated_code g' x = (if ?a \<le> x \<and> x < ?a + length bs then bs ! (x - ?a) else generated_code g x)" for x
    unfolding eq(1) bs_def [symmetric] by (simp add: store_bytes_at)
  have lab: "?lab = 0 \<or> sint ?lab = int (unat ?lab)" "unat ?lab \<le> ?a"
    using inv l512 b(2) sint_small [of ?lab] by (auto simp: x86_jump_inv_def)
  have num: "ref_num t' ?l = Suc (ref_num t ?l)"
    using inv l512 r ref_num_le [of t ?l] by (simp add: eq(2) x86_jump_inv_def)
  have num': "ref_num t' m = (if m = ?l then Suc (ref_num t ?l) else ref_num t m)" for m
    using num add_ref_other(1) [of ?l m t i "code_size g"] by (simp add: eq(2))
  have refs: "refs t' = insert (?l, ref_num t ?l) (refs t)"
    using l512 by (auto simp: refs_def num' less_Suc_eq split: if_splits)
  have old: "ref_addr t' l k = ref_addr t l k" "ref_type t' l k = ref_type t l k" if "(l, k) \<in> refs t" for l k
    using that by (auto simp: refs_def ref_addr_def ref_type_def eq(2) add_ref_def ref_num_def)
  have new: "ref_addr t' ?l (ref_num t ?l) = ?a" "ref_type t' ?l (ref_num t ?l) = i"
    by (simp_all add: ref_addr_def ref_type_def eq(2) add_ref_def ref_num_def)
  have lab': "jump_label_address t' = jump_label_address t" by (simp add: eq(2) add_ref_other(3))
  have keep: "jref_ok g' t' l k \<and> ref_len g' t' l k = ref_len g t l k \<and> ref_addr t l k + ref_len g t l k \<le> ?a"
    if "(l, k) \<in> refs t" for l k
  proof -
    have ok: "jref_ok g t l k" using inv that by (auto simp: x86_jump_inv_def)
    then have "ref_addr t l k + ref_len g t l k \<le> ?a" by (auto simp: jref_ok_def)
    then show ?thesis
      using jref_ok_cong [OF ok, of g' t'] old [OF that] cs code by (simp add: lab')
  qed
  have hd: "generated_code g' ?a = hd bs" using len(2) by (simp add: code hd_conv_nth)
  have nl: "ref_len g' t' ?l (ref_num t ?l) = length bs" by (simp add: ref_len_def new hd len(1))
  have "jref_ok g' t' ?l (ref_num t ?l)"
  proof (cases "?lab = 0")
    case True
    then have "hd bs = long_op i" using jump_bytes_long(1) [of d "int ?a" jt i] d by (simp add: bs_def)
    then show ?thesis using True jt nl cs by (simp add: jref_ok_def new hd lab')
  next
    case False
    have dl: "d = int (unat ?lab)" using False d(1) lab(1) by metis
    have "jump_at (generated_code g') ?a = Some (jt, length bs, d)"
      unfolding bs_def
    proof (rule jump_bytes_reach [OF jt])
      have "unat (code_size g) < 2147483632" using b(2) by simp
      then have "0 \<le> d \<and> int ?a + 6 < 2147483648 \<and> d < 2147483648" using dl lab(2) by linarith
      then show "0 \<le> d" "int ?a + 6 < 2 ^ 31" "d < 2 ^ 31" by simp_all
      show "generated_code g' (?a + k) = jump_bytes jt (int ?a) d i ! k" if "k < length (jump_bytes jt (int ?a) d i)" for k
        using that unfolding bs_def [symmetric] by (simp add: code)
    qed
    then show ?thesis using False jt nl cs dl by (simp add: jref_ok_def new lab')
  qed
  moreover have "apart g' t' p q" if "p \<in> refs t'" "q \<in> refs t'" "p \<noteq> q" for p q
  proof -
    have "apart g t p q" if "p \<in> refs t" "q \<in> refs t" using inv that \<open>p \<noteq> q\<close> by (simp add: x86_jump_inv_def)
    then show ?thesis
      using that keep old new nl unfolding refs by (auto simp: apart_def)
  qed
  moreover have "\<forall>(l, k)\<in>refs t'. jref_ok g' t' l k" using calculation(1) keep unfolding refs by blast
  moreover have "\<forall>m<512. unat (jump_label_address t' m) \<le> unat (code_size g') \<and> ref_num t' m \<le> 511"
    using inv r cs num' by (auto simp: x86_jump_inv_def lab' le_Suc_eq trans_le_add1)
  moreover have "room 0 g'" using room cs len(3) by (simp add: room_def eq(1))
  ultimately show ?thesis
    using b(1) inv unfolding x86_jump_inv_def by (simp add: eq(1))
qed

section \<open>A label\<close>

text \<open>What the patched references have: the jump of the recorded type to the label.\<close>

lemma patch_jumps_spec:
  assumes inv: "x86_jump_inv g t" and l: "l < 512" "jump_label_address t l = 0" and m: "m \<le> ref_num t l"
  shows "\<exists>buf. patch_jumps g (label_source t l) m = g\<lparr>generated_code := buf\<rparr> \<and>
    (\<forall>k<m. \<exists>jt. jump_type (ref_type t l k) = Some jt \<and>
      jump_at buf (ref_addr t l k) = Some (jt, ref_len g t l k, int (unat (code_size g)))) \<and>
    (\<forall>x. (\<forall>k<m. x < ref_addr t l k \<or> ref_addr t l k + ref_len g t l k \<le> x) \<longrightarrow> buf x = generated_code g x) \<and>
    (\<forall>k<m. buf (ref_addr t l k) = generated_code g (ref_addr t l k))"
  using m
proof (induction m)
  case 0
  then show ?case by (auto intro!: exI [of _ "generated_code g"])
next
  case (Suc m)
  have in_refs: "(l, k) \<in> refs t" if "k \<le> m" for k using that Suc.prems l(1) by (simp add: refs_def)
  obtain buf where p: "patch_jumps g (label_source t l) m = g\<lparr>generated_code := buf\<rparr>"
    and patched: "\<And>k. k < m \<Longrightarrow> \<exists>jt. jump_type (ref_type t l k) = Some jt \<and>
      jump_at buf (ref_addr t l k) = Some (jt, ref_len g t l k, int (unat (code_size g)))"
    and same: "\<And>x. (\<forall>k<m. x < ref_addr t l k \<or> ref_addr t l k + ref_len g t l k \<le> x) \<Longrightarrow> buf x = generated_code g x"
    and first: "\<And>k. k < m \<Longrightarrow> buf (ref_addr t l k) = generated_code g (ref_addr t l k)"
    using Suc by (metis Suc_leD)
  let ?a = "ref_addr t l m" and ?i = "ref_type t l m" and ?cs = "unat (code_size g)"
  have "jref_ok g t l m" using inv in_refs [of m] by (auto simp: x86_jump_inv_def)
  then obtain jt where jt: "jump_type ?i = Some jt" and le: "?a + ref_len g t l m \<le> ?cs"
    and lo: "generated_code g ?a = long_op ?i"
    using l(2) by (auto simp: jref_ok_def)
  have cs: "?cs < 2147483632" using inv by (simp add: x86_jump_inv_def room_def)
  have len2: "2 \<le> ref_len g t l m" using jump_len_pos by (simp add: ref_len_def)
  have ic: "int ?a \<le> int ?cs" using le by linarith
  define bs where "bs = jump_bytes jt (int ?a) (int ?cs) ?i"
  have bs: "length bs = ref_len g t l m" "hd bs = long_op ?i" "bs \<noteq> []"
    using jump_bytes_long [OF disjI2 [OF ic]] lo jump_bytes_len(2) [OF jt] by (auto simp: bs_def ref_len_def)
  have ne: "int ?a \<noteq> int ?cs \<and> int ?a \<noteq> int ?cs + 1" using le len2 by linarith
  define buf' where "buf' = store_bytes buf ?a bs"
  have at: "buf' x = (if ?a \<le> x \<and> x < ?a + ref_len g t l m then bs ! (x - ?a) else buf x)" for x
    by (simp add: buf'_def store_bytes_at bs(1))
  have dis: "ref_addr t l k + ref_len g t l k \<le> ?a \<or> ?a + ref_len g t l m \<le> ref_addr t l k" if "k < m" for k
    using inv in_refs [of k] in_refs [of m] that by (auto simp: x86_jump_inv_def apart_def)
  have lens: "2 \<le> ref_len g t l k" for k using jump_len_pos by (simp add: ref_len_def)
  have sa: "sint (instr_addr (label_source t l) m) = int ?a" "sint (code_size g) = int ?cs"
    using sint_small [of "instr_addr (label_source t l) m"] sint_small [of "code_size g"] le cs by (auto simp: ref_addr_def)
  have "patch_jumps g (label_source t l) (Suc m) = g\<lparr>generated_code := buf'\<rparr>"
    using jumping_ok [OF jt _ _ disjI2 [OF ne], of "g\<lparr>generated_code := buf\<rparr>"] le len2 cs
    unfolding patch_jumps.simps Let_def p buf'_def bs_def by (simp add: sa ref_type_def [symmetric])
  moreover have "\<exists>jt. jump_type (ref_type t l k) = Some jt \<and>
      jump_at buf' (ref_addr t l k) = Some (jt, ref_len g t l k, int ?cs)" if "k < Suc m" for k
  proof (cases "k = m")
    case True
    have "jump_at buf' ?a = Some (jt, length bs, int ?cs)"
      unfolding bs_def
    proof (rule jump_bytes_reach [OF jt])
      have "int ?a + 6 < 2147483648 \<and> int ?cs < 2147483648" using le cs by linarith
      then show "0 \<le> int ?cs" "int ?a + 6 < 2 ^ 31" "int ?cs < 2 ^ 31" by simp_all
      show "buf' (?a + k) = jump_bytes jt (int ?a) (int ?cs) ?i ! k" if "k < length (jump_bytes jt (int ?a) (int ?cs) ?i)" for k
        using that bs(1) unfolding bs_def [symmetric] by (simp add: at)
    qed
    then show ?thesis using True jt bs(1) by simp
  next
    case False
    then have k: "k < m" using that by simp
    then obtain jt' where j: "jump_type (ref_type t l k) = Some jt'"
        "jump_at buf (ref_addr t l k) = Some (jt', ref_len g t l k, int ?cs)" using patched by blast
    have "buf' x = buf x" if "ref_addr t l k \<le> x" "x < ref_addr t l k + ref_len g t l k" for x
      using dis [OF k] that by (auto simp: at)
    then show ?thesis using jump_at_cong [OF j(2)] j(1) by blast
  qed
  moreover have "buf' x = generated_code g x" if "\<forall>k<Suc m. x < ref_addr t l k \<or> ref_addr t l k + ref_len g t l k \<le> x" for x
    using that same [of x] by (auto simp: at less_Suc_eq)
  moreover have "buf' (ref_addr t l k) = generated_code g (ref_addr t l k)" if "k < Suc m" for k
    using that first [of k] dis [of k] lens [of k] len2 bs lo by (auto simp: at less_Suc_eq hd_conv_nth)
  ultimately show ?case by blast
qed

lemma register_ok:
  assumes "last_error (fst (libxsmm_x86_instruction_register_jump_label asm g n t)) = 0" and "1 < code_type g"
  shows "n < 512 \<and> jump_label_address t (unat n) = 0 \<and>
    libxsmm_x86_instruction_register_jump_label asm g n t =
     (patch_jumps g (label_source t (unat n)) (ref_num t (unat n)),
      t\<lparr>jump_label_address := (jump_label_address t)(unat n := code_size g)\<rparr>)"
  using assms by (auto simp: libxsmm_x86_instruction_register_jump_label_def libxsmm_handle_error_def Let_def ref_num_def
      word_greater_zero_iff split: if_splits)

lemma x86_inv_label:
  assumes inv: "x86_jump_inv g t" and res: "libxsmm_x86_instruction_register_jump_label asm g n t = (g', t')" and e: "last_error g' = 0"
  shows "x86_jump_inv g' t' \<and> last_error g = 0"
proof -
  let ?l = "unat n" and ?cs = "unat (code_size g)"
  have n: "n < 512" and l0: "jump_label_address t ?l = 0"
    and eq: "g' = patch_jumps g (label_source t ?l) (ref_num t ?l)" "t' = t\<lparr>jump_label_address := (jump_label_address t)(?l := code_size g)\<rparr>"
    using register_ok [of asm g n t] inv res e by (auto simp: x86_jump_inv_def)
  have l512: "?l < 512" using n by (simp add: word_less_nat_alt)
  obtain buf where g': "g' = g\<lparr>generated_code := buf\<rparr>"
    and patched: "\<And>k. k < ref_num t ?l \<Longrightarrow> \<exists>jt. jump_type (ref_type t ?l k) = Some jt \<and>
      jump_at buf (ref_addr t ?l k) = Some (jt, ref_len g t ?l k, int ?cs)"
    and same: "\<And>x. (\<forall>k<ref_num t ?l. x < ref_addr t ?l k \<or> ref_addr t ?l k + ref_len g t ?l k \<le> x) \<Longrightarrow> buf x = generated_code g x"
    and first: "\<And>k. k < ref_num t ?l \<Longrightarrow> buf (ref_addr t ?l k) = generated_code g (ref_addr t ?l k)"
    using patch_jumps_spec [OF inv l512 l0 le_refl] unfolding eq(1) by blast
  have same_refs: "refs t' = refs t" "\<And>l k. ref_addr t' l k = ref_addr t l k" "\<And>l k. ref_type t' l k = ref_type t l k"
      "\<And>l. ref_num t' l = ref_num t l"
    and la: "jump_label_address t' = (jump_label_address t)(?l := code_size g)"
    by (simp_all add: eq(2) refs_def ref_addr_def ref_type_def ref_num_def)
  have keep: "jref_ok g' t' l k \<and> ref_len g' t' l k = ref_len g t l k" if lk: "(l, k) \<in> refs t" for l k
  proof -
    have ok: "jref_ok g t l k" using inv lk by (auto simp: x86_jump_inv_def)
    show ?thesis
    proof (cases "l = ?l")
      case True
      then have k: "k < ref_num t ?l" using lk by (simp add: refs_def)
      have n: "ref_len g' t' l k = ref_len g t l k" using first [OF k] True by (simp add: ref_len_def g' same_refs)
      have "0 < ?cs" using ok jump_len_pos [of "generated_code g (ref_addr t l k)"] by (auto simp: jref_ok_def ref_len_def)
      then have "code_size g \<noteq> 0" by auto
      then show ?thesis
        using n ok patched [OF k] True by (auto simp: jref_ok_def same_refs g' la)
    next
      case False
      show ?thesis
      proof (rule jref_ok_cong [OF ok])
        show "generated_code g' x = generated_code g x" if x: "ref_addr t l k \<le> x" "x < ref_addr t l k + ref_len g t l k" for x
        proof -
          have "apart g t (l, k) (?l, j)" if "j < ref_num t ?l" for j
            using inv lk False that l512 by (simp add: x86_jump_inv_def refs_def)
          then have "\<forall>j<ref_num t ?l. x < ref_addr t ?l j \<or> ref_addr t ?l j + ref_len g t ?l j \<le> x"
            using x by (force simp: apart_def)
          then show ?thesis using same [of x] by (simp add: g')
        qed
      qed (use False in \<open>simp_all add: same_refs g' la\<close>)
    qed
  qed
  have "apart g' t' p q = apart g t p q" if "p \<in> refs t" "q \<in> refs t" for p q
    using keep [of "fst p" "snd p"] keep [of "fst q" "snd q"] that by (simp add: apart_def case_prod_beta same_refs)
  moreover have "\<forall>(l, k)\<in>refs t. jref_ok g' t' l k" using keep by blast
  moreover have "room 0 g'" using inv by (simp add: x86_jump_inv_def g' room_def)
  ultimately show ?thesis
    using inv e by (simp add: x86_jump_inv_def g' la same_refs)
qed

section \<open>Interleavings\<close>

text \<open>
  One step of a generator with its event: a call of an instruction function, a jump to a label (which the generator makes only
  with six bytes of space left, since \<open>jump_to_label\<close> does not test for space), or the registration of a label. The event of a
  jump or label has the address at which it was made.
\<close>

datatype x86_event = Called x86_call | Jumped u32 u32 nat | Labelled u32 nat

inductive x86_step ::
    "(gencode \<Rightarrow> gencode) \<Rightarrow> gencode \<times> libxsmm_jump_label_tracker \<Rightarrow> x86_event \<Rightarrow> gencode \<times> libxsmm_jump_label_tracker \<Rightarrow> bool"
  for asm where
  step_call: "x86_step asm (g, t) (Called c) (run_x86_call asm c g, t)"
| step_jump: "room 6 g \<Longrightarrow> x86_step asm (g, t) (Jumped i n (unat (code_size g)))
    (libxsmm_x86_instruction_jump_to_label (map_prod asm (\<lambda>u. u)) g i n t)"
| step_label: "x86_step asm (g, t) (Labelled n (unat (code_size g)))
    (libxsmm_x86_instruction_register_jump_label (map_prod asm (\<lambda>u. u)) g n t)"

text \<open>A run from a state to another, with its events in the order of time.\<close>

inductive x86_run ::
    "(gencode \<Rightarrow> gencode) \<Rightarrow> gencode \<times> libxsmm_jump_label_tracker \<Rightarrow> x86_event list \<Rightarrow> gencode \<times> libxsmm_jump_label_tracker \<Rightarrow> bool"
  for asm s where
  run_start: "x86_run asm s [] s"
| run_step: "x86_run asm s tr s' \<Longrightarrow> x86_step asm s' e s'' \<Longrightarrow> x86_run asm s (tr @ [e]) s''"

lemma jumping_keeps: "code_type (fst (internal_x86_jumping g s d i)) = code_type g"
  by (simp add: internal_x86_jumping_def LIBXSMM_EXIT_ERROR_def libxsmm_handle_error_def Let_def split: option.splits)

lemma patch_jumps_keeps:
  "code_type (patch_jumps g s m) = code_type g" "last_error (patch_jumps g s m) = 0 \<Longrightarrow> last_error g = 0"
proof (induction m)
  case (Suc m)
  {
    case 1
    then show ?case using Suc by (simp add: Let_def jumping_keeps)
  next
    case 2
    then show ?case using Suc(2) jumping_error by (auto simp: Let_def)
  }
qed simp_all

lemma jumping_result:
  "internal_x86_jumping g s d i = (h, k) \<Longrightarrow> code_type h = code_type g \<and> (last_error h = 0 \<longrightarrow> last_error g = 0)"
  using jumping_error [of g s d i] jumping_keeps [of g s d i] by simp

lemma x86_step_error:
  assumes "x86_step asm s ev s'" and "1 < code_type (fst s)"
  shows "1 < code_type (fst s') \<and> (last_error (fst s') = 0 \<longrightarrow> last_error (fst s) = 0)"
  using assms
proof (induction rule: x86_step.induct)
  case (step_call g t c)
  then show ?case using run_x86_call_appends [of g asm c] by (simp add: appends_def)
next
  case (step_jump g t i n)
  then have c: "1 < code_type g" by simp
  show ?case
  proof (cases "n < 512 \<and> ref_count (label_source t (unat n)) \<noteq> 511")
    case True
    then show ?thesis
      using jump_to_label_eq [OF _ _ c, of n t] c by (auto dest: jumping_result split: prod.splits)
  next
    case False
    then show ?thesis using c unfolding jump_to_label_fails [OF False] by (simp add: libxsmm_handle_error_def)
  qed
next
  case (step_label g t n)
  then show ?case
    using patch_jumps_keeps [of g "label_source t (unat n)" "unat (ref_count (label_source t (unat n)))"]
    by (simp add: libxsmm_x86_instruction_register_jump_label_def Let_def libxsmm_handle_error_def)
qed

lemma x86_step_inv:
  assumes "x86_step asm s ev s'" and "x86_jump_inv (fst s) (snd s)" and "last_error (fst s') = 0"
  shows "x86_jump_inv (fst s') (snd s')"
  using assms
proof (induction rule: x86_step.induct)
  case (step_call g t c)
  then show ?case
    using x86_inv_appends [of g t "run_x86_call asm c g"] run_x86_call_appends [of g asm c] by (simp add: x86_jump_inv_def)
next
  case (step_jump g t i n)
  then show ?case using x86_inv_jump [of g t] by (metis fst_conv prod.collapse snd_conv)
next
  case (step_label g t n)
  then show ?case using x86_inv_label [of g t] by (metis fst_conv prod.collapse snd_conv)
qed

text \<open>What the tracker holds of the events of a run: every jump that was made is recorded with its kind and address.\<close>

definition made :: "libxsmm_jump_label_tracker \<Rightarrow> x86_event list \<Rightarrow> bool" where
  "made t tr \<longleftrightarrow>
     (\<forall>i n a. Jumped i n a \<in> set tr \<longrightarrow>
        unat n < 512 \<and> (\<exists>k<ref_num t (unat n). ref_addr t (unat n) k = a \<and> ref_type t (unat n) k = i)) \<and>
     (\<forall>n a. Labelled n a \<in> set tr \<longrightarrow> a \<noteq> 0 \<longrightarrow> unat (jump_label_address t (unat n)) = a)"

lemma add_ref_made:
  assumes "made t tr" and "unat n < 512" and "ref_num t (unat n) \<le> 511" and "ref_num t (unat n) \<noteq> 511"
  shows "made (add_ref t (unat n) i a) (tr @ [Jumped i n (unat a)])"
proof -
  let ?t = "add_ref t (unat n) i a"
  have num: "ref_num ?t m = (if m = unat n then Suc (ref_num t (unat n)) else ref_num t m)" for m
    using ref_num_le [OF assms(3,4)] add_ref_other(1) [of "unat n" m] by simp
  have old: "ref_addr ?t m k = ref_addr t m k" "ref_type ?t m k = ref_type t m k" if "k < ref_num t m" for m k
    using that by (auto simp: ref_addr_def ref_type_def add_ref_def ref_num_def)
  have new: "ref_addr ?t (unat n) (ref_num t (unat n)) = unat a" "ref_type ?t (unat n) (ref_num t (unat n)) = i"
    by (simp_all add: ref_addr_def ref_type_def add_ref_def ref_num_def)
  have keep: "\<exists>k<ref_num ?t (unat m). ref_addr ?t (unat m) k = b \<and> ref_type ?t (unat m) k = j"
    if was: "Jumped j m b \<in> set tr" for j m b
  proof -
    obtain k where "k < ref_num t (unat m)" "ref_addr t (unat m) k = b" "ref_type t (unat m) k = j"
      using assms(1) was unfolding made_def by blast
    then show ?thesis using old num [of "unat m"] by (intro exI [of _ k]) auto
  qed
  moreover have "\<exists>k<ref_num ?t (unat n). ref_addr ?t (unat n) k = unat a \<and> ref_type ?t (unat n) k = i"
    using num new by (intro exI [of _ "ref_num t (unat n)"]) simp
  ultimately show ?thesis
    using assms(1,2) unfolding made_def by (auto simp: add_ref_other(3))
qed

lemma x86_step_made:
  assumes "x86_step asm s e s'" and "x86_jump_inv (fst s) (snd s)" and "last_error (fst s') = 0" and "made (snd s) tr"
  shows "made (snd s') (tr @ [e])"
  using assms
proof (induction rule: x86_step.induct)
  case (step_call g t c)
  then show ?case by (auto simp: made_def)
next
  case (step_jump g t i n)
  have b: "1 < code_type g" "unat (code_size g) < 2 ^ 31"
    using step_jump.prems(1) step_jump.hyps by (auto simp: x86_jump_inv_def room_def)
  have "n < 512" "ref_num t (unat n) \<noteq> 511"
    "snd (libxsmm_x86_instruction_jump_to_label (map_prod asm (\<lambda>u. u)) g i n t) = add_ref t (unat n) i (code_size g)"
    using jump_to_label_ok [OF step_jump.prems(2) b] by auto
  moreover from this have "unat n < 512" by (simp add: word_less_nat_alt)
  moreover from this have "ref_num t (unat n) \<le> 511" using step_jump.prems(1) by (simp add: x86_jump_inv_def)
  ultimately show ?case using add_ref_made [of t tr n i "code_size g"] step_jump.prems(3) by simp
next
  case (step_label g t n)
  let ?r = "libxsmm_x86_instruction_register_jump_label (map_prod asm (\<lambda>u. u)) g n t"
  have z: "jump_label_address t (unat n) = 0"
    and t': "snd ?r = t\<lparr>jump_label_address := (jump_label_address t)(unat n := code_size g)\<rparr>"
    using register_ok [of "map_prod asm (\<lambda>u. u)" g n t] step_label.prems by (auto simp: x86_jump_inv_def)
  have r: "ref_num (snd ?r) = ref_num t" "ref_addr (snd ?r) = ref_addr t" "ref_type (snd ?r) = ref_type t"
    by (simp_all add: t' fun_eq_iff ref_num_def ref_addr_def ref_type_def)
  have "unat (jump_label_address (snd ?r) (unat m)) = a" if "Labelled m a \<in> set tr" "a \<noteq> 0" for m a
  proof -
    have "unat (jump_label_address t (unat m)) = a" using step_label.prems(3) that unfolding made_def by auto
    then show ?thesis using z that(2) by (auto simp: t')
  qed
  then show ?case using step_label.prems(3) unfolding made_def snd_conv r by (auto simp: t')
qed

lemma x86_run_made:
  assumes "x86_run asm s tr s'" and "x86_jump_inv (fst s) (snd s)"
  shows "1 < code_type (fst s') \<and> (last_error (fst s') = 0 \<longrightarrow> x86_jump_inv (fst s') (snd s') \<and> made (snd s') tr)"
  using assms
proof (induction rule: x86_run.induct)
  case run_start
  then show ?case by (simp add: x86_jump_inv_def made_def)
next
  case (run_step tr s' e s'')
  then show ?case using x86_step_error [of asm s' e s''] x86_step_inv [of asm s' e s''] x86_step_made [of asm s' e s'' tr] by blast
qed

text \<open>
  C20: Start with empty labels and let a generator interleave instructions, jumps to labels and registrations of labels in
  any order. If no error is recorded at the end, then for every jump that the generator made, before or after its label was
  registered, the final code has at the address of the call a jump of exactly the requested condition, in one of the forms of
  two, five and six bytes and inside of the code, whose target is the address at which the label was registered. (The buffer
  has less than two gigabytes; a label registered at address 0 counts as not registered.)
\<close>

theorem x86_jumps_reach_labels:
  assumes "1 < code_type g" and "code_size g \<le> buffer_size g" and "unat (buffer_size g) < 2 ^ 31 - 16"
    and "x86_run asm (g, libxsmm_reset_jump_label_tracker t) tr (g', t')" and "last_error g' = 0"
    and "Jumped i n a \<in> set tr" and "Labelled n b \<in> set tr" and "b \<noteq> 0"
  shows "\<exists>jt m. jump_type i = Some jt \<and> a + m \<le> unat (code_size g') \<and> jump_at (generated_code g') a = Some (jt, m, int b)"
proof -
  have "x86_jump_inv g (libxsmm_reset_jump_label_tracker t)"
    using assms(1-3) by (simp add: x86_jump_inv_def libxsmm_reset_jump_label_tracker_def ref_num_def refs_def room_def word_le_nat_alt)
  then have inv: "x86_jump_inv g' t'" and m: "made t' tr" using x86_run_made [OF assms(4)] assms(5) by simp_all
  obtain k where k: "unat n < 512" "k < ref_num t' (unat n)" "ref_addr t' (unat n) k = a" "ref_type t' (unat n) k = i"
    using m assms(6) unfolding made_def by blast
  have l: "unat (jump_label_address t' (unat n)) = b" using m assms(7,8) unfolding made_def by blast
  have "jref_ok g' t' (unat n) k" using inv k(1,2) by (auto simp: x86_jump_inv_def refs_def)
  moreover have "jump_label_address t' (unat n) \<noteq> 0" using l assms(8) by auto
  ultimately show ?thesis unfolding jref_ok_def k(3,4) l by auto
qed

definition label_example :: "(gencode \<times> libxsmm_jump_label_tracker) list" where
  "label_example =
   (let s0 = (fresh_stream LIBXSMM_X86_AVX512_SKX 64, libxsmm_reset_jump_label_tracker empty_labels);
        s1 = (run_x86_call id (X_mask_move LIBXSMM_X86_INSTR_KMOVQ_GPR_LD LIBXSMM_X86_GP_REG_RAX 1) (fst s0), snd s0);
        s2 = libxsmm_x86_instruction_jump_to_label (map_prod id (\<lambda>u. u)) (fst s1) LIBXSMM_X86_INSTR_JMP 7 (snd s1);
        s3 = (run_x86_call id (X_mask_move LIBXSMM_X86_INSTR_KMOVQ_GPR_LD LIBXSMM_X86_GP_REG_RAX 2) (fst s2), snd s2);
        s4 = libxsmm_x86_instruction_register_jump_label (map_prod id (\<lambda>u. u)) (fst s3) 7 (snd s3)
    in [s0, s1, s2, s3, s4])"

lemma label_example_facts:
  "last_error (fst (label_example ! 4)) = 0" "unat (code_size (fst (label_example ! 1))) = 5" "unat (code_size (fst (label_example ! 3))) = 15"
  "room 6 (fst (label_example ! 1))"
  by code_simp+

definition label_events :: "x86_event list" where
  "label_events = [Called (X_mask_move LIBXSMM_X86_INSTR_KMOVQ_GPR_LD LIBXSMM_X86_GP_REG_RAX 1), Jumped LIBXSMM_X86_INSTR_JMP 7 5,
     Called (X_mask_move LIBXSMM_X86_INSTR_KMOVQ_GPR_LD LIBXSMM_X86_GP_REG_RAX 2), Labelled 7 15]"

lemma label_example_run:
  "x86_run id (fresh_stream LIBXSMM_X86_AVX512_SKX 64, libxsmm_reset_jump_label_tracker empty_labels) label_events
     (fst (label_example ! 4), snd (label_example ! 4))"
proof -
  have "label_example ! 1 = (run_x86_call id (X_mask_move LIBXSMM_X86_INSTR_KMOVQ_GPR_LD LIBXSMM_X86_GP_REG_RAX 1) (fst (label_example ! 0)), snd (label_example ! 0))"
    "label_example ! 2 = libxsmm_x86_instruction_jump_to_label (map_prod id (\<lambda>u. u)) (fst (label_example ! 1))
       LIBXSMM_X86_INSTR_JMP 7 (snd (label_example ! 1))"
    "label_example ! 3 = (run_x86_call id (X_mask_move LIBXSMM_X86_INSTR_KMOVQ_GPR_LD LIBXSMM_X86_GP_REG_RAX 2) (fst (label_example ! 2)), snd (label_example ! 2))"
    "label_example ! 4 = libxsmm_x86_instruction_register_jump_label (map_prod id (\<lambda>u. u)) (fst (label_example ! 3)) 7
       (snd (label_example ! 3))"
    by (simp_all add: label_example_def Let_def)
  note eqs = this
  have "x86_step id (label_example ! 0) (label_events ! 0) (label_example ! 1)"
    using step_call [of id "fst (label_example ! 0)" "snd (label_example ! 0)" "X_mask_move LIBXSMM_X86_INSTR_KMOVQ_GPR_LD LIBXSMM_X86_GP_REG_RAX 1"]
    unfolding eqs(1) prod.collapse label_events_def by simp
  moreover have "x86_step id (label_example ! 1) (label_events ! 1) (label_example ! 2)"
    using step_jump [OF label_example_facts(4), of id "snd (label_example ! 1)" LIBXSMM_X86_INSTR_JMP 7]
    unfolding eqs(2) prod.collapse label_example_facts by (simp add: label_events_def)
  moreover have "x86_step id (label_example ! 2) (label_events ! 2) (label_example ! 3)"
    using step_call [of id "fst (label_example ! 2)" "snd (label_example ! 2)" "X_mask_move LIBXSMM_X86_INSTR_KMOVQ_GPR_LD LIBXSMM_X86_GP_REG_RAX 2"]
    unfolding eqs(3) prod.collapse by (simp add: label_events_def)
  moreover have "x86_step id (label_example ! 3) (label_events ! 3) (label_example ! 4)"
    using step_label [of id "fst (label_example ! 3)" "snd (label_example ! 3)" 7]
    unfolding eqs(4) prod.collapse label_example_facts by (simp add: label_events_def)
  ultimately have steps: "x86_step id (label_example ! 0) (label_events ! 0) (label_example ! 1)"
    "x86_step id (label_example ! 1) (label_events ! 1) (label_example ! 2)"
    "x86_step id (label_example ! 2) (label_events ! 2) (label_example ! 3)"
    "x86_step id (label_example ! 3) (label_events ! 3) (label_example ! 4)" by blast+
  then show ?thesis
    using run_step [OF run_step [OF run_step [OF run_step [OF run_start steps(1)] steps(2)] steps(3)] steps(4)]
    by (simp add: label_events_def) (simp add: label_example_def Let_def)
qed

theorem x86_jumps_reach_labels_witness:
  "\<exists>m. jump_at (generated_code (fst (label_example ! 4))) 5 = Some (0xeb, m, 15)"
  using x86_jumps_reach_labels [OF _ _ _ label_example_run label_example_facts(1), of LIBXSMM_X86_INSTR_JMP 7 5 15]
  by (auto simp: fresh_stream_def jump_type_def label_events_def)

section \<open>Loops\<close>

text \<open>A jump back takes the label registered last and reaches it.\<close>

lemma jump_back_reaches:
  assumes "1 < code_type g" and "room 0 g" and "unat (buffer_size g) < 2 ^ 31 - 16" and "label_count t < 512"
    and "unat (loop_label_address t (unat (label_count t - 1))) \<le> unat (code_size g)"
    and "libxsmm_x86_instruction_jump_back_to_label asm g i t = (g', t')" and "last_error g' = 0"
  shows "label_count t \<noteq> 0 \<and> t' = t\<lparr>label_count := label_count t - 1\<rparr> \<and> room 0 g' \<and>
    (\<exists>jt n. jump_type i = Some jt \<and> unat (code_size g') = unat (code_size g) + n \<and>
      jump_at (generated_code g') (unat (code_size g)) =
        Some (jt, n, int (unat (loop_label_address t (unat (label_count t - 1))))))"
proof -
  let ?a = "unat (code_size g)" and ?l = "loop_label_address t (unat (label_count t - 1))"
  have cs: "?a < 2147483632" using assms(2,3) by (simp add: room_def)
  have ls: "sint ?l = int (unat ?l)" "sint (code_size g) = int ?a"
    using assms(5) cs sint_small [of ?l] sint_small [of "code_size g"] by auto
  obtain h k where h: "internal_x86_jumping g (int ?a) (int (unat ?l)) i = (h, k)" by fastforce
  have c: "label_count t \<noteq> 0" "\<not> buffer_size g - code_size g < 6" "g' = h\<lparr>code_size := code_size g + word_of_int k\<rparr>"
      "t' = t\<lparr>label_count := label_count t - 1\<rparr>"
    using assms(1,6,7) unfolding libxsmm_x86_instruction_jump_back_to_label_def Let_def
    by (auto simp: ls h libxsmm_handle_error_def simp del: of_nat_unat split: if_splits)
  have e: "last_error (fst (internal_x86_jumping g (int ?a) (int (unat ?l)) i)) = 0" using assms(7) c(3) h by simp
  obtain jt where jt: "jump_type i = Some jt" and ne: "int ?a \<noteq> int (unat ?l) \<and> int ?a \<noteq> int (unat ?l) + 1"
    using jumping_error [OF e] by auto
  define bs where "bs = jump_bytes jt (int ?a) (int (unat ?l)) i"
  have hk: "h = g\<lparr>generated_code := store_bytes (generated_code g) ?a bs\<rparr>" "k = int (length bs)"
    using jumping_ok [OF jt _ le_refl disjI2 [OF ne]] h cs unfolding bs_def by simp_all
  have len: "length bs \<le> 6" using jump_bytes_len(3) [OF jt] by (simp add: bs_def)
  have "unat (buffer_size g - code_size g) = unat (buffer_size g) - ?a"
    using assms(2) by (simp add: room_def unat_sub word_le_nat_alt)
  then have "?a + 6 \<le> unat (buffer_size g)" using c(2) by (simp add: word_less_nat_alt)
  then have cs': "unat (code_size g') = ?a + length bs" "room 0 g'"
    using len cs unfolding c(3) hk by (simp_all add: unat_word_ariths unat_of_nat room_def)
  have "jump_at (generated_code g') ?a = Some (jt, length bs, int (unat ?l))"
    unfolding bs_def
  proof (rule jump_bytes_reach [OF jt])
    have "int ?a + 6 < 2147483648 \<and> int (unat ?l) < 2147483648" using assms(5) cs by linarith
    then show "0 \<le> int (unat ?l)" "int ?a + 6 < 2 ^ 31" "int (unat ?l) < 2 ^ 31" by simp_all
    show "generated_code g' (?a + x) = jump_bytes jt (int ?a) (int (unat ?l)) i ! x"
      if "x < length (jump_bytes jt (int ?a) (int (unat ?l)) i)" for x
      using that unfolding bs_def [symmetric] c(3) hk by (simp add: store_bytes_at)
  qed
  then show ?thesis using c jt cs' by blast
qed

text \<open>
  \<open>jump_to_label\<close> does not test for space: on a full buffer it writes behind the buffer and records no error.
\<close>

lemma jump_to_label_overruns:
  "\<exists>g. code_size g = buffer_size g \<and>
    (case libxsmm_x86_instruction_jump_to_label (\<lambda>s. s) g LIBXSMM_X86_INSTR_JMP 7 empty_labels of
       (g', t') \<Rightarrow> last_error g' = 0 \<and> code_size g' > buffer_size g' \<and> generated_code g' (unat (buffer_size g)) \<noteq> generated_code g (unat (buffer_size g)))"
  by (rule exI [of _ "(fresh_stream LIBXSMM_X86_AVX512_SKX 64)\<lparr>code_size := 64\<rparr>"]) code_simp

text \<open>A label at address 0 is taken for one that is not registered: a jump back to it is left with a target that is not the label.\<close>

lemma label_at_zero_is_lost:
  "case libxsmm_x86_instruction_register_jump_label (\<lambda>s. s) (fresh_stream LIBXSMM_X86_AVX512_SKX 64) 7 empty_labels of
     (g, t) \<Rightarrow> (case libxsmm_x86_instruction_jump_to_label (\<lambda>s. s) (g\<lparr>code_size := 10\<rparr>) LIBXSMM_X86_INSTR_JMP 7 t of
       (g', t') \<Rightarrow> last_error g' = 0 \<and> jump_at (generated_code g') 10 = Some (0xeb, 5, 15))"
  by code_simp

end
