(* ===== verification/X86_Alu.thy ===== *)
theory X86_Alu
  imports X86_Safe X86_Round
begin

text \<open>
  What the instructions on general-purpose registers append: the operands are in the places that the op-code reads and
  writes, and a constant follows with its lowest byte first.
\<close>

section \<open>Operands of instructions with registers\<close>

text \<open>
  The two-operand op-codes whose result is the operand in the register-or-memory field: those of the first map with a
  clear direction bit.
\<close>

definition writes_rm :: "nat \<Rightarrow> u8 \<Rightarrow> bool" where
  "writes_rm m op \<longleftrightarrow> m = 0 \<and> \<not> bit op 1"

text \<open>The instruction that a call asks for, with the destination where the op-code writes.\<close>

definition alu_insn :: "u32 \<Rightarrow> u32 \<Rightarrow> u32 \<Rightarrow> x86_insn" where
  "alu_insn i src dst =
   (let j = alu_reg_instr i; p = legacy_prefixes j; w = bit j 23; m = legacy_map j; op = ucast j
    in if operand_count i = 1
       then (if holds_register m op then Opreg p w m op (unat dst)
             else Legacy p w m op (unat (op_ext i)) (Register (unat dst)))
       else if writes_rm m op then Legacy p w m op (unat src) (Register (unat dst))
       else Legacy p w m op (unat dst) (Register (unat src)))"

definition swapped_instrs :: "u32 list" where
  "swapped_instrs = [LIBXSMM_X86_INSTR_SUBB_RM_R, LIBXSMM_X86_INSTR_SUBW_RM_R, LIBXSMM_X86_INSTR_SUBD_RM_R, LIBXSMM_X86_INSTR_SUBQ_RM_R]"

definition alu_reg_ok :: "u32 \<Rightarrow> bool" where
  "alu_reg_ok i \<longleftrightarrow>
   (let j = alu_reg_instr i; m = legacy_map j; op = ucast j
    in legacy_ok j \<and>
       (if operand_count i = 1
        then (if holds_register m op then bit j 24 \<and> take_bit 3 j = 0 \<and> \<not> flips_operands i \<and> \<not> has_op_ext i
              else \<not> bit j 24 \<and> flips_operands i \<and> has_op_ext i)
        else \<not> holds_register m op \<and> \<not> bit j 24 \<and> \<not> has_op_ext i \<and> flips_operands i = writes_rm m op))"

lemma alu_reg_instrs_ok:
  "list_all (\<lambda>i. i = LIBXSMM_X86_INSTR_IMUL \<or> i \<in> set swapped_instrs \<or> alu_reg_ok i) alu_reg_instrs"
  by code_simp

lemma op_ext_less: "op_ext i < 16"
  using word_and_le1 [of "drop_bit 20 i" 7] by (simp add: op_ext_def word_less_nat_alt word_le_nat_alt)

text \<open>
  C17: A call of \<open>libxsmm_x86_instruction_alu_reg\<close> on a stream with 20 bytes of space appends exactly the instruction that
  was asked for, for every accepted instruction number but five and all registers: the bytes decode to the op-code and
  width of the number, with the source and the destination register where this op-code reads and writes; a single operand is
  in the op-code or in the register-or-memory field next to the op-code extension. The five are \<open>IMUL\<close>, which has no
  encoding, and the four \<open>SUB\<close> with a destination in the register-or-memory field.
\<close>

theorem alu_reg_operands:
  assumes "1 < code_type g" and "room 20 g" and "i \<in> set alu_reg_instrs - set (LIBXSMM_X86_INSTR_IMUL # swapped_instrs)"
    and "dst < 16" and "if operand_count i = 1 then src = LIBXSMM_X86_GP_REG_UNDEF else src < 16"
  shows "decode_legacy (emitted_bytes g (libxsmm_x86_instruction_alu_reg asm g i src dst) @ rest) = Some (alu_insn i src dst, rest)"
proof -
  let ?j = "alu_reg_instr i"
  have ok: "alu_reg_ok i" using alu_reg_instrs_ok assms(3) by (auto simp: list_all_iff)
  then have lo: "legacy_ok ?j" by (simp add: alu_reg_ok_def Let_def)
  have i: "i \<in> set alu_reg_instrs" using assms(3) by simp
  show ?thesis
  proof (cases "operand_count i = 1")
    case True
    then have src: "src = LIBXSMM_X86_GP_REG_UNDEF" using assms(5) by simp
    show ?thesis
    proof (cases "holds_register (legacy_map ?j) (ucast ?j)")
      case h: True
      then have o: "bit ?j 24" "take_bit 3 ?j = 0" "\<not> flips_operands i" "\<not> has_op_ext i"
        using ok True by (simp_all add: alu_reg_ok_def Let_def)
      have "libxsmm_x86_instruction_alu_reg asm g i src dst = libxsmm_x86_instruction_rex_compute_2reg g ?j 0 dst"
        using i src True o assms(1) by (simp add: libxsmm_x86_instruction_alu_reg_def)
      then show ?thesis
        using rex_opreg_decodes [OF assms(2) lo h o(1,2) assms(4)] h True by (simp add: alu_insn_def Let_def)
    next
      case h: False
      then have o: "\<not> bit ?j 24" "flips_operands i" "has_op_ext i" using ok True by (simp_all add: alu_reg_ok_def Let_def)
      have "libxsmm_x86_instruction_alu_reg asm g i src dst = libxsmm_x86_instruction_rex_compute_2reg g ?j dst (op_ext i)"
        using i src True o assms(1) by (simp add: libxsmm_x86_instruction_alu_reg_def)
      then show ?thesis
        using rex_regs_decodes [OF assms(2) lo h o(1) assms(4) op_ext_less] h True by (simp add: alu_insn_def Let_def)
    qed
  next
    case False
    then have h: "\<not> holds_register (legacy_map ?j) (ucast ?j)" and o: "\<not> bit ?j 24" "\<not> has_op_ext i"
        "flips_operands i = writes_rm (legacy_map ?j) (ucast ?j)" and src: "src < 16"
      using ok assms(5) by (simp_all add: alu_reg_ok_def Let_def)
    have "libxsmm_x86_instruction_alu_reg asm g i src dst =
       (if flips_operands i then libxsmm_x86_instruction_rex_compute_2reg g ?j dst src
        else libxsmm_x86_instruction_rex_compute_2reg g ?j src dst)"
      using i False o assms(1) by (simp add: libxsmm_x86_instruction_alu_reg_def)
    then show ?thesis
      using rex_regs_decodes [OF assms(2) lo h o(1) assms(4) src] rex_regs_decodes [OF assms(2) lo h o(1) src assms(4)] False o(3)
      by (simp add: alu_insn_def Let_def)
  qed
qed

lemma alu_reg_room: "room 20 (fresh_stream a 64)"
  by (simp add: room_def fresh_stream_def)

theorem alu_reg_operands_witness:
  "decode_legacy (emitted_bytes (fresh_stream LIBXSMM_X86_AVX2 64)
     (libxsmm_x86_instruction_alu_reg id (fresh_stream LIBXSMM_X86_AVX2 64) LIBXSMM_X86_INSTR_ADDQ LIBXSMM_X86_GP_REG_R9 LIBXSMM_X86_GP_REG_RBX) @ []) =
   Some (Legacy [] True 0 0x03 3 (Register 9), [])"
proof -
  have "LIBXSMM_X86_INSTR_ADDQ \<in> set alu_reg_instrs - set (LIBXSMM_X86_INSTR_IMUL # swapped_instrs)" by code_simp
  moreover have "alu_insn LIBXSMM_X86_INSTR_ADDQ LIBXSMM_X86_GP_REG_R9 LIBXSMM_X86_GP_REG_RBX = Legacy [] True 0 0x03 3 (Register 9)"
    by code_simp
  moreover have "operand_count LIBXSMM_X86_INSTR_ADDQ \<noteq> 1" by (simp add: operand_count_def)
  ultimately show ?thesis
    using alu_reg_operands [OF _ alu_reg_room, of LIBXSMM_X86_AVX2 LIBXSMM_X86_INSTR_ADDQ LIBXSMM_X86_GP_REG_RBX LIBXSMM_X86_GP_REG_R9 id "[]"]
    by (simp add: fresh_stream_def)
qed

text \<open>The four \<open>SUB\<close> have their operands swapped, and \<open>IDIVQ\<close> is encoded with an operand of 32 bits.\<close>

lemma sub_rm_swaps:
  assumes "1 < code_type g" and "room 20 g" and "i \<in> set swapped_instrs" and "src < 16" and "dst < 16"
  shows "\<exists>p w op. writes_rm 0 op \<and>
    decode_legacy (emitted_bytes g (libxsmm_x86_instruction_alu_reg asm g i src dst) @ rest) =
      Some (Legacy p w 0 op (unat dst) (Register (unat src)), rest)"
proof -
  have "list_all (\<lambda>i. i \<in> set alu_reg_instrs \<and> operand_count i \<noteq> 1 \<and> \<not> flips_operands i \<and> \<not> has_op_ext i \<and> alu_reg_instr i = i \<and>
      legacy_ok i \<and> \<not> holds_register (legacy_map i) (ucast i) \<and> \<not> bit i 24 \<and> legacy_map i = 0 \<and> writes_rm 0 (ucast i)) swapped_instrs"
    by code_simp
  then have c: "i \<in> set alu_reg_instrs" "operand_count i \<noteq> 1" "\<not> flips_operands i" "\<not> has_op_ext i" "alu_reg_instr i = i"
      "legacy_ok i" "\<not> holds_register (legacy_map i) (ucast i)" "\<not> bit i 24" "legacy_map i = 0" "writes_rm 0 (ucast i)"
    using assms(3) unfolding list_all_iff by blast+
  have "libxsmm_x86_instruction_alu_reg asm g i src dst = libxsmm_x86_instruction_rex_compute_2reg g i src dst"
    using c assms(1) by (simp add: libxsmm_x86_instruction_alu_reg_def)
  then show ?thesis using rex_regs_decodes [OF assms(2) c(6-8) assms(4,5)] c(9,10) by auto
qed

lemma idivq_is_narrow: "x_w (alu_insn LIBXSMM_X86_INSTR_NEGQ 127 3)" "\<not> x_w (alu_insn LIBXSMM_X86_INSTR_IDIVQ 127 3)"
  by code_simp+

section \<open>Constants\<close>

text \<open>The number that bytes hold, the lowest one first.\<close>

fun le_value :: "u8 list \<Rightarrow> int" where
  "le_value [] = 0"
| "le_value (b # bs) = uint b + 256 * le_value bs"

lemma take_bit_8_split: "take_bit (8 + n) x = take_bit 8 x + 256 * take_bit n (drop_bit 8 (x :: int))"
proof -
  have "take_bit (8 + n) x = x mod (2 ^ 8 * 2 ^ n)" by (simp add: take_bit_eq_mod power_add)
  also have "\<dots> = 2 ^ 8 * (x div 2 ^ 8 mod 2 ^ n) + x mod 2 ^ 8" by (rule zmod_zmult2_eq) simp
  finally show ?thesis by (simp add: take_bit_eq_mod drop_bit_eq_div)
qed

lemma uint_drop: "uint (drop_bit n (w :: 'a::len word)) = drop_bit n (uint w)"
  using take_bit_int_eq_self [of "uint w" "LENGTH('a)"] by (simp add: unsigned_drop_bit_eq)

lemma le_value_imm_bytes: "le_value (imm_bytes n (w :: 'a::len word)) = take_bit (8 * n) (uint w)"
proof (induction n arbitrary: w)
  case (Suc n)
  have "uint (ucast w :: u8) = take_bit 8 (uint w)" by (simp add: unsigned_ucast_eq)
  moreover have "uint (drop_bit 8 w) = drop_bit 8 (uint w)" by (rule uint_drop)
  ultimately show ?case using take_bit_8_split [of "8 * n" "uint w"] Suc [of "drop_bit 8 w"] by simp
qed simp

lemma length_imm_bytes: "length (imm_bytes n w) = n"
  by (induction n w rule: imm_bytes.induct) simp_all

lemma rex_regs_put:
  assumes "room 20 g"
  shows "\<exists>bs. libxsmm_x86_instruction_rex_compute_2reg g i rm reg = put_bytes g bs \<and> length bs \<le> 12"
proof -
  have l: "length (legacy_prefixes i) + length (opext_bytes i) \<le> 9"
    using length_legacy_prefixes [of i] length_opext [of i] by simp
  show ?thesis
    unfolding libxsmm_x86_instruction_rex_compute_2reg_def Let_def if_not_P [OF room_space20 [OF assms]]
    by (rule exI, rule conjI [OF refl]) (use l in \<open>simp split: if_split\<close>)
qed

lemma emitted_imm:
  assumes "room 20 g" and "length imm \<le> 8"
  shows "emitted_bytes g (put_bytes (libxsmm_x86_instruction_rex_compute_2reg g i rm reg) imm) =
    emitted_bytes g (libxsmm_x86_instruction_rex_compute_2reg g i rm reg) @ imm"
proof -
  obtain bs where bs: "libxsmm_x86_instruction_rex_compute_2reg g i rm reg = put_bytes g bs" "length bs \<le> 12"
    using rex_regs_put [OF assms(1)] by blast
  then show ?thesis
    using emitted_room [OF assms(1), of "bs @ imm"] emitted_room [OF assms(1), of bs] assms(2) by simp
qed

text \<open>The instructions of a call: the register is the operand in memory, or also the result of \<open>IMUL\<close>, or in the op-code.\<close>

definition imul_imms :: "u32 list" where
  "imul_imms = [LIBXSMM_X86_INSTR_IMULW_IMM16, LIBXSMM_X86_INSTR_IMULD_IMM32, LIBXSMM_X86_INSTR_IMULQ_IMM32]"

definition alu_imm_insn :: "u32 \<Rightarrow> u32 \<Rightarrow> x86_insn" where
  "alu_imm_insn i r =
   (let j = alu_imm_instr i
    in Legacy (legacy_prefixes j) (bit j 23) (legacy_map j) (ucast j)
         (if j \<in> set imul_imms then unat r else unat (op_ext j)) (Register (unat r)))"

definition mov_imm64 :: "u32 \<Rightarrow> u32" where
  "mov_imm64 i = (if i = LIBXSMM_X86_INSTR_MOVQ then LIBXSMM_X86_INSTR_MOVQ_R_IMM64 else i)"

definition alu_imm_i64_insn :: "u32 \<Rightarrow> u32 \<Rightarrow> x86_insn" where
  "alu_imm_i64_insn i r = (let j = mov_imm64 i in Opreg (legacy_prefixes j) (bit j 23) (legacy_map j) (ucast j) (unat r))"

definition imm_ok :: "u32 \<Rightarrow> bool" where
  "imm_ok j \<longleftrightarrow> legacy_ok j \<and> \<not> holds_register (legacy_map j) (ucast j) \<and> \<not> bit j 24 \<and> j AND 0x00080000 = 0x00080000"

definition imm_i64_ok :: "u32 \<Rightarrow> bool" where
  "imm_i64_ok j \<longleftrightarrow> legacy_ok j \<and> holds_register (legacy_map j) (ucast j) \<and> bit j 24 \<and> take_bit 3 j = 0 \<and>
     j AND 0x00080000 = 0x00080000"

lemma alu_imm_instrs_ok: "list_all (\<lambda>i. imm_ok (alu_imm_instr i)) alu_imm_instrs"
  by code_simp

lemma alu_imm_instrs_narrow: "list_all (\<lambda>i. let j = alu_imm_instr i in drop_bit 8 j AND 3 \<noteq> 3) alu_imm_instrs"
  by code_simp

lemma alu_imm_instrs_ext: "list_all (\<lambda>i. let j = alu_imm_instr i in has_op_ext j \<or> j \<in> set imul_imms) alu_imm_instrs"
  by code_simp

lemma alu_imm_i64_instrs_ok: "list_all (\<lambda>i. imm_i64_ok (mov_imm64 i)) alu_imm_i64_instrs"
  by code_simp

lemma imm_size_le4:
  assumes "drop_bit 8 j AND 3 \<noteq> 3"
  shows "imm_size j \<le> 4"
proof -
  have "drop_bit 8 j AND 3 \<le> 3" by (rule word_and_le1)
  then have "drop_bit 8 j AND 3 \<le> 2" using assms by unat_arith
  then have "(2 :: nat) ^ unat (drop_bit 8 j AND 3) \<le> 2 ^ 2" by (intro power_increasing) (simp_all add: word_le_nat_alt)
  then show ?thesis by (simp add: imm_size_def)
qed

text \<open>
  C18: A call of \<open>libxsmm_x86_instruction_alu_imm\<close> on a stream with 20 bytes of space, with an accepted instruction number and
  any register, appends the instruction of that number on this register, followed by as many bytes of the constant as the
  number asks for, the lowest first: their value is the constant modulo the width. For a shift by a byte or an addition of a
  32-bit constant the high bytes of a larger constant are dropped, silently.
\<close>

theorem alu_imm_operands:
  assumes "1 < code_type g" and "room 20 g" and "i \<in> set alu_imm_instrs" and "r < 16"
  shows "\<exists>imm. decode_legacy (emitted_bytes g (libxsmm_x86_instruction_alu_imm asm g i r c) @ rest) = Some (alu_imm_insn i r, imm @ rest) \<and>
    length imm = imm_size (alu_imm_instr i) \<and> le_value imm = take_bit (8 * imm_size (alu_imm_instr i)) (uint c)"
proof -
  let ?j = "alu_imm_instr i"
  define reg where "reg = (if ?j \<in> set imul_imms then r else op_ext ?j)"
  let ?imm = "imm_bytes (imm_size ?j) (ucast c :: u32)"
  have ok: "imm_ok ?j" "drop_bit 8 ?j AND 3 \<noteq> 3" "has_op_ext ?j \<or> ?j \<in> set imul_imms"
    using alu_imm_instrs_ok alu_imm_instrs_narrow alu_imm_instrs_ext assms(3) by (auto simp: list_all_iff Let_def)
  then have o: "legacy_ok ?j" "\<not> holds_register (legacy_map ?j) (ucast ?j)" "\<not> bit ?j 24" "imm_size ?j \<le> 4"
    using imm_size_le4 [OF ok(2)] unfolding imm_ok_def by simp_all
  have reg: "reg < 16" using assms(4) op_ext_less by (simp add: reg_def)
  have "libxsmm_x86_instruction_alu_imm asm g i r c = put_bytes (libxsmm_x86_instruction_rex_compute_2reg g ?j r reg) ?imm"
    using assms(1,3) ok by (auto simp: libxsmm_x86_instruction_alu_imm_def Let_def imm_ok_def reg_def imul_imms_def)
  then have "emitted_bytes g (libxsmm_x86_instruction_alu_imm asm g i r c) =
      emitted_bytes g (libxsmm_x86_instruction_rex_compute_2reg g ?j r reg) @ ?imm"
    using emitted_imm [OF assms(2), of ?imm] o(4) by (simp add: length_imm_bytes)
  then have "decode_legacy (emitted_bytes g (libxsmm_x86_instruction_alu_imm asm g i r c) @ rest) = Some (alu_imm_insn i r, ?imm @ rest)"
    using rex_regs_decodes [OF assms(2) o(1-3) assms(4) reg, of "?imm @ rest"]
    by (auto simp: alu_imm_insn_def Let_def reg_def)
  moreover have "le_value ?imm = take_bit (8 * imm_size ?j) (uint c)"
    using o(4) by (simp add: le_value_imm_bytes unsigned_ucast_eq min_def)
  ultimately show ?thesis using length_imm_bytes by blast
qed

theorem alu_imm_operands_witness:
  "\<exists>imm. decode_legacy (emitted_bytes (fresh_stream LIBXSMM_X86_AVX2 64)
      (libxsmm_x86_instruction_alu_imm id (fresh_stream LIBXSMM_X86_AVX2 64) LIBXSMM_X86_INSTR_ADDQ LIBXSMM_X86_GP_REG_R9 0x123456789a) @ []) =
    Some (Legacy [] True 0 0x81 0 (Register 9), imm @ []) \<and> length imm = 4 \<and> le_value imm = 0x3456789a"
proof -
  have "LIBXSMM_X86_INSTR_ADDQ \<in> set alu_imm_instrs"
    "alu_imm_insn LIBXSMM_X86_INSTR_ADDQ LIBXSMM_X86_GP_REG_R9 = Legacy [] True 0 0x81 0 (Register 9)"
    "imm_size (alu_imm_instr LIBXSMM_X86_INSTR_ADDQ) = 4" by code_simp+
  then show ?thesis
    using alu_imm_operands [OF _ alu_reg_room, where i = LIBXSMM_X86_INSTR_ADDQ and r = LIBXSMM_X86_GP_REG_R9 and asm = id and c = "0x123456789a" and rest = "[]"]
    by (simp add: fresh_stream_def take_bit_eq_mod)
qed

text \<open>A call with a constant of 64 bits: the register is in the op-code and all eight bytes follow.\<close>

lemma alu_imm_i64_operands:
  assumes "1 < code_type g" and "room 20 g" and "i \<in> set alu_imm_i64_instrs" and "r < 16"
  shows "\<exists>imm. decode_legacy (emitted_bytes g (libxsmm_x86_instruction_alu_imm_i64 asm g i r c) @ rest) = Some (alu_imm_i64_insn i r, imm @ rest) \<and>
    length imm = imm_size (mov_imm64 i) \<and> le_value imm = take_bit (8 * imm_size (mov_imm64 i)) (uint c)"
proof -
  let ?j = "mov_imm64 i"
  let ?imm = "imm_bytes (imm_size ?j) c"
  have ok: "imm_i64_ok ?j" using alu_imm_i64_instrs_ok assms(3) by (auto simp: list_all_iff)
  then have o: "legacy_ok ?j" "holds_register (legacy_map ?j) (ucast ?j)" "bit ?j 24" "take_bit 3 ?j = 0"
    by (simp_all add: imm_i64_ok_def)
  have "libxsmm_x86_instruction_alu_imm_i64 asm g i r c = put_bytes (libxsmm_x86_instruction_rex_compute_2reg g ?j 0 r) ?imm"
    using assms(1,3) ok by (simp add: libxsmm_x86_instruction_alu_imm_i64_def Let_def imm_i64_ok_def mov_imm64_def)
  then have "emitted_bytes g (libxsmm_x86_instruction_alu_imm_i64 asm g i r c) =
      emitted_bytes g (libxsmm_x86_instruction_rex_compute_2reg g ?j 0 r) @ ?imm"
    using emitted_imm [OF assms(2), of ?imm] imm_size_le by (simp add: length_imm_bytes)
  then have "decode_legacy (emitted_bytes g (libxsmm_x86_instruction_alu_imm_i64 asm g i r c) @ rest) = Some (alu_imm_i64_insn i r, ?imm @ rest)"
    using rex_opreg_decodes [OF assms(2) o assms(4), of 0 "?imm @ rest"] by (simp add: alu_imm_i64_insn_def Let_def)
  then show ?thesis using length_imm_bytes le_value_imm_bytes by blast
qed

end
