(* ===== verification/Matrix_Eqn.thy ===== *)
theory Matrix_Eqn
  imports Typedefs
begin

text \<open>
  Matrix equations: \<open>src/libxsmm_matrixeqn.c\<close> and its header. An equation is a tree of unary, binary and ternary
  operations over matrix arguments. It is built by pushing its nodes in prefix order, and as soon as it is complete it is
  optimised: every node gets a register score, a time stamp in the order of execution and the number of the temporary
  that holds its result.

  The node structure \<open>libxsmm_meqn_elem\<close> is a tree: the children \<open>le\<close>, \<open>ri\<close> and \<open>r2\<close> are subtrees
  (\<open>Null\<close> for the pointer \<open>NULL\<close>), the parent \<open>up\<close> is the position one step nearer to the root. The type of a node and
  the member of the union \<open>info\<close> that goes with it are one constructor. A pointer to a node, such as \<open>eqn_cur\<close>, is
  the path to it, the last step first, so that \<open>up\<close> drops the first element. Memory from \<open>malloc\<close> holds what it
  held: the fields a function leaves unset are an argument of the model. \<open>libxsmm_blasint\<close> is read as an integer
  without bound: its arithmetic here is signed, so a wrap-around has no defined meaning in C.
\<close>

section \<open>Constants\<close>

text \<open>The flags and operation types that the file tests, from \<open>include/libxsmm_typedefs.h\<close>.\<close>

abbreviation (input) LIBXSMM_MELTW_FLAG_UNARY_BCAST_ROW :: u32 where "LIBXSMM_MELTW_FLAG_UNARY_BCAST_ROW \<equiv> 2"
abbreviation (input) LIBXSMM_MELTW_FLAG_UNARY_BCAST_COL :: u32 where "LIBXSMM_MELTW_FLAG_UNARY_BCAST_COL \<equiv> 4"
abbreviation (input) LIBXSMM_MELTW_FLAG_UNARY_BCAST_SCALAR :: u32 where "LIBXSMM_MELTW_FLAG_UNARY_BCAST_SCALAR \<equiv> 8"
abbreviation (input) LIBXSMM_MELTW_FLAG_UNARY_REDUCE_COLS :: u32 where "LIBXSMM_MELTW_FLAG_UNARY_REDUCE_COLS \<equiv> 16"
abbreviation (input) LIBXSMM_MELTW_FLAG_UNARY_REDUCE_ROWS :: u32 where "LIBXSMM_MELTW_FLAG_UNARY_REDUCE_ROWS \<equiv> 32"
abbreviation (input) LIBXSMM_MELTW_FLAG_BINARY_BCAST_ROW_IN_0 :: u32 where "LIBXSMM_MELTW_FLAG_BINARY_BCAST_ROW_IN_0 \<equiv> 1"
abbreviation (input) LIBXSMM_MELTW_FLAG_BINARY_BCAST_ROW_IN_1 :: u32 where "LIBXSMM_MELTW_FLAG_BINARY_BCAST_ROW_IN_1 \<equiv> 2"
abbreviation (input) LIBXSMM_MELTW_FLAG_BINARY_BCAST_COL_IN_0 :: u32 where "LIBXSMM_MELTW_FLAG_BINARY_BCAST_COL_IN_0 \<equiv> 4"
abbreviation (input) LIBXSMM_MELTW_FLAG_BINARY_BCAST_COL_IN_1 :: u32 where "LIBXSMM_MELTW_FLAG_BINARY_BCAST_COL_IN_1 \<equiv> 8"
abbreviation (input) LIBXSMM_MELTW_FLAG_BINARY_BCAST_SCALAR_IN_0 :: u32 where "LIBXSMM_MELTW_FLAG_BINARY_BCAST_SCALAR_IN_0 \<equiv> 16"
abbreviation (input) LIBXSMM_MELTW_FLAG_BINARY_BCAST_SCALAR_IN_1 :: u32 where "LIBXSMM_MELTW_FLAG_BINARY_BCAST_SCALAR_IN_1 \<equiv> 32"
abbreviation (input) LIBXSMM_MELTW_FLAG_TERNARY_BCAST_ROW_IN_0 :: u32 where "LIBXSMM_MELTW_FLAG_TERNARY_BCAST_ROW_IN_0 \<equiv> 1"
abbreviation (input) LIBXSMM_MELTW_FLAG_TERNARY_BCAST_ROW_IN_1 :: u32 where "LIBXSMM_MELTW_FLAG_TERNARY_BCAST_ROW_IN_1 \<equiv> 2"
abbreviation (input) LIBXSMM_MELTW_FLAG_TERNARY_BCAST_ROW_IN_2 :: u32 where "LIBXSMM_MELTW_FLAG_TERNARY_BCAST_ROW_IN_2 \<equiv> 4"
abbreviation (input) LIBXSMM_MELTW_FLAG_TERNARY_BCAST_COL_IN_0 :: u32 where "LIBXSMM_MELTW_FLAG_TERNARY_BCAST_COL_IN_0 \<equiv> 8"
abbreviation (input) LIBXSMM_MELTW_FLAG_TERNARY_BCAST_COL_IN_1 :: u32 where "LIBXSMM_MELTW_FLAG_TERNARY_BCAST_COL_IN_1 \<equiv> 16"
abbreviation (input) LIBXSMM_MELTW_FLAG_TERNARY_BCAST_COL_IN_2 :: u32 where "LIBXSMM_MELTW_FLAG_TERNARY_BCAST_COL_IN_2 \<equiv> 32"
abbreviation (input) LIBXSMM_MELTW_FLAG_TERNARY_BCAST_SCALAR_IN_0 :: u32 where "LIBXSMM_MELTW_FLAG_TERNARY_BCAST_SCALAR_IN_0 \<equiv> 64"
abbreviation (input) LIBXSMM_MELTW_FLAG_TERNARY_BCAST_SCALAR_IN_1 :: u32 where "LIBXSMM_MELTW_FLAG_TERNARY_BCAST_SCALAR_IN_1 \<equiv> 128"
abbreviation (input) LIBXSMM_MELTW_FLAG_TERNARY_BCAST_SCALAR_IN_2 :: u32 where "LIBXSMM_MELTW_FLAG_TERNARY_BCAST_SCALAR_IN_2 \<equiv> 256"
abbreviation (input) LIBXSMM_MELTW_FLAG_TERNARY_REUSE_IN_2_AS_OUT :: u32 where "LIBXSMM_MELTW_FLAG_TERNARY_REUSE_IN_2_AS_OUT \<equiv> 512"
abbreviation (input) LIBXSMM_MELTW_TYPE_UNARY_IDENTITY :: u32 where "LIBXSMM_MELTW_TYPE_UNARY_IDENTITY \<equiv> 1"
abbreviation (input) LIBXSMM_MELTW_TYPE_UNARY_REDUCE_COLS_IDX_OP_ADD :: u32 where "LIBXSMM_MELTW_TYPE_UNARY_REDUCE_COLS_IDX_OP_ADD \<equiv> 44"
abbreviation (input) LIBXSMM_MELTW_TYPE_UNARY_REDUCE_COLS_IDX_OP_MAX :: u32 where "LIBXSMM_MELTW_TYPE_UNARY_REDUCE_COLS_IDX_OP_MAX \<equiv> 53"
abbreviation (input) LIBXSMM_MELTW_TYPE_UNARY_REDUCE_COLS_IDX_OP_MIN :: u32 where "LIBXSMM_MELTW_TYPE_UNARY_REDUCE_COLS_IDX_OP_MIN \<equiv> 68"
abbreviation (input) LIBXSMM_MELTW_TYPE_UNARY_REDUCE_X_OP_ADD :: u32 where "LIBXSMM_MELTW_TYPE_UNARY_REDUCE_X_OP_ADD \<equiv> 18"
abbreviation (input) LIBXSMM_MELTW_TYPE_UNARY_REDUCE_X_OP_MAX :: u32 where "LIBXSMM_MELTW_TYPE_UNARY_REDUCE_X_OP_MAX \<equiv> 21"
abbreviation (input) LIBXSMM_MELTW_TYPE_UNARY_REDUCE_X_OP_ABSMAX :: u32 where "LIBXSMM_MELTW_TYPE_UNARY_REDUCE_X_OP_ABSMAX \<equiv> 70"
abbreviation (input) LIBXSMM_MELTW_TYPE_UNARY_REDUCE_X_OP_MIN :: u32 where "LIBXSMM_MELTW_TYPE_UNARY_REDUCE_X_OP_MIN \<equiv> 69"
abbreviation (input) LIBXSMM_MELTW_TYPE_UNARY_REDUCE_X_OP_MUL :: u32 where "LIBXSMM_MELTW_TYPE_UNARY_REDUCE_X_OP_MUL \<equiv> 22"
abbreviation (input) LIBXSMM_MELTW_TYPE_UNARY_REDUCE_X2_OP_ADD :: u32 where "LIBXSMM_MELTW_TYPE_UNARY_REDUCE_X2_OP_ADD \<equiv> 19"
abbreviation (input) LIBXSMM_MELTW_TYPE_UNARY_REDUCE_X_OP_ADD_NCNC_FORMAT :: u32 where "LIBXSMM_MELTW_TYPE_UNARY_REDUCE_X_OP_ADD_NCNC_FORMAT \<equiv> 23"
abbreviation (input) LIBXSMM_MELTW_TYPE_UNARY_REDUCE_X_X2_OP_ADD :: u32 where "LIBXSMM_MELTW_TYPE_UNARY_REDUCE_X_X2_OP_ADD \<equiv> 20"
abbreviation (input) LIBXSMM_MELTW_TYPE_UNARY_TRANSFORM_NORM_TO_VNNI2 :: u32 where "LIBXSMM_MELTW_TYPE_UNARY_TRANSFORM_NORM_TO_VNNI2 \<equiv> 28"
abbreviation (input) LIBXSMM_MELTW_TYPE_UNARY_TRANSFORM_NORM_TO_NORMT :: u32 where "LIBXSMM_MELTW_TYPE_UNARY_TRANSFORM_NORM_TO_NORMT \<equiv> 29"
abbreviation (input) LIBXSMM_MELTW_TYPE_UNARY_TRANSFORM_VNNI2_TO_VNNI2T :: u32 where "LIBXSMM_MELTW_TYPE_UNARY_TRANSFORM_VNNI2_TO_VNNI2T \<equiv> 30"
abbreviation (input) LIBXSMM_MELTW_TYPE_UNARY_TRANSFORM_NORM_TO_VNNI2T :: u32 where "LIBXSMM_MELTW_TYPE_UNARY_TRANSFORM_NORM_TO_VNNI2T \<equiv> 31"
abbreviation (input) LIBXSMM_MELTW_TYPE_UNARY_TRANSFORM_NORM_TO_VNNI2_PAD :: u32 where "LIBXSMM_MELTW_TYPE_UNARY_TRANSFORM_NORM_TO_VNNI2_PAD \<equiv> 32"
abbreviation (input) LIBXSMM_MELTW_TYPE_UNARY_TRANSFORM_NORM_TO_VNNI4 :: u32 where "LIBXSMM_MELTW_TYPE_UNARY_TRANSFORM_NORM_TO_VNNI4 \<equiv> 54"
abbreviation (input) LIBXSMM_MELTW_TYPE_UNARY_TRANSFORM_NORM_TO_VNNI4T :: u32 where "LIBXSMM_MELTW_TYPE_UNARY_TRANSFORM_NORM_TO_VNNI4T \<equiv> 56"
abbreviation (input) LIBXSMM_MELTW_TYPE_UNARY_TRANSFORM_VNNI4_TO_NORM :: u32 where "LIBXSMM_MELTW_TYPE_UNARY_TRANSFORM_VNNI4_TO_NORM \<equiv> 61"
abbreviation (input) LIBXSMM_MELTW_TYPE_UNARY_TRANSFORM_VNNI4_TO_VNNI2 :: u32 where "LIBXSMM_MELTW_TYPE_UNARY_TRANSFORM_VNNI4_TO_VNNI2 \<equiv> 62"
abbreviation (input) LIBXSMM_MELTW_TYPE_UNARY_TRANSFORM_VNNI4_TO_VNNI4T :: u32 where "LIBXSMM_MELTW_TYPE_UNARY_TRANSFORM_VNNI4_TO_VNNI4T \<equiv> 55"
abbreviation (input) LIBXSMM_MELTW_TYPE_UNARY_TRANSFORM_VNNI4T_TO_NORM :: u32 where "LIBXSMM_MELTW_TYPE_UNARY_TRANSFORM_VNNI4T_TO_NORM \<equiv> 66"
abbreviation (input) LIBXSMM_MELTW_TYPE_UNARY_TRANSFORM_VNNI2T_TO_NORM :: u32 where "LIBXSMM_MELTW_TYPE_UNARY_TRANSFORM_VNNI2T_TO_NORM \<equiv> 67"
abbreviation (input) LIBXSMM_MELTW_TYPE_UNARY_TRANSFORM_NORM_TO_VNNI4_PAD :: u32 where "LIBXSMM_MELTW_TYPE_UNARY_TRANSFORM_NORM_TO_VNNI4_PAD \<equiv> 57"
abbreviation (input) LIBXSMM_MELTW_TYPE_UNARY_TRANSFORM_PADM_MOD2 :: u32 where "LIBXSMM_MELTW_TYPE_UNARY_TRANSFORM_PADM_MOD2 \<equiv> 39"
abbreviation (input) LIBXSMM_MELTW_TYPE_UNARY_TRANSFORM_PADN_MOD2 :: u32 where "LIBXSMM_MELTW_TYPE_UNARY_TRANSFORM_PADN_MOD2 \<equiv> 40"
abbreviation (input) LIBXSMM_MELTW_TYPE_UNARY_TRANSFORM_PADNM_MOD2 :: u32 where "LIBXSMM_MELTW_TYPE_UNARY_TRANSFORM_PADNM_MOD2 \<equiv> 41"
abbreviation (input) LIBXSMM_MELTW_TYPE_UNARY_TRANSFORM_PADM_MOD4 :: u32 where "LIBXSMM_MELTW_TYPE_UNARY_TRANSFORM_PADM_MOD4 \<equiv> 58"
abbreviation (input) LIBXSMM_MELTW_TYPE_UNARY_TRANSFORM_PADN_MOD4 :: u32 where "LIBXSMM_MELTW_TYPE_UNARY_TRANSFORM_PADN_MOD4 \<equiv> 59"
abbreviation (input) LIBXSMM_MELTW_TYPE_UNARY_TRANSFORM_PADNM_MOD4 :: u32 where "LIBXSMM_MELTW_TYPE_UNARY_TRANSFORM_PADNM_MOD4 \<equiv> 60"
abbreviation (input) LIBXSMM_MELTW_TYPE_UNARY_REDUCE_TO_SCALAR_OP_ADD :: u32 where "LIBXSMM_MELTW_TYPE_UNARY_REDUCE_TO_SCALAR_OP_ADD \<equiv> 24"
abbreviation (input) LIBXSMM_MELTW_TYPE_BINARY_MUL_AND_REDUCE_TO_SCALAR_OP_ADD :: u32 where "LIBXSMM_MELTW_TYPE_BINARY_MUL_AND_REDUCE_TO_SCALAR_OP_ADD \<equiv> 7"
abbreviation (input) LIBXSMM_MELTW_TYPE_BINARY_BRGEMM :: u32 where "LIBXSMM_MELTW_TYPE_BINARY_BRGEMM \<equiv> 11"
abbreviation (input) LIBXSMM_MELTW_TYPE_BINARY_BRGEMM_B_TRANS :: u32 where "LIBXSMM_MELTW_TYPE_BINARY_BRGEMM_B_TRANS \<equiv> 12"
abbreviation (input) LIBXSMM_MELTW_TYPE_BINARY_BRGEMM_A_TRANS :: u32 where "LIBXSMM_MELTW_TYPE_BINARY_BRGEMM_A_TRANS \<equiv> 13"
abbreviation (input) LIBXSMM_MELTW_TYPE_BINARY_BRGEMM_A_TRANS_B_TRANS :: u32 where "LIBXSMM_MELTW_TYPE_BINARY_BRGEMM_A_TRANS_B_TRANS \<equiv> 14"
abbreviation (input) LIBXSMM_MELTW_TYPE_BINARY_BRGEMM_A_VNNI :: u32 where "LIBXSMM_MELTW_TYPE_BINARY_BRGEMM_A_VNNI \<equiv> 15"
abbreviation (input) LIBXSMM_MELTW_TYPE_BINARY_BRGEMM_A_VNNI_B_TRANS :: u32 where "LIBXSMM_MELTW_TYPE_BINARY_BRGEMM_A_VNNI_B_TRANS \<equiv> 16"
abbreviation (input) LIBXSMM_MELTW_TYPE_BINARY_BRGEMM_A_VNNI_TRANS :: u32 where "LIBXSMM_MELTW_TYPE_BINARY_BRGEMM_A_VNNI_TRANS \<equiv> 17"
abbreviation (input) LIBXSMM_MELTW_TYPE_BINARY_BRGEMM_A_VNNI_TRANS_B_TRANS :: u32 where "LIBXSMM_MELTW_TYPE_BINARY_BRGEMM_A_VNNI_TRANS_B_TRANS \<equiv> 18"
abbreviation (input) LIBXSMM_MELTW_TYPE_BINARY_MATMUL :: u32 where "LIBXSMM_MELTW_TYPE_BINARY_MATMUL \<equiv> 6"
abbreviation (input) LIBXSMM_MELTW_TYPE_BINARY_MATMUL_B_TRANS :: u32 where "LIBXSMM_MELTW_TYPE_BINARY_MATMUL_B_TRANS \<equiv> 19"
abbreviation (input) LIBXSMM_MELTW_TYPE_BINARY_MATMUL_A_TRANS :: u32 where "LIBXSMM_MELTW_TYPE_BINARY_MATMUL_A_TRANS \<equiv> 20"
abbreviation (input) LIBXSMM_MELTW_TYPE_BINARY_MATMUL_A_TRANS_B_TRANS :: u32 where "LIBXSMM_MELTW_TYPE_BINARY_MATMUL_A_TRANS_B_TRANS \<equiv> 21"
abbreviation (input) LIBXSMM_MELTW_TYPE_BINARY_MATMUL_A_VNNI :: u32 where "LIBXSMM_MELTW_TYPE_BINARY_MATMUL_A_VNNI \<equiv> 22"
abbreviation (input) LIBXSMM_MELTW_TYPE_BINARY_MATMUL_A_VNNI_B_TRANS :: u32 where "LIBXSMM_MELTW_TYPE_BINARY_MATMUL_A_VNNI_B_TRANS \<equiv> 23"
abbreviation (input) LIBXSMM_MELTW_TYPE_BINARY_MATMUL_A_VNNI_TRANS :: u32 where "LIBXSMM_MELTW_TYPE_BINARY_MATMUL_A_VNNI_TRANS \<equiv> 24"
abbreviation (input) LIBXSMM_MELTW_TYPE_BINARY_MATMUL_A_VNNI_TRANS_B_TRANS :: u32 where "LIBXSMM_MELTW_TYPE_BINARY_MATMUL_A_VNNI_TRANS_B_TRANS \<equiv> 25"
abbreviation (input) LIBXSMM_MELTW_TYPE_TERNARY_BRGEMM :: u32 where "LIBXSMM_MELTW_TYPE_TERNARY_BRGEMM \<equiv> 5"
abbreviation (input) LIBXSMM_MELTW_TYPE_TERNARY_BRGEMM_B_TRANS :: u32 where "LIBXSMM_MELTW_TYPE_TERNARY_BRGEMM_B_TRANS \<equiv> 6"
abbreviation (input) LIBXSMM_MELTW_TYPE_TERNARY_BRGEMM_A_TRANS :: u32 where "LIBXSMM_MELTW_TYPE_TERNARY_BRGEMM_A_TRANS \<equiv> 7"
abbreviation (input) LIBXSMM_MELTW_TYPE_TERNARY_BRGEMM_A_TRANS_B_TRANS :: u32 where "LIBXSMM_MELTW_TYPE_TERNARY_BRGEMM_A_TRANS_B_TRANS \<equiv> 8"
abbreviation (input) LIBXSMM_MELTW_TYPE_TERNARY_BRGEMM_A_VNNI :: u32 where "LIBXSMM_MELTW_TYPE_TERNARY_BRGEMM_A_VNNI \<equiv> 9"
abbreviation (input) LIBXSMM_MELTW_TYPE_TERNARY_BRGEMM_A_VNNI_B_TRANS :: u32 where "LIBXSMM_MELTW_TYPE_TERNARY_BRGEMM_A_VNNI_B_TRANS \<equiv> 10"
abbreviation (input) LIBXSMM_MELTW_TYPE_TERNARY_BRGEMM_A_VNNI_TRANS :: u32 where "LIBXSMM_MELTW_TYPE_TERNARY_BRGEMM_A_VNNI_TRANS \<equiv> 11"
abbreviation (input) LIBXSMM_MELTW_TYPE_TERNARY_BRGEMM_A_VNNI_TRANS_B_TRANS :: u32 where "LIBXSMM_MELTW_TYPE_TERNARY_BRGEMM_A_VNNI_TRANS_B_TRANS \<equiv> 12"
abbreviation (input) LIBXSMM_MELTW_TYPE_TERNARY_MATMUL :: u32 where "LIBXSMM_MELTW_TYPE_TERNARY_MATMUL \<equiv> 2"
abbreviation (input) LIBXSMM_MELTW_TYPE_TERNARY_MATMUL_B_TRANS :: u32 where "LIBXSMM_MELTW_TYPE_TERNARY_MATMUL_B_TRANS \<equiv> 13"
abbreviation (input) LIBXSMM_MELTW_TYPE_TERNARY_MATMUL_A_TRANS :: u32 where "LIBXSMM_MELTW_TYPE_TERNARY_MATMUL_A_TRANS \<equiv> 14"
abbreviation (input) LIBXSMM_MELTW_TYPE_TERNARY_MATMUL_A_TRANS_B_TRANS :: u32 where "LIBXSMM_MELTW_TYPE_TERNARY_MATMUL_A_TRANS_B_TRANS \<equiv> 15"
abbreviation (input) LIBXSMM_MELTW_TYPE_TERNARY_MATMUL_A_VNNI :: u32 where "LIBXSMM_MELTW_TYPE_TERNARY_MATMUL_A_VNNI \<equiv> 16"
abbreviation (input) LIBXSMM_MELTW_TYPE_TERNARY_MATMUL_A_VNNI_B_TRANS :: u32 where "LIBXSMM_MELTW_TYPE_TERNARY_MATMUL_A_VNNI_B_TRANS \<equiv> 17"
abbreviation (input) LIBXSMM_MELTW_TYPE_TERNARY_MATMUL_A_VNNI_TRANS :: u32 where "LIBXSMM_MELTW_TYPE_TERNARY_MATMUL_A_VNNI_TRANS \<equiv> 18"
abbreviation (input) LIBXSMM_MELTW_TYPE_TERNARY_MATMUL_A_VNNI_TRANS_B_TRANS :: u32 where "LIBXSMM_MELTW_TYPE_TERNARY_MATMUL_A_VNNI_TRANS_B_TRANS \<equiv> 19"
abbreviation (input) LIBXSMM_MAX_EQN_COUNT :: nat where "LIBXSMM_MAX_EQN_COUNT \<equiv> 4096"

section \<open>Nodes\<close>

datatype libxsmm_meqn_bcast_type =
  LIBXSMM_MATRIX_EQN_BCAST_TYPE_NONE
| LIBXSMM_MATRIX_EQN_BCAST_TYPE_ROW
| LIBXSMM_MATRIX_EQN_BCAST_TYPE_COL
| LIBXSMM_MATRIX_EQN_BCAST_TYPE_SCALAR

datatype libxsmm_matrix_arg_type =
  LIBXSMM_MATRIX_ARG_TYPE_SINGULAR
| LIBXSMM_MATRIX_ARG_TYPE_SET

datatype libxsmm_matrix_arg_set_type =
  LIBXSMM_MATRIX_ARG_SET_TYPE_NONE
| LIBXSMM_MATRIX_ARG_SET_TYPE_ABS_ADDRESS
| LIBXSMM_MATRIX_ARG_SET_TYPE_OFFSET_BASE
| LIBXSMM_MATRIX_ARG_SET_TYPE_STRIDE_BASE

record libxsmm_matrix_arg_attributes =
  arg_type :: libxsmm_matrix_arg_type
  arg_set_type :: libxsmm_matrix_arg_set_type
  set_cardinality_hint :: int
  set_stride_hint :: int

record libxsmm_meqn_arg_shape =
  shape_m :: int
  shape_n :: int
  shape_ld :: int
  shape_type :: libxsmm_datatype

record libxsmm_meqn_op_metadata =
  op_eqn_idx :: int
  op_op_arg_pos :: int

record libxsmm_meqn_arg_metadata =
  arg_eqn_idx :: int
  arg_in_arg_pos :: int

record libxsmm_meqn_unary_op =
  u_type :: u32
  u_flags :: u32
  u_dtype :: libxsmm_datatype
  u_op_arg_pos :: int

record libxsmm_meqn_binary_op =
  b_type :: u32
  b_flags :: u32
  b_dtype :: libxsmm_datatype
  b_op_arg_pos :: int
  b_is_matmul :: int
  b_is_brgemm :: int

record libxsmm_meqn_ternary_op =
  t_type :: u32
  t_flags :: u32
  t_dtype :: libxsmm_datatype
  t_op_arg_pos :: int
  t_is_matmul :: int
  t_is_brgemm :: int

text \<open>The members \<open>offs_in_pos\<close> and \<open>bcast_type\<close> of an argument are never set or read by the file.\<close>

record libxsmm_meqn_arg =
  arg_m :: int
  arg_n :: int
  arg_ld :: int
  arg_in_pos :: int
  arg_dtype :: libxsmm_datatype
  arg_attr :: libxsmm_matrix_arg_attributes

text \<open>Of the temporary the members that the file uses; the kernel generators keep copies of them in the others.\<close>

record libxsmm_meqn_tmp_info =
  tmp_id :: int
  tmp_m :: int
  tmp_n :: int
  tmp_ld :: int
  tmp_dtype :: libxsmm_datatype

datatype libxsmm_meqn_info =
  NODE_NONE
| NODE_UNARY libxsmm_meqn_unary_op
| NODE_BINARY libxsmm_meqn_binary_op
| NODE_TERNARY libxsmm_meqn_ternary_op
| NODE_ARG libxsmm_meqn_arg

record meqn_fields =
  reg_score :: int
  visit_timestamp :: int
  tmp :: libxsmm_meqn_tmp_info
  max_tmp_size :: int
  n_args :: int
  tree_max_comp_tsize :: int

datatype libxsmm_meqn_elem =
  Null
| Elem (info: libxsmm_meqn_info) (flds: meqn_fields) (le: libxsmm_meqn_elem) (ri: libxsmm_meqn_elem) (r2: libxsmm_meqn_elem)

fun is_arg :: "libxsmm_meqn_elem \<Rightarrow> bool" where
  "is_arg (Elem (NODE_ARG a) f l r q) = True"
| "is_arg _ = False"

fun arg_of :: "libxsmm_meqn_elem \<Rightarrow> libxsmm_meqn_arg option" where
  "arg_of (Elem (NODE_ARG a) f l r q) = Some a"
| "arg_of _ = None"

text \<open>The size of an element of a type, as the macro \<open>LIBXSMM_TYPESIZE\<close> gives it.\<close>

definition typesize :: "libxsmm_datatype \<Rightarrow> int" where
  "typesize d = uint (LIBXSMM_TYPESIZE (libxsmm_datatype_val d))"

section \<open>Questions about a tree\<close>

fun libxsmm_meqn_tree_contains_opcode :: "libxsmm_meqn_elem \<Rightarrow> u32 \<Rightarrow> u32 \<Rightarrow> u32 \<Rightarrow> nat \<Rightarrow> nat" where
  "libxsmm_meqn_tree_contains_opcode (Elem (NODE_UNARY u) f l r q) u_opcode b_opcode t_opcode result =
    (let result = (if u_type u = u_opcode then 1 else result)
     in libxsmm_meqn_tree_contains_opcode l u_opcode b_opcode t_opcode result)"
| "libxsmm_meqn_tree_contains_opcode (Elem (NODE_BINARY b) f l r q) u_opcode b_opcode t_opcode result =
    (let result = (if b_type b = b_opcode then 1 else result);
         result = libxsmm_meqn_tree_contains_opcode l u_opcode b_opcode t_opcode result
     in libxsmm_meqn_tree_contains_opcode r u_opcode b_opcode t_opcode result)"
| "libxsmm_meqn_tree_contains_opcode (Elem (NODE_TERNARY t) f l r q) u_opcode b_opcode t_opcode result =
    (let result = (if t_type t = t_opcode then 1 else result);
         result = libxsmm_meqn_tree_contains_opcode l u_opcode b_opcode t_opcode result;
         result = libxsmm_meqn_tree_contains_opcode r u_opcode b_opcode t_opcode result
     in libxsmm_meqn_tree_contains_opcode q u_opcode b_opcode t_opcode result)"
| "libxsmm_meqn_tree_contains_opcode _ u_opcode b_opcode t_opcode result = result"

fun libxsmm_meqn_tree_all_nodes_dtype :: "libxsmm_meqn_elem \<Rightarrow> libxsmm_datatype \<Rightarrow> nat \<Rightarrow> nat" where
  "libxsmm_meqn_tree_all_nodes_dtype (Elem nd f l r q) dtype result =
    (let result = (if tmp_dtype (tmp f) \<noteq> dtype then 0 else result)
     in case nd of
          NODE_UNARY u \<Rightarrow> libxsmm_meqn_tree_all_nodes_dtype l dtype result
        | NODE_BINARY b \<Rightarrow>
            libxsmm_meqn_tree_all_nodes_dtype r dtype (libxsmm_meqn_tree_all_nodes_dtype l dtype result)
        | NODE_TERNARY t \<Rightarrow>
            libxsmm_meqn_tree_all_nodes_dtype q dtype
              (libxsmm_meqn_tree_all_nodes_dtype r dtype (libxsmm_meqn_tree_all_nodes_dtype l dtype result))
        | _ \<Rightarrow> result)"
| "libxsmm_meqn_tree_all_nodes_dtype Null dtype result = result"

fun libxsmm_meqn_tree_all_args_dtype :: "libxsmm_meqn_elem \<Rightarrow> libxsmm_datatype \<Rightarrow> nat \<Rightarrow> nat" where
  "libxsmm_meqn_tree_all_args_dtype (Elem nd f l r q) dtype result =
    (case nd of
       NODE_ARG a \<Rightarrow> (if arg_dtype a \<noteq> dtype then 0 else result)
     | NODE_UNARY u \<Rightarrow> libxsmm_meqn_tree_all_args_dtype l dtype result
     | NODE_BINARY b \<Rightarrow>
         libxsmm_meqn_tree_all_args_dtype r dtype (libxsmm_meqn_tree_all_args_dtype l dtype result)
     | NODE_TERNARY t \<Rightarrow>
         libxsmm_meqn_tree_all_args_dtype q dtype
           (libxsmm_meqn_tree_all_args_dtype r dtype (libxsmm_meqn_tree_all_args_dtype l dtype result))
     | NODE_NONE \<Rightarrow> result)"
| "libxsmm_meqn_tree_all_args_dtype Null dtype result = result"

fun libxsmm_meqn_tree_any_args_dtype :: "libxsmm_meqn_elem \<Rightarrow> libxsmm_datatype \<Rightarrow> nat \<Rightarrow> nat" where
  "libxsmm_meqn_tree_any_args_dtype (Elem nd f l r q) dtype result =
    (case nd of
       NODE_ARG a \<Rightarrow> (if arg_dtype a = dtype then 1 else result)
     | NODE_UNARY u \<Rightarrow> libxsmm_meqn_tree_any_args_dtype l dtype result
     | NODE_BINARY b \<Rightarrow>
         libxsmm_meqn_tree_any_args_dtype r dtype (libxsmm_meqn_tree_any_args_dtype l dtype result)
     | NODE_TERNARY t \<Rightarrow>
         libxsmm_meqn_tree_any_args_dtype q dtype
           (libxsmm_meqn_tree_any_args_dtype r dtype (libxsmm_meqn_tree_any_args_dtype l dtype result))
     | NODE_NONE \<Rightarrow> result)"
| "libxsmm_meqn_tree_any_args_dtype Null dtype result = result"

definition libxsmm_meqn_are_nodes_pure_f32 :: "libxsmm_meqn_elem \<Rightarrow> nat \<Rightarrow> nat" where
  "libxsmm_meqn_are_nodes_pure_f32 cur_node result =
    libxsmm_meqn_tree_all_nodes_dtype cur_node LIBXSMM_DATATYPE_F32 result"

section \<open>Broadcasts and operation types\<close>

definition libxsmm_meqn_get_bcast_type_unary :: "u32 \<Rightarrow> libxsmm_meqn_bcast_type" where
  "libxsmm_meqn_get_bcast_type_unary flags =
   (if flags AND LIBXSMM_MELTW_FLAG_UNARY_BCAST_ROW > 0 then LIBXSMM_MATRIX_EQN_BCAST_TYPE_ROW
    else if flags AND LIBXSMM_MELTW_FLAG_UNARY_BCAST_COL > 0 then LIBXSMM_MATRIX_EQN_BCAST_TYPE_COL
    else if flags AND LIBXSMM_MELTW_FLAG_UNARY_BCAST_SCALAR > 0 then LIBXSMM_MATRIX_EQN_BCAST_TYPE_SCALAR
    else LIBXSMM_MATRIX_EQN_BCAST_TYPE_NONE)"

text \<open>The side of a child under its parent: \<open>LEFT\<close>, \<open>RIGHT\<close> and \<open>RIGHT2\<close> of the header.\<close>

datatype side = LEFT | RIGHT | RIGHT2

definition libxsmm_meqn_get_bcast_type_binary :: "u32 \<Rightarrow> side \<Rightarrow> libxsmm_meqn_bcast_type" where
  "libxsmm_meqn_get_bcast_type_binary flags side =
   (case side of
      RIGHT \<Rightarrow>
        (if flags AND LIBXSMM_MELTW_FLAG_BINARY_BCAST_ROW_IN_1 > 0 then LIBXSMM_MATRIX_EQN_BCAST_TYPE_ROW
         else if flags AND LIBXSMM_MELTW_FLAG_BINARY_BCAST_COL_IN_1 > 0 then LIBXSMM_MATRIX_EQN_BCAST_TYPE_COL
         else if flags AND LIBXSMM_MELTW_FLAG_BINARY_BCAST_SCALAR_IN_1 > 0 then LIBXSMM_MATRIX_EQN_BCAST_TYPE_SCALAR
         else LIBXSMM_MATRIX_EQN_BCAST_TYPE_NONE)
    | LEFT \<Rightarrow>
        (if flags AND LIBXSMM_MELTW_FLAG_BINARY_BCAST_ROW_IN_0 > 0 then LIBXSMM_MATRIX_EQN_BCAST_TYPE_ROW
         else if flags AND LIBXSMM_MELTW_FLAG_BINARY_BCAST_COL_IN_0 > 0 then LIBXSMM_MATRIX_EQN_BCAST_TYPE_COL
         else if flags AND LIBXSMM_MELTW_FLAG_BINARY_BCAST_SCALAR_IN_0 > 0 then LIBXSMM_MATRIX_EQN_BCAST_TYPE_SCALAR
         else LIBXSMM_MATRIX_EQN_BCAST_TYPE_NONE)
    | RIGHT2 \<Rightarrow> LIBXSMM_MATRIX_EQN_BCAST_TYPE_NONE)"

definition libxsmm_meqn_get_bcast_type_ternary :: "u32 \<Rightarrow> side \<Rightarrow> libxsmm_meqn_bcast_type" where
  "libxsmm_meqn_get_bcast_type_ternary flags side =
   (case side of
      RIGHT2 \<Rightarrow>
        (if flags AND LIBXSMM_MELTW_FLAG_TERNARY_BCAST_ROW_IN_2 > 0 then LIBXSMM_MATRIX_EQN_BCAST_TYPE_ROW
         else if flags AND LIBXSMM_MELTW_FLAG_TERNARY_BCAST_COL_IN_2 > 0 then LIBXSMM_MATRIX_EQN_BCAST_TYPE_COL
         else if flags AND LIBXSMM_MELTW_FLAG_TERNARY_BCAST_SCALAR_IN_2 > 0 then LIBXSMM_MATRIX_EQN_BCAST_TYPE_SCALAR
         else LIBXSMM_MATRIX_EQN_BCAST_TYPE_NONE)
    | RIGHT \<Rightarrow>
        (if flags AND LIBXSMM_MELTW_FLAG_TERNARY_BCAST_ROW_IN_1 > 0 then LIBXSMM_MATRIX_EQN_BCAST_TYPE_ROW
         else if flags AND LIBXSMM_MELTW_FLAG_TERNARY_BCAST_COL_IN_1 > 0 then LIBXSMM_MATRIX_EQN_BCAST_TYPE_COL
         else if flags AND LIBXSMM_MELTW_FLAG_TERNARY_BCAST_SCALAR_IN_1 > 0 then LIBXSMM_MATRIX_EQN_BCAST_TYPE_SCALAR
         else LIBXSMM_MATRIX_EQN_BCAST_TYPE_NONE)
    | LEFT \<Rightarrow>
        (if flags AND LIBXSMM_MELTW_FLAG_TERNARY_BCAST_ROW_IN_0 > 0 then LIBXSMM_MATRIX_EQN_BCAST_TYPE_ROW
         else if flags AND LIBXSMM_MELTW_FLAG_TERNARY_BCAST_COL_IN_0 > 0 then LIBXSMM_MATRIX_EQN_BCAST_TYPE_COL
         else if flags AND LIBXSMM_MELTW_FLAG_TERNARY_BCAST_SCALAR_IN_0 > 0 then LIBXSMM_MATRIX_EQN_BCAST_TYPE_SCALAR
         else LIBXSMM_MATRIX_EQN_BCAST_TYPE_NONE))"

definition libxsmm_meqn_is_unary_opcode_reduce_cols_idx_kernel :: "u32 \<Rightarrow> bool" where
  "libxsmm_meqn_is_unary_opcode_reduce_cols_idx_kernel opcode \<longleftrightarrow>
    opcode = LIBXSMM_MELTW_TYPE_UNARY_REDUCE_COLS_IDX_OP_ADD \<or>
    opcode = LIBXSMM_MELTW_TYPE_UNARY_REDUCE_COLS_IDX_OP_MAX \<or>
    opcode = LIBXSMM_MELTW_TYPE_UNARY_REDUCE_COLS_IDX_OP_MIN"

definition libxsmm_meqn_is_unary_opcode_reduce_kernel :: "u32 \<Rightarrow> bool" where
  "libxsmm_meqn_is_unary_opcode_reduce_kernel opcode \<longleftrightarrow>
    opcode = LIBXSMM_MELTW_TYPE_UNARY_REDUCE_X_OP_ADD \<or>
    opcode = LIBXSMM_MELTW_TYPE_UNARY_REDUCE_X_OP_MAX \<or>
    opcode = LIBXSMM_MELTW_TYPE_UNARY_REDUCE_X_OP_ABSMAX \<or>
    opcode = LIBXSMM_MELTW_TYPE_UNARY_REDUCE_X_OP_MIN \<or>
    opcode = LIBXSMM_MELTW_TYPE_UNARY_REDUCE_X_OP_MUL \<or>
    opcode = LIBXSMM_MELTW_TYPE_UNARY_REDUCE_X2_OP_ADD \<or>
    opcode = LIBXSMM_MELTW_TYPE_UNARY_REDUCE_X_OP_ADD_NCNC_FORMAT \<or>
    opcode = LIBXSMM_MELTW_TYPE_UNARY_REDUCE_X_X2_OP_ADD"

definition libxsmm_meqn_is_unary_opcode_transform_kernel :: "u32 \<Rightarrow> bool" where
  "libxsmm_meqn_is_unary_opcode_transform_kernel opcode \<longleftrightarrow>
    opcode = LIBXSMM_MELTW_TYPE_UNARY_TRANSFORM_NORM_TO_VNNI2 \<or>
    opcode = LIBXSMM_MELTW_TYPE_UNARY_TRANSFORM_NORM_TO_NORMT \<or>
    opcode = LIBXSMM_MELTW_TYPE_UNARY_TRANSFORM_VNNI2_TO_VNNI2T \<or>
    opcode = LIBXSMM_MELTW_TYPE_UNARY_TRANSFORM_NORM_TO_VNNI2T \<or>
    opcode = LIBXSMM_MELTW_TYPE_UNARY_TRANSFORM_NORM_TO_VNNI2_PAD \<or>
    opcode = LIBXSMM_MELTW_TYPE_UNARY_TRANSFORM_NORM_TO_VNNI4 \<or>
    opcode = LIBXSMM_MELTW_TYPE_UNARY_TRANSFORM_NORM_TO_VNNI4T \<or>
    opcode = LIBXSMM_MELTW_TYPE_UNARY_TRANSFORM_VNNI4_TO_NORM \<or>
    opcode = LIBXSMM_MELTW_TYPE_UNARY_TRANSFORM_VNNI4_TO_VNNI2 \<or>
    opcode = LIBXSMM_MELTW_TYPE_UNARY_TRANSFORM_VNNI4_TO_VNNI4T \<or>
    opcode = LIBXSMM_MELTW_TYPE_UNARY_TRANSFORM_VNNI4T_TO_NORM \<or>
    opcode = LIBXSMM_MELTW_TYPE_UNARY_TRANSFORM_VNNI2T_TO_NORM \<or>
    opcode = LIBXSMM_MELTW_TYPE_UNARY_TRANSFORM_NORM_TO_VNNI4_PAD \<or>
    opcode = LIBXSMM_MELTW_TYPE_UNARY_TRANSFORM_PADM_MOD2 \<or>
    opcode = LIBXSMM_MELTW_TYPE_UNARY_TRANSFORM_PADN_MOD2 \<or>
    opcode = LIBXSMM_MELTW_TYPE_UNARY_TRANSFORM_PADNM_MOD2 \<or>
    opcode = LIBXSMM_MELTW_TYPE_UNARY_TRANSFORM_PADM_MOD4 \<or>
    opcode = LIBXSMM_MELTW_TYPE_UNARY_TRANSFORM_PADN_MOD4 \<or>
    opcode = LIBXSMM_MELTW_TYPE_UNARY_TRANSFORM_PADNM_MOD4"

definition libxsmm_meqn_is_unary_opcode_reduce_to_scalar :: "u32 \<Rightarrow> bool" where
  "libxsmm_meqn_is_unary_opcode_reduce_to_scalar opcode \<longleftrightarrow>
    opcode = LIBXSMM_MELTW_TYPE_UNARY_REDUCE_TO_SCALAR_OP_ADD"

definition libxsmm_meqn_is_binary_opcode_reduce_to_scalar :: "u32 \<Rightarrow> bool" where
  "libxsmm_meqn_is_binary_opcode_reduce_to_scalar opcode \<longleftrightarrow>
    opcode = LIBXSMM_MELTW_TYPE_BINARY_MUL_AND_REDUCE_TO_SCALAR_OP_ADD"

section \<open>Overwriting an operand\<close>

abbreviation score :: "libxsmm_meqn_elem \<Rightarrow> int" where
  "score t \<equiv> reg_score (flds t)"

abbreviation tmp_of :: "libxsmm_meqn_elem \<Rightarrow> libxsmm_meqn_tmp_info" where
  "tmp_of t \<equiv> tmp (flds t)"

definition is_low_precision :: "libxsmm_datatype \<Rightarrow> bool" where
  "is_low_precision d \<longleftrightarrow>
    d = LIBXSMM_DATATYPE_BF16 \<or> d = LIBXSMM_DATATYPE_F16 \<or> d = LIBXSMM_DATATYPE_BF8 \<or> d = LIBXSMM_DATATYPE_HF8"

definition libxsmm_meqn_can_overwrite_unary_input :: "libxsmm_meqn_unary_op \<Rightarrow> meqn_fields \<Rightarrow> libxsmm_meqn_elem \<Rightarrow> bool" where
  "libxsmm_meqn_can_overwrite_unary_input u f l =
   (let result = True;
        result = (if u_type u = LIBXSMM_MELTW_TYPE_UNARY_IDENTITY then False else result);
        result = (if is_low_precision (tmp_dtype (tmp_of l)) \<and>
                     (tmp_dtype (tmp f) = LIBXSMM_DATATYPE_F32 \<or> tmp_dtype (tmp f) = LIBXSMM_DATATYPE_F64)
                  then False else result);
        result = (if libxsmm_meqn_is_unary_opcode_transform_kernel (u_type u) then False else result)
    in result)"

definition libxsmm_meqn_can_overwrite_binary_input ::
    "libxsmm_meqn_binary_op \<Rightarrow> meqn_fields \<Rightarrow> libxsmm_meqn_elem \<Rightarrow> libxsmm_meqn_elem \<Rightarrow> bool" where
  "libxsmm_meqn_can_overwrite_binary_input b f l r =
   (let result = True;
        result = (if b_is_matmul b = 1 \<or> b_is_brgemm b = 1 then False else result);
        result = (if (is_low_precision (tmp_dtype (tmp_of l)) \<or> is_low_precision (tmp_dtype (tmp_of r))) \<and>
                     (tmp_dtype (tmp f) = LIBXSMM_DATATYPE_F32 \<or> tmp_dtype (tmp f) = LIBXSMM_DATATYPE_F64)
                  then False else result)
    in result)"

definition use_r2_as_output :: "libxsmm_meqn_ternary_op \<Rightarrow> bool" where
  "use_r2_as_output t \<longleftrightarrow> t_flags t AND LIBXSMM_MELTW_FLAG_TERNARY_REUSE_IN_2_AS_OUT > 0"

section \<open>Element types and register scores\<close>

definition set_dtype :: "libxsmm_datatype \<Rightarrow> meqn_fields \<Rightarrow> meqn_fields" where
  "set_dtype d f = f\<lparr>tmp := (tmp f)\<lparr>tmp_dtype := d\<rparr>\<rparr>"

fun libxsmm_meqn_propagate_tmp_info :: "libxsmm_meqn_elem \<Rightarrow> libxsmm_meqn_elem" where
  "libxsmm_meqn_propagate_tmp_info (Elem (NODE_ARG a) f l r q) =
    (if l = Null \<and> r = Null then Elem (NODE_ARG a) (set_dtype (arg_dtype a) f) l r q
     else Elem (NODE_ARG a) f l r q)"
| "libxsmm_meqn_propagate_tmp_info (Elem (NODE_UNARY u) f l r q) =
    (if l \<noteq> Null then Elem (NODE_UNARY u) (set_dtype (u_dtype u) f) (libxsmm_meqn_propagate_tmp_info l) r q
     else Elem (NODE_UNARY u) f l r q)"
| "libxsmm_meqn_propagate_tmp_info (Elem (NODE_BINARY b) f l r q) =
    (if l \<noteq> Null \<and> r \<noteq> Null then
       Elem (NODE_BINARY b) (set_dtype (b_dtype b) f)
         (libxsmm_meqn_propagate_tmp_info l) (libxsmm_meqn_propagate_tmp_info r) q
     else Elem (NODE_BINARY b) f l r q)"
| "libxsmm_meqn_propagate_tmp_info (Elem (NODE_TERNARY t) f l r q) =
    (if l \<noteq> Null \<and> r \<noteq> Null \<and> q \<noteq> Null then
       Elem (NODE_TERNARY t) (set_dtype (t_dtype t) f)
         (libxsmm_meqn_propagate_tmp_info l) (libxsmm_meqn_propagate_tmp_info r) (libxsmm_meqn_propagate_tmp_info q)
     else Elem (NODE_TERNARY t) f l r q)"
| "libxsmm_meqn_propagate_tmp_info t = t"

text \<open>The score of an operation, from its scored children.\<close>

definition unary_score :: "libxsmm_meqn_unary_op \<Rightarrow> meqn_fields \<Rightarrow> libxsmm_meqn_elem \<Rightarrow> int" where
  "unary_score u f l =
   (if is_arg l then 1
    else if libxsmm_meqn_can_overwrite_unary_input u f l then score l
    else max 2 (score l))"

definition binary_score :: "libxsmm_meqn_binary_op \<Rightarrow> meqn_fields \<Rightarrow> libxsmm_meqn_elem \<Rightarrow> libxsmm_meqn_elem \<Rightarrow> int" where
  "binary_score b f l r =
   (if is_arg l \<and> is_arg r then 1
    else if libxsmm_meqn_can_overwrite_binary_input b f l r then
      (if score l = score r then score l + 1 else max (score l) (score r))
    else
      (if score l = score r then max 3 (score l + 1) else max 3 (max (score l) (score r))))"

definition ternary_score :: "libxsmm_meqn_ternary_op \<Rightarrow> libxsmm_meqn_elem \<Rightarrow> libxsmm_meqn_elem \<Rightarrow> libxsmm_meqn_elem \<Rightarrow> int" where
  "ternary_score t l r q =
   (if is_arg l \<and> is_arg r \<and> is_arg q then 1
    else if use_r2_as_output t then max 3 (max (max (score l) (score r)) (score q))
    else max 4 (max (max (score l) (score r)) (score q)))"

fun libxsmm_meqn_assign_reg_scores :: "libxsmm_meqn_elem \<Rightarrow> libxsmm_meqn_elem" where
  "libxsmm_meqn_assign_reg_scores (Elem (NODE_ARG a) f l r q) =
    (if l = Null \<and> r = Null then Elem (NODE_ARG a) (f\<lparr>reg_score := 0\<rparr>) l r q
     else Elem (NODE_ARG a) f l r q)"
| "libxsmm_meqn_assign_reg_scores (Elem (NODE_UNARY u) f l r q) =
    (if l \<noteq> Null then
       (let l' = libxsmm_meqn_assign_reg_scores l
        in Elem (NODE_UNARY u) (f\<lparr>reg_score := unary_score u f l'\<rparr>) l' r q)
     else Elem (NODE_UNARY u) f l r q)"
| "libxsmm_meqn_assign_reg_scores (Elem (NODE_BINARY b) f l r q) =
    (if l \<noteq> Null \<and> r \<noteq> Null then
       (let l' = libxsmm_meqn_assign_reg_scores l; r' = libxsmm_meqn_assign_reg_scores r
        in Elem (NODE_BINARY b) (f\<lparr>reg_score := binary_score b f l' r'\<rparr>) l' r' q)
     else Elem (NODE_BINARY b) f l r q)"
| "libxsmm_meqn_assign_reg_scores (Elem (NODE_TERNARY t) f l r q) =
    (if l \<noteq> Null \<and> r \<noteq> Null \<and> q \<noteq> Null then
       (let l' = libxsmm_meqn_assign_reg_scores l; r' = libxsmm_meqn_assign_reg_scores r;
            q' = libxsmm_meqn_assign_reg_scores q
        in Elem (NODE_TERNARY t) (f\<lparr>reg_score := ternary_score t l' r' q'\<rparr>) l' r' q')
     else Elem (NODE_TERNARY t) f l r q)"
| "libxsmm_meqn_assign_reg_scores t = t"

section \<open>Time stamps\<close>

definition stamp :: "libxsmm_meqn_info \<Rightarrow> meqn_fields \<Rightarrow> libxsmm_meqn_elem \<Rightarrow> libxsmm_meqn_elem \<Rightarrow> libxsmm_meqn_elem \<Rightarrow> int \<Rightarrow> libxsmm_meqn_elem \<times> int" where
  "stamp nd f l r q current_timestamp =
    (Elem nd (f\<lparr>visit_timestamp := current_timestamp\<rparr>) l r q, current_timestamp + 1)"

text \<open>The children of an operation are visited in the order of falling scores.\<close>

fun libxsmm_meqn_assign_new_timestamp :: "libxsmm_meqn_elem \<Rightarrow> int \<Rightarrow> libxsmm_meqn_elem \<times> int" where
  "libxsmm_meqn_assign_new_timestamp (Elem (NODE_ARG a) f l r q) ts =
    (Elem (NODE_ARG a) (f\<lparr>visit_timestamp := -1\<rparr>) l r q, ts)"
| "libxsmm_meqn_assign_new_timestamp (Elem (NODE_UNARY u) f l r q) ts =
    (let (l, ts) = libxsmm_meqn_assign_new_timestamp l ts
     in stamp (NODE_UNARY u) f l r q ts)"
| "libxsmm_meqn_assign_new_timestamp (Elem (NODE_BINARY b) f l r q) ts =
    (if score l \<ge> score r then
       (let (l, ts) = libxsmm_meqn_assign_new_timestamp l ts;
            (r, ts) = libxsmm_meqn_assign_new_timestamp r ts
        in stamp (NODE_BINARY b) f l r q ts)
     else
       (let (r, ts) = libxsmm_meqn_assign_new_timestamp r ts;
            (l, ts) = libxsmm_meqn_assign_new_timestamp l ts
        in stamp (NODE_BINARY b) f l r q ts))"
| "libxsmm_meqn_assign_new_timestamp (Elem (NODE_TERNARY t) f l r q) ts =
    (if score l \<ge> score r \<and> score l \<ge> score q then
       (if score r \<ge> score q then
          (let (l, ts) = libxsmm_meqn_assign_new_timestamp l ts;
               (r, ts) = libxsmm_meqn_assign_new_timestamp r ts;
               (q, ts) = libxsmm_meqn_assign_new_timestamp q ts
           in stamp (NODE_TERNARY t) f l r q ts)
        else
          (let (l, ts) = libxsmm_meqn_assign_new_timestamp l ts;
               (q, ts) = libxsmm_meqn_assign_new_timestamp q ts;
               (r, ts) = libxsmm_meqn_assign_new_timestamp r ts
           in stamp (NODE_TERNARY t) f l r q ts))
     else if score r \<ge> score l \<and> score r \<ge> score q then
       (if score l \<ge> score q then
          (let (r, ts) = libxsmm_meqn_assign_new_timestamp r ts;
               (l, ts) = libxsmm_meqn_assign_new_timestamp l ts;
               (q, ts) = libxsmm_meqn_assign_new_timestamp q ts
           in stamp (NODE_TERNARY t) f l r q ts)
        else
          (let (r, ts) = libxsmm_meqn_assign_new_timestamp r ts;
               (q, ts) = libxsmm_meqn_assign_new_timestamp q ts;
               (l, ts) = libxsmm_meqn_assign_new_timestamp l ts
           in stamp (NODE_TERNARY t) f l r q ts))
     else
       (if score l \<ge> score r then
          (let (q, ts) = libxsmm_meqn_assign_new_timestamp q ts;
               (l, ts) = libxsmm_meqn_assign_new_timestamp l ts;
               (r, ts) = libxsmm_meqn_assign_new_timestamp r ts
           in stamp (NODE_TERNARY t) f l r q ts)
        else
          (let (q, ts) = libxsmm_meqn_assign_new_timestamp q ts;
               (r, ts) = libxsmm_meqn_assign_new_timestamp r ts;
               (l, ts) = libxsmm_meqn_assign_new_timestamp l ts
           in stamp (NODE_TERNARY t) f l r q ts)))"
| "libxsmm_meqn_assign_new_timestamp t ts = (t, ts)"

definition libxsmm_meqn_assign_timestamps :: "libxsmm_meqn_elem \<Rightarrow> libxsmm_meqn_elem" where
  "libxsmm_meqn_assign_timestamps eqn_root = fst (libxsmm_meqn_assign_new_timestamp eqn_root 0)"

section \<open>The pool of temporaries\<close>

text \<open>
  The pool has one cell per temporary, 1 for a temporary in use. Both callers pass an array of \<open>n_max_tmp\<close> cells and
  return before when it cannot be allocated, so the pointer is never \<open>NULL\<close>.
\<close>

fun reserve_from :: "nat \<Rightarrow> int list \<Rightarrow> nat option" where
  "reserve_from i [] = None"
| "reserve_from i (x # xs) = (if x = 0 then Some i else reserve_from (Suc i) xs)"

definition libxsmm_meqn_reserve_tmp_storage :: "int \<Rightarrow> int list \<Rightarrow> int \<times> int list" where
  "libxsmm_meqn_reserve_tmp_storage n_max_tmp pool =
   (case reserve_from 0 (take (nat n_max_tmp) pool) of
      Some i \<Rightarrow> (int i, pool[i := 1])
    | None \<Rightarrow> (-1, pool))"

definition release :: "int \<Rightarrow> int list \<Rightarrow> int list" where
  "release tid pool = (if tid \<ge> 0 then pool[nat tid := 0] else pool)"

section \<open>The execution plan\<close>

definition libxsmm_meqn_exec_plan_configure_unary_tmp :: "libxsmm_meqn_unary_op \<Rightarrow> libxsmm_meqn_elem \<Rightarrow> libxsmm_meqn_tmp_info \<Rightarrow> libxsmm_meqn_tmp_info" where
  "libxsmm_meqn_exec_plan_configure_unary_tmp u l t =
    t\<lparr>tmp_m := tmp_m (tmp_of l), tmp_n := tmp_n (tmp_of l), tmp_ld := tmp_m (tmp_of l), tmp_dtype := u_dtype u\<rparr>"

definition libxsmm_meqn_exec_plan_configure_binary_tmp ::
    "libxsmm_meqn_binary_op \<Rightarrow> libxsmm_meqn_elem \<Rightarrow> libxsmm_meqn_elem \<Rightarrow> libxsmm_meqn_tmp_info \<Rightarrow> libxsmm_meqn_tmp_info" where
  "libxsmm_meqn_exec_plan_configure_binary_tmp b l r t =
    t\<lparr>tmp_m := tmp_m (tmp_of l), tmp_ld := tmp_m (tmp_of l),
      tmp_n := (if b_is_matmul b = 1 \<or> b_is_brgemm b = 1 then tmp_n (tmp_of r) else tmp_n (tmp_of l)),
      tmp_dtype := b_dtype b\<rparr>"

definition libxsmm_meqn_exec_plan_configure_ternary_tmp ::
    "libxsmm_meqn_ternary_op \<Rightarrow> libxsmm_meqn_elem \<Rightarrow> libxsmm_meqn_tmp_info \<Rightarrow> libxsmm_meqn_tmp_info" where
  "libxsmm_meqn_exec_plan_configure_ternary_tmp t q ti =
   (let ti = ti\<lparr>tmp_m := tmp_m (tmp_of q), tmp_n := tmp_n (tmp_of q), tmp_ld := tmp_m (tmp_of q)\<rparr>;
        ti = (if t_is_matmul t = 1 \<or> t_is_brgemm t = 1
              then ti\<lparr>tmp_m := tmp_m (tmp_of q), tmp_n := tmp_n (tmp_of q), tmp_ld := tmp_ld (tmp_of q)\<rparr> else ti)
    in ti\<lparr>tmp_dtype := t_dtype t\<rparr>)"

definition libxsmm_meqn_exec_plan_visit_arg_node ::
    "libxsmm_meqn_arg \<Rightarrow> meqn_fields \<Rightarrow> meqn_fields" where
  "libxsmm_meqn_exec_plan_visit_arg_node a f =
    f\<lparr>visit_timestamp := -1, n_args := 1, max_tmp_size := arg_m a * arg_n a,
      tmp := (tmp f)\<lparr>tmp_m := arg_m a, tmp_n := arg_n a, tmp_ld := arg_ld a, tmp_dtype := arg_dtype a\<rparr>\<rparr>"

text \<open>
  A visit of an operation finds its children visited. It returns the fields of the node, the next time stamp and the pool.
\<close>

definition libxsmm_meqn_exec_plan_visit_unary_node ::
    "libxsmm_meqn_unary_op \<Rightarrow> meqn_fields \<Rightarrow> libxsmm_meqn_elem \<Rightarrow> int \<Rightarrow> int \<Rightarrow> int list \<Rightarrow> meqn_fields \<times> int \<times> int list" where
  "libxsmm_meqn_exec_plan_visit_unary_node u f l ts n_max_tmp pool =
   (let (tid, pool, tsize) =
      (if is_arg l then
         (let (i, pool) = libxsmm_meqn_reserve_tmp_storage n_max_tmp pool
          in (i, pool, typesize (u_dtype u)))
       else
         (let (i, pool) =
            (if libxsmm_meqn_can_overwrite_unary_input u f l then (tmp_id (tmp_of l), pool)
             else (let (i, pool) = libxsmm_meqn_reserve_tmp_storage n_max_tmp pool
                   in (i, release (tmp_id (tmp_of l)) pool)))
          in (i, pool, max (typesize (u_dtype u)) (tree_max_comp_tsize (flds l)))))
    in (f\<lparr>visit_timestamp := ts, n_args := n_args (flds l), max_tmp_size := max_tmp_size (flds l),
          tree_max_comp_tsize := tsize,
          tmp := libxsmm_meqn_exec_plan_configure_unary_tmp u l ((tmp f)\<lparr>tmp_id := tid\<rparr>)\<rparr>,
        ts + 1, pool))"

definition libxsmm_meqn_exec_plan_visit_binary_node ::
    "libxsmm_meqn_binary_op \<Rightarrow> meqn_fields \<Rightarrow> libxsmm_meqn_elem \<Rightarrow> libxsmm_meqn_elem \<Rightarrow> int \<Rightarrow> int \<Rightarrow> int list
      \<Rightarrow> meqn_fields \<times> int \<times> int list" where
  "libxsmm_meqn_exec_plan_visit_binary_node b f l r ts n_max_tmp pool =
   (let tmp_size = max (max_tmp_size (flds l)) (max_tmp_size (flds r));
        tmp_size = (if b_is_matmul b = 1 \<or> b_is_brgemm b = 1
                    then max (tmp_m (tmp_of l) * tmp_n (tmp_of r)) tmp_size else tmp_size);
        (tid, pool, tsize) =
      (if is_arg l \<and> is_arg r then
         (let (i, pool) = libxsmm_meqn_reserve_tmp_storage n_max_tmp pool
          in (i, pool, typesize (b_dtype b)))
       else if \<not> is_arg l \<and> \<not> is_arg r then
         (let (i, pool) =
            (if libxsmm_meqn_can_overwrite_binary_input b f l r
             then (tmp_id (tmp_of l), release (tmp_id (tmp_of r)) pool)
             else (let (i, pool) = libxsmm_meqn_reserve_tmp_storage n_max_tmp pool
                   in (i, release (tmp_id (tmp_of r)) (release (tmp_id (tmp_of l)) pool))))
          in (i, pool, max (typesize (b_dtype b)) (max (tree_max_comp_tsize (flds r)) (tree_max_comp_tsize (flds l)))))
       else if \<not> is_arg l then
         (let (i, pool) =
            (if libxsmm_meqn_can_overwrite_binary_input b f l r then (tmp_id (tmp_of l), pool)
             else (let (i, pool) = libxsmm_meqn_reserve_tmp_storage n_max_tmp pool
                   in (i, release (tmp_id (tmp_of l)) pool)))
          in (i, pool, max (typesize (b_dtype b)) (tree_max_comp_tsize (flds l))))
       else
         (let (i, pool) =
            (if libxsmm_meqn_can_overwrite_binary_input b f l r then (tmp_id (tmp_of r), pool)
             else (let (i, pool) = libxsmm_meqn_reserve_tmp_storage n_max_tmp pool
                   in (i, release (tmp_id (tmp_of r)) pool)))
          in (i, pool, max (typesize (b_dtype b)) (tree_max_comp_tsize (flds r)))))
    in (f\<lparr>visit_timestamp := ts, n_args := n_args (flds l) + n_args (flds r), max_tmp_size := tmp_size,
          tree_max_comp_tsize := tsize,
          tmp := libxsmm_meqn_exec_plan_configure_binary_tmp b l r ((tmp f)\<lparr>tmp_id := tid\<rparr>)\<rparr>,
        ts + 1, pool))"

text \<open>The place of the result when the third operand is an argument: in place for a multiplication, if allowed.\<close>

definition in_place :: "libxsmm_meqn_ternary_op \<Rightarrow> bool" where
  "in_place t \<longleftrightarrow> use_r2_as_output t \<and> (t_is_brgemm t = 1 \<or> t_is_matmul t = 1)"

definition reserve_or_in_place ::
    "libxsmm_meqn_ternary_op \<Rightarrow> libxsmm_meqn_elem \<Rightarrow> int \<Rightarrow> int list \<Rightarrow> int \<times> int list" where
  "reserve_or_in_place t q n_max_tmp pool =
   (if in_place t then (case arg_of q of Some a \<Rightarrow> (- (arg_in_pos a + 1), pool) | None \<Rightarrow> (-1, pool))
    else libxsmm_meqn_reserve_tmp_storage n_max_tmp pool)"

definition libxsmm_meqn_exec_plan_visit_ternary_node ::
    "libxsmm_meqn_ternary_op \<Rightarrow> meqn_fields \<Rightarrow> libxsmm_meqn_elem \<Rightarrow> libxsmm_meqn_elem \<Rightarrow> libxsmm_meqn_elem \<Rightarrow> int \<Rightarrow> int \<Rightarrow> int list
      \<Rightarrow> meqn_fields \<times> int \<times> int list" where
  "libxsmm_meqn_exec_plan_visit_ternary_node t f l r q ts n_max_tmp pool =
   (let tl = tree_max_comp_tsize (flds l); tr = tree_max_comp_tsize (flds r); tq = tree_max_comp_tsize (flds q);
        il = tmp_id (tmp_of l); ir = tmp_id (tmp_of r); iq = tmp_id (tmp_of q);
        (tid, pool, tsize) =
      (if is_arg l \<and> is_arg r \<and> is_arg q then
         (let (i, pool) = reserve_or_in_place t q n_max_tmp pool
          in (i, pool, typesize (t_dtype t)))
       else if \<not> is_arg l \<and> \<not> is_arg r \<and> \<not> is_arg q then
         (let (i, pool) =
            (if use_r2_as_output t then (iq, release ir (release il pool))
             else (let (i, pool) = libxsmm_meqn_reserve_tmp_storage n_max_tmp pool
                   in (i, release iq (release ir (release il pool)))))
          in (i, pool, max (typesize (t_dtype t)) (max tq (max tr tl))))
       else if is_arg l \<and> \<not> is_arg r \<and> \<not> is_arg q then
         (let (i, pool) =
            (if use_r2_as_output t then (iq, release ir pool)
             else (let (i, pool) = libxsmm_meqn_reserve_tmp_storage n_max_tmp pool
                   in (i, release iq (release ir pool))))
          in (i, pool, max (typesize (t_dtype t)) (max tq (max tr 1))))
       else if \<not> is_arg l \<and> is_arg r \<and> \<not> is_arg q then
         (let (i, pool) =
            (if use_r2_as_output t then (iq, release il pool)
             else (let (i, pool) = libxsmm_meqn_reserve_tmp_storage n_max_tmp pool
                   in (i, release iq (release il pool))))
          in (i, pool, max (typesize (t_dtype t)) (max tq (max 1 tl))))
       else if \<not> is_arg l \<and> \<not> is_arg r \<and> is_arg q then
         (let (i, pool) = reserve_or_in_place t q n_max_tmp pool
          in (i, release ir (release il pool), max (typesize (t_dtype t)) (max 1 (max tr tl))))
       else if is_arg l \<and> is_arg r \<and> \<not> is_arg q then
         (let (i, pool) =
            (if use_r2_as_output t then (iq, pool)
             else (let (i, pool) = libxsmm_meqn_reserve_tmp_storage n_max_tmp pool
                   in (i, release iq pool)))
          in (i, pool, max (typesize (t_dtype t)) (max tq (max 1 1))))
       else if \<not> is_arg l \<and> is_arg r \<and> is_arg q then
         (let (i, pool) = reserve_or_in_place t q n_max_tmp pool
          in (i, release il pool, max (typesize (t_dtype t)) (max 1 (max 1 tl))))
       else
         (let (i, pool) = reserve_or_in_place t q n_max_tmp pool
          in (i, release ir pool, max (typesize (t_dtype t)) (max 1 (max tr 1)))))
    in (f\<lparr>visit_timestamp := ts, n_args := n_args (flds l) + n_args (flds r) + n_args (flds q),
          max_tmp_size := max (max (max_tmp_size (flds l)) (max_tmp_size (flds r))) (max_tmp_size (flds q)),
          tree_max_comp_tsize := tsize,
          tmp := libxsmm_meqn_exec_plan_configure_ternary_tmp t q ((tmp f)\<lparr>tmp_id := tid\<rparr>)\<rparr>,
        ts + 1, pool))"

type_synonym plan_state = "int \<times> int list"

text \<open>The state is the next time stamp and the pool.\<close>

definition plan_unary :: "libxsmm_meqn_unary_op \<Rightarrow> meqn_fields \<Rightarrow> libxsmm_meqn_elem \<Rightarrow> libxsmm_meqn_elem \<Rightarrow> libxsmm_meqn_elem \<Rightarrow> int \<Rightarrow> plan_state \<Rightarrow> libxsmm_meqn_elem \<times> plan_state" where
  "plan_unary u f l r q n_max_tmp st =
   (let (f', ts, pool) = libxsmm_meqn_exec_plan_visit_unary_node u f l (fst st) n_max_tmp (snd st)
    in (Elem (NODE_UNARY u) f' l r q, ts, pool))"

definition plan_binary :: "libxsmm_meqn_binary_op \<Rightarrow> meqn_fields \<Rightarrow> libxsmm_meqn_elem \<Rightarrow> libxsmm_meqn_elem \<Rightarrow> libxsmm_meqn_elem \<Rightarrow> int \<Rightarrow> plan_state \<Rightarrow> libxsmm_meqn_elem \<times> plan_state" where
  "plan_binary b f l r q n_max_tmp st =
   (let (f', ts, pool) = libxsmm_meqn_exec_plan_visit_binary_node b f l r (fst st) n_max_tmp (snd st)
    in (Elem (NODE_BINARY b) f' l r q, ts, pool))"

definition plan_ternary :: "libxsmm_meqn_ternary_op \<Rightarrow> meqn_fields \<Rightarrow> libxsmm_meqn_elem \<Rightarrow> libxsmm_meqn_elem \<Rightarrow> libxsmm_meqn_elem \<Rightarrow> int \<Rightarrow> plan_state \<Rightarrow> libxsmm_meqn_elem \<times> plan_state" where
  "plan_ternary t f l r q n_max_tmp st =
   (let (f', ts, pool) = libxsmm_meqn_exec_plan_visit_ternary_node t f l r q (fst st) n_max_tmp (snd st)
    in (Elem (NODE_TERNARY t) f' l r q, ts, pool))"

fun libxsmm_meqn_create_exec_plan :: "libxsmm_meqn_elem \<Rightarrow> int \<Rightarrow> plan_state \<Rightarrow> libxsmm_meqn_elem \<times> plan_state" where
  "libxsmm_meqn_create_exec_plan (Elem (NODE_ARG a) f l r q) n st =
    (Elem (NODE_ARG a) (libxsmm_meqn_exec_plan_visit_arg_node a f) l r q, st)"
| "libxsmm_meqn_create_exec_plan (Elem (NODE_UNARY u) f l r q) n st =
    (let (l, st) = libxsmm_meqn_create_exec_plan l n st
     in plan_unary u f l r q n st)"
| "libxsmm_meqn_create_exec_plan (Elem (NODE_BINARY b) f l r q) n st =
    (if score l \<ge> score r then
       (let (l, st) = libxsmm_meqn_create_exec_plan l n st;
            (r, st) = libxsmm_meqn_create_exec_plan r n st
        in plan_binary b f l r q n st)
     else
       (let (r, st) = libxsmm_meqn_create_exec_plan r n st;
            (l, st) = libxsmm_meqn_create_exec_plan l n st
        in plan_binary b f l r q n st))"
| "libxsmm_meqn_create_exec_plan (Elem (NODE_TERNARY t) f l r q) n st =
    (if score l \<ge> score r \<and> score l \<ge> score q then
       (if score r \<ge> score q then
          (let (l, st) = libxsmm_meqn_create_exec_plan l n st;
               (r, st) = libxsmm_meqn_create_exec_plan r n st;
               (q, st) = libxsmm_meqn_create_exec_plan q n st
           in plan_ternary t f l r q n st)
        else
          (let (l, st) = libxsmm_meqn_create_exec_plan l n st;
               (q, st) = libxsmm_meqn_create_exec_plan q n st;
               (r, st) = libxsmm_meqn_create_exec_plan r n st
           in plan_ternary t f l r q n st))
     else if score r \<ge> score l \<and> score r \<ge> score q then
       (if score l \<ge> score q then
          (let (r, st) = libxsmm_meqn_create_exec_plan r n st;
               (l, st) = libxsmm_meqn_create_exec_plan l n st;
               (q, st) = libxsmm_meqn_create_exec_plan q n st
           in plan_ternary t f l r q n st)
        else
          (let (r, st) = libxsmm_meqn_create_exec_plan r n st;
               (q, st) = libxsmm_meqn_create_exec_plan q n st;
               (l, st) = libxsmm_meqn_create_exec_plan l n st
           in plan_ternary t f l r q n st))
     else
       (if score l \<ge> score r then
          (let (q, st) = libxsmm_meqn_create_exec_plan q n st;
               (l, st) = libxsmm_meqn_create_exec_plan l n st;
               (r, st) = libxsmm_meqn_create_exec_plan r n st
           in plan_ternary t f l r q n st)
        else
          (let (q, st) = libxsmm_meqn_create_exec_plan q n st;
               (r, st) = libxsmm_meqn_create_exec_plan r n st;
               (l, st) = libxsmm_meqn_create_exec_plan l n st
           in plan_ternary t f l r q n st)))"
| "libxsmm_meqn_create_exec_plan t n st = (t, st)"

section \<open>Sizes of the temporaries\<close>

definition set_dims :: "int \<Rightarrow> int \<Rightarrow> int \<Rightarrow> meqn_fields \<Rightarrow> meqn_fields" where
  "set_dims m n ld f = f\<lparr>tmp := (tmp f)\<lparr>tmp_m := m, tmp_n := n, tmp_ld := ld\<rparr>\<rparr>"

definition adjust_unary :: "libxsmm_meqn_unary_op \<Rightarrow> meqn_fields \<Rightarrow> libxsmm_meqn_elem \<Rightarrow> meqn_fields" where
  "adjust_unary u f l =
   (let m = tmp_m (tmp_of l); n = tmp_n (tmp_of l)
    in if libxsmm_meqn_is_unary_opcode_reduce_kernel (u_type u) then
         (if u_flags u AND LIBXSMM_MELTW_FLAG_UNARY_REDUCE_ROWS > 0 then set_dims n 1 n f
          else if u_flags u AND LIBXSMM_MELTW_FLAG_UNARY_REDUCE_COLS > 0 then set_dims m 1 m f
          else f)
       else if libxsmm_meqn_is_unary_opcode_reduce_cols_idx_kernel (u_type u) then set_dims m 1 m f
       else if libxsmm_meqn_is_unary_opcode_reduce_to_scalar (u_type u) then set_dims 1 1 1 f
       else if libxsmm_meqn_is_unary_opcode_transform_kernel (u_type u) then set_dims n m n f
       else set_dims m n m f)"

definition adjust_binary :: "libxsmm_meqn_binary_op \<Rightarrow> meqn_fields \<Rightarrow> libxsmm_meqn_elem \<Rightarrow> libxsmm_meqn_elem \<Rightarrow> meqn_fields" where
  "adjust_binary b f l r =
   (if libxsmm_meqn_is_binary_opcode_reduce_to_scalar (b_type b) then set_dims 1 1 1 f
    else if b_is_matmul b = 1 \<or> b_is_brgemm b = 1
    then set_dims (tmp_m (tmp_of l)) (tmp_n (tmp_of r)) (tmp_m (tmp_of l)) f
    else set_dims (max (tmp_m (tmp_of l)) (tmp_m (tmp_of r))) (max (tmp_n (tmp_of l)) (tmp_n (tmp_of r)))
           (max (tmp_m (tmp_of l)) (tmp_m (tmp_of r))) f)"

definition adjust_ternary ::
    "libxsmm_meqn_ternary_op \<Rightarrow> meqn_fields \<Rightarrow> libxsmm_meqn_elem \<Rightarrow> libxsmm_meqn_elem \<Rightarrow> libxsmm_meqn_elem \<Rightarrow> meqn_fields" where
  "adjust_ternary t f l r q =
   (if t_is_matmul t = 1 \<or> t_is_brgemm t = 1
    then set_dims (tmp_m (tmp_of q)) (tmp_n (tmp_of q)) (tmp_ld (tmp_of q)) f
    else set_dims (max (tmp_m (tmp_of q)) (max (tmp_m (tmp_of l)) (tmp_m (tmp_of r))))
           (max (tmp_n (tmp_of q)) (max (tmp_n (tmp_of l)) (tmp_n (tmp_of r))))
           (max (tmp_m (tmp_of q)) (max (tmp_m (tmp_of l)) (tmp_m (tmp_of r)))) f)"

fun libxsmm_meqn_adjust_tmp_sizes :: "libxsmm_meqn_elem \<Rightarrow> libxsmm_meqn_elem" where
  "libxsmm_meqn_adjust_tmp_sizes (Elem (NODE_UNARY u) f l r q) =
    (let l = libxsmm_meqn_adjust_tmp_sizes l
     in Elem (NODE_UNARY u) (adjust_unary u f l) l r q)"
| "libxsmm_meqn_adjust_tmp_sizes (Elem (NODE_BINARY b) f l r q) =
    (let l = libxsmm_meqn_adjust_tmp_sizes l; r = libxsmm_meqn_adjust_tmp_sizes r
     in Elem (NODE_BINARY b) (adjust_binary b f l r) l r q)"
| "libxsmm_meqn_adjust_tmp_sizes (Elem (NODE_TERNARY t) f l r q) =
    (let l = libxsmm_meqn_adjust_tmp_sizes l; r = libxsmm_meqn_adjust_tmp_sizes r; q = libxsmm_meqn_adjust_tmp_sizes q
     in Elem (NODE_TERNARY t) (adjust_ternary t f l r q) l r q)"
| "libxsmm_meqn_adjust_tmp_sizes t = t"

section \<open>Temporaries of broadcast operands\<close>

fun set_tmp_id :: "int \<Rightarrow> libxsmm_meqn_elem \<Rightarrow> libxsmm_meqn_elem" where
  "set_tmp_id k (Elem nd f l r q) = Elem nd (f\<lparr>tmp := (tmp f)\<lparr>tmp_id := k\<rparr>\<rparr>) l r q"
| "set_tmp_id k Null = Null"

text \<open>
  A broadcast operand that is no argument moves to a temporary of its own; \<open>k\<close> is the register score of the root, which
  counts the temporaries.
\<close>

definition bcast_child :: "libxsmm_meqn_bcast_type \<Rightarrow> libxsmm_meqn_elem \<times> int \<Rightarrow> libxsmm_meqn_elem \<times> int" where
  "bcast_child bt = (\<lambda>(c, k).
    if \<not> is_arg c \<and> bt \<noteq> LIBXSMM_MATRIX_EQN_BCAST_TYPE_NONE then (set_tmp_id k c, k + 1) else (c, k))"

lemma size_set_tmp_id [simp]: "size (set_tmp_id k t) = size t"
  by (cases t) auto

lemma size_bcast_child [simp]: "size (fst (bcast_child bt ck)) = size (fst ck)"
  by (simp add: bcast_child_def split: prod.split)

lemma bcast_child_size: "bcast_child bt (c, k) = (c', k') \<Longrightarrow> size c' = size c"
  using size_bcast_child [of bt "(c, k)"] by simp

function libxsmm_meqn_reassign_children_bcast_tmp :: "libxsmm_meqn_elem \<Rightarrow> int \<Rightarrow> libxsmm_meqn_elem \<times> int" where
  "libxsmm_meqn_reassign_children_bcast_tmp (Elem (NODE_UNARY u) f l r q) k =
    (let (l1, k1) = bcast_child (libxsmm_meqn_get_bcast_type_unary (u_flags u)) (l, k);
         (l2, k2) = libxsmm_meqn_reassign_children_bcast_tmp l1 k1
     in (Elem (NODE_UNARY u) f l2 r q, k2))"
| "libxsmm_meqn_reassign_children_bcast_tmp (Elem (NODE_BINARY b) f l r q) k =
    (let (l1, k1) = bcast_child (libxsmm_meqn_get_bcast_type_binary (b_flags b) LEFT) (l, k);
         (r1, k2) = bcast_child (libxsmm_meqn_get_bcast_type_binary (b_flags b) RIGHT) (r, k1);
         (l3, k3) = libxsmm_meqn_reassign_children_bcast_tmp l1 k2;
         (r3, k4) = libxsmm_meqn_reassign_children_bcast_tmp r1 k3
     in (Elem (NODE_BINARY b) f l3 r3 q, k4))"
| "libxsmm_meqn_reassign_children_bcast_tmp (Elem (NODE_TERNARY t) f l r q) k =
    (let (l1, k1) = bcast_child (libxsmm_meqn_get_bcast_type_ternary (t_flags t) LEFT) (l, k);
         (r1, k2) = bcast_child (libxsmm_meqn_get_bcast_type_ternary (t_flags t) RIGHT) (r, k1);
         (q1, k3) = bcast_child (libxsmm_meqn_get_bcast_type_ternary (t_flags t) RIGHT2) (q, k2);
         (l4, k4) = libxsmm_meqn_reassign_children_bcast_tmp l1 k3;
         (r4, k5) = libxsmm_meqn_reassign_children_bcast_tmp r1 k4;
         (q4, k6) = libxsmm_meqn_reassign_children_bcast_tmp q1 k5
     in (Elem (NODE_TERNARY t) f l4 r4 q4, k6))"
| "libxsmm_meqn_reassign_children_bcast_tmp (Elem (NODE_ARG a) f l r q) k = (Elem (NODE_ARG a) f l r q, k)"
| "libxsmm_meqn_reassign_children_bcast_tmp (Elem NODE_NONE f l r q) k = (Elem NODE_NONE f l r q, k)"
| "libxsmm_meqn_reassign_children_bcast_tmp Null k = (Null, k)"
  by pat_completeness auto
termination
  by (relation "measure (\<lambda>p. size (fst p))") (auto dest: bcast_child_size [OF sym] simp: less_Suc_eq_le)

definition libxsmm_meqn_reassign_bcast_tmp :: "libxsmm_meqn_elem \<Rightarrow> libxsmm_meqn_elem" where
  "libxsmm_meqn_reassign_bcast_tmp root =
   (case root of
      Elem (NODE_UNARY u) f l r q \<Rightarrow>
        (let (l, k) = libxsmm_meqn_reassign_children_bcast_tmp l (reg_score f)
         in Elem (NODE_UNARY u) (f\<lparr>reg_score := k\<rparr>) l r q)
    | Elem (NODE_BINARY b) f l r q \<Rightarrow>
        (let (l, k) = libxsmm_meqn_reassign_children_bcast_tmp l (reg_score f);
             (r, k) = libxsmm_meqn_reassign_children_bcast_tmp r k
         in Elem (NODE_BINARY b) (f\<lparr>reg_score := k\<rparr>) l r q)
    | Elem (NODE_TERNARY t) f l r q \<Rightarrow>
        (let (l, k) = libxsmm_meqn_reassign_children_bcast_tmp l (reg_score f);
             (r, k) = libxsmm_meqn_reassign_children_bcast_tmp r k;
             (q, k) = libxsmm_meqn_reassign_children_bcast_tmp q k
         in Elem (NODE_TERNARY t) (f\<lparr>reg_score := k\<rparr>) l r q)
    | _ \<Rightarrow> root)"

section \<open>Equations\<close>

text \<open>
  \<open>eqn_cur\<close> is the path to the current node, the last step first, or \<open>None\<close> for \<open>NULL\<close>. The truth values are the
  integers the code stores.
\<close>

record libxsmm_matrix_eqn =
  eqn_root :: libxsmm_meqn_elem
  eqn_cur :: "side list option"
  is_constructed :: int
  is_optimized :: int
  unary_only :: int
  binary_only :: int

definition plan_tree :: "libxsmm_meqn_elem \<Rightarrow> libxsmm_meqn_elem" where
  "plan_tree root =
    (let max_reg_score = score root;
         tmp_storage_pool = replicate (nat max_reg_score) 0;
         (root, _) = libxsmm_meqn_create_exec_plan root max_reg_score (0, tmp_storage_pool)
     in libxsmm_meqn_adjust_tmp_sizes root)"

text \<open>\<open>pool_ok\<close> says whether the pool can be allocated. A missing equation or a missing pool leaves the equation as it is.\<close>

definition libxsmm_meqn_opt_exec_plan :: "bool \<Rightarrow> libxsmm_matrix_eqn \<Rightarrow> libxsmm_matrix_eqn" where
  "libxsmm_meqn_opt_exec_plan pool_ok eqn =
   (let root = libxsmm_meqn_propagate_tmp_info (eqn_root eqn);
        root = libxsmm_meqn_assign_reg_scores root
    in if \<not> pool_ok then eqn\<lparr>eqn_root := root\<rparr>
       else eqn\<lparr>eqn_root := libxsmm_meqn_reassign_bcast_tmp (plan_tree root), is_optimized := 1\<rparr>)"

definition libxsmm_meqn_reoptimize :: "bool \<Rightarrow> libxsmm_matrix_eqn \<Rightarrow> libxsmm_matrix_eqn" where
  "libxsmm_meqn_reoptimize pool_ok eqn =
   (let root = libxsmm_meqn_assign_reg_scores (eqn_root eqn)
    in if \<not> pool_ok then eqn\<lparr>eqn_root := root\<rparr> else eqn\<lparr>eqn_root := plan_tree root\<rparr>)"

definition libxsmm_meqn_contains_opcode :: "libxsmm_matrix_eqn \<Rightarrow> u32 \<Rightarrow> u32 \<Rightarrow> u32 \<Rightarrow> nat" where
  "libxsmm_meqn_contains_opcode eqn u_opcode b_opcode t_opcode =
    libxsmm_meqn_tree_contains_opcode (eqn_root eqn) u_opcode b_opcode t_opcode 0"

definition libxsmm_meqn_all_nodes_dtype :: "libxsmm_matrix_eqn \<Rightarrow> libxsmm_datatype \<Rightarrow> nat" where
  "libxsmm_meqn_all_nodes_dtype eqn dtype = libxsmm_meqn_tree_all_nodes_dtype (eqn_root eqn) dtype 1"

definition libxsmm_meqn_all_args_dtype :: "libxsmm_matrix_eqn \<Rightarrow> libxsmm_datatype \<Rightarrow> nat" where
  "libxsmm_meqn_all_args_dtype eqn dtype = libxsmm_meqn_tree_all_args_dtype (eqn_root eqn) dtype 1"

definition libxsmm_meqn_any_args_dtype :: "libxsmm_matrix_eqn \<Rightarrow> libxsmm_datatype \<Rightarrow> nat" where
  "libxsmm_meqn_any_args_dtype eqn dtype = libxsmm_meqn_tree_any_args_dtype (eqn_root eqn) dtype 0"

text \<open>The operation with a time stamp, \<open>src/generator_matequation_avx_avx512.c\<close>; \<open>Null\<close> when there is none.\<close>

fun libxsmm_generator_matequation_find_op_at_timestamp :: "libxsmm_meqn_elem \<Rightarrow> int \<Rightarrow> libxsmm_meqn_elem" where
  "libxsmm_generator_matequation_find_op_at_timestamp (Elem (NODE_UNARY u) f l r q) ts =
    (if visit_timestamp f = ts then Elem (NODE_UNARY u) f l r q
     else libxsmm_generator_matequation_find_op_at_timestamp l ts)"
| "libxsmm_generator_matequation_find_op_at_timestamp (Elem (NODE_BINARY b) f l r q) ts =
    (if visit_timestamp f = ts then Elem (NODE_BINARY b) f l r q
     else (let result = libxsmm_generator_matequation_find_op_at_timestamp l ts
           in if result = Null then libxsmm_generator_matequation_find_op_at_timestamp r ts else result))"
| "libxsmm_generator_matequation_find_op_at_timestamp (Elem (NODE_TERNARY t) f l r q) ts =
    (if visit_timestamp f = ts then Elem (NODE_TERNARY t) f l r q
     else (let result = libxsmm_generator_matequation_find_op_at_timestamp l ts
           in if result = Null then
                (let result = libxsmm_generator_matequation_find_op_at_timestamp r ts
                 in if result = Null then libxsmm_generator_matequation_find_op_at_timestamp q ts else result)
              else result))"
| "libxsmm_generator_matequation_find_op_at_timestamp _ ts = Null"

section \<open>Building an equation\<close>

text \<open>
  A call on a null pointer or on an index outside the table has no defined behaviour; it is the value \<open>Inl\<close> of the
  outcome.
\<close>

datatype meqn_error = NULL_DEREFERENCE | OUT_OF_RANGE

fun elem_at :: "libxsmm_meqn_elem \<Rightarrow> side list \<Rightarrow> libxsmm_meqn_elem" where
  "elem_at t [] = t"
| "elem_at (Elem nd f l r q) (LEFT # p) = elem_at l p"
| "elem_at (Elem nd f l r q) (RIGHT # p) = elem_at r p"
| "elem_at (Elem nd f l r q) (RIGHT2 # p) = elem_at q p"
| "elem_at Null (d # p) = Null"

fun set_at :: "libxsmm_meqn_elem \<Rightarrow> side list \<Rightarrow> libxsmm_meqn_elem \<Rightarrow> libxsmm_meqn_elem" where
  "set_at t [] e = e"
| "set_at (Elem nd f l r q) (LEFT # p) e = Elem nd f (set_at l p e) r q"
| "set_at (Elem nd f l r q) (RIGHT # p) e = Elem nd f l (set_at r p e) q"
| "set_at (Elem nd f l r q) (RIGHT2 # p) e = Elem nd f l r (set_at q p e)"
| "set_at Null (d # p) e = Null"

text \<open>A path is kept with its last step first; \<open>node_at\<close> follows the pointer.\<close>

abbreviation node_at :: "libxsmm_meqn_elem \<Rightarrow> side list \<Rightarrow> libxsmm_meqn_elem" where
  "node_at root c \<equiv> elem_at root (rev c)"

fun is_none :: "libxsmm_meqn_info \<Rightarrow> bool" where
  "is_none NODE_NONE = True"
| "is_none _ = False"

fun is_arg_info :: "libxsmm_meqn_info \<Rightarrow> bool" where
  "is_arg_info (NODE_ARG a) = True"
| "is_arg_info _ = False"

text \<open>\<open>fresh\<close> is what the memory of the new node holds.\<close>

definition libxsmm_meqn_add_node ::
    "meqn_fields \<Rightarrow> libxsmm_meqn_elem \<Rightarrow> side list \<Rightarrow> libxsmm_meqn_info \<Rightarrow> libxsmm_meqn_elem \<times> side list option" where
  "libxsmm_meqn_add_node fresh root cur_node nd =
   (let node = Elem nd fresh Null Null Null
    in case node_at root cur_node of
         Elem (NODE_UNARY u) f l r q \<Rightarrow>
           (if l = Null then (set_at root (rev cur_node) (Elem (NODE_UNARY u) f node r q), Some (LEFT # cur_node))
            else (root, None))
       | Elem (NODE_BINARY b) f l r q \<Rightarrow>
           (if l = Null then (set_at root (rev cur_node) (Elem (NODE_BINARY b) f node r q), Some (LEFT # cur_node))
            else if r = Null then (set_at root (rev cur_node) (Elem (NODE_BINARY b) f l node q), Some (RIGHT # cur_node))
            else (root, None))
       | Elem (NODE_TERNARY t) f l r q \<Rightarrow>
           (if l = Null then (set_at root (rev cur_node) (Elem (NODE_TERNARY t) f node r q), Some (LEFT # cur_node))
            else if r = Null then (set_at root (rev cur_node) (Elem (NODE_TERNARY t) f l node q), Some (RIGHT # cur_node))
            else if q = Null then (set_at root (rev cur_node) (Elem (NODE_TERNARY t) f l r node), Some (RIGHT2 # cur_node))
            else (root, None))
       | Elem NODE_NONE f l r q \<Rightarrow>
           (if \<not> is_arg_info nd then (set_at root (rev cur_node) (Elem nd f Null Null Null), Some cur_node)
            else (root, None))
       | _ \<Rightarrow> (root, None))"

text \<open>\<open>wants_child\<close>: an operand of the operation is missing, so the head stays at it.\<close>

fun wants_child :: "libxsmm_meqn_elem \<Rightarrow> bool" where
  "wants_child (Elem (NODE_UNARY u) f l r q) \<longleftrightarrow> l = Null"
| "wants_child (Elem (NODE_BINARY b) f l r q) \<longleftrightarrow> l = Null \<or> r = Null"
| "wants_child (Elem (NODE_TERNARY t) f l r q) \<longleftrightarrow> l = Null \<or> r = Null \<or> q = Null"
| "wants_child _ \<longleftrightarrow> False"

fun libxsmm_meqn_trv_head :: "libxsmm_meqn_elem \<Rightarrow> side list \<Rightarrow> meqn_error + side list option" where
  "libxsmm_meqn_trv_head root [] =
    (case root of
       Elem (NODE_ARG a) f l r q \<Rightarrow> Inl NULL_DEREFERENCE
     | Elem NODE_NONE f l r q \<Rightarrow> Inr None
     | Elem nd f l r q \<Rightarrow> Inr (Some [])
     | Null \<Rightarrow> Inl NULL_DEREFERENCE)"
| "libxsmm_meqn_trv_head root (d # up) =
    (case node_at root (d # up) of
       Elem (NODE_ARG a) f l r q \<Rightarrow> libxsmm_meqn_trv_head root up
     | Elem NODE_NONE f l r q \<Rightarrow> Inr None
     | Elem nd f l r q \<Rightarrow>
         (if wants_child (Elem nd f l r q) then Inr (Some (d # up)) else libxsmm_meqn_trv_head root up)
     | Null \<Rightarrow> Inl NULL_DEREFERENCE)"

fun seals :: "libxsmm_meqn_elem \<Rightarrow> bool" where
  "seals (Elem (NODE_UNARY u) f l r q) \<longleftrightarrow> l \<noteq> Null"
| "seals (Elem (NODE_BINARY b) f l r q) \<longleftrightarrow> r \<noteq> Null"
| "seals (Elem (NODE_TERNARY t) f l r q) \<longleftrightarrow> q \<noteq> Null"
| "seals _ \<longleftrightarrow> False"

definition libxsmm_meqn_mov_head :: "bool \<Rightarrow> libxsmm_matrix_eqn \<Rightarrow> meqn_error + libxsmm_matrix_eqn" where
  "libxsmm_meqn_mov_head pool_ok eqn =
   (case eqn_cur eqn of
      None \<Rightarrow> Inl NULL_DEREFERENCE
    | Some c \<Rightarrow>
        (case libxsmm_meqn_trv_head (eqn_root eqn) c of
           Inl e \<Rightarrow> Inl e
         | Inr cur \<Rightarrow>
             (let eqn = eqn\<lparr>eqn_cur := cur\<rparr>
              in if cur = Some [] \<and> seals (eqn_root eqn)
                 then Inr (libxsmm_meqn_opt_exec_plan pool_ok (eqn\<lparr>is_constructed := 1\<rparr>))
                 else Inr eqn)))"

text \<open>The table of equations. Its size is \<open>LIBXSMM_MAX_EQN_COUNT\<close> of \<open>include/libxsmm_config.h\<close>.\<close>

record meqn_table =
  libxsmm_matrix_eqns :: "libxsmm_matrix_eqn option list"
  libxsmm_matrix_eqns_init :: int
  libxsmm_matrix_eqns_count :: int

definition libxsmm_meqn_create :: "meqn_fields \<Rightarrow> int \<Rightarrow> meqn_table \<Rightarrow> int \<times> meqn_table" where
  "libxsmm_meqn_create fresh fresh_binary_only s =
   (let ret = libxsmm_matrix_eqns_count s;
        s = (if libxsmm_matrix_eqns_init s = 0
             then s\<lparr>libxsmm_matrix_eqns := replicate LIBXSMM_MAX_EQN_COUNT None,
                    libxsmm_matrix_eqns_count := 0, libxsmm_matrix_eqns_init := 1\<rparr>
             else s)
    in if ret \<ge> int LIBXSMM_MAX_EQN_COUNT then (-1, s)
       else (ret,
         s\<lparr>libxsmm_matrix_eqns_count := libxsmm_matrix_eqns_count s + 1,
           libxsmm_matrix_eqns := (libxsmm_matrix_eqns s)[nat ret := Some
             \<lparr>eqn_root = Elem NODE_NONE fresh Null Null Null, eqn_cur = Some [], is_constructed = 0,
              is_optimized = 0, unary_only = 0, binary_only = fresh_binary_only\<rparr>]\<rparr>))"

definition libxsmm_create_meqn_arg_shape :: "int \<Rightarrow> int \<Rightarrow> int \<Rightarrow> libxsmm_datatype \<Rightarrow> libxsmm_meqn_arg_shape" where
  "libxsmm_create_meqn_arg_shape m n ld type = \<lparr>shape_m = m, shape_n = n, shape_ld = ld, shape_type = type\<rparr>"

definition libxsmm_create_matrix_arg_attributes ::
    "libxsmm_matrix_arg_type \<Rightarrow> libxsmm_matrix_arg_set_type \<Rightarrow> int \<Rightarrow> int \<Rightarrow> libxsmm_matrix_arg_attributes" where
  "libxsmm_create_matrix_arg_attributes type set_type cardinality stride =
    \<lparr>arg_type = type, arg_set_type = set_type, set_cardinality_hint = cardinality, set_stride_hint = stride\<rparr>"

definition libxsmm_create_meqn_arg_metadata :: "int \<Rightarrow> int \<Rightarrow> libxsmm_meqn_arg_metadata" where
  "libxsmm_create_meqn_arg_metadata eqn_idx in_arg_pos = \<lparr>arg_eqn_idx = eqn_idx, arg_in_arg_pos = in_arg_pos\<rparr>"

definition libxsmm_create_meqn_op_metadata :: "int \<Rightarrow> int \<Rightarrow> libxsmm_meqn_op_metadata" where
  "libxsmm_create_meqn_op_metadata eqn_idx op_arg_pos = \<lparr>op_eqn_idx = eqn_idx, op_op_arg_pos = op_arg_pos\<rparr>"

definition lookup_eqn :: "meqn_table \<Rightarrow> int \<Rightarrow> meqn_error + libxsmm_matrix_eqn option" where
  "lookup_eqn s idx =
    (if 0 \<le> idx \<and> nat idx < length (libxsmm_matrix_eqns s) then Inr (libxsmm_matrix_eqns s ! nat idx) else Inl OUT_OF_RANGE)"

definition libxsmm_meqn_is_ready_for_jit :: "meqn_table \<Rightarrow> int \<Rightarrow> meqn_error + int" where
  "libxsmm_meqn_is_ready_for_jit s eqn_idx =
   (case lookup_eqn s eqn_idx of
      Inl e \<Rightarrow> Inl e
    | Inr None \<Rightarrow> Inr 1
    | Inr (Some eqn) \<Rightarrow>
        (if is_constructed eqn = 0 then Inr 2
         else if is_optimized eqn = 0 then Inr 2
         else Inr 0))"

text \<open>The common part of the four functions that push a node: add it at the head, then move the head.\<close>

definition push_node :: "bool \<Rightarrow> meqn_fields \<Rightarrow> int \<Rightarrow> libxsmm_meqn_info \<Rightarrow> meqn_table \<Rightarrow> meqn_error + int \<times> meqn_table" where
  "push_node pool_ok fresh idx nd s =
   (case lookup_eqn s idx of
      Inl e \<Rightarrow> Inl e
    | Inr None \<Rightarrow> Inr (1, s)
    | Inr (Some eqn) \<Rightarrow>
        (if is_constructed eqn = 1 then Inr (2, s)
         else
           (case eqn_cur eqn of
              None \<Rightarrow> Inl NULL_DEREFERENCE
            | Some c \<Rightarrow>
                (let (root, cur) = libxsmm_meqn_add_node fresh (eqn_root eqn) c nd
                 in case libxsmm_meqn_mov_head pool_ok (eqn\<lparr>eqn_root := root, eqn_cur := cur\<rparr>) of
                      Inl e \<Rightarrow> Inl e
                    | Inr eqn \<Rightarrow> Inr (0, s\<lparr>libxsmm_matrix_eqns := (libxsmm_matrix_eqns s)[nat idx := Some eqn]\<rparr>)))))"

definition implicit_f32 :: "libxsmm_datatype \<Rightarrow> libxsmm_datatype" where
  "implicit_f32 dtype = (if dtype = LIBXSMM_DATATYPE_IMPLICIT then LIBXSMM_DATATYPE_F32 else dtype)"

definition arg_info :: "libxsmm_meqn_arg_metadata \<Rightarrow> libxsmm_meqn_arg_shape \<Rightarrow> libxsmm_matrix_arg_attributes \<Rightarrow> libxsmm_meqn_info" where
  "arg_info arg_metadata arg_shape attr = NODE_ARG
    \<lparr>arg_m = shape_m arg_shape, arg_n = shape_n arg_shape, arg_ld = shape_ld arg_shape,
     arg_in_pos = arg_in_arg_pos arg_metadata, arg_dtype = shape_type arg_shape, arg_attr = attr\<rparr>"

definition libxsmm_meqn_push_back_arg ::
    "bool \<Rightarrow> meqn_fields \<Rightarrow> libxsmm_meqn_arg_metadata \<Rightarrow> libxsmm_meqn_arg_shape \<Rightarrow> libxsmm_matrix_arg_attributes \<Rightarrow> meqn_table
      \<Rightarrow> meqn_error + int \<times> meqn_table" where
  "libxsmm_meqn_push_back_arg pool_ok fresh arg_metadata arg_shape attr s =
    push_node pool_ok fresh (arg_eqn_idx arg_metadata) (arg_info arg_metadata arg_shape attr) s"

definition unary_info :: "libxsmm_meqn_op_metadata \<Rightarrow> u32 \<Rightarrow> libxsmm_datatype \<Rightarrow> u32 \<Rightarrow> libxsmm_meqn_info" where
  "unary_info op_metadata type dtype flags = NODE_UNARY
    \<lparr>u_type = type, u_flags = flags, u_dtype = implicit_f32 dtype, u_op_arg_pos = op_op_arg_pos op_metadata\<rparr>"

definition libxsmm_meqn_push_back_unary_op ::
    "bool \<Rightarrow> meqn_fields \<Rightarrow> libxsmm_meqn_op_metadata \<Rightarrow> u32 \<Rightarrow> libxsmm_datatype \<Rightarrow> u32 \<Rightarrow> meqn_table \<Rightarrow> meqn_error + int \<times> meqn_table" where
  "libxsmm_meqn_push_back_unary_op pool_ok fresh op_metadata type dtype flags s =
    push_node pool_ok fresh (op_eqn_idx op_metadata) (unary_info op_metadata type dtype flags) s"

definition binary_is_brgemm :: "u32 \<Rightarrow> int" where
  "binary_is_brgemm type =
   (if type = LIBXSMM_MELTW_TYPE_BINARY_BRGEMM \<or> type = LIBXSMM_MELTW_TYPE_BINARY_BRGEMM_B_TRANS \<or>
       type = LIBXSMM_MELTW_TYPE_BINARY_BRGEMM_A_TRANS \<or> type = LIBXSMM_MELTW_TYPE_BINARY_BRGEMM_A_TRANS_B_TRANS \<or>
       type = LIBXSMM_MELTW_TYPE_BINARY_BRGEMM_A_VNNI \<or> type = LIBXSMM_MELTW_TYPE_BINARY_BRGEMM_A_VNNI_B_TRANS \<or>
       type = LIBXSMM_MELTW_TYPE_BINARY_BRGEMM_A_VNNI_TRANS \<or> type = LIBXSMM_MELTW_TYPE_BINARY_BRGEMM_A_VNNI_TRANS_B_TRANS
    then 1 else 0)"

definition binary_is_matmul :: "u32 \<Rightarrow> int" where
  "binary_is_matmul type =
   (if type = LIBXSMM_MELTW_TYPE_BINARY_MATMUL \<or> type = LIBXSMM_MELTW_TYPE_BINARY_MATMUL_B_TRANS \<or>
       type = LIBXSMM_MELTW_TYPE_BINARY_MATMUL_A_TRANS \<or> type = LIBXSMM_MELTW_TYPE_BINARY_MATMUL_A_TRANS_B_TRANS \<or>
       type = LIBXSMM_MELTW_TYPE_BINARY_MATMUL_A_VNNI \<or> type = LIBXSMM_MELTW_TYPE_BINARY_MATMUL_A_VNNI_B_TRANS \<or>
       type = LIBXSMM_MELTW_TYPE_BINARY_MATMUL_A_VNNI_TRANS \<or> type = LIBXSMM_MELTW_TYPE_BINARY_MATMUL_A_VNNI_TRANS_B_TRANS
    then 1 else 0)"

definition binary_info :: "libxsmm_meqn_op_metadata \<Rightarrow> u32 \<Rightarrow> libxsmm_datatype \<Rightarrow> u32 \<Rightarrow> libxsmm_meqn_info" where
  "binary_info op_metadata type dtype flags = NODE_BINARY
    \<lparr>b_type = type, b_flags = flags, b_dtype = implicit_f32 dtype, b_op_arg_pos = op_op_arg_pos op_metadata,
     b_is_matmul = binary_is_matmul type, b_is_brgemm = binary_is_brgemm type\<rparr>"

definition libxsmm_meqn_push_back_binary_op ::
    "bool \<Rightarrow> meqn_fields \<Rightarrow> libxsmm_meqn_op_metadata \<Rightarrow> u32 \<Rightarrow> libxsmm_datatype \<Rightarrow> u32 \<Rightarrow> meqn_table \<Rightarrow> meqn_error + int \<times> meqn_table" where
  "libxsmm_meqn_push_back_binary_op pool_ok fresh op_metadata type dtype flags s =
    push_node pool_ok fresh (op_eqn_idx op_metadata) (binary_info op_metadata type dtype flags) s"

definition ternary_is_brgemm :: "u32 \<Rightarrow> int" where
  "ternary_is_brgemm type =
   (if type = LIBXSMM_MELTW_TYPE_TERNARY_BRGEMM \<or> type = LIBXSMM_MELTW_TYPE_TERNARY_BRGEMM_B_TRANS \<or>
       type = LIBXSMM_MELTW_TYPE_TERNARY_BRGEMM_A_TRANS \<or> type = LIBXSMM_MELTW_TYPE_TERNARY_BRGEMM_A_TRANS_B_TRANS \<or>
       type = LIBXSMM_MELTW_TYPE_TERNARY_BRGEMM_A_VNNI \<or> type = LIBXSMM_MELTW_TYPE_TERNARY_BRGEMM_A_VNNI_B_TRANS \<or>
       type = LIBXSMM_MELTW_TYPE_TERNARY_BRGEMM_A_VNNI_TRANS \<or> type = LIBXSMM_MELTW_TYPE_TERNARY_BRGEMM_A_VNNI_TRANS_B_TRANS
    then 1 else 0)"

definition ternary_is_matmul :: "u32 \<Rightarrow> int" where
  "ternary_is_matmul type =
   (if type = LIBXSMM_MELTW_TYPE_TERNARY_MATMUL \<or> type = LIBXSMM_MELTW_TYPE_TERNARY_MATMUL_B_TRANS \<or>
       type = LIBXSMM_MELTW_TYPE_TERNARY_MATMUL_A_TRANS \<or> type = LIBXSMM_MELTW_TYPE_TERNARY_MATMUL_A_TRANS_B_TRANS \<or>
       type = LIBXSMM_MELTW_TYPE_TERNARY_MATMUL_A_VNNI \<or> type = LIBXSMM_MELTW_TYPE_TERNARY_MATMUL_A_VNNI_B_TRANS \<or>
       type = LIBXSMM_MELTW_TYPE_TERNARY_MATMUL_A_VNNI_TRANS \<or> type = LIBXSMM_MELTW_TYPE_TERNARY_MATMUL_A_VNNI_TRANS_B_TRANS
    then 1 else 0)"

definition ternary_info :: "libxsmm_meqn_op_metadata \<Rightarrow> u32 \<Rightarrow> libxsmm_datatype \<Rightarrow> u32 \<Rightarrow> libxsmm_meqn_info" where
  "ternary_info op_metadata type dtype flags = NODE_TERNARY
    \<lparr>t_type = type, t_flags = flags, t_dtype = implicit_f32 dtype, t_op_arg_pos = op_op_arg_pos op_metadata,
     t_is_matmul = ternary_is_matmul type, t_is_brgemm = ternary_is_brgemm type\<rparr>"

definition libxsmm_meqn_push_back_ternary_op ::
    "bool \<Rightarrow> meqn_fields \<Rightarrow> libxsmm_meqn_op_metadata \<Rightarrow> u32 \<Rightarrow> libxsmm_datatype \<Rightarrow> u32 \<Rightarrow> meqn_table \<Rightarrow> meqn_error + int \<times> meqn_table" where
  "libxsmm_meqn_push_back_ternary_op pool_ok fresh op_metadata type dtype flags s =
    push_node pool_ok fresh (op_eqn_idx op_metadata) (ternary_info op_metadata type dtype flags) s"

end
