(* ===== verification/Matrix_Eqn_Plan.thy ===== *)
theory Matrix_Eqn_Plan
  imports Matrix_Eqn
begin

text \<open>
  What the execution plan of an equation is worth. The kernel generators walk over the time stamps and, for each, read
  the operands of the operation that carries it and write its result; the places are the temporaries \<open>0, 1, ...\<close>, and
  \<open>-1 - p\<close> for the input matrix at position \<open>p\<close> (\<open>libxsmm_generator_meqn_getaddr_stack_tmp_i\<close> and the code that
  calls it). This theory states that walk as a machine over places and shows that it computes the value of the
  expression, that no temporary beyond the register score of the root is touched, and that the input matrices
  stay as they are, for every tree whose ternary operations fit their score.
\<close>

section \<open>Trees and their values\<close>

fun complete :: "libxsmm_meqn_elem \<Rightarrow> bool" where
  "complete (Elem (NODE_ARG a) f l r q) \<longleftrightarrow> l = Null \<and> r = Null \<and> q = Null"
| "complete (Elem (NODE_UNARY u) f l r q) \<longleftrightarrow> complete l \<and> r = Null \<and> q = Null"
| "complete (Elem (NODE_BINARY b) f l r q) \<longleftrightarrow> complete l \<and> complete r \<and> q = Null"
| "complete (Elem (NODE_TERNARY t) f l r q) \<longleftrightarrow> complete l \<and> complete r \<and> complete q"
| "complete _ \<longleftrightarrow> False"

text \<open>An induction over complete trees, with the four shapes that occur.\<close>

lemma complete_induct [consumes 1, case_names Arg Unary Binary Ternary]:
  assumes "complete t"
    and "\<And>a f. P (Elem (NODE_ARG a) f Null Null Null)"
    and "\<And>u f l. complete l \<Longrightarrow> P l \<Longrightarrow> P (Elem (NODE_UNARY u) f l Null Null)"
    and "\<And>b f l r. complete l \<Longrightarrow> complete r \<Longrightarrow> P l \<Longrightarrow> P r \<Longrightarrow> P (Elem (NODE_BINARY b) f l r Null)"
    and "\<And>t f l r q. complete l \<Longrightarrow> complete r \<Longrightarrow> complete q \<Longrightarrow> P l \<Longrightarrow> P r \<Longrightarrow> P q
      \<Longrightarrow> P (Elem (NODE_TERNARY t) f l r q)"
  shows "P t"
  using assms(1)
proof (induction t rule: complete.induct)
  case (1 a f l r q)
  then show ?case using assms(2) by simp
next
  case (2 u f l r q)
  then show ?case using assms(3) by simp
next
  case (3 b f l r q)
  then show ?case using assms(4) by simp
next
  case (4 t f l r q)
  then show ?case using assms(5) by simp
qed simp_all

lemma complete_not_Null [simp]: "complete t \<Longrightarrow> t \<noteq> Null"
  by (cases t) auto

text \<open>The meaning of the operations: any values, any functions.\<close>

record 'v meqn_ops =
  unary_fun :: "libxsmm_meqn_unary_op \<Rightarrow> 'v \<Rightarrow> 'v"
  binary_fun :: "libxsmm_meqn_binary_op \<Rightarrow> 'v \<Rightarrow> 'v \<Rightarrow> 'v"
  ternary_fun :: "libxsmm_meqn_ternary_op \<Rightarrow> 'v \<Rightarrow> 'v \<Rightarrow> 'v \<Rightarrow> 'v"

fun loc :: "libxsmm_meqn_elem \<Rightarrow> int" where
  "loc (Elem (NODE_ARG a) f l r q) = - (arg_in_pos a + 1)"
| "loc (Elem nd f l r q) = tmp_id (tmp f)"
| "loc Null = 0"

fun eval :: "'v meqn_ops \<Rightarrow> (int \<Rightarrow> 'v) \<Rightarrow> libxsmm_meqn_elem \<Rightarrow> 'v" where
  "eval K m (Elem (NODE_UNARY u) f l r q) = unary_fun K u (eval K m l)"
| "eval K m (Elem (NODE_BINARY b) f l r q) = binary_fun K b (eval K m l) (eval K m r)"
| "eval K m (Elem (NODE_TERNARY t) f l r q) = ternary_fun K t (eval K m l) (eval K m r) (eval K m q)"
| "eval K m (Elem (NODE_ARG a) f l r q) = m (- (arg_in_pos a + 1))"
| "eval K m (Elem NODE_NONE f l r q) = m 0"
| "eval K m Null = m 0"

fun exec_op :: "'v meqn_ops \<Rightarrow> libxsmm_meqn_elem \<Rightarrow> (int \<Rightarrow> 'v) \<Rightarrow> (int \<Rightarrow> 'v)" where
  "exec_op K (Elem (NODE_UNARY u) f l r q) m = m(tmp_id (tmp f) := unary_fun K u (m (loc l)))"
| "exec_op K (Elem (NODE_BINARY b) f l r q) m = m(tmp_id (tmp f) := binary_fun K b (m (loc l)) (m (loc r)))"
| "exec_op K (Elem (NODE_TERNARY t) f l r q) m = m(tmp_id (tmp f) := ternary_fun K t (m (loc l)) (m (loc r)) (m (loc q)))"
| "exec_op K _ m = m"

definition run_plan :: "'v meqn_ops \<Rightarrow> libxsmm_meqn_elem \<Rightarrow> (int \<Rightarrow> 'v) \<Rightarrow> (int \<Rightarrow> 'v)" where
  "run_plan K root m =
    fold (\<lambda>ts. exec_op K (libxsmm_generator_matequation_find_op_at_timestamp root ts)) [0..visit_timestamp (flds root)] m"

section \<open>The order of the operations\<close>

text \<open>The operands in the order in which they are visited, the one with the highest score first.\<close>

definition visit2 :: "libxsmm_meqn_elem \<Rightarrow> libxsmm_meqn_elem \<Rightarrow> 'a \<Rightarrow> 'a \<Rightarrow> 'a list" where
  "visit2 l r x y = (if score l \<ge> score r then [x, y] else [y, x])"

definition visit3 :: "libxsmm_meqn_elem \<Rightarrow> libxsmm_meqn_elem \<Rightarrow> libxsmm_meqn_elem \<Rightarrow> 'a \<Rightarrow> 'a \<Rightarrow> 'a \<Rightarrow> 'a list" where
  "visit3 l r q x y z =
   (if score l \<ge> score r \<and> score l \<ge> score q then (if score r \<ge> score q then [x, y, z] else [x, z, y])
    else if score r \<ge> score l \<and> score r \<ge> score q then (if score l \<ge> score q then [y, x, z] else [y, z, x])
    else (if score l \<ge> score r then [z, x, y] else [z, y, x]))"

fun sched :: "libxsmm_meqn_elem \<Rightarrow> libxsmm_meqn_elem list" where
  "sched (Elem (NODE_UNARY u) f l r q) = sched l @ [Elem (NODE_UNARY u) f l r q]"
| "sched (Elem (NODE_BINARY b) f l r q) = concat (visit2 l r (sched l) (sched r)) @ [Elem (NODE_BINARY b) f l r q]"
| "sched (Elem (NODE_TERNARY t) f l r q) =
    concat (visit3 l r q (sched l) (sched r) (sched q)) @ [Elem (NODE_TERNARY t) f l r q]"
| "sched _ = []"

lemma sched_arg [simp]: "is_arg t \<Longrightarrow> sched t = []"
  by (cases t rule: is_arg.cases) auto

lemma set_visit2 [simp]: "set (visit2 l r x y) = {x, y}"
  by (auto simp: visit2_def)

lemma set_visit3 [simp]: "set (visit3 l r q x y z) = {x, y, z}"
  by (auto simp: visit3_def)

lemma map_visit2: "map g (visit2 l r x y) = visit2 l r (g x) (g y)"
  by (simp add: visit2_def)

lemma map_visit3: "map g (visit3 l r q x y z) = visit3 l r q (g x) (g y) (g z)"
  by (simp add: visit3_def)

section \<open>Plans without conflicts\<close>

fun writes :: "libxsmm_meqn_elem \<Rightarrow> int set" where
  "writes (Elem (NODE_UNARY u) f l r q) = insert (tmp_id (tmp f)) (writes l)"
| "writes (Elem (NODE_BINARY b) f l r q) = insert (tmp_id (tmp f)) (writes l \<union> writes r)"
| "writes (Elem (NODE_TERNARY t) f l r q) = insert (tmp_id (tmp f)) (writes l \<union> writes r \<union> writes q)"
| "writes _ = {}"

fun args :: "libxsmm_meqn_elem \<Rightarrow> int set" where
  "args (Elem (NODE_UNARY u) f l r q) = args l"
| "args (Elem (NODE_BINARY b) f l r q) = args l \<union> args r"
| "args (Elem (NODE_TERNARY t) f l r q) = args l \<union> args r \<union> args q"
| "args (Elem (NODE_ARG a) f l r q) = {- (arg_in_pos a + 1)}"
| "args _ = {}"

text \<open>The first operand keeps its result while the second is computed, and does not spoil its arguments.\<close>

definition undisturbed :: "libxsmm_meqn_elem \<Rightarrow> libxsmm_meqn_elem \<Rightarrow> bool" where
  "undisturbed c d \<longleftrightarrow> loc c \<notin> writes d \<and> args d \<inter> writes c = {}"

fun pairwise_undisturbed :: "libxsmm_meqn_elem list \<Rightarrow> bool" where
  "pairwise_undisturbed [] \<longleftrightarrow> True"
| "pairwise_undisturbed (c # cs) \<longleftrightarrow> (\<forall>d \<in> set cs. undisturbed c d) \<and> pairwise_undisturbed cs"

fun plan_ok :: "libxsmm_meqn_elem \<Rightarrow> bool" where
  "plan_ok (Elem (NODE_UNARY u) f l r q) \<longleftrightarrow> plan_ok l"
| "plan_ok (Elem (NODE_BINARY b) f l r q) \<longleftrightarrow>
    plan_ok l \<and> plan_ok r \<and> pairwise_undisturbed (visit2 l r l r)"
| "plan_ok (Elem (NODE_TERNARY t) f l r q) \<longleftrightarrow>
    plan_ok l \<and> plan_ok r \<and> plan_ok q \<and> pairwise_undisturbed (visit3 l r q l r q)"
| "plan_ok _ \<longleftrightarrow> True"

lemma eval_frame:
  assumes "complete t" and "\<And>x. x \<in> args t \<Longrightarrow> m' x = m x"
  shows "eval K m' t = eval K m t"
  using assms by (induction t rule: complete_induct) auto

text \<open>The specification of one subtree: its result is in its place, and only the places it writes have changed.\<close>

definition computes :: "'v meqn_ops \<Rightarrow> libxsmm_meqn_elem \<Rightarrow> bool" where
  "computes K t \<longleftrightarrow> (\<forall>m. let m' = fold (exec_op K) (sched t) m
    in m' (loc t) = eval K m t \<and> (\<forall>x. x \<notin> writes t \<longrightarrow> m' x = m x))"

lemma computesD:
  assumes "computes K t"
  shows "fold (exec_op K) (sched t) m (loc t) = eval K m t"
    and "x \<notin> writes t \<Longrightarrow> fold (exec_op K) (sched t) m x = m x"
  using assms by (auto simp: computes_def Let_def)

lemma operands_compute:
  assumes "pairwise_undisturbed cs" and "\<And>c. c \<in> set cs \<Longrightarrow> computes K c \<and> complete c"
  shows "(\<forall>c \<in> set cs. fold (exec_op K) (concat (map sched cs)) m (loc c) = eval K m c) \<and>
    (\<forall>x. x \<notin> \<Union> (writes ` set cs) \<longrightarrow> fold (exec_op K) (concat (map sched cs)) m x = m x)"
  using assms
proof (induction cs arbitrary: m)
  case (Cons c cs)
  define m1 where "m1 = fold (exec_op K) (sched c) m"
  have IH: "\<forall>d \<in> set cs. fold (exec_op K) (concat (map sched cs)) m1 (loc d) = eval K m1 d"
    "\<forall>x. x \<notin> \<Union> (writes ` set cs) \<longrightarrow> fold (exec_op K) (concat (map sched cs)) m1 x = m1 x"
    using Cons by simp_all
  have c: "m1 (loc c) = eval K m c" "\<And>x. x \<notin> writes c \<Longrightarrow> m1 x = m x"
    using Cons.prems(2) [of c] computesD [of K c] by (simp_all add: m1_def)
  have keep: "loc c \<notin> \<Union> (writes ` set cs)"
    using Cons.prems(1) by (auto simp: undisturbed_def)
  have frame: "eval K m1 d = eval K m d" if "d \<in> set cs" for d
    using that Cons.prems by (intro eval_frame c(2)) (auto simp: undisturbed_def)
  show ?case
    using IH c keep frame by (auto simp: m1_def [symmetric])
qed simp

lemma plan_computes:
  assumes "complete t" and "plan_ok t"
  shows "computes K t"
  using assms
proof (induction t rule: complete_induct)
  case (Arg a f)
  then show ?case by (simp add: computes_def)
next
  case (Unary u f l)
  then show ?case
    by (auto simp: computes_def Let_def)
next
  case (Binary b f l r)
  have ch: "c \<in> set (visit2 l r l r) \<Longrightarrow> computes K c \<and> complete c" for c
    using Binary by auto
  have ops: "concat (visit2 l r (sched l) (sched r)) = concat (map sched (visit2 l r l r))"
    by (simp add: map_visit2)
  show ?case
    unfolding computes_def Let_def
    using operands_compute [of "visit2 l r l r" K, OF _ ch] Binary.prems
    by (simp add: ops del: fold_append) (simp add: fold_append)
next
  case (Ternary t f l r q)
  have ch: "c \<in> set (visit3 l r q l r q) \<Longrightarrow> computes K c \<and> complete c" for c
    using Ternary by auto
  have ops: "concat (visit3 l r q (sched l) (sched r) (sched q)) = concat (map sched (visit3 l r q l r q))"
    by (simp add: map_visit3)
  show ?case
    unfolding computes_def Let_def
    using operands_compute [of "visit3 l r q l r q" K, OF _ ch] Ternary.prems
    by (simp add: ops del: fold_append) (simp add: fold_append)
qed

section \<open>Scores and conditions\<close>

fun node_dtype :: "libxsmm_meqn_info \<Rightarrow> libxsmm_datatype" where
  "node_dtype (NODE_UNARY u) = u_dtype u"
| "node_dtype (NODE_BINARY b) = b_dtype b"
| "node_dtype (NODE_TERNARY t) = t_dtype t"
| "node_dtype (NODE_ARG a) = arg_dtype a"
| "node_dtype NODE_NONE = LIBXSMM_DATATYPE_UNSUPPORTED"

fun typed :: "libxsmm_meqn_elem \<Rightarrow> bool" where
  "typed (Elem (NODE_ARG a) f l r q) \<longleftrightarrow> tmp_dtype (tmp f) = arg_dtype a"
| "typed (Elem (NODE_UNARY u) f l r q) \<longleftrightarrow> tmp_dtype (tmp f) = u_dtype u \<and> typed l"
| "typed (Elem (NODE_BINARY b) f l r q) \<longleftrightarrow> tmp_dtype (tmp f) = b_dtype b \<and> typed l \<and> typed r"
| "typed (Elem (NODE_TERNARY t) f l r q) \<longleftrightarrow> tmp_dtype (tmp f) = t_dtype t \<and> typed l \<and> typed r \<and> typed q"
| "typed _ \<longleftrightarrow> True"

fun scored :: "libxsmm_meqn_elem \<Rightarrow> bool" where
  "scored (Elem (NODE_ARG a) f l r q) \<longleftrightarrow> reg_score f = 0"
| "scored (Elem (NODE_UNARY u) f l r q) \<longleftrightarrow> scored l \<and> reg_score f = unary_score u f l"
| "scored (Elem (NODE_BINARY b) f l r q) \<longleftrightarrow> scored l \<and> scored r \<and> reg_score f = binary_score b f l r"
| "scored (Elem (NODE_TERNARY t) f l r q) \<longleftrightarrow>
    scored l \<and> scored r \<and> scored q \<and> reg_score f = ternary_score t l r q"
| "scored _ \<longleftrightarrow> True"

text \<open>
  A ternary operation fits its score \<open>s\<close> when, after the first operand is kept, the second finds the temporaries it
  needs, and after the first two the third does.
\<close>

fun operands_fit :: "int \<Rightarrow> libxsmm_meqn_elem list \<Rightarrow> bool" where
  "operands_fit s [] \<longleftrightarrow> True"
| "operands_fit s (c # cs) \<longleftrightarrow> score c \<le> s \<and> operands_fit (if is_arg c then s else s - 1) cs"

fun ternaries_fit :: "libxsmm_meqn_elem \<Rightarrow> bool" where
  "ternaries_fit (Elem (NODE_UNARY u) f l r q) \<longleftrightarrow> ternaries_fit l"
| "ternaries_fit (Elem (NODE_BINARY b) f l r q) \<longleftrightarrow> ternaries_fit l \<and> ternaries_fit r"
| "ternaries_fit (Elem (NODE_TERNARY t) f l r q) \<longleftrightarrow>
    ternaries_fit l \<and> ternaries_fit r \<and> ternaries_fit q \<and> operands_fit (reg_score f) (visit3 l r q l r q)"
| "ternaries_fit _ \<longleftrightarrow> True"

text \<open>The input matrices that a multiplication overwrites in place.\<close>

fun in_places :: "libxsmm_meqn_elem \<Rightarrow> int set" where
  "in_places (Elem (NODE_UNARY u) f l r q) = in_places l"
| "in_places (Elem (NODE_BINARY b) f l r q) = in_places l \<union> in_places r"
| "in_places (Elem (NODE_TERNARY t) f l r q) =
    in_places l \<union> in_places r \<union> in_places q \<union> (if in_place t \<and> is_arg q then {loc q} else {})"
| "in_places _ = {}"

definition apart :: "libxsmm_meqn_elem \<Rightarrow> libxsmm_meqn_elem \<Rightarrow> bool" where
  "apart c d \<longleftrightarrow> in_places c \<inter> args d = {} \<and> in_places d \<inter> args c = {}"

lemma apart_sym: "apart c d \<longleftrightarrow> apart d c"
  by (auto simp: apart_def)

text \<open>Positions count from zero, and a matrix that is overwritten in place belongs to one operand only.\<close>

fun args_ok :: "libxsmm_meqn_elem \<Rightarrow> bool" where
  "args_ok (Elem (NODE_ARG a) f l r q) \<longleftrightarrow> 0 \<le> arg_in_pos a"
| "args_ok (Elem (NODE_UNARY u) f l r q) \<longleftrightarrow> args_ok l"
| "args_ok (Elem (NODE_BINARY b) f l r q) \<longleftrightarrow> args_ok l \<and> args_ok r \<and> apart l r"
| "args_ok (Elem (NODE_TERNARY t) f l r q) \<longleftrightarrow>
    args_ok l \<and> args_ok r \<and> args_ok q \<and> apart l r \<and> apart l q \<and> apart r q"
| "args_ok _ \<longleftrightarrow> True"

lemma args_negative: "complete t \<Longrightarrow> args_ok t \<Longrightarrow> x \<in> args t \<Longrightarrow> x < 0"
  by (induction t rule: complete_induct) auto

lemma in_places_args: "complete t \<Longrightarrow> in_places t \<subseteq> args t"
proof (induction t rule: complete_induct)
  case (Ternary t f l r q)
  moreover have "is_arg q \<Longrightarrow> loc q \<in> args q"
    by (cases q rule: is_arg.cases) auto
  ultimately show ?case by auto
qed auto

lemma loc_arg: "is_arg t \<Longrightarrow> args t = {loc t} \<and> in_places t = {} \<and> writes t = {}"
  by (cases t rule: is_arg.cases) auto

section \<open>The part of a tree that a plan leaves alone\<close>

definition skel_flds :: "meqn_fields \<Rightarrow> meqn_fields" where
  "skel_flds f = \<lparr>reg_score = reg_score f, visit_timestamp = 0,
     tmp = \<lparr>tmp_id = 0, tmp_m = 0, tmp_n = 0, tmp_ld = 0, tmp_dtype = tmp_dtype (tmp f)\<rparr>,
     max_tmp_size = 0, n_args = 0, tree_max_comp_tsize = 0\<rparr>"

fun skel :: "libxsmm_meqn_elem \<Rightarrow> libxsmm_meqn_elem" where
  "skel (Elem nd f l r q) = Elem nd (skel_flds f) (skel l) (skel r) (skel q)"
| "skel Null = Null"

lemma skel_flds_simps [simp]:
  "reg_score (skel_flds f) = reg_score f"
  "tmp_dtype (tmp (skel_flds f)) = tmp_dtype (tmp f)"
  by (simp_all add: skel_flds_def)

lemma skel_flds_eq: "skel_flds f = skel_flds g \<longleftrightarrow> reg_score f = reg_score g \<and> tmp_dtype (tmp f) = tmp_dtype (tmp g)"
  by (auto simp: skel_flds_def)

lemma skel_Null [simp]: "skel t = Null \<longleftrightarrow> t = Null"
  by (cases t) auto

lemma is_arg_skel [simp]: "is_arg (skel t) = is_arg t"
  by (cases t rule: is_arg.cases) auto

lemma flds_skel: "t \<noteq> Null \<Longrightarrow> flds (skel t) = skel_flds (flds t)"
  by (cases t) auto

lemma complete_skel [simp]: "complete (skel t) = complete t"
  by (induction t rule: complete.induct) auto

lemma eval_skel [simp]: "eval K m (skel t) = eval K m t"
  by (induction K m t rule: eval.induct) auto

lemma args_skel [simp]: "args (skel t) = args t"
  by (induction t rule: args.induct) auto

lemma in_places_skel [simp]: "in_places (skel t) = in_places t"
proof (induction t rule: in_places.induct)
  case (3 t f l r q)
  moreover have "is_arg q \<Longrightarrow> loc (skel q) = loc q"
    by (cases q rule: is_arg.cases) auto
  ultimately show ?case by auto
qed auto

lemma same_skel:
  assumes "skel t' = skel t"
  shows "is_arg t' = is_arg t" and "complete t' = complete t" and "eval K m t' = eval K m t"
    and "args t' = args t" and "in_places t' = in_places t" and "(t' = Null) = (t = Null)"
  using assms is_arg_skel complete_skel eval_skel args_skel in_places_skel skel_Null by metis+

lemma same_skel_flds:
  assumes "skel t' = skel t" and "t \<noteq> Null"
  shows "score t' = score t" and "tmp_dtype (tmp_of t') = tmp_dtype (tmp_of t)"
proof -
  have "t' \<noteq> Null" using same_skel(6) [OF assms(1)] assms(2) by simp
  then have "skel_flds (flds t') = skel_flds (flds t)"
    using flds_skel assms by metis
  then show "score t' = score t" and "tmp_dtype (tmp_of t') = tmp_dtype (tmp_of t)"
    by (auto simp: skel_flds_eq)
qed

lemma same_skel_arg_loc: "skel t' = skel t \<Longrightarrow> is_arg t \<Longrightarrow> loc t' = loc t"
  by (cases t rule: is_arg.cases; cases t') auto

lemma overwrite_unary_skel:
  assumes "skel l' = skel l" and "l \<noteq> Null"
  shows "libxsmm_meqn_can_overwrite_unary_input u f l' = libxsmm_meqn_can_overwrite_unary_input u f l"
  unfolding libxsmm_meqn_can_overwrite_unary_input_def same_skel_flds(2) [OF assms] ..

lemma overwrite_binary_skel:
  assumes "skel l' = skel l" and "l \<noteq> Null" and "skel r' = skel r" and "r \<noteq> Null"
  shows "libxsmm_meqn_can_overwrite_binary_input b f l' r' = libxsmm_meqn_can_overwrite_binary_input b f l r"
  unfolding libxsmm_meqn_can_overwrite_binary_input_def
    same_skel_flds(2) [OF assms(1, 2)] same_skel_flds(2) [OF assms(3, 4)] ..

lemma visit2_skel:
  assumes "skel l' = skel l" "l \<noteq> Null" "skel r' = skel r" "r \<noteq> Null"
  shows "visit2 l' r' x y = visit2 l r x y"
  unfolding visit2_def same_skel_flds(1) [OF assms(1, 2)] same_skel_flds(1) [OF assms(3, 4)] ..

lemma visit3_skel:
  assumes "skel l' = skel l" "l \<noteq> Null" "skel r' = skel r" "r \<noteq> Null" "skel q' = skel q" "q \<noteq> Null"
  shows "visit3 l' r' q' x y z = visit3 l r q x y z"
  unfolding visit3_def same_skel_flds(1) [OF assms(1, 2)] same_skel_flds(1) [OF assms(3, 4)]
    same_skel_flds(1) [OF assms(5, 6)] ..

section \<open>The pool as a set\<close>

definition free :: "int list \<Rightarrow> int set" where
  "free pool = {i. 0 \<le> i \<and> nat i < length pool \<and> pool ! nat i = 0}"

lemma free_bounds: "x \<in> free pool \<Longrightarrow> 0 \<le> x \<and> x < int (length pool)"
  by (auto simp: free_def)

lemma finite_free [simp]: "finite (free pool)"
  by (rule finite_subset [of _ "{0..<int (length pool)}"]) (auto dest: free_bounds)

lemma free_replicate: "free (replicate k 0) = {0..<int k}"
  by (auto simp: free_def)

lemma reserve_from_Some: "reserve_from j xs = Some i \<Longrightarrow> j \<le> i \<and> i < j + length xs \<and> xs ! (i - j) = 0"
proof (induction xs arbitrary: j)
  case (Cons x xs)
  show ?case
  proof (cases "x = 0")
    case False
    then have "Suc j \<le> i \<and> i < Suc j + length xs \<and> xs ! (i - Suc j) = 0"
      using Cons.IH [of "Suc j"] Cons.prems by simp
    moreover from this have "i - j = Suc (i - Suc j)"
      by linarith
    ultimately show ?thesis by simp
  qed (use Cons in auto)
qed simp

lemma reserve_from_None: "reserve_from j xs = None \<longleftrightarrow> 0 \<notin> set xs"
  by (induction xs arbitrary: j) auto

lemma reserve_free:
  assumes "nat n = length pool" and "free pool \<noteq> {}"
  obtains i pool' where "libxsmm_meqn_reserve_tmp_storage n pool = (i, pool')" "i \<in> free pool"
    "free pool' = free pool - {i}" "length pool' = length pool"
proof -
  have "0 \<in> set pool"
    using assms(2) by (auto simp: free_def in_set_conv_nth)
  then obtain i where i: "reserve_from 0 pool = Some i"
    using reserve_from_None [of 0 pool] by (cases "reserve_from 0 pool") auto
  have "i < length pool \<and> pool ! i = 0"
    using reserve_from_Some [OF i] by simp
  then have "int i \<in> free pool" "free (pool[i := 1]) = free pool - {int i}"
    by (auto simp: free_def nth_list_update split: if_splits)
  moreover have "libxsmm_meqn_reserve_tmp_storage n pool = (int i, pool[i := 1])"
    using assms(1) i by (simp add: libxsmm_meqn_reserve_tmp_storage_def)
  ultimately show ?thesis using that by simp
qed

lemma length_release [simp]: "length (release i pool) = length pool"
  by (simp add: release_def)

lemma free_release:
  "free (release i pool) = (if 0 \<le> i \<and> i < int (length pool) then insert i (free pool) else free pool)"
  by (auto simp: release_def free_def nth_list_update nat_less_iff)

lemma card_diff1: "finite F \<Longrightarrow> int (card (F - {x})) \<ge> int (card F) - 1"
  by (cases "x \<in> F") (auto simp: card_Diff_singleton)

lemma card_pos_nonempty: "1 \<le> int (card F) \<Longrightarrow> F \<noteq> {}"
  by auto

section \<open>Planning one operation\<close>

text \<open>
  \<open>planned t pool t' pool'\<close>: planning \<open>t\<close> with \<open>pool\<close> gave \<open>t'\<close> and \<open>pool'\<close>. The result occupies one place, the
  temporaries in between came from the free ones.
\<close>

definition planned :: "libxsmm_meqn_elem \<Rightarrow> int list \<Rightarrow> libxsmm_meqn_elem \<Rightarrow> int list \<Rightarrow> bool" where
  "planned t pool t' pool' \<longleftrightarrow>
    skel t' = skel t \<and> length pool' = length pool \<and> free pool' = free pool - {loc t'} \<and>
    writes t' \<subseteq> free pool \<union> in_places t \<and> (\<not> is_arg t \<longrightarrow> loc t' \<in> writes t') \<and> plan_ok t'"

lemma plannedD:
  assumes "planned t pool t' pool'"
  shows "skel t' = skel t" and "length pool' = length pool" and "free pool' = free pool - {loc t'}"
    and "writes t' \<subseteq> free pool \<union> in_places t" and "\<not> is_arg t \<Longrightarrow> loc t' \<in> writes t'" and "plan_ok t'"
  using assms by (simp_all add: planned_def)

lemma planned_loc:
  assumes "planned t pool t' pool'" and "complete t" and "args_ok t"
  shows "loc t' \<in> free pool \<or> loc t' < 0 \<and> loc t' \<in> args t"
proof (cases "is_arg t")
  case True
  have "loc t' = loc t" by (rule same_skel_arg_loc [OF plannedD(1) [OF assms(1)] True])
  moreover have "loc t \<in> args t" using loc_arg [OF True] by simp
  ultimately show ?thesis using args_negative [OF assms(2, 3)] by simp
next
  case False
  then have "loc t' \<in> free pool \<union> in_places t"
    using plannedD(4, 5) [OF assms(1)] by blast
  then show ?thesis
    using in_places_args [OF assms(2)] args_negative [OF assms(2, 3)] by blast
qed

lemma planned_undisturbed:
  assumes c: "planned c pool c' pool1" "complete c" "args_ok c"
    and d: "planned d pool2 d' pool3" "complete d" "args_ok d"
    and later: "free pool2 \<subseteq> free pool1" and apart: "apart c d"
  shows "undisturbed c' d'"
proof -
  have pos: "x \<in> free pool \<Longrightarrow> x \<notin> args d" "x \<in> free pool2 \<Longrightarrow> x \<notin> args c" for x
    using args_negative [OF d(2, 3)] args_negative [OF c(2, 3)] free_bounds [of x] by fastforce+
  have f2: "loc c' \<notin> free pool2" using later plannedD(3) [OF c(1)] by blast
  have "loc c' \<notin> in_places d"
    using planned_loc [OF c] pos(1) in_places_args [OF d(2)] apart by (auto simp: apart_def)
  then have "loc c' \<notin> writes d'"
    using plannedD(4) [OF d(1)] f2 by blast
  moreover have "args d \<inter> writes c' = {}"
    using plannedD(4) [OF c(1)] pos(1) apart by (auto simp: apart_def)
  ultimately show ?thesis
    by (simp add: undisturbed_def same_skel(4) [OF plannedD(1) [OF d(1)]])
qed

lemma planned_distinct:
  assumes "undisturbed c' d'" and "planned d pool d' pool'" and "\<not> is_arg d"
  shows "loc c' \<noteq> loc d'"
  using assms plannedD(5) [OF assms(2)] by (auto simp: undisturbed_def)

lemma configure_simps [simp]:
  "tmp_id (libxsmm_meqn_exec_plan_configure_unary_tmp u l ti) = tmp_id ti"
  "tmp_dtype (libxsmm_meqn_exec_plan_configure_unary_tmp u l ti) = u_dtype u"
  "tmp_id (libxsmm_meqn_exec_plan_configure_binary_tmp b l r ti) = tmp_id ti"
  "tmp_dtype (libxsmm_meqn_exec_plan_configure_binary_tmp b l r ti) = b_dtype b"
  "tmp_id (libxsmm_meqn_exec_plan_configure_ternary_tmp t q ti) = tmp_id ti"
  "tmp_dtype (libxsmm_meqn_exec_plan_configure_ternary_tmp t q ti) = t_dtype t"
  by (simp_all add: libxsmm_meqn_exec_plan_configure_unary_tmp_def libxsmm_meqn_exec_plan_configure_binary_tmp_def
      libxsmm_meqn_exec_plan_configure_ternary_tmp_def Let_def)

lemma loc_op: "complete t \<Longrightarrow> \<not> is_arg t \<Longrightarrow> tmp_id (tmp_of t) = loc t"
  by (cases t rule: complete.cases) auto

lemma arg_of_loc: "complete t \<Longrightarrow> is_arg t \<Longrightarrow> (case arg_of t of Some a \<Rightarrow> - (arg_in_pos a + 1) | None \<Rightarrow> - 1) = loc t"
  by (cases t rule: complete.cases) auto

text \<open>
  A visit chooses a place: a reserved one, after which the operands are released, or the place of an operand, after which
  the others are. \<open>reserves\<close>: a ternary operation reserves unless it works in place or on its third operand.
\<close>

definition release_op :: "libxsmm_meqn_elem \<Rightarrow> int list \<Rightarrow> int list" where
  "release_op c pool = (if is_arg c then pool else release (loc c) pool)"

definition reserve_over :: "libxsmm_meqn_elem list \<Rightarrow> int \<Rightarrow> int list \<Rightarrow> int \<times> int list" where
  "reserve_over cs n pool =
   (let (i, pool) = libxsmm_meqn_reserve_tmp_storage n pool in (i, fold release_op cs pool))"

definition unary_place :: "libxsmm_meqn_unary_op \<Rightarrow> meqn_fields \<Rightarrow> libxsmm_meqn_elem \<Rightarrow> int \<Rightarrow> int list \<Rightarrow> int \<times> int list" where
  "unary_place u f l n pool =
   (if is_arg l \<or> \<not> libxsmm_meqn_can_overwrite_unary_input u f l then reserve_over [l] n pool else (loc l, pool))"

definition binary_place ::
    "libxsmm_meqn_binary_op \<Rightarrow> meqn_fields \<Rightarrow> libxsmm_meqn_elem \<Rightarrow> libxsmm_meqn_elem \<Rightarrow> int \<Rightarrow> int list \<Rightarrow> int \<times> int list" where
  "binary_place b f l r n pool =
   (if is_arg l \<and> is_arg r \<or> \<not> libxsmm_meqn_can_overwrite_binary_input b f l r then reserve_over [l, r] n pool
    else if is_arg l then (loc r, pool) else (loc l, release_op r pool))"

definition reserves :: "libxsmm_meqn_ternary_op \<Rightarrow> libxsmm_meqn_elem \<Rightarrow> bool" where
  "reserves t q \<longleftrightarrow> (if is_arg q then \<not> in_place t else \<not> use_r2_as_output t)"

definition ternary_place ::
    "libxsmm_meqn_ternary_op \<Rightarrow> libxsmm_meqn_elem \<Rightarrow> libxsmm_meqn_elem \<Rightarrow> libxsmm_meqn_elem \<Rightarrow> int \<Rightarrow> int list \<Rightarrow> int \<times> int list" where
  "ternary_place t l r q n pool =
   (if reserves t q then reserve_over [l, r, q] n pool else (loc q, release_op r (release_op l pool)))"

definition visited :: "meqn_fields \<Rightarrow> libxsmm_datatype \<Rightarrow> int \<Rightarrow> int \<times> int list \<Rightarrow> meqn_fields \<times> int \<times> int list \<Rightarrow> bool" where
  "visited f d ts place v \<longleftrightarrow> visit_timestamp (fst v) = ts \<and> reg_score (fst v) = reg_score f \<and>
    tmp_dtype (tmp (fst v)) = d \<and> tmp_id (tmp (fst v)) = fst place \<and> fst (snd v) = ts + 1 \<and> snd (snd v) = snd place"

lemmas visited_simps = visited_def Let_def case_prod_unfold release_op_def reserve_over_def

lemma visit_unary:
  assumes "complete l"
  shows "visited f (u_dtype u) ts (unary_place u f l n pool) (libxsmm_meqn_exec_plan_visit_unary_node u f l ts n pool)"
  using loc_op [OF assms]
  by (cases "is_arg l"; cases "libxsmm_meqn_can_overwrite_unary_input u f l")
    (simp_all add: libxsmm_meqn_exec_plan_visit_unary_node_def unary_place_def visited_simps)

lemma visit_binary:
  assumes "complete l" and "complete r"
  shows "visited f (b_dtype b) ts (binary_place b f l r n pool) (libxsmm_meqn_exec_plan_visit_binary_node b f l r ts n pool)"
  using loc_op [OF assms(1)] loc_op [OF assms(2)]
  by (cases "is_arg l"; cases "is_arg r"; cases "libxsmm_meqn_can_overwrite_binary_input b f l r")
    (simp_all add: libxsmm_meqn_exec_plan_visit_binary_node_def binary_place_def visited_simps)

lemma reserve_or_in_place_loc:
  assumes "complete q" and "is_arg q"
  shows "reserve_or_in_place t q n pool =
    (if reserves t q then libxsmm_meqn_reserve_tmp_storage n pool else (loc q, pool))"
  using assms arg_of_loc [OF assms] by (cases q rule: is_arg.cases) (auto simp: reserve_or_in_place_def reserves_def)

lemma visit_ternary:
  assumes "complete l" and "complete r" and "complete q"
  shows "visited f (t_dtype t) ts (ternary_place t l r q n pool)
    (libxsmm_meqn_exec_plan_visit_ternary_node t f l r q ts n pool)"
proof (cases "is_arg q")
  case True
  show ?thesis
    using loc_op [OF assms(1)] loc_op [OF assms(2)] True
    by (cases "is_arg l"; cases "is_arg r"; cases "reserves t q")
      (simp_all add: libxsmm_meqn_exec_plan_visit_ternary_node_def ternary_place_def visited_simps
        reserve_or_in_place_loc [OF assms(3)])
next
  case False
  then show ?thesis
    using loc_op [OF assms(1)] loc_op [OF assms(2)] loc_op [OF assms(3) False]
    by (cases "is_arg l"; cases "is_arg r"; cases "use_r2_as_output t")
      (simp_all add: libxsmm_meqn_exec_plan_visit_ternary_node_def ternary_place_def visited_simps reserves_def)
qed

text \<open>A place is taken from the free temporaries \<open>F\<close> or from the operands, and is the only one that stays taken.\<close>

definition takes_place :: "int set \<Rightarrow> libxsmm_meqn_elem list \<Rightarrow> nat \<Rightarrow> int \<times> int list \<Rightarrow> bool" where
  "takes_place F cs len place \<longleftrightarrow>
    length (snd place) = len \<and> free (snd place) = F - {fst place} \<and>
    fst place \<in> F \<union> {loc c |c. c \<in> set cs \<and> \<not> is_arg c}"

lemma length_release_op [simp]: "length (release_op c pool) = length pool"
  by (simp add: release_op_def)

lemma length_releases [simp]: "length (fold release_op cs pool) = length pool"
  by (induction cs arbitrary: pool) auto

lemma free_release_op:
  assumes "loc c < int (length pool)"
  shows "free (release_op c pool) = free pool \<union> (if is_arg c \<or> loc c < 0 then {} else {loc c})"
  using assms by (auto simp: release_op_def free_release)

lemma free_releases:
  assumes "\<And>c. c \<in> set cs \<Longrightarrow> loc c < int (length pool)"
  shows "free (fold release_op cs pool) = free pool \<union> {loc c |c. c \<in> set cs \<and> \<not> is_arg c \<and> 0 \<le> loc c}"
  using assms
proof (induction cs arbitrary: pool)
  case (Cons c cs)
  then have "free (fold release_op cs (release_op c pool)) =
      free (release_op c pool) \<union> {loc c |c. c \<in> set cs \<and> \<not> is_arg c \<and> 0 \<le> loc c}"
    by simp
  then show ?case using free_release_op [of c pool] Cons.prems by auto
qed simp

text \<open>The operands after their planning: each place is a temporary from \<open>F\<close> or belongs to an input matrix.\<close>

definition operands_in :: "int set \<Rightarrow> int list \<Rightarrow> libxsmm_meqn_elem list \<Rightarrow> bool" where
  "operands_in F pool cs \<longleftrightarrow> free pool = F - loc ` set cs \<and> (\<forall>x \<in> F. 0 \<le> x \<and> x < int (length pool)) \<and>
    (\<forall>c \<in> set cs. (loc c \<in> F \<or> loc c < 0) \<and> (is_arg c \<longrightarrow> loc c < 0))"

lemma operands_inD:
  assumes "operands_in F pool cs"
  shows "free pool = F - loc ` set cs" and "x \<in> F \<Longrightarrow> 0 \<le> x \<and> x < int (length pool)"
    and "c \<in> set cs \<Longrightarrow> loc c \<in> F \<or> loc c < 0" and "c \<in> set cs \<Longrightarrow> is_arg c \<Longrightarrow> loc c < 0"
    and "c \<in> set cs \<Longrightarrow> loc c < int (length pool)"
  using assms by (force simp: operands_in_def)+

lemma reserve_over_place:
  assumes F: "operands_in F pool cs" and n: "nat n = length pool" and room: "free pool \<noteq> {}"
  shows "takes_place F cs (length pool) (reserve_over cs n pool)"
proof -
  obtain i p where i: "libxsmm_meqn_reserve_tmp_storage n pool = (i, p)" "i \<in> free pool"
    "free p = free pool - {i}" "length p = length pool"
    using reserve_free [OF n room] .
  have "free (fold release_op cs p) = F - {i}"
    using free_releases [of cs p] operands_inD [OF F] i by fastforce
  moreover have "i \<in> F" using i(2) operands_inD(1) [OF F] by blast
  ultimately show ?thesis
    using i by (simp add: takes_place_def reserve_over_def)
qed

lemma unary_place_ok:
  assumes F: "operands_in F pool [l]" and n: "nat n = length pool"
    and room: "is_arg l \<or> \<not> libxsmm_meqn_can_overwrite_unary_input u f l \<Longrightarrow> free pool \<noteq> {}"
  shows "takes_place F [l] (length pool) (unary_place u f l n pool)"
proof (cases "is_arg l \<or> \<not> libxsmm_meqn_can_overwrite_unary_input u f l")
  case True
  then show ?thesis using reserve_over_place [OF F n room] by (simp add: unary_place_def)
next
  case False
  then show ?thesis using operands_inD(1) [OF F] by (auto simp: unary_place_def takes_place_def)
qed

lemma free_release_in:
  assumes F: "operands_in F pool0 cs" and c: "c \<in> set cs" and len: "length pool = length pool0"
  shows "free (release_op c pool) = free pool \<union> ({loc c} \<inter> F)"
proof -
  have "{loc c} \<inter> F = (if is_arg c \<or> loc c < 0 then {} else {loc c})"
    using operands_inD(2) [OF F, of "loc c"] operands_inD(3, 4) [OF F c] by auto
  then show ?thesis
    using free_release_op [of c pool] operands_inD(5) [OF F c] len by simp
qed

lemma in_F_not_arg: "operands_in F pool cs \<Longrightarrow> c \<in> set cs \<Longrightarrow> loc c \<in> F \<Longrightarrow> \<not> is_arg c"
  using operands_inD(2) [of F pool cs "loc c"] operands_inD(4) [of F pool cs c] by auto

lemma binary_place_ok:
  assumes F: "operands_in F pool [l, r]" and n: "nat n = length pool"
    and lr: "\<not> is_arg l \<Longrightarrow> \<not> is_arg r \<Longrightarrow> loc l \<noteq> loc r"
    and room: "is_arg l \<and> is_arg r \<or> \<not> libxsmm_meqn_can_overwrite_binary_input b f l r \<Longrightarrow> free pool \<noteq> {}"
  shows "takes_place F [l, r] (length pool) (binary_place b f l r n pool)"
proof (cases "is_arg l \<and> is_arg r \<or> \<not> libxsmm_meqn_can_overwrite_binary_input b f l r")
  case True
  then show ?thesis using reserve_over_place [OF F n room] by (simp add: binary_place_def)
next
  case False
  have fp: "free pool = F - {loc l, loc r}" using operands_inD(1) [OF F] by simp
  show ?thesis
  proof (cases "is_arg l")
    case True
    then have "loc l \<notin> F" using in_F_not_arg [OF F, of l] by auto
    then show ?thesis using True False fp by (auto simp: binary_place_def takes_place_def)
  next
    case l: False
    have "free (release_op r pool) = F - {loc l, loc r} \<union> ({loc r} \<inter> F)"
      using free_release_in [OF F, of r pool] fp by simp
    moreover have "loc l \<notin> {loc r} \<inter> F"
      using lr [OF l] in_F_not_arg [OF F, of r] by auto
    ultimately have "free (release_op r pool) = F - {loc l}" by blast
    then show ?thesis using l False by (auto simp: binary_place_def takes_place_def)
  qed
qed

lemma ternary_place_ok:
  assumes F: "operands_in F pool [l, r, q]" and n: "nat n = length pool"
    and lq: "\<not> is_arg l \<Longrightarrow> loc l \<noteq> loc q" and rq: "\<not> is_arg r \<Longrightarrow> loc r \<noteq> loc q"
    and room: "reserves t q \<Longrightarrow> free pool \<noteq> {}"
  shows "takes_place F [l, r, q] (length pool) (ternary_place t l r q n pool) \<or>
    in_place t \<and> is_arg q \<and> fst (ternary_place t l r q n pool) = loc q \<and>
    length (snd (ternary_place t l r q n pool)) = length pool \<and> free (snd (ternary_place t l r q n pool)) = F - {loc q}"
proof (cases "reserves t q")
  case True
  then show ?thesis using reserve_over_place [OF F n room] by (simp add: ternary_place_def)
next
  case False
  have "free (release_op r (release_op l pool)) = F - {loc l, loc r, loc q} \<union> ({loc l} \<inter> F) \<union> ({loc r} \<inter> F)"
    using free_release_in [OF F, of l pool] free_release_in [OF F, of r "release_op l pool"] operands_inD(1) [OF F] by simp
  moreover have "loc q \<notin> {loc l} \<inter> F" "loc q \<notin> {loc r} \<inter> F"
    using lq rq in_F_not_arg [OF F, of l] in_F_not_arg [OF F, of r] by auto
  ultimately have "free (release_op r (release_op l pool)) = F - {loc q}" by blast
  then show ?thesis
    using False by (auto simp: ternary_place_def takes_place_def reserves_def split: if_splits)
qed

section \<open>Planning the operands\<close>

fun plan_list :: "int \<Rightarrow> libxsmm_meqn_elem list \<Rightarrow> plan_state \<Rightarrow> libxsmm_meqn_elem list \<times> plan_state" where
  "plan_list n [] st = ([], st)"
| "plan_list n (c # cs) st =
    (let (c, st) = libxsmm_meqn_create_exec_plan c n st; (cs, st) = plan_list n cs st in (c # cs, st))"

lemma create_binary:
  obtains l' r' st' where "plan_list n (visit2 l r l r) st = (visit2 l r l' r', st')"
    and "libxsmm_meqn_create_exec_plan (Elem (NODE_BINARY b) f l r q) n st = plan_binary b f l' r' q n st'"
  by (cases "score l \<ge> score r") (auto simp: visit2_def Let_def case_prod_unfold)

lemma create_ternary:
  obtains l' r' q' st' where "plan_list n (visit3 l r q l r q) st = (visit3 l r q l' r' q', st')"
    and "libxsmm_meqn_create_exec_plan (Elem (NODE_TERNARY t) f l r q) n st = plan_ternary t f l' r' q' n st'"
proof -
  have "\<exists>l' r' q' st'. plan_list n (visit3 l r q l r q) st = (visit3 l r q l' r' q', st') \<and>
    libxsmm_meqn_create_exec_plan (Elem (NODE_TERNARY t) f l r q) n st = plan_ternary t f l' r' q' n st'"
    by (cases "score l \<ge> score r"; cases "score l \<ge> score q"; cases "score r \<ge> score q"; cases "score r \<ge> score l")
      (simp_all add: visit3_def Let_def case_prod_unfold)
  then show ?thesis using that by blast
qed

fun planned_list :: "libxsmm_meqn_elem list \<Rightarrow> int list \<Rightarrow> libxsmm_meqn_elem list \<Rightarrow> int list \<Rightarrow> bool" where
  "planned_list [] pool [] pool' \<longleftrightarrow> pool' = pool"
| "planned_list (c # cs) pool (c' # cs') pool' \<longleftrightarrow>
    (\<exists>pool1. planned c pool c' pool1 \<and> planned_list cs pool1 cs' pool')"
| "planned_list _ _ _ _ \<longleftrightarrow> False"

lemma planned_list_skel: "planned_list cs pool cs' pool' \<Longrightarrow> map skel cs' = map skel cs"
  by (induction cs pool cs' pool' rule: planned_list.induct) (auto simp: planned_def)

lemma planned_list_pool:
  assumes "planned_list cs pool cs' pool'"
  shows "length pool' = length pool" and "free pool' = free pool - loc ` set cs'"
proof -
  have "length pool' = length pool \<and> free pool' = free pool - loc ` set cs'"
    using assms by (induction cs pool cs' pool' rule: planned_list.induct) (auto simp: planned_def)
  then show "length pool' = length pool" and "free pool' = free pool - loc ` set cs'" by simp_all
qed

lemma planned_list_elem:
  assumes "planned_list cs pool cs' pool'" and "d' \<in> set cs'"
  obtains d pool1 pool2 where "d \<in> set cs" "planned d pool1 d' pool2" "free pool1 \<subseteq> free pool" "length pool1 = length pool"
proof -
  have "\<exists>d pool1 pool2. d \<in> set cs \<and> planned d pool1 d' pool2 \<and> free pool1 \<subseteq> free pool \<and> length pool1 = length pool"
    using assms
  proof (induction cs pool cs' pool' rule: planned_list.induct)
    case (2 c cs pool c' cs' pool')
    then obtain p where p: "planned c pool c' p" "planned_list cs p cs' pool'" by auto
    show ?case
    proof (cases "d' = c'")
      case True
      then show ?thesis using p(1) by auto
    next
      case False
      then obtain d pool1 pool2 where "d \<in> set cs" "planned d pool1 d' pool2" "free pool1 \<subseteq> free p" "length pool1 = length p"
        using 2 p by fastforce
      then show ?thesis using plannedD(2, 3) [OF p(1)] by (intro exI [of _ d]) auto
    qed
  qed auto
  then show ?thesis using that by blast
qed

fun pairwise_apart :: "libxsmm_meqn_elem list \<Rightarrow> bool" where
  "pairwise_apart [] \<longleftrightarrow> True"
| "pairwise_apart (c # cs) \<longleftrightarrow> (\<forall>d \<in> set cs. apart c d) \<and> pairwise_apart cs"

lemma planned_list_undisturbed:
  assumes "planned_list cs pool cs' pool'" and "pairwise_apart cs" and "\<And>c. c \<in> set cs \<Longrightarrow> complete c \<and> args_ok c"
  shows "pairwise_undisturbed cs'"
  using assms
proof (induction cs pool cs' pool' rule: planned_list.induct)
  case (2 c cs pool c' cs' pool')
  then obtain p where p: "planned c pool c' p" "planned_list cs p cs' pool'" by auto
  have "undisturbed c' d'" if d': "d' \<in> set cs'" for d'
  proof -
    obtain d pool1 pool2 where d: "d \<in> set cs" "planned d pool1 d' pool2" "free pool1 \<subseteq> free p"
      using planned_list_elem [OF p(2) d'] .
    show ?thesis
      using planned_undisturbed [OF p(1) _ _ d(2) _ _ d(3)] 2(3, 4) d(1) by simp
  qed
  then show ?case using 2(1) [OF p(2)] 2(3, 4) by simp
qed auto

lemma planned_list_in:
  assumes "planned_list cs pool cs' pool'" and "\<And>c. c \<in> set cs \<Longrightarrow> complete c \<and> args_ok c"
  shows "operands_in (free pool) pool' cs'"
proof -
  have "(loc d' \<in> free pool \<or> loc d' < 0) \<and> (is_arg d' \<longrightarrow> loc d' < 0)" if d': "d' \<in> set cs'" for d'
  proof -
    obtain d p p' where d: "d \<in> set cs" "planned d p d' p'" "free p \<subseteq> free pool"
      using planned_list_elem [OF assms(1) d'] .
    have l: "loc d' \<in> free p \<or> loc d' < 0 \<and> loc d' \<in> args d"
      using planned_loc [OF d(2)] assms(2) [OF d(1)] by blast
    moreover have "loc d' < 0" if "is_arg d'"
    proof -
      have "is_arg d" "loc d' = loc d"
        using that same_skel(1) [OF plannedD(1) [OF d(2)]] same_skel_arg_loc [OF plannedD(1) [OF d(2)]] by auto
      then show ?thesis using loc_arg [of d] args_negative [of d] assms(2) [OF d(1)] by auto
    qed
    ultimately show ?thesis using d(3) by auto
  qed
  moreover have "\<forall>x \<in> free pool. 0 \<le> x \<and> x < int (length pool')"
    using planned_list_pool(1) [OF assms(1)] free_bounds [of _ pool] by simp
  ultimately show ?thesis
    using planned_list_pool(2) [OF assms(1)] by (simp add: operands_in_def)
qed

lemma planned_list_writes:
  assumes "planned_list cs pool cs' pool'"
  shows "\<Union> (writes ` set cs') \<subseteq> free pool \<union> \<Union> (in_places ` set cs)"
proof
  fix x
  assume "x \<in> \<Union> (writes ` set cs')"
  then obtain d' where d': "d' \<in> set cs'" "x \<in> writes d'" by auto
  obtain d p p' where d: "d \<in> set cs" "planned d p d' p'" "free p \<subseteq> free pool"
    using planned_list_elem [OF assms d'(1)] .
  show "x \<in> free pool \<union> \<Union> (in_places ` set cs)"
    using plannedD(4) [OF d(2)] d'(2) d(1, 3) by auto
qed

lemma planned_list_plan_ok: "planned_list cs pool cs' pool' \<Longrightarrow> d \<in> set cs' \<Longrightarrow> plan_ok d"
  by (erule planned_list_elem) (auto dest: plannedD(6))

text \<open>The number of temporaries that are left after the operands.\<close>

definition op_count :: "libxsmm_meqn_elem list \<Rightarrow> int" where
  "op_count cs = int (length (filter (\<lambda>c. \<not> is_arg c) cs))"

lemma card_free_after:
  assumes p: "planned c pool c' pool'" and ok: "complete c" "args_ok c"
  shows "int (card (free pool')) \<ge> int (card (free pool)) - (if is_arg c then 0 else 1)"
proof (cases "is_arg c")
  case True
  have "loc c' < 0"
    using same_skel_arg_loc [OF plannedD(1) [OF p] True] loc_arg [OF True] args_negative [OF ok] by simp
  then have "loc c' \<notin> free pool" using free_bounds [of "loc c'" pool] by auto
  then show ?thesis using True plannedD(3) [OF p] by simp
next
  case False
  then show ?thesis using plannedD(3) [OF p] card_diff1 [of "free pool" "loc c'"] by simp
qed

lemma plan_list_planned:
  assumes "\<And>c pool ts. c \<in> set cs \<Longrightarrow> nat n = length pool \<Longrightarrow> score c \<le> int (card (free pool)) \<Longrightarrow>
      \<exists>c' ts' pool'. libxsmm_meqn_create_exec_plan c n (ts, pool) = (c', ts', pool') \<and> planned c pool c' pool'"
    and "\<And>c. c \<in> set cs \<Longrightarrow> complete c \<and> args_ok c"
    and "operands_fit s cs" and "s \<le> int (card (free pool))" and "nat n = length pool"
  shows "\<exists>cs' ts' pool'. plan_list n cs (ts, pool) = (cs', ts', pool') \<and> planned_list cs pool cs' pool' \<and>
    s - op_count cs \<le> int (card (free pool'))"
  using assms
proof (induction cs arbitrary: s ts pool)
  case Nil
  then show ?case by (simp add: op_count_def)
next
  case (Cons c cs)
  obtain c' ts1 p1 where c: "libxsmm_meqn_create_exec_plan c n (ts, pool) = (c', ts1, p1)" "planned c pool c' p1"
    using Cons.prems(1) [of c pool ts] Cons.prems(3-5) by auto
  have left: "(if is_arg c then s else s - 1) \<le> int (card (free p1))"
    using card_free_after [OF c(2)] Cons.prems(2) [of c] Cons.prems(4) by (auto split: if_splits)
  have "\<exists>cs' ts' pool'. plan_list n cs (ts1, p1) = (cs', ts', pool') \<and> planned_list cs p1 cs' pool' \<and>
    (if is_arg c then s else s - 1) - op_count cs \<le> int (card (free pool'))"
    using Cons.prems(1-3, 5) left plannedD(2) [OF c(2)] by (intro Cons.IH) auto
  then obtain cs' ts' p' where cs': "plan_list n cs (ts1, p1) = (cs', ts', p')" "planned_list cs p1 cs' p'"
      "(if is_arg c then s else s - 1) - op_count cs \<le> int (card (free p'))"
    by blast
  then show ?case using c by (auto simp: op_count_def split: if_splits)
qed

section \<open>Planning a tree\<close>

lemma score_arg: "is_arg t \<Longrightarrow> scored t \<Longrightarrow> score t = 0"
  by (cases t rule: is_arg.cases) auto

lemma score_op: "complete t \<Longrightarrow> scored t \<Longrightarrow> \<not> is_arg t \<Longrightarrow> 1 \<le> score t"
  by (induction t rule: complete_induct)
    (auto simp: unary_score_def binary_score_def ternary_score_def)

lemma score_nonneg: "complete t \<Longrightarrow> scored t \<Longrightarrow> 0 \<le> score t"
  using score_arg [of t] score_op [of t] by (cases "is_arg t") auto

lemma op_count_simps [simp]:
  "op_count [] = 0"
  "op_count (c # cs) = (if is_arg c then 0 else 1) + op_count cs"
  by (simp_all add: op_count_def)

lemma op_count_visit [simp]:
  "op_count (visit2 l r l r) = op_count [l, r]"
  "op_count (visit3 l r q l r q) = op_count [l, r, q]"
  by (simp_all add: visit2_def visit3_def)

lemma unary_fits:
  assumes "complete l" and "scored l"
  shows "operands_fit (unary_score u f l) [l]"
    and "is_arg l \<or> \<not> libxsmm_meqn_can_overwrite_unary_input u f l \<Longrightarrow> 1 \<le> unary_score u f l - op_count [l]"
  using score_arg [of l] score_op [OF assms] assms(2) by (auto simp: unary_score_def)

lemma binary_fits:
  assumes "complete l" and "scored l" and "complete r" and "scored r"
  shows "operands_fit (binary_score b f l r) (visit2 l r l r)"
    and "is_arg l \<and> is_arg r \<or> \<not> libxsmm_meqn_can_overwrite_binary_input b f l r
      \<Longrightarrow> 1 \<le> binary_score b f l r - op_count [l, r]"
proof -
  have "is_arg l \<Longrightarrow> score l = 0" "\<not> is_arg l \<Longrightarrow> 1 \<le> score l" "is_arg r \<Longrightarrow> score r = 0" "\<not> is_arg r \<Longrightarrow> 1 \<le> score r"
    using score_arg score_op assms by auto
  then show "operands_fit (binary_score b f l r) (visit2 l r l r)"
    and "is_arg l \<and> is_arg r \<or> \<not> libxsmm_meqn_can_overwrite_binary_input b f l r
      \<Longrightarrow> 1 \<le> binary_score b f l r - op_count [l, r]"
    by (auto simp: binary_score_def visit2_def)
qed

lemma ternary_room: "reserves t q \<Longrightarrow> 1 \<le> ternary_score t l r q - op_count [l, r, q]"
  by (auto simp: ternary_score_def reserves_def in_place_def)

lemma planned_list_loc_writes:
  assumes "planned_list cs pool cs' pool'" and "c' \<in> set cs'" and "\<not> is_arg c'"
  shows "loc c' \<in> writes c'"
proof -
  obtain d p p' where "planned d p c' p'"
    by (rule planned_list_elem [OF assms(1, 2)])
  then show ?thesis
    using plannedD(5) [of d p c' p'] same_skel(1) [OF plannedD(1) [of d p c' p']] assms(3) by simp
qed

lemma planned_list_loc_distinct:
  assumes "planned_list cs pool cs' pool'" and "c' \<in> set cs'" and "d' \<in> set cs'"
    and "undisturbed c' d' \<or> undisturbed d' c'" and "\<not> is_arg c'" and "\<not> is_arg d'"
  shows "loc c' \<noteq> loc d'"
  using planned_list_loc_writes [OF assms(1, 2, 5)] planned_list_loc_writes [OF assms(1, 3, 6)] assms(4)
  by (auto simp: undisturbed_def)

lemma planned_node:
  assumes ops: "planned_list cs pool cs' pool1" and cs: "\<And>c. c \<in> set cs \<Longrightarrow> complete c \<and> args_ok c"
    and place: "takes_place (free pool) cs' (length pool1) (i, pool2) \<or>
        i \<in> own \<and> length pool2 = length pool1 \<and> free pool2 = free pool - {i}"
    and node: "writes t' = insert i (\<Union> (writes ` set cs'))" "loc t' = i" "in_places t = \<Union> (in_places ` set cs) \<union> own"
      "skel t' = skel t" "\<not> is_arg t" "plan_ok t'"
  shows "planned t pool t' pool2"
proof -
  have "{loc c |c. c \<in> set cs' \<and> \<not> is_arg c} \<subseteq> \<Union> (writes ` set cs')"
    using planned_list_loc_writes [OF ops] by auto
  then have "i \<in> free pool \<union> in_places t \<union> \<Union> (writes ` set cs')"
    using place node(3) by (auto simp: takes_place_def)
  moreover have "\<Union> (writes ` set cs') \<subseteq> free pool \<union> in_places t"
    using planned_list_writes [OF ops] node(3) by auto
  ultimately have "writes t' \<subseteq> free pool \<union> in_places t" using node(1) by auto
  then show ?thesis
    using place node planned_list_pool(1) [OF ops] by (auto simp: planned_def takes_place_def)
qed

lemma planned_list_visit2:
  assumes "planned_list (visit2 l r l r) pool (visit2 l r l' r') pool'"
  shows "skel l' = skel l" and "skel r' = skel r"
  using planned_list_skel [OF assms] by (auto simp: visit2_def split: if_splits)

lemma planned_list_visit3:
  assumes "planned_list (visit3 l r q l r q) pool (visit3 l r q l' r' q') pool'"
  shows "skel l' = skel l" and "skel r' = skel r" and "skel q' = skel q"
proof -
  have "skel l' = skel l \<and> skel r' = skel r \<and> skel q' = skel q"
    using planned_list_skel [OF assms] by (simp add: visit3_def split: if_splits)
  then show "skel l' = skel l" and "skel r' = skel r" and "skel q' = skel q" by simp_all
qed

definition plannable :: "int \<Rightarrow> libxsmm_meqn_elem \<Rightarrow> bool" where
  "plannable n t \<longleftrightarrow> (\<forall>pool ts. nat n = length pool \<longrightarrow> score t \<le> int (card (free pool)) \<longrightarrow>
    (\<exists>t' ts' pool'. libxsmm_meqn_create_exec_plan t n (ts, pool) = (t', ts', pool') \<and> planned t pool t' pool'))"

lemma plannableD:
  "plannable n t \<Longrightarrow> nat n = length pool \<Longrightarrow> score t \<le> int (card (free pool)) \<Longrightarrow>
    \<exists>t' ts' pool'. libxsmm_meqn_create_exec_plan t n (ts, pool) = (t', ts', pool') \<and> planned t pool t' pool'"
  by (simp add: plannable_def)

lemma plan_operands:
  assumes cs: "\<And>c. c \<in> set cs \<Longrightarrow> plannable n c \<and> complete c \<and> args_ok c" and apart: "pairwise_apart cs"
    and fit: "operands_fit s cs" "s \<le> int (card (free pool))" and n: "nat n = length pool"
  obtains cs' ts' pool' where "plan_list n cs (ts, pool) = (cs', ts', pool')" "planned_list cs pool cs' pool'"
    "1 \<le> s - op_count cs \<longrightarrow> free pool' \<noteq> {}" "operands_in (free pool) pool' cs'" "pairwise_undisturbed cs'"
    "\<forall>c' \<in> set cs'. plan_ok c'" "nat n = length pool'"
proof -
  have "\<exists>cs' ts' pool'. plan_list n cs (ts, pool) = (cs', ts', pool') \<and> planned_list cs pool cs' pool' \<and>
      s - op_count cs \<le> int (card (free pool'))"
    by (rule plan_list_planned [OF plannableD _ fit n]) (use cs in auto)
  then obtain cs' ts' pool' where p: "plan_list n cs (ts, pool) = (cs', ts', pool')" "planned_list cs pool cs' pool'"
      "s - op_count cs \<le> int (card (free pool'))"
    by blast
  have "operands_in (free pool) pool' cs'" "pairwise_undisturbed cs'"
    using planned_list_in [OF p(2)] planned_list_undisturbed [OF p(2) apart] cs by simp_all
  moreover have "1 \<le> s - op_count cs \<longrightarrow> free pool' \<noteq> {}"
    using p(3) by auto
  ultimately show ?thesis
    using that [OF p(1, 2)] planned_list_plan_ok [OF p(2)] planned_list_pool(1) [OF p(2)] n by simp
qed

lemma plannable_unary:
  assumes l: "complete l" "scored l" "args_ok l" "plannable n l"
    and f: "reg_score f = unary_score u f l" "tmp_dtype (tmp f) = u_dtype u"
  shows "plannable n (Elem (NODE_UNARY u) f l Null Null)" (is "plannable n ?t")
  unfolding plannable_def
proof (intro allI impI)
  fix pool ts
  assume n: "nat n = length pool" and s: "score ?t \<le> int (card (free pool))"
  have cs: "c \<in> set [l] \<Longrightarrow> plannable n c \<and> complete c \<and> args_ok c" for c using l by simp
  have apart: "pairwise_apart [l]" by simp
  have fit: "operands_fit (score ?t) [l]" using unary_fits(1) [OF l(1, 2)] f(1) by simp
  obtain ls ts1 p1 where c: "plan_list n [l] (ts, pool) = (ls, ts1, p1)" and pl: "planned_list [l] pool ls p1"
    and room: "1 \<le> score ?t - op_count [l] \<longrightarrow> free p1 \<noteq> {}" and ops: "operands_in (free pool) p1 ls"
    and "pairwise_undisturbed ls" and ok: "\<forall>c' \<in> set ls. plan_ok c'" and n1: "nat n = length p1"
    using plan_operands [OF cs apart fit s n, where ts = ts] .
  obtain l' where ls: "ls = [l']" and c: "libxsmm_meqn_create_exec_plan l n (ts, pool) = (l', ts1, p1)"
    using c by (cases "libxsmm_meqn_create_exec_plan l n (ts, pool)") simp
  have sk: "skel l' = skel l" using planned_list_skel [OF pl] ls by simp
  note same = same_skel(1, 2) [OF sk] overwrite_unary_skel [OF sk complete_not_Null [OF l(1)]]
  have l': "complete l'" using same l(1) by simp
  define v where "v = libxsmm_meqn_exec_plan_visit_unary_node u f l' ts1 n p1"
  have vis: "visited f (u_dtype u) ts1 (unary_place u f l' n p1) v"
    using visit_unary [OF l'] by (simp add: v_def)
  have place: "takes_place (free pool) [l'] (length p1) (unary_place u f l' n p1)"
    by (rule unary_place_ok) (use ops ls n1 room unary_fits(2) [OF l(1, 2), of u f] f(1) same in auto)
  let ?t' = "Elem (NODE_UNARY u) (fst v) l' Null Null"
  have "libxsmm_meqn_create_exec_plan ?t n (ts, pool) = (?t', fst (snd v), snd (snd v))"
    using c by (simp add: plan_unary_def v_def case_prod_unfold Let_def)
  moreover have "planned ?t pool ?t' (snd (snd v))"
    by (rule planned_node [OF pl, where i = "fst (unary_place u f l' n p1)" and own = "{}"])
      (use place vis ls l f(2) sk ok in \<open>simp_all add: visited_def takes_place_def skel_flds_eq\<close>)
  ultimately show "\<exists>t' ts' pool'. libxsmm_meqn_create_exec_plan ?t n (ts, pool) = (t', ts', pool') \<and> planned ?t pool t' pool'"
    by blast
qed

lemma plannable_binary:
  assumes l: "complete l" "scored l" "args_ok l" "plannable n l"
    and r: "complete r" "scored r" "args_ok r" "plannable n r" and lr: "apart l r"
    and f: "reg_score f = binary_score b f l r" "tmp_dtype (tmp f) = b_dtype b"
  shows "plannable n (Elem (NODE_BINARY b) f l r Null)" (is "plannable n ?t")
  unfolding plannable_def
proof (intro allI impI)
  fix pool ts
  assume n: "nat n = length pool" and s: "score ?t \<le> int (card (free pool))"
  let ?cs = "visit2 l r l r"
  have cs: "c \<in> set ?cs \<Longrightarrow> plannable n c \<and> complete c \<and> args_ok c" for c using l r by auto
  have apart: "pairwise_apart ?cs" using lr apart_sym [of l r] by (auto simp: visit2_def)
  have fit: "operands_fit (score ?t) ?cs" using binary_fits(1) [OF l(1, 2) r(1, 2)] f(1) by simp
  obtain cs' ts1 p1 where c: "plan_list n ?cs (ts, pool) = (cs', ts1, p1)" and pl: "planned_list ?cs pool cs' p1"
    and room: "1 \<le> score ?t - op_count ?cs \<longrightarrow> free p1 \<noteq> {}" and ops: "operands_in (free pool) p1 cs'"
    and un: "pairwise_undisturbed cs'" and ok: "\<forall>c' \<in> set cs'. plan_ok c'" and n1: "nat n = length p1"
    using plan_operands [OF cs apart fit s n, where ts = ts] .
  obtain l' r' st where lr': "plan_list n ?cs (ts, pool) = (visit2 l r l' r', st)"
    and "libxsmm_meqn_create_exec_plan ?t n (ts, pool) = plan_binary b f l' r' Null n st"
    by (rule create_binary)
  then have cs': "cs' = visit2 l r l' r'"
    and t: "libxsmm_meqn_create_exec_plan ?t n (ts, pool) = plan_binary b f l' r' Null n (ts1, p1)"
    using c by simp_all
  have sk: "skel l' = skel l" "skel r' = skel r" using planned_list_visit2 pl cs' by auto
  note same = same_skel(1, 2) [OF sk(1)] same_skel(1, 2) [OF sk(2)]
    overwrite_binary_skel [OF sk(1) complete_not_Null [OF l(1)] sk(2) complete_not_Null [OF r(1)]]
  note vs = visit2_skel [OF sk(1) complete_not_Null [OF l(1)] sk(2) complete_not_Null [OF r(1)]]
  have ops': "operands_in (free pool) p1 [l', r']"
    using ops cs' by (simp add: operands_in_def)
  have compl: "complete l'" "complete r'" using same l(1) r(1) by simp_all
  define v where "v = libxsmm_meqn_exec_plan_visit_binary_node b f l' r' ts1 n p1"
  have vis: "visited f (b_dtype b) ts1 (binary_place b f l' r' n p1) v"
    using visit_binary [OF compl] by (simp add: v_def)
  have distinct: "\<not> is_arg l' \<Longrightarrow> \<not> is_arg r' \<Longrightarrow> loc l' \<noteq> loc r'"
    using planned_list_loc_distinct [OF pl] cs' un by (auto simp: visit2_def split: if_splits)
  have place: "takes_place (free pool) [l', r'] (length p1) (binary_place b f l' r' n p1)"
    by (rule binary_place_ok) (use ops' n1 distinct room binary_fits(2) [OF l(1, 2) r(1, 2), of b f] f(1) same in auto)
  let ?t' = "Elem (NODE_BINARY b) (fst v) l' r' Null"
  have "libxsmm_meqn_create_exec_plan ?t n (ts, pool) = (?t', fst (snd v), snd (snd v))"
    unfolding t by (simp add: plan_binary_def v_def case_prod_unfold Let_def)
  moreover have "planned ?t pool ?t' (snd (snd v))"
  proof (rule planned_node [OF pl, where i = "fst (binary_place b f l' r' n p1)" and own = "{}"])
    show "plan_ok ?t'" using ok un cs' by (simp add: vs)
    show "takes_place (free pool) cs' (length p1) (fst (binary_place b f l' r' n p1), snd (snd v)) \<or>
        fst (binary_place b f l' r' n p1) \<in> {} \<and> length (snd (snd v)) = length p1 \<and>
        free (snd (snd v)) = free pool - {fst (binary_place b f l' r' n p1)}"
      using place vis cs' by (simp add: visited_def takes_place_def)
  qed (use vis cs' l r f(2) sk in \<open>auto simp: visited_def skel_flds_eq\<close>)
  ultimately show "\<exists>t' ts' pool'. libxsmm_meqn_create_exec_plan ?t n (ts, pool) = (t', ts', pool') \<and> planned ?t pool t' pool'"
    by blast
qed

lemma pairwise_undisturbed_visit3:
  assumes "pairwise_undisturbed (visit3 l r q x y z)"
  shows "undisturbed x y \<or> undisturbed y x" and "undisturbed x z \<or> undisturbed z x" and "undisturbed y z \<or> undisturbed z y"
  using assms by (auto simp: visit3_def split: if_splits)

lemma plannable_ternary:
  assumes l: "complete l" "scored l" "args_ok l" "plannable n l"
    and r: "complete r" "scored r" "args_ok r" "plannable n r"
    and q: "complete q" "scored q" "args_ok q" "plannable n q"
    and apart: "apart l r" "apart l q" "apart r q"
    and f: "reg_score f = ternary_score t l r q" "tmp_dtype (tmp f) = t_dtype t"
    and fit: "operands_fit (reg_score f) (visit3 l r q l r q)"
  shows "plannable n (Elem (NODE_TERNARY t) f l r q)" (is "plannable n ?t")
  unfolding plannable_def
proof (intro allI impI)
  fix pool ts
  assume n: "nat n = length pool" and s: "score ?t \<le> int (card (free pool))"
  let ?cs = "visit3 l r q l r q"
  have cs: "c \<in> set ?cs \<Longrightarrow> plannable n c \<and> complete c \<and> args_ok c" for c using l r q by auto
  have fit': "operands_fit (score ?t) ?cs" using fit by simp
  have ap: "pairwise_apart ?cs"
    using apart apart_sym [of l r] apart_sym [of l q] apart_sym [of r q] by (auto simp: visit3_def)
  obtain cs' ts1 p1 where c: "plan_list n ?cs (ts, pool) = (cs', ts1, p1)" and pl: "planned_list ?cs pool cs' p1"
    and room: "1 \<le> score ?t - op_count ?cs \<longrightarrow> free p1 \<noteq> {}" and ops: "operands_in (free pool) p1 cs'"
    and un: "pairwise_undisturbed cs'" and ok: "\<forall>c' \<in> set cs'. plan_ok c'" and n1: "nat n = length p1"
    using plan_operands [OF cs ap fit' s n, where ts = ts] .
  obtain l' r' q' st where lr': "plan_list n ?cs (ts, pool) = (visit3 l r q l' r' q', st)"
    and "libxsmm_meqn_create_exec_plan ?t n (ts, pool) = plan_ternary t f l' r' q' n st"
    by (rule create_ternary)
  then have cs': "cs' = visit3 l r q l' r' q'"
    and t: "libxsmm_meqn_create_exec_plan ?t n (ts, pool) = plan_ternary t f l' r' q' n (ts1, p1)"
    using c by simp_all
  have sk: "skel l' = skel l" "skel r' = skel r" "skel q' = skel q" using planned_list_visit3 pl cs' by auto
  note nn = complete_not_Null [OF l(1)] complete_not_Null [OF r(1)] complete_not_Null [OF q(1)]
  note same = same_skel(1, 2) [OF sk(1)] same_skel(1, 2) [OF sk(2)] same_skel(1, 2) [OF sk(3)]
  note vs = visit3_skel [OF sk(1) nn(1) sk(2) nn(2) sk(3) nn(3)]
  have ops': "operands_in (free pool) p1 [l', r', q']"
    using ops cs' by (simp add: operands_in_def)
  have compl: "complete l'" "complete r'" "complete q'" using same l(1) r(1) q(1) by simp_all
  define v where "v = libxsmm_meqn_exec_plan_visit_ternary_node t f l' r' q' ts1 n p1"
  have vis: "visited f (t_dtype t) ts1 (ternary_place t l' r' q' n p1) v"
    using visit_ternary [OF compl] by (simp add: v_def)
  have un': "pairwise_undisturbed (visit3 l r q l' r' q')" using un cs' by simp
  have in_cs': "l' \<in> set cs'" "r' \<in> set cs'" "q' \<in> set cs'" using cs' by simp_all
  have distinct: "loc c' \<noteq> loc q'" if c': "c' = l' \<or> c' = r'" "\<not> is_arg c'" for c'
  proof (cases "is_arg q'")
    case False
    then show ?thesis
      using planned_list_loc_distinct [OF pl] in_cs' pairwise_undisturbed_visit3 [OF un'] c' by blast
  next
    case True
    have "loc q' \<notin> writes c'"
      using pairwise_undisturbed_visit3 [OF un'] c'(1) loc_arg [OF True] by (auto simp: undisturbed_def)
    then show ?thesis
      using planned_list_loc_writes [OF pl _ c'(2)] in_cs' c'(1) by auto
  qed
  let ?place = "ternary_place t l' r' q' n p1"
  have room': "free p1 \<noteq> {}" if "reserves t q'"
    using that ternary_room [of t q l r] room f(1) same by (auto simp: reserves_def)
  have place: "takes_place (free pool) [l', r', q'] (length p1) ?place \<or>
      in_place t \<and> is_arg q' \<and> fst ?place = loc q' \<and> length (snd ?place) = length p1 \<and> free (snd ?place) = free pool - {loc q'}"
    by (rule ternary_place_ok [OF ops' n1]) (use distinct room' in auto)
  let ?t' = "Elem (NODE_TERNARY t) (fst v) l' r' q'"
  have "libxsmm_meqn_create_exec_plan ?t n (ts, pool) = (?t', fst (snd v), snd (snd v))"
    unfolding t by (simp add: plan_ternary_def v_def case_prod_unfold Let_def)
  moreover have "planned ?t pool ?t' (snd (snd v))"
  proof (rule planned_node [OF pl, where i = "fst ?place" and own = "if in_place t \<and> is_arg q then {loc q} else {}"])
    show "plan_ok ?t'" using ok un cs' by (simp add: vs)
    have q': "is_arg q' = is_arg q" "is_arg q \<Longrightarrow> loc q' = loc q"
      using same_skel(1) [OF sk(3)] same_skel_arg_loc [OF sk(3)] by simp_all
    have v2: "snd (snd v) = snd ?place" using vis by (simp add: visited_def)
    have set_cs': "set cs' = set [l', r', q']" using cs' by simp
    show "takes_place (free pool) cs' (length p1) (fst ?place, snd (snd v)) \<or>
        fst ?place \<in> (if in_place t \<and> is_arg q then {loc q} else {}) \<and> length (snd (snd v)) = length p1 \<and>
        free (snd (snd v)) = free pool - {fst ?place}"
      using place
    proof (elim disjE conjE)
      assume "takes_place (free pool) [l', r', q'] (length p1) ?place"
      then show ?thesis unfolding takes_place_def v2 set_cs' fst_conv snd_conv by blast
    next
      assume "in_place t" "is_arg q'" "fst ?place = loc q'" "length (snd ?place) = length p1"
        "free (snd ?place) = free pool - {loc q'}"
      then show ?thesis using q' v2 by simp
    qed
    show "writes ?t' = insert (fst ?place) (\<Union> (writes ` set cs'))"
      using vis cs' by (simp add: visited_def Un_assoc)
    show "in_places ?t = \<Union> (in_places ` set ?cs) \<union> (if in_place t \<and> is_arg q then {loc q} else {})"
      by (simp add: Un_assoc)
    show "skel ?t' = skel ?t" using vis sk f(2) by (simp add: visited_def skel_flds_eq)
    show "loc ?t' = fst ?place" using vis by (simp add: visited_def)
    show "complete c \<and> args_ok c" if "c \<in> set ?cs" for c using cs [OF that] by simp
  qed simp
  ultimately show "\<exists>t' ts' pool'. libxsmm_meqn_create_exec_plan ?t n (ts, pool) = (t', ts', pool') \<and> planned ?t pool t' pool'"
    by blast
qed

lemma plannable_arg: "0 \<le> arg_in_pos a \<Longrightarrow> tmp_dtype (tmp f) = arg_dtype a \<Longrightarrow> plannable n (Elem (NODE_ARG a) f Null Null Null)"
  by (auto simp: plannable_def planned_def libxsmm_meqn_exec_plan_visit_arg_node_def skel_flds_eq dest: free_bounds)

lemma create_plans:
  assumes "complete t" and "typed t" and "scored t" and "args_ok t" and "ternaries_fit t"
  shows "plannable n t"
  using assms
proof (induction t rule: complete_induct)
  case (Arg a f)
  then show ?case by (simp add: plannable_arg)
next
  case (Unary u f l)
  then show ?case by (intro plannable_unary) auto
next
  case (Binary b f l r)
  then show ?case by (intro plannable_binary) auto
next
  case (Ternary t f l r q)
  then show ?case by (intro plannable_ternary) auto
qed

section \<open>What the passes leave alone\<close>

text \<open>The nodes of a tree without their fields.\<close>

definition no_flds :: meqn_fields where
  "no_flds = \<lparr>reg_score = 0, visit_timestamp = 0,
     tmp = \<lparr>tmp_id = 0, tmp_m = 0, tmp_n = 0, tmp_ld = 0, tmp_dtype = LIBXSMM_DATATYPE_UNSUPPORTED\<rparr>,
     max_tmp_size = 0, n_args = 0, tree_max_comp_tsize = 0\<rparr>"

fun bare :: "libxsmm_meqn_elem \<Rightarrow> libxsmm_meqn_elem" where
  "bare (Elem nd f l r q) = Elem nd no_flds (bare l) (bare r) (bare q)"
| "bare Null = Null"

lemma bare_Null [simp]: "bare t = Null \<longleftrightarrow> t = Null"
  by (cases t) auto

lemma is_arg_bare [simp]: "is_arg (bare t) = is_arg t"
  by (cases t rule: is_arg.cases) auto

lemma complete_bare [simp]: "complete (bare t) = complete t"
  by (induction t rule: complete.induct) auto

lemma eval_bare [simp]: "eval K m (bare t) = eval K m t"
  by (induction K m t rule: eval.induct) auto

lemma args_bare [simp]: "args (bare t) = args t"
  by (induction t rule: args.induct) auto

lemma in_places_bare [simp]: "in_places (bare t) = in_places t"
proof (induction t rule: in_places.induct)
  case (3 t f l r q)
  moreover have "is_arg q \<Longrightarrow> loc (bare q) = loc q"
    by (cases q rule: is_arg.cases) auto
  ultimately show ?case by auto
qed auto

lemma apart_bare [simp]: "apart (bare c) (bare d) = apart c d"
  by (simp add: apart_def)

lemma args_ok_bare [simp]: "args_ok (bare t) = args_ok t"
  by (induction t rule: args_ok.induct) auto

lemma bare_skel [simp]: "bare (skel t) = bare t"
  by (induction t) auto

lemma same_bare:
  assumes "bare t' = bare t"
  shows "is_arg t' = is_arg t" and "complete t' = complete t" and "eval K m t' = eval K m t"
    and "args t' = args t" and "in_places t' = in_places t" and "args_ok t' = args_ok t" and "(t' = Null) = (t = Null)"
proof -
  show "is_arg t' = is_arg t" using is_arg_bare [of t'] assms by simp
  show "complete t' = complete t" using complete_bare [of t'] assms by simp
  show "eval K m t' = eval K m t" using eval_bare [of K m t'] assms by simp
  show "args t' = args t" using args_bare [of t'] assms by simp
  show "in_places t' = in_places t" using in_places_bare [of t'] assms by simp
  show "args_ok t' = args_ok t" using args_ok_bare [of t'] assms by simp
  show "(t' = Null) = (t = Null)" using bare_Null [of t'] assms by simp
qed

lemma skel_bare: "skel t' = skel t \<Longrightarrow> bare t' = bare t"
  using bare_skel [of t'] by simp

text \<open>The propagation gives every node the element type of its operation; the scores are those of the code.\<close>

lemma propagate_typed:
  "complete t \<Longrightarrow> bare (libxsmm_meqn_propagate_tmp_info t) = bare t \<and> typed (libxsmm_meqn_propagate_tmp_info t)"
  by (induction t rule: complete_induct) (auto simp: set_dtype_def)

lemma score_update [simp]:
  "unary_score u (f\<lparr>reg_score := x\<rparr>) l = unary_score u f l"
  "binary_score b (f\<lparr>reg_score := x\<rparr>) l r = binary_score b f l r"
  by (simp_all add: unary_score_def binary_score_def libxsmm_meqn_can_overwrite_unary_input_def
      libxsmm_meqn_can_overwrite_binary_input_def)

lemma assign_reg_scores_scored:
  "complete t \<Longrightarrow> bare (libxsmm_meqn_assign_reg_scores t) = bare t \<and> scored (libxsmm_meqn_assign_reg_scores t) \<and>
    typed (libxsmm_meqn_assign_reg_scores t) = typed t"
  by (induction t rule: complete_induct) (auto simp: Let_def)

section \<open>Time stamps\<close>

abbreviation stamp_of :: "libxsmm_meqn_elem \<Rightarrow> int" where
  "stamp_of t \<equiv> visit_timestamp (flds t)"

definition stamped :: "libxsmm_meqn_elem \<Rightarrow> int \<Rightarrow> int \<Rightarrow> bool" where
  "stamped t a b \<longleftrightarrow> a \<le> b \<and> map stamp_of (sched t) = [a..b - 1]"

lemma upto_append: "a \<le> b \<Longrightarrow> b \<le> c \<Longrightarrow> [a..b - 1] @ [b..c - 1] = [a..c - (1::int)]"
  using upto_split1 [of a b "c - 1"] by (cases "b = c") auto

fun stamped_list :: "libxsmm_meqn_elem list \<Rightarrow> int \<Rightarrow> int \<Rightarrow> bool" where
  "stamped_list [] a b \<longleftrightarrow> a = b"
| "stamped_list (c # cs) a b \<longleftrightarrow> (\<exists>m. stamped c a m \<and> stamped_list cs m b)"

lemma stamped_list_concat:
  "stamped_list cs a b \<Longrightarrow> a \<le> b \<and> map stamp_of (concat (map sched cs)) = [a..b - 1]"
proof (induction cs arbitrary: a)
  case (Cons c cs)
  then obtain m where "stamped c a m" "stamped_list cs m b" by auto
  then show ?case using Cons.IH [of m] upto_append [of a m b] by (auto simp: stamped_def)
qed simp

lemma stamped_node:
  assumes "stamped_list cs a b" and "sched t = concat (map sched cs) @ [t]" and "stamp_of t = b"
  shows "stamped t a (b + 1)"
  using stamped_list_concat [OF assms(1)] assms(2, 3) upto_append [of a b "b + 1"] by (auto simp: stamped_def)

text \<open>What every pass through the operands keeps: nodes, scores, and an unbroken numbering.\<close>

definition numbers :: "int \<Rightarrow> libxsmm_meqn_elem \<Rightarrow> bool" where
  "numbers n t \<longleftrightarrow> (\<forall>st. let (t', st') = libxsmm_meqn_create_exec_plan t n st
    in bare t' = bare t \<and> score t' = score t \<and> stamped t' (fst st) (fst st'))"

lemma numbersD:
  assumes "numbers n t" and "libxsmm_meqn_create_exec_plan t n st = (t', st')"
  shows "bare t' = bare t" and "score t' = score t" and "stamped t' (fst st) (fst st')"
proof -
  have "case libxsmm_meqn_create_exec_plan t n st of (t', st') \<Rightarrow>
      bare t' = bare t \<and> score t' = score t \<and> stamped t' (fst st) (fst st')"
    using assms(1) by (auto simp only: numbers_def Let_def)
  then show "bare t' = bare t" and "score t' = score t" and "stamped t' (fst st) (fst st')"
    unfolding assms(2) by simp_all
qed

lemma plan_list_numbers:
  assumes "\<And>c. c \<in> set cs \<Longrightarrow> numbers n c" and "plan_list n cs st = (cs', st')"
  shows "map bare cs' = map bare cs \<and> map (\<lambda>c. score c) cs' = map (\<lambda>c. score c) cs \<and> stamped_list cs' (fst st) (fst st')"
  using assms
proof (induction cs arbitrary: st cs' st')
  case (Cons c cs)
  obtain c1 st1 where c1: "libxsmm_meqn_create_exec_plan c n st = (c1, st1)" by (rule prod.exhaust)
  obtain cs1 st2 where cs1: "plan_list n cs st1 = (cs1, st2)" by (rule prod.exhaust)
  have "bare c1 = bare c \<and> score c1 = score c \<and> stamped c1 (fst st) (fst st1)"
    using numbersD [OF Cons.prems(1) c1] by simp
  moreover have "map bare cs1 = map bare cs \<and> map (\<lambda>c. score c) cs1 = map (\<lambda>c. score c) cs \<and> stamped_list cs1 (fst st1) (fst st2)"
    using Cons.IH [OF _ cs1] Cons.prems(1) by simp
  moreover have "cs' = c1 # cs1" "st' = st2" using Cons.prems(2) c1 cs1 by simp_all
  ultimately show ?case by auto
qed simp

lemma visit2_score: "score l' = score l \<Longrightarrow> score r' = score r \<Longrightarrow> visit2 l' r' x y = visit2 l r x y"
  by (simp add: visit2_def)

lemma visit3_score:
  "score l' = score l \<Longrightarrow> score r' = score r \<Longrightarrow> score q' = score q \<Longrightarrow> visit3 l' r' q' x y z = visit3 l r q x y z"
  by (simp add: visit3_def)

lemma visit2_inj: "visit2 l r x y = visit2 l r x' y' \<longleftrightarrow> x = x' \<and> y = y'"
  by (auto simp: visit2_def)

lemma visit3_inj: "visit3 l r q x y z = visit3 l r q x' y' z' \<longleftrightarrow> x = x' \<and> y = y' \<and> z = z'"
  by (auto simp: visit3_def)

lemma create_numbers: "complete t \<Longrightarrow> numbers n t"
proof (induction t rule: complete_induct)
  case (Arg a f)
  then show ?case
    by (simp add: numbers_def stamped_def libxsmm_meqn_exec_plan_visit_arg_node_def)
next
  case (Unary u f l)
  show ?case unfolding numbers_def
  proof
    fix st
    obtain l' st' where l': "libxsmm_meqn_create_exec_plan l n st = (l', st')" by (rule prod.exhaust)
    then have c: "bare l' = bare l" "stamped_list [l'] (fst st) (fst st')"
      using numbersD [OF Unary(2) l'] by auto
    have "visited f (u_dtype u) (fst st') (unary_place u f l' n (snd st'))
        (libxsmm_meqn_exec_plan_visit_unary_node u f l' (fst st') n (snd st'))"
      using visit_unary same_bare(2) [OF c(1)] Unary(1) by blast
    then show "let (t', st') = libxsmm_meqn_create_exec_plan (Elem (NODE_UNARY u) f l Null Null) n st
        in bare t' = bare (Elem (NODE_UNARY u) f l Null Null) \<and> score t' = score (Elem (NODE_UNARY u) f l Null Null) \<and>
          stamped t' (fst st) (fst st')"
      using l' c(1) stamped_node [OF c(2)] by (simp add: plan_unary_def case_prod_unfold Let_def visited_def)
  qed
next
  case (Binary b f l r)
  show ?case unfolding numbers_def
  proof
    fix st
    let ?t = "Elem (NODE_BINARY b) f l r Null"
    obtain l' r' st' where p: "plan_list n (visit2 l r l r) st = (visit2 l r l' r', st')"
      and t: "libxsmm_meqn_create_exec_plan ?t n st = plan_binary b f l' r' Null n st'"
      by (rule create_binary)
    have "c \<in> set (visit2 l r l r) \<Longrightarrow> numbers n c" for c using Binary by auto
    from plan_list_numbers [OF this p] have c: "bare l' = bare l" "bare r' = bare r" "score l' = score l" "score r' = score r"
      "stamped_list (visit2 l r l' r') (fst st) (fst st')"
      by (simp_all add: map_visit2 visit2_inj)
    have "visited f (b_dtype b) (fst st') (binary_place b f l' r' n (snd st'))
        (libxsmm_meqn_exec_plan_visit_binary_node b f l' r' (fst st') n (snd st'))"
      using visit_binary same_bare(2) [OF c(1)] same_bare(2) [OF c(2)] Binary(1, 2) by blast
    then show "let (t', st') = libxsmm_meqn_create_exec_plan ?t n st
        in bare t' = bare ?t \<and> score t' = score ?t \<and> stamped t' (fst st) (fst st')"
      unfolding t using c(1, 2) stamped_node [OF c(5)]
      by (simp add: plan_binary_def case_prod_unfold Let_def visited_def visit2_score [OF c(3, 4)] map_visit2)
  qed
next
  case (Ternary t f l r q)
  show ?case unfolding numbers_def
  proof
    fix st
    let ?t = "Elem (NODE_TERNARY t) f l r q"
    obtain l' r' q' st' where p: "plan_list n (visit3 l r q l r q) st = (visit3 l r q l' r' q', st')"
      and t: "libxsmm_meqn_create_exec_plan ?t n st = plan_ternary t f l' r' q' n st'"
      by (rule create_ternary)
    have "c \<in> set (visit3 l r q l r q) \<Longrightarrow> numbers n c" for c using Ternary by auto
    from plan_list_numbers [OF this p] have c: "bare l' = bare l" "bare r' = bare r" "bare q' = bare q"
      "score l' = score l" "score r' = score r" "score q' = score q"
      "stamped_list (visit3 l r q l' r' q') (fst st) (fst st')"
      by (simp_all add: map_visit3 visit3_inj)
    have "visited f (t_dtype t) (fst st') (ternary_place t l' r' q' n (snd st'))
        (libxsmm_meqn_exec_plan_visit_ternary_node t f l' r' q' (fst st') n (snd st'))"
      using visit_ternary same_bare(2) [OF c(1)] same_bare(2) [OF c(2)] same_bare(2) [OF c(3)] Ternary(1-3) by blast
    then show "let (t', st') = libxsmm_meqn_create_exec_plan ?t n st
        in bare t' = bare ?t \<and> score t' = score ?t \<and> stamped t' (fst st) (fst st')"
      unfolding t using c(1-3) stamped_node [OF c(7)]
      by (simp add: plan_ternary_def case_prod_unfold Let_def visited_def visit3_score [OF c(4-6)] map_visit3)
  qed
qed

end
