(* ===== verification/Matrix_Eqn_Correct.thy ===== *)
theory Matrix_Eqn_Correct
  imports Matrix_Eqn_Plan
begin

text \<open>
  The whole optimisation of an equation, \<open>libxsmm_meqn_opt_exec_plan\<close>, against the machine of \<open>Matrix_Eqn_Plan\<close>:
  the passes after the plan (sizes, broadcast operands) keep it free of conflicts and the time stamps name its operations
  in order, so that running the optimised plan computes the expression.
\<close>

section \<open>The sizes of the temporaries\<close>

lemma adjust_flds [simp]:
  "tmp_id (tmp (adjust_unary u f l)) = tmp_id (tmp f)" "reg_score (adjust_unary u f l) = reg_score f"
  "tmp_dtype (tmp (adjust_unary u f l)) = tmp_dtype (tmp f)" "visit_timestamp (adjust_unary u f l) = visit_timestamp f"
  "tmp_id (tmp (adjust_binary b f l r)) = tmp_id (tmp f)" "reg_score (adjust_binary b f l r) = reg_score f"
  "tmp_dtype (tmp (adjust_binary b f l r)) = tmp_dtype (tmp f)" "visit_timestamp (adjust_binary b f l r) = visit_timestamp f"
  "tmp_id (tmp (adjust_ternary t f l r q)) = tmp_id (tmp f)" "reg_score (adjust_ternary t f l r q) = reg_score f"
  "tmp_dtype (tmp (adjust_ternary t f l r q)) = tmp_dtype (tmp f)" "visit_timestamp (adjust_ternary t f l r q) = visit_timestamp f"
  by (simp_all add: adjust_unary_def adjust_binary_def adjust_ternary_def set_dims_def Let_def)

text \<open>Two trees that agree on everything the machine sees.\<close>

definition same_plan :: "libxsmm_meqn_elem \<Rightarrow> libxsmm_meqn_elem \<Rightarrow> bool" where
  "same_plan t' t \<longleftrightarrow> skel t' = skel t \<and> loc t' = loc t \<and> writes t' = writes t \<and> args t' = args t \<and>
    score t' = score t \<and> plan_ok t' = plan_ok t \<and> stamp_of t' = stamp_of t \<and>
    map stamp_of (sched t') = map stamp_of (sched t)"

lemma same_plan_undisturbed: "same_plan c' c \<Longrightarrow> same_plan d' d \<Longrightarrow> undisturbed c' d' = undisturbed c d"
  by (simp add: same_plan_def undisturbed_def)

lemma same_plan_binary:
  assumes l: "same_plan l' l" and r: "same_plan r' r"
    and f: "tmp_id (tmp f') = tmp_id (tmp f)" "skel_flds f' = skel_flds f" "visit_timestamp f' = visit_timestamp f"
  shows "same_plan (Elem (NODE_BINARY b) f' l' r' Null) (Elem (NODE_BINARY b) f l r Null)"
proof -
  have s: "score l' = score l" "score r' = score r" using l r by (simp_all add: same_plan_def)
  have "pairwise_undisturbed (visit2 l r l' r') = pairwise_undisturbed (visit2 l r l r)"
    using same_plan_undisturbed [OF l r] same_plan_undisturbed [OF r l] by (simp add: visit2_def)
  then show ?thesis
    using l r f by (simp add: same_plan_def skel_flds_eq visit2_score [OF s] map_visit2 map_concat)
qed

lemma same_plan_ternary:
  assumes l: "same_plan l' l" and r: "same_plan r' r" and q: "same_plan q' q"
    and f: "tmp_id (tmp f') = tmp_id (tmp f)" "skel_flds f' = skel_flds f" "visit_timestamp f' = visit_timestamp f"
  shows "same_plan (Elem (NODE_TERNARY t) f' l' r' q') (Elem (NODE_TERNARY t) f l r q)"
proof -
  have s: "score l' = score l" "score r' = score r" "score q' = score q" using l r q by (simp_all add: same_plan_def)
  have "pairwise_undisturbed (visit3 l r q l' r' q') = pairwise_undisturbed (visit3 l r q l r q)"
    using same_plan_undisturbed [OF l r] same_plan_undisturbed [OF r l] same_plan_undisturbed [OF l q]
      same_plan_undisturbed [OF q l] same_plan_undisturbed [OF r q] same_plan_undisturbed [OF q r]
    by (simp add: visit3_def)
  then show ?thesis
    using l r q f by (simp add: same_plan_def skel_flds_eq visit3_score [OF s] map_visit3 map_concat)
qed

lemma adjust_same_plan: "complete t \<Longrightarrow> same_plan (libxsmm_meqn_adjust_tmp_sizes t) t"
proof (induction t rule: complete_induct)
  case (Arg a f)
  then show ?case by (simp add: same_plan_def)
next
  case (Unary u f l)
  then show ?case by (simp add: same_plan_def skel_flds_eq Let_def)
next
  case (Binary b f l r)
  then show ?case by (simp add: same_plan_binary skel_flds_eq Let_def)
next
  case (Ternary t f l r q)
  then show ?case by (simp add: same_plan_ternary skel_flds_eq Let_def)
qed

section \<open>Temporaries of broadcast operands\<close>

text \<open>
  \<open>moved B N t t'\<close>: \<open>t'\<close> is \<open>t\<close> with some operations moved to new temporaries, all in \<open>N\<close>, which lies above the bound
  \<open>B\<close> of the old ones.
\<close>

definition moved :: "int set \<Rightarrow> libxsmm_meqn_elem \<Rightarrow> libxsmm_meqn_elem \<Rightarrow> bool" where
  "moved N t t' \<longleftrightarrow> skel t' = skel t \<and> writes t' \<subseteq> writes t \<union> N \<and> (loc t' = loc t \<or> loc t' \<in> N) \<and>
    (plan_ok t \<longrightarrow> plan_ok t') \<and> stamp_of t' = stamp_of t \<and> map stamp_of (sched t') = map stamp_of (sched t)"

definition below :: "int \<Rightarrow> libxsmm_meqn_elem \<Rightarrow> bool" where
  "below B t \<longleftrightarrow> complete t \<and> writes t \<subseteq> {..<B} \<and> loc t < B \<and> args t \<subseteq> {..<B}"

lemma moved_undisturbed:
  assumes "moved N c c'" and "moved M d d'" and "below B c" and "below B d"
    and "N \<subseteq> {B..}" and "M \<subseteq> {B..}" and "N \<inter> M = {}" and "undisturbed c d"
  shows "undisturbed c' d'"
proof -
  have "args d' = args d" using assms(2) same_skel(4) [of d' d] by (simp add: moved_def)
  moreover have "loc c' \<notin> writes d'"
  proof
    assume w: "loc c' \<in> writes d'"
    then have "loc c' \<in> writes d \<union> M" using assms(2) by (auto simp: moved_def)
    moreover have "x \<in> writes d \<Longrightarrow> x < B" for x using assms(4) by (auto simp: below_def)
    moreover have "loc c' = loc c \<and> loc c' < B \<or> loc c' \<in> N" using assms(1, 3) by (auto simp: moved_def below_def)
    ultimately show False using assms(5-8) by (fastforce simp: undisturbed_def)
  qed
  moreover have "args d \<inter> writes c' = {}"
  proof -
    have "x \<in> args d \<Longrightarrow> x < B" for x using assms(4) by (auto simp: below_def)
    then have "args d \<inter> N = {}" using assms(5) by fastforce
    then show ?thesis using assms(1, 8) by (auto simp: moved_def undisturbed_def)
  qed
  ultimately show ?thesis by (simp add: undisturbed_def)
qed

fun inner :: "libxsmm_meqn_elem \<Rightarrow> int set" where
  "inner (Elem (NODE_UNARY u) f l r q) = writes l"
| "inner (Elem (NODE_BINARY b) f l r q) = writes l \<union> writes r"
| "inner (Elem (NODE_TERNARY t) f l r q) = writes l \<union> writes r \<union> writes q"
| "inner _ = {}"

lemma inner_arg [simp]: "is_arg t \<Longrightarrow> inner t = {}"
  by (cases t rule: is_arg.cases) auto

lemma writes_inner: "complete t \<Longrightarrow> writes t = (if is_arg t then {} else insert (loc t) (inner t))"
  by (cases t rule: complete.cases) auto

text \<open>A reassignment below a node leaves the node itself where it is.\<close>

definition renumbered :: "int set \<Rightarrow> libxsmm_meqn_elem \<Rightarrow> libxsmm_meqn_elem \<Rightarrow> bool" where
  "renumbered N t t' \<longleftrightarrow> skel t' = skel t \<and> inner t' \<subseteq> inner t \<union> N \<and> loc t' = loc t \<and>
    (plan_ok t \<longrightarrow> plan_ok t') \<and> stamp_of t' = stamp_of t \<and> map stamp_of (sched t') = map stamp_of (sched t)"

lemma set_tmp_id_simps:
  assumes "complete t"
  shows "skel (set_tmp_id k t) = skel t" and "inner (set_tmp_id k t) = inner t" and "plan_ok (set_tmp_id k t) = plan_ok t"
    and "stamp_of (set_tmp_id k t) = stamp_of t" and "map stamp_of (sched (set_tmp_id k t)) = map stamp_of (sched t)"
    and "\<not> is_arg t \<Longrightarrow> loc (set_tmp_id k t) = k"
  using assms by (cases t rule: complete.cases; simp add: skel_flds_eq)+

lemma reassign_set_tmp_id:
  "complete t \<Longrightarrow> libxsmm_meqn_reassign_children_bcast_tmp (set_tmp_id j t) k =
    (let (t', k') = libxsmm_meqn_reassign_children_bcast_tmp t k in (set_tmp_id j t', k'))"
  by (cases t rule: complete.cases) (simp_all add: Let_def case_prod_unfold)

lemma renumbered_moved:
  assumes "renumbered N t t'" and "complete t"
  shows "moved N t t'" and "\<not> is_arg t \<Longrightarrow> moved (insert j N) t (set_tmp_id j t')"
proof -
  have sk: "skel t' = skel t" using assms(1) by (simp add: renumbered_def)
  have t': "complete t'" "is_arg t' = is_arg t" using same_skel [OF sk] assms(2) by simp_all
  have s: "complete (set_tmp_id j t')" "is_arg (set_tmp_id j t') = is_arg t'"
    using same_skel(1, 2) [OF set_tmp_id_simps(1) [OF t'(1)]] t' by simp_all
  show "moved N t t'"
    using assms t' writes_inner [OF assms(2)] writes_inner [OF t'(1)] by (auto simp: moved_def renumbered_def)
  show "\<not> is_arg t \<Longrightarrow> moved (insert j N) t (set_tmp_id j t')"
    using assms t' s writes_inner [OF assms(2)] writes_inner [OF s(1)] set_tmp_id_simps [OF t'(1)]
    by (auto simp: moved_def renumbered_def)
qed

text \<open>One operand: first it may move itself, later what is below it is reassigned.\<close>

lemma moved_operand:
  assumes IH: "\<And>k. B \<le> k \<Longrightarrow> \<exists>t' k'. libxsmm_meqn_reassign_children_bcast_tmp t k = (t', k') \<and> k \<le> k' \<and> renumbered {k..<k'} t t'"
    and t: "complete t" and first: "bcast_child bt (t, k) = (t1, k1)" "B \<le> k"
    and second: "B \<le> k2" "libxsmm_meqn_reassign_children_bcast_tmp t1 k2 = (t', k3)"
  shows "k \<le> k1" and "k2 \<le> k3" and "moved ({k..<k1} \<union> {k2..<k3}) t t'"
proof -
  obtain t2 k3' where t2: "libxsmm_meqn_reassign_children_bcast_tmp t k2 = (t2, k3')" "k2 \<le> k3'" "renumbered {k2..<k3'} t t2"
    using IH [OF second(1)] by blast
  have *: "k \<le> k1 \<and> k2 \<le> k3 \<and> moved ({k..<k1} \<union> {k2..<k3}) t t'"
  proof (cases "\<not> is_arg t \<and> bt \<noteq> LIBXSMM_MATRIX_EQN_BCAST_TYPE_NONE")
    case True
    then have "t1 = set_tmp_id k t" "k1 = k + 1" using first(1) by (auto simp: bcast_child_def)
    moreover from this have "t' = set_tmp_id k t2" "k3 = k3'"
      using second(2) reassign_set_tmp_id [OF t, of k k2] t2(1) by simp_all
    moreover have "{k..<k + 1} = {k}" by auto
    ultimately show ?thesis using renumbered_moved(2) [OF t2(3) t] True t2(2) by simp
  next
    case False
    then have "t1 = t" "k1 = k" using first(1) by (auto simp: bcast_child_def split: if_splits)
    then show ?thesis using renumbered_moved(1) [OF t2(3) t] second(2) t2 by simp
  qed
  show "k \<le> k1" and "k2 \<le> k3" and "moved ({k..<k1} \<union> {k2..<k3}) t t'" using * by simp_all
qed

lemma bcast_child_mono: "bcast_child bt (t, k) = (t1, k1) \<Longrightarrow> k \<le> k1"
  by (auto simp: bcast_child_def split: if_splits)

lemma below_operand:
  assumes "complete c" and "args_ok c" and "writes c \<subseteq> {..<B}" and "0 \<le> B"
  shows "below B c"
proof -
  have "args c \<subseteq> {..<B}" using args_negative [OF assms(1, 2)] assms(4) by force
  moreover have "loc c \<in> args c \<union> writes c"
    using writes_inner [OF assms(1)] loc_arg [of c] by auto
  ultimately show ?thesis using assms by (auto simp: below_def)
qed

lemma below_inner: "below B c \<Longrightarrow> inner c \<subseteq> {..<B}"
  using writes_inner [of c] by (cases c rule: complete.cases) (auto simp: below_def)

lemma renumbered_binary:
  assumes l: "moved N l l'" and r: "moved M r r'" and b: "below B l" "below B r"
    and sets: "N \<union> M \<subseteq> S" "S \<subseteq> {B..}" "N \<inter> M = {}"
  shows "renumbered S (Elem (NODE_BINARY b) f l r Null) (Elem (NODE_BINARY b) f l' r' Null)"
proof -
  have sk: "skel l' = skel l" "skel r' = skel r" using l r by (simp_all add: moved_def)
  have nn: "l \<noteq> Null" "r \<noteq> Null" using b by (auto simp: below_def)
  note vs = visit2_skel [OF sk(1) nn(1) sk(2) nn(2)]
  have NM: "N \<subseteq> {B..}" "M \<subseteq> {B..}" "M \<inter> N = {}" using sets by auto
  have "undisturbed l r \<Longrightarrow> undisturbed l' r'" "undisturbed r l \<Longrightarrow> undisturbed r' l'"
    using moved_undisturbed [OF l r b NM(1, 2) sets(3)] moved_undisturbed [OF r l b(2, 1) NM(2, 1, 3)] by simp_all
  then have "pairwise_undisturbed (visit2 l r l r) \<Longrightarrow> pairwise_undisturbed (visit2 l r l' r')"
    by (auto simp: visit2_def)
  moreover have "writes l' \<union> writes r' \<subseteq> writes l \<union> writes r \<union> S" using l r sets(1) by (auto simp: moved_def)
  ultimately show ?thesis
    using l r by (simp add: renumbered_def moved_def vs map_visit2 map_concat)
qed

lemma renumbered_ternary:
  assumes l: "moved N l l'" and r: "moved M r r'" and q: "moved Q q q'" and b: "below B l" "below B r" "below B q"
    and sets: "N \<union> M \<union> Q \<subseteq> S" "S \<subseteq> {B..}" "N \<inter> M = {}" "N \<inter> Q = {}" "M \<inter> Q = {}"
  shows "renumbered S (Elem (NODE_TERNARY t) f l r q) (Elem (NODE_TERNARY t) f l' r' q')"
proof -
  have sk: "skel l' = skel l" "skel r' = skel r" "skel q' = skel q" using l r q by (simp_all add: moved_def)
  have nn: "l \<noteq> Null" "r \<noteq> Null" "q \<noteq> Null" using b by (auto simp: below_def)
  note vs = visit3_skel [OF sk(1) nn(1) sk(2) nn(2) sk(3) nn(3)]
  have NM: "N \<subseteq> {B..}" "M \<subseteq> {B..}" "Q \<subseteq> {B..}" "M \<inter> N = {}" "Q \<inter> N = {}" "Q \<inter> M = {}" using sets by auto
  have "undisturbed l r \<Longrightarrow> undisturbed l' r'" "undisturbed r l \<Longrightarrow> undisturbed r' l'"
    "undisturbed l q \<Longrightarrow> undisturbed l' q'" "undisturbed q l \<Longrightarrow> undisturbed q' l'"
    "undisturbed r q \<Longrightarrow> undisturbed r' q'" "undisturbed q r \<Longrightarrow> undisturbed q' r'"
    using moved_undisturbed [OF l r b(1, 2) NM(1, 2) sets(3)] moved_undisturbed [OF r l b(2, 1) NM(2, 1, 4)]
      moved_undisturbed [OF l q b(1, 3) NM(1, 3) sets(4)] moved_undisturbed [OF q l b(3, 1) NM(3, 1, 5)]
      moved_undisturbed [OF r q b(2, 3) NM(2, 3) sets(5)] moved_undisturbed [OF q r b(3, 2) NM(3, 2, 6)] by simp_all
  then have "pairwise_undisturbed (visit3 l r q l r q) \<Longrightarrow> pairwise_undisturbed (visit3 l r q l' r' q')"
    by (auto simp: visit3_def)
  moreover have "writes l' \<union> writes r' \<union> writes q' \<subseteq> writes l \<union> writes r \<union> writes q \<union> S"
    using l r q sets(1) by (auto simp: moved_def)
  ultimately show ?thesis
    using l r q by (simp add: renumbered_def moved_def vs map_visit3 map_concat)
qed

lemma reassign_renumbers:
  assumes "complete t" and "args_ok t" and "inner t \<subseteq> {..<B}" and "0 \<le> B" and "B \<le> k"
  shows "\<exists>t' k'. libxsmm_meqn_reassign_children_bcast_tmp t k = (t', k') \<and> k \<le> k' \<and> renumbered {k..<k'} t t'"
  using assms
proof (induction t arbitrary: k rule: complete_induct)
  case (Arg a f)
  then show ?case by (simp add: renumbered_def)
next
  case (Unary u f l)
  have inl: "inner l \<subseteq> {..<B}" using Unary.prems(2) writes_inner [OF Unary.hyps] by (auto split: if_splits)
  have IH: "B \<le> j \<Longrightarrow> \<exists>t' k'. libxsmm_meqn_reassign_children_bcast_tmp l j = (t', k') \<and> j \<le> k' \<and> renumbered {j..<k'} l t'" for j
    using Unary.IH [of j] Unary.prems inl by simp
  obtain l1 k1 where l1: "bcast_child (libxsmm_meqn_get_bcast_type_unary (u_flags u)) (l, k) = (l1, k1)" by (rule prod.exhaust)
  obtain l2 k2 where l2: "libxsmm_meqn_reassign_children_bcast_tmp l1 k1 = (l2, k2)" by (rule prod.exhaust)
  have "k \<le> k1" using l1 by (auto simp: bcast_child_def split: if_splits)
  then have m: "k1 \<le> k2" "moved ({k..<k1} \<union> {k1..<k2}) l l2"
    using moved_operand [OF IH Unary.hyps l1 Unary.prems(4) _ l2] Unary.prems(4) by simp_all
  moreover have "{k..<k1} \<union> {k1..<k2} = {k..<k2}" using \<open>k \<le> k1\<close> m(1) by auto
  ultimately have "renumbered {k..<k2} (Elem (NODE_UNARY u) f l Null Null) (Elem (NODE_UNARY u) f l2 Null Null)"
    by (auto simp: renumbered_def moved_def)
  then show ?case using l1 l2 \<open>k \<le> k1\<close> m(1) by simp
next
  case (Binary b f l r)
  have bl: "below B l" and br: "below B r"
    using below_operand Binary.hyps Binary.prems(1-3) by simp_all
  have inl: "inner l \<subseteq> {..<B}" "inner r \<subseteq> {..<B}" using below_inner [OF bl] below_inner [OF br] by simp_all
  have IHl: "B \<le> j \<Longrightarrow> \<exists>t' k'. libxsmm_meqn_reassign_children_bcast_tmp l j = (t', k') \<and> j \<le> k' \<and> renumbered {j..<k'} l t'"
    and IHr: "B \<le> j \<Longrightarrow> \<exists>t' k'. libxsmm_meqn_reassign_children_bcast_tmp r j = (t', k') \<and> j \<le> k' \<and> renumbered {j..<k'} r t'" for j
    using Binary.IH [of j] Binary.prems inl by simp_all
  obtain l1 k1 where l1: "bcast_child (libxsmm_meqn_get_bcast_type_binary (b_flags b) LEFT) (l, k) = (l1, k1)" by (rule prod.exhaust)
  obtain r1 k2 where r1: "bcast_child (libxsmm_meqn_get_bcast_type_binary (b_flags b) RIGHT) (r, k1) = (r1, k2)" by (rule prod.exhaust)
  obtain l3 k3 where l3: "libxsmm_meqn_reassign_children_bcast_tmp l1 k2 = (l3, k3)" by (rule prod.exhaust)
  obtain r3 k4 where r3: "libxsmm_meqn_reassign_children_bcast_tmp r1 k3 = (r3, k4)" by (rule prod.exhaust)
  have k: "B \<le> k" "k \<le> k1" "k1 \<le> k2" using l1 r1 Binary.prems(4) bcast_child_mono by simp_all
  have ml: "k2 \<le> k3" "moved ({k..<k1} \<union> {k2..<k3}) l l3"
    using moved_operand [OF IHl Binary.hyps(1) l1 _ _ l3] k by simp_all
  have mr: "k3 \<le> k4" "moved ({k1..<k2} \<union> {k3..<k4}) r r3"
    using moved_operand [OF IHr Binary.hyps(2) r1 _ _ r3] k ml(1) by simp_all
  have "renumbered {k..<k4} (Elem (NODE_BINARY b) f l r Null) (Elem (NODE_BINARY b) f l3 r3 Null)"
    by (rule renumbered_binary [OF ml(2) mr(2) bl br]) (use k ml(1) mr(1) in auto)
  then show ?case using l1 r1 l3 r3 k ml(1) mr(1) by simp
next
  case (Ternary t f l r q)
  have bl: "below B l" and br: "below B r" and bq: "below B q"
    using below_operand Ternary.hyps Ternary.prems(1-3) by simp_all
  have inl: "inner l \<subseteq> {..<B}" "inner r \<subseteq> {..<B}" "inner q \<subseteq> {..<B}"
    using below_inner [OF bl] below_inner [OF br] below_inner [OF bq] by simp_all
  have IHl: "B \<le> j \<Longrightarrow> \<exists>t' k'. libxsmm_meqn_reassign_children_bcast_tmp l j = (t', k') \<and> j \<le> k' \<and> renumbered {j..<k'} l t'"
    and IHr: "B \<le> j \<Longrightarrow> \<exists>t' k'. libxsmm_meqn_reassign_children_bcast_tmp r j = (t', k') \<and> j \<le> k' \<and> renumbered {j..<k'} r t'"
    and IHq: "B \<le> j \<Longrightarrow> \<exists>t' k'. libxsmm_meqn_reassign_children_bcast_tmp q j = (t', k') \<and> j \<le> k' \<and> renumbered {j..<k'} q t'" for j
    using Ternary.IH [of j] Ternary.prems inl by simp_all
  obtain l1 k1 where l1: "bcast_child (libxsmm_meqn_get_bcast_type_ternary (t_flags t) LEFT) (l, k) = (l1, k1)" by (rule prod.exhaust)
  obtain r1 k2 where r1: "bcast_child (libxsmm_meqn_get_bcast_type_ternary (t_flags t) RIGHT) (r, k1) = (r1, k2)" by (rule prod.exhaust)
  obtain q1 k3 where q1: "bcast_child (libxsmm_meqn_get_bcast_type_ternary (t_flags t) RIGHT2) (q, k2) = (q1, k3)" by (rule prod.exhaust)
  obtain l4 k4 where l4: "libxsmm_meqn_reassign_children_bcast_tmp l1 k3 = (l4, k4)" by (rule prod.exhaust)
  obtain r4 k5 where r4: "libxsmm_meqn_reassign_children_bcast_tmp r1 k4 = (r4, k5)" by (rule prod.exhaust)
  obtain q4 k6 where q4: "libxsmm_meqn_reassign_children_bcast_tmp q1 k5 = (q4, k6)" by (rule prod.exhaust)
  have k: "B \<le> k" "k \<le> k1" "k1 \<le> k2" "k2 \<le> k3" using l1 r1 q1 Ternary.prems(4) bcast_child_mono by simp_all
  have ml: "k3 \<le> k4" "moved ({k..<k1} \<union> {k3..<k4}) l l4"
    using moved_operand [OF IHl Ternary.hyps(1) l1 _ _ l4] k by simp_all
  have mr: "k4 \<le> k5" "moved ({k1..<k2} \<union> {k4..<k5}) r r4"
    using moved_operand [OF IHr Ternary.hyps(2) r1 _ _ r4] k ml(1) by simp_all
  have mq: "k5 \<le> k6" "moved ({k2..<k3} \<union> {k5..<k6}) q q4"
    using moved_operand [OF IHq Ternary.hyps(3) q1 _ _ q4] k ml(1) mr(1) by simp_all
  have "renumbered {k..<k6} (Elem (NODE_TERNARY t) f l r q) (Elem (NODE_TERNARY t) f l4 r4 q4)"
    by (rule renumbered_ternary [OF ml(2) mr(2) mq(2) bl br bq]) (use k ml(1) mr(1) mq(1) in auto)
  then show ?case using l1 r1 q1 l4 r4 q4 k ml(1) mr(1) mq(1) by simp
qed

text \<open>The pass at the root: the root keeps its place and its new score counts the temporaries.\<close>

lemma reassign_root:
  assumes "complete t" and "\<not> is_arg t" and "args_ok t" and "inner t \<subseteq> {..<score t}" and "0 \<le> score t" and "plan_ok t"
  shows "let t' = libxsmm_meqn_reassign_bcast_tmp t
    in complete t' \<and> plan_ok t' \<and> bare t' = bare t \<and> loc t' = loc t \<and> score t \<le> score t' \<and>
      writes t' \<subseteq> writes t \<union> {score t..<score t'} \<and> stamp_of t' = stamp_of t \<and>
      map stamp_of (sched t') = map stamp_of (sched t)"
proof -
  obtain nd f l r q where t: "t = Elem nd f l r q" using assms(1) by (cases t) auto
  let ?R = "libxsmm_meqn_reassign_children_bcast_tmp"
  note R = reassign_renumbers [where B = "score t", OF _ _ _ assms(5)]
  have root: ?thesis if e: "libxsmm_meqn_reassign_bcast_tmp t = Elem nd (f\<lparr>reg_score := k\<rparr>) l' r' q'"
    and n: "renumbered {score t..<k} t (Elem nd f l' r' q')" "score t \<le> k" for l' r' q' k
  proof -
    let ?e = "Elem nd f l' r' q'" and ?t' = "Elem nd (f\<lparr>reg_score := k\<rparr>) l' r' q'"
    have "complete ?e" "is_arg ?e = is_arg t" "bare ?e = bare t"
      using same_skel [of ?e t] skel_bare [of ?e t] n(1) assms(1) by (simp_all add: renumbered_def)
    moreover have "complete ?t' = complete ?e" "plan_ok ?t' = plan_ok ?e" "bare ?t' = bare ?e" "loc ?t' = loc ?e"
      "writes ?t' = writes ?e" "stamp_of ?t' = stamp_of ?e" "map stamp_of (sched ?t') = map stamp_of (sched ?e)"
      by (cases nd; simp)+
    moreover have "writes ?e \<subseteq> writes t \<union> {score t..<k}"
      using n(1) writes_inner [OF \<open>complete ?e\<close>] writes_inner [OF assms(1)] calculation(2) assms(2)
      by (auto simp: renumbered_def)
    ultimately show ?thesis using e n assms(6) by (simp add: renumbered_def Let_def)
  qed
  have c: "complete c \<Longrightarrow> args_ok c \<Longrightarrow> writes c \<subseteq> {..<score t} \<Longrightarrow> inner c \<subseteq> {..<score t}" for c
    using below_inner below_operand assms(5) by blast
  show ?thesis
  proof (cases nd)
    case (NODE_UNARY u)
    have ch: "complete l" "args_ok l" "inner l \<subseteq> {..<score t}" "r = Null" "q = Null"
      using assms(1, 3, 4) c t NODE_UNARY by auto
    obtain l' k where l': "?R l (score t) = (l', k)" "score t \<le> k" "renumbered {score t..<k} l l'"
      using R [of l "score t"] ch by auto
    then have "renumbered {score t..<k} t (Elem nd f l' Null Null)"
      using renumbered_moved(1) [OF l'(3) ch(1)] ch t NODE_UNARY by (auto simp: renumbered_def moved_def)
    then show ?thesis
      using l' ch t NODE_UNARY by (intro root [where k = k]) (auto simp: libxsmm_meqn_reassign_bcast_tmp_def)
  next
    case (NODE_BINARY b)
    have ch: "complete l" "args_ok l" "writes l \<subseteq> {..<score t}" "complete r" "args_ok r" "writes r \<subseteq> {..<score t}" "q = Null"
      using assms(1, 3, 4) t NODE_BINARY by auto
    obtain l' k1 where l': "?R l (score t) = (l', k1)" "score t \<le> k1" "renumbered {score t..<k1} l l'"
      using R [of l "score t"] ch c by auto
    obtain r' k2 where r': "?R r k1 = (r', k2)" "k1 \<le> k2" "renumbered {k1..<k2} r r'"
      using R [of r k1] ch c l'(2) by auto
    have "renumbered {score t..<k2} (Elem (NODE_BINARY b) f l r Null) (Elem (NODE_BINARY b) f l' r' Null)"
      by (rule renumbered_binary [OF renumbered_moved(1) [OF l'(3) ch(1)] renumbered_moved(1) [OF r'(3) ch(4)]
            below_operand [OF ch(1-3) assms(5)] below_operand [OF ch(4-6) assms(5)]]) (use l'(2) r'(2) in auto)
    then show ?thesis
      using l' r' ch t NODE_BINARY by (intro root [where k = k2]) (auto simp: libxsmm_meqn_reassign_bcast_tmp_def)
  next
    case (NODE_TERNARY p)
    have ch: "complete l" "args_ok l" "writes l \<subseteq> {..<score t}" "complete r" "args_ok r" "writes r \<subseteq> {..<score t}"
      "complete q" "args_ok q" "writes q \<subseteq> {..<score t}"
      using assms(1, 3, 4) t NODE_TERNARY by auto
    obtain l' k1 where l': "?R l (score t) = (l', k1)" "score t \<le> k1" "renumbered {score t..<k1} l l'"
      using R [of l "score t"] ch c by auto
    obtain r' k2 where r': "?R r k1 = (r', k2)" "k1 \<le> k2" "renumbered {k1..<k2} r r'"
      using R [of r k1] ch c l'(2) by auto
    obtain q' k3 where q': "?R q k2 = (q', k3)" "k2 \<le> k3" "renumbered {k2..<k3} q q'"
      using R [of q k2] ch c l'(2) r'(2) by auto
    have "renumbered {score t..<k3} (Elem (NODE_TERNARY p) f l r q) (Elem (NODE_TERNARY p) f l' r' q')"
      by (rule renumbered_ternary [OF renumbered_moved(1) [OF l'(3) ch(1)] renumbered_moved(1) [OF r'(3) ch(4)]
            renumbered_moved(1) [OF q'(3) ch(7)]
            below_operand [OF ch(1-3) assms(5)] below_operand [OF ch(4-6) assms(5)] below_operand [OF ch(7-9) assms(5)]])
        (use l'(2) r'(2) q'(2) in auto)
    then show ?thesis
      using l' r' q' ch t NODE_TERNARY by (intro root [where k = k3]) (auto simp: libxsmm_meqn_reassign_bcast_tmp_def)
  qed (use assms(1, 2) t in auto)
qed

section \<open>The walk over the time stamps\<close>

lemma sched_not_Null: "n \<in> set (sched t) \<Longrightarrow> n \<noteq> Null"
  by (induction t rule: sched.induct) auto

lemma sched_root: "complete t \<Longrightarrow> \<not> is_arg t \<Longrightarrow> \<exists>ns. sched t = ns @ [t]"
  by (cases t rule: complete.cases) auto

lemma find_op_None:
  "complete t \<Longrightarrow> ts \<notin> stamp_of ` set (sched t) \<Longrightarrow> libxsmm_generator_matequation_find_op_at_timestamp t ts = Null"
  by (induction t rule: complete_induct) (auto simp: Let_def)

lemma distinct_visit2:
  "distinct (concat (visit2 l r xs ys)) \<longleftrightarrow> distinct xs \<and> distinct ys \<and> set xs \<inter> set ys = {}"
  by (auto simp: visit2_def)

lemma distinct_visit3:
  "distinct (concat (visit3 l r q xs ys zs)) \<longleftrightarrow> distinct xs \<and> distinct ys \<and> distinct zs \<and>
    set xs \<inter> set ys = {} \<and> set xs \<inter> set zs = {} \<and> set ys \<inter> set zs = {}"
  by (auto simp: visit3_def)

lemma find_op:
  assumes "complete t" and "distinct (map stamp_of (sched t))" and "n \<in> set (sched t)"
  shows "libxsmm_generator_matequation_find_op_at_timestamp t (stamp_of n) = n"
  using assms
proof (induction t rule: complete_induct)
  case (Arg a f)
  then show ?case by simp
next
  case (Unary u f l)
  then show ?case by (auto dest: image_eqI)
next
  case (Binary b f l r)
  have d: "distinct (map stamp_of (sched l))" "distinct (map stamp_of (sched r))"
    "stamp_of ` set (sched l) \<inter> stamp_of ` set (sched r) = {}"
    using Binary.prems(1) by (simp_all add: map_concat map_visit2 distinct_visit2)
  have top: "visit_timestamp f \<notin> stamp_of ` set (sched l) \<union> stamp_of ` set (sched r)"
    using Binary.prems(1) by (auto simp: image_iff)
  consider "n = Elem (NODE_BINARY b) f l r Null" | "n \<in> set (sched l)" | "n \<in> set (sched r)"
    using Binary.prems(2) by auto
  then show ?case
  proof cases
    case 2
    then show ?thesis using Binary.IH(1) d(1) top sched_not_Null [OF 2] by (auto simp: Let_def)
  next
    case 3
    then have "stamp_of n \<notin> stamp_of ` set (sched l)" using d(3) by blast
    then show ?thesis using 3 Binary.IH(2) d(2) top find_op_None [OF Binary.hyps(1)] by (auto simp: Let_def)
  qed simp
next
  case (Ternary t f l r q)
  have d: "distinct (map stamp_of (sched l))" "distinct (map stamp_of (sched r))" "distinct (map stamp_of (sched q))"
    "stamp_of ` set (sched l) \<inter> stamp_of ` set (sched r) = {}" "stamp_of ` set (sched l) \<inter> stamp_of ` set (sched q) = {}"
    "stamp_of ` set (sched r) \<inter> stamp_of ` set (sched q) = {}"
    using Ternary.prems(1) by (simp_all add: map_concat map_visit3 distinct_visit3)
  have top: "visit_timestamp f \<notin> stamp_of ` set (sched l) \<union> stamp_of ` set (sched r) \<union> stamp_of ` set (sched q)"
    using Ternary.prems(1) by (auto simp: image_iff)
  consider "n = Elem (NODE_TERNARY t) f l r q" | "n \<in> set (sched l)" | "n \<in> set (sched r)" | "n \<in> set (sched q)"
    using Ternary.prems(2) by auto
  then show ?case
  proof cases
    case 2
    then show ?thesis using Ternary.IH(1) d(1) top sched_not_Null [OF 2] by (auto simp: Let_def)
  next
    case 3
    then have "stamp_of n \<notin> stamp_of ` set (sched l)" using d(4) by blast
    then show ?thesis
      using 3 Ternary.IH(2) d(2) top find_op_None [OF Ternary.hyps(1)] sched_not_Null [OF 3] by (auto simp: Let_def)
  next
    case 4
    then have "stamp_of n \<notin> stamp_of ` set (sched l)" "stamp_of n \<notin> stamp_of ` set (sched r)" using d(5, 6) by blast+
    then show ?thesis
      using 4 Ternary.IH(3) d(3) top find_op_None [OF Ternary.hyps(1)] find_op_None [OF Ternary.hyps(2)] by (auto simp: Let_def)
  qed simp
qed

lemma run_plan_sched:
  assumes "complete t" and "\<not> is_arg t" and "map stamp_of (sched t) = [0..b - 1]"
  shows "run_plan K t m = fold (exec_op K) (sched t) m"
proof -
  obtain ns where ns: "sched t = ns @ [t]" using sched_root [OF assms(1, 2)] by blast
  have "[0..b - 1] \<noteq> []" using assms(3) ns by auto
  then have "0 \<le> b - 1" by simp
  then have "last [0..b - 1] = b - 1" by (simp add: upto_rec2)
  then have "stamp_of t = b - 1" using ns assms(3) by (metis last_map last_snoc snoc_eq_iff_butlast)
  moreover have "distinct (map stamp_of (sched t))" using assms(3) by simp
  then have "fold (\<lambda>ts. exec_op K (libxsmm_generator_matequation_find_op_at_timestamp t ts)) (map stamp_of (sched t)) m =
      fold (exec_op K) (sched t) m"
    using find_op [OF assms(1)] by (auto simp: fold_map intro!: fold_cong)
  ultimately show ?thesis by (simp add: run_plan_def assms(3))
qed

section \<open>The optimised equation\<close>

text \<open>The planned tree before the broadcast operands move: conflict-free, numbered in order, within its score.\<close>

lemma plan_tree_ok:
  assumes "complete t" and "typed t" and "scored t" and "args_ok t" and "ternaries_fit t" and "\<not> is_arg t"
  shows "let t' = plan_tree t in complete t' \<and> bare t' = bare t \<and> skel t' = skel t \<and> plan_ok t' \<and>
    (\<exists>b. map stamp_of (sched t') = [0..b - 1]) \<and> writes t' \<subseteq> {0..<score t} \<union> in_places t \<and> score t' = score t"
proof -
  let ?pool = "replicate (nat (score t)) (0::int)"
  have pos: "0 \<le> score t" using score_nonneg assms(1, 3) by simp
  have "nat (score t) = length ?pool" and "score t \<le> int (card (free ?pool))"
    using pos by (simp_all add: free_replicate)
  then obtain t1 ts1 p1 where t1: "libxsmm_meqn_create_exec_plan t (score t) (0, ?pool) = (t1, ts1, p1)" "planned t ?pool t1 p1"
    using plannableD [OF create_plans [OF assms(1-5)]] by blast
  have st: "stamped t1 0 ts1"
    using numbersD(3) [OF create_numbers [OF assms(1)] t1(1)] by simp
  have sk: "skel t1 = skel t" and ok: "plan_ok t1" and w: "writes t1 \<subseteq> {0..<score t} \<union> in_places t"
    using plannedD [OF t1(2)] pos by (simp_all add: free_replicate)
  have c1: "complete t1" using same_skel(2) [OF sk] assms(1) by simp
  have a: "same_plan (libxsmm_meqn_adjust_tmp_sizes t1) t1" by (rule adjust_same_plan [OF c1])
  have sk2: "skel (libxsmm_meqn_adjust_tmp_sizes t1) = skel t" using a sk by (simp add: same_plan_def)
  have "plan_tree t = libxsmm_meqn_adjust_tmp_sizes t1"
    using t1(1) by (simp add: plan_tree_def Let_def)
  moreover have "score t1 = score t" using same_skel_flds(1) [OF sk] complete_not_Null [OF assms(1)] by simp
  ultimately show ?thesis
    using a ok st w sk2 same_skel(2) [OF sk2] skel_bare [OF sk2] assms(1)
    by (auto simp: same_plan_def stamped_def Let_def)
qed

text \<open>All that the optimisation needs of an equation: it is complete, and its scored tree fits.\<close>

definition scored_tree :: "libxsmm_meqn_elem \<Rightarrow> libxsmm_meqn_elem" where
  "scored_tree t = libxsmm_meqn_assign_reg_scores (libxsmm_meqn_propagate_tmp_info t)"

definition optimizable :: "libxsmm_meqn_elem \<Rightarrow> bool" where
  "optimizable t \<longleftrightarrow> complete t \<and> \<not> is_arg t \<and> args_ok t \<and> ternaries_fit (scored_tree t)"

lemma scored_tree_ok:
  assumes "complete t"
  shows "bare (scored_tree t) = bare t" and "typed (scored_tree t)" and "scored (scored_tree t)" and "complete (scored_tree t)"
proof -
  let ?p = "libxsmm_meqn_propagate_tmp_info t"
  have p: "bare ?p = bare t" "typed ?p" using propagate_typed [OF assms] by simp_all
  have "complete ?p" using same_bare(2) [OF p(1)] assms by simp
  then have s: "bare (scored_tree t) = bare ?p" "scored (scored_tree t)" "typed (scored_tree t) = typed ?p"
    using assign_reg_scores_scored by (simp_all add: scored_tree_def)
  show "bare (scored_tree t) = bare t" using s(1) p(1) by simp
  then show "complete (scored_tree t)" using same_bare(2) [of "scored_tree t" t] assms by simp
  show "typed (scored_tree t)" "scored (scored_tree t)" using s p by simp_all
qed

lemma optimized_root:
  assumes "optimizable (eqn_root eqn)"
  defines "t \<equiv> eqn_root eqn" and "root \<equiv> eqn_root (libxsmm_meqn_opt_exec_plan True eqn)"
  shows "complete root \<and> plan_ok root \<and> bare root = bare t \<and> (\<exists>b. map stamp_of (sched root) = [0..b - 1]) \<and>
    writes root \<subseteq> {0..<score root} \<union> in_places t \<and> 1 \<le> score root"
proof -
  let ?s = "scored_tree t"
  have t: "complete t" "\<not> is_arg t" "args_ok t" "ternaries_fit ?s"
    using assms(1) by (simp_all add: optimizable_def t_def)
  note s = scored_tree_ok [OF t(1)]
  have sb: "\<not> is_arg ?s" "args_ok ?s" "in_places ?s = in_places t"
    using same_bare(1, 5, 6) [OF s(1)] t by simp_all
  define p where "p = plan_tree ?s"
  have p: "complete p" "bare p = bare t" "plan_ok p" "\<exists>b. map stamp_of (sched p) = [0..b - 1]"
    "writes p \<subseteq> {0..<score p} \<union> in_places t" "score p = score ?s"
    using plan_tree_ok [OF s(4, 2, 3) sb(2) t(4) sb(1)] s(1) sb(3) by (simp_all add: p_def Let_def)
  have pb: "\<not> is_arg p" "args_ok p" using same_bare(1, 6) [OF p(2)] t by simp_all
  have pos: "1 \<le> score p" using score_op [OF s(4, 3) sb(1)] p(6) by simp
  have "in_places t \<subseteq> {..<0}"
    using in_places_args [OF t(1)] args_negative [OF t(1, 3)] by auto
  then have "writes p \<subseteq> {..<score p}" using p(5) pos by fastforce
  then have inn: "inner p \<subseteq> {..<score p}" using writes_inner [OF p(1)] pb(1) by auto
  have r: "root = libxsmm_meqn_reassign_bcast_tmp p"
    by (simp add: root_def libxsmm_meqn_opt_exec_plan_def Let_def p_def scored_tree_def t_def)
  have rr: "complete root" "plan_ok root" "bare root = bare p" "score p \<le> score root"
    "writes root \<subseteq> writes p \<union> {score p..<score root}" "map stamp_of (sched root) = map stamp_of (sched p)"
    using reassign_root [OF p(1) pb(1, 2) inn _ p(3)] pos r by (simp_all add: Let_def)
  have "{0..<score p} \<subseteq> {0..<score root}" "{score p..<score root} \<subseteq> {0..<score root}"
    using rr(4) pos by auto
  then have "writes root \<subseteq> {0..<score root} \<union> in_places t"
    using rr(5) p(5) by blast
  then show ?thesis
    using rr p(2, 4) pos by simp
qed

text \<open>
  C39: The plan of an equation is right. Whatever the operations mean and whatever the input matrices hold, walking over
  the time stamps of the optimised tree, each operation reading its operands' places and writing its own, leaves
  the value of the expression in the place of the root. No temporary outside \<open>0, ..., reg_score - 1\<close> of the root is
  touched, and no input matrix but those a matrix multiplication overwrites in place. It holds for every
  complete tree with an operation at its root whose argument positions are not negative, which overwrites no matrix that
  another operand reads, and whose ternary operations fit their register score.
\<close>

theorem optimized_plan_computes:
  assumes "optimizable (eqn_root eqn)"
  shows "let root = eqn_root (libxsmm_meqn_opt_exec_plan True eqn); m' = run_plan K root m
    in m' (loc root) = eval K m (eqn_root eqn) \<and>
      (\<forall>x. m' x \<noteq> m x \<longrightarrow> 0 \<le> x \<and> x < score root \<or> x \<in> in_places (eqn_root eqn))"
proof -
  define root where "root = eqn_root (libxsmm_meqn_opt_exec_plan True eqn)"
  have r: "complete root" "plan_ok root" "bare root = bare (eqn_root eqn)" "\<exists>b. map stamp_of (sched root) = [0..b - 1]"
    "writes root \<subseteq> {0..<score root} \<union> in_places (eqn_root eqn)"
    using optimized_root [OF assms] by (simp_all add: root_def)
  have "\<not> is_arg root" using same_bare(1) [OF r(3)] assms by (simp add: optimizable_def)
  then have run: "run_plan K root m = fold (exec_op K) (sched root) m"
    using run_plan_sched [OF r(1)] r(4) by blast
  have c: "computes K root" by (rule plan_computes [OF r(1, 2)])
  have "run_plan K root m (loc root) = eval K m (eqn_root eqn)"
    using computesD(1) [OF c] same_bare(3) [OF r(3)] run by simp
  moreover have "run_plan K root m x \<noteq> m x \<Longrightarrow> 0 \<le> x \<and> x < score root \<or> x \<in> in_places (eqn_root eqn)" for x
  proof -
    assume "run_plan K root m x \<noteq> m x"
    then have "x \<in> writes root" using computesD(2) [OF c, of x m] run by auto
    then have "x \<in> {0..<score root} \<union> in_places (eqn_root eqn)" using r(5) by blast
    then show ?thesis by simp
  qed
  ultimately show ?thesis by (auto simp: root_def [symmetric] Let_def)
qed

text \<open>An instance: the sum of a product of two matrices and a broadcast negation, added to a third matrix.\<close>

definition demo_flds :: meqn_fields where
  "demo_flds = \<lparr>reg_score = 7, visit_timestamp = 7,
     tmp = \<lparr>tmp_id = 77, tmp_m = 0, tmp_n = 0, tmp_ld = 0, tmp_dtype = LIBXSMM_DATATYPE_I8\<rparr>,
     max_tmp_size = 0, n_args = 0, tree_max_comp_tsize = 0\<rparr>"

definition demo_arg :: "int \<Rightarrow> libxsmm_meqn_elem" where
  "demo_arg p = Elem (NODE_ARG \<lparr>arg_m = 4, arg_n = 4, arg_ld = 4, arg_in_pos = p, arg_dtype = LIBXSMM_DATATYPE_F32,
     arg_attr = \<lparr>arg_type = LIBXSMM_MATRIX_ARG_TYPE_SINGULAR, arg_set_type = LIBXSMM_MATRIX_ARG_SET_TYPE_NONE,
       set_cardinality_hint = 0, set_stride_hint = 0\<rparr>\<rparr>) demo_flds Null Null Null"

definition demo_unary :: "u32 \<Rightarrow> u32 \<Rightarrow> libxsmm_meqn_elem \<Rightarrow> libxsmm_meqn_elem" where
  "demo_unary type flags l = Elem (NODE_UNARY \<lparr>u_type = type, u_flags = flags, u_dtype = LIBXSMM_DATATYPE_F32, u_op_arg_pos = 0\<rparr>)
     demo_flds l Null Null"

definition demo_binary :: "u32 \<Rightarrow> u32 \<Rightarrow> libxsmm_meqn_elem \<Rightarrow> libxsmm_meqn_elem \<Rightarrow> libxsmm_meqn_elem" where
  "demo_binary type flags l r = Elem (NODE_BINARY \<lparr>b_type = type, b_flags = flags, b_dtype = LIBXSMM_DATATYPE_F32,
     b_op_arg_pos = 0, b_is_matmul = binary_is_matmul type, b_is_brgemm = binary_is_brgemm type\<rparr>) demo_flds l r Null"

definition demo_ternary :: "u32 \<Rightarrow> u32 \<Rightarrow> libxsmm_meqn_elem \<Rightarrow> libxsmm_meqn_elem \<Rightarrow> libxsmm_meqn_elem \<Rightarrow> libxsmm_meqn_elem" where
  "demo_ternary type flags l r q = Elem (NODE_TERNARY \<lparr>t_type = type, t_flags = flags, t_dtype = LIBXSMM_DATATYPE_F32,
     t_op_arg_pos = 0, t_is_matmul = ternary_is_matmul type, t_is_brgemm = ternary_is_brgemm type\<rparr>) demo_flds l r q"

text \<open>Operation types by number: 1 and 2 the sum and the product, 6 the matrix product, 13 the negation, 4 the column broadcast.\<close>

definition demo_tree :: libxsmm_meqn_elem where
  "demo_tree = demo_ternary 1 0
     (demo_binary 1 0 (demo_binary 6 0 (demo_arg 0) (demo_arg 1)) (demo_unary 13 4 (demo_binary 2 0 (demo_arg 2) (demo_arg 0))))
     (demo_unary 13 0 (demo_arg 3)) (demo_arg 2)"

definition demo_eqn :: libxsmm_matrix_eqn where
  "demo_eqn = \<lparr>eqn_root = demo_tree, eqn_cur = Some [], is_constructed = 1, is_optimized = 0, unary_only = 0, binary_only = 0\<rparr>"

definition demo_ops :: "int meqn_ops" where
  "demo_ops = \<lparr>unary_fun = \<lambda>u x. - x, binary_fun = \<lambda>b x y. if b_type b = 1 then x + y else x * y,
     ternary_fun = \<lambda>t x y z. x * y + z\<rparr>"

lemmas demo_defs = demo_eqn_def demo_tree_def demo_ternary_def demo_binary_def demo_unary_def demo_arg_def

lemma demo_optimizable: "optimizable (eqn_root demo_eqn)"
  by code_simp

lemma demo_value: "eval demo_ops (\<lambda>x. - x) (eqn_root demo_eqn) = 7"
  by (simp add: demo_defs demo_ops_def)

lemma optimized_plan_computes_witness:
  "optimizable (eqn_root demo_eqn) \<and>
    (let root = eqn_root (libxsmm_meqn_opt_exec_plan True demo_eqn) in run_plan demo_ops root (\<lambda>x. - x) (loc root) = 7)"
  using optimized_plan_computes [OF demo_optimizable, of demo_ops "\<lambda>x. - x"] demo_optimizable demo_value
  by (simp add: Let_def)

text \<open>
  Three operands with two temporaries each do not fit the score 3 that the code gives a ternary operation which writes
  its third operand: the plan runs out of temporaries and gives an operation the number -1. The generators read that
  number as the input matrix at position 0.
\<close>

definition exhausting_tree :: libxsmm_meqn_elem where
  "exhausting_tree =
    (let s = demo_binary 1 0 (demo_binary 1 0 (demo_arg 0) (demo_arg 1)) (demo_binary 1 0 (demo_arg 2) (demo_arg 3))
     in demo_ternary 1 LIBXSMM_MELTW_FLAG_TERNARY_REUSE_IN_2_AS_OUT s s s)"

lemma ternary_plan_exhausts:
  "complete exhausting_tree"
  "\<not> ternaries_fit (scored_tree exhausting_tree)"
  "loc (elem_at (eqn_root (libxsmm_meqn_opt_exec_plan True (demo_eqn\<lparr>eqn_root := exhausting_tree\<rparr>))) [RIGHT2, RIGHT]) =
    loc (demo_arg 0)"
  by code_simp+


end
