(* ===== verification/Matrix_Eqn_Build.thy ===== *)
theory Matrix_Eqn_Build
  imports Matrix_Eqn_Correct
begin

text \<open>
  The construction of an equation: \<open>libxsmm_meqn_create\<close> followed by one push per node in prefix order builds the tree,
  every push returns 0, and the last one, no earlier, seals the equation and optimises it. Together with the
  plan of \<open>Matrix_Eqn_Correct\<close>: what is pushed is what the equation computes.
\<close>

section \<open>Positions in a tree\<close>

lemma elem_at_append: "elem_at t (p @ p') = elem_at (elem_at t p) p'"
proof (induction t p rule: elem_at.induct)
  case (5 d p)
  show ?case by (cases p') auto
qed auto

lemma set_at_append: "elem_at t p \<noteq> Null \<Longrightarrow> set_at t (p @ p') e = set_at t p (set_at (elem_at t p) p' e)"
  by (induction t p e rule: set_at.induct) auto

lemma elem_at_set_at [simp]: "elem_at t p \<noteq> Null \<Longrightarrow> elem_at (set_at t p e) p = e"
  by (induction t p e rule: set_at.induct) auto

lemma set_at_set_at [simp]: "set_at (set_at t p e) p e' = set_at t p e'"
  by (induction t p e rule: set_at.induct) auto

section \<open>Growing a tree\<close>

text \<open>One push on the tree and its head, without the seal: the new tree and where the head comes to stand.\<close>

definition grow1 :: "meqn_fields \<times> libxsmm_meqn_info \<Rightarrow> libxsmm_meqn_elem \<times> side list
    \<Rightarrow> libxsmm_meqn_elem \<times> (meqn_error + side list option)" where
  "grow1 = (\<lambda>(f, nd) (root, c).
    (let (root', cur) = libxsmm_meqn_add_node f root c nd
     in (root', case cur of None \<Rightarrow> Inl NULL_DEREFERENCE | Some c' \<Rightarrow> libxsmm_meqn_trv_head root' c')))"

text \<open>Several pushes; each but the last must leave the head at a node.\<close>

fun grow :: "(meqn_fields \<times> libxsmm_meqn_info) list \<Rightarrow> libxsmm_meqn_elem \<times> side list
    \<Rightarrow> (libxsmm_meqn_elem \<times> (meqn_error + side list option)) option" where
  "grow [] s = None"
| "grow [x] s = Some (grow1 x s)"
| "grow (x # xs) s = (case grow1 x s of (root, Inr (Some c)) \<Rightarrow> grow xs (root, c) | _ \<Rightarrow> None)"

lemma grow_Cons: "grow1 x s = (root, Inr (Some c)) \<Longrightarrow> xs \<noteq> [] \<Longrightarrow> grow (x # xs) s = grow xs (root, c)"
  by (cases xs) auto

lemma grow_append: "grow xs s = Some (root, Inr (Some c)) \<Longrightarrow> ys \<noteq> [] \<Longrightarrow> grow (xs @ ys) s = grow ys (root, c)"
proof (induction xs s rule: grow.induct)
  case (2 x s)
  then show ?case by (simp add: grow_Cons)
next
  case (3 x y xs s)
  obtain r o1 where g: "grow1 x s = (r, o1)" by (rule prod.exhaust)
  then obtain c1 where "o1 = Inr (Some c1)"
    using 3(2) by (auto split: sum.splits option.splits)
  then show ?case using 3 g by simp
qed simp

text \<open>The side of the next operand of an operation, in the order \<open>le\<close>, \<open>ri\<close>, \<open>r2\<close>.\<close>

fun next_side :: "libxsmm_meqn_elem \<Rightarrow> side option" where
  "next_side (Elem (NODE_UNARY u) f l r q) = (if l = Null then Some LEFT else None)"
| "next_side (Elem (NODE_BINARY b) f l r q) =
    (if l = Null then Some LEFT else if r = Null then Some RIGHT else None)"
| "next_side (Elem (NODE_TERNARY t) f l r q) =
    (if l = Null then Some LEFT else if r = Null then Some RIGHT else if q = Null then Some RIGHT2 else None)"
| "next_side _ = None"

lemma add_node_side:
  assumes "next_side (node_at root c) = Some d"
  shows "libxsmm_meqn_add_node f root c nd = (set_at root (rev (d # c)) (Elem nd f Null Null Null), Some (d # c))"
  using assms
  by (cases "node_at root c" rule: next_side.cases)
    (auto simp: libxsmm_meqn_add_node_def set_at_append Let_def split: if_splits)

lemma wants_child_next_side: "wants_child t \<longleftrightarrow> next_side t \<noteq> None"
  by (cases t rule: wants_child.cases) auto

lemma trv_head_stay:
  assumes "next_side (node_at root c) = Some d"
  shows "libxsmm_meqn_trv_head root c = Inr (Some c)"
proof (cases c)
  case Nil
  then show ?thesis using assms by (cases root rule: next_side.cases) auto
next
  case (Cons e up)
  have "wants_child (node_at root (e # up))" using assms Cons wants_child_next_side by simp
  then show ?thesis
    using Cons by (cases "node_at root (e # up)" rule: wants_child.cases) (auto split: if_splits)
qed

lemma complete_no_side: "complete t \<Longrightarrow> next_side t = None"
  by (cases t rule: complete.cases) auto

lemma trv_head_up:
  assumes "complete (node_at root (d # up))"
  shows "libxsmm_meqn_trv_head root (d # up) = libxsmm_meqn_trv_head root up"
proof -
  have "\<not> wants_child (node_at root (d # up))"
    using complete_no_side [OF assms] wants_child_next_side by simp
  then show ?thesis
    using assms by (cases "node_at root (d # up)" rule: complete.cases) (auto split: if_splits)
qed

text \<open>The nodes of a tree in prefix order, each with the fields that its memory holds.\<close>

fun nodes :: "libxsmm_meqn_elem \<Rightarrow> (meqn_fields \<times> libxsmm_meqn_info) list" where
  "nodes (Elem nd f l r q) = (f, nd) # nodes l @ nodes r @ nodes q"
| "nodes Null = []"

lemma nodes_not_Nil [simp]: "nodes t = [] \<longleftrightarrow> t = Null"
  by (cases t) auto

text \<open>Pushing the nodes of a complete tree puts it at the next free place of the head.\<close>

definition grows :: "libxsmm_meqn_elem \<Rightarrow> bool" where
  "grows t \<longleftrightarrow> (\<forall>root c d. next_side (node_at root c) = Some d \<longrightarrow>
    (let root' = set_at root (rev (d # c)) t
     in grow (nodes t) (root, c) = Some (root', libxsmm_meqn_trv_head root' (d # c))))"

lemma growsD:
  "grows t \<Longrightarrow> next_side (node_at root c) = Some d \<Longrightarrow>
    grow (nodes t) (root, c) =
      Some (set_at root (rev c @ [d]) t, libxsmm_meqn_trv_head (set_at root (rev c @ [d]) t) (d # c))"
  by (simp add: grows_def Let_def)

lemma next_side_not_Null: "next_side t = Some d \<Longrightarrow> t \<noteq> Null"
  by (cases t) auto

text \<open>An operand pushed below the node at \<open>c\<close>, which stands at the head: the tree with the operand, the head at its side.\<close>

lemma grow_child:
  assumes t: "grows t" "complete t" and at: "elem_at root (rev c) \<noteq> Null" and d: "next_side e = Some d"
  shows "grow (nodes t) (set_at root (rev c) e, c) =
    Some (set_at root (rev c) (set_at e [d] t), libxsmm_meqn_trv_head (set_at root (rev c) (set_at e [d] t)) c)"
proof -
  have e: "e \<noteq> Null" using next_side_not_Null d by auto
  have n: "next_side (node_at (set_at root (rev c) e) c) = Some d" using at d by simp
  have s: "set_at (set_at root (rev c) e) (rev c @ [d]) t = set_at root (rev c) (set_at e [d] t)"
    using at e by (simp add: set_at_append)
  have "elem_at (set_at e [d] t) [d] = t"
    using e d by (cases e; cases d) auto
  then have "node_at (set_at root (rev c) (set_at e [d] t)) (d # c) = t"
    using at by (simp add: elem_at_append)
  then show ?thesis
    using growsD [OF t(1) n] trv_head_up [of "set_at root (rev c) (set_at e [d] t)" d c] t(2) by (simp add: s)
qed

lemma grow_child_then:
  assumes t: "grows t" "complete t" and at: "elem_at root (rev c) \<noteq> Null" and d: "next_side e = Some d"
    and d': "next_side (set_at e [d] t) = Some d'" and ys: "ys \<noteq> []"
  shows "grow (nodes t @ ys) (set_at root (rev c) e, c) = grow ys (set_at root (rev c) (set_at e [d] t), c)"
proof -
  have "libxsmm_meqn_trv_head (set_at root (rev c) (set_at e [d] t)) c = Inr (Some c)"
    by (rule trv_head_stay [where d = d']) (use at d' in simp)
  then show ?thesis using grow_child [OF t at d] grow_append [OF _ ys] by simp
qed

text \<open>The operands of an operation whose node has just been put at \<open>c\<close>.\<close>

lemma grow_operands:
  assumes e: "e = Elem nd f Null Null Null" "\<not> is_arg_info nd" and at: "elem_at root (rev c) \<noteq> Null"
    and t: "complete (Elem nd f l r q)" "\<And>x. x \<in> {l, r, q} \<Longrightarrow> x \<noteq> Null \<Longrightarrow> grows x"
  shows "grow (nodes l @ nodes r @ nodes q) (set_at root (rev c) e, c) =
    Some (set_at root (rev c) (Elem nd f l r q), libxsmm_meqn_trv_head (set_at root (rev c) (Elem nd f l r q)) c)"
proof (cases nd)
  case (NODE_UNARY u)
  then show ?thesis using grow_child [of l root c e LEFT] assms by simp
next
  case (NODE_BINARY b)
  then show ?thesis
    using grow_child_then [of l root c e LEFT RIGHT "nodes r"] grow_child [of r root c "Elem nd f l Null Null" RIGHT] assms
    by simp
next
  case (NODE_TERNARY p)
  then show ?thesis
    using grow_child_then [of l root c e LEFT RIGHT "nodes r @ nodes q"]
      grow_child_then [of r root c "Elem nd f l Null Null" RIGHT RIGHT2 "nodes q"]
      grow_child [of q root c "Elem nd f l r Null" RIGHT2] assms
    by simp
qed (use assms in auto)

lemma elem_at_set_at_side:
  assumes "next_side (node_at root c) = Some d"
  shows "elem_at (set_at root (rev c @ [d]) e) (rev c @ [d]) = e"
proof -
  have n: "node_at root c \<noteq> Null" using next_side_not_Null assms by auto
  then have "elem_at (set_at (node_at root c) [d] e) [d] = e"
    by (cases "node_at root c"; cases d) auto
  then show ?thesis using n by (simp add: set_at_append elem_at_append)
qed

lemma grows_op:
  assumes t: "complete (Elem nd f l r q)" "\<not> is_arg_info nd" "\<And>x. x \<in> {l, r, q} \<Longrightarrow> x \<noteq> Null \<Longrightarrow> grows x"
  shows "grows (Elem nd f l r q)"
  unfolding grows_def Let_def
proof (intro allI impI)
  fix root c d
  assume d: "next_side (node_at root c) = Some d"
  let ?e = "Elem nd f Null Null Null" and ?p = "rev (d # c)"
  let ?root = "set_at root ?p ?e"
  have at: "elem_at ?root ?p = ?e"
    using elem_at_set_at_side [OF d] by simp
  have "next_side ?e \<noteq> None" using t(1, 2) by (cases nd) auto
  then obtain d' where "next_side ?e = Some d'" by blast
  then have "libxsmm_meqn_trv_head ?root (d # c) = Inr (Some (d # c))"
    by (intro trv_head_stay) (use at in simp)
  then have "grow1 (f, nd) (root, c) = (?root, Inr (Some (d # c)))"
    by (simp add: grow1_def add_node_side [OF d] Let_def)
  moreover have "nodes l @ nodes r @ nodes q \<noteq> []"
    using t(1, 2) by (cases nd) auto
  ultimately have "grow (nodes (Elem nd f l r q)) (root, c) = grow (nodes l @ nodes r @ nodes q) (?root, d # c)"
    by (simp add: grow_Cons)
  also have "?root = set_at ?root (rev (d # c)) ?e" by simp
  also have "grow (nodes l @ nodes r @ nodes q) (set_at ?root (rev (d # c)) ?e, d # c) =
      Some (set_at ?root (rev (d # c)) (Elem nd f l r q),
        libxsmm_meqn_trv_head (set_at ?root (rev (d # c)) (Elem nd f l r q)) (d # c))"
    by (rule grow_operands [OF refl t(2) _ t(1) t(3)]) (use at in simp_all)
  finally show "grow (nodes (Elem nd f l r q)) (root, c) =
      Some (set_at root (rev (d # c)) (Elem nd f l r q),
        libxsmm_meqn_trv_head (set_at root (rev (d # c)) (Elem nd f l r q)) (d # c))"
    by simp
qed

lemma complete_grows: "complete t \<Longrightarrow> grows t"
proof (induction t rule: complete_induct)
  case (Arg a f)
  then show ?case by (simp add: grows_def grow1_def add_node_side Let_def)
next
  case (Unary u f l)
  show ?case by (rule grows_op) (use Unary in auto)
next
  case (Binary b f l r)
  show ?case by (rule grows_op) (use Binary in auto)
next
  case (Ternary t f l r q)
  show ?case by (rule grows_op) (use Ternary in auto)
qed

section \<open>The seal\<close>

text \<open>The operands of the root are there in order, so the root is sealed exactly when its last operand is there.\<close>

fun in_order :: "libxsmm_meqn_elem \<Rightarrow> bool" where
  "in_order (Elem (NODE_BINARY b) f l r q) \<longleftrightarrow> (r \<noteq> Null \<longrightarrow> l \<noteq> Null)"
| "in_order (Elem (NODE_TERNARY t) f l r q) \<longleftrightarrow> (q \<noteq> Null \<longrightarrow> r \<noteq> Null) \<and> (r \<noteq> Null \<longrightarrow> l \<noteq> Null)"
| "in_order _ \<longleftrightarrow> True"

lemma set_at_not_Null: "t \<noteq> Null \<Longrightarrow> e \<noteq> Null \<Longrightarrow> set_at t p e \<noteq> Null"
  by (cases t; cases p; cases "hd p") auto

lemma in_order_set_at:
  assumes "in_order root" and "e \<noteq> Null" and "elem_at root (d # p) \<noteq> Null \<or> p = [] \<and> next_side root = Some d"
  shows "in_order (set_at root (d # p) e)"
proof (cases root)
  case (Elem nd f l r q)
  have down: "x \<noteq> Null" if "elem_at x p \<noteq> Null" for x
    using that by (cases x; cases p) auto
  have keep: "set_at x p e = Null \<longleftrightarrow> x = Null \<and> p \<noteq> []" for x
    using assms(2) set_at_not_Null [of x e p] by (cases x; cases p) auto
  show ?thesis
    using assms(3)
  proof
    assume "elem_at root (d # p) \<noteq> Null"
    then have "case d of LEFT \<Rightarrow> l \<noteq> Null | RIGHT \<Rightarrow> r \<noteq> Null | RIGHT2 \<Rightarrow> q \<noteq> Null"
      using Elem down by (cases d) simp_all
    then show ?thesis using assms(1) Elem by (cases nd; cases d) (simp_all add: keep)
  next
    assume "p = [] \<and> next_side root = Some d"
    then show ?thesis using assms(1, 2) Elem by (cases nd; cases d) (simp_all split: if_splits)
  qed
qed simp

lemma add_node_in_order:
  assumes "in_order root" and "libxsmm_meqn_add_node f root c nd = (root', Some c')"
  shows "in_order root'"
proof (cases "next_side (node_at root c)")
  case (Some d)
  have r: "root' = set_at root (rev (d # c)) (Elem nd f Null Null Null)"
    using assms(2) unfolding add_node_side [OF Some] by auto
  show ?thesis
  proof (cases "rev c")
    case Nil
    then show ?thesis using Some in_order_set_at [OF assms(1), of "Elem nd f Null Null Null" d "[]"] r by simp
  next
    case (Cons e p)
    have "elem_at root (e # p) \<noteq> Null" using next_side_not_Null [OF Some] Cons by simp
    then have "root \<noteq> Null" and child: "elem_at root [e] \<noteq> Null"
      using elem_at_append [of root "[e]" p] by (auto, cases p) auto
    have "in_order (set_at root [e] (set_at (elem_at root [e]) (p @ [d]) (Elem nd f Null Null Null)))"
      by (rule in_order_set_at [OF assms(1)]) (use child set_at_not_Null in auto)
    then show ?thesis using r Cons child set_at_append [of root "[e]" "p @ [d]"] by simp
  qed
next
  case None
  then obtain g l r q where n: "node_at root c = Elem NODE_NONE g l r q"
    and r: "root' = set_at root (rev c) (Elem nd g Null Null Null)"
    using assms(2)
    by (cases "node_at root c" rule: next_side.cases) (auto simp: libxsmm_meqn_add_node_def Let_def split: if_splits)
  show ?thesis
  proof (cases "rev c")
    case Nil
    then show ?thesis using r by (cases nd) auto
  next
    case (Cons e p)
    then show ?thesis using r n in_order_set_at [OF assms(1), of "Elem nd g Null Null Null" e p] by simp
  qed
qed

lemma grow1_in_order:
  assumes "in_order root" and "grow1 x (root, c) = (root', Inr o1)"
  shows "in_order root'"
proof -
  obtain f nd where x: "x = (f, nd)" by (rule prod.exhaust)
  obtain r cur where a: "libxsmm_meqn_add_node f root c nd = (r, cur)" by (rule prod.exhaust)
  then obtain c' where "cur = Some c'" "root' = r"
    using assms(2) x by (cases cur) (auto simp: grow1_def)
  then show ?thesis using add_node_in_order [OF assms(1)] a by blast
qed

text \<open>A sealed root takes no further node, so no push but the last can seal.\<close>

lemma sealed_grow1: "in_order root \<Longrightarrow> seals root \<Longrightarrow> \<exists>r e. grow1 x (root, []) = (r, Inl e)"
  by (cases root rule: seals.cases; cases x) (auto simp: grow1_def libxsmm_meqn_add_node_def)

lemma sealed_grow: "in_order root \<Longrightarrow> seals root \<Longrightarrow> grow xs (root, []) \<noteq> Some (r, Inr o1)"
  using sealed_grow1 [of root "hd xs"] by (cases xs rule: remdups_adj.cases) auto

section \<open>Pushing into the table\<close>

fun push_nodes :: "bool \<Rightarrow> int \<Rightarrow> (meqn_fields \<times> libxsmm_meqn_info) list \<Rightarrow> meqn_table \<Rightarrow> meqn_error + int list \<times> meqn_table" where
  "push_nodes pool_ok idx [] s = Inr ([], s)"
| "push_nodes pool_ok idx ((f, nd) # xs) s =
    (case push_node pool_ok f idx nd s of
       Inl e \<Rightarrow> Inl e
     | Inr (ret, s) \<Rightarrow>
         (case push_nodes pool_ok idx xs s of Inl e \<Rightarrow> Inl e | Inr (rets, s) \<Rightarrow> Inr (ret # rets, s)))"

definition put_eqn :: "int \<Rightarrow> libxsmm_matrix_eqn \<Rightarrow> meqn_table \<Rightarrow> meqn_table" where
  "put_eqn idx eqn s = s\<lparr>libxsmm_matrix_eqns := (libxsmm_matrix_eqns s)[nat idx := Some eqn]\<rparr>"

lemma lookup_put [simp]: "lookup_eqn s idx = Inr x \<Longrightarrow> lookup_eqn (put_eqn idx eqn s) idx = Inr (Some eqn)"
  by (auto simp: lookup_eqn_def put_eqn_def split: if_splits)

lemma put_put [simp]: "put_eqn idx eqn' (put_eqn idx eqn s) = put_eqn idx eqn' s"
  by (simp add: put_eqn_def)

lemma push_node_grow1:
  assumes "lookup_eqn s idx = Inr (Some eqn)" and "is_constructed eqn = 0" and "eqn_cur eqn = Some c"
    and "grow1 (f, nd) (eqn_root eqn, c) = (root', Inr (Some c'))"
  shows "push_node pool_ok f idx nd s = Inr (0, put_eqn idx
    (if c' = [] \<and> seals root'
     then libxsmm_meqn_opt_exec_plan pool_ok (eqn\<lparr>eqn_root := root', eqn_cur := Some c', is_constructed := 1\<rparr>)
     else eqn\<lparr>eqn_root := root', eqn_cur := Some c'\<rparr>) s)"
proof -
  obtain r cur where a: "libxsmm_meqn_add_node f (eqn_root eqn) c nd = (r, cur)" by (rule prod.exhaust)
  then obtain c1 where "cur = Some c1" "r = root'" "libxsmm_meqn_trv_head root' c1 = Inr (Some c')"
    using assms(4) by (cases cur) (auto simp: grow1_def)
  then show ?thesis
    using assms(1-3) a by (simp add: push_node_def libxsmm_meqn_mov_head_def put_eqn_def Let_def)
qed

lemma push_nodes_grow:
  assumes "lookup_eqn s idx = Inr (Some eqn)" and "is_constructed eqn = 0" and "eqn_cur eqn = Some c"
    and "in_order (eqn_root eqn)" and "grow xs (eqn_root eqn, c) = Some (t, Inr (Some []))" and "seals t"
  shows "push_nodes pool_ok idx xs s = Inr (replicate (length xs) 0,
    put_eqn idx (libxsmm_meqn_opt_exec_plan pool_ok (eqn\<lparr>eqn_root := t, eqn_cur := Some [], is_constructed := 1\<rparr>)) s)"
  using assms
proof (induction xs arbitrary: s eqn c)
  case (Cons x xs)
  obtain f nd where x: "x = (f, nd)" by (rule prod.exhaust)
  show ?case
  proof (cases "xs = []")
    case True
    then show ?thesis using push_node_grow1 [OF Cons.prems(1-3)] Cons.prems(5, 6) x by simp
  next
    case False
    obtain r1 o1 where g: "grow1 x (eqn_root eqn, c) = (r1, o1)" by (rule prod.exhaust)
    then obtain c1 where o1: "o1 = Inr (Some c1)" and rest: "grow xs (r1, c1) = Some (t, Inr (Some []))"
      using Cons.prems(5) False by (cases xs) (auto split: sum.splits option.splits)
    have r1: "in_order r1" using grow1_in_order Cons.prems(4) g o1 by blast
    have g': "grow1 (f, nd) (eqn_root eqn, c) = (r1, Inr (Some c1))" using g o1 x by simp
    have "\<not> (c1 = [] \<and> seals r1)" using sealed_grow [OF r1] rest by blast
    then have p: "push_node pool_ok f idx nd s = Inr (0, put_eqn idx (eqn\<lparr>eqn_root := r1, eqn_cur := Some c1\<rparr>) s)"
      using push_node_grow1 [OF Cons.prems(1-3) g'] by (simp only: if_False)
    have "push_nodes pool_ok idx xs (put_eqn idx (eqn\<lparr>eqn_root := r1, eqn_cur := Some c1\<rparr>) s) =
      Inr (replicate (length xs) 0, put_eqn idx (libxsmm_meqn_opt_exec_plan pool_ok
        (eqn\<lparr>eqn_root := r1, eqn_cur := Some c1\<rparr>\<lparr>eqn_root := t, eqn_cur := Some [], is_constructed := 1\<rparr>))
        (put_eqn idx (eqn\<lparr>eqn_root := r1, eqn_cur := Some c1\<rparr>) s))"
      by (rule Cons.IH) (use Cons.prems(1, 2, 6) rest r1 in auto)
    then show ?thesis using p x by simp
  qed
qed simp

text \<open>The call of the interface that pushes a node.\<close>

fun push_call :: "bool \<Rightarrow> int \<Rightarrow> meqn_fields \<times> libxsmm_meqn_info \<Rightarrow> meqn_table \<Rightarrow> meqn_error + int \<times> meqn_table" where
  "push_call pool_ok idx (f, NODE_ARG a) s =
    libxsmm_meqn_push_back_arg pool_ok f (libxsmm_create_meqn_arg_metadata idx (arg_in_pos a))
      (libxsmm_create_meqn_arg_shape (arg_m a) (arg_n a) (arg_ld a) (arg_dtype a)) (arg_attr a) s"
| "push_call pool_ok idx (f, NODE_UNARY u) s =
    libxsmm_meqn_push_back_unary_op pool_ok f (libxsmm_create_meqn_op_metadata idx (u_op_arg_pos u))
      (u_type u) (u_dtype u) (u_flags u) s"
| "push_call pool_ok idx (f, NODE_BINARY b) s =
    libxsmm_meqn_push_back_binary_op pool_ok f (libxsmm_create_meqn_op_metadata idx (b_op_arg_pos b))
      (b_type b) (b_dtype b) (b_flags b) s"
| "push_call pool_ok idx (f, NODE_TERNARY t) s =
    libxsmm_meqn_push_back_ternary_op pool_ok f (libxsmm_create_meqn_op_metadata idx (t_op_arg_pos t))
      (t_type t) (t_dtype t) (t_flags t) s"
| "push_call pool_ok idx (f, NODE_NONE) s = Inl NULL_DEREFERENCE"

fun push_calls :: "bool \<Rightarrow> int \<Rightarrow> (meqn_fields \<times> libxsmm_meqn_info) list \<Rightarrow> meqn_table \<Rightarrow> meqn_error + int list \<times> meqn_table" where
  "push_calls pool_ok idx [] s = Inr ([], s)"
| "push_calls pool_ok idx (x # xs) s =
    (case push_call pool_ok idx x s of
       Inl e \<Rightarrow> Inl e
     | Inr (ret, s) \<Rightarrow>
         (case push_calls pool_ok idx xs s of Inl e \<Rightarrow> Inl e | Inr (rets, s) \<Rightarrow> Inr (ret # rets, s)))"

text \<open>A node as the interface makes it: the element type is explicit, the two flags of a product follow from its type.\<close>

fun api_node :: "libxsmm_meqn_info \<Rightarrow> bool" where
  "api_node (NODE_ARG a) \<longleftrightarrow> True"
| "api_node (NODE_UNARY u) \<longleftrightarrow> u_dtype u \<noteq> LIBXSMM_DATATYPE_IMPLICIT"
| "api_node (NODE_BINARY b) \<longleftrightarrow> b_dtype b \<noteq> LIBXSMM_DATATYPE_IMPLICIT \<and>
    b_is_matmul b = binary_is_matmul (b_type b) \<and> b_is_brgemm b = binary_is_brgemm (b_type b)"
| "api_node (NODE_TERNARY t) \<longleftrightarrow> t_dtype t \<noteq> LIBXSMM_DATATYPE_IMPLICIT \<and>
    t_is_matmul t = ternary_is_matmul (t_type t) \<and> t_is_brgemm t = ternary_is_brgemm (t_type t)"
| "api_node NODE_NONE \<longleftrightarrow> False"

lemma infos:
  "arg_info (libxsmm_create_meqn_arg_metadata idx (arg_in_pos a))
    (libxsmm_create_meqn_arg_shape (arg_m a) (arg_n a) (arg_ld a) (arg_dtype a)) (arg_attr a) = NODE_ARG a"
  "u_dtype u \<noteq> LIBXSMM_DATATYPE_IMPLICIT \<Longrightarrow>
    unary_info (libxsmm_create_meqn_op_metadata idx (u_op_arg_pos u)) (u_type u) (u_dtype u) (u_flags u) = NODE_UNARY u"
  "api_node (NODE_BINARY b) \<Longrightarrow>
    binary_info (libxsmm_create_meqn_op_metadata idx (b_op_arg_pos b)) (b_type b) (b_dtype b) (b_flags b) = NODE_BINARY b"
  "api_node (NODE_TERNARY t) \<Longrightarrow>
    ternary_info (libxsmm_create_meqn_op_metadata idx (t_op_arg_pos t)) (t_type t) (t_dtype t) (t_flags t) = NODE_TERNARY t"
  by (simp_all add: arg_info_def unary_info_def binary_info_def ternary_info_def implicit_f32_def
      libxsmm_create_meqn_arg_metadata_def libxsmm_create_meqn_arg_shape_def libxsmm_create_meqn_op_metadata_def)

lemma push_call_node:
  assumes "api_node nd"
  shows "push_call pool_ok idx (f, nd) s = push_node pool_ok f idx nd s"
proof (cases nd)
  case (NODE_UNARY u)
  then show ?thesis
    using assms infos(2) [of u idx] by (simp add: libxsmm_meqn_push_back_unary_op_def libxsmm_create_meqn_op_metadata_def)
next
  case (NODE_BINARY b)
  then show ?thesis
    using infos(3) [of b idx] assms
    by (simp del: api_node.simps add: libxsmm_meqn_push_back_binary_op_def libxsmm_create_meqn_op_metadata_def)
next
  case (NODE_TERNARY t)
  then show ?thesis
    using infos(4) [of t idx] assms
    by (simp del: api_node.simps add: libxsmm_meqn_push_back_ternary_op_def libxsmm_create_meqn_op_metadata_def)
next
  case (NODE_ARG a)
  then show ?thesis
    using infos(1) [of idx a] by (simp add: libxsmm_meqn_push_back_arg_def libxsmm_create_meqn_arg_metadata_def)
qed (use assms in simp)

lemma push_calls_nodes:
  "\<forall>(f, nd) \<in> set xs. api_node nd \<Longrightarrow> push_calls pool_ok idx xs s = push_nodes pool_ok idx xs s"
  by (induction xs arbitrary: s) (auto simp: push_call_node split: sum.splits prod.splits)

section \<open>From the first call to the sealed equation\<close>

definition table_ok :: "meqn_table \<Rightarrow> bool" where
  "table_ok s \<longleftrightarrow> (if libxsmm_matrix_eqns_init s = 0 then libxsmm_matrix_eqns_count s = 0
    else length (libxsmm_matrix_eqns s) = LIBXSMM_MAX_EQN_COUNT \<and>
      0 \<le> libxsmm_matrix_eqns_count s \<and> libxsmm_matrix_eqns_count s < int LIBXSMM_MAX_EQN_COUNT)"

lemma create_lookup:
  assumes "table_ok s" and "libxsmm_meqn_create fresh g s = (idx, s1)"
  shows "lookup_eqn s1 idx = Inr (Some \<lparr>eqn_root = Elem NODE_NONE fresh Null Null Null, eqn_cur = Some [],
    is_constructed = 0, is_optimized = 0, unary_only = 0, binary_only = g\<rparr>)"
  using assms
  by (auto simp: table_ok_def libxsmm_meqn_create_def lookup_eqn_def Let_def split: if_splits)

lemma grow_root:
  assumes "complete t" and "\<not> is_arg t"
  shows "grow (nodes t) (Elem NODE_NONE (flds t) Null Null Null, []) = Some (t, Inr (Some []))"
proof -
  obtain nd f l r q where t: "t = Elem nd f l r q" using assms(1) by (cases t) auto
  let ?e = "Elem nd f Null Null Null"
  have op: "\<not> is_arg_info nd" "nd \<noteq> NODE_NONE" using assms t by (cases nd; auto)+
  then have g: "grow1 (f, nd) (Elem NODE_NONE f Null Null Null, []) = (?e, Inr (Some []))"
    by (cases nd) (simp_all add: grow1_def libxsmm_meqn_add_node_def Let_def)
  have ne: "nodes l @ nodes r @ nodes q \<noteq> []" using assms(1) op t by (cases nd) auto
  have "x \<in> {l, r, q} \<Longrightarrow> x \<noteq> Null \<Longrightarrow> complete x" for x
    using assms(1) op t by (cases nd) auto
  then have "grow (nodes l @ nodes r @ nodes q) (set_at ?e (rev []) ?e, []) =
      Some (set_at ?e (rev []) (Elem nd f l r q), libxsmm_meqn_trv_head (set_at ?e (rev []) (Elem nd f l r q)) [])"
    by (intro grow_operands [OF refl op(1)]) (use assms(1) t complete_grows in auto)
  moreover have "libxsmm_meqn_trv_head (Elem nd f l r q) [] = Inr (Some [])"
    using op by (cases nd) auto
  ultimately show ?thesis using grow_Cons [OF g ne] t by simp
qed

text \<open>
  C40: Creating an equation and pushing the nodes of an expression in prefix order, through the five functions of the
  interface, builds exactly the tree of the expression: every call returns 0, the equation is sealed and optimised by
  the last call and by no earlier one, it is ready for code generation (unless the pool of temporaries could not be
  allocated, code 2), and every further push is refused with code 2 and changes nothing.
\<close>

theorem pushed_expression_is_built:
  assumes "table_ok s" and "complete t" and "\<not> is_arg t" and "\<forall>(f, nd) \<in> set (nodes t). api_node nd"
    and "libxsmm_meqn_create (flds t) g s = (idx, s1)"
  shows "\<exists>s'. push_calls pool_ok idx (nodes t) s1 = Inr (replicate (length (nodes t)) 0, s') \<and>
    lookup_eqn s' idx = Inr (Some (libxsmm_meqn_opt_exec_plan pool_ok
      \<lparr>eqn_root = t, eqn_cur = Some [], is_constructed = 1, is_optimized = 0, unary_only = 0, binary_only = g\<rparr>)) \<and>
    libxsmm_meqn_is_ready_for_jit s' idx = Inr (if pool_ok then 0 else 2) \<and>
    (\<forall>x. api_node (snd x) \<longrightarrow> push_call pool_ok idx x s' = Inr (2, s'))"
proof -
  let ?new = "\<lparr>eqn_root = Elem NODE_NONE (flds t) Null Null Null, eqn_cur = Some [],
    is_constructed = 0, is_optimized = 0, unary_only = 0, binary_only = g\<rparr>"
  let ?eqn = "libxsmm_meqn_opt_exec_plan pool_ok
      \<lparr>eqn_root = t, eqn_cur = Some [], is_constructed = 1, is_optimized = 0, unary_only = 0, binary_only = g\<rparr>"
  have l: "lookup_eqn s1 idx = Inr (Some ?new)" by (rule create_lookup [OF assms(1, 5)])
  have "seals t" using assms(2, 3) by (cases t rule: complete.cases) auto
  then have p: "push_calls pool_ok idx (nodes t) s1 = Inr (replicate (length (nodes t)) 0, put_eqn idx ?eqn s1)"
    using push_nodes_grow [OF l, of "[]" "nodes t" t pool_ok] grow_root [OF assms(2, 3)] push_calls_nodes [OF assms(4)]
    by simp
  have e: "is_constructed ?eqn = 1" "is_optimized ?eqn = (if pool_ok then 1 else 0)"
    by (simp_all add: libxsmm_meqn_opt_exec_plan_def Let_def)
  have l': "lookup_eqn (put_eqn idx ?eqn s1) idx = Inr (Some ?eqn)" using l by simp
  have "push_call pool_ok idx x (put_eqn idx ?eqn s1) = Inr (2, put_eqn idx ?eqn s1)" if "api_node (snd x)" for x
    using push_call_node [OF that, of pool_ok idx "fst x"] l' e(1) by (simp add: push_node_def)
  then show ?thesis using p l' e by (auto simp: libxsmm_meqn_is_ready_for_jit_def)
qed

definition empty_table :: meqn_table where
  "empty_table = \<lparr>libxsmm_matrix_eqns = [], libxsmm_matrix_eqns_init = 0, libxsmm_matrix_eqns_count = 0\<rparr>"

lemma demo_nodes: "\<forall>(f, nd) \<in> set (nodes demo_tree). api_node nd" "complete demo_tree" "\<not> is_arg demo_tree"
  by (simp_all add: demo_defs)

lemma pushed_expression_is_built_witness:
  "\<exists>s'. push_calls True 0 (nodes demo_tree) (snd (libxsmm_meqn_create (flds demo_tree) 0 empty_table)) =
      Inr (replicate (length (nodes demo_tree)) 0, s') \<and>
    libxsmm_meqn_is_ready_for_jit s' 0 = Inr 0"
proof -
  have "table_ok empty_table" by (simp add: table_ok_def empty_table_def)
  moreover have "libxsmm_meqn_create (flds demo_tree) 0 empty_table =
      (0, snd (libxsmm_meqn_create (flds demo_tree) 0 empty_table))"
    by (simp add: libxsmm_meqn_create_def empty_table_def Let_def)
  ultimately show ?thesis
    using pushed_expression_is_built [OF _ demo_nodes(2, 3, 1), of empty_table 0 0 _ True] by fastforce
qed

text \<open>An argument pushed first: the message that nothing can be added is followed by a null dereference.\<close>

lemma argument_first_is_undefined:
  assumes "lookup_eqn s idx = Inr (Some eqn)" and "is_constructed eqn = 0" and "eqn_cur eqn = Some []"
    and "eqn_root eqn = Elem NODE_NONE f l r q"
  shows "push_node pool_ok fresh idx (NODE_ARG a) s = Inl NULL_DEREFERENCE"
  using assms by (simp add: push_node_def libxsmm_meqn_add_node_def libxsmm_meqn_mov_head_def Let_def)

end
