(* ===== verification/Spec2Isabelle.thy ===== *)
theory Spec2Isabelle
  imports Crc32 Lowp IntMath C_Strings Typedefs Target_Arch Memory_Diff Shuffle Descriptor Registry_Correct AArch64_Stream
    X86_Jumps X86_Alu Matrix_Eqn_Build
begin

text \<open>
  A verification development of LIBXSMM, a library that generates kernels for small matrix operations at run
  time. The sources are below \<open>src/\<close> of the repository (\<open>src/src\<close> and \<open>src/include\<close> seen from its parent).

  \<^bold>\<open>The program.\<close> A client describes a kernel by a shape and flags. The library turns the description into a
  packed descriptor, looks for the code in the cache of the thread and in a hash table (the registry), and otherwise
  generates code into a buffer with an instruction encoder, makes it executable and registers it. Around this core are
  routines for hashing and comparing memory, for searching strings and shuffling arrays, integer arithmetic for
  blocking factors, expression trees of matrix operations with their execution plans,
  conversions of low-precision floating-point numbers, and the selection of the target.

  \<^bold>\<open>Which theory models what.\<close>
  \<^item> \<open>Prelude\<close>: bytes, words of 8 to 64 bits, loads and stores in little endian order, and lemmas on bits and
    bounds that the components share. \<open>Targets\<close>: the numbers of the targets (\<open>include/libxsmm_cpuid.h\<close>).
  \<^item> \<open>Crc32_Tables\<close>, \<open>Crc32\<close>: the lookup tables, the block functions, the SSE4.2 variants and the entry points of
    \<open>libxsmm_hash.c\<close>. All of them compute the bitwise CRC-32C (\<open>crc_ref\<close>).
  \<^item> \<open>Memory_Diff\<close>: \<open>libxsmm_diff.h\<close> and the comparisons of \<open>libxsmm_memory.c\<close>: every variant compares, and the
    search in an array of blocks finds an equal one. \<open>C_Strings\<close>: the search and the matching of words in strings of
    \<open>libxsmm_memory.c\<close>. \<open>Shuffle\<close>: shuffling in place and out of place, and undoing it.
  \<^item> \<open>IntMath\<close>: greatest common divisor, prime factors, the knapsack for products of factors (\<open>libxsmm_generator.c\<close>),
    square roots and coprime numbers (\<open>libxsmm_math.c\<close>). \<open>Lowp\<close>: BF16, BF8, HF8 and F16 conversions of
    \<open>libxsmm_math.c\<close>.
  \<^item> \<open>Typedefs\<close>: the enumeration of element types and its packing (\<open>libxsmm_typedefs.h\<close>). \<open>Target_Arch\<close>: selecting the
    target by number or name (\<open>libxsmm_main.c\<close>, \<open>libxsmm_cpuid_x86.c\<close>).
  \<^item> \<open>Descriptor\<close>: the packed descriptors, the shapes and the requests of the dispatch functions (\<open>libxsmm_main.h\<close>,
    \<open>libxsmm_generator.c\<close>, \<open>generator_common.c\<close>, \<open>libxsmm_main.c\<close>). \<open>Registry\<close>: the registry, the caches and the
    functions on user data (\<open>libxsmm_main.c\<close>); \<open>Registry_Correct\<close>: the table with its collision flags and the caches
    refine a partial map from keys to pointers.
  \<^item> \<open>Gencode\<close>: the buffer of generated code and its errors. \<open>AArch64_Defs\<close>, \<open>AArch64_Alu\<close>, \<open>AArch64_Asimd\<close>,
    \<open>AArch64_Sve\<close>: the AArch64 instruction encoder (\<open>generator_aarch64_instructions.c\<close>), with its instruction numbers as in
    the header file. \<open>AArch64_Stream\<close>: opening and closing a stream, jumps and labels, constant data, and the safety and the
    linking of whole streams. What is proved of jumps is stated of the operations that were issued, with their addresses (the
    trace of a run), not of what the tracker recorded.
  \<^item> \<open>X86_Defs\<close>: the instruction numbers of the x86 encoder (\<open>generator_common.h\<close>) and the lists of numbers that its
    functions accept. \<open>X86_Encode\<close>: the six functions that write bytes with REX, VEX and EVEX prefixes; \<open>X86_Instr\<close>: vector
    instructions over them; \<open>X86_Scalar\<close>: moves, general-purpose, mask and tile instructions; \<open>X86_Jumps\<close>: jumps and labels
    (\<open>generator_x86_instructions.c\<close>). \<open>X86_Decode\<close>: a decoder of the three encodings, written from the rules of the instruction
    set. \<open>X86_Round\<close>: decoding what the encoders write gives the operands back. \<open>X86_Alu\<close>: the operands and constants of
    instructions on general-purpose registers. \<open>X86_Safe\<close>: sequences of calls keep the bounds of the buffer and the errors.
  \<^item> \<open>Matrix_Eqn\<close>: building an equation by pushes, scores, execution plan, sizes and time stamps
    (\<open>libxsmm_matrixeqn.c\<close>). \<open>Matrix_Eqn_Plan\<close>: a machine over places that runs a plan, and plans without conflicts.
    \<open>Matrix_Eqn_Correct\<close>: the optimised plan computes the value of the expression. \<open>Matrix_Eqn_Build\<close>: pushing the nodes
    of an expression builds its tree.

  \<^bold>\<open>State and errors.\<close> A function that writes through a pointer returns the new value; \<open>io_generated_code\<close> is the record
  \<open>libxsmm_generated_code\<close> with the buffer as a function from offsets, the globals of the registry are the record
  \<open>registry_state\<close>. \<open>LIBXSMM_HANDLE_ERROR\<close> sets the error of the record and the early return follows. A result
  \<open>None\<close> is a loop that does not end or an access outside of an object, and the theorems show where it cannot occur.
  Machine integers have their width; only the sizes, numbers and positions of an equation, which are of the signed type
  \<open>libxsmm_blasint\<close>, are integers without bound, as for all sizes whose products the type can hold. The nodes of an
  equation are a tree, and a pointer into it (\<open>eqn_cur\<close>, and \<open>up\<close> of the nodes on the way) is the path to the node;
  a null dereference is an error value.

  \<^bold>\<open>Interfaces.\<close> \<open>crc_block\<close>, \<open>hash_widths\<close>: what hashing relies on in the block functions; \<open>block_compare\<close>: what the
  comparison loops rely on; \<open>dispatcher\<close>: what the registry relies on in hashing and comparing. Each is interpreted
  on the definitions of the component that provides it.

  \<^bold>\<open>Parameters.\<close> Compiler intrinsics (CRC32, SIMD comparison) are records of functions with their documented behaviour as
  a hypothesis; the build configuration is a record of flags; the allocator and the code generator of the registry are
  the record \<open>code_gen\<close>, with \<open>allocator_ok\<close> as hypothesis (fresh, non-null addresses below the two flag bits). For an
  equation \<open>fresh\<close> is what the memory of a new node holds, \<open>pool_ok\<close> tells whether the pool of temporaries is allocated, and the meaning of the
  operations is any record \<open>meqn_ops\<close> of functions. A temporary has its number as place, the input matrix \<open>p\<close> the place
  \<open>-1 - p\<close>, as in the generators.

  \<^bold>\<open>Fuel and bounds.\<close> Loops of the sources are structural or measured recursion where they always end, and
  \<open>partial_function (option)\<close> otherwise; no fuel is used. The registry has 131072 slots, a cache at most 16.

  \<^bold>\<open>Not modelled.\<close> The generators of kernels (GEMM, elementwise, packed, sparse, equations but for the lookup by time
  stamp) emit sequences of instructions whose meaning needs a semantics of the instruction sets; the text for assembly output of the x86 encoder
  (the parameter \<open>asm\<close> stands for it) and its tile configuration; allocation, locks and
  threads, timers, tracing, file formats, environment variables and statistics; wrappers for Fortran and BLAS.
\<close>

end
